(* ===== verification/Nio_Prelude.thy ===== *)
theory Nio_Prelude
  imports Main
begin

text \<open>
  The shared base of the development: Python dictionaries as association lists in insertion
  order, the exceptions the sources raise, operations that thread a state and may raise, and
  the lemmas and collections of lemmas the component theories use.
\<close>

section \<open>Strings\<close>

text \<open>
  A Python \<^verbatim>\<open>str\<close> is modelled by its UTF-8 bytes, one \<^typ>\<open>char\<close> per byte, so
  \<^verbatim>\<open>len(s.encode())\<close> is \<^const>\<open>length\<close>.
  \<^verbatim>\<open>len(s)\<close> counts code points: the bytes that do not continue a sequence.
\<close>

definition byte_of :: "char \<Rightarrow> nat" where
  "byte_of c = of_char c"

definition py_len :: "string \<Rightarrow> nat" where
  "py_len s = length (filter (\<lambda>c. \<not> (128 \<le> byte_of c \<and> byte_of c < 192)) s)"

lemma py_len_Nil [simp]: "py_len [] = 0"
  by (simp add: py_len_def)

lemma py_len_le: "py_len s \<le> length s"
  by (simp add: py_len_def)

section \<open>Exceptions\<close>

text \<open>
  The argument is the message, or the key of a \<^verbatim>\<open>KeyError\<close>. \<^verbatim>\<open>OlmUnverifiedDeviceError\<close> carries
  the device instead (its user and device id), \<^verbatim>\<open>VodozemacError\<close> the name of the exception class
  of the vodozemac package.
\<close>

datatype exn =
    ValueError string
  | TypeError string
  | KeyError string
  | AssertionError string
  | LocalProtocolError string
  | OlmTrustError string
  | DatabaseError string
  | AttributeError string
  | EncryptionError string
  | GroupEncryptionError string
  | VerificationError string
  | KeyShareError string
  | OlmUnverifiedDeviceError string string
  | VodozemacError string
  | StopIteration string
  | IndexError string
  | MembersSyncError string
  | UnboundLocalError string
  | ValidationError string
  | CancelledError
  | ClientConnectionError
  | RemoteProtocolError
  | InsufficientRecursionDepthError

section \<open>Dictionaries\<close>

text \<open>
  A Python \<^verbatim>\<open>dict\<close> keeps its insertion order, which the sources rely on when they iterate.
  It is a list of pairs with distinct keys: assigning to a present key keeps its place,
  assigning to a new key appends.
\<close>

type_synonym ('k, 'v) dict = "('k \<times> 'v) list"

abbreviation dget :: "('k, 'v) dict \<Rightarrow> 'k \<Rightarrow> 'v option" where
  "dget \<equiv> map_of"

abbreviation dkeys :: "('k, 'v) dict \<Rightarrow> 'k list" where
  "dkeys \<equiv> map fst"

abbreviation dvalues :: "('k, 'v) dict \<Rightarrow> 'v list" where
  "dvalues \<equiv> map snd"

definition din :: "'k \<Rightarrow> ('k, 'v) dict \<Rightarrow> bool" where
  "din k d = (dget d k \<noteq> None)"

definition dget_or :: "('k, 'v) dict \<Rightarrow> 'k \<Rightarrow> 'v \<Rightarrow> 'v" where
  "dget_or d k v = (case dget d k of None \<Rightarrow> v | Some x \<Rightarrow> x)"

fun dset :: "('k, 'v) dict \<Rightarrow> 'k \<Rightarrow> 'v \<Rightarrow> ('k, 'v) dict" where
  "dset [] k v = [(k, v)]"
| "dset ((k', v') # d) k v = (if k' = k then (k, v) # d else (k', v') # dset d k v)"

definition ddel :: "('k, 'v) dict \<Rightarrow> 'k \<Rightarrow> ('k, 'v) dict" where
  "ddel d k = filter (\<lambda>p. fst p \<noteq> k) d"

definition dwf :: "('k, 'v) dict \<Rightarrow> bool" where
  "dwf d = distinct (dkeys d)"

definition dupdate :: "('k, 'v) dict \<Rightarrow> ('k, 'v) dict \<Rightarrow> ('k, 'v) dict" where
  "dupdate d e = foldl (\<lambda>acc p. dset acc (fst p) (snd p)) d e"

lemma dset_get [simp]: "dget (dset d k v) = (dget d)(k \<mapsto> v)"
  by (induction d k v rule: dset.induct) (auto simp: fun_eq_iff)

lemma ddel_get [simp]: "dget (ddel d k) = (dget d)(k := None)"
  unfolding ddel_def by (induction d) (auto simp: fun_eq_iff)

lemma dget_None_iff: "dget d k = None \<longleftrightarrow> k \<notin> set (dkeys d)"
  by (simp add: map_of_eq_None_iff)

lemma din_iff: "din k d \<longleftrightarrow> k \<in> set (dkeys d)"
  by (simp add: din_def dget_None_iff)

lemma dset_keys [simp]: "set (dkeys (dset d k v)) = insert k (set (dkeys d))"
  by (induction d k v rule: dset.induct) auto

lemma ddel_keys [simp]: "set (dkeys (ddel d k)) = set (dkeys d) - {k}"
  unfolding ddel_def by (induction d) auto

lemma dwf_Nil [simp]: "dwf []"
  by (simp add: dwf_def)

lemma dset_keys_list: "dkeys (dset d k v) = (if k \<in> set (dkeys d) then dkeys d else dkeys d @ [k])"
  by (induction d k v rule: dset.induct) auto

lemma dwf_dset [simp]: "dwf d \<Longrightarrow> dwf (dset d k v)"
  unfolding dwf_def dset_keys_list by simp

lemma dwf_ddel [simp]: "dwf d \<Longrightarrow> dwf (ddel d k)"
  unfolding dwf_def ddel_def by (simp add: distinct_map_filter)

lemma dset_new: "k \<notin> set (dkeys d) \<Longrightarrow> dset d k v = d @ [(k, v)]"
  by (induction d k v rule: dset.induct) auto

lemma ddel_new: "k \<notin> set (dkeys d) \<Longrightarrow> ddel d k = d"
  unfolding ddel_def by (induction d) auto

lemma dset_same: "dget d k = Some v \<Longrightarrow> dset d k v = d"
  by (induction d k v rule: dset.induct) (auto split: if_splits)

lemma dupdate_Nil [simp]: "dupdate d [] = d"
  by (simp add: dupdate_def)

lemma dupdate_Cons: "dupdate d (p # e) = dupdate (dset d (fst p) (snd p)) e"
  by (simp add: dupdate_def)

lemma dupdate_get: "dwf e \<Longrightarrow> dget (dupdate d e) = dget d ++ dget e"
proof (induction e arbitrary: d)
  case Nil
  then show ?case by simp
next
  case (Cons p e)
  then have "dwf e" "fst p \<notin> dom (dget e)"
    by (auto simp: dwf_def dom_map_of_conv_image_fst)
  with Cons.IH[OF \<open>dwf e\<close>, of "dset d (fst p) (snd p)"] show ?case
    by (cases p) (auto simp: dupdate_Cons fun_eq_iff map_add_def split: option.splits)
qed

text \<open>
  The laws the components use of a dictionary, as an interface: what \<open>get\<close> returns after
  \<open>put\<close> and \<open>del\<close>, and that both keep the keys distinct.
\<close>

locale py_dict =
  fixes get :: "'d \<Rightarrow> 'k \<Rightarrow> 'v option"
    and put :: "'d \<Rightarrow> 'k \<Rightarrow> 'v \<Rightarrow> 'd"
    and del :: "'d \<Rightarrow> 'k \<Rightarrow> 'd"
    and wf :: "'d \<Rightarrow> bool"
  assumes get_put: "get (put d k v) = (get d)(k \<mapsto> v)"
    and get_del: "get (del d k) = (get d)(k := None)"
    and wf_put: "wf d \<Longrightarrow> wf (put d k v)"
    and wf_del: "wf d \<Longrightarrow> wf (del d k)"
begin

lemma put_put_same: "get (put (put d k v) k w) = get (put d k w)"
  by (simp add: get_put)

lemma del_put_same: "get (del (put d k v) k) = get (del d k)"
  by (simp add: get_put get_del)

lemma put_del_same: "get (put (del d k) k v) = get (put d k v)"
  by (simp add: get_put get_del)

lemma put_dom: "dom (get (put d k v)) = insert k (dom (get d))"
  by (auto simp: get_put)

lemma del_dom: "dom (get (del d k)) = dom (get d) - {k}"
  by (simp add: get_del)

lemma put_swap: "k \<noteq> l \<Longrightarrow> get (put (put d k v) l w) = get (put (put d l w) k v)"
  by (simp add: get_put fun_upd_twist)

end

interpretation pd: py_dict dget dset ddel dwf
  by unfold_locales simp_all

end
