(* ===== verification/Nio_Effects.thy ===== *)
theory Nio_Effects
  imports Nio_Prelude
begin

text \<open>
  Operations that read and write a state and may raise. A raising operation keeps the writes
  made before the exception, as Python does: the result is the outcome and the state in which
  the operation left it. \<open>keeps P m\<close> says that \<open>m\<close> preserves \<open>P\<close>, whether it returns or raises;
  its introduction rules are collected in \<open>keeps_intros\<close>.
\<close>

type_synonym ('s, 'a) op = "'s \<Rightarrow> (exn + 'a) \<times> 's"

section \<open>Pure computations that may raise\<close>

definition rbind :: "exn + 'a \<Rightarrow> ('a \<Rightarrow> exn + 'b) \<Rightarrow> exn + 'b" where
  "rbind r f = (case r of Inl e \<Rightarrow> Inl e | Inr a \<Rightarrow> f a)"

definition rcheck :: "exn \<Rightarrow> bool \<Rightarrow> exn + unit" where
  "rcheck e b = (if b then Inr () else Inl e)"

fun rmap :: "('a \<Rightarrow> exn + 'b) \<Rightarrow> 'a list \<Rightarrow> exn + 'b list" where
  "rmap f [] = Inr []"
| "rmap f (x # xs) = rbind (f x) (\<lambda>y. rbind (rmap f xs) (\<lambda>ys. Inr (y # ys)))"

lemma rbind_simps [simp]:
  "rbind (Inl e) f = Inl e" "rbind (Inr a) f = f a"
  by (simp_all add: rbind_def)

lemma rcheck_simps [simp]:
  "rcheck e True = Inr ()" "rcheck e False = Inl e"
  by (simp_all add: rcheck_def)

lemma rbind_Inr_iff: "rbind r f = Inr b \<longleftrightarrow> (\<exists>a. r = Inr a \<and> f a = Inr b)"
  by (cases r) simp_all

lemma rcheck_Inr_iff [simp]: "rcheck e b = Inr u \<longleftrightarrow> b"
  by (simp add: rcheck_def)

lemma rmap_all: "(\<And>x. x \<in> set xs \<Longrightarrow> f x = Inr (g x)) \<Longrightarrow> rmap f xs = Inr (map g xs)"
  by (induction xs) simp_all

lemma rmap_length: "rmap f xs = Inr ys \<Longrightarrow> length ys = length xs"
  by (induction xs arbitrary: ys) (auto simp: rbind_Inr_iff)

section \<open>Operations on a state\<close>

definition ret :: "'a \<Rightarrow> ('s, 'a) op" where
  "ret a s = (Inr a, s)"

definition raise :: "exn \<Rightarrow> ('s, 'a) op" where
  "raise e s = (Inl e, s)"

definition bnd :: "('s, 'a) op \<Rightarrow> ('a \<Rightarrow> ('s, 'b) op) \<Rightarrow> ('s, 'b) op" where
  "bnd m f s = (case m s of (Inl e, t) \<Rightarrow> (Inl e, t) | (Inr a, t) \<Rightarrow> f a t)"

abbreviation andthen :: "('s, 'a) op \<Rightarrow> ('s, 'b) op \<Rightarrow> ('s, 'b) op" where
  "andthen m n \<equiv> bnd m (\<lambda>_. n)"

definition reads :: "('s \<Rightarrow> 'a) \<Rightarrow> ('s, 'a) op" where
  "reads f s = (Inr (f s), s)"

definition modify :: "('s \<Rightarrow> 's) \<Rightarrow> ('s, unit) op" where
  "modify f s = (Inr (), f s)"

definition check_or :: "exn \<Rightarrow> ('s \<Rightarrow> bool) \<Rightarrow> ('s, unit) op" where
  "check_or e p s = (if p s then (Inr (), s) else (Inl e, s))"

definition lift_res :: "exn + 'a \<Rightarrow> ('s, 'a) op" where
  "lift_res r s = (r, s)"

fun for_each :: "('x \<Rightarrow> ('s, unit) op) \<Rightarrow> 'x list \<Rightarrow> ('s, unit) op" where
  "for_each f [] = ret ()"
| "for_each f (x # xs) = andthen (f x) (for_each f xs)"

named_theorems op_defs
named_theorems keeps_intros

lemmas op_basic [op_defs] =
  ret_def raise_def bnd_def reads_def modify_def check_or_def lift_res_def

definition keeps :: "('s \<Rightarrow> bool) \<Rightarrow> ('s, 'a) op \<Rightarrow> bool" where
  "keeps P m = (\<forall>s. P s \<longrightarrow> P (snd (m s)))"

lemma keepsD: "keeps P m \<Longrightarrow> P s \<Longrightarrow> P (snd (m s))"
  by (simp add: keeps_def)

lemma keepsI: "(\<And>s. P s \<Longrightarrow> P (snd (m s))) \<Longrightarrow> keeps P m"
  by (simp add: keeps_def)

lemma keeps_ret [keeps_intros]: "keeps P (ret a)"
  by (simp add: keeps_def ret_def)

lemma keeps_raise [keeps_intros]: "keeps P (raise e)"
  by (simp add: keeps_def raise_def)

lemma keeps_reads [keeps_intros]: "keeps P (reads f)"
  by (simp add: keeps_def reads_def)

lemma keeps_check [keeps_intros]: "keeps P (check_or e p)"
  by (simp add: keeps_def check_or_def)

lemma keeps_lift [keeps_intros]: "keeps P (lift_res r)"
  by (simp add: keeps_def lift_res_def)

lemma keeps_modify: "(\<And>s. P s \<Longrightarrow> P (f s)) \<Longrightarrow> keeps P (modify f)"
  by (simp add: keeps_def modify_def)

lemma keeps_bnd [keeps_intros]:
  "keeps P m \<Longrightarrow> (\<And>a. keeps P (f a)) \<Longrightarrow> keeps P (bnd m f)"
  by (fastforce simp: keeps_def bnd_def split: prod.splits sum.splits)

lemma keeps_for_each [keeps_intros]:
  "(\<And>x. x \<in> set xs \<Longrightarrow> keeps P (f x)) \<Longrightarrow> keeps P (for_each f xs)"
  by (induction xs) (auto intro: keeps_intros)

lemma keeps_if [keeps_intros]:
  "(b \<Longrightarrow> keeps P m) \<Longrightarrow> (\<not> b \<Longrightarrow> keeps P n) \<Longrightarrow> keeps P (if b then m else n)"
  by simp

lemma keeps_option [keeps_intros]:
  "(x = None \<Longrightarrow> keeps P m) \<Longrightarrow> (\<And>a. x = Some a \<Longrightarrow> keeps P (f a)) \<Longrightarrow>
   keeps P (case x of None \<Rightarrow> m | Some a \<Rightarrow> f a)"
  by (cases x) simp_all

lemma bnd_ret [simp]: "bnd (ret a) f = f a"
  by (simp add: bnd_def ret_def fun_eq_iff)

lemma bnd_raise [simp]: "bnd (raise e) f = raise e"
  by (simp add: bnd_def raise_def fun_eq_iff)

lemma bnd_assoc: "bnd (bnd m f) g = bnd m (\<lambda>a. bnd (f a) g)"
  by (auto simp: bnd_def fun_eq_iff split: prod.splits sum.splits)

lemma bnd_Inr_iff:
  "bnd m f s = (Inr b, u) \<longleftrightarrow> (\<exists>a t. m s = (Inr a, t) \<and> f a t = (Inr b, u))"
  by (auto simp: bnd_def split: prod.splits sum.splits)

lemma bnd_Inl_iff:
  "bnd m f s = (Inl e, u) \<longleftrightarrow>
     m s = (Inl e, u) \<or> (\<exists>a t. m s = (Inr a, t) \<and> f a t = (Inl e, u))"
  by (auto simp: bnd_def split: prod.splits sum.splits)

section \<open>Operations that return\<close>

text \<open>\<open>returns P m\<close>: from a state with \<open>P\<close>, \<open>m\<close> returns (it does not raise) and keeps \<open>P\<close>.\<close>

named_theorems returns_intros

definition returns :: "('s \<Rightarrow> bool) \<Rightarrow> ('s, 'a) op \<Rightarrow> bool" where
  "returns P m = (\<forall>s. P s \<longrightarrow> (\<exists>a t. m s = (Inr a, t) \<and> P t))"

lemma returnsD: "returns P m \<Longrightarrow> P s \<Longrightarrow> \<exists>a t. m s = (Inr a, t) \<and> P t"
  by (simp add: returns_def)

lemma returns_unit: "returns P m \<Longrightarrow> P s \<Longrightarrow> \<exists>t. m s = (Inr (), t)"
  by (auto simp: returns_def)

lemma returns_bnd [returns_intros]: "returns P m \<Longrightarrow> (\<And>a. returns P (f a)) \<Longrightarrow> returns P (bnd m f)"
  unfolding returns_def bnd_def by fastforce

lemma returns_basic [returns_intros]: "returns P (ret a)" "returns P (reads g)"
  by (simp_all add: returns_def op_basic)

lemma returns_modify: "(\<And>s. P s \<Longrightarrow> P (f s)) \<Longrightarrow> returns P (modify f)"
  by (simp add: returns_def op_basic)

lemma returns_check: "(\<And>s. P s \<Longrightarrow> q s) \<Longrightarrow> returns P (check_or e q)"
  by (simp add: returns_def op_basic)

lemma returns_if [returns_intros]: "returns P m \<Longrightarrow> returns P n \<Longrightarrow> returns P (if b then m else n)"
  by simp

lemma returns_for_each [returns_intros]: "(\<And>x. x \<in> set xs \<Longrightarrow> returns P (f x)) \<Longrightarrow> returns P (for_each f xs)"
  by (induction xs) (auto intro: returns_intros)

end
