(* ===== verification/Nio_Json.thy ===== *)
theory Nio_Json
  imports Nio_Prelude
begin

text \<open>
  JSON values as Python's \<^verbatim>\<open>json\<close> module decodes them, the accessors the sources use on
  them, and the text \<^verbatim>\<open>json.dumps\<close> writes. A float is the token Python prints for it, so
  that \<^verbatim>\<open>type(x) is int\<close> can be decided; booleans are not integers.
\<close>

datatype json =
    JNull
  | JBool bool
  | JInt int
  | JFloat string
  | JStr string
  | JArr "json list"
  | JObj "(string \<times> json) list"

type_synonym jobj = "(string, json) dict"

fun is_dict :: "json \<Rightarrow> bool" where
  "is_dict (JObj _) = True"
| "is_dict _ = False"

fun is_str :: "json \<Rightarrow> bool" where
  "is_str (JStr _) = True"
| "is_str _ = False"

fun is_list :: "json \<Rightarrow> bool" where
  "is_list (JArr _) = True"
| "is_list _ = False"

fun is_bool :: "json \<Rightarrow> bool" where
  "is_bool (JBool _) = True"
| "is_bool _ = False"

text \<open>\<^verbatim>\<open>d.get(k)\<close>: absent and null both read as None.\<close>

definition jget :: "jobj \<Rightarrow> string \<Rightarrow> json" where
  "jget d k = (case dget d k of None \<Rightarrow> JNull | Some v \<Rightarrow> v)"

fun truthy :: "json \<Rightarrow> bool" where
  "truthy JNull = False"
| "truthy (JBool b) = b"
| "truthy (JInt i) = (i \<noteq> 0)"
| "truthy (JFloat t) = (t \<noteq> ''0.0'' \<and> t \<noteq> ''-0.0'')"
| "truthy (JStr s) = (s \<noteq> [])"
| "truthy (JArr xs) = (xs \<noteq> [])"
| "truthy (JObj d) = (d \<noteq> [])"

definition jstr_opt :: "string option \<Rightarrow> json" where
  "jstr_opt x = (case x of None \<Rightarrow> JNull | Some s \<Rightarrow> JStr s)"

definition jint_opt :: "int option \<Rightarrow> json" where
  "jint_opt x = (case x of None \<Rightarrow> JNull | Some i \<Rightarrow> JInt i)"

definition jbool_opt :: "bool option \<Rightarrow> json" where
  "jbool_opt x = (case x of None \<Rightarrow> JNull | Some b \<Rightarrow> JBool b)"

definition jobj_opt :: "jobj option \<Rightarrow> json" where
  "jobj_opt x = (case x of None \<Rightarrow> JNull | Some d \<Rightarrow> JObj d)"

lemma jget_Nil [simp]: "jget [] k = JNull"
  by (simp add: jget_def)

lemma jget_Cons [simp]: "jget ((k', v) # d) k = (if k = k' then v else jget d k)"
  by (simp add: jget_def)

lemma jopt_simps [simp]:
  "jstr_opt None = JNull" "jstr_opt (Some s) = JStr s"
  "jint_opt None = JNull" "jint_opt (Some i) = JInt i"
  "jbool_opt None = JNull" "jbool_opt (Some b) = JBool b"
  "jobj_opt None = JNull" "jobj_opt (Some d) = JObj d"
  by (simp_all add: jstr_opt_def jint_opt_def jbool_opt_def jobj_opt_def)

section \<open>Printing\<close>

definition digit_char :: "nat \<Rightarrow> char" where
  "digit_char n = char_of (48 + n)"

fun nat_dec :: "nat \<Rightarrow> string" where
  "nat_dec n = (if n < 10 then [digit_char n] else nat_dec (n div 10) @ [digit_char (n mod 10)])"

declare nat_dec.simps [simp del]

definition int_dec :: "int \<Rightarrow> string" where
  "int_dec i = (if i < 0 then CHR ''-'' # nat_dec (nat (- i)) else nat_dec (nat i))"

definition hex_char :: "nat \<Rightarrow> char" where
  "hex_char n = (if n < 10 then char_of (48 + n) else char_of (87 + n))"

definition hex4 :: "nat \<Rightarrow> string" where
  "hex4 n = [hex_char (n div 4096 mod 16), hex_char (n div 256 mod 16),
             hex_char (n div 16 mod 16), hex_char (n mod 16)]"

definition u_escape :: "nat \<Rightarrow> string" where
  "u_escape n = CHR 0x5C # CHR ''u'' # hex4 n"

text \<open>The escapes \<^verbatim>\<open>json\<close> writes with \<^verbatim>\<open>ensure_ascii=False\<close>.\<close>

definition esc_char :: "char \<Rightarrow> string" where
  "esc_char c =
     (if c = CHR 0x22 then [CHR 0x5C, CHR 0x22]
      else if c = CHR 0x5C then [CHR 0x5C, CHR 0x5C]
      else if c = CHR 0x0A then [CHR 0x5C, CHR ''n'']
      else if c = CHR 0x0D then [CHR 0x5C, CHR ''r'']
      else if c = CHR 0x09 then [CHR 0x5C, CHR ''t'']
      else if c = CHR 0x0C then [CHR 0x5C, CHR ''f'']
      else if c = CHR 0x08 then [CHR 0x5C, CHR ''b'']
      else if byte_of c < 32 then u_escape (byte_of c)
      else [c])"

definition json_string :: "string \<Rightarrow> string" where
  "json_string s = CHR 0x22 # concat (map esc_char s) @ [CHR 0x22]"

fun join :: "string \<Rightarrow> string list \<Rightarrow> string" where
  "join sep [] = []"
| "join sep [x] = x"
| "join sep (x # y # xs) = x @ sep @ join sep (y # xs)"

fun json_dump :: "json \<Rightarrow> string" where
  "json_dump JNull = ''null''"
| "json_dump (JBool b) = (if b then ''true'' else ''false'')"
| "json_dump (JInt i) = int_dec i"
| "json_dump (JFloat t) = t"
| "json_dump (JStr s) = json_string s"
| "json_dump (JArr xs) = ''['' @ join '','' (map json_dump xs) @ '']''"
| "json_dump (JObj d) =
     CHR 0x7B # join '','' (map (\<lambda>p. json_string (fst p) @ '':'' @ json_dump (snd p)) d) @ [CHR 0x7D]"

text \<open>\<^verbatim>\<open>len(json.dumps(v).encode())\<close>, the size every bound of the durable store counts.\<close>

definition json_size :: "json \<Rightarrow> nat" where
  "json_size v = length (json_dump v)"

lemma json_size_pos: "(\<And>t. v \<noteq> JFloat t) \<Longrightarrow> 0 < json_size v"
  by (cases v) (auto simp: json_size_def json_string_def int_dec_def nat_dec.simps)

end
