(* ===== verification/Durable_Model.thy ===== *)
theory Durable_Model
  imports Nio_Effects Nio_Json
begin

text \<open>
  The committed observations of \<^verbatim>\<open>src/nio/durable/model.py\<close>: records, their on-disk carrier
  (\<open>encode_records\<close>) and the validating decoder (\<open>decode_records\<close>). A TEXT column that
  holds JSON is represented by the JSON value it encodes; \<^const>\<open>json_size\<close> is its length in
  bytes. The decoder raises what the code raises: a missing key is a \<^const>\<open>KeyError\<close>, a
  constructor called with wrong keywords a \<^const>\<open>TypeError\<close>.
\<close>

section \<open>Data\<close>

datatype record_kind =
    TIMELINE | STATE | ROOM_ACCOUNT_DATA | GLOBAL_ACCOUNT_DATA | TO_DEVICE | ROOM_LIFECYCLE | LOSS

datatype timeline_provenance = LIVE | RECOVERED | HISTORY

record authenticated_device =
  ad_user_id :: string
  ad_device_id :: string
  ad_curve25519 :: string
  ad_ed25519 :: string

record crypto_evidence =
  ce_verified :: "bool option"
  ce_sender_key :: string
  ce_session_id :: "string option"
  ce_authenticated_sender :: "authenticated_device option"

record own_membership =
  om_previous :: "string option"
  om_current :: string
  om_previous_epoch :: int
  om_current_epoch :: int
  om_source :: string

record sync_record =
  sr_kind :: record_kind
  sr_room_id :: "string option"
  sr_source :: jobj
  sr_clear :: "jobj option"
  sr_provenance :: "timeline_provenance option"
  sr_membership_epoch :: "int option"
  sr_crypto :: "crypto_evidence option"
  sr_membership :: "own_membership option"
  sr_route :: "string option"
  sr_codec :: "string option"

record sync_batch =
  sb_stream_id :: string
  sb_sequence :: nat
  sb_records :: "sync_record list"
  sb_completes_sync :: bool

text \<open>The string values of the two enumerations, and their constructors from a value.\<close>

fun kind_value :: "record_kind \<Rightarrow> string" where
  "kind_value TIMELINE = ''timeline''"
| "kind_value STATE = ''state''"
| "kind_value ROOM_ACCOUNT_DATA = ''room_account_data''"
| "kind_value GLOBAL_ACCOUNT_DATA = ''global_account_data''"
| "kind_value TO_DEVICE = ''to_device''"
| "kind_value ROOM_LIFECYCLE = ''room_lifecycle''"
| "kind_value LOSS = ''loss''"

fun provenance_value :: "timeline_provenance \<Rightarrow> string" where
  "provenance_value LIVE = ''live''"
| "provenance_value RECOVERED = ''recovered''"
| "provenance_value HISTORY = ''history''"

definition RecordKind_of :: "json \<Rightarrow> exn + record_kind" where
  "RecordKind_of v =
     (case find (\<lambda>k. v = JStr (kind_value k))
        [TIMELINE, STATE, ROOM_ACCOUNT_DATA, GLOBAL_ACCOUNT_DATA, TO_DEVICE, ROOM_LIFECYCLE, LOSS] of
        Some k \<Rightarrow> Inr k | None \<Rightarrow> Inl (ValueError ''not a valid RecordKind''))"

definition TimelineEventProvenance_of :: "json \<Rightarrow> exn + timeline_provenance" where
  "TimelineEventProvenance_of v =
     (case find (\<lambda>k. v = JStr (provenance_value k)) [LIVE, RECOVERED, HISTORY] of
        Some k \<Rightarrow> Inr k | None \<Rightarrow> Inl (ValueError ''not a valid TimelineEventProvenance''))"

lemma RecordKind_of_value [simp]: "RecordKind_of (JStr (kind_value k)) = Inr k"
  by (cases k) (simp_all add: RecordKind_of_def)

lemma Provenance_of_value [simp]: "TimelineEventProvenance_of (JStr (provenance_value k)) = Inr k"
  by (cases k) (simp_all add: TimelineEventProvenance_of_def)

section \<open>Encoding\<close>

definition device_json :: "authenticated_device \<Rightarrow> json" where
  "device_json d = JObj [(''user_id'', JStr (ad_user_id d)), (''device_id'', JStr (ad_device_id d)),
     (''curve25519'', JStr (ad_curve25519 d)), (''ed25519'', JStr (ad_ed25519 d))]"

definition crypto_json :: "crypto_evidence \<Rightarrow> json" where
  "crypto_json c = JObj [(''verified'', jbool_opt (ce_verified c)),
     (''sender_key'', JStr (ce_sender_key c)), (''session_id'', jstr_opt (ce_session_id c)),
     (''authenticated_sender'',
        (case ce_authenticated_sender c of None \<Rightarrow> JNull | Some d \<Rightarrow> device_json d))]"

definition membership_json :: "own_membership \<Rightarrow> json" where
  "membership_json m = JObj [(''previous'', jstr_opt (om_previous m)), (''current'', JStr (om_current m)),
     (''previous_epoch'', JInt (om_previous_epoch m)), (''current_epoch'', JInt (om_current_epoch m)),
     (''source'', JStr (om_source m))]"

definition encode_record :: "sync_record \<Rightarrow> json" where
  "encode_record r = JObj [
     (''kind'', JStr (kind_value (sr_kind r))),
     (''room_id'', jstr_opt (sr_room_id r)),
     (''source'', JObj (sr_source r)),
     (''clear'', jobj_opt (sr_clear r)),
     (''provenance'', (case sr_provenance r of None \<Rightarrow> JNull | Some p \<Rightarrow> JStr (provenance_value p))),
     (''membership_epoch'', jint_opt (sr_membership_epoch r)),
     (''crypto'', (case sr_crypto r of None \<Rightarrow> JNull | Some c \<Rightarrow> crypto_json c)),
     (''membership'', (case sr_membership r of None \<Rightarrow> JNull | Some m \<Rightarrow> membership_json m)),
     (''route'', jstr_opt (sr_route r)),
     (''codec'', jstr_opt (sr_codec r))]"

definition encode_records :: "sync_record list \<Rightarrow> json" where
  "encode_records rs = JArr (map encode_record rs)"

text \<open>\<^verbatim>\<open>encode_json\<close>: the compact text, with non-ASCII characters left as they are.\<close>

definition encode_json :: "json \<Rightarrow> string" where
  "encode_json v = json_dump v"

section \<open>Decoding\<close>

definition validate_epoch :: "json \<Rightarrow> exn + unit" where
  "validate_epoch v =
     (case v of JInt i \<Rightarrow>
        if i < 0 then Inl (ValueError ''stored membership epoch must be a nonnegative integer'') else Inr ()
      | _ \<Rightarrow> Inl (ValueError ''stored membership epoch must be a nonnegative integer''))"

text \<open>
  A keyword call \<^verbatim>\<open>C(**d)\<close> needs every required field and no unknown one; a TypeError
  otherwise.
\<close>

definition kwargs_ok :: "string list \<Rightarrow> string list \<Rightarrow> jobj \<Rightarrow> bool" where
  "kwargs_ok required optional d =
     ((\<forall>k \<in> set required. din k d) \<and> (\<forall>k \<in> set (dkeys d). k \<in> set (required @ optional)))"

definition opt_str :: "json \<Rightarrow> string option" where
  "opt_str v = (case v of JStr s \<Rightarrow> Some s | _ \<Rightarrow> None)"

definition opt_int :: "json \<Rightarrow> int option" where
  "opt_int v = (case v of JInt i \<Rightarrow> Some i | _ \<Rightarrow> None)"

definition opt_obj :: "json \<Rightarrow> jobj option" where
  "opt_obj v = (case v of JObj d \<Rightarrow> Some d | _ \<Rightarrow> None)"

definition opt_bool :: "json \<Rightarrow> bool option" where
  "opt_bool v = (case v of JBool b \<Rightarrow> Some b | _ \<Rightarrow> None)"

definition str_of :: "json \<Rightarrow> string" where
  "str_of v = (case v of JStr s \<Rightarrow> s | _ \<Rightarrow> [])"

definition int_of_json :: "json \<Rightarrow> int" where
  "int_of_json v = (case v of JInt i \<Rightarrow> i | _ \<Rightarrow> 0)"

lemma jopt_reads [simp]:
  "opt_str (jstr_opt x) = x" "opt_int (jint_opt i) = i" "opt_bool (jbool_opt b) = b"
  "opt_obj (jobj_opt d) = d" "str_of (JStr s) = s" "int_of_json (JInt n) = n"
  by (simp_all add: opt_str_def opt_int_def opt_bool_def opt_obj_def str_of_def int_of_json_def
      jstr_opt_def jint_opt_def jbool_opt_def jobj_opt_def split: option.splits)

lemma jopt_const [simp]:
  "opt_str JNull = None" "opt_str (JStr s) = Some s" "opt_int JNull = None" "opt_int (JInt i) = Some i"
  "opt_bool JNull = None" "opt_bool (JBool b) = Some b" "opt_obj JNull = None" "opt_obj (JObj d) = Some d"
  by (simp_all add: opt_str_def opt_int_def opt_bool_def opt_obj_def)

lemma jopt_null [simp]:
  "jstr_opt x = JNull \<longleftrightarrow> x = None" "jint_opt i = JNull \<longleftrightarrow> i = None"
  "jbool_opt b = JNull \<longleftrightarrow> b = None" "jobj_opt d = JNull \<longleftrightarrow> d = None"
  by (simp_all add: jstr_opt_def jint_opt_def jbool_opt_def jobj_opt_def split: option.splits)

lemma jopt_kind [simp]:
  "is_str (jstr_opt x) \<longleftrightarrow> x \<noteq> None" "is_bool (jbool_opt b) \<longleftrightarrow> b \<noteq> None"
  "is_dict (jobj_opt d) \<longleftrightarrow> d \<noteq> None"
  by (simp_all add: jstr_opt_def jbool_opt_def jobj_opt_def split: option.splits)

definition decode_opt :: "(json \<Rightarrow> exn + 'a) \<Rightarrow> json \<Rightarrow> exn + 'a option" where
  "decode_opt f v = (if v = JNull then Inr None else rbind (f v) (\<lambda>x. Inr (Some x)))"

text \<open>\<^verbatim>\<open>AuthenticatedDevice(**identity)\<close> with its \<^verbatim>\<open>__post_init__\<close>.\<close>

definition AuthenticatedDevice_of :: "jobj \<Rightarrow> exn + authenticated_device" where
  "AuthenticatedDevice_of d =
     (let fields = [''user_id'', ''device_id'', ''curve25519'', ''ed25519''] in
      if \<not> kwargs_ok fields [] d then Inl (TypeError ''AuthenticatedDevice'')
      else if list_ex (\<lambda>k. \<not> is_str (jget d k) \<or> jget d k = JStr []) fields
        then Inl (ValueError ''authenticated device identity requires nonempty strings'')
      else Inr \<lparr>ad_user_id = str_of (jget d ''user_id''), ad_device_id = str_of (jget d ''device_id''),
                ad_curve25519 = str_of (jget d ''curve25519''), ad_ed25519 = str_of (jget d ''ed25519'')\<rparr>)"

definition decode_identity :: "json \<Rightarrow> exn + authenticated_device" where
  "decode_identity v = (case v of
     JObj i \<Rightarrow> AuthenticatedDevice_of i
   | _ \<Rightarrow> Inl (ValueError ''stored authenticated identity must be an object''))"

definition catch_type_error :: "string \<Rightarrow> exn + 'a \<Rightarrow> exn + 'a" where
  "catch_type_error msg r = (case r of Inl (TypeError _) \<Rightarrow> Inl (ValueError msg) | _ \<Rightarrow> r)"

definition decode_crypto :: "json \<Rightarrow> exn + crypto_evidence" where
  "decode_crypto v = (case v of
     JObj c \<Rightarrow>
       rbind (rcheck (ValueError ''stored verification must be boolean or null'')
                (jget c ''verified'' = JNull \<or> is_bool (jget c ''verified''))) (\<lambda>_.
       rbind (rcheck (ValueError ''stored sender key must be a string'')
                (is_str (jget c ''sender_key''))) (\<lambda>_.
       rbind (rcheck (ValueError ''stored session ID must be a string or null'')
                (jget c ''session_id'' = JNull \<or> is_str (jget c ''session_id''))) (\<lambda>_.
       catch_type_error ''invalid stored crypto evidence''
        (rbind (decode_opt decode_identity (jget c ''authenticated_sender'')) (\<lambda>who.
         if \<not> kwargs_ok [''verified'', ''sender_key''] [''session_id'', ''authenticated_sender''] c
         then Inl (TypeError ''CryptoEvidence'')
         else Inr \<lparr>ce_verified = opt_bool (jget c ''verified''),
                   ce_sender_key = str_of (jget c ''sender_key''),
                   ce_session_id = opt_str (jget c ''session_id''),
                   ce_authenticated_sender = who\<rparr>)))))
   | _ \<Rightarrow> Inl (ValueError ''stored crypto evidence must be an object''))"

definition memberships :: "string list" where
  "memberships = [''join'', ''invite'', ''leave'', ''ban'', ''knock'']"

definition decode_membership :: "json \<Rightarrow> exn + own_membership" where
  "decode_membership v = (case v of
     JObj m \<Rightarrow>
       rbind (rcheck (ValueError ''invalid stored membership state'')
                (jget m ''current'' \<in> set (map JStr memberships) \<and>
                 jget m ''previous'' \<in> set (JNull # map JStr memberships))) (\<lambda>_.
       rbind (rcheck (ValueError ''invalid stored membership source'')
                (dget_or m ''source'' (JStr ''reported'') \<in> {JStr ''local'', JStr ''reported''})) (\<lambda>_.
       rbind (validate_epoch (jget m ''previous_epoch'')) (\<lambda>_.
       rbind (validate_epoch (jget m ''current_epoch'')) (\<lambda>_.
       catch_type_error ''invalid stored membership''
        (if \<not> kwargs_ok [''previous'', ''current'', ''previous_epoch'', ''current_epoch''] [''source''] m
         then Inl (TypeError ''OwnMembership'')
         else Inr \<lparr>om_previous = opt_str (jget m ''previous''), om_current = str_of (jget m ''current''),
                   om_previous_epoch = int_of_json (jget m ''previous_epoch''),
                   om_current_epoch = int_of_json (jget m ''current_epoch''),
                   om_source = str_of (dget_or m ''source'' (JStr ''reported''))\<rparr>)))))
   | _ \<Rightarrow> Inl (ValueError ''stored membership must be an object''))"

definition record_fields :: "string list" where
  "record_fields = [''clear'', ''provenance'', ''membership_epoch'', ''crypto'', ''membership'',
     ''route'', ''codec'']"

definition decode_record :: "json \<Rightarrow> exn + sync_record" where
  "decode_record j = (case j of
     JObj v \<Rightarrow>
       rbind (rcheck (ValueError ''stored record requires an event object'')
                (is_dict (jget v ''source''))) (\<lambda>_.
       rbind (rcheck (ValueError ''stored clear event must be an object'')
                (jget v ''clear'' = JNull \<or> is_dict (jget v ''clear''))) (\<lambda>_.
       rbind (case find (\<lambda>k. jget v k \<noteq> JNull \<and> \<not> is_str (jget v k)) [''room_id'', ''route'', ''codec''] of
                None \<Rightarrow> Inr ()
              | Some k \<Rightarrow> Inl (ValueError (''stored '' @ k @ '' must be a string''))) (\<lambda>_.
       rbind (case dget v ''kind'' of None \<Rightarrow> Inl (KeyError ''kind'') | Some k \<Rightarrow> RecordKind_of k) (\<lambda>kind.
       rbind (decode_opt TimelineEventProvenance_of (jget v ''provenance'')) (\<lambda>prov.
       rbind (decode_opt decode_crypto (jget v ''crypto'')) (\<lambda>crypto.
       rbind (decode_opt (\<lambda>e. rbind (validate_epoch e) (\<lambda>_. Inr (int_of_json e)))
                (jget v ''membership_epoch'')) (\<lambda>epoch.
       rbind (decode_opt decode_membership (jget v ''membership'')) (\<lambda>membership.
       if \<not> kwargs_ok [''kind'', ''room_id'', ''source''] record_fields v
       then Inl (TypeError ''SyncRecord'')
       else Inr \<lparr>sr_kind = kind, sr_room_id = opt_str (jget v ''room_id''),
                 sr_source = (case jget v ''source'' of JObj d \<Rightarrow> d | _ \<Rightarrow> []),
                 sr_clear = opt_obj (jget v ''clear''), sr_provenance = prov,
                 sr_membership_epoch = epoch, sr_crypto = crypto, sr_membership = membership,
                 sr_route = opt_str (jget v ''route''), sr_codec = opt_str (jget v ''codec'')\<rparr>))))))))
   | _ \<Rightarrow> Inl (ValueError ''stored record requires an event object''))"

definition decode_records :: "json \<Rightarrow> exn + sync_record list" where
  "decode_records j = (case j of
     JArr vs \<Rightarrow> rmap decode_record vs
   | _ \<Rightarrow> Inl (ValueError ''stored batch records must be an array''))"

section \<open>Well-formed records\<close>

definition device_ok :: "authenticated_device \<Rightarrow> bool" where
  "device_ok d = (ad_user_id d \<noteq> [] \<and> ad_device_id d \<noteq> [] \<and> ad_curve25519 d \<noteq> [] \<and> ad_ed25519 d \<noteq> [])"

definition membership_ok :: "own_membership \<Rightarrow> bool" where
  "membership_ok m =
     (om_current m \<in> set memberships \<and>
      (case om_previous m of None \<Rightarrow> True | Some p \<Rightarrow> p \<in> set memberships) \<and>
      0 \<le> om_previous_epoch m \<and> 0 \<le> om_current_epoch m \<and>
      om_source m \<in> {''local'', ''reported''})"

definition crypto_ok :: "crypto_evidence \<Rightarrow> bool" where
  "crypto_ok c = (case ce_authenticated_sender c of None \<Rightarrow> True | Some d \<Rightarrow> device_ok d)"

definition record_ok :: "sync_record \<Rightarrow> bool" where
  "record_ok r =
     ((case sr_membership_epoch r of None \<Rightarrow> True | Some e \<Rightarrow> 0 \<le> e) \<and>
      (case sr_crypto r of None \<Rightarrow> True | Some c \<Rightarrow> crypto_ok c) \<and>
      (case sr_membership r of None \<Rightarrow> True | Some m \<Rightarrow> membership_ok m))"

definition opt_all :: "('a \<Rightarrow> bool) \<Rightarrow> 'a option \<Rightarrow> bool" where
  "opt_all p x = (case x of None \<Rightarrow> True | Some a \<Rightarrow> p a)"

lemma decode_identity_json [simp]: "device_ok d \<Longrightarrow> decode_identity (device_json d) = Inr d"
  by (simp add: device_json_def decode_identity_def AuthenticatedDevice_of_def kwargs_ok_def din_def
      device_ok_def)

lemma decode_opt_json:
  assumes "\<And>a. x = Some a \<Longrightarrow> f (g a) = Inr a \<and> g a \<noteq> JNull"
  shows "decode_opt f (case x of None \<Rightarrow> JNull | Some a \<Rightarrow> g a) = Inr x"
  using assms by (cases x) (auto simp: decode_opt_def)

lemma option_total [simp]: "x = None \<or> (\<exists>y. x = Some y)"
  by (cases x) simp_all

lemma decode_identity_opt:
  "crypto_ok c \<Longrightarrow>
   decode_opt decode_identity
     (case ce_authenticated_sender c of None \<Rightarrow> JNull | Some d \<Rightarrow> device_json d)
   = Inr (ce_authenticated_sender c)"
  by (rule decode_opt_json) (simp add: crypto_ok_def, simp add: device_json_def)

lemma decode_crypto_json: "crypto_ok c \<Longrightarrow> decode_crypto (crypto_json c) = Inr c"
  by (simp add: decode_crypto_def crypto_json_def decode_identity_opt kwargs_ok_def din_def
      catch_type_error_def)

lemma decode_membership_json: "membership_ok m \<Longrightarrow> decode_membership (membership_json m) = Inr m"
  by (cases m; cases "om_previous m")
    (auto simp: decode_membership_def membership_json_def membership_ok_def kwargs_ok_def din_def
      catch_type_error_def validate_epoch_def dget_or_def)

lemma carrier_nonnull [simp]:
  "crypto_json c \<noteq> JNull" "membership_json m \<noteq> JNull" "device_json d \<noteq> JNull"
  by (simp_all add: crypto_json_def membership_json_def device_json_def)

lemma decode_record_opts:
  assumes "record_ok r"
  shows "decode_opt decode_crypto (case sr_crypto r of None \<Rightarrow> JNull | Some c \<Rightarrow> crypto_json c)
           = Inr (sr_crypto r)"
    and "decode_opt decode_membership
           (case sr_membership r of None \<Rightarrow> JNull | Some m \<Rightarrow> membership_json m) = Inr (sr_membership r)"
    and "decode_opt (\<lambda>e. rbind (validate_epoch e) (\<lambda>_. Inr (int_of_json e)))
           (jint_opt (sr_membership_epoch r)) = Inr (sr_membership_epoch r)"
    and "decode_opt TimelineEventProvenance_of
           (case sr_provenance r of None \<Rightarrow> JNull | Some p \<Rightarrow> JStr (provenance_value p))
           = Inr (sr_provenance r)"
  using assms
  by (auto simp: record_ok_def decode_opt_def decode_crypto_json decode_membership_json
      validate_epoch_def split: option.splits)

lemma encode_record_roundtrip: "record_ok r \<Longrightarrow> decode_record (encode_record r) = Inr r"
  by (simp add: decode_record_def encode_record_def decode_record_opts kwargs_ok_def din_def
      record_fields_def)

text \<open>What the decoder accepts is well formed, and what it raises is what \<open>next_batch\<close> catches.\<close>

lemma decode_opt_Inr:
  "decode_opt f v = Inr x \<Longrightarrow> (\<And>a. f v = Inr a \<Longrightarrow> p a) \<Longrightarrow> opt_all p x"
  by (auto simp: decode_opt_def opt_all_def rbind_Inr_iff split: if_splits option.splits)

lemma AuthenticatedDevice_ok: "AuthenticatedDevice_of i = Inr d \<Longrightarrow> device_ok d"
  by (auto simp: AuthenticatedDevice_of_def device_ok_def Let_def str_of_def split: if_splits json.splits)

lemma decode_identity_ok: "decode_identity v = Inr d \<Longrightarrow> device_ok d"
  by (auto simp: decode_identity_def AuthenticatedDevice_ok split: json.splits)

lemma catch_type_error_Inr [simp]: "catch_type_error m r = Inr a \<longleftrightarrow> r = Inr a"
  by (auto simp: catch_type_error_def split: sum.splits exn.splits)

lemma decode_crypto_ok: "decode_crypto v = Inr c \<Longrightarrow> crypto_ok c"
  by (auto simp: decode_crypto_def crypto_ok_def rbind_Inr_iff opt_all_def decode_identity_ok
      split: json.splits if_splits option.splits dest!: decode_opt_Inr[where p = device_ok])

lemma memberships_json: "JStr x \<in> JStr ` set memberships \<longleftrightarrow> x \<in> set memberships"
  by auto

lemma validate_epoch_Inr: "validate_epoch v = Inr u \<longleftrightarrow> (\<exists>i. v = JInt i \<and> 0 \<le> i)"
  by (auto simp: validate_epoch_def split: json.splits if_splits)

lemma decode_membership_ok: "decode_membership v = Inr m \<Longrightarrow> membership_ok m"
  by (auto simp: decode_membership_def membership_ok_def rbind_Inr_iff validate_epoch_Inr
      split: json.splits if_splits)

lemma decode_record_parts:
  assumes "decode_record j = Inr r"
  obtains v where "decode_opt decode_crypto (jget v ''crypto'') = Inr (sr_crypto r)"
    and "decode_opt decode_membership (jget v ''membership'') = Inr (sr_membership r)"
    and "decode_opt (\<lambda>e. rbind (validate_epoch e) (\<lambda>_. Inr (int_of_json e)))
           (jget v ''membership_epoch'') = Inr (sr_membership_epoch r)"
proof (cases j)
  case (JObj v)
  then show thesis
    using assms that[of v]
    by (simp add: decode_record_def rbind_Inr_iff split: if_splits) force
qed (use assms in \<open>simp_all add: decode_record_def\<close>)

lemma decode_record_ok: "decode_record j = Inr r \<Longrightarrow> record_ok r"
proof (erule decode_record_parts)
  fix v
  assume *: "decode_opt decode_crypto (jget v ''crypto'') = Inr (sr_crypto r)"
    "decode_opt decode_membership (jget v ''membership'') = Inr (sr_membership r)"
    "decode_opt (\<lambda>e. rbind (validate_epoch e) (\<lambda>_. Inr (int_of_json e)))
       (jget v ''membership_epoch'') = Inr (sr_membership_epoch r)"
  have "opt_all crypto_ok (sr_crypto r)" "opt_all membership_ok (sr_membership r)"
    using *(1,2)[THEN decode_opt_Inr] by (simp_all add: decode_crypto_ok decode_membership_ok)
  moreover have "opt_all (\<lambda>e. 0 \<le> e) (sr_membership_epoch r)"
    by (rule decode_opt_Inr[OF *(3)]) (auto simp: rbind_Inr_iff validate_epoch_Inr)
  ultimately have "opt_all crypto_ok (sr_crypto r)" "opt_all membership_ok (sr_membership r)"
    "opt_all (\<lambda>e. 0 \<le> e) (sr_membership_epoch r)"
    by blast+
  then show "record_ok r"
    by (simp add: record_ok_def opt_all_def)
qed

text \<open>The exceptions that mark a stored value as invalid, the ones \<open>next_batch\<close> turns into an error.\<close>

fun stored_exn :: "exn \<Rightarrow> bool" where
  "stored_exn (ValueError _) = True"
| "stored_exn (TypeError _) = True"
| "stored_exn (KeyError _) = True"
| "stored_exn _ = False"

definition raises_stored :: "exn + 'a \<Rightarrow> bool" where
  "raises_stored r = (case r of Inl e \<Rightarrow> stored_exn e | Inr _ \<Rightarrow> True)"

lemma raises_stored_simps [simp]:
  "raises_stored (Inr a)" "raises_stored (Inl e) = stored_exn e"
  by (simp_all add: raises_stored_def)

lemma raises_stored_rbind:
  "raises_stored r \<Longrightarrow> (\<And>a. raises_stored (f a)) \<Longrightarrow> raises_stored (rbind r f)"
  by (cases r) simp_all

lemma raises_stored_rcheck: "stored_exn e \<Longrightarrow> raises_stored (rcheck e b)"
  by (cases b) simp_all

lemma raises_stored_opt: "(\<And>v. raises_stored (f v)) \<Longrightarrow> raises_stored (decode_opt f v)"
  by (simp add: decode_opt_def raises_stored_rbind)

lemma raises_stored_catch: "raises_stored r \<Longrightarrow> raises_stored (catch_type_error m r)"
  by (auto simp: catch_type_error_def split: sum.splits exn.splits)

lemma raises_stored_basic:
  "raises_stored (RecordKind_of v)" "raises_stored (TimelineEventProvenance_of v)"
  "raises_stored (validate_epoch v)" "raises_stored (AuthenticatedDevice_of i)"
  "raises_stored (decode_identity v)"
  by (auto simp: RecordKind_of_def TimelineEventProvenance_of_def validate_epoch_def
      AuthenticatedDevice_of_def decode_identity_def Let_def split: option.splits json.splits)

lemma raises_stored_cases:
  "raises_stored a \<Longrightarrow> (\<And>x. raises_stored (f x)) \<Longrightarrow> raises_stored (case y of None \<Rightarrow> a | Some x \<Rightarrow> f x)"
  "raises_stored a \<Longrightarrow> raises_stored b \<Longrightarrow> raises_stored (if c then a else b)"
  by (auto split: option.split)

lemmas raises_stored_intros =
  raises_stored_rbind raises_stored_rcheck raises_stored_opt raises_stored_catch raises_stored_basic
  raises_stored_cases

lemma raises_stored_crypto: "raises_stored (decode_crypto v)"
proof (cases v)
  case (JObj d)
  show ?thesis
    unfolding JObj decode_crypto_def json.case
    by (intro raises_stored_intros; simp)
qed (simp_all add: decode_crypto_def)

lemma raises_stored_membership: "raises_stored (decode_membership v)"
proof (cases v)
  case (JObj d)
  show ?thesis
    unfolding JObj decode_membership_def json.case
    by (intro raises_stored_intros; simp)
qed (simp_all add: decode_membership_def)

lemma raises_stored_record: "raises_stored (decode_record v)"
proof (cases v)
  case (JObj d)
  show ?thesis
    unfolding JObj decode_record_def json.case
    by (intro raises_stored_intros raises_stored_crypto raises_stored_membership; simp)
qed (simp_all add: decode_record_def)

lemma raises_stored_rmap: "(\<And>v. raises_stored (f v)) \<Longrightarrow> raises_stored (rmap f vs)"
  by (induction vs) (auto intro!: raises_stored_rbind)

section \<open>Properties\<close>

text \<open>A batch of well-formed records is read back from its on-disk carrier exactly as it was
  published, every optional field, epoch, membership change and crypto evidence included.\<close>

theorem records_roundtrip:
  "list_all record_ok rs \<Longrightarrow> decode_records (encode_records rs) = Inr rs"
  unfolding decode_records_def encode_records_def
  by (induction rs) (simp_all add: encode_record_roundtrip)

definition sample_record :: sync_record where
  "sample_record = \<lparr>sr_kind = TIMELINE, sr_room_id = Some ''!r:x'',
     sr_source = [(''type'', JStr ''m.room.message'')], sr_clear = None, sr_provenance = Some LIVE,
     sr_membership_epoch = Some 3,
     sr_crypto = Some \<lparr>ce_verified = Some True, ce_sender_key = ''k'', ce_session_id = None,
       ce_authenticated_sender = Some \<lparr>ad_user_id = ''@a:x'', ad_device_id = ''D'',
         ad_curve25519 = ''c'', ad_ed25519 = ''e''\<rparr>\<rparr>,
     sr_membership = Some \<lparr>om_previous = Some ''join'', om_current = ''leave'',
       om_previous_epoch = 3, om_current_epoch = 4, om_source = ''reported''\<rparr>,
     sr_route = Some ''event'', sr_codec = None\<rparr>"

theorem records_roundtrip_witness:
  "list_all record_ok [sample_record] \<and>
   decode_records (encode_records [sample_record]) = Inr [sample_record]"
proof -
  have ok: "list_all record_ok [sample_record]"
    by (simp add: sample_record_def record_ok_def crypto_ok_def device_ok_def membership_ok_def
        memberships_def)
  show ?thesis using ok records_roundtrip[OF ok] by simp
qed

text \<open>Whatever JSON a batch row holds, decoding it either yields records that satisfy every
  constraint of the carrier (nonnegative epochs, known memberships and sources, nonempty
  authenticated identities) or raises one of the three exceptions that \<open>next_batch\<close> reports as
  an invalid stored batch.\<close>

theorem decode_records_sound:
  "case decode_records j of Inr rs \<Rightarrow> list_all record_ok rs | Inl e \<Rightarrow> stored_exn e"
proof (cases j)
  case (JArr vs)
  have "rmap decode_record vs = Inr rs \<Longrightarrow> list_all record_ok rs" for rs
    by (induction vs arbitrary: rs) (auto simp: rbind_Inr_iff decode_record_ok)
  moreover have "raises_stored (rmap decode_record vs)"
    by (rule raises_stored_rmap) (rule raises_stored_record)
  ultimately show ?thesis
    using JArr by (auto simp: decode_records_def raises_stored_def split: sum.splits)
qed (simp_all add: decode_records_def)

end
