(* ===== verification/Durable_Store.thy ===== *)
theory Durable_Store
  imports Durable_Model
begin

text \<open>
  The SQLite transaction boundary of \<^verbatim>\<open>src/nio/durable/store.py\<close>. \<open>durable_db\<close> is the content of
  the NioDurable tables, \<open>durable_store\<close> the live object: the database as its own connection
  sees it, the mirrored loop state, the cached room rows, the cached local intent and the
  transaction depth. A batch table is the list of its rows in rowid order; AUTOINCREMENT keeps
  the largest rowid ever used, so a new row always comes last.
\<close>

section \<open>Tables and the live object\<close>

type_synonym batch_row = "nat \<times> json \<times> bool"

record durable_db =
  db_cursor :: "string option"
  db_acked :: nat
  db_input :: "(string \<times> json) option"
  db_batches :: "batch_row list"
  db_autoinc :: nat
  db_rooms :: "(string, json) dict"
  db_members :: "(string \<times> string, json) dict"
  db_crypto :: "(string \<times> string, json) dict"

record loop_state =
  ls_cursor :: "string option"
  ls_acked_sequence :: nat
  ls_continuation :: "json option"
  ls_pending :: "nat list"

record durable_store =
  ds_stream_id :: string
  ds_db :: durable_db
  ds_loop_state :: "loop_state option"
  ds_room_metadata :: "(string, json) dict option"
  ds_intent_cached :: bool
  ds_local_intent :: "json option"
  ds_depth :: nat
  ds_foreign_tx :: bool
  ds_closed :: bool
  ds_same_pid :: bool

text \<open>How SQLite may answer a transaction: it runs, BEGIN IMMEDIATE fails, or COMMIT fails.\<close>

datatype tx_env = Tx_Ok | Begin_Fails | Commit_Fails

section \<open>Opening\<close>

record open_args =
  op_user_id :: string
  op_device_id :: string
  op_consumer_id :: string
  op_builtin_class :: bool

record durable_meta =
  dm_version :: nat
  dm_stream_id :: string
  dm_consumer_id :: string
  dm_user_id :: string
  dm_device_id :: string

text \<open>
  The database file as opening finds it: the names of its tables in lower case, the rows of
  \<^verbatim>\<open>accounts\<close>, which of the released store's recovery tables hold outstanding work, the row of
  NioDurableMeta and the NioDurable tables. \<open>disk_lease_free\<close> is the answer of the lease file,
  \<open>disk_account_ok\<close> whether the stored account unpickles with the given key.
\<close>

record disk =
  disk_tables :: "string list"
  disk_accounts :: "(string \<times> string) list"
  disk_outstanding :: "string list"
  disk_meta :: "durable_meta option"
  disk_db :: durable_db
  disk_lease_free :: bool
  disk_account_ok :: bool
  disk_sync_token :: "string option"

definition fresh_db :: "string option \<Rightarrow> durable_db" where
  "fresh_db token = \<lparr>db_cursor = token, db_acked = 0, db_input = None, db_batches = [],
     db_autoinc = 0, db_rooms = [], db_members = [], db_crypto = []\<rparr>"

definition fresh_store :: "string \<Rightarrow> durable_db \<Rightarrow> durable_store" where
  "fresh_store sid d = \<lparr>ds_stream_id = sid, ds_db = d, ds_loop_state = None, ds_room_metadata = None,
     ds_intent_cached = False, ds_local_intent = None, ds_depth = 0, ds_foreign_tx = False,
     ds_closed = False, ds_same_pid = True\<rparr>"

definition check_legacy_recovery :: "disk \<Rightarrow> exn + unit" where
  "check_legacy_recovery k =
     rcheck (LocalProtocolError ''durable adoption requires recovery to be drained'')
       (\<not> list_ex (\<lambda>t. t \<in> set (disk_tables k) \<and> t \<in> set (disk_outstanding k))
          [''pendingtimelineevents'', ''syncrecoverygaps'', ''syncrecoveryabandonedrooms''])"

definition open_durable_store :: "open_args \<Rightarrow> string \<Rightarrow> disk \<Rightarrow> exn + durable_store" where
  "open_durable_store o' new_id k =
     rbind (rcheck (LocalProtocolError ''durable adoption requires a built-in SQLite store'')
              (op_builtin_class o')) (\<lambda>_.
     rbind (rcheck (LocalProtocolError ''store lifetime lease is already held'')
              (disk_lease_free k)) (\<lambda>_.
     rbind (rcheck (LocalProtocolError ''unmerged ingestion format cannot open as durable sync'')
              (''nioingestmeta'' \<notin> set (disk_tables k))) (\<lambda>_.
     rbind (rcheck (LocalProtocolError ''durable store account/device identity mismatch'')
              (''accounts'' \<notin> set (disk_tables k) \<or>
               list_all (\<lambda>i. i = (op_user_id o', op_device_id o')) (disk_accounts k))) (\<lambda>_.
     rbind (if ''niodurablemeta'' \<in> set (disk_tables k) then Inr () else check_legacy_recovery k) (\<lambda>_.
     rbind (rcheck (ValueError ''account pickle'') (disk_account_ok k)) (\<lambda>_.
     if ''niodurablemeta'' \<in> set (disk_tables k) then
       (case disk_meta k of
          None \<Rightarrow> Inl (LocalProtocolError ''unsupported durable store version'')
        | Some m \<Rightarrow>
            if dm_version m \<noteq> 1 then Inl (LocalProtocolError ''unsupported durable store version'')
            else if dm_consumer_id m \<noteq> op_consumer_id o' then
              Inl (LocalProtocolError ''durable consumer identity mismatch'')
            else if (dm_user_id m, dm_device_id m) \<noteq> (op_user_id o', op_device_id o') then
              Inl (LocalProtocolError ''durable store account/device identity mismatch'')
            else Inr (fresh_store (dm_stream_id m) (disk_db k)))
     else Inr (fresh_store new_id (fresh_db (disk_sync_token k)))))))))"

section \<open>Guards and transactions\<close>

definition closed_exn :: exn where
  "closed_exn = LocalProtocolError ''durable store is closed or belongs to another process''"

definition is_open :: "durable_store \<Rightarrow> bool" where
  "is_open s = (\<not> ds_closed s \<and> ds_same_pid s)"

definition assert_open :: "(durable_store, unit) op" where
  "assert_open = check_or closed_exn is_open"

definition require_transaction :: "(durable_store, unit) op" where
  "require_transaction =
     andthen assert_open
       (check_or (LocalProtocolError ''durable mutation requires a transaction'') (\<lambda>s. ds_depth s \<noteq> 0))"

definition invalidate_local_intent :: "durable_store \<Rightarrow> durable_store" where
  "invalidate_local_intent s = s\<lparr>ds_intent_cached := False, ds_local_intent := None\<rparr>"

text \<open>
  The context manager \<open>transaction()\<close> around \<open>body\<close>. A raising body, a failing BEGIN and a failing
  COMMIT all restore the database of the (possibly nested) transaction's start, drop both
  mirrors and re-raise.
\<close>

definition transaction :: "tx_env \<Rightarrow> (durable_store, 'a) op \<Rightarrow> (durable_store, 'a) op" where
  "transaction env body s =
     (if \<not> is_open s then (Inl closed_exn, s)
      else if ds_depth s = 0 \<and> ds_foreign_tx s then
        (Inl (LocalProtocolError ''durable transaction cannot join another transaction''), s)
      else
        let s1 = invalidate_local_intent (s\<lparr>ds_depth := Suc (ds_depth s)\<rparr>);
            (r, s2) =
              (case env of
                 Begin_Fails \<Rightarrow> (Inl (DatabaseError ''begin''), s1)
               | _ \<Rightarrow>
                  (case body s1 of
                     (Inl e, t) \<Rightarrow> (Inl e, t\<lparr>ds_db := ds_db s1\<rparr>)
                   | (Inr a, t) \<Rightarrow>
                       if env = Commit_Fails then (Inl (DatabaseError ''commit''), t\<lparr>ds_db := ds_db s1\<rparr>)
                       else (Inr a, t)));
            s3 = (case r of Inl _ \<Rightarrow> s2\<lparr>ds_room_metadata := None, ds_loop_state := None\<rparr> | Inr _ \<Rightarrow> s2)
        in (r, invalidate_local_intent (s3\<lparr>ds_depth := ds_depth s3 - 1\<rparr>)))"

section \<open>Loop state\<close>

definition load_loop :: "durable_db \<Rightarrow> loop_state" where
  "load_loop d = \<lparr>ls_cursor = db_cursor d, ls_acked_sequence = db_acked d,
     ls_continuation = map_option snd (db_input d), ls_pending = map fst (db_batches d)\<rparr>"

definition state_op :: "(durable_store, loop_state) op" where
  "state_op s =
     (if \<not> is_open s then (Inl closed_exn, s)
      else case ds_loop_state s of
        Some l \<Rightarrow> (Inr l, s)
      | None \<Rightarrow> let l = load_loop (ds_db s) in (Inr l, s\<lparr>ds_loop_state := Some l\<rparr>))"

definition write_both ::
  "(durable_db \<Rightarrow> durable_db) \<Rightarrow> (loop_state \<Rightarrow> loop_state) \<Rightarrow> durable_store \<Rightarrow> durable_store" where
  "write_both f g s = s\<lparr>ds_db := f (ds_db s), ds_loop_state := map_option g (ds_loop_state s)\<rparr>"

definition cursor :: "(durable_store, string option) op" where
  "cursor = bnd state_op (\<lambda>st. ret (ls_cursor st))"

definition set_cursor :: "string \<Rightarrow> (durable_store, unit) op" where
  "set_cursor c =
     andthen require_transaction
      (bnd state_op (\<lambda>_. modify (write_both (db_cursor_update (\<lambda>_. Some c)) (ls_cursor_update (\<lambda>_. Some c)))))"

definition acked_sequence :: "(durable_store, nat) op" where
  "acked_sequence = bnd state_op (\<lambda>st. ret (ls_acked_sequence st))"

definition progress_of :: "loop_state \<Rightarrow> nat" where
  "progress_of st =
     (let newest = (if ls_pending st = [] then 0 else last (ls_pending st))
      in ls_acked_sequence st + max (ls_acked_sequence st) newest)"

definition progress_generation :: "(durable_store, nat) op" where
  "progress_generation = bnd state_op (\<lambda>st. ret (progress_of st))"

section \<open>Captured input\<close>

definition has_input :: "(durable_store, bool) op" where
  "has_input = bnd state_op (\<lambda>st. ret (ls_continuation st \<noteq> None))"

definition decode_continuation :: "json \<Rightarrow> exn + jobj" where
  "decode_continuation v = (case v of JObj d \<Rightarrow> Inr d
     | _ \<Rightarrow> Inl (LocalProtocolError ''invalid stored continuation''))"

definition continuation :: "(durable_store, jobj option) op" where
  "continuation = bnd state_op (\<lambda>st.
     case ls_continuation st of None \<Rightarrow> ret None
     | Some v \<Rightarrow> lift_res (rbind (decode_continuation v) (\<lambda>d. Inr (Some d))))"

definition input_op :: "(durable_store, (string \<times> jobj) option) op" where
  "input_op = bnd has_input (\<lambda>b. if \<not> b then ret None else bnd (reads (db_input o ds_db)) (\<lambda>row.
     case row of None \<Rightarrow> raise (TypeError ''NoneType'')
     | Some (body, v) \<Rightarrow> lift_res (rbind (decode_continuation v) (\<lambda>d. Inr (Some (body, d))))))"

definition capture :: "string \<Rightarrow> (durable_store, unit) op" where
  "capture body =
     andthen require_transaction
      (bnd state_op (\<lambda>st.
        if ls_continuation st \<noteq> None then
          raise (LocalProtocolError ''cannot replace unfinished durable response'')
        else andthen (check_or (DatabaseError ''UNIQUE constraint'') (\<lambda>s. db_input (ds_db s) = None))
          (modify (write_both (db_input_update (\<lambda>_. Some (body, JObj [])))
             (ls_continuation_update (\<lambda>_. Some (JObj [])))))))"

definition save_continuation :: "jobj \<Rightarrow> (durable_store, unit) op" where
  "save_continuation c =
     andthen require_transaction
      (bnd state_op (\<lambda>_. modify (write_both
         (db_input_update (map_option (\<lambda>r. (fst r, JObj c))))
         (ls_continuation_update (map_option (\<lambda>_. JObj c))))))"

definition finish_input :: "(durable_store, unit) op" where
  "finish_input =
     andthen require_transaction
      (bnd state_op (\<lambda>_. modify (write_both (db_input_update (\<lambda>_. None))
         (ls_continuation_update (\<lambda>_. None)))))"

section \<open>Batches\<close>

definition next_rowid :: "durable_db \<Rightarrow> nat" where
  "next_rowid d = Suc (foldr max (map fst (db_batches d)) (db_autoinc d))"

definition db_publish :: "json \<times> bool \<Rightarrow> durable_db \<Rightarrow> durable_db" where
  "db_publish r d = d\<lparr>db_batches := db_batches d @ [(next_rowid d, r)], db_autoinc := next_rowid d\<rparr>"

definition db_ack :: "nat \<Rightarrow> durable_db \<Rightarrow> durable_db" where
  "db_ack n d = d\<lparr>db_batches := filter (\<lambda>r. fst r \<noteq> n) (db_batches d), db_acked := n\<rparr>"

definition publish :: "sync_record list \<Rightarrow> bool \<Rightarrow> (durable_store, sync_batch) op" where
  "publish records completes =
     andthen require_transaction
      (bnd state_op (\<lambda>_. bnd (reads (next_rowid o ds_db)) (\<lambda>n.
        andthen (modify (write_both (db_publish (encode_records records, completes))
                   (ls_pending_update (\<lambda>p. p @ [n]))))
         (bnd (reads ds_stream_id) (\<lambda>sid.
            ret \<lparr>sb_stream_id = sid, sb_sequence = n, sb_records = records,
                 sb_completes_sync = completes\<rparr>)))))"

definition has_batches :: "(durable_store, bool) op" where
  "has_batches = bnd state_op (\<lambda>st. ret (ls_pending st \<noteq> []))"

definition queued_bytes :: "durable_db \<Rightarrow> nat" where
  "queued_bytes d = sum_list (map (\<lambda>r. json_size (fst (snd r))) (db_batches d))"

definition pending_bytes :: "(durable_store, nat) op" where
  "pending_bytes = andthen assert_open (reads (queued_bytes o ds_db))"

definition next_batch :: "(durable_store, sync_batch option) op" where
  "next_batch = bnd has_batches (\<lambda>b. if \<not> b then ret None else
     bnd (reads (\<lambda>s. (ds_stream_id s, db_batches (ds_db s)))) (\<lambda>x. case x of (sid, rows) \<Rightarrow>
       (case rows of [] \<Rightarrow> ret None
        | (n, v, c) # _ \<Rightarrow>
           (case decode_records v of
              Inr rs \<Rightarrow> ret (Some \<lparr>sb_stream_id = sid, sb_sequence = n, sb_records = rs,
                                  sb_completes_sync = c\<rparr>)
            | Inl e \<Rightarrow> raise (if stored_exn e then LocalProtocolError ''invalid stored durable batch''
                              else e)))))"

definition ack :: "tx_env \<Rightarrow> sync_batch \<Rightarrow> (durable_store, unit) op" where
  "ack env batch =
     andthen assert_open
      (andthen (check_or (LocalProtocolError ''batch belongs to another durable stream'')
                  (\<lambda>s. sb_stream_id batch = ds_stream_id s))
       (bnd state_op (\<lambda>st.
         if sb_sequence batch \<le> ls_acked_sequence st then ret ()
         else if ls_pending st = [] \<or> sb_sequence batch \<noteq> hd (ls_pending st) then
           raise (LocalProtocolError ''acknowledgement must name the oldest batch'')
         else transaction env
           (modify (write_both (db_ack (sb_sequence batch))
              (\<lambda>l. l\<lparr>ls_pending := tl (ls_pending l), ls_acked_sequence := sb_sequence batch\<rparr>))))))"

section \<open>Room rows and the local membership intent\<close>

definition load_room_metadata :: "(durable_store, (string, json) dict) op" where
  "load_room_metadata =
     andthen assert_open
      (andthen (modify (\<lambda>s. case ds_room_metadata s of Some _ \<Rightarrow> s
                        | None \<Rightarrow> s\<lparr>ds_room_metadata := Some (db_rooms (ds_db s))\<rparr>))
       (reads (\<lambda>s. case ds_room_metadata s of Some c \<Rightarrow> c | None \<Rightarrow> [])))"

definition save_room_metadata :: "string \<Rightarrow> json \<Rightarrow> (durable_store, unit) op" where
  "save_room_metadata room_id metadata =
     andthen require_transaction
      (bnd load_room_metadata (\<lambda>cache.
        if dget cache room_id = Some metadata then ret ()
        else modify (\<lambda>s. s\<lparr>ds_db := db_rooms_update (\<lambda>t. dset t room_id metadata) (ds_db s),
          ds_room_metadata := map_option (\<lambda>c. dset c room_id metadata) (ds_room_metadata s)\<rparr>)))"

definition intent_key :: "string \<times> string" where
  "intent_key = (''membership'', ''current'')"

definition read_local_intent :: "(durable_store, json option) op" where
  "read_local_intent =
     andthen assert_open
      (andthen (modify (\<lambda>s. if ds_intent_cached s then s
                   else s\<lparr>ds_intent_cached := True, ds_local_intent := dget (db_crypto (ds_db s)) intent_key\<rparr>))
       (reads ds_local_intent))"

definition save_local_intent :: "json \<Rightarrow> bool \<Rightarrow> (durable_store, unit) op" where
  "save_local_intent intent create =
     andthen require_transaction
      (andthen (check_or (DatabaseError ''UNIQUE constraint'')
                  (\<lambda>s. create \<longrightarrow> dget (db_crypto (ds_db s)) intent_key = None))
       (modify (\<lambda>s. invalidate_local_intent (s\<lparr>ds_db := db_crypto_update (\<lambda>t.
          if create \<or> din intent_key t then dset t intent_key intent else t) (ds_db s)\<rparr>))))"

definition delete_local_intent :: "(durable_store, unit) op" where
  "delete_local_intent =
     andthen require_transaction
      (modify (\<lambda>s. invalidate_local_intent (s\<lparr>ds_db := db_crypto_update
         (filter (\<lambda>p. fst (fst p) \<noteq> ''membership'')) (ds_db s)\<rparr>)))"

definition close :: "durable_store \<Rightarrow> durable_store" where
  "close s = (if ds_closed s then s else s\<lparr>ds_closed := True, ds_loop_state := None\<rparr>)"

section \<open>The mirror invariant and the queue invariant\<close>

text \<open>
  The mirrors agree with the connection's view of the database at every moment, also inside a
  transaction: a poll that reads a mirror reads what SQLite would return.
\<close>

definition mirrors_ok :: "durable_store \<Rightarrow> bool" where
  "mirrors_ok s =
     ((\<forall>l. ds_loop_state s = Some l \<longrightarrow> l = load_loop (ds_db s)) \<and>
      (\<forall>c. ds_room_metadata s = Some c \<longrightarrow> c = db_rooms (ds_db s)) \<and>
      (ds_intent_cached s \<longrightarrow> ds_local_intent s = dget (db_crypto (ds_db s)) intent_key))"

definition queue_ok :: "durable_db \<Rightarrow> bool" where
  "queue_ok d =
     (sorted_wrt (<) (map fst (db_batches d)) \<and>
      (\<forall>n \<in> set (map fst (db_batches d)). db_acked d < n \<and> n \<le> db_autoinc d) \<and>
      db_acked d \<le> db_autoinc d)"

definition store_ok :: "durable_store \<Rightarrow> bool" where
  "store_ok s = (mirrors_ok s \<and> queue_ok (ds_db s))"

lemma load_loop_simps [simp]:
  "ls_cursor (load_loop d) = db_cursor d" "ls_acked_sequence (load_loop d) = db_acked d"
  "ls_continuation (load_loop d) = map_option snd (db_input d)"
  "ls_pending (load_loop d) = map fst (db_batches d)"
  by (simp_all add: load_loop_def)

lemma foldr_max_bound: "(\<forall>n \<in> set xs. n \<le> (m::nat)) \<Longrightarrow> foldr max xs m = m"
  by (induction xs) (auto simp: max_def)

lemma next_rowid_eq: "queue_ok d \<Longrightarrow> next_rowid d = Suc (db_autoinc d)"
  by (simp add: next_rowid_def queue_ok_def foldr_max_bound)

lemma queue_ok_publish: "queue_ok d \<Longrightarrow> queue_ok (db_publish r d)"
  using next_rowid_eq[of d]
  by (force simp: queue_ok_def db_publish_def sorted_wrt_append)

lemma queue_head:
  assumes "queue_ok d" and "db_batches d = (n, r) # rows"
  shows "filter (\<lambda>x. fst x \<noteq> n) (db_batches d) = rows"
proof -
  have "\<forall>x \<in> set rows. fst x \<noteq> n"
    using assms by (auto simp: queue_ok_def)
  with assms(2) show ?thesis by simp
qed

lemma db_ack_head:
  "queue_ok d \<Longrightarrow> db_batches d = (n, r) # rows \<Longrightarrow> db_ack n d = d\<lparr>db_batches := rows, db_acked := n\<rparr>"
  using queue_head[of d n r rows] by (simp add: db_ack_def)

lemma queue_ok_ack: "queue_ok d \<Longrightarrow> db_batches d = (n, r) # rows \<Longrightarrow> queue_ok (db_ack n d)"
  by (auto simp: db_ack_head) (auto simp: queue_ok_def)

lemma queue_ok_frame:
  "db_batches d' = db_batches d \<Longrightarrow> db_acked d' = db_acked d \<Longrightarrow> db_autoinc d' = db_autoinc d \<Longrightarrow>
   queue_ok d' = queue_ok d"
  by (simp add: queue_ok_def)

lemma queue_ok_fresh [simp]: "queue_ok (fresh_db t)"
  by (simp add: queue_ok_def fresh_db_def)

lemma mirrors_ok_fresh [simp]: "mirrors_ok (fresh_store sid d)"
  by (simp add: mirrors_ok_def fresh_store_def)

lemma store_ok_fresh: "queue_ok d \<Longrightarrow> store_ok (fresh_store sid d)"
  by (simp add: store_ok_def) (simp add: fresh_store_def)

lemma mirrors_ok_invalidate: "mirrors_ok s \<Longrightarrow> mirrors_ok (invalidate_local_intent s)"
  by (simp add: mirrors_ok_def invalidate_local_intent_def)

lemma store_ok_state: "keeps store_ok state_op"
  by (auto simp: keeps_def state_op_def store_ok_def mirrors_ok_def Let_def split: option.splits)

lemma state_op_result: "store_ok s \<Longrightarrow> is_open s \<Longrightarrow>
  state_op s = (Inr (load_loop (ds_db s)), s\<lparr>ds_loop_state := Some (load_loop (ds_db s))\<rparr>)"
  by (auto simp: state_op_def store_ok_def mirrors_ok_def Let_def split: option.splits)

lemma store_ok_write_both:
  assumes "store_ok s"
    and "load_loop (f (ds_db s)) = g (load_loop (ds_db s))"
    and "db_rooms (f (ds_db s)) = db_rooms (ds_db s)"
    and "db_crypto (f (ds_db s)) = db_crypto (ds_db s)"
    and "queue_ok (f (ds_db s))"
  shows "store_ok (write_both f g s)"
  using assms by (auto simp: store_ok_def mirrors_ok_def write_both_def)

lemma keeps_guards [keeps_intros]:
  "keeps store_ok assert_open" "keeps store_ok require_transaction" "keeps store_ok state_op"
  unfolding assert_open_def require_transaction_def
  by (intro keeps_intros store_ok_state)+

lemma keeps_write_both:
  assumes "\<And>d. queue_ok d \<Longrightarrow> load_loop (f d) = g (load_loop d)"
    and "\<And>d. db_rooms (f d) = db_rooms d" and "\<And>d. db_crypto (f d) = db_crypto d"
    and "\<And>d. queue_ok d \<Longrightarrow> queue_ok (f d)"
  shows "keeps store_ok (modify (write_both f g))"
  using assms by (auto intro!: keeps_modify store_ok_write_both simp: store_ok_def)

text \<open>Preservation, operation by operation.\<close>

lemma keeps_reads_ops [keeps_intros]:
  "keeps store_ok cursor" "keeps store_ok acked_sequence" "keeps store_ok progress_generation"
  "keeps store_ok has_input" "keeps store_ok continuation" "keeps store_ok has_batches"
  "keeps store_ok pending_bytes"
  unfolding cursor_def acked_sequence_def progress_generation_def has_input_def continuation_def
    has_batches_def pending_bytes_def
  by (intro keeps_intros)+

lemma keeps_input [keeps_intros]: "keeps store_ok input_op" "keeps store_ok next_batch"
  unfolding input_op_def next_batch_def
  by (intro keeps_intros | simp split: option.split prod.split list.split sum.split, intro allI impI conjI)+

lemma keeps_set_cursor [keeps_intros]: "keeps store_ok (set_cursor c)"
  unfolding set_cursor_def
  by (intro keeps_intros keeps_write_both) (simp_all add: load_loop_def queue_ok_def)

lemma keeps_save_continuation [keeps_intros]: "keeps store_ok (save_continuation c)"
  unfolding save_continuation_def
  by (intro keeps_intros keeps_write_both)
    (simp_all add: load_loop_def queue_ok_def option.map_comp comp_def)

lemma keeps_finish_input [keeps_intros]: "keeps store_ok finish_input"
  unfolding finish_input_def
  by (intro keeps_intros keeps_write_both) (simp_all add: load_loop_def queue_ok_def)

lemma keeps_capture [keeps_intros]: "keeps store_ok (capture b)"
  unfolding capture_def
  by (intro keeps_intros keeps_write_both) (simp_all add: load_loop_def queue_ok_def)

lemma load_loop_publish:
  "load_loop (db_publish r d) = (load_loop d)\<lparr>ls_pending := map fst (db_batches d) @ [next_rowid d]\<rparr>"
  by (simp add: load_loop_def db_publish_def)

lemma publish_run:
  assumes "store_ok s" "is_open s" "ds_depth s \<noteq> 0"
  shows "publish rs c s =
    (Inr \<lparr>sb_stream_id = ds_stream_id s, sb_sequence = next_rowid (ds_db s), sb_records = rs,
          sb_completes_sync = c\<rparr>,
     s\<lparr>ds_db := db_publish (encode_records rs, c) (ds_db s),
       ds_loop_state := Some (load_loop (db_publish (encode_records rs, c) (ds_db s)))\<rparr>)"
  using assms
  by (simp add: publish_def require_transaction_def assert_open_def op_defs state_op_result
      write_both_def load_loop_publish)

lemma publish_refused: "\<not> is_open s \<or> ds_depth s = 0 \<Longrightarrow> \<exists>e. publish rs c s = (Inl e, s)"
  by (auto simp: publish_def require_transaction_def assert_open_def op_defs)

lemma keeps_publish [keeps_intros]: "keeps store_ok (publish rs c)"
proof (rule keepsI)
  fix s
  assume ok: "store_ok s"
  show "store_ok (snd (publish rs c s))"
  proof (cases "is_open s \<and> ds_depth s \<noteq> 0")
    case True
    with ok show ?thesis
      by (simp add: publish_run) (simp add: store_ok_def mirrors_ok_def queue_ok_publish, simp add: db_publish_def)
  next
    case False
    then obtain e where "publish rs c s = (Inl e, s)"
      using publish_refused[of s rs c] by auto
    with ok show ?thesis by simp
  qed
qed

lemma keeps_invalidate: "store_ok s \<Longrightarrow> store_ok (invalidate_local_intent s)"
  by (simp add: store_ok_def mirrors_ok_def invalidate_local_intent_def)

lemma keeps_transaction [keeps_intros]:
  assumes "keeps store_ok body"
  shows "keeps store_ok (transaction env body)"
proof (rule keepsI)
  fix s
  assume ok: "store_ok s"
  define s1 where "s1 = invalidate_local_intent (s\<lparr>ds_depth := Suc (ds_depth s)\<rparr>)"
  have "store_ok s1"
    using ok by (simp add: s1_def store_ok_def mirrors_ok_def invalidate_local_intent_def)
  then have "store_ok (snd (body s1))" and "queue_ok (ds_db s1)"
    using assms by (auto dest: keepsD simp: store_ok_def)
  then show "store_ok (snd (transaction env body s))"
    using ok unfolding transaction_def s1_def[symmetric] Let_def
    by (cases "body s1") (auto simp: store_ok_def mirrors_ok_def invalidate_local_intent_def
        split: tx_env.splits sum.splits)
qed

definition ack_body :: "nat \<Rightarrow> (durable_store, unit) op" where
  "ack_body n = modify (write_both (db_ack n)
     (\<lambda>l. l\<lparr>ls_pending := tl (ls_pending l), ls_acked_sequence := n\<rparr>))"

lemma ack_unfold:
  assumes "store_ok s"
  shows "ack env b s =
    (let s' = s\<lparr>ds_loop_state := Some (load_loop (ds_db s))\<rparr>; n = sb_sequence b in
     if \<not> is_open s then (Inl closed_exn, s)
     else if sb_stream_id b \<noteq> ds_stream_id s then
       (Inl (LocalProtocolError ''batch belongs to another durable stream''), s)
     else if n \<le> db_acked (ds_db s) then (Inr (), s')
     else if db_batches (ds_db s) = [] \<or> n \<noteq> fst (hd (db_batches (ds_db s))) then
       (Inl (LocalProtocolError ''acknowledgement must name the oldest batch''), s')
     else transaction env (ack_body n) s')"
  using assms by (simp add: ack_def assert_open_def op_basic state_op_result Let_def hd_map
      ack_body_def)

lemma store_ok_mirror: "store_ok s \<Longrightarrow> store_ok (s\<lparr>ds_loop_state := Some (load_loop (ds_db s))\<rparr>)"
  by (simp add: store_ok_def mirrors_ok_def)

lemma keeps_ack [keeps_intros]: "keeps store_ok (ack env b)"
proof (rule keepsI)
  fix s
  assume ok: "store_ok s"
  let ?n = "sb_sequence b" and ?s = "s\<lparr>ds_loop_state := Some (load_loop (ds_db s))\<rparr>"
  have "store_ok (snd (transaction env (ack_body ?n) ?s))"
    if "db_batches (ds_db s) = (?n, r) # rows" for r rows
    using ok that db_ack_head[OF _ that] queue_ok_ack[OF _ that]
    by (cases env) (auto simp: transaction_def Let_def ack_body_def modify_def write_both_def
        store_ok_def mirrors_ok_def invalidate_local_intent_def load_loop_def)
  then have "store_ok (snd (transaction env (ack_body ?n) ?s))"
    if "db_batches (ds_db s) \<noteq> []" "?n = fst (hd (db_batches (ds_db s)))"
    using that by (cases "db_batches (ds_db s)") force+
  then show "store_ok (snd (ack env b s))"
    using ok store_ok_mirror[OF ok] by (simp add: ack_unfold Let_def)
qed

lemma keeps_room_metadata [keeps_intros]:
  "keeps store_ok load_room_metadata" "keeps store_ok (save_room_metadata r m)"
proof -
  show *: "keeps store_ok load_room_metadata"
    unfolding load_room_metadata_def
    by (intro keeps_intros keeps_modify) (auto simp: store_ok_def mirrors_ok_def split: option.splits)
  show "keeps store_ok (save_room_metadata r m)"
    unfolding save_room_metadata_def
    by (intro keeps_intros keeps_modify *)
      (auto simp: store_ok_def mirrors_ok_def load_loop_def queue_ok_def)
qed

lemma keeps_intent [keeps_intros]:
  "keeps store_ok read_local_intent" "keeps store_ok (save_local_intent i c)"
  "keeps store_ok delete_local_intent"
  unfolding read_local_intent_def save_local_intent_def delete_local_intent_def
  by (intro keeps_intros keeps_modify;
      auto simp: store_ok_def mirrors_ok_def load_loop_def queue_ok_def invalidate_local_intent_def)+

lemma store_ok_close: "store_ok s \<Longrightarrow> store_ok (close s)"
  by (simp add: store_ok_def mirrors_ok_def close_def)

section \<open>The batch table as a queue\<close>

text \<open>
  What the session relies on of the batch table: a published row comes after every pending row,
  and removing the oldest row by its number leaves the others in order.
\<close>

locale fifo_log =
  fixes rows :: "'d \<Rightarrow> 'r list"
    and push :: "'p \<Rightarrow> 'd \<Rightarrow> 'd"
    and pop :: "'n \<Rightarrow> 'd \<Rightarrow> 'd"
    and label :: "'r \<Rightarrow> 'n"
    and payload :: "'r \<Rightarrow> 'p"
    and ok :: "'d \<Rightarrow> bool"
  assumes push_rows: "ok d \<Longrightarrow> \<exists>r. payload r = p \<and> rows (push p d) = rows d @ [r]"
    and pop_rows: "ok d \<Longrightarrow> rows d = r # rs \<Longrightarrow> rows (pop (label r) d) = rs"
    and ok_push: "ok d \<Longrightarrow> ok (push p d)"
    and ok_pop: "ok d \<Longrightarrow> rows d = r # rs \<Longrightarrow> ok (pop (label r) d)"
begin

lemma push_payloads: "ok d \<Longrightarrow> map payload (rows (push p d)) = map payload (rows d) @ [p]"
  using push_rows[of d p] by auto

lemma push_all_payloads:
  "ok d \<Longrightarrow> map payload (rows (fold push ps d)) = map payload (rows d) @ ps \<and> ok (fold push ps d)"
  by (induction ps arbitrary: d) (simp_all add: push_payloads ok_push)

lemma pop_payloads:
  "ok d \<Longrightarrow> rows d = r # rs \<Longrightarrow> payload r # map payload (rows (pop (label r) d)) = map payload (rows d)"
  by (simp add: pop_rows)

lemma push_keeps_head: "ok d \<Longrightarrow> rows d = r # rs \<Longrightarrow> \<exists>rs'. rows (push p d) = r # rs'"
  using push_rows[of d p] by auto

end

interpretation bq: fifo_log db_batches db_publish db_ack fst snd queue_ok
proof
  fix d :: durable_db and r rs
  assume *: "queue_ok d" "db_batches d = r # rs"
  then show "db_batches (db_ack (fst r) d) = rs" "queue_ok (db_ack (fst r) d)"
    using db_ack_head[OF *(1), of "fst r" "snd r" rs] queue_ok_ack[OF *(1), of "fst r" "snd r" rs]
    by simp_all
qed (simp_all add: db_publish_def queue_ok_publish[unfolded db_publish_def])

section \<open>Runs of transactions, acknowledgements and restarts\<close>

datatype mutation =
    Set_Cursor string
  | Capture string
  | Save_Continuation jobj
  | Finish_Input
  | Publish "sync_record list" bool
  | Save_Room string json
  | Abort exn

fun run_mutation :: "mutation \<Rightarrow> (durable_store, unit) op" where
  "run_mutation (Set_Cursor c) = set_cursor c"
| "run_mutation (Capture b) = capture b"
| "run_mutation (Save_Continuation c) = save_continuation c"
| "run_mutation Finish_Input = finish_input"
| "run_mutation (Publish rs c) = bnd (publish rs c) (\<lambda>_. ret ())"
| "run_mutation (Save_Room r m) = save_room_metadata r m"
| "run_mutation (Abort e) = raise e"

fun publication :: "mutation \<Rightarrow> (json \<times> bool) list" where
  "publication (Publish rs c) = [(encode_records rs, c)]"
| "publication _ = []"

definition publications :: "mutation list \<Rightarrow> (json \<times> bool) list" where
  "publications ms = concat (map publication ms)"

datatype store_cmd = Transact tx_env "mutation list" | Acknowledge tx_env nat | Poll | Reopen

record store_trace =
  tr_store :: durable_store
  tr_delivered :: "batch_row list"
  tr_published :: "(json \<times> bool) list"

definition batch_named :: "durable_store \<Rightarrow> nat \<Rightarrow> sync_batch" where
  "batch_named s n = \<lparr>sb_stream_id = ds_stream_id s, sb_sequence = n, sb_records = [],
     sb_completes_sync = False\<rparr>"

text \<open>
  One command and what it delivers and publishes: a transaction publishes its batches when it
  commits, an acknowledgement delivers the oldest row when it names it and returns. A restart
  keeps the database alone.
\<close>

fun trace_step :: "store_cmd \<Rightarrow> store_trace \<Rightarrow> store_trace" where
  "trace_step (Transact env ms) t =
     (case transaction env (for_each run_mutation ms) (tr_store t) of
        (Inl _, s) \<Rightarrow> t\<lparr>tr_store := s\<rparr>
      | (Inr _, s) \<Rightarrow> t\<lparr>tr_store := s, tr_published := tr_published t @ publications ms\<rparr>)"
| "trace_step (Acknowledge env n) t =
     (case ack env (batch_named (tr_store t) n) (tr_store t) of
        (Inl _, s) \<Rightarrow> t\<lparr>tr_store := s\<rparr>
      | (Inr _, s) \<Rightarrow> t\<lparr>tr_store := s, tr_delivered := tr_delivered t @
          (case db_batches (ds_db (tr_store t)) of r # _ \<Rightarrow> if fst r = n then [r] else [] | [] \<Rightarrow> [])\<rparr>)"
| "trace_step Poll t = t\<lparr>tr_store := snd (andthen progress_generation next_batch (tr_store t))\<rparr>"
| "trace_step Reopen t = t\<lparr>tr_store := fresh_store (ds_stream_id (tr_store t)) (ds_db (tr_store t))\<rparr>"

definition run_trace :: "store_cmd list \<Rightarrow> store_trace \<Rightarrow> store_trace" where
  "run_trace cs t = fold trace_step cs t"

text \<open>
  The life of a live store beyond the queue: besides transactions of mutations, a caller may poll
  at any moment, also inside a transaction and before or after any of its writes, which fills
  every mirror; it may replace or delete the local membership intent, acknowledge, reopen the
  database or close the store.
\<close>

datatype store_call = Mutate mutation | Save_Intent json bool | Delete_Intent | Ask

definition ask :: "(durable_store, unit) op" where
  "ask = andthen progress_generation (andthen next_batch (andthen load_room_metadata
     (andthen read_local_intent (ret ()))))"

fun run_call :: "store_call \<Rightarrow> (durable_store, unit) op" where
  "run_call (Mutate m) = run_mutation m"
| "run_call (Save_Intent i create) = save_local_intent i create"
| "run_call Delete_Intent = delete_local_intent"
| "run_call Ask = ask"

datatype life_cmd = Within tx_env "store_call list" | Outside store_call | Acks tx_env nat | Restart | Shut

fun life_step :: "life_cmd \<Rightarrow> durable_store \<Rightarrow> durable_store" where
  "life_step (Within env cs) s = snd (transaction env (for_each run_call cs) s)"
| "life_step (Outside c) s = snd (run_call c s)"
| "life_step (Acks env n) s = snd (ack env (batch_named s n) s)"
| "life_step Restart s = fresh_store (ds_stream_id s) (ds_db s)"
| "life_step Shut s = close s"

definition lifetime :: "life_cmd list \<Rightarrow> durable_store \<Rightarrow> durable_store" where
  "lifetime cs s = fold life_step cs s"

definition trace_ok :: "store_trace \<Rightarrow> bool" where
  "trace_ok t =
     (store_ok (tr_store t) \<and>
      map snd (tr_delivered t @ db_batches (ds_db (tr_store t))) = tr_published t \<and>
      sorted_wrt (<) (map fst (tr_delivered t)) \<and>
      (\<forall>n \<in> set (map fst (tr_delivered t)). n \<le> db_acked (ds_db (tr_store t))))"

lemma keeps_run_mutation [keeps_intros]: "keeps store_ok (run_mutation m)"
  by (cases m) (auto intro!: keeps_intros)

lemma state_op_db: "state_op s = (r, t) \<Longrightarrow> ds_db t = ds_db s"
  by (auto simp: state_op_def Let_def split: if_splits option.splits)

definition extends_rows :: "(json \<times> bool) list \<Rightarrow> durable_db \<Rightarrow> durable_db \<Rightarrow> bool" where
  "extends_rows ps d d' =
     (db_acked d' = db_acked d \<and> (\<exists>new. db_batches d' = db_batches d @ new \<and> map snd new = ps))"

lemma extends_rows_same:
  "db_batches d' = db_batches d \<Longrightarrow> db_acked d' = db_acked d \<Longrightarrow> extends_rows [] d d'"
  by (simp add: extends_rows_def)

lemma extends_rows_trans:
  "extends_rows ps d d' \<Longrightarrow> extends_rows qs d' d'' \<Longrightarrow> extends_rows (ps @ qs) d d''"
  by (auto simp: extends_rows_def)

lemma extends_rows_publish: "extends_rows [p] d (db_publish p d)"
  by (simp add: extends_rows_def db_publish_def)

lemma room_metadata_db: "load_room_metadata s = (r, t) \<Longrightarrow> ds_db t = ds_db s"
  by (auto simp: load_room_metadata_def assert_open_def op_defs split: if_splits option.splits)

lemma run_mutation_rows:
  assumes ok: "store_ok s" and run: "run_mutation m s = (Inr u, t)"
  shows "extends_rows (publication m) (ds_db s) (ds_db t)"
proof (cases m)
  case (Publish rs c)
  then have *: "is_open s \<and> ds_depth s \<noteq> 0"
    using run publish_refused[of s rs c] by (cases "is_open s"; cases "ds_depth s") (auto simp: bnd_Inr_iff)
  have "ds_db t = db_publish (encode_records rs, c) (ds_db s)"
    using run Publish publish_run[OF ok, of rs c] *
    by (auto simp: bnd_Inr_iff ret_def)
  then show ?thesis
    using Publish extends_rows_publish by simp
next
  case (Save_Room r j)
  then show ?thesis
    using run by (auto simp: save_room_metadata_def require_transaction_def assert_open_def
        bnd_Inr_iff check_or_def modify_def ret_def dest!: room_metadata_db
        intro!: extends_rows_same split: if_splits)
qed (use run in \<open>auto simp: set_cursor_def capture_def save_continuation_def finish_input_def
      require_transaction_def assert_open_def bnd_Inr_iff check_or_def modify_def ret_def raise_def
      write_both_def dest!: state_op_db intro!: extends_rows_same split: if_splits\<close>)

lemma run_mutations_rows:
  "store_ok s \<Longrightarrow> for_each run_mutation ms s = (Inr u, t) \<Longrightarrow>
   extends_rows (publications ms) (ds_db s) (ds_db t)"
proof (induction ms arbitrary: s)
  case Nil
  then show ?case by (simp add: ret_def publications_def extends_rows_def)
next
  case (Cons m ms)
  then obtain s1 where s1: "run_mutation m s = (Inr (), s1)" "for_each run_mutation ms s1 = (Inr u, t)"
    by (auto simp: bnd_Inr_iff)
  then have "store_ok s1"
    using Cons.prems(1) keepsD[OF keeps_run_mutation, of s m] by simp
  then show ?case
    using Cons.IH s1 extends_rows_trans[OF run_mutation_rows[OF Cons.prems(1) s1(1)]]
    by (simp add: publications_def)
qed

text \<open>Atomicity of the transaction boundary: all of the body's writes, or none.\<close>

lemma transaction_Inl_db: "transaction env body s = (Inl e, t) \<Longrightarrow> ds_db t = ds_db s"
  by (auto simp: transaction_def Let_def invalidate_local_intent_def
      split: if_splits prod.splits sum.splits tx_env.splits)

lemma transaction_Inr_db:
  assumes "transaction env body s = (Inr a, t)" "store_ok s"
  obtains s1 u where "store_ok s1" "ds_db s1 = ds_db s" "is_open s1" "ds_depth s1 = Suc (ds_depth s)"
    "body s1 = (Inr a, u)" "ds_db t = ds_db u" "env = Tx_Ok"
proof -
  let ?s1 = "invalidate_local_intent (s\<lparr>ds_depth := Suc (ds_depth s)\<rparr>)"
  have "store_ok ?s1" "ds_db ?s1 = ds_db s" "ds_depth ?s1 = Suc (ds_depth s)"
    using assms(2) by (simp_all add: store_ok_def mirrors_ok_def invalidate_local_intent_def)
  moreover have "is_open ?s1"
    using assms(1) by (auto simp: transaction_def is_open_def invalidate_local_intent_def split: if_splits)
  moreover obtain u where "body ?s1 = (Inr a, u)" "ds_db t = ds_db u" "env = Tx_Ok"
    using assms(1) by (auto simp: transaction_def Let_def invalidate_local_intent_def
        split: if_splits prod.splits sum.splits tx_env.splits)
  ultimately show thesis using that[of ?s1 u] by blast
qed

lemma store_ok_step: "store_ok (tr_store t) \<Longrightarrow> store_ok (tr_store (trace_step c t))"
proof (induction c t rule: trace_step.induct)
  case (1 env ms t)
  moreover have "keeps store_ok (transaction env (for_each run_mutation ms))"
    by (intro keeps_intros)
  ultimately show ?case
    by (auto dest!: keepsD split: prod.splits sum.splits)
next
  case (2 env n t)
  then show ?case
    using keepsD[OF keeps_ack, of "tr_store t" env "batch_named (tr_store t) n"]
    by (auto split: prod.splits sum.splits)
next
  case (3 t)
  moreover have "keeps store_ok (andthen progress_generation next_batch)"
    by (intro keeps_intros)
  ultimately show ?case
    by (simp add: keepsD)
next
  case (4 t)
  then show ?case
    by (simp add: store_ok_fresh store_ok_def[of "tr_store t"])
qed

lemma ack_Inr_cases:
  assumes "ack env b s = (Inr u, t)" "store_ok s"
  obtains (stale) "sb_sequence b \<le> db_acked (ds_db s)" "ds_db t = ds_db s"
  | (popped) r rows where "db_batches (ds_db s) = (sb_sequence b, r) # rows"
      "ds_db t = db_ack (sb_sequence b) (ds_db s)" "env = Tx_Ok"
proof (cases "sb_sequence b \<le> db_acked (ds_db s)")
  case True
  then have "ds_db t = ds_db s"
    using assms by (auto simp: ack_unfold Let_def split: if_splits)
  with True stale show thesis by blast
next
  case False
  let ?s = "s\<lparr>ds_loop_state := Some (load_loop (ds_db s))\<rparr>"
  have run: "transaction env (ack_body (sb_sequence b)) ?s = (Inr u, t)"
    and head: "db_batches (ds_db s) \<noteq> []" "sb_sequence b = fst (hd (db_batches (ds_db s)))"
    using assms False by (auto simp: ack_unfold Let_def split: if_splits)
  from run obtain s1 v where "ds_db s1 = ds_db ?s" "env = Tx_Ok" "ds_db t = ds_db v"
    "ack_body (sb_sequence b) s1 = (Inr u, v)"
    using store_ok_mirror[OF assms(2)] by (elim transaction_Inr_db)
  then have "ds_db t = db_ack (sb_sequence b) (ds_db s)" "env = Tx_Ok"
    by (auto simp: ack_body_def modify_def write_both_def)
  moreover obtain r rows where "db_batches (ds_db s) = (sb_sequence b, r) # rows"
    using head by (cases "db_batches (ds_db s)") auto
  ultimately show thesis using popped by blast
qed

lemma ack_Inl_db: "ack env b s = (Inl e, t) \<Longrightarrow> store_ok s \<Longrightarrow> ds_db t = ds_db s"
  by (auto simp: ack_unfold Let_def dest: transaction_Inl_db split: if_splits)

lemma bnd_db:
  "(\<And>s. ds_db (snd (m s)) = ds_db s) \<Longrightarrow> (\<And>a s. ds_db (snd (f a s)) = ds_db s) \<Longrightarrow>
   ds_db (snd (bnd m f s)) = ds_db s"
  by (simp add: bnd_def split: prod.splits sum.splits) (metis snd_conv)

lemma state_op_snd: "ds_db (snd (state_op s)) = ds_db s"
  using state_op_db[of s "fst (state_op s)"] by simp

lemma poll_db: "ds_db (snd (andthen progress_generation next_batch s)) = ds_db s"
  unfolding progress_generation_def next_batch_def has_batches_def
  by (intro bnd_db state_op_snd) (auto simp: op_defs split: prod.splits list.splits sum.splits intro!: bnd_db)

lemma trace_ok_step:
  assumes "trace_ok t"
  shows "trace_ok (trace_step c t)"
proof -
  have ok: "store_ok (tr_store t)" using assms by (simp add: trace_ok_def)
  note next_ok = store_ok_step[OF ok, of c]
  show ?thesis
  proof (cases c)
    case (Transact env ms)
    show ?thesis
    proof (cases "transaction env (for_each run_mutation ms) (tr_store t)")
      case (Pair r s)
      show ?thesis
      proof (cases r)
        case (Inl e)
        then show ?thesis
          using assms next_ok Transact Pair
            transaction_Inl_db[of env "for_each run_mutation ms" "tr_store t" e s]
          by (simp add: trace_ok_def)
      next
        case (Inr u)
        then have "extends_rows (publications ms) (ds_db (tr_store t)) (ds_db s)"
          using transaction_Inr_db[OF _ ok] Pair run_mutations_rows by metis
        moreover have "store_ok s"
          using next_ok Transact Pair Inr by simp
        ultimately show ?thesis
          using assms Transact Pair Inr
          by (auto simp: trace_ok_def extends_rows_def)
      qed
    qed
  next
    case (Acknowledge env n)
    show ?thesis
    proof (cases "ack env (batch_named (tr_store t) n) (tr_store t)")
      case (Pair r s)
      show ?thesis
      proof (cases r)
        case (Inl e)
        then show ?thesis
          using assms next_ok Acknowledge Pair ack_Inl_db[OF _ ok]
          by (simp add: trace_ok_def)
      next
        case (Inr u)
        with Pair have "ack env (batch_named (tr_store t) n) (tr_store t) = (Inr u, s)" by simp
        then show ?thesis
        proof (cases rule: ack_Inr_cases[OF _ ok, consumes 1, case_names stale popped])
          case stale
          moreover have "\<forall>m \<in> set (map fst (db_batches (ds_db (tr_store t)))). m \<noteq> n"
            using stale ok by (auto simp: store_ok_def queue_ok_def batch_named_def)
          ultimately show ?thesis
            using assms next_ok Acknowledge Pair Inr
            by (auto simp: trace_ok_def split: list.splits)
        next
          case (popped r rows)
          then show ?thesis
            using assms next_ok Acknowledge Pair Inr ok db_ack_head[of "ds_db (tr_store t)" n r rows]
            by (fastforce simp: trace_ok_def store_ok_def queue_ok_def sorted_wrt_append batch_named_def)
        qed
      qed
    qed
  next
    case Poll
    then show ?thesis
      using assms next_ok poll_db[of "tr_store t"] by (simp add: trace_ok_def)
  next
    case Reopen
    then show ?thesis
      using assms next_ok by (simp add: trace_ok_def fresh_store_def)
  qed
qed

lemma trace_ok_run: "trace_ok t \<Longrightarrow> trace_ok (run_trace cs t)"
  unfolding run_trace_def by (induction cs arbitrary: t) (simp_all add: trace_ok_step)

definition new_trace :: "string \<Rightarrow> string option \<Rightarrow> store_trace" where
  "new_trace sid token = \<lparr>tr_store = fresh_store sid (fresh_db token), tr_delivered = [], tr_published = []\<rparr>"

lemma trace_ok_new: "trace_ok (new_trace sid token)"
  by (simp add: trace_ok_def new_trace_def store_ok_fresh) (simp add: fresh_store_def fresh_db_def)

section \<open>Properties\<close>

text \<open>C1: whatever sequence of transactions (committing, raising, or failing to begin or commit),
  acknowledgements, polls and restarts runs against a newly adopted store, the batches delivered
  so far followed by the batches still pending are exactly the batches of the committed
  transactions, in publication order and with strictly increasing sequence numbers: none is lost,
  repeated or reordered.\<close>

theorem exactly_once_in_order:
  "let t = run_trace cs (new_trace sid token); rows = tr_delivered t @ db_batches (ds_db (tr_store t))
   in map snd rows = tr_published t \<and> sorted_wrt (<) (map fst rows)"
proof -
  have "trace_ok (run_trace cs (new_trace sid token))"
    by (intro trace_ok_run trace_ok_new)
  then show ?thesis
    by (fastforce simp: trace_ok_def store_ok_def queue_ok_def Let_def sorted_wrt_append)
qed

text \<open>C13: a transaction whose body raises at any point, or whose BEGIN or COMMIT fails, leaves the
  database exactly as it found it, and the next poll reads that database, not the speculative
  writes.\<close>

theorem transaction_all_or_nothing:
  assumes "store_ok s" and "keeps store_ok body" and "transaction env body s = (Inl e, t)"
  shows "ds_db t = ds_db s \<and> store_ok t \<and>
    (is_open t \<longrightarrow> fst (state_op t) = Inr (load_loop (ds_db s)))"
proof -
  have db: "ds_db t = ds_db s"
    using assms(3) by (rule transaction_Inl_db)
  have ok: "store_ok t"
    using keepsD[OF keeps_transaction[OF assms(2)] assms(1), of env] assms(3) by simp
  show ?thesis
    using db ok state_op_result[OF ok] by simp
qed

theorem transaction_all_or_nothing_witness:
  "let s = fresh_store ''s'' (fresh_db None);
       body = (andthen (publish [] False) (raise (ValueError ''x'')) :: (durable_store, unit) op);
       t = snd (transaction Tx_Ok body s)
   in ds_db t = ds_db s \<and> store_ok t \<and> fst (state_op t) = Inr (load_loop (ds_db s))"
proof -
  let ?s = "fresh_store ''s'' (fresh_db None)"
  let ?body = "andthen (publish [] False) (raise (ValueError ''x'')) :: (durable_store, unit) op"
  have ok: "store_ok ?s" by (simp add: store_ok_fresh)
  have k: "keeps store_ok ?body" by (intro keeps_intros)
  obtain t where t: "transaction Tx_Ok ?body ?s = (Inl (ValueError ''x''), t)" "is_open t"
    by (simp add: transaction_def is_open_def fresh_store_def invalidate_local_intent_def publish_def
        require_transaction_def assert_open_def op_basic state_op_def Let_def write_both_def)
  show ?thesis
    using transaction_all_or_nothing[OF ok k t(1)] t by (simp add: Let_def)
qed

text \<open>A captured response that is not finished is never replaced: \<open>capture\<close> raises and changes
  nothing in the database.\<close>

theorem capture_keeps_unfinished_input:
  assumes "store_ok s" and "db_input (ds_db s) = Some row"
  shows "\<exists>e t. capture body s = (Inl e, t) \<and> ds_db t = ds_db s"
  using assms
  by (cases "is_open s")
    (auto simp: capture_def require_transaction_def assert_open_def op_basic state_op_result)

theorem capture_keeps_unfinished_input_witness:
  "\<exists>e t. capture ''new'' ((fresh_store ''s'' ((fresh_db None)\<lparr>db_input := Some (''old'', JObj [])\<rparr>))
      \<lparr>ds_depth := 1\<rparr>) = (Inl e, t) \<and> db_input (ds_db t) = Some (''old'', JObj [])"
proof -
  let ?d = "(fresh_db None)\<lparr>db_input := Some (''old'', JObj [])\<rparr>"
  have "queue_ok ?d" by (simp add: queue_ok_def fresh_db_def)
  then have "store_ok ((fresh_store ''s'' ?d)\<lparr>ds_depth := 1\<rparr>)"
    by (simp add: store_ok_def mirrors_ok_def fresh_store_def)
  from capture_keeps_unfinished_input[OF this, of "(''old'', JObj [])" "''new''"]
  show ?thesis by (auto simp: fresh_store_def)
qed

definition progress :: "store_trace \<Rightarrow> nat" where
  "progress t = progress_of (load_loop (ds_db (tr_store t)))"

lemma progress_rows:
  "queue_ok d \<Longrightarrow> progress_of (load_loop d) =
     (if db_batches d = [] then 2 * db_acked d else db_acked d + fst (last (db_batches d)))"
proof (cases "db_batches d = []")
  case False
  assume "queue_ok d"
  with last_in_set[OF False] have "db_acked d < fst (last (db_batches d))"
    by (auto simp: queue_ok_def)
  with False show ?thesis
    by (simp add: progress_of_def Let_def last_map max_def)
qed (simp add: progress_of_def Let_def)

lemma progress_extend:
  assumes "queue_ok d" "queue_ok d'" "extends_rows ps d d'" "ps \<noteq> []"
  shows "progress_of (load_loop d) < progress_of (load_loop d')"
proof -
  obtain new where new: "db_batches d' = db_batches d @ new" "new \<noteq> []" "db_acked d' = db_acked d"
    using assms(3,4) by (auto simp: extends_rows_def)
  then have last: "last new \<in> set (db_batches d')" "last (db_batches d') = last new"
    by auto
  have "db_acked d' < fst (last new)"
    using assms(2) last by (auto simp: queue_ok_def)
  moreover have "db_batches d \<noteq> [] \<Longrightarrow> fst (last (db_batches d)) < fst (last new)"
    using assms(2) new by (auto simp: queue_ok_def sorted_wrt_append)
  ultimately show ?thesis
    using assms(1,2) new last by (simp add: progress_rows)
qed

lemma progress_ack:
  "queue_ok d \<Longrightarrow> db_batches d = (n, r) # rows \<Longrightarrow>
   progress_of (load_loop d) < progress_of (load_loop (db_ack n d))"
  using queue_ok_ack[of d n r rows]
  by (auto simp: progress_rows db_ack_head queue_ok_def)

text \<open>Progress is monotone: no command of a run lowers \<open>progress_generation\<close>, and a command that
  commits a publication or delivers a batch raises it strictly, so a supervisor that watches it
  sees every step of work.\<close>

theorem progress_monotone:
  assumes "trace_ok t"
  shows "progress t \<le> progress (trace_step c t) \<and>
    (length (tr_published t) < length (tr_published (trace_step c t)) \<or>
     length (tr_delivered t) < length (tr_delivered (trace_step c t))
       \<longrightarrow> progress t < progress (trace_step c t))"
proof -
  have ok: "store_ok (tr_store t)" and q: "queue_ok (ds_db (tr_store t))"
    using assms by (simp_all add: trace_ok_def store_ok_def)
  have q': "queue_ok (ds_db (tr_store (trace_step c t)))"
    using store_ok_step[OF ok, of c] by (simp add: store_ok_def)
  show ?thesis
  proof (cases c)
    case (Transact env ms)
    obtain r s where run: "transaction env (for_each run_mutation ms) (tr_store t) = (r, s)"
      by (cases "transaction env (for_each run_mutation ms) (tr_store t)")
    show ?thesis
    proof (cases r)
      case (Inl e)
      then show ?thesis
        using Transact run transaction_Inl_db[of env "for_each run_mutation ms" "tr_store t" e s]
        by (simp add: progress_def)
    next
      case (Inr u)
      then have ext: "extends_rows (publications ms) (ds_db (tr_store t)) (ds_db s)"
        using transaction_Inr_db[OF _ ok] run run_mutations_rows by metis
      show ?thesis
      proof (cases "publications ms = []")
        case True
        then have "db_batches (ds_db s) = db_batches (ds_db (tr_store t))"
          "db_acked (ds_db s) = db_acked (ds_db (tr_store t))"
          using ext by (auto simp: extends_rows_def)
        then show ?thesis
          using Transact run Inr True by (simp add: progress_def load_loop_def progress_of_def)
      next
        case False
        then show ?thesis
          using progress_extend[OF q _ ext] q' Transact run Inr by (simp add: progress_def)
      qed
    qed
  next
    case (Acknowledge env n)
    obtain r s where run: "ack env (batch_named (tr_store t) n) (tr_store t) = (r, s)"
      by (cases "ack env (batch_named (tr_store t) n) (tr_store t)")
    show ?thesis
    proof (cases r)
      case (Inl e)
      then show ?thesis
        using Acknowledge run ack_Inl_db[OF _ ok] by (simp add: progress_def)
    next
      case (Inr u)
      with run have run': "ack env (batch_named (tr_store t) n) (tr_store t) = (Inr u, s)" by simp
      from run' ok show ?thesis
      proof (cases rule: ack_Inr_cases[consumes 2, case_names stale popped])
        case stale
        moreover have "\<forall>m \<in> set (map fst (db_batches (ds_db (tr_store t)))). m \<noteq> n"
          using stale q by (auto simp: queue_ok_def batch_named_def)
        ultimately show ?thesis
          using Acknowledge run Inr by (auto simp: progress_def split: list.splits)
      next
        case (popped r rows)
        then show ?thesis
          using Acknowledge run Inr progress_ack[OF q, of n r rows]
          by (simp add: progress_def batch_named_def)
      qed
    qed
  next
    case Poll
    then show ?thesis using poll_db[of "tr_store t"] by (simp add: progress_def)
  next
    case Reopen
    then show ?thesis by (simp add: progress_def fresh_store_def)
  qed
qed

theorem progress_monotone_witness:
  "let t = new_trace ''s'' None; c = Transact Tx_Ok [Publish [] True]
   in length (tr_published t) < length (tr_published (trace_step c t)) \<and>
      progress t < progress (trace_step c t)"
proof -
  let ?t = "new_trace ''s'' None" and ?c = "Transact Tx_Ok [Publish [] True]"
  have "length (tr_published ?t) < length (tr_published (trace_step ?c ?t))"
    by (simp add: new_trace_def transaction_def is_open_def fresh_store_def invalidate_local_intent_def
        publish_def require_transaction_def assert_open_def op_basic state_op_def Let_def write_both_def
        publications_def)
  then show ?thesis
    using progress_monotone[OF trace_ok_new, of "''s''" None ?c] by (simp add: Let_def)
qed

text \<open>C28: acknowledgement, branch by branch: a foreign stream is refused, a number at or below the
  acknowledged one is accepted again without effect, any other number than the oldest pending one
  is refused, and the oldest one removes exactly its own row and becomes the acknowledged number.\<close>

theorem ack_branches:
  assumes "store_ok s" and "is_open s" and "ds_depth s = 0" and "\<not> ds_foreign_tx s"
  shows "let (r, t) = ack Tx_Ok b s; d = ds_db s; n = sb_sequence b in
    (if sb_stream_id b \<noteq> ds_stream_id s then (\<exists>e. r = Inl e) \<and> ds_db t = d
     else if n \<le> db_acked d then r = Inr () \<and> ds_db t = d
     else case db_batches d of
       [] \<Rightarrow> (\<exists>e. r = Inl e) \<and> ds_db t = d
     | (m, p) # rows \<Rightarrow>
         if m = n then r = Inr () \<and> ds_db t = d\<lparr>db_batches := rows, db_acked := n\<rparr>
         else (\<exists>e. r = Inl e) \<and> ds_db t = d)"
proof (cases "db_batches (ds_db s)")
  case Nil
  then show ?thesis using assms by (simp add: ack_unfold Let_def)
next
  case (Cons x rows)
  then show ?thesis
    using assms db_ack_head[of "ds_db s" "fst x" "snd x" rows]
    by (cases x) (auto simp: ack_unfold Let_def transaction_def is_open_def invalidate_local_intent_def
        ack_body_def modify_def write_both_def store_ok_def)
qed

theorem ack_branches_witness:
  "let s = fresh_store ''s'' (db_publish (JArr [], False) (fresh_db None)) in
   ds_db (snd (ack Tx_Ok (batch_named s 1) s)) = (ds_db s)\<lparr>db_batches := [], db_acked := 1\<rparr>"
proof -
  let ?s = "fresh_store ''s'' (db_publish (JArr [], False) (fresh_db None))"
  have "store_ok ?s" by (intro store_ok_fresh queue_ok_publish queue_ok_fresh)
  from ack_branches[OF this, of "batch_named ?s 1"] show ?thesis
    by (simp add: is_open_def fresh_store_def batch_named_def db_publish_def fresh_db_def next_rowid_def
        Let_def split: prod.splits)
qed

text \<open>Every poll of the sync loop answers from a coherent mirror what the database holds.\<close>

definition same_answers :: "durable_store \<Rightarrow> durable_store \<Rightarrow> bool" where
  "same_answers s s' \<longleftrightarrow>
    fst (cursor s) = fst (cursor s') \<and> fst (acked_sequence s) = fst (acked_sequence s') \<and>
    fst (progress_generation s) = fst (progress_generation s') \<and>
    fst (has_input s) = fst (has_input s') \<and> fst (continuation s) = fst (continuation s') \<and>
    fst (input_op s) = fst (input_op s') \<and> fst (has_batches s) = fst (has_batches s') \<and>
    fst (next_batch s) = fst (next_batch s') \<and> fst (read_local_intent s) = fst (read_local_intent s') \<and>
    fst (load_room_metadata s) = fst (load_room_metadata s')"

lemma coherent_answers:
  assumes "store_ok s" and "is_open s"
  shows "same_answers s (fresh_store (ds_stream_id s) (ds_db s))"
proof -
  define s' where "s' = fresh_store (ds_stream_id s) (ds_db s)"
  have ok': "store_ok s'" and op': "is_open s'" and db: "ds_db s' = ds_db s"
    and sid: "ds_stream_id s' = ds_stream_id s"
    using assms by (simp_all add: s'_def store_ok_fresh store_ok_def[of s])
      (simp_all add: fresh_store_def is_open_def)
  note st = state_op_result[OF assms] state_op_result[OF ok' op']
  have polls: "fst (cursor s) = fst (cursor s')" "fst (acked_sequence s) = fst (acked_sequence s')"
    "fst (progress_generation s) = fst (progress_generation s')"
    "fst (has_input s) = fst (has_input s')" "fst (has_batches s) = fst (has_batches s')"
    by (simp_all add: cursor_def acked_sequence_def progress_generation_def has_input_def
        has_batches_def op_basic st db)
  have rows: "fst (continuation s) = fst (continuation s')" "fst (input_op s) = fst (input_op s')"
    "fst (next_batch s) = fst (next_batch s')"
    by (simp_all add: continuation_def input_op_def next_batch_def has_input_def has_batches_def
        op_basic st db sid split: option.split list.split prod.split sum.split)
  have "fst (read_local_intent s) = fst (read_local_intent s')"
    "fst (load_room_metadata s) = fst (load_room_metadata s')"
    using assms ok' op' db
    by (auto simp: read_local_intent_def load_room_metadata_def assert_open_def op_basic store_ok_def
        mirrors_ok_def split: option.split)
  with polls rows show ?thesis
    by (simp add: s'_def[symmetric] same_answers_def)
qed

lemma keeps_run_call [keeps_intros]: "keeps store_ok (run_call c)"
  by (cases c) (auto simp: ask_def intro!: keeps_intros)

lemma store_ok_life: "store_ok s \<Longrightarrow> store_ok (life_step c s)"
proof (cases c)
  case (Within env cs)
  assume s: "store_ok s"
  have "keeps store_ok (for_each run_call cs)" by (intro keeps_intros)
  from keepsD[OF keeps_transaction[OF this] s] show ?thesis by (simp add: Within)
qed (simp_all add: keepsD[OF keeps_run_call] keepsD[OF keeps_ack] store_ok_close store_ok_fresh store_ok_def[of s])

lemma store_ok_lifetime: "store_ok s \<Longrightarrow> store_ok (lifetime cs s)"
  unfolding lifetime_def by (induction cs arbitrary: s) (simp_all add: store_ok_life)

text \<open>C26: the mirrors are transparent: after whatever a caller did to a newly adopted store (transactions
  of any operations that commit, raise or fail to begin or commit, polls inside and outside them,
  acknowledgements, restarts), a store that is still open answers every poll of the sync loop as a
  store reopened on the same database answers it.\<close>

theorem restart_transparent:
  assumes "s = lifetime cs (fresh_store sid (fresh_db token))" and "is_open s"
  shows "let s' = fresh_store (ds_stream_id s) (ds_db s) in
    fst (cursor s) = fst (cursor s') \<and> fst (acked_sequence s) = fst (acked_sequence s') \<and>
    fst (progress_generation s) = fst (progress_generation s') \<and>
    fst (has_input s) = fst (has_input s') \<and> fst (continuation s) = fst (continuation s') \<and>
    fst (input_op s) = fst (input_op s') \<and> fst (has_batches s) = fst (has_batches s') \<and>
    fst (next_batch s) = fst (next_batch s') \<and> fst (read_local_intent s) = fst (read_local_intent s') \<and>
    fst (load_room_metadata s) = fst (load_room_metadata s')"
proof -
  have "store_ok s" by (simp add: assms(1) store_ok_lifetime store_ok_fresh)
  from coherent_answers[OF this assms(2)] show ?thesis by (simp add: same_answers_def Let_def)
qed

definition sample_life :: "life_cmd list" where
  "sample_life =
     [Outside Ask,
      Within Tx_Ok [Ask, Mutate (Set_Cursor ''c''), Mutate (Publish [] True), Mutate (Save_Room ''!r'' JNull),
        Save_Intent JNull True, Ask],
      Within Tx_Ok [Mutate (Set_Cursor ''d''), Mutate (Abort (ValueError ''x''))],
      Outside Ask]"

theorem restart_transparent_witness:
  "let s = lifetime sample_life (fresh_store ''s'' (fresh_db None)); s' = fresh_store (ds_stream_id s) (ds_db s) in
   ds_loop_state s \<noteq> None \<and> ds_room_metadata s = Some [(''!r'', JNull)] \<and> ds_local_intent s = Some JNull \<and>
   ds_loop_state s' = None \<and> fst (cursor s) = Inr (Some ''c'') \<and> fst (cursor s') = Inr (Some ''c'') \<and>
   fst (next_batch s) = fst (next_batch s')"
proof -
  let ?s = "lifetime sample_life (fresh_store ''s'' (fresh_db None))"
  have mirrors: "is_open ?s \<and> ds_loop_state ?s \<noteq> None \<and> ds_room_metadata ?s = Some [(''!r'', JNull)] \<and>
      ds_local_intent ?s = Some JNull \<and> fst (cursor ?s) = Inr (Some ''c'')"
    by code_simp
  have "ds_loop_state (fresh_store sid d) = None" for sid d by (simp add: fresh_store_def)
  then show ?thesis
    using restart_transparent[OF refl, of sample_life "''s''" None] mirrors by (simp add: Let_def)
qed

text \<open>The consumer is handed the oldest pending batch with the records that were published in
  it; a store with no pending batch hands out nothing.\<close>

theorem next_batch_oldest:
  assumes "store_ok s" and "is_open s"
    and "\<forall>r \<in> set (db_batches (ds_db s)).
           \<exists>rs. list_all record_ok rs \<and> fst (snd r) = encode_records rs"
  shows "case db_batches (ds_db s) of
      [] \<Rightarrow> fst (next_batch s) = Inr None
    | (n, v, c) # _ \<Rightarrow> \<exists>rs. v = encode_records rs \<and>
        fst (next_batch s) = Inr (Some \<lparr>sb_stream_id = ds_stream_id s, sb_sequence = n,
          sb_records = rs, sb_completes_sync = c\<rparr>)"
proof (cases "db_batches (ds_db s)")
  case Nil
  then show ?thesis
    by (simp add: next_batch_def has_batches_def op_basic state_op_result[OF assms(1,2)])
next
  case (Cons x rows)
  obtain n v c where x: "x = (n, v, c)" by (cases x)
  with assms(3) Cons obtain rs where rs: "list_all record_ok rs" "v = encode_records rs"
    by auto
  then have "decode_records v = Inr rs"
    unfolding rs(2) decode_records_def encode_records_def
    by (induction rs arbitrary: v) (simp_all add: encode_record_roundtrip)
  then show ?thesis
    using Cons x rs
    by (auto simp: next_batch_def has_batches_def op_basic state_op_result[OF assms(1,2)])
qed

theorem next_batch_oldest_witness:
  "let s = fresh_store ''s'' (db_publish (encode_records [sample_record], False) (fresh_db None)) in
   \<exists>b. fst (next_batch s) = Inr (Some b) \<and> encode_records (sb_records b) = encode_records [sample_record]"
proof -
  let ?s = "fresh_store ''s'' (db_publish (encode_records [sample_record], False) (fresh_db None))"
  have ok: "store_ok ?s" "is_open ?s"
    by (intro store_ok_fresh queue_ok_publish queue_ok_fresh) (simp add: is_open_def fresh_store_def)
  have rows: "db_batches (ds_db ?s) = [(1, encode_records [sample_record], False)]"
    by (simp add: fresh_store_def db_publish_def fresh_db_def next_rowid_def)
  have "list_all record_ok [sample_record]"
    by (simp add: sample_record_def record_ok_def crypto_ok_def device_ok_def membership_ok_def
        memberships_def)
  with next_batch_oldest[OF ok] rows show ?thesis by (force simp: Let_def)
qed

text \<open>A store opens only for its own account, device and consumer: opening succeeds on an
  adopted database exactly when version, consumer and account match, never while the released
  store has outstanding recovery work, and the opened store is coherent.\<close>

theorem open_binds_identity:
  assumes "open_durable_store a new_id k = Inr s" and "queue_ok (disk_db k)"
  shows "store_ok s \<and> is_open s \<and> disk_lease_free k \<and>
    (''accounts'' \<in> set (disk_tables k) \<longrightarrow>
       set (disk_accounts k) \<subseteq> {(op_user_id a, op_device_id a)}) \<and>
    (if ''niodurablemeta'' \<in> set (disk_tables k)
     then \<exists>m. disk_meta k = Some m \<and> dm_version m = 1 \<and> dm_consumer_id m = op_consumer_id a \<and>
          (dm_user_id m, dm_device_id m) = (op_user_id a, op_device_id a) \<and>
          ds_stream_id s = dm_stream_id m \<and> ds_db s = disk_db k
     else check_legacy_recovery k = Inr () \<and> ds_stream_id s = new_id \<and>
          ds_db s = fresh_db (disk_sync_token k))"
proof -
  note u = assms(1)[unfolded open_durable_store_def rbind_Inr_iff]
  have "store_ok s" "is_open s" "disk_lease_free k"
    using u assms(2) by (auto simp: store_ok_fresh is_open_def fresh_store_def[where sid = x for x]
        split: if_splits option.splits intro!: store_ok_fresh[unfolded fresh_store_def])
  moreover have "''accounts'' \<in> set (disk_tables k) \<Longrightarrow>
         set (disk_accounts k) \<subseteq> {(op_user_id a, op_device_id a)}"
    using u by (auto simp: list_all_iff)
  moreover have "if ''niodurablemeta'' \<in> set (disk_tables k)
         then \<exists>m. disk_meta k = Some m \<and> dm_version m = 1 \<and> dm_consumer_id m = op_consumer_id a \<and>
              (dm_user_id m, dm_device_id m) = (op_user_id a, op_device_id a) \<and>
              ds_stream_id s = dm_stream_id m \<and> ds_db s = disk_db k
         else check_legacy_recovery k = Inr () \<and> ds_stream_id s = new_id \<and>
              ds_db s = fresh_db (disk_sync_token k)"
    using u by (auto simp: fresh_store_def split: if_splits option.splits)
  ultimately show ?thesis by blast
qed

definition sample_disk :: disk where
  "sample_disk = \<lparr>disk_tables = [''accounts'', ''niodurablemeta''], disk_accounts = [(''@a:x'', ''D'')],
     disk_outstanding = [], disk_meta = Some \<lparr>dm_version = 1, dm_stream_id = ''stream'',
       dm_consumer_id = ''consumer'', dm_user_id = ''@a:x'', dm_device_id = ''D''\<rparr>,
     disk_db = fresh_db None, disk_lease_free = True, disk_account_ok = True, disk_sync_token = None\<rparr>"

theorem open_binds_identity_witness:
  "let a = \<lparr>op_user_id = ''@a:x'', op_device_id = ''D'', op_consumer_id = ''consumer'',
            op_builtin_class = True\<rparr>;
       s = fresh_store ''stream'' (fresh_db None)
   in open_durable_store a ''new'' sample_disk = Inr s \<and> store_ok s \<and> is_open s"
proof -
  let ?a = "\<lparr>op_user_id = ''@a:x'', op_device_id = ''D'', op_consumer_id = ''consumer'',
            op_builtin_class = True\<rparr>"
  have "open_durable_store ?a ''new'' sample_disk = Inr (fresh_store ''stream'' (fresh_db None))"
    by (simp add: open_durable_store_def sample_disk_def)
  moreover have "queue_ok (disk_db sample_disk)"
    by (simp add: sample_disk_def)
  ultimately show ?thesis
    using open_binds_identity[of ?a "''new''" sample_disk] by (simp add: Let_def)
qed

end
