(* ===== verification/Durable_Publish.thy ===== *)
theory Durable_Publish
  imports Durable_Store
begin

text \<open>
  The bounds of a durable session (\<^verbatim>\<open>DurableSyncConfig\<close> of
  \<^verbatim>\<open>src/nio/durable/client.py\<close>) and \<open>_publish_records\<close>, which cuts one sequence of
  observations into batches that respect them.
\<close>

section \<open>Configuration\<close>

datatype sync_filter = Filter_Id string | Filter_Dict jobj

record durable_config =
  max_response_bytes :: int
  max_batch_records :: int
  max_batch_bytes :: int
  max_pending_bytes :: int
  sync_timeout_ms :: int
  sync_filter :: "sync_filter option"
  recovery_page_size :: int
  max_recovery_pages :: int
  uses_sliding :: bool
  to_device_only :: bool

definition default_config :: durable_config where
  "default_config = \<lparr>max_response_bytes = 16 * 1024 * 1024, max_batch_records = 256,
     max_batch_bytes = 2 * 1024 * 1024, max_pending_bytes = 64 * 1024 * 1024,
     sync_timeout_ms = 30000, sync_filter = None, recovery_page_size = 100,
     max_recovery_pages = 1000, uses_sliding = False, to_device_only = False\<rparr>"

definition config_post_init :: "durable_config \<Rightarrow> exn + unit" where
  "config_post_init c =
     (if to_device_only c \<and> (sync_filter c \<noteq> None \<or> uses_sliding c) then
        Inl (ValueError ''to-device-only sync cannot use a custom filter or Sliding Sync'')
      else if Min {max_response_bytes c, max_batch_records c, max_batch_bytes c, max_pending_bytes c,
                   recovery_page_size c, max_recovery_pages c} \<le> 0 \<or> sync_timeout_ms c < 0 then
        Inl (ValueError ''durable sync bounds must be positive'')
      else Inr ())"

section \<open>Cutting and publishing\<close>

definition batch_bound_exn :: exn where
  "batch_bound_exn = LocalProtocolError ''prepared event exceeds the durable batch bound''"

definition pending_bound_exn :: exn where
  "pending_bound_exn = LocalProtocolError ''prepared output exceeds the durable pending bound''"

text \<open>A sequence of at most \<^verbatim>\<open>max_batch_records\<close> records, halved until each part fits.\<close>

function publish_split :: "durable_config \<Rightarrow> sync_record list \<Rightarrow> nat \<Rightarrow> (durable_store, nat) op" where
  "publish_split cfg rs pending =
     (let size = json_size (encode_records rs) in
      if max_batch_bytes cfg < int size then
        (if length rs \<le> 1 then raise batch_bound_exn
         else bnd (publish_split cfg (take (length rs div 2) rs) pending)
                (publish_split cfg (drop (length rs div 2) rs)))
      else if max_pending_bytes cfg < int (pending + size) then raise pending_bound_exn
      else bnd (publish rs False) (\<lambda>_. ret (pending + size)))"
  by pat_completeness auto
termination
  by (relation "measure (\<lambda>(cfg, rs, pending). length rs)") auto

declare publish_split.simps [simp del]

fun chunks :: "nat \<Rightarrow> 'a list \<Rightarrow> 'a list list" where
  "chunks n xs = (if n = 0 \<or> xs = [] then [] else take n xs # chunks n (drop n xs))"

declare chunks.simps [simp del]

fun publish_chunks :: "durable_config \<Rightarrow> sync_record list list \<Rightarrow> nat \<Rightarrow> (durable_store, nat) op" where
  "publish_chunks cfg [] pending = ret pending"
| "publish_chunks cfg (c # cs) pending = bnd (publish_split cfg c pending) (publish_chunks cfg cs)"

definition publish_records ::
  "durable_config \<Rightarrow> sync_record list \<Rightarrow> nat option \<Rightarrow> (durable_store, nat) op" where
  "publish_records cfg rs pending_arg =
     bnd (case pending_arg of None \<Rightarrow> pending_bytes | Some n \<Rightarrow> ret n) (\<lambda>pending.
       if max_batch_records cfg < int (length rs)
       then publish_chunks cfg (chunks (nat (max_batch_records cfg)) rs) pending
       else publish_split cfg rs pending)"

section \<open>What a publication writes\<close>

definition in_tx :: "durable_store \<Rightarrow> bool" where
  "in_tx s = (store_ok s \<and> is_open s \<and> ds_depth s \<noteq> 0)"

definition batch_fits :: "durable_config \<Rightarrow> sync_record list \<Rightarrow> bool" where
  "batch_fits cfg b =
     (int (length b) \<le> max_batch_records cfg \<and> int (json_size (encode_records b)) \<le> max_batch_bytes cfg)"

definition payloads :: "sync_record list list \<Rightarrow> (json \<times> bool) list" where
  "payloads bs = map (\<lambda>b. (encode_records b, False)) bs"

definition published_as ::
  "durable_config \<Rightarrow> sync_record list list \<Rightarrow> durable_store \<Rightarrow> nat \<Rightarrow> durable_store \<Rightarrow> bool" where
  "published_as cfg bs s n t =
     (in_tx t \<and> ds_depth t = ds_depth s \<and> extends_rows (payloads bs) (ds_db s) (ds_db t) \<and>
      list_all (batch_fits cfg) bs \<and> n = queued_bytes (ds_db t) \<and>
      (bs \<noteq> [] \<longrightarrow> int n \<le> max_pending_bytes cfg))"

lemma published_as_Nil: "in_tx s \<Longrightarrow> published_as cfg [] s (queued_bytes (ds_db s)) s"
  by (simp add: published_as_def payloads_def extends_rows_def)

lemma published_as_append:
  "published_as cfg bs s n t \<Longrightarrow> published_as cfg cs t m u \<Longrightarrow> published_as cfg (bs @ cs) s m u"
  using extends_rows_trans[of "payloads bs" "ds_db s" "ds_db t" "payloads cs" "ds_db u"]
  by (cases cs) (auto simp: published_as_def payloads_def extends_rows_def queued_bytes_def)

lemma published_as_one:
  assumes "in_tx s" "batch_fits cfg b"
    and "int (queued_bytes (ds_db s) + json_size (encode_records b)) \<le> max_pending_bytes cfg"
  shows "\<exists>sb t. publish b False s = (Inr sb, t) \<and>
    published_as cfg [b] s (queued_bytes (ds_db s) + json_size (encode_records b)) t"
  using assms keepsD[OF keeps_publish, of s b False]
  by (auto simp: in_tx_def publish_run published_as_def payloads_def extends_rows_def db_publish_def
      queued_bytes_def is_open_def)

text \<open>A raising publication names one of the two bounds, and the batch bound only for a record
  that does not fit on its own.\<close>

definition bound_error :: "durable_config \<Rightarrow> sync_record list \<Rightarrow> exn \<Rightarrow> bool" where
  "bound_error cfg rs e =
     (e = pending_bound_exn \<or>
      e = batch_bound_exn \<and> (rs = [] \<or> (\<exists>r \<in> set rs. max_batch_bytes cfg < int (json_size (encode_records [r])))))"

definition publishes ::
  "durable_config \<Rightarrow> sync_record list \<Rightarrow> durable_store \<Rightarrow> (exn + nat) \<times> durable_store \<Rightarrow> bool" where
  "publishes cfg rs s res =
     (case res of
        (Inr n, t) \<Rightarrow> \<exists>bs. concat bs = rs \<and> published_as cfg bs s n t
      | (Inl e, t) \<Rightarrow> bound_error cfg rs e)"

lemma bound_error_part:
  "bound_error cfg rs e \<Longrightarrow> rs \<noteq> [] \<Longrightarrow> set rs \<subseteq> set rs' \<Longrightarrow> bound_error cfg rs' e"
  by (auto simp: bound_error_def)

lemma publishes_bnd:
  assumes "publishes cfg xs s (m s)" "xs \<noteq> []" "ys \<noteq> []"
    and "\<And>n t bs. m s = (Inr n, t) \<Longrightarrow> published_as cfg bs s n t \<Longrightarrow> publishes cfg ys t (f n t)"
  shows "publishes cfg (xs @ ys) s (bnd m f s)"
proof (cases "m s")
  case (Pair r t)
  show ?thesis
  proof (cases r)
    case (Inl e)
    then show ?thesis
      using assms(1,2) Pair bound_error_part[of cfg xs e "xs @ ys"]
      by (simp add: publishes_def bnd_def)
  next
    case (Inr n)
    then obtain bs where bs: "concat bs = xs" "published_as cfg bs s n t"
      using assms(1) Pair by (auto simp: publishes_def)
    note f = assms(4)[OF Pair[unfolded Inr] bs(2)]
    obtain r' u where fu: "f n t = (r', u)" by (cases "f n t")
    show ?thesis
    proof (cases r')
      case (Inl e)
      then show ?thesis
        using f fu Pair Inr assms(3) bound_error_part[of cfg ys e "xs @ ys"]
        by (simp add: publishes_def bnd_def)
    next
      case (Inr k)
      then obtain cs where "concat cs = ys" "published_as cfg cs t k u"
        using f fu by (auto simp: publishes_def)
      then have "concat (bs @ cs) = xs @ ys" "published_as cfg (bs @ cs) s k u"
        using bs published_as_append by auto
      then have "\<exists>bs. concat bs = xs @ ys \<and> published_as cfg bs s k u" by blast
      then show ?thesis
        using Pair \<open>r = Inr n\<close> fu Inr by (simp add: publishes_def bnd_def)
    qed
  qed
qed

lemma publish_split_publishes:
  "in_tx s \<Longrightarrow> pending = queued_bytes (ds_db s) \<Longrightarrow> int (length rs) \<le> max_batch_records cfg \<Longrightarrow>
   publishes cfg rs s (publish_split cfg rs pending s)"
proof (induction cfg rs pending arbitrary: s rule: publish_split.induct)
  case (1 cfg rs pending)
  let ?size = "json_size (encode_records rs)" and ?h = "length rs div 2"
  consider (single) "max_batch_bytes cfg < int ?size" "length rs \<le> 1"
    | (halve) "max_batch_bytes cfg < int ?size" "1 < length rs"
    | (full) "int ?size \<le> max_batch_bytes cfg" "max_pending_bytes cfg < int (pending + ?size)"
    | (fits) "int ?size \<le> max_batch_bytes cfg" "int (pending + ?size) \<le> max_pending_bytes cfg"
    by linarith
  then show ?case
  proof cases
    case single
    then have "bound_error cfg rs batch_bound_exn"
      by (cases rs) (auto simp: bound_error_def)
    then show ?thesis
      using single by (subst publish_split.simps) (simp add: publishes_def raise_def)
  next
    case halve
    have "publishes cfg (take ?h rs @ drop ?h rs) s
        (bnd (publish_split cfg (take ?h rs) pending) (publish_split cfg (drop ?h rs)) s)"
    proof (rule publishes_bnd)
      show "publishes cfg (take ?h rs) s (publish_split cfg (take ?h rs) pending s)"
        by (rule "1.IH"(1)[OF refl]) (use halve "1.prems" in auto)
      show "publishes cfg (drop ?h rs) t (publish_split cfg (drop ?h rs) n t)"
        if "published_as cfg bs s n t" for n t bs
        by (rule "1.IH"(2)[OF refl]) (use halve "1.prems" that in \<open>auto simp: published_as_def\<close>)
    qed (use halve in auto)
    then show ?thesis
      using halve by (subst publish_split.simps) simp
  next
    case full
    then show ?thesis
      by (subst publish_split.simps) (simp add: publishes_def raise_def bound_error_def)
  next
    case fits
    then obtain sb t where "publish rs False s = (Inr sb, t)" "published_as cfg [rs] s (pending + ?size) t"
      using published_as_one[of s cfg rs] "1.prems" by (auto simp: batch_fits_def)
    then show ?thesis
      using fits by (subst publish_split.simps)
        (auto simp: publishes_def bnd_def ret_def intro!: exI[of _ "[rs]"])
  qed
qed

lemma chunks_concat: "0 < n \<Longrightarrow> concat (chunks n xs) = xs"
proof (induction n xs rule: chunks.induct)
  case (1 n xs)
  then show ?case by (subst chunks.simps) (cases "xs = []", simp_all)
qed

lemma chunks_length: "c \<in> set (chunks n xs) \<Longrightarrow> length c \<le> n"
proof (induction n xs rule: chunks.induct)
  case (1 n xs)
  then show ?case
    by (subst (asm) (2) chunks.simps) (auto split: if_splits)
qed

lemma chunks_nonempty: "c \<in> set (chunks n xs) \<Longrightarrow> c \<noteq> []"
proof (induction n xs rule: chunks.induct)
  case (1 n xs)
  then show ?case
    by (subst (asm) (2) chunks.simps) (auto split: if_splits)
qed

lemma publish_chunks_publishes:
  assumes "in_tx s" "pending = queued_bytes (ds_db s)"
    and "\<And>c. c \<in> set cs \<Longrightarrow> c \<noteq> [] \<and> int (length c) \<le> max_batch_records cfg"
  shows "publishes cfg (concat cs) s (publish_chunks cfg cs pending s)"
  using assms
proof (induction cs arbitrary: s pending)
  case Nil
  then show ?case
    using published_as_Nil[of s cfg] by (auto simp: publishes_def ret_def intro!: exI[of _ "[]"])
next
  case (Cons c cs)
  have c: "publishes cfg c s (publish_split cfg c pending s)"
    using Cons.prems publish_split_publishes by simp
  show ?case
  proof (cases "cs = []")
    case True
    then show ?thesis
      using c by (simp add: publishes_def bnd_def ret_def split: prod.splits sum.splits)
  next
    case False
    then have ne: "concat cs \<noteq> []"
      using Cons.prems(3) by (cases cs) auto
    have "publishes cfg (c @ concat cs) s (bnd (publish_split cfg c pending) (publish_chunks cfg cs) s)"
      by (rule publishes_bnd[where m = "publish_split cfg c pending", OF c])
        (use Cons ne in \<open>auto simp: published_as_def\<close>)
    then show ?thesis by simp
  qed
qed

lemma publish_records_publishes:
  assumes "in_tx s" and "0 < max_batch_records cfg"
    and "pending = None \<or> pending = Some (queued_bytes (ds_db s))"
  shows "publishes cfg rs s (publish_records cfg rs pending s)"
proof -
  have start: "publish_records cfg rs pending s =
     (if max_batch_records cfg < int (length rs)
      then publish_chunks cfg (chunks (nat (max_batch_records cfg)) rs) (queued_bytes (ds_db s)) s
      else publish_split cfg rs (queued_bytes (ds_db s)) s)"
    using assms(1,3) by (auto simp: publish_records_def pending_bytes_def assert_open_def op_basic in_tx_def)
  show ?thesis
  proof (cases "max_batch_records cfg < int (length rs)")
    case True
    have "c \<noteq> [] \<and> int (length c) \<le> max_batch_records cfg"
      if "c \<in> set (chunks (nat (max_batch_records cfg)) rs)" for c
      using that chunks_length[OF that] chunks_nonempty[OF that] assms(2) by simp
    then have "publishes cfg (concat (chunks (nat (max_batch_records cfg)) rs)) s
        (publish_chunks cfg (chunks (nat (max_batch_records cfg)) rs) (queued_bytes (ds_db s)) s)"
      by (rule publish_chunks_publishes[OF assms(1) refl])
    then show ?thesis
      using True assms(2) by (simp add: start chunks_concat)
  next
    case False
    then show ?thesis
      using publish_split_publishes[OF assms(1)] by (simp add: start)
  qed
qed

section \<open>Properties\<close>

text \<open>C14: a publication that returns has appended, after everything already pending, batches whose
  concatenated records are the given records in order; every batch respects the record and the byte
  bound, the returned count is the queue's size in bytes and stays within the pending bound.\<close>

theorem publish_records_bounded:
  assumes "in_tx s" and "0 < max_batch_records cfg"
    and "publish_records cfg rs None s = (Inr n, t)"
  shows "\<exists>bs. concat bs = rs \<and>
    map snd (db_batches (ds_db t)) = map snd (db_batches (ds_db s)) @ payloads bs \<and>
    list_all (batch_fits cfg) bs \<and> n = queued_bytes (ds_db t) \<and>
    (bs \<noteq> [] \<longrightarrow> int n \<le> max_pending_bytes cfg)"
  using publish_records_publishes[OF assms(1,2), of None rs] assms(3)
  by (auto simp: publishes_def published_as_def extends_rows_def)

definition tx_store :: durable_store where
  "tx_store = (fresh_store ''s'' (fresh_db None))\<lparr>ds_depth := 1\<rparr>"

lemma in_tx_store: "in_tx tx_store"
  by (simp add: tx_store_def in_tx_def is_open_def store_ok_def mirrors_ok_def fresh_store_def)

definition tiny_config :: durable_config where
  "tiny_config = default_config\<lparr>max_batch_records := 1\<rparr>"

theorem publish_records_bounded_witness:
  "\<exists>n t bs. publish_records tiny_config [] None tx_store = (Inr n, t) \<and> concat bs = [] \<and>
     map snd (db_batches (ds_db t)) = payloads bs \<and> list_all (batch_fits tiny_config) bs"
proof -
  have run: "\<exists>t. publish_records tiny_config [] None tx_store = (Inr 2, t)"
    using in_tx_store
    by (simp add: publish_records_def pending_bytes_def assert_open_def op_basic in_tx_def
        publish_split.simps[of _ "[]"] publish_run tiny_config_def default_config_def Let_def
        encode_records_def json_size_def queued_bytes_def)
      (simp add: tx_store_def fresh_store_def fresh_db_def)
  then obtain t where t: "publish_records tiny_config [] None tx_store = (Inr 2, t)" by blast
  have "0 < max_batch_records tiny_config"
    by (simp add: tiny_config_def default_config_def)
  from publish_records_bounded[OF in_tx_store this t] t show ?thesis
    by (auto simp: tx_store_def fresh_store_def fresh_db_def)
qed

text \<open>A publication fails only for one of its two bounds, and blames the batch bound only when
  one of the records is larger than a whole batch: splitting never gives up on records that fit.\<close>

theorem publish_records_errors:
  assumes "in_tx s" and "0 < max_batch_records cfg" and "2 \<le> max_batch_bytes cfg"
    and "publish_records cfg rs None s = (Inl e, t)"
  shows "e = pending_bound_exn \<or>
    e = batch_bound_exn \<and> (\<exists>r \<in> set rs. max_batch_bytes cfg < int (json_size (encode_records [r])))"
proof (cases "rs = []")
  case False
  then show ?thesis
    using publish_records_publishes[OF assms(1,2), of None rs] assms(4)
    by (auto simp: publishes_def bound_error_def)
next
  case True
  have "json_size (encode_records []) = 2"
    by (simp add: json_size_def encode_records_def)
  then have "e = pending_bound_exn"
    using True assms
    by (auto simp: publish_records_def pending_bytes_def assert_open_def op_basic in_tx_def
        publish_split.simps[of _ "[]"] publish_run Let_def split: if_splits)
  then show ?thesis by simp
qed

theorem publish_records_errors_witness:
  "let cfg = default_config\<lparr>max_pending_bytes := 1\<rparr> in
   \<exists>e t. publish_records cfg [] None tx_store = (Inl e, t) \<and> e = pending_bound_exn"
proof -
  let ?cfg = "default_config\<lparr>max_pending_bytes := 1\<rparr>"
  obtain e t where run: "publish_records ?cfg [] None tx_store = (Inl e, t)"
    using in_tx_store
    by (simp add: publish_records_def pending_bytes_def assert_open_def op_basic in_tx_def
        publish_split.simps[of _ "[]"] default_config_def Let_def encode_records_def json_size_def)
  have "0 < max_batch_records ?cfg" "2 \<le> max_batch_bytes ?cfg"
    by (simp_all add: default_config_def)
  from publish_records_errors[OF in_tx_store this run] run show ?thesis
    by (auto simp: Let_def)
qed

end
