(* ===== verification/Nio_Levels.thy ===== *)
theory Nio_Levels
  imports Nio_Prelude
begin

text \<open>
  Power levels of a room: \<^verbatim>\<open>DefaultLevels\<close> and \<^verbatim>\<open>PowerLevels\<close> of
  \<^verbatim>\<open>src/nio/events/room_events.py\<close>. The dictionary \<^verbatim>\<open>creators\<close>, whose values are always
  True, is the set of its keys.
\<close>

record default_levels =
  lv_ban :: int
  lv_invite :: int
  lv_kick :: int
  lv_redact :: int
  lv_state_default :: int
  lv_events_default :: int
  lv_users_default :: int
  lv_notifications :: "(string, int) dict"

definition DefaultLevels :: default_levels where
  "DefaultLevels = \<lparr> lv_ban = 50, lv_invite = 50, lv_kick = 50, lv_redact = 50, lv_state_default = 0,
     lv_events_default = 0, lv_users_default = 0, lv_notifications = [(''room'', 50)] \<rparr>"

record power_levels =
  pl_defaults :: default_levels
  pl_users :: "(string, int) dict"
  pl_events :: "(string, int) dict"
  pl_creators :: "string set"

definition PowerLevels :: power_levels where
  "PowerLevels = \<lparr> pl_defaults = DefaultLevels, pl_users = [], pl_events = [], pl_creators = {} \<rparr>"

definition get_state_event_required_level :: "power_levels \<Rightarrow> string \<Rightarrow> int" where
  "get_state_event_required_level p event_type =
     dget_or (pl_events p) event_type (lv_state_default (pl_defaults p))"

definition get_message_event_required_level :: "power_levels \<Rightarrow> string \<Rightarrow> int" where
  "get_message_event_required_level p event_type =
     dget_or (pl_events p) event_type (lv_events_default (pl_defaults p))"

definition get_notification_required_level :: "power_levels \<Rightarrow> string \<Rightarrow> int" where
  "get_notification_required_level p notification_type =
     dget_or (lv_notifications (pl_defaults p)) notification_type 50"

definition get_user_level :: "power_levels \<Rightarrow> string \<Rightarrow> int" where
  "get_user_level p user_id =
     (if user_id \<in> pl_creators p then 2 ^ 53 + 1
      else dget_or (pl_users p) user_id (lv_users_default (pl_defaults p)))"

definition can_user_send_state :: "power_levels \<Rightarrow> string \<Rightarrow> string \<Rightarrow> bool" where
  "can_user_send_state p user_id event_type =
     (get_state_event_required_level p event_type \<le> get_user_level p user_id)"

definition can_user_send_message :: "power_levels \<Rightarrow> string \<Rightarrow> string \<Rightarrow> bool" where
  "can_user_send_message p user_id event_type =
     (get_message_event_required_level p event_type \<le> get_user_level p user_id)"

definition can_user_invite :: "power_levels \<Rightarrow> string \<Rightarrow> bool" where
  "can_user_invite p user_id = (lv_invite (pl_defaults p) \<le> get_user_level p user_id)"

definition can_user_kick :: "power_levels \<Rightarrow> string \<Rightarrow> string option \<Rightarrow> bool" where
  "can_user_kick p user_id target_user_id =
     (let level = get_user_level p user_id;
          can_kick_lower = lv_kick (pl_defaults p) \<le> level
      in case target_user_id of
           None \<Rightarrow> can_kick_lower
         | Some t \<Rightarrow> can_kick_lower \<and> get_user_level p t < level)"

definition can_user_ban :: "power_levels \<Rightarrow> string \<Rightarrow> string option \<Rightarrow> bool" where
  "can_user_ban p user_id target_user_id =
     (let level = get_user_level p user_id;
          can_ban_lower = lv_ban (pl_defaults p) \<le> level
      in case target_user_id of
           None \<Rightarrow> can_ban_lower
         | Some t \<Rightarrow> can_ban_lower \<and> get_user_level p t < level)"

definition can_user_redact :: "power_levels \<Rightarrow> string \<Rightarrow> bool" where
  "can_user_redact p user_id = (lv_redact (pl_defaults p) \<le> get_user_level p user_id)"

definition can_user_notify :: "power_levels \<Rightarrow> string \<Rightarrow> string \<Rightarrow> bool" where
  "can_user_notify p user_id notification_type =
     (get_notification_required_level p notification_type \<le> get_user_level p user_id)"

text \<open>\<^verbatim>\<open>update\<close> with an object that is not a \<^verbatim>\<open>PowerLevels\<close> (None here) does nothing.\<close>

definition levels_update :: "power_levels \<Rightarrow> power_levels option \<Rightarrow> power_levels" where
  "levels_update p new_levels =
     (case new_levels of
        None \<Rightarrow> p
      | Some n \<Rightarrow> p \<lparr> pl_defaults := pl_defaults n, pl_events := dupdate (pl_events p) (pl_events n),
                     pl_users := dupdate (pl_users p) (pl_users n) \<rparr>)"

text \<open>
  An authority contract: who may act against whom. The room's own rules promise that acting is
  irreflexive, never mutual, and transitive through people who may act themselves.
\<close>

locale authority =
  fixes may :: "'u \<Rightarrow> 'u \<Rightarrow> bool"
    and may_any :: "'u \<Rightarrow> bool"
    and level :: "'u \<Rightarrow> int"
  assumes may_iff: "may u t \<longleftrightarrow> may_any u \<and> level t < level u"
    and may_any_mono: "may_any u \<Longrightarrow> level u \<le> level v \<Longrightarrow> may_any v"
begin

lemma may_not_self: "\<not> may u u"
  by (simp add: may_iff)

lemma may_asym: "may u t \<Longrightarrow> \<not> may t u"
  by (simp add: may_iff)

lemma may_trans: "may u v \<Longrightarrow> may v t \<Longrightarrow> may u t"
  by (auto simp: may_iff)

lemma may_top: "may v t \<Longrightarrow> level v \<le> level u \<Longrightarrow> may u t"
  using may_any_mono by (auto simp: may_iff)

end

interpretation kick: authority "\<lambda>u t. can_user_kick p u (Some t)" "\<lambda>u. can_user_kick p u None" "get_user_level p"
  for p
  by unfold_locales (auto simp: can_user_kick_def Let_def)

interpretation ban: authority "\<lambda>u t. can_user_ban p u (Some t)" "\<lambda>u. can_user_ban p u None" "get_user_level p"
  for p
  by unfold_locales (auto simp: can_user_ban_def Let_def)

text \<open>Kicking and banning respect rank: nobody may act against himself or an equal, two
  users can never act against each other, and whoever outranks someone who may act may act too.\<close>

theorem moderation_respects_rank:
  "\<not> can_user_kick p u (Some u) \<and> \<not> can_user_ban p u (Some u) \<and>
   \<not> (can_user_kick p u (Some t) \<and> can_user_kick p t (Some u)) \<and>
   \<not> (can_user_ban p u (Some t) \<and> can_user_ban p t (Some u)) \<and>
   (can_user_kick p v (Some t) \<and> get_user_level p v \<le> get_user_level p u \<longrightarrow> can_user_kick p u (Some t)) \<and>
   (can_user_ban p v (Some t) \<and> get_user_level p v \<le> get_user_level p u \<longrightarrow> can_user_ban p u (Some t))"
  using kick.may_not_self[of p u] ban.may_not_self[of p u] kick.may_asym[of p u t] ban.may_asym[of p u t]
    kick.may_top[of p v t u] ban.may_top[of p v t u] by blast

definition sample_levels :: power_levels where
  "sample_levels = PowerLevels \<lparr> pl_users := [(''@admin:x'', 100), (''@mod:x'', 50)] \<rparr>"

theorem moderation_respects_rank_witness:
  "can_user_kick sample_levels ''@admin:x'' (Some ''@new:x'')"
proof -
  have "can_user_kick sample_levels ''@mod:x'' (Some ''@new:x'')"
    "get_user_level sample_levels ''@mod:x'' \<le> get_user_level sample_levels ''@admin:x''"
    by (simp_all add: sample_levels_def PowerLevels_def DefaultLevels_def can_user_kick_def get_user_level_def dget_or_def)
  then show ?thesis
    using moderation_respects_rank[of sample_levels "''@admin:x''" "''@new:x''" "''@mod:x''"] by blast
qed

text \<open>A power level event overrides what it names and keeps every level it does not name,
  so an entry the new event no longer has survives: the level of a user is the new event's
  entry, else the old entry, and only else the new default.\<close>

theorem levels_update_merges:
  assumes "dwf (pl_users n)" "u \<notin> pl_creators p"
  shows "get_user_level (levels_update p (Some n)) u =
    (case dget (pl_users n) u of
       Some l \<Rightarrow> l
     | None \<Rightarrow> (case dget (pl_users p) u of Some l \<Rightarrow> l | None \<Rightarrow> lv_users_default (pl_defaults n)))"
  using assms
  by (auto simp: get_user_level_def levels_update_def dget_or_def dupdate_get map_add_def split: option.splits)

theorem levels_update_merges_witness:
  "can_user_ban (levels_update sample_levels (Some PowerLevels)) ''@admin:x'' None"
proof -
  have "get_user_level (levels_update sample_levels (Some PowerLevels)) ''@admin:x'' = 100"
    by (subst levels_update_merges) (simp_all add: sample_levels_def PowerLevels_def)
  then show ?thesis
    by (simp add: can_user_ban_def levels_update_def PowerLevels_def DefaultLevels_def)
qed

end
