(* ===== verification/Nio_Rooms.thy ===== *)
theory Nio_Rooms
  imports Nio_Effects Nio_Levels "HOL-Library.Char_ord" "HOL-Library.List_Lexorder"
begin

text \<open>
  The room model of \<^verbatim>\<open>src/nio/rooms.py\<close>: members, display names, membership and state events,
  summaries. \<^verbatim>\<open>users\<close> and \<^verbatim>\<open>invited_users\<close> share \<^verbatim>\<open>MatrixUser\<close> objects, so a user is a
  reference into a heap of users and an assignment to an attribute updates the heap.
  \<^verbatim>\<open>names\<close> is a \<^verbatim>\<open>defaultdict(list)\<close>; reading a missing name also inserts an empty list, which
  nothing can observe because no code iterates over it, so reading is \<open>names_of\<close>.
\<close>

section \<open>State\<close>

record matrix_user =
  mu_user_id :: string
  mu_display_name :: "string option"
  mu_avatar_url :: "string option"
  mu_power_level :: int
  mu_invited :: bool
  mu_presence :: string
  mu_last_active_ago :: "int option"
  mu_currently_active :: "bool option"
  mu_status_msg :: "string option"

definition MatrixUser :: "string \<Rightarrow> string option \<Rightarrow> string option \<Rightarrow> int \<Rightarrow> bool \<Rightarrow> matrix_user" where
  "MatrixUser user_id display_name avatar_url power_level invited =
     \<lparr> mu_user_id = user_id, mu_display_name = display_name, mu_avatar_url = avatar_url,
       mu_power_level = power_level, mu_invited = invited, mu_presence = ''offline'',
       mu_last_active_ago = None, mu_currently_active = None, mu_status_msg = None \<rparr>"

text \<open>Python's \<^verbatim>\<open>x or y\<close> on an optional string.\<close>

definition str_or :: "string option \<Rightarrow> string \<Rightarrow> string" where
  "str_or x y = (case x of Some (c # s) \<Rightarrow> c # s | _ \<Rightarrow> y)"

definition mu_name :: "matrix_user \<Rightarrow> string" where
  "mu_name user = str_or (mu_display_name user) (mu_user_id user)"

definition disambiguated_name :: "matrix_user \<Rightarrow> string" where
  "disambiguated_name user =
     (case mu_display_name user of
        Some (c # s) \<Rightarrow> (c # s) @ '' ('' @ mu_user_id user @ '')''
      | _ \<Rightarrow> mu_user_id user)"

record room_summary =
  rs_invited_member_count :: "int option"
  rs_joined_member_count :: "int option"
  rs_heroes :: "string list option"

record receipt =
  rc_event_id :: string
  rc_known_type :: bool
  rc_user_id :: string
  rc_timestamp :: int
  rc_thread_id :: "string option"

type_synonym tags = "(string, (string, string) dict option) dict"

record matrix_room =
  mr_room_id :: string
  mr_own_user_id :: string
  mr_federate :: bool
  mr_room_version :: string
  mr_room_type :: "string option"
  mr_guest_access :: string
  mr_join_rule :: string
  mr_history_visibility :: string
  mr_canonical_alias :: "string option"
  mr_topic :: "string option"
  mr_name :: "string option"
  mr_parents :: "string set"
  mr_children :: "string set"
  mr_heap :: "matrix_user list"
  mr_users :: "(string, nat) dict"
  mr_invited_users :: "(string, nat) dict"
  mr_names :: "(string, string list) dict"
  mr_encrypted :: bool
  mr_power_levels :: power_levels
  mr_typing_users :: "string list"
  mr_read_receipts :: "(string, receipt) dict"
  mr_threaded_read_receipts :: "(string, (string, receipt) dict) dict"
  mr_summary :: "room_summary option"
  mr_room_avatar_url :: "string option"
  mr_fully_read_marker :: "string option"
  mr_tags :: tags
  mr_unread_notifications :: int
  mr_unread_highlights :: int
  mr_members_synced :: bool
  mr_replacement_room :: "string option"
  mr_creators :: "string set"

definition MatrixRoom :: "string \<Rightarrow> string \<Rightarrow> bool \<Rightarrow> matrix_room" where
  "MatrixRoom room_id own_user_id encrypted =
     \<lparr> mr_room_id = room_id, mr_own_user_id = own_user_id, mr_federate = True, mr_room_version = ''1'',
       mr_room_type = None, mr_guest_access = ''forbidden'', mr_join_rule = ''invite'',
       mr_history_visibility = ''shared'', mr_canonical_alias = None, mr_topic = None, mr_name = None,
       mr_parents = {}, mr_children = {}, mr_heap = [], mr_users = [], mr_invited_users = [], mr_names = [],
       mr_encrypted = encrypted, mr_power_levels = PowerLevels, mr_typing_users = [],
       mr_read_receipts = [], mr_threaded_read_receipts = [], mr_summary = None,
       mr_room_avatar_url = None, mr_fully_read_marker = None, mr_tags = [],
       mr_unread_notifications = 0, mr_unread_highlights = 0, mr_members_synced = False,
       mr_replacement_room = None, mr_creators = {} \<rparr>"

record invited_room = matrix_room +
  ir_inviter :: "string option"

definition MatrixInvitedRoom :: "string \<Rightarrow> string \<Rightarrow> invited_room" where
  "MatrixInvitedRoom room_id own_user_id =
     matrix_room.extend (MatrixRoom room_id own_user_id False) \<lparr> ir_inviter = None \<rparr>"

definition user_at :: "('z) matrix_room_scheme \<Rightarrow> nat \<Rightarrow> matrix_user" where
  "user_at r ref = mr_heap r ! ref"

definition set_user :: "nat \<Rightarrow> (matrix_user \<Rightarrow> matrix_user) \<Rightarrow> ('z) matrix_room_scheme \<Rightarrow> ('z) matrix_room_scheme" where
  "set_user ref f r = r \<lparr> mr_heap := (mr_heap r)[ref := f (user_at r ref)] \<rparr>"

definition names_of :: "('z) matrix_room_scheme \<Rightarrow> string \<Rightarrow> string list" where
  "names_of r name = dget_or (mr_names r) name []"

definition set_names :: "string \<Rightarrow> string list \<Rightarrow> ('z) matrix_room_scheme \<Rightarrow> ('z) matrix_room_scheme" where
  "set_names name ids r = r \<lparr> mr_names := dset (mr_names r) name ids \<rparr>"

text \<open>\<^verbatim>\<open>self.names[name].append(user_id)\<close> and \<^verbatim>\<open>self.names[name].remove(user_id)\<close>, which raises
  ValueError when the list does not hold the id.\<close>

definition names_append :: "string \<Rightarrow> string \<Rightarrow> ('z matrix_room_scheme, unit) op" where
  "names_append name user_id = modify (\<lambda>r. set_names name (names_of r name @ [user_id]) r)"

definition names_remove :: "string \<Rightarrow> string \<Rightarrow> ('z matrix_room_scheme, unit) op" where
  "names_remove name user_id r =
     (if user_id \<in> set (names_of r name)
      then (Inr (), set_names name (remove1 user_id (names_of r name)) r)
      else (Inl (ValueError ''list.remove(x): x not in list''), r))"

section \<open>Members\<close>

definition add_member ::
  "string \<Rightarrow> string option \<Rightarrow> string option \<Rightarrow> bool \<Rightarrow> ('z matrix_room_scheme, bool) op" where
  "add_member user_id display_name avatar_url invited =
     bnd (reads mr_users) (\<lambda>users.
     if din user_id users then ret False
     else
       andthen (modify (\<lambda>r.
         let level = dget_or (pl_users (mr_power_levels r)) user_id
                       (lv_users_default (pl_defaults (mr_power_levels r)));
             ref = length (mr_heap r)
         in r \<lparr> mr_heap := mr_heap r @ [MatrixUser user_id display_name avatar_url level invited],
                mr_users := dset (mr_users r) user_id ref,
                mr_invited_users := (if invited then dset (mr_invited_users r) user_id ref
                                     else mr_invited_users r) \<rparr>))
       (andthen (names_append (str_or display_name user_id) user_id)
       (ret True)))"

definition remove_member :: "string \<Rightarrow> ('z matrix_room_scheme, bool) op" where
  "remove_member user_id =
     bnd (reads (\<lambda>r. dget (mr_users r) user_id)) (\<lambda>user.
     andthen (modify (\<lambda>r. r \<lparr> mr_users := ddel (mr_users r) user_id \<rparr>))
     (andthen
       (case user of
          None \<Rightarrow> ret ()
        | Some ref \<Rightarrow>
            bnd (reads (\<lambda>r. user_at r ref)) (\<lambda>u. names_remove (mu_name u) (mu_user_id u)))
     (bnd (reads (\<lambda>r. dget (mr_invited_users r) user_id)) (\<lambda>invited_user.
      andthen (modify (\<lambda>r. r \<lparr> mr_invited_users := ddel (mr_invited_users r) user_id \<rparr>))
      (andthen
        (case invited_user of
           None \<Rightarrow> ret ()
         | Some ref \<Rightarrow>
             (\<lambda>r. case names_remove (mu_name (user_at r ref)) (mu_user_id (user_at r ref)) r of
                    (Inl e, r') \<Rightarrow> (Inr (), r')
                  | res \<Rightarrow> res))
      (ret (user \<noteq> None \<or> invited_user \<noteq> None)))))))"

text \<open>A membership event; its content holds a display name or avatar key only when the event
  does, and the value may be null.\<close>

record member_event =
  me_sender :: string
  me_state_key :: string
  me_membership :: string
  me_content :: "(string, string option) dict"

definition content_get :: "member_event \<Rightarrow> string \<Rightarrow> string option" where
  "content_get e k = (case dget (me_content e) k of None \<Rightarrow> None | Some v \<Rightarrow> v)"

definition member_set_invited :: "string \<Rightarrow> nat \<Rightarrow> bool \<Rightarrow> bool \<Rightarrow> ('z matrix_room_scheme, unit) op" where
  "member_set_invited target_user ref invited in_invited =
     andthen (modify (set_user ref (\<lambda>u. u \<lparr> mu_invited := invited \<rparr>)))
     (if \<not> invited \<and> in_invited
      then modify (\<lambda>r. r \<lparr> mr_invited_users := ddel (mr_invited_users r) target_user \<rparr>)
      else ret ())"

definition member_set_displayname :: "nat \<Rightarrow> string option option \<Rightarrow> ('z matrix_room_scheme, unit) op" where
  "member_set_displayname ref displayname =
     (case displayname of
        None \<Rightarrow> ret ()
      | Some name \<Rightarrow>
          bnd (reads (\<lambda>r. user_at r ref)) (\<lambda>u.
          andthen (names_remove (mu_name u) (mu_user_id u))
          (andthen (modify (set_user ref (\<lambda>u. u \<lparr> mu_display_name := name \<rparr>)))
          (bnd (reads (\<lambda>r. user_at r ref)) (\<lambda>u. names_append (mu_name u) (mu_user_id u))))))"

definition member_set_avatar :: "nat \<Rightarrow> string option option \<Rightarrow> ('z matrix_room_scheme, unit) op" where
  "member_set_avatar ref avatar_url =
     (case avatar_url of
        None \<Rightarrow> ret ()
      | Some url \<Rightarrow> modify (set_user ref (\<lambda>u. u \<lparr> mu_avatar_url := url \<rparr>)))"

definition handle_membership :: "member_event \<Rightarrow> ('z matrix_room_scheme, bool) op" where
  "handle_membership event =
     (let target_user = me_state_key event; invited = (me_membership event = ''invite'') in
      if me_membership event \<in> {''invite'', ''join''} then
        bnd (reads (\<lambda>r. (dget (mr_users r) target_user, din target_user (mr_invited_users r))))
          (\<lambda>(user, in_invited).
           case user of
             None \<Rightarrow>
               add_member target_user (content_get event ''displayname'') (content_get event ''avatar_url'') invited
           | Some ref \<Rightarrow>
             if invited \<and> \<not> in_invited then
               add_member target_user (content_get event ''displayname'') (content_get event ''avatar_url'') invited
             else
               andthen (member_set_invited target_user ref invited in_invited)
               (andthen (member_set_displayname ref (dget (me_content event) ''displayname''))
               (andthen (member_set_avatar ref (dget (me_content event) ''avatar_url''))
               (ret False))))
      else if me_membership event \<in> {''leave'', ''ban''} then remove_member target_user
      else ret False)"

section \<open>Invariant\<close>

text \<open>
  Every entry of \<^verbatim>\<open>users\<close> refers to the user of that id, every invited user is the same object
  as the member, exactly the invited members carry the flag, and \<^verbatim>\<open>names\<close> lists exactly the
  members that display a name, each once.
\<close>

definition room_ok :: "('z) matrix_room_scheme \<Rightarrow> bool" where
  "room_ok r \<longleftrightarrow>
     dwf (mr_users r) \<and> dwf (mr_invited_users r) \<and>
     (\<forall>u ref. dget (mr_users r) u = Some ref \<longrightarrow>
        ref < length (mr_heap r) \<and> mu_user_id (user_at r ref) = u \<and>
        (mu_invited (user_at r ref) \<longleftrightarrow> din u (mr_invited_users r))) \<and>
     (\<forall>u ref. dget (mr_invited_users r) u = Some ref \<longrightarrow> dget (mr_users r) u = Some ref) \<and>
     (\<forall>n. distinct (names_of r n)) \<and>
     (\<forall>n u. u \<in> set (names_of r n) \<longleftrightarrow>
        (\<exists>ref. dget (mr_users r) u = Some ref \<and> mu_name (user_at r ref) = n))"

lemma names_of_set [simp]: "names_of (set_names n ids r) m = (if m = n then ids else names_of r m)"
  by (simp add: names_of_def set_names_def dget_or_def)

lemma set_names_fields [simp]:
  "mr_users (set_names n ids r) = mr_users r"
  "mr_invited_users (set_names n ids r) = mr_invited_users r"
  "mr_heap (set_names n ids r) = mr_heap r"
  "user_at (set_names n ids r) ref = user_at r ref"
  by (simp_all add: set_names_def user_at_def)

lemma set_user_fields [simp]:
  "mr_users (set_user ref f r) = mr_users r"
  "mr_invited_users (set_user ref f r) = mr_invited_users r"
  "length (mr_heap (set_user ref f r)) = length (mr_heap r)"
  "names_of (set_user ref f r) n = names_of r n"
  by (simp_all add: set_user_def names_of_def)

lemma user_at_set:
  "ref < length (mr_heap r) \<Longrightarrow>
   user_at (set_user ref f r) ref' = (if ref' = ref then f (user_at r ref) else user_at r ref')"
  by (simp add: user_at_def set_user_def)

lemma room_okD:
  assumes "room_ok r" "dget (mr_users r) u = Some ref"
  shows "ref < length (mr_heap r)" "mu_user_id (user_at r ref) = u"
    "mu_invited (user_at r ref) \<longleftrightarrow> din u (mr_invited_users r)"
    "u \<in> set (names_of r n) \<longleftrightarrow> mu_name (user_at r ref) = n"
  using assms by (auto simp: room_ok_def)

lemma room_ok_refs:
  assumes "room_ok r" "dget (mr_users r) u = Some ref" "dget (mr_users r) v = Some ref"
  shows "u = v"
  using room_okD(2)[OF assms(1,2)] room_okD(2)[OF assms(1,3)] by simp


lemma room_ok_cong:
  assumes "mr_heap r' = mr_heap r" "mr_users r' = mr_users r"
    "mr_invited_users r' = mr_invited_users r" "mr_names r' = mr_names r"
  shows "room_ok r' = room_ok r"
  using assms by (simp add: room_ok_def user_at_def names_of_def)

lemma room_ok_new: "room_ok (MatrixRoom room_id own encrypted)"
  by (simp add: room_ok_def MatrixRoom_def names_of_def dget_or_def)

lemma room_ok_new_invited: "room_ok (MatrixInvitedRoom room_id own)"
  by (simp add: MatrixInvitedRoom_def MatrixRoom_def matrix_room.defs room_ok_def
      names_of_def dget_or_def)

lemma names_remove_ok:
  "u \<in> set (names_of r n) \<Longrightarrow> names_remove n u r = (Inr (), set_names n (remove1 u (names_of r n)) r)"
  by (simp add: names_remove_def)

lemma add_member_present: "din u (mr_users r) \<Longrightarrow> add_member u dn av ivt r = (Inr False, r)"
  by (simp add: add_member_def op_basic)

lemma add_member_new:
  assumes "room_ok r" "\<not> din u (mr_users r)"
  shows "fst (add_member u dn av ivt r) = Inr True"
    and "room_ok (snd (add_member u dn av ivt r))"
    and "dget (mr_users (snd (add_member u dn av ivt r))) = (dget (mr_users r))(u \<mapsto> length (mr_heap r))"
    and "user_at (snd (add_member u dn av ivt r)) (length (mr_heap r)) =
      MatrixUser u dn av (dget_or (pl_users (mr_power_levels r)) u
        (lv_users_default (pl_defaults (mr_power_levels r)))) ivt"
proof -
  let ?ref = "length (mr_heap r)"
  let ?user = "MatrixUser u dn av (dget_or (pl_users (mr_power_levels r)) u
        (lv_users_default (pl_defaults (mr_power_levels r)))) ivt"
  let ?r1 = "r \<lparr> mr_heap := mr_heap r @ [?user], mr_users := dset (mr_users r) u ?ref,
      mr_invited_users := (if ivt then dset (mr_invited_users r) u ?ref else mr_invited_users r) \<rparr>"
  let ?r2 = "set_names (str_or dn u) (names_of r (str_or dn u) @ [u]) ?r1"
  have run: "add_member u dn av ivt r = (Inr True, ?r2)"
    using assms(2) by (simp add: add_member_def names_append_def op_basic Let_def names_of_def)
  have name: "mu_name ?user = str_or dn u" by (simp add: mu_name_def MatrixUser_def)
  have new: "dget (mr_users r) u = None" using assms(2) by (simp add: din_def)
  then have ninv: "dget (mr_invited_users r) u = None"
    using assms(1) unfolding room_ok_def by (metis option.exhaust)
  have fresh: "u \<notin> set (names_of r n)" for n using assms(1) new unfolding room_ok_def by auto
  have at_old: "user_at ?r1 ref = user_at r ref" if "ref < length (mr_heap r)" for ref
    using that by (simp add: user_at_def nth_append)
  have at_new: "user_at ?r1 ?ref = ?user" by (simp add: user_at_def)
  have names: "names_of ?r1 n = names_of r n" for n by (simp add: names_of_def)
  show "fst (add_member u dn av ivt r) = Inr True" using run by simp
  show "dget (mr_users (snd (add_member u dn av ivt r))) = (dget (mr_users r))(u \<mapsto> ?ref)"
    using run by simp
  show "user_at (snd (add_member u dn av ivt r)) ?ref = ?user" unfolding run by (simp add: at_new)
  have inv_old: "ref < length (mr_heap r)" "mu_user_id (user_at r ref) = v"
    "mu_invited (user_at r ref) \<longleftrightarrow> din v (mr_invited_users r)"
    if "dget (mr_users r) v = Some ref" for v ref
    using room_okD[OF assms(1) that] by auto
  have "room_ok ?r2"
    unfolding room_ok_def
  proof (intro conjI allI impI)
    fix v ref
    assume a: "dget (mr_users ?r2) v = Some ref"
    show "ref < length (mr_heap ?r2)" "mu_user_id (user_at ?r2 ref) = v"
      "mu_invited (user_at ?r2 ref) \<longleftrightarrow> din v (mr_invited_users ?r2)"
      using a inv_old[of v ref] ninv at_old[of ref] at_new
      by (auto simp: din_def MatrixUser_def split: if_splits)
  next
    fix v ref
    assume "dget (mr_invited_users ?r2) v = Some ref"
    then show "dget (mr_users ?r2) v = Some ref"
      using ninv assms(1) by (auto simp: room_ok_def split: if_splits)
  next
    fix n v
    show "v \<in> set (names_of ?r2 n) \<longleftrightarrow> (\<exists>ref. dget (mr_users ?r2) v = Some ref \<and> mu_name (user_at ?r2 ref) = n)"
    proof (cases "v = u")
      case True
      then show ?thesis using fresh name at_new by (auto simp: names)
    next
      case False
      have "v \<in> set (names_of r n) \<longleftrightarrow> (\<exists>ref. dget (mr_users r) v = Some ref \<and> mu_name (user_at r ref) = n)"
        using assms(1) by (simp add: room_ok_def)
      then show ?thesis using False at_old inv_old(1)[of v] by (auto simp: names)
    qed
  qed (use assms(1) fresh in \<open>auto simp: room_ok_def names\<close>)
  then show "room_ok (snd (add_member u dn av ivt r))" using run by simp
qed

text \<open>A member is forgotten, his name entry with him.\<close>

definition forget_user :: "string \<Rightarrow> ('z) matrix_room_scheme \<Rightarrow> ('z) matrix_room_scheme" where
  "forget_user u r =
     (case dget (mr_users r) u of
        None \<Rightarrow> r
      | Some ref \<Rightarrow>
          set_names (mu_name (user_at r ref)) (remove1 u (names_of r (mu_name (user_at r ref))))
            (r \<lparr> mr_users := ddel (mr_users r) u, mr_invited_users := ddel (mr_invited_users r) u \<rparr>))"

lemma ddel_absent: "dget d k = None \<Longrightarrow> ddel d k = d"
  by (rule ddel_new) (metis dget_None_iff)

lemma remove_member_run:
  assumes "room_ok r"
  shows "remove_member u r = (Inr (din u (mr_users r)), forget_user u r)"
proof (cases "dget (mr_users r) u")
  case None
  then have "dget (mr_invited_users r) u = None"
    using assms unfolding room_ok_def by (metis option.exhaust)
  then show ?thesis using None
    by (simp add: remove_member_def op_basic forget_user_def din_def ddel_absent)
next
  case (Some ref)
  let ?n = "mu_name (user_at r ref)"
  let ?r1 = "r \<lparr> mr_users := ddel (mr_users r) u \<rparr>"
  have names: "names_of ?r1 m = names_of r m" for m by (simp add: names_of_def)
  have at: "user_at ?r1 k = user_at r k" for k by (simp add: user_at_def)
  have mem: "u \<in> set (names_of r ?n)" and id: "mu_user_id (user_at r ref) = u"
    using room_okD[OF assms Some] by auto
  have gone: "u \<notin> set (remove1 u (names_of r ?n))"
    using assms by (simp add: room_ok_def)
  have ivu: "dget (mr_invited_users r) u = Some ref \<or> dget (mr_invited_users r) u = None"
    using assms Some unfolding room_ok_def by (metis option.exhaust option.inject)
  show ?thesis
    using ivu Some mem id gone
    by (auto simp: remove_member_def op_basic forget_user_def din_def ddel_absent names_remove_def
        names at set_names_def names_of_def user_at_def dget_or_def)
qed

lemma forget_user_ok:
  assumes "room_ok r"
  shows "room_ok (forget_user u r)"
proof (cases "dget (mr_users r) u")
  case (Some ref)
  let ?r' = "r \<lparr> mr_users := ddel (mr_users r) u, mr_invited_users := ddel (mr_invited_users r) u \<rparr>"
  have [simp]: "names_of ?r' m = names_of r m" "user_at ?r' k = user_at r k" for m k
    by (simp_all add: names_of_def user_at_def)
  have mem: "x \<in> set (names_of r n) \<longleftrightarrow> (\<exists>ref. dget (mr_users r) x = Some ref \<and> mu_name (user_at r ref) = n)" for x n
    using assms by (simp add: room_ok_def)
  show ?thesis
    unfolding room_ok_def forget_user_def Some option.case
  proof (intro conjI allI impI)
    fix n v
    show "v \<in> set (names_of (set_names (mu_name (user_at r ref)) (remove1 u (names_of r (mu_name (user_at r ref)))) ?r') n) \<longleftrightarrow>
      (\<exists>k. dget (mr_users (set_names (mu_name (user_at r ref)) (remove1 u (names_of r (mu_name (user_at r ref)))) ?r')) v = Some k \<and>
        mu_name (user_at (set_names (mu_name (user_at r ref)) (remove1 u (names_of r (mu_name (user_at r ref)))) ?r') k) = n)"
      using assms Some by (auto simp: mem room_ok_def)
  qed (use assms in \<open>auto simp: room_ok_def din_def split: if_splits\<close>)
qed (use assms in \<open>simp add: forget_user_def\<close>)


lemma set_user_ok:
  assumes "room_ok r" "dget (mr_users r) u = Some ref"
    and "\<And>m. mu_user_id (f m) = mu_user_id m" "\<And>m. mu_name (f m) = mu_name m"
    and "\<And>m. mu_invited (f m) = mu_invited m"
  shows "room_ok (set_user ref f r)"
proof -
  have at: "user_at (set_user ref f r) k = (if k = ref then f (user_at r ref) else user_at r k)" for k
    using room_okD(1)[OF assms(1,2)] by (rule user_at_set)
  have same: "mu_user_id (user_at (set_user ref f r) k) = mu_user_id (user_at r k)"
    "mu_name (user_at (set_user ref f r) k) = mu_name (user_at r k)"
    "mu_invited (user_at (set_user ref f r) k) = mu_invited (user_at r k)" for k
    using assms(3-5) by (simp_all add: at)
  show ?thesis using assms(1) unfolding room_ok_def set_user_fields same .
qed

text \<open>What handling a membership event of a present member does, step by step.\<close>

definition set_invited :: "string \<Rightarrow> nat \<Rightarrow> bool \<Rightarrow> ('z) matrix_room_scheme \<Rightarrow> ('z) matrix_room_scheme" where
  "set_invited u ref b r =
     (let r1 = set_user ref (\<lambda>m. m \<lparr> mu_invited := b \<rparr>) r
      in if \<not> b then r1 \<lparr> mr_invited_users := ddel (mr_invited_users r1) u \<rparr> else r1)"

definition rename_user :: "string \<Rightarrow> nat \<Rightarrow> string option \<Rightarrow> ('z) matrix_room_scheme \<Rightarrow> ('z) matrix_room_scheme" where
  "rename_user u ref name r =
     (let old = mu_name (user_at r ref);
          r1 = set_user ref (\<lambda>m. m \<lparr> mu_display_name := name \<rparr>) (set_names old (remove1 u (names_of r old)) r);
          new = mu_name (user_at r1 ref)
      in set_names new (names_of r1 new @ [u]) r1)"

lemma mu_updates [simp]:
  "mu_name (m \<lparr> mu_invited := b \<rparr>) = mu_name m" "mu_name (m \<lparr> mu_avatar_url := a \<rparr>) = mu_name m"
  "mu_name (m \<lparr> mu_power_level := l \<rparr>) = mu_name m"
  "mu_name (m \<lparr> mu_display_name := d \<rparr>) = str_or d (mu_user_id m)"
  by (simp_all add: mu_name_def)

lemma set_invited_fields:
  assumes "ref < length (mr_heap r)"
  shows "mr_users (set_invited u ref b r) = mr_users r"
    "length (mr_heap (set_invited u ref b r)) = length (mr_heap r)"
    "names_of (set_invited u ref b r) n = names_of r n"
    "user_at (set_invited u ref b r) k = (if k = ref then (user_at r ref) \<lparr> mu_invited := b \<rparr> else user_at r k)"
    "mr_invited_users (set_invited u ref b r) = (if b then mr_invited_users r else ddel (mr_invited_users r) u)"
  using assms user_at_set[OF assms]
  by (auto simp: set_invited_def Let_def names_of_def user_at_def set_user_def)

lemma set_invited_ok:
  assumes "room_ok r" "dget (mr_users r) u = Some ref" "b \<longrightarrow> din u (mr_invited_users r)"
  shows "room_ok (set_invited u ref b r)"
proof -
  note ref = room_okD(1)[OF assms(1,2)]
  have other: "dget (mr_users r) v = Some ref \<Longrightarrow> v = u" for v
    using room_ok_refs[OF assms(1)] assms(2) by blast
  note f = set_invited_fields[OF ref]
  have nm: "mu_name (user_at (set_invited u ref b r) k) = mu_name (user_at r k)"
    "mu_user_id (user_at (set_invited u ref b r) k) = mu_user_id (user_at r k)" for k
    by (simp_all add: f)
  show ?thesis
    unfolding room_ok_def f(1-3) nm
  proof (intro conjI allI impI)
    fix v k
    assume v: "dget (mr_users r) v = Some k"
    show "k < length (mr_heap r)" "mu_user_id (user_at r k) = v"
      using room_okD[OF assms(1) v] by auto
    show "mu_invited (user_at (set_invited u ref b r) k) = din v (mr_invited_users (set_invited u ref b r))"
    proof (cases "v = u")
      case True
      then have "k = ref" using v assms(2) by simp
      then show ?thesis using True assms(3) by (cases b) (simp_all add: f(4,5) din_def)
    next
      case False
      then have "k \<noteq> ref" using other v by blast
      then show ?thesis using room_okD(3)[OF assms(1) v] False by (simp add: f(4,5) din_def)
    qed
  next
    fix v k
    assume "dget (mr_invited_users (set_invited u ref b r)) v = Some k"
    then show "dget (mr_users r) v = Some k"
      using assms(1) by (auto simp: room_ok_def f(5) split: if_splits)
  qed (use assms(1) in \<open>auto simp: room_ok_def f(5)\<close>)
qed

lemma rename_user_ok:
  assumes "room_ok r" "dget (mr_users r) u = Some ref"
  shows "room_ok (rename_user u ref name r)"
proof -
  note ref = room_okD(1)[OF assms(1,2)] and id = room_okD(2)[OF assms(1,2)]
  let ?r' = "rename_user u ref name r" and ?old = "mu_name (user_at r ref)" and ?new = "str_or name u"
  have other: "dget (mr_users r) v = Some ref \<Longrightarrow> v = u" for v
    using room_ok_refs[OF assms(1)] assms(2) by blast
  have at: "user_at ?r' k = (if k = ref then (user_at r ref) \<lparr> mu_display_name := name \<rparr> else user_at r k)" for k
    using ref by (simp add: rename_user_def Let_def user_at_set)
  have fields: "mr_users ?r' = mr_users r" "mr_invited_users ?r' = mr_invited_users r"
    "length (mr_heap ?r') = length (mr_heap r)"
    by (simp_all add: rename_user_def Let_def)
  have names: "names_of ?r' n =
      (if n = ?new then (if n = ?old then remove1 u (names_of r n) else names_of r n) @ [u]
       else if n = ?old then remove1 u (names_of r n) else names_of r n)" for n
    using ref id by (simp add: rename_user_def Let_def user_at_set)
  have mem: "v \<in> set (names_of r n) \<longleftrightarrow> (\<exists>k. dget (mr_users r) v = Some k \<and> mu_name (user_at r k) = n)" for v n
    using assms(1) by (simp add: room_ok_def)
  have dist: "distinct (names_of r n)" for n using assms(1) by (simp add: room_ok_def)
  have memu: "u \<in> set (names_of r n) \<longleftrightarrow> n = ?old" for n using mem[of u n] assms(2) by auto
  show ?thesis
    unfolding room_ok_def fields
  proof (intro conjI allI impI)
    fix n
    show "distinct (names_of ?r' n)" using dist[of n] memu[of n] by (auto simp: names)
  next
    fix n v
    show "v \<in> set (names_of ?r' n) \<longleftrightarrow> (\<exists>k. dget (mr_users r) v = Some k \<and> mu_name (user_at ?r' k) = n)"
    proof (cases "v = u")
      case True
      then show ?thesis using assms(2) id dist[of n] memu[of n] by (auto simp: names at)
    next
      case False
      then show ?thesis using other dist[of n] by (auto simp: names at mem)
    qed
  qed (use assms(1) at in \<open>auto simp: room_ok_def split: if_splits\<close>)
qed

definition set_avatar :: "nat \<Rightarrow> string option \<Rightarrow> ('z) matrix_room_scheme \<Rightarrow> ('z) matrix_room_scheme" where
  "set_avatar ref url r = set_user ref (\<lambda>m. m \<lparr> mu_avatar_url := url \<rparr>) r"

definition update_member :: "member_event \<Rightarrow> nat \<Rightarrow> ('z) matrix_room_scheme \<Rightarrow> ('z) matrix_room_scheme" where
  "update_member e ref r =
     (let u = me_state_key e; r1 = set_invited u ref (me_membership e = ''invite'') r;
          r2 = (case dget (me_content e) ''displayname'' of None \<Rightarrow> r1 | Some name \<Rightarrow> rename_user u ref name r1)
      in (case dget (me_content e) ''avatar_url'' of None \<Rightarrow> r2 | Some url \<Rightarrow> set_avatar ref url r2))"

lemma rename_user_users [simp]: "mr_users (rename_user u ref name r) = mr_users r"
  by (simp add: rename_user_def Let_def)

lemma set_avatar_users [simp]: "mr_users (set_avatar ref url r) = mr_users r"
  by (simp add: set_avatar_def)

lemma set_invited_users [simp]: "mr_users (set_invited u ref b r) = mr_users r"
  by (simp add: set_invited_def Let_def)

lemma update_member_ok:
  assumes "room_ok r" "dget (mr_users r) (me_state_key e) = Some ref"
    "me_membership e = ''invite'' \<longrightarrow> din (me_state_key e) (mr_invited_users r)"
  shows "room_ok (update_member e ref r)" "mr_users (update_member e ref r) = mr_users r"
proof -
  let ?u = "me_state_key e" let ?r1 = "set_invited ?u ref (me_membership e = ''invite'') r"
  have 1: "room_ok ?r1" using set_invited_ok[OF assms(1,2)] assms(3) by blast
  have 2: "room_ok (rename_user ?u ref name ?r1)" for name
    by (rule rename_user_ok[OF 1]) (simp add: assms(2))
  have 3: "room_ok r' \<Longrightarrow> mr_users r' = mr_users r \<Longrightarrow> room_ok (set_avatar ref url r')"
    for r' :: "'a matrix_room_scheme" and url
    unfolding set_avatar_def by (rule set_user_ok) (use assms(2) in auto)
  show "room_ok (update_member e ref r)"
    using 1 2 3 by (auto simp: update_member_def Let_def split: option.splits)
  show "mr_users (update_member e ref r) = mr_users r"
    by (auto simp: update_member_def Let_def split: option.splits)
qed

lemma member_set_invited_run:
  "member_set_invited u ref b (din u (mr_invited_users r)) r = (Inr (), set_invited u ref b r)"
  using ddel_absent[of "mr_invited_users r" u]
  by (auto simp: member_set_invited_def op_basic set_invited_def Let_def din_def set_user_def)

lemma member_set_displayname_run:
  assumes "room_ok r" "dget (mr_users r) u = Some ref"
  shows "member_set_displayname ref (Some name) r = (Inr (), rename_user u ref name r)"
proof -
  note id = room_okD(2)[OF assms] and ref = room_okD(1)[OF assms]
  have "u \<in> set (names_of r (mu_name (user_at r ref)))" using room_okD(4)[OF assms] by simp
  then show ?thesis using id ref
    by (simp add: member_set_displayname_def op_basic names_remove_ok names_append_def rename_user_def
        Let_def user_at_set)
qed

lemma member_set_avatar_run:
  "member_set_avatar ref (Some url) r = (Inr (), set_avatar ref url r)"
  by (simp add: member_set_avatar_def set_avatar_def op_basic)

lemma handle_membership_update:
  fixes r :: "'z matrix_room_scheme"
  assumes "room_ok r" "dget (mr_users r) (me_state_key e) = Some ref"
    "me_membership e \<in> {''invite'', ''join''}"
    "me_membership e = ''invite'' \<longrightarrow> din (me_state_key e) (mr_invited_users r)"
  shows "handle_membership e r = (Inr False, update_member e ref r)"
proof -
  let ?u = "me_state_key e"
  let ?r1 = "set_invited ?u ref (me_membership e = ''invite'') r"
  have 1: "room_ok ?r1" "dget (mr_users ?r1) ?u = Some ref"
    using set_invited_ok[OF assms(1,2)] assms(2,4) by auto
  define k :: "('z matrix_room_scheme, bool) op" where
    "k = andthen (member_set_displayname ref (dget (me_content e) ''displayname''))
      (andthen (member_set_avatar ref (dget (me_content e) ''avatar_url'')) (ret False))"
  have "k ?r1 = (Inr False, update_member e ref r)"
    using member_set_displayname_run[OF 1]
    by (cases "dget (me_content e) ''displayname''"; cases "dget (me_content e) ''avatar_url''")
       (simp_all add: k_def update_member_def Let_def op_basic member_set_avatar_run member_set_displayname_def[of _ None]
         member_set_avatar_def[of _ None])
  moreover have "handle_membership e r = k ?r1"
    using assms(2,3,4) member_set_invited_run[of ?u ref "me_membership e = ''invite''" r]
    by (auto simp: handle_membership_def Let_def bnd_def[of "reads _"] reads_def
        bnd_def[of "member_set_invited _ _ _ _"] k_def)
  ultimately show ?thesis by simp
qed


definition membership_users :: "member_event \<Rightarrow> string set \<Rightarrow> string set" where
  "membership_users e us =
     (if me_membership e \<in> {''invite'', ''join''} then insert (me_state_key e) us
      else if me_membership e \<in> {''leave'', ''ban''} then us - {me_state_key e} else us)"

lemma membership_op_cases:
  assumes "room_ok r"
  shows "\<exists>b r'. handle_membership e r = (Inr b, r') \<and> room_ok r' \<and>
    dom (dget (mr_users r')) = membership_users e (dom (dget (mr_users r))) \<and>
    (b \<longleftrightarrow> dom (dget (mr_users r')) \<noteq> dom (dget (mr_users r)))"
proof -
  let ?u = "me_state_key e"
  consider (add) "me_membership e \<in> {''invite'', ''join''}" "dget (mr_users r) ?u = None"
    | (again) ref where "me_membership e = ''invite''" "dget (mr_users r) ?u = Some ref" "\<not> din ?u (mr_invited_users r)"
    | (upd) ref where "me_membership e \<in> {''invite'', ''join''}" "dget (mr_users r) ?u = Some ref"
        "me_membership e = ''invite'' \<longrightarrow> din ?u (mr_invited_users r)"
    | (gone) "me_membership e \<in> {''leave'', ''ban''}"
    | (other) "me_membership e \<notin> {''invite'', ''join'', ''leave'', ''ban''}"
    by (cases "dget (mr_users r) ?u") auto
  then show ?thesis
  proof cases
    case add
    let ?m = "add_member ?u (content_get e ''displayname'') (content_get e ''avatar_url'') (me_membership e = ''invite'')"
    have "handle_membership e r = ?m r"
      using add by (auto simp: handle_membership_def Let_def bnd_def reads_def)
    moreover have nd: "\<not> din ?u (mr_users r)" using add by (simp add: din_def)
    moreover note add_member_new(1-3)[OF assms nd, of "content_get e ''displayname''"
      "content_get e ''avatar_url''" "me_membership e = ''invite''"]
    ultimately show ?thesis
      using add by (cases "?m r") (auto simp: membership_users_def)
  next
    case again
    then have "handle_membership e r = (Inr False, r)"
      using add_member_present[of ?u r] by (auto simp: handle_membership_def Let_def bnd_def reads_def din_def)
    then show ?thesis using again assms by (auto simp: membership_users_def)
  next
    case upd
    then show ?thesis
      using handle_membership_update[OF assms upd(2,1,3)] update_member_ok[OF assms upd(2,3)]
      by (auto simp: membership_users_def)
  next
    case gone
    have d: "dom (dget (mr_users (forget_user ?u r))) = dom (dget (mr_users r)) - {?u}"
      by (auto simp: forget_user_def split: option.splits)
    have "handle_membership e r = (Inr (din ?u (mr_users r)), forget_user ?u r)"
      using gone remove_member_run[OF assms] by (auto simp: handle_membership_def Let_def)
    then show ?thesis using gone forget_user_ok[OF assms] d
      by (auto simp: membership_users_def din_def)
  next
    case other
    then have "handle_membership e r = (Inr False, r)"
      by (simp add: handle_membership_def Let_def ret_def)
    then show ?thesis using assms other by (auto simp: membership_users_def)
  qed
qed

text \<open>C23: Handling a membership event never raises, keeps members, invitations and display
  names consistent, adds or removes exactly its target, and returns True exactly when the
  member list changed.\<close>

theorem handle_membership_total:
  assumes "room_ok r"
  shows "\<exists>b r'. handle_membership e r = (Inr b, r') \<and> room_ok r' \<and>
    dom (dget (mr_users r')) = membership_users e (dom (dget (mr_users r))) \<and>
    (b \<longleftrightarrow> dom (dget (mr_users r')) \<noteq> dom (dget (mr_users r)))"
  using assms by (rule membership_op_cases)

definition sample_member :: member_event where
  "sample_member = \<lparr> me_sender = ''@a:x'', me_state_key = ''@a:x'', me_membership = ''join'',
     me_content = [(''displayname'', Some ''Alice'')] \<rparr>"

theorem handle_membership_total_witness:
  "\<exists>b r'. handle_membership sample_member (MatrixRoom ''!r:x'' ''@me:x'' False) = (Inr b, r') \<and>
     room_ok r' \<and> ''@a:x'' \<in> dom (dget (mr_users r'))"
  using handle_membership_total[OF room_ok_new[of "''!r:x''" "''@me:x''" False], of sample_member]
  by (auto simp: membership_users_def sample_member_def)

section \<open>Other events\<close>

text \<open>\<^verbatim>\<open>int(text)\<close> on ASCII text: surrounding white space, a sign, digits with single underscores.\<close>

definition py_space :: "char \<Rightarrow> bool" where
  "py_space c = (byte_of c = 32 \<or> (9 \<le> byte_of c \<and> byte_of c \<le> 13) \<or> (28 \<le> byte_of c \<and> byte_of c \<le> 31))"

definition py_strip :: "string \<Rightarrow> string" where
  "py_strip s = rev (dropWhile py_space (rev (dropWhile py_space s)))"

definition is_digit :: "char \<Rightarrow> bool" where
  "is_digit c = (48 \<le> byte_of c \<and> byte_of c \<le> 57)"

fun py_digits :: "int \<Rightarrow> string \<Rightarrow> int option" where
  "py_digits acc [] = Some acc"
| "py_digits acc (c # s) =
     (if is_digit c then py_digits (10 * acc + int (byte_of c - 48)) s
      else if c = CHR ''_'' then
        (case s of
           d # t \<Rightarrow> if is_digit d then py_digits (10 * acc + int (byte_of d - 48)) t else None
         | [] \<Rightarrow> None)
      else None)"

definition py_int :: "string \<Rightarrow> int option" where
  "py_int text =
     (case py_strip text of
        [] \<Rightarrow> None
      | c # s \<Rightarrow>
          if c = CHR ''-'' then (case s of d # _ \<Rightarrow> if is_digit d then map_option uminus (py_digits 0 s) else None | [] \<Rightarrow> None)
          else if c = CHR ''+'' then (case s of d # _ \<Rightarrow> if is_digit d then py_digits 0 s else None | [] \<Rightarrow> None)
          else if is_digit c then py_digits 0 (c # s) else None)"

definition supports_room_version_12 :: "string \<Rightarrow> bool" where
  "supports_room_version_12 room_version =
     (case py_int room_version of
        Some v \<Rightarrow> 12 \<le> v
      | None \<Rightarrow> room_version = ''org.matrix.hydra.11'')"

datatype room_event =
    RoomCreateEvent string bool string "string option" "string list"
  | RoomGuestAccessEvent string
  | RoomHistoryVisibilityEvent string
  | RoomJoinRulesEvent string
  | RoomNameEvent "string option"
  | RoomAliasEvent "string option"
  | RoomTopicEvent "string option"
  | RoomAvatarEvent "string option"
  | RoomEncryptionEvent
  | RoomUpgradeEvent string
  | PowerLevelsEvent power_levels
  | RoomSpaceParentEvent string bool
  | RoomSpaceChildEvent string bool
  | InviteMemberEvent member_event
  | InviteNameEvent "string option"
  | InviteAliasEvent "string option"
  | OtherRoomEvent

definition set_power_level :: "string \<times> int \<Rightarrow> ('z) matrix_room_scheme \<Rightarrow> ('z) matrix_room_scheme" where
  "set_power_level ul r =
     (case dget (mr_users r) (fst ul) of
        None \<Rightarrow> r
      | Some ref \<Rightarrow> set_user ref (\<lambda>u. u \<lparr> mu_power_level := snd ul \<rparr>) r)"

definition handle_power_levels :: "power_levels \<Rightarrow> ('z) matrix_room_scheme \<Rightarrow> ('z) matrix_room_scheme" where
  "handle_power_levels levels r =
     (let pl = levels_update (mr_power_levels r) (Some levels)
      in foldl (\<lambda>r ul. set_power_level ul r) (r \<lparr> mr_power_levels := pl \<rparr>) (pl_users pl))"

fun handle_event :: "room_event \<Rightarrow> ('z) matrix_room_scheme \<Rightarrow> ('z) matrix_room_scheme" where
  "handle_event (RoomCreateEvent sender federate room_version room_type additional_creators) r =
     (let r1 = r \<lparr> mr_federate := federate, mr_room_version := room_version, mr_room_type := room_type \<rparr>
      in if supports_room_version_12 room_version
         then (let creators = insert sender (set additional_creators)
               in r1 \<lparr> mr_creators := creators,
                       mr_power_levels := (mr_power_levels r1) \<lparr> pl_creators := creators \<rparr> \<rparr>)
         else r1)"
| "handle_event (RoomGuestAccessEvent v) r = r \<lparr> mr_guest_access := v \<rparr>"
| "handle_event (RoomHistoryVisibilityEvent v) r = r \<lparr> mr_history_visibility := v \<rparr>"
| "handle_event (RoomJoinRulesEvent v) r = r \<lparr> mr_join_rule := v \<rparr>"
| "handle_event (RoomNameEvent v) r = r \<lparr> mr_name := v \<rparr>"
| "handle_event (RoomAliasEvent v) r = r \<lparr> mr_canonical_alias := v \<rparr>"
| "handle_event (RoomTopicEvent v) r = r \<lparr> mr_topic := v \<rparr>"
| "handle_event (RoomAvatarEvent v) r = r \<lparr> mr_room_avatar_url := v \<rparr>"
| "handle_event RoomEncryptionEvent r = r \<lparr> mr_encrypted := True \<rparr>"
| "handle_event (RoomUpgradeEvent v) r = r \<lparr> mr_replacement_room := Some v \<rparr>"
| "handle_event (PowerLevelsEvent levels) r = handle_power_levels levels r"
| "handle_event (RoomSpaceParentEvent k via) r =
     r \<lparr> mr_parents := (if via then insert k (mr_parents r) else mr_parents r - {k}) \<rparr>"
| "handle_event (RoomSpaceChildEvent k via) r =
     r \<lparr> mr_children := (if via then insert k (mr_children r) else mr_children r - {k}) \<rparr>"
| "handle_event _ r = r"

text \<open>The overrides of \<^verbatim>\<open>MatrixInvitedRoom\<close>.\<close>

definition invited_handle_membership :: "member_event \<Rightarrow> (invited_room, bool) op" where
  "invited_handle_membership event =
     andthen (modify (\<lambda>r.
       if me_membership event = ''invite'' \<and> me_state_key event = mr_own_user_id r
       then r \<lparr> ir_inviter := Some (me_sender event) \<rparr> else r))
     (handle_membership event)"

fun invited_handle_event :: "room_event \<Rightarrow> (invited_room, unit) op" where
  "invited_handle_event (InviteMemberEvent event) = andthen (invited_handle_membership event) (ret ())"
| "invited_handle_event (InviteNameEvent v) = modify (\<lambda>r. r \<lparr> mr_name := v \<rparr>)"
| "invited_handle_event (InviteAliasEvent v) = modify (\<lambda>r. r \<lparr> mr_canonical_alias := v \<rparr>)"
| "invited_handle_event _ = ret ()"

section \<open>Ephemeral events, account data and summaries\<close>

datatype ephemeral_event = TypingNoticeEvent "string list" | ReceiptEvent "receipt list" | OtherEphemeralEvent

definition handle_receipt :: "receipt \<Rightarrow> ('z) matrix_room_scheme \<Rightarrow> ('z) matrix_room_scheme" where
  "handle_receipt receipt r =
     (if \<not> rc_known_type receipt then r
      else (case rc_thread_id receipt of
        Some (c # t) \<Rightarrow>
          r \<lparr> mr_threaded_read_receipts :=
                dset (mr_threaded_read_receipts r) (rc_user_id receipt)
                  (dset (dget_or (mr_threaded_read_receipts r) (rc_user_id receipt) []) (c # t) receipt) \<rparr>
      | _ \<Rightarrow> r \<lparr> mr_read_receipts := dset (mr_read_receipts r) (rc_user_id receipt) receipt \<rparr>))"

fun handle_ephemeral_event :: "ephemeral_event \<Rightarrow> ('z) matrix_room_scheme \<Rightarrow> ('z) matrix_room_scheme" where
  "handle_ephemeral_event (TypingNoticeEvent users) r = r \<lparr> mr_typing_users := users \<rparr>"
| "handle_ephemeral_event (ReceiptEvent receipts) r = foldl (\<lambda>r x. handle_receipt x r) r receipts"
| "handle_ephemeral_event OtherEphemeralEvent r = r"

datatype account_data_event = FullyReadEvent string | TagEvent tags | OtherAccountDataEvent

fun handle_account_data :: "account_data_event \<Rightarrow> ('z) matrix_room_scheme \<Rightarrow> ('z) matrix_room_scheme" where
  "handle_account_data (FullyReadEvent event_id) r = r \<lparr> mr_fully_read_marker := Some event_id \<rparr>"
| "handle_account_data (TagEvent t) r = r \<lparr> mr_tags := t \<rparr>"
| "handle_account_data OtherAccountDataEvent r = r"

record unread_notifications =
  un_notification_count :: "int option"
  un_highlight_count :: "int option"

definition update_unread_notifications ::
  "unread_notifications \<Rightarrow> ('z) matrix_room_scheme \<Rightarrow> ('z) matrix_room_scheme" where
  "update_unread_notifications unread r =
     (let r1 = (case un_notification_count unread of None \<Rightarrow> r | Some n \<Rightarrow> r \<lparr> mr_unread_notifications := n \<rparr>)
      in (case un_highlight_count unread of None \<Rightarrow> r1 | Some n \<Rightarrow> r1 \<lparr> mr_unread_highlights := n \<rparr>))"

definition some_or :: "'a option \<Rightarrow> 'a option \<Rightarrow> 'a option" where
  "some_or x y = (case x of None \<Rightarrow> y | Some v \<Rightarrow> Some v)"

definition update_summary :: "room_summary \<Rightarrow> ('z) matrix_room_scheme \<Rightarrow> ('z) matrix_room_scheme" where
  "update_summary summary r =
     (case mr_summary r of
        None \<Rightarrow> r \<lparr> mr_summary := Some summary \<rparr>
      | Some old \<Rightarrow>
          r \<lparr> mr_summary := Some (old
               \<lparr> rs_joined_member_count := some_or (rs_joined_member_count summary) (rs_joined_member_count old),
                 rs_invited_member_count := some_or (rs_invited_member_count summary) (rs_invited_member_count old),
                 rs_heroes := some_or (rs_heroes summary) (rs_heroes old) \<rparr>) \<rparr>)"

definition summary_details :: "('z) matrix_room_scheme \<Rightarrow> exn + (string list \<times> int \<times> int)" where
  "summary_details r =
     (case mr_summary r of
        Some s \<Rightarrow>
          (case (rs_joined_member_count s, rs_invited_member_count s) of
             (Some j, Some i) \<Rightarrow> Inr ((case rs_heroes s of None \<Rightarrow> [] | Some h \<Rightarrow> h), j, i)
           | _ \<Rightarrow> Inl (ValueError ''Unusable summary''))
      | None \<Rightarrow> Inl (ValueError ''Unusable summary''))"

definition count_users :: "(matrix_user \<Rightarrow> bool) \<Rightarrow> ('z) matrix_room_scheme \<Rightarrow> int" where
  "count_users p r = int (length (filter (\<lambda>ref. p (user_at r ref)) (dvalues (mr_users r))))"

definition joined_count :: "('z) matrix_room_scheme \<Rightarrow> int" where
  "joined_count r =
     (case summary_details r of Inr (_, j, _) \<Rightarrow> j | Inl _ \<Rightarrow> count_users (\<lambda>u. \<not> mu_invited u) r)"

definition invited_count :: "('z) matrix_room_scheme \<Rightarrow> int" where
  "invited_count r =
     (case summary_details r of Inr (_, _, i) \<Rightarrow> i | Inl _ \<Rightarrow> count_users mu_invited r)"

definition member_count :: "('z) matrix_room_scheme \<Rightarrow> int" where
  "member_count r =
     (case summary_details r of Inr (_, j, i) \<Rightarrow> j + i | Inl _ \<Rightarrow> int (length (mr_users r)))"

end
