(* ===== verification/Nio_Room_Names.thy ===== *)
theory Nio_Room_Names
  imports Nio_Rooms Nio_Json
begin

text \<open>
  What \<^verbatim>\<open>src/nio/rooms.py\<close> derives from a room: disambiguated user names, the display name of
  the room, its avatar; and the rooms any sequence of events can reach, which all keep the
  invariant of \<open>Nio_Rooms\<close>.
\<close>

section \<open>Names\<close>

definition user_name :: "('z) matrix_room_scheme \<Rightarrow> string \<Rightarrow> string option" where
  "user_name r user_id =
     (case dget (mr_users r) user_id of
        None \<Rightarrow> None
      | Some ref \<Rightarrow>
          let user = user_at r ref in
          if 1 < length (names_of r (mu_name user)) then Some (disambiguated_name user)
          else Some (mu_name user))"

definition user_name_clashes :: "('z) matrix_room_scheme \<Rightarrow> string \<Rightarrow> string list" where
  "user_name_clashes r name = names_of r name"

definition avatar_url :: "('z) matrix_room_scheme \<Rightarrow> string \<Rightarrow> string option" where
  "avatar_url r user_id =
     (case dget (mr_users r) user_id of None \<Rightarrow> None | Some ref \<Rightarrow> mu_avatar_url (user_at r ref))"

text \<open>\<^verbatim>\<open>x or y or None\<close> on optional strings: the first that is not empty.\<close>

definition opt_or :: "string option \<Rightarrow> string option \<Rightarrow> string option" where
  "opt_or x y = (case x of Some (c # s) \<Rightarrow> Some (c # s) | _ \<Rightarrow> (case y of Some (c # s) \<Rightarrow> Some (c # s) | _ \<Rightarrow> None))"

definition named_room_name :: "('z) matrix_room_scheme \<Rightarrow> string option" where
  "named_room_name r = opt_or (mr_name r) (mr_canonical_alias r)"

text \<open>The members other than the own user, sorted by display name; \<^verbatim>\<open>sorted\<close> is stable.\<close>

definition user_key :: "('z) matrix_room_scheme \<Rightarrow> string \<Rightarrow> string" where
  "user_key r u = (case user_name r u of None \<Rightarrow> [] | Some n \<Rightarrow> n)"

definition sorted_others :: "('z) matrix_room_scheme \<Rightarrow> string list" where
  "sorted_others r = filter (\<lambda>u. u \<noteq> mr_own_user_id r) (sort_key (user_key r) (dkeys (mr_users r)))"

definition group_name_structure :: "('z) matrix_room_scheme \<Rightarrow> bool \<times> string list \<times> int" where
  "group_name_structure r =
     (case summary_details r of
        Inl e \<Rightarrow>
          (let users = sorted_others r; empty = (users = [])
           in if length users \<le> 5 then (empty, users, 0)
              else (empty, take 5 users, int (length users) - 5))
      | Inr (heroes, _, _) \<Rightarrow>
          (let empty = (member_count r \<le> 1)
           in if member_count r - 1 \<le> int (length heroes) then (empty, heroes, 0)
              else (empty, heroes, member_count r - 1 - int (length heroes))))"

definition group_name :: "('z) matrix_room_scheme \<Rightarrow> string" where
  "group_name r =
     (let (empty, user_ids, others) = group_name_structure r;
          names = map (\<lambda>u. str_or (user_name r u) u) user_ids;
          text =
            (if others \<noteq> 0 then
               join '', '' names @ '' and '' @ int_dec others @ '' other'' @ (if others = 1 then [] else ''s'')
             else if names = [] then []
             else if length names = 1 then hd names
             else join '', '' (butlast names) @ '' and '' @ last names)
      in if empty \<and> text \<noteq> [] then ''Empty Room (had '' @ text @ '')''
         else if empty then ''Empty Room'' else text)"

definition display_name :: "('z) matrix_room_scheme \<Rightarrow> string" where
  "display_name r = str_or (named_room_name r) (group_name r)"

definition is_named :: "('z) matrix_room_scheme \<Rightarrow> bool" where
  "is_named r = (opt_or (mr_canonical_alias r) (mr_name r) \<noteq> None)"

definition is_group :: "('z) matrix_room_scheme \<Rightarrow> bool" where
  "is_group r = (\<not> is_named r)"

definition machine_name :: "('z) matrix_room_scheme \<Rightarrow> string" where
  "machine_name r = str_or (mr_canonical_alias r) (mr_room_id r)"

definition gen_avatar_url :: "('z) matrix_room_scheme \<Rightarrow> string option" where
  "gen_avatar_url r =
     (case mr_room_avatar_url r of
        Some (c # s) \<Rightarrow> Some (c # s)
      | _ \<Rightarrow>
        (case summary_details r of
           Inl e \<Rightarrow>
             (if is_group r \<and> length (mr_users r) = 2 then avatar_url r (hd (sorted_others r)) else None)
         | Inr (heroes, _, _) \<Rightarrow>
             (if is_group r \<and> member_count r = 2 \<and> 1 \<le> length heroes then avatar_url r (hd heroes)
              else None)))"

section \<open>Disambiguation\<close>

lemma distinct_singleton_set: "distinct xs \<Longrightarrow> set xs = {u} \<Longrightarrow> xs = [u]"
  by (cases xs; cases "tl xs") auto

lemma names_of_two:
  assumes "room_ok r" "dget (mr_users r) u = Some ru" "dget (mr_users r) v = Some rv"
    "mu_name (user_at r ru) = mu_name (user_at r rv)" "u \<noteq> v"
  shows "1 < length (names_of r (mu_name (user_at r ru)))"
proof -
  have "{u, v} \<subseteq> set (names_of r (mu_name (user_at r ru)))"
    using room_okD(4)[OF assms(1,2)] room_okD(4)[OF assms(1,3)] assms(4) by simp
  then have "card {u, v} \<le> card (set (names_of r (mu_name (user_at r ru))))"
    by (intro card_mono) auto
  also have "\<dots> \<le> length (names_of r (mu_name (user_at r ru)))" by (rule card_length)
  finally show ?thesis using assms(5) by simp
qed

lemma disambiguated_inject:
  assumes "mu_name a = mu_name b" "disambiguated_name a = disambiguated_name b"
  shows "mu_user_id a = mu_user_id b"
  using assms by (auto simp: mu_name_def disambiguated_name_def str_or_def split: option.splits list.splits)

text \<open>Two members who display the same name are never shown under the same user name: both
  are shown with their ids, which differ.\<close>

theorem clashing_users_distinguished:
  assumes "room_ok r" "dget (mr_users r) u = Some ru" "dget (mr_users r) v = Some rv"
    "mu_name (user_at r ru) = mu_name (user_at r rv)" "u \<noteq> v"
  shows "user_name r u \<noteq> user_name r v \<and> {u, v} \<subseteq> set (user_name_clashes r (mu_name (user_at r ru)))"
  using names_of_two[OF assms] disambiguated_inject[OF assms(4)] assms(2,3,4,5)
    room_okD(2)[OF assms(1,2)] room_okD(2)[OF assms(1,3)]
    room_okD(4)[OF assms(1,2)] room_okD(4)[OF assms(1,3)]
  by (auto simp: user_name_def user_name_clashes_def Let_def)

definition sample_member2 :: member_event where
  "sample_member2 = \<lparr> me_sender = ''@b:x'', me_state_key = ''@b:x'', me_membership = ''join'',
     me_content = [(''displayname'', Some ''Alice'')] \<rparr>"

definition sample_room1 :: matrix_room where
  "sample_room1 = snd (handle_membership sample_member (MatrixRoom ''!r:x'' ''@me:x'' False))"

definition sample_room :: matrix_room where
  "sample_room = snd (handle_membership sample_member2 sample_room1)"

lemma handle_membership_snd_ok: "room_ok r \<Longrightarrow> room_ok (snd (handle_membership e r))"
  by (metis membership_op_cases snd_conv)

lemma sample_room_ok: "room_ok sample_room1" "room_ok sample_room"
  by (simp_all add: sample_room1_def sample_room_def handle_membership_snd_ok room_ok_new)

lemma sample_room1_parts:
  "mr_users sample_room1 = [(''@a:x'', 0)]" "mu_display_name (user_at sample_room1 0) = Some ''Alice''"
  by code_simp+

lemma sample_room_parts:
  "mr_users sample_room = [(''@a:x'', 0), (''@b:x'', 1)]"
  "mu_display_name (user_at sample_room 0) = Some ''Alice''"
  "mu_display_name (user_at sample_room 1) = Some ''Alice''"
  by code_simp+

theorem clashing_users_distinguished_witness:
  "user_name sample_room ''@a:x'' \<noteq> user_name sample_room ''@b:x''"
  using clashing_users_distinguished[OF sample_room_ok(2), of "''@a:x''" 0 "''@b:x''" 1]
    sample_room_parts by (simp add: mu_name_def str_or_def)

text \<open>A member whose display name nobody else has is shown under exactly that name.\<close>

theorem unique_user_plain:
  assumes "room_ok r" "dget (mr_users r) u = Some ru"
    "\<forall>v rv. dget (mr_users r) v = Some rv \<and> mu_name (user_at r rv) = mu_name (user_at r ru) \<longrightarrow> v = u"
  shows "user_name r u = Some (mu_name (user_at r ru)) \<and> user_name_clashes r (mu_name (user_at r ru)) = [u]"
proof -
  let ?ns = "names_of r (mu_name (user_at r ru))"
  have mem: "x \<in> set ?ns \<longleftrightarrow> (\<exists>k. dget (mr_users r) x = Some k \<and> mu_name (user_at r k) = mu_name (user_at r ru))" for x
    using assms(1) by (simp add: room_ok_def)
  have "distinct ?ns" using assms(1) by (simp add: room_ok_def)
  moreover have set: "set ?ns = {u}"
    using mem[of u] assms(2,3) by (intro set_eqI) (metis mem singletonD singletonI)
  ultimately have "?ns = [u]" by (simp add: distinct_singleton_set)
  then show ?thesis using assms(2) by (simp add: user_name_def user_name_clashes_def Let_def)
qed

theorem unique_user_plain_witness:
  "user_name sample_room1 ''@a:x'' = Some ''Alice''"
proof -
  have u: "dget (mr_users sample_room1) ''@a:x'' = Some 0" by (simp add: sample_room1_parts)
  have "\<forall>v rv. dget (mr_users sample_room1) v = Some rv \<and>
      mu_name (user_at sample_room1 rv) = mu_name (user_at sample_room1 0) \<longrightarrow> v = ''@a:x''"
    by (simp add: sample_room1_parts)
  from unique_user_plain[OF sample_room_ok(1) u this] show ?thesis
    by (simp add: mu_name_def str_or_def sample_room1_parts(2))
qed

section \<open>Reachable rooms\<close>

text \<open>Everything the clients feed to a joined room.\<close>

datatype room_input =
    InMembership member_event
  | InEvent room_event
  | InEphemeral ephemeral_event
  | InAccountData account_data_event
  | InUnread unread_notifications
  | InSummary room_summary

fun room_step_fun :: "room_input \<Rightarrow> ('z matrix_room_scheme, unit) op" where
  "room_step_fun (InMembership e) = andthen (handle_membership e) (ret ())"
| "room_step_fun (InEvent e) = modify (handle_event e)"
| "room_step_fun (InEphemeral e) = modify (handle_ephemeral_event e)"
| "room_step_fun (InAccountData e) = modify (handle_account_data e)"
| "room_step_fun (InUnread u) = modify (update_unread_notifications u)"
| "room_step_fun (InSummary s) = modify (update_summary s)"

inductive room_reach :: "('z) matrix_room_scheme \<Rightarrow> ('z) matrix_room_scheme \<Rightarrow> bool" where
  reach_refl: "room_reach r r"
| reach_step: "room_reach r s \<Longrightarrow> room_step_fun i s = (Inr (), t) \<Longrightarrow> room_reach r t"

inductive_cases room_reachE: "room_reach r t"

lemma set_power_level_ok: "room_ok r \<Longrightarrow> room_ok (set_power_level ul r)"
  unfolding set_power_level_def
  by (auto split: option.splits intro!: set_user_ok)

lemma handle_power_levels_ok:
  assumes "room_ok r"
  shows "room_ok (handle_power_levels levels r)"
proof -
  have "room_ok s \<Longrightarrow> room_ok (foldl (\<lambda>r ul. set_power_level ul r) s uls)" for uls and s :: "'a matrix_room_scheme"
    by (induction uls arbitrary: s) (auto intro: set_power_level_ok)
  moreover have "room_ok (r \<lparr> mr_power_levels := pl \<rparr>)" for pl
    using assms room_ok_cong[of "r \<lparr> mr_power_levels := pl \<rparr>" r] by simp
  ultimately show ?thesis by (simp add: handle_power_levels_def Let_def)
qed

lemma room_ok_same:
  assumes "room_ok r" "mr_heap r' = mr_heap r" "mr_users r' = mr_users r"
    "mr_invited_users r' = mr_invited_users r" "mr_names r' = mr_names r"
  shows "room_ok r'"
  using assms room_ok_cong[of r' r] by simp

lemma handle_event_ok: "room_ok r \<Longrightarrow> room_ok (handle_event e r)"
  by (cases e) (auto simp: Let_def intro: handle_power_levels_ok room_ok_same)

lemma handle_receipt_ok: "room_ok r \<Longrightarrow> room_ok (handle_receipt x r)"
  by (auto simp: handle_receipt_def intro: room_ok_same split: option.splits list.splits)

lemma handle_ephemeral_ok:
  assumes "room_ok r"
  shows "room_ok (handle_ephemeral_event e r)"
proof (cases e)
  case (ReceiptEvent xs)
  have "room_ok s \<Longrightarrow> room_ok (foldl (\<lambda>r x. handle_receipt x r) s xs)" for s :: "'a matrix_room_scheme"
    by (induction xs arbitrary: s) (auto intro: handle_receipt_ok)
  with assms show ?thesis by (simp add: ReceiptEvent)
qed (use assms in \<open>auto intro: room_ok_same\<close>)

lemma handle_account_data_ok: "room_ok r \<Longrightarrow> room_ok (handle_account_data e r)"
  by (cases e) (auto intro: room_ok_same)

lemma update_unread_ok: "room_ok r \<Longrightarrow> room_ok (update_unread_notifications u r)"
  by (auto simp: update_unread_notifications_def Let_def intro: room_ok_same split: option.splits)

lemma update_summary_ok: "room_ok r \<Longrightarrow> room_ok (update_summary s r)"
  by (auto simp: update_summary_def intro: room_ok_same split: option.splits)

lemmas room_ok_steps = handle_event_ok handle_ephemeral_ok handle_account_data_ok update_unread_ok update_summary_ok

lemma room_step_total:
  assumes "room_ok r"
  shows "\<exists>t. room_step_fun i r = (Inr (), t) \<and> room_ok t"
proof (cases i)
  case (InMembership e)
  then show ?thesis using membership_op_cases[OF assms, of e] by (auto simp: op_basic)
qed (use assms room_ok_steps in \<open>auto simp: modify_def\<close>)

lemma room_reach_ok: "room_reach r t \<Longrightarrow> room_ok r \<Longrightarrow> room_ok t"
proof (induction rule: room_reach.induct)
  case (reach_step r s i t)
  then show ?case using room_step_total[of s i] by auto
qed

text \<open>A new room stays consistent and live under every sequence of events: from every
  state it can reach, the next event of any kind is handled without an exception, and the
  member, invitation and name tables agree.\<close>

theorem reachable_rooms_consistent:
  assumes "room_reach (MatrixRoom room_id own encrypted) r"
  shows "room_ok r \<and> (\<forall>i. \<exists>t. room_step_fun i r = (Inr (), t))"
  using room_reach_ok[OF assms room_ok_new] room_step_total[of r] by blast

theorem reachable_rooms_consistent_witness:
  "room_ok sample_room1"
proof -
  let ?r = "MatrixRoom ''!r:x'' ''@me:x'' False"
  obtain t where t: "room_step_fun (InMembership sample_member) ?r = (Inr (), t)"
    using room_step_total[OF room_ok_new, of "InMembership sample_member"] by blast
  then have "sample_room1 = t"
    by (auto simp: sample_room1_def op_basic split: prod.splits sum.splits)
  moreover have "room_reach ?r t" using reach_step[OF reach_refl t] .
  ultimately show ?thesis using reachable_rooms_consistent by blast
qed

text \<open>Without a usable summary the counts are the members the room knows: every member is
  either joined or invited, and the invited ones are exactly the entries of
  \<^verbatim>\<open>invited_users\<close>.\<close>

theorem counts_add_up:
  assumes "room_ok r"
  shows "member_count r = joined_count r + invited_count r \<and>
    (\<forall>u ref. dget (mr_users r) u = Some ref \<longrightarrow> (mu_invited (user_at r ref) \<longleftrightarrow> din u (mr_invited_users r)))"
proof (cases "summary_details r")
  case (Inl e)
  have "length xs = length (filter p xs) + length (filter (\<lambda>x. \<not> p x) xs)" for p and xs :: "nat list"
    by (simp add: sum_length_filter_compl)
  from this[of "dvalues (mr_users r)" "\<lambda>ref. mu_invited (user_at r ref)"] show ?thesis
    using Inl room_okD(3)[OF assms]
    by (auto simp: member_count_def joined_count_def invited_count_def count_users_def)
next
  case (Inr d)
  then show ?thesis using room_okD(3)[OF assms]
    by (cases d) (auto simp: member_count_def joined_count_def invited_count_def)
qed


theorem counts_add_up_witness:
  "member_count sample_room = joined_count sample_room + invited_count sample_room"
  using counts_add_up[OF sample_room_ok(2)] by blast

end
