(* ===== verification/Nio_Url.thy ===== *)
theory Nio_Url
  imports Nio_Json "HOL-Library.Char_ord" "HOL-Library.List_Lexorder" "HOL-Library.Multiset"
begin

text \<open>
  The text layer below the endpoint builders of \<^verbatim>\<open>src/nio/api.py\<close>: percent encoding and query
  strings (\<^verbatim>\<open>urllib.parse\<close>), \<^verbatim>\<open>Api._build_path\<close>, and the two JSON printers \<^verbatim>\<open>Api.to_json\<close>
  and \<^verbatim>\<open>Api.to_canonical_json\<close>. The decoders \<open>unquote\<close> and \<open>parse_target\<close> state what a server
  does with a request target; they are the specification the builders are proved against.
\<close>

section \<open>Percent encoding\<close>

definition always_safe :: "char \<Rightarrow> bool" where
  "always_safe c =
     (let b = byte_of c in
       (65 \<le> b \<and> b \<le> 90) \<or> (97 \<le> b \<and> b \<le> 122) \<or> (48 \<le> b \<and> b \<le> 57) \<or>
       b = 95 \<or> b = 46 \<or> b = 45 \<or> b = 126)"

definition hex_upper :: "nat \<Rightarrow> char" where
  "hex_upper n = (if n < 10 then char_of (48 + n) else char_of (55 + n))"

definition quote_byte :: "string \<Rightarrow> char \<Rightarrow> string" where
  "quote_byte safe c =
     (if always_safe c \<or> c \<in> set safe then [c]
      else [CHR ''%'', hex_upper (byte_of c div 16), hex_upper (byte_of c mod 16)])"

definition quote :: "string \<Rightarrow> string \<Rightarrow> string" where
  "quote safe s = concat (map (quote_byte safe) s)"

definition quote_plus :: "string \<Rightarrow> string" where
  "quote_plus s =
     (if CHR '' '' \<notin> set s then quote [] s
      else map (\<lambda>c. if c = CHR '' '' then CHR ''+'' else c) (quote '' '' s))"

text \<open>The values the endpoint builders put in a query, and the text \<^verbatim>\<open>str\<close> gives for each.\<close>

datatype qval = QStr string | QInt int | QBool bool | QNone

fun qtext :: "qval \<Rightarrow> string" where
  "qtext (QStr s) = s"
| "qtext (QInt i) = int_dec i"
| "qtext (QBool b) = (if b then ''True'' else ''False'')"
| "qtext QNone = ''None''"

type_synonym query = "(string, qval) dict"

definition urlencode :: "query \<Rightarrow> string" where
  "urlencode q = join ''&'' (map (\<lambda>(k, v). quote_plus k @ ''='' @ quote_plus (qtext v)) q)"

definition rstrip_slash :: "string \<Rightarrow> string" where
  "rstrip_slash s = rev (dropWhile (\<lambda>c. c = CHR ''/'') (rev s))"

datatype path_arg = PathStr string | PathParts "string list"

definition build_path :: "path_arg \<Rightarrow> query \<Rightarrow> string \<Rightarrow> string" where
  "build_path path query_parameters base_path =
     (let quoted_path =
            (case path of
               PathStr p \<Rightarrow> quote [] p
             | PathParts parts \<Rightarrow> join ''/'' (map (quote []) parts));
          built_path = rstrip_slash (base_path @ ''/'' @ quoted_path)
      in if query_parameters = [] then built_path
         else built_path @ ''?'' @ urlencode query_parameters)"

section \<open>What the server reads back\<close>

definition unhex :: "char \<Rightarrow> nat" where
  "unhex c = (if byte_of c < 58 then byte_of c - 48 else byte_of c - 55)"

fun unquote :: "string \<Rightarrow> string" where
  "unquote [] = []"
| "unquote (c # s) =
     (if c = CHR ''%''
      then (case s of
              h # l # t \<Rightarrow> char_of (16 * unhex h + unhex l) # unquote t
            | _ \<Rightarrow> c # unquote s)
      else c # unquote s)"

definition unquote_plus :: "string \<Rightarrow> string" where
  "unquote_plus s = unquote (map (\<lambda>c. if c = CHR ''+'' then CHR '' '' else c) s)"

fun split_on :: "char \<Rightarrow> string \<Rightarrow> string list" where
  "split_on c [] = [[]]"
| "split_on c (x # xs) =
     (if x = c then [] # split_on c xs
      else (case split_on c xs of [] \<Rightarrow> [[x]] | w # ws \<Rightarrow> (x # w) # ws))"

definition before :: "char \<Rightarrow> string \<Rightarrow> string" where
  "before c s = takeWhile (\<lambda>x. x \<noteq> c) s"

definition after :: "char \<Rightarrow> string \<Rightarrow> string" where
  "after c s = drop 1 (dropWhile (\<lambda>x. x \<noteq> c) s)"

definition parse_query :: "string \<Rightarrow> (string \<times> string) list" where
  "parse_query s =
     (if s = [] then []
      else map (\<lambda>kv. (unquote_plus (before (CHR ''='') kv), unquote_plus (after (CHR ''='') kv)))
             (split_on (CHR ''&'') s))"

definition parse_target :: "string \<Rightarrow> string \<Rightarrow> string list \<times> (string \<times> string) list" where
  "parse_target base t =
     (map unquote (split_on (CHR ''/'') (drop (length base + 1) (before (CHR ''?'') t))),
      parse_query (after (CHR ''?'') t))"

lemma byte_of_lt [simp]: "byte_of c < 256"
  by (simp add: byte_of_def)

lemma char_of_byte [simp]: "char_of (byte_of c) = c"
  by (simp add: byte_of_def)

lemma byte_of_char_of: "n < 256 \<Longrightarrow> byte_of (char_of n) = n"
  by (simp add: byte_of_def)

lemma byte_of_inject: "byte_of c = byte_of d \<longleftrightarrow> c = d"
  by (simp add: byte_of_def)

lemma unhex_hex: "n < 16 \<Longrightarrow> unhex (hex_upper n) = n"
  by (simp add: unhex_def hex_upper_def byte_of_char_of)

lemma hex_upper_byte: "n < 16 \<Longrightarrow> byte_of (hex_upper n) = (if n < 10 then 48 + n else 55 + n)"
  by (simp add: hex_upper_def byte_of_char_of)

lemma hex_upper_safe: "n < 16 \<Longrightarrow> always_safe (hex_upper n)"
  by (simp add: always_safe_def Let_def hex_upper_byte)

lemma always_safe_not [simp]:
  "\<not> always_safe (CHR ''%'')" "\<not> always_safe (CHR ''/'')" "\<not> always_safe (CHR ''?'')"
  "\<not> always_safe (CHR ''&'')" "\<not> always_safe (CHR ''='')" "\<not> always_safe (CHR ''+'')"
  "\<not> always_safe (CHR '' '')" "\<not> always_safe (CHR ''#'')"
  by (simp_all add: always_safe_def byte_of_def Let_def)

lemma quote_Nil [simp]: "quote safe [] = []"
  by (simp add: quote_def)

lemma quote_Cons: "quote safe (c # s) = quote_byte safe c @ quote safe s"
  by (simp add: quote_def)

lemma quote_eq_Nil [simp]: "quote safe s = [] \<longleftrightarrow> s = []"
  by (cases s) (auto simp: quote_Cons quote_byte_def)

lemma quote_chars:
  "x \<in> set (quote safe s) \<Longrightarrow> always_safe x \<or> x = CHR ''%'' \<or> x \<in> set safe"
proof (induction s)
  case (Cons c s)
  have "byte_of c div 16 < 16" using byte_of_lt[of c] by linarith
  then show ?case using Cons
    by (auto simp: quote_Cons quote_byte_def hex_upper_safe split: if_splits)
qed simp

lemma quote_no_reserved:
  "\<not> always_safe x \<Longrightarrow> x \<noteq> CHR ''%'' \<Longrightarrow> x \<notin> set (quote [] s)"
  using quote_chars[of x "[]" s] by auto

lemma unquote_byte:
  assumes "CHR ''%'' \<notin> set safe"
  shows "unquote (quote_byte safe c @ t) = c # unquote t"
proof -
  have b: "byte_of c div 16 < 16" "byte_of c mod 16 < 16" using byte_of_lt[of c] by linarith+
  then have "char_of (16 * unhex (hex_upper (byte_of c div 16)) + unhex (hex_upper (byte_of c mod 16))) = c"
    by (simp add: unhex_hex)
  moreover have "always_safe c \<or> c \<in> set safe \<Longrightarrow> c \<noteq> CHR ''%''"
    using assms by auto
  ultimately show ?thesis by (auto simp: quote_byte_def)
qed

lemma unquote_quote: "CHR ''%'' \<notin> set safe \<Longrightarrow> unquote (quote safe s) = s"
  by (induction s) (simp_all add: quote_Cons unquote_byte del: unquote.simps(2))


lemma quote_plus_alt:
  "quote_plus s = map (\<lambda>c. if c = CHR '' '' then CHR ''+'' else c) (quote '' '' s)"
proof -
  have "quote [] s = quote '' '' s" "CHR '' '' \<notin> set (quote [] s)" if "CHR '' '' \<notin> set s"
    using that quote_no_reserved[of "CHR '' ''" s]
    by (induction s) (auto simp: quote_Cons quote_byte_def)
  then show ?thesis
    by (auto simp: quote_plus_def intro!: map_idI[symmetric])
qed

lemma unquote_quote_plus: "unquote_plus (quote_plus s) = s"
proof -
  have "CHR ''+'' \<notin> set (quote '' '' s)"
    using quote_chars[of "CHR ''+''" "'' ''" s] by auto
  then have "map (\<lambda>c. if c = CHR ''+'' then CHR '' '' else c) (quote_plus s) = quote '' '' s"
    unfolding quote_plus_alt by (auto simp: comp_def intro!: map_idI)
  then show ?thesis by (simp add: unquote_plus_def unquote_quote)
qed

lemma quote_plus_reserved:
  assumes "x \<in> set (quote_plus s)"
  shows "always_safe x \<or> x = CHR ''%'' \<or> x = CHR ''+''"
proof -
  obtain c where c: "c \<in> set (quote '' '' s)" "x = (if c = CHR '' '' then CHR ''+'' else c)"
    using assms unfolding quote_plus_alt by auto
  then show ?thesis using quote_chars[of c "'' ''" s] by (auto split: if_splits)
qed

lemma split_on_ne [simp]: "split_on c s \<noteq> []"
  by (induction s) (auto split: list.splits)

lemma split_on_single: "c \<notin> set s \<Longrightarrow> split_on c s = [s]"
  by (induction s) auto

lemma split_on_append: "c \<notin> set s \<Longrightarrow> split_on c (s @ c # t) = s # split_on c t"
  by (induction s) auto

lemma split_on_join:
  "(\<And>w. w \<in> set ws \<Longrightarrow> c \<notin> set w) \<Longrightarrow> ws \<noteq> [] \<Longrightarrow> split_on c (join [c] ws) = ws"
proof (induction ws rule: induct_list012)
  case (3 x y zs)
  then show ?case by (simp add: split_on_append)
qed (simp_all add: split_on_single)

lemma before_append: "c \<notin> set s \<Longrightarrow> before c (s @ c # t) = s"
  by (induction s) (auto simp: before_def)

lemma after_append: "c \<notin> set s \<Longrightarrow> after c (s @ c # t) = t"
  by (induction s) (auto simp: after_def)

lemma before_none: "c \<notin> set s \<Longrightarrow> before c s = s"
  by (induction s) (auto simp: before_def)

lemma after_none: "c \<notin> set s \<Longrightarrow> after c s = []"
  by (induction s) (auto simp: after_def)

lemma join_ne: "\<exists>w\<in>set ws. w \<noteq> [] \<Longrightarrow> join sep ws \<noteq> []"
  by (induction sep ws rule: join.induct) auto

lemma parse_urlencode: "parse_query (urlencode q) = map (\<lambda>(k, v). (k, qtext v)) q"
proof (cases "q = []")
  case False
  let ?enc = "\<lambda>(k, v). quote_plus k @ ''='' @ quote_plus (qtext v)"
  have no_eq: "CHR ''='' \<notin> set (quote_plus k)" for k
    using quote_plus_reserved[of "CHR ''=''" k] by auto
  have no_amp: "CHR ''&'' \<notin> set (quote_plus k)" for k
    using quote_plus_reserved[of "CHR ''&''" k] by auto
  have "split_on (CHR ''&'') (urlencode q) = map ?enc q"
    unfolding urlencode_def
    by (rule split_on_join) (use no_amp False in \<open>auto split: prod.splits\<close>)
  moreover have "urlencode q \<noteq> []"
    unfolding urlencode_def by (rule join_ne) (use False in \<open>cases q; auto\<close>)
  ultimately show ?thesis
    by (auto simp: parse_query_def before_append[OF no_eq] after_append[OF no_eq] unquote_quote_plus)
qed (simp add: urlencode_def parse_query_def)

text \<open>
  Empty parts at the end of a path disappear with \<^verbatim>\<open>rstrip("/")\<close>; a state event with an empty
  state key is addressed without one.
\<close>

definition drop_last_empties :: "string list \<Rightarrow> string list" where
  "drop_last_empties ps = rev (dropWhile (\<lambda>p. p = []) (rev ps))"

lemma drop_last_empties_id: "ps = [] \<or> last ps \<noteq> [] \<Longrightarrow> drop_last_empties ps = ps"
  by (cases ps rule: rev_cases) (auto simp: drop_last_empties_def)

lemma drop_last_empties_snoc [simp]:
  "drop_last_empties (ps @ [p]) = (if p = [] then drop_last_empties ps else ps @ [p])"
  by (simp add: drop_last_empties_def)

lemma drop_last_empties_map:
  assumes "\<And>p. f p = [] \<longleftrightarrow> p = []"
  shows "drop_last_empties (map f ps) = map f (drop_last_empties ps)"
proof (induction ps rule: rev_induct)
  case (snoc p ps)
  then show ?case using assms[of p] by simp
qed (simp add: drop_last_empties_def)

lemma drop_last_empties_ne: "\<exists>p\<in>set ps. p \<noteq> [] \<Longrightarrow> drop_last_empties ps \<noteq> []"
  by (induction ps rule: rev_induct) auto

lemma drop_last_empties_subset: "set (drop_last_empties ps) \<subseteq> set ps"
  unfolding drop_last_empties_def by (auto dest: set_dropWhileD)

lemma join_snoc: "ws \<noteq> [] \<Longrightarrow> join sep (ws @ [w]) = join sep ws @ sep @ w"
proof (induction ws)
  case (Cons v ws)
  then show ?case by (cases ws) auto
qed simp

lemma rstrip_slash_id: "s \<noteq> [] \<Longrightarrow> last s \<noteq> CHR ''/'' \<Longrightarrow> rstrip_slash s = s"
  by (cases s rule: rev_cases) (auto simp: rstrip_slash_def)

lemma rstrip_slash_snoc [simp]: "rstrip_slash (s @ [CHR ''/'']) = rstrip_slash s"
  by (simp add: rstrip_slash_def)

lemma rstrip_join:
  assumes "\<exists>w\<in>set ws. w \<noteq> []" and "\<And>w. w \<in> set ws \<Longrightarrow> CHR ''/'' \<notin> set w"
  shows "rstrip_slash (b @ ''/'' @ join ''/'' ws) = b @ ''/'' @ join ''/'' (drop_last_empties ws)"
  using assms
proof (induction ws rule: rev_induct)
  case (snoc w ws)
  show ?case
  proof (cases "w = []")
    case True
    with snoc.prems have "ws \<noteq> []" "\<exists>w\<in>set ws. w \<noteq> []" by auto
    with snoc show ?thesis
      by (simp add: True join_snoc) (simp add: rstrip_slash_snoc[of "b @ CHR ''/'' # join ''/'' ws", simplified])
  next
    case False
    then have l: "last w \<noteq> CHR ''/''"
      using snoc.prems(2)[of w] last_in_set[OF False] by (metis in_set_conv_decomp)
    have e: "last (join ''/'' (ws @ [w])) = last w" "join ''/'' (ws @ [w]) \<noteq> []"
      using False by (cases "ws = []"; simp add: join_snoc)+
    with l False show ?thesis
      using rstrip_slash_id[of "b @ ''/'' @ join ''/'' (ws @ [w])"] by simp
  qed
qed simp

lemma build_path_eq:
  assumes "\<exists>p\<in>set ps. p \<noteq> []"
  shows "build_path (PathParts ps) q base =
    base @ ''/'' @ join ''/'' (map (quote []) (drop_last_empties ps)) @
      (if q = [] then [] else ''?'' @ urlencode q)"
proof -
  have "rstrip_slash (base @ ''/'' @ join ''/'' (map (quote []) ps)) =
        base @ ''/'' @ join ''/'' (map (quote []) (drop_last_empties ps))"
    by (subst rstrip_join)
       (use assms quote_no_reserved[of "CHR ''/''"] in \<open>auto simp: drop_last_empties_map\<close>)
  then show ?thesis by (simp add: build_path_def Let_def)
qed

lemma join_chars: "x \<in> set (join sep ws) \<Longrightarrow> x \<in> set sep \<or> (\<exists>w\<in>set ws. x \<in> set w)"
  by (induction sep ws rule: join.induct) auto

lemma parse_build_path:
  assumes "\<exists>p\<in>set ps. p \<noteq> []" and "CHR ''?'' \<notin> set base"
  shows "parse_target base (build_path (PathParts ps) q base) =
    (drop_last_empties ps, map (\<lambda>(k, v). (k, qtext v)) q)"
proof -
  let ?ds = "drop_last_empties ps" and ?w = "map (quote []) (drop_last_empties ps)"
  let ?p = "base @ ''/'' @ join ''/'' ?w"
  have "CHR ''?'' \<notin> set (join ''/'' ?w)"
    using join_chars[of "CHR ''?''" "''/''" ?w] quote_no_reserved[of "CHR ''?''"] by auto
  then have q: "CHR ''?'' \<notin> set ?p" using assms(2) by simp
  have "split_on (CHR ''/'') (join ''/'' ?w) = ?w"
    by (rule split_on_join)
       (use quote_no_reserved[of "CHR ''/''"] drop_last_empties_ne[OF assms(1)] in auto)
  then have "map unquote (split_on (CHR ''/'') (drop (length base + 1) ?p)) = ?ds"
    by (simp add: comp_def unquote_quote)
  moreover have "before (CHR ''?'') (build_path (PathParts ps) q base) = ?p"
    using before_append[OF q] before_none[OF q] by (auto simp: build_path_eq[OF assms(1)])
  moreover have "after (CHR ''?'') (build_path (PathParts ps) q base) = (if q = [] then [] else urlencode q)"
    using after_append[OF q] after_none[OF q] by (auto simp: build_path_eq[OF assms(1)])
  ultimately show ?thesis
    by (simp add: parse_target_def parse_urlencode) (simp add: parse_query_def)
qed

text \<open>C30: The server reads back from a request target exactly the path parts and the query
  parameters the client gave, up to empty trailing parts: no room id, event type or value can
  add, remove or reorder a part or a parameter.\<close>

theorem request_target_roundtrip:
  assumes "\<exists>p\<in>set ps. p \<noteq> []" and "CHR ''?'' \<notin> set base"
  shows "parse_target base (build_path (PathParts ps) q base) =
    (drop_last_empties ps, map (\<lambda>(k, v). (k, qtext v)) q)"
  using assms by (rule parse_build_path)

theorem request_target_roundtrip_witness:
  "parse_target ''/m'' (build_path (PathParts [''rooms'', ''!a/b?:x'', ''state'', ''t'', []])
      [(''access_token'', QStr ''k&y=1 2''), (''recurse'', QBool True)] ''/m'') =
    ([''rooms'', ''!a/b?:x'', ''state'', ''t''],
     [(''access_token'', ''k&y=1 2''), (''recurse'', ''True'')])"
  using request_target_roundtrip[of "[''rooms'', ''!a/b?:x'', ''state'', ''t'', []]" "''/m''"
      "[(''access_token'', QStr ''k&y=1 2''), (''recurse'', QBool True)]"]
  by (simp add: drop_last_empties_def)

end
