(* ===== verification/Nio_Print.thy ===== *)
theory Nio_Print
  imports Nio_Url
begin

text \<open>
  The two JSON printers of \<^verbatim>\<open>src/nio/api.py\<close>. \<^verbatim>\<open>Api.to_json\<close> writes request bodies in ASCII,
  with the escapes and surrogate pairs of \<^verbatim>\<open>json.dumps\<close>; \<^verbatim>\<open>Api.to_canonical_json\<close> writes the
  text that device keys are signed over: keys sorted, no escapes beyond the required ones. The
  order of UTF-8 bytes is the order of code points, so sorting the modelled strings is
  Python's sort of \<^verbatim>\<open>str\<close> keys.
\<close>

section \<open>ASCII output\<close>

definition cont_byte :: "string \<Rightarrow> nat \<Rightarrow> nat" where
  "cont_byte s i = (if i < length s then byte_of (s ! i) mod 64 else 0)"

function code_points :: "string \<Rightarrow> nat list" where
  "code_points [] = []"
| "code_points (c # s) =
     (let b = byte_of c in
      if b < 128 then b # code_points s
      else if b < 224 then (b mod 32 * 64 + cont_byte s 0) # code_points (drop 1 s)
      else if b < 240 then
        (b mod 16 * 4096 + cont_byte s 0 * 64 + cont_byte s 1) # code_points (drop 2 s)
      else
        (b mod 8 * 262144 + cont_byte s 0 * 4096 + cont_byte s 1 * 64 + cont_byte s 2)
          # code_points (drop 3 s))"
  by pat_completeness auto
termination by (relation "measure length") auto

definition ascii_escape :: "nat \<Rightarrow> string" where
  "ascii_escape n =
     (if n < 128 then (if n = 127 then u_escape n else esc_char (char_of n))
      else if n < 65536 then u_escape n
      else u_escape (55296 + (n - 65536) div 1024 mod 1024) @ u_escape (56320 + (n - 65536) mod 1024))"

definition ascii_string :: "string \<Rightarrow> string" where
  "ascii_string s = CHR 0x22 # concat (map ascii_escape (code_points s)) @ [CHR 0x22]"

fun ascii_dump :: "json \<Rightarrow> string" where
  "ascii_dump JNull = ''null''"
| "ascii_dump (JBool b) = (if b then ''true'' else ''false'')"
| "ascii_dump (JInt i) = int_dec i"
| "ascii_dump (JFloat t) = t"
| "ascii_dump (JStr s) = ascii_string s"
| "ascii_dump (JArr xs) = ''['' @ join '','' (map ascii_dump xs) @ '']''"
| "ascii_dump (JObj d) =
     CHR 0x7B # join '','' (map (\<lambda>p. ascii_string (fst p) @ '':'' @ ascii_dump (snd p)) d) @ [CHR 0x7D]"

definition to_json :: "jobj \<Rightarrow> string" where
  "to_json content_dict = ascii_dump (JObj content_dict)"

section \<open>Canonical output\<close>

fun sort_keys :: "json \<Rightarrow> json" where
  "sort_keys (JArr xs) = JArr (map sort_keys xs)"
| "sort_keys (JObj d) = JObj (sort_key fst (map (\<lambda>p. (fst p, sort_keys (snd p))) d))"
| "sort_keys v = v"

definition to_canonical_json :: "jobj \<Rightarrow> string" where
  "to_canonical_json content_dict = json_dump (sort_keys (JObj content_dict))"

section \<open>Reading escaped text back\<close>

text \<open>A reader of the body of a JSON string, as far as \<^verbatim>\<open>ascii_escape\<close> needs it.\<close>

definition hex_val :: "char \<Rightarrow> nat" where
  "hex_val c = (if byte_of c < 58 then byte_of c - 48 else byte_of c - 87)"

definition hex4_val :: "string \<Rightarrow> nat" where
  "hex4_val s = foldl (\<lambda>a c. 16 * a + hex_val c) 0 (take 4 s)"

definition simple_escape :: "char \<Rightarrow> nat" where
  "simple_escape c =
     (if c = CHR ''n'' then 10 else if c = CHR ''r'' then 13 else if c = CHR ''t'' then 9
      else if c = CHR ''f'' then 12 else if c = CHR ''b'' then 8 else byte_of c)"

function unescape :: "string \<Rightarrow> nat list" where
  "unescape [] = []"
| "unescape (c # s) =
     (if c \<noteq> CHR 0x5C \<or> s = [] then byte_of c # unescape s
      else if hd s \<noteq> CHR ''u'' then simple_escape (hd s) # unescape (tl s)
      else (let n = hex4_val (tl s); t = drop 4 (tl s) in
        if 55296 \<le> n \<and> n < 56320
        then (65536 + (n - 55296) * 1024 + (hex4_val (drop 2 t) - 56320)) # unescape (drop 6 t)
        else n # unescape t))"
  by pat_completeness auto
termination by (relation "measure length") auto

declare unescape.simps(2) [simp del]

lemma hex_val_char: "n < 16 \<Longrightarrow> hex_val (hex_char n) = n"
  by (simp add: hex_val_def hex_char_def byte_of_char_of)

lemma hex4_len [simp]: "length (hex4 n) = 4"
  by (simp add: hex4_def)

lemma hex4_val_hex4:
  assumes "n < 65536"
  shows "hex4_val (hex4 n @ t) = n"
proof -
  have "hex4_val (hex4 n @ t) =
      16 * (16 * (16 * (n div 4096 mod 16) + n div 256 mod 16) + n div 16 mod 16) + n mod 16"
    by (simp add: hex4_val_def hex4_def hex_val_char)
  also have "\<dots> = n"
  proof -
    have "n div 4096 = n div 16 div 16 div 16" "n div 256 = n div 16 div 16"
      by (simp_all add: div_mult2_eq[symmetric])
    moreover have "n div 4096 mod 16 = n div 4096" using assms by simp
    ultimately show ?thesis by (metis mult.commute div_mult_mod_eq)
  qed
  finally show ?thesis .
qed

lemma u_escape_Cons: "u_escape n @ t = CHR 0x5C # CHR ''u'' # hex4 n @ t"
  by (simp add: u_escape_def)

lemma unescape_u:
  "n < 65536 \<Longrightarrow> \<not> (55296 \<le> n \<and> n < 56320) \<Longrightarrow> unescape (u_escape n @ t) = n # unescape t"
  unfolding u_escape_Cons by (simp add: unescape.simps(2) Let_def hex4_val_hex4)

lemma unescape_pair:
  assumes "h < 1024" "l < 1024"
  shows "unescape (u_escape (55296 + h) @ u_escape (56320 + l) @ t) =
    (65536 + h * 1024 + l) # unescape t"
  unfolding u_escape_Cons using assms
  by (simp add: unescape.simps(2) Let_def hex4_val_hex4)

lemma unescape_plain: "c \<noteq> CHR 0x5C \<Longrightarrow> unescape (c # t) = byte_of c # unescape t"
  by (simp add: unescape.simps(2))

lemma unescape_simple:
  "c \<noteq> CHR ''u'' \<Longrightarrow> unescape (CHR 0x5C # c # t) = simple_escape c # unescape t"
  by (simp add: unescape.simps(2))

lemma unescape_esc_char:
  assumes "byte_of c < 128"
  shows "unescape (esc_char c @ t) = byte_of c # unescape t"
proof (cases "c \<in> {CHR 0x22, CHR 0x5C, CHR 0x0A, CHR 0x0D, CHR 0x09, CHR 0x0C, CHR 0x08}")
  case True
  then show ?thesis
    by (elim insertE emptyE) (simp_all add: esc_char_def unescape_simple simple_escape_def byte_of_def)
next
  case False
  then show ?thesis using assms
    by (simp add: esc_char_def unescape_plain unescape_u)
qed

lemma unescape_ascii_escape:
  assumes "n < 1114112" "\<not> (55296 \<le> n \<and> n < 57344)"
  shows "unescape (ascii_escape n @ t) = n # unescape t"
proof -
  consider "n < 128" "n \<noteq> 127" | "n = 127" | "128 \<le> n" "n < 65536" | "65536 \<le> n" by linarith
  then show ?thesis
  proof cases
    case 1
    then show ?thesis using unescape_esc_char[of "char_of n" t]
      by (simp add: ascii_escape_def byte_of_char_of)
  next
    case 4
    define m where "m = n - 65536"
    have m: "n = 65536 + m" "m < 1048576" using 4 assms by (auto simp: m_def)
    have "m div 1024 < 1024" using m by auto
    then show ?thesis using 4
      by (simp add: ascii_escape_def unescape_pair m)
  next
    case 3
    then show ?thesis using assms by (auto simp: ascii_escape_def intro!: unescape_u)
  qed (simp add: ascii_escape_def unescape_u)
qed

text \<open>The body of every string \<^verbatim>\<open>to_json\<close> writes reads back as the code points that
  were written: escapes and surrogate pairs lose nothing.\<close>

theorem ascii_string_roundtrip:
  assumes "\<forall>n \<in> set (code_points s). n < 1114112 \<and> \<not> (55296 \<le> n \<and> n < 57344)"
  shows "\<exists>body. ascii_string s = CHR 0x22 # body @ [CHR 0x22] \<and> unescape body = code_points s"
proof -
  have "unescape (concat (map ascii_escape ns)) = ns"
    if "\<forall>n \<in> set ns. n < 1114112 \<and> \<not> (55296 \<le> n \<and> n < 57344)" for ns
    using that by (induction ns) (simp_all add: unescape_ascii_escape)
  with assms show ?thesis by (auto simp: ascii_string_def)
qed

theorem ascii_string_roundtrip_witness:
  "\<exists>body. ascii_string [CHR ''a'', CHR 0xF0, CHR 0x9F, CHR 0x98, CHR 0x80] = CHR 0x22 # body @ [CHR 0x22] \<and>
     unescape body = [97, 128512]"
  using ascii_string_roundtrip[of "[CHR ''a'', CHR 0xF0, CHR 0x9F, CHR 0x98, CHR 0x80]"]
  by (simp add: Let_def byte_of_def cont_byte_def)

section \<open>Canonical text does not depend on the order of keys\<close>

text \<open>Two JSON values are the same Python value when their objects hold the same entries.\<close>

inductive same_value :: "json \<Rightarrow> json \<Rightarrow> bool" where
  same_refl: "same_value v v"
| same_arr: "list_all2 same_value xs ys \<Longrightarrow> same_value (JArr xs) (JArr ys)"
| same_obj: "dwf d \<Longrightarrow> mset d' = mset d \<Longrightarrow>
    list_all2 (\<lambda>p q. fst p = fst q \<and> same_value (snd p) (snd q)) d' e \<Longrightarrow>
    same_value (JObj d) (JObj e)"

inductive_cases same_value_JArrE: "same_value (JArr xs) w"
inductive_cases same_value_JObjE: "same_value (JObj d) w"

lemma sort_key_permute:
  assumes "dwf d" "mset d' = mset d"
  shows "sort_key fst (map (\<lambda>p. (fst p, f (snd p))) d') = sort_key fst (map (\<lambda>p. (fst p, f (snd p))) d)"
proof (rule sort_key_inj_key_eq)
  show "mset (map (\<lambda>p. (fst p, f (snd p))) d') = mset (sort_key fst (map (\<lambda>p. (fst p, f (snd p))) d))"
    by (simp add: assms(2))
  have "distinct (map fst d')" using assms
    by (metis dwf_def mset_map mset_eq_imp_distinct_iff)
  then show "inj_on fst (set (map (\<lambda>p. (fst p, f (snd p))) d'))"
    by (force simp: distinct_map inj_on_def)
qed simp

lemma sort_keys_same: "same_value v w \<Longrightarrow> sort_keys v = sort_keys w"
proof (induction rule: same_value.induct)
  case (same_arr xs ys)
  then show ?case by (induction rule: list_all2_induct) simp_all
next
  case (same_obj d d' e)
  have "map (\<lambda>p. (fst p, sort_keys (snd p))) d' = map (\<lambda>p. (fst p, sort_keys (snd p))) e"
    using same_obj(3) by (induction rule: list_all2_induct) simp_all
  then show ?case
    using sort_key_permute[OF same_obj(1,2), of sort_keys] by simp
qed simp

text \<open>The canonical text of an object depends only on its entries, not on the order in
  which any object inside it was built, so a signature over it can be checked by any client.\<close>

theorem canonical_order_independent:
  assumes "same_value (JObj d) (JObj e)"
  shows "to_canonical_json d = to_canonical_json e"
  using sort_keys_same[OF assms] by (simp add: to_canonical_json_def)

theorem canonical_order_independent_witness:
  "to_canonical_json [(''b'', JObj [(''y'', JInt 2), (''x'', JInt 1)]), (''a'', JNull)] =
   to_canonical_json [(''a'', JNull), (''b'', JObj [(''x'', JInt 1), (''y'', JInt 2)])]"
proof (rule canonical_order_independent)
  have "same_value (JObj [(''y'', JInt 2), (''x'', JInt 1)]) (JObj [(''x'', JInt 1), (''y'', JInt 2)])"
    by (rule same_obj[where d' = "[(''x'', JInt 1), (''y'', JInt 2)]"])
       (auto simp: dwf_def intro: same_refl)
  then show "same_value (JObj [(''b'', JObj [(''y'', JInt 2), (''x'', JInt 1)]), (''a'', JNull)])
      (JObj [(''a'', JNull), (''b'', JObj [(''x'', JInt 1), (''y'', JInt 2)])])"
    by (intro same_obj[where d' = "[(''a'', JNull), (''b'', JObj [(''y'', JInt 2), (''x'', JInt 1)])]"])
       (auto simp: dwf_def intro: same_refl)
qed

section \<open>Request bodies are printable ASCII\<close>

definition printable :: "char \<Rightarrow> bool" where
  "printable c = (32 \<le> byte_of c \<and> byte_of c < 127)"

fun floats_ok :: "json \<Rightarrow> bool" where
  "floats_ok (JFloat t) = list_all printable t"
| "floats_ok (JArr xs) = list_all floats_ok xs"
| "floats_ok (JObj d) = list_all (\<lambda>p. floats_ok (snd p)) d"
| "floats_ok v = True"

lemma printable_consts [simp]:
  "printable (CHR 0x22)" "printable (CHR 0x5C)" "printable (CHR ''u'')" "printable (CHR '','')"
  "printable (CHR '':'')" "printable (CHR ''['')" "printable (CHR '']'')" "printable (CHR 0x7B)"
  "printable (CHR 0x7D)" "printable (CHR ''-'')" "printable (CHR ''n'')" "printable (CHR ''r'')"
  "printable (CHR ''t'')" "printable (CHR ''f'')" "printable (CHR ''b'')" "printable (CHR ''l'')"
  "printable (CHR ''e'')" "printable (CHR ''a'')" "printable (CHR ''s'')"
  by (simp_all add: printable_def byte_of_def)

lemma hex4_printable: "list_all printable (hex4 n)"
proof -
  have "printable (hex_char m)" if "m < 16" for m
    using that by (simp add: hex_char_def printable_def byte_of_char_of)
  then show ?thesis by (simp add: hex4_def)
qed

lemma ascii_escape_printable: "list_all printable (ascii_escape n)"
proof -
  have u: "list_all printable (u_escape m)" for m
    by (simp add: u_escape_def hex4_printable)
  have "list_all printable (esc_char (char_of n))" if "n < 128" "n \<noteq> 127"
  proof -
    have "printable (char_of n)" if "32 \<le> n"
      using that \<open>n < 128\<close> \<open>n \<noteq> 127\<close> by (simp add: printable_def byte_of_char_of)
    then show ?thesis using u that by (auto simp: esc_char_def byte_of_char_of)
  qed
  then show ?thesis using u by (auto simp: ascii_escape_def)
qed

lemma ascii_string_printable: "list_all printable (ascii_string s)"
  using ascii_escape_printable by (auto simp: ascii_string_def list_all_iff)

lemma nat_dec_printable: "list_all printable (nat_dec n)"
proof (induction n rule: nat_dec.induct)
  case (1 n)
  have d: "printable (digit_char m)" if "m < 10" for m
    using that by (simp add: digit_char_def printable_def byte_of_char_of)
  show ?case
  proof (cases "n < 10")
    case True then show ?thesis using d by (subst nat_dec.simps) simp
  next
    case False then show ?thesis using 1 d[of "n mod 10"] by (subst nat_dec.simps) simp
  qed
qed

lemma join_printable:
  "list_all printable sep \<Longrightarrow> (\<And>w. w \<in> set ws \<Longrightarrow> list_all printable w) \<Longrightarrow>
   list_all printable (join sep ws)"
  by (induction sep ws rule: join.induct) auto

lemma ascii_dump_printable: "floats_ok v \<Longrightarrow> list_all printable (ascii_dump v)"
proof (induction v rule: ascii_dump.induct)
  case (6 xs)
  then show ?case by (auto simp: list_all_iff[of floats_ok] intro!: join_printable)
next
  case (7 d)
  then show ?case
    by (auto simp: list_all_iff[of _ d] ascii_string_printable intro!: join_printable)
qed (auto simp: int_dec_def nat_dec_printable ascii_string_printable)

text \<open>Every request body is printable ASCII whatever the strings in it are: no control
  character, quote or non-ASCII byte of a value reaches the wire unescaped.\<close>

theorem to_json_printable:
  assumes "floats_ok (JObj d)"
  shows "\<forall>c \<in> set (to_json d). 32 \<le> byte_of c \<and> byte_of c < 127"
  using ascii_dump_printable[OF assms] by (auto simp: to_json_def list_all_iff printable_def)

theorem to_json_printable_witness:
  "list_all printable (to_json [(''body'', JStr [CHR 0x0A, CHR 0xC3, CHR 0xA9]), (''n'', JFloat ''1.5'')])"
  using to_json_printable[of "[(''body'', JStr [CHR 0x0A, CHR 0xC3, CHR 0xA9]), (''n'', JFloat ''1.5'')]"]
  by (simp add: list_all_iff printable_def byte_of_def)

end
