(* ===== verification/Durable_Projection.thy ===== *)
theory Durable_Projection
  imports Nio_Room_Names Nio_Print
begin

text \<open>
  The durable form of a room, \<^verbatim>\<open>src/nio/durable/projection.py\<close>: a metadata row per room and a
  row per member, and the room restored from them. The columns hold JSON; the model keeps the
  values that JSON encodes, sets as the sorted lists the encoder writes.
\<close>

section \<open>Rows\<close>

record member_row =
  mb_display_name :: "string option"
  mb_avatar_url :: "string option"
  mb_invited :: bool

record room_meta =
  rm_own_user_id :: string
  rm_federate :: bool
  rm_room_version :: string
  rm_room_type :: "string option"
  rm_guest_access :: string
  rm_join_rule :: string
  rm_history_visibility :: string
  rm_canonical_alias :: "string option"
  rm_topic :: "string option"
  rm_name :: "string option"
  rm_encrypted :: bool
  rm_room_avatar_url :: "string option"
  rm_fully_read_marker :: "string option"
  rm_tags :: tags
  rm_unread_notifications :: int
  rm_unread_highlights :: int
  rm_replacement_room :: "string option"
  rm_invited :: bool
  rm_membership :: "string option"
  rm_membership_epoch :: int
  rm_members_complete :: bool
  rm_member_count :: nat
  rm_parents :: "string list"
  rm_children :: "string list"
  rm_creators :: "string list"
  rm_power_levels :: power_levels
  rm_summary :: "room_summary option"
  rm_inviter :: "string option"

text \<open>A room that may be invited: \<^verbatim>\<open>isinstance(room, MatrixInvitedRoom)\<close> is the constructor.\<close>

datatype any_room = JoinedRoom matrix_room | InvitedRoom invited_room

fun as_room :: "any_room \<Rightarrow> matrix_room" where
  "as_room (JoinedRoom r) = r"
| "as_room (InvitedRoom r) = matrix_room.truncate r"

fun is_invited_room :: "any_room \<Rightarrow> bool" where
  "is_invited_room (JoinedRoom r) = False"
| "is_invited_room (InvitedRoom r) = True"

fun room_inviter :: "any_room \<Rightarrow> string option" where
  "room_inviter (JoinedRoom r) = None"
| "room_inviter (InvitedRoom r) = ir_inviter r"

definition encode_room :: "any_room \<Rightarrow> string option \<Rightarrow> int \<Rightarrow> bool \<Rightarrow> room_meta" where
  "encode_room ar membership membership_epoch members_complete =
     (let room = as_room ar in
      \<lparr> rm_own_user_id = mr_own_user_id room, rm_federate = mr_federate room,
        rm_room_version = mr_room_version room, rm_room_type = mr_room_type room,
        rm_guest_access = mr_guest_access room, rm_join_rule = mr_join_rule room,
        rm_history_visibility = mr_history_visibility room, rm_canonical_alias = mr_canonical_alias room,
        rm_topic = mr_topic room, rm_name = mr_name room, rm_encrypted = mr_encrypted room,
        rm_room_avatar_url = mr_room_avatar_url room, rm_fully_read_marker = mr_fully_read_marker room,
        rm_tags = mr_tags room, rm_unread_notifications = mr_unread_notifications room,
        rm_unread_highlights = mr_unread_highlights room, rm_replacement_room = mr_replacement_room room,
        rm_invited = is_invited_room ar, rm_membership = membership, rm_membership_epoch = membership_epoch,
        rm_members_complete = (members_complete \<and> mr_members_synced room),
        rm_member_count = length (mr_users room),
        rm_parents = sorted_list_of_set (mr_parents room),
        rm_children = sorted_list_of_set (mr_children room),
        rm_creators = sorted_list_of_set (mr_creators room),
        rm_power_levels = mr_power_levels room, rm_summary = mr_summary room,
        rm_inviter = room_inviter ar \<rparr>)"

text \<open>The JSON object of a metadata row, as \<^verbatim>\<open>encode_json\<close> writes it.\<close>

definition jints :: "(string, int) dict \<Rightarrow> json" where
  "jints d = JObj (map (\<lambda>(k, v). (k, JInt v)) d)"

definition levels_json :: "power_levels \<Rightarrow> json" where
  "levels_json p =
     (let d = pl_defaults p in
      JObj [(''defaults'', JObj [(''ban'', JInt (lv_ban d)), (''invite'', JInt (lv_invite d)),
              (''kick'', JInt (lv_kick d)), (''redact'', JInt (lv_redact d)),
              (''state_default'', JInt (lv_state_default d)), (''events_default'', JInt (lv_events_default d)),
              (''users_default'', JInt (lv_users_default d)), (''notifications'', jints (lv_notifications d))]),
            (''users'', jints (pl_users p)), (''events'', jints (pl_events p)),
            (''creators'', JObj (map (\<lambda>u. (u, JBool True)) (sorted_list_of_set (pl_creators p))))])"

definition summary_json :: "room_summary \<Rightarrow> json" where
  "summary_json s =
     JObj [(''invited_member_count'', jint_opt (rs_invited_member_count s)),
           (''joined_member_count'', jint_opt (rs_joined_member_count s)),
           (''heroes'', case rs_heroes s of None \<Rightarrow> JNull | Some hs \<Rightarrow> JArr (map JStr hs))]"

definition room_meta_json :: "room_meta \<Rightarrow> jobj" where
  "room_meta_json m =
     [(''own_user_id'', JStr (rm_own_user_id m)), (''federate'', JBool (rm_federate m)),
      (''room_version'', JStr (rm_room_version m)), (''room_type'', jstr_opt (rm_room_type m)),
      (''guest_access'', JStr (rm_guest_access m)), (''join_rule'', JStr (rm_join_rule m)),
      (''history_visibility'', JStr (rm_history_visibility m)),
      (''canonical_alias'', jstr_opt (rm_canonical_alias m)), (''topic'', jstr_opt (rm_topic m)),
      (''name'', jstr_opt (rm_name m)), (''encrypted'', JBool (rm_encrypted m)),
      (''room_avatar_url'', jstr_opt (rm_room_avatar_url m)),
      (''fully_read_marker'', jstr_opt (rm_fully_read_marker m)),
      (''tags'', JObj (map (\<lambda>(t, c). (t, case c of None \<Rightarrow> JNull
                    | Some o' \<Rightarrow> JObj (map (\<lambda>(k, v). (k, JFloat v)) o'))) (rm_tags m))),
      (''unread_notifications'', JInt (rm_unread_notifications m)),
      (''unread_highlights'', JInt (rm_unread_highlights m)),
      (''replacement_room'', jstr_opt (rm_replacement_room m)),
      (''invited'', JBool (rm_invited m)), (''membership'', jstr_opt (rm_membership m)),
      (''membership_epoch'', JInt (rm_membership_epoch m)),
      (''members_complete'', JBool (rm_members_complete m)),
      (''member_count'', JInt (int (rm_member_count m))),
      (''parents'', JArr (map JStr (rm_parents m))), (''children'', JArr (map JStr (rm_children m))),
      (''creators'', JArr (map JStr (rm_creators m))), (''power_levels'', levels_json (rm_power_levels m)),
      (''summary'', case rm_summary m of None \<Rightarrow> JNull | Some s \<Rightarrow> summary_json s)] @
     (if rm_invited m then [(''inviter'', jstr_opt (rm_inviter m))] else [])"

definition encode_member :: "('z) matrix_room_scheme \<Rightarrow> string \<Rightarrow> member_row option" where
  "encode_member room user_id =
     (case dget (mr_users room) user_id of
        None \<Rightarrow> None
      | Some ref \<Rightarrow>
          let user = user_at room ref in
          Some \<lparr> mb_display_name = mu_display_name user, mb_avatar_url = mu_avatar_url user,
                 mb_invited = mu_invited user \<rparr>)"

section \<open>Restoring\<close>

definition restore_fields :: "room_meta \<Rightarrow> ('z) matrix_room_scheme \<Rightarrow> ('z) matrix_room_scheme" where
  "restore_fields m r = r
     \<lparr> mr_own_user_id := rm_own_user_id m, mr_federate := rm_federate m, mr_room_version := rm_room_version m,
       mr_room_type := rm_room_type m, mr_guest_access := rm_guest_access m, mr_join_rule := rm_join_rule m,
       mr_history_visibility := rm_history_visibility m, mr_canonical_alias := rm_canonical_alias m,
       mr_topic := rm_topic m, mr_name := rm_name m, mr_encrypted := rm_encrypted m,
       mr_room_avatar_url := rm_room_avatar_url m, mr_fully_read_marker := rm_fully_read_marker m,
       mr_tags := rm_tags m, mr_unread_notifications := rm_unread_notifications m,
       mr_unread_highlights := rm_unread_highlights m, mr_replacement_room := rm_replacement_room m,
       mr_parents := set (rm_parents m), mr_children := set (rm_children m), mr_creators := set (rm_creators m),
       mr_power_levels := rm_power_levels m,
       mr_summary := (case rm_summary m of None \<Rightarrow> mr_summary r | Some s \<Rightarrow> Some s) \<rparr>"

definition add_row :: "string \<times> member_row \<Rightarrow> ('z) matrix_room_scheme \<Rightarrow> ('z) matrix_room_scheme" where
  "add_row row r = snd (add_member (fst row) (mb_display_name (snd row)) (mb_avatar_url (snd row)) (mb_invited (snd row)) r)"

definition restore_members :: "room_meta \<Rightarrow> (string, member_row) dict \<Rightarrow> ('z) matrix_room_scheme \<Rightarrow> ('z) matrix_room_scheme" where
  "restore_members m members r =
     (foldl (\<lambda>r row. add_row row r) r members)
       \<lparr> mr_members_synced := (rm_members_complete m \<and> rm_member_count m = length members) \<rparr>"

definition restore_room :: "string \<Rightarrow> room_meta \<Rightarrow> (string, member_row) dict \<Rightarrow> any_room" where
  "restore_room room_id m members =
     (if rm_invited m
      then InvitedRoom (restore_members m members
             ((restore_fields m (MatrixInvitedRoom room_id (rm_own_user_id m))) \<lparr> ir_inviter := rm_inviter m \<rparr>))
      else JoinedRoom (restore_members m members (restore_fields m (MatrixRoom room_id (rm_own_user_id m) False))))"

section \<open>What survives a restart\<close>

text \<open>What a member looks like, and what the rest of the client reads of a room.\<close>

definition same_members :: "('y) matrix_room_scheme \<Rightarrow> ('z) matrix_room_scheme \<Rightarrow> bool" where
  "same_members r s \<longleftrightarrow> (\<forall>u. encode_member r u = encode_member s u)"

lemma encode_member_dom: "encode_member r u = None \<longleftrightarrow> dget (mr_users r) u = None"
  by (auto simp: encode_member_def Let_def split: option.splits)

lemma encode_member_name:
  assumes "room_ok r" "dget (mr_users r) u = Some ref"
  shows "\<exists>row. encode_member r u = Some row \<and> mu_name (user_at r ref) = str_or (mb_display_name row) u \<and>
    mu_display_name (user_at r ref) = mb_display_name row"
  using room_okD(2)[OF assms] assms(2) by (simp add: encode_member_def Let_def mu_name_def)

lemma names_of_rows:
  assumes "room_ok r"
  shows "u \<in> set (names_of r n) \<longleftrightarrow> (\<exists>row. encode_member r u = Some row \<and> str_or (mb_display_name row) u = n)"
proof (cases "dget (mr_users r) u")
  case None
  then have "u \<notin> set (names_of r n)" using assms by (simp add: room_ok_def)
  then show ?thesis using None encode_member_dom[of r u] by simp
next
  case (Some ref)
  obtain row where "encode_member r u = Some row" "mu_name (user_at r ref) = str_or (mb_display_name row) u"
    using encode_member_name[OF assms Some] by blast
  then show ?thesis using room_okD(4)[OF assms Some, of n] by simp
qed

lemma same_members_names:
  assumes "room_ok r" "room_ok s" "same_members r s"
  shows "set (names_of r n) = set (names_of s n)"
  using assms(3) names_of_rows[OF assms(1), of _ n] names_of_rows[OF assms(2), of _ n]
  by (simp add: set_eq_iff same_members_def)

lemma same_members_user_name:
  assumes "room_ok r" "room_ok s" "same_members r s"
  shows "user_name r u = user_name s u"
proof (cases "encode_member r u")
  case None
  then show ?thesis using assms(3) encode_member_dom[of r u] encode_member_dom[of s u]
    by (simp add: same_members_def user_name_def)
next
  case (Some row)
  then have s: "encode_member s u = Some row" using assms(3) by (simp add: same_members_def)
  obtain k l where k: "dget (mr_users r) u = Some k" and l: "dget (mr_users s) u = Some l"
    using Some s encode_member_dom[of r u] encode_member_dom[of s u] by fastforce
  have d: "mu_display_name (user_at r k) = mb_display_name row" "mu_display_name (user_at s l) = mb_display_name row"
    using encode_member_name[OF assms(1) k] encode_member_name[OF assms(2) l] Some s by auto
  have n: "mu_name (user_at r k) = mu_name (user_at s l)"
    using encode_member_name[OF assms(1) k] encode_member_name[OF assms(2) l] Some s by auto
  have "length (names_of r m) = length (names_of s m)" for m
    using same_members_names[OF assms, of m] assms(1,2) by (metis distinct_card room_ok_def)
  moreover have "disambiguated_name (user_at r k) = disambiguated_name (user_at s l)"
    using d room_okD(2)[OF assms(1) k] room_okD(2)[OF assms(2) l] by (simp add: disambiguated_name_def cong: option.case_cong list.case_cong)
  ultimately show ?thesis using n by (simp add: user_name_def k l Let_def)
qed

lemma add_row_new:
  assumes "room_ok r" "\<not> din u (mr_users r)"
  shows "room_ok (add_row (u, row) r) \<and>
    encode_member (add_row (u, row) r) = (encode_member r)(u \<mapsto> row) \<and>
    dkeys (mr_users (add_row (u, row) r)) = dkeys (mr_users r) @ [u]"
proof -
  note n = add_member_new[OF assms, of "mb_display_name row" "mb_avatar_url row" "mb_invited row"]
  let ?r = "add_row (u, row) r"
  have old: "user_at ?r k = user_at r k" if "k < length (mr_heap r)" for k
    using that assms(2)
    by (simp add: add_row_def add_member_def op_basic Let_def names_append_def user_at_def nth_append)
  have "encode_member ?r v = (if v = u then Some row else encode_member r v)" for v
  proof (cases "v = u")
    case True
    then show ?thesis using n(3,4) by (simp add: encode_member_def add_row_def MatrixUser_def)
  next
    case False
    then show ?thesis using n(3) old room_okD(1)[OF assms(1), of v]
      by (auto simp: encode_member_def add_row_def split: option.splits)
  qed
  moreover have "dkeys (mr_users ?r) = dkeys (mr_users r) @ [u]"
    using assms(2) by (simp add: add_row_def add_member_def op_basic Let_def names_append_def
        dset_keys_list din_iff)
  ultimately show ?thesis using n(2) by (auto simp: add_row_def)
qed

lemma add_rows:
  assumes "room_ok r" "distinct (dkeys (mr_users r) @ dkeys rows)"
  shows "room_ok (foldl (\<lambda>r row. add_row row r) r rows) \<and>
    encode_member (foldl (\<lambda>r row. add_row row r) r rows) = encode_member r ++ dget rows \<and>
    dkeys (mr_users (foldl (\<lambda>r row. add_row row r) r rows)) = dkeys (mr_users r) @ dkeys rows"
  using assms
proof (induction rows arbitrary: r)
  case (Cons p rows)
  obtain u row where p: "p = (u, row)" by (cases p)
  have nd: "\<not> din u (mr_users r)" using Cons.prems(2) by (auto simp: p din_iff)
  note step = add_row_new[OF Cons.prems(1) nd, of row]
  have "u \<notin> set (dkeys rows)" using Cons.prems(2) by (simp add: p)
  then have "dget rows u = None" by (metis dget_None_iff)
  then have m: "(encode_member r)(u \<mapsto> row) ++ dget rows = encode_member r ++ dget (p # rows)"
    by (auto simp: p fun_eq_iff map_add_def split: option.splits)
  have e1: "encode_member (add_row p r) = (encode_member r)(u \<mapsto> row)"
    and k1: "dkeys (mr_users (add_row p r)) = dkeys (mr_users r) @ [u]" and o1: "room_ok (add_row p r)"
    using step by (simp_all only: p)
  have "distinct (dkeys (mr_users (add_row p r)) @ dkeys rows)"
    using k1 Cons.prems(2) by (auto simp: p)
  note ih = Cons.IH[OF o1 this]
  show ?case
  proof (intro conjI)
    show "encode_member (foldl (\<lambda>r row. add_row row r) r (p # rows)) = encode_member r ++ dget (p # rows)"
      using ih e1 m by (simp only: foldl_Cons)
  qed (use ih k1 in \<open>simp_all add: p\<close>)
qed simp


definition member_rows :: "('z) matrix_room_scheme \<Rightarrow> (string, member_row) dict" where
  "member_rows r = map (\<lambda>u. (u, the (encode_member r u))) (dkeys (mr_users r))"

lemma member_rows_keys: "dkeys (member_rows r) = dkeys (mr_users r)"
  by (simp add: member_rows_def comp_def)

lemma dget_tabulate: "dget (map (\<lambda>u. (u, f u)) ks) u = (if u \<in> set ks then Some (f u) else None)"
  by (induction ks) auto

lemma member_rows_get: "dget (member_rows r) = encode_member r"
proof
  fix u
  have "u \<in> set (dkeys (mr_users r)) \<longleftrightarrow> encode_member r u \<noteq> None"
    by (metis dget_None_iff encode_member_dom)
  then show "dget (member_rows r) u = encode_member r u"
    unfolding member_rows_def dget_tabulate by (cases "encode_member r u") auto
qed

lemma encode_member_synced [simp]: "encode_member (r \<lparr> mr_members_synced := b \<rparr>) = encode_member r"
  by (simp add: fun_eq_iff encode_member_def user_at_def cong: option.case_cong)

lemma restore_fields_parts [simp]:
  "mr_users (restore_fields m r) = mr_users r" "mr_names (restore_fields m r) = mr_names r"
  "mr_heap (restore_fields m r) = mr_heap r" "mr_invited_users (restore_fields m r) = mr_invited_users r"
  by (simp_all add: restore_fields_def)

text \<open>The fields adding a member does not touch.\<close>

definition room_info :: "('z) matrix_room_scheme \<Rightarrow> _" where
  "room_info r = ((mr_own_user_id r, mr_room_version r, mr_encrypted r, mr_power_levels r),
     (mr_name r, mr_canonical_alias r, mr_topic r, mr_summary r),
     (mr_join_rule r, mr_guest_access r, mr_history_visibility r, mr_federate r),
     (mr_parents r, mr_children r, mr_creators r, mr_room_type r),
     (mr_room_avatar_url r, mr_fully_read_marker r, mr_tags r, mr_replacement_room r),
     (mr_unread_notifications r, mr_unread_highlights r, mr_room_id r))"

lemma add_row_info: "room_info (add_row row r) = room_info r"
  by (simp add: add_row_def add_member_def op_basic Let_def names_append_def set_names_def room_info_def)

lemma add_rows_info: "room_info (foldl (\<lambda>r row. add_row row r) r rows) = room_info r"
  by (induction rows arbitrary: r) (simp_all add: add_row_info)

lemma same_room_display:
  assumes "room_info s = room_info r" "\<And>u. user_name s u = user_name r u"
    "dkeys (mr_users s) = dkeys (mr_users r)"
  shows "display_name s = display_name r"
proof -
  have l: "length (mr_users s) = length (mr_users r)" using assms(3) by (metis length_map)
  have i: "mr_name s = mr_name r" "mr_canonical_alias s = mr_canonical_alias r" "mr_summary s = mr_summary r"
    "mr_own_user_id s = mr_own_user_id r"
    using assms(1) by (simp_all add: room_info_def)
  have d: "summary_details s = summary_details r" by (simp add: summary_details_def i)
  have "user_key s = user_key r" by (simp add: user_key_def assms(2) fun_eq_iff)
  then have "sorted_others s = sorted_others r" by (simp add: sorted_others_def assms(3) i)
  moreover have "member_count s = member_count r" by (simp add: member_count_def d l cong: sum.case_cong)
  ultimately have "group_name_structure s = group_name_structure r"
    by (cases "summary_details r") (auto simp: group_name_structure_def d Let_def)
  then show ?thesis by (simp add: display_name_def named_room_name_def group_name_def assms(2) i)
qed

text \<open>C32: A joined room restored after a restart is the room that was saved: the same members in the
  same order with the same names and invitations, the same disambiguated user names and room
  name, the same state, power levels, encryption flag and summary; and it is consistent.\<close>

theorem restart_preserves_room:
  assumes "room_ok r" "finite (mr_parents r)" "finite (mr_children r)" "finite (mr_creators r)"
  shows "\<exists>s. restore_room (mr_room_id r) (encode_room (JoinedRoom r) mem epoch complete) (member_rows r) = JoinedRoom s \<and>
    room_ok s \<and> same_members r s \<and> dkeys (mr_users s) = dkeys (mr_users r) \<and>
    (\<forall>u. user_name s u = user_name r u) \<and> display_name s = display_name r \<and> room_info s = room_info r \<and>
    mr_members_synced s = (complete \<and> mr_members_synced r)"
proof -
  let ?m = "encode_room (JoinedRoom r) mem epoch complete"
  let ?b = "restore_fields ?m (MatrixRoom (mr_room_id r) (rm_own_user_id ?m) False)"
  let ?f = "foldl (\<lambda>r row. add_row row r) ?b (member_rows r)"
  let ?s = "?f \<lparr> mr_members_synced := complete \<and> mr_members_synced r \<rparr>"
  have b: "room_ok ?b" using room_ok_same[OF room_ok_new[of "mr_room_id r" "rm_own_user_id ?m" False], of ?b] by simp
  have "distinct (dkeys (mr_users ?b) @ dkeys (member_rows r))"
    using assms(1) by (simp add: member_rows_keys MatrixRoom_def room_ok_def dwf_def)
  note f = add_rows[OF b this]
  have users: "mr_users ?b = []" by (simp add: MatrixRoom_def)
  then have empty: "encode_member ?b = Map.empty" "mr_users ?b = []"
    by (simp_all only: fun_eq_iff encode_member_def) simp
  have ok: "room_ok ?s" using f room_ok_same[of ?f ?s] by simp
  have em: "encode_member ?s = encode_member ?f" by (rule encode_member_synced)
  then have same: "same_members r ?s"
    using f by (simp add: same_members_def empty member_rows_get)
  have keys: "dkeys (mr_users ?s) = dkeys (mr_users r)"
    using f by (simp add: MatrixRoom_def member_rows_keys)
  have binfo: "room_info ?b = room_info r"
    using assms(2-4)
    by (simp add: room_info_def restore_fields_def encode_room_def MatrixRoom_def split: option.splits)
  have info: "room_info ?s = room_info r"
    using add_rows_info[of ?b "member_rows r"] binfo by (simp add: room_info_def)
  have names: "user_name ?s u = user_name r u" for u
    using same_members_user_name[OF assms(1) ok same] by simp
  have "restore_room (mr_room_id r) ?m (member_rows r) = JoinedRoom ?s"
    by (simp add: restore_room_def restore_members_def encode_room_def member_rows_def)
  then show ?thesis
    using ok same keys names info same_room_display[OF info names keys] by auto
qed

theorem restart_preserves_room_witness:
  "\<exists>s. restore_room ''!r:x'' (encode_room (JoinedRoom sample_room) (Some ''join'') 0 True) (member_rows sample_room) = JoinedRoom s \<and>
     display_name s = display_name sample_room \<and> user_name s ''@a:x'' = user_name sample_room ''@a:x''"
proof -
  have "mr_room_id sample_room = ''!r:x''" "mr_parents sample_room = {}" "mr_children sample_room = {}" "mr_creators sample_room = {}"
    by (code_simp+)
  then show ?thesis
    using restart_preserves_room[OF sample_room_ok(2), of "Some ''join''" 0 True] by auto
qed

end
