(* ===== verification/Durable_Session.thy ===== *)
theory Durable_Session
  imports Durable_Publish Durable_Projection
begin

text \<open>
  The membership side of a durable session: \<^verbatim>\<open>src/nio/durable/client.py\<close> and the boundary
  handling of \<^verbatim>\<open>src/nio/durable/recovery.py\<close>. A session holds the store, the metadata of every
  room it has seen, the live rooms, and at most one local membership command (the intent), which
  is retained before its HTTP request and shields the room from reported history until an
  authoritative boundary observes it. The intent is kept in the store as JSON.
\<close>

section \<open>State\<close>

record local_intent =
  li_operation_id :: string
  li_room_id :: string
  li_previous_membership :: string
  li_previous_epoch :: int
  li_current_membership :: string
  li_join_baseline_cursor :: "string option option"
  li_sequence :: "nat option"
  li_observed :: bool

definition intent_json :: "local_intent \<Rightarrow> json" where
  "intent_json i = JObj
     ([(''operation_id'', JStr (li_operation_id i)), (''room_id'', JStr (li_room_id i)),
       (''previous_membership'', JStr (li_previous_membership i)),
       (''previous_epoch'', JInt (li_previous_epoch i)),
       (''current_membership'', JStr (li_current_membership i))] @
      (case li_join_baseline_cursor i of None \<Rightarrow> [] | Some c \<Rightarrow> [(''join_baseline_cursor'', jstr_opt c)]) @
      (case li_sequence i of None \<Rightarrow> [] | Some n \<Rightarrow> [(''sequence'', JInt (int n))]) @
      (if li_observed i then [(''observed'', JBool True)] else []))"

fun str_of :: "json \<Rightarrow> string option" where
  "str_of (JStr s) = Some s"
| "str_of _ = None"

definition intent_of_json :: "json \<Rightarrow> local_intent option" where
  "intent_of_json v =
     (case v of
        JObj d \<Rightarrow>
          (case (jget d ''operation_id'', jget d ''room_id'', jget d ''previous_membership'',
                 jget d ''previous_epoch'', jget d ''current_membership'') of
             (JStr oid, JStr room, JStr prev, JInt epoch, JStr cur) \<Rightarrow>
               Some \<lparr> li_operation_id = oid, li_room_id = room, li_previous_membership = prev,
                      li_previous_epoch = epoch, li_current_membership = cur,
                      li_join_baseline_cursor = map_option str_of (dget d ''join_baseline_cursor''),
                      li_sequence = (case jget d ''sequence'' of JInt n \<Rightarrow> Some (nat n) | _ \<Rightarrow> None),
                      li_observed = truthy (jget d ''observed'') \<rparr>
           | _ \<Rightarrow> None)
      | _ \<Rightarrow> None)"

lemma jget_append: "jget (a @ b) k = (if k \<in> set (dkeys a) then jget a k else jget b k)"
proof (cases "dget a k")
  case None
  then have "k \<notin> set (dkeys a)" by (metis dget_None_iff)
  then show ?thesis using None by (simp add: jget_def map_add_def)
next
  case (Some v)
  then have "k \<in> set (dkeys a)" by (metis dget_None_iff option.distinct(1))
  then show ?thesis using Some by (simp add: jget_def map_add_def)
qed

lemma intent_roundtrip: "intent_of_json (intent_json i) = Some i"
proof -
  have s: "str_of (jstr_opt c) = c" for c by (cases c) simp_all
  show ?thesis
    by (cases i; cases "li_join_baseline_cursor i"; cases "li_sequence i")
       (auto simp: intent_of_json_def intent_json_def s)
qed

record room_state =
  rt_membership :: "string option"
  rt_epoch :: int
  rt_baseline :: bool
  rt_nonjoined_cursor :: "string option"
  rt_saved :: "room_meta option"

definition new_state :: room_state where
  "new_state = \<lparr> rt_membership = None, rt_epoch = 0, rt_baseline = False, rt_nonjoined_cursor = None, rt_saved = None \<rparr>"

record session =
  se_store :: durable_store
  se_config :: durable_config
  se_user_id :: string
  se_metadata :: "(string, room_state) dict"
  se_rooms :: "(string, matrix_room) dict"
  se_invited_rooms :: "(string, invited_room) dict"
  se_encrypted_rooms :: "string set"
  se_outbound_sessions :: "string set"
  se_member_cache :: "string set"
  se_members :: "(string \<times> string, member_row) dict"
  se_resets :: "string set"
  se_complete_state_seen :: bool
  se_closed :: bool
  se_disposed :: bool

definition meta_of :: "session \<Rightarrow> string \<Rightarrow> room_state" where
  "meta_of s room_id = dget_or (se_metadata s) room_id new_state"

definition set_meta :: "string \<Rightarrow> (room_state \<Rightarrow> room_state) \<Rightarrow> session \<Rightarrow> session" where
  "set_meta room_id f s = s \<lparr> se_metadata := dset (se_metadata s) room_id (f (meta_of s room_id)) \<rparr>"

definition on_store :: "(durable_store, 'a) op \<Rightarrow> (session, 'a) op" where
  "on_store m s = (case m (se_store s) of (r, t) \<Rightarrow> (r, s \<lparr> se_store := t \<rparr>))"

text \<open>
  \<^verbatim>\<open>with self._store.transaction()\<close> around a body that also changes the session's own objects:
  the store rolls its tables back, the member rows with them; the Python objects keep what the
  body wrote.
\<close>

definition tx_entry :: "durable_store \<Rightarrow> durable_store" where
  "tx_entry st = invalidate_local_intent (st \<lparr> ds_depth := Suc (ds_depth st) \<rparr>)"

definition session_tx :: "tx_env \<Rightarrow> (session, 'a) op \<Rightarrow> (session, 'a) op" where
  "session_tx env body s =
     (let (r, st) = transaction env (\<lambda>st. case body (s \<lparr> se_store := st \<rparr>) of (r, t) \<Rightarrow> (r, se_store t)) (se_store s);
          ran = is_open (se_store s) \<and> \<not> (ds_depth (se_store s) = 0 \<and> ds_foreign_tx (se_store s)) \<and> env \<noteq> Begin_Fails;
          t = (if ran then snd (body (s \<lparr> se_store := tx_entry (se_store s) \<rparr>)) else s);
          t = (case r of Inl e \<Rightarrow> t \<lparr> se_members := se_members s \<rparr> | Inr a \<Rightarrow> t)
      in (r, t \<lparr> se_store := st \<rparr>))"

definition assert_active :: "(session, unit) op" where
  "assert_active =
     andthen (check_or (LocalProtocolError ''client is disposed'') (\<lambda>s. \<not> se_disposed s))
     (check_or (LocalProtocolError ''durable sync session is closed'') (\<lambda>s. \<not> se_closed s))"

definition read_intent :: "(session, local_intent option) op" where
  "read_intent =
     bnd (on_store read_local_intent) (\<lambda>v.
     case v of
       None \<Rightarrow> ret None
     | Some j \<Rightarrow> (case intent_of_json j of None \<Rightarrow> raise (KeyError ''intent'') | Some i \<Rightarrow> ret (Some i)))"

definition save_intent :: "local_intent \<Rightarrow> bool \<Rightarrow> (session, unit) op" where
  "save_intent i create = on_store (save_local_intent (intent_json i) create)"

section \<open>Membership\<close>

text \<open>A committed local operation on this room that no authoritative response has observed.\<close>

definition shields :: "local_intent option \<Rightarrow> string \<Rightarrow> bool" where
  "shields i room_id = (case i of None \<Rightarrow> False
     | Some i \<Rightarrow> li_sequence i \<noteq> None \<and> li_room_id i = room_id \<and> \<not> li_observed i)"

definition change_membership :: "string \<Rightarrow> string \<Rightarrow> (session, own_membership option) op" where
  "change_membership room_id membership =
     bnd read_intent (\<lambda>intent.
     if shields intent room_id then ret None
     else
       andthen (modify (set_meta room_id (\<lambda>m. m)))
       (bnd (reads (\<lambda>s. meta_of s room_id)) (\<lambda>m.
        if rt_membership m = Some membership then ret None
        else
          let epoch = rt_epoch m;
              next_epoch = epoch + (if rt_membership m = Some ''join'' \<and> membership \<noteq> ''join'' then 1 else 0)
          in andthen (modify (set_meta room_id (\<lambda>m. m \<lparr> rt_membership := Some membership, rt_epoch := next_epoch \<rparr>)))
             (ret (Some \<lparr> om_previous = rt_membership m, om_current = membership,
                          om_previous_epoch = epoch, om_current_epoch = next_epoch, om_source = ''reported'' \<rparr>)))))"

definition local_position_matches :: "local_intent \<Rightarrow> session \<Rightarrow> bool" where
  "local_position_matches i s =
     (let m = meta_of s (li_room_id i)
      in ((if rt_membership m = Some ''join'' then ''join'' else ''leave''), rt_epoch m) =
         (li_previous_membership i, li_previous_epoch i))"

definition invalidate_outbound_session :: "string \<Rightarrow> session \<Rightarrow> session" where
  "invalidate_outbound_session room_id s = s \<lparr> se_outbound_sessions := se_outbound_sessions s - {room_id} \<rparr>"

definition pop_room :: "string \<Rightarrow> session \<Rightarrow> session" where
  "pop_room room_id s = s \<lparr> se_rooms := ddel (se_rooms s) room_id \<rparr>"

definition pop_invited :: "string \<Rightarrow> session \<Rightarrow> session" where
  "pop_invited room_id s = s \<lparr> se_invited_rooms := ddel (se_invited_rooms s) room_id \<rparr>"

definition pop_member_cache :: "string \<Rightarrow> session \<Rightarrow> session" where
  "pop_member_cache room_id s = s \<lparr> se_member_cache := se_member_cache s - {room_id} \<rparr>"

definition delete_members :: "string \<Rightarrow> session \<Rightarrow> session" where
  "delete_members room_id s = s \<lparr> se_members := filter (\<lambda>p. fst (fst p) \<noteq> room_id) (se_members s) \<rparr>"

definition room_encrypted :: "session \<Rightarrow> string \<Rightarrow> bool" where
  "room_encrypted s room_id =
     (room_id \<in> se_encrypted_rooms s \<or>
      (case dget (se_rooms s) room_id of Some r \<Rightarrow> mr_encrypted r | None \<Rightarrow> False))"

definition reset_joined_room :: "string \<Rightarrow> session \<Rightarrow> session" where
  "reset_joined_room room_id s =
     (let room = MatrixRoom room_id (se_user_id s) (room_encrypted s room_id);
          s = s \<lparr> se_rooms := dset (se_rooms s) room_id room \<rparr>;
          s = pop_invited room_id s;
          s = set_meta room_id (\<lambda>m. m \<lparr> rt_baseline := False \<rparr>) s;
          s = pop_member_cache room_id s;
          s = invalidate_outbound_session room_id s
      in delete_members room_id s)"

definition room_ready :: "session \<Rightarrow> string \<Rightarrow> bool" where
  "room_ready s room_id =
     (case dget (se_rooms s) room_id of
        None \<Rightarrow> False
      | Some r \<Rightarrow> mr_encrypted r \<or> rt_baseline (meta_of s room_id))"

text \<open>The own join event of a room whose tenure had ended starts from a fresh room, unless an
  unobserved local operation owns the room.\<close>

definition timeline_room :: "string \<Rightarrow> string \<Rightarrow> string \<Rightarrow> (session, bool) op" where
  "timeline_room room_id state_key membership =
     bnd (reads (\<lambda>s. state_key = se_user_id s \<and> membership = ''join'' \<and>
            rt_membership (meta_of s room_id) \<notin> {None, Some ''join''})) (\<lambda>rejoin.
     if \<not> rejoin then ret False
     else bnd read_intent (\<lambda>intent.
       if shields intent room_id then ret False
       else andthen (modify (reset_joined_room room_id))
            (andthen (modify (\<lambda>s. s \<lparr> se_resets := insert room_id (se_resets s) \<rparr>))
            (ret True))))"

section \<open>Local commands\<close>

definition check_command :: "string \<Rightarrow> string option \<Rightarrow> int \<Rightarrow> string \<Rightarrow> (session, unit) op" where
  "check_command room_id previous_membership previous_epoch current_membership =
     andthen assert_active
     (andthen (check_or (LocalProtocolError ''to-device-only sync cannot own room membership'')
                (\<lambda>s. \<not> to_device_only (se_config s)))
     (check_or (ValueError ''invalid local membership transition'')
        (\<lambda>s. \<not> (room_id = [] \<or> current_membership \<notin> {''join'', ''leave''} \<or>
                 previous_membership \<notin> {Some ''join'', Some ''leave'', None} \<or> previous_epoch < 0))))"

text \<open>One turn of \<^verbatim>\<open>wait_for_membership_idle\<close>: True when no command is outstanding any more.\<close>

definition idle_step :: "(session, bool) op" where
  "idle_step =
     bnd read_intent (\<lambda>intent.
     case intent of
       None \<Rightarrow> ret True
     | Some i \<Rightarrow>
         (case li_sequence i of
            None \<Rightarrow> ret False
          | Some n \<Rightarrow>
              bnd (on_store acked_sequence) (\<lambda>acked.
              if n \<le> acked \<and> li_observed i
              then andthen (session_tx Tx_Ok (on_store delete_local_intent)) (ret True)
              else ret False)))"

text \<open>The part of \<^verbatim>\<open>change_membership\<close> under the lock, up to the retained intent.\<close>

definition retain_intent :: "local_intent \<Rightarrow> (session, bool) op" where
  "retain_intent i =
     andthen assert_active
     (bnd (reads (local_position_matches i)) (\<lambda>ok.
      if \<not> ok then ret False
      else bnd read_intent (\<lambda>pending.
        if pending \<noteq> None then raise (LocalProtocolError ''another local membership command is pending'')
        else andthen (session_tx Tx_Ok (save_intent i True)) (ret True))))"

definition state_json :: "room_state \<Rightarrow> room_meta \<Rightarrow> json" where
  "state_json m meta =
     JObj (room_meta_json meta @
       [(''baseline'', JBool (rt_baseline m)), (''nonjoined_cursor'', jstr_opt (rt_nonjoined_cursor m))])"

definition save_room :: "string \<Rightarrow> any_room \<Rightarrow> (session, unit) op" where
  "save_room room_id ar =
     andthen (modify (\<lambda>s. if is_invited_room ar then delete_members room_id s else s))
     (bnd (reads (\<lambda>s. meta_of s room_id)) (\<lambda>prior.
     let meta = encode_room ar (rt_membership prior) (rt_epoch prior) (mr_members_synced (as_room ar)) in
     andthen (modify (set_meta room_id (\<lambda>m. m \<lparr> rt_saved := Some meta \<rparr>)))
     (on_store (save_room_metadata room_id (state_json prior meta)))))"

definition save_member :: "(string, any_room) dict \<Rightarrow> string \<times> string \<Rightarrow> (session, unit) op" where
  "save_member rooms key =
     (case dget rooms (fst key) of
        None \<Rightarrow> raise (KeyError (fst key))
      | Some ar \<Rightarrow> modify (\<lambda>s. s \<lparr> se_members :=
          (case encode_member (as_room ar) (snd key) of
             None \<Rightarrow> ddel (se_members s) key
           | Some row \<Rightarrow> dset (se_members s) key row) \<rparr>))"

definition invited_members :: "(string, any_room) dict \<Rightarrow> (string \<times> string) list" where
  "invited_members rooms =
     concat (map (\<lambda>(room_id, ar). if is_invited_room ar
       then map (\<lambda>u. (room_id, u)) (dkeys (mr_users (as_room ar))) else []) rooms)"

definition save_rooms :: "(string, any_room) dict \<Rightarrow> (string \<times> string) list \<Rightarrow> (session, unit) op" where
  "save_rooms rooms members =
     andthen (for_each (\<lambda>(room_id, ar). save_room room_id ar) rooms)
     (for_each (save_member rooms) (remdups (members @ invited_members rooms)))"

text \<open>
  \<^verbatim>\<open>_apply_local_intent\<close>: \<open>http\<close> is the answer of the join or leave request. The first part
  proves the boundary of a join before the request; a refused request (\<^verbatim>\<open>HttpError\<close>) drops the
  command; any other failure leaves it retained and propagates; an accepted one commits the new
  tenure and its lifecycle record in one transaction, and a failure there closes the session.
\<close>

datatype http_answer = Http_Ok | Http_Refused | Http_Raises exn

definition local_change :: "local_intent \<Rightarrow> own_membership" where
  "local_change i =
     \<lparr> om_previous = Some (li_previous_membership i), om_current = li_current_membership i,
       om_previous_epoch = li_previous_epoch i,
       om_current_epoch = li_previous_epoch i +
         (if li_previous_membership i = ''join'' \<and> li_current_membership i = ''leave'' then 1 else 0),
       om_source = ''local'' \<rparr>"

definition lifecycle_record :: "string \<Rightarrow> string \<Rightarrow> own_membership \<Rightarrow> sync_record" where
  "lifecycle_record room_id membership change =
     \<lparr> sr_kind = ROOM_LIFECYCLE, sr_room_id = Some room_id, sr_source = [(''membership'', JStr membership)],
       sr_clear = None, sr_provenance = None, sr_membership_epoch = Some (om_current_epoch change),
       sr_crypto = None, sr_membership = Some change, sr_route = None, sr_codec = None \<rparr>"

definition prove_join :: "local_intent \<Rightarrow> (session, local_intent) op" where
  "prove_join i =
     (if li_current_membership i = ''join'' \<and> li_join_baseline_cursor i = None then
        bnd (on_store cursor) (\<lambda>c.
        bnd (reads (\<lambda>s. meta_of s (li_room_id i))) (\<lambda>m.
        let proof_cursor = (if rt_membership m \<in> {Some ''invite'', Some ''leave'', Some ''ban''} \<and>
                               rt_nonjoined_cursor m = c then c else None);
            i = i \<lparr> li_join_baseline_cursor := Some proof_cursor \<rparr>
        in andthen (session_tx Tx_Ok (save_intent i False)) (ret i)))
      else ret i)"

definition commit_local :: "local_intent \<Rightarrow> (session, unit) op" where
  "commit_local i =
     (let room_id = li_room_id i; target = li_current_membership i; change = local_change i in
      bnd (reads (\<lambda>s. case dget (se_rooms s) room_id of
             Some r \<Rightarrow> r | None \<Rightarrow> MatrixRoom room_id (se_user_id s) False)) (\<lambda>old_room.
      andthen (modify (set_meta room_id (\<lambda>m. m \<lparr> rt_membership := Some target,
                 rt_epoch := om_current_epoch change, rt_baseline := False \<rparr>)))
      (andthen (modify (pop_member_cache room_id))
      (andthen (if target = ''join'' then modify (reset_joined_room room_id)
                else modify (\<lambda>s. invalidate_outbound_session room_id (pop_room room_id s)))
      (andthen (modify (pop_invited room_id))
      (bnd (reads (\<lambda>s. case dget (se_rooms s) room_id of Some r \<Rightarrow> r | None \<Rightarrow> old_room)) (\<lambda>room.
       andthen (save_rooms [(room_id, JoinedRoom room)] [])
      (bnd (on_store (publish [lifecycle_record room_id target change] False)) (\<lambda>batch.
       save_intent (i \<lparr> li_sequence := Some (sb_sequence batch) \<rparr>) False)))))))))"

definition dispose :: "session \<Rightarrow> session" where
  "dispose s = s \<lparr> se_disposed := True, se_store := close (se_store s) \<rparr>"

definition apply_local_intent :: "http_answer \<Rightarrow> tx_env \<Rightarrow> local_intent \<Rightarrow> (session, bool) op" where
  "apply_local_intent http env i =
     bnd (reads (local_position_matches i)) (\<lambda>ok.
     if \<not> ok then andthen (session_tx Tx_Ok (on_store delete_local_intent)) (ret False)
     else bnd (prove_join i) (\<lambda>i.
       case http of
         Http_Raises e \<Rightarrow> raise e
       | Http_Refused \<Rightarrow> andthen (session_tx Tx_Ok (on_store delete_local_intent)) (ret False)
       | Http_Ok \<Rightarrow> andthen assert_active
         (\<lambda>s. case session_tx env (commit_local i) s of
                (Inr u, t) \<Rightarrow> (Inr True, t)
              | (Inl e, t) \<Rightarrow> (Inl e, dispose t))))"

section \<open>Recovery's view of membership\<close>

definition needs_full_state :: "string option \<Rightarrow> (session, bool) op" where
  "needs_full_state excluding =
     bnd (reads se_config) (\<lambda>cfg.
     if to_device_only cfg then ret False
     else bnd (on_store cursor) (\<lambda>c.
       reads (\<lambda>s. c \<noteq> None \<and> c \<noteq> Some [] \<and>
         ((se_metadata s = [] \<and> \<not> se_complete_state_seen s) \<or>
          list_ex (\<lambda>(room_id, m). Some room_id \<noteq> excluding \<and> rt_membership m = Some ''join'' \<and> \<not> rt_baseline m)
            (se_metadata s)))))"

definition newly_joined_room :: "(session, string option) op" where
  "newly_joined_room =
     bnd read_intent (\<lambda>intent.
     bnd (on_store cursor) (\<lambda>c.
     case intent of
       None \<Rightarrow> ret None
     | Some i \<Rightarrow>
         bnd (reads (\<lambda>s. meta_of s (li_room_id i))) (\<lambda>m.
         if c = None \<or> c = Some [] \<or> li_sequence i = None \<or> li_observed i \<or>
            li_current_membership i \<noteq> ''join'' \<or>
            (case li_join_baseline_cursor i of None \<Rightarrow> None | Some x \<Rightarrow> x) \<noteq> c \<or>
            rt_nonjoined_cursor m \<noteq> c
         then ret None
         else bnd (needs_full_state (Some (li_room_id i))) (\<lambda>full.
           if full then ret None else ret (Some (li_room_id i))))))"

definition publish_all :: "sync_record list \<Rightarrow> (session, unit) op" where
  "publish_all rs =
     bnd (reads se_config) (\<lambda>cfg.
     andthen (on_store (publish_records cfg rs None)) (ret ()))"

text \<open>What the boundary does to the live objects of the room.\<close>

definition boundary_effects :: "string \<Rightarrow> string \<Rightarrow> own_membership option \<Rightarrow> bool \<Rightarrow> session \<Rightarrow> session" where
  "boundary_effects room_id membership change reset s =
     (let s = pop_member_cache room_id s;
          s = (case change of
                 Some c \<Rightarrow> if om_previous c = Some ''join'' \<and> membership \<noteq> ''join''
                           then invalidate_outbound_session room_id s else s
               | None \<Rightarrow> s);
          s = (if membership \<in> {''leave'', ''ban'', ''invite''} then pop_room room_id s else s);
          s = (if membership \<in> {''leave'', ''ban''} then pop_invited room_id s else s);
          s = (if change \<noteq> None then set_meta room_id (\<lambda>m. m \<lparr> rt_baseline := False \<rparr>) s else s)
      in if reset then reset_joined_room room_id s else s)"

definition publish_change :: "string \<Rightarrow> string \<Rightarrow> own_membership option \<Rightarrow> (session, unit) op" where
  "publish_change room_id membership change =
     (case change of None \<Rightarrow> ret () | Some c \<Rightarrow> publish_all [lifecycle_record room_id membership c])"

definition reconcile_shielded :: "local_intent \<Rightarrow> string \<Rightarrow> string \<Rightarrow> (session, bool \<times> own_membership option) op" where
  "reconcile_shielded i room_id membership =
     (let reset = (membership = ''join'' \<and> li_current_membership i \<noteq> ''join'') in
      andthen (save_intent (i \<lparr> li_observed := True \<rparr>) False)
      (bnd (if membership = li_current_membership i then ret None
            else change_membership room_id membership) (\<lambda>change.
       andthen (modify (boundary_effects room_id membership change reset))
       (andthen (publish_change room_id membership change)
       (ret (reset, change))))))"

definition reconcile_membership_boundary :: "string \<Rightarrow> string \<Rightarrow> (session, bool \<times> own_membership option) op" where
  "reconcile_membership_boundary room_id membership =
     bnd read_intent (\<lambda>intent.
     case intent of
       None \<Rightarrow> ret (False, None)
     | Some i \<Rightarrow> if shields intent room_id then reconcile_shielded i room_id membership else ret (False, None))"

end
