(* ===== verification/Durable_Membership.thy ===== *)
theory Durable_Membership
  imports Durable_Session
begin

text \<open>
  What the membership side of a durable session guarantees: the tenure changes it reports for a
  room form a chain whose epochs count the departures, reported history never overrides a local
  operation nobody observed yet, and a committed local operation revokes or resets the room.
\<close>

section \<open>Position of a room\<close>

definition position :: "session \<Rightarrow> string \<Rightarrow> bool \<times> int" where
  "position s r = (rt_membership (meta_of s r) = Some ''join'', rt_epoch (meta_of s r))"

definition change_ok :: "bool \<times> int \<Rightarrow> own_membership \<Rightarrow> bool" where
  "change_ok p c \<longleftrightarrow>
     (om_previous c = Some ''join'') = fst p \<and> om_previous_epoch c = snd p \<and>
     om_current_epoch c = snd p + (if fst p \<and> om_current c \<noteq> ''join'' then 1 else 0)"

definition after_change :: "own_membership \<Rightarrow> bool \<times> int" where
  "after_change c = (om_current c = ''join'', om_current_epoch c)"

fun chain :: "bool \<times> int \<Rightarrow> own_membership list \<Rightarrow> bool \<times> int \<Rightarrow> bool" where
  "chain p [] q = (p = q)"
| "chain p (c # cs) q = (change_ok p c \<and> chain (after_change c) cs q)"

lemma chain_snoc: "chain p cs q \<Longrightarrow> change_ok q c \<Longrightarrow> chain p (cs @ [c]) (after_change c)"
  by (induction cs arbitrary: p) auto

lemma chain_epochs: "chain p cs q \<Longrightarrow> snd p \<le> snd q"
proof (induction cs arbitrary: p)
  case (Cons c cs)
  then have "snd (after_change c) \<le> snd q" "change_ok p c" by auto
  then show ?case by (auto simp: change_ok_def after_change_def split: if_splits)
qed simp

definition departures :: "own_membership list \<Rightarrow> int" where
  "departures cs = int (length (filter (\<lambda>c. om_previous c = Some ''join'' \<and> om_current c \<noteq> ''join'') cs))"

lemma chain_departures: "chain p cs q \<Longrightarrow> snd q = snd p + departures cs"
proof (induction cs arbitrary: p)
  case (Cons c cs)
  then have "snd q = snd (after_change c) + departures cs" "change_ok p c" by auto
  then show ?case by (auto simp: change_ok_def after_change_def departures_def split: if_splits)
qed (simp add: departures_def)

lemma meta_set_meta: "meta_of (set_meta r f s) q = (if q = r then f (meta_of s r) else meta_of s q)"
  by (simp add: meta_of_def set_meta_def dget_or_def)

lemma meta_same [simp]:
  "meta_of (s \<lparr> se_store := st \<rparr>) r = meta_of s r" "meta_of (pop_room q s) r = meta_of s r"
  "meta_of (pop_invited q s) r = meta_of s r" "meta_of (pop_member_cache q s) r = meta_of s r"
  "meta_of (invalidate_outbound_session q s) r = meta_of s r" "meta_of (delete_members q s) r = meta_of s r"
  "meta_of (dispose s) r = meta_of s r" "meta_of (s \<lparr> se_rooms := x \<rparr>) r = meta_of s r"
  by (simp_all add: meta_of_def pop_room_def pop_invited_def pop_member_cache_def
      invalidate_outbound_session_def delete_members_def dispose_def)

lemma position_store [simp]: "position (s \<lparr> se_store := st \<rparr>) r = position s r"
  by (simp add: position_def)

section \<open>Operations that keep every position\<close>

definition keeps_pos :: "(session, 'a) op \<Rightarrow> bool" where
  "keeps_pos m = (\<forall>s r. position (snd (m s)) r = position s r)"

lemma keeps_posI: "(\<And>s r. position (snd (m s)) r = position s r) \<Longrightarrow> keeps_pos m"
  by (simp add: keeps_pos_def)

lemma keeps_posD: "keeps_pos m \<Longrightarrow> position (snd (m s)) r = position s r"
  by (simp add: keeps_pos_def)

lemma pos_on_store: "keeps_pos (on_store m)"
  by (rule keeps_posI) (simp add: on_store_def split: prod.splits)

lemma pos_bnd: "keeps_pos m \<Longrightarrow> (\<And>a. keeps_pos (f a)) \<Longrightarrow> keeps_pos (bnd m f)"
  unfolding keeps_pos_def bnd_def by (auto split: prod.splits sum.splits) (metis snd_conv)+

lemma pos_basic: "keeps_pos (ret a)" "keeps_pos (raise e)" "keeps_pos (reads g)" "keeps_pos (check_or e q)"
  by (simp_all add: keeps_pos_def op_basic)

lemma pos_modify: "(\<And>s r. position (f s) r = position s r) \<Longrightarrow> keeps_pos (modify f)"
  by (rule keeps_posI) (simp add: op_basic)

lemma pos_if: "keeps_pos m \<Longrightarrow> keeps_pos n \<Longrightarrow> keeps_pos (if b then m else n)"
  by simp

lemmas pos_intros = pos_on_store pos_bnd pos_basic pos_if

lemma pos_session_tx:
  assumes "keeps_pos body"
  shows "keeps_pos (session_tx env body)"
proof (rule keeps_posI)
  fix s r
  have "position (snd (body (s \<lparr> se_store := st \<rparr>))) r = position s r" for st
    using keeps_posD[OF assms, of "s \<lparr> se_store := st \<rparr>" r] by simp
  moreover have "position (t \<lparr> se_members := x \<rparr>) r = position t r" for t x
    by (simp add: position_def meta_of_def)
  ultimately show "position (snd (session_tx env body s)) r = position s r"
    by (simp add: session_tx_def Let_def split: prod.splits sum.splits)
qed

lemma pos_read_intent: "keeps_pos read_intent"
  unfolding read_intent_def
  by (intro pos_bnd pos_on_store) (simp add: pos_basic split: option.splits)

lemma pos_save_intent: "keeps_pos (save_intent i c)"
  unfolding save_intent_def by (rule pos_on_store)

lemma pos_set_meta:
  "(\<And>m. rt_membership (f m) = rt_membership m) \<Longrightarrow> (\<And>m. rt_epoch (f m) = rt_epoch m) \<Longrightarrow>
   position (set_meta q f s) r = position s r"
  by (simp add: position_def meta_set_meta)

lemma pos_reset: "position (reset_joined_room q s) r = position s r"
  by (simp add: reset_joined_room_def Let_def position_def meta_set_meta)

lemma pos_pops [simp]:
  "position (pop_member_cache x t) r = position t r" "position (pop_room x t) r = position t r"
  "position (pop_invited x t) r = position t r" "position (invalidate_outbound_session x t) r = position t r"
  by (simp_all add: position_def)

lemma pos_effects: "position (boundary_effects q m c reset s) r = position s r"
  by (simp add: boundary_effects_def Let_def pos_reset pos_set_meta split: option.splits)

lemma pos_publish_all: "keeps_pos (publish_all rs)"
  unfolding publish_all_def by (intro pos_intros)

lemma pos_publish_change: "keeps_pos (publish_change r m c)"
  unfolding publish_change_def by (cases c) (simp_all add: pos_publish_all pos_basic)

lemma pos_save_room: "keeps_pos (save_room q ar)"
  unfolding save_room_def Let_def
  by (intro pos_bnd pos_basic(3) pos_on_store pos_modify) (auto simp: position_def meta_set_meta)

lemma pos_for_each: "(\<And>x. keeps_pos (f x)) \<Longrightarrow> keeps_pos (for_each f xs)"
  by (induction xs) (simp_all add: pos_basic pos_bnd)

lemma pos_save_member: "keeps_pos (save_member rooms key)"
  unfolding save_member_def
  by (auto split: option.splits simp: position_def meta_of_def intro!: pos_modify pos_basic)

lemma pos_save_rooms: "keeps_pos (save_rooms rooms members)"
  unfolding save_rooms_def
  by (intro pos_bnd pos_for_each pos_save_member) (simp add: pos_save_room split: prod.splits)

lemma pos_prove_join: "keeps_pos (prove_join i)"
  unfolding prove_join_def Let_def
  by (intro pos_intros pos_session_tx pos_save_intent)

section \<open>Each operation's effect on the position\<close>

lemma change_membership_run:
  assumes "read_intent s = (Inr i, s')"
  shows "change_membership q m s =
    (if shields i q then (Inr None, s')
     else if rt_membership (meta_of s' q) = Some m then (Inr None, set_meta q (\<lambda>x. x) s')
     else let next_epoch = rt_epoch (meta_of s' q) +
                (if rt_membership (meta_of s' q) = Some ''join'' \<and> m \<noteq> ''join'' then 1 else 0)
       in (Inr (Some \<lparr> om_previous = rt_membership (meta_of s' q), om_current = m,
                 om_previous_epoch = rt_epoch (meta_of s' q), om_current_epoch = next_epoch,
                 om_source = ''reported'' \<rparr>),
           set_meta q (\<lambda>x. x \<lparr> rt_membership := Some m, rt_epoch := next_epoch \<rparr>) (set_meta q (\<lambda>x. x) s')))"
  using assms
  by (simp add: change_membership_def bnd_def[of read_intent] bnd_def[of "modify _"] bnd_def[of "reads _"]
      modify_def reads_def ret_def meta_set_meta Let_def)

lemma read_intent_meta: "read_intent s = (r, t) \<Longrightarrow> meta_of t q = meta_of s q"
  by (auto simp: read_intent_def bnd_def on_store_def ret_def raise_def split: prod.splits sum.splits option.splits)

lemma change_membership_same:
  assumes "change_membership q m s = (Inr c, t)" "rt_membership (meta_of s q) = Some m"
  shows "c = None"
proof -
  obtain i s' where i: "read_intent s = (Inr i, s')"
    using assms by (auto simp: change_membership_def bnd_Inr_iff)
  show ?thesis
    using assms read_intent_meta[OF i, of q] by (simp add: change_membership_run[OF i] split: if_splits)
qed

lemma change_membership_effect:
  assumes "change_membership q m s = (Inr c, t)"
  shows "position t r = (case c of Some ch \<Rightarrow> if r = q then after_change ch else position s r | None \<Rightarrow> position s r)"
    and "\<forall>ch. c = Some ch \<longrightarrow> change_ok (position s q) ch \<and> om_current ch = m"
proof -
  obtain i s' where i: "read_intent s = (Inr i, s')"
    using assms by (auto simp: change_membership_def bnd_Inr_iff)
  have p: "position s x = position s' x" for x
    using keeps_posD[OF pos_read_intent, of s x] i by simp
  have pm: "position (set_meta q (\<lambda>m. m) s') x = position s' x" for x by (simp add: pos_set_meta)
  have new: "position (set_meta q (\<lambda>x. x \<lparr> rt_membership := Some n, rt_epoch := e \<rparr>) s2) x =
      (if x = q then (n = ''join'', e) else position s2 x)" for n e s2 x
    by (simp add: position_def meta_set_meta)
  have e: "rt_epoch (meta_of s' q) = snd (position s q)"
    and b: "(rt_membership (meta_of s' q) = Some ''join'') = fst (position s q)"
    using p[of q] by (auto simp: position_def)
  note run = assms[unfolded change_membership_run[OF i] Let_def]
  show "position t r = (case c of Some ch \<Rightarrow> if r = q then after_change ch else position s r | None \<Rightarrow> position s r)"
    using run by (auto simp: p pm new after_change_def split: if_splits)
  show "\<forall>ch. c = Some ch \<longrightarrow> change_ok (position s q) ch \<and> om_current ch = m"
    using run by (auto simp: e b change_ok_def split: if_splits)
qed

section \<open>Operations that publish nothing\<close>

text \<open>The store stays inside its transaction and its queue is what it was.\<close>

definition steady_step :: "session \<Rightarrow> session \<Rightarrow> bool" where
  "steady_step s t \<longleftrightarrow>
     (in_tx (se_store s) \<longrightarrow> in_tx (se_store t)) \<and>
     extends_rows [] (ds_db (se_store s)) (ds_db (se_store t)) \<and>
     ds_depth (se_store t) = ds_depth (se_store s) \<and>
     se_config t = se_config s \<and> se_user_id t = se_user_id s"

definition steady :: "(session, 'a) op \<Rightarrow> bool" where
  "steady m = (\<forall>s. steady_step s (snd (m s)))"

lemma steadyD: "steady m \<Longrightarrow> m s = (r, t) \<Longrightarrow> steady_step s t"
  unfolding steady_def by (metis snd_conv)

lemma steady_refl: "steady_step s s"
  by (simp add: steady_step_def extends_rows_def)

lemma steady_trans: "steady_step s t \<Longrightarrow> steady_step t u \<Longrightarrow> steady_step s u"
  by (auto simp: steady_step_def extends_rows_def)

lemma steady_bnd: "steady m \<Longrightarrow> (\<And>a. steady (f a)) \<Longrightarrow> steady (bnd m f)"
  unfolding steady_def bnd_def
  by (auto split: prod.splits sum.splits intro: steady_trans) (metis snd_conv steady_trans)+

lemma steady_basic: "steady (ret a)" "steady (raise e)" "steady (reads g)" "steady (check_or e q)"
  by (simp_all add: steady_def op_basic steady_refl)

lemma steady_modify:
  assumes "\<And>s. se_store (f s) = se_store s" "\<And>s. se_config (f s) = se_config s" "\<And>s. se_user_id (f s) = se_user_id s"
  shows "steady (modify f)"
  using assms by (simp add: steady_def op_basic steady_step_def extends_rows_def)

lemma steady_if: "steady m \<Longrightarrow> steady n \<Longrightarrow> steady (if b then m else n)"
  by simp

definition store_steady :: "(durable_store, 'a) op \<Rightarrow> bool" where
  "store_steady m = (\<forall>s. is_open (snd (m s)) = is_open s \<and> ds_depth (snd (m s)) = ds_depth s \<and>
     extends_rows [] (ds_db s) (ds_db (snd (m s))))"

lemma store_steady_bnd: "store_steady m \<Longrightarrow> (\<And>a. store_steady (f a)) \<Longrightarrow> store_steady (bnd m f)"
  unfolding store_steady_def bnd_def extends_rows_def
  by (auto split: prod.splits sum.splits) (metis snd_conv)+

lemma store_steady_modify:
  assumes "\<And>s. is_open (f s) = is_open s" "\<And>s. ds_depth (f s) = ds_depth s"
    and "\<And>s. db_batches (ds_db (f s)) = db_batches (ds_db s)" "\<And>s. db_acked (ds_db (f s)) = db_acked (ds_db s)"
  shows "store_steady (modify f)"
  using assms by (simp add: store_steady_def op_basic extends_rows_def)

lemma store_steady_basic:
  "store_steady (ret a)" "store_steady (raise e)" "store_steady (reads g)" "store_steady (check_or e q)"
  by (simp_all add: store_steady_def op_basic extends_rows_def)

lemma store_steady_if: "store_steady m \<Longrightarrow> store_steady n \<Longrightarrow> store_steady (if b then m else n)"
  by simp

lemma steady_on_store: "keeps store_ok m \<Longrightarrow> store_steady m \<Longrightarrow> steady (on_store m)"
  unfolding steady_def steady_step_def on_store_def in_tx_def keeps_def store_steady_def
  by (auto split: prod.splits) (metis snd_conv)+

lemma store_steady_intent: "store_steady read_local_intent" "store_steady (save_local_intent i c)"
  unfolding read_local_intent_def save_local_intent_def assert_open_def require_transaction_def
  by (intro store_steady_bnd store_steady_basic store_steady_modify;
      simp add: is_open_def invalidate_local_intent_def)+

lemma store_steady_rooms: "store_steady load_room_metadata" "store_steady (save_room_metadata r m)"
proof -
  show *: "store_steady load_room_metadata"
    unfolding load_room_metadata_def assert_open_def
    by (intro store_steady_bnd store_steady_basic store_steady_modify) (auto simp: is_open_def split: option.splits)
  show "store_steady (save_room_metadata r m)"
    unfolding save_room_metadata_def assert_open_def require_transaction_def
    by (intro store_steady_bnd store_steady_basic store_steady_modify store_steady_if *) (auto simp: is_open_def)
qed

lemma steady_save_intent: "steady (save_intent i c)"
  unfolding save_intent_def by (intro steady_on_store keeps_intros store_steady_intent)

lemma steady_read_intent: "steady read_intent"
  unfolding read_intent_def
  by (intro steady_bnd steady_on_store keeps_intros store_steady_intent)
     (simp add: steady_basic split: option.splits)

lemma set_meta_store [simp]:
  "se_store (set_meta r f s) = se_store s" "se_config (set_meta r f s) = se_config s"
  "se_user_id (set_meta r f s) = se_user_id s"
  by (simp_all add: set_meta_def)

lemma pops_store [simp]:
  "se_store (pop_room r s) = se_store s" "se_config (pop_room r s) = se_config s" "se_user_id (pop_room r s) = se_user_id s"
  "se_store (pop_invited r s) = se_store s" "se_config (pop_invited r s) = se_config s" "se_user_id (pop_invited r s) = se_user_id s"
  "se_store (pop_member_cache r s) = se_store s" "se_config (pop_member_cache r s) = se_config s" "se_user_id (pop_member_cache r s) = se_user_id s"
  "se_store (invalidate_outbound_session r s) = se_store s" "se_config (invalidate_outbound_session r s) = se_config s"
  "se_user_id (invalidate_outbound_session r s) = se_user_id s"
  "se_store (delete_members r s) = se_store s" "se_config (delete_members r s) = se_config s" "se_user_id (delete_members r s) = se_user_id s"
  by (simp_all add: pop_room_def pop_invited_def pop_member_cache_def invalidate_outbound_session_def delete_members_def)

lemma reset_store [simp]:
  "se_store (reset_joined_room r s) = se_store s" "se_config (reset_joined_room r s) = se_config s"
  "se_user_id (reset_joined_room r s) = se_user_id s"
  by (simp_all add: reset_joined_room_def Let_def)

lemma steady_change_membership: "steady (change_membership r m)"
  unfolding change_membership_def Let_def
  by (intro steady_bnd steady_read_intent steady_if steady_basic steady_modify) simp_all

lemma steady_timeline_room: "steady (timeline_room r k m)"
  unfolding timeline_room_def
  by (intro steady_bnd steady_read_intent steady_if steady_basic steady_modify) simp_all

lemma pos_timeline_room: "keeps_pos (timeline_room r k m)"
  unfolding timeline_room_def
  by (intro pos_bnd pos_read_intent pos_if pos_basic pos_modify)
     (simp_all add: pos_reset, simp add: position_def meta_of_def)

lemma steady_for_each: "(\<And>x. steady (f x)) \<Longrightarrow> steady (for_each f xs)"
  by (induction xs) (simp_all add: steady_basic steady_bnd)

lemma steady_save_rooms: "steady (save_rooms rooms members)"
proof -
  have "steady (save_room q ar)" for q ar
    unfolding save_room_def Let_def
    by (intro steady_bnd steady_basic steady_modify steady_on_store keeps_intros store_steady_rooms) simp_all
  moreover have "steady (save_member rooms key)" for key
    unfolding save_member_def
    by (auto split: option.splits intro!: steady_modify steady_basic)
  ultimately show ?thesis
    unfolding save_rooms_def by (intro steady_bnd steady_for_each) (auto split: prod.splits)
qed

section \<open>Published changes\<close>

definition changes :: "string \<Rightarrow> sync_record list \<Rightarrow> own_membership list" where
  "changes r rs = concat (map (\<lambda>x. if sr_room_id x = Some r then (case sr_membership x of None \<Rightarrow> [] | Some c \<Rightarrow> [c]) else []) rs)"

lemma changes_simps [simp]:
  "changes r [] = []" "changes r (xs @ ys) = changes r xs @ changes r ys"
  "changes r [x] = (if sr_room_id x = Some r then (case sr_membership x of None \<Rightarrow> [] | Some c \<Rightarrow> [c]) else [])"
  by (simp_all add: changes_def)

lemma chain_append: "chain p cs q \<Longrightarrow> chain q ds r \<Longrightarrow> chain p (cs @ ds) r"
  by (induction cs arbitrary: p) auto

text \<open>
  \<open>tenure_ok s bs extra t\<close>: between \<open>s\<close> and \<open>t\<close> the batches \<open>bs\<close> were appended to the queue, and for
  every room the changes they carry, followed by those of the records \<open>extra\<close> not published yet,
  lead from the room's position in \<open>s\<close> to its position in \<open>t\<close>.
\<close>

definition tenure_ok :: "session \<Rightarrow> sync_record list list \<Rightarrow> sync_record list \<Rightarrow> session \<Rightarrow> bool" where
  "tenure_ok s bs extra t \<longleftrightarrow>
     in_tx (se_store t) \<and> extends_rows (payloads bs) (ds_db (se_store s)) (ds_db (se_store t)) \<and>
     se_config t = se_config s \<and> se_user_id t = se_user_id s \<and>
     (\<forall>r. chain (position s r) (changes r (concat bs @ extra)) (position t r))"

lemma payloads_append: "payloads (xs @ ys) = payloads xs @ payloads ys"
  by (simp add: payloads_def)

lemma tenure_refl: "in_tx (se_store s) \<Longrightarrow> tenure_ok s [] [] s"
  by (simp add: tenure_ok_def extends_rows_def payloads_def)

lemma tenure_steady:
  assumes "tenure_ok s bs extra t" "steady_step t u" "\<And>r. position u r = position t r"
  shows "tenure_ok s bs extra u"
  using assms extends_rows_trans[of "payloads bs" "ds_db (se_store s)" "ds_db (se_store t)" "[]" "ds_db (se_store u)"]
  by (simp add: tenure_ok_def steady_step_def)

lemma tenure_trans:
  assumes "tenure_ok s bs [] t" "tenure_ok t cs extra u"
  shows "tenure_ok s (bs @ cs) extra u"
  using assms extends_rows_trans[of "payloads bs" "ds_db (se_store s)" "ds_db (se_store t)" "payloads cs" "ds_db (se_store u)"]
  by (auto simp: tenure_ok_def payloads_append intro: chain_append)

text \<open>A steady step that moves one room leaves one record to publish.\<close>

lemma tenure_moved:
  assumes "tenure_ok s bs extra t" "steady_step t u"
    and "\<And>r. position u r = (if r = q then after_change c else position t r)"
    and "change_ok (position t q) c"
    and "\<And>r. changes r rs = (if r = q then [c] else [])"
  shows "tenure_ok s bs (extra @ rs) u"
proof -
  have "chain (position s r) (changes r (concat bs @ extra @ rs)) (position u r)" for r
    using assms(1,3,4,5) chain_snoc[of "position s q" "changes q (concat bs @ extra)" "position t q" c]
    by (cases "r = q") (simp_all add: tenure_ok_def)
  then show ?thesis
    using assms(1,2) extends_rows_trans[of "payloads bs" "ds_db (se_store s)" "ds_db (se_store t)" "[]" "ds_db (se_store u)"]
    by (simp add: tenure_ok_def steady_step_def)
qed

text \<open>Publishing the oldest unpublished records.\<close>

lemma publish_some:
  assumes tx: "in_tx (se_store t)" "0 < max_batch_records (se_config t)"
    and pend: "pending = None \<or> pending = Some (queued_bytes (ds_db (se_store t)))"
    and run: "on_store (publish_records (se_config t) rs pending) t = (Inr n, u)"
  shows "\<exists>cs st. concat cs = rs \<and> in_tx st \<and> n = queued_bytes (ds_db st) \<and>
    extends_rows (payloads cs) (ds_db (se_store t)) (ds_db st) \<and> u = t \<lparr> se_store := st \<rparr>"
proof -
  obtain st where st: "publish_records (se_config t) rs pending (se_store t) = (Inr n, st)" "u = t \<lparr> se_store := st \<rparr>"
    using run by (auto simp: on_store_def split: prod.splits)
  then show ?thesis
    using publish_records_publishes[OF tx pend, of rs] by (auto simp: publishes_def published_as_def)
qed

lemma tenure_publish:
  assumes "tenure_ok s bs (rs @ extra) t" "0 < max_batch_records (se_config t)"
    and "pending = None \<or> pending = Some (queued_bytes (ds_db (se_store t)))"
    and "on_store (publish_records (se_config t) rs pending) t = (Inr n, u)"
  shows "\<exists>cs. tenure_ok s (bs @ cs) extra u \<and> n = queued_bytes (ds_db (se_store u))"
proof -
  have "in_tx (se_store t)" using assms(1) by (simp add: tenure_ok_def)
  from publish_some[OF this assms(2-4)] obtain cs st where cs: "concat cs = rs" "in_tx st"
      "n = queued_bytes (ds_db st)" "extends_rows (payloads cs) (ds_db (se_store t)) (ds_db st)"
      "u = t \<lparr> se_store := st \<rparr>" by blast
  have "tenure_ok s (bs @ cs) extra u"
    using assms(1) cs(1,2,4) extends_rows_trans[of "payloads bs" "ds_db (se_store s)" "ds_db (se_store t)" "payloads cs"]
    by (simp add: tenure_ok_def cs(5) payloads_append)
  then show ?thesis using cs(3,5) by auto
qed

end
