(* ===== verification/Durable_Processor.thy ===== *)
theory Durable_Processor
  imports Durable_Membership
begin

text \<open>
  How one response becomes committed observations: \<^verbatim>\<open>freeze_event\<close> of
  \<^verbatim>\<open>src/nio/durable/codec.py\<close> and the \<open>Processor\<close> of
  \<^verbatim>\<open>src/nio/durable/processor.py\<close>. The processor pulls items from an iterator of the client
  that changes the live rooms between two yields; a \<open>feed\<close> is that interleaving, so a
  sequence of feeds is one run of the iterator.
\<close>

section \<open>Sync items\<close>

text \<open>
  What the processor and the codec read of a parsed event: the class, the raw source, the
  crypto evidence decryption attached, and (for a timeline event) its provenance.
  \<open>ev_decrypted\<close> is \<^verbatim>\<open>isinstance(event, Event) and event.decrypted\<close>.
\<close>

datatype event_class =
    Room_Member string string
  | Invite_Member string string json
  | Invite_Other
  | Bad_Event
  | Unknown_Bad_Event
  | State_Stub string string
  | Room_Key
  | Forwarded_Room_Key
  | Dummy
  | Verification_Cancel string string string string
  | Authenticated_To_Device
  | Plain_Event

record event_view =
  ev_class :: event_class
  ev_source :: jobj
  ev_decrypted :: bool
  ev_verified :: "bool option"
  ev_sender_key :: "string option"
  ev_session_id :: "string option"
  ev_authenticated_sender :: "authenticated_device option"
  ev_timeline_provenance :: "timeline_provenance option"

text \<open>\<^verbatim>\<open>item.source\<close>: absent, the object \<^verbatim>\<open>event.source\<close> itself, or another dictionary.\<close>

datatype item_source = No_Source | Same_Source | Other_Source jobj

record sync_item =
  it_route :: "string option"
  it_event :: "event_view option"
  it_room :: "(string \<times> any_room) option"
  it_section :: "string option"
  it_source :: item_source
  it_provenance :: "timeline_provenance option"

definition item_source :: "sync_item \<Rightarrow> jobj option" where
  "item_source it =
     (case it_source it of
        No_Source \<Rightarrow> None
      | Same_Source \<Rightarrow> map_option ev_source (it_event it)
      | Other_Source d \<Rightarrow> Some d)"

definition has_type :: "jobj \<Rightarrow> string \<Rightarrow> bool" where
  "has_type d t = (jget d ''type'' = JStr t)"

section \<open>Freezing an event\<close>

definition lifecycle_source :: "sync_item \<Rightarrow> jobj" where
  "lifecycle_source it = [(''membership'', jstr_opt (it_section it))]"

definition event_codec :: "event_class \<Rightarrow> string option" where
  "event_codec c =
     (case c of
        State_Stub _ _ \<Rightarrow> Some ''state_stub''
      | Invite_Member _ _ _ \<Rightarrow> Some ''invite''
      | Invite_Other \<Rightarrow> Some ''invite''
      | Forwarded_Room_Key \<Rightarrow> Some ''forwarded_room_key''
      | Room_Key \<Rightarrow> Some ''room_key''
      | Dummy \<Rightarrow> Some ''dummy''
      | _ \<Rightarrow> None)"

definition event_payload :: "event_view \<Rightarrow> jobj" where
  "event_payload ev =
     (case ev_class ev of
        State_Stub t k \<Rightarrow> [(''type'', JStr t), (''state_key'', JStr k)]
      | Invite_Member _ _ content \<Rightarrow> dset (ev_source ev) ''content'' content
      | Verification_Cancel sender tid code reason \<Rightarrow>
          if ev_source ev = [] then
            [(''type'', JStr ''m.key.verification.cancel''), (''sender'', JStr sender),
             (''content'', JObj [(''transaction_id'', JStr tid), (''code'', JStr code), (''reason'', JStr reason)])]
          else ev_source ev
      | _ \<Rightarrow> ev_source ev)"

definition encrypted_envelope :: "sync_item \<Rightarrow> event_view \<Rightarrow> bool" where
  "encrypted_envelope it ev =
     (case item_source it of
        None \<Rightarrow> False
      | Some d \<Rightarrow> has_type d ''m.room.encrypted'' \<and>
          (\<not> has_type (ev_source ev) ''m.room.encrypted'' \<or> ev_class ev = Authenticated_To_Device))"

definition envelope_sender_key :: "sync_item \<Rightarrow> string" where
  "envelope_sender_key it =
     (case item_source it of
        None \<Rightarrow> []
      | Some d \<Rightarrow> (case jget d ''content'' of
          JObj c \<Rightarrow> (case jget c ''sender_key'' of JStr k \<Rightarrow> k | _ \<Rightarrow> [])
        | _ \<Rightarrow> []))"

definition event_evidence :: "sync_item \<Rightarrow> event_view \<Rightarrow> crypto_evidence option" where
  "event_evidence it ev =
     (if ev_decrypted ev \<or> ev_class ev \<in> {Room_Key, Forwarded_Room_Key, Dummy} \<or> encrypted_envelope it ev
      then Some \<lparr> ce_verified = ev_verified ev,
                  ce_sender_key = (case ev_sender_key ev of
                     None \<Rightarrow> envelope_sender_key it
                   | Some k \<Rightarrow> if k = [] then envelope_sender_key it else k),
                  ce_session_id = ev_session_id ev,
                  ce_authenticated_sender = ev_authenticated_sender ev \<rparr>
      else None)"

definition item_kind :: "string option \<Rightarrow> record_kind" where
  "item_kind route =
     (if route \<in> {Some ''to_device'', Some ''expired_verification''} then TO_DEVICE
      else if route = Some ''room_account_data'' then ROOM_ACCOUNT_DATA
      else if route = Some ''global_account_data'' then GLOBAL_ACCOUNT_DATA
      else if route = Some ''event'' then TIMELINE
      else STATE)"

definition freeze_event :: "sync_item \<Rightarrow> exn + sync_record" where
  "freeze_event it =
     (if it_route it \<in> {Some ''presence'', Some ''ephemeral''} then
        Inl (ValueError ''transient observations are not durable records'')
      else case it_event it of
        None \<Rightarrow> Inr \<lparr> sr_kind = ROOM_LIFECYCLE, sr_room_id = map_option fst (it_room it),
                 sr_source = lifecycle_source it, sr_clear = None, sr_provenance = None,
                 sr_membership_epoch = None, sr_crypto = None, sr_membership = None,
                 sr_route = None, sr_codec = None \<rparr>
      | Some ev \<Rightarrow>
          let payload = event_payload ev; codec = event_codec (ev_class ev) in
          Inr \<lparr> sr_kind = item_kind (it_route it), sr_room_id = map_option fst (it_room it),
                sr_source = (case it_source it of Other_Source d \<Rightarrow> d | _ \<Rightarrow> payload),
                sr_clear = (if ev_decrypted ev \<or>
                               codec \<in> {Some ''room_key'', Some ''forwarded_room_key'', Some ''dummy''} \<or>
                               encrypted_envelope it ev then Some payload else None),
                sr_provenance = ev_timeline_provenance ev, sr_membership_epoch = None,
                sr_crypto = event_evidence it ev, sr_membership = None,
                sr_route = it_route it, sr_codec = codec \<rparr>)"

section \<open>The processor\<close>

record processor =
  pr_session :: session
  pr_history_rooms :: "string list"
  pr_explicit :: "string set"
  pr_provenance :: timeline_provenance
  pr_rooms :: "(string, any_room) dict"
  pr_members :: "(string \<times> string) list"
  pr_records :: "sync_record list"
  pr_suppress_ids :: "(string, string set) dict"
  pr_stop_on_oversized :: bool
  pr_oversized :: bool
  pr_oversized_membership :: "own_membership option"
  pr_processed_records :: nat
  pr_pending_bytes :: "nat option"

definition Processor :: "session \<Rightarrow> string list \<Rightarrow> string set \<Rightarrow> timeline_provenance \<Rightarrow>
    (string, string set) dict \<Rightarrow> bool \<Rightarrow> processor" where
  "Processor session history_rooms explicit provenance suppress_ids stop_on_oversized =
     \<lparr> pr_session = session, pr_history_rooms = history_rooms, pr_explicit = explicit,
       pr_provenance = provenance, pr_rooms = [], pr_members = [], pr_records = [],
       pr_suppress_ids = suppress_ids, pr_stop_on_oversized = stop_on_oversized, pr_oversized = False,
       pr_oversized_membership = None, pr_processed_records = 0, pr_pending_bytes = None \<rparr>"

definition on_session :: "(session, 'a) op \<Rightarrow> (processor, 'a) op" where
  "on_session m p = (case m (pr_session p) of (r, s) \<Rightarrow> (r, p \<lparr> pr_session := s \<rparr>))"

text \<open>\<open>flush\<close>: publish what is buffered, reusing the count of queued bytes.\<close>

definition flush :: "(processor, unit) op" where
  "flush =
     bnd (reads pr_records) (\<lambda>rs.
     if rs = [] then ret ()
     else bnd (reads pr_pending_bytes) (\<lambda>pending.
       bnd (reads (\<lambda>p. se_config (pr_session p))) (\<lambda>cfg.
       bnd (on_session (on_store (publish_records cfg rs pending))) (\<lambda>n.
       modify (\<lambda>p. p \<lparr> pr_pending_bytes := Some n, pr_records := [] \<rparr>)))))"

text \<open>Plaintext decrypted from an encrypted event is never membership or room state.\<close>

definition from_ciphertext :: "sync_item \<Rightarrow> bool" where
  "from_ciphertext it = (case item_source it of None \<Rightarrow> False | Some d \<Rightarrow> has_type d ''m.room.encrypted'')"

definition item_member :: "sync_item \<Rightarrow> (string \<times> string) option" where
  "item_member it =
     (if from_ciphertext it then None
      else case it_event it of
        None \<Rightarrow> None
      | Some ev \<Rightarrow> (case ev_class ev of
            Room_Member sk m \<Rightarrow> Some (sk, m)
          | Invite_Member sk m _ \<Rightarrow> Some (sk, m)
          | _ \<Rightarrow> None))"

definition item_stub :: "sync_item \<Rightarrow> string option" where
  "item_stub it =
     (case it_event it of
        None \<Rightarrow> None
      | Some ev \<Rightarrow> (case ev_class ev of
            State_Stub t sk \<Rightarrow> if t = ''m.room.member'' then Some sk else None
          | _ \<Rightarrow> None))"

definition historical :: "sync_item \<Rightarrow> bool" where
  "historical it = (it_provenance it = Some HISTORY)"

definition malformed_state :: "sync_item \<Rightarrow> bool" where
  "malformed_state it =
     (\<not> from_ciphertext it \<and>
      (case it_event it of
         None \<Rightarrow> False
       | Some ev \<Rightarrow> ev_class ev \<in> {Bad_Event, Unknown_Bad_Event} \<and>
           (it_route it \<in> {None, Some ''invite''} \<or> din ''state_key'' (ev_source ev) \<or>
            (\<exists>t \<in> {''m.room.member'', ''m.room.create'', ''m.room.power_levels'', ''m.room.encryption''}.
               has_type (ev_source ev) t))))"

text \<open>
  An item without an event confirms the section its room is in. \<open>None\<close> stands for
  \<open>continue\<close>: the item is no record.
\<close>

definition enter_section :: "sync_item \<Rightarrow> string \<Rightarrow> (processor, own_membership option option) op" where
  "enter_section it room_id =
     (case it_section it of
        None \<Rightarrow> raise (AssertionError ''section'')
      | Some section \<Rightarrow>
          bnd (on_session (change_membership room_id section)) (\<lambda>change.
          ret (case change of None \<Rightarrow> None | Some c \<Rightarrow> Some (Some c))))"

definition lifecycle_change :: "sync_item \<Rightarrow> string \<Rightarrow> (processor, own_membership option option) op" where
  "lifecycle_change it room_id =
     (if it_section it = Some ''leave'' then
        bnd (reads (\<lambda>p. rt_membership (meta_of (pr_session p) room_id))) (\<lambda>m.
        if m \<in> {Some ''leave'', Some ''ban''}
        then andthen (on_session (change_membership room_id (the m))) (ret None)
        else enter_section it room_id)
      else
        bnd (reads pr_explicit) (\<lambda>explicit.
        if room_id \<in> explicit then ret None else enter_section it room_id))"

definition member_change :: "string \<Rightarrow> string \<Rightarrow> string \<Rightarrow> (processor, own_membership option) op" where
  "member_change room_id state_key membership =
     andthen (modify (\<lambda>p. p \<lparr> pr_members := (room_id, state_key) # pr_members p \<rparr>))
     (bnd (reads (\<lambda>p. se_user_id (pr_session p))) (\<lambda>me.
      if state_key \<noteq> me then ret None
      else andthen (modify (\<lambda>p. p \<lparr> pr_explicit := insert room_id (pr_explicit p) \<rparr>))
           (on_session (change_membership room_id membership))))"

definition event_change :: "sync_item \<Rightarrow> string \<Rightarrow> (processor, own_membership option) op" where
  "event_change it room_id =
     (case item_member it of
        Some (sk, m) \<Rightarrow> if historical it then ret None else member_change room_id sk m
      | None \<Rightarrow>
          (case item_stub it of
             Some sk \<Rightarrow> member_change room_id sk ''leave''
           | None \<Rightarrow> ret None))"

text \<open>What follows a change or a member event: the baseline ends with the tenure, and the
  outbound group session of the room is dropped.\<close>

definition settle_change :: "sync_item \<Rightarrow> string \<Rightarrow> own_membership option \<Rightarrow> processor \<Rightarrow> processor" where
  "settle_change it room_id change p =
     (let p = (case change of
                 Some c \<Rightarrow>
                   if om_previous c = Some ''join'' then
                     p \<lparr> pr_session := set_meta room_id (\<lambda>m. m \<lparr> rt_baseline := False \<rparr>) (pr_session p),
                         pr_history_rooms := (if room_id \<in> set (pr_history_rooms p) then pr_history_rooms p
                                              else pr_history_rooms p @ [room_id]) \<rparr>
                   else p
               | None \<Rightarrow> p)
      in if \<not> historical it \<and> (item_stub it \<noteq> None \<or> change \<noteq> None \<or> item_member it \<noteq> None)
         then p \<lparr> pr_session := pop_member_cache room_id (invalidate_outbound_session room_id (pr_session p)) \<rparr>
         else p)"

definition suppressed :: "sync_item \<Rightarrow> string \<Rightarrow> processor \<Rightarrow> bool" where
  "suppressed it room_id p =
     (case it_event it of
        None \<Rightarrow> False
      | Some ev \<Rightarrow> (case jget (ev_source ev) ''event_id'' of
            JStr i \<Rightarrow> i \<in> dget_or (pr_suppress_ids p) room_id {}
          | _ \<Rightarrow> False))"

text \<open>A change of the client's own membership carried by an event that is suppressed.\<close>

definition hidden_change :: "sync_item \<Rightarrow> string \<Rightarrow> processor \<Rightarrow> bool" where
  "hidden_change it room_id p =
     (suppressed it room_id p \<and>
      (let me = se_user_id (pr_session p) in
       item_stub it = Some me \<or> \<not> historical it \<and> map_option fst (item_member it) = Some me))"

definition room_part :: "sync_item \<Rightarrow> string \<Rightarrow> any_room \<Rightarrow> (processor, own_membership option option) op" where
  "room_part it room_id room =
     andthen (check_or (LocalProtocolError ''malformed durable room state'') (\<lambda>_. \<not> malformed_state it))
     (andthen (modify (\<lambda>p. if it_section it = Some ''invite'' then p \<lparr> pr_session := pop_room room_id (pr_session p) \<rparr> else p))
     (andthen (modify (\<lambda>p. p \<lparr> pr_rooms := dset (pr_rooms p) room_id room \<rparr>))
     (bnd (case it_event it of
             None \<Rightarrow> lifecycle_change it room_id
           | Some _ \<Rightarrow> bnd (event_change it room_id) (\<lambda>c. ret (Some c))) (\<lambda>res.
      case res of
        None \<Rightarrow> ret None
      | Some change \<Rightarrow>
          andthen (modify (settle_change it room_id change))
          (bnd (reads (suppressed it room_id)) (\<lambda>skip. ret (if skip then None else Some change)))))))"

definition complete_record :: "sync_item \<Rightarrow> own_membership option \<Rightarrow> sync_record \<Rightarrow> processor \<Rightarrow> sync_record" where
  "complete_record it change rec p =
     (case it_room it of
        None \<Rightarrow> rec
      | Some (room_id, _) \<Rightarrow> rec
          \<lparr> sr_membership := change,
            sr_membership_epoch := Some (rt_epoch (meta_of (pr_session p) room_id)),
            sr_provenance :=
              (if sr_kind rec = TIMELINE then
                 Some (if room_id \<in> set (pr_history_rooms p) then HISTORY
                       else case it_provenance it of Some v \<Rightarrow> v | None \<Rightarrow> pr_provenance p)
               else sr_provenance rec) \<rparr>)"

definition too_large :: "sync_record \<Rightarrow> processor \<Rightarrow> bool" where
  "too_large rec p =
     (pr_stop_on_oversized p \<and>
      max_batch_bytes (se_config (pr_session p)) < int (json_size (encode_records [rec])))"

text \<open>Buffer one record. A change or a member event is a barrier: it is published on its own.\<close>

definition buffer_record :: "bool \<Rightarrow> sync_record \<Rightarrow> (processor, unit) op" where
  "buffer_record barrier rec =
     andthen (if barrier then flush else ret ())
     (andthen (modify (\<lambda>p. p \<lparr> pr_records := pr_records p @ [rec],
                 pr_processed_records := Suc (pr_processed_records p) \<rparr>))
     (bnd (reads (\<lambda>p. max_batch_records (se_config (pr_session p)) \<le> int (length (pr_records p)))) (\<lambda>full.
      if barrier \<or> full then flush else ret ())))"

text \<open>One turn of the loop of \<open>consume\<close>; True breaks it.\<close>

definition process_item :: "sync_item \<Rightarrow> (processor, bool) op" where
  "process_item it =
     (if it_route it \<in> {Some ''encrypted_rooms'', Some ''presence'', Some ''ephemeral''} then ret False
      else
        bnd (case it_room it of
               None \<Rightarrow> ret (Some None)
             | Some (room_id, room) \<Rightarrow> room_part it room_id room) (\<lambda>res.
        case res of
          None \<Rightarrow> ret False
        | Some change \<Rightarrow>
            bnd (lift_res (freeze_event it)) (\<lambda>frozen.
            bnd (reads (complete_record it change frozen)) (\<lambda>rec.
            bnd (reads (too_large rec)) (\<lambda>large.
            if large
            then andthen (modify (\<lambda>p. p \<lparr> pr_oversized := True, pr_oversized_membership := sr_membership rec \<rparr>))
                 (ret True)
            else andthen (buffer_record (change \<noteq> None \<or> item_member it \<noteq> None) rec) (ret False))))))"

text \<open>
  What the iterator does before a yield: \<^verbatim>\<open>_timeline_room\<close> of the session, an event applied to
  a live or an invited room (\<open>Nio_Rooms\<close>), or the yield itself.
\<close>

datatype feed =
    Timeline_Room string string string
  | Room_Event string "matrix_room option \<Rightarrow> matrix_room"
  | Invite_Event string "invited_room option \<Rightarrow> invited_room"
  | Item sync_item

fun feed_step :: "feed \<Rightarrow> (processor, bool) op" where
  "feed_step (Timeline_Room room_id state_key membership) =
     andthen (on_session (timeline_room room_id state_key membership)) (ret False)"
| "feed_step (Room_Event room_id f) =
     andthen (on_session (modify (\<lambda>s. s \<lparr> se_rooms := dset (se_rooms s) room_id (f (dget (se_rooms s) room_id)) \<rparr>)))
       (ret False)"
| "feed_step (Invite_Event room_id f) =
     andthen (on_session (modify (\<lambda>s. s \<lparr> se_invited_rooms :=
        dset (se_invited_rooms s) room_id (f (dget (se_invited_rooms s) room_id)) \<rparr>))) (ret False)"
| "feed_step (Item it) = process_item it"

fun consume_loop :: "feed list \<Rightarrow> (processor, unit) op" where
  "consume_loop [] = ret ()"
| "consume_loop (x # xs) = bnd (feed_step x) (\<lambda>stop. if stop then ret () else consume_loop xs)"

definition consume :: "feed list \<Rightarrow> (processor, unit) op" where
  "consume items =
     andthen (modify (\<lambda>p. p \<lparr> pr_pending_bytes := None \<rparr>))
     (andthen (consume_loop items) flush)"

text \<open>\<open>save\<close>: rooms the session still holds are encoded at their current value.\<close>

definition current_room :: "session \<Rightarrow> string \<times> any_room \<Rightarrow> string \<times> any_room" where
  "current_room s x =
     (case dget (se_rooms s) (fst x) of
        Some r \<Rightarrow> (fst x, JoinedRoom r)
      | None \<Rightarrow>
          (case (snd x, dget (se_invited_rooms s) (fst x)) of
             (InvitedRoom _, Some r) \<Rightarrow> (fst x, InvitedRoom r)
           | _ \<Rightarrow> x))"

definition save :: "(processor, unit) op" where
  "save =
     andthen (modify (\<lambda>p. p \<lparr> pr_rooms := map (current_room (pr_session p)) (pr_rooms p) \<rparr>))
     (bnd (reads pr_rooms) (\<lambda>rooms.
      bnd (reads pr_members) (\<lambda>members. on_session (save_rooms rooms members))))"

section \<open>What one item does to the position of its room\<close>

text \<open>
  \<open>moved q change p p'\<close>: the step published nothing, kept the buffer, and moved the position of
  room \<open>q\<close> by \<open>change\<close> and no other.
\<close>

definition moved :: "string \<Rightarrow> own_membership option \<Rightarrow> processor \<Rightarrow> processor \<Rightarrow> bool" where
  "moved q change p p' \<longleftrightarrow>
     steady_step (pr_session p) (pr_session p') \<and> pr_records p' = pr_records p \<and>
     pr_pending_bytes p' = pr_pending_bytes p \<and> pr_suppress_ids p' = pr_suppress_ids p \<and>
     pr_stop_on_oversized p' = pr_stop_on_oversized p \<and>
     pr_oversized p' = pr_oversized p \<and> pr_oversized_membership p' = pr_oversized_membership p \<and>
     (\<forall>r. position (pr_session p') r =
        (case change of Some c \<Rightarrow> if r = q then after_change c else position (pr_session p) r
         | None \<Rightarrow> position (pr_session p) r)) \<and>
     (case change of Some c \<Rightarrow> change_ok (position (pr_session p) q) c | None \<Rightarrow> True)"

lemma moved_refl: "moved q None p p"
  by (simp add: moved_def steady_refl)

lemma moved_then: "moved q c p p' \<Longrightarrow> moved q None p' p'' \<Longrightarrow> moved q c p p''"
  by (auto simp: moved_def intro: steady_trans split: option.splits)

lemma then_moved: "moved q None p p' \<Longrightarrow> moved q c p' p'' \<Longrightarrow> moved q c p p''"
  by (auto simp: moved_def intro: steady_trans split: option.splits)

lemma moved_other: "moved q None p p' \<Longrightarrow> moved r None p p'"
  by (simp add: moved_def)

lemma moved_change:
  assumes "on_session (change_membership q m) p = (Inr c, p')"
  shows "moved q c p p'"
proof -
  obtain s' where run: "change_membership q m (pr_session p) = (Inr c, s')" and p': "p' = p \<lparr> pr_session := s' \<rparr>"
    using assms by (auto simp: on_session_def split: prod.splits)
  show ?thesis
    using steadyD[OF steady_change_membership run] change_membership_effect[OF run]
    by (cases c) (simp_all add: moved_def p')
qed

text \<open>Fields that only the processor's bookkeeping changes.\<close>

lemma moved_fields [simp]:
  "moved q c p (p' \<lparr> pr_members := x \<rparr>) = moved q c p p'" "moved q c p (p' \<lparr> pr_explicit := y \<rparr>) = moved q c p p'"
  "moved q c p (p' \<lparr> pr_rooms := z \<rparr>) = moved q c p p'" "moved q c p (p' \<lparr> pr_history_rooms := w \<rparr>) = moved q c p p'"
  "moved q c (p \<lparr> pr_members := x \<rparr>) p' = moved q c p p'" "moved q c (p \<lparr> pr_explicit := y \<rparr>) p' = moved q c p p'"
  "moved q c (p \<lparr> pr_rooms := z \<rparr>) p' = moved q c p p'"
  by (simp_all add: moved_def cong: option.case_cong if_cong)

lemma moved_live: "moved q None p (p \<lparr> pr_session := pop_room r (pr_session p) \<rparr>)"
  "moved q None p (p \<lparr> pr_session := pop_member_cache r (invalidate_outbound_session r (pr_session p)) \<rparr>)"
  "moved q None p (p \<lparr> pr_session := set_meta r (\<lambda>m. m \<lparr> rt_baseline := False \<rparr>) (pr_session p) \<rparr>)"
  by (auto simp: moved_def steady_step_def extends_rows_def position_def meta_set_meta)

lemma enter_section_moved:
  "enter_section it q p = (Inr res, p') \<Longrightarrow> moved q (case res of None \<Rightarrow> None | Some c \<Rightarrow> c) p p'"
  by (auto simp: enter_section_def bnd_Inr_iff ret_def raise_def split: option.splits dest: moved_change)

lemma lifecycle_change_moved:
  assumes "lifecycle_change it q p = (Inr res, p')"
  shows "moved q (case res of None \<Rightarrow> None | Some c \<Rightarrow> c) p p'"
proof (cases "it_section it = Some ''leave'' \<and> rt_membership (meta_of (pr_session p) q) \<in> {Some ''leave'', Some ''ban''}")
  case True
  then obtain c where c: "on_session (change_membership q (the (rt_membership (meta_of (pr_session p) q)))) p = (Inr c, p')"
      "res = None"
    using assms by (auto simp: lifecycle_change_def bnd_Inr_iff reads_def ret_def)
  then obtain s' where "change_membership q (the (rt_membership (meta_of (pr_session p) q))) (pr_session p) = (Inr c, s')"
    by (auto simp: on_session_def split: prod.splits)
  then have "c = None"
    using True by (auto dest: change_membership_same)
  then show ?thesis using moved_change[OF c(1)] c(2) by simp
next
  case False
  then show ?thesis
    using assms
    by (auto simp: lifecycle_change_def bnd_Inr_iff reads_def ret_def moved_refl dest: enter_section_moved split: if_splits)
qed

lemma member_change_moved:
  "member_change q k m p = (Inr c, p') \<Longrightarrow> moved q c p p'"
  by (auto simp: member_change_def bnd_Inr_iff reads_def ret_def modify_def moved_refl split: if_splits dest!: moved_change)

lemma event_change_moved: "event_change it q p = (Inr c, p') \<Longrightarrow> moved q c p p'"
  by (auto simp: event_change_def ret_def moved_refl split: option.splits if_splits dest: member_change_moved)

lemma moved_if: "moved q c p x \<Longrightarrow> moved q c p y \<Longrightarrow> moved q c p (if b then x else y)"
  by simp

lemma settle_change_moved: "moved q None p (settle_change it q c p)"
proof -
  have h: "moved q None p (p \<lparr> pr_session := set_meta q (\<lambda>m. m \<lparr> rt_baseline := False \<rparr>) (pr_session p),
      pr_history_rooms := w \<rparr>)" for p w
    using moved_live(3) by (simp only: moved_fields)
  show ?thesis
    unfolding settle_change_def Let_def
    by (cases c) (simp_all only: option.case, (rule moved_if moved_then[OF _ moved_live(2)] h moved_refl)+)
qed

lemma event_change_own:
  assumes "event_change it q p = (Inr (Some c), p')"
  shows "item_stub it = Some (se_user_id (pr_session p)) \<or>
    \<not> historical it \<and> map_option fst (item_member it) = Some (se_user_id (pr_session p))"
  using assms
  by (auto simp: event_change_def member_change_def bnd_Inr_iff reads_def ret_def modify_def split: option.splits if_splits)

lemma moved_suppressed: "moved q c p p' \<Longrightarrow> suppressed it r p' = suppressed it r p"
  by (simp add: moved_def suppressed_def cong: option.case_cong json.case_cong)

lemma room_part_moved:
  assumes run: "room_part it q room p = (Inr res, p')"
    and seen: "res = None \<Longrightarrow> \<not> hidden_change it q p"
  shows "moved q (case res of None \<Rightarrow> None | Some c \<Rightarrow> c) p p'"
proof -
  define p1 where "p1 = (if it_section it = Some ''invite'' then p \<lparr> pr_session := pop_room q (pr_session p) \<rparr> else p)
      \<lparr> pr_rooms := dset (pr_rooms (if it_section it = Some ''invite'' then p \<lparr> pr_session := pop_room q (pr_session p) \<rparr> else p)) q room \<rparr>"
  have p1: "moved q None p p1"
    using moved_live(1)[of q p] by (simp add: p1_def moved_refl)
  have me: "se_user_id (pr_session p1) = se_user_id (pr_session p)" by (simp add: p1_def)
  obtain r2 p2 where r2: "(case it_event it of
        None \<Rightarrow> lifecycle_change it q | Some _ \<Rightarrow> bnd (event_change it q) (\<lambda>c. ret (Some c))) p1 = (Inr r2, p2)"
    and rest: "(case r2 of None \<Rightarrow> ret None | Some change \<Rightarrow>
          andthen (modify (settle_change it q change))
          (bnd (reads (suppressed it q)) (\<lambda>skip. ret (if skip then None else Some change)))) p2 = (Inr res, p')"
    using run unfolding room_part_def bnd_Inr_iff modify_def p1_def
    by (auto simp: check_or_def split: if_splits)
  have m2: "moved q (case r2 of None \<Rightarrow> None | Some c \<Rightarrow> c) p p2"
  proof (cases "it_event it")
    case None
    then show ?thesis using r2 then_moved[OF p1 lifecycle_change_moved] by simp
  next
    case (Some ev)
    then obtain c where "event_change it q p1 = (Inr c, p2)" "r2 = Some c"
      using r2 by (auto simp: bnd_Inr_iff ret_def)
    then show ?thesis using then_moved[OF p1 event_change_moved] by simp
  qed
  show ?thesis
  proof (cases r2)
    case None
    then show ?thesis using rest m2 by (simp add: ret_def)
  next
    case (Some change)
    then have res: "res = (if suppressed it q (settle_change it q change p2) then None else Some change)"
      and p': "p' = settle_change it q change p2"
      using rest by (auto simp: bnd_Inr_iff modify_def reads_def ret_def)
    have m3: "moved q change p p'"
      using m2 Some moved_then[OF _ settle_change_moved] by (simp add: p')
    show ?thesis
    proof (cases "res = None")
      case True
      then have sup: "suppressed it q p"
        using res moved_suppressed[OF m3] by (simp add: p' split: if_splits)
      then obtain ev where "it_event it = Some ev" by (auto simp: suppressed_def split: option.splits)
      then have ev: "event_change it q p1 = (Inr change, p2)"
        using r2 Some by (auto simp: bnd_Inr_iff ret_def)
      have "change = None"
      proof (rule ccontr)
        assume "change \<noteq> None"
        then obtain c where "event_change it q p1 = (Inr (Some c), p2)" using ev by auto
        from event_change_own[OF this] have "hidden_change it q p"
          using sup unfolding me hidden_change_def Let_def by blast
        then show False using seen True by simp
      qed
      then show ?thesis using m3 True by simp
    next
      case False
      then show ?thesis using m3 res by (simp split: if_splits)
    qed
  qed
qed

section \<open>Tenure through a run\<close>

definition run_ok :: "session \<Rightarrow> sync_record list list \<Rightarrow> sync_record list \<Rightarrow> processor \<Rightarrow> bool" where
  "run_ok s bs extra p \<longleftrightarrow>
     tenure_ok s bs (pr_records p @ extra) (pr_session p) \<and>
     (pr_pending_bytes p = None \<or> pr_pending_bytes p = Some (queued_bytes (ds_db (se_store (pr_session p)))))"

text \<open>The fields an iteration never changes, and those only the last one does.\<close>

definition same_run :: "processor \<Rightarrow> processor \<Rightarrow> bool" where
  "same_run p p' \<longleftrightarrow> pr_suppress_ids p' = pr_suppress_ids p \<and> pr_stop_on_oversized p' = pr_stop_on_oversized p \<and>
     se_config (pr_session p') = se_config (pr_session p) \<and> se_user_id (pr_session p') = se_user_id (pr_session p)"

lemma same_run_refl: "same_run p p"
  by (simp add: same_run_def)

lemma same_run_trans: "same_run p q \<Longrightarrow> same_run q r \<Longrightarrow> same_run p r"
  by (simp add: same_run_def)

lemma moved_same_run: "moved q c p p' \<Longrightarrow> same_run p p'"
  by (simp add: moved_def same_run_def steady_step_def)

lemma queued_steady: "extends_rows [] d d' \<Longrightarrow> queued_bytes d' = queued_bytes d"
  by (simp add: extends_rows_def queued_bytes_def)

lemma run_ok_moved:
  assumes "run_ok s bs [] p" "moved q c p p'"
    and "\<And>r. changes r rs = (if r = q then (case c of Some c \<Rightarrow> [c] | None \<Rightarrow> []) else [])"
  shows "run_ok s bs rs p'"
proof -
  have m: "steady_step (pr_session p) (pr_session p')" "pr_records p' = pr_records p"
    "pr_pending_bytes p' = pr_pending_bytes p"
    using assms(2) by (simp_all add: moved_def)
  have t: "tenure_ok s bs (pr_records p) (pr_session p)"
    using assms(1) by (simp add: run_ok_def)
  have "tenure_ok s bs (pr_records p @ rs) (pr_session p')"
  proof (cases c)
    case None
    have "tenure_ok s bs (pr_records p) (pr_session p')"
      using tenure_steady[OF t m(1)] assms(2) None by (simp add: moved_def)
    then show ?thesis using assms(3) None by (simp add: tenure_ok_def)
  next
    case (Some ch)
    show ?thesis
      by (rule tenure_moved[OF t m(1), of q ch]) (use assms(2,3) Some in \<open>simp_all add: moved_def\<close>)
  qed
  then show ?thesis
    using assms(1) m queued_steady[of "ds_db (se_store (pr_session p))" "ds_db (se_store (pr_session p'))"]
    by (auto simp: run_ok_def steady_step_def)
qed

lemma flush_ok:
  assumes "run_ok s bs extra p" "0 < max_batch_records (se_config (pr_session p))" "flush p = (Inr u, p')"
  shows "\<exists>cs. run_ok s (bs @ cs) extra p' \<and> pr_records p' = [] \<and> same_run p p' \<and>
    pr_oversized p' = pr_oversized p \<and> pr_oversized_membership p' = pr_oversized_membership p"
proof (cases "pr_records p = []")
  case True
  then have "p' = p" using assms(3) by (simp add: flush_def bnd_Inr_iff reads_def ret_def)
  then show ?thesis using assms(1) True same_run_refl by (intro exI[of _ "[]"]) simp
next
  case False
  then obtain n t where run: "on_store (publish_records (se_config (pr_session p)) (pr_records p) (pr_pending_bytes p)) (pr_session p) = (Inr n, t)"
    and p': "p' = p \<lparr> pr_session := t, pr_pending_bytes := Some n, pr_records := [] \<rparr>"
    using assms(3) by (auto simp: flush_def bnd_Inr_iff reads_def modify_def on_session_def split: prod.splits)
  from assms(1) have "tenure_ok s bs (pr_records p @ extra) (pr_session p)"
    and "pr_pending_bytes p = None \<or> pr_pending_bytes p = Some (queued_bytes (ds_db (se_store (pr_session p))))"
    by (simp_all add: run_ok_def)
  from tenure_publish[OF this(1) assms(2) this(2) run] obtain cs
    where cs: "tenure_ok s (bs @ cs) extra t" "n = queued_bytes (ds_db (se_store t))" by blast
  moreover have "se_config t = se_config (pr_session p)" "se_user_id t = se_user_id (pr_session p)"
    using cs(1) assms(1) by (simp_all add: tenure_ok_def run_ok_def)
  ultimately show ?thesis
    by (intro exI[of _ cs]) (simp add: run_ok_def p' same_run_def)
qed

lemma if_flush_ok:
  assumes "run_ok s bs extra p" "0 < max_batch_records (se_config (pr_session p))"
    and "(if b then flush else ret ()) p = (Inr u, p')"
  shows "\<exists>cs. run_ok s (bs @ cs) extra p' \<and> same_run p p' \<and>
    pr_oversized p' = pr_oversized p \<and> pr_oversized_membership p' = pr_oversized_membership p"
proof (cases b)
  case True
  then show ?thesis using flush_ok[OF assms(1,2)] assms(3) by fastforce
next
  case False
  then have "p' = p" using assms(3) by (simp add: ret_def)
  then show ?thesis using assms(1) same_run_refl by (intro exI[of _ "[]"]) simp
qed

lemma buffer_record_ok:
  assumes "run_ok s bs [rec] p" "0 < max_batch_records (se_config (pr_session p))"
    and "buffer_record b rec p = (Inr u, p')"
  shows "\<exists>cs. run_ok s (bs @ cs) [] p' \<and> same_run p p' \<and>
    pr_oversized p' = pr_oversized p \<and> pr_oversized_membership p' = pr_oversized_membership p"
proof -
  from assms(3) obtain v p1 p2 b' where f1: "(if b then flush else ret ()) p = (Inr v, p1)"
    and p2_def: "p2 = p1 \<lparr> pr_records := pr_records p1 @ [rec], pr_processed_records := Suc (pr_processed_records p1) \<rparr>"
    and f2: "(if b' then flush else ret ()) p2 = (Inr u, p')"
    unfolding buffer_record_def bnd_Inr_iff modify_def reads_def by auto
  from if_flush_ok[OF assms(1,2) f1] obtain cs where cs: "run_ok s (bs @ cs) [rec] p1" "same_run p p1"
      "pr_oversized p1 = pr_oversized p" "pr_oversized_membership p1 = pr_oversized_membership p" by blast
  have p2: "run_ok s (bs @ cs) [] p2" "0 < max_batch_records (se_config (pr_session p2))"
    using cs(1,2) assms(2) by (simp_all add: p2_def run_ok_def same_run_def)
  from if_flush_ok[OF p2 f2] obtain ds where "run_ok s ((bs @ cs) @ ds) [] p'" "same_run p2 p'"
      "pr_oversized p' = pr_oversized p2" "pr_oversized_membership p' = pr_oversized_membership p2" by blast
  then show ?thesis
    using cs by (intro exI[of _ "cs @ ds"]) (simp add: p2_def same_run_def)
qed

lemma freeze_fields:
  "freeze_event it = Inr rec \<Longrightarrow> sr_room_id rec = map_option fst (it_room it) \<and> sr_membership rec = None"
  by (auto simp: freeze_event_def Let_def split: if_splits option.splits)

lemma complete_changes:
  assumes "freeze_event it = Inr rec" "it_room it = Some (q, room)"
  shows "changes r [complete_record it c rec p] = (if r = q then (case c of Some c \<Rightarrow> [c] | None \<Rightarrow> []) else [])"
  using freeze_fields[OF assms(1)] assms(2) by (auto simp: complete_record_def split: option.splits)

lemma hidden_same_run: "same_run p p' \<Longrightarrow> hidden_change it q p' = hidden_change it q p"
  by (simp add: same_run_def hidden_change_def suppressed_def cong: option.case_cong json.case_cong)

text \<open>No item of the run carries a change of the own membership that it is told to suppress.\<close>

fun reports_all :: "processor \<Rightarrow> feed \<Rightarrow> bool" where
  "reports_all p (Item it) = (case it_room it of None \<Rightarrow> True | Some (q, _) \<Rightarrow> \<not> hidden_change it q p)"
| "reports_all p _ = True"

lemma reports_same_run: "same_run p p' \<Longrightarrow> reports_all p' x = reports_all p x"
  by (cases x) (auto simp: hidden_same_run split: option.splits)

text \<open>
  What one turn over some of the feeds \<open>xs\<close> leaves: after a break, which only a run told to stop at an
  oversized record makes, the change of that record is still to publish, in the room of its item.
\<close>

definition stopped_at :: "feed list \<Rightarrow> sync_record \<Rightarrow> processor \<Rightarrow> bool" where
  "stopped_at xs rec p \<longleftrightarrow> pr_oversized p \<and> pr_stop_on_oversized p \<and> sr_membership rec = pr_oversized_membership p \<and>
     (\<exists>it. Item it \<in> set xs \<and> sr_room_id rec = map_option fst (it_room it))"

abbreviation running :: "processor \<Rightarrow> bool" where
  "running p \<equiv> \<not> pr_oversized p \<and> pr_oversized_membership p = None"

definition turn_ok :: "session \<Rightarrow> sync_record list list \<Rightarrow> feed list \<Rightarrow> bool \<Rightarrow> processor \<Rightarrow> bool" where
  "turn_ok s bs xs stop p \<longleftrightarrow>
     (\<exists>extra. run_ok s bs extra p \<and>
        (if stop then \<exists>rec. extra = [rec] \<and> stopped_at xs rec p else extra = [] \<and> running p))"

lemma stopped_mono: "stopped_at xs rec p \<Longrightarrow> set xs \<subseteq> set ys \<Longrightarrow> stopped_at ys rec p"
  by (auto simp: stopped_at_def)

lemma turn_mono: "turn_ok s bs xs stop p \<Longrightarrow> set xs \<subseteq> set ys \<Longrightarrow> turn_ok s bs ys stop p"
  unfolding turn_ok_def by (auto split: if_splits dest: stopped_mono)

lemma process_item_ok:
  assumes ok: "run_ok s bs [] p" "running p" "0 < max_batch_records (se_config (pr_session p))"
    and seen: "reports_all p (Item it)"
    and run: "process_item it p = (Inr stop, p')"
  shows "\<exists>cs. turn_ok s (bs @ cs) [Item it] stop p' \<and> same_run p p'"
proof (cases "it_route it \<in> {Some ''encrypted_rooms'', Some ''presence'', Some ''ephemeral''}")
  case True
  then have "p' = p" "\<not> stop" using run by (auto simp: process_item_def ret_def)
  then show ?thesis using ok same_run_refl by (intro exI[of _ "[]"]) (simp add: turn_ok_def)
next
  case False
  then obtain res p1 where
    part: "(case it_room it of None \<Rightarrow> ret (Some None) | Some (q, room) \<Rightarrow> room_part it q room) p = (Inr res, p1)"
    and rest: "(case res of None \<Rightarrow> ret False
        | Some change \<Rightarrow>
            bnd (lift_res (freeze_event it)) (\<lambda>frozen.
            bnd (reads (complete_record it change frozen)) (\<lambda>rec.
            bnd (reads (too_large rec)) (\<lambda>large.
            if large
            then andthen (modify (\<lambda>p. p \<lparr> pr_oversized := True, pr_oversized_membership := sr_membership rec \<rparr>))
                 (ret True)
            else andthen (buffer_record (change \<noteq> None \<or> item_member it \<noteq> None) rec) (ret False))))) p1 = (Inr stop, p')"
    using run by (auto simp: process_item_def bnd_Inr_iff)
  define q where "q = (case it_room it of Some (q, room) \<Rightarrow> q | None \<Rightarrow> [])"
  have moved: "moved q (case res of None \<Rightarrow> None | Some c \<Rightarrow> c) p p1"
  proof (cases "it_room it")
    case None
    then show ?thesis using part by (auto simp: ret_def moved_refl)
  next
    case (Some x)
    then show ?thesis
      using part seen by (cases x) (auto simp: q_def dest: room_part_moved)
  qed
  note same = moved_same_run[OF moved]
  have o1: "running p1" using moved ok(2) by (simp add: moved_def)
  show ?thesis
  proof (cases res)
    case None
    then have "p' = p1" "\<not> stop" using rest by (simp_all add: ret_def)
    moreover have "run_ok s bs [] p1"
      using run_ok_moved[OF ok(1) moved, of "[]"] None by simp
    ultimately show ?thesis using same o1 by (intro exI[of _ "[]"]) (simp add: turn_ok_def)
  next
    case (Some change)
    then obtain frozen rec where frozen: "freeze_event it = Inr frozen" and rec: "rec = complete_record it change frozen p1"
      and rest': "(if too_large rec p1
            then andthen (modify (\<lambda>p. p \<lparr> pr_oversized := True, pr_oversized_membership := sr_membership rec \<rparr>))
                 (ret True)
            else andthen (buffer_record (change \<noteq> None \<or> item_member it \<noteq> None) rec) (ret False)) p1 = (Inr stop, p')"
      using rest by (auto simp: bnd_Inr_iff lift_res_def reads_def)
    have run1: "run_ok s bs [rec] p1"
    proof (rule run_ok_moved[OF ok(1) moved])
      show "changes r [rec] = (if r = q then (case case res of None \<Rightarrow> None | Some c \<Rightarrow> c of Some c \<Rightarrow> [c] | None \<Rightarrow> []) else [])" for r
      proof (cases "it_room it")
        case None
        then have "change = None" "rec = frozen"
          using part Some by (auto simp: ret_def rec complete_record_def)
        then show ?thesis using freeze_fields[OF frozen] Some by simp
      next
        case (Some x)
        then show ?thesis
          using complete_changes[OF frozen] \<open>res = Some change\<close> by (cases x) (simp add: rec q_def)
      qed
    qed
    show ?thesis
    proof (cases "too_large rec p1")
      case True
      then have "p' = p1 \<lparr> pr_oversized := True, pr_oversized_membership := sr_membership rec \<rparr>" "stop"
        using rest' by (auto simp: bnd_Inr_iff modify_def ret_def)
      moreover have "sr_room_id rec = map_option fst (it_room it)"
        using freeze_fields[OF frozen] by (simp add: rec complete_record_def split: option.split)
      ultimately show ?thesis
        using run1 same True
        by (intro exI[of _ "[]"]) (auto simp: turn_ok_def stopped_at_def run_ok_def same_run_def too_large_def)
    next
      case False
      then obtain u where "buffer_record (change \<noteq> None \<or> item_member it \<noteq> None) rec p1 = (Inr u, p')" "\<not> stop"
        using rest' by (auto simp: bnd_Inr_iff ret_def)
      moreover have "0 < max_batch_records (se_config (pr_session p1))"
        using ok(3) same by (simp add: same_run_def)
      ultimately show ?thesis
        using buffer_record_ok[OF run1, of "change \<noteq> None \<or> item_member it \<noteq> None" u p'] o1 same_run_trans[OF same]
        by (auto simp: turn_ok_def)
    qed
  qed
qed

lemma live_step_ok:
  assumes "run_ok s bs [] p" "keeps_pos m" "steady m" "on_session m p = (Inr a, p')"
  shows "run_ok s bs [] p' \<and> same_run p p' \<and> pr_oversized p' = pr_oversized p \<and>
    pr_oversized_membership p' = pr_oversized_membership p"
proof -
  obtain t where m: "m (pr_session p) = (Inr a, t)" and p': "p' = p \<lparr> pr_session := t \<rparr>"
    using assms(4) by (auto simp: on_session_def split: prod.splits)
  have t: "steady_step (pr_session p) t" "position t r = position (pr_session p) r" for r
    using steadyD[OF assms(3) m] keeps_posD[OF assms(2), of "pr_session p" r] m by simp_all
  then have "moved [] None p p'" by (simp add: moved_def p')
  then show ?thesis
    using run_ok_moved[OF assms(1), of "[]" None p' "[]"] moved_same_run p' by auto
qed

lemma feed_step_ok:
  assumes ok: "run_ok s bs [] p" "running p" "0 < max_batch_records (se_config (pr_session p))"
    and seen: "reports_all p x" and run: "feed_step x p = (Inr stop, p')"
  shows "\<exists>cs. turn_ok s (bs @ cs) [x] stop p' \<and> same_run p p'"
proof -
  have live: "\<exists>cs. turn_ok s (bs @ cs) [x] stop p' \<and> same_run p p'"
    if m: "keeps_pos m" "steady m" and one: "andthen (on_session m) (ret False) p = (Inr stop, p')"
    for m :: "(session, 'a) op"
  proof -
    obtain a where "on_session m p = (Inr a, p')" "\<not> stop"
      using one by (auto simp: bnd_Inr_iff ret_def)
    from live_step_ok[OF ok(1) m this(1)] this(2) ok(2) show ?thesis
      by (intro exI[of _ "[]"]) (simp add: turn_ok_def)
  qed
  show ?thesis
  proof (cases x)
    case (Timeline_Room q k m)
    then show ?thesis
      using run by (intro live[OF pos_timeline_room steady_timeline_room]) simp
  next
    case (Room_Event q f)
    have "keeps_pos (modify (\<lambda>s. s \<lparr> se_rooms := dset (se_rooms s) q (f (dget (se_rooms s) q)) \<rparr>))"
      by (rule pos_modify) (simp add: position_def)
    from live[OF this steady_modify] show ?thesis using run Room_Event by simp
  next
    case (Invite_Event q f)
    have "keeps_pos (modify (\<lambda>s. s \<lparr> se_invited_rooms := dset (se_invited_rooms s) q (f (dget (se_invited_rooms s) q)) \<rparr>))"
      by (rule pos_modify) (simp add: position_def meta_of_def)
    from live[OF this steady_modify] show ?thesis using run Invite_Event by simp
  next
    case (Item it)
    then show ?thesis using run seen process_item_ok[OF ok] by simp
  qed
qed

lemma consume_loop_ok:
  assumes "run_ok s bs [] p" "running p" "0 < max_batch_records (se_config (pr_session p))"
    and "list_all (reports_all p) xs" "consume_loop xs p = (Inr u, p')"
  shows "\<exists>cs. turn_ok s (bs @ cs) xs (pr_oversized p') p' \<and> same_run p p'"
  using assms
proof (induction xs arbitrary: p bs)
  case Nil
  then have "p' = p" by (simp add: ret_def)
  then show ?case using Nil same_run_refl by (intro exI[of _ "[]"]) (auto simp: turn_ok_def)
next
  case (Cons x xs)
  then obtain stop p1 where x: "feed_step x p = (Inr stop, p1)"
    and rest: "(if stop then ret () else consume_loop xs) p1 = (Inr u, p')"
    by (auto simp: bnd_Inr_iff)
  obtain cs where cs: "turn_ok s (bs @ cs) [x] stop p1" "same_run p p1"
    using feed_step_ok[OF Cons.prems(1-3) _ x] Cons.prems(4) by auto
  show ?case
  proof (cases stop)
    case True
    then have "p' = p1" using rest by (simp add: ret_def)
    then show ?thesis
      using cs True turn_mono[OF cs(1), of "x # xs"]
      by (intro exI[of _ cs]) (auto simp: turn_ok_def stopped_at_def)
  next
    case False
    then have "\<exists>ds. turn_ok s ((bs @ cs) @ ds) xs (pr_oversized p') p' \<and> same_run p1 p'"
      using Cons.IH[of "bs @ cs" p1] cs Cons.prems(3,4) rest
      by (auto simp: turn_ok_def same_run_def reports_same_run[OF cs(2)] list.pred_set)
    then obtain ds where "turn_ok s ((bs @ cs) @ ds) xs (pr_oversized p') p'" "same_run p1 p'" by blast
    then show ?thesis
      using same_run_trans[OF cs(2)] turn_mono[of s _ xs _ p' "x # xs"] by (intro exI[of _ "cs @ ds"]) auto
  qed
qed

lemma consume_ok:
  assumes "in_tx (se_store s)" "0 < max_batch_records (se_config s)"
    and "p0 = Processor s hist expl prov skip stop" "list_all (reports_all p0) xs" "consume xs p0 = (Inr u, p)"
  shows "\<exists>bs extra. tenure_ok s bs extra (pr_session p) \<and> same_run p0 p \<and>
    (if pr_oversized p then \<exists>rec. extra = [rec] \<and> stopped_at xs rec p else extra = [] \<and> running p)"
proof -
  have start: "run_ok s [] [] p0" "running p0" "pr_session p0 = s"
    using tenure_refl[OF assms(1)] by (simp_all add: run_ok_def assms(3) Processor_def)
  have p0: "p0 \<lparr> pr_pending_bytes := None \<rparr> = p0" by (simp add: assms(3) Processor_def)
  obtain v p1 where loop: "consume_loop xs p0 = (Inr v, p1)" and fl: "flush p1 = (Inr u, p)"
    using assms(5) by (auto simp: consume_def bnd_Inr_iff modify_def p0)
  from consume_loop_ok[OF start(1,2) _ assms(4) loop] obtain bs
    where "turn_ok s ([] @ bs) xs (pr_oversized p1) p1" "same_run p0 p1"
    using assms(2) start(3) by auto
  then obtain extra where extra: "run_ok s bs extra p1"
      "if pr_oversized p1 then \<exists>rec. extra = [rec] \<and> stopped_at xs rec p1 else extra = [] \<and> running p1"
      "0 < max_batch_records (se_config (pr_session p1))"
    using assms(2) start(3) by (auto simp: turn_ok_def same_run_def)
  from flush_ok[OF extra(1,3) fl] obtain cs where cs: "run_ok s (bs @ cs) extra p" "pr_records p = []"
      "pr_oversized p = pr_oversized p1" "pr_oversized_membership p = pr_oversized_membership p1" "same_run p1 p" by blast
  have "tenure_ok s (bs @ cs) extra (pr_session p)"
    using cs(1,2) by (simp add: run_ok_def)
  moreover have "stopped_at xs rec p = stopped_at xs rec p1" for rec
    using cs(3,4,5) by (simp add: stopped_at_def same_run_def)
  ultimately show ?thesis
    using extra(2) cs(3,4) same_run_trans[OF \<open>same_run p0 p1\<close> cs(5)]
    by (intro exI[of _ "bs @ cs"] exI[of _ extra]) simp
qed

end
