(* ===== verification/Durable_Tenure.thy ===== *)
theory Durable_Tenure
  imports Durable_Processor
begin

text \<open>
  Tenure across the operations of a session: reconciling the boundary of a local operation and
  committing one publish changes that continue the chain of their room; while a local operation is
  unobserved, reported history cannot move its room; and a committed leave revokes the room.
\<close>

section \<open>The two other sources of changes\<close>

lemma lifecycle_fields [simp]:
  "sr_room_id (lifecycle_record q m c) = Some q" "sr_membership (lifecycle_record q m c) = Some c"
  by (simp_all add: lifecycle_record_def)

lemma steady_boundary_effects: "steady_step s (boundary_effects q m c reset s)"
proof -
  have "se_store (boundary_effects q m c reset s) = se_store s \<and> se_config (boundary_effects q m c reset s) = se_config s \<and>
    se_user_id (boundary_effects q m c reset s) = se_user_id s"
    by (simp add: boundary_effects_def Let_def split: option.split)
  then show ?thesis by (simp add: steady_step_def extends_rows_def)
qed

lemma tenure_change:
  assumes "tenure_ok s bs [] t" "change_membership q m t = (Inr c, u)"
  shows "tenure_ok s bs (case c of Some ch \<Rightarrow> [lifecycle_record q m ch] | None \<Rightarrow> []) u"
proof (cases c)
  case None
  then show ?thesis
    using tenure_steady[OF assms(1) steadyD[OF steady_change_membership assms(2)]]
      change_membership_effect(1)[OF assms(2)] by simp
next
  case (Some ch)
  have "tenure_ok s bs ([] @ [lifecycle_record q m ch]) u"
    by (rule tenure_moved[OF assms(1) steadyD[OF steady_change_membership assms(2)], of q ch])
      (use change_membership_effect[OF assms(2)] Some in \<open>simp_all\<close>)
  then show ?thesis using Some by simp
qed

lemma tenure_quiet:
  assumes "tenure_ok s bs extra t" "keeps_pos m" "steady m" "m t = (Inr a, u)"
  shows "tenure_ok s bs extra u"
  using tenure_steady[OF assms(1) steadyD[OF assms(3,4)]] keeps_posD[OF assms(2), of t] assms(4) by simp

lemma tenure_publish_change:
  assumes "tenure_ok s bs (case c of Some ch \<Rightarrow> [lifecycle_record q m ch] | None \<Rightarrow> []) t"
    and "0 < max_batch_records (se_config t)" "publish_change q m c t = (Inr u, t')"
  shows "\<exists>cs. tenure_ok s (bs @ cs) [] t'"
proof (cases c)
  case None
  then show ?thesis
    using assms by (intro exI[of _ "[]"]) (simp add: publish_change_def ret_def)
next
  case (Some ch)
  then obtain n where "on_store (publish_records (se_config t) [lifecycle_record q m ch] None) t = (Inr n, t')"
    using assms(3) by (auto simp: publish_change_def publish_all_def bnd_Inr_iff reads_def ret_def)
  then show ?thesis
    using tenure_publish[of s bs "[lifecycle_record q m ch]" "[]" t None n t'] assms(1,2) Some by auto
qed

lemma boundary_ok:
  assumes ok: "in_tx (se_store s)" "0 < max_batch_records (se_config s)"
    and run: "reconcile_membership_boundary q m s = (Inr res, t)"
  shows "\<exists>bs. tenure_ok s bs [] t"
proof -
  obtain i s1 where i: "read_intent s = (Inr i, s1)"
    using run by (auto simp: reconcile_membership_boundary_def bnd_Inr_iff)
  have t1: "tenure_ok s [] [] s1"
    by (rule tenure_quiet[OF tenure_refl[OF ok(1)] pos_read_intent steady_read_intent i])
  show ?thesis
  proof (cases "shields i q")
    case False
    then have "t = s1"
      using run i by (auto simp: reconcile_membership_boundary_def bnd_def ret_def split: option.splits if_splits)
    then show ?thesis using t1 by blast
  next
    case True
    then obtain j where j: "i = Some j" by (auto simp: shields_def split: option.splits)
    with True run i have sh: "reconcile_shielded j q m s1 = (Inr res, t)"
      by (simp add: reconcile_membership_boundary_def bnd_def)
    obtain u s2 change s3 v where
      s2: "save_intent (j \<lparr> li_observed := True \<rparr>) False s1 = (Inr u, s2)"
      and s3: "(if m = li_current_membership j then ret None else change_membership q m) s2 = (Inr change, s3)"
      and s4: "publish_change q m change
         (boundary_effects q m change (m = ''join'' \<and> li_current_membership j \<noteq> ''join'') s3) = (Inr v, t)"
      using sh by (auto simp: reconcile_shielded_def Let_def bnd_Inr_iff modify_def ret_def)
    have t2: "tenure_ok s [] [] s2"
      by (rule tenure_quiet[OF t1 _ steady_save_intent s2]) (rule pos_save_intent)
    have t3: "tenure_ok s [] (case change of Some ch \<Rightarrow> [lifecycle_record q m ch] | None \<Rightarrow> []) s3"
      using s3 t2 tenure_change[OF t2, of q m change s3] by (auto simp: ret_def split: if_splits)
    have t4: "tenure_ok s [] (case change of Some ch \<Rightarrow> [lifecycle_record q m ch] | None \<Rightarrow> [])
        (boundary_effects q m change (m = ''join'' \<and> li_current_membership j \<noteq> ''join'') s3)"
      by (rule tenure_steady[OF t3 steady_boundary_effects pos_effects])
    then have "se_config (boundary_effects q m change (m = ''join'' \<and> li_current_membership j \<noteq> ''join'') s3) = se_config s"
      by (simp add: tenure_ok_def)
    from tenure_publish_change[OF t4 _ s4] this ok(2) show ?thesis by auto
  qed
qed

text \<open>The local commit: the position the application named is where the chain continues.\<close>

lemma position_matches:
  assumes "local_position_matches i s"
  shows "position s (li_room_id i) = (li_previous_membership i = ''join'', li_previous_epoch i)"
  using assms by (auto simp: local_position_matches_def position_def Let_def split: if_splits)

lemma local_change_ok:
  assumes "local_position_matches i s" "li_current_membership i \<in> {''join'', ''leave''}"
  shows "change_ok (position s (li_room_id i)) (local_change i)"
  using assms(2) by (auto simp: position_matches[OF assms(1)] change_ok_def local_change_def)

lemma in_tx_publish:
  assumes "in_tx st" "publish rs False st = (Inr b, st')"
  shows "in_tx st' \<and> extends_rows (payloads [rs]) (ds_db st) (ds_db st')"
proof -
  have "in_tx st'"
    using assms keepsD[OF keeps_publish, of st rs False]
    by (auto simp: in_tx_def publish_run is_open_def)
  then show ?thesis
    using assms extends_rows_publish by (auto simp: in_tx_def publish_run payloads_def)
qed

definition commit_effects :: "local_intent \<Rightarrow> session \<Rightarrow> session" where
  "commit_effects i s =
     (let q = li_room_id i; m = li_current_membership i;
          s = set_meta q (\<lambda>x. x \<lparr> rt_membership := Some m, rt_epoch := om_current_epoch (local_change i), rt_baseline := False \<rparr>) s;
          s = pop_member_cache q s;
          s = (if m = ''join'' then reset_joined_room q s else invalidate_outbound_session q (pop_room q s))
      in pop_invited q s)"

lemma commit_local_run:
  "commit_local i s =
     (let s' = commit_effects i s; q = li_room_id i;
          old = (case dget (se_rooms s) q of Some r \<Rightarrow> r | None \<Rightarrow> MatrixRoom q (se_user_id s) False);
          room = (case dget (se_rooms s') q of Some r \<Rightarrow> r | None \<Rightarrow> old)
      in andthen (save_rooms [(q, JoinedRoom room)] [])
        (bnd (on_store (publish [lifecycle_record q (li_current_membership i) (local_change i)] False)) (\<lambda>batch.
         save_intent (i \<lparr> li_sequence := Some (sb_sequence batch) \<rparr>) False)) s')"
  by (simp add: commit_local_def commit_effects_def Let_def bnd_def[of "reads _"] bnd_def[of "modify _"]
      reads_def modify_def)

lemma commit_effects_position:
  "position (commit_effects i s) r =
     (if r = li_room_id i then after_change (local_change i) else position s r)"
  by (simp add: commit_effects_def Let_def pos_reset)
    (simp add: position_def meta_set_meta after_change_def local_change_def)

lemma commit_effects_store [simp]:
  "se_store (commit_effects i s) = se_store s" "se_config (commit_effects i s) = se_config s"
  "se_user_id (commit_effects i s) = se_user_id s"
  by (simp_all add: commit_effects_def Let_def)

lemma commit_ok:
  assumes tx: "in_tx (se_store s)"
    and here: "local_position_matches i s" "li_current_membership i \<in> {''join'', ''leave''}"
    and run: "commit_local i s = (Inr u, t)"
  shows "\<exists>bs. tenure_ok s bs [] t"
proof -
  let ?rec = "lifecycle_record (li_room_id i) (li_current_membership i) (local_change i)"
  obtain room v s2 batch s3 where
    s2: "save_rooms [(li_room_id i, JoinedRoom room)] [] (commit_effects i s) = (Inr v, s2)"
    and s3: "on_store (publish [?rec] False) s2 = (Inr batch, s3)"
    and s4: "save_intent (i \<lparr> li_sequence := Some (sb_sequence batch) \<rparr>) False s3 = (Inr u, t)"
    using run unfolding commit_local_run Let_def bnd_Inr_iff by blast
  have t1: "tenure_ok s [] ([] @ [?rec]) (commit_effects i s)"
    by (rule tenure_moved[OF tenure_refl[OF tx], of _ "li_room_id i" "local_change i"])
      (simp_all add: commit_effects_position local_change_ok[OF here] steady_step_def extends_rows_def)
  then have t2: "tenure_ok s [] [?rec] s2"
    using tenure_quiet[OF _ pos_save_rooms steady_save_rooms s2] by simp
  obtain st where st: "publish [?rec] False (se_store s2) = (Inr batch, st)" "s3 = s2 \<lparr> se_store := st \<rparr>"
    using s3 by (auto simp: on_store_def split: prod.splits)
  have "in_tx (se_store s2)" using t2 by (simp add: tenure_ok_def)
  from in_tx_publish[OF this st(1)] have "tenure_ok s [[?rec]] [] s3"
    using t2 extends_rows_trans[of "payloads []" "ds_db (se_store s)" "ds_db (se_store s2)" "payloads [[?rec]]" "ds_db st"]
    by (simp add: tenure_ok_def st(2) payloads_def)
  then show ?thesis
    using tenure_quiet[OF _ _ steady_save_intent s4] pos_save_intent by blast
qed

section \<open>A committed local operation\<close>

text \<open>What \<open>commit_effects\<close> did to the room is what the later writes of the commit keep.\<close>

definition room_part_is :: "string \<Rightarrow> session \<Rightarrow> session \<Rightarrow> bool" where
  "room_part_is q s t \<longleftrightarrow>
     dget (se_rooms t) q = dget (se_rooms s) q \<and> dget (se_invited_rooms t) q = dget (se_invited_rooms s) q \<and>
     (q \<in> se_outbound_sessions t) = (q \<in> se_outbound_sessions s) \<and>
     rt_membership (meta_of t q) = rt_membership (meta_of s q) \<and> rt_epoch (meta_of t q) = rt_epoch (meta_of s q) \<and>
     rt_baseline (meta_of t q) = rt_baseline (meta_of s q)"

lemma room_part_on_store: "keeps (room_part_is q s) (on_store m)"
  by (rule keepsI) (simp add: on_store_def room_part_is_def split: prod.splits)

lemma room_part_save_rooms: "keeps (room_part_is q s) (save_rooms [(r, JoinedRoom x)] [])"
proof -
  have set_saved: "keeps (room_part_is q s) (modify (set_meta r (\<lambda>m. m \<lparr> rt_saved := y \<rparr>)))" for y
    by (rule keeps_modify) (simp add: room_part_is_def meta_set_meta, auto simp: set_meta_def)
  show ?thesis
    unfolding save_rooms_def save_room_def invited_members_def Let_def for_each.simps
    by (simp, intro keeps_intros set_saved room_part_on_store keeps_modify) simp_all
qed

lemma commit_local_keeps:
  assumes "commit_local i s = (Inr u, t)"
  shows "room_part_is q (commit_effects i s) t"
proof -
  obtain rest :: "(session, unit) op" where "keeps (room_part_is q (commit_effects i s)) rest" "rest (commit_effects i s) = (Inr u, t)"
    using assms unfolding commit_local_run Let_def save_intent_def
    by (meson keeps_bnd room_part_on_store room_part_save_rooms)
  then show ?thesis
    using keepsD[of "room_part_is q (commit_effects i s)" rest "commit_effects i s"] by (simp add: room_part_is_def)
qed

definition fresh_tenure :: "local_intent \<Rightarrow> session \<Rightarrow> session \<Rightarrow> bool" where
  "fresh_tenure i s t =
     (let q = li_room_id i in
      dget (se_rooms t) q =
        (if li_current_membership i = ''join'' then Some (MatrixRoom q (se_user_id s) (room_encrypted s q)) else None) \<and>
      dget (se_invited_rooms t) q = None \<and> q \<notin> se_outbound_sessions t \<and> \<not> rt_baseline (meta_of t q) \<and>
      rt_membership (meta_of t q) = Some (li_current_membership i))"

lemma commit_effects_fresh: "fresh_tenure i s (commit_effects i s)"
  by (simp add: fresh_tenure_def commit_effects_def Let_def)
    (auto simp: meta_set_meta reset_joined_room_def Let_def pop_invited_def pop_room_def set_meta_def room_encrypted_def
      pop_member_cache_def invalidate_outbound_session_def delete_members_def meta_of_def dget_or_def)

lemma session_tx_Inr:
  assumes "session_tx env body s = (Inr a, t)"
  shows "\<exists>st t'. body (s \<lparr> se_store := st \<rparr>) = (Inr a, t') \<and> t = t' \<lparr> se_store := se_store t \<rparr>"
proof -
  have run: "is_open (se_store s) \<and> \<not> (ds_depth (se_store s) = 0 \<and> ds_foreign_tx (se_store s)) \<and> env \<noteq> Begin_Fails"
    and body: "fst (body (s \<lparr> se_store := tx_entry (se_store s) \<rparr>)) = Inr a"
    using assms by (auto simp: session_tx_def transaction_def tx_entry_def Let_def
        split: if_splits tx_env.splits prod.splits sum.splits)
  then show ?thesis
    using assms
    by (intro exI[of _ "tx_entry (se_store s)"] exI[of _ "snd (body (s \<lparr> se_store := tx_entry (se_store s) \<rparr>))"])
      (auto simp: session_tx_def Let_def prod_eq_iff split: prod.splits)
qed

text \<open>Saving the proof of a join touches the store only.\<close>

lemma session_tx_store:
  assumes "session_tx env (on_store m) s = (Inr a, t)"
  shows "t = s \<lparr> se_store := se_store t \<rparr>"
proof -
  obtain st t' where "on_store m (s \<lparr> se_store := st \<rparr>) = (Inr a, t')" and t: "t = t' \<lparr> se_store := se_store t \<rparr>"
    using session_tx_Inr[OF assms] by blast
  then obtain st' where "t' = s \<lparr> se_store := st' \<rparr>"
    by (auto simp: on_store_def split: prod.splits)
  then show ?thesis by (subst t) simp
qed

lemma prove_join_only:
  assumes "prove_join i s = (Inr j, t)"
  shows "t = s \<lparr> se_store := se_store t \<rparr> \<and> li_room_id j = li_room_id i \<and>
    li_current_membership j = li_current_membership i \<and> local_change j = local_change i"
proof (cases "li_current_membership i = ''join'' \<and> li_join_baseline_cursor i = None")
  case True
  then obtain c s1 v where c: "on_store cursor s = (Inr c, s1)" and j: "\<exists>x. j = i \<lparr> li_join_baseline_cursor := x \<rparr>"
    and tx: "session_tx Tx_Ok (on_store (save_local_intent (intent_json j) False)) s1 = (Inr v, t)"
    using assms by (auto simp: prove_join_def save_intent_def Let_def bnd_Inr_iff reads_def ret_def)
  have "s1 = s \<lparr> se_store := se_store s1 \<rparr>"
    using c by (auto simp: on_store_def split: prod.splits)
  moreover have "t = s1 \<lparr> se_store := se_store t \<rparr>" using session_tx_store[OF tx] .
  ultimately have "t = s \<lparr> se_store := se_store t \<rparr>" by (metis session.select_convs(1) session.surjective session.update_convs(1))
  then show ?thesis using j by (auto simp: local_change_def)
next
  case False
  then show ?thesis using assms by (auto simp: prove_join_def ret_def)
qed

lemma fresh_tenure_store:
  "fresh_tenure i (s \<lparr> se_store := st \<rparr>) t = fresh_tenure i s t"
  by (simp add: fresh_tenure_def room_encrypted_def)

lemma fresh_tenure_part:
  assumes "fresh_tenure i s t" "room_part_is (li_room_id i) t u"
  shows "fresh_tenure i s u"
  using assms by (simp add: fresh_tenure_def room_part_is_def Let_def)

text \<open>C16: a local join or leave that was accepted starts the room over: after a leave no live room,
  invitation or outbound group session is left; after a join there is only an empty room whose
  baseline is unproved. Sending is possible only into a joined room known to be encrypted.\<close>

theorem local_operation_starts_over:
  assumes "apply_local_intent Http_Ok env i s = (Inr True, t)"
  shows "fresh_tenure i s t \<and>
    room_ready t (li_room_id i) = (li_current_membership i = ''join'' \<and> room_encrypted s (li_room_id i))"
proof -
  obtain j s1 s2 u where j: "prove_join i s = (Inr j, s1)" and s2: "s2 = s1"
    and tx: "session_tx env (commit_local j) s2 = (Inr u, t)"
    using assms
    by (auto simp: apply_local_intent_def bnd_Inr_iff reads_def ret_def assert_active_def check_or_def
        split: if_splits sum.splits prod.splits)
  have s1: "s1 = s \<lparr> se_store := se_store s1 \<rparr>" and same: "li_room_id j = li_room_id i"
      "li_current_membership j = li_current_membership i"
    using prove_join_only[OF j] by auto
  obtain st t' where run: "commit_local j (s1 \<lparr> se_store := st \<rparr>) = (Inr u, t')" and t: "t = t' \<lparr> se_store := se_store t \<rparr>"
    using session_tx_Inr[OF tx] s2 by blast
  have "fresh_tenure j (s1 \<lparr> se_store := st \<rparr>) t'"
    using fresh_tenure_part[OF commit_effects_fresh commit_local_keeps[OF run]] .
  then have "fresh_tenure j s t'"
    by (subst (asm) s1) (simp add: fresh_tenure_store)
  then have f: "fresh_tenure i s t"
    by (subst t) (simp add: fresh_tenure_def same Let_def)
  then have "room_ready t (li_room_id i) = (li_current_membership i = ''join'' \<and> room_encrypted s (li_room_id i))"
    by (auto simp: fresh_tenure_def room_ready_def Let_def MatrixRoom_def)
  then show ?thesis using f by simp
qed

section \<open>Reported history and an unobserved local operation\<close>

text \<open>The stored membership of a room itself, with its epoch.\<close>

definition standing :: "session \<Rightarrow> string \<Rightarrow> string option \<times> int" where
  "standing s r = (rt_membership (meta_of s r), rt_epoch (meta_of s r))"

lemma standing_set_meta:
  "(\<And>m. rt_membership (f m) = rt_membership m) \<Longrightarrow> (\<And>m. rt_epoch (f m) = rt_epoch m) \<Longrightarrow>
   standing (set_meta q f s) r = standing s r"
  by (simp add: standing_def meta_set_meta)

lemma standing_reset: "standing (reset_joined_room q s) r = standing s r"
  by (simp add: reset_joined_room_def Let_def standing_def meta_set_meta)

lemma standing_pops [simp]:
  "standing (pop_member_cache x t) r = standing t r" "standing (pop_room x t) r = standing t r"
  "standing (invalidate_outbound_session x t) r = standing t r" "standing (t \<lparr> se_store := st \<rparr>) r = standing t r"
  by (simp_all add: standing_def)

definition guarded :: "string \<Rightarrow> local_intent \<Rightarrow> string option \<times> int \<Rightarrow> session \<Rightarrow> bool" where
  "guarded q i x s \<longleftrightarrow> store_ok (se_store s) \<and>
     dget (db_crypto (ds_db (se_store s))) intent_key = Some (intent_json i) \<and> standing s q = x"

definition crypto_row :: "json option \<Rightarrow> durable_store \<Rightarrow> bool" where
  "crypto_row j st \<longleftrightarrow> store_ok st \<and> dget (db_crypto (ds_db st)) intent_key = j"

lemma guarded_on_store:
  assumes "keeps (crypto_row (Some (intent_json i))) m"
  shows "keeps (guarded q i x) (on_store m)"
proof (rule keepsI)
  fix s assume s: "guarded q i x s"
  obtain r st where run: "m (se_store s) = (r, st)" by (cases "m (se_store s)")
  then have "crypto_row (Some (intent_json i)) st"
    using keepsD[OF assms, of "se_store s"] s by (simp add: guarded_def crypto_row_def)
  then show "guarded q i x (snd (on_store m s))"
    using s run by (simp add: on_store_def guarded_def crypto_row_def)
qed

lemma row_publish: "keeps (crypto_row j) (publish rs c)"
proof (rule keepsI)
  fix s assume s: "crypto_row j s"
  show "crypto_row j (snd (publish rs c s))"
  proof (cases "is_open s \<and> ds_depth s \<noteq> 0")
    case True
    then have "dget (db_crypto (ds_db (snd (publish rs c s)))) intent_key = j"
      using s by (simp add: publish_run crypto_row_def db_publish_def)
    then show ?thesis using s keepsD[OF keeps_publish, of s rs c] by (simp add: crypto_row_def)
  next
    case False
    then show ?thesis using s publish_refused[of s rs c] by fastforce
  qed
qed

lemma row_split: "keeps (crypto_row j) (publish_split cfg rs n)"
proof (induction cfg rs n rule: publish_split.induct)
  case (1 cfg rs n)
  show ?case
    by (subst publish_split.simps, unfold Let_def, intro keeps_intros row_publish "1.IH"[OF refl]) assumption+
qed

lemma row_chunks: "keeps (crypto_row j) (publish_chunks cfg cs n)"
  by (induction cs arbitrary: n) (auto intro!: keeps_intros row_split)

lemma row_records: "keeps (crypto_row j) (publish_records cfg rs pending)"
  unfolding publish_records_def pending_bytes_def assert_open_def
  by (intro keeps_intros row_chunks row_split)

lemma row_read: "keeps (crypto_row j) read_local_intent"
proof (rule keepsI)
  fix s assume "crypto_row j s"
  then show "crypto_row j (snd (read_local_intent s))"
    using keepsD[OF keeps_intent(1), of s]
    by (auto simp: crypto_row_def read_local_intent_def assert_open_def op_basic split: if_splits)
qed

lemma guarded_read: "keeps (guarded q i x) read_intent"
  unfolding read_intent_def
  by (intro keeps_bnd guarded_on_store row_read) (auto intro: keeps_intros split: option.splits)

lemma read_guarded:
  assumes "guarded q i x s"
  shows "(\<exists>s'. read_intent s = (Inr (Some i), s')) \<or> (\<exists>e s'. read_intent s = (Inl e, s'))"
  using assms
  by (auto simp: guarded_def store_ok_def mirrors_ok_def read_intent_def read_local_intent_def on_store_def
      assert_open_def op_basic intent_roundtrip split: if_splits)

lemma guarded_change:
  assumes "shields (Some i) q"
  shows "keeps (guarded q i x) (change_membership r m)"
proof (rule keepsI)
  fix s assume s: "guarded q i x s"
  then consider s' where "read_intent s = (Inr (Some i), s')" | e s' where "read_intent s = (Inl e, s')"
    using read_guarded by blast
  then show "guarded q i x (snd (change_membership r m s))"
  proof cases
    case 1
    then have s': "guarded q i x s'"
      using keepsD[OF guarded_read s] by simp
    have keep: "guarded q i x (set_meta r f s')" if "r \<noteq> q \<or> f = (\<lambda>m. m)" for f
      using s' that by (auto simp: guarded_def standing_def meta_set_meta)
    show ?thesis
      using s' assms keep[of "\<lambda>m. m"]
      by (auto simp: change_membership_run[OF 1] Let_def guarded_def standing_def meta_set_meta)
  next
    case 2
    then show ?thesis using keepsD[OF guarded_read s] by (simp add: change_membership_def bnd_def)
  qed
qed

abbreviation shielded_run :: "string \<Rightarrow> local_intent \<Rightarrow> string option \<times> int \<Rightarrow> processor \<Rightarrow> bool" where
  "shielded_run q i x \<equiv> \<lambda>p. guarded q i x (pr_session p)"

lemma keeps_on_session: "keeps P m \<Longrightarrow> keeps (\<lambda>p. P (pr_session p)) (on_session m)"
  unfolding keeps_def on_session_def by (auto split: prod.splits)

lemma guarded_live [simp]:
  "guarded q i x (pop_room r s) = guarded q i x s" "guarded q i x (pop_member_cache r s) = guarded q i x s"
  "guarded q i x (invalidate_outbound_session r s) = guarded q i x s"
  "guarded q i x (s \<lparr> se_rooms := a \<rparr>) = guarded q i x s" "guarded q i x (s \<lparr> se_invited_rooms := b \<rparr>) = guarded q i x s"
  "guarded q i x (s \<lparr> se_resets := c \<rparr>) = guarded q i x s" "guarded q i x (reset_joined_room r s) = guarded q i x s"
  "guarded q i x (set_meta r (\<lambda>m. m \<lparr> rt_baseline := d \<rparr>) s) = guarded q i x s"
proof -
  have "standing (s \<lparr> se_invited_rooms := b \<rparr>) q = standing s q" "standing (s \<lparr> se_resets := c \<rparr>) q = standing s q"
    "standing (s \<lparr> se_rooms := a \<rparr>) q = standing s q"
    by (simp_all add: standing_def meta_of_def)
  then show "guarded q i x (s \<lparr> se_rooms := a \<rparr>) = guarded q i x s"
    "guarded q i x (s \<lparr> se_invited_rooms := b \<rparr>) = guarded q i x s" "guarded q i x (s \<lparr> se_resets := c \<rparr>) = guarded q i x s"
    by (simp_all add: guarded_def)
qed (simp_all add: guarded_def standing_reset standing_set_meta)

lemma guarded_timeline: "keeps (guarded q i x) (timeline_room r k m)"
  unfolding timeline_room_def by (intro keeps_intros guarded_read keeps_modify) simp_all

lemma shielded_flush: "keeps (shielded_run q i x) flush"
  unfolding flush_def
  by (intro keeps_intros keeps_on_session guarded_on_store row_records keeps_modify) simp

lemma shielded_settle: "shielded_run q i x (settle_change it r c p) = shielded_run q i x p"
  by (simp add: settle_change_def Let_def split: option.split)

lemma shielded_item:
  assumes "shields (Some i) q"
  shows "keeps (shielded_run q i x) (process_item it)"
proof -
  note change = keeps_on_session[OF guarded_change[OF assms]]
  have enter: "keeps (shielded_run q i x) (enter_section it r)" for r
    unfolding enter_section_def by (intro keeps_intros change)
  have member: "keeps (shielded_run q i x) (member_change r k m)" for r k m
    unfolding member_change_def by (intro keeps_intros change keeps_modify) simp_all
  have event: "keeps (shielded_run q i x) (event_change it r)" for r
    unfolding event_change_def by (auto intro!: keeps_intros member split: option.splits prod.splits)
  have life: "keeps (shielded_run q i x) (lifecycle_change it r)" for r
    unfolding lifecycle_change_def by (intro keeps_intros change enter)
  have room: "keeps (shielded_run q i x) (room_part it r room)" for r room
    unfolding room_part_def
    by (intro keeps_intros keeps_modify life event) (simp_all add: shielded_settle)
  have buffer: "keeps (shielded_run q i x) (buffer_record b rec)" for b rec
    unfolding buffer_record_def by (intro keeps_intros keeps_modify shielded_flush) simp
  show ?thesis
    unfolding process_item_def
    by (intro keeps_intros keeps_modify buffer) (auto intro: keeps_intros room split: prod.splits)
qed

lemma shielded_consume:
  assumes "shields (Some i) q"
  shows "keeps (shielded_run q i x) (consume xs)"
proof -
  have step: "keeps (shielded_run q i x) (feed_step y)" for y
    by (cases y) (auto intro!: keeps_intros keeps_on_session guarded_timeline keeps_modify shielded_item[OF assms])
  have "keeps (shielded_run q i x) (consume_loop xs)"
    by (induction xs) (auto intro!: keeps_intros step)
  then show ?thesis
    unfolding consume_def by (intro keeps_intros keeps_modify shielded_flush) simp_all
qed

text \<open>C15: while a committed local operation is unobserved, whatever a response, a recovered page or a
  decrypted event reports, consuming it changes neither the stored membership (join, invite, leave, ban, knock, none) nor
  the epoch of that room, whether the consumption returns or raises.\<close>

theorem unobserved_operation_shields:
  assumes "store_ok (se_store s)" and "dget (db_crypto (ds_db (se_store s))) intent_key = Some (intent_json i)"
    and "shields (Some i) q"
    and "consume xs (Processor s hist expl prov skip stop) = (r, p)"
  shows "rt_membership (meta_of (pr_session p) q) = rt_membership (meta_of s q) \<and>
    rt_epoch (meta_of (pr_session p) q) = rt_epoch (meta_of s q)"
proof -
  have "guarded q i (standing s q) (pr_session (Processor s hist expl prov skip stop))"
    using assms(1,2) by (simp add: guarded_def Processor_def)
  from keepsD[OF shielded_consume[OF assms(3)] this, of xs] show ?thesis
    using assms(4) by (simp add: guarded_def standing_def)
qed

section \<open>Commits do not fail inside a transaction\<close>

abbreviation tx_session :: "session \<Rightarrow> bool" where
  "tx_session s \<equiv> in_tx (se_store s)"

lemma returns_on_store: "returns in_tx m \<Longrightarrow> returns tx_session (on_store m)"
  unfolding returns_def on_store_def by fastforce

lemma returns_session_modify: "(\<And>s. se_store (f s) = se_store s) \<Longrightarrow> returns tx_session (modify f)"
  by (simp add: returns_modify)

lemma returns_steady_modify: "keeps store_ok (modify f) \<Longrightarrow> store_steady (modify f) \<Longrightarrow> returns in_tx (modify f)"
  by (rule returns_modify) (simp add: keeps_def store_steady_def in_tx_def op_basic)

lemma returns_require: "returns in_tx assert_open" "returns in_tx require_transaction"
  unfolding assert_open_def require_transaction_def
  by (intro returns_intros returns_check; simp add: in_tx_def is_open_def)+

lemma returns_save_intent: "returns tx_session (save_intent i False)"
proof -
  let ?f = "\<lambda>s. invalidate_local_intent (s\<lparr>ds_db := db_crypto_update (\<lambda>t.
          if False \<or> din intent_key t then dset t intent_key (intent_json i) else t) (ds_db s)\<rparr>)"
  have "in_tx (?f st)" if "in_tx st" for st
    using that by (auto simp: in_tx_def store_ok_def mirrors_ok_def invalidate_local_intent_def is_open_def
        load_loop_def queue_ok_def)
  then show ?thesis
    unfolding save_intent_def save_local_intent_def
    by (intro returns_on_store returns_intros returns_require returns_check returns_modify) simp_all
qed

lemma returns_save_metadata: "returns in_tx (save_room_metadata r m)"
proof -
  have load: "returns in_tx load_room_metadata"
    unfolding load_room_metadata_def
    by (intro returns_intros returns_require returns_modify)
      (auto simp: in_tx_def store_ok_def mirrors_ok_def is_open_def split: option.splits)
  show ?thesis
    unfolding save_room_metadata_def
    by (intro returns_intros returns_require returns_modify load)
      (auto simp: in_tx_def store_ok_def mirrors_ok_def is_open_def load_loop_def queue_ok_def)
qed

lemma returns_save_rooms: "returns tx_session (save_rooms [(r, JoinedRoom x)] [])"
  unfolding save_rooms_def save_room_def invited_members_def Let_def for_each.simps
  by (simp, intro returns_intros returns_session_modify returns_on_store returns_save_metadata) simp_all

lemma returns_publish: "returns tx_session (on_store (publish rs False))"
  by (rule returns_on_store, unfold returns_def) (use in_tx_publish in \<open>fastforce simp: in_tx_def publish_run\<close>)

lemma runs_commit: "tx_session s \<Longrightarrow> \<exists>t. commit_local i s = (Inr (), t)"
  unfolding commit_local_run Let_def
  by (rule returns_unit[of tx_session], intro returns_intros returns_save_rooms returns_publish returns_save_intent) simp

lemma commit_transaction:
  assumes "store_ok (se_store s)" "is_open (se_store s)" "ds_depth (se_store s) = 0" "\<not> ds_foreign_tx (se_store s)"
  shows "\<exists>t. session_tx Tx_Ok (commit_local i) s = (Inr (), t)"
proof -
  have "in_tx (tx_entry (se_store s))"
    using assms by (auto simp: tx_entry_def in_tx_def store_ok_def mirrors_ok_def invalidate_local_intent_def is_open_def)
  then obtain t where "commit_local i (s \<lparr> se_store := tx_entry (se_store s) \<rparr>) = (Inr (), t)"
    using runs_commit[of "s \<lparr> se_store := tx_entry (se_store s) \<rparr>" i] by auto
  then show ?thesis
    using assms(2-4) by (simp add: session_tx_def transaction_def tx_entry_def Let_def)
qed

section \<open>A session to apply them to\<close>

definition sample_room_state :: room_state where
  "sample_room_state = new_state \<lparr> rt_membership := Some ''join'', rt_epoch := 2, rt_baseline := True \<rparr>"

definition sample_leave :: local_intent where
  "sample_leave = \<lparr> li_operation_id = ''op'', li_room_id = ''!r'', li_previous_membership = ''join'',
     li_previous_epoch = 2, li_current_membership = ''leave'', li_join_baseline_cursor = None,
     li_sequence = None, li_observed = False \<rparr>"

definition sample_session :: "durable_store \<Rightarrow> session" where
  "sample_session st = \<lparr> se_store = st, se_config = default_config, se_user_id = ''@me'',
     se_metadata = [(''!r'', sample_room_state)], se_rooms = [(''!r'', MatrixRoom ''!r'' ''@me'' True)],
     se_invited_rooms = [], se_encrypted_rooms = {''!r''}, se_outbound_sessions = {''!r''},
     se_member_cache = {''!r''}, se_members = [], se_resets = {}, se_complete_state_seen = True,
     se_closed = False, se_disposed = False \<rparr>"

definition intent_store :: "local_intent \<Rightarrow> durable_store" where
  "intent_store i = fresh_store ''s'' ((fresh_db None) \<lparr> db_crypto := [(intent_key, intent_json i)] \<rparr>)"

lemma intent_store_ok:
  "store_ok (intent_store i)" "is_open (intent_store i)" "ds_depth (intent_store i) = 0" "\<not> ds_foreign_tx (intent_store i)"
  "db_batches (ds_db (intent_store i)) = []" "dget (db_crypto (ds_db (intent_store i))) intent_key = Some (intent_json i)"
  by (simp_all add: intent_store_def fresh_store_def fresh_db_def store_ok_def mirrors_ok_def queue_ok_def is_open_def)

lemma sample_position: "position (sample_session st) ''!r'' = (True, 2)" "local_position_matches sample_leave (sample_session st)"
  by (simp_all add: position_def local_position_matches_def meta_of_def sample_session_def sample_room_state_def
      new_state_def sample_leave_def dget_or_def)

theorem local_operation_starts_over_witness:
  "\<exists>t. apply_local_intent Http_Ok Tx_Ok sample_leave (sample_session (intent_store sample_leave)) = (Inr True, t) \<and>
     dget (se_rooms t) ''!r'' = None \<and> ''!r'' \<notin> se_outbound_sessions t \<and> \<not> room_ready t ''!r''"
proof -
  let ?s = "sample_session (intent_store sample_leave)"
  have s: "se_store ?s = intent_store sample_leave" "\<not> se_disposed ?s" "\<not> se_closed ?s"
    by (simp_all add: sample_session_def)
  obtain t where "session_tx Tx_Ok (commit_local sample_leave) ?s = (Inr (), t)"
    using commit_transaction[of ?s sample_leave] intent_store_ok by (auto simp: s)
  then have run: "apply_local_intent Http_Ok Tx_Ok sample_leave ?s = (Inr True, t)"
    using sample_position(2)
    by (simp add: apply_local_intent_def bnd_def reads_def prove_join_def ret_def assert_active_def check_or_def s)
      (simp add: sample_leave_def)
  from local_operation_starts_over[OF this] run show ?thesis
    by (auto simp: fresh_tenure_def Let_def sample_leave_def)
qed

theorem unobserved_operation_shields_witness:
  "\<exists>i. shields (Some i) ''!r'' \<and>
     rt_membership (meta_of (pr_session (snd (consume
        [Timeline_Room ''!r'' ''@me'' ''join'',
         Item \<lparr> it_route = None, it_event = None, it_room = Some (''!r'', JoinedRoom (MatrixRoom ''!r'' ''@me'' False)),
                it_section = Some ''leave'', it_source = No_Source, it_provenance = None \<rparr>]
        (Processor (sample_session (intent_store i)) [] {} LIVE [] False)))) ''!r'') = Some ''join''"
proof -
  let ?i = "sample_leave \<lparr> li_sequence := Some 1 \<rparr>"
  let ?s = "sample_session (intent_store ?i)"
  have s: "se_store (sample_session st) = st" "rt_membership (meta_of (sample_session st) ''!r'') = Some ''join''" for st
    by (simp_all add: sample_session_def meta_of_def sample_room_state_def dget_or_def)
  have shields: "shields (Some ?i) ''!r''" by (simp add: shields_def sample_leave_def)
  have "rt_membership (meta_of (pr_session (snd (consume xs (Processor ?s [] {} LIVE [] False)))) ''!r'') = Some ''join''" for xs
    using unobserved_operation_shields[OF _ _ shields, of ?s xs "[]" "{}" LIVE "[]" False]
      intent_store_ok s(2) by (cases "consume xs (Processor ?s [] {} LIVE [] False)") (simp add: s)
  then show ?thesis using shields by blast
qed

end
