(* ===== verification/Nio_Push.thy ===== *)
theory Nio_Push
  imports Nio_Json Nio_Effects
begin

text \<open>
  The wire form of push rule actions and conditions in \<^verbatim>\<open>src/nio/events/account_data.py\<close>:
  each \<^verbatim>\<open>as_value\<close> and the \<^verbatim>\<open>from_dict\<close> that reads it back.
\<close>

datatype push_action =
    PushNotify
  | PushDontNotify
  | PushCoalesce
  | PushSetTweak json json
  | PushUnknownAction json

fun action_as_value :: "push_action \<Rightarrow> json" where
  "action_as_value PushNotify = JStr ''notify''"
| "action_as_value PushDontNotify = JStr ''dont_notify''"
| "action_as_value PushCoalesce = JStr ''coalesce''"
| "action_as_value (PushSetTweak tweak value) = JObj [(''set_tweak'', tweak), (''value'', value)]"
| "action_as_value (PushUnknownAction action) = action"

fun action_from_dict :: "json \<Rightarrow> push_action" where
  "action_from_dict (JStr s) =
     (if s = ''notify'' then PushNotify
      else if s = ''dont_notify'' then PushDontNotify
      else if s = ''coalesce'' then PushCoalesce
      else PushUnknownAction (JStr s))"
| "action_from_dict (JObj d) =
     (if din ''set_tweak'' d
      then (let tweak = jget d ''set_tweak''; value = jget d ''value'';
                value = (if tweak = JStr ''sound'' \<and> value = JNull then JStr ''default'' else value);
                value = (if tweak = JStr ''highlight'' \<and> value = JNull then JBool True else value)
            in PushSetTweak tweak value)
      else PushUnknownAction (JObj d))"
| "action_from_dict v = PushUnknownAction v"

datatype count_operator = CountEq | CountLt | CountGt | CountLe | CountGe

fun operator_text :: "count_operator \<Rightarrow> string" where
  "operator_text CountEq = ''==''"
| "operator_text CountLt = ''<''"
| "operator_text CountGt = ''>''"
| "operator_text CountLe = ''<=''"
| "operator_text CountGe = ''>=''"

datatype push_condition =
    PushEventMatch json json
  | PushContainsDisplayName
  | PushRoomMemberCount int count_operator
  | PushSenderNotificationPermission json
  | PushUnknownCondition jobj

fun condition_as_value :: "push_condition \<Rightarrow> json" where
  "condition_as_value (PushEventMatch key pattern) =
     JObj [(''kind'', JStr ''event_match''), (''key'', key), (''pattern'', pattern)]"
| "condition_as_value PushContainsDisplayName = JObj [(''kind'', JStr ''contains_display_name'')]"
| "condition_as_value (PushRoomMemberCount count operator) =
     JObj [(''kind'', JStr ''room_member_count''),
           (''is'', JStr ((if operator = CountEq then [] else operator_text operator) @ int_dec count))]"
| "condition_as_value (PushSenderNotificationPermission key) =
     JObj [(''kind'', JStr ''sender_notification_permission''), (''key'', key)]"
| "condition_as_value (PushUnknownCondition condition) = JObj condition"


text \<open>Reading an action, writing it to the wire and reading it again gives the same action,
  whatever JSON the server sent: default tweak values are filled in once and for all.\<close>

theorem action_roundtrip:
  "action_from_dict (action_as_value (action_from_dict v)) = action_from_dict v"
  by (cases v) (auto simp: din_def Let_def)

end
