(* ===== verification/Nio_Api.thy ===== *)
theory Nio_Api
  imports Nio_Print Nio_Push
begin

text \<open>
  The endpoint builders of \<^verbatim>\<open>class Api\<close> in \<^verbatim>\<open>src/nio/api.py\<close>, one definition per static
  method: the HTTP method, the request target and, where the request has one, the body text.
  A Python argument that may be None is an option; \<^verbatim>\<open>if x:\<close> and \<^verbatim>\<open>if x is not None:\<close> are
  the two helpers \<open>put_if_true\<close> and \<open>put_if_some\<close>.
\<close>

type_synonym request = "string \<times> string"
type_synonym body_request = "string \<times> string \<times> string"

abbreviation MATRIX_API_PATH_V1 :: string where
  "MATRIX_API_PATH_V1 \<equiv> ''/_matrix/client/v1''"

abbreviation MATRIX_API_PATH_V3 :: string where
  "MATRIX_API_PATH_V3 \<equiv> ''/_matrix/client/v3''"

abbreviation MATRIX_API_PATH_V4 :: string where
  "MATRIX_API_PATH_V4 \<equiv> ''/_matrix/client/v4''"

abbreviation MATRIX_API_PATH_UNSTABLE :: string where
  "MATRIX_API_PATH_UNSTABLE \<equiv> ''/_matrix/client/unstable''"

abbreviation MATRIX_MEDIA_API_PATH :: string where
  "MATRIX_MEDIA_API_PATH \<equiv> ''/_matrix/client/v1/media''"

abbreviation MATRIX_LEGACY_MEDIA_API_PATH :: string where
  "MATRIX_LEGACY_MEDIA_API_PATH \<equiv> ''/_matrix/media/v3''"

section \<open>Enumerations\<close>

datatype message_direction = dir_back | dir_front

fun direction_value :: "message_direction \<Rightarrow> string" where
  "direction_value dir_back = ''b''"
| "direction_value dir_front = ''f''"

datatype resizing_method = resize_scale | resize_crop

fun resizing_value :: "resizing_method \<Rightarrow> string" where
  "resizing_value resize_scale = ''scale''"
| "resizing_value resize_crop = ''crop''"

datatype room_visibility = visibility_private | visibility_public

fun visibility_value :: "room_visibility \<Rightarrow> string" where
  "visibility_value visibility_private = ''private''"
| "visibility_value visibility_public = ''public''"

datatype room_preset = private_chat | trusted_private_chat | public_chat

fun preset_value :: "room_preset \<Rightarrow> string" where
  "preset_value private_chat = ''private_chat''"
| "preset_value trusted_private_chat = ''trusted_private_chat''"
| "preset_value public_chat = ''public_chat''"

datatype event_format = format_client | format_federation

fun format_value :: "event_format \<Rightarrow> string" where
  "format_value format_client = ''client''"
| "format_value format_federation = ''federation''"

datatype push_rule_kind = kind_override | kind_content | kind_room | kind_sender | kind_underride

fun push_kind_value :: "push_rule_kind \<Rightarrow> string" where
  "push_kind_value kind_override = ''override''"
| "push_kind_value kind_content = ''content''"
| "push_kind_value kind_room = ''room''"
| "push_kind_value kind_sender = ''sender''"
| "push_kind_value kind_underride = ''underride''"

datatype relationship_type = rel_replacement | rel_annotation | rel_thread | rel_reference

fun relationship_value :: "relationship_type \<Rightarrow> string" where
  "relationship_value rel_replacement = ''m.replace''"
| "relationship_value rel_annotation = ''m.annotation''"
| "relationship_value rel_thread = ''m.thread''"
| "relationship_value rel_reference = ''m.reference''"

datatype receipt_type = receipt_read | receipt_read_private | receipt_fully_read

fun receipt_value :: "receipt_type \<Rightarrow> string" where
  "receipt_value receipt_read = ''m.read''"
| "receipt_value receipt_read_private = ''m.read.private''"
| "receipt_value receipt_fully_read = ''m.fully_read''"

datatype thread_inclusion = threads_all | threads_participated

fun inclusion_value :: "thread_inclusion \<Rightarrow> string" where
  "inclusion_value threads_all = ''all''"
| "inclusion_value threads_participated = ''participated''"

section \<open>Building parameters and bodies\<close>

definition put_if_some :: "('k, 'v) dict \<Rightarrow> 'k \<Rightarrow> ('x \<Rightarrow> 'v) \<Rightarrow> 'x option \<Rightarrow> ('k, 'v) dict" where
  "put_if_some d k f x = (case x of None \<Rightarrow> d | Some v \<Rightarrow> dset d k (f v))"

definition put_if_true ::
  "('k, 'v) dict \<Rightarrow> 'k \<Rightarrow> ('x \<Rightarrow> 'v) \<Rightarrow> ('x \<Rightarrow> bool) \<Rightarrow> 'x option \<Rightarrow> ('k, 'v) dict" where
  "put_if_true d k f t x = (case x of None \<Rightarrow> d | Some v \<Rightarrow> if t v then dset d k (f v) else d)"

definition nonempty :: "'a list \<Rightarrow> bool" where
  "nonempty xs = (xs \<noteq> [])"

definition nonzero :: "int \<Rightarrow> bool" where
  "nonzero i = (i \<noteq> 0)"

definition access :: "string \<Rightarrow> query" where
  "access token = [(''access_token'', QStr token)]"

abbreviation jstrs :: "string list \<Rightarrow> json" where
  "jstrs xs \<equiv> JArr (map JStr xs)"

abbreviation path_v3 :: "string list \<Rightarrow> query \<Rightarrow> string" where
  "path_v3 parts q \<equiv> build_path (PathParts parts) q MATRIX_API_PATH_V3"

definition mimetype_to_msgtype :: "string \<Rightarrow> string" where
  "mimetype_to_msgtype mimetype =
     (if take 5 mimetype = ''image'' then ''m.image''
      else if take 5 mimetype = ''video'' then ''m.video''
      else if take 5 mimetype = ''audio'' then ''m.audio''
      else ''m.file'')"

section \<open>Login and account\<close>

definition Api_discovery_info :: request where
  "Api_discovery_info = (''GET'', build_path (PathParts [''.well-known'', ''matrix'', ''client'']) [] [])"

definition Api_login_info :: request where
  "Api_login_info = (''GET'', path_v3 [''login''] [])"

definition Api_register ::
  "string \<Rightarrow> string option \<Rightarrow> string option \<Rightarrow> string option \<Rightarrow> jobj option \<Rightarrow> body_request" where
  "Api_register user password device_name device_id auth_dict =
     (let auth = (case auth_dict of Some (p # d) \<Rightarrow> p # d | _ \<Rightarrow> [(''type'', JStr ''m.login.dummy'')]);
          content = [(''username'', JStr user), (''password'', jstr_opt password), (''auth'', JObj auth)];
          content = put_if_true content ''device_id'' JStr nonempty device_id;
          content = put_if_true content ''initial_device_display_name'' JStr nonempty device_name
      in (''POST'', path_v3 [''register''] [], to_json content))"

definition login_identifier :: "string \<Rightarrow> jobj" where
  "login_identifier user =
     (if CHR ''@'' \<in> set user \<and> take 1 user \<noteq> ''@''
      then [(''type'', JStr ''m.id.thirdparty''), (''medium'', JStr ''email''), (''address'', JStr user)]
      else [(''type'', JStr ''m.id.user''), (''user'', JStr user)])"

definition login_content ::
  "string \<Rightarrow> string option \<Rightarrow> string option \<Rightarrow> string option \<Rightarrow> string option \<Rightarrow> exn + jobj" where
  "login_content user password device_name device_id token =
     rbind
       (case password of
          Some p \<Rightarrow>
            Inr [(''type'', JStr ''m.login.password''), (''identifier'', JObj (login_identifier user)),
                 (''password'', JStr p)]
        | None \<Rightarrow>
            (case token of
               Some t \<Rightarrow> Inr [(''type'', JStr ''m.login.token''), (''token'', JStr t)]
             | None \<Rightarrow> Inl (ValueError ''Neither a password nor a token was provided'')))
       (\<lambda>content. Inr (put_if_true (put_if_true content ''device_id'' JStr nonempty device_id)
                        ''initial_device_display_name'' JStr nonempty device_name))"

definition Api_login ::
  "string \<Rightarrow> string option \<Rightarrow> string option \<Rightarrow> string option \<Rightarrow> string option \<Rightarrow> exn + body_request" where
  "Api_login user password device_name device_id token =
     rbind (login_content user password device_name device_id token)
       (\<lambda>content. Inr (''POST'', path_v3 [''login''] [], to_json content))"

definition Api_login_raw :: "jobj option \<Rightarrow> exn + body_request" where
  "Api_login_raw auth_dict =
     (case auth_dict of
        Some (p # d) \<Rightarrow> Inr (''POST'', path_v3 [''login''] [], to_json (p # d))
      | _ \<Rightarrow> Inl (ValueError ''Auth dictionary cannot be empty''))"

definition Api_logout :: "string \<Rightarrow> bool \<Rightarrow> request" where
  "Api_logout access_token all_devices =
     (''POST'', path_v3 ([''logout''] @ (if all_devices then [''all''] else [])) (access access_token))"

definition Api_change_password :: "string \<Rightarrow> jobj \<Rightarrow> string \<Rightarrow> body_request" where
  "Api_change_password access_token auth new_password =
     (''POST'', path_v3 [''account'', ''password''] (access access_token),
      to_json [(''auth'', JObj auth), (''new_password'', JStr new_password)])"

definition Api_whoami :: "string \<Rightarrow> request" where
  "Api_whoami access_token = (''GET'', path_v3 [''account'', ''whoami''] (access access_token))"

definition Api_get_openid_token :: "string \<Rightarrow> string \<Rightarrow> body_request" where
  "Api_get_openid_token access_token user_id =
     (''POST'', path_v3 [''user'', user_id, ''openid'', ''request_token''] (access access_token), to_json [])"

section \<open>Synchronisation\<close>

datatype filter_arg = FilterNone | FilterId string | FilterDict jobj

definition Api_sync ::
  "string \<Rightarrow> string option \<Rightarrow> int option \<Rightarrow> filter_arg \<Rightarrow> bool option \<Rightarrow> string option \<Rightarrow> request" where
  "Api_sync access_token since timeout flt full_state set_presence =
     (let q = access access_token;
          q = put_if_true q ''since'' QStr nonempty since;
          q = put_if_some q ''full_state'' (\<lambda>b. QStr (if b then ''true'' else ''false'')) full_state;
          q = put_if_some q ''timeout'' (\<lambda>t. QStr (int_dec t)) timeout;
          q = put_if_true q ''set_presence'' QStr nonempty set_presence;
          q = (case flt of
                 FilterDict d \<Rightarrow> dset q ''filter'' (QStr (to_json d))
               | FilterId i \<Rightarrow> dset q ''filter'' (QStr i)
               | FilterNone \<Rightarrow> q)
      in (''GET'', path_v3 [''sync''] q))"

definition sliding_body ::
  "string option \<Rightarrow> jobj option \<Rightarrow> jobj option \<Rightarrow> jobj option \<Rightarrow> jobj" where
  "sliding_body conn_id room_lists room_subscriptions extensions =
     (let b = put_if_some [] ''conn_id'' JStr conn_id;
          b = put_if_some b ''lists'' JObj room_lists;
          b = put_if_some b ''room_subscriptions'' JObj room_subscriptions
      in put_if_some b ''extensions'' JObj extensions)"

definition Api_sliding_sync ::
  "string \<Rightarrow> string option \<Rightarrow> string option \<Rightarrow> int option \<Rightarrow> string option \<Rightarrow>
   jobj option \<Rightarrow> jobj option \<Rightarrow> jobj option \<Rightarrow> bool \<Rightarrow> body_request" where
  "Api_sliding_sync access_token conn_id pos timeout set_presence room_lists room_subscriptions extensions unstable =
     (let path = (if unstable then [''org.matrix.simplified_msc3575'', ''sync''] else [''sync'']);
          base = (if unstable then MATRIX_API_PATH_UNSTABLE else MATRIX_API_PATH_V4);
          q = put_if_some (access access_token) ''pos'' QStr pos;
          q = put_if_some q ''timeout'' (\<lambda>t. QStr (int_dec t)) timeout;
          q = put_if_true q ''set_presence'' QStr nonempty set_presence
      in (''POST'', build_path (PathParts path) q base,
          to_json (sliding_body conn_id room_lists room_subscriptions extensions)))"

section \<open>Room events\<close>

definition Api_room_send :: "string \<Rightarrow> string \<Rightarrow> string \<Rightarrow> jobj \<Rightarrow> string \<Rightarrow> body_request" where
  "Api_room_send access_token room_id event_type body tx_id =
     (''PUT'', path_v3 [''rooms'', room_id, ''send'', event_type, tx_id] (access access_token), to_json body)"

definition Api_space_get_hierarchy ::
  "string \<Rightarrow> string \<Rightarrow> string option \<Rightarrow> int option \<Rightarrow> int option \<Rightarrow> bool \<Rightarrow> request" where
  "Api_space_get_hierarchy access_token space_id from_page limit max_depth suggested_only =
     (let q = put_if_true (access access_token) ''from'' QStr nonempty from_page;
          q = put_if_true q ''limit'' QInt nonzero limit;
          q = put_if_true q ''max_depth'' QInt nonzero max_depth;
          q = (if suggested_only then dset q ''suggested_only'' (QBool suggested_only) else q)
      in (''GET'', build_path (PathParts [''rooms'', space_id, ''hierarchy'']) q MATRIX_API_PATH_V1))"

definition Api_direct_room_list :: "string \<Rightarrow> string \<Rightarrow> request" where
  "Api_direct_room_list access_token user_id =
     (''GET'', path_v3 [''user'', user_id, ''account_data'', ''m.direct''] (access access_token))"

definition Api_room_get_event :: "string \<Rightarrow> string \<Rightarrow> string \<Rightarrow> request" where
  "Api_room_get_event access_token room_id event_id =
     (''GET'', path_v3 [''rooms'', room_id, ''event'', event_id] (access access_token))"

definition Api_room_get_event_relations ::
  "string \<Rightarrow> string \<Rightarrow> string \<Rightarrow> relationship_type option \<Rightarrow> string option \<Rightarrow> message_direction \<Rightarrow>
   string option \<Rightarrow> string option \<Rightarrow> int option \<Rightarrow> bool \<Rightarrow> request" where
  "Api_room_get_event_relations access_token room_id event_id rel_type event_type direction
     paginate_from paginate_to limit recurse =
     (let q = access access_token @ [(''dir'', QStr (direction_value direction))];
          q = (if recurse then dset q ''recurse'' (QStr ''true'') else q);
          q = put_if_true q ''from'' QStr nonempty paginate_from;
          q = put_if_true q ''to'' QStr nonempty paginate_to;
          q = put_if_true q ''limit'' QInt nonzero limit;
          path = [''rooms'', room_id, ''relations'', event_id] @
            (case rel_type of
               None \<Rightarrow> []
             | Some r \<Rightarrow> relationship_value r #
                 (case event_type of Some (c # t) \<Rightarrow> [c # t] | _ \<Rightarrow> []))
      in (''GET'', build_path (PathParts path) q MATRIX_API_PATH_V1))"

definition Api_room_get_threads ::
  "string \<Rightarrow> string \<Rightarrow> thread_inclusion \<Rightarrow> string option \<Rightarrow> int option \<Rightarrow> request" where
  "Api_room_get_threads access_token room_id inclusion paginate_from limit =
     (let q = access access_token @ [(''include'', QStr (inclusion_value inclusion))];
          q = put_if_true q ''from'' QStr nonempty paginate_from;
          q = put_if_true q ''limit'' QInt nonzero limit
      in (''GET'', build_path (PathParts [''rooms'', room_id, ''threads'']) q MATRIX_API_PATH_V1))"

definition Api_room_put_state :: "string \<Rightarrow> string \<Rightarrow> string \<Rightarrow> jobj \<Rightarrow> string \<Rightarrow> body_request" where
  "Api_room_put_state access_token room_id event_type body state_key =
     (''PUT'', path_v3 [''rooms'', room_id, ''state'', event_type, state_key] (access access_token), to_json body)"

definition Api_room_get_state_event :: "string \<Rightarrow> string \<Rightarrow> string \<Rightarrow> string \<Rightarrow> request" where
  "Api_room_get_state_event access_token room_id event_type state_key =
     (''GET'', path_v3 [''rooms'', room_id, ''state'', event_type, state_key] (access access_token))"

definition Api_room_get_state :: "string \<Rightarrow> string \<Rightarrow> request" where
  "Api_room_get_state access_token room_id =
     (''GET'', path_v3 [''rooms'', room_id, ''state''] (access access_token))"

definition Api_room_redact :: "string \<Rightarrow> string \<Rightarrow> string \<Rightarrow> string \<Rightarrow> string option \<Rightarrow> body_request" where
  "Api_room_redact access_token room_id event_id tx_id reason =
     (''PUT'', path_v3 [''rooms'', room_id, ''redact'', event_id, tx_id] (access access_token),
      to_json (put_if_true [] ''reason'' JStr nonempty reason))"

definition Api_room_context :: "string \<Rightarrow> string \<Rightarrow> string \<Rightarrow> int option \<Rightarrow> request" where
  "Api_room_context access_token room_id event_id limit =
     (''GET'', path_v3 [''rooms'', room_id, ''context'', event_id]
        (put_if_true (access access_token) ''limit'' QInt nonzero limit))"

datatype direction_arg = DirEnum message_direction | DirText string

definition Api_room_messages ::
  "string \<Rightarrow> string \<Rightarrow> string option \<Rightarrow> string option \<Rightarrow> direction_arg \<Rightarrow> int \<Rightarrow> jobj option \<Rightarrow> exn + request" where
  "Api_room_messages access_token room_id start_token end_token direction limit message_filter =
     rbind
       (case direction of
          DirEnum d \<Rightarrow> Inr d
        | DirText t \<Rightarrow>
            (if t \<in> {''b'', ''back''} then Inr dir_back
             else if t \<in> {''f'', ''front''} then Inr dir_front
             else Inl (ValueError ''Invalid direction'')))
       (\<lambda>dir.
          let q = access access_token @ [(''limit'', QInt limit)];
              q = put_if_true q ''from'' QStr nonempty start_token;
              q = put_if_true q ''to'' QStr nonempty end_token;
              q = dset q ''dir'' (QStr (direction_value dir));
              q = put_if_some q ''filter'' (\<lambda>d. QStr (to_json d)) message_filter
          in Inr (''GET'', path_v3 [''rooms'', room_id, ''messages''] q))"

section \<open>Membership\<close>

definition reason_body :: "jobj \<Rightarrow> string option \<Rightarrow> jobj" where
  "reason_body body reason = put_if_true body ''reason'' JStr nonempty reason"

definition Api_room_kick :: "string \<Rightarrow> string \<Rightarrow> string \<Rightarrow> string option \<Rightarrow> body_request" where
  "Api_room_kick access_token room_id user_id reason =
     (''POST'', path_v3 [''rooms'', room_id, ''kick''] (access access_token),
      to_json (reason_body [(''user_id'', JStr user_id)] reason))"

definition Api_room_ban :: "string \<Rightarrow> string \<Rightarrow> string \<Rightarrow> string option \<Rightarrow> body_request" where
  "Api_room_ban access_token room_id user_id reason =
     (''POST'', path_v3 [''rooms'', room_id, ''ban''] (access access_token),
      to_json (reason_body [(''user_id'', JStr user_id)] reason))"

definition Api_room_unban :: "string \<Rightarrow> string \<Rightarrow> string \<Rightarrow> body_request" where
  "Api_room_unban access_token room_id user_id =
     (''POST'', path_v3 [''rooms'', room_id, ''unban''] (access access_token),
      to_json [(''user_id'', JStr user_id)])"

definition Api_room_knock :: "string \<Rightarrow> string \<Rightarrow> string option \<Rightarrow> body_request" where
  "Api_room_knock access_token room_id reason =
     (''POST'', path_v3 [''knock'', room_id] (access access_token), to_json (reason_body [] reason))"

definition Api_room_invite :: "string \<Rightarrow> string \<Rightarrow> string \<Rightarrow> body_request" where
  "Api_room_invite access_token room_id user_id =
     (''POST'', path_v3 [''rooms'', room_id, ''invite''] (access access_token),
      to_json [(''user_id'', JStr user_id)])"

definition Api_join :: "string \<Rightarrow> string \<Rightarrow> request" where
  "Api_join access_token room_id = (''POST'', path_v3 [''join'', room_id] (access access_token))"

definition Api_room_leave :: "string \<Rightarrow> string \<Rightarrow> request" where
  "Api_room_leave access_token room_id = (''POST'', path_v3 [''rooms'', room_id, ''leave''] (access access_token))"

definition Api_room_forget :: "string \<Rightarrow> string \<Rightarrow> request" where
  "Api_room_forget access_token room_id = (''POST'', path_v3 [''rooms'', room_id, ''forget''] (access access_token))"

definition Api_joined_members :: "string \<Rightarrow> string \<Rightarrow> request" where
  "Api_joined_members access_token room_id =
     (''GET'', path_v3 [''rooms'', room_id, ''joined_members''] (access access_token))"

definition Api_joined_rooms :: "string \<Rightarrow> request" where
  "Api_joined_rooms access_token = (''GET'', path_v3 [''joined_rooms''] (access access_token))"

record room_create_args =
  rc_visibility :: room_visibility
  rc_alias :: "string option"
  rc_name :: "string option"
  rc_topic :: "string option"
  rc_room_version :: "string option"
  rc_room_type :: "string option"
  rc_federate :: bool
  rc_is_direct :: bool
  rc_preset :: "room_preset option"
  rc_invite :: "string list"
  rc_initial_state :: "jobj list"
  rc_power_level_override :: "jobj option"
  rc_predecessor :: "jobj option"
  rc_space :: bool
  rc_additional_creators :: "string list option"

definition room_create_content :: "room_create_args \<Rightarrow> jobj" where
  "room_create_content a =
     (let c = [(''m.federate'', JBool (rc_federate a))];
          c = put_if_true c ''type'' JStr nonempty (rc_room_type a);
          c = put_if_true c ''predecessor'' JObj nonempty (rc_predecessor a);
          c = (if rc_space a then dset c ''type'' (JStr ''m.space'') else c)
      in put_if_true c ''additional_creators'' jstrs nonempty (rc_additional_creators a))"

definition room_create_body :: "room_create_args \<Rightarrow> jobj" where
  "room_create_body a =
     (let b = [(''visibility'', JStr (visibility_value (rc_visibility a))),
               (''creation_content'', JObj (room_create_content a)),
               (''is_direct'', JBool (rc_is_direct a))];
          b = put_if_true b ''room_alias_name'' JStr nonempty (rc_alias a);
          b = put_if_true b ''name'' JStr nonempty (rc_name a);
          b = put_if_true b ''topic'' JStr nonempty (rc_topic a);
          b = put_if_true b ''room_version'' JStr nonempty (rc_room_version a);
          b = put_if_some b ''preset'' (\<lambda>p. JStr (preset_value p)) (rc_preset a);
          b = put_if_true b ''invite'' jstrs nonempty (Some (rc_invite a));
          b = put_if_true b ''initial_state'' (\<lambda>xs. JArr (map JObj xs)) nonempty (Some (rc_initial_state a))
      in put_if_true b ''power_level_content_override'' JObj nonempty (rc_power_level_override a))"

definition Api_room_create :: "string \<Rightarrow> room_create_args \<Rightarrow> body_request" where
  "Api_room_create access_token a =
     (''POST'', path_v3 [''createRoom''] (access access_token), to_json (room_create_body a))"

section \<open>Keys and devices\<close>

definition Api_keys_upload :: "string \<Rightarrow> jobj \<Rightarrow> body_request" where
  "Api_keys_upload access_token key_dict =
     (''POST'', path_v3 [''keys'', ''upload''] (access access_token), to_json key_dict)"

definition keys_query_content :: "string list \<Rightarrow> string option \<Rightarrow> jobj" where
  "keys_query_content user_set token =
     put_if_true
       [(''device_keys'', JObj (foldl (\<lambda>d user. dset d user (JArr [])) [] user_set))]
       ''token'' JStr nonempty token"

definition Api_keys_query :: "string \<Rightarrow> string list \<Rightarrow> string option \<Rightarrow> body_request" where
  "Api_keys_query access_token user_set token =
     (''POST'', path_v3 [''keys'', ''query''] (access access_token), to_json (keys_query_content user_set token))"

text \<open>\<^verbatim>\<open>payload[user_id][device_id] = "signed_curve25519"\<close> on a \<^verbatim>\<open>defaultdict(dict)\<close>.\<close>

definition claim_device ::
  "(string, (string, string) dict) dict \<Rightarrow> string \<Rightarrow> string \<Rightarrow> (string, (string, string) dict) dict" where
  "claim_device payload user_id device_id =
     dset payload user_id (dset (dget_or payload user_id []) device_id ''signed_curve25519'')"

definition claim_payload :: "(string, string list) dict \<Rightarrow> (string, (string, string) dict) dict" where
  "claim_payload user_set =
     foldl (\<lambda>payload (user_id, device_list). foldl (\<lambda>p. claim_device p user_id) payload device_list)
       [] user_set"

definition Api_keys_claim :: "string \<Rightarrow> (string, string list) dict \<Rightarrow> body_request" where
  "Api_keys_claim access_token user_set =
     (''POST'', path_v3 [''keys'', ''claim''] (access access_token),
      to_json [(''one_time_keys'',
        JObj (map (\<lambda>(u, ds). (u, JObj (map (\<lambda>(d, k). (d, JStr k)) ds))) (claim_payload user_set)))])"

definition Api_to_device :: "string \<Rightarrow> string \<Rightarrow> jobj \<Rightarrow> string \<Rightarrow> body_request" where
  "Api_to_device access_token event_type content tx_id =
     (''PUT'', path_v3 [''sendToDevice'', event_type, tx_id] (access access_token), to_json content)"

definition Api_devices :: "string \<Rightarrow> request" where
  "Api_devices access_token = (''GET'', path_v3 [''devices''] (access access_token))"

definition Api_update_device :: "string \<Rightarrow> string \<Rightarrow> jobj \<Rightarrow> body_request" where
  "Api_update_device access_token device_id content =
     (''PUT'', path_v3 [''devices'', device_id] (access access_token), to_json content)"

definition Api_delete_devices :: "string \<Rightarrow> string list \<Rightarrow> jobj option \<Rightarrow> body_request" where
  "Api_delete_devices access_token devices auth_dict =
     (''POST'', path_v3 [''delete_devices''] (access access_token),
      to_json (put_if_true [(''devices'', jstrs devices)] ''auth'' JObj nonempty auth_dict))"

section \<open>Directory\<close>

definition Api_room_resolve_alias :: "string \<Rightarrow> request" where
  "Api_room_resolve_alias room_alias = (''GET'', path_v3 [''directory'', ''room'', room_alias] [])"

definition Api_room_delete_alias :: "string \<Rightarrow> string \<Rightarrow> request" where
  "Api_room_delete_alias access_token room_alias =
     (''DELETE'', path_v3 [''directory'', ''room'', room_alias] (access access_token))"

definition Api_room_put_alias :: "string \<Rightarrow> string \<Rightarrow> string \<Rightarrow> body_request" where
  "Api_room_put_alias access_token room_alias room_id =
     (''PUT'', path_v3 [''directory'', ''room'', room_alias] (access access_token),
      to_json [(''room_id'', JStr room_id)])"

definition Api_delete_room_alias :: "string \<Rightarrow> string \<Rightarrow> request" where
  "Api_delete_room_alias access_token alias =
     (''DELETE'', path_v3 [''directory'', ''room'', alias] (access access_token))"

definition Api_put_room_alias :: "string \<Rightarrow> string \<Rightarrow> string \<Rightarrow> body_request" where
  "Api_put_room_alias access_token alias room_id =
     (''PUT'', path_v3 [''directory'', ''room'', alias] (access access_token),
      to_json (dset [] ''room_id'' (JStr room_id)))"

definition Api_room_get_visibility :: "string \<Rightarrow> request" where
  "Api_room_get_visibility room_id = (''GET'', path_v3 [''directory'', ''list'', ''room'', room_id] [])"

definition public_rooms_post ::
  "string option \<Rightarrow> (string option) list option \<Rightarrow> bool option \<Rightarrow> string option \<Rightarrow> bool" where
  "public_rooms_post search_term room_types include_all third_party =
     ((case search_term of None \<Rightarrow> False | Some s \<Rightarrow> s \<noteq> []) \<or>
      (case room_types of None \<Rightarrow> False | Some ts \<Rightarrow> ts \<noteq> []) \<or>
      include_all = Some True \<or>
      (case third_party of None \<Rightarrow> False | Some s \<Rightarrow> s \<noteq> []))"

definition public_rooms_content ::
  "int option \<Rightarrow> string option \<Rightarrow> string option \<Rightarrow> (string option) list option \<Rightarrow> bool option \<Rightarrow>
   string option \<Rightarrow> jobj" where
  "public_rooms_content limit since search_term room_types include_all third_party =
     (let c = put_if_true [] ''limit'' JInt nonzero limit;
          c = put_if_some c ''since'' JStr since;
          f = put_if_some [] ''generic_search_term'' JStr search_term;
          f = put_if_true f ''room_types'' (\<lambda>ts. JArr (map jstr_opt ts)) nonempty room_types;
          c = (if f = [] then c else dset c ''filter'' (JObj f));
          c = put_if_some c ''include_all_networks'' JBool include_all
      in put_if_true c ''third_party_instance_id'' JStr nonempty third_party)"

definition Api_public_rooms ::
  "string option \<Rightarrow> int option \<Rightarrow> string option \<Rightarrow> string option \<Rightarrow> string option \<Rightarrow>
   (string option) list option \<Rightarrow> bool option \<Rightarrow> string option \<Rightarrow> string \<times> string \<times> string option" where
  "Api_public_rooms access_token limit server since search_term room_types include_all third_party =
     (let q = put_if_true [] ''access_token'' QStr nonempty access_token;
          q = put_if_true q ''server'' QStr nonempty server
      in if \<not> public_rooms_post search_term room_types include_all third_party
         then (let q = put_if_some q ''limit'' QInt limit;
                   q = put_if_some q ''since'' QStr since
               in (''GET'', path_v3 [''publicRooms''] q, None))
         else (''POST'', path_v3 [''publicRooms''] q,
               Some (to_json (public_rooms_content limit since search_term room_types include_all third_party))))"


section \<open>Ephemeral events, receipts, presence and profiles\<close>

definition Api_room_typing :: "string \<Rightarrow> string \<Rightarrow> string \<Rightarrow> bool \<Rightarrow> int \<Rightarrow> body_request" where
  "Api_room_typing access_token room_id user_id typing_state timeout =
     (let content = [(''typing'', JBool typing_state)];
          content = (if typing_state then dset content ''timeout'' (JInt timeout) else content)
      in (''PUT'', path_v3 [''rooms'', room_id, ''typing'', user_id] (access access_token), to_json content))"

definition Api_room_send_ephemeral :: "string \<Rightarrow> string \<Rightarrow> string \<Rightarrow> jobj \<Rightarrow> string \<Rightarrow> body_request" where
  "Api_room_send_ephemeral access_token room_id event_type body tx_id =
     (''PUT'',
      build_path (PathParts [''org.matrix.msc2477'', ''rooms'', room_id, ''ephemeral'', event_type, tx_id])
        (access access_token) MATRIX_API_PATH_UNSTABLE,
      to_json body)"

definition Api_update_receipt_marker ::
  "string \<Rightarrow> string \<Rightarrow> string \<Rightarrow> receipt_type \<Rightarrow> string \<Rightarrow> body_request" where
  "Api_update_receipt_marker access_token room_id event_id rtype thread_id =
     (''POST'', path_v3 [''rooms'', room_id, ''receipt'', receipt_value rtype, event_id] (access access_token),
      to_json [(''thread_id'', JStr thread_id)])"

definition Api_room_read_markers ::
  "string \<Rightarrow> string \<Rightarrow> string \<Rightarrow> string option \<Rightarrow> string option \<Rightarrow> body_request" where
  "Api_room_read_markers access_token room_id fully_read_event read_event private_read_event =
     (let content = [(receipt_value receipt_fully_read, JStr fully_read_event)];
          content = put_if_true content (receipt_value receipt_read) JStr nonempty read_event;
          content = put_if_true content (receipt_value receipt_read_private) JStr nonempty private_read_event
      in (''POST'', path_v3 [''rooms'', room_id, ''read_markers''] (access access_token), to_json content))"

definition Api_profile_get :: "string \<Rightarrow> string option \<Rightarrow> request" where
  "Api_profile_get user_id access_token =
     (''GET'', path_v3 [''profile'', user_id] (put_if_some [] ''access_token'' QStr access_token))"

definition Api_profile_get_displayname :: "string \<Rightarrow> string option \<Rightarrow> request" where
  "Api_profile_get_displayname user_id access_token =
     (''GET'', path_v3 [''profile'', user_id, ''displayname'']
        (put_if_some [] ''access_token'' QStr access_token))"

definition Api_profile_set_displayname :: "string \<Rightarrow> string \<Rightarrow> string \<Rightarrow> body_request" where
  "Api_profile_set_displayname access_token user_id display_name =
     (''PUT'', path_v3 [''profile'', user_id, ''displayname''] (access access_token),
      to_json [(''displayname'', JStr display_name)])"

definition Api_profile_get_avatar :: "string \<Rightarrow> string option \<Rightarrow> request" where
  "Api_profile_get_avatar user_id access_token =
     (''GET'', path_v3 [''profile'', user_id, ''avatar_url'']
        (put_if_some [] ''access_token'' QStr access_token))"

definition Api_profile_set_avatar :: "string \<Rightarrow> string \<Rightarrow> string \<Rightarrow> body_request" where
  "Api_profile_set_avatar access_token user_id avatar_url =
     (''PUT'', path_v3 [''profile'', user_id, ''avatar_url''] (access access_token),
      to_json [(''avatar_url'', JStr avatar_url)])"

definition Api_get_presence :: "string \<Rightarrow> string \<Rightarrow> request" where
  "Api_get_presence access_token user_id =
     (''GET'', path_v3 [''presence'', user_id, ''status''] (access access_token))"

definition Api_set_presence :: "string \<Rightarrow> string \<Rightarrow> string \<Rightarrow> string option \<Rightarrow> body_request" where
  "Api_set_presence access_token user_id presence status_msg =
     (''PUT'', path_v3 [''presence'', user_id, ''status''] (access access_token),
      to_json (put_if_true [(''presence'', JStr presence)] ''status_msg'' JStr nonempty status_msg))"

section \<open>Media\<close>

definition Api_content_repository_config :: "string \<Rightarrow> request" where
  "Api_content_repository_config access_token =
     (''GET'', build_path (PathParts [''config'']) (access access_token) MATRIX_MEDIA_API_PATH)"

definition Api_upload :: "string \<Rightarrow> string option \<Rightarrow> request" where
  "Api_upload access_token filename =
     (''POST'', build_path (PathParts [''upload''])
        (put_if_true (access access_token) ''filename'' QStr nonempty filename) MATRIX_LEGACY_MEDIA_API_PATH)"

definition qstr_opt :: "string option \<Rightarrow> qval" where
  "qstr_opt x = (case x of None \<Rightarrow> QNone | Some s \<Rightarrow> QStr s)"

definition Api_download ::
  "string \<Rightarrow> string \<Rightarrow> string option \<Rightarrow> bool \<Rightarrow> string option \<Rightarrow> request" where
  "Api_download server_name media_id filename allow_remote access_token =
     (let q = [(''allow_remote'', QStr (if allow_remote then ''true'' else ''false'')),
               (''access_token'', qstr_opt access_token)];
          end_part = (case filename of Some (c # s) \<Rightarrow> c # s | _ \<Rightarrow> [])
      in (''GET'', build_path (PathParts [''download'', server_name, media_id, end_part]) q
            MATRIX_MEDIA_API_PATH))"

definition Api_thumbnail ::
  "string \<Rightarrow> string \<Rightarrow> int \<Rightarrow> int \<Rightarrow> resizing_method \<Rightarrow> bool \<Rightarrow> string option \<Rightarrow> request" where
  "Api_thumbnail server_name media_id width height resize allow_remote access_token =
     (''GET'', build_path (PathParts [''thumbnail'', server_name, media_id])
        [(''width'', QInt width), (''height'', QInt height), (''method'', QStr (resizing_value resize)),
         (''allow_remote'', QStr (if allow_remote then ''true'' else ''false'')),
         (''access_token'', qstr_opt access_token)]
        MATRIX_MEDIA_API_PATH)"

section \<open>Filters and push rules\<close>

definition upload_filter_content ::
  "string list option \<Rightarrow> event_format \<Rightarrow> jobj option \<Rightarrow> jobj option \<Rightarrow> jobj option \<Rightarrow> jobj" where
  "upload_filter_content event_fields format presence account_data room =
     filter (\<lambda>(k, v). v \<noteq> JNull)
       [(''event_fields'', case event_fields of None \<Rightarrow> JNull | Some fs \<Rightarrow> jstrs fs),
        (''event_format'', JStr (format_value format)),
        (''presence'', jobj_opt presence),
        (''account_data'', jobj_opt account_data),
        (''room'', jobj_opt room)]"

definition Api_upload_filter ::
  "string \<Rightarrow> string \<Rightarrow> string list option \<Rightarrow> event_format \<Rightarrow> jobj option \<Rightarrow> jobj option \<Rightarrow>
   jobj option \<Rightarrow> body_request" where
  "Api_upload_filter access_token user_id event_fields format presence account_data room =
     (''POST'', path_v3 [''user'', user_id, ''filter''] (access access_token),
      to_json (upload_filter_content event_fields format presence account_data room))"

definition Api_set_pushrule ::
  "string \<Rightarrow> string \<Rightarrow> push_rule_kind \<Rightarrow> string \<Rightarrow> string option \<Rightarrow> string option \<Rightarrow>
   push_action list \<Rightarrow> push_condition list option \<Rightarrow> string option \<Rightarrow> exn + body_request" where
  "Api_set_pushrule access_token scope kind rule_id before_rule after_rule actions conditions pattern =
     (let content = [(''actions'', JArr (map action_as_value actions))] in
      rbind
        (case (before_rule, after_rule) of
           (Some b, Some a) \<Rightarrow> Inl (TypeError ''before and after cannot be both specified'')
         | (Some b, None) \<Rightarrow> Inr (dset (access access_token) ''before'' (QStr b))
         | (None, Some a) \<Rightarrow> Inr (dset (access access_token) ''after'' (QStr a))
         | (None, None) \<Rightarrow> Inr (access access_token))
        (\<lambda>q. rbind
          (case pattern of
             None \<Rightarrow> Inr content
           | Some p \<Rightarrow>
               if kind \<noteq> kind_content then Inl (TypeError ''pattern can only be set for content rules'')
               else Inr (dset content ''pattern'' (JStr p)))
          (\<lambda>content. rbind
            (case conditions of
               None \<Rightarrow> Inr content
             | Some cs \<Rightarrow>
                 if kind \<notin> {kind_override, kind_underride}
                 then Inl (TypeError ''conditions can only be set for override/underride rules'')
                 else Inr (dset content ''conditions'' (JArr (map condition_as_value cs))))
            (\<lambda>content. Inr (''PUT'', path_v3 [''pushrules'', scope, push_kind_value kind, rule_id] q,
                              to_json content)))))"

definition Api_delete_pushrule :: "string \<Rightarrow> string \<Rightarrow> push_rule_kind \<Rightarrow> string \<Rightarrow> request" where
  "Api_delete_pushrule access_token scope kind rule_id =
     (''DELETE'', path_v3 [''pushrules'', scope, push_kind_value kind, rule_id] (access access_token))"

definition Api_enable_pushrule ::
  "string \<Rightarrow> string \<Rightarrow> push_rule_kind \<Rightarrow> string \<Rightarrow> bool \<Rightarrow> body_request" where
  "Api_enable_pushrule access_token scope kind rule_id enable =
     (''PUT'', path_v3 [''pushrules'', scope, push_kind_value kind, rule_id, ''enabled''] (access access_token),
      to_json [(''enabled'', JBool enable)])"

definition Api_set_pushrule_actions ::
  "string \<Rightarrow> string \<Rightarrow> push_rule_kind \<Rightarrow> string \<Rightarrow> push_action list \<Rightarrow> body_request" where
  "Api_set_pushrule_actions access_token scope kind rule_id actions =
     (''PUT'', path_v3 [''pushrules'', scope, push_kind_value kind, rule_id, ''actions''] (access access_token),
      to_json [(''actions'', JArr (map action_as_value actions))])"


section \<open>Requests that name different things have different targets\<close>

lemma path_inject:
  assumes "build_path (PathParts ps) q base = build_path (PathParts ps') q' base"
    and "\<exists>p\<in>set ps. p \<noteq> []" "\<exists>p\<in>set ps'. p \<noteq> []" "CHR ''?'' \<notin> set base"
  shows "drop_last_empties ps = drop_last_empties ps' \<and>
    map (\<lambda>(k, v). (k, qtext v)) q = map (\<lambda>(k, v). (k, qtext v)) q'"
  using parse_build_path[of ps base q] parse_build_path[of ps' base q'] assms by simp

text \<open>A send request's target is its idempotency key: two sends with the same target have
  the same access token, room, event type and transaction id, so no pair of different sends can be
  confused by the server.\<close>

theorem room_send_target_injective:
  assumes "fst (snd (Api_room_send a room etype body tx)) = fst (snd (Api_room_send a' room' etype' body' tx'))"
    and "tx \<noteq> []" "tx' \<noteq> []"
  shows "a = a' \<and> room = room' \<and> etype = etype' \<and> tx = tx'"
  using path_inject[OF assms(1)[unfolded Api_room_send_def, simplified]] assms(2,3)
  by (simp add: drop_last_empties_id access_def)

theorem room_send_target_injective_witness:
  "fst (snd (Api_room_send ''tok'' ''!r:x'' ''m/t'' [] ''1'')) = fst (snd (Api_room_send ''tok'' ''!r:x'' ''m/t'' [] ''1''))
   \<and> ''m/t'' = ''m/t''"
  using room_send_target_injective[of "''tok''" "''!r:x''" "''m/t''" "[]" "''1''"
      "''tok''" "''!r:x''" "''m/t''" "[]" "''1''"] by simp

text \<open>Reading and writing a state event address the same target, and the target determines
  the room, the event type and the state key, the empty state key included.\<close>

theorem state_target_injective:
  assumes "etype \<noteq> []" "etype' \<noteq> []"
  shows "snd (Api_room_get_state_event a room etype key) = fst (snd (Api_room_put_state a room etype body key)) \<and>
    (snd (Api_room_get_state_event a room etype key) = snd (Api_room_get_state_event a' room' etype' key') \<longrightarrow>
       a = a' \<and> room = room' \<and> etype = etype' \<and> key = key')"
proof -
  have d: "drop_last_empties [''rooms'', r, ''state'', t, k] =
      [''rooms'', r, ''state'', t] @ (if k = [] then [] else [k])" if "t \<noteq> []" for r t k
    using that by (simp add: drop_last_empties_def)
  show ?thesis
    using path_inject[of "[''rooms'', room, ''state'', etype, key]" "access a" MATRIX_API_PATH_V3
        "[''rooms'', room', ''state'', etype', key']" "access a'"] assms
    by (auto simp: Api_room_get_state_event_def Api_room_put_state_def d access_def split: if_splits)
qed

theorem state_target_injective_witness:
  "snd (Api_room_get_state_event ''tok'' ''!r'' ''m.room.name'' []) =
   fst (snd (Api_room_put_state ''tok'' ''!r'' ''m.room.name'' [] []))"
  using state_target_injective[of "''m.room.name''" "''m.room.name''"] by simp

section \<open>Claiming one-time keys\<close>

definition claimed :: "(string, (string, string) dict) dict \<Rightarrow> string \<Rightarrow> string \<Rightarrow> string option" where
  "claimed payload u d = dget (dget_or payload u []) d"

lemma claimed_device:
  "claimed (claim_device payload v e) u d =
     (if u = v \<and> d = e then Some ''signed_curve25519'' else claimed payload u d)"
  by (simp add: claimed_def claim_device_def dget_or_def)

lemma claimed_devices:
  "claimed (foldl (\<lambda>p. claim_device p v) payload ds) u d =
     (if u = v \<and> d \<in> set ds then Some ''signed_curve25519'' else claimed payload u d)"
  by (induction ds arbitrary: payload) (auto simp: claimed_device)

lemma claimed_users:
  "claimed (foldl (\<lambda>p (v, ds). foldl (\<lambda>p. claim_device p v) p ds) payload us) u d =
     (if \<exists>ds. (u, ds) \<in> set us \<and> d \<in> set ds then Some ''signed_curve25519'' else claimed payload u d)"
  by (induction us arbitrary: payload) (auto simp: claimed_devices)

text \<open>A claim request asks for a signed key of exactly the devices it was given: every
  listed device once, no other device and no other algorithm.\<close>

theorem keys_claim_exact:
  "claimed (claim_payload us) u d =
     (if \<exists>ds. (u, ds) \<in> set us \<and> d \<in> set ds then Some ''signed_curve25519'' else None)"
  by (simp add: claim_payload_def claimed_users) (simp add: claimed_def dget_or_def)

section \<open>Push rules\<close>

text \<open>\<^verbatim>\<open>set_pushrule\<close> builds a request exactly when it is given at most one position, a
  pattern only for content rules and conditions only for override and underride rules; every
  other call raises TypeError.\<close>

theorem set_pushrule_accepts:
  "(\<exists>r. Api_set_pushrule a scope kind rule b af acts cs pat = Inr r) =
     ((b = None \<or> af = None) \<and> (pat \<noteq> None \<longrightarrow> kind = kind_content) \<and>
      (cs \<noteq> None \<longrightarrow> kind = kind_override \<or> kind = kind_underride)) \<and>
   (\<forall>e. Api_set_pushrule a scope kind rule b af acts cs pat = Inl e \<longrightarrow> (\<exists>m. e = TypeError m))"
  by (cases kind; cases b; cases af; cases cs; cases pat) (simp_all add: Api_set_pushrule_def)

theorem set_pushrule_accepts_witness:
  "\<exists>r. Api_set_pushrule ''tok'' ''global'' kind_content ''words'' (Some ''other'') None [PushNotify] None (Some ''p*'') = Inr r"
  using set_pushrule_accepts[of "''tok''" "''global''" kind_content "''words''" "Some ''other''" None
      "[PushNotify]" None "Some ''p*''"] by simp

section \<open>Values the query string cannot express\<close>

text \<open>\<^verbatim>\<open>urlencode\<close> writes \<^verbatim>\<open>str(value)\<close>: the boolean of \<^verbatim>\<open>suggested_only\<close> reaches the
  server as \<^verbatim>\<open>True\<close>, where the endpoint expects \<^verbatim>\<open>true\<close> (as \<^verbatim>\<open>recurse\<close> and
  \<^verbatim>\<open>full_state\<close> write it), and an absent media token as the token \<^verbatim>\<open>None\<close>.\<close>

theorem hierarchy_suggested_only_text:
  "snd (parse_target MATRIX_API_PATH_V1 (snd (Api_space_get_hierarchy a space None None None True))) =
     [(''access_token'', a), (''suggested_only'', ''True'')]"
  using parse_build_path[of "[''rooms'', space, ''hierarchy'']" MATRIX_API_PATH_V1]
  by (simp add: Api_space_get_hierarchy_def put_if_true_def access_def)

theorem download_without_token_text:
  "snd (parse_target MATRIX_MEDIA_API_PATH (snd (Api_download server media None True None))) =
     [(''allow_remote'', ''true''), (''access_token'', ''None'')]"
  using parse_build_path[of "[''download'', server, media, []]" MATRIX_MEDIA_API_PATH]
  by (simp add: Api_download_def qstr_opt_def)

end
