(* ===== verification/Durable_Recovery.thy ===== *)
theory Durable_Recovery
  imports Durable_Tenure Nio_Api
begin

text \<open>
  Gap recovery, \<^verbatim>\<open>src/nio/durable/recovery.py\<close>: the bounded pagination that fills the interval
  between the last durable position of a room and the start of the timeline a response carries.
  The control record is the continuation the store keeps between two pages. The answers of the
  server are arguments, so every lemma holds against any server; what the client's iterator
  makes of the events of a page is the parameter \<open>feeds_of\<close>.
\<close>

section \<open>Control state\<close>

text \<open>The starts of the rooms are part of the continuation of a sliding sync only.\<close>

record recovery_control =
  rc_phase :: string
  rc_old_cursor :: "string option"
  rc_room_index :: nat
  rc_history_rooms :: "string list"
  rc_unknown_rooms :: "string list"
  rc_explicit_rooms :: "string list"
  rc_applied_ids :: "(string, string list) dict"
  rc_from :: "string option"
  rc_pages :: nat
  rc_seen_tokens :: "string option list"
  rc_limit :: int
  rc_sliding_starts :: "(string, string option) dict option"
  rc_other :: jobj

definition control_obj :: "recovery_control \<Rightarrow> jobj" where
  "control_obj c =
      [(''phase'', JStr (rc_phase c)), (''old_cursor'', jstr_opt (rc_old_cursor c)),
       (''room_index'', JInt (int (rc_room_index c))),
       (''history_rooms'', JArr (map JStr (rc_history_rooms c))),
       (''unknown_rooms'', JArr (map JStr (rc_unknown_rooms c))),
       (''explicit_rooms'', JArr (map JStr (rc_explicit_rooms c))),
       (''applied_ids'', JObj (map (\<lambda>(r, ids). (r, JArr (map JStr ids))) (rc_applied_ids c))),
       (''from'', jstr_opt (rc_from c)), (''pages'', JInt (int (rc_pages c))),
       (''seen_tokens'', JArr (map jstr_opt (rc_seen_tokens c))), (''limit'', JInt (rc_limit c))] @
      (case rc_sliding_starts c of None \<Rightarrow> []
       | Some starts \<Rightarrow> [(''sliding_starts'', JObj (map (\<lambda>(r, t). (r, jstr_opt t)) starts))]) @ rc_other c"

text \<open>A room with a limited timeline: its boundary token and the events its tail already carries.\<close>

record candidate =
  cd_room_id :: string
  cd_target :: "string option"
  cd_tail_ids :: "string list"
  cd_section :: string

definition PAGE_BYTES :: int where
  "PAGE_BYTES = 2 * 1024 * 1024"

definition CONTROL_BYTES :: int where
  "CONTROL_BYTES = 2 * 1024 * 1024"

definition next_room :: "durable_config \<Rightarrow> candidate list \<Rightarrow> nat \<Rightarrow> recovery_control \<Rightarrow> recovery_control" where
  "next_room cfg candidates index c =
     (let start = (if uses_sliding cfg \<and> index < length candidates
                   then dget_or (case rc_sliding_starts c of None \<Rightarrow> [] | Some starts \<Rightarrow> starts) (cd_room_id (candidates ! index)) None
                   else rc_old_cursor c)
      in c \<lparr> rc_room_index := index, rc_from := start, rc_pages := 0, rc_seen_tokens := [start],
             rc_limit := min (recovery_page_size cfg) 100,
             rc_phase := (if length candidates \<le> index then ''tail'' else rc_phase c) \<rparr>)"

section \<open>Reading a page\<close>

text \<open>
  How the page request may end: a body (decoded JSON), a body beyond \<open>PAGE_BYTES\<close>, one of the
  errors the code treats as unavailable history, or an exception it lets through.
\<close>

datatype page_reply = Page_Body json | Page_Too_Large | Page_Unavailable | Page_Raises exn

datatype page_check =
    Page_Ok "jobj list" "string option"
  | Page_Shrink
  | Page_Malformed
  | Page_Abort exn

fun event_id_of :: "json \<Rightarrow> string option" where
  "event_id_of (JObj d) = (case jget d ''event_id'' of
      JStr i \<Rightarrow> if i \<noteq> [] \<and> py_len i \<le> 8192 then Some i else None
    | _ \<Rightarrow> None)"
| "event_id_of _ = None"

fun the_obj :: "json \<Rightarrow> jobj" where
  "the_obj (JObj d) = d"
| "the_obj _ = []"

definition page_end :: "jobj \<Rightarrow> string option option" where
  "page_end raw = (case dget raw ''end'' of None \<Rightarrow> Some None | Some (JStr e) \<Rightarrow> Some (Some e) | Some _ \<Rightarrow> None)"

text \<open>\<open>parses\<close> says that the event parsers accept the chunk: a response of the same length with no
  malformed event. The schema of the response wants the start to be a string.\<close>

definition check_page :: "(json list \<Rightarrow> bool) \<Rightarrow> recovery_control \<Rightarrow> page_reply \<Rightarrow> page_check" where
  "check_page parses c reply =
     (case reply of
        Page_Raises e \<Rightarrow> Page_Abort e
      | Page_Unavailable \<Rightarrow> Page_Malformed
      | Page_Too_Large \<Rightarrow> Page_Shrink
      | Page_Body body \<Rightarrow>
          (case body of
             JObj raw \<Rightarrow>
               if jget raw ''start'' \<noteq> jstr_opt (rc_from c) then Page_Malformed
               else (case jget raw ''chunk'' of
                 JArr chunk \<Rightarrow>
                   if rc_limit c < int (length chunk) then Page_Shrink
                   else if list_ex (\<lambda>e. event_id_of e = None) chunk then Page_Malformed
                   else if \<not> parses chunk \<or> rc_from c = None then Page_Malformed
                   else (case page_end raw of
                       None \<Rightarrow> Page_Malformed
                     | Some e \<Rightarrow> Page_Ok (map the_obj chunk) e)
               | _ \<Rightarrow> Page_Malformed)
           | _ \<Rightarrow> Page_Malformed))"

definition eid :: "jobj \<Rightarrow> string" where
  "eid d = (case jget d ''event_id'' of JStr i \<Rightarrow> i | _ \<Rightarrow> [])"

text \<open>The new events of a page, the identities seen so far, and whether the tail was reached. A
  classic page stops at the first event of the tail, a sliding one skips it.\<close>

fun scan_page :: "bool \<Rightarrow> string list \<Rightarrow> string list \<Rightarrow> jobj list \<Rightarrow> jobj list \<times> string list \<times> bool" where
  "scan_page sliding tail_ids seen [] = ([], seen, False)"
| "scan_page sliding tail_ids seen (e # es) =
     (if eid e \<in> set tail_ids then
        (if sliding then (case scan_page sliding tail_ids seen es of (evs, seen', _) \<Rightarrow> (evs, seen', True))
         else ([], seen, True))
      else if eid e \<in> set seen then scan_page sliding tail_ids seen es
      else (case scan_page sliding tail_ids (seen @ [eid e]) es of (evs, seen', ov) \<Rightarrow> (e # evs, seen', ov)))"

section \<open>One step\<close>

datatype decision =
    Commit_Page recovery_control "jobj list" "string option" bool "string option"
  | Shrink_Page recovery_control
  | Abort exn

definition applied_of :: "recovery_control \<Rightarrow> string \<Rightarrow> string list" where
  "applied_of c room_id = dget_or (rc_applied_ids c) room_id []"

definition page_finished :: "bool \<Rightarrow> string \<Rightarrow> jobj list \<Rightarrow> string option \<Rightarrow> bool \<Rightarrow> bool" where
  "page_finished sliding target chunk end_token overlap =
     (end_token = Some target \<or> (if sliding then chunk = [] \<and> end_token = None else overlap))"

definition bad_token :: "recovery_control \<Rightarrow> string option \<Rightarrow> bool" where
  "bad_token c end_token =
     (case end_token of None \<Rightarrow> True
      | Some e \<Rightarrow> e = [] \<or> 8192 < py_len e \<or> Some e \<in> set (rc_seen_tokens c))"

definition take_page ::
  "bool \<Rightarrow> candidate \<Rightarrow> string \<Rightarrow> recovery_control \<Rightarrow> jobj list \<Rightarrow> string option \<Rightarrow> decision" where
  "take_page sliding cd target c chunk end_token =
     (let room_id = cd_room_id cd;
          previous_ids = applied_of c room_id;
          (events, seen, overlap) = scan_page sliding (cd_tail_ids cd) previous_ids chunk;
          finished = page_finished sliding target chunk end_token overlap;
          broken = (\<not> finished \<and> bad_token c end_token);
          c = c \<lparr> rc_pages := Suc (rc_pages c), rc_applied_ids := dset (rc_applied_ids c) room_id seen \<rparr>;
          c = (if end_token \<noteq> None \<and> end_token \<noteq> Some [] \<and> \<not> finished \<and> \<not> broken
               then c \<lparr> rc_seen_tokens := rc_seen_tokens c @ [end_token] \<rparr> else c)
      in if CONTROL_BYTES < int (json_size (JObj (control_obj c)))
         then Commit_Page (c \<lparr> rc_applied_ids := dset (rc_applied_ids c) room_id previous_ids \<rparr>) [] end_token True
                (Some ''history continuation bound exhausted'')
         else Commit_Page c events end_token (finished \<or> broken)
                (if broken then Some ''history boundary missing or token cycle'' else None))"

definition lost :: "recovery_control \<Rightarrow> string \<Rightarrow> decision" where
  "lost c reason = Commit_Page c [] None True (Some reason)"

definition decide ::
  "(json list \<Rightarrow> bool) \<Rightarrow> durable_config \<Rightarrow> candidate \<Rightarrow> recovery_control \<Rightarrow> page_reply \<Rightarrow> decision" where
  "decide parses cfg cd c reply =
     (if cd_room_id cd \<in> set (rc_unknown_rooms c) then Commit_Page c [] None True None
      else case cd_target cd of
        None \<Rightarrow> lost c ''missing or oversized history boundary''
      | Some target \<Rightarrow>
          if target = [] \<or> 8192 < py_len target then lost c ''missing or oversized history boundary''
          else if rc_from c = Some target then Commit_Page c [] None True None
          else if min (max_recovery_pages cfg) 1000 \<le> int (rc_pages c) then lost c ''history page limit exhausted''
          else (case check_page parses c reply of
              Page_Abort e \<Rightarrow> Abort e
            | Page_Shrink \<Rightarrow>
                if 1 < rc_limit c then Shrink_Page (c \<lparr> rc_limit := max 1 (rc_limit c div 2) \<rparr>)
                else lost c ''oversized history event''
            | Page_Malformed \<Rightarrow> lost c ''history unavailable or malformed''
            | Page_Ok chunk e \<Rightarrow> take_page (uses_sliding cfg) cd target c chunk e))"

section \<open>Committing a page\<close>

definition loss_record :: "string \<Rightarrow> string \<Rightarrow> nat \<Rightarrow> own_membership option \<Rightarrow> int \<Rightarrow> sync_record" where
  "loss_record room_id reason pages membership epoch =
     \<lparr> sr_kind = LOSS, sr_room_id = Some room_id,
       sr_source = [(''reason'', JStr reason), (''pages'', JInt (int pages))], sr_clear = None,
       sr_provenance = None, sr_membership_epoch = Some epoch, sr_crypto = None,
       sr_membership = membership, sr_route = None, sr_codec = None \<rparr>"

definition report_loss :: "string \<Rightarrow> nat \<Rightarrow> string \<Rightarrow> own_membership option \<Rightarrow> (session, unit) op" where
  "report_loss room_id pages reason membership =
     andthen (modify (set_meta room_id (\<lambda>m. m \<lparr> rt_baseline := False \<rparr>)))
     (bnd (reads (\<lambda>s. rt_epoch (meta_of s room_id))) (\<lambda>epoch.
      publish_all [loss_record room_id reason pages membership epoch]))"

definition note_history :: "string \<Rightarrow> recovery_control \<Rightarrow> recovery_control" where
  "note_history room_id c =
     (if room_id \<in> set (rc_history_rooms c) then c
      else c \<lparr> rc_history_rooms := rc_history_rooms c @ [room_id] \<rparr>)"

text \<open>A room that is not live is restored from its rows before a page is applied to it.\<close>

definition ensure_room :: "string \<Rightarrow> (session, unit) op" where
  "ensure_room room_id =
     bnd (reads (\<lambda>s. dget (se_rooms s) room_id)) (\<lambda>live.
     case live of
       Some _ \<Rightarrow> ret ()
     | None \<Rightarrow>
         bnd (reads (\<lambda>s. rt_saved (meta_of s room_id))) (\<lambda>saved.
         case saved of
           None \<Rightarrow> raise (KeyError room_id)
         | Some meta \<Rightarrow>
             modify (\<lambda>s. let rows = map (\<lambda>p. (snd (fst p), snd p)) (filter (\<lambda>p. fst (fst p) = room_id) (se_members s))
                         in s \<lparr> se_rooms := dset (se_rooms s) room_id (as_room (restore_room room_id meta rows)) \<rparr>)))"

definition page_processor :: "recovery_control \<Rightarrow> session \<Rightarrow> processor" where
  "page_processor c s = Processor s (rc_history_rooms c) (set (rc_explicit_rooms c)) RECOVERED [] True"

text \<open>The consumption of a page: the processor it leaves.\<close>

definition apply_events :: "recovery_control \<Rightarrow> string \<Rightarrow> feed list \<Rightarrow> (session, processor) op" where
  "apply_events c room_id feeds =
     andthen (ensure_room room_id)
     (\<lambda>s. case consume feeds (page_processor c s) of
            (Inr _, p) \<Rightarrow> (Inr p, pr_session p)
          | (Inl e, p) \<Rightarrow> (Inl e, pr_session p))"

text \<open>An oversized event ends the page: the events after it stay unapplied and unrecorded.\<close>

definition keep_applied :: "jobj list \<Rightarrow> processor \<Rightarrow> string \<Rightarrow> recovery_control \<Rightarrow> recovery_control" where
  "keep_applied events p room_id c =
     (let untouched = map eid (drop (pr_processed_records p + 1) events)
      in c \<lparr> rc_applied_ids := dset (rc_applied_ids c) room_id
               (filter (\<lambda>i. i \<notin> set untouched) (applied_of c room_id)) \<rparr>)"

definition save_processor :: "processor \<Rightarrow> (session, unit) op" where
  "save_processor p s = (case save (p \<lparr> pr_session := s \<rparr>) of (r, p') \<Rightarrow> (r, pr_session p'))"

definition settle_page ::
  "durable_config \<Rightarrow> candidate list \<Rightarrow> string \<Rightarrow> processor \<Rightarrow> string option \<Rightarrow> bool \<Rightarrow> string option \<Rightarrow> recovery_control \<Rightarrow>
   (session, recovery_control) op" where
  "settle_page cfg candidates room_id p end_token finished loss c =
     andthen (case loss of
                None \<Rightarrow> ret ()
              | Some reason \<Rightarrow> report_loss room_id (rc_pages c) reason (pr_oversized_membership p))
     (bnd (reads (\<lambda>s. dget (se_rooms s) room_id)) (\<lambda>live.
      let p = (case live of
                 Some r \<Rightarrow> if loss = None then p else p \<lparr> pr_rooms := dset (pr_rooms p) room_id (JoinedRoom r) \<rparr>
               | None \<Rightarrow> p);
          c = c \<lparr> rc_explicit_rooms := sorted_list_of_set (pr_explicit p) \<rparr>
      in
      andthen (save_processor p)
      (let c = (if finished then next_room cfg candidates (Suc (rc_room_index c)) c
                else c \<lparr> rc_from := end_token \<rparr>)
       in andthen (on_store (save_continuation (control_obj c))) (ret c))))"

definition commit_page ::
  "durable_config \<Rightarrow> (string \<Rightarrow> jobj list \<Rightarrow> feed list) \<Rightarrow> candidate list \<Rightarrow> string \<Rightarrow> recovery_control \<Rightarrow> jobj list \<Rightarrow>
   string option \<Rightarrow> bool \<Rightarrow> string option \<Rightarrow> (session, recovery_control) op" where
  "commit_page cfg feeds_of candidates room_id c events end_token finished loss =
     bnd (if events = [] then reads (page_processor c)
          else apply_events c room_id (feeds_of room_id events)) (\<lambda>p.
     let large = pr_oversized p;
         loss = (if large then Some ''oversized recovered event'' else loss);
         c = (if large then keep_applied events p room_id c else c);
         c = c \<lparr> rc_history_rooms := pr_history_rooms p \<rparr>;
         c = (if loss = None then c else note_history room_id c)
     in settle_page cfg candidates room_id p end_token (finished \<or> large) loss c)"

definition poisoned :: "tx_env \<Rightarrow> (session, 'a) op \<Rightarrow> (session, 'a) op" where
  "poisoned env body s =
     (case session_tx env body s of
        (Inr a, t) \<Rightarrow> (Inr a, t)
      | (Inl e, t) \<Rightarrow> (Inl e, dispose t))"

text \<open>\<open>advance\<close> after \<open>prepare\<close>: at most one page, and none while the application has not
  acknowledged what earlier pages published.\<close>

definition advance ::
  "(json list \<Rightarrow> bool) \<Rightarrow> (string \<Rightarrow> jobj list \<Rightarrow> feed list) \<Rightarrow> candidate list \<Rightarrow> tx_env \<Rightarrow> page_reply \<Rightarrow>
   recovery_control \<Rightarrow> (session, recovery_control) op" where
  "advance parses feeds_of candidates env reply c =
     bnd (on_store has_batches) (\<lambda>pending.
     if pending \<or> rc_phase c \<noteq> ''recover'' then ret c
     else if length candidates \<le> rc_room_index c then raise (KeyError ''list index out of range'')
     else
       let cd = candidates ! rc_room_index c in
       bnd (reads se_config) (\<lambda>cfg.
       case decide parses cfg cd c reply of
         Abort e \<Rightarrow> raise e
       | Shrink_Page c' \<Rightarrow> andthen (session_tx env (on_store (save_continuation (control_obj c')))) (ret c')
       | Commit_Page c' events e finished loss \<Rightarrow>
           poisoned env (commit_page cfg feeds_of candidates (cd_room_id cd) c' events e finished loss)))"

section \<open>Scanning a page\<close>

lemma scan_page_facts:
  assumes "scan_page sliding tail seen es = (evs, seen', ov)"
  shows "distinct (map eid evs) \<and> set (map eid evs) \<inter> set tail = {} \<and> set (map eid evs) \<inter> set seen = {} \<and>
    set seen' = set seen \<union> set (map eid evs) \<and> set evs \<subseteq> set es \<and>
    (ov \<longrightarrow> (\<exists>e \<in> set es. eid e \<in> set tail))"
  using assms
proof (induction es arbitrary: seen evs seen' ov)
  case (Cons e es)
  obtain a b c where r: "scan_page sliding tail seen es = (a, b, c)"
    by (cases "scan_page sliding tail seen es")
  obtain a' b' c' where r': "scan_page sliding tail (seen @ [eid e]) es = (a', b', c')"
    by (cases "scan_page sliding tail (seen @ [eid e]) es")
  note IH = Cons.IH[OF r] Cons.IH[OF r']
  consider (tail) "eid e \<in> set tail" | (seen) "eid e \<notin> set tail" "eid e \<in> set seen"
    | (new) "eid e \<notin> set tail" "eid e \<notin> set seen" by blast
  then show ?case
  proof cases
    case tail
    then show ?thesis using IH(1) Cons.prems r by (cases sliding) auto
  next
    case seen
    then have "evs = a" "seen' = b" "ov = c" using Cons.prems r by simp_all
    then show ?thesis using IH(1) by auto
  next
    case new
    then have "evs = e # a'" "seen' = b'" "ov = c'" using Cons.prems r' by simp_all
    then show ?thesis using IH(2) new by auto
  qed
qed simp

text \<open>What a classic page must deliver: everything before its first event of the tail.\<close>

definition before_tail :: "bool \<Rightarrow> string list \<Rightarrow> jobj list \<Rightarrow> jobj list" where
  "before_tail sliding tail es =
     (if sliding then filter (\<lambda>e. eid e \<notin> set tail) es else takeWhile (\<lambda>e. eid e \<notin> set tail) es)"

lemma scan_page_complete:
  assumes "scan_page sliding tail seen es = (evs, seen', ov)"
  shows "set seen' = set seen \<union> eid ` set (before_tail sliding tail es)"
  using assms
proof (induction es arbitrary: seen evs seen' ov)
  case (Cons e es)
  obtain a b c where r: "scan_page sliding tail seen es = (a, b, c)"
    by (cases "scan_page sliding tail seen es")
  obtain a' b' c' where r': "scan_page sliding tail (seen @ [eid e]) es = (a', b', c')"
    by (cases "scan_page sliding tail (seen @ [eid e]) es")
  note IH = Cons.IH[OF r] Cons.IH[OF r']
  consider (tail) "eid e \<in> set tail" | (seen) "eid e \<notin> set tail" "eid e \<in> set seen"
    | (new) "eid e \<notin> set tail" "eid e \<notin> set seen" by blast
  then show ?case
  proof cases
    case tail
    then show ?thesis using IH(1) Cons.prems r by (cases sliding) (auto simp: before_tail_def)
  next
    case seen
    then have "seen' = b" using Cons.prems r by simp
    then show ?thesis using IH(1) seen by (auto simp: before_tail_def)
  next
    case new
    then have "seen' = b'" using Cons.prems r' by simp
    then show ?thesis using IH(2) new by (auto simp: before_tail_def)
  qed
qed (simp add: before_tail_def)

section \<open>Bounded work\<close>

fun halvings :: "nat \<Rightarrow> nat" where
  "halvings n = (if n \<le> 1 then 0 else Suc (halvings (n div 2)))"

declare halvings.simps [simp del]

lemma halvings_mono: "m \<le> n \<Longrightarrow> halvings m \<le> halvings n"
proof (induction n arbitrary: m rule: halvings.induct)
  case (1 n)
  show ?case
  proof (cases "m \<le> 1")
    case True
    then show ?thesis by (subst halvings.simps) simp
  next
    case False
    then have "halvings (m div 2) \<le> halvings (n div 2)"
      using 1 by (simp add: div_le_mono)
    then show ?thesis using False "1.prems" by (subst (1 2) halvings.simps) simp
  qed
qed

lemma halvings_100: "n \<le> 100 \<Longrightarrow> halvings n \<le> 6"
  using halvings_mono[of n 100] by (simp add: halvings.simps[of 100] halvings.simps[of 50] halvings.simps[of 25]
    halvings.simps[of 12] halvings.simps[of 6] halvings.simps[of 3] halvings.simps[of "Suc 0"])

lemma halvings_half: "2 \<le> n \<Longrightarrow> halvings (max 1 (n div 2)) < halvings n"
  by (subst (2) halvings.simps) simp

definition page_bound :: "durable_config \<Rightarrow> nat" where
  "page_bound cfg = nat (min (max_recovery_pages cfg) 1000)"

definition room_cost :: "durable_config \<Rightarrow> nat" where
  "room_cost cfg = page_bound cfg + 7"

definition control_ok :: "durable_config \<Rightarrow> recovery_control \<Rightarrow> bool" where
  "control_ok cfg c \<longleftrightarrow> rc_pages c \<le> page_bound cfg \<and> 1 \<le> rc_limit c \<and> rc_limit c \<le> 100"

definition turns_left :: "durable_config \<Rightarrow> candidate list \<Rightarrow> recovery_control \<Rightarrow> nat" where
  "turns_left cfg candidates c =
     (if rc_phase c \<noteq> ''recover'' \<or> length candidates \<le> rc_room_index c then 0
      else (length candidates - Suc (rc_room_index c)) * room_cost cfg +
           (page_bound cfg - rc_pages c) + halvings (nat (rc_limit c)) + 1)"

lemma next_room_ok:
  "0 < recovery_page_size cfg \<Longrightarrow> control_ok cfg (next_room cfg candidates i c)"
  by (simp add: next_room_def control_ok_def Let_def)

lemma next_room_left:
  assumes "0 < recovery_page_size cfg" "i \<le> length candidates"
  shows "turns_left cfg candidates (next_room cfg candidates i c) \<le> (length candidates - i) * room_cost cfg"
proof (cases "i < length candidates \<and> rc_phase c = ''recover''")
  case True
  have "halvings (nat (min (recovery_page_size cfg) 100)) \<le> 6"
    by (rule halvings_100) simp
  moreover have "turns_left cfg candidates (next_room cfg candidates i c) =
      (length candidates - Suc i) * room_cost cfg + page_bound cfg + halvings (nat (min (recovery_page_size cfg) 100)) + 1"
    using True by (simp add: turns_left_def next_room_def Let_def)
  moreover have "(length candidates - i) * room_cost cfg = (length candidates - Suc i) * room_cost cfg + room_cost cfg"
    using True by (metis Suc_diff_Suc add.commute mult_Suc)
  ultimately show ?thesis by (simp add: room_cost_def)
next
  case False
  then have "rc_phase (next_room cfg candidates i c) \<noteq> ''recover''"
    by (simp add: next_room_def Let_def)
  then show ?thesis by (simp add: turns_left_def)
qed

lemma done_room_left:
  assumes "0 < recovery_page_size cfg" "rc_phase c = ''recover''" "rc_room_index c < length candidates"
  shows "turns_left cfg candidates (next_room cfg candidates (Suc (rc_room_index c)) c') < turns_left cfg candidates c"
  using next_room_left[OF assms(1), of "Suc (rc_room_index c)" candidates c'] assms(2,3)
  by (simp add: turns_left_def)

text \<open>A page that does not finish the room has used one of its pages; a smaller page size is one
  halving less.\<close>

lemma take_page_cases:
  assumes "take_page sliding cd target c chunk e = Commit_Page c' events e' finished loss"
  shows "rc_phase c' = rc_phase c \<and> rc_room_index c' = rc_room_index c \<and> rc_limit c' = rc_limit c \<and>
    rc_pages c' = Suc (rc_pages c) \<and> rc_from c' = rc_from c"
proof -
  obtain evs seen ov where sc: "scan_page sliding (cd_tail_ids cd) (applied_of c (cd_room_id cd)) chunk = (evs, seen, ov)"
    by (cases "scan_page sliding (cd_tail_ids cd) (applied_of c (cd_room_id cd)) chunk")
  show ?thesis
    using assms unfolding take_page_def Let_def sc prod.case by (auto split: if_split_asm)
qed

lemma decide_commit:
  assumes "decide parses cfg cd c reply = Commit_Page c' events e finished loss"
  shows "rc_phase c' = rc_phase c \<and> rc_room_index c' = rc_room_index c \<and> rc_limit c' = rc_limit c \<and>
    (finished \<or> rc_pages c' = Suc (rc_pages c) \<and> rc_pages c < page_bound cfg)"
  using assms
  by (auto simp: decide_def lost_def page_bound_def split: if_splits option.splits page_check.splits
      dest!: take_page_cases)

lemma decide_shrink:
  assumes "decide parses cfg cd c reply = Shrink_Page c'"
  shows "1 < rc_limit c \<and> c' = c \<lparr> rc_limit := max 1 (rc_limit c div 2) \<rparr>"
  using assms
  by (auto simp: decide_def lost_def take_page_def Let_def split: if_splits option.splits page_check.splits prod.splits)

lemma note_history_fields [simp]:
  "rc_phase (note_history r c) = rc_phase c" "rc_room_index (note_history r c) = rc_room_index c"
  "rc_limit (note_history r c) = rc_limit c" "rc_pages (note_history r c) = rc_pages c"
  by (simp_all add: note_history_def)

lemma keep_applied_fields [simp]:
  "rc_phase (keep_applied evs p r c) = rc_phase c" "rc_room_index (keep_applied evs p r c) = rc_room_index c"
  "rc_limit (keep_applied evs p r c) = rc_limit c" "rc_pages (keep_applied evs p r c) = rc_pages c"
  by (simp_all add: keep_applied_def Let_def)

definition same_progress :: "recovery_control \<Rightarrow> recovery_control \<Rightarrow> bool" where
  "same_progress c c' \<longleftrightarrow> rc_phase c' = rc_phase c \<and> rc_room_index c' = rc_room_index c \<and>
     rc_limit c' = rc_limit c \<and> rc_pages c' = rc_pages c"

lemma settle_page_control:
  assumes "settle_page cfg candidates r p e finished loss c s = (Inr c', t)"
  shows "\<exists>c1. same_progress c c1 \<and>
    c' = (if finished then next_room cfg candidates (Suc (rc_room_index c)) c1 else c1 \<lparr> rc_from := e \<rparr>)"
proof -
  obtain live s1 where rest: "(let p = (case live of
                 Some x \<Rightarrow> if loss = None then p else p \<lparr> pr_rooms := dset (pr_rooms p) r (JoinedRoom x) \<rparr>
               | None \<Rightarrow> p);
          c = c \<lparr> rc_explicit_rooms := sorted_list_of_set (pr_explicit p) \<rparr>
      in
      andthen (save_processor p)
      (let c = (if finished then next_room cfg candidates (Suc (rc_room_index c)) c else c \<lparr> rc_from := e \<rparr>)
       in andthen (on_store (save_continuation (control_obj c))) (ret c))) s1 = (Inr c', t)"
    using assms unfolding settle_page_def bnd_Inr_iff reads_def by blast
  define x where "x = sorted_list_of_set (pr_explicit (case live of
                 Some x \<Rightarrow> if loss = None then p else p \<lparr> pr_rooms := dset (pr_rooms p) r (JoinedRoom x) \<rparr>
               | None \<Rightarrow> p))"
  define c1 where "c1 = c \<lparr> rc_explicit_rooms := x \<rparr>"
  have "c' = (if finished then next_room cfg candidates (Suc (rc_room_index c1)) c1 else c1 \<lparr> rc_from := e \<rparr>)"
    using rest unfolding Let_def x_def[symmetric] c1_def[symmetric] bnd_Inr_iff ret_def by blast
  then show ?thesis by (intro exI[of _ c1]) (simp add: c1_def same_progress_def)
qed

lemma commit_page_control:
  assumes "commit_page cfg feeds_of candidates r c events e finished loss s = (Inr c', t)"
  shows "\<exists>c1 fin. same_progress c c1 \<and> (finished \<longrightarrow> fin) \<and>
    c' = (if fin then next_room cfg candidates (Suc (rc_room_index c)) c1 else c1 \<lparr> rc_from := e \<rparr>)"
proof -
  obtain p s1 where run: "(let large = pr_oversized p;
         loss = (if large then Some ''oversized recovered event'' else loss);
         c = (if large then keep_applied events p r c else c);
         c = c \<lparr> rc_history_rooms := pr_history_rooms p \<rparr>;
         c = (if loss = None then c else note_history r c)
     in settle_page cfg candidates r p e (finished \<or> large) loss c) s1 = (Inr c', t)"
    using assms unfolding commit_page_def bnd_Inr_iff by blast
  define loss' where "loss' = (if pr_oversized p then Some ''oversized recovered event'' else loss)"
  define c1 where "c1 = (if pr_oversized p then keep_applied events p r c else c) \<lparr> rc_history_rooms := pr_history_rooms p \<rparr>"
  define c2 where "c2 = (if loss' = None then c1 else note_history r c1)"
  have "settle_page cfg candidates r p e (finished \<or> pr_oversized p) loss' c2 s1 = (Inr c', t)"
    using run by (simp only: Let_def loss'_def c1_def c2_def)
  from settle_page_control[OF this] obtain c3 where c3: "same_progress c2 c3"
    "c' = (if finished \<or> pr_oversized p then next_room cfg candidates (Suc (rc_room_index c2)) c3
       else c3 \<lparr> rc_from := e \<rparr>)" by blast
  moreover have "same_progress c c2"
    by (simp add: c2_def c1_def same_progress_def)
  ultimately show ?thesis
    by (intro exI[of _ c3] exI[of _ "finished \<or> pr_oversized p"]) (simp add: same_progress_def)
qed

lemma poisoned_Inr:
  assumes "poisoned env body s = (Inr a, t)"
  shows "\<exists>s1 t1. body s1 = (Inr a, t1)"
  using assms session_tx_Inr[of env body s a t] by (auto simp: poisoned_def split: prod.splits sum.splits)

lemma advance_turn:
  assumes cfg: "se_config s = cfg" "0 < recovery_page_size cfg"
    and c: "control_ok cfg c" "rc_phase c = ''recover''" and idle: "fst (on_store has_batches s) = Inr False"
    and run: "advance parses feeds_of candidates env reply c s = (Inr c', t)"
  shows "control_ok cfg c' \<and> turns_left cfg candidates c' < turns_left cfg candidates c"
proof -
  obtain s1 where s1: "on_store has_batches s = (Inr False, s1)"
    using idle by (cases "on_store has_batches s") simp
  then have "se_config s1 = cfg"
    using cfg(1) by (auto simp: on_store_def split: prod.splits)
  define cd where "cd = candidates ! rc_room_index c"
  have index: "rc_room_index c < length candidates"
    and step: "(case decide parses cfg cd c reply of
         Abort e \<Rightarrow> raise e
       | Shrink_Page c' \<Rightarrow> andthen (session_tx env (on_store (save_continuation (control_obj c')))) (ret c')
       | Commit_Page c' events e finished loss \<Rightarrow>
           poisoned env (commit_page cfg feeds_of candidates (cd_room_id cd) c' events e finished loss)) s1 = (Inr c', t)"
    using run c(2) \<open>se_config s1 = cfg\<close> unfolding cd_def
    by (auto simp: advance_def bnd_def[of "on_store has_batches"] s1 raise_def bnd_def[of "reads _"] reads_def Let_def
        split: if_splits)
  show ?thesis
  proof (cases "decide parses cfg cd c reply")
    case (Commit_Page c1 events e finished loss)
    then have d: "rc_phase c1 = rc_phase c" "rc_room_index c1 = rc_room_index c" "rc_limit c1 = rc_limit c"
        "finished \<or> rc_pages c1 = Suc (rc_pages c) \<and> rc_pages c < page_bound cfg"
      using decide_commit by auto
    from step Commit_Page have "poisoned env (commit_page cfg feeds_of candidates (cd_room_id cd) c1 events e finished loss) s1 = (Inr c', t)"
      by simp
    from poisoned_Inr[OF this] obtain s2 t2 where
      "commit_page cfg feeds_of candidates (cd_room_id cd) c1 events e finished loss s2 = (Inr c', t2)" by blast
    from commit_page_control[OF this] obtain c2 fin where c2: "same_progress c1 c2" "finished \<longrightarrow> fin"
      "c' = (if fin then next_room cfg candidates (Suc (rc_room_index c1)) c2 else c2 \<lparr> rc_from := e \<rparr>)" by blast
    show ?thesis
    proof (cases fin)
      case True
      then show ?thesis
        using c2 d(2) next_room_ok[OF cfg(2)] done_room_left[OF cfg(2) c(2) index] by simp
    next
      case False
      then show ?thesis
        using c2 d c index by (auto simp: same_progress_def control_ok_def turns_left_def)
    qed
  next
    case (Shrink_Page c1)
    then have "c' = c1" using step by (auto simp: bnd_Inr_iff ret_def)
    moreover note d = decide_shrink[OF Shrink_Page]
    moreover have "halvings (nat (max 1 (rc_limit c div 2))) < halvings (nat (rc_limit c))"
    proof -
      have "nat (max 1 (rc_limit c div 2)) = max 1 (nat (rc_limit c) div 2)"
        using d by (simp add: max_def nat_div_distrib) linarith
      moreover have "2 \<le> nat (rc_limit c)" using d by linarith
      ultimately show ?thesis by (simp only: halvings_half)
    qed
    ultimately show ?thesis
      using c index by (auto simp: control_ok_def turns_left_def) linarith
  next
    case (Abort e)
    then show ?thesis using step by (simp add: raise_def)
  qed
qed

section \<open>Properties\<close>

text \<open>
  \<open>recovering n c c'\<close>: from \<open>c\<close>, \<open>n\<close> turns of \<open>advance\<close> that were not held back by unacknowledged
  batches led to \<open>c'\<close>; each with any answer of the server and in any state of the session.
\<close>

inductive recovering ::
  "(json list \<Rightarrow> bool) \<Rightarrow> (string \<Rightarrow> jobj list \<Rightarrow> feed list) \<Rightarrow> durable_config \<Rightarrow> candidate list \<Rightarrow>
   nat \<Rightarrow> recovery_control \<Rightarrow> recovery_control \<Rightarrow> bool"
  for parses feeds_of cfg candidates where
  Begin: "recovering parses feeds_of cfg candidates 0 c c"
| Turn: "recovering parses feeds_of cfg candidates n c c' \<Longrightarrow> se_config s = cfg \<Longrightarrow>
    fst (on_store has_batches s) = Inr False \<Longrightarrow> rc_phase c' = ''recover'' \<Longrightarrow>
    advance parses feeds_of candidates env reply c' s = (Inr c'', t) \<Longrightarrow>
    recovering parses feeds_of cfg candidates (Suc n) c c''"

lemma recovering_bound:
  "recovering parses feeds_of cfg candidates n c c' \<Longrightarrow> 0 < recovery_page_size cfg \<Longrightarrow> control_ok cfg c \<Longrightarrow>
   control_ok cfg c' \<and> n + turns_left cfg candidates c' \<le> turns_left cfg candidates c"
proof (induction rule: recovering.induct)
  case (Turn n c c' s env reply c'' t)
  then have "control_ok cfg c''" "turns_left cfg candidates c'' < turns_left cfg candidates c'"
    using advance_turn[OF Turn.hyps(2) Turn.prems(1) _ Turn.hyps(4,3,5)] by simp_all
  then show ?case using Turn.IH Turn.prems by simp
qed simp

text \<open>C8: recovery ends against any server: the turns that send a page request or commit a page, for all
  rooms of one response together, are at most the number of rooms times the page limit plus seven
  (six halvings of the page size and one final turn), whatever the server answers.\<close>

theorem recovery_terminates:
  assumes "0 < recovery_page_size cfg" and "rc_phase c0 = ''recover''"
    and "recovering parses feeds_of cfg candidates n (next_room cfg candidates 0 c0) c"
  shows "n \<le> length candidates * (page_bound cfg + 7)"
  using recovering_bound[OF assms(3,1) next_room_ok[OF assms(1)]] next_room_left[OF assms(1), of 0 candidates c0]
  by (simp add: room_cost_def)

definition interval_closed :: "durable_config \<Rightarrow> candidate \<Rightarrow> recovery_control \<Rightarrow> page_reply \<Rightarrow> bool" where
  "interval_closed cfg cd c reply \<longleftrightarrow>
     cd_room_id cd \<in> set (rc_unknown_rooms c) \<or> rc_from c = cd_target cd \<or>
     (case reply of
        Page_Body (JObj raw) \<Rightarrow>
          dget raw ''end'' = Some (jstr_opt (cd_target cd)) \<or>
          (case jget raw ''chunk'' of
             JArr chunk \<Rightarrow>
               if uses_sliding cfg then chunk = [] \<and> dget raw ''end'' = None
               else list_ex (\<lambda>e. eid (the_obj e) \<in> set (cd_tail_ids cd)) chunk
           | _ \<Rightarrow> False)
      | _ \<Rightarrow> False)"

text \<open>C9: a room's recovery ends without a loss record only when the interval is closed: the room was
  already reported as unknown, the position reached the boundary of the response, the page ended at
  that boundary, it carried an event of the retained tail, or (sliding) the history was exhausted.\<close>

theorem no_silent_gap:
  assumes "decide parses cfg cd c reply = Commit_Page c' events e True None"
  shows "interval_closed cfg cd c reply"
proof (cases "cd_room_id cd \<in> set (rc_unknown_rooms c) \<or> rc_from c = cd_target cd")
  case True
  then show ?thesis by (auto simp: interval_closed_def)
next
  case False
  then obtain target chunk ft where target: "cd_target cd = Some target"
    and page: "check_page parses c reply = Page_Ok chunk ft"
    and take: "take_page (uses_sliding cfg) cd target c chunk ft = Commit_Page c' events e True None"
    using assms by (auto simp: decide_def lost_def split: option.splits if_splits page_check.splits)
  obtain raw arr where reply: "reply = Page_Body (JObj raw)" and arr: "jget raw ''chunk'' = JArr arr"
    and chunk: "chunk = map the_obj arr" and ft: "page_end raw = Some ft"
    using page by (auto simp: check_page_def split: page_reply.splits json.splits if_splits option.splits)
  obtain evs seen ov where sc: "scan_page (uses_sliding cfg) (cd_tail_ids cd) (applied_of c (cd_room_id cd)) chunk = (evs, seen, ov)"
    by (cases "scan_page (uses_sliding cfg) (cd_tail_ids cd) (applied_of c (cd_room_id cd)) chunk")
  have "page_finished (uses_sliding cfg) target chunk ft ov"
    using take unfolding take_page_def Let_def sc prod.case by (auto split: if_split_asm)
  then consider "ft = Some target" | "uses_sliding cfg" "chunk = []" "ft = None" | "\<not> uses_sliding cfg" ov
    by (auto simp: page_finished_def split: if_splits)
  then show ?thesis
  proof cases
    case 1
    then have "dget raw ''end'' = Some (JStr target)"
      using ft by (auto simp: page_end_def split: option.splits json.splits)
    then show ?thesis by (simp add: interval_closed_def reply target)
  next
    case 2
    then show ?thesis
      using ft chunk by (auto simp: interval_closed_def reply arr page_end_def split: option.splits json.splits)
  next
    case 3
    then have "\<exists>x \<in> set chunk. eid x \<in> set (cd_tail_ids cd)"
      using scan_page_facts[OF sc] by blast
    then show ?thesis using 3 by (auto simp: interval_closed_def reply arr chunk list_ex_iff)
  qed
qed

text \<open>An accepted page is applied exactly once: the events handed on are distinct, none was applied
  by an earlier page and none is in the retained tail; and unless the continuation bound was hit,
  every event before the tail is now recorded as applied.\<close>

theorem page_applied_once:
  assumes "take_page sliding cd target c chunk ft = Commit_Page c' events e finished loss"
  shows "distinct (map eid events) \<and> set events \<subseteq> set chunk \<and>
    set (map eid events) \<inter> (set (applied_of c (cd_room_id cd)) \<union> set (cd_tail_ids cd)) = {} \<and>
    set (applied_of c' (cd_room_id cd)) = set (applied_of c (cd_room_id cd)) \<union> set (map eid events) \<and>
    (loss = Some ''history continuation bound exhausted'' \<or>
     set (map eid (before_tail sliding (cd_tail_ids cd) chunk)) \<subseteq> set (applied_of c' (cd_room_id cd)))"
proof -
  let ?r = "cd_room_id cd"
  obtain evs seen ov where sc: "scan_page sliding (cd_tail_ids cd) (applied_of c ?r) chunk = (evs, seen, ov)"
    by (cases "scan_page sliding (cd_tail_ids cd) (applied_of c ?r) chunk")
  note facts = scan_page_facts[OF sc] scan_page_complete[OF sc]
  have "events = [] \<and> applied_of c' ?r = applied_of c ?r \<and> loss = Some ''history continuation bound exhausted'' \<or>
        events = evs \<and> applied_of c' ?r = seen"
    using assms unfolding take_page_def Let_def sc prod.case
    by (auto simp: applied_of_def dget_or_def split: if_split_asm)
  moreover have "set (map eid (before_tail sliding (cd_tail_ids cd) chunk)) \<subseteq> set seen"
    using facts(2) by simp
  moreover have "distinct (map eid evs)" "set evs \<subseteq> set chunk" "set seen = set (applied_of c ?r) \<union> set (map eid evs)"
    "set (map eid evs) \<inter> set (applied_of c ?r) = {}" "set (map eid evs) \<inter> set (cd_tail_ids cd) = {}"
    using facts(1) by blast+
  ultimately show ?thesis by (elim disjE) (simp_all add: Int_Un_distrib)
qed

section \<open>A recovery to apply them to\<close>

definition sample_control :: recovery_control where
  "sample_control = \<lparr> rc_phase = ''recover'', rc_old_cursor = Some ''t0'', rc_room_index = 0, rc_history_rooms = [],
     rc_unknown_rooms = [], rc_explicit_rooms = [], rc_applied_ids = [(''!r'', [''$1''])], rc_from = Some ''t0'',
     rc_pages = 0, rc_seen_tokens = [Some ''t0''], rc_limit = 100, rc_sliding_starts = None, rc_other = [] \<rparr>"

definition sample_candidate :: candidate where
  "sample_candidate = \<lparr> cd_room_id = ''!r'', cd_target = Some ''t9'', cd_tail_ids = [''$4''], cd_section = ''join'' \<rparr>"

definition sample_event :: "string \<Rightarrow> json" where
  "sample_event i = JObj [(''event_id'', JStr i)]"

definition sample_page :: page_reply where
  "sample_page = Page_Body (JObj [(''start'', JStr ''t0''), (''end'', JStr ''t2''),
     (''chunk'', JArr (map sample_event [''$1'', ''$2'', ''$3'', ''$4'', ''$5'']))])"

definition sample_chunk :: "jobj list" where
  "sample_chunk = map (the_obj o sample_event) [''$1'', ''$2'', ''$3'', ''$4'', ''$5'']"

theorem page_applied_once_witness:
  "\<exists>c' events. take_page False sample_candidate ''t9'' sample_control sample_chunk (Some ''t2'') =
      Commit_Page c' events (Some ''t2'') True None \<and>
    map eid events = [''$2'', ''$3''] \<and> set (applied_of c' ''!r'') = {''$1'', ''$2'', ''$3''}"
proof -
  have run: "case take_page False sample_candidate ''t9'' sample_control sample_chunk (Some ''t2'') of
      Commit_Page c' events e fin loss \<Rightarrow> e = Some ''t2'' \<and> fin \<and> loss = None \<and> map eid events = [''$2'', ''$3'']
    | _ \<Rightarrow> False"
    by code_simp
  then obtain c' events where take: "take_page False sample_candidate ''t9'' sample_control sample_chunk (Some ''t2'') =
      Commit_Page c' events (Some ''t2'') True None" "map eid events = [''$2'', ''$3'']"
    by (auto split: decision.splits)
  have "applied_of sample_control ''!r'' = [''$1'']" "cd_room_id sample_candidate = ''!r''"
    by (simp_all add: applied_of_def sample_control_def sample_candidate_def dget_or_def)
  with page_applied_once[OF take(1)] take show ?thesis by auto
qed

theorem no_silent_gap_witness:
  "\<exists>c' events. decide (\<lambda>_. True) default_config sample_candidate sample_control sample_page =
      Commit_Page c' events (Some ''t2'') True None \<and>
    interval_closed default_config sample_candidate sample_control sample_page"
proof -
  have "case decide (\<lambda>_. True) default_config sample_candidate sample_control sample_page of
      Commit_Page c' events e fin loss \<Rightarrow> e = Some ''t2'' \<and> fin \<and> loss = None | _ \<Rightarrow> False"
    by code_simp
  then obtain c' events where run: "decide (\<lambda>_. True) default_config sample_candidate sample_control sample_page =
      Commit_Page c' events (Some ''t2'') True None"
    by (auto split: decision.splits)
  from no_silent_gap[OF this] run show ?thesis by blast
qed

theorem recovery_terminates_witness:
  "\<exists>c. recovering (\<lambda>_. True) (\<lambda>_ _. []) default_config [sample_candidate] 1 (next_room default_config [sample_candidate] 0 sample_control) c \<and>
     rc_limit c = 50 \<and> (1::nat) \<le> length [sample_candidate] * (page_bound default_config + 7)"
proof -
  let ?c = "next_room default_config [sample_candidate] 0 sample_control"
  let ?s = "sample_session (intent_store sample_leave)"
  have phase: "rc_phase sample_control = ''recover''" by (simp add: sample_control_def)
  have c: "rc_phase ?c = ''recover''" "rc_room_index ?c = 0" "rc_limit ?c = 100" "rc_from ?c = Some ''t0''" "rc_pages ?c = 0"
    "rc_unknown_rooms ?c = []"
    by (simp_all add: next_room_def default_config_def sample_control_def Let_def)
  have cfg: "se_config ?s = default_config" "0 < recovery_page_size default_config"
    by (simp_all add: sample_session_def default_config_def)
  have idle: "fst (on_store has_batches ?s) = Inr False"
    by (simp add: on_store_def has_batches_def state_op_def sample_session_def intent_store_def fresh_store_def fresh_db_def
        load_loop_def is_open_def Let_def op_basic)
  have "fst (advance (\<lambda>_. True) (\<lambda>_ _. []) [sample_candidate] Tx_Ok Page_Too_Large ?c ?s) = Inr (?c \<lparr> rc_limit := 50 \<rparr>)"
    by code_simp
  then obtain t where "advance (\<lambda>_. True) (\<lambda>_ _. []) [sample_candidate] Tx_Ok Page_Too_Large ?c ?s = (Inr (?c \<lparr> rc_limit := 50 \<rparr>), t)"
    by (cases "advance (\<lambda>_. True) (\<lambda>_ _. []) [sample_candidate] Tx_Ok Page_Too_Large ?c ?s") simp
  from recovering.Turn[OF recovering.Begin cfg(1) idle c(1) this]
  have run: "recovering (\<lambda>_. True) (\<lambda>_ _. []) default_config [sample_candidate] 1 ?c (?c \<lparr> rc_limit := 50 \<rparr>)"
    by simp
  from recovery_terminates[OF cfg(2) phase run] run show ?thesis
    by (intro exI[of _ "?c \<lparr> rc_limit := 50 \<rparr>"]) simp
qed

end
