(* ===== verification/Durable_Chain.thy ===== *)
theory Durable_Chain
  imports Durable_Recovery
begin

text \<open>
  The chain of tenures: what a session may do inside the transactions of one response, pages of
  recovered history and losses included, and the theorem that the membership changes it publishes
  form one chain per room.
\<close>

section \<open>A committed page\<close>

text \<open>The items of a page are events of the room the page was requested for.\<close>

definition page_of :: "string \<Rightarrow> feed list \<Rightarrow> bool" where
  "page_of room_id = list_all (\<lambda>x. case x of Item it \<Rightarrow> map_option fst (it_room it) = Some room_id | _ \<Rightarrow> True)"

lemma tenure_same_changes:
  assumes "tenure_ok s bs extra t" "\<And>r. changes r extra' = changes r extra"
  shows "tenure_ok s bs extra' t"
  using assms by (simp add: tenure_ok_def)

lemma loss_changes:
  "changes r [loss_record q reason n m e] = (if r = q then (case m of Some c \<Rightarrow> [c] | None \<Rightarrow> []) else [])"
  by (simp add: loss_record_def split: option.splits)

lemma steady_unproved: "steady (modify (set_meta q (\<lambda>m. m \<lparr> rt_baseline := b \<rparr>)))"
  by (rule steady_modify) simp_all

lemma loss_ok:
  assumes t: "tenure_ok s bs extra t" "0 < max_batch_records (se_config s)"
    and extra: "\<And>r. changes r extra = (if r = q then (case m of Some c \<Rightarrow> [c] | None \<Rightarrow> []) else [])"
    and run: "report_loss q n reason m t = (Inr u, t')"
  shows "\<exists>cs. tenure_ok s (bs @ cs) [] t'"
proof -
  define t1 where "t1 = set_meta q (\<lambda>m. m \<lparr> rt_baseline := False \<rparr>) t"
  define rec where "rec = loss_record q reason n m (rt_epoch (meta_of t1 q))"
  have pub: "publish_all [rec] t1 = (Inr u, t')"
    using run by (simp add: report_loss_def bnd_def modify_def reads_def t1_def rec_def)
  have "tenure_ok s bs extra t1"
    using tenure_steady[OF t(1) steadyD[OF steady_unproved[of q False], of t _ t1]] by (simp add: t1_def modify_def pos_set_meta)
  then have t1: "tenure_ok s bs ([rec] @ []) t1"
    unfolding rec_def append_Nil2 by (rule tenure_same_changes) (simp only: extra loss_changes)
  then have "0 < max_batch_records (se_config t1)" using t(2) by (simp add: tenure_ok_def)
  moreover obtain k where "on_store (publish_records (se_config t1) [rec] None) t1 = (Inr k, t')"
    using pub by (auto simp: publish_all_def bnd_Inr_iff reads_def ret_def)
  ultimately show ?thesis using tenure_publish[OF t1] by blast
qed

lemma pos_ensure_room: "keeps_pos (ensure_room q)"
  unfolding ensure_room_def
  by (intro pos_bnd pos_basic) (auto intro!: pos_basic pos_modify pos_bnd simp: position_def Let_def split: option.splits)

lemma steady_ensure_room: "steady (ensure_room q)"
  unfolding ensure_room_def
  by (intro steady_bnd steady_basic) (auto intro!: steady_basic steady_modify steady_bnd simp: Let_def split: option.splits)

lemma save_processor_tenure:
  assumes "tenure_ok s bs [] t" "save_processor p t = (Inr u, t')"
  shows "tenure_ok s bs [] t'"
proof -
  obtain rooms members where "save_rooms rooms members t = (Inr u, t')"
    using assms(2)
    by (auto simp: save_processor_def save_def bnd_def modify_def reads_def on_session_def split: prod.splits)
  then show ?thesis using tenure_quiet[OF assms(1) pos_save_rooms steady_save_rooms] by blast
qed

lemma store_steady_continuation: "store_steady (save_continuation c)"
proof -
  have "store_steady state_op"
    by (auto simp: store_steady_def state_op_def extends_rows_def is_open_def Let_def split: option.splits)
  moreover have "store_steady require_transaction"
    unfolding require_transaction_def assert_open_def by (intro store_steady_bnd store_steady_basic)
  ultimately show ?thesis
    unfolding save_continuation_def
    by (intro store_steady_bnd store_steady_modify) (auto simp: write_both_def is_open_def)
qed

lemma continuation_tenure:
  assumes "tenure_ok s bs [] t" "on_store (save_continuation c) t = (Inr u, t')"
  shows "tenure_ok s bs [] t'"
proof (rule tenure_quiet[OF assms(1) pos_on_store _ assms(2)])
  show "steady (on_store (save_continuation c))"
    by (rule steady_on_store[OF keeps_save_continuation store_steady_continuation])
qed

lemma page_consumed:
  assumes t: "in_tx (se_store t)" "0 < max_batch_records (se_config t)" and page: "page_of q xs"
    and run: "(if events = [] then reads (page_processor c) else apply_events c q xs) t = (Inr p, t')"
  shows "\<exists>bs extra. tenure_ok t bs extra t' \<and>
    (if pr_oversized p then \<exists>rec. extra = [rec] \<and> sr_membership rec = pr_oversized_membership p \<and> sr_room_id rec = Some q
     else extra = [] \<and> running p)"
proof (cases "events = []")
  case True
  then show ?thesis
    using run tenure_refl[OF t(1)]
    by (intro exI[of _ "[]"]) (auto simp: reads_def page_processor_def Processor_def)
next
  case False
  then obtain u t1 where enter: "ensure_room q t = (Inr u, t1)"
    and go: "(case consume xs (page_processor c t1) of
            (Inr _, p) \<Rightarrow> (Inr p, pr_session p) | (Inl e, p) \<Rightarrow> (Inl e, pr_session p)) = (Inr p, t')"
    using run by (auto simp: apply_events_def bnd_Inr_iff)
  then obtain v where consume: "consume xs (page_processor c t1) = (Inr v, p)" and t': "t' = pr_session p"
    by (auto split: prod.splits sum.splits)
  have t1: "tenure_ok t [] [] t1"
    by (rule tenure_quiet[OF tenure_refl[OF t(1)] pos_ensure_room steady_ensure_room enter])
  then have tx: "in_tx (se_store t1)" "0 < max_batch_records (se_config t1)"
    using t(2) by (simp_all add: tenure_ok_def)
  have "list_all (reports_all (page_processor c t1)) xs"
  proof (rule list.pred_mono_strong[of "\<lambda>_. True"])
    show "reports_all (page_processor c t1) x" for x
      by (cases x) (auto simp: hidden_change_def suppressed_def page_processor_def Processor_def dget_or_def
          split: option.splits json.splits)
  qed (simp add: list.pred_True)
  from consume_ok[OF tx page_processor_def this consume] obtain bs extra where
    bs: "tenure_ok t1 bs extra t'" and extra: "if pr_oversized p then \<exists>rec. extra = [rec] \<and> stopped_at xs rec p
      else extra = [] \<and> running p"
    using t' by blast
  have "sr_membership rec = pr_oversized_membership p \<and> sr_room_id rec = Some q" if "stopped_at xs rec p" for rec
    using that page by (auto simp: stopped_at_def page_of_def list.pred_set split: feed.splits)
  then have "if pr_oversized p then \<exists>rec. extra = [rec] \<and> sr_membership rec = pr_oversized_membership p \<and> sr_room_id rec = Some q
      else extra = [] \<and> running p"
    using extra by (simp split: if_splits) blast
  then show ?thesis using tenure_trans[OF t1 bs] by (intro exI[of _ bs] exI[of _ extra]) simp
qed

lemma settle_tenure:
  assumes t: "tenure_ok s bs extra t" "0 < max_batch_records (se_config s)"
    and extra: "if loss = None then extra = [] else
      \<forall>r. changes r extra = (if r = q then (case pr_oversized_membership p of Some c \<Rightarrow> [c] | None \<Rightarrow> []) else [])"
    and run: "settle_page cfg candidates q p e finished loss c t = (Inr c', t')"
  shows "\<exists>cs. tenure_ok s (bs @ cs) [] t'"
proof -
  obtain u t1 p' c1 v t2 w where
    lost: "(case loss of None \<Rightarrow> ret () | Some reason \<Rightarrow> report_loss q (rc_pages c) reason (pr_oversized_membership p)) t = (Inr u, t1)"
    and save: "save_processor p' t1 = (Inr v, t2)" and cont: "on_store (save_continuation (control_obj c1)) t2 = (Inr w, t')"
    using run unfolding settle_page_def Let_def bnd_Inr_iff reads_def ret_def by auto
  obtain cs where "tenure_ok s (bs @ cs) [] t1"
  proof (cases loss)
    case None
    then show ?thesis using lost t(1) extra that[of "[]"] by (simp add: ret_def)
  next
    case (Some reason)
    then have "report_loss q (rc_pages c) reason (pr_oversized_membership p) t = (Inr u, t1)"
      and "\<And>r. changes r extra = (if r = q then (case pr_oversized_membership p of Some c \<Rightarrow> [c] | None \<Rightarrow> []) else [])"
      using lost extra by simp_all
    from loss_ok[OF t this(2,1)] show ?thesis using that by blast
  qed
  from continuation_tenure[OF save_processor_tenure[OF this save] cont] show ?thesis by blast
qed

lemma commit_page_ok:
  assumes t: "in_tx (se_store t)" "0 < max_batch_records (se_config t)" and page: "page_of q (feeds_of q events)"
    and run: "commit_page cfg feeds_of candidates q c events e finished loss t = (Inr c', t')"
  shows "\<exists>bs. tenure_ok t bs [] t'"
proof -
  obtain p t1 c1 loss' fin where
    consumed: "(if events = [] then reads (page_processor c) else apply_events c q (feeds_of q events)) t = (Inr p, t1)"
    and loss': "loss' = (if pr_oversized p then Some ''oversized recovered event'' else loss)"
    and settle: "settle_page cfg candidates q p e fin loss' c1 t1 = (Inr c', t')"
    using run unfolding commit_page_def Let_def bnd_Inr_iff by blast
  from page_consumed[OF t, where xs = "feeds_of q events", OF page consumed] obtain bs extra where bs: "tenure_ok t bs extra t1"
    and extra: "if pr_oversized p then \<exists>rec. extra = [rec] \<and> sr_membership rec = pr_oversized_membership p \<and> sr_room_id rec = Some q
     else extra = [] \<and> running p" by blast
  have "if loss' = None then extra = [] else
      \<forall>r. changes r extra = (if r = q then (case pr_oversized_membership p of Some c \<Rightarrow> [c] | None \<Rightarrow> []) else [])"
    using extra by (auto simp: loss' split: if_splits option.splits)
  from settle_tenure[OF bs t(2) this settle] show ?thesis by blast
qed

section \<open>Runs\<close>

text \<open>
  What may happen to a session inside the transactions of one response: the response is consumed
  to its end, pages of recovered history are committed, gaps are reported as lost, processed rooms
  are saved, the boundary of a local operation is reconciled, a local operation whose position was
  checked is committed. A response must not bring an event of the client's own membership among
  those it is told to suppress (\<open>reports_all\<close>): \<open>suppressed_change_unreported\<close> below is that case.
\<close>

inductive tenure_run :: "session \<Rightarrow> session \<Rightarrow> bool" where
  Start: "tenure_run s s"
| Response: "tenure_run s t \<Longrightarrow> p0 = Processor t hist expl prov skip False \<Longrightarrow> list_all (reports_all p0) xs \<Longrightarrow>
    consume xs p0 = (Inr u, p) \<Longrightarrow> tenure_run s (pr_session p)"
| Page: "tenure_run s t \<Longrightarrow> page_of q (feeds_of q events) \<Longrightarrow>
    commit_page cfg feeds_of candidates q c events e finished loss t = (Inr c', t') \<Longrightarrow> tenure_run s t'"
| Loss: "tenure_run s t \<Longrightarrow> report_loss q n reason None t = (Inr u, t') \<Longrightarrow> tenure_run s t'"
| Save: "tenure_run s t \<Longrightarrow> save_rooms rooms members t = (Inr u, t') \<Longrightarrow> tenure_run s t'"
| Boundary: "tenure_run s t \<Longrightarrow> reconcile_membership_boundary q m t = (Inr res, t') \<Longrightarrow> tenure_run s t'"
| Commit: "tenure_run s t \<Longrightarrow> local_position_matches i t \<Longrightarrow> li_current_membership i \<in> {''join'', ''leave''} \<Longrightarrow>
    commit_local i t = (Inr u, t') \<Longrightarrow> tenure_run s t'"

text \<open>Each step extends the tenure its run has reached.\<close>

lemma tenure_extend:
  assumes bs: "tenure_ok s bs [] t" and cfg: "0 < max_batch_records (se_config s)"
    and step: "in_tx (se_store t) \<Longrightarrow> 0 < max_batch_records (se_config t) \<Longrightarrow> \<exists>cs. tenure_ok t cs [] u"
  shows "\<exists>cs. tenure_ok s cs [] u"
proof -
  have "in_tx (se_store t)" "0 < max_batch_records (se_config t)"
    using bs cfg by (simp_all add: tenure_ok_def)
  from step[OF this] show ?thesis using tenure_trans[OF bs] by blast
qed

lemma response_ok:
  assumes "in_tx (se_store t)" "0 < max_batch_records (se_config t)"
    and "p0 = Processor t hist expl prov skip False" "list_all (reports_all p0) xs" "consume xs p0 = (Inr u, p)"
  shows "\<exists>cs. tenure_ok t cs [] (pr_session p)"
proof -
  from consume_ok[OF assms] obtain cs extra where "tenure_ok t cs extra (pr_session p)" "same_run p0 p"
    "if pr_oversized p then \<exists>rec. extra = [rec] \<and> stopped_at xs rec p else extra = [] \<and> running p" by blast
  moreover from this(2) have "\<not> pr_stop_on_oversized p"
    by (simp add: same_run_def assms(3) Processor_def)
  ultimately show ?thesis by (auto simp: stopped_at_def split: if_splits)
qed

lemma report_ok:
  assumes "in_tx (se_store t)" "0 < max_batch_records (se_config t)" "report_loss q n reason None t = (Inr u, t')"
  shows "\<exists>cs. tenure_ok t cs [] t'"
  using loss_ok[OF tenure_refl[OF assms(1)] assms(2) _ assms(3)] by simp

lemma tenure_run_ok:
  "tenure_run s t \<Longrightarrow> in_tx (se_store s) \<Longrightarrow> 0 < max_batch_records (se_config s) \<Longrightarrow> \<exists>bs. tenure_ok s bs [] t"
proof (induction rule: tenure_run.induct)
  case (Start s)
  then show ?case using tenure_refl by blast
next
  case (Response s t p0 hist expl prov skip xs u p)
  then show ?case using tenure_extend response_ok by meson
next
  case (Page s t q feeds_of events cfg candidates c e finished loss c' t')
  then show ?case using tenure_extend commit_page_ok by meson
next
  case (Loss s t q n reason u t')
  then show ?case using tenure_extend report_ok by meson
next
  case (Save s t rooms members u t')
  then show ?case using tenure_quiet[OF _ pos_save_rooms steady_save_rooms] by blast
next
  case (Boundary s t q m res t')
  then show ?case using tenure_extend boundary_ok by meson
next
  case (Commit s t i u t')
  then obtain bs where bs: "tenure_ok s bs [] t" by blast
  then have "in_tx (se_store t)" by (simp add: tenure_ok_def)
  from commit_ok[OF this Commit.hyps(2,3,4)] show ?case using tenure_trans[OF bs] by blast
qed

section \<open>The chain of tenures\<close>

text \<open>C7: whatever a session does inside a transaction (consume responses, provided none of their items
  carries the client's own membership in an event the response is told to suppress; commit pages of
  recovered history whose items are of the page's room, cut short by an oversized event or not; report
  losses; save rooms; reconcile boundaries; commit local joins and leaves whose position was checked), the batches it appended carry, for every room, a chain of membership
  changes: each continues at the membership and epoch where the previous one ended, from the room's
  position before the run to its position after it, and the epoch has grown by the number of
  departures published.\<close>

theorem tenure_chain:
  assumes "tenure_run s t" and "in_tx (se_store s)" and "0 < max_batch_records (se_config s)"
  shows "\<exists>bs. map snd (db_batches (ds_db (se_store t))) = map snd (db_batches (ds_db (se_store s))) @ payloads bs \<and>
    (\<forall>r. chain (position s r) (changes r (concat bs)) (position t r) \<and>
         rt_epoch (meta_of t r) = rt_epoch (meta_of s r) + departures (changes r (concat bs)))"
proof -
  obtain bs where bs: "tenure_ok s bs [] t"
    using tenure_run_ok[OF assms] by blast
  then have "chain (position s r) (changes r (concat bs)) (position t r)" for r
    by (simp add: tenure_ok_def)
  moreover from this have "rt_epoch (meta_of t r) = rt_epoch (meta_of s r) + departures (changes r (concat bs))" for r
    using chain_departures[of "position s r" "changes r (concat bs)" "position t r"] by (simp add: position_def)
  ultimately show ?thesis
    using bs by (auto simp: tenure_ok_def extends_rows_def)
qed

text \<open>
  The excluded case: an own departure whose event is suppressed moves the room, epoch included, and
  publishes nothing, so the chain has a gap.
\<close>

definition suppressed_leave :: feed where
  "suppressed_leave = Item \<lparr> it_route = Some ''event'',
     it_event = Some \<lparr> ev_class = Room_Member ''@me'' ''leave'', ev_source = [(''event_id'', JStr ''$e'')], ev_decrypted = False,
       ev_verified = None, ev_sender_key = None, ev_session_id = None, ev_authenticated_sender = None,
       ev_timeline_provenance = None \<rparr>,
     it_room = Some (''!r'', JoinedRoom (MatrixRoom ''!r'' ''@me'' True)), it_section = Some ''join'',
     it_source = No_Source, it_provenance = None \<rparr>"

lemma suppressed_change_unreported:
  "let s = sample_session (fresh_store ''s'' (fresh_db None) \<lparr> ds_depth := 1 \<rparr>);
       r = consume [suppressed_leave] (Processor s [] {} LIVE [(''!r'', {''$e''})] False); t = pr_session (snd r)
   in fst r = Inr () \<and> position s ''!r'' = (True, 2) \<and> position t ''!r'' = (False, 3) \<and>
      db_batches (ds_db (se_store t)) = db_batches (ds_db (se_store s))"
  by code_simp

theorem tenure_chain_witness:
  "\<exists>s t bs. tenure_run s t \<and> position s ''!r'' = (True, 2) \<and> position t ''!r'' = (False, 3) \<and>
     map snd (db_batches (ds_db (se_store t))) = payloads bs \<and> departures (changes ''!r'' (concat bs)) = 1"
proof -
  let ?s = "sample_session (intent_store sample_leave \<lparr> ds_depth := 1 \<rparr>)"
  have tx: "in_tx (se_store ?s)"
    using intent_store_ok[of sample_leave] by (simp add: sample_session_def in_tx_def store_ok_def mirrors_ok_def is_open_def)
  then obtain t where t: "commit_local sample_leave ?s = (Inr (), t)"
    using runs_commit by blast
  have run: "tenure_run ?s t"
    by (rule tenure_run.Commit[OF tenure_run.Start sample_position(2) _ t]) (simp add: sample_leave_def)
  have "rt_membership (meta_of t ''!r'') = Some ''leave''" "rt_epoch (meta_of t ''!r'') = 3"
    using commit_local_keeps[OF t, of "''!r''"]
    by (simp_all add: room_part_is_def commit_effects_def Let_def meta_set_meta sample_leave_def local_change_def)
  then have pos: "position t ''!r'' = (False, 3)" by (simp add: position_def)
  have "0 < max_batch_records (se_config ?s)" by (simp add: sample_session_def default_config_def)
  from tenure_chain[OF run tx this] obtain bs where
    bs: "map snd (db_batches (ds_db (se_store t))) = map snd (db_batches (ds_db (se_store ?s))) @ payloads bs"
      "rt_epoch (meta_of t ''!r'') = rt_epoch (meta_of ?s ''!r'') + departures (changes ''!r'' (concat bs))" by blast
  moreover have "db_batches (ds_db (se_store ?s)) = []"
    using intent_store_ok[of sample_leave] by (simp add: sample_session_def)
  ultimately show ?thesis
    using run pos sample_position(1)[of "intent_store sample_leave \<lparr> ds_depth := 1 \<rparr>"]
    by (intro exI[of _ ?s] exI[of _ t] exI[of _ bs]) (simp add: position_def)
qed


end
