(* ===== verification/Nio_Device.thy ===== *)
theory Nio_Device
  imports Nio_Effects Nio_Json
begin

text \<open>
  Olm devices and the in-memory device store of \<^verbatim>\<open>src/nio/crypto/device.py\<close>. The store is a
  \<^verbatim>\<open>defaultdict(dict)\<close>: reading an unknown user inserts an empty entry, which the property
  \<^verbatim>\<open>users\<close> then lists, so reading is an operation on the store.
\<close>

datatype trust_state = trust_unset | trust_verified | trust_blacklisted | trust_ignored

fun trust_name :: "trust_state \<Rightarrow> string" where
  "trust_name trust_unset = ''unset''"
| "trust_name trust_verified = ''verified''"
| "trust_name trust_blacklisted = ''blacklisted''"
| "trust_name trust_ignored = ''ignored''"

record olm_device =
  od_user_id :: string
  od_device_id :: string
  od_keys :: "(string, string) dict"
  od_display_name :: string
  od_deleted :: bool
  od_trust_state :: trust_state

definition OlmDevice :: "string \<Rightarrow> string \<Rightarrow> (string, string) dict \<Rightarrow> olm_device" where
  "OlmDevice user_id device_id keys =
     \<lparr> od_user_id = user_id, od_device_id = device_id, od_keys = keys, od_display_name = [],
       od_deleted = False, od_trust_state = trust_unset \<rparr>"

definition device_key :: "string \<Rightarrow> olm_device \<Rightarrow> exn + string" where
  "device_key k d = (case dget (od_keys d) k of None \<Rightarrow> Inl (KeyError k) | Some v \<Rightarrow> Inr v)"

abbreviation device_ed25519 :: "olm_device \<Rightarrow> exn + string" where
  "device_ed25519 \<equiv> device_key ''ed25519''"

abbreviation device_curve25519 :: "olm_device \<Rightarrow> exn + string" where
  "device_curve25519 \<equiv> device_key ''curve25519''"

definition set_device_key :: "string \<Rightarrow> string \<Rightarrow> olm_device \<Rightarrow> olm_device" where
  "set_device_key k v d = d \<lparr> od_keys := dset (od_keys d) k v \<rparr>"

definition device_as_dict :: "olm_device \<Rightarrow> jobj" where
  "device_as_dict d =
     [(''user_id'', JStr (od_user_id d)), (''device_id'', JStr (od_device_id d)),
      (''keys'', JObj (map (\<lambda>(k, v). (k, JStr v)) (od_keys d))),
      (''display_name'', JStr (od_display_name d)), (''deleted'', JBool (od_deleted d)),
      (''trust_state'', JStr (trust_name (od_trust_state d)))]"

definition device_verified :: "olm_device \<Rightarrow> bool" where
  "device_verified d = (od_trust_state d = trust_verified)"

definition device_ignored :: "olm_device \<Rightarrow> bool" where
  "device_ignored d = (od_trust_state d = trust_ignored)"

definition device_blacklisted :: "olm_device \<Rightarrow> bool" where
  "device_blacklisted d = (od_trust_state d = trust_blacklisted)"

section \<open>The store\<close>

type_synonym device_store = "(string, (string, olm_device) dict) dict"

definition all_devices :: "device_store \<Rightarrow> olm_device list" where
  "all_devices s = concat (map dvalues (dvalues s))"

definition store_getitem :: "string \<Rightarrow> (device_store, (string, olm_device) dict) op" where
  "store_getitem user_id s =
     (case dget s user_id of
        Some ds \<Rightarrow> (Inr ds, s)
      | None \<Rightarrow> (Inr [], dset s user_id []))"

definition active_user_devices :: "string \<Rightarrow> (device_store, olm_device list) op" where
  "active_user_devices user_id =
     bnd (store_getitem user_id) (\<lambda>ds. ret (filter (\<lambda>d. \<not> od_deleted d) (dvalues ds)))"

fun find_sender_key :: "string \<Rightarrow> olm_device list \<Rightarrow> exn + olm_device option" where
  "find_sender_key sender_key [] = Inr None"
| "find_sender_key sender_key (d # ds) =
     rbind (device_curve25519 d) (\<lambda>k. if k = sender_key then Inr (Some d) else find_sender_key sender_key ds)"

definition device_from_sender_key :: "string \<Rightarrow> string \<Rightarrow> (device_store, olm_device option) op" where
  "device_from_sender_key user_id sender_key =
     bnd (active_user_devices user_id) (\<lambda>ds. lift_res (find_sender_key sender_key ds))"

definition store_users :: "device_store \<Rightarrow> string list" where
  "store_users s = dkeys s"

definition store_devices :: "string \<Rightarrow> (device_store, string list) op" where
  "store_devices user_id = bnd (store_getitem user_id) (\<lambda>ds. ret (dkeys ds))"

definition store_add :: "olm_device \<Rightarrow> (device_store, bool) op" where
  "store_add device =
     bnd (reads all_devices) (\<lambda>known.
     if device \<in> set known then ret False
     else
       bnd (store_getitem (od_user_id device)) (\<lambda>ds.
       andthen (modify (\<lambda>s. dset s (od_user_id device) (dset ds (od_device_id device) device)))
       (ret True)))"

definition lookup_device :: "device_store \<Rightarrow> string \<Rightarrow> string \<Rightarrow> olm_device option" where
  "lookup_device s user_id device_id = dget (dget_or s user_id []) device_id"

text \<open>Every device is filed under its own user and device id.\<close>

definition filed :: "device_store \<Rightarrow> bool" where
  "filed s \<longleftrightarrow> dwf s \<and>
     (\<forall>u ds. dget s u = Some ds \<longrightarrow> dwf ds \<and>
        (\<forall>i d. dget ds i = Some d \<longrightarrow> od_user_id d = u \<and> od_device_id d = i))"

lemma filed_lookup:
  assumes "filed s"
  shows "d \<in> set (all_devices s) \<longleftrightarrow> lookup_device s (od_user_id d) (od_device_id d) = Some d"
proof
  assume "d \<in> set (all_devices s)"
  then obtain u ds i where m: "(u, ds) \<in> set s" "(i, d) \<in> set ds"
    by (auto simp: all_devices_def)
  then have u: "dget s u = Some ds" using assms by (auto simp: filed_def dwf_def)
  then have i: "dget ds i = Some d" using assms m by (auto simp: filed_def dwf_def)
  then show "lookup_device s (od_user_id d) (od_device_id d) = Some d"
    using assms u by (auto simp: filed_def lookup_device_def dget_or_def)
next
  assume "lookup_device s (od_user_id d) (od_device_id d) = Some d"
  then obtain ds where "dget s (od_user_id d) = Some ds" "dget ds (od_device_id d) = Some d"
    by (auto simp: lookup_device_def dget_or_def split: option.splits)
  then have "(od_user_id d, ds) \<in> set s" "(od_device_id d, d) \<in> set ds" by (auto dest: map_of_SomeD)
  then show "d \<in> set (all_devices s)" by (force simp: all_devices_def)
qed

lemma store_add_run:
  assumes "filed s"
  shows "store_add d s =
    (if lookup_device s (od_user_id d) (od_device_id d) = Some d then (Inr False, s)
     else (Inr True, dset s (od_user_id d) (dset (dget_or s (od_user_id d) []) (od_device_id d) d)))"
proof -
  have "dset (dset s u []) u x = dset s u x" if "dget s u = None" for u and x :: "(string, olm_device) dict"
    using that by (induction s) (auto split: if_splits)
  then show ?thesis
    by (auto simp: store_add_def op_basic filed_lookup[OF assms] store_getitem_def dget_or_def
        split: option.splits)
qed

lemma store_add_filed:
  assumes "filed s"
  shows "filed (snd (store_add d s))"
proof -
  have "dwf (dget_or s u [])" for u using assms by (auto simp: filed_def dget_or_def split: option.splits)
  moreover have "od_user_id e = u \<and> od_device_id e = i" if "dget (dget_or s u []) i = Some e" for u i e
    using assms that by (auto simp: filed_def dget_or_def split: option.splits)
  ultimately show ?thesis using assms by (auto simp: store_add_run[OF assms] filed_def split: if_splits)
qed

text \<open>Adding a device files it under its user and device id, replaces what was there, leaves
  every other device alone, and reports False exactly when the identical device was known.\<close>

theorem store_add_correct:
  assumes "filed s"
  shows "\<exists>b t. store_add d s = (Inr b, t) \<and> filed t \<and>
    (b \<longleftrightarrow> lookup_device s (od_user_id d) (od_device_id d) \<noteq> Some d) \<and>
    lookup_device t (od_user_id d) (od_device_id d) = Some d \<and>
    (\<forall>u i. (u, i) \<noteq> (od_user_id d, od_device_id d) \<longrightarrow> lookup_device t u i = lookup_device s u i)"
  using store_add_filed[OF assms, of d] store_add_run[OF assms, of d]
  by (auto simp: lookup_device_def dget_or_def split: if_splits)

theorem store_add_correct_witness:
  "lookup_device (snd (store_add (OlmDevice ''@a:x'' ''DEV'' [(''ed25519'', ''k'')]) [])) ''@a:x'' ''DEV'' =
     Some (OlmDevice ''@a:x'' ''DEV'' [(''ed25519'', ''k'')])"
proof -
  have "filed []" by (simp add: filed_def)
  from store_add_correct[OF this, of "OlmDevice ''@a:x'' ''DEV'' [(''ed25519'', ''k'')]"]
  show ?thesis by (auto simp: OlmDevice_def)
qed

text \<open>A device found by its sender key is a known device of that user, not deleted, and has
  that key; nothing is found only if no such device exists.\<close>

theorem sender_key_sound:
  assumes "filed s" "device_from_sender_key u k s = (Inr r, t)"
  shows "(case r of
      Some d \<Rightarrow> d \<in> set (all_devices s) \<and> od_user_id d = u \<and> \<not> od_deleted d \<and> device_curve25519 d = Inr k
    | None \<Rightarrow> \<forall>d \<in> set (all_devices s). od_user_id d = u \<and> \<not> od_deleted d \<longrightarrow> device_curve25519 d \<noteq> Inr k)"
proof -
  let ?ds = "filter (\<lambda>d. \<not> od_deleted d) (dvalues (dget_or s u []))"
  have run: "find_sender_key k ?ds = Inr r"
    using assms(2) by (auto simp: device_from_sender_key_def active_user_devices_def op_basic
        store_getitem_def dget_or_def split: option.splits)
  have find: "find_sender_key k ds = Inr r \<Longrightarrow>
      (case r of Some d \<Rightarrow> d \<in> set ds \<and> device_curve25519 d = Inr k
       | None \<Rightarrow> \<forall>d \<in> set ds. device_curve25519 d \<noteq> Inr k)" for ds
    by (induction ds) (auto simp: rbind_Inr_iff split: option.splits if_splits)
  have mem: "d \<in> set (dvalues (dget_or s u [])) \<longleftrightarrow> d \<in> set (all_devices s) \<and> od_user_id d = u" for d
  proof -
    have "d \<in> set (dvalues (dget_or s u [])) \<longleftrightarrow> od_user_id d = u \<and> lookup_device s (od_user_id d) (od_device_id d) = Some d"
    proof
      assume "d \<in> set (dvalues (dget_or s u []))"
      then obtain ds i where ds: "dget s u = Some ds" "(i, d) \<in> set ds"
        by (cases "dget s u") (auto simp: dget_or_def)
      then have "dget ds i = Some d" using assms(1) by (auto simp: filed_def dwf_def)
      with ds(1) show "od_user_id d = u \<and> lookup_device s (od_user_id d) (od_device_id d) = Some d"
        using assms(1) by (auto simp: filed_def lookup_device_def dget_or_def)
    next
      assume "od_user_id d = u \<and> lookup_device s (od_user_id d) (od_device_id d) = Some d"
      then show "d \<in> set (dvalues (dget_or s u []))"
        by (auto simp: lookup_device_def dest!: map_of_SomeD intro: rev_image_eqI)
    qed
    then show ?thesis using filed_lookup[OF assms(1), of d] by auto
  qed
  show ?thesis using find[OF run] mem by (auto split: option.splits)
qed

theorem sender_key_sound_witness:
  "\<exists>s t d. device_from_sender_key ''@a:x'' ''c'' s = (Inr (Some d), t) \<and> d \<in> set (all_devices s) \<and> \<not> od_deleted d"
proof -
  let ?d = "OlmDevice ''@a:x'' ''DEV'' [(''curve25519'', ''c'')]"
  let ?s = "[(''@a:x'', [(''DEV'', ?d)])]"
  have f: "filed ?s" by (simp add: filed_def dwf_def OlmDevice_def)
  have r: "device_from_sender_key ''@a:x'' ''c'' ?s = (Inr (Some ?d), ?s)"
    by (simp add: device_from_sender_key_def active_user_devices_def op_basic store_getitem_def
        device_key_def OlmDevice_def)
  show ?thesis using sender_key_sound[OF f r] r by auto
qed

end
