(* ===== verification/Nio_Sas.thy ===== *)
theory Nio_Sas
  imports Nio_Device Nio_Print
begin

text \<open>
  Interactive device verification: the state machine of \<^verbatim>\<open>src/nio/crypto/sas.py\<close>. The
  elliptic curve exchange, the message authentication code and the short strings belong to the
  library vodozemac and the digest to hashlib; they are the fields of \<open>vodozemac\<close>, an argument of
  every definition that uses them. Times are microseconds and the current time is an argument;
  the key pair of a session is named by its public key.
\<close>

section \<open>State\<close>

record 'e vodozemac =
  vz_sha256_hex :: "string \<Rightarrow> string"
  vz_diffie_hellman :: "string \<Rightarrow> string \<Rightarrow> exn + 'e"
  vz_calculate_mac :: "'e \<Rightarrow> string \<Rightarrow> string \<Rightarrow> string"
  vz_emoji_indices :: "'e \<Rightarrow> string \<Rightarrow> nat list"
  vz_decimals :: "'e \<Rightarrow> string \<Rightarrow> int list"

datatype sas_state = sas_created | sas_started | sas_accepted | sas_key_received | sas_mac_received | sas_canceled

record 'e sas =
  ss_pubkey :: string
  ss_own_user :: string
  ss_own_device :: string
  ss_own_fp_key :: string
  ss_other_olm_device :: olm_device
  ss_transaction_id :: string
  ss_short_auth_string :: "string list"
  ss_mac_methods :: "string list"
  ss_chosen_mac_method :: string
  ss_key_agreement_protocols :: "string list"
  ss_chosen_key_agreement :: "string option"
  ss_state :: sas_state
  ss_we_started_it :: bool
  ss_sas_accepted :: bool
  ss_commitment :: "string option"
  ss_cancel_reason :: string
  ss_cancel_code :: string
  ss_established_sas :: "'e option"
  ss_their_sas_key :: string
  ss_verified_devices :: "string list"
  ss_creation_time :: int
  ss_last_event_time :: int

abbreviation sas_method_v1 :: string where "sas_method_v1 \<equiv> ''m.sas.v1''"
abbreviation key_agreement_v1 :: string where "key_agreement_v1 \<equiv> ''curve25519''"
abbreviation key_agreement_v2 :: string where "key_agreement_v2 \<equiv> ''curve25519-hkdf-sha256''"
abbreviation hash_v1 :: string where "hash_v1 \<equiv> ''sha256''"
abbreviation mac_normal :: string where "mac_normal \<equiv> ''hkdf-hmac-sha256''"

definition key_agreement_protocols :: "string list" where
  "key_agreement_protocols = [key_agreement_v1, key_agreement_v2]"

definition strings_v1 :: "string list" where
  "strings_v1 = [''emoji'', ''decimal'']"

datatype cancel_error =
    user_cancel_error | timeout_error | txid_error | unknown_method_error | unexpected_message_error
  | key_mismatch_error | user_mismatch_error | invalid_message_error | commitment_mismatch_error
  | sas_mismatch_error

fun error_code :: "cancel_error \<Rightarrow> string" where
  "error_code user_cancel_error = ''m.user''"
| "error_code timeout_error = ''m.timeout''"
| "error_code txid_error = ''m.unknown_transaction''"
| "error_code unknown_method_error = ''m.unknown_method''"
| "error_code unexpected_message_error = ''m.unexpected_message''"
| "error_code key_mismatch_error = ''m.key_mismatch''"
| "error_code user_mismatch_error = ''m.user_error''"
| "error_code invalid_message_error = ''m.invalid_message''"
| "error_code commitment_mismatch_error = ''m.mismatched_commitment''"
| "error_code sas_mismatch_error = ''m.mismatched_sas''"

fun error_reason :: "cancel_error \<Rightarrow> string" where
  "error_reason user_cancel_error = ''Canceled by user''"
| "error_reason timeout_error = ''Timed out''"
| "error_reason txid_error = ''Unknown transaction''"
| "error_reason unknown_method_error = ''Unknown method''"
| "error_reason unexpected_message_error = ''Unexpected message''"
| "error_reason key_mismatch_error = ''Key mismatch''"
| "error_reason user_mismatch_error = ''User mismatch''"
| "error_reason invalid_message_error = ''Invalid message''"
| "error_reason commitment_mismatch_error = ''Mismatched commitment''"
| "error_reason sas_mismatch_error = ''Mismatched short authentication string''"

definition emoji_table :: "(string \<times> string) list" where
  "emoji_table =
    [([CHR 0xF0, CHR 0x9F, CHR 0x90, CHR 0xB6], ''Dog''),
     ([CHR 0xF0, CHR 0x9F, CHR 0x90, CHR 0xB1], ''Cat''),
     ([CHR 0xF0, CHR 0x9F, CHR 0xA6, CHR 0x81], ''Lion''),
     ([CHR 0xF0, CHR 0x9F, CHR 0x90, CHR 0x8E], ''Horse''),
     ([CHR 0xF0, CHR 0x9F, CHR 0xA6, CHR 0x84], ''Unicorn''),
     ([CHR 0xF0, CHR 0x9F, CHR 0x90, CHR 0xB7], ''Pig''),
     ([CHR 0xF0, CHR 0x9F, CHR 0x90, CHR 0x98], ''Elephant''),
     ([CHR 0xF0, CHR 0x9F, CHR 0x90, CHR 0xB0], ''Rabbit''),
     ([CHR 0xF0, CHR 0x9F, CHR 0x90, CHR 0xBC], ''Panda''),
     ([CHR 0xF0, CHR 0x9F, CHR 0x90, CHR 0x93], ''Rooster''),
     ([CHR 0xF0, CHR 0x9F, CHR 0x90, CHR 0xA7], ''Penguin''),
     ([CHR 0xF0, CHR 0x9F, CHR 0x90, CHR 0xA2], ''Turtle''),
     ([CHR 0xF0, CHR 0x9F, CHR 0x90, CHR 0x9F], ''Fish''),
     ([CHR 0xF0, CHR 0x9F, CHR 0x90, CHR 0x99], ''Octopus''),
     ([CHR 0xF0, CHR 0x9F, CHR 0xA6, CHR 0x8B], ''Butterfly''),
     ([CHR 0xF0, CHR 0x9F, CHR 0x8C, CHR 0xB7], ''Flower''),
     ([CHR 0xF0, CHR 0x9F, CHR 0x8C, CHR 0xB3], ''Tree''),
     ([CHR 0xF0, CHR 0x9F, CHR 0x8C, CHR 0xB5], ''Cactus''),
     ([CHR 0xF0, CHR 0x9F, CHR 0x8D, CHR 0x84], ''Mushroom''),
     ([CHR 0xF0, CHR 0x9F, CHR 0x8C, CHR 0x8F], ''Globe''),
     ([CHR 0xF0, CHR 0x9F, CHR 0x8C, CHR 0x99], ''Moon''),
     ([CHR 0xE2, CHR 0x98, CHR 0x81, CHR 0xEF, CHR 0xB8, CHR 0x8F], ''Cloud''),
     ([CHR 0xF0, CHR 0x9F, CHR 0x94, CHR 0xA5], ''Fire''),
     ([CHR 0xF0, CHR 0x9F, CHR 0x8D, CHR 0x8C], ''Banana''),
     ([CHR 0xF0, CHR 0x9F, CHR 0x8D, CHR 0x8E], ''Apple''),
     ([CHR 0xF0, CHR 0x9F, CHR 0x8D, CHR 0x93], ''Strawberry''),
     ([CHR 0xF0, CHR 0x9F, CHR 0x8C, CHR 0xBD], ''Corn''),
     ([CHR 0xF0, CHR 0x9F, CHR 0x8D, CHR 0x95], ''Pizza''),
     ([CHR 0xF0, CHR 0x9F, CHR 0x8E, CHR 0x82], ''Cake''),
     ([CHR 0xE2, CHR 0x9D, CHR 0xA4, CHR 0xEF, CHR 0xB8, CHR 0x8F], ''Heart''),
     ([CHR 0xF0, CHR 0x9F, CHR 0x98, CHR 0x80], ''Smiley''),
     ([CHR 0xF0, CHR 0x9F, CHR 0xA4, CHR 0x96], ''Robot''),
     ([CHR 0xF0, CHR 0x9F, CHR 0x8E, CHR 0xA9], ''Hat''),
     ([CHR 0xF0, CHR 0x9F, CHR 0x91, CHR 0x93], ''Glasses''),
     ([CHR 0xF0, CHR 0x9F, CHR 0x94, CHR 0xA7], ''Wrench''),
     ([CHR 0xF0, CHR 0x9F, CHR 0x8E, CHR 0x85], ''Santa''),
     ([CHR 0xF0, CHR 0x9F, CHR 0x91, CHR 0x8D], ''Thumbs up''),
     ([CHR 0xE2, CHR 0x98, CHR 0x82, CHR 0xEF, CHR 0xB8, CHR 0x8F], ''Umbrella''),
     ([CHR 0xE2, CHR 0x8C, CHR 0x9B], ''Hourglass''),
     ([CHR 0xE2, CHR 0x8F, CHR 0xB0], ''Clock''),
     ([CHR 0xF0, CHR 0x9F, CHR 0x8E, CHR 0x81], ''Gift''),
     ([CHR 0xF0, CHR 0x9F, CHR 0x92, CHR 0xA1], ''Light Bulb''),
     ([CHR 0xF0, CHR 0x9F, CHR 0x93, CHR 0x95], ''Book''),
     ([CHR 0xE2, CHR 0x9C, CHR 0x8F, CHR 0xEF, CHR 0xB8, CHR 0x8F], ''Pencil''),
     ([CHR 0xF0, CHR 0x9F, CHR 0x93, CHR 0x8E], ''Paperclip''),
     ([CHR 0xE2, CHR 0x9C, CHR 0x82, CHR 0xEF, CHR 0xB8, CHR 0x8F], ''Scissors''),
     ([CHR 0xF0, CHR 0x9F, CHR 0x94, CHR 0x92], ''Lock''),
     ([CHR 0xF0, CHR 0x9F, CHR 0x94, CHR 0x91], ''Key''),
     ([CHR 0xF0, CHR 0x9F, CHR 0x94, CHR 0xA8], ''Hammer''),
     ([CHR 0xE2, CHR 0x98, CHR 0x8E, CHR 0xEF, CHR 0xB8, CHR 0x8F], ''Telephone''),
     ([CHR 0xF0, CHR 0x9F, CHR 0x8F, CHR 0x81], ''Flag''),
     ([CHR 0xF0, CHR 0x9F, CHR 0x9A, CHR 0x82], ''Train''),
     ([CHR 0xF0, CHR 0x9F, CHR 0x9A, CHR 0xB2], ''Bicycle''),
     ([CHR 0xE2, CHR 0x9C, CHR 0x88, CHR 0xEF, CHR 0xB8, CHR 0x8F], ''Airplane''),
     ([CHR 0xF0, CHR 0x9F, CHR 0x9A, CHR 0x80], ''Rocket''),
     ([CHR 0xF0, CHR 0x9F, CHR 0x8F, CHR 0x86], ''Trophy''),
     ([CHR 0xE2, CHR 0x9A, CHR 0xBD], ''Ball''),
     ([CHR 0xF0, CHR 0x9F, CHR 0x8E, CHR 0xB8], ''Guitar''),
     ([CHR 0xF0, CHR 0x9F, CHR 0x8E, CHR 0xBA], ''Trumpet''),
     ([CHR 0xF0, CHR 0x9F, CHR 0x94, CHR 0x94], ''Bell''),
     ([CHR 0xE2, CHR 0x9A, CHR 0x93], ''Anchor''),
     ([CHR 0xF0, CHR 0x9F, CHR 0x8E, CHR 0xA7], ''Headphones''),
     ([CHR 0xF0, CHR 0x9F, CHR 0x93, CHR 0x81], ''Folder''),
     ([CHR 0xF0, CHR 0x9F, CHR 0x93, CHR 0x8C], ''Pin'')]"

definition cancel_with :: "cancel_error \<Rightarrow> 'e sas \<Rightarrow> 'e sas" where
  "cancel_with e s = s \<lparr> ss_state := sas_canceled, ss_cancel_code := error_code e, ss_cancel_reason := error_reason e \<rparr>"

definition list_or :: "'a list option \<Rightarrow> 'a list \<Rightarrow> 'a list" where
  "list_or x y = (case x of Some (a # xs) \<Rightarrow> a # xs | _ \<Rightarrow> y)"

definition sas_new ::
  "string \<Rightarrow> string \<Rightarrow> int \<Rightarrow> string \<Rightarrow> string \<Rightarrow> string \<Rightarrow> olm_device \<Rightarrow> string option \<Rightarrow>
   string list option \<Rightarrow> string list option \<Rightarrow> 'e sas" where
  "sas_new pubkey fresh_id now own_user own_device own_fp_key other transaction_id short_auth_string mac_methods =
     \<lparr> ss_pubkey = pubkey, ss_own_user = own_user, ss_own_device = own_device, ss_own_fp_key = own_fp_key,
       ss_other_olm_device = other,
       ss_transaction_id = list_or transaction_id fresh_id,
       ss_short_auth_string = list_or short_auth_string strings_v1,
       ss_mac_methods = list_or mac_methods [mac_normal],
       ss_chosen_mac_method = [], ss_key_agreement_protocols = key_agreement_protocols,
       ss_chosen_key_agreement = None, ss_state = sas_created, ss_we_started_it = True,
       ss_sas_accepted = False, ss_commitment = None, ss_cancel_reason = [], ss_cancel_code = [],
       ss_established_sas = None, ss_their_sas_key = [], ss_verified_devices = [],
       ss_creation_time = now, ss_last_event_time = now \<rparr>"

section \<open>Events and messages\<close>

record kv_event =
  kv_sender :: string
  kv_transaction_id :: string

record kv_start = kv_event +
  kv_method :: string
  kv_key_agreement_protocols :: "string list"
  kv_hashes :: "string list"
  kv_message_authentication_codes :: "string list"
  kv_short_authentication_string :: "string list"
  kv_source_content :: jobj

record kv_accept = kv_event +
  ka_commitment :: string
  ka_key_agreement_protocol :: string
  ka_hash :: string
  ka_message_authentication_code :: string
  ka_short_authentication_string :: "string list"

record kv_key = kv_event +
  kk_key :: string

record kv_mac = kv_event +
  km_mac :: "(string, string) dict"
  km_keys :: string

record to_device_message =
  td_type :: string
  td_recipient :: string
  td_recipient_device :: string
  td_content :: jobj

definition sas_message :: "string \<Rightarrow> 'e sas \<Rightarrow> jobj \<Rightarrow> to_device_message" where
  "sas_message t s content =
     \<lparr> td_type = t, td_recipient = od_user_id (ss_other_olm_device s),
       td_recipient_device = od_device_id (ss_other_olm_device s), td_content = content \<rparr>"

section \<open>Starting\<close>

definition start_unsupported :: "kv_start \<Rightarrow> bool" where
  "start_unsupported event \<longleftrightarrow>
     sas_method_v1 \<noteq> kv_method event \<or>
     (key_agreement_v1 \<notin> set (kv_key_agreement_protocols event) \<and>
      key_agreement_v2 \<notin> set (kv_key_agreement_protocols event)) \<or>
     hash_v1 \<notin> set (kv_hashes event) \<or>
     mac_normal \<notin> set (kv_message_authentication_codes event) \<or>
     (''emoji'' \<notin> set (kv_short_authentication_string event) \<and>
      ''decimal'' \<notin> set (kv_short_authentication_string event))"

definition from_key_verification_start ::
  "'e vodozemac \<Rightarrow> string \<Rightarrow> string \<Rightarrow> int \<Rightarrow> string \<Rightarrow> string \<Rightarrow> string \<Rightarrow> olm_device \<Rightarrow> kv_start \<Rightarrow> 'e sas" where
  "from_key_verification_start vz pubkey fresh_id now own_user own_device own_fp_key other event =
     (let obj = sas_new pubkey fresh_id now own_user own_device own_fp_key other
            (Some (kv_transaction_id event)) (Some (kv_short_authentication_string event))
            (Some (kv_message_authentication_codes event));
          obj = obj \<lparr> ss_we_started_it := False, ss_state := sas_started,
            ss_commitment := Some (vz_sha256_hex vz (pubkey @ to_canonical_json (kv_source_content event))),
            ss_key_agreement_protocols := kv_key_agreement_protocols event \<rparr>
      in if start_unsupported event then cancel_with unknown_method_error obj else obj)"

definition start_content :: "'e sas \<Rightarrow> jobj" where
  "start_content s =
     [(''from_device'', JStr (ss_own_device s)), (''method'', JStr sas_method_v1),
      (''transaction_id'', JStr (ss_transaction_id s)),
      (''key_agreement_protocols'', JArr (map JStr key_agreement_protocols)),
      (''hashes'', JArr [JStr hash_v1]),
      (''message_authentication_codes'', JArr [JStr mac_normal]),
      (''short_authentication_string'', JArr (map JStr strings_v1))]"

definition start_verification :: "('e sas, to_device_message) op" where
  "start_verification =
     andthen (check_or (LocalProtocolError ''Verification was not started by us, can't send start verification message.'')
                ss_we_started_it)
     (andthen (check_or (LocalProtocolError ''SAS verification was canceled, can't send start verification message.'')
                (\<lambda>s. ss_state s \<noteq> sas_canceled))
     (reads (\<lambda>s. sas_message ''m.key.verification.start'' s (start_content s))))"

definition accept_verification :: "('e sas, to_device_message) op" where
  "accept_verification =
     andthen (check_or (LocalProtocolError ''Verification was started by us, can't accept offer.'')
                (\<lambda>s. \<not> ss_we_started_it s))
     (andthen (check_or (LocalProtocolError ''SAS verification was canceled, can't accept offer.'')
                (\<lambda>s. ss_state s \<noteq> sas_canceled))
     (andthen (modify (\<lambda>s. s \<lparr> ss_chosen_mac_method := mac_normal,
          ss_chosen_key_agreement :=
            Some (if key_agreement_v2 \<in> set (ss_key_agreement_protocols s) then key_agreement_v2
                  else key_agreement_v1) \<rparr>))
     (reads (\<lambda>s. sas_message ''m.key.verification.accept'' s
        [(''transaction_id'', JStr (ss_transaction_id s)),
         (''key_agreement_protocol'', jstr_opt (ss_chosen_key_agreement s)),
         (''hash'', JStr hash_v1),
         (''message_authentication_code'', JStr (ss_chosen_mac_method s)),
         (''short_authentication_string'',
            JArr (map JStr (filter (\<lambda>m. m \<in> set (ss_short_auth_string s)) strings_v1))),
         (''commitment'', jstr_opt (ss_commitment s))]))))"

definition share_key :: "('e sas, to_device_message) op" where
  "share_key =
     andthen (check_or (LocalProtocolError ''SAS verification was canceled, can't share our public key.'')
                (\<lambda>s. ss_state s \<noteq> sas_canceled))
     (reads (\<lambda>s. sas_message ''m.key.verification.key'' s
        [(''transaction_id'', JStr (ss_transaction_id s)), (''key'', JStr (ss_pubkey s))]))"

section \<open>Acceptance, rejection, cancellation, timeout\<close>

definition verified :: "'e sas \<Rightarrow> bool" where
  "verified s = (ss_state s = sas_mac_received \<and> ss_sas_accepted s)"

definition canceled :: "'e sas \<Rightarrow> bool" where
  "canceled s = (ss_state s = sas_canceled)"

definition timed_out :: "int \<Rightarrow> ('e sas, bool) op" where
  "timed_out now s =
     (if verified s \<or> canceled s then (Inr False, s)
      else if now - ss_creation_time s \<ge> 300000000 \<or> now - ss_last_event_time s \<ge> 60000000
      then (Inr True, cancel_with timeout_error s)
      else (Inr False, s))"

definition accept_sas :: "('e sas, unit) op" where
  "accept_sas =
     andthen (check_or (LocalProtocolError ''Key verification process was canceled can't accept short authentication string'')
                (\<lambda>s. ss_state s \<noteq> sas_canceled))
     (andthen (check_or (LocalProtocolError ''Other public key isn't set yet, can't generate nor accept a short authentication string.'')
                (\<lambda>s. ss_established_sas s \<noteq> None))
     (modify (\<lambda>s. s \<lparr> ss_sas_accepted := True \<rparr>)))"

definition reject_sas :: "('e sas, unit) op" where
  "reject_sas =
     andthen (check_or (LocalProtocolError ''Other public key isn't set yet, can't generate nor reject a short authentication string.'')
                (\<lambda>s. ss_established_sas s \<noteq> None))
     (modify (cancel_with sas_mismatch_error))"

definition sas_cancel :: "('e sas, unit) op" where
  "sas_cancel = modify (cancel_with user_cancel_error)"

definition get_cancellation :: "('e sas, to_device_message) op" where
  "get_cancellation =
     andthen (check_or (LocalProtocolError ''Sas process isn't canceled.'') (\<lambda>s. ss_state s = sas_canceled))
     (andthen (check_or (AssertionError ''cancel_code'') (\<lambda>s. ss_cancel_code s \<noteq> []))
     (andthen (check_or (AssertionError ''cancel_reason'') (\<lambda>s. ss_cancel_reason s \<noteq> []))
     (reads (\<lambda>s. sas_message ''m.key.verification.cancel'' s
        [(''code'', JStr (ss_cancel_code s)), (''reason'', JStr (ss_cancel_reason s)),
         (''transaction_id'', JStr (ss_transaction_id s))]))))"

section \<open>Short authentication strings\<close>

definition extra_info_v1 :: "'e sas \<Rightarrow> string" where
  "extra_info_v1 s =
     (let device = ss_other_olm_device s;
          our_info = ss_own_user s @ ss_own_device s;
          their_info = od_user_id device @ od_device_id device
      in if ss_we_started_it s
         then ''MATRIX_KEY_VERIFICATION_SAS'' @ our_info @ their_info @ ss_transaction_id s
         else ''MATRIX_KEY_VERIFICATION_SAS'' @ their_info @ our_info @ ss_transaction_id s)"

definition extra_info_v2 :: "'e sas \<Rightarrow> exn + string" where
  "extra_info_v2 s =
     (if ss_established_sas s = None then Inl (AssertionError ''established_sas'')
      else
        let device = ss_other_olm_device s;
            our_info = ss_own_user s @ ''|'' @ ss_own_device s @ ''|'' @ ss_pubkey s;
            their_info = od_user_id device @ ''|'' @ od_device_id device @ ''|'' @ ss_their_sas_key s
        in Inr (if ss_we_started_it s
            then ''MATRIX_KEY_VERIFICATION_SAS|'' @ our_info @ ''|'' @ their_info @ ''|'' @ ss_transaction_id s
            else ''MATRIX_KEY_VERIFICATION_SAS|'' @ their_info @ ''|'' @ our_info @ ''|'' @ ss_transaction_id s))"

definition extra_info :: "'e sas \<Rightarrow> exn + string" where
  "extra_info s =
     (if ss_chosen_key_agreement s = Some key_agreement_v1 then Inr (extra_info_v1 s)
      else if ss_chosen_key_agreement s = Some key_agreement_v2 then extra_info_v2 s
      else Inl (ValueError ''Unknown key agreement protocol''))"

definition bits8 :: "nat \<Rightarrow> nat list" where
  "bits8 x = map (\<lambda>i. x div 2 ^ i mod 2) [7, 6, 5, 4, 3, 2, 1, 0]"

definition bits_value :: "nat list \<Rightarrow> nat" where
  "bits_value bs = foldl (\<lambda>a b. 2 * a + b) 0 bs"

function grouper :: "nat \<Rightarrow> 'a list \<Rightarrow> 'a list list" where
  "grouper n xs = (if xs = [] \<or> n = 0 then [] else take n xs # grouper n (drop n xs))"
  by pat_completeness auto
termination by (relation "measure (length \<circ> snd)") auto

declare grouper.simps [simp del]

text \<open>An incomplete last group is filled with None, which \<^verbatim>\<open>"".join\<close> refuses.\<close>

definition emoji_numbers :: "nat list \<Rightarrow> exn + nat list" where
  "emoji_numbers generated_bytes =
     (let number = take 42 (concat (map bits8 generated_bytes))
      in if length number mod 6 \<noteq> 0 then Inl (TypeError ''sequence item: expected str instance, NoneType found'')
         else Inr (map bits_value (grouper 6 number)))"

definition generate_emoji :: "'e vodozemac \<Rightarrow> 'e sas \<Rightarrow> string \<Rightarrow> exn + (string \<times> string) list" where
  "generate_emoji vz s info =
     (case ss_established_sas s of
        None \<Rightarrow> Inl (AssertionError ''established_sas'')
      | Some e \<Rightarrow>
          rbind (emoji_numbers (vz_emoji_indices vz e info))
            (\<lambda>ns. Inr (map (\<lambda>n. emoji_table ! n) ns)))"

definition generate_decimals :: "'e vodozemac \<Rightarrow> 'e sas \<Rightarrow> string \<Rightarrow> exn + int list" where
  "generate_decimals vz s info =
     (case ss_established_sas s of
        None \<Rightarrow> Inl (AssertionError ''established_sas'')
      | Some e \<Rightarrow> Inr (vz_decimals vz e info))"

definition get_emoji :: "'e vodozemac \<Rightarrow> 'e sas \<Rightarrow> exn + (string \<times> string) list" where
  "get_emoji vz s = rbind (extra_info s) (generate_emoji vz s)"

definition get_decimals :: "'e vodozemac \<Rightarrow> 'e sas \<Rightarrow> exn + int list" where
  "get_decimals vz s = rbind (extra_info s) (generate_decimals vz s)"

section \<open>Message authentication\<close>

definition own_mac_info :: "'e sas \<Rightarrow> string" where
  "own_mac_info s =
     ''MATRIX_KEY_VERIFICATION_MAC'' @ ss_own_user s @ ss_own_device s @
     od_user_id (ss_other_olm_device s) @ od_device_id (ss_other_olm_device s) @ ss_transaction_id s"

definition their_mac_info :: "'e sas \<Rightarrow> string" where
  "their_mac_info s =
     ''MATRIX_KEY_VERIFICATION_MAC'' @ od_user_id (ss_other_olm_device s) @ od_device_id (ss_other_olm_device s) @
     ss_own_user s @ ss_own_device s @ ss_transaction_id s"

definition mac_content :: "'e vodozemac \<Rightarrow> 'e \<Rightarrow> 'e sas \<Rightarrow> (string, string) dict \<times> string" where
  "mac_content vz e s =
     (let key_id = ''ed25519:'' @ ss_own_device s; info = own_mac_info s
      in ([(key_id, vz_calculate_mac vz e (ss_own_fp_key s) (info @ key_id))],
          vz_calculate_mac vz e key_id (info @ ''KEY_IDS'')))"

definition get_mac :: "'e vodozemac \<Rightarrow> ('e sas, to_device_message) op" where
  "get_mac vz =
     andthen (check_or (LocalProtocolError ''SAS string wasn't yet accepted'') ss_sas_accepted)
     (andthen (check_or (LocalProtocolError ''SAS verification was canceled, can't generate MAC.'')
                (\<lambda>s. ss_state s \<noteq> sas_canceled))
     (bnd (reads ss_established_sas) (\<lambda>est.
      case est of
        None \<Rightarrow> raise (AssertionError ''established_sas'')
      | Some e \<Rightarrow>
          andthen (check_or (AssertionError ''chosen_mac_method'') (\<lambda>s. ss_chosen_mac_method s \<noteq> []))
          (reads (\<lambda>s. sas_message ''m.key.verification.mac'' s
             [(''mac'', JObj (map (\<lambda>(k, v). (k, JStr v)) (fst (mac_content vz e s)))),
              (''keys'', JStr (snd (mac_content vz e s))),
              (''transaction_id'', JStr (ss_transaction_id s))])))))"

section \<open>Receiving\<close>

definition event_ok :: "('z) kv_event_scheme \<Rightarrow> ('e sas, bool) op" where
  "event_ok event s =
     (if ss_state s = sas_canceled then (Inr False, s)
      else if kv_transaction_id event \<noteq> ss_transaction_id s then (Inr False, cancel_with txid_error s)
      else if od_user_id (ss_other_olm_device s) \<noteq> kv_sender event
      then (Inr False, cancel_with user_mismatch_error s)
      else (Inr True, s))"

definition receive_accept_event :: "kv_accept \<Rightarrow> ('e sas, unit) op" where
  "receive_accept_event event =
     bnd (event_ok event) (\<lambda>ok.
     if \<not> ok then ret ()
     else bnd (reads ss_state) (\<lambda>st.
     if st \<noteq> sas_created then modify (cancel_with unexpected_message_error)
     else if ka_key_agreement_protocol event \<notin> set key_agreement_protocols \<or>
        ka_hash event \<noteq> hash_v1 \<or>
        ka_message_authentication_code event \<notin> set [mac_normal] \<or>
        (''emoji'' \<notin> set (ka_short_authentication_string event) \<and>
         ''decimal'' \<notin> set (ka_short_authentication_string event))
     then modify (cancel_with unknown_method_error)
     else modify (\<lambda>s. s
       \<lparr> ss_commitment := Some (ka_commitment event),
         ss_chosen_mac_method := ka_message_authentication_code event,
         ss_chosen_key_agreement := Some (ka_key_agreement_protocol event),
         ss_short_auth_string := ka_short_authentication_string event,
         ss_state := sas_accepted \<rparr>)))"

definition check_commitment :: "'e vodozemac \<Rightarrow> string \<Rightarrow> ('e sas, bool) op" where
  "check_commitment vz key =
     andthen (check_or (AssertionError ''commitment'') (\<lambda>s. ss_commitment s \<noteq> None \<and> ss_commitment s \<noteq> Some []))
     (bnd start_verification (\<lambda>m.
      reads (\<lambda>s. ss_commitment s = Some (vz_sha256_hex vz (key @ to_canonical_json (td_content m))))))"

definition establish_sas :: "'e vodozemac \<Rightarrow> string \<Rightarrow> ('e sas, unit) op" where
  "establish_sas vz their_public_key =
     bnd (reads ss_pubkey) (\<lambda>own.
     bnd (lift_res (vz_diffie_hellman vz own their_public_key)) (\<lambda>e.
     modify (\<lambda>s. s \<lparr> ss_established_sas := Some e, ss_their_sas_key := their_public_key \<rparr>)))"

definition receive_key_event :: "'e vodozemac \<Rightarrow> kv_key \<Rightarrow> ('e sas, unit) op" where
  "receive_key_event vz event =
     bnd (reads (\<lambda>s. ss_established_sas s \<noteq> None \<or>
            (ss_state s \<noteq> sas_started \<and> ss_state s \<noteq> sas_accepted))) (\<lambda>unexpected.
     if unexpected then modify (cancel_with unexpected_message_error)
     else
       bnd (event_ok event) (\<lambda>ok.
       if \<not> ok then ret ()
       else
         bnd (reads ss_we_started_it) (\<lambda>started.
         bnd (if started then check_commitment vz (kk_key event) else ret True) (\<lambda>matches.
         if \<not> matches then modify (cancel_with commitment_mismatch_error)
         else
           andthen (establish_sas vz (kk_key event))
           (modify (\<lambda>s. s \<lparr> ss_state := sas_key_received \<rparr>))))))"

text \<open>\<^verbatim>\<open>key_id.split(":", 2)\<close> unpacked into two names: exactly one colon, else ValueError.\<close>

definition split_key_id :: "string \<Rightarrow> (string \<times> string) option" where
  "split_key_id key_id =
     (case split_on (CHR '':'') key_id of [a, b] \<Rightarrow> Some (a, b) | _ \<Rightarrow> None)"

text \<open>The loop over \<^verbatim>\<open>event.mac.items()\<close>; False when it returned early.\<close>

fun check_macs :: "'e vodozemac \<Rightarrow> 'e \<Rightarrow> string \<Rightarrow> (string \<times> string) list \<Rightarrow> ('e sas, bool) op" where
  "check_macs vz e info [] = ret True"
| "check_macs vz e info ((key_id, key_mac) # rest) =
     (case split_key_id key_id of
        None \<Rightarrow> andthen (modify (cancel_with invalid_message_error)) (ret False)
      | Some (key_type, device_id) \<Rightarrow>
          if key_type \<noteq> ''ed25519'' then andthen (modify (cancel_with key_mismatch_error)) (ret False)
          else
            bnd (reads ss_other_olm_device) (\<lambda>other.
            if device_id \<noteq> od_device_id other then check_macs vz e info rest
            else
              bnd (lift_res (device_ed25519 other)) (\<lambda>other_fp_key.
              if key_mac \<noteq> vz_calculate_mac vz e other_fp_key (info @ key_id)
              then andthen (modify (cancel_with key_mismatch_error)) (ret False)
              else
                andthen (modify (\<lambda>s. s \<lparr> ss_verified_devices := ss_verified_devices s @ [device_id] \<rparr>))
                (check_macs vz e info rest))))"

definition receive_mac_event :: "'e vodozemac \<Rightarrow> kv_mac \<Rightarrow> ('e sas, unit) op" where
  "receive_mac_event vz event =
     bnd (reads verified) (\<lambda>done_already.
     if done_already then ret ()
     else bnd (event_ok event) (\<lambda>ok.
     if \<not> ok then ret ()
     else bnd (reads ss_state) (\<lambda>st.
     if st \<noteq> sas_key_received then modify (cancel_with unexpected_message_error)
     else bnd (reads their_mac_info) (\<lambda>info.
     bnd (reads ss_established_sas) (\<lambda>est.
     case est of
       None \<Rightarrow> raise (AssertionError ''established_sas'')
     | Some e \<Rightarrow>
         andthen (check_or (AssertionError ''chosen_mac_method'') (\<lambda>s. ss_chosen_mac_method s \<noteq> []))
         (if km_keys event \<noteq> vz_calculate_mac vz e (join '','' (sort (dkeys (km_mac event)))) (info @ ''KEY_IDS'')
          then modify (cancel_with key_mismatch_error)
          else
            bnd (check_macs vz e info (km_mac event)) (\<lambda>completed.
            if \<not> completed then ret ()
            else
              andthen (modify (\<lambda>s. if ss_verified_devices s = [] then cancel_with key_mismatch_error s else s))
              (modify (\<lambda>s. s \<lparr> ss_state := sas_mac_received \<rparr>)))))))))"

end
