(* ===== verification/Nio_Sas_Facts.thy ===== *)
theory Nio_Sas_Facts
  imports Nio_Sas
begin

text \<open>
  What the verification state machine of \<open>Nio_Sas\<close> guarantees: the transitions it can make, that
  both sides derive the same short strings, when a message authentication code is accepted, and
  that an honest exchange verifies the other device.
\<close>

section \<open>Transitions\<close>

datatype sas_act =
    ActReceiveAccept kv_accept
  | ActReceiveKey kv_key
  | ActReceiveMac kv_mac
  | ActAcceptVerification
  | ActAcceptSas
  | ActRejectSas
  | ActCancel
  | ActTimedOut int
  | ActSetTheirPubkey string

fun sas_run :: "'e vodozemac \<Rightarrow> sas_act \<Rightarrow> ('e sas, unit) op" where
  "sas_run vz (ActReceiveAccept e) = receive_accept_event e"
| "sas_run vz (ActReceiveKey e) = receive_key_event vz e"
| "sas_run vz (ActReceiveMac e) = receive_mac_event vz e"
| "sas_run vz ActAcceptVerification = andthen accept_verification (ret ())"
| "sas_run vz ActAcceptSas = accept_sas"
| "sas_run vz ActRejectSas = reject_sas"
| "sas_run vz ActCancel = sas_cancel"
| "sas_run vz (ActTimedOut now) = andthen (timed_out now) (ret ())"
| "sas_run vz (ActSetTheirPubkey k) = establish_sas vz k"

inductive sas_edge :: "sas_state \<Rightarrow> sas_state \<Rightarrow> bool" where
  edge_stay: "sas_edge s s"
| edge_cancel: "sas_edge s sas_canceled"
| edge_accepted: "sas_edge sas_created sas_accepted"
| edge_key_started: "sas_edge sas_started sas_key_received"
| edge_key_accepted: "sas_edge sas_accepted sas_key_received"
| edge_mac: "sas_edge sas_key_received sas_mac_received"

inductive_cases sas_edge_canceledE: "sas_edge sas_canceled t"
inductive_simps sas_edge_from_canceled: "sas_edge sas_canceled t"

lemma cancel_with_fields [simp]:
  "ss_state (cancel_with e s) = sas_canceled" "ss_cancel_code (cancel_with e s) = error_code e"
  "ss_cancel_reason (cancel_with e s) = error_reason e"
  "ss_verified_devices (cancel_with e s) = ss_verified_devices s"
  "ss_established_sas (cancel_with e s) = ss_established_sas s"
  "ss_sas_accepted (cancel_with e s) = ss_sas_accepted s"
  "ss_other_olm_device (cancel_with e s) = ss_other_olm_device s"
  by (simp_all add: cancel_with_def)

definition ok_sender :: "('z) kv_event_scheme \<Rightarrow> 'e sas \<Rightarrow> bool" where
  "ok_sender ev s \<longleftrightarrow> ss_state s \<noteq> sas_canceled \<and> kv_transaction_id ev = ss_transaction_id s \<and>
     od_user_id (ss_other_olm_device s) = kv_sender ev"

lemma event_ok_true: "ok_sender ev s \<Longrightarrow> event_ok ev s = (Inr True, s)"
  by (simp add: event_ok_def ok_sender_def)

definition refused :: "('z) kv_event_scheme \<Rightarrow> 'e sas \<Rightarrow> 'e sas" where
  "refused ev s =
     (if ss_state s = sas_canceled then s
      else if kv_transaction_id ev \<noteq> ss_transaction_id s then cancel_with txid_error s
      else cancel_with user_mismatch_error s)"

lemma event_ok_false: "\<not> ok_sender ev s \<Longrightarrow> event_ok ev s = (Inr False, refused ev s)"
  by (auto simp: event_ok_def ok_sender_def refused_def)

lemma refused_state [simp]: "ss_state (refused ev s) = sas_canceled"
  by (simp add: refused_def)

lemma check_macs_state:
  "check_macs vz e info ms s = (r, t) \<Longrightarrow>
   ss_state t = (if r = Inr False then sas_canceled else ss_state s)"
proof (induction ms arbitrary: s)
  case (Cons m ms)
  obtain k v where m: "m = (k, v)" by (cases m)
  show ?case
    using Cons.prems Cons.IH
    by (fastforce simp: m op_basic split: option.splits prod.splits sum.splits if_splits)
qed (auto simp: ret_def)


definition finish_mac :: "'e sas \<Rightarrow> 'e sas" where
  "finish_mac s = (if ss_verified_devices s = [] then cancel_with key_mismatch_error s else s)
     \<lparr> ss_state := sas_mac_received \<rparr>"

lemma receive_mac_run:
  "receive_mac_event vz ev s =
    (if verified s then (Inr (), s)
     else if \<not> ok_sender ev s then (Inr (), refused ev s)
     else if ss_state s \<noteq> sas_key_received then (Inr (), cancel_with unexpected_message_error s)
     else (case ss_established_sas s of
        None \<Rightarrow> (Inl (AssertionError ''established_sas''), s)
      | Some e \<Rightarrow>
          if ss_chosen_mac_method s = [] then (Inl (AssertionError ''chosen_mac_method''), s)
          else if km_keys ev \<noteq> vz_calculate_mac vz e (join '','' (sort (dkeys (km_mac ev)))) (their_mac_info s @ ''KEY_IDS'')
          then (Inr (), cancel_with key_mismatch_error s)
          else (case check_macs vz e (their_mac_info s) (km_mac ev) s of
             (Inl x, t) \<Rightarrow> (Inl x, t)
           | (Inr False, t) \<Rightarrow> (Inr (), t)
           | (Inr True, t) \<Rightarrow> (Inr (), finish_mac t))))"
  using event_ok_true[of ev s] event_ok_false[of ev s]
  by (cases "ok_sender ev s")
     (auto simp: receive_mac_event_def op_basic finish_mac_def split: option.splits prod.splits sum.splits bool.splits)

lemma receive_key_run:
  "receive_key_event vz ev s =
    (if ss_established_sas s \<noteq> None \<or> (ss_state s \<noteq> sas_started \<and> ss_state s \<noteq> sas_accepted)
     then (Inr (), cancel_with unexpected_message_error s)
     else if \<not> ok_sender ev s then (Inr (), refused ev s)
     else if ss_we_started_it s \<and> (ss_commitment s = None \<or> ss_commitment s = Some [])
     then (Inl (AssertionError ''commitment''), s)
     else if ss_we_started_it s \<and>
       ss_commitment s \<noteq> Some (vz_sha256_hex vz (kk_key ev @ to_canonical_json (start_content s)))
     then (Inr (), cancel_with commitment_mismatch_error s)
     else (case vz_diffie_hellman vz (ss_pubkey s) (kk_key ev) of
        Inl x \<Rightarrow> (Inl x, s)
      | Inr e \<Rightarrow> (Inr (), s \<lparr> ss_established_sas := Some e, ss_their_sas_key := kk_key ev,
                              ss_state := sas_key_received \<rparr>)))"
proof (cases "ok_sender ev s")
  case True
  then have nc: "ss_state s \<noteq> sas_canceled" by (simp add: ok_sender_def)
  show ?thesis using event_ok_true[OF True] True nc
    by (auto simp: receive_key_event_def op_basic check_commitment_def start_verification_def sas_message_def
        establish_sas_def split: sum.splits)
next
  case False
  then show ?thesis using event_ok_false[OF False]
    by (auto simp: receive_key_event_def op_basic)
qed

lemma receive_accept_edge: "sas_edge (ss_state s) (ss_state (snd (receive_accept_event ev s)))"
proof (cases "ok_sender ev s")
  case True
  then show ?thesis using event_ok_true[OF True]
    by (auto simp: receive_accept_event_def op_basic intro: sas_edge.intros)
next
  case False
  then show ?thesis using event_ok_false[OF False]
    by (auto simp: receive_accept_event_def op_basic intro: sas_edge.intros split: prod.splits)
qed

lemma receive_key_edge: "sas_edge (ss_state s) (ss_state (snd (receive_key_event vz ev s)))"
  unfolding receive_key_run
  by (auto simp: intro: sas_edge.intros split: sum.splits)

lemma receive_mac_edge: "sas_edge (ss_state s) (ss_state (snd (receive_mac_event vz ev s)))"
  unfolding receive_mac_run
  by (auto simp: finish_mac_def intro: sas_edge.intros dest!: check_macs_state
      split: option.splits prod.splits sum.splits bool.splits)

lemma sas_run_edge: "sas_edge (ss_state s) (ss_state (snd (sas_run vz act s)))"
proof (cases act)
  case (ActReceiveAccept e) then show ?thesis by (simp add: receive_accept_edge)
next
  case (ActReceiveKey e) then show ?thesis by (simp add: receive_key_edge)
next
  case (ActReceiveMac e) then show ?thesis by (simp add: receive_mac_edge)
qed (auto simp: op_basic accept_verification_def accept_sas_def reject_sas_def sas_cancel_def timed_out_def
      establish_sas_def intro: sas_edge.intros split: sum.splits)

definition sas_runs :: "'e vodozemac \<Rightarrow> sas_act list \<Rightarrow> 'e sas \<Rightarrow> 'e sas" where
  "sas_runs vz acts s = foldl (\<lambda>s act. snd (sas_run vz act s)) s acts"

lemma sas_runs_canceled: "canceled s \<Longrightarrow> canceled (sas_runs vz acts s)"
proof (induction acts arbitrary: s)
  case (Cons act acts)
  have "canceled (snd (sas_run vz act s))"
    using sas_run_edge[of s vz act] Cons.prems
    by (auto simp: canceled_def sas_edge_from_canceled)
  with Cons.IH show ?case by (simp add: sas_runs_def)
qed (simp add: sas_runs_def)

text \<open>C27: Every operation moves the verification along its protocol or cancels it: accepted only
  from created, key received only from started or accepted, MAC received only from key received;
  and a canceled verification stays canceled, so it is never verified, whatever follows.\<close>

theorem sas_follows_protocol:
  "sas_edge (ss_state s) (ss_state (snd (sas_run vz act s))) \<and>
   (canceled s \<longrightarrow> canceled (sas_runs vz acts s) \<and> \<not> verified (sas_runs vz acts s))"
  using sas_run_edge[of s vz act] sas_runs_canceled[of s vz acts]
  by (auto simp: canceled_def verified_def)

section \<open>A concrete library and session\<close>

definition toy_vz :: "(string \<times> string) vodozemac" where
  "toy_vz = \<lparr> vz_sha256_hex = (\<lambda>s. ''h'' @ s), vz_diffie_hellman = (\<lambda>a b. Inr (a, b)),
     vz_calculate_mac = (\<lambda>e m i. m @ ''#'' @ i), vz_emoji_indices = (\<lambda>e i. [1, 2, 3, 4, 5, 6, 7]),
     vz_decimals = (\<lambda>e i. [1, 2, 3]) \<rparr>"

definition toy_alice :: "(string \<times> string) sas" where
  "toy_alice = sas_new ''A'' ''t1'' 0 ''@alice:x'' ''ADEV'' ''afp'' (OlmDevice ''@bob:x'' ''BDEV'' [(''ed25519'', ''bfp'')])
     None None None"

definition toy_bob :: "(string \<times> string) sas" where
  "toy_bob = sas_new ''B'' ''t1'' 0 ''@bob:x'' ''BDEV'' ''bfp'' (OlmDevice ''@alice:x'' ''ADEV'' [(''ed25519'', ''afp'')])
     None None None"

definition with_keys :: "'e \<Rightarrow> 'e sas \<Rightarrow> 'e sas" where
  "with_keys e s = s \<lparr> ss_established_sas := Some e, ss_state := sas_key_received, ss_sas_accepted := True,
     ss_chosen_mac_method := mac_normal, ss_chosen_key_agreement := Some key_agreement_v2 \<rparr>"

theorem sas_follows_protocol_witness:
  "\<not> verified (sas_runs toy_vz [ActAcceptSas, ActReceiveMac \<lparr> kv_sender = ''@bob:x'', kv_transaction_id = ''t1'',
     km_mac = [], km_keys = [] \<rparr>] (cancel_with timeout_error toy_alice))"
  using sas_follows_protocol[of "cancel_with timeout_error toy_alice" toy_vz ActCancel] by (simp add: canceled_def)

section \<open>Accepting a MAC\<close>

text \<open>What the loop over the MACs checks of each entry.\<close>

definition mac_entry_ok :: "'e vodozemac \<Rightarrow> 'e \<Rightarrow> string \<Rightarrow> olm_device \<Rightarrow> string \<Rightarrow> string \<times> string \<Rightarrow> bool" where
  "mac_entry_ok vz e info other fp entry \<longleftrightarrow>
     (\<exists>device_id. split_key_id (fst entry) = Some (''ed25519'', device_id) \<and>
        (device_id = od_device_id other \<longrightarrow> snd entry = vz_calculate_mac vz e fp (info @ fst entry)))"

lemma check_macs_ok:
  assumes "device_ed25519 (ss_other_olm_device s) = Inr fp"
  shows "\<exists>b t. check_macs vz e info ms s = (Inr b, t) \<and>
    (b \<longleftrightarrow> list_all (mac_entry_ok vz e info (ss_other_olm_device s) fp) ms)"
  using assms
proof (induction ms arbitrary: s)
  case (Cons m ms)
  obtain k v where m: "m = (k, v)" by (cases m)
  show ?case
    using Cons.IH[of s] Cons.IH[of "s \<lparr> ss_verified_devices := ss_verified_devices s @ [od_device_id (ss_other_olm_device s)] \<rparr>"]
      Cons.prems
    by (auto simp: m op_basic mac_entry_ok_def split: option.splits)
qed (auto simp: ret_def)

text \<open>C22: A MAC event is accepted exactly when it comes from the other user in this
  transaction, its list of key ids is authenticated, every key id names a signing key, and every
  key of the other device is authenticated; otherwise the verification is canceled. That the other
  device's key is among them is not required.\<close>

theorem mac_accepted_iff:
  assumes "ss_state s = sas_key_received" "ss_established_sas s = Some e" "ss_chosen_mac_method s \<noteq> []"
    and "device_ed25519 (ss_other_olm_device s) = Inr fp"
  shows "ss_state (snd (receive_mac_event vz ev s)) =
    (if kv_transaction_id ev = ss_transaction_id s \<and> kv_sender ev = od_user_id (ss_other_olm_device s) \<and>
        km_keys ev = vz_calculate_mac vz e (join '','' (sort (dkeys (km_mac ev)))) (their_mac_info s @ ''KEY_IDS'') \<and>
        list_all (mac_entry_ok vz e (their_mac_info s) (ss_other_olm_device s) fp) (km_mac ev)
     then sas_mac_received else sas_canceled)"
proof (cases "ok_sender ev s")
  case True
  obtain b t where run: "check_macs vz e (their_mac_info s) (km_mac ev) s = (Inr b, t)"
    and b: "b \<longleftrightarrow> list_all (mac_entry_ok vz e (their_mac_info s) (ss_other_olm_device s) fp) (km_mac ev)"
    using check_macs_ok[OF assms(4)] by blast
  show ?thesis
    using assms True run b check_macs_state[OF run]
    by (cases b) (auto simp: receive_mac_run verified_def ok_sender_def finish_mac_def)
next
  case False
  then show ?thesis
    using assms event_ok_false[OF False]
    by (auto simp: receive_mac_run verified_def ok_sender_def)
qed


definition toy_mac :: kv_mac where
  "toy_mac = \<lparr> kv_sender = ''@bob:x'', kv_transaction_id = ''t1'',
     km_mac = [(''ed25519:BDEV'', ''bfp#'' @ their_mac_info (with_keys (''A'', ''B'') toy_alice) @ ''ed25519:BDEV'')],
     km_keys = ''ed25519:BDEV#'' @ their_mac_info (with_keys (''A'', ''B'') toy_alice) @ ''KEY_IDS'' \<rparr>"

theorem mac_accepted_iff_witness:
  "ss_state (snd (receive_mac_event toy_vz toy_mac (with_keys (''A'', ''B'') toy_alice))) = sas_mac_received"
  by (subst mac_accepted_iff[where e = "(''A'', ''B'')" and fp = "''bfp''"])
     (simp_all add: with_keys_def toy_alice_def sas_new_def list_or_def device_key_def OlmDevice_def toy_mac_def
       toy_vz_def mac_entry_ok_def split_key_id_def)

section \<open>An honest exchange verifies\<close>

text \<open>Two sessions of one verification, each side seeing the other's identity.\<close>

definition mirrored :: "'e sas \<Rightarrow> 'e sas \<Rightarrow> bool" where
  "mirrored a b \<longleftrightarrow>
     ss_transaction_id a = ss_transaction_id b \<and>
     od_user_id (ss_other_olm_device a) = ss_own_user b \<and> od_device_id (ss_other_olm_device a) = ss_own_device b \<and>
     od_user_id (ss_other_olm_device b) = ss_own_user a \<and> od_device_id (ss_other_olm_device b) = ss_own_device a \<and>
     ss_we_started_it a \<noteq> ss_we_started_it b \<and> ss_established_sas a = ss_established_sas b"

lemma mirrored_infos: "mirrored a b \<Longrightarrow> their_mac_info a = own_mac_info b"
  by (simp add: mirrored_def their_mac_info_def own_mac_info_def)

text \<open>Both sides derive the short string from the same text, whichever started, once they
  agreed on the key agreement protocol and hold each other's public key.\<close>

theorem short_strings_agree:
  assumes "mirrored a b" "ss_chosen_key_agreement a = ss_chosen_key_agreement b"
    and "ss_their_sas_key a = ss_pubkey b" "ss_their_sas_key b = ss_pubkey a"
  shows "extra_info a = extra_info b \<and> get_emoji vz a = get_emoji vz b \<and> get_decimals vz a = get_decimals vz b"
proof -
  have "extra_info a = extra_info b"
    using assms by (cases "ss_we_started_it a")
      (auto simp: extra_info_def extra_info_v1_def extra_info_v2_def Let_def mirrored_def)
  moreover have "ss_established_sas a = ss_established_sas b" using assms(1) by (simp add: mirrored_def)
  ultimately show ?thesis
    by (simp add: get_emoji_def get_decimals_def generate_emoji_def[abs_def] generate_decimals_def[abs_def])
qed

theorem short_strings_agree_witness:
  "get_decimals toy_vz ((with_keys (''A'', ''B'') toy_alice) \<lparr> ss_their_sas_key := ''B'' \<rparr>) =
   get_decimals toy_vz ((with_keys (''A'', ''B'') toy_bob) \<lparr> ss_their_sas_key := ''A'', ss_we_started_it := False \<rparr>)"
  using short_strings_agree[of "(with_keys (''A'', ''B'') toy_alice) \<lparr> ss_their_sas_key := ''B'' \<rparr>"
      "(with_keys (''A'', ''B'') toy_bob) \<lparr> ss_their_sas_key := ''A'', ss_we_started_it := False \<rparr>" toy_vz]
  by (simp add: mirrored_def with_keys_def toy_alice_def toy_bob_def sas_new_def list_or_def OlmDevice_def)

lemma split_key_id_own: "CHR '':'' \<notin> set d \<Longrightarrow> split_key_id (''ed25519:'' @ d) = Some (''ed25519'', d)"
  using split_on_append[of "CHR '':''" "''ed25519''" d]
  by (simp add: split_key_id_def split_on_single)

text \<open>C31: When both users accept the short string, the MAC event built from the other side's
  \<^verbatim>\<open>get_mac\<close> verifies exactly the other device, provided its fingerprint key is the one we
  know and its device id has no colon.\<close>

theorem honest_mac_verifies:
  assumes "mirrored a b" "ss_state a = sas_key_received" "ss_sas_accepted a"
    and "ss_established_sas b = Some e" "ss_chosen_mac_method a \<noteq> []"
    and "device_ed25519 (ss_other_olm_device a) = Inr (ss_own_fp_key b)"
    and "CHR '':'' \<notin> set (ss_own_device b)"
    and "ev = \<lparr> kv_sender = ss_own_user b, kv_transaction_id = ss_transaction_id b,
                km_mac = fst (mac_content vz e b), km_keys = snd (mac_content vz e b) \<rparr>"
  shows "verified (snd (receive_mac_event vz ev a)) \<and>
    ss_verified_devices (snd (receive_mac_event vz ev a)) = ss_verified_devices a @ [ss_own_device b]"
proof -
  have m: "od_device_id (ss_other_olm_device a) = ss_own_device b"
      "od_user_id (ss_other_olm_device a) = ss_own_user b"
      "ss_transaction_id b = ss_transaction_id a" "ss_established_sas a = Some e"
    using assms(1,4) by (auto simp: mirrored_def)
  have ok: "ok_sender ev a" using assms(2,8) m by (simp add: ok_sender_def)
  let ?a = "a \<lparr> ss_verified_devices := ss_verified_devices a @ [ss_own_device b] \<rparr>"
  have "check_macs vz e (their_mac_info a) (km_mac ev) a = (Inr True, ?a)"
    using m assms(6,7)
    by (simp add: assms(8) mac_content_def Let_def mirrored_infos[OF assms(1)] op_basic
        split_key_id_own[simplified])
  moreover have "km_keys ev = vz_calculate_mac vz e (join '','' (sort (dkeys (km_mac ev)))) (their_mac_info a @ ''KEY_IDS'')"
    by (simp add: assms(8) mac_content_def Let_def mirrored_infos[OF assms(1)])
  ultimately have "receive_mac_event vz ev a = (Inr (), finish_mac ?a)"
    using assms(2,5) ok m(4) by (simp add: receive_mac_run verified_def)
  then show ?thesis using assms(3) by (simp add: verified_def finish_mac_def)
qed

theorem honest_mac_verifies_witness:
  "verified (snd (receive_mac_event toy_vz
     \<lparr> kv_sender = ''@bob:x'', kv_transaction_id = ''t1'',
       km_mac = fst (mac_content toy_vz (''A'', ''B'') (with_keys (''A'', ''B'') toy_bob)),
       km_keys = snd (mac_content toy_vz (''A'', ''B'') (with_keys (''A'', ''B'') toy_bob)) \<rparr>
     ((with_keys (''A'', ''B'') toy_alice) \<lparr> ss_we_started_it := False \<rparr>)))"
  by (rule honest_mac_verifies[where b = "with_keys (''A'', ''B'') toy_bob" and e = "(''A'', ''B'')", THEN conjunct1])
     (simp_all add: mirrored_def with_keys_def toy_alice_def toy_bob_def sas_new_def list_or_def OlmDevice_def device_key_def)

section \<open>The commitment binds the other key\<close>

text \<open>The side that started takes the other side's public key only when the accept message
  had committed to exactly that key and the start message; nobody takes a second key.\<close>

theorem key_requires_commitment:
  assumes "ss_state (snd (receive_key_event vz ev s)) = sas_key_received"
  shows "ss_established_sas s = None \<and> ss_their_sas_key (snd (receive_key_event vz ev s)) = kk_key ev \<and>
    (ss_we_started_it s \<longrightarrow>
       ss_commitment s = Some (vz_sha256_hex vz (kk_key ev @ to_canonical_json (start_content s))))"
  using assms by (auto simp: receive_key_run split: if_splits sum.splits)

theorem key_requires_commitment_witness:
  "ss_their_sas_key (snd (receive_key_event toy_vz \<lparr> kv_sender = ''@bob:x'', kv_transaction_id = ''t1'', kk_key = ''B'' \<rparr>
     (toy_alice \<lparr> ss_state := sas_started, ss_we_started_it := False \<rparr>))) = ''B''"
proof -
  have "ss_state (snd (receive_key_event toy_vz \<lparr> kv_sender = ''@bob:x'', kv_transaction_id = ''t1'', kk_key = ''B'' \<rparr>
     (toy_alice \<lparr> ss_state := sas_started, ss_we_started_it := False \<rparr>))) = sas_key_received"
    by (simp add: receive_key_run ok_sender_def toy_alice_def sas_new_def list_or_def OlmDevice_def toy_vz_def)
  from key_requires_commitment[OF this] show ?thesis by simp
qed

section \<open>Where the protocol is weaker than it means to be\<close>

text \<open>\<^verbatim>\<open>receive_mac_event\<close> cancels when it verified no device and then sets the state to MAC
  received all the same: an authenticated but empty MAC leaves the session verified with no
  verified device, and the callers mark the other device as trusted.\<close>

theorem empty_mac_verifies:
  assumes "ss_state s = sas_key_received" "ss_sas_accepted s" "ss_established_sas s = Some e"
    and "ss_chosen_mac_method s \<noteq> []" "ss_verified_devices s = []"
    and "ev = \<lparr> kv_sender = od_user_id (ss_other_olm_device s), kv_transaction_id = ss_transaction_id s,
                km_mac = [], km_keys = vz_calculate_mac vz e [] (their_mac_info s @ ''KEY_IDS'') \<rparr>"
  shows "verified (snd (receive_mac_event vz ev s)) \<and> ss_verified_devices (snd (receive_mac_event vz ev s)) = []"
  using assms by (simp add: receive_mac_run ok_sender_def verified_def ret_def finish_mac_def)

theorem empty_mac_verifies_witness:
  "verified (snd (receive_mac_event toy_vz
     \<lparr> kv_sender = ''@bob:x'', kv_transaction_id = ''t1'', km_mac = [],
       km_keys = ''#'' @ their_mac_info (with_keys (''A'', ''B'') toy_alice) @ ''KEY_IDS'' \<rparr>
     (with_keys (''A'', ''B'') toy_alice)))"
  by (rule empty_mac_verifies[where e = "(''A'', ''B'')", THEN conjunct1])
     (simp_all add: with_keys_def toy_alice_def sas_new_def list_or_def OlmDevice_def toy_vz_def)

text \<open>The peer that started can send its key and its MAC before the offer was accepted here; the
  assertion on the chosen method then fails inside the event handler.\<close>

theorem mac_before_accept_asserts:
  assumes "ss_state s = sas_key_received" "ss_established_sas s = Some e" "ss_chosen_mac_method s = []"
    and "ok_sender ev s"
  shows "receive_mac_event vz ev s = (Inl (AssertionError ''chosen_mac_method''), s)"
  using assms by (simp add: receive_mac_run verified_def)

text \<open>The time of the last event is set when the session is created and never again, so every
  verification that is not done times out after one minute, not after five.\<close>

lemma last_event_time_const: "ss_last_event_time (snd (event_ok ev s)) = ss_last_event_time s"
  by (simp add: event_ok_def cancel_with_def)

theorem times_out_after_a_minute:
  assumes "s = sas_new pk fresh t0 user device fp other tx strings macs" "t0 + 60000000 \<le> now"
  shows "timed_out now s = (Inr True, cancel_with timeout_error s)"
  using assms by (simp add: timed_out_def sas_new_def verified_def canceled_def)

text \<open>The emoji table is indexed with the bits of the bytes regrouped six by six, which is what
  six raw bytes need; the seven indices 1 to 7 are shown as 0, 16, 8, 3, 1, 0 and 20.\<close>

theorem emoji_indices_regrouped:
  "emoji_numbers [1, 2, 3, 4, 5, 6, 7] = Inr [0, 16, 8, 3, 1, 0, 20]"
  by code_simp

end
