(* ===== verification/Nio_Schema.thy ===== *)
theory Nio_Schema
  imports Nio_Json Nio_Effects
begin

text \<open>
  The JSON schemas of \<^verbatim>\<open>src/nio/schemas.py\<close> as data, and what the sources rely on when they
  validate with them. \<open>conforms\<close> is the meaning the Draft 4 specification gives to the keywords
  the sources use (\<^verbatim>\<open>const\<close> is not one of Draft 4 and is ignored), with the two format checkers
  the file registers. \<open>fill\<close> is \<^verbatim>\<open>extend_with_default\<close>: it puts the declared defaults into
  every object a validation descends into. The validator itself is the \<^verbatim>\<open>jsonschema\<close> package: a
  parameter, of which \<open>draft4\<close> states the documented behaviour.
\<close>

section \<open>Regular expressions of the schemas\<close>

text \<open>Each name stands for one pattern of the file; \<open>re_search\<close> is \<^verbatim>\<open>re.search\<close> on it.\<close>

datatype pattern =
    RoomRegex | UserIdRegex | EventTypeRegex | Base64Regex | KeyRegex
  | SignedCurveRegex | Any_Text | Some_Text | Count_Regex

abbreviation newline :: char where
  "newline \<equiv> CHR 0x0A"

text \<open>What \<^verbatim>\<open>.*$\<close> can match: one line, with at most one newline at the very end.\<close>

definition one_line :: "string \<Rightarrow> string option" where
  "one_line s =
     (let u = takeWhile (\<lambda>c. c \<noteq> newline) s; r = drop (length u) s
      in if r = [] \<or> r = [newline] then Some u else None)"

fun search :: "(string \<Rightarrow> bool) \<Rightarrow> string \<Rightarrow> bool" where
  "search f [] = f []"
| "search f (c # s) = (f (c # s) \<or> search f s)"

fun starts :: "string \<Rightarrow> string \<Rightarrow> string option" where
  "starts [] s = Some s"
| "starts (p # ps) [] = None"
| "starts (p # ps) (c # s) = (if p = c then starts ps s else None)"

definition begins_line :: "string \<Rightarrow> bool" where
  "begins_line s = (case s of [] \<Rightarrow> False | c # _ \<Rightarrow> c \<noteq> newline)"

definition follows :: "string \<Rightarrow> (string \<Rightarrow> bool) \<Rightarrow> string \<Rightarrow> bool" where
  "follows p f s = (case starts p s of None \<Rightarrow> False | Some t \<Rightarrow> f t)"

definition ascii_between :: "char \<Rightarrow> char \<Rightarrow> char \<Rightarrow> bool" where
  "ascii_between a b c = (byte_of a \<le> byte_of c \<and> byte_of c \<le> byte_of b)"

definition base64_char :: "char \<Rightarrow> bool" where
  "base64_char c =
     (ascii_between CHR ''A'' CHR ''Z'' c \<or> ascii_between CHR ''a'' CHR ''z'' c \<or>
      ascii_between CHR ''0'' CHR ''9'' c \<or> c = CHR ''-'' \<or> c = CHR ''+'' \<or> c = CHR ''/'' \<or> c = CHR ''='')"

definition count_char :: "char \<Rightarrow> bool" where
  "count_char c = (ascii_between CHR ''0'' CHR ''9'' c \<or> c = CHR ''.'' \<or> c = CHR ''-'')"

fun re_search :: "pattern \<Rightarrow> string \<Rightarrow> bool" where
  "re_search RoomRegex s =
     follows ''!'' (\<lambda>t. case one_line t of None \<Rightarrow> False | Some u \<Rightarrow> u \<noteq> []) s"
| "re_search UserIdRegex s =
     follows ''@'' (\<lambda>t. case one_line t of None \<Rightarrow> False | Some u \<Rightarrow> CHR '':'' \<in> set (butlast u)) s"
| "re_search EventTypeRegex s =
     (CHR ''.'' \<in> set (butlast (tl (takeWhile (\<lambda>c. c \<noteq> newline) s))))"
| "re_search Base64Regex s =
     (list_ex (\<lambda>c. \<not> base64_char c) s \<or>
      search (follows ''='' (\<lambda>t. t \<noteq> [] \<and> hd t \<noteq> CHR ''='')) s \<or>
      search (\<lambda>t. t = ''==='') s)"
| "re_search KeyRegex s =
     (search (follows ''ed25519:'' begins_line) s \<or> search (follows ''curve25519:'' begins_line) s)"
| "re_search SignedCurveRegex s = search (follows ''curve25519:'' begins_line) s"
| "re_search Any_Text s = True"
| "re_search Some_Text s = search begins_line s"
| "re_search Count_Regex s = list_ex count_char s"

section \<open>Schemas\<close>

text \<open>
  A schema is the list of its keywords in the order the dictionary of the source has them.
  \<open>Additional\<close> is \<^verbatim>\<open>additionalProperties\<close>, with the names of the properties beside it; where the
  source says False its schema is the one nothing conforms to.
  \<open>Unknown\<close> is a key no draft defines, which a validator skips.
\<close>

datatype schema = Schema "kw list"
and kw =
    Type "string list"
  | Properties "(string \<times> schema) list"
  | Required "string list"
  | Items schema
  | Not schema
  | AnyOf "schema list"
  | Enum "json list"
  | Const json
  | Pattern pattern
  | Format string
  | PatternProperties "(pattern \<times> schema) list"
  | Minimum int
  | Additional "string list" schema
  | Default json
  | Unknown string

fun has_json_type :: "json \<Rightarrow> string \<Rightarrow> bool" where
  "has_json_type JNull t = (t = ''null'')"
| "has_json_type (JBool _) t = (t = ''boolean'')"
| "has_json_type (JInt _) t = (t = ''integer'' \<or> t = ''number'')"
| "has_json_type (JFloat _) t = (t = ''number'')"
| "has_json_type (JStr _) t = (t = ''string'')"
| "has_json_type (JArr _) t = (t = ''array'')"
| "has_json_type (JObj _) t = (t = ''object'')"

definition check_user_id :: "string \<Rightarrow> bool" where
  "check_user_id s = ((case s of [] \<Rightarrow> False | c # _ \<Rightarrow> c = CHR ''@'') \<and> CHR '':'' \<in> set s)"

definition check_http_url :: "string \<Rightarrow> bool" where
  "check_http_url s = (follows ''http://'' begins_line s \<or> follows ''https://'' begins_line s)"

text \<open>A format nobody registered is no constraint; \<^verbatim>\<open>room_id\<close> is such a one.\<close>

definition format_ok :: "string \<Rightarrow> json \<Rightarrow> bool" where
  "format_ok f v =
     (case v of
        JStr s \<Rightarrow> if f = ''user_id'' then check_user_id s
                  else if f = ''http_url'' then check_http_url s else True
      | _ \<Rightarrow> True)"

text \<open>A number below an integer bound. A float is kept as its text, of which the sign is all
  that the one bound of the sources, 0, needs.\<close>

definition not_below :: "int \<Rightarrow> json \<Rightarrow> bool" where
  "not_below n v =
     (case v of
        JInt i \<Rightarrow> n \<le> i
      | JFloat t \<Rightarrow> t = ''-0.0'' \<or> starts ''-'' t = None
      | _ \<Rightarrow> True)"

fun conforms :: "schema \<Rightarrow> json \<Rightarrow> bool" and conforms_kw :: "kw \<Rightarrow> json \<Rightarrow> bool" where
  "conforms (Schema ks) v = (\<forall>k \<in> set ks. conforms_kw k v)"
| "conforms_kw (Type ts) v = (\<exists>t \<in> set ts. has_json_type v t)"
| "conforms_kw (Properties ps) v =
     (case v of
        JObj d \<Rightarrow> (\<forall>p \<in> set ps. case dget d (fst p) of None \<Rightarrow> True | Some x \<Rightarrow> conforms (snd p) x)
      | _ \<Rightarrow> True)"
| "conforms_kw (Required rs) v =
     (case v of JObj d \<Rightarrow> (\<forall>r \<in> set rs. dget d r \<noteq> None) | _ \<Rightarrow> True)"
| "conforms_kw (Items s) v = (case v of JArr xs \<Rightarrow> (\<forall>x \<in> set xs. conforms s x) | _ \<Rightarrow> True)"
| "conforms_kw (Not s) v = (\<not> conforms s v)"
| "conforms_kw (AnyOf ss) v = (\<exists>s \<in> set ss. conforms s v)"
| "conforms_kw (Enum vs) v = (v \<in> set vs)"
| "conforms_kw (Const c) v = True"
| "conforms_kw (Pattern p) v = (case v of JStr s \<Rightarrow> re_search p s | _ \<Rightarrow> True)"
| "conforms_kw (Format f) v = format_ok f v"
| "conforms_kw (PatternProperties ps) v =
     (case v of
        JObj d \<Rightarrow> (\<forall>p \<in> set ps. \<forall>e \<in> set d. re_search (fst p) (fst e) \<longrightarrow> conforms (snd p) (snd e))
      | _ \<Rightarrow> True)"
| "conforms_kw (Minimum n) v = not_below n v"
| "conforms_kw (Additional names s) v =
     (case v of JObj d \<Rightarrow> (\<forall>e \<in> set d. fst e \<notin> set names \<longrightarrow> conforms s (snd e)) | _ \<Rightarrow> True)"
| "conforms_kw (Default c) v = True"
| "conforms_kw (Unknown u) v = True"

section \<open>Defaults\<close>

fun default_of :: "schema \<Rightarrow> json option" where
  "default_of (Schema ks) =
     foldr (\<lambda>k r. case k of Default c \<Rightarrow> Some c | _ \<Rightarrow> r) ks None"

text \<open>\<^verbatim>\<open>instance.setdefault(property, subschema["default"])\<close> for the declared properties.\<close>

definition set_default :: "jobj \<Rightarrow> string \<times> schema \<Rightarrow> jobj" where
  "set_default d p =
     (case default_of (snd p) of
        None \<Rightarrow> d
      | Some c \<Rightarrow> (if dget d (fst p) = None then dset d (fst p) c else d))"

definition set_defaults :: "(string \<times> schema) list \<Rightarrow> jobj \<Rightarrow> jobj" where
  "set_defaults ps d = foldl set_default d ps"

text \<open>The value a validation leaves in place of \<open>v\<close>: the defaults are set before the properties
  are descended into, so a default is filled as well.\<close>

fun fill :: "schema \<Rightarrow> json \<Rightarrow> json" and fill_kw :: "kw \<Rightarrow> json \<Rightarrow> json" where
  "fill (Schema ks) v = foldl (\<lambda>w k. fill_kw k w) v ks"
| "fill_kw (Properties ps) v =
     (case v of
        JObj d \<Rightarrow> JObj (foldl (\<lambda>e p. case dget e (fst p) of
                                 None \<Rightarrow> e
                               | Some x \<Rightarrow> dset e (fst p) (fill (snd p) x))
                         (set_defaults ps d) ps)
      | _ \<Rightarrow> v)"
| "fill_kw (Items s) v = (case v of JArr xs \<Rightarrow> JArr (map (fill s) xs) | _ \<Rightarrow> v)"
| "fill_kw (PatternProperties ps) v =
     (case v of
        JObj d \<Rightarrow> JObj (foldl (\<lambda>e p. map (\<lambda>q. if re_search (fst p) (fst q)
                                               then (fst q, fill (snd p) (snd q)) else q) e) d ps)
      | _ \<Rightarrow> v)"
| "fill_kw (Type ts) v = v"
| "fill_kw (Required rs) v = v"
| "fill_kw (Not s) v = v"
| "fill_kw (AnyOf ss) v = v"
| "fill_kw (Enum vs) v = v"
| "fill_kw (Const c) v = v"
| "fill_kw (Pattern p) v = v"
| "fill_kw (Format f) v = v"
| "fill_kw (Minimum n) v = v"
| "fill_kw (Additional names s) v = v"
| "fill_kw (Default c) v = v"
| "fill_kw (Unknown u) v = v"

lemma zip_smaller [termination_simp]:
  "(a, b) \<in> set (zip xs ys) \<Longrightarrow> size a < Suc (size_list size xs)"
  by (drule set_zip_leftD) (simp add: size_list_estimation less_Suc_eq_le size_list_estimation')

text \<open>\<open>w\<close> is \<open>v\<close> with more keys in its objects.\<close>

fun grows :: "json \<Rightarrow> json \<Rightarrow> bool" where
  "grows (JObj d) w =
     (case w of
        JObj e \<Rightarrow> (\<forall>p \<in> set d. dget d (fst p) = Some (snd p) \<longrightarrow>
                    (case dget e (fst p) of None \<Rightarrow> False | Some y \<Rightarrow> grows (snd p) y))
      | _ \<Rightarrow> False)"
| "grows (JArr xs) w =
     (case w of
        JArr ys \<Rightarrow> length xs = length ys \<and> (\<forall>p \<in> set (zip xs ys). grows (fst p) (snd p))
      | _ \<Rightarrow> False)"
| "grows v w = (w = v)"

text \<open>
  The shape the schemas of the sources have, and which the behaviour of the validator that
  they rely on depends on: defaults only where the instance is already known to be an object
  and never below \<^verbatim>\<open>not\<close>, \<^verbatim>\<open>anyOf\<close> or \<^verbatim>\<open>additionalProperties\<close>, one descending keyword, distinct property names, and
  \<^verbatim>\<open>required\<close> after \<^verbatim>\<open>properties\<close>.
\<close>

fun descends :: "kw \<Rightarrow> bool" where
  "descends (Properties _) = True"
| "descends (PatternProperties _) = True"
| "descends (Items _) = True"
| "descends _ = False"

fun no_defaults :: "schema \<Rightarrow> bool" and no_defaults_kw :: "kw \<Rightarrow> bool" where
  "no_defaults (Schema ks) = (\<forall>k \<in> set ks. no_defaults_kw k)"
| "no_defaults_kw (Properties ps) = (\<forall>p \<in> set ps. no_defaults (snd p))"
| "no_defaults_kw (Items s) = no_defaults s"
| "no_defaults_kw (PatternProperties ps) = (\<forall>p \<in> set ps. no_defaults (snd p))"
| "no_defaults_kw (Not s) = no_defaults s"
| "no_defaults_kw (AnyOf ss) = (\<forall>s \<in> set ss. no_defaults s)"
| "no_defaults_kw (Additional names s) = no_defaults s"
| "no_defaults_kw (Default c) = False"
| "no_defaults_kw (Type _) = True"
| "no_defaults_kw (Required _) = True"
| "no_defaults_kw (Enum _) = True"
| "no_defaults_kw (Const _) = True"
| "no_defaults_kw (Pattern _) = True"
| "no_defaults_kw (Format _) = True"
| "no_defaults_kw (Minimum _) = True"
| "no_defaults_kw (Unknown _) = True"

fun in_order :: "bool \<Rightarrow> bool \<Rightarrow> kw list \<Rightarrow> bool" where
  "in_order typed seen [] = True"
| "in_order typed seen (Type ts # ks) = in_order (typed \<or> ts = [''object'']) seen ks"
| "in_order typed seen (Required rs # ks) = in_order typed True ks"
| "in_order typed seen (Properties ps # ks) =
     ((no_defaults_kw (Properties ps) \<or> typed \<and> \<not> seen) \<and> in_order typed seen ks)"
| "in_order typed seen (k # ks) = ((no_defaults_kw k \<or> \<not> seen) \<and> in_order typed seen ks)"

fun tidy :: "schema \<Rightarrow> bool" and tidy_kw :: "kw \<Rightarrow> bool" where
  "tidy (Schema ks) =
     ((\<forall>k \<in> set ks. tidy_kw k) \<and> length (filter descends ks) \<le> 1 \<and> in_order False False ks)"
| "tidy_kw (Properties ps) = (distinct (map fst ps) \<and> (\<forall>p \<in> set ps. tidy (snd p)))"
| "tidy_kw (Items s) = tidy s"
| "tidy_kw (PatternProperties ps) = (length ps \<le> 1 \<and> (\<forall>p \<in> set ps. tidy (snd p)))"
| "tidy_kw (Not s) = no_defaults s"
| "tidy_kw (AnyOf ss) = (\<forall>s \<in> set ss. no_defaults s)"
| "tidy_kw (Additional names s) = no_defaults s"
| "tidy_kw _ = True"

lemma type_simps [simp]:
  "has_json_type v ''object'' \<longleftrightarrow> (\<exists>d. v = JObj d)"
  "has_json_type v ''string'' \<longleftrightarrow> (\<exists>s. v = JStr s)"
  "has_json_type v ''array'' \<longleftrightarrow> (\<exists>xs. v = JArr xs)"
  "has_json_type v ''integer'' \<longleftrightarrow> (\<exists>i. v = JInt i)"
  "has_json_type v ''boolean'' \<longleftrightarrow> (\<exists>b. v = JBool b)"
  "has_json_type v ''null'' \<longleftrightarrow> v = JNull"
  by (cases v; simp)+

section \<open>The validator\<close>

text \<open>
  \<^verbatim>\<open>validate_json\<close>: whether the instance is accepted, and the instance afterwards, which a
  validation changes in place. What is relied on, for tidy schemas: an instance is accepted
  exactly if it conforms once its defaults are set; it then has all of them; a rejected
  instance may have some of them.
\<close>

type_synonym validator = "schema \<Rightarrow> json \<Rightarrow> bool \<times> json"

definition draft4 :: "validator \<Rightarrow> bool" where
  "draft4 validate =
     (\<forall>s v. tidy s \<longrightarrow>
        (fst (validate s v) = conforms s (fill s v)) \<and>
        (fst (validate s v) \<longrightarrow> snd (validate s v) = fill s v) \<and>
        (no_defaults s \<longrightarrow> snd (validate s v) = v) \<and>
        grows v (snd (validate s v)) \<and> grows (snd (validate s v)) (fill s v))"

text \<open>A validator of that behaviour.\<close>

definition plain_validator :: validator where
  "plain_validator s v = (conforms s (fill s v), if conforms s (fill s v) then fill s v else v)"

section \<open>Growth\<close>

lemma dget_SomeD: "dget d k = Some x \<Longrightarrow> (k, x) \<in> set d"
  by (rule map_of_SomeD)

lemma grows_obj:
  "grows (JObj d) (JObj e) \<longleftrightarrow> (\<forall>k x. dget d k = Some x \<longrightarrow> (\<exists>y. dget e k = Some y \<and> grows x y))"
proof
  assume g: "grows (JObj d) (JObj e)"
  show "\<forall>k x. dget d k = Some x \<longrightarrow> (\<exists>y. dget e k = Some y \<and> grows x y)"
  proof (intro allI impI)
    fix k x assume k: "dget d k = Some x"
    from g dget_SomeD[OF k] have "dget d (fst (k, x)) = Some (snd (k, x)) \<longrightarrow>
        (case dget e (fst (k, x)) of None \<Rightarrow> False | Some y \<Rightarrow> grows (snd (k, x)) y)"
      unfolding grows.simps json.case by (rule bspec)
    with k show "\<exists>y. dget e k = Some y \<and> grows x y" by (simp split: option.splits)
  qed
qed (force split: option.splits)

lemma grows_arr: "grows (JArr xs) (JArr ys) \<longleftrightarrow> list_all2 grows xs ys"
  by (auto simp: list_all2_iff)

lemma grows_objD: "grows (JObj d) w \<Longrightarrow> \<exists>e. w = JObj e"
  by (cases w) simp_all

lemma grows_arrD: "grows (JArr xs) w \<Longrightarrow> \<exists>ys. w = JArr ys"
  by (cases w) simp_all

declare grows.simps(1,2) [simp del]

lemma grows_refl [simp]: "grows v v"
proof (induction v)
  case (JArr xs)
  then show ?case by (simp add: grows_arr list_all2_same)
next
  case (JObj d)
  then show ?case unfolding grows_obj by (fastforce dest: dget_SomeD)
qed simp_all

lemma grows_trans: "grows u v \<Longrightarrow> grows v w \<Longrightarrow> grows u w"
proof (induction u arbitrary: v w)
  case (JArr xs)
  from JArr.prems obtain ys zs where v: "v = JArr ys" and w: "w = JArr zs"
    by (metis grows_arrD)
  from JArr.prems show ?case
    unfolding v w grows_arr list_all2_conv_all_nth using JArr.IH by (metis nth_mem)
next
  case (JObj d)
  from JObj.prems obtain e f where v: "v = JObj e" and w: "w = JObj f"
    by (metis grows_objD)
  show ?case unfolding w grows_obj
  proof (intro allI impI)
    fix k x assume k: "dget d k = Some x"
    from JObj.prems(1) k obtain y where y: "dget e k = Some y" "grows x y"
      unfolding v grows_obj by blast
    from JObj.prems(2) y(1) obtain z where z: "dget f k = Some z" "grows y z"
      unfolding v w grows_obj by blast
    have "x \<in> Basic_BNFs.snds (k, x)" by simp
    with JObj.IH[OF dget_SomeD[OF k]] y(2) z(2) have "grows x z" by blast
    with z(1) show "\<exists>z. dget f k = Some z \<and> grows x z" by blast
  qed
qed simp_all

lemma grows_foldl:
  "(\<And>e x. x \<in> set xs \<Longrightarrow> grows e (f e x)) \<Longrightarrow> grows e (foldl f e xs)"
proof (induction xs arbitrary: e)
  case (Cons a xs)
  then show ?case by (auto intro: grows_trans)
qed simp

lemma grows_obj_foldl:
  "(\<And>e x. x \<in> set xs \<Longrightarrow> grows (JObj e) (JObj (f e x))) \<Longrightarrow> grows (JObj e) (JObj (foldl f e xs))"
proof (induction xs arbitrary: e)
  case (Cons a xs)
  then show ?case by (auto intro: grows_trans)
qed simp

lemma grows_set_defaults: "grows (JObj d) (JObj (set_defaults ps d))"
  unfolding set_defaults_def set_default_def
  by (rule grows_obj_foldl) (auto simp: grows_obj split: option.splits)

lemma dget_map_values:
  "dget (map (\<lambda>q. if P (fst q) then (fst q, f (snd q)) else q) d) k =
     map_option (\<lambda>x. if P k then f x else x) (dget d k)"
  by (induction d) auto

lemma grows_fill: "grows v (fill s v)" and grows_fill_kw: "grows v (fill_kw k v)"
proof (induction s v and k v rule: fill_fill_kw.induct)
  case (1 ks v)
  then show ?case by (auto intro: grows_foldl)
next
  case (2 ps v)
  show ?case
  proof (cases v)
    case (JObj d)
    have "grows (JObj (set_defaults ps d)) (JObj (foldl (\<lambda>e p. case dget e (fst p) of
        None \<Rightarrow> e | Some x \<Rightarrow> dset e (fst p) (fill (snd p) x)) (set_defaults ps d) ps))"
      by (rule grows_obj_foldl) (use 2 JObj in \<open>auto simp: grows_obj split: option.splits\<close>)
    with grows_set_defaults JObj show ?thesis by (auto intro: grows_trans)
  qed simp_all
next
  case (3 s v)
  then show ?case by (cases v) (auto simp: grows_arr list_all2_conv_all_nth)
next
  case (4 ps v)
  show ?case
  proof (cases v)
    case (JObj d)
    show ?thesis unfolding JObj fill_kw.simps json.case
      by (rule grows_obj_foldl)
        (use 4 JObj in \<open>auto simp: grows_obj dget_map_values dest: dget_SomeD\<close>)
  qed simp_all
qed simp_all

section \<open>What filling does to the keys of an object\<close>

definition fill_props :: "(string \<times> schema) list \<Rightarrow> jobj \<Rightarrow> jobj" where
  "fill_props ps d =
     foldl (\<lambda>e p. case dget e (fst p) of None \<Rightarrow> e | Some x \<Rightarrow> dset e (fst p) (fill (snd p) x)) d ps"

lemma fill_Properties: "fill_kw (Properties ps) (JObj d) = JObj (fill_props ps (set_defaults ps d))"
  by (simp add: fill_props_def)

declare fill_kw.simps(1) [simp del]

lemma dget_set_defaults:
  "distinct (map fst ps) \<Longrightarrow>
   dget (set_defaults ps d) k =
     (case dget d k of
        Some x \<Rightarrow> Some x
      | None \<Rightarrow> (case dget ps k of None \<Rightarrow> None | Some s \<Rightarrow> default_of s))"
proof (induction ps arbitrary: d)
  case (Cons p ps)
  then have new: "dget ps (fst p) = None" by (simp add: dget_None_iff)
  have "dget (set_defaults (p # ps) d) k = dget (set_defaults ps (set_default d p)) k"
    by (simp add: set_defaults_def)
  also have "\<dots> = (case dget (set_default d p) k of
        Some x \<Rightarrow> Some x
      | None \<Rightarrow> (case dget ps k of None \<Rightarrow> None | Some s \<Rightarrow> default_of s))"
    using Cons by simp
  also have "\<dots> = (case dget d k of
        Some x \<Rightarrow> Some x
      | None \<Rightarrow> (case dget (p # ps) k of None \<Rightarrow> None | Some s \<Rightarrow> default_of s))"
    using new by (cases p) (auto simp: set_default_def split: option.splits)
  finally show ?case .
qed (simp add: set_defaults_def split: option.splits)

lemma dget_fill_step:
  "distinct (map fst ps) \<Longrightarrow>
   dget (fill_props ps d) k =
     (case dget ps k of None \<Rightarrow> dget d k | Some s \<Rightarrow> map_option (fill s) (dget d k))"
proof (induction ps arbitrary: d)
  case (Cons p ps)
  then have new: "dget ps (fst p) = None" by (simp add: dget_None_iff)
  have "fill_props (p # ps) d = fill_props ps
      (case dget d (fst p) of None \<Rightarrow> d | Some x \<Rightarrow> dset d (fst p) (fill (snd p) x))"
    by (simp add: fill_props_def)
  with Cons new show ?case by (cases p) (auto split: option.splits)
qed (simp add: fill_props_def)

text \<open>A declared property is present afterwards if it was before or has a default.\<close>

lemma dget_fill_props:
  "distinct (map fst ps) \<Longrightarrow>
   dget (fill_props ps (set_defaults ps d)) k =
     (case dget ps k of
        None \<Rightarrow> dget d k
      | Some s \<Rightarrow> map_option (fill s) (case dget d k of None \<Rightarrow> default_of s | Some x \<Rightarrow> Some x))"
  by (simp add: dget_fill_step dget_set_defaults split: option.splits)

lemma fill_one_keyword:
  "length (filter descends ks) \<le> 1 \<Longrightarrow>
   fill (Schema ks) v = (case filter descends ks of [] \<Rightarrow> v | k # _ \<Rightarrow> fill_kw k v)"
proof (induction ks arbitrary: v)
  case (Cons k ks)
  show ?case
  proof (cases "descends k")
    case True
    with Cons.prems have "filter descends ks = []" by simp
    with Cons.IH[of "fill_kw k v"] True show ?thesis by simp
  next
    case False
    then have "fill_kw k v = v" by (cases k) simp_all
    with Cons False show ?thesis by simp
  qed
qed simp

lemma fill_props_id:
  "(\<And>p x. p \<in> set ps \<Longrightarrow> dget d (fst p) = Some x \<Longrightarrow> fill (snd p) x = x) \<Longrightarrow> fill_props ps d = d"
proof (induction ps)
  case (Cons p ps)
  then have "(case dget d (fst p) of None \<Rightarrow> d | Some x \<Rightarrow> dset d (fst p) (fill (snd p) x)) = d"
    by (auto simp: dset_same split: option.splits)
  with Cons show ?case by (simp add: fill_props_def)
qed (simp add: fill_props_def)

lemma set_defaults_id:
  "(\<And>p. p \<in> set ps \<Longrightarrow> default_of (snd p) \<noteq> None \<Longrightarrow> dget d (fst p) \<noteq> None) \<Longrightarrow> set_defaults ps d = d"
proof (induction ps)
  case (Cons p ps)
  have "dget d (fst p) \<noteq> None" if "default_of (snd p) \<noteq> None"
    using Cons.prems[of p] that by simp
  then have "set_default d p = d" by (auto simp: set_default_def split: option.splits)
  with Cons show ?case by (simp add: set_defaults_def)
qed (simp add: set_defaults_def)

lemma no_default_of: "no_defaults s \<Longrightarrow> default_of s = None"
proof (cases s)
  case (Schema ks)
  moreover assume "no_defaults s"
  ultimately show ?thesis
    by (induction ks arbitrary: s) (auto split: kw.splits)
qed

lemma fill_nothing: "no_defaults s \<Longrightarrow> fill s v = v" and fill_nothing_kw: "no_defaults_kw k \<Longrightarrow> fill_kw k v = v"
proof (induction s and k arbitrary: v and v rule: no_defaults_no_defaults_kw.induct)
  case (1 ks)
  have "\<forall>k \<in> set ks'. fill_kw k v = v \<Longrightarrow> foldl (\<lambda>w k. fill_kw k w) v ks' = v" for ks'
    by (induction ks') simp_all
  with 1 show ?case by simp
next
  case (2 ps)
  show ?case
  proof (cases v)
    case (JObj d)
    have "set_defaults ps d = d" by (rule set_defaults_id) (use 2 in \<open>auto simp: no_default_of\<close>)
    moreover have "fill_props ps d = d" by (rule fill_props_id) (use 2 in auto)
    ultimately show ?thesis unfolding JObj fill_Properties by simp
  qed (simp_all add: fill_kw.simps(1))
next
  case (3 s)
  then show ?case by (cases v) (auto intro: map_idI)
next
  case (4 ps)
  show ?case
  proof (cases v)
    case (JObj d)
    have "foldl (\<lambda>e p. map (\<lambda>q. if re_search (fst p) (fst q) then (fst q, fill (snd p) (snd q)) else q) e) d ps' = d"
      if "set ps' \<subseteq> set ps" for ps'
      using that 4 by (induction ps') (auto simp: map_idI)
    with JObj show ?thesis by simp
  qed simp_all
qed simp_all

lemma plain_validator_draft4: "draft4 plain_validator"
  by (simp add: draft4_def plain_validator_def grows_fill fill_nothing)

section \<open>Validating again changes nothing\<close>

lemma fill_again: "tidy s \<Longrightarrow> fill s (fill s v) = fill s v"
  and fill_again_kw: "tidy_kw k \<Longrightarrow> fill_kw k (fill_kw k v) = fill_kw k v"
proof (induction s and k arbitrary: v and v rule: tidy_tidy_kw.induct)
  case (1 ks)
  then have one: "length (filter descends ks) \<le> 1" by simp
  show ?case
  proof (cases "filter descends ks")
    case (Cons k r)
    then have "k \<in> set ks" by (metis filter_eq_ConsD in_set_conv_decomp)
    with 1 Cons show ?thesis by (simp add: fill_one_keyword[OF one] del: fill.simps)
  qed (simp add: fill_one_keyword[OF one] del: fill.simps)
next
  case (2 ps)
  show ?case
  proof (cases v)
    case (JObj d)
    define e where "e = fill_props ps (set_defaults ps d)"
    from 2 have dist: "distinct (map fst ps)" by simp
    have get: "dget ps (fst p) = Some (snd p)" if "p \<in> set ps" for p
      using dist that by simp
    have "set_defaults ps e = e"
      by (rule set_defaults_id)
        (auto simp: e_def dget_fill_props[OF dist] get split: option.splits)
    moreover have "fill_props ps e = e"
    proof (rule fill_props_id)
      fix p x assume p: "p \<in> set ps" and x: "dget e (fst p) = Some x"
      then obtain y where "x = fill (snd p) y"
        by (auto simp: e_def dget_fill_props[OF dist] get)
      with 2 p show "fill (snd p) x = x" by simp
    qed
    ultimately show ?thesis unfolding JObj fill_Properties e_def[symmetric] by simp
  qed (simp_all add: fill_kw.simps(1))
next
  case (3 s)
  then show ?case by (cases v) simp_all
next
  case (4 ps)
  then show ?case by (cases v; cases ps) (auto simp: Let_def)
qed simp_all

text \<open>The schema of a declared property, and what filling leaves there.\<close>

fun property_schema :: "string \<Rightarrow> schema \<Rightarrow> schema option" where
  "property_schema k (Schema ks) =
     (case filter descends ks of Properties ps # _ \<Rightarrow> dget ps k | _ \<Rightarrow> None)"

lemma property_schema_cases:
  assumes "tidy s" "property_schema k s = Some t" "fill s (JObj d0) = JObj d"
  shows "dget d k = map_option (fill t) (case dget d0 k of None \<Rightarrow> default_of t | Some x \<Rightarrow> Some x)"
    "tidy t"
proof -
  obtain ks where s: "s = Schema ks" by (cases s)
  from assms(1) s have one: "length (filter descends ks) \<le> 1" by simp
  from assms(2) s obtain ps r where ps: "filter descends ks = Properties ps # r" "dget ps k = Some t"
    by (auto split: list.splits kw.splits)
  from ps(1) have "Properties ps \<in> set ks" by (metis filter_eq_ConsD in_set_conv_decomp)
  moreover from assms(1) s have "\<forall>k \<in> set ks. tidy_kw k" by simp
  ultimately have tidy: "tidy_kw (Properties ps)" by blast
  with dget_SomeD[OF ps(2)] show "tidy t" by force
  from assms(3) s ps(1) have "d = fill_props ps (set_defaults ps d0)"
    using one by (simp add: fill_one_keyword fill_Properties del: fill.simps)
  with tidy ps(2) show "dget d k = map_option (fill t) (case dget d0 k of None \<Rightarrow> default_of t | Some x \<Rightarrow> Some x)"
    by (simp add: dget_fill_props)
qed

lemma fill_kw_JObjD: "fill_kw k v = JObj d \<Longrightarrow> \<exists>d0. v = JObj d0"
  by (cases k; cases v) (simp_all add: fill_kw.simps(1))

lemma fill_JObjD: "tidy s \<Longrightarrow> fill s v = JObj d \<Longrightarrow> \<exists>d0. v = JObj d0"
proof (cases s)
  case (Schema ks)
  assume "tidy s" and f: "fill s v = JObj d"
  with Schema have "length (filter descends ks) \<le> 1" by simp
  with f Schema show ?thesis
    by (auto simp: fill_one_keyword split: list.splits simp del: fill.simps dest: fill_kw_JObjD)
qed

text \<open>A default of a property of \<^verbatim>\<open>content\<close> is there after the validation.\<close>

lemma content_default:
  assumes "tidy s" "property_schema ''content'' s = Some t" "property_schema k t = Some u"
    and "default_of u \<noteq> None"
    and "fill s (JObj d0) = JObj d" "dget d ''content'' = Some (JObj c)"
  shows "dget c k \<noteq> None"
proof -
  note content = property_schema_cases[OF assms(1,2,5)]
  from content(1) assms(6) obtain y where y: "fill t y = JObj c"
    by (auto simp: eq_commute[of "Some _"])
  from fill_JObjD[OF content(2) y] obtain c0 where "y = JObj c0" by blast
  with y have "fill t (JObj c0) = JObj c" by simp
  from property_schema_cases(1)[OF content(2) assms(3) this] assms(4)
  show ?thesis by (auto split: option.splits)
qed

lemma fill_obj: "\<exists>e. fill s (JObj d) = JObj e"
  using grows_fill[of "JObj d" s] by (rule grows_objD)

lemma accepted:
  assumes "draft4 validate" "tidy s" "fst (validate s v)"
  shows "snd (validate s v) = fill s v" "conforms s (fill s v)"
  using assms by (auto simp: draft4_def)

lemma accepted_again:
  assumes "draft4 validate" "tidy s" "fst (validate s v)"
  shows "validate s (fill s v) = (True, fill s v)"
  using assms by (simp add: draft4_def fill_again prod_eq_iff)

end
