(* ===== verification/Nio_Schemas.thy ===== *)
theory Nio_Schemas
  imports Nio_Schema
begin

text \<open>
  The schemas of the room, to-device, invite, ephemeral, account data and presence events,
  each the dictionary of the same name in class \<^verbatim>\<open>Schemas\<close> of \<^verbatim>\<open>src/nio/schemas.py\<close>.
\<close>

definition Schemas_room_message :: schema where
  "Schemas_room_message =
     Schema [
       Type [''object''],
       Properties [
         (''content'',
          Schema [
            Type [''object''], Properties [(''msgtype'', Schema [Type [''string'']])],
            Required [''msgtype'']])],
       Not (Schema [Required [''state_key'']])]"

definition Schemas_room_message_text :: schema where
  "Schemas_room_message_text =
     Schema [
       Type [''object''],
       Properties [
         (''content'',
          Schema [
            Type [''object''],
            Properties [
              (''msgtype'', Schema [Type [''string''], Const (JStr ''m.text'')]),
              (''body'', Schema [Type [''string'']]),
              (''formatted_body'', Schema [Type [''string'']]),
              (''format'', Schema [Type [''string'']])],
            Required [''msgtype'', ''body'']])]]"

definition Schemas_room_message_emote :: schema where
  "Schemas_room_message_emote =
     Schema [
       Type [''object''],
       Properties [
         (''content'',
          Schema [
            Type [''object''],
            Properties [
              (''msgtype'', Schema [Type [''string''], Const (JStr ''m.emote'')]),
              (''body'', Schema [Type [''string'']]),
              (''formatted_body'', Schema [Type [''string'']]),
              (''format'', Schema [Type [''string'']])],
            Required [''msgtype'', ''body'']])]]"

definition Schemas_room_message_notice :: schema where
  "Schemas_room_message_notice =
     Schema [
       Type [''object''],
       Properties [
         (''content'',
          Schema [
            Type [''object''],
            Properties [
              (''msgtype'', Schema [Type [''string''], Const (JStr ''m.notice'')]),
              (''body'', Schema [Type [''string'']]),
              (''formatted_body'', Schema [Type [''string'']]),
              (''format'', Schema [Type [''string'']])],
            Required [''msgtype'', ''body'']])]]"

definition Schemas_room_message_media :: schema where
  "Schemas_room_message_media =
     Schema [
       Type [''object''],
       Properties [
         (''content'',
          Schema [
            Type [''object''],
            Properties [
              (''body'', Schema [Type [''string'']]), (''url'', Schema [Type [''string'']]),
              (''msgtype'',
               Schema [
                 Type [''string''],
                 Enum [JStr ''m.image'', JStr ''m.audio'', JStr ''m.video'', JStr ''m.file'']])],
            Required [''body'', ''url'', ''msgtype'']])]]"

definition Schemas_room_encrypted_media :: schema where
  "Schemas_room_encrypted_media =
     Schema [
       Type [''object''],
       Properties [
         (''content'',
          Schema [
            Type [''object''],
            Properties [
              (''body'', Schema [Type [''string'']]),
              (''msgtype'',
               Schema [
                 Type [''string''],
                 Enum [JStr ''m.image'', JStr ''m.audio'', JStr ''m.video'', JStr ''m.file'']]),
              (''file'',
               Schema [
                 Type [''object''],
                 Properties [
                   (''url'', Schema [Type [''string'']]),
                   (''hashes'',
                    Schema [
                      Type [''object''], Properties [(''sha256'', Schema [Type [''string'']])]]),
                   (''iv'', Schema [Type [''string'']]),
                   (''key'',
                    Schema [
                      Type [''object''],
                      Properties [
                        (''alg'', Schema [Type [''string'']]),
                        (''k'', Schema [Type [''string'']])],
                      Required [''alg'', ''k'']])],
                 Required [''url'', ''hashes'', ''iv'', ''key'']]),
              (''info'',
               Schema [
                 Type [''object''],
                 Properties [
                   (''thumbnail_file'',
                    Schema [
                      Type [''object''],
                      Properties [
                        (''url'', Schema [Type [''string'']]),
                        (''hashes'',
                         Schema [
                           Type [''object''],
                           Properties [(''sha256'', Schema [Type [''string'']])]]),
                        (''iv'', Schema [Type [''string'']]),
                        (''key'',
                         Schema [
                           Type [''object''],
                           Properties [
                             (''alg'', Schema [Type [''string'']]),
                             (''k'', Schema [Type [''string'']])],
                           Required [''alg'', ''k'']])],
                      Required [''url'', ''hashes'', ''iv'', ''key'']])]])],
            Required [''body'', ''file'', ''msgtype'']])],
       Required [''content'']]"

definition Schemas_redacted_event :: schema where
  "Schemas_redacted_event =
     Schema [
       Type [''object''],
       Properties [
         (''unsigned'',
          Schema [
            Type [''object''],
            Properties [
              (''redacted_because'',
               Schema [
                 Type [''object''],
                 Properties [
                   (''sender'', Schema [Type [''string''], Format ''user_id'']),
                   (''content'',
                    Schema [
                      Type [''object''], Properties [(''reason'', Schema [Type [''string'']])]])],
                 Required [''sender'', ''content'']])],
            Required [''redacted_because'']])],
       Required [''unsigned'']]"

definition Schemas_room_event :: schema where
  "Schemas_room_event =
     Schema [
       Type [''object''],
       Properties [
         (''event_id'', Schema [Type [''string'']]),
         (''sender'', Schema [Type [''string''], Format ''user_id'']),
         (''type'', Schema [Type [''string'']]),
         (''origin_server_ts'', Schema [Type [''integer''], Minimum 0]),
         (''unsigned'',
          Schema [
            Type [''object''], Properties [(''transaction_id'', Schema [Type [''string'']])]])],
       Required [''event_id'', ''sender'', ''type'', ''origin_server_ts'']]"

definition Schemas_to_device :: schema where
  "Schemas_to_device =
     Schema [
       Type [''object''],
       Properties [
         (''sender'', Schema [Type [''string''], Format ''user_id'']),
         (''type'', Schema [Type [''string'']]), (''content'', Schema [Type [''object'']])],
       Required [''sender'', ''type'', ''content'']]"

definition Schemas_room_encrypted :: schema where
  "Schemas_room_encrypted =
     Schema [
       Type [''object''],
       Properties [
         (''content'',
          Schema [
            Type [''object''],
            Properties [
              (''sender_key'', Schema [Type [''string'']]),
              (''algorithm'', Schema [Type [''string'']])],
            Required [''sender_key'', ''algorithm'']])],
       Required [''content'']]"

definition Schemas_room_olm_encrypted :: schema where
  "Schemas_room_olm_encrypted =
     Schema [
       Type [''object''],
       Properties [
         (''type'', Schema [Type [''string''], Enum [JStr ''m.room.encrypted'']]),
         (''content'',
          Schema [
            Type [''object''],
            Properties [
              (''sender_key'', Schema [Type [''string'']]),
              (''algorithm'',
               Schema [Type [''string''], Enum [JStr ''m.olm.v1.curve25519-aes-sha2'']]),
              (''ciphertext'',
               Schema [
                 Type [''object''],
                 PatternProperties [
                   (Base64Regex,
                    Schema [
                      Type [''object''],
                      Properties [
                        (''body'', Schema [Type [''string'']]),
                        (''type'', Schema [Type [''integer'']])],
                      Required [''type'', ''body'']])]])],
            Required [''sender_key'', ''algorithm'', ''ciphertext'']])],
       Required [''type'', ''content'']]"

definition Schemas_room_megolm_decrypted :: schema where
  "Schemas_room_megolm_decrypted =
     Schema [
       Type [''object''],
       Properties [
         (''type'', Schema [Type [''string'']]), (''content'', Schema [Type [''object'']])],
       Required [''type'', ''content'']]"

definition Schemas_room_megolm_encrypted :: schema where
  "Schemas_room_megolm_encrypted =
     Schema [
       Type [''object''],
       Properties [
         (''type'', Schema [Type [''string''], Enum [JStr ''m.room.encrypted'']]),
         (''event_id'', Schema [Type [''string'']]),
         (''sender'', Schema [Type [''string''], Format ''user_id'']),
         (''origin_server_ts'', Schema [Type [''integer''], Minimum 0]),
         (''room_id'', Schema [Type [''string'']]),
         (''content'',
          Schema [
            Type [''object''],
            Properties [
              (''sender_key'', Schema [Type [''string'']]),
              (''algorithm'', Schema [Type [''string''], Enum [JStr ''m.megolm.v1.aes-sha2'']]),
              (''ciphertext'', Schema [Type [''string'']]),
              (''session_id'', Schema [Type [''string'']]),
              (''device_id'', Schema [Type [''string'']])],
            Required [
              ''sender_key'', ''algorithm'', ''ciphertext'', ''session_id'', ''device_id'']])],
       Required [''type'', ''content'', ''event_id'', ''sender'', ''origin_server_ts'']]"

definition Schemas_dummy_event :: schema where
  "Schemas_dummy_event =
     Schema [
       Type [''object''],
       Properties [
         (''sender'', Schema [Type [''string''], Format ''user_id'']),
         (''sender_device'', Schema [Type [''string'']]),
         (''type'', Schema [Type [''string''], Enum [JStr ''m.dummy'']]),
         (''content'', Schema [Type [''object'']]), (''keys'', Schema [Type [''object'']])],
       Required [''type'', ''sender'', ''keys'', ''sender_device'']]"

definition Schemas_room_key_request :: schema where
  "Schemas_room_key_request =
     Schema [
       Type [''object''],
       Properties [
         (''sender'', Schema [Type [''string''], Format ''user_id'']),
         (''type'', Schema [Type [''string''], Enum [JStr ''m.room_key_request'']]),
         (''content'',
          Schema [
            Type [''object''],
            Properties [
              (''body'',
               Schema [
                 Type [''object''],
                 Properties [
                   (''algorithm'', Schema [Type [''string'']]),
                   (''room_id'', Schema [Type [''string''], Format ''room_id'']),
                   (''sender_key'', Schema [Type [''string'']]),
                   (''session_id'', Schema [Type [''string'']])],
                 Required [''algorithm'', ''room_id'', ''sender_key'', ''session_id'']]),
              (''requesting_device_id'', Schema [Type [''string'']]),
              (''action'',
               Schema [
                 Type [''string''], Enum [JStr ''request'', JStr ''request_cancellation'']]),
              (''request_id'', Schema [Type [''string'']])],
            Required [''requesting_device_id'', ''request_id'', ''action'', ''body'']])],
       Required [''type'', ''sender'', ''content'']]"

definition Schemas_room_key_request_cancel :: schema where
  "Schemas_room_key_request_cancel =
     Schema [
       Type [''object''],
       Properties [
         (''sender'', Schema [Type [''string''], Format ''user_id'']),
         (''type'', Schema [Type [''string''], Enum [JStr ''m.room_key_request'']]),
         (''content'',
          Schema [
            Type [''object''],
            Properties [
              (''requesting_device_id'', Schema [Type [''string'']]),
              (''action'',
               Schema [
                 Type [''string''], Enum [JStr ''request'', JStr ''request_cancellation'']]),
              (''request_id'', Schema [Type [''string'']])],
            Required [''requesting_device_id'', ''request_id'', ''action'']])],
       Required [''type'', ''sender'', ''content'']]"

definition Schemas_room_key_event :: schema where
  "Schemas_room_key_event =
     Schema [
       Type [''object''],
       Properties [
         (''sender'', Schema [Type [''string''], Format ''user_id'']),
         (''sender_device'', Schema [Type [''string'']]),
         (''type'', Schema [Type [''string''], Enum [JStr ''m.room_key'']]),
         (''content'',
          Schema [
            Type [''object''],
            Properties [
              (''algorithm'', Schema [Type [''string'']]),
              (''room_id'', Schema [Type [''string''], Format ''room_id'']),
              (''session_id'', Schema [Type [''string'']]),
              (''session_key'', Schema [Type [''string'']])],
            Required [''algorithm'', ''room_id'', ''session_id'', ''session_key'']]),
         (''keys'', Schema [Type [''object'']])],
       Required [''type'', ''sender'', ''content'', ''keys'']]"

definition Schemas_forwarded_room_key_event :: schema where
  "Schemas_forwarded_room_key_event =
     Schema [
       Type [''object''],
       Properties [
         (''sender'', Schema [Type [''string''], Format ''user_id'']),
         (''sender_device'', Schema [Type [''string'']]),
         (''type'', Schema [Type [''string''], Enum [JStr ''m.forwarded_room_key'']]),
         (''content'',
          Schema [
            Type [''object''],
            Properties [
              (''algorithm'', Schema [Type [''string'']]),
              (''room_id'', Schema [Type [''string''], Format ''room_id'']),
              (''sender_key'', Schema [Type [''string'']]),
              (''sender_claimed_ed25519_key'', Schema [Type [''string'']]),
              (''forwarding_curve25519_key_chain'',
               Schema [Type [''array''], Items (Schema [Type [''string'']])]),
              (''session_id'', Schema [Type [''string'']]),
              (''session_key'', Schema [Type [''string'']])],
            Required [
              ''algorithm'', ''room_id'', ''session_id'', ''session_key'', ''sender_key'',
              ''sender_claimed_ed25519_key'', ''forwarding_curve25519_key_chain'']])],
       Required [''type'', ''sender'', ''content'']]"

definition Schemas_room_create :: schema where
  "Schemas_room_create =
     Schema [
       Type [''object''],
       Properties [
         (''sender'', Schema [Type [''string''], Format ''user_id'']),
         (''state_key'', Schema [Type [''string'']]), (''type'', Schema [Type [''string'']]),
         (''content'',
          Schema [
            Type [''object''],
            Properties [
              (''m.federate'', Schema [Type [''boolean''], Default (JBool True)]),
              (''room_version'', Schema [Type [''string''], Default (JStr ''1'')]),
              (''type'', Schema [Type [''string''], Default (JStr '''')]),
              (''additional_creators'',
               Schema [Type [''array''], Items (Schema [Type [''string'']])]),
              (''predecessor'',
               Schema [
                 Type [''object''],
                 Properties [
                   (''event_id'', Schema [Type [''string'']]),
                   (''room_id'', Schema [Type [''string''], Format ''room_id''])],
                 Required [''room_id'']])],
            Required []])],
       Required [''type'', ''sender'', ''content'', ''state_key'']]"

definition Schemas_room_guest_access :: schema where
  "Schemas_room_guest_access =
     Schema [
       Type [''object''],
       Properties [
         (''sender'', Schema [Type [''string''], Format ''user_id'']),
         (''state_key'', Schema [Type [''string'']]), (''type'', Schema [Type [''string'']]),
         (''content'',
          Schema [
            Type [''object''],
            Properties [
              (''guest_access'',
               Schema [
                 Type [''string''], Enum [JStr ''can_join'', JStr ''forbidden''],
                 Default (JStr ''forbidden'')])],
            Required [''guest_access'']])],
       Required [''type'', ''sender'', ''content'', ''state_key'']]"

definition Schemas_room_join_rules :: schema where
  "Schemas_room_join_rules =
     Schema [
       Type [''object''],
       Properties [
         (''sender'', Schema [Type [''string''], Format ''user_id'']),
         (''state_key'', Schema [Type [''string'']]), (''type'', Schema [Type [''string'']]),
         (''content'',
          Schema [
            Type [''object''],
            Properties [
              (''join_rule'',
               Schema [
                 Type [''string''],
                 Enum [
                   JStr ''public'', JStr ''knock'', JStr ''invite'', JStr ''private'',
                   JStr ''restricted'', JStr ''knock_restricted''],
                 Default (JStr ''invite'')])],
            Required [''join_rule'']])],
       Required [''type'', ''sender'', ''content'', ''state_key'']]"

definition Schemas_room_history_visibility :: schema where
  "Schemas_room_history_visibility =
     Schema [
       Type [''object''],
       Properties [
         (''sender'', Schema [Type [''string''], Format ''user_id'']),
         (''state_key'', Schema [Type [''string'']]), (''type'', Schema [Type [''string'']]),
         (''content'',
          Schema [
            Type [''object''],
            Properties [
              (''history_visibility'',
               Schema [
                 Type [''string''],
                 Enum [
                   JStr ''invited'', JStr ''joined'', JStr ''shared'', JStr ''world_readable''],
                 Default (JStr ''shared'')])],
            Required [''history_visibility'']])],
       Required [''type'', ''sender'', ''content'', ''state_key'']]"

definition Schemas_room_canonical_alias :: schema where
  "Schemas_room_canonical_alias =
     Schema [
       Type [''object''],
       Properties [
         (''sender'', Schema [Type [''string''], Format ''user_id'']),
         (''state_key'', Schema [Type [''string'']]), (''type'', Schema [Type [''string'']]),
         (''content'',
          Schema [
            Type [''object''], Properties [(''alias'', Schema [Type [''string'', ''null'']])],
            Required []])],
       Required [''type'', ''sender'', ''content'', ''state_key'']]"

definition Schemas_room_name :: schema where
  "Schemas_room_name =
     Schema [
       Type [''object''],
       Properties [
         (''sender'', Schema [Type [''string''], Format ''user_id'']),
         (''state_key'', Schema [Type [''string'']]), (''type'', Schema [Type [''string'']]),
         (''content'',
          Schema [
            Type [''object''], Properties [(''name'', Schema [Type [''string'']])],
            Required [''name'']])],
       Required [''type'', ''sender'', ''content'', ''state_key'']]"

definition Schemas_room_encryption :: schema where
  "Schemas_room_encryption =
     Schema [
       Type [''object''],
       Properties [
         (''sender'', Schema [Type [''string''], Format ''user_id'']),
         (''state_key'', Schema [Type [''string'']]), (''type'', Schema [Type [''string'']]),
         (''content'', Schema [Type [''object'']])],
       Required [''type'', ''sender'', ''content'', ''state_key'']]"

definition Schemas_room_topic :: schema where
  "Schemas_room_topic =
     Schema [
       Type [''object''],
       Properties [
         (''sender'', Schema [Type [''string''], Format ''user_id'']),
         (''state_key'', Schema [Type [''string'']]), (''type'', Schema [Type [''string'']]),
         (''content'',
          Schema [
            Type [''object''], Properties [(''topic'', Schema [Type [''string'']])],
            Required [''topic'']])],
       Required [''type'', ''sender'', ''content'', ''state_key'']]"

definition Schemas_room_space_parent :: schema where
  "Schemas_room_space_parent =
     Schema [
       Type [''object''],
       Properties [
         (''sender'', Schema [Type [''string''], Format ''user_id'']),
         (''state_key'', Schema [Type [''string'']]), (''type'', Schema [Type [''string'']]),
         (''content'',
          Schema [
            Type [''object''],
            Properties [
              (''canonical'', Schema [Type [''boolean''], Default (JBool False)]),
              (''via'', Schema [Type [''array''], Items (Schema [Type [''string'']])])]])],
       Required [''type'', ''sender'', ''content'', ''state_key'']]"

definition Schemas_room_space_child :: schema where
  "Schemas_room_space_child =
     Schema [
       Type [''object''],
       Properties [
         (''sender'', Schema [Type [''string''], Format ''user_id'']),
         (''state_key'', Schema [Type [''string'']]), (''type'', Schema [Type [''string'']]),
         (''content'',
          Schema [
            Type [''object''],
            Properties [
              (''suggested'', Schema [Type [''boolean''], Default (JBool False)]),
              (''via'', Schema [Type [''array''], Items (Schema [Type [''string'']])]),
              (''order'', Schema [Type [''string'']])]])],
       Required [''type'', ''sender'', ''content'', ''state_key'']]"

definition Schemas_room_avatar :: schema where
  "Schemas_room_avatar =
     Schema [
       Type [''object''],
       Properties [
         (''sender'', Schema [Type [''string''], Format ''user_id'']),
         (''state_key'', Schema [Type [''string'']]), (''type'', Schema [Type [''string'']]),
         (''content'',
          Schema [
            Type [''object''],
            Properties [
              (''info'',
               Schema [Unknown ''h'', Unknown ''w'', Unknown ''mimetype'', Unknown ''size'']),
              (''url'', Schema [Type [''string'', ''null'']])],
            Required []])],
       Required [''type'', ''sender'', ''content'', ''state_key'']]"

definition Schemas_room_power_levels :: schema where
  "Schemas_room_power_levels =
     Schema [
       Type [''object''],
       Properties [
         (''sender'', Schema [Type [''string''], Format ''user_id'']),
         (''state_key'', Schema [Type [''string'']]), (''type'', Schema [Type [''string'']]),
         (''content'',
          Schema [
            Type [''object''],
            Properties [
              (''ban'', Schema [Type [''integer''], Default (JInt 50)]),
              (''kick'', Schema [Type [''integer''], Default (JInt 50)]),
              (''invite'', Schema [Type [''integer''], Default (JInt 50)]),
              (''redact'', Schema [Type [''integer''], Default (JInt 50)]),
              (''users_default'', Schema [Type [''integer''], Default (JInt 0)]),
              (''events_default'', Schema [Type [''integer''], Default (JInt 0)]),
              (''state_default'', Schema [Type [''integer''], Default (JInt 50)]),
              (''events'',
               Schema [
                 Type [''object''], Default (JObj []),
                 PatternProperties [(EventTypeRegex, Schema [Type [''integer'']])]]),
              (''users'',
               Schema [
                 Type [''object''], Default (JObj []),
                 PatternProperties [(UserIdRegex, Schema [Type [''integer'']])]]),
              (''notifications'',
               Schema [
                 Type [''object''], Default (JObj []),
                 Properties [(''room'', Schema [Type [''integer''], Default (JInt 50)])]])]])],
       Required [''type'', ''sender'', ''content'', ''state_key'']]"

definition Schemas_room_membership :: schema where
  "Schemas_room_membership =
     Schema [
       Type [''object''],
       Properties [
         (''sender'', Schema [Type [''string''], Format ''user_id'']),
         (''state_key'', Schema [Type [''string''], Format ''user_id'']),
         (''type'', Schema [Type [''string''], Enum [JStr ''m.room.member'']]),
         (''prev_content'',
          Schema [
            Type [''object''],
            Properties [
              (''membership'',
               Schema [
                 Type [''string''],
                 Enum [
                   JStr ''invite'', JStr ''join'', JStr ''knock'', JStr ''leave'', JStr ''ban'']]),
              (''avatar_url'', Schema [Type [''string'', ''null'']]),
              (''displayname'', Schema [Type [''string'', ''null'']])],
            Required [''membership'']]),
         (''content'',
          Schema [
            Type [''object''],
            Properties [
              (''membership'',
               Schema [
                 Type [''string''],
                 Enum [
                   JStr ''invite'', JStr ''join'', JStr ''knock'', JStr ''leave'', JStr ''ban'']]),
              (''reason'', Schema [Type [''string'', ''null'']]),
              (''avatar_url'', Schema [Type [''string'', ''null'']]),
              (''displayname'', Schema [Type [''string'', ''null'']])],
            Required [''membership'']])],
       Required [''type'', ''sender'', ''state_key'', ''content'']]"

definition Schemas_room_redaction :: schema where
  "Schemas_room_redaction =
     Schema [
       Type [''object''],
       Properties [
         (''sender'', Schema [Type [''string''], Format ''user_id'']),
         (''redacts'', Schema [Type [''string'']]),
         (''content'',
          Schema [
            Type [''object''],
            Properties [
              (''reason'', Schema [Type [''string'']]),
              (''redacts'', Schema [Type [''string'']])]])],
       Required [''sender''],
       AnyOf [
         Schema [Required [''redacts'']],
         Schema [
           Required [''content''], Properties [(''content'', Schema [Required [''redacts'']])]]]]"

definition Schemas_sticker :: schema where
  "Schemas_sticker =
     Schema [
       Type [''object''],
       Properties [
         (''sender'', Schema [Type [''string''], Format ''user_id'']),
         (''content'',
          Schema [
            Type [''object''],
            Properties [
              (''body'', Schema [Type [''string'']]), (''url'', Schema [Type [''string'']])],
            Required [''body'', ''url'']])],
       Required [''sender'']]"

definition Schemas_reaction :: schema where
  "Schemas_reaction =
     Schema [
       Type [''object''],
       Properties [
         (''sender'', Schema [Type [''string''], Format ''user_id'']),
         (''content'',
          Schema [
            Type [''object''],
            Properties [
              (''m.relates_to'',
               Schema [
                 Type [''object''],
                 Properties [
                   (''rel_type'', Schema [Type [''string''], Const (JStr ''m.annotation'')]),
                   (''event_id'', Schema [Type [''string'']]),
                   (''key'', Schema [Type [''string'']])],
                 Required [''rel_type'', ''event_id'', ''key'']])],
            Required [''m.relates_to'']])],
       Required [''sender'', ''content'']]"

definition Schemas_invite_event :: schema where
  "Schemas_invite_event =
     Schema [
       Type [''object''],
       Properties [
         (''content'', Schema [Type [''object'']]), (''type'', Schema [Type [''string'']])],
       Required [''content'', ''type'']]"

definition Schemas_ephemeral_event :: schema where
  "Schemas_ephemeral_event =
     Schema [
       Type [''object''],
       Properties [
         (''content'', Schema [Type [''object'']]), (''type'', Schema [Type [''string'']])],
       Required [''content'', ''type'']]"

definition Schemas_m_typing :: schema where
  "Schemas_m_typing =
     Schema [
       Type [''object''],
       Properties [
         (''content'',
          Schema [
            Type [''object''],
            Properties [
              (''user_ids'', Schema [Type [''array''], Items (Schema [Type [''string'']])])],
            Required [''user_ids'']]),
         (''type'', Schema [Type [''string'']]), (''room_id'', Schema [Type [''string'']])],
       Required [''content'', ''type'']]"

definition Schemas_receipt :: schema where
  "Schemas_receipt =
     Schema [
       Type [''object''],
       PatternProperties [
         (UserIdRegex,
          Schema [
            Type [''object'', ''string''],
            Properties [
              (''ts'', Schema [Type [''integer'']]), (''thread_id'', Schema [Type [''string'']])],
            Required [''ts'']])]]"

definition Schemas_m_receipt :: schema where
  "Schemas_m_receipt =
     Schema [
       Type [''object''],
       Properties [
         (''content'',
          Schema [
            Type [''object''],
            PatternProperties [
              (Any_Text,
               Schema [
                 Type [''object''],
                 Properties [
                   (''m.read'', Schemas_receipt), (''m.read.private'', Schemas_receipt)]])]]),
         (''type'', Schema [Type [''string'']]), (''room_id'', Schema [Type [''string'']])],
       Required [''content'', ''type'']]"

definition Schemas_call_invite :: schema where
  "Schemas_call_invite =
     Schema [
       Type [''object''],
       Properties [
         (''type'', Schema [Type [''string'']]),
         (''content'',
          Schema [
            Type [''object''],
            Properties [
              (''call_id'', Schema [Type [''string'']]),
              (''lifetime'', Schema [Type [''integer'']]),
              (''version'', Schema [Type [''integer'', ''string'']]),
              (''offer'',
               Schema [
                 Type [''object''],
                 Properties [
                   (''type'', Schema [Type [''string''], Enum [JStr ''offer'']]),
                   (''sdp'', Schema [Type [''string'']])],
                 Required [''type'', ''sdp'']])],
            Required [''call_id'', ''lifetime'', ''version'', ''offer'']])],
       Required [''type'', ''content'']]"

definition Schemas_call_answer :: schema where
  "Schemas_call_answer =
     Schema [
       Type [''object''],
       Properties [
         (''type'', Schema [Type [''string'']]),
         (''content'',
          Schema [
            Type [''object''],
            Properties [
              (''call_id'', Schema [Type [''string'']]),
              (''version'', Schema [Type [''integer'', ''string'']]),
              (''answer'',
               Schema [
                 Type [''object''],
                 Properties [
                   (''type'', Schema [Type [''string''], Enum [JStr ''answer'']]),
                   (''sdp'', Schema [Type [''string'']])],
                 Required [''type'', ''sdp'']])],
            Required [''call_id'', ''version'', ''answer'']])],
       Required [''type'', ''content'']]"

definition Schemas_call_hangup :: schema where
  "Schemas_call_hangup =
     Schema [
       Type [''object''],
       Properties [
         (''type'', Schema [Type [''string'']]),
         (''content'',
          Schema [
            Type [''object''],
            Properties [
              (''call_id'', Schema [Type [''string'']]),
              (''version'', Schema [Type [''integer'', ''string'']])],
            Required [''call_id'', ''version'']])],
       Required [''type'', ''content'']]"

definition Schemas_call_candidates :: schema where
  "Schemas_call_candidates =
     Schema [
       Type [''object''],
       Properties [
         (''type'', Schema [Type [''string'']]),
         (''content'',
          Schema [
            Type [''object''],
            Properties [
              (''call_id'', Schema [Type [''string'']]),
              (''version'', Schema [Type [''integer'', ''string'']]),
              (''candidates'',
               Schema [
                 Type [''array''],
                 Items (Schema [
                          Type [''object''],
                          Properties [
                            (''candidate'', Schema [Type [''string'']]),
                            (''sdpMLineIndex'', Schema [Type [''integer'']]),
                            (''sdpMid'', Schema [Type [''string'']])],
                          Required [''candidate'', ''sdpMLineIndex'', ''sdpMid'']])])],
            Required [''call_id'', ''version'', ''candidates'']])],
       Required [''type'', ''content'']]"

definition Schemas_account_data :: schema where
  "Schemas_account_data =
     Schema [
       Type [''object''],
       Properties [
         (''type'', Schema [Type [''string'']]), (''content'', Schema [Type [''object'']])],
       Required [''type'', ''content'']]"

definition Schemas_fully_read :: schema where
  "Schemas_fully_read =
     Schema [
       Type [''object''],
       Properties [
         (''type'', Schema [Type [''string'']]),
         (''content'',
          Schema [
            Type [''object''], Properties [(''event_id'', Schema [Type [''string'']])],
            Required [''event_id'']])],
       Required [''type'', ''content'']]"

definition Schemas_tags :: schema where
  "Schemas_tags =
     Schema [
       Type [''object''],
       Properties [
         (''type'', Schema [Type [''string'']]),
         (''content'',
          Schema [
            Type [''object''],
            Properties [
              (''tags'',
               Schema [
                 Unknown ''type:'',
                 PatternProperties [
                   (Any_Text,
                    Schema [
                      Type [''object''], Properties [(''order'', Schema [Type [''number'']])]])]])],
            Required [''tags'']])],
       Required [''type'', ''content'']]"

definition Schemas_push_rules :: schema where
  "Schemas_push_rules =
     Schema [
       Type [''object''],
       Properties [
         (''type'', Schema [Type [''string''], Const (JStr ''m.push_rules'')]),
         (''content'',
          Schema [
            Type [''object''],
            Properties [
              (''global'', Schema [Type [''object'']]), (''device'', Schema [Type [''object'']])],
            Required [''global'']])],
       Required [''type'', ''content'']]"

definition Schemas_push_ruleset :: schema where
  "Schemas_push_ruleset =
     Schema [
       Type [''object''],
       Properties [
         (''override'', Schema [Type [''array''], Items (Schema [Type [''object'']])]),
         (''content'', Schema [Type [''array''], Items (Schema [Type [''object'']])]),
         (''room'', Schema [Type [''array''], Items (Schema [Type [''object'']])]),
         (''sender'', Schema [Type [''array''], Items (Schema [Type [''object'']])]),
         (''underride'', Schema [Type [''array''], Items (Schema [Type [''object'']])])]]"

definition Schemas_push_rule :: schema where
  "Schemas_push_rule =
     Schema [
       Type [''object''],
       Properties [
         (''rule_id'', Schema [Type [''string'']]),
         (''default'', Schema [Type [''boolean''], Default (JBool False)]),
         (''enabled'', Schema [Type [''boolean'']]), (''pattern'', Schema [Type [''string'']]),
         (''conditions'',
          Schema [
            Type [''array''],
            Items (Schema [
                     Type [''object''],
                     Properties [
                       (''kind'', Schema [Type [''string'']]),
                       (''key'', Schema [Type [''string'']]),
                       (''pattern'', Schema [Type [''string'']]),
                       (''is'', Schema [Type [''string''], Pattern Count_Regex])],
                     Required [''kind'']])]),
         (''actions'',
          Schema [Type [''array''], Items (Schema [Type [''string'', ''object'']])])],
       Required [''rule_id'', ''default'', ''enabled'', ''actions'']]"

definition Schemas_key_verification_start :: schema where
  "Schemas_key_verification_start =
     Schema [
       Type [''object''],
       Properties [
         (''sender'', Schema [Type [''string'']]),
         (''content'',
          Schema [
            Type [''object''],
            Properties [
              (''transaction_id'', Schema [Type [''string'']]),
              (''from_device'', Schema [Type [''string'']]),
              (''method'', Schema [Type [''string'']]),
              (''key_agreement_protocols'',
               Schema [Type [''array''], Items (Schema [Type [''string'']])]),
              (''hashes'', Schema [Type [''array''], Items (Schema [Type [''string'']])]),
              (''message_authentication_codes'',
               Schema [Type [''array''], Items (Schema [Type [''string'']])]),
              (''short_authentication_string'',
               Schema [Type [''array''], Items (Schema [Type [''string'']])])],
            Required [
              ''transaction_id'', ''from_device'', ''method'', ''key_agreement_protocols'',
              ''hashes'', ''message_authentication_codes'', ''short_authentication_string'']])],
       Required [''sender'', ''content'']]"

definition Schemas_key_verification_accept :: schema where
  "Schemas_key_verification_accept =
     Schema [
       Type [''object''],
       Properties [
         (''sender'', Schema [Type [''string'']]),
         (''content'',
          Schema [
            Type [''object''],
            Properties [
              (''transaction_id'', Schema [Type [''string'']]),
              (''commitment'', Schema [Type [''string'']]),
              (''key_agreement_protocol'', Schema [Type [''string'']]),
              (''hash'', Schema [Type [''string'']]),
              (''message_authentication_code'', Schema [Type [''string'']]),
              (''short_authentication_string'',
               Schema [Type [''array''], Items (Schema [Type [''string'']])])],
            Required [
              ''transaction_id'', ''commitment'', ''key_agreement_protocol'', ''hash'',
              ''message_authentication_code'', ''short_authentication_string'']])],
       Required [''sender'', ''content'']]"

definition Schemas_key_verification_key :: schema where
  "Schemas_key_verification_key =
     Schema [
       Type [''object''],
       Properties [
         (''sender'', Schema [Type [''string'']]),
         (''content'',
          Schema [
            Type [''object''],
            Properties [
              (''transaction_id'', Schema [Type [''string'']]),
              (''key'', Schema [Type [''string'']])],
            Required [''transaction_id'', ''key'']])],
       Required [''sender'', ''content'']]"

definition Schemas_key_verification_mac :: schema where
  "Schemas_key_verification_mac =
     Schema [
       Type [''object''],
       Properties [
         (''sender'', Schema [Type [''string'']]),
         (''content'',
          Schema [
            Type [''object''],
            Properties [
              (''mac'',
               Schema [
                 Type [''object''], PatternProperties [(Some_Text, Schema [Type [''string'']])]]),
              (''keys'', Schema [Type [''string'']])],
            Required [''transaction_id'', ''mac'', ''keys'']])],
       Required [''sender'', ''content'']]"

definition Schemas_key_verification_cancel :: schema where
  "Schemas_key_verification_cancel =
     Schema [
       Type [''object''],
       Properties [
         (''sender'', Schema [Type [''string'']]),
         (''content'',
          Schema [
            Type [''object''],
            Properties [
              (''transaction_id'', Schema [Type [''string'']]),
              (''code'', Schema [Type [''string'']]), (''reason'', Schema [Type [''string'']])],
            Required [''transaction_id'', ''code'', ''reason'']])],
       Required [''sender'', ''content'']]"

definition Schemas_presence :: schema where
  "Schemas_presence =
     Schema [
       Type [''object''],
       Properties [
         (''sender'', Schema [Type [''string'']]),
         (''type'', Schema [Type [''string''], Const (JStr ''m.presence'')]),
         (''content'',
          Schema [
            Type [''object''],
            Properties [
              (''presence'', Schema [Type [''string'']]),
              (''currently_active'', Schema [Type [''boolean'']]),
              (''last_active_ago'', Schema [Type [''integer'']]),
              (''status_msg'', Schema [Type [''string'']])],
            Required [''presence'']])],
       Required [''sender'', ''type'', ''content'']]"

definition Schemas_room_tombstone :: schema where
  "Schemas_room_tombstone =
     Schema [
       Type [''object''],
       Properties [
         (''type'', Schema [Type [''string''], Const (JStr ''m.room.tombstone'')]),
         (''state_key'', Schema [Type [''string''], Const (JStr '''')]),
         (''content'',
          Schema [
            Type [''object''],
            Properties [
              (''body'', Schema [Type [''string'']]),
              (''replacement_room'', Schema [Type [''string''], Format ''room_id''])],
            Required [''body'', ''replacement_room'']])],
       Required [''sender'', ''type'', ''content'', ''state_key'']]"

lemmas schema_defs =
    Schemas_room_message_def Schemas_room_message_text_def Schemas_room_message_emote_def
    Schemas_room_message_notice_def Schemas_room_message_media_def
    Schemas_room_encrypted_media_def Schemas_redacted_event_def Schemas_room_event_def
    Schemas_to_device_def Schemas_room_encrypted_def Schemas_room_olm_encrypted_def
    Schemas_room_megolm_decrypted_def Schemas_room_megolm_encrypted_def Schemas_dummy_event_def
    Schemas_room_key_request_def Schemas_room_key_request_cancel_def Schemas_room_key_event_def
    Schemas_forwarded_room_key_event_def Schemas_room_create_def Schemas_room_guest_access_def
    Schemas_room_join_rules_def Schemas_room_history_visibility_def
    Schemas_room_canonical_alias_def Schemas_room_name_def Schemas_room_encryption_def
    Schemas_room_topic_def Schemas_room_space_parent_def Schemas_room_space_child_def
    Schemas_room_avatar_def Schemas_room_power_levels_def Schemas_room_membership_def
    Schemas_room_redaction_def Schemas_sticker_def Schemas_reaction_def Schemas_invite_event_def
    Schemas_ephemeral_event_def Schemas_m_typing_def Schemas_receipt_def Schemas_m_receipt_def
    Schemas_call_invite_def Schemas_call_answer_def Schemas_call_hangup_def
    Schemas_call_candidates_def Schemas_account_data_def Schemas_fully_read_def Schemas_tags_def
    Schemas_push_rules_def Schemas_push_ruleset_def Schemas_push_rule_def
    Schemas_key_verification_start_def Schemas_key_verification_accept_def
    Schemas_key_verification_key_def Schemas_key_verification_mac_def
    Schemas_key_verification_cancel_def Schemas_presence_def Schemas_room_tombstone_def

text \<open>Every one of them has the shape the validator's contract asks for.\<close>

lemma schemas_tidy [simp]:
  "tidy Schemas_room_message"
  "tidy Schemas_room_message_text"
  "tidy Schemas_room_message_emote"
  "tidy Schemas_room_message_notice"
  "tidy Schemas_room_message_media"
  "tidy Schemas_room_encrypted_media"
  "tidy Schemas_redacted_event"
  "tidy Schemas_room_event"
  "tidy Schemas_to_device"
  "tidy Schemas_room_encrypted"
  "tidy Schemas_room_olm_encrypted"
  "tidy Schemas_room_megolm_decrypted"
  "tidy Schemas_room_megolm_encrypted"
  "tidy Schemas_dummy_event"
  "tidy Schemas_room_key_request"
  "tidy Schemas_room_key_request_cancel"
  "tidy Schemas_room_key_event"
  "tidy Schemas_forwarded_room_key_event"
  "tidy Schemas_room_create"
  "tidy Schemas_room_guest_access"
  "tidy Schemas_room_join_rules"
  "tidy Schemas_room_history_visibility"
  "tidy Schemas_room_canonical_alias"
  "tidy Schemas_room_name"
  "tidy Schemas_room_encryption"
  "tidy Schemas_room_topic"
  "tidy Schemas_room_space_parent"
  "tidy Schemas_room_space_child"
  "tidy Schemas_room_avatar"
  "tidy Schemas_room_power_levels"
  "tidy Schemas_room_membership"
  "tidy Schemas_room_redaction"
  "tidy Schemas_sticker"
  "tidy Schemas_reaction"
  "tidy Schemas_invite_event"
  "tidy Schemas_ephemeral_event"
  "tidy Schemas_m_typing"
  "tidy Schemas_receipt"
  "tidy Schemas_m_receipt"
  "tidy Schemas_call_invite"
  "tidy Schemas_call_answer"
  "tidy Schemas_call_hangup"
  "tidy Schemas_call_candidates"
  "tidy Schemas_account_data"
  "tidy Schemas_fully_read"
  "tidy Schemas_tags"
  "tidy Schemas_push_rules"
  "tidy Schemas_push_ruleset"
  "tidy Schemas_push_rule"
  "tidy Schemas_key_verification_start"
  "tidy Schemas_key_verification_accept"
  "tidy Schemas_key_verification_key"
  "tidy Schemas_key_verification_mac"
  "tidy Schemas_key_verification_cancel"
  "tidy Schemas_presence"
  "tidy Schemas_room_tombstone"
  by (simp_all add: schema_defs)

lemma schemas_no_defaults [simp]:
  "no_defaults Schemas_room_message"
  "no_defaults Schemas_room_message_text"
  "no_defaults Schemas_room_message_emote"
  "no_defaults Schemas_room_message_notice"
  "no_defaults Schemas_room_message_media"
  "no_defaults Schemas_room_encrypted_media"
  "no_defaults Schemas_redacted_event"
  "no_defaults Schemas_room_event"
  "no_defaults Schemas_to_device"
  "no_defaults Schemas_room_encrypted"
  "no_defaults Schemas_room_olm_encrypted"
  "no_defaults Schemas_room_megolm_decrypted"
  "no_defaults Schemas_room_megolm_encrypted"
  "no_defaults Schemas_dummy_event"
  "no_defaults Schemas_room_key_request"
  "no_defaults Schemas_room_key_request_cancel"
  "no_defaults Schemas_room_key_event"
  "no_defaults Schemas_forwarded_room_key_event"
  "no_defaults Schemas_room_canonical_alias"
  "no_defaults Schemas_room_name"
  "no_defaults Schemas_room_encryption"
  "no_defaults Schemas_room_topic"
  "no_defaults Schemas_room_avatar"
  "no_defaults Schemas_room_membership"
  "no_defaults Schemas_room_redaction"
  "no_defaults Schemas_sticker"
  "no_defaults Schemas_reaction"
  "no_defaults Schemas_invite_event"
  "no_defaults Schemas_ephemeral_event"
  "no_defaults Schemas_m_typing"
  "no_defaults Schemas_receipt"
  "no_defaults Schemas_m_receipt"
  "no_defaults Schemas_call_invite"
  "no_defaults Schemas_call_answer"
  "no_defaults Schemas_call_hangup"
  "no_defaults Schemas_call_candidates"
  "no_defaults Schemas_account_data"
  "no_defaults Schemas_fully_read"
  "no_defaults Schemas_tags"
  "no_defaults Schemas_push_rules"
  "no_defaults Schemas_push_ruleset"
  "no_defaults Schemas_key_verification_start"
  "no_defaults Schemas_key_verification_accept"
  "no_defaults Schemas_key_verification_key"
  "no_defaults Schemas_key_verification_mac"
  "no_defaults Schemas_key_verification_cancel"
  "no_defaults Schemas_presence"
  "no_defaults Schemas_room_tombstone"
  by (simp_all add: schema_defs)

end
