(* ===== verification/Nio_Events.thy ===== *)
theory Nio_Events
  imports Nio_Schemas
begin

text \<open>
  The parsers of \<^verbatim>\<open>src/nio/events/misc.py\<close> and \<^verbatim>\<open>src/nio/events/room_events.py\<close>: from the
  dictionary of an event to an event object. A field keeps the JSON value the parser stored,
  since Python does not convert it; a dictionary access is the operation of Python, with the
  exception it raises on a value of another type. Every parser takes the validator as its
  first argument and returns the event or the exception that escapes it.
\<close>

section \<open>Python's accesses\<close>

text \<open>\<^verbatim>\<open>v[k]\<close>, \<^verbatim>\<open>v.get(k, default)\<close> and \<^verbatim>\<open>k in v\<close> for a string \<open>k\<close>.\<close>

definition item :: "json \<Rightarrow> string \<Rightarrow> exn + json" where
  "item v k =
     (case v of
        JObj d \<Rightarrow> (case dget d k of None \<Rightarrow> Inl (KeyError k) | Some x \<Rightarrow> Inr x)
      | _ \<Rightarrow> Inl (TypeError k))"

definition get_or :: "json \<Rightarrow> string \<Rightarrow> json \<Rightarrow> exn + json" where
  "get_or v k c =
     (case v of
        JObj d \<Rightarrow> Inr (case dget d k of None \<Rightarrow> c | Some x \<Rightarrow> x)
      | _ \<Rightarrow> Inl (AttributeError ''get''))"

definition contains :: "string \<Rightarrow> json \<Rightarrow> exn + bool" where
  "contains k v =
     (case v of
        JObj d \<Rightarrow> Inr (dget d k \<noteq> None)
      | JArr xs \<Rightarrow> Inr (JStr k \<in> set xs)
      | JStr s \<Rightarrow> Inr (search (\<lambda>t. starts k t \<noteq> None) s)
      | _ \<Rightarrow> Inl (TypeError ''not iterable''))"

text \<open>\<^verbatim>\<open>max(0, v)\<close>, which returns its first argument when the two are equal.\<close>

definition max_zero :: "json \<Rightarrow> exn + json" where
  "max_zero v =
     (case v of
        JInt i \<Rightarrow> Inr (JInt (max 0 i))
      | JBool b \<Rightarrow> Inr (if b then JBool True else JInt 0)
      | JFloat t \<Rightarrow> Inr (if starts ''-'' t = None \<and> t \<noteq> ''0.0'' \<and> t \<noteq> ''NaN'' then JFloat t else JInt 0)
      | _ \<Rightarrow> Inl (TypeError ''not comparable with int''))"

section \<open>Events\<close>

datatype media_class = Image | Audio | Video | File

text \<open>The classes of the events with the fields each adds to those every event has.\<close>

datatype (plugins only: code size) event_body =
    UnknownBadEvent
  | BadEvent json
  | UnknownEvent json
  | UnknownEncryptedEvent json json
  | MegolmEvent json json json json
  | CallCandidatesEvent json json json
  | CallInviteEvent json json json json
  | CallAnswerEvent json json json
  | CallHangupEvent json json
  | RedactedEvent json json json
  | RoomEncryptionEvent
  | RoomCreateEvent json json json json
  | RoomGuestAccessEvent json
  | RoomJoinRulesEvent json
  | RoomHistoryVisibilityEvent json
  | RoomAliasEvent json
  | RoomNameEvent json
  | RoomTopicEvent json
  | RoomAvatarEvent json
  | RoomSpaceParentEvent json json
  | RoomSpaceChildEvent json json
  | RoomMessageMedia media_class json json
  | RoomEncryptedMedia media_class json json json json json json json json json json
  | RoomMessageUnknown json json
  | RoomMessageText json json json
  | RoomMessageEmote json json json
  | RoomMessageNotice json json json
  | PowerLevelsEvent json json json json json json json json json json
  | RedactionEvent json json
  | RoomMemberEvent json json json json json
  | StickerEvent json json json
  | ReactionEvent json json
  | RoomUpgradeEvent json json

record event =
  e_source :: json
  e_event_id :: json
  e_sender :: json
  e_server_timestamp :: json
  e_decrypted :: bool
  e_verified :: bool
  e_sender_key :: json
  e_session_id :: json
  e_transaction_id :: json
  e_body :: event_body

text \<open>\<open>base_event\<close>: a base event; the fields an \<^verbatim>\<open>UnknownBadEvent\<close> does not have are null.\<close>

definition base_event :: "json \<Rightarrow> json \<Rightarrow> json \<Rightarrow> json \<Rightarrow> event_body \<Rightarrow> event" where
  "base_event src i sender ts b =
     \<lparr> e_source = src, e_event_id = i, e_sender = sender, e_server_timestamp = ts,
       e_decrypted = False, e_verified = False, e_sender_key = JNull, e_session_id = JNull,
       e_transaction_id = JNull, e_body = b \<rparr>"

text \<open>The constructor of an event with \<^verbatim>\<open>Event.__post_init__\<close>.\<close>

definition Event :: "json \<Rightarrow> event_body \<Rightarrow> exn + event" where
  "Event src b =
     rbind (item src ''event_id'') (\<lambda>i.
     rbind (item src ''sender'') (\<lambda>sender.
     rbind (item src ''origin_server_ts'') (\<lambda>ts.
     Inr (base_event src i sender ts b))))"

section \<open>Bad events\<close>

definition BadEvent_from_dict :: "json \<Rightarrow> exn + event" where
  "BadEvent_from_dict v =
     rbind (item v ''origin_server_ts'') (\<lambda>t.
     rbind (max_zero t) (\<lambda>ts.
     rbind (item v ''event_id'') (\<lambda>i.
     rbind (item v ''sender'') (\<lambda>sender.
     rbind (item v ''type'') (\<lambda>typ.
     Inr (base_event v i sender ts (BadEvent typ)))))))"

definition bad_event :: "json \<Rightarrow> exn + event" where
  "bad_event v =
     (case BadEvent_from_dict v of
        Inl (KeyError _) \<Rightarrow> Inr (base_event v JNull JNull JNull UnknownBadEvent)
      | r \<Rightarrow> r)"

definition verify :: "validator \<Rightarrow> schema \<Rightarrow> (json \<Rightarrow> exn + event) \<Rightarrow> json \<Rightarrow> exn + event" where
  "verify validate s f v =
     (case validate s v of (ok, w) \<Rightarrow> if ok then f w else bad_event w)"

section \<open>The classes\<close>

definition UnknownEvent_from_dict :: "json \<Rightarrow> exn + event" where
  "UnknownEvent_from_dict v = rbind (item v ''type'') (\<lambda>t. Event v (UnknownEvent t))"

definition UnknownEncryptedEvent_from_dict :: "json \<Rightarrow> exn + event" where
  "UnknownEncryptedEvent_from_dict v =
     rbind (item v ''type'') (\<lambda>t.
     rbind (item v ''content'') (\<lambda>c.
     rbind (item c ''algorithm'') (\<lambda>a.
     Event v (UnknownEncryptedEvent t a))))"

text \<open>\<^verbatim>\<open>v["unsigned"].get("transaction_id", None) if "unsigned" in v else None\<close>.\<close>

definition unsigned_transaction :: "json \<Rightarrow> exn + json" where
  "unsigned_transaction v =
     rbind (contains ''unsigned'' v) (\<lambda>b.
     if b then rbind (item v ''unsigned'') (\<lambda>u. get_or u ''transaction_id'' JNull) else Inr JNull)"

definition MegolmEvent_from_dict :: "validator \<Rightarrow> json \<Rightarrow> exn + event" where
  "MegolmEvent_from_dict validate = verify validate Schemas_room_megolm_encrypted (\<lambda>v.
     rbind (item v ''content'') (\<lambda>c.
     rbind (item c ''ciphertext'') (\<lambda>ciphertext.
     rbind (item c ''sender_key'') (\<lambda>sender_key.
     rbind (item c ''session_id'') (\<lambda>session_id.
     rbind (item c ''device_id'') (\<lambda>device_id.
     rbind (item c ''algorithm'') (\<lambda>algorithm.
     rbind (get_or v ''room_id'' JNull) (\<lambda>room_id.
     rbind (unsigned_transaction v) (\<lambda>tx.
     rbind (Event v (MegolmEvent device_id ciphertext algorithm room_id)) (\<lambda>e.
     Inr (e \<lparr> e_sender_key := sender_key, e_session_id := session_id, e_transaction_id := tx \<rparr>)))))))))))"

definition CallCandidatesEvent_from_dict :: "validator \<Rightarrow> json \<Rightarrow> exn + event" where
  "CallCandidatesEvent_from_dict validate = verify validate Schemas_call_candidates (\<lambda>v.
     rbind (get_or v ''content'' (JObj [])) (\<lambda>c.
     rbind (item c ''call_id'') (\<lambda>i.
     rbind (item c ''version'') (\<lambda>version.
     rbind (item c ''candidates'') (\<lambda>candidates.
     Event v (CallCandidatesEvent i version candidates))))))"

definition CallInviteEvent_from_dict :: "validator \<Rightarrow> json \<Rightarrow> exn + event" where
  "CallInviteEvent_from_dict validate = verify validate Schemas_call_invite (\<lambda>v.
     rbind (get_or v ''content'' (JObj [])) (\<lambda>c.
     rbind (item c ''call_id'') (\<lambda>i.
     rbind (item c ''version'') (\<lambda>version.
     rbind (item c ''lifetime'') (\<lambda>lifetime.
     rbind (item c ''offer'') (\<lambda>offer.
     Event v (CallInviteEvent i version lifetime offer)))))))"

definition CallAnswerEvent_from_dict :: "validator \<Rightarrow> json \<Rightarrow> exn + event" where
  "CallAnswerEvent_from_dict validate = verify validate Schemas_call_answer (\<lambda>v.
     rbind (get_or v ''content'' (JObj [])) (\<lambda>c.
     rbind (item c ''call_id'') (\<lambda>i.
     rbind (item c ''version'') (\<lambda>version.
     rbind (item c ''answer'') (\<lambda>answer.
     Event v (CallAnswerEvent i version answer))))))"

definition CallHangupEvent_from_dict :: "validator \<Rightarrow> json \<Rightarrow> exn + event" where
  "CallHangupEvent_from_dict validate = verify validate Schemas_call_hangup (\<lambda>v.
     rbind (get_or v ''content'' (JObj [])) (\<lambda>c.
     rbind (item c ''call_id'') (\<lambda>i.
     rbind (item c ''version'') (\<lambda>version.
     Event v (CallHangupEvent i version)))))"

definition RedactedEvent_from_dict :: "validator \<Rightarrow> json \<Rightarrow> exn + event" where
  "RedactedEvent_from_dict validate = verify validate Schemas_redacted_event (\<lambda>v.
     rbind (item v ''unsigned'') (\<lambda>u.
     rbind (item u ''redacted_because'') (\<lambda>r.
     rbind (item r ''sender'') (\<lambda>redacter.
     rbind (item r ''content'') (\<lambda>c.
     rbind (get_or c ''reason'' JNull) (\<lambda>reason.
     rbind (item v ''type'') (\<lambda>t.
     Event v (RedactedEvent t redacter reason))))))))"

definition RoomEncryptionEvent_from_dict :: "validator \<Rightarrow> json \<Rightarrow> exn + event" where
  "RoomEncryptionEvent_from_dict validate =
     verify validate Schemas_room_encryption (\<lambda>v. Event v RoomEncryptionEvent)"

definition RoomCreateEvent_from_dict :: "validator \<Rightarrow> json \<Rightarrow> exn + event" where
  "RoomCreateEvent_from_dict validate = verify validate Schemas_room_create (\<lambda>v.
     rbind (item v ''content'') (\<lambda>c.
     rbind (item c ''m.federate'') (\<lambda>federate.
     rbind (item c ''room_version'') (\<lambda>version.
     rbind (get_or c ''type'' (JStr [])) (\<lambda>room_type.
     rbind (get_or c ''additional_creators'' (JArr [])) (\<lambda>creators.
     Event v (RoomCreateEvent federate version room_type creators)))))))"

text \<open>An event whose one field is a required key of its content, and one where it is optional.\<close>

definition from_content :: "string \<Rightarrow> (json \<Rightarrow> event_body) \<Rightarrow> json \<Rightarrow> exn + event" where
  "from_content k b v = rbind (item v ''content'') (\<lambda>c. rbind (item c k) (\<lambda>x. Event v (b x)))"

definition from_content_or :: "string \<Rightarrow> (json \<Rightarrow> event_body) \<Rightarrow> json \<Rightarrow> exn + event" where
  "from_content_or k b v = rbind (item v ''content'') (\<lambda>c. rbind (get_or c k JNull) (\<lambda>x. Event v (b x)))"

definition RoomGuestAccessEvent_from_dict :: "validator \<Rightarrow> json \<Rightarrow> exn + event" where
  "RoomGuestAccessEvent_from_dict validate =
     verify validate Schemas_room_guest_access (from_content ''guest_access'' RoomGuestAccessEvent)"

definition RoomJoinRulesEvent_from_dict :: "validator \<Rightarrow> json \<Rightarrow> exn + event" where
  "RoomJoinRulesEvent_from_dict validate =
     verify validate Schemas_room_join_rules (from_content ''join_rule'' RoomJoinRulesEvent)"

definition RoomHistoryVisibilityEvent_from_dict :: "validator \<Rightarrow> json \<Rightarrow> exn + event" where
  "RoomHistoryVisibilityEvent_from_dict validate =
     verify validate Schemas_room_history_visibility
       (from_content ''history_visibility'' RoomHistoryVisibilityEvent)"

definition RoomAliasEvent_from_dict :: "validator \<Rightarrow> json \<Rightarrow> exn + event" where
  "RoomAliasEvent_from_dict validate =
     verify validate Schemas_room_canonical_alias (from_content_or ''alias'' RoomAliasEvent)"

definition RoomNameEvent_from_dict :: "validator \<Rightarrow> json \<Rightarrow> exn + event" where
  "RoomNameEvent_from_dict validate =
     verify validate Schemas_room_name (from_content ''name'' RoomNameEvent)"

definition RoomTopicEvent_from_dict :: "validator \<Rightarrow> json \<Rightarrow> exn + event" where
  "RoomTopicEvent_from_dict validate =
     verify validate Schemas_room_topic (from_content ''topic'' RoomTopicEvent)"

definition RoomAvatarEvent_from_dict :: "validator \<Rightarrow> json \<Rightarrow> exn + event" where
  "RoomAvatarEvent_from_dict validate =
     verify validate Schemas_room_avatar (from_content_or ''url'' RoomAvatarEvent)"

definition RoomSpaceParentEvent_from_dict :: "validator \<Rightarrow> json \<Rightarrow> exn + event" where
  "RoomSpaceParentEvent_from_dict validate = verify validate Schemas_room_space_parent (\<lambda>v.
     rbind (item v ''content'') (\<lambda>c.
     rbind (item v ''state_key'') (\<lambda>k.
     rbind (get_or c ''canonical'' (JBool False)) (\<lambda>canonical.
     Event v (RoomSpaceParentEvent k canonical)))))"

definition RoomSpaceChildEvent_from_dict :: "validator \<Rightarrow> json \<Rightarrow> exn + event" where
  "RoomSpaceChildEvent_from_dict validate = verify validate Schemas_room_space_child (\<lambda>v.
     rbind (item v ''content'') (\<lambda>c.
     rbind (item v ''state_key'') (\<lambda>k.
     rbind (get_or c ''suggested'' (JBool False)) (\<lambda>suggested.
     Event v (RoomSpaceChildEvent k suggested)))))"

section \<open>Room messages\<close>

definition RoomMessageMedia_from_dict :: "validator \<Rightarrow> media_class \<Rightarrow> json \<Rightarrow> exn + event" where
  "RoomMessageMedia_from_dict validate m = verify validate Schemas_room_message_media (\<lambda>v.
     rbind (item v ''content'') (\<lambda>c.
     rbind (item c ''url'') (\<lambda>url.
     rbind (item c ''body'') (\<lambda>body.
     Event v (RoomMessageMedia m url body)))))"

definition RoomEncryptedMedia_from_dict :: "validator \<Rightarrow> media_class \<Rightarrow> json \<Rightarrow> exn + event" where
  "RoomEncryptedMedia_from_dict validate m = verify validate Schemas_room_encrypted_media (\<lambda>v.
     rbind (item v ''content'') (\<lambda>c.
     rbind (get_or c ''info'' (JObj [])) (\<lambda>info.
     rbind (get_or info ''thumbnail_file'' (JObj [])) (\<lambda>thumb.
     rbind (get_or thumb ''url'' JNull) (\<lambda>t_url.
     rbind (get_or thumb ''key'' JNull) (\<lambda>t_key.
     rbind (get_or thumb ''hashes'' JNull) (\<lambda>t_hashes.
     rbind (get_or thumb ''iv'' JNull) (\<lambda>t_iv.
     rbind (get_or info ''mimetype'' JNull) (\<lambda>mime.
     rbind (if truthy mime then Inr mime
            else rbind (item c ''file'') (\<lambda>f. get_or f ''mimetype'' JNull)) (\<lambda>mimetype.
     rbind (item c ''file'') (\<lambda>f.
     rbind (item f ''url'') (\<lambda>url.
     rbind (item c ''body'') (\<lambda>body.
     rbind (item f ''key'') (\<lambda>key.
     rbind (item f ''hashes'') (\<lambda>hashes.
     rbind (item f ''iv'') (\<lambda>iv.
     Event v (RoomEncryptedMedia m url body key hashes iv mimetype t_url t_key t_hashes t_iv)))))))))))))))))"

definition RoomMessageUnknown_from_dict :: "json \<Rightarrow> exn + event" where
  "RoomMessageUnknown_from_dict v =
     rbind (item v ''content'') (\<lambda>c.
     rbind (item c ''msgtype'') (\<lambda>m.
     rbind (get_or v ''content'' (JObj [])) (\<lambda>content.
     Event v (RoomMessageUnknown m content))))"

definition RoomMessageFormatted_from_dict ::
  "validator \<Rightarrow> schema \<Rightarrow> (json \<Rightarrow> json \<Rightarrow> json \<Rightarrow> event_body) \<Rightarrow> json \<Rightarrow> exn + event" where
  "RoomMessageFormatted_from_dict validate s b = verify validate s (\<lambda>v.
     rbind (item v ''content'') (\<lambda>c.
     rbind (item c ''body'') (\<lambda>body.
     rbind (get_or c ''format'' JNull) (\<lambda>fmt.
     rbind (if truthy fmt then get_or c ''formatted_body'' JNull else Inr JNull) (\<lambda>formatted.
     Event v (b body formatted fmt))))))"

definition media_class_of :: "string \<Rightarrow> media_class option" where
  "media_class_of t =
     (if t = ''m.image'' then Some Image else if t = ''m.audio'' then Some Audio
      else if t = ''m.video'' then Some Video else if t = ''m.file'' then Some File else None)"

text \<open>The dispatch on the message type; a type that cannot be hashed raises in the lookup.\<close>

definition message_of_type :: "validator \<Rightarrow> json \<Rightarrow> json \<Rightarrow> json \<Rightarrow> exn + event" where
  "message_of_type validate content msgtype v =
     (case msgtype of
        JArr _ \<Rightarrow> Inl (TypeError ''unhashable'')
      | JObj _ \<Rightarrow> Inl (TypeError ''unhashable'')
      | JStr t \<Rightarrow>
          (case media_class_of t of
             Some m \<Rightarrow>
               rbind (contains ''file'' content) (\<lambda>encrypted.
               if encrypted then RoomEncryptedMedia_from_dict validate m v
               else RoomMessageMedia_from_dict validate m v)
           | None \<Rightarrow>
               if t = ''m.text'' then
                 RoomMessageFormatted_from_dict validate Schemas_room_message_text RoomMessageText v
               else if t = ''m.emote'' then
                 RoomMessageFormatted_from_dict validate Schemas_room_message_emote RoomMessageEmote v
               else if t = ''m.notice'' then
                 RoomMessageFormatted_from_dict validate Schemas_room_message_notice RoomMessageNotice v
               else RoomMessageUnknown_from_dict v)
      | _ \<Rightarrow> RoomMessageUnknown_from_dict v)"

definition RoomMessage_parse_event :: "validator \<Rightarrow> json \<Rightarrow> exn + event" where
  "RoomMessage_parse_event validate = verify validate Schemas_room_message (\<lambda>v.
     rbind (item v ''content'') (\<lambda>c.
     rbind (item c ''msgtype'') (\<lambda>t.
     rbind (message_of_type validate c t v) (\<lambda>e.
     rbind (contains ''unsigned'' v) (\<lambda>b.
     if b then rbind (unsigned_transaction v) (\<lambda>tx. Inr (e \<lparr> e_transaction_id := tx \<rparr>))
     else Inr e)))))"

section \<open>The other state and message events\<close>

definition PowerLevelsEvent_from_dict :: "validator \<Rightarrow> json \<Rightarrow> exn + event" where
  "PowerLevelsEvent_from_dict validate = verify validate Schemas_room_power_levels (\<lambda>v.
     rbind (item v ''content'') (\<lambda>c.
     rbind (item c ''ban'') (\<lambda>ban.
     rbind (item c ''invite'') (\<lambda>invite.
     rbind (item c ''kick'') (\<lambda>kick.
     rbind (item c ''redact'') (\<lambda>redact.
     rbind (item c ''state_default'') (\<lambda>state_default.
     rbind (item c ''events_default'') (\<lambda>events_default.
     rbind (item c ''users_default'') (\<lambda>users_default.
     rbind (item c ''notifications'') (\<lambda>notifications.
     rbind (get_or c ''users'' (JObj [])) (\<lambda>users.
     rbind (get_or c ''events'' (JObj [])) (\<lambda>events.
     Event v (PowerLevelsEvent ban invite kick redact state_default events_default users_default
                notifications users events)))))))))))))"

definition RedactionEvent_from_dict :: "validator \<Rightarrow> json \<Rightarrow> exn + event" where
  "RedactionEvent_from_dict validate = verify validate Schemas_room_redaction (\<lambda>v.
     rbind (get_or v ''content'' (JObj [])) (\<lambda>c.
     rbind (get_or c ''reason'' JNull) (\<lambda>reason.
     rbind (get_or c ''redacts'' JNull) (\<lambda>inner.
     rbind (get_or v ''redacts'' inner) (\<lambda>redacts.
     Event v (RedactionEvent redacts reason))))))"

definition RoomMemberEvent_from_dict :: "validator \<Rightarrow> json \<Rightarrow> exn + event" where
  "RoomMemberEvent_from_dict validate = verify validate Schemas_room_membership (\<lambda>v.
     rbind (get_or v ''content'' (JObj [])) (\<lambda>c.
     rbind (get_or v ''unsigned'' (JObj [])) (\<lambda>u.
     rbind (get_or u ''prev_content'' JNull) (\<lambda>prev.
     rbind (item c ''membership'') (\<lambda>membership.
     rbind (if truthy prev then get_or prev ''membership'' JNull else Inr JNull) (\<lambda>prev_membership.
     rbind (item v ''state_key'') (\<lambda>k.
     Event v (RoomMemberEvent k membership prev_membership c prev))))))))"

definition StickerEvent_from_dict :: "validator \<Rightarrow> json \<Rightarrow> exn + event" where
  "StickerEvent_from_dict validate = verify validate Schemas_sticker (\<lambda>v.
     rbind (get_or v ''content'' (JObj [])) (\<lambda>c.
     rbind (item c ''body'') (\<lambda>body.
     rbind (item c ''url'') (\<lambda>url.
     Event v (StickerEvent body url c)))))"

definition ReactionEvent_from_dict :: "validator \<Rightarrow> json \<Rightarrow> exn + event" where
  "ReactionEvent_from_dict validate = verify validate Schemas_reaction (\<lambda>v.
     rbind (item v ''content'') (\<lambda>c.
     rbind (item c ''m.relates_to'') (\<lambda>r.
     rbind (item r ''event_id'') (\<lambda>i.
     rbind (item r ''key'') (\<lambda>key.
     Event v (ReactionEvent i key))))))"

definition RoomUpgradeEvent_from_dict :: "validator \<Rightarrow> json \<Rightarrow> exn + event" where
  "RoomUpgradeEvent_from_dict validate = verify validate Schemas_room_tombstone (\<lambda>v.
     rbind (get_or v ''content'' (JObj [])) (\<lambda>c.
     rbind (get_or c ''body'' (JStr [])) (\<lambda>body.
     rbind (get_or c ''replacement_room'' (JStr [])) (\<lambda>room.
     Event v (RoomUpgradeEvent body room)))))"

section \<open>Dispatch\<close>

definition parse_encrypted_event :: "validator \<Rightarrow> json \<Rightarrow> exn + event" where
  "parse_encrypted_event validate = verify validate Schemas_room_encrypted (\<lambda>v.
     rbind (item v ''content'') (\<lambda>c.
     rbind (item c ''algorithm'') (\<lambda>a.
     if a = JStr ''m.megolm.v1.aes-sha2'' then MegolmEvent_from_dict validate v
     else UnknownEncryptedEvent_from_dict v)))"

definition CallEvent_parse_event :: "validator \<Rightarrow> json \<Rightarrow> exn + event" where
  "CallEvent_parse_event validate v =
     rbind (item v ''type'') (\<lambda>t.
     if t = JStr ''m.call.candidates'' then CallCandidatesEvent_from_dict validate v
     else if t = JStr ''m.call.invite'' then CallInviteEvent_from_dict validate v
     else if t = JStr ''m.call.answer'' then CallAnswerEvent_from_dict validate v
     else if t = JStr ''m.call.hangup'' then CallHangupEvent_from_dict validate v
     else UnknownEvent_from_dict v)"

text \<open>The chain of comparisons of \<^verbatim>\<open>Event.parse_event\<close>, in its order.\<close>

definition event_parsers :: "validator \<Rightarrow> (string \<times> (json \<Rightarrow> exn + event)) list" where
  "event_parsers validate =
     [(''m.room.message'', RoomMessage_parse_event validate),
      (''m.room.create'', RoomCreateEvent_from_dict validate),
      (''m.room.guest_access'', RoomGuestAccessEvent_from_dict validate),
      (''m.room.join_rules'', RoomJoinRulesEvent_from_dict validate),
      (''m.room.history_visibility'', RoomHistoryVisibilityEvent_from_dict validate),
      (''m.room.member'', RoomMemberEvent_from_dict validate),
      (''m.room.canonical_alias'', RoomAliasEvent_from_dict validate),
      (''m.room.name'', RoomNameEvent_from_dict validate),
      (''m.room.topic'', RoomTopicEvent_from_dict validate),
      (''m.room.avatar'', RoomAvatarEvent_from_dict validate),
      (''m.room.power_levels'', PowerLevelsEvent_from_dict validate),
      (''m.room.encryption'', RoomEncryptionEvent_from_dict validate),
      (''m.room.redaction'', RedactionEvent_from_dict validate),
      (''m.room.tombstone'', RoomUpgradeEvent_from_dict validate),
      (''m.space.parent'', RoomSpaceParentEvent_from_dict validate),
      (''m.space.child'', RoomSpaceChildEvent_from_dict validate),
      (''m.room.encrypted'', parse_encrypted_event validate),
      (''m.sticker'', StickerEvent_from_dict validate),
      (''m.reaction'', ReactionEvent_from_dict validate)]"

definition parse_by_type :: "validator \<Rightarrow> json \<Rightarrow> exn + event" where
  "parse_by_type validate v =
     rbind (item v ''type'') (\<lambda>t.
     case t of
       JStr s \<Rightarrow>
         (case dget (event_parsers validate) s of
            Some parse \<Rightarrow> parse v
          | None \<Rightarrow>
              if starts ''m.call'' s \<noteq> None then CallEvent_parse_event validate v
              else UnknownEvent_from_dict v)
     | _ \<Rightarrow> Inl (AttributeError ''startswith''))"

text \<open>\<^verbatim>\<open>"unsigned" in v and "redacted_because" in v["unsigned"]\<close>.\<close>

definition is_redacted :: "json \<Rightarrow> exn + bool" where
  "is_redacted v =
     rbind (contains ''unsigned'' v) (\<lambda>b.
     if b then rbind (item v ''unsigned'') (contains ''redacted_because'') else Inr False)"

definition parse_event :: "validator \<Rightarrow> json \<Rightarrow> exn + event" where
  "parse_event validate = verify validate Schemas_room_event (\<lambda>v.
     rbind (is_redacted v) (\<lambda>r.
     if r then RedactedEvent_from_dict validate v else parse_by_type validate v))"

definition parse_decrypted_event :: "validator \<Rightarrow> json \<Rightarrow> exn + event" where
  "parse_decrypted_event validate = verify validate Schemas_room_megolm_decrypted (\<lambda>v.
     rbind (is_redacted v) (\<lambda>r.
     if r then RedactedEvent_from_dict validate v
     else rbind (item v ''type'') (\<lambda>t.
       if t = JStr ''m.room.encrypted'' then bad_event v
       else if t = JStr ''m.room.message'' then RoomMessage_parse_event validate v
       else parse_event validate v)))"

end
