(* ===== verification/Nio_Other_Events.thy ===== *)
theory Nio_Other_Events
  imports Nio_Events Nio_Push
begin

text \<open>
  The parsers of \<^verbatim>\<open>to_device.py\<close>, \<^verbatim>\<open>invite_events.py\<close>, \<^verbatim>\<open>ephemeral.py\<close>, \<^verbatim>\<open>account_data.py\<close>
  and \<^verbatim>\<open>presence.py\<close> under \<^verbatim>\<open>src/nio/events/\<close>. They differ from the room events in what they
  return for input they do not accept: a bad event, or None.
\<close>

datatype 'a parsed = Ignored | Bad event | Parsed 'a

definition verify_parsed :: "validator \<Rightarrow> schema \<Rightarrow> (json \<Rightarrow> exn + 'a parsed) \<Rightarrow> json \<Rightarrow> exn + 'a parsed" where
  "verify_parsed validate s f v =
     (case validate s v of (ok, w) \<Rightarrow> if ok then f w else rbind (bad_event w) (\<lambda>e. Inr (Bad e)))"

definition verify_or_none :: "validator \<Rightarrow> schema \<Rightarrow> (json \<Rightarrow> exn + 'a parsed) \<Rightarrow> json \<Rightarrow> exn + 'a parsed" where
  "verify_or_none validate s f v = (case validate s v of (ok, w) \<Rightarrow> if ok then f w else Inr Ignored)"

text \<open>\<^verbatim>\<open>v.pop(k)\<close>: the value and the dictionary without it.\<close>

definition pop :: "json \<Rightarrow> string \<Rightarrow> exn + json \<times> json" where
  "pop v k =
     (case v of
        JObj d \<Rightarrow> (case dget d k of None \<Rightarrow> Inl (KeyError k) | Some x \<Rightarrow> Inr (x, JObj (ddel d k)))
      | _ \<Rightarrow> Inl (TypeError k))"

definition set_item :: "json \<Rightarrow> string \<Rightarrow> json \<Rightarrow> json" where
  "set_item v k x = (case v of JObj d \<Rightarrow> JObj (dset d k x) | _ \<Rightarrow> v)"

section \<open>To-device events\<close>

datatype to_device_body =
    UnknownToDeviceEvent json
  | RoomKeyRequest json json json json json json
  | RoomKeyRequestCancellation json json
  | KeyVerificationStart json json json json json json json
  | KeyVerificationAccept json json json json json json
  | KeyVerificationKey json json
  | KeyVerificationMac json json json
  | KeyVerificationCancel json json json
  | OlmEvent json json json
  | DummyEvent string json
  | RoomKeyEvent string json json json
  | ForwardedRoomKeyEvent string json json json

record to_device_event =
  td_source :: json
  td_sender :: json
  td_body :: to_device_body

definition ToDeviceEvent :: "json \<Rightarrow> json \<Rightarrow> to_device_body \<Rightarrow> exn + to_device_event parsed" where
  "ToDeviceEvent v sender b = Inr (Parsed \<lparr> td_source = v, td_sender = sender, td_body = b \<rparr>)"

definition UnknownToDeviceEvent_from_dict :: "json \<Rightarrow> exn + to_device_event parsed" where
  "UnknownToDeviceEvent_from_dict v =
     rbind (item v ''sender'') (\<lambda>s.
     rbind (item v ''type'') (\<lambda>t.
     ToDeviceEvent v s (UnknownToDeviceEvent t)))"

definition RoomKeyRequest_from_dict :: "validator \<Rightarrow> json \<Rightarrow> exn + to_device_event parsed" where
  "RoomKeyRequest_from_dict validate = verify_parsed validate Schemas_room_key_request (\<lambda>v.
     rbind (item v ''content'') (\<lambda>c.
     rbind (item c ''body'') (\<lambda>b.
     rbind (item v ''sender'') (\<lambda>s.
     rbind (item c ''requesting_device_id'') (\<lambda>device.
     rbind (item c ''request_id'') (\<lambda>i.
     rbind (item b ''algorithm'') (\<lambda>a.
     rbind (item b ''room_id'') (\<lambda>r.
     rbind (item b ''sender_key'') (\<lambda>k.
     rbind (item b ''session_id'') (\<lambda>n.
     ToDeviceEvent v s (RoomKeyRequest device i a r k n)))))))))))"

definition RoomKeyRequestCancellation_from_dict :: "validator \<Rightarrow> json \<Rightarrow> exn + to_device_event parsed" where
  "RoomKeyRequestCancellation_from_dict validate = verify_parsed validate Schemas_room_key_request_cancel (\<lambda>v.
     rbind (item v ''content'') (\<lambda>c.
     rbind (item v ''sender'') (\<lambda>s.
     rbind (item c ''requesting_device_id'') (\<lambda>device.
     rbind (item c ''request_id'') (\<lambda>i.
     ToDeviceEvent v s (RoomKeyRequestCancellation device i))))))"

definition BaseRoomKeyRequest_parse_event :: "validator \<Rightarrow> json \<Rightarrow> exn + to_device_event parsed" where
  "BaseRoomKeyRequest_parse_event validate = verify_parsed validate Schemas_room_key_request_cancel (\<lambda>v.
     rbind (item v ''content'') (\<lambda>c.
     rbind (item c ''action'') (\<lambda>a.
     if a = JStr ''request'' then RoomKeyRequest_from_dict validate v
     else RoomKeyRequestCancellation_from_dict validate v)))"

definition KeyVerificationStart_from_dict :: "validator \<Rightarrow> json \<Rightarrow> exn + to_device_event parsed" where
  "KeyVerificationStart_from_dict validate = verify_parsed validate Schemas_key_verification_start (\<lambda>v.
     rbind (item v ''content'') (\<lambda>c.
     rbind (item v ''sender'') (\<lambda>s.
     rbind (item c ''transaction_id'') (\<lambda>i.
     rbind (item c ''from_device'') (\<lambda>device.
     rbind (item c ''method'') (\<lambda>m.
     rbind (item c ''key_agreement_protocols'') (\<lambda>p.
     rbind (item c ''hashes'') (\<lambda>h.
     rbind (item c ''message_authentication_codes'') (\<lambda>a.
     rbind (item c ''short_authentication_string'') (\<lambda>x.
     ToDeviceEvent v s (KeyVerificationStart i device m p h a x)))))))))))"

definition KeyVerificationAccept_from_dict :: "validator \<Rightarrow> json \<Rightarrow> exn + to_device_event parsed" where
  "KeyVerificationAccept_from_dict validate = verify_parsed validate Schemas_key_verification_accept (\<lambda>v.
     rbind (item v ''content'') (\<lambda>c.
     rbind (item v ''sender'') (\<lambda>s.
     rbind (item c ''transaction_id'') (\<lambda>i.
     rbind (item c ''commitment'') (\<lambda>m.
     rbind (item c ''key_agreement_protocol'') (\<lambda>p.
     rbind (item c ''hash'') (\<lambda>h.
     rbind (item c ''message_authentication_code'') (\<lambda>a.
     rbind (item c ''short_authentication_string'') (\<lambda>x.
     ToDeviceEvent v s (KeyVerificationAccept i m p h a x))))))))))"

definition KeyVerificationKey_from_dict :: "validator \<Rightarrow> json \<Rightarrow> exn + to_device_event parsed" where
  "KeyVerificationKey_from_dict validate = verify_parsed validate Schemas_key_verification_key (\<lambda>v.
     rbind (item v ''content'') (\<lambda>c.
     rbind (item v ''sender'') (\<lambda>s.
     rbind (item c ''transaction_id'') (\<lambda>i.
     rbind (item c ''key'') (\<lambda>k.
     ToDeviceEvent v s (KeyVerificationKey i k))))))"

definition KeyVerificationMac_from_dict :: "validator \<Rightarrow> json \<Rightarrow> exn + to_device_event parsed" where
  "KeyVerificationMac_from_dict validate = verify_parsed validate Schemas_key_verification_mac (\<lambda>v.
     rbind (item v ''content'') (\<lambda>c.
     rbind (item v ''sender'') (\<lambda>s.
     rbind (item c ''transaction_id'') (\<lambda>i.
     rbind (item c ''mac'') (\<lambda>m.
     rbind (item c ''keys'') (\<lambda>k.
     ToDeviceEvent v s (KeyVerificationMac i m k)))))))"

definition KeyVerificationCancel_from_dict :: "validator \<Rightarrow> json \<Rightarrow> exn + to_device_event parsed" where
  "KeyVerificationCancel_from_dict validate = verify_parsed validate Schemas_key_verification_cancel (\<lambda>v.
     rbind (item v ''content'') (\<lambda>c.
     rbind (item v ''sender'') (\<lambda>s.
     rbind (item c ''transaction_id'') (\<lambda>i.
     rbind (item c ''code'') (\<lambda>k.
     rbind (item c ''reason'') (\<lambda>r.
     ToDeviceEvent v s (KeyVerificationCancel i k r)))))))"

definition OlmEvent_from_dict :: "validator \<Rightarrow> json \<Rightarrow> exn + to_device_event parsed" where
  "OlmEvent_from_dict validate = verify_parsed validate Schemas_room_olm_encrypted (\<lambda>v.
     rbind (item v ''content'') (\<lambda>c.
     rbind (item c ''ciphertext'') (\<lambda>x.
     rbind (item c ''sender_key'') (\<lambda>k.
     rbind (unsigned_transaction v) (\<lambda>tx.
     rbind (item v ''sender'') (\<lambda>s.
     ToDeviceEvent v s (OlmEvent k x tx)))))))"

text \<open>The events that only Olm decryption makes: their sender and its key come from the session.\<close>

definition DummyEvent_from_dict :: "validator \<Rightarrow> json \<Rightarrow> string \<Rightarrow> string \<Rightarrow> exn + to_device_event parsed" where
  "DummyEvent_from_dict validate v sender sender_key =
     verify_parsed validate Schemas_dummy_event (\<lambda>v.
       rbind (item v ''sender_device'') (\<lambda>device.
       ToDeviceEvent v (JStr sender) (DummyEvent sender_key device))) v"

definition RoomKeyEvent_from_dict :: "validator \<Rightarrow> json \<Rightarrow> string \<Rightarrow> string \<Rightarrow> exn + to_device_event parsed" where
  "RoomKeyEvent_from_dict validate v sender sender_key =
     verify_parsed validate Schemas_room_key_event (\<lambda>v.
       rbind (pop v ''keys'') (\<lambda>(_, w).
       rbind (item w ''content'') (\<lambda>c.
       rbind (pop c ''session_key'') (\<lambda>(_, c').
       rbind (item c' ''room_id'') (\<lambda>r.
       rbind (item c' ''session_id'') (\<lambda>n.
       rbind (item c' ''algorithm'') (\<lambda>a.
       ToDeviceEvent (set_item w ''content'' c') (JStr sender) (RoomKeyEvent sender_key r n a)))))))) v"

definition ForwardedRoomKeyEvent_from_dict ::
  "validator \<Rightarrow> json \<Rightarrow> string \<Rightarrow> string \<Rightarrow> exn + to_device_event parsed" where
  "ForwardedRoomKeyEvent_from_dict validate v sender sender_key =
     verify_parsed validate Schemas_forwarded_room_key_event (\<lambda>v.
       rbind (item v ''content'') (\<lambda>c.
       rbind (pop c ''session_key'') (\<lambda>(_, c').
       rbind (item c' ''room_id'') (\<lambda>r.
       rbind (item c' ''session_id'') (\<lambda>n.
       rbind (item c' ''algorithm'') (\<lambda>a.
       ToDeviceEvent (set_item v ''content'' c') (JStr sender) (ForwardedRoomKeyEvent sender_key r n a))))))) v"

definition ToDeviceEvent_parse_encrypted_event :: "validator \<Rightarrow> json \<Rightarrow> exn + to_device_event parsed" where
  "ToDeviceEvent_parse_encrypted_event validate = verify_parsed validate Schemas_room_encrypted (\<lambda>v.
     rbind (item v ''content'') (\<lambda>c.
     rbind (item c ''algorithm'') (\<lambda>a.
     if a = JStr ''m.olm.v1.curve25519-aes-sha2'' then OlmEvent_from_dict validate v
     else Inr Ignored)))"

definition to_device_parsers :: "validator \<Rightarrow> (string \<times> (json \<Rightarrow> exn + to_device_event parsed)) list" where
  "to_device_parsers validate =
     [(''m.room.encrypted'', ToDeviceEvent_parse_encrypted_event validate),
      (''m.key.verification.start'', KeyVerificationStart_from_dict validate),
      (''m.key.verification.accept'', KeyVerificationAccept_from_dict validate),
      (''m.key.verification.key'', KeyVerificationKey_from_dict validate),
      (''m.key.verification.mac'', KeyVerificationMac_from_dict validate),
      (''m.key.verification.cancel'', KeyVerificationCancel_from_dict validate),
      (''m.room_key_request'', BaseRoomKeyRequest_parse_event validate)]"

definition ToDeviceEvent_parse_event :: "validator \<Rightarrow> json \<Rightarrow> exn + to_device_event parsed" where
  "ToDeviceEvent_parse_event validate = verify_parsed validate Schemas_to_device (\<lambda>v.
     rbind (item v ''content'') (\<lambda>c.
     if \<not> truthy c then Inr Ignored
     else rbind (item v ''type'') (\<lambda>t.
       case (case t of JStr s \<Rightarrow> dget (to_device_parsers validate) s | _ \<Rightarrow> None) of
         Some p \<Rightarrow> p v
       | None \<Rightarrow> UnknownToDeviceEvent_from_dict v)))"

section \<open>Invite events\<close>

datatype invite_body =
    InviteMemberEvent json json json json json
  | InviteAliasEvent json
  | InviteNameEvent json

record invite_event =
  iv_source :: json
  iv_sender :: json
  iv_body :: invite_body

definition InviteEvent :: "json \<Rightarrow> json \<Rightarrow> invite_body \<Rightarrow> exn + invite_event parsed" where
  "InviteEvent v sender b = Inr (Parsed \<lparr> iv_source = v, iv_sender = sender, iv_body = b \<rparr>)"

text \<open>The content of a member event is taken out of the source dictionary.\<close>

definition InviteMemberEvent_from_dict :: "validator \<Rightarrow> json \<Rightarrow> exn + invite_event parsed" where
  "InviteMemberEvent_from_dict validate = verify_parsed validate Schemas_room_membership (\<lambda>v.
     rbind (pop v ''content'') (\<lambda>(c, w).
     rbind (get_or w ''unsigned'' (JObj [])) (\<lambda>u.
     rbind (get_or u ''prev_content'' JNull) (\<lambda>prev.
     rbind (item c ''membership'') (\<lambda>membership.
     rbind (if truthy prev then get_or prev ''membership'' JNull else Inr JNull) (\<lambda>prev_membership.
     rbind (item w ''sender'') (\<lambda>s.
     rbind (item w ''state_key'') (\<lambda>k.
     InviteEvent w s (InviteMemberEvent k membership prev_membership c prev)))))))))"

definition InviteAliasEvent_from_dict :: "validator \<Rightarrow> json \<Rightarrow> exn + invite_event parsed" where
  "InviteAliasEvent_from_dict validate = verify_parsed validate Schemas_room_canonical_alias (\<lambda>v.
     rbind (item v ''sender'') (\<lambda>s.
     rbind (item v ''content'') (\<lambda>c.
     rbind (get_or c ''alias'' JNull) (\<lambda>a.
     InviteEvent v s (InviteAliasEvent a)))))"

definition InviteNameEvent_from_dict :: "validator \<Rightarrow> json \<Rightarrow> exn + invite_event parsed" where
  "InviteNameEvent_from_dict validate = verify_parsed validate Schemas_room_name (\<lambda>v.
     rbind (item v ''sender'') (\<lambda>s.
     rbind (item v ''content'') (\<lambda>c.
     rbind (item c ''name'') (\<lambda>n.
     InviteEvent v s (InviteNameEvent n)))))"

definition InviteEvent_parse_event :: "validator \<Rightarrow> json \<Rightarrow> exn + invite_event parsed" where
  "InviteEvent_parse_event validate = verify_parsed validate Schemas_invite_event (\<lambda>v.
     rbind (is_redacted v) (\<lambda>r.
     if r then Inr Ignored
     else rbind (item v ''type'') (\<lambda>t.
       if t = JStr ''m.room.member'' then InviteMemberEvent_from_dict validate v
       else if t = JStr ''m.room.canonical_alias'' then InviteAliasEvent_from_dict validate v
       else if t = JStr ''m.room.name'' then InviteNameEvent_from_dict validate v
       else Inr Ignored)))"

section \<open>Ephemeral events\<close>

record receipt_json =
  rj_event_id :: string
  rj_type :: string
  rj_user_id :: string
  rj_timestamp :: json
  rj_thread_id :: json

datatype ephemeral_body = TypingNotice json | Receipts "receipt_json list"

record ephemeral_json =
  ej_source :: json
  ej_body :: ephemeral_body

definition TypingNoticeEvent_from_dict :: "validator \<Rightarrow> json \<Rightarrow> exn + ephemeral_json parsed" where
  "TypingNoticeEvent_from_dict validate = verify_or_none validate Schemas_m_typing (\<lambda>v.
     rbind (item v ''content'') (\<lambda>c.
     rbind (item c ''user_ids'') (\<lambda>u.
     Inr (Parsed \<lparr> ej_source = JObj [], ej_body = TypingNotice u \<rparr>))))"

text \<open>\<^verbatim>\<open>v.items()\<close>.\<close>

definition items :: "json \<Rightarrow> exn + jobj" where
  "items v = (case v of JObj d \<Rightarrow> Inr d | _ \<Rightarrow> Inl (AttributeError ''items''))"

definition user_receipt :: "string \<Rightarrow> string \<Rightarrow> string \<times> json \<Rightarrow> receipt_json list" where
  "user_receipt event_id receipt_type p =
     (case snd p of
        JObj u \<Rightarrow> (case dget u ''ts'' of
            None \<Rightarrow> []
          | Some ts \<Rightarrow> [\<lparr> rj_event_id = event_id, rj_type = receipt_type, rj_user_id = fst p,
                          rj_timestamp = ts, rj_thread_id = jget u ''thread_id'' \<rparr>])
      | _ \<Rightarrow> [])"

definition typed_receipts :: "string \<Rightarrow> string \<times> json \<Rightarrow> exn + receipt_json list" where
  "typed_receipts event_id p =
     rbind (items (snd p)) (\<lambda>users. Inr (concat (map (user_receipt event_id (fst p)) users)))"

definition event_receipts :: "string \<times> json \<Rightarrow> exn + receipt_json list" where
  "event_receipts p =
     rbind (items (snd p)) (\<lambda>types. rbind (rmap (typed_receipts (fst p)) types) (\<lambda>rs. Inr (concat rs)))"

definition ReceiptEvent_from_dict :: "validator \<Rightarrow> json \<Rightarrow> exn + ephemeral_json parsed" where
  "ReceiptEvent_from_dict validate = verify_or_none validate Schemas_m_receipt (\<lambda>v.
     rbind (item v ''content'') (\<lambda>c.
     rbind (items c) (\<lambda>events.
     rbind (rmap event_receipts events) (\<lambda>rs.
     Inr (Parsed \<lparr> ej_source = JObj [], ej_body = Receipts (concat rs) \<rparr>)))))"

definition EphemeralEvent_parse_event :: "validator \<Rightarrow> json \<Rightarrow> exn + ephemeral_json parsed" where
  "EphemeralEvent_parse_event validate = verify_or_none validate Schemas_ephemeral_event (\<lambda>v.
     rbind (item v ''type'') (\<lambda>t.
     rbind (if t = JStr ''m.typing'' then TypingNoticeEvent_from_dict validate v
            else if t = JStr ''m.receipt'' then ReceiptEvent_from_dict validate v
            else Inr Ignored) (\<lambda>r.
     Inr (case r of Parsed e \<Rightarrow> Parsed (e \<lparr> ej_source := v \<rparr>) | _ \<Rightarrow> r))))"

section \<open>Push rules\<close>

text \<open>\<^verbatim>\<open>re.findall(r"(==|<|>|<=|>=)?([0-9.-]+)", s)\<close>, its first match.\<close>

definition operators :: "count_operator list" where
  "operators = [CountEq, CountLt, CountGt, CountLe, CountGe]"

definition number_run :: "string \<Rightarrow> string option" where
  "number_run s = (let n = takeWhile count_char s in if n = [] then None else Some n)"

fun first_operator :: "count_operator list \<Rightarrow> string \<Rightarrow> (count_operator option \<times> string) option" where
  "first_operator [] s = map_option (\<lambda>n. (None, n)) (number_run s)"
| "first_operator (x # xs) s =
     (case starts (operator_text x) s of
        None \<Rightarrow> first_operator xs s
      | Some t \<Rightarrow> (case number_run t of None \<Rightarrow> first_operator xs s | Some n \<Rightarrow> Some (Some x, n)))"

fun first_count :: "string \<Rightarrow> (count_operator option \<times> string) option" where
  "first_count [] = None"
| "first_count (c # s) =
     (case first_operator operators (c # s) of None \<Rightarrow> first_count s | Some r \<Rightarrow> Some r)"

text \<open>\<^verbatim>\<open>int(s)\<close> for the characters the expression lets through.\<close>

definition digits_value :: "string \<Rightarrow> int" where
  "digits_value s = foldl (\<lambda>n c. 10 * n + (int (byte_of c) - 48)) 0 s"

definition is_digits :: "string \<Rightarrow> bool" where
  "is_digits s = (s \<noteq> [] \<and> list_all (ascii_between CHR ''0'' CHR ''9'') s)"

definition parse_int :: "string \<Rightarrow> exn + int" where
  "parse_int s =
     (if is_digits s then Inr (digits_value s)
      else case s of
        [] \<Rightarrow> Inl (ValueError s)
      | c # t \<Rightarrow> if c = CHR ''-'' \<and> is_digits t then Inr (- digits_value t) else Inl (ValueError s))"

definition PushRoomMemberCount_from_dict :: "json \<Rightarrow> exn + push_condition" where
  "PushRoomMemberCount_from_dict v =
     rbind (item v ''is'') (\<lambda>x.
     case x of
       JStr s \<Rightarrow>
         (case first_count s of
            None \<Rightarrow> Inl (ValueError ''list index out of range'')
          | Some (oper, n) \<Rightarrow>
              rbind (parse_int n) (\<lambda>i.
              Inr (PushRoomMemberCount i (case oper of None \<Rightarrow> CountEq | Some y \<Rightarrow> y))))
     | _ \<Rightarrow> Inl (TypeError ''expected string''))"

definition PushCondition_from_dict :: "json \<Rightarrow> exn + push_condition" where
  "PushCondition_from_dict v =
     rbind (item v ''kind'') (\<lambda>kind.
     rbind (items v) (\<lambda>d.
     if kind = JStr ''event_match'' \<and> din ''key'' d \<and> din ''pattern'' d then
       Inr (PushEventMatch (jget d ''key'') (jget d ''pattern''))
     else if kind = JStr ''contains_display_name'' then Inr PushContainsDisplayName
     else if kind = JStr ''room_member_count'' then PushRoomMemberCount_from_dict v
     else if kind = JStr ''sender_notification_permission'' \<and> din ''key'' d then
       Inr (PushSenderNotificationPermission (jget d ''key''))
     else Inr (PushUnknownCondition d)))"

datatype rule_kind = Override | Content | Room | Sender | Underride

definition rule_kind_name :: "rule_kind \<Rightarrow> string" where
  "rule_kind_name k =
     (case k of Override \<Rightarrow> ''override'' | Content \<Rightarrow> ''content'' | Room \<Rightarrow> ''room''
      | Sender \<Rightarrow> ''sender'' | Underride \<Rightarrow> ''underride'')"

record push_rule =
  pu_kind :: rule_kind
  pu_id :: json
  pu_default :: json
  pu_enabled :: json
  pu_pattern :: json
  pu_conditions :: "push_condition list"
  pu_actions :: "push_action list"

text \<open>Iterating over a list; iterating over another value raises or yields its parts, none of
  which the schema lets through.\<close>

definition elements :: "json \<Rightarrow> exn + json list" where
  "elements v =
     (case v of
        JArr xs \<Rightarrow> Inr xs
      | JObj d \<Rightarrow> Inr (map (\<lambda>p. JStr (fst p)) d)
      | JStr s \<Rightarrow> Inr (map (\<lambda>c. JStr [c]) s)
      | _ \<Rightarrow> Inl (TypeError ''not iterable''))"

definition PushRule_from_dict :: "validator \<Rightarrow> rule_kind \<Rightarrow> json \<Rightarrow> exn + push_rule parsed" where
  "PushRule_from_dict validate kind = verify_or_none validate Schemas_push_rule (\<lambda>v.
     rbind (item v ''rule_id'') (\<lambda>i.
     rbind (item v ''default'') (\<lambda>dflt.
     rbind (item v ''enabled'') (\<lambda>enabled.
     rbind (get_or v ''pattern'' (JStr [])) (\<lambda>pattern.
     rbind (get_or v ''conditions'' (JArr [])) (\<lambda>cs.
     rbind (elements cs) (\<lambda>cs.
     rbind (rmap PushCondition_from_dict cs) (\<lambda>conditions.
     rbind (get_or v ''actions'' (JArr [])) (\<lambda>as.
     rbind (elements as) (\<lambda>as.
     Inr (Parsed \<lparr> pu_kind = kind, pu_id = i, pu_default = dflt, pu_enabled = enabled, pu_pattern = pattern,
       pu_conditions = conditions, pu_actions = map action_from_dict as \<rparr>)))))))))))"

type_synonym push_ruleset = "(rule_kind \<times> push_rule list) list"

definition rule_kinds :: "rule_kind list" where
  "rule_kinds = [Override, Content, Room, Sender, Underride]"

definition kept :: "'a parsed list \<Rightarrow> 'a list" where
  "kept rs = concat (map (\<lambda>r. case r of Parsed x \<Rightarrow> [x] | _ \<Rightarrow> []) rs)"

definition rules_of_kind :: "validator \<Rightarrow> json \<Rightarrow> rule_kind \<Rightarrow> exn + rule_kind \<times> push_rule list" where
  "rules_of_kind validate v kind =
     rbind (get_or v (rule_kind_name kind) (JArr [])) (\<lambda>xs.
     rbind (elements xs) (\<lambda>xs.
     rbind (rmap (PushRule_from_dict validate kind) xs) (\<lambda>rs.
     Inr (kind, kept rs))))"

definition PushRuleset_from_dict :: "validator \<Rightarrow> json \<Rightarrow> exn + push_ruleset parsed" where
  "PushRuleset_from_dict validate = verify_or_none validate Schemas_push_ruleset (\<lambda>v.
     rbind (rmap (rules_of_kind validate v) rule_kinds) (\<lambda>rs. Inr (Parsed rs)))"

text \<open>\<^verbatim>\<open>PushRuleset.from_dict(..) or PushRuleset()\<close>: an empty set stays an empty set.\<close>

definition ruleset_or_empty :: "push_ruleset parsed \<Rightarrow> push_ruleset" where
  "ruleset_or_empty r = (case r of Parsed x \<Rightarrow> x | _ \<Rightarrow> map (\<lambda>k. (k, [])) rule_kinds)"

section \<open>Account data\<close>

datatype account_body =
    FullyRead json
  | Tags json
  | PushRules push_ruleset push_ruleset
  | UnknownAccountData json json

record account_data_json =
  ad_source :: json
  ad_body :: account_body

definition AccountData :: "account_body \<Rightarrow> exn + account_data_json parsed" where
  "AccountData b = Inr (Parsed \<lparr> ad_source = JObj [], ad_body = b \<rparr>)"

definition FullyReadEvent_from_dict :: "validator \<Rightarrow> json \<Rightarrow> exn + account_data_json parsed" where
  "FullyReadEvent_from_dict validate = verify_parsed validate Schemas_fully_read (\<lambda>v.
     rbind (pop v ''content'') (\<lambda>(c, w). rbind (item c ''event_id'') (\<lambda>i. AccountData (FullyRead i))))"

definition TagEvent_from_dict :: "validator \<Rightarrow> json \<Rightarrow> exn + account_data_json parsed" where
  "TagEvent_from_dict validate = verify_parsed validate Schemas_tags (\<lambda>v.
     rbind (pop v ''content'') (\<lambda>(c, w). rbind (item c ''tags'') (\<lambda>t. AccountData (Tags t))))"

definition PushRulesEvent_from_dict :: "validator \<Rightarrow> json \<Rightarrow> exn + account_data_json parsed" where
  "PushRulesEvent_from_dict validate = verify_parsed validate Schemas_push_rules (\<lambda>v.
     rbind (item v ''content'') (\<lambda>c.
     rbind (get_or c ''global'' (JObj [])) (\<lambda>g.
     rbind (PushRuleset_from_dict validate g) (\<lambda>global.
     rbind (get_or c ''device'' (JObj [])) (\<lambda>d.
     rbind (PushRuleset_from_dict validate d) (\<lambda>device.
     AccountData (PushRules (ruleset_or_empty global) (ruleset_or_empty device))))))))"

definition UnknownAccountDataEvent_from_dict :: "json \<Rightarrow> exn + account_data_json parsed" where
  "UnknownAccountDataEvent_from_dict v =
     rbind (pop v ''content'') (\<lambda>(c, w). rbind (item w ''type'') (\<lambda>t. AccountData (UnknownAccountData t c)))"

definition AccountDataEvent_parse_event :: "validator \<Rightarrow> json \<Rightarrow> exn + account_data_json parsed" where
  "AccountDataEvent_parse_event validate = verify_parsed validate Schemas_account_data (\<lambda>v.
     rbind (item v ''type'') (\<lambda>t.
     rbind (if t = JStr ''m.fully_read'' then FullyReadEvent_from_dict validate v
            else if t = JStr ''m.tag'' then TagEvent_from_dict validate v
            else if t = JStr ''m.push_rules'' then PushRulesEvent_from_dict validate v
            else UnknownAccountDataEvent_from_dict v) (\<lambda>r.
     Inr (case r of
            Parsed e \<Rightarrow> Parsed (e \<lparr> ad_source := v \<rparr>)
          | Bad b \<Rightarrow> Bad (b \<lparr> e_source := v \<rparr>)
          | Ignored \<Rightarrow> Ignored))))"

section \<open>Presence\<close>

record presence_event =
  ps_user_id :: json
  ps_presence :: json
  ps_last_active_ago :: json
  ps_currently_active :: json
  ps_status_msg :: json

definition PresenceEvent_from_dict :: "validator \<Rightarrow> json \<Rightarrow> exn + presence_event parsed" where
  "PresenceEvent_from_dict validate = verify_parsed validate Schemas_presence (\<lambda>v.
     rbind (item v ''sender'') (\<lambda>s.
     rbind (item v ''content'') (\<lambda>c.
     rbind (item c ''presence'') (\<lambda>p.
     rbind (get_or c ''last_active_ago'' JNull) (\<lambda>ago.
     rbind (get_or c ''currently_active'' JNull) (\<lambda>active.
     rbind (get_or c ''status_msg'' JNull) (\<lambda>msg.
     Inr (Parsed \<lparr> ps_user_id = s, ps_presence = p, ps_last_active_ago = ago,
       ps_currently_active = active, ps_status_msg = msg \<rparr>))))))))"

end
