(* ===== verification/Nio_Events_Facts.thy ===== *)
theory Nio_Events_Facts
  imports Nio_Events
begin

text \<open>
  What the room event parsers promise: whatever passed its schema can be read, so a parser
  returns an event, and the event has the types its class declares.
\<close>

section \<open>Declared types\<close>

fun opt_str :: "json \<Rightarrow> bool" where
  "opt_str JNull = True"
| "opt_str v = is_str v"

fun opt_dict :: "json \<Rightarrow> bool" where
  "opt_dict JNull = True"
| "opt_dict v = is_dict v"

fun is_int :: "json \<Rightarrow> bool" where
  "is_int (JInt _) = True"
| "is_int _ = False"

fun int_or_str :: "json \<Rightarrow> bool" where
  "int_or_str (JInt _) = True"
| "int_or_str v = is_str v"

definition list_of :: "(json \<Rightarrow> bool) \<Rightarrow> json \<Rightarrow> bool" where
  "list_of p v = (case v of JArr xs \<Rightarrow> list_all p xs | _ \<Rightarrow> False)"

definition one_of :: "string list \<Rightarrow> json \<Rightarrow> bool" where
  "one_of xs v = list_ex (\<lambda>x. v = JStr x) xs"

text \<open>A dictionary whose values under the keys the pattern matches are integers.\<close>

definition levels_of :: "pattern \<Rightarrow> json \<Rightarrow> bool" where
  "levels_of r v =
     (case v of JObj d \<Rightarrow> list_all (\<lambda>p. re_search r (fst p) \<longrightarrow> is_int (snd p)) d | _ \<Rightarrow> False)"

definition memberships :: "string list" where
  "memberships = [''invite'', ''join'', ''knock'', ''leave'', ''ban'']"

text \<open>
  What the schema of each class guarantees of the types of its fields: the annotations of the class
  but for these, where the schema is weaker. The room of a \<open>MegolmEvent\<close> may be missing; the
  version of a call is an integer or a string; nothing is said of the mime type of an
  encrypted medium nor of the previous membership and content of a \<open>RoomMemberEvent\<close>; levels are
  integers only under keys that are user ids or event types, and the notification levels are only known
  to be a dictionary. Of the two bad events only the source is known.
\<close>

fun guaranteed :: "event_body \<Rightarrow> bool" where
  "guaranteed UnknownBadEvent = True"
| "guaranteed (BadEvent t) = True"
| "guaranteed (UnknownEvent t) = is_str t"
| "guaranteed (UnknownEncryptedEvent t a) = (is_str t \<and> is_str a)"
| "guaranteed (MegolmEvent device ciphertext algorithm room) =
     (is_str device \<and> is_str ciphertext \<and> algorithm = JStr ''m.megolm.v1.aes-sha2'' \<and> opt_str room)"
| "guaranteed (CallCandidatesEvent i version candidates) =
     (is_str i \<and> int_or_str version \<and> list_of is_dict candidates)"
| "guaranteed (CallInviteEvent i version lifetime offer) =
     (is_str i \<and> int_or_str version \<and> is_int lifetime \<and> is_dict offer)"
| "guaranteed (CallAnswerEvent i version answer) = (is_str i \<and> int_or_str version \<and> is_dict answer)"
| "guaranteed (CallHangupEvent i version) = (is_str i \<and> int_or_str version)"
| "guaranteed (RedactedEvent t redacter reason) = (is_str t \<and> is_str redacter \<and> opt_str reason)"
| "guaranteed RoomEncryptionEvent = True"
| "guaranteed (RoomCreateEvent federate version room_type creators) =
     (is_bool federate \<and> is_str version \<and> is_str room_type \<and> list_of is_str creators)"
| "guaranteed (RoomGuestAccessEvent x) = one_of [''can_join'', ''forbidden''] x"
| "guaranteed (RoomJoinRulesEvent x) =
     one_of [''public'', ''knock'', ''invite'', ''private'', ''restricted'', ''knock_restricted''] x"
| "guaranteed (RoomHistoryVisibilityEvent x) = one_of [''invited'', ''joined'', ''shared'', ''world_readable''] x"
| "guaranteed (RoomAliasEvent x) = opt_str x"
| "guaranteed (RoomNameEvent x) = is_str x"
| "guaranteed (RoomTopicEvent x) = is_str x"
| "guaranteed (RoomAvatarEvent x) = opt_str x"
| "guaranteed (RoomSpaceParentEvent k b) = (is_str k \<and> is_bool b)"
| "guaranteed (RoomSpaceChildEvent k b) = (is_str k \<and> is_bool b)"
| "guaranteed (RoomMessageMedia m url body) = (is_str url \<and> is_str body)"
| "guaranteed (RoomEncryptedMedia m url body key hashes iv mimetype t_url t_key t_hashes t_iv) =
     (is_str url \<and> is_str body \<and> is_dict key \<and> is_dict hashes \<and> is_str iv \<and>
      opt_str t_url \<and> opt_dict t_key \<and> opt_dict t_hashes \<and> opt_str t_iv)"
| "guaranteed (RoomMessageUnknown t content) = (is_str t \<and> is_dict content)"
| "guaranteed (RoomMessageText body formatted fmt) = (is_str body \<and> opt_str formatted \<and> opt_str fmt)"
| "guaranteed (RoomMessageEmote body formatted fmt) = (is_str body \<and> opt_str formatted \<and> opt_str fmt)"
| "guaranteed (RoomMessageNotice body formatted fmt) = (is_str body \<and> opt_str formatted \<and> opt_str fmt)"
| "guaranteed (PowerLevelsEvent ban invite kick redact state_default events_default users_default
     notifications users events) =
     (list_all is_int [ban, invite, kick, redact, state_default, events_default, users_default] \<and>
      is_dict notifications \<and> levels_of UserIdRegex users \<and> levels_of EventTypeRegex events)"
| "guaranteed (RedactionEvent redacts reason) = (is_str redacts \<and> opt_str reason)"
| "guaranteed (RoomMemberEvent k membership prev_membership content prev_content) =
     (is_str k \<and> one_of memberships membership \<and> is_dict content)"
| "guaranteed (StickerEvent body url content) = (is_str body \<and> is_str url \<and> is_dict content)"
| "guaranteed (ReactionEvent i key) = (is_str i \<and> is_str key)"
| "guaranteed (RoomUpgradeEvent body room) = (is_str body \<and> is_str room)"

fun is_bad :: "event_body \<Rightarrow> bool" where
  "is_bad UnknownBadEvent = True"
| "is_bad (BadEvent _) = True"
| "is_bad _ = False"

definition well_typed :: "event \<Rightarrow> bool" where
  "well_typed e =
     (is_dict (e_source e) \<and> guaranteed (e_body e) \<and>
      (\<not> is_bad (e_body e) \<longrightarrow>
        is_str (e_event_id e) \<and> is_str (e_sender e) \<and> is_int (e_server_timestamp e) \<and>
        opt_str (e_sender_key e) \<and> opt_str (e_session_id e) \<and> opt_str (e_transaction_id e)))"

definition yields :: "(event \<Rightarrow> bool) \<Rightarrow> exn + event \<Rightarrow> bool" where
  "yields p r = (case r of Inl _ \<Rightarrow> False | Inr e \<Rightarrow> p e)"

text \<open>
  An event dictionary with the fields \<^verbatim>\<open>Schemas.room_event\<close> asks for, of type \<open>t\<close>; \<open>signed\<close> is
  what it says of the unsigned part.
\<close>

definition scalars :: "string \<Rightarrow> jobj \<Rightarrow> bool" where
  "scalars t d =
     (\<exists>i s n. dget d ''event_id'' = Some (JStr i) \<and> dget d ''sender'' = Some (JStr s) \<and>
        dget d ''origin_server_ts'' = Some (JInt n) \<and> dget d ''type'' = Some (JStr t))"

definition signed :: "jobj \<Rightarrow> bool" where
  "signed d =
     (case dget d ''unsigned'' of
        None \<Rightarrow> True
      | Some (JObj u) \<Rightarrow> (case dget u ''transaction_id'' of None \<Rightarrow> True | Some x \<Rightarrow> is_str x)
      | _ \<Rightarrow> False)"

definition enveloped :: "string \<Rightarrow> jobj \<Rightarrow> bool" where
  "enveloped t d = (scalars t d \<and> signed d)"

lemma is_str_iff: "is_str v \<longleftrightarrow> (\<exists>s. v = JStr s)"
  by (cases v) simp_all

lemma is_dict_iff: "is_dict v \<longleftrightarrow> (\<exists>d. v = JObj d)"
  by (cases v) simp_all

lemma type_tests [simp]:
  "opt_str (JStr s)" "opt_dict (JObj d)" "\<not> is_str JNull"
  by simp_all

lemma scalars_grow:
  assumes "scalars t d" "grows (JObj d) (JObj e)"
  shows "scalars t e"
proof -
  have step: "\<exists>y. dget e k = Some y \<and> grows x y" if "dget d k = Some x" for k x
    using assms(2) that unfolding grows_obj by blast
  from assms(1) obtain i s n where d: "dget d ''event_id'' = Some (JStr i)" "dget d ''sender'' = Some (JStr s)"
    "dget d ''origin_server_ts'' = Some (JInt n)" "dget d ''type'' = Some (JStr t)"
    unfolding scalars_def by blast
  show ?thesis
    using step[OF d(1)] step[OF d(2)] step[OF d(3)] step[OF d(4)] by (simp add: scalars_def)
qed

text \<open>A schema that says nothing of a key leaves it alone.\<close>

fun leaves :: "string \<Rightarrow> schema \<Rightarrow> bool" where
  "leaves k (Schema ks) =
     (case filter descends ks of
        [] \<Rightarrow> True
      | kw # _ \<Rightarrow> (case kw of Properties ps \<Rightarrow> dget ps k = None | _ \<Rightarrow> False))"

lemma leaves_key:
  assumes "tidy s" "no_defaults s \<or> leaves k s" "fill s (JObj d) = JObj e"
  shows "dget e k = dget d k"
proof (cases "no_defaults s")
  case True
  with assms(3) show ?thesis by (simp add: fill_nothing)
next
  case False
  obtain ks where s: "s = Schema ks" by (cases s)
  from assms(1) s have one: "length (filter descends ks) \<le> 1" by simp
  show ?thesis
  proof (cases "filter descends ks")
    case Nil
    with assms(3) s show ?thesis by (simp add: fill_one_keyword[OF one] del: fill.simps)
  next
    case (Cons kw r)
    with False assms(2) s obtain ps where ps: "kw = Properties ps" "dget ps k = None"
      by (auto split: kw.splits)
    from Cons have "kw \<in> set ks" by (metis filter_eq_ConsD in_set_conv_decomp)
    moreover from assms(1) s have "\<forall>k \<in> set ks. tidy_kw k" by simp
    ultimately have "distinct (map fst ps)" using ps(1) by force
    with assms(3) s Cons ps show ?thesis
      by (auto simp: fill_one_keyword[OF one] fill_Properties dget_fill_props simp del: fill.simps)
  qed
qed

section \<open>One validated parser\<close>

lemma bad_event_scalars:
  "scalars t d \<Longrightarrow> yields well_typed (bad_event (JObj d))"
  by (auto simp: scalars_def bad_event_def BadEvent_from_dict_def item_def max_zero_def
      base_event_def yields_def well_typed_def)

text \<open>A parser behind its schema only has to deal with what conforms.\<close>

lemma verify_ok:
  assumes "draft4 validate" "tidy s" "no_defaults s \<or> leaves ''unsigned'' s" "enveloped t d"
    and run: "\<And>e. enveloped t e \<Longrightarrow> fill s (JObj d) = JObj e \<Longrightarrow> conforms s (JObj e) \<Longrightarrow>
               yields well_typed (f (JObj e))"
  shows "yields well_typed (verify validate s f (JObj d))"
proof -
  obtain ok w where w: "validate s (JObj d) = (ok, w)" by (cases "validate s (JObj d)")
  with assms(1,2) have facts: "ok = conforms s (fill s (JObj d))" "ok \<Longrightarrow> w = fill s (JObj d)"
    "grows (JObj d) w"
    by (auto simp: draft4_def dest!: spec[of _ s] spec[of _ "JObj d"])
  obtain e where e: "fill s (JObj d) = JObj e" using fill_obj by blast
  from facts(3) obtain c where c: "w = JObj c" using grows_objD by blast
  show ?thesis
  proof (cases ok)
    case True
    from grows_fill[of "JObj d" s] e assms(4) have "scalars t e"
      unfolding enveloped_def by (auto intro: scalars_grow)
    moreover from leaves_key[OF assms(2,3) e] assms(4) have "signed e"
      by (simp add: enveloped_def signed_def)
    ultimately show ?thesis
      using True facts w e run[of e] by (simp add: verify_def enveloped_def)
  next
    case False
    from facts(3) c assms(4) have "scalars t c" unfolding enveloped_def by (auto intro: scalars_grow)
    with False w c show ?thesis by (simp add: verify_def bad_event_scalars)
  qed
qed

lemma verify_plain:
  assumes "draft4 validate" "tidy s" "no_defaults s" "enveloped t d"
    and "conforms s (JObj d) \<Longrightarrow> yields well_typed (f (JObj d))"
  shows "yields well_typed (verify validate s f (JObj d))"
  using assms by (intro verify_ok) (auto simp: fill_nothing)

lemma Event_ok:
  "enveloped t d \<Longrightarrow> guaranteed b \<Longrightarrow> yields well_typed (Event (JObj d) b)"
  by (auto simp: enveloped_def scalars_def Event_def item_def base_event_def yields_def well_typed_def)

lemma Event_set_ok:
  "enveloped t d \<Longrightarrow> guaranteed b \<Longrightarrow> opt_str k \<Longrightarrow> opt_str i \<Longrightarrow> opt_str x \<Longrightarrow>
   yields well_typed (rbind (Event (JObj d) b)
     (\<lambda>e. Inr (e \<lparr> e_sender_key := k, e_session_id := i, e_transaction_id := x \<rparr>)))"
  by (auto simp: enveloped_def scalars_def Event_def item_def base_event_def yields_def well_typed_def)

lemma enveloped_type: "enveloped t d \<Longrightarrow> dget d ''type'' = Some (JStr t)"
  by (auto simp: enveloped_def scalars_def)

lemma unsigned_transaction_ok:
  "enveloped t d \<Longrightarrow> \<exists>x. unsigned_transaction (JObj d) = Inr x \<and> opt_str x"
  by (auto simp: enveloped_def signed_def unsigned_transaction_def contains_def item_def get_or_def
      is_str_iff split: option.splits json.splits)

lemma list_of_JArr [simp]: "list_of p (JArr xs) = (\<forall>x \<in> set xs. p x)"
  by (simp add: list_of_def list_all_iff)

lemmas access_defs = item_def get_or_def contains_def

lemma MegolmEvent_ok:
  assumes "draft4 validate" "enveloped t d"
  shows "yields well_typed (MegolmEvent_from_dict validate (JObj d))"
  unfolding MegolmEvent_from_dict_def
proof (rule verify_plain[OF assms(1) _ _ assms(2)])
  assume c: "conforms Schemas_room_megolm_encrypted (JObj d)"
  obtain x where x: "unsigned_transaction (JObj d) = Inr x" "opt_str x"
    using unsigned_transaction_ok[OF assms(2)] by blast
  from c obtain r where r: "get_or (JObj d) ''room_id'' JNull = Inr r" "opt_str r"
    by (cases "dget d ''room_id''") (auto simp: Schemas_room_megolm_encrypted_def get_or_def)
  from c obtain c' t k i v where
    "item (JObj d) ''content'' = Inr c'" "item c' ''ciphertext'' = Inr (JStr t)"
    "item c' ''sender_key'' = Inr (JStr k)" "item c' ''session_id'' = Inr (JStr i)"
    "item c' ''device_id'' = Inr (JStr v)" "item c' ''algorithm'' = Inr (JStr ''m.megolm.v1.aes-sha2'')"
    by (auto simp: Schemas_room_megolm_encrypted_def item_def)
  with assms(2) x r show "yields well_typed (rbind (item (JObj d) ''content'') (\<lambda>c.
     rbind (item c ''ciphertext'') (\<lambda>ciphertext.
     rbind (item c ''sender_key'') (\<lambda>sender_key.
     rbind (item c ''session_id'') (\<lambda>session_id.
     rbind (item c ''device_id'') (\<lambda>device_id.
     rbind (item c ''algorithm'') (\<lambda>algorithm.
     rbind (get_or (JObj d) ''room_id'' JNull) (\<lambda>room_id.
     rbind (unsigned_transaction (JObj d)) (\<lambda>tx.
     rbind (Event (JObj d) (MegolmEvent device_id ciphertext algorithm room_id)) (\<lambda>e.
     Inr (e \<lparr> e_sender_key := sender_key, e_session_id := session_id, e_transaction_id := tx \<rparr>)))))))))))"
    by (simp add: Event_set_ok)
qed simp_all

lemma CallCandidatesEvent_ok:
  "draft4 validate \<Longrightarrow> enveloped t d \<Longrightarrow> yields well_typed (CallCandidatesEvent_from_dict validate (JObj d))"
  unfolding CallCandidatesEvent_from_dict_def
  by (rule verify_plain)
    (auto simp: Schemas_call_candidates_def access_defs is_dict_iff Event_ok split: option.splits)

lemma CallInviteEvent_ok:
  "draft4 validate \<Longrightarrow> enveloped t d \<Longrightarrow> yields well_typed (CallInviteEvent_from_dict validate (JObj d))"
  unfolding CallInviteEvent_from_dict_def
  by (rule verify_plain)
    (auto simp: Schemas_call_invite_def access_defs Event_ok split: option.splits)

lemma CallAnswerEvent_ok:
  "draft4 validate \<Longrightarrow> enveloped t d \<Longrightarrow> yields well_typed (CallAnswerEvent_from_dict validate (JObj d))"
  unfolding CallAnswerEvent_from_dict_def
  by (rule verify_plain)
    (auto simp: Schemas_call_answer_def access_defs Event_ok split: option.splits)

lemma CallHangupEvent_ok:
  "draft4 validate \<Longrightarrow> enveloped t d \<Longrightarrow> yields well_typed (CallHangupEvent_from_dict validate (JObj d))"
  unfolding CallHangupEvent_from_dict_def
  by (rule verify_plain)
    (auto simp: Schemas_call_hangup_def access_defs Event_ok split: option.splits)

lemma RedactedEvent_ok:
  "draft4 validate \<Longrightarrow> enveloped t d \<Longrightarrow> yields well_typed (RedactedEvent_from_dict validate (JObj d))"
  unfolding RedactedEvent_from_dict_def
  by (rule verify_plain)
    (auto simp: Schemas_redacted_event_def access_defs Event_ok enveloped_type split: option.splits)

lemma RoomEncryptionEvent_ok:
  "draft4 validate \<Longrightarrow> enveloped t d \<Longrightarrow> yields well_typed (RoomEncryptionEvent_from_dict validate (JObj d))"
  unfolding RoomEncryptionEvent_from_dict_def
  by (rule verify_plain)
    (auto simp: Schemas_room_encryption_def access_defs Event_ok split: option.splits)

lemma RoomAliasEvent_ok:
  "draft4 validate \<Longrightarrow> enveloped t d \<Longrightarrow> yields well_typed (RoomAliasEvent_from_dict validate (JObj d))"
  unfolding RoomAliasEvent_from_dict_def
  by (rule verify_plain)
    (auto simp: Schemas_room_canonical_alias_def access_defs Event_ok from_content_or_def split: option.splits)

lemma RoomNameEvent_ok:
  "draft4 validate \<Longrightarrow> enveloped t d \<Longrightarrow> yields well_typed (RoomNameEvent_from_dict validate (JObj d))"
  unfolding RoomNameEvent_from_dict_def
  by (rule verify_plain)
    (auto simp: Schemas_room_name_def access_defs Event_ok from_content_def split: option.splits)

lemma RoomTopicEvent_ok:
  "draft4 validate \<Longrightarrow> enveloped t d \<Longrightarrow> yields well_typed (RoomTopicEvent_from_dict validate (JObj d))"
  unfolding RoomTopicEvent_from_dict_def
  by (rule verify_plain)
    (auto simp: Schemas_room_topic_def access_defs Event_ok from_content_def split: option.splits)

lemma RoomAvatarEvent_ok:
  "draft4 validate \<Longrightarrow> enveloped t d \<Longrightarrow> yields well_typed (RoomAvatarEvent_from_dict validate (JObj d))"
  unfolding RoomAvatarEvent_from_dict_def
  by (rule verify_plain)
    (auto simp: Schemas_room_avatar_def access_defs Event_ok from_content_or_def split: option.splits)

lemma RedactionEvent_ok:
  "draft4 validate \<Longrightarrow> enveloped t d \<Longrightarrow> yields well_typed (RedactionEvent_from_dict validate (JObj d))"
  unfolding RedactionEvent_from_dict_def
  by (rule verify_plain)
    (auto simp: Schemas_room_redaction_def access_defs Event_ok split: option.splits)

lemma ReactionEvent_ok:
  "draft4 validate \<Longrightarrow> enveloped t d \<Longrightarrow> yields well_typed (ReactionEvent_from_dict validate (JObj d))"
  unfolding ReactionEvent_from_dict_def
  by (rule verify_plain)
    (auto simp: Schemas_reaction_def access_defs Event_ok split: option.splits)

lemma RoomUpgradeEvent_ok:
  "draft4 validate \<Longrightarrow> enveloped t d \<Longrightarrow> yields well_typed (RoomUpgradeEvent_from_dict validate (JObj d))"
  unfolding RoomUpgradeEvent_from_dict_def
  by (rule verify_plain)
    (auto simp: Schemas_room_tombstone_def access_defs Event_ok split: option.splits)

lemma UnknownEvent_ok: "enveloped t d \<Longrightarrow> yields well_typed (UnknownEvent_from_dict (JObj d))"
  by (simp add: UnknownEvent_from_dict_def item_def enveloped_type Event_ok)

section \<open>Events that rely on a default\<close>

definition content_has_default :: "string \<Rightarrow> schema \<Rightarrow> bool" where
  "content_has_default k s =
     (case property_schema ''content'' s of
        None \<Rightarrow> False
      | Some t \<Rightarrow> (case property_schema k t of None \<Rightarrow> False | Some u \<Rightarrow> default_of u \<noteq> None))"

lemma default_present:
  assumes "fill s (JObj d0) = JObj d" "dget d ''content'' = Some (JObj c)" "tidy s" "content_has_default k s"
  shows "dget c k \<noteq> None"
  using assms(4) content_default[OF assms(3) _ _ _ assms(1,2)]
  by (auto simp: content_has_default_def split: option.splits)

lemma room_create_defaults:
  assumes "fill Schemas_room_create (JObj d0) = JObj d" "dget d ''content'' = Some (JObj c)"
  shows "dget c ''m.federate'' \<noteq> None \<and> dget c ''room_version'' \<noteq> None"
  by (intro conjI; rule default_present[OF assms]; simp add: content_has_default_def Schemas_room_create_def)

lemma power_level_defaults:
  assumes "fill Schemas_room_power_levels (JObj d0) = JObj d" "dget d ''content'' = Some (JObj c)"
  shows "dget c ''ban'' \<noteq> None \<and> dget c ''kick'' \<noteq> None \<and> dget c ''invite'' \<noteq> None \<and>
    dget c ''redact'' \<noteq> None \<and> dget c ''users_default'' \<noteq> None \<and> dget c ''events_default'' \<noteq> None \<and>
    dget c ''state_default'' \<noteq> None \<and> dget c ''events'' \<noteq> None \<and> dget c ''users'' \<noteq> None \<and>
    dget c ''notifications'' \<noteq> None"
  by (intro conjI; rule default_present[OF assms]; simp add: content_has_default_def Schemas_room_power_levels_def)

lemma RoomCreateEvent_ok:
  assumes "draft4 validate" "enveloped t d"
  shows "yields well_typed (RoomCreateEvent_from_dict validate (JObj d))"
  unfolding RoomCreateEvent_from_dict_def
proof (rule verify_ok[OF assms(1) _ _ assms(2)])
  fix e
  assume e: "enveloped t e" "fill Schemas_room_create (JObj d) = JObj e"
    and c: "conforms Schemas_room_create (JObj e)"
  then obtain c where content: "dget e ''content'' = Some (JObj c)"
    by (auto simp: Schemas_room_create_def simp del: fill.simps split: option.splits)
  show "yields well_typed (rbind (item (JObj e) ''content'') (\<lambda>c.
     rbind (item c ''m.federate'') (\<lambda>federate.
     rbind (item c ''room_version'') (\<lambda>version.
     rbind (get_or c ''type'' (JStr [])) (\<lambda>room_type.
     rbind (get_or c ''additional_creators'' (JArr [])) (\<lambda>creators.
     Event (JObj e) (RoomCreateEvent federate version room_type creators)))))))"
    using e(1) c content room_create_defaults[OF e(2) content]
    by (auto simp: Schemas_room_create_def access_defs Event_ok is_str_iff split: option.splits)
qed (simp_all add: Schemas_room_create_def)

lemma RoomGuestAccessEvent_ok:
  "draft4 validate \<Longrightarrow> enveloped t d \<Longrightarrow> yields well_typed (RoomGuestAccessEvent_from_dict validate (JObj d))"
  unfolding RoomGuestAccessEvent_from_dict_def
  by (rule verify_ok)
    (auto simp: Schemas_room_guest_access_def access_defs from_content_def Event_ok one_of_def
      simp del: fill.simps split: option.splits)

lemma RoomJoinRulesEvent_ok:
  "draft4 validate \<Longrightarrow> enveloped t d \<Longrightarrow> yields well_typed (RoomJoinRulesEvent_from_dict validate (JObj d))"
  unfolding RoomJoinRulesEvent_from_dict_def
  by (rule verify_ok)
    (auto simp: Schemas_room_join_rules_def access_defs from_content_def Event_ok one_of_def
      simp del: fill.simps split: option.splits)

lemma RoomHistoryVisibilityEvent_ok:
  "draft4 validate \<Longrightarrow> enveloped t d \<Longrightarrow> yields well_typed (RoomHistoryVisibilityEvent_from_dict validate (JObj d))"
  unfolding RoomHistoryVisibilityEvent_from_dict_def
  by (rule verify_ok)
    (auto simp: Schemas_room_history_visibility_def access_defs from_content_def Event_ok one_of_def
      simp del: fill.simps split: option.splits)

lemma RoomSpaceParentEvent_ok:
  "draft4 validate \<Longrightarrow> enveloped t d \<Longrightarrow> yields well_typed (RoomSpaceParentEvent_from_dict validate (JObj d))"
  unfolding RoomSpaceParentEvent_from_dict_def
  by (rule verify_ok)
    (auto simp: Schemas_room_space_parent_def access_defs Event_ok simp del: fill.simps split: option.splits)

lemma RoomSpaceChildEvent_ok:
  "draft4 validate \<Longrightarrow> enveloped t d \<Longrightarrow> yields well_typed (RoomSpaceChildEvent_from_dict validate (JObj d))"
  unfolding RoomSpaceChildEvent_from_dict_def
  by (rule verify_ok)
    (auto simp: Schemas_room_space_child_def access_defs Event_ok simp del: fill.simps split: option.splits)

lemma is_int_iff: "is_int v \<longleftrightarrow> (\<exists>i. v = JInt i)"
  by (cases v) simp_all

lemma PowerLevelsEvent_ok:
  assumes "draft4 validate" "enveloped t d"
  shows "yields well_typed (PowerLevelsEvent_from_dict validate (JObj d))"
  unfolding PowerLevelsEvent_from_dict_def
proof (rule verify_ok[OF assms(1) _ _ assms(2)])
  fix e
  assume e: "enveloped t e" "fill Schemas_room_power_levels (JObj d) = JObj e"
    and c: "conforms Schemas_room_power_levels (JObj e)"
  then obtain c where content: "dget e ''content'' = Some (JObj c)"
    by (auto simp: Schemas_room_power_levels_def simp del: fill.simps split: option.splits)
  show "yields well_typed (rbind (item (JObj e) ''content'') (\<lambda>c.
     rbind (item c ''ban'') (\<lambda>ban.
     rbind (item c ''invite'') (\<lambda>invite.
     rbind (item c ''kick'') (\<lambda>kick.
     rbind (item c ''redact'') (\<lambda>redact.
     rbind (item c ''state_default'') (\<lambda>state_default.
     rbind (item c ''events_default'') (\<lambda>events_default.
     rbind (item c ''users_default'') (\<lambda>users_default.
     rbind (item c ''notifications'') (\<lambda>notifications.
     rbind (get_or c ''users'' (JObj [])) (\<lambda>users.
     rbind (get_or c ''events'' (JObj [])) (\<lambda>events.
     Event (JObj e) (PowerLevelsEvent ban invite kick redact state_default events_default users_default
                notifications users events)))))))))))))"
    using e(1) c content power_level_defaults[OF e(2) content]
    by (auto simp: Schemas_room_power_levels_def access_defs levels_of_def list_all_iff is_int_iff
        intro!: Event_ok)
qed (simp_all add: Schemas_room_power_levels_def)

section \<open>Messages\<close>

lemma RoomMessageMedia_ok:
  "draft4 validate \<Longrightarrow> enveloped t d \<Longrightarrow> dget d ''content'' \<noteq> None \<Longrightarrow>
   yields well_typed (RoomMessageMedia_from_dict validate m (JObj d))"
  unfolding RoomMessageMedia_from_dict_def
  by (rule verify_plain)
    (auto simp: Schemas_room_message_media_def access_defs Event_ok split: option.splits)

lemma RoomMessageFormatted_ok:
  assumes "draft4 validate" "enveloped t d" "dget d ''content'' \<noteq> None"
    and "s \<in> {Schemas_room_message_text, Schemas_room_message_emote, Schemas_room_message_notice}"
    and "\<And>x y z. is_str x \<Longrightarrow> opt_str y \<Longrightarrow> opt_str z \<Longrightarrow> guaranteed (b x y z)"
  shows "yields well_typed (RoomMessageFormatted_from_dict validate s b (JObj d))"
  unfolding RoomMessageFormatted_from_dict_def
proof (rule verify_plain[OF assms(1) _ _ assms(2)])
  assume c: "conforms s (JObj d)"
  then obtain c x where content: "dget d ''content'' = Some (JObj c)" "dget c ''body'' = Some (JStr x)"
    "\<forall>y. dget c ''format'' = Some y \<longrightarrow> (\<exists>z. y = JStr z)"
    "\<forall>y. dget c ''formatted_body'' = Some y \<longrightarrow> (\<exists>z. y = JStr z)"
    using assms(3,4)
    by (auto simp: Schemas_room_message_text_def Schemas_room_message_emote_def
        Schemas_room_message_notice_def split: option.splits)
  with assms(2,5) show "yields well_typed (rbind (item (JObj d) ''content'') (\<lambda>c.
     rbind (item c ''body'') (\<lambda>body.
     rbind (get_or c ''format'' JNull) (\<lambda>fmt.
     rbind (if truthy fmt then get_or c ''formatted_body'' JNull else Inr JNull) (\<lambda>formatted.
     Event (JObj d) (b body formatted fmt))))))"
    by (auto simp: access_defs split: option.splits intro!: Event_ok)
qed (use assms(4) in auto)

lemma RoomEncryptedMedia_ok:
  assumes "draft4 validate" "enveloped t d"
  shows "yields well_typed (RoomEncryptedMedia_from_dict validate m (JObj d))"
  unfolding RoomEncryptedMedia_from_dict_def
proof (rule verify_plain[OF assms(1) _ _ assms(2)])
  assume conf: "conforms Schemas_room_encrypted_media (JObj d)"
  then obtain c f where c: "dget d ''content'' = Some (JObj c)" "dget c ''file'' = Some (JObj f)"
    by (auto simp: Schemas_room_encrypted_media_def split: option.splits)
  have info: "\<exists>i. x = JObj i \<and> (\<forall>t. dget i ''thumbnail_file'' = Some t \<longrightarrow>
      (\<exists>u a b k h. t = JObj u \<and> dget u ''url'' = Some (JStr a) \<and> dget u ''iv'' = Some (JStr b) \<and>
         dget u ''key'' = Some (JObj k) \<and> dget u ''hashes'' = Some (JObj h)))"
    if "dget c ''info'' = Some x" for x
    using conf c that by (auto simp: Schemas_room_encrypted_media_def)
  obtain i where i: "get_or (JObj c) ''info'' (JObj []) = Inr (JObj i)"
    and thumb: "\<And>t. dget i ''thumbnail_file'' = Some t \<Longrightarrow>
      \<exists>u a b k h. t = JObj u \<and> dget u ''url'' = Some (JStr a) \<and> dget u ''iv'' = Some (JStr b) \<and>
         dget u ''key'' = Some (JObj k) \<and> dget u ''hashes'' = Some (JObj h)"
  proof (cases "dget c ''info''")
    case None
    with that[of "[]"] show thesis by (simp add: get_or_def)
  next
    case (Some x)
    with info[of x] that show thesis by (auto simp: get_or_def)
  qed
  obtain t t_url t_iv t_key t_hashes where
    t: "get_or (JObj i) ''thumbnail_file'' (JObj []) = Inr (JObj t)" and th:
    "get_or (JObj t) ''url'' JNull = Inr t_url" "opt_str t_url"
    "get_or (JObj t) ''iv'' JNull = Inr t_iv" "opt_str t_iv"
    "get_or (JObj t) ''key'' JNull = Inr t_key" "opt_dict t_key"
    "get_or (JObj t) ''hashes'' JNull = Inr t_hashes" "opt_dict t_hashes"
  proof (cases "dget i ''thumbnail_file''")
    case None
    with that[of "[]"] show thesis by (simp add: get_or_def)
  next
    case (Some x)
    with thumb[of x] that show thesis by (auto simp: get_or_def)
  qed
  have parts: "item (JObj d) ''content'' = Inr (JObj c)" "item (JObj c) ''file'' = Inr (JObj f)"
    using c by (simp_all add: item_def)
  from conf c obtain url body iv key hashes where v:
    "item (JObj f) ''url'' = Inr (JStr url)" "item (JObj c) ''body'' = Inr (JStr body)"
    "item (JObj f) ''iv'' = Inr (JStr iv)" "item (JObj f) ''key'' = Inr (JObj key)"
    "item (JObj f) ''hashes'' = Inr (JObj hashes)"
    by (auto simp: Schemas_room_encrypted_media_def item_def)
  obtain mime where mime: "get_or (JObj i) ''mimetype'' JNull = Inr mime" by (simp add: get_or_def)
  obtain own where own: "get_or (JObj f) ''mimetype'' JNull = Inr own" by (simp add: get_or_def)
  show "yields well_typed (rbind (item (JObj d) ''content'') (\<lambda>c.
     rbind (get_or c ''info'' (JObj [])) (\<lambda>info.
     rbind (get_or info ''thumbnail_file'' (JObj [])) (\<lambda>thumb.
     rbind (get_or thumb ''url'' JNull) (\<lambda>t_url.
     rbind (get_or thumb ''key'' JNull) (\<lambda>t_key.
     rbind (get_or thumb ''hashes'' JNull) (\<lambda>t_hashes.
     rbind (get_or thumb ''iv'' JNull) (\<lambda>t_iv.
     rbind (get_or info ''mimetype'' JNull) (\<lambda>mime.
     rbind (if truthy mime then Inr mime
            else rbind (item c ''file'') (\<lambda>f. get_or f ''mimetype'' JNull)) (\<lambda>mimetype.
     rbind (item c ''file'') (\<lambda>f.
     rbind (item f ''url'') (\<lambda>url.
     rbind (item c ''body'') (\<lambda>body.
     rbind (item f ''key'') (\<lambda>key.
     rbind (item f ''hashes'') (\<lambda>hashes.
     rbind (item f ''iv'') (\<lambda>iv.
     Event (JObj d) (RoomEncryptedMedia m url body key hashes iv mimetype t_url t_key t_hashes t_iv)))))))))))))))))"
    using assms(2) th by (simp add: parts i t v mime own Event_ok)
qed simp_all

lemma RoomMessageUnknown_ok:
  "enveloped t d \<Longrightarrow> dget d ''content'' = Some (JObj c) \<Longrightarrow> dget c ''msgtype'' = Some (JStr m) \<Longrightarrow>
   yields well_typed (RoomMessageUnknown_from_dict (JObj d))"
  by (simp add: RoomMessageUnknown_from_dict_def access_defs Event_ok)

lemma message_of_type_ok:
  assumes "draft4 validate" "enveloped t d"
    and "dget d ''content'' = Some (JObj c)" "dget c ''msgtype'' = Some (JStr m)"
  shows "yields well_typed (message_of_type validate (JObj c) (JStr m) (JObj d))"
proof (cases "media_class_of m")
  case (Some k)
  with assms show ?thesis
    by (simp add: message_of_type_def contains_def RoomMessageMedia_ok RoomEncryptedMedia_ok)
next
  case None
  note formatted = RoomMessageFormatted_ok[OF assms(1,2)]
  have "yields well_typed (RoomMessageFormatted_from_dict validate Schemas_room_message_text RoomMessageText (JObj d))"
    "yields well_typed (RoomMessageFormatted_from_dict validate Schemas_room_message_emote RoomMessageEmote (JObj d))"
    "yields well_typed (RoomMessageFormatted_from_dict validate Schemas_room_message_notice RoomMessageNotice (JObj d))"
    by (rule formatted; simp add: assms(3))+
  with None RoomMessageUnknown_ok[OF assms(2-4)] show ?thesis by (simp add: message_of_type_def)
qed

lemma yields_transaction:
  "yields well_typed r \<Longrightarrow> opt_str x \<Longrightarrow>
   yields well_typed (rbind r (\<lambda>e. Inr (e \<lparr> e_transaction_id := x \<rparr>)))"
  by (cases r) (auto simp: yields_def well_typed_def)

lemma RoomMessage_parse_event_ok:
  assumes "draft4 validate" "enveloped t d" "dget d ''content'' \<noteq> None"
  shows "yields well_typed (RoomMessage_parse_event validate (JObj d))"
  unfolding RoomMessage_parse_event_def
proof (rule verify_plain[OF assms(1) _ _ assms(2)])
  assume "conforms Schemas_room_message (JObj d)"
  then obtain c m where c: "dget d ''content'' = Some (JObj c)" "dget c ''msgtype'' = Some (JStr m)"
    using assms(3) by (auto simp: Schemas_room_message_def split: option.splits)
  obtain x where x: "unsigned_transaction (JObj d) = Inr x" "opt_str x"
    using unsigned_transaction_ok[OF assms(2)] by blast
  note msg = message_of_type_ok[OF assms(1,2) c]
  then obtain e where "message_of_type validate (JObj c) (JStr m) (JObj d) = Inr e"
    by (cases "message_of_type validate (JObj c) (JStr m) (JObj d)") (simp_all add: yields_def)
  with msg c x show "yields well_typed (rbind (item (JObj d) ''content'') (\<lambda>c.
     rbind (item c ''msgtype'') (\<lambda>t.
     rbind (message_of_type validate c t (JObj d)) (\<lambda>e.
     rbind (contains ''unsigned'' (JObj d)) (\<lambda>b.
     if b then rbind (unsigned_transaction (JObj d)) (\<lambda>tx. Inr (e \<lparr> e_transaction_id := tx \<rparr>))
     else Inr e)))))"
    by (auto simp: access_defs yields_def well_typed_def)
qed simp_all

section \<open>Stickers, members and encrypted events\<close>

lemma StickerEvent_ok:
  "draft4 validate \<Longrightarrow> enveloped t d \<Longrightarrow> dget d ''content'' \<noteq> None \<Longrightarrow>
   yields well_typed (StickerEvent_from_dict validate (JObj d))"
  unfolding StickerEvent_from_dict_def
  by (rule verify_plain)
    (auto simp: Schemas_sticker_def access_defs Event_ok split: option.splits)

definition readable_prev :: "jobj \<Rightarrow> bool" where
  "readable_prev d =
     (case dget d ''unsigned'' of
        Some (JObj u) \<Rightarrow> (case dget u ''prev_content'' of Some x \<Rightarrow> truthy x \<longrightarrow> is_dict x | None \<Rightarrow> True)
      | _ \<Rightarrow> True)"

lemma prev_content_read:
  assumes "enveloped t d" "readable_prev d"
  obtains u p where "get_or (JObj d) ''unsigned'' (JObj []) = Inr (JObj u)"
    "get_or (JObj u) ''prev_content'' JNull = Inr p" "truthy p \<longrightarrow> is_dict p"
proof (cases "dget d ''unsigned''")
  case None
  with that[of "[]" JNull] show thesis by (simp add: get_or_def)
next
  case (Some x)
  with assms obtain u where u: "x = JObj u"
    by (auto simp: enveloped_def signed_def split: json.splits)
  with Some assms(2) that[of u "case dget u ''prev_content'' of None \<Rightarrow> JNull | Some y \<Rightarrow> y"]
  show thesis by (auto simp: get_or_def readable_prev_def split: option.splits)
qed

lemma RoomMemberEvent_ok:
  assumes "draft4 validate" "enveloped t d" "readable_prev d"
  shows "yields well_typed (RoomMemberEvent_from_dict validate (JObj d))"
  unfolding RoomMemberEvent_from_dict_def
proof (rule verify_plain[OF assms(1) _ _ assms(2)])
  assume "conforms Schemas_room_membership (JObj d)"
  then obtain c m k where c: "dget d ''content'' = Some (JObj c)" "dget c ''membership'' = Some m"
    "one_of memberships m" "dget d ''state_key'' = Some (JStr k)"
    by (auto simp: Schemas_room_membership_def one_of_def memberships_def split: option.splits)
  obtain u p where u: "get_or (JObj d) ''unsigned'' (JObj []) = Inr (JObj u)"
    "get_or (JObj u) ''prev_content'' JNull = Inr p" "truthy p \<longrightarrow> is_dict p"
    using prev_content_read[OF assms(2,3)] .
  have item: "get_or (JObj d) ''content'' (JObj []) = Inr (JObj c)" "item (JObj c) ''membership'' = Inr m"
    "item (JObj d) ''state_key'' = Inr (JStr k)"
    using c by (simp_all add: access_defs)
  obtain q where q: "(if truthy p then get_or p ''membership'' JNull else Inr JNull) = Inr q"
    using u(3) by (cases "truthy p") (auto simp: is_dict_iff get_or_def)
  show "yields well_typed (rbind (get_or (JObj d) ''content'' (JObj [])) (\<lambda>c.
     rbind (get_or (JObj d) ''unsigned'' (JObj [])) (\<lambda>u.
     rbind (get_or u ''prev_content'' JNull) (\<lambda>prev.
     rbind (item c ''membership'') (\<lambda>membership.
     rbind (if truthy prev then get_or prev ''membership'' JNull else Inr JNull) (\<lambda>prev_membership.
     rbind (item (JObj d) ''state_key'') (\<lambda>k.
     Event (JObj d) (RoomMemberEvent k membership prev_membership c prev))))))))"
    using c(3) assms(2) by (simp add: item u(1,2) q Event_ok)
qed simp_all

lemma parse_encrypted_event_ok:
  assumes "draft4 validate" "enveloped t d"
  shows "yields well_typed (parse_encrypted_event validate (JObj d))"
  unfolding parse_encrypted_event_def
  by (rule verify_plain[OF assms(1) _ _ assms(2)])
    (use assms in \<open>auto simp: Schemas_room_encrypted_def UnknownEncryptedEvent_from_dict_def access_defs
       enveloped_type Event_ok MegolmEvent_ok split: option.splits\<close>)

lemma CallEvent_parse_event_ok:
  "draft4 validate \<Longrightarrow> enveloped t d \<Longrightarrow> yields well_typed (CallEvent_parse_event validate (JObj d))"
  by (simp add: CallEvent_parse_event_def item_def enveloped_type CallCandidatesEvent_ok
      CallInviteEvent_ok CallAnswerEvent_ok CallHangupEvent_ok UnknownEvent_ok)

section \<open>Dispatch\<close>

text \<open>What the schemas leave open and the parsers rely on all the same.\<close>

definition readable :: "string \<Rightarrow> jobj \<Rightarrow> bool" where
  "readable t d =
     ((t = ''m.room.message'' \<or> t = ''m.sticker'' \<longrightarrow> dget d ''content'' \<noteq> None) \<and>
      (t = ''m.room.member'' \<longrightarrow> readable_prev d))"

lemma event_parsers_ok:
  "draft4 validate \<Longrightarrow> enveloped t d \<Longrightarrow> readable t d \<Longrightarrow> dget (event_parsers validate) t = Some p \<Longrightarrow>
   yields well_typed (p (JObj d))"
  by (auto simp: event_parsers_def readable_def RoomMessage_parse_event_ok RoomCreateEvent_ok
      RoomGuestAccessEvent_ok RoomJoinRulesEvent_ok RoomHistoryVisibilityEvent_ok RoomMemberEvent_ok
      RoomAliasEvent_ok RoomNameEvent_ok RoomTopicEvent_ok RoomAvatarEvent_ok PowerLevelsEvent_ok
      RoomEncryptionEvent_ok RedactionEvent_ok RoomUpgradeEvent_ok RoomSpaceParentEvent_ok
      RoomSpaceChildEvent_ok parse_encrypted_event_ok StickerEvent_ok ReactionEvent_ok
      split: if_splits)

lemma parse_by_type_ok:
  assumes "draft4 validate" "enveloped t d" "readable t d"
  shows "yields well_typed (parse_by_type validate (JObj d))"
  using assms event_parsers_ok[OF assms]
  by (auto simp: parse_by_type_def item_def enveloped_type CallEvent_parse_event_ok UnknownEvent_ok
      split: option.splits)

end
