(* ===== verification/Nio_Event_Claims.thy ===== *)
theory Nio_Event_Claims
  imports Nio_Events_Facts
begin

text \<open>
  The properties of the room event parsers: they are total on what a homeserver should send and
  type what they return, parsing a parsed event again gives the same event, and the inputs on
  which the schemas let an exception through.
\<close>

section \<open>Totality and types\<close>

lemma is_redacted_ok: "enveloped t d \<Longrightarrow> \<exists>b. is_redacted (JObj d) = Inr b"
  by (auto simp: enveloped_def signed_def is_redacted_def contains_def item_def split: option.splits json.splits)

text \<open>
  The inputs the client can be given: a dictionary whose timestamp, if there is one, is a
  number, and which is readable for its type.
\<close>

definition has_number_time :: "jobj \<Rightarrow> bool" where
  "has_number_time d =
     (case dget d ''origin_server_ts'' of None \<Rightarrow> True | Some t \<Rightarrow> (\<exists>x. max_zero t = Inr x))"

lemma bad_event_dict: "has_number_time d \<Longrightarrow> yields well_typed (bad_event (JObj d))"
  by (auto simp: has_number_time_def bad_event_def BadEvent_from_dict_def item_def base_event_def yields_def
      well_typed_def split: option.splits)

lemma room_event_enveloped:
  "conforms Schemas_room_event (JObj d) \<Longrightarrow> \<exists>t. enveloped t d"
  by (auto simp: Schemas_room_event_def enveloped_def scalars_def signed_def split: option.splits)

lemma verify_first:
  assumes "draft4 validate" "tidy s" "no_defaults s" "has_number_time d"
    and "conforms s (JObj d) \<Longrightarrow> yields well_typed (f (JObj d))"
  shows "yields well_typed (verify validate s f (JObj d))"
proof -
  obtain ok w where w: "validate s (JObj d) = (ok, w)" by (cases "validate s (JObj d)")
  with assms(1-3) have "ok = conforms s (JObj d)" "w = JObj d"
    by (auto simp: draft4_def fill_nothing dest!: spec[of _ s] spec[of _ "JObj d"])
  with w assms(4,5) show ?thesis by (simp add: verify_def bad_event_dict)
qed

text \<open>C24: For every event dictionary with a numeric timestamp (or none) that is readable for its
  type, \<^verbatim>\<open>Event.parse_event\<close> returns an event, no exception escapes to the sync loop, and the
  fields of the event have the types its schema guarantees (\<open>guaranteed\<close>): those the class
  declares, except that the room of a Megolm event may be None, the version of a call an integer or a
  string, the mime type of an encrypted medium and the previous membership and content of a member
  event anything, and levels are integers only under user ids and event types (the notification levels are
  only known to be a dictionary). Of a bad event only the source is typed.\<close>

theorem parse_event_well_typed:
  assumes "draft4 validate" "has_number_time d" "\<And>t. dget d ''type'' = Some (JStr t) \<Longrightarrow> readable t d"
  shows "\<exists>e. parse_event validate (JObj d) = Inr e \<and> well_typed e"
proof -
  have "yields well_typed (parse_event validate (JObj d))"
    unfolding parse_event_def
  proof (rule verify_first[OF assms(1) _ _ assms(2)])
    assume "conforms Schemas_room_event (JObj d)"
    then obtain t where t: "enveloped t d" using room_event_enveloped by blast
    with assms(3) have "readable t d" by (simp add: enveloped_type)
    with t assms(1) is_redacted_ok[OF t] show "yields well_typed (rbind (is_redacted (JObj d)) (\<lambda>r.
        if r then RedactedEvent_from_dict validate (JObj d) else parse_by_type validate (JObj d)))"
      by (auto simp: RedactedEvent_ok parse_by_type_ok)
  qed simp_all
  then show ?thesis by (simp add: yields_def split: sum.splits)
qed

theorem parse_event_well_typed_witness:
  "\<exists>e. parse_event plain_validator
     (JObj [(''event_id'', JStr ''$1''), (''sender'', JStr ''@a:b''), (''origin_server_ts'', JInt 5),
            (''type'', JStr ''m.room.message''), (''content'', JObj [(''msgtype'', JStr ''m.text''), (''body'', JStr ''hi'')])])
     = Inr e \<and> well_typed e"
  by (rule parse_event_well_typed[OF plain_validator_draft4])
    (simp_all add: has_number_time_def max_zero_def readable_def)

lemma parse_event_ok:
  assumes "draft4 validate" "enveloped t d" "readable t d"
  shows "yields well_typed (parse_event validate (JObj d))"
  unfolding parse_event_def
proof (rule verify_plain[OF assms(1) _ _ assms(2)])
  show "yields well_typed (rbind (is_redacted (JObj d)) (\<lambda>r.
      if r then RedactedEvent_from_dict validate (JObj d) else parse_by_type validate (JObj d)))"
    using assms is_redacted_ok[OF assms(2)] by (auto simp: RedactedEvent_ok parse_by_type_ok)
qed simp_all

lemma parse_decrypted_event_ok:
  assumes "draft4 validate" "enveloped t d" "readable_prev d"
  shows "yields well_typed (parse_decrypted_event validate (JObj d))"
  unfolding parse_decrypted_event_def
proof (rule verify_plain[OF assms(1) _ _ assms(2)])
  assume "conforms Schemas_room_megolm_decrypted (JObj d)"
  then have content: "dget d ''content'' \<noteq> None"
    by (simp add: Schemas_room_megolm_decrypted_def)
  with assms(3) have r: "readable t d" by (simp add: readable_def)
  have bad: "yields well_typed (bad_event (JObj d))"
    using assms(2) by (auto simp: enveloped_def intro: bad_event_scalars)
  show "yields well_typed (rbind (is_redacted (JObj d)) (\<lambda>r.
     if r then RedactedEvent_from_dict validate (JObj d)
     else rbind (item (JObj d) ''type'') (\<lambda>t.
       if t = JStr ''m.room.encrypted'' then bad_event (JObj d)
       else if t = JStr ''m.room.message'' then RoomMessage_parse_event validate (JObj d)
       else parse_event validate (JObj d))))"
    using assms is_redacted_ok[OF assms(2)] content r bad
    by (auto simp: RedactedEvent_ok item_def enveloped_type RoomMessage_parse_event_ok parse_event_ok)
qed simp_all

section \<open>Where the schemas are too weak\<close>

text \<open>
  Each of these dictionaries is what a homeserver could send, and each makes
  \<^verbatim>\<open>Event.parse_event\<close> raise, whatever validator of the documented behaviour is used.
\<close>

definition no_content_message :: jobj where
  "no_content_message = [(''event_id'', JStr ''$1''), (''sender'', JStr ''@a:b''), (''origin_server_ts'', JInt 5),
     (''type'', JStr ''m.room.message'')]"

definition text_time_event :: jobj where
  "text_time_event = [(''origin_server_ts'', JStr ''now'')]"

definition listed_prev_member :: jobj where
  "listed_prev_member = [(''event_id'', JStr ''$1''), (''sender'', JStr ''@a:b''), (''origin_server_ts'', JInt 5),
     (''type'', JStr ''m.room.member''), (''state_key'', JStr ''@a:b''),
     (''content'', JObj [(''membership'', JStr ''join'')]),
     (''unsigned'', JObj [(''prev_content'', JArr [JNull])])]"

lemma accepts_plain:
  "draft4 validate \<Longrightarrow> tidy s \<Longrightarrow> no_defaults s \<Longrightarrow>
   verify validate s f v = (if conforms s v then f v else bad_event v)"
  by (cases "validate s v") (auto simp: draft4_def verify_def fill_nothing dest!: spec[of _ s] spec[of _ v])

text \<open>The schemas leave three holes through which an exception escapes the event parser: a
  message without content, a timestamp that is not a number on an event that fails its schema,
  and a membership event whose previous content is not an object.\<close>

theorem parse_event_raises:
  assumes "draft4 validate"
  shows "parse_event validate (JObj no_content_message) = Inl (KeyError ''content'') \<and>
    parse_event validate (JObj text_time_event) = Inl (TypeError ''not comparable with int'') \<and>
    parse_event validate (JObj listed_prev_member) = Inl (AttributeError ''get'')"
  using assms
  by (simp_all add: parse_event_def accepts_plain no_content_message_def text_time_event_def
      listed_prev_member_def Schemas_room_event_def Schemas_room_message_def Schemas_room_membership_def
      format_ok_def check_user_id_def not_below_def is_redacted_def contains_def item_def parse_by_type_def
      event_parsers_def RoomMessage_parse_event_def RoomMemberEvent_from_dict_def get_or_def
      bad_event_def BadEvent_from_dict_def max_zero_def)

theorem parse_event_raises_witness:
  "parse_event plain_validator (JObj no_content_message) = Inl (KeyError ''content'') \<and>
   parse_event plain_validator (JObj text_time_event) = Inl (TypeError ''not comparable with int'') \<and>
   parse_event plain_validator (JObj listed_prev_member) = Inl (AttributeError ''get'')"
  by (rule parse_event_raises[OF plain_validator_draft4])

text \<open>What the schemas let through against the annotations of the classes: a Megolm event without a
  room, a call whose version is an integer, and a member event whose previous content is a list.\<close>

definition untyped_events :: "jobj list" where
  "untyped_events = map (\<lambda>(t, rest). [(''event_id'', JStr ''$1''), (''sender'', JStr ''@a:b''), (''origin_server_ts'', JInt 5),
       (''type'', JStr t)] @ rest)
     [(''m.room.encrypted'', [(''content'', JObj [(''algorithm'', JStr ''m.megolm.v1.aes-sha2''), (''ciphertext'', JStr ''c''),
         (''sender_key'', JStr ''k''), (''session_id'', JStr ''s''), (''device_id'', JStr ''d'')])]),
      (''m.call.hangup'', [(''content'', JObj [(''call_id'', JStr ''i''), (''version'', JInt 0)])]),
      (''m.room.member'', [(''state_key'', JStr ''@a:b''), (''content'', JObj [(''membership'', JStr ''join'')]),
         (''unsigned'', JObj [(''prev_content'', JArr [])])])]"

lemma annotations_not_enforced:
  "map (\<lambda>d. rbind (parse_event plain_validator (JObj d)) (\<lambda>e. Inr (e_body e))) untyped_events =
     [Inr (MegolmEvent (JStr ''d'') (JStr ''c'') (JStr ''m.megolm.v1.aes-sha2'') JNull),
      Inr (CallHangupEvent (JStr ''i'') (JInt 0)),
      Inr (RoomMemberEvent (JStr ''@a:b'') (JStr ''join'') JNull (JObj [(''membership'', JStr ''join'')]) (JArr []))]"
  by code_simp

section \<open>Parsing again\<close>

text \<open>A parser keeps the dictionary it is given as the source of its event.\<close>

definition sourced :: "(json \<Rightarrow> exn + event) \<Rightarrow> bool" where
  "sourced f = (\<forall>v e. f v = Inr e \<longrightarrow> e_source e = v)"

named_theorems sourced_rules

lemma Event_source: "Event v b = Inr e \<Longrightarrow> e_source e = v"
  by (auto simp: Event_def base_event_def rbind_Inr_iff)

lemma sourced_simple [sourced_rules]:
  "sourced (\<lambda>v. Event v (b v))" "sourced (\<lambda>v. Inl x)"
  by (auto simp: sourced_def dest: Event_source)

lemma sourced_rbind [sourced_rules]:
  "(\<And>x. sourced (\<lambda>v. f x v)) \<Longrightarrow> sourced (\<lambda>v. rbind (m v) (\<lambda>x. f x v))"
  by (auto simp: sourced_def rbind_Inr_iff)

lemma sourced_if [sourced_rules]:
  "sourced f \<Longrightarrow> sourced g \<Longrightarrow> sourced (\<lambda>v. if b v then f v else g v)"
  by (simp add: sourced_def)

lemma sourced_update [sourced_rules]:
  "sourced f \<Longrightarrow> sourced (\<lambda>v. rbind (f v) (\<lambda>e. Inr (e \<lparr> e_transaction_id := x v \<rparr>)))"
  "sourced f \<Longrightarrow> sourced (\<lambda>v. rbind (f v) (\<lambda>e. Inr (e \<lparr> e_sender_key := k v, e_session_id := i v, e_transaction_id := x v \<rparr>)))"
  by (auto simp: sourced_def rbind_Inr_iff)

lemma sourced_bad_event [sourced_rules]: "sourced bad_event"
  by (auto simp: sourced_def bad_event_def BadEvent_from_dict_def base_event_def rbind_Inr_iff
      split: sum.splits exn.splits)

lemma sourced_verify [sourced_rules]:
  "draft4 validate \<Longrightarrow> tidy s \<Longrightarrow> no_defaults s \<Longrightarrow> sourced f \<Longrightarrow> sourced (verify validate s f)"
  using sourced_bad_event by (simp add: sourced_def accepts_plain)

lemma sourced_plain:
  assumes "draft4 validate"
  shows "sourced (MegolmEvent_from_dict validate)"
    "sourced (CallCandidatesEvent_from_dict validate)"
    "sourced (CallInviteEvent_from_dict validate)"
    "sourced (CallAnswerEvent_from_dict validate)"
    "sourced (CallHangupEvent_from_dict validate)"
    "sourced (RedactedEvent_from_dict validate)"
    "sourced (RoomEncryptionEvent_from_dict validate)"
    "sourced (RoomAliasEvent_from_dict validate)"
    "sourced (RoomNameEvent_from_dict validate)"
    "sourced (RoomTopicEvent_from_dict validate)"
    "sourced (RoomAvatarEvent_from_dict validate)"
    "sourced (RedactionEvent_from_dict validate)"
    "sourced (ReactionEvent_from_dict validate)"
    "sourced (RoomUpgradeEvent_from_dict validate)"
    "sourced (StickerEvent_from_dict validate)"
    "sourced (RoomMemberEvent_from_dict validate)"
  unfolding MegolmEvent_from_dict_def CallCandidatesEvent_from_dict_def CallInviteEvent_from_dict_def CallAnswerEvent_from_dict_def CallHangupEvent_from_dict_def RedactedEvent_from_dict_def RoomEncryptionEvent_from_dict_def RoomAliasEvent_from_dict_def RoomNameEvent_from_dict_def RoomTopicEvent_from_dict_def RoomAvatarEvent_from_dict_def RedactionEvent_from_dict_def ReactionEvent_from_dict_def RoomUpgradeEvent_from_dict_def StickerEvent_from_dict_def RoomMemberEvent_from_dict_def
    from_content_def from_content_or_def
  by (intro sourced_rules assms schemas_tidy schemas_no_defaults)+

lemma sourced_unknown:
  "sourced UnknownEvent_from_dict" "sourced UnknownEncryptedEvent_from_dict" "sourced RoomMessageUnknown_from_dict"
  unfolding UnknownEvent_from_dict_def UnknownEncryptedEvent_from_dict_def RoomMessageUnknown_from_dict_def
  by (intro sourced_rules)+

lemma sourced_messages:
  assumes "draft4 validate"
  shows "sourced (RoomMessageMedia_from_dict validate m)" "sourced (RoomEncryptedMedia_from_dict validate m)"
    "sourced (RoomMessageFormatted_from_dict validate Schemas_room_message_text b)"
    "sourced (RoomMessageFormatted_from_dict validate Schemas_room_message_emote b)"
    "sourced (RoomMessageFormatted_from_dict validate Schemas_room_message_notice b)"
  unfolding RoomMessageMedia_from_dict_def RoomEncryptedMedia_from_dict_def RoomMessageFormatted_from_dict_def
  by (intro sourced_rules assms schemas_tidy schemas_no_defaults)+

lemma sourced_message_of_type:
  assumes "draft4 validate"
  shows "sourced (message_of_type validate c t)"
proof (cases t)
  case (JStr s)
  show ?thesis
  proof (cases "media_class_of s")
    case (Some m)
    then have "message_of_type validate c t =
        (\<lambda>v. rbind (contains ''file'' c) (\<lambda>encrypted.
          if encrypted then RoomEncryptedMedia_from_dict validate m v
          else RoomMessageMedia_from_dict validate m v))"
      by (simp add: fun_eq_iff message_of_type_def JStr)
    then show ?thesis by (simp only:) (intro sourced_rules sourced_messages assms)
  next
    case None
    then show ?thesis
      using sourced_messages(3-5)[OF assms] sourced_unknown(3)
      by (simp add: sourced_def message_of_type_def JStr)
  qed
qed (use sourced_unknown(3) in \<open>simp_all add: sourced_def message_of_type_def\<close>)

lemma sourced_dispatch:
  assumes "draft4 validate"
  shows "sourced (RoomMessage_parse_event validate)" "sourced (parse_encrypted_event validate)"
    "sourced (CallEvent_parse_event validate)"
proof -
  have m: "sourced (\<lambda>v. rbind (item v ''content'') (\<lambda>c.
     rbind (item c ''msgtype'') (\<lambda>t.
     rbind (message_of_type validate c t v) (\<lambda>e.
     rbind (contains ''unsigned'' v) (\<lambda>b.
     if b then rbind (unsigned_transaction v) (\<lambda>tx. Inr (e \<lparr> e_transaction_id := tx \<rparr>))
     else Inr e)))))"
    using sourced_message_of_type[OF assms] by (auto simp: sourced_def rbind_Inr_iff split: if_splits)
  show "sourced (RoomMessage_parse_event validate)"
    unfolding RoomMessage_parse_event_def by (rule sourced_verify[OF assms _ _ m]) simp_all
  show "sourced (parse_encrypted_event validate)" "sourced (CallEvent_parse_event validate)"
    unfolding parse_encrypted_event_def CallEvent_parse_event_def
    by (intro sourced_rules sourced_unknown sourced_plain assms schemas_tidy schemas_no_defaults)+
qed

text \<open>
  A parser is stable if it gives a well-formed event again for the source it leaves, which is
  the input with the defaults the schema declares.
\<close>

definition stable :: "(json \<Rightarrow> exn + event) \<Rightarrow> bool" where
  "stable f =
     (\<forall>d e. f (JObj d) = Inr e \<longrightarrow> \<not> is_bad (e_body e) \<longrightarrow>
        (\<exists>d'. e_source e = JObj d' \<and> f (JObj d') = Inr e \<and> grows (JObj d) (JObj d') \<and>
              dget d' ''unsigned'' = dget d ''unsigned''))"

lemma sourced_stable: "sourced f \<Longrightarrow> stable f"
  by (auto simp: sourced_def stable_def)

lemma bad_event_bad: "bad_event v = Inr e \<Longrightarrow> is_bad (e_body e)"
  by (auto simp: bad_event_def BadEvent_from_dict_def base_event_def rbind_Inr_iff split: sum.splits exn.splits)

lemma stable_verify:
  assumes "draft4 validate" "tidy s" "leaves ''unsigned'' s" "sourced f"
  shows "stable (verify validate s f)"
  unfolding stable_def
proof (intro allI impI)
  fix d e
  assume v: "verify validate s f (JObj d) = Inr e" and good: "\<not> is_bad (e_body e)"
  have ok: "fst (validate s (JObj d))"
  proof (rule ccontr)
    assume "\<not> fst (validate s (JObj d))"
    with v have "bad_event (snd (validate s (JObj d))) = Inr e"
      by (simp add: verify_def split: prod.splits)
    with good show False by (simp add: bad_event_bad)
  qed
  with v accepted(1)[OF assms(1,2) ok] have f: "f (fill s (JObj d)) = Inr e"
    by (simp add: verify_def split: prod.splits)
  obtain d' where d': "fill s (JObj d) = JObj d'" using fill_obj by blast
  from f assms(4) d' have "e_source e = JObj d'" by (simp add: sourced_def)
  moreover have "verify validate s f (JObj d') = Inr e"
    using accepted_again[OF assms(1,2) ok] f d' by (simp add: verify_def)
  moreover have "grows (JObj d) (JObj d')" using grows_fill[of "JObj d" s] d' by simp
  moreover have "dget d' ''unsigned'' = dget d ''unsigned''"
    using leaves_key[OF assms(2) _ d'] assms(3) by blast
  ultimately show "\<exists>d'. e_source e = JObj d' \<and> verify validate s f (JObj d') = Inr e \<and>
      grows (JObj d) (JObj d') \<and> dget d' ''unsigned'' = dget d ''unsigned''" by blast
qed

lemma schemas_leave_unsigned:
  "leaves ''unsigned'' Schemas_room_create" "leaves ''unsigned'' Schemas_room_guest_access"
  "leaves ''unsigned'' Schemas_room_join_rules" "leaves ''unsigned'' Schemas_room_history_visibility"
  "leaves ''unsigned'' Schemas_room_space_parent" "leaves ''unsigned'' Schemas_room_space_child"
  "leaves ''unsigned'' Schemas_room_power_levels"
  by (simp_all add: schema_defs)

lemma stable_defaults:
  assumes "draft4 validate"
  shows "stable (RoomCreateEvent_from_dict validate)" "stable (RoomGuestAccessEvent_from_dict validate)"
    "stable (RoomJoinRulesEvent_from_dict validate)" "stable (RoomHistoryVisibilityEvent_from_dict validate)"
    "stable (RoomSpaceParentEvent_from_dict validate)" "stable (RoomSpaceChildEvent_from_dict validate)"
    "stable (PowerLevelsEvent_from_dict validate)"
  unfolding RoomCreateEvent_from_dict_def RoomGuestAccessEvent_from_dict_def RoomJoinRulesEvent_from_dict_def
    RoomHistoryVisibilityEvent_from_dict_def RoomSpaceParentEvent_from_dict_def RoomSpaceChildEvent_from_dict_def
    PowerLevelsEvent_from_dict_def from_content_def
  by (intro stable_verify[OF assms] schemas_tidy schemas_leave_unsigned sourced_rules)+

lemma event_parsers_stable:
  assumes "draft4 validate" "dget (event_parsers validate) t = Some p"
  shows "stable p"
  using assms(2) stable_defaults[OF assms(1)]
    sourced_plain[OF assms(1), THEN sourced_stable] sourced_dispatch[OF assms(1), THEN sourced_stable]
  by (auto simp: event_parsers_def split: if_splits)

text \<open>The dictionary a stable parser leaves goes the same way through \<^verbatim>\<open>Event.parse_event\<close>.\<close>

lemma grown_string:
  "grows (JObj d) (JObj e) \<Longrightarrow> dget d k = Some (JStr x) \<Longrightarrow> dget e k = Some (JStr x)"
  unfolding grows_obj by force

lemma grown_int:
  "grows (JObj d) (JObj e) \<Longrightarrow> dget d k = Some (JInt x) \<Longrightarrow> dget e k = Some (JInt x)"
  unfolding grows_obj by force

lemma room_event_grown:
  assumes "conforms Schemas_room_event (JObj d)" "grows (JObj d) (JObj e)"
    and "dget e ''unsigned'' = dget d ''unsigned''"
  shows "conforms Schemas_room_event (JObj e)"
  using assms(1,3) grown_string[OF assms(2)] grown_int[OF assms(2)]
  by (auto simp: Schemas_room_event_def split: option.splits)

text \<open>C25: Parsing is a round trip through the source dictionary: an event that parsed (and is not a
  bad event) is parsed again, from the source it carries and to which the defaults of its schema
  were added, to exactly the same event.\<close>

theorem parse_event_again:
  assumes "draft4 validate" "parse_event validate (JObj d) = Inr e" "\<not> is_bad (e_body e)"
  shows "parse_event validate (e_source e) = Inr e"
proof -
  have conf: "conforms Schemas_room_event (JObj d)"
    using assms bad_event_bad by (auto simp: parse_event_def accepts_plain split: if_splits)
  then obtain t where t: "enveloped t d" using room_event_enveloped by blast
  obtain r where r: "is_redacted (JObj d) = Inr r" using is_redacted_ok[OF t] by blast
  have run: "parse_event validate (JObj d) =
      (if r then RedactedEvent_from_dict validate (JObj d) else parse_by_type validate (JObj d))"
    using assms(1) conf r by (simp add: parse_event_def accepts_plain)
  show ?thesis
  proof (cases "e_source e = JObj d")
    case True
    with assms(2) show ?thesis by simp
  next
    case False
    with run assms(2) sourced_plain(6)[OF assms(1)] have "\<not> r"
      by (auto simp: sourced_def)
    moreover obtain p where p: "dget (event_parsers validate) t = Some p"
      using False run assms(2) \<open>\<not> r\<close> sourced_dispatch(3)[OF assms(1)] sourced_unknown(1)
      by (cases "dget (event_parsers validate) t")
        (auto simp: parse_by_type_def item_def enveloped_type[OF t] sourced_def split: if_splits)
    ultimately have "p (JObj d) = Inr e"
      using run assms(2) by (simp add: parse_by_type_def item_def enveloped_type[OF t])
    with event_parsers_stable[OF assms(1) p] assms(3) obtain d' where d': "e_source e = JObj d'"
      "p (JObj d') = Inr e" "grows (JObj d) (JObj d')" "dget d' ''unsigned'' = dget d ''unsigned''"
      unfolding stable_def by blast
    have "is_redacted (JObj d') = is_redacted (JObj d)"
      by (simp add: is_redacted_def contains_def item_def d'(4))
    with d' p r \<open>\<not> r\<close> conf assms(1) room_event_grown[OF conf d'(3,4)]
      grown_string[OF d'(3) enveloped_type[OF t]]
    show ?thesis by (simp add: parse_event_def accepts_plain parse_by_type_def item_def)
  qed
qed

definition open_join_rules :: jobj where
  "open_join_rules = [(''event_id'', JStr ''$1''), (''sender'', JStr ''@a:b''), (''origin_server_ts'', JInt 5),
     (''type'', JStr ''m.room.join_rules''), (''state_key'', JStr []), (''content'', JObj [])]"

definition filled_join_rules :: event where
  "filled_join_rules =
     base_event
       (JObj [(''event_id'', JStr ''$1''), (''sender'', JStr ''@a:b''), (''origin_server_ts'', JInt 5),
          (''type'', JStr ''m.room.join_rules''), (''state_key'', JStr []),
          (''content'', JObj [(''join_rule'', JStr ''invite'')])])
       (JStr ''$1'') (JStr ''@a:b'') (JInt 5) (RoomJoinRulesEvent (JStr ''invite''))"

lemma open_join_rules_parsed:
  "parse_event plain_validator (JObj open_join_rules) = Inr filled_join_rules"
  by code_simp

theorem parse_event_again_witness:
  "parse_event plain_validator (e_source filled_join_rules) = Inr filled_join_rules"
  by (rule parse_event_again[OF plain_validator_draft4 open_join_rules_parsed])
    (simp add: filled_join_rules_def base_event_def)

end
