(* ===== verification/Nio_Other_Claims.thy ===== *)
theory Nio_Other_Claims
  imports Nio_Other_Events Nio_Event_Claims
begin

text \<open>
  The properties of the parsers of events that are not room events: which input they read
  without an exception, the types of what they return, and the holes of their schemas.
\<close>

section \<open>To-device events\<close>

definition dict_of :: "pattern \<Rightarrow> (json \<Rightarrow> bool) \<Rightarrow> json \<Rightarrow> bool" where
  "dict_of r p v =
     (case v of JObj d \<Rightarrow> list_all (\<lambda>e. re_search r (fst e) \<longrightarrow> p (snd e)) d | _ \<Rightarrow> False)"

text \<open>Weaker than the annotations of the source: the transaction of a \<^verbatim>\<open>KeyVerificationMac\<close>,
  which its schema requires but does not type, and that of an \<^verbatim>\<open>OlmEvent\<close>.\<close>

fun td_declared :: "to_device_body \<Rightarrow> bool" where
  "td_declared (UnknownToDeviceEvent t) = is_str t"
| "td_declared (RoomKeyRequest device i a r k n) = list_all is_str [device, i, a, r, k, n]"
| "td_declared (RoomKeyRequestCancellation device i) = (is_str device \<and> is_str i)"
| "td_declared (KeyVerificationStart i device m p h a x) =
     (list_all is_str [i, device, m] \<and> list_all (list_of is_str) [p, h, a, x])"
| "td_declared (KeyVerificationAccept i m p h a x) =
     (list_all is_str [i, m, p, h, a] \<and> list_of is_str x)"
| "td_declared (KeyVerificationKey i k) = (is_str i \<and> is_str k)"
| "td_declared (KeyVerificationMac i m k) = (dict_of Some_Text is_str m \<and> is_str k)"
| "td_declared (KeyVerificationCancel i k r) = list_all is_str [i, k, r]"
| "td_declared (OlmEvent k x t) = (is_str k \<and> is_dict x)"
| "td_declared (DummyEvent k d) = is_str d"
| "td_declared (RoomKeyEvent k r n a) = list_all is_str [r, n, a]"
| "td_declared (ForwardedRoomKeyEvent k r n a) = list_all is_str [r, n, a]"

definition td_typed :: "to_device_event \<Rightarrow> bool" where
  "td_typed e = (is_dict (td_source e) \<and> is_str (td_sender e) \<and> td_declared (td_body e))"

definition parses :: "('a \<Rightarrow> bool) \<Rightarrow> exn + 'a parsed \<Rightarrow> bool" where
  "parses p r = (case r of Inl _ \<Rightarrow> False | Inr Ignored \<Rightarrow> True | Inr (Bad b) \<Rightarrow> well_typed b | Inr (Parsed x) \<Rightarrow> p x)"

lemma parses_simps [simp]:
  "\<not> parses p (Inl e)" "parses p (Inr Ignored)" "parses p (Inr (Bad b)) = well_typed b"
  "parses p (Inr (Parsed x)) = p x"
  by (simp_all add: parses_def)

lemma verify_parsed_plain:
  assumes "draft4 validate" "tidy s" "no_defaults s" "has_number_time d"
    and "conforms s (JObj d) \<Longrightarrow> parses p (f (JObj d))"
  shows "parses p (verify_parsed validate s f (JObj d))"
proof -
  obtain ok w where w: "validate s (JObj d) = (ok, w)" by (cases "validate s (JObj d)")
  with assms(1-3) have "ok = conforms s (JObj d)" "w = JObj d"
    by (auto simp: draft4_def fill_nothing dest!: spec[of _ s] spec[of _ "JObj d"])
  with w assms(5) bad_event_dict[OF assms(4)] show ?thesis
    by (cases "bad_event (JObj d)") (auto simp: verify_parsed_def yields_def)
qed

lemma ToDeviceEvent_ok:
  "is_str s \<Longrightarrow> td_declared b \<Longrightarrow> parses td_typed (ToDeviceEvent (JObj d) s b)"
  by (simp add: ToDeviceEvent_def td_typed_def)

lemma RoomKeyRequest_ok:
  "draft4 validate \<Longrightarrow> has_number_time d \<Longrightarrow> parses td_typed (RoomKeyRequest_from_dict validate (JObj d))"
  unfolding RoomKeyRequest_from_dict_def
  by (rule verify_parsed_plain)
    (auto simp: Schemas_room_key_request_def item_def intro!: ToDeviceEvent_ok)

lemma RoomKeyRequestCancellation_ok:
  "draft4 validate \<Longrightarrow> has_number_time d \<Longrightarrow> parses td_typed (RoomKeyRequestCancellation_from_dict validate (JObj d))"
  unfolding RoomKeyRequestCancellation_from_dict_def
  by (rule verify_parsed_plain)
    (auto simp: Schemas_room_key_request_cancel_def item_def intro!: ToDeviceEvent_ok)

lemma KeyVerificationStart_ok:
  "draft4 validate \<Longrightarrow> has_number_time d \<Longrightarrow> parses td_typed (KeyVerificationStart_from_dict validate (JObj d))"
  unfolding KeyVerificationStart_from_dict_def
  by (rule verify_parsed_plain)
    (auto simp: Schemas_key_verification_start_def item_def is_str_iff intro!: ToDeviceEvent_ok)

lemma KeyVerificationAccept_ok:
  "draft4 validate \<Longrightarrow> has_number_time d \<Longrightarrow> parses td_typed (KeyVerificationAccept_from_dict validate (JObj d))"
  unfolding KeyVerificationAccept_from_dict_def
  by (rule verify_parsed_plain)
    (auto simp: Schemas_key_verification_accept_def item_def is_str_iff intro!: ToDeviceEvent_ok)

lemma KeyVerificationKey_ok:
  "draft4 validate \<Longrightarrow> has_number_time d \<Longrightarrow> parses td_typed (KeyVerificationKey_from_dict validate (JObj d))"
  unfolding KeyVerificationKey_from_dict_def
  by (rule verify_parsed_plain)
    (auto simp: Schemas_key_verification_key_def item_def intro!: ToDeviceEvent_ok)

lemma KeyVerificationMac_ok:
  "draft4 validate \<Longrightarrow> has_number_time d \<Longrightarrow> parses td_typed (KeyVerificationMac_from_dict validate (JObj d))"
  unfolding KeyVerificationMac_from_dict_def
  by (rule verify_parsed_plain)
    (auto simp: Schemas_key_verification_mac_def item_def dict_of_def list_all_iff is_str_iff intro!: ToDeviceEvent_ok)

lemma KeyVerificationCancel_ok:
  "draft4 validate \<Longrightarrow> has_number_time d \<Longrightarrow> parses td_typed (KeyVerificationCancel_from_dict validate (JObj d))"
  unfolding KeyVerificationCancel_from_dict_def
  by (rule verify_parsed_plain)
    (auto simp: Schemas_key_verification_cancel_def item_def intro!: ToDeviceEvent_ok)

lemma BaseRoomKeyRequest_ok:
  "draft4 validate \<Longrightarrow> has_number_time d \<Longrightarrow> parses td_typed (BaseRoomKeyRequest_parse_event validate (JObj d))"
  unfolding BaseRoomKeyRequest_parse_event_def
  by (rule verify_parsed_plain)
    (auto simp: Schemas_room_key_request_cancel_def item_def RoomKeyRequest_ok RoomKeyRequestCancellation_ok)

definition readable_unsigned :: "jobj \<Rightarrow> bool" where
  "readable_unsigned d = (case dget d ''unsigned'' of None \<Rightarrow> True | Some u \<Rightarrow> is_dict u)"

lemma OlmEvent_ok:
  assumes "draft4 validate" "has_number_time d" "readable_unsigned d" "dget d ''sender'' = Some (JStr s)"
  shows "parses td_typed (OlmEvent_from_dict validate (JObj d))"
  unfolding OlmEvent_from_dict_def
proof (rule verify_parsed_plain[OF assms(1) _ _ assms(2)])
  assume "conforms Schemas_room_olm_encrypted (JObj d)"
  then obtain c k x where c: "dget d ''content'' = Some (JObj c)" "dget c ''sender_key'' = Some (JStr k)"
    "dget c ''ciphertext'' = Some (JObj x)"
    by (auto simp: Schemas_room_olm_encrypted_def)
  from assms(3) obtain tx where "unsigned_transaction (JObj d) = Inr tx"
    by (auto simp: readable_unsigned_def unsigned_transaction_def contains_def item_def get_or_def is_dict_iff
        split: option.splits)
  with c assms(4) show "parses td_typed (rbind (item (JObj d) ''content'') (\<lambda>c.
     rbind (item c ''ciphertext'') (\<lambda>x.
     rbind (item c ''sender_key'') (\<lambda>k.
     rbind (unsigned_transaction (JObj d)) (\<lambda>tx.
     rbind (item (JObj d) ''sender'') (\<lambda>s.
     ToDeviceEvent (JObj d) s (OlmEvent k x tx)))))))"
    by (simp add: item_def ToDeviceEvent_ok)
qed simp_all

lemma to_device_encrypted_ok:
  assumes "draft4 validate" "has_number_time d" "readable_unsigned d" "dget d ''sender'' = Some (JStr s)"
  shows "parses td_typed (ToDeviceEvent_parse_encrypted_event validate (JObj d))"
  unfolding ToDeviceEvent_parse_encrypted_event_def
  by (rule verify_parsed_plain[OF assms(1) _ _ assms(2)])
    (auto simp: Schemas_room_encrypted_def item_def OlmEvent_ok[OF assms])

lemma to_device_parsers_ok:
  assumes "draft4 validate" "has_number_time d" "dget (to_device_parsers validate) t = Some p"
    and "t = ''m.room.encrypted'' \<Longrightarrow> readable_unsigned d \<and> dget d ''sender'' = Some (JStr s)"
  shows "parses td_typed (p (JObj d))"
  using assms
  by (auto simp: to_device_parsers_def BaseRoomKeyRequest_ok KeyVerificationStart_ok KeyVerificationAccept_ok
      KeyVerificationKey_ok KeyVerificationMac_ok KeyVerificationCancel_ok to_device_encrypted_ok split: if_splits)

text \<open>\<^verbatim>\<open>ToDeviceEvent.parse_event\<close> returns for every dictionary with a numeric timestamp or
  none (and, if it is encrypted, with an unsigned part that is an object or absent): it ignores
  the event, reports it as bad, or returns one whose fields have the types its class declares.\<close>

theorem to_device_well_typed:
  assumes "draft4 validate" "has_number_time d"
    and "dget d ''type'' = Some (JStr ''m.room.encrypted'') \<Longrightarrow> readable_unsigned d"
  shows "parses td_typed (ToDeviceEvent_parse_event validate (JObj d))"
  unfolding ToDeviceEvent_parse_event_def
proof (rule verify_parsed_plain[OF assms(1) _ _ assms(2)])
  assume "conforms Schemas_to_device (JObj d)"
  then obtain s t c where d: "dget d ''sender'' = Some (JStr s)" "dget d ''type'' = Some (JStr t)"
    "dget d ''content'' = Some (JObj c)"
    by (auto simp: Schemas_to_device_def)
  have "parses td_typed (p (JObj d))" if "dget (to_device_parsers validate) t = Some p" for p
    by (rule to_device_parsers_ok[OF assms(1,2) that, of s]) (use d assms(3) in simp)
  with d show "parses td_typed (rbind (item (JObj d) ''content'') (\<lambda>c.
     if \<not> truthy c then Inr Ignored
     else rbind (item (JObj d) ''type'') (\<lambda>t.
       case (case t of JStr s \<Rightarrow> dget (to_device_parsers validate) s | _ \<Rightarrow> None) of
         Some p \<Rightarrow> p (JObj d)
       | None \<Rightarrow> UnknownToDeviceEvent_from_dict (JObj d))))"
    by (auto simp: item_def UnknownToDeviceEvent_from_dict_def ToDeviceEvent_ok split: option.splits)
qed simp_all

theorem to_device_well_typed_witness:
  "parses td_typed (ToDeviceEvent_parse_event plain_validator
     (JObj [(''type'', JStr ''m.key.verification.key''), (''sender'', JStr ''@a:b''),
        (''content'', JObj [(''transaction_id'', JStr ''t''), (''key'', JStr ''k'')])]))"
  by (rule to_device_well_typed[OF plain_validator_draft4]) (simp_all add: has_number_time_def)

section \<open>Where the schemas are too weak\<close>

lemma search_none: "(\<And>t. set t \<subseteq> set s \<Longrightarrow> \<not> f t) \<Longrightarrow> \<not> search f s"
proof (induction s)
  case (Cons c s)
  have "\<not> f t" if "set t \<subseteq> set s" for t using Cons.prems that by auto
  with Cons show ?case by auto
qed simp

text \<open>The pattern is the one of text that is not base64.\<close>

lemma base64_not_matched:
  assumes "list_all base64_char s" "CHR ''='' \<notin> set s"
  shows "\<not> re_search Base64Regex s"
proof -
  have "\<not> search (follows ''='' (\<lambda>t. t \<noteq> [] \<and> hd t \<noteq> CHR ''='')) s"
  proof (rule search_none)
    fix t assume "set t \<subseteq> set s"
    with assms(2) show "\<not> follows ''='' (\<lambda>t. t \<noteq> [] \<and> hd t \<noteq> CHR ''='') t"
      by (cases t) (auto simp: follows_def)
  qed
  moreover have "\<not> search (\<lambda>t. t = ''==='') s"
  proof (rule search_none)
    fix t assume "set t \<subseteq> set s"
    with assms(2) show "t \<noteq> ''==='' " by auto
  qed
  moreover have "\<not> list_ex (\<lambda>c. \<not> base64_char c) s"
    using assms(1) by (simp add: list_ex_iff list_all_iff)
  ultimately show ?thesis by simp
qed

definition olm_message :: "string \<Rightarrow> json \<Rightarrow> jobj" where
  "olm_message key x =
     [(''type'', JStr ''m.room.encrypted''), (''sender'', JStr ''@a:b''),
      (''content'', JObj [(''algorithm'', JStr ''m.olm.v1.curve25519-aes-sha2''),
         (''sender_key'', JStr ''k''), (''ciphertext'', JObj [(key, x)])])]"

lemma accepts_parsed:
  "draft4 validate \<Longrightarrow> tidy s \<Longrightarrow> no_defaults s \<Longrightarrow>
   verify_parsed validate s f v =
     (if conforms s v then f v else rbind (bad_event v) (\<lambda>e. Inr (Bad e)))"
  by (cases "validate s v") (auto simp: draft4_def verify_parsed_def fill_nothing dest!: spec[of _ s] spec[of _ v])

text \<open>The ciphertext of an Olm message is not validated for the keys that matter: the schema's
  pattern matches text that is not base64, so under an unpadded base64 device key any JSON value
  at all is accepted and handed to the decryption.\<close>

theorem olm_ciphertext_unchecked:
  assumes "draft4 validate" "list_all base64_char key" "CHR ''='' \<notin> set key"
  shows "ToDeviceEvent_parse_event validate (JObj (olm_message key x)) =
    Inr (Parsed \<lparr> td_source = JObj (olm_message key x), td_sender = JStr ''@a:b'',
      td_body = OlmEvent (JStr ''k'') (JObj [(key, x)]) JNull \<rparr>)"
proof -
  have no: "\<not> re_search Base64Regex key" using base64_not_matched assms(2,3) by blast
  from assms(1) show ?thesis
    by (simp add: ToDeviceEvent_parse_event_def accepts_parsed Schemas_to_device_def olm_message_def
        format_ok_def check_user_id_def item_def to_device_parsers_def ToDeviceEvent_parse_encrypted_event_def
        Schemas_room_encrypted_def OlmEvent_from_dict_def Schemas_room_olm_encrypted_def no
        unsigned_transaction_def contains_def ToDeviceEvent_def del: re_search.simps)
qed

theorem olm_ciphertext_unchecked_witness:
  "ToDeviceEvent_parse_event plain_validator (JObj (olm_message ''abc'' JNull)) =
    Inr (Parsed \<lparr> td_source = JObj (olm_message ''abc'' JNull), td_sender = JStr ''@a:b'',
      td_body = OlmEvent (JStr ''k'') (JObj [(''abc'', JNull)]) JNull \<rparr>)"
  by (rule olm_ciphertext_unchecked[OF plain_validator_draft4])
    (simp_all add: base64_char_def ascii_between_def byte_of_def)

section \<open>Receipts\<close>

text \<open>The receipts an event carries: one for each user entry that has a timestamp.\<close>

definition receipt_in :: "jobj \<Rightarrow> receipt_json \<Rightarrow> bool" where
  "receipt_in c r =
     (\<exists>ev types rk users u. (ev, JObj types) \<in> set c \<and> (rk, JObj users) \<in> set types \<and>
        (rj_user_id r, JObj u) \<in> set users \<and> dget u ''ts'' = Some (rj_timestamp r) \<and>
        rj_event_id r = ev \<and> rj_type r = rk \<and> rj_thread_id r = jget u ''thread_id'')"

definition receipt_dicts :: "jobj \<Rightarrow> bool" where
  "receipt_dicts c = (\<forall>e \<in> set c. \<forall>types. snd e = JObj types \<longrightarrow> (\<forall>t \<in> set types. is_dict (snd t)))"

lemma rmap_set:
  "rmap f xs = Inr ys \<Longrightarrow> set ys = {y. \<exists>x \<in> set xs. f x = Inr y}"
  by (induction xs arbitrary: ys) (auto simp: rbind_Inr_iff)

lemma rmap_returns: "(\<And>x. x \<in> set xs \<Longrightarrow> \<exists>y. f x = Inr y) \<Longrightarrow> \<exists>ys. rmap f xs = Inr ys"
proof (induction xs)
  case (Cons a xs)
  obtain y where "f a = Inr y" using Cons.prems[of a] by auto
  moreover obtain ys where "rmap f xs = Inr ys" using Cons by auto
  ultimately show ?case by simp
qed simp

definition receipt_of :: "string \<Rightarrow> string \<Rightarrow> jobj \<Rightarrow> receipt_json \<Rightarrow> bool" where
  "receipt_of ev rk users r =
     (\<exists>u. (rj_user_id r, JObj u) \<in> set users \<and> dget u ''ts'' = Some (rj_timestamp r) \<and>
        rj_event_id r = ev \<and> rj_type r = rk \<and> rj_thread_id r = jget u ''thread_id'')"

lemma user_receipt_iff:
  "r \<in> set (user_receipt ev rk p) \<longleftrightarrow> receipt_of ev rk [p] r"
  by (cases p; cases r; cases "snd p") (auto simp: user_receipt_def receipt_of_def split: option.splits)

lemma items_Inr: "items v = Inr d \<longleftrightarrow> v = JObj d"
  by (cases v) (simp_all add: items_def)

lemma typed_receipts_iff:
  "typed_receipts ev p = Inr ys \<Longrightarrow> \<exists>users. snd p = JObj users \<and> (\<forall>r. r \<in> set ys \<longleftrightarrow> receipt_of ev (fst p) users r)"
  by (fastforce simp: typed_receipts_def rbind_Inr_iff items_Inr user_receipt_iff receipt_of_def)

lemma event_receipts_iff:
  assumes "event_receipts p = Inr ys"
  shows "\<exists>types. snd p = JObj types \<and>
     (\<forall>r. r \<in> set ys \<longleftrightarrow> (\<exists>rk users. (rk, JObj users) \<in> set types \<and> receipt_of (fst p) rk users r))"
proof -
  from assms obtain types rs where t: "snd p = JObj types" "rmap (typed_receipts (fst p)) types = Inr rs"
    "ys = concat rs"
    by (auto simp: event_receipts_def rbind_Inr_iff items_Inr)
  have all: "\<exists>zs. typed_receipts (fst p) q = Inr zs" if "q \<in> set types" for q
    using t(2) that by (induction types arbitrary: rs) (auto simp: rbind_Inr_iff)
  have "r \<in> set ys \<longleftrightarrow> (\<exists>rk users. (rk, JObj users) \<in> set types \<and> receipt_of (fst p) rk users r)" for r
  proof
    assume "r \<in> set ys"
    then obtain q zs where "q \<in> set types" "typed_receipts (fst p) q = Inr zs" "r \<in> set zs"
      unfolding t(3) set_concat rmap_set[OF t(2)] by blast
    with typed_receipts_iff show "\<exists>rk users. (rk, JObj users) \<in> set types \<and> receipt_of (fst p) rk users r"
      by (metis prod.collapse)
  next
    assume "\<exists>rk users. (rk, JObj users) \<in> set types \<and> receipt_of (fst p) rk users r"
    then obtain rk users where q: "(rk, JObj users) \<in> set types" "receipt_of (fst p) rk users r" by blast
    from all[OF q(1)] obtain zs where z: "typed_receipts (fst p) (rk, JObj users) = Inr zs" by blast
    with typed_receipts_iff[OF z] q(2) have "r \<in> set zs" by simp
    with q(1) z show "r \<in> set ys" unfolding t(3) set_concat rmap_set[OF t(2)] by blast
  qed
  with t(1) show ?thesis by blast
qed

text \<open>A receipt event is read completely: if its content conforms and every receipt type
  holds an object, the parser returns exactly the receipts that have a timestamp.\<close>

theorem receipts_complete:
  assumes "draft4 validate" "conforms Schemas_m_receipt (JObj d)" "dget d ''content'' = Some (JObj c)"
    and "receipt_dicts c"
  shows "\<exists>rs. ReceiptEvent_from_dict validate (JObj d) =
      Inr (Parsed \<lparr> ej_source = JObj [], ej_body = Receipts rs \<rparr>) \<and> set rs = {r. receipt_in c r}"
proof -
  from assms(2,3) have types: "\<exists>t. x = JObj t" if "(k, x) \<in> set c" for k x
    using that by (fastforce simp: Schemas_m_receipt_def)
  have one: "\<exists>rs. event_receipts p = Inr rs" if "p \<in> set c" for p
  proof -
    obtain k x where "p = (k, x)" by (cases p)
    with that types obtain t where p: "p = (k, JObj t)" by blast
    with that assms(4) have "\<forall>q \<in> set t. is_dict (snd q)" by (auto simp: receipt_dicts_def)
    then have "\<exists>rs. rmap (typed_receipts k) t = Inr rs"
      by (intro rmap_returns) (auto simp: typed_receipts_def items_def is_dict_iff)
    with p show ?thesis by (auto simp: event_receipts_def items_def)
  qed
  then obtain rs where rs: "rmap event_receipts c = Inr rs" using rmap_returns by blast
  have "ReceiptEvent_from_dict validate (JObj d) =
      Inr (Parsed \<lparr> ej_source = JObj [], ej_body = Receipts (concat rs) \<rparr>)"
    using assms(1-3) rs
    by (cases "validate Schemas_m_receipt (JObj d)")
      (auto simp: ReceiptEvent_from_dict_def verify_or_none_def draft4_def fill_nothing item_def items_def
        dest!: spec[of _ Schemas_m_receipt] spec[of _ "JObj d"])
  moreover have "set (concat rs) = {r. receipt_in c r}"
  proof (intro set_eqI iffI)
    fix r assume "r \<in> set (concat rs)"
    then obtain q zs where q: "q \<in> set c" "event_receipts q = Inr zs" "r \<in> set zs"
      unfolding set_concat rmap_set[OF rs] by blast
    obtain types rk users where t: "snd q = JObj types" "(rk, JObj users) \<in> set types"
      "receipt_of (fst q) rk users r"
      using event_receipts_iff[OF q(2)] q(3) by blast
    from q(1) t(1) have "(fst q, JObj types) \<in> set c" by (metis prod.collapse)
    with t(2,3) show "r \<in> {r. receipt_in c r}"
      unfolding receipt_in_def receipt_of_def by blast
  next
    fix r assume "r \<in> {r. receipt_in c r}"
    then obtain ev types rk users where q: "(ev, JObj types) \<in> set c" "(rk, JObj users) \<in> set types"
      "receipt_of ev rk users r"
      unfolding receipt_in_def receipt_of_def by blast
    from one[OF q(1)] obtain zs where z: "event_receipts (ev, JObj types) = Inr zs" by blast
    with event_receipts_iff[OF z] q(2,3) have "r \<in> set zs" by auto
    with q(1) z show "r \<in> set (concat rs)" unfolding set_concat rmap_set[OF rs] by blast
  qed
  ultimately show ?thesis by blast
qed

definition two_receipts :: jobj where
  "two_receipts =
     [(''$1'', JObj [(''m.read'', JObj [(''@a:b'', JObj [(''ts'', JInt 7)]),
                                     (''@c:d'', JObj [(''ts'', JInt 8), (''thread_id'', JStr ''main'')])])])]"

theorem receipts_complete_witness:
  "\<exists>rs. ReceiptEvent_from_dict plain_validator
        (JObj [(''type'', JStr ''m.receipt''), (''content'', JObj two_receipts)]) =
      Inr (Parsed \<lparr> ej_source = JObj [], ej_body = Receipts rs \<rparr>) \<and> set rs = {r. receipt_in two_receipts r}"
  by (rule receipts_complete[OF plain_validator_draft4])
    (simp_all add: two_receipts_def Schemas_m_receipt_def Schemas_receipt_def receipt_dicts_def)

section \<open>Exceptions that escape\<close>

text \<open>Inputs the schemas accept and the parsers then stumble over.\<close>

definition odd_receipts :: jobj where
  "odd_receipts = [(''type'', JStr ''m.receipt''),
     (''content'', JObj [(''$1'', JObj [(''m.seen'', JStr ''x'')])])]"

definition null_unsigned_invite :: jobj where
  "null_unsigned_invite = [(''type'', JStr ''m.room.name''), (''content'', JObj []), (''unsigned'', JNull)]"

definition countless_rule :: jobj where
  "countless_rule = [(''rule_id'', JStr ''r''), (''default'', JBool False), (''enabled'', JBool True),
     (''actions'', JArr []), (''conditions'', JArr [JObj [(''kind'', JStr ''room_member_count'')]])]"

definition countless_rules :: jobj where
  "countless_rules = [(''type'', JStr ''m.push_rules''),
     (''content'', JObj [(''global'', JObj [(''override'', JArr [JObj countless_rule])])])]"

lemma accepts_or_none:
  "draft4 validate \<Longrightarrow> tidy s \<Longrightarrow> conforms s (fill s v) \<Longrightarrow> verify_or_none validate s f v = f (fill s v)"
  by (cases "validate s v") (auto simp: draft4_def verify_or_none_def dest!: spec[of _ s] spec[of _ v])

lemma accepts_plain_or_none:
  "draft4 validate \<Longrightarrow> tidy s \<Longrightarrow> no_defaults s \<Longrightarrow>
   verify_or_none validate s f v = (if conforms s v then f v else Inr Ignored)"
  by (cases "validate s v") (auto simp: draft4_def verify_or_none_def fill_nothing dest!: spec[of _ s] spec[of _ v])

text \<open>Three more inputs their schemas accept make a parser raise: a receipt of an unknown type
  that holds no object, an invite event whose unsigned part is null, and a push rule that counts
  room members without saying how many.\<close>

theorem other_parsers_raise:
  assumes "draft4 validate"
  shows "EphemeralEvent_parse_event validate (JObj odd_receipts) = Inl (AttributeError ''items'') \<and>
    InviteEvent_parse_event validate (JObj null_unsigned_invite) = Inl (TypeError ''not iterable'') \<and>
    AccountDataEvent_parse_event validate (JObj countless_rules) = Inl (KeyError ''is'')"
proof -
  have a: "EphemeralEvent_parse_event validate (JObj odd_receipts) = Inl (AttributeError ''items'')"
    using assms
    by (simp add: EphemeralEvent_parse_event_def accepts_plain_or_none odd_receipts_def
        Schemas_ephemeral_event_def item_def ReceiptEvent_from_dict_def Schemas_m_receipt_def
        Schemas_receipt_def items_def event_receipts_def typed_receipts_def)
  have b: "InviteEvent_parse_event validate (JObj null_unsigned_invite) = Inl (TypeError ''not iterable'')"
    using assms
    by (simp add: InviteEvent_parse_event_def accepts_parsed null_unsigned_invite_def
        Schemas_invite_event_def is_redacted_def contains_def item_def)
  have rule: "fill Schemas_push_rule (JObj countless_rule) = JObj countless_rule"
    "conforms Schemas_push_rule (JObj countless_rule)"
    by code_simp+
  have c: "AccountDataEvent_parse_event validate (JObj countless_rules) = Inl (KeyError ''is'')"
    using assms rule
    by (simp add: AccountDataEvent_parse_event_def accepts_parsed countless_rules_def Schemas_account_data_def
        item_def PushRulesEvent_from_dict_def Schemas_push_rules_def get_or_def PushRuleset_from_dict_def
        accepts_or_none accepts_plain_or_none Schemas_push_ruleset_def rule_kinds_def rules_of_kind_def
        rule_kind_name_def elements_def PushRule_from_dict_def countless_rule_def
        PushCondition_from_dict_def items_def PushRoomMemberCount_from_dict_def)
  from a b c show ?thesis by simp
qed

theorem other_parsers_raise_witness:
  "EphemeralEvent_parse_event plain_validator (JObj odd_receipts) = Inl (AttributeError ''items'') \<and>
   InviteEvent_parse_event plain_validator (JObj null_unsigned_invite) = Inl (TypeError ''not iterable'') \<and>
   AccountDataEvent_parse_event plain_validator (JObj countless_rules) = Inl (KeyError ''is'')"
  by (rule other_parsers_raise[OF plain_validator_draft4])

end
