(* ===== verification/Nio_Trust.thy ===== *)
theory Nio_Trust
  imports Nio_Device Nio_Url
begin

text \<open>
  Device trust kept in text files: \<^verbatim>\<open>KeyStore\<close> of \<^verbatim>\<open>src/nio/store/file_trustdb.py\<close> and the
  trust operations of \<^verbatim>\<open>DefaultStore\<close> in \<^verbatim>\<open>src/nio/store/database.py\<close>. A key store is its
  entries in memory and the text of its file; the atomic replacement of the file and the leases
  that guard it against other processes are not modelled. An operation on a device also sets
  the trust state of the device object it is given, so it works on the pair of both.
\<close>

section \<open>Lines and fields\<close>

text \<open>A file opened in text mode reads \<^verbatim>\<open>\r\n\<close> and \<^verbatim>\<open>\r\<close> as ends of lines too.\<close>

fun universal_newlines :: "string \<Rightarrow> string" where
  "universal_newlines [] = []"
| "universal_newlines (c # s) =
     (if c = CHR 0x0D then
        CHR 0x0A # (case s of d # t \<Rightarrow> if d = CHR 0x0A then universal_newlines t else universal_newlines s | [] \<Rightarrow> [])
      else c # universal_newlines s)"

definition file_lines :: "string \<Rightarrow> string list" where
  "file_lines text =
     (let ls = split_on (CHR 0x0A) (universal_newlines text) in if last ls = [] then butlast ls else ls)"

text \<open>The white space \<^verbatim>\<open>str.strip\<close> removes, in UTF-8.\<close>

definition white_space :: "string list" where
  "white_space =
     map (\<lambda>n::nat. [char_of n]) ([9..<14] @ [28..<33]) @
     map (\<lambda>n::nat. [CHR 0xC2, char_of n]) [0x85, 0xA0] @
     [[CHR 0xE1, CHR 0x9A, CHR 0x80], [CHR 0xE2, CHR 0x81, CHR 0x9F], [CHR 0xE3, CHR 0x80, CHR 0x80]] @
     map (\<lambda>n::nat. [CHR 0xE2, CHR 0x80, char_of n]) ([0x80..<0x8B] @ [0xA8, 0xA9, 0xAF])"

fun has_prefix :: "string \<Rightarrow> string \<Rightarrow> bool" where
  "has_prefix [] s = True"
| "has_prefix (c # p) [] = False"
| "has_prefix (c # p) (d # s) = (c = d \<and> has_prefix p s)"

function lstrip_of :: "string list \<Rightarrow> string \<Rightarrow> string" where
  "lstrip_of ws s =
     (case find (\<lambda>w. w \<noteq> [] \<and> has_prefix w s) ws of
        None \<Rightarrow> s
      | Some w \<Rightarrow> lstrip_of ws (drop (length w) s))"
  by pat_completeness auto

lemma has_prefix_length: "has_prefix p s \<Longrightarrow> length p \<le> length s"
  by (induction p s rule: has_prefix.induct) auto

termination lstrip_of
proof (relation "measure (length \<circ> snd)")
  fix ws s w
  assume "find (\<lambda>w. w \<noteq> [] \<and> has_prefix w s) ws = Some w"
  then have "w \<noteq> []" "has_prefix w s" by (auto simp: find_Some_iff)
  then show "((ws, drop (length w) s), (ws, s)) \<in> measure (length \<circ> snd)"
    using has_prefix_length[of w s] by (cases s) (auto simp: le_imp_diff_is_add)
qed simp

declare lstrip_of.simps [simp del]

definition strip :: "string \<Rightarrow> string" where
  "strip s = rev (lstrip_of (map rev white_space) (rev (lstrip_of white_space s)))"

section \<open>Keys and key stores\<close>

record ed25519_key =
  ek_user_id :: string
  ek_device_id :: string
  ek_key :: string

abbreviation key_type :: string where "key_type \<equiv> ''matrix-ed25519''"

definition Key_from_line :: "string \<Rightarrow> ed25519_key option" where
  "Key_from_line line =
     (let fields = split_on (CHR '' '') line in
      if length fields < 4 then None
      else if fields ! 2 = key_type then
        Some \<lparr> ek_user_id = strip (fields ! 0), ek_device_id = strip (fields ! 1), ek_key = strip (fields ! 3) \<rparr>
      else None)"

definition Key_to_line :: "ed25519_key \<Rightarrow> string" where
  "Key_to_line k = ek_user_id k @ '' '' @ ek_device_id k @ '' '' @ key_type @ '' '' @ ek_key k @ [CHR 0x0A]"

definition Key_from_olmdevice :: "olm_device \<Rightarrow> exn + ed25519_key" where
  "Key_from_olmdevice d =
     rbind (device_ed25519 d) (\<lambda>k.
     Inr \<lparr> ek_user_id = od_user_id d, ek_device_id = od_device_id d, ek_key = k \<rparr>)"

record key_store =
  ks_entries :: "ed25519_key list"
  ks_file :: "string option"

definition KeyStore_load :: "string option \<Rightarrow> ed25519_key list" where
  "KeyStore_load f =
     (case f of
        None \<Rightarrow> []
      | Some text \<Rightarrow>
          List.map_filter
            (\<lambda>l. let line = strip l in if line = [] \<or> hd line = CHR ''#'' then None else Key_from_line line)
            (file_lines text))"

definition KeyStore_init :: "string option \<Rightarrow> key_store" where
  "KeyStore_init f = \<lparr> ks_entries = KeyStore_load f, ks_file = f \<rparr>"

definition get_key :: "string \<Rightarrow> string \<Rightarrow> ed25519_key list \<Rightarrow> ed25519_key option" where
  "get_key user_id device_id es = find (\<lambda>e. user_id = ek_user_id e \<and> device_id = ek_device_id e) es"

definition KeyStore_save :: "key_store \<Rightarrow> key_store" where
  "KeyStore_save ks = ks \<lparr> ks_file := Some (concat (map Key_to_line (ks_entries ks))) \<rparr>"

definition add_without_save :: "ed25519_key \<Rightarrow> (key_store, bool) op" where
  "add_without_save key =
     bnd (reads (\<lambda>ks. get_key (ek_user_id key) (ek_device_id key) (ks_entries ks))) (\<lambda>existing.
     andthen (case existing of
         Some e \<Rightarrow> if ek_key e \<noteq> ek_key key then raise (OlmTrustError ''mismatching fingerprint'') else ret ()
       | None \<Rightarrow> ret ())
     (andthen (modify (\<lambda>ks. ks \<lparr> ks_entries := ks_entries ks @ [key] \<rparr>))
     (ret True)))"

definition KeyStore_add :: "ed25519_key \<Rightarrow> (key_store, bool) op" where
  "KeyStore_add key = bnd (add_without_save key) (\<lambda>b. andthen (modify KeyStore_save) (ret b))"

definition KeyStore_add_many :: "ed25519_key list \<Rightarrow> (key_store, unit) op" where
  "KeyStore_add_many keys =
     andthen (for_each (\<lambda>k. bnd (add_without_save k) (\<lambda>_. ret ())) keys) (modify KeyStore_save)"

definition KeyStore_remove :: "ed25519_key \<Rightarrow> (key_store, bool) op" where
  "KeyStore_remove key =
     bnd (reads (\<lambda>ks. key \<in> set (ks_entries ks))) (\<lambda>b.
     andthen (modify (\<lambda>ks. KeyStore_save (ks \<lparr> ks_entries := remove1 key (ks_entries ks) \<rparr>)))
     (ret b))"

definition KeyStore_remove_many :: "ed25519_key list \<Rightarrow> (key_store, unit) op" where
  "KeyStore_remove_many keys =
     andthen (for_each (\<lambda>k. modify (\<lambda>ks. ks \<lparr> ks_entries := remove1 k (ks_entries ks) \<rparr>)) keys)
       (modify KeyStore_save)"

section \<open>The trust operations of the default store\<close>

record default_store =
  ts_trust_db :: key_store
  ts_blacklist_db :: key_store
  ts_ignore_db :: key_store

text \<open>The state of an operation: the store and the device object it is called with.\<close>

type_synonym trust_op = "(default_store \<times> olm_device, bool) op"

definition on_trust_db :: "(key_store, 'a) op \<Rightarrow> (default_store \<times> olm_device, 'a) op" where
  "on_trust_db m s = (case m (ts_trust_db (fst s)) of (r, k) \<Rightarrow> (r, ((fst s) \<lparr> ts_trust_db := k \<rparr>, snd s)))"

definition on_blacklist_db :: "(key_store, 'a) op \<Rightarrow> (default_store \<times> olm_device, 'a) op" where
  "on_blacklist_db m s =
     (case m (ts_blacklist_db (fst s)) of (r, k) \<Rightarrow> (r, ((fst s) \<lparr> ts_blacklist_db := k \<rparr>, snd s)))"

definition on_ignore_db :: "(key_store, 'a) op \<Rightarrow> (default_store \<times> olm_device, 'a) op" where
  "on_ignore_db m s = (case m (ts_ignore_db (fst s)) of (r, k) \<Rightarrow> (r, ((fst s) \<lparr> ts_ignore_db := k \<rparr>, snd s)))"

definition with_key :: "(ed25519_key \<Rightarrow> (default_store \<times> olm_device, 'a) op) \<Rightarrow> (default_store \<times> olm_device, 'a) op" where
  "with_key f = bnd (\<lambda>s. lift_res (Key_from_olmdevice (snd s)) s) f"

definition set_trust_state :: "trust_state \<Rightarrow> (default_store \<times> olm_device, unit) op" where
  "set_trust_state t = modify (\<lambda>s. (fst s, (snd s) \<lparr> od_trust_state := t \<rparr>))"

definition DefaultStore_blacklist_device :: trust_op where
  "DefaultStore_blacklist_device = with_key (\<lambda>key.
     bnd (on_trust_db (KeyStore_remove key)) (\<lambda>_.
     bnd (on_ignore_db (KeyStore_remove key)) (\<lambda>_.
     andthen (set_trust_state trust_blacklisted)
     (on_blacklist_db (KeyStore_add key)))))"

definition DefaultStore_verify_device :: trust_op where
  "DefaultStore_verify_device = with_key (\<lambda>key.
     bnd (on_blacklist_db (KeyStore_remove key)) (\<lambda>_.
     bnd (on_ignore_db (KeyStore_remove key)) (\<lambda>_.
     andthen (set_trust_state trust_verified)
     (on_trust_db (KeyStore_add key)))))"

definition DefaultStore_ignore_device :: trust_op where
  "DefaultStore_ignore_device = with_key (\<lambda>key.
     bnd (on_blacklist_db (KeyStore_remove key)) (\<lambda>_.
     bnd (on_trust_db (KeyStore_remove key)) (\<lambda>_.
     andthen (set_trust_state trust_ignored)
     (on_ignore_db (KeyStore_add key)))))"

definition withdraw :: "(default_store \<times> olm_device, bool) op \<Rightarrow> trust_op" where
  "withdraw remove = bnd remove (\<lambda>b. if b then andthen (set_trust_state trust_unset) (ret True) else ret False)"

definition DefaultStore_unblacklist_device :: trust_op where
  "DefaultStore_unblacklist_device = with_key (\<lambda>key. withdraw (on_blacklist_db (KeyStore_remove key)))"

definition DefaultStore_unverify_device :: trust_op where
  "DefaultStore_unverify_device = with_key (\<lambda>key. withdraw (on_trust_db (KeyStore_remove key)))"

definition DefaultStore_unignore_device :: trust_op where
  "DefaultStore_unignore_device = with_key (\<lambda>key. withdraw (on_ignore_db (KeyStore_remove key)))"

definition stored_in :: "(default_store \<Rightarrow> key_store) \<Rightarrow> default_store \<Rightarrow> olm_device \<Rightarrow> exn + bool" where
  "stored_in f s d = rbind (Key_from_olmdevice d) (\<lambda>key. Inr (key \<in> set (ks_entries (f s))))"

definition DefaultStore_is_device_verified :: "default_store \<Rightarrow> olm_device \<Rightarrow> exn + bool" where
  "DefaultStore_is_device_verified = stored_in ts_trust_db"

definition DefaultStore_is_device_blacklisted :: "default_store \<Rightarrow> olm_device \<Rightarrow> exn + bool" where
  "DefaultStore_is_device_blacklisted = stored_in ts_blacklist_db"

definition DefaultStore_is_device_ignored :: "default_store \<Rightarrow> olm_device \<Rightarrow> exn + bool" where
  "DefaultStore_is_device_ignored = stored_in ts_ignore_db"

text \<open>\<^verbatim>\<open>ignore_devices\<close> is given a list of device objects.\<close>

definition DefaultStore_ignore_devices :: "(default_store \<times> olm_device list, unit) op" where
  "DefaultStore_ignore_devices s =
     (case rmap Key_from_olmdevice (snd s) of
        Inl e \<Rightarrow> (Inl e, s)
      | Inr keys \<Rightarrow>
          (let t = fst s;
               black = snd (KeyStore_remove_many keys (ts_blacklist_db t));
               trust = snd (KeyStore_remove_many keys (ts_trust_db t));
               u = t \<lparr> ts_blacklist_db := black, ts_trust_db := trust \<rparr> in
           case KeyStore_add_many keys (ts_ignore_db t) of
             (Inl e, k) \<Rightarrow> (Inl e, (u \<lparr> ts_ignore_db := k \<rparr>, snd s))
           | (Inr _, k) \<Rightarrow>
               (Inr (), (u \<lparr> ts_ignore_db := k \<rparr>, map (\<lambda>d. d \<lparr> od_trust_state := trust_ignored \<rparr>) (snd s)))))"

text \<open>The trust state a restarted store gives a device it loads from the database.\<close>

definition loaded_trust_state :: "default_store \<Rightarrow> olm_device \<Rightarrow> exn + trust_state" where
  "loaded_trust_state s d =
     rbind (Key_from_olmdevice d) (\<lambda>key. Inr
       (if key \<in> set (ks_entries (ts_trust_db s)) then trust_verified
        else if key \<in> set (ks_entries (ts_blacklist_db s)) then trust_blacklisted
        else if key \<in> set (ks_entries (ts_ignore_db s)) then trust_ignored
        else trust_unset))"

definition DefaultStore_load_device_keys :: "default_store \<Rightarrow> olm_device list \<Rightarrow> (device_store, unit) op" where
  "DefaultStore_load_device_keys s =
     for_each (\<lambda>d.
       bnd (lift_res (loaded_trust_state s d)) (\<lambda>t.
       bnd (store_add (d \<lparr> od_trust_state := t \<rparr>)) (\<lambda>_. ret ())))"

text \<open>Opening the store again from its files.\<close>

definition DefaultStore_reopen :: "default_store \<Rightarrow> default_store" where
  "DefaultStore_reopen s =
     \<lparr> ts_trust_db = KeyStore_init (ks_file (ts_trust_db s)),
       ts_blacklist_db = KeyStore_init (ks_file (ts_blacklist_db s)),
       ts_ignore_db = KeyStore_init (ks_file (ts_ignore_db s)) \<rparr>"

section \<open>What an operation leaves in the stores\<close>

lemma device_key_trust [simp]: "device_key k (d\<lparr>od_trust_state := t\<rparr>) = device_key k d"
  by (simp add: device_key_def)

lemma Key_from_olmdevice_trust [simp]: "Key_from_olmdevice (d\<lparr>od_trust_state := t\<rparr>) = Key_from_olmdevice d"
  by (simp add: Key_from_olmdevice_def)

lemma KeyStore_remove_run:
  "KeyStore_remove key ks =
     (Inr (key \<in> set (ks_entries ks)), KeyStore_save (ks\<lparr>ks_entries := remove1 key (ks_entries ks)\<rparr>))"
  by (simp add: KeyStore_remove_def op_basic)

lemma KeyStore_add_Inr:
  "KeyStore_add key ks = (Inr b, ks') \<Longrightarrow>
     b \<and> ks' = KeyStore_save (ks\<lparr>ks_entries := ks_entries ks @ [key]\<rparr>)"
  by (auto simp: KeyStore_add_def add_without_save_def op_basic split: option.splits if_splits)

lemma KeyStore_save_entries [simp]: "ks_entries (KeyStore_save ks) = ks_entries ks"
  by (simp add: KeyStore_save_def)

lemma in_remove1: "x \<in> set (remove1 x xs) \<longleftrightarrow> 1 < count_list xs x"
proof (induction xs)
  case (Cons y ys)
  have "x \<in> set ys \<longleftrightarrow> 0 < count_list ys x" using count_list_0_iff[of ys x] by auto
  with Cons show ?case by auto
qed simp

lemmas trust_ops =
  with_key_def on_trust_db_def on_blacklist_db_def on_ignore_db_def set_trust_state_def withdraw_def
  KeyStore_remove_run op_basic

lemma verify_device_run:
  assumes "Key_from_olmdevice d = Inr key" "DefaultStore_verify_device (s, d) = (Inr b, (s', d'))"
  shows "ks_entries (ts_trust_db s') = ks_entries (ts_trust_db s) @ [key] \<and>
    ks_entries (ts_blacklist_db s') = remove1 key (ks_entries (ts_blacklist_db s)) \<and>
    ks_entries (ts_ignore_db s') = remove1 key (ks_entries (ts_ignore_db s)) \<and>
    d' = d\<lparr>od_trust_state := trust_verified\<rparr>"
  using assms by (auto simp: DefaultStore_verify_device_def trust_ops dest!: KeyStore_add_Inr
      split: prod.splits sum.splits)

lemma blacklist_device_run:
  assumes "Key_from_olmdevice d = Inr key" "DefaultStore_blacklist_device (s, d) = (Inr b, (s', d'))"
  shows "ks_entries (ts_trust_db s') = remove1 key (ks_entries (ts_trust_db s)) \<and>
    ks_entries (ts_blacklist_db s') = ks_entries (ts_blacklist_db s) @ [key] \<and>
    ks_entries (ts_ignore_db s') = remove1 key (ks_entries (ts_ignore_db s)) \<and>
    d' = d\<lparr>od_trust_state := trust_blacklisted\<rparr>"
  using assms by (auto simp: DefaultStore_blacklist_device_def trust_ops dest!: KeyStore_add_Inr
      split: prod.splits sum.splits)

text \<open>Blacklisting a device takes its verification away exactly if it was recorded at most once.
  A device that was verified twice stays verified, and a store that is opened again loads it as
  verified, although the device object says blacklisted.\<close>

theorem blacklist_ends_verification_iff:
  assumes "Key_from_olmdevice d = Inr key" "DefaultStore_blacklist_device (s, d) = (Inr b, (s', d'))"
  shows "od_trust_state d' = trust_blacklisted \<and>
    DefaultStore_is_device_blacklisted s' d' = Inr True \<and>
    DefaultStore_is_device_verified s' d' = Inr (1 < count_list (ks_entries (ts_trust_db s)) key) \<and>
    loaded_trust_state s' d' =
      Inr (if 1 < count_list (ks_entries (ts_trust_db s)) key then trust_verified else trust_blacklisted)"
  using blacklist_device_run[OF assms] assms(1)
  by (simp add: DefaultStore_is_device_blacklisted_def DefaultStore_is_device_verified_def stored_in_def
      loaded_trust_state_def in_remove1)

definition new_default_store :: default_store where
  "new_default_store =
     \<lparr> ts_trust_db = KeyStore_init None, ts_blacklist_db = KeyStore_init None, ts_ignore_db = KeyStore_init None \<rparr>"

theorem blacklist_ends_verification_iff_witness:
  "\<exists>s d s' d'. snd (DefaultStore_verify_device (snd (DefaultStore_verify_device
        (new_default_store, OlmDevice ''@a:x'' ''DEV'' [(''ed25519'', ''k'')])))) = (s, d) \<and>
      snd (DefaultStore_blacklist_device (s, d)) = (s', d') \<and>
      od_trust_state d' = trust_blacklisted \<and> loaded_trust_state s' d' = Inr trust_verified"
proof -
  let ?d = "OlmDevice ''@a:x'' ''DEV'' [(''ed25519'', ''k'')]"
  let ?key = "\<lparr> ek_user_id = ''@a:x'', ek_device_id = ''DEV'', ek_key = ''k'' \<rparr>"
  let ?sd = "snd (DefaultStore_verify_device (snd (DefaultStore_verify_device (new_default_store, ?d))))"
  have key: "Key_from_olmdevice (snd ?sd) = Inr ?key" by code_simp
  have twice: "count_list (ks_entries (ts_trust_db (fst ?sd))) ?key = 2" by code_simp
  obtain s d where sd: "?sd = (s, d)" by (cases ?sd)
  have "fst (DefaultStore_blacklist_device (fst ?sd, snd ?sd)) = Inr True" by code_simp
  then obtain s' d' where run: "DefaultStore_blacklist_device (s, d) = (Inr True, (s', d'))"
    unfolding sd by (cases "DefaultStore_blacklist_device (s, d)") auto
  have "Key_from_olmdevice d = Inr ?key" using key unfolding sd by simp
  from blacklist_ends_verification_iff[OF this run] twice show ?thesis
    unfolding sd by (auto simp: run)
qed

section \<open>Reading a key store back\<close>

definition clean :: "string \<Rightarrow> bool" where
  "clean s = list_all (\<lambda>c. 33 \<le> byte_of c \<and> byte_of c < 127) s"

definition clean_key :: "ed25519_key \<Rightarrow> bool" where
  "clean_key k \<longleftrightarrow> clean (ek_user_id k) \<and> clean (ek_device_id k) \<and> clean (ek_key k) \<and>
     ek_user_id k \<noteq> [] \<and> ek_key k \<noteq> [] \<and> hd (ek_user_id k) \<noteq> CHR ''#''"

lemma white_space_bytes:
  "list_all (\<lambda>w. w \<noteq> [] \<and> \<not> (33 \<le> byte_of (hd w) \<and> byte_of (hd w) < 127)) white_space"
  "list_all (\<lambda>w. w \<noteq> [] \<and> \<not> (33 \<le> byte_of (hd w) \<and> byte_of (hd w) < 127)) (map rev white_space)"
  by (simp_all add: white_space_def upt_rec byte_of_def)

lemma lstrip_id:
  assumes "list_all (\<lambda>w. w \<noteq> [] \<and> \<not> (33 \<le> byte_of (hd w) \<and> byte_of (hd w) < 127)) ws"
    and "s \<noteq> [] \<Longrightarrow> 33 \<le> byte_of (hd s) \<and> byte_of (hd s) < 127"
  shows "lstrip_of ws s = s"
proof -
  have "\<not> has_prefix w s" if "w \<in> set ws" for w
  proof -
    have w: "w \<noteq> []" "\<not> (33 \<le> byte_of (hd w) \<and> byte_of (hd w) < 127)"
      using that assms(1) by (auto simp: list_all_iff)
    show ?thesis
    proof
      assume "has_prefix w s"
      with w(1) have "s \<noteq> []" "hd w = hd s" by (cases w; cases s; simp)+
      with w(2) assms(2) show False by simp
    qed
  qed
  then have "find (\<lambda>w. w \<noteq> [] \<and> has_prefix w s) ws = None" by (auto simp: find_None_iff)
  then show ?thesis by (simp add: lstrip_of.simps[of ws s])
qed

lemma strip_id:
  assumes "s \<noteq> [] \<Longrightarrow> 33 \<le> byte_of (hd s) \<and> byte_of (hd s) < 127"
    and "s \<noteq> [] \<Longrightarrow> 33 \<le> byte_of (last s) \<and> byte_of (last s) < 127"
  shows "strip s = s"
proof -
  have "lstrip_of white_space s = s" using white_space_bytes(1) assms(1) by (rule lstrip_id)
  moreover have "lstrip_of (map rev white_space) (rev s) = rev s"
    using white_space_bytes(2) by (rule lstrip_id) (use assms(2) in \<open>simp add: hd_rev\<close>)
  ultimately show ?thesis by (simp add: strip_def)
qed

lemma strip_clean: "clean s \<Longrightarrow> strip s = s"
  by (rule strip_id) (auto simp: clean_def list_all_iff)

lemma universal_newlines_id: "CHR 0x0D \<notin> set s \<Longrightarrow> universal_newlines s = s"
  by (induction s rule: universal_newlines.induct) auto

lemma clean_chars:
  assumes "clean s"
  shows "CHR '' '' \<notin> set s" "CHR 0x0A \<notin> set s" "CHR 0x0D \<notin> set s"
  using assms by (auto simp: clean_def list_all_iff byte_of_def)

lemma file_lines_concat:
  assumes "\<And>l. l \<in> set ls \<Longrightarrow> CHR 0x0A \<notin> set l \<and> CHR 0x0D \<notin> set l"
  shows "file_lines (concat (map (\<lambda>l. l @ [CHR 0x0A]) ls)) = ls"
proof -
  have "CHR 0x0D \<notin> set (concat (map (\<lambda>l. l @ [CHR 0x0A]) ls))" using assms by auto
  moreover have "split_on (CHR 0x0A) (concat (map (\<lambda>l. l @ [CHR 0x0A]) ls)) = ls @ [[]]"
    using assms by (induction ls) (auto simp: split_on_append)
  ultimately show ?thesis by (simp add: file_lines_def universal_newlines_id)
qed

definition key_line :: "ed25519_key \<Rightarrow> string" where
  "key_line k = ek_user_id k @ '' '' @ ek_device_id k @ '' '' @ key_type @ '' '' @ ek_key k"

lemma Key_to_line_key_line: "Key_to_line k = key_line k @ [CHR 0x0A]"
  by (simp add: Key_to_line_def key_line_def)

text \<open>The entry of a line is its first four fields, whatever follows them.\<close>

lemma Key_from_line_fields:
  assumes "clean_key k" "rest = [] \<or> hd rest = CHR '' ''"
  shows "Key_from_line (key_line k @ rest) = Some k"
proof -
  have c: "CHR '' '' \<notin> set (ek_user_id k)" "CHR '' '' \<notin> set (ek_device_id k)" "CHR '' '' \<notin> set (ek_key k)"
    using assms(1) by (auto simp: clean_key_def dest: clean_chars)
  have t: "CHR '' '' \<notin> set key_type" by simp
  obtain more where "split_on (CHR '' '') (ek_key k @ rest) = ek_key k # more"
    using assms(2) c(3) by (cases rest) (auto simp: split_on_append split_on_single)
  then have "split_on (CHR '' '') (key_line k @ rest) =
      ek_user_id k # ek_device_id k # key_type # ek_key k # more"
    using split_on_append[OF c(1)] split_on_append[OF c(2)] split_on_append[OF t]
    by (simp add: key_line_def)
  then show ?thesis using assms(1) by (simp add: Key_from_line_def strip_clean clean_key_def)
qed

lemma key_line_shape:
  assumes "clean_key k"
  shows "CHR 0x0A \<notin> set (key_line k)" "CHR 0x0D \<notin> set (key_line k)" "key_line k \<noteq> []"
    and "hd (key_line k) \<noteq> CHR ''#''" "strip (key_line k) = key_line k"
proof -
  have u: "clean (ek_user_id k)" "clean (ek_device_id k)" "clean (ek_key k)" "ek_user_id k \<noteq> []"
      "ek_key k \<noteq> []" "hd (ek_user_id k) \<noteq> CHR ''#''"
    using assms by (auto simp: clean_key_def)
  then show "CHR 0x0A \<notin> set (key_line k)" "CHR 0x0D \<notin> set (key_line k)" "key_line k \<noteq> []"
      "hd (key_line k) \<noteq> CHR ''#''"
    using u clean_chars by (auto simp: key_line_def)
  show "strip (key_line k) = key_line k"
    by (rule strip_id) (use u in \<open>auto simp: key_line_def clean_def list_all_iff\<close>)
qed

text \<open>What a key store saves is what it reads back when it is opened again, for entries of
  printable ASCII without spaces.\<close>

theorem trust_file_roundtrip:
  assumes "list_all clean_key (ks_entries ks)"
  shows "ks_entries (KeyStore_init (ks_file (KeyStore_save ks))) = ks_entries ks"
proof -
  let ?es = "ks_entries ks"
  have "concat (map Key_to_line es) = concat (map (\<lambda>l. l @ [CHR 0x0A]) (map key_line es))" for es
    by (induction es) (simp_all add: Key_to_line_key_line)
  then have "file_lines (concat (map Key_to_line ?es)) = file_lines (concat (map (\<lambda>l. l @ [CHR 0x0A]) (map key_line ?es)))"
    by (rule arg_cong)
  also have "\<dots> = map key_line ?es"
    by (rule file_lines_concat) (use assms key_line_shape(1,2) in \<open>auto simp: list_all_iff\<close>)
  finally have "file_lines (concat (map Key_to_line ?es)) = map key_line ?es" .
  moreover have "List.map_filter
      (\<lambda>l. let line = strip l in if line = [] \<or> hd line = CHR ''#'' then None else Key_from_line line)
      (map key_line es) = es" if "list_all clean_key es" for es
    using that
  proof (induction es)
    case (Cons k es)
    then show ?case
      using key_line_shape(3-5)[of k] Key_from_line_fields[of k "[]"] by (simp add: map_filter_simps)
  qed (simp add: map_filter_simps)
  ultimately show ?thesis
    using assms by (simp add: KeyStore_init_def KeyStore_save_def KeyStore_load_def)
qed

theorem trust_file_roundtrip_witness:
  "ks_entries (KeyStore_init (ks_file (KeyStore_save
     \<lparr> ks_entries = [\<lparr> ek_user_id = ''@a:x'', ek_device_id = ''DEV'', ek_key = ''k'' \<rparr>], ks_file = None \<rparr>))) =
   [\<lparr> ek_user_id = ''@a:x'', ek_device_id = ''DEV'', ek_key = ''k'' \<rparr>]"
  by (subst trust_file_roundtrip) (simp_all add: clean_key_def clean_def byte_of_def)

text \<open>A device id that holds a space and a line break, and in its second line another device's entry.\<close>

definition forged_id :: "ed25519_key \<Rightarrow> string" where
  "forged_id k = ''x y z'' @ [CHR 0x0A] @ key_line k"

text \<open>C33: Nothing escapes the separators of the file: verifying one device whose id holds
  another device's entry makes the reopened store trust that other device, and not the verified one.\<close>

theorem trust_file_injection:
  assumes "clean_key victim" "clean eve" "clean fp" "eve \<noteq> []" "fp \<noteq> []" "hd eve \<noteq> CHR ''#''"
    and "DefaultStore_verify_device
           (new_default_store, OlmDevice eve (forged_id victim) [(''ed25519'', fp)]) = (r, (s, d))"
  shows "ks_entries (ts_trust_db (DefaultStore_reopen s)) = [victim]"
proof -
  let ?evil = "\<lparr> ek_user_id = eve, ek_device_id = forged_id victim, ek_key = fp \<rparr>"
  let ?l = "key_line victim @ '' '' @ key_type @ '' '' @ fp"
  have saved: "ks_file (ts_trust_db s) = Some (Key_to_line ?evil)"
    using assms(7) by (auto simp: DefaultStore_verify_device_def new_default_store_def with_key_def Key_from_olmdevice_def
        device_key_def OlmDevice_def op_basic on_blacklist_db_def on_ignore_db_def on_trust_db_def
        KeyStore_remove_def KeyStore_add_def add_without_save_def KeyStore_init_def KeyStore_load_def
        KeyStore_save_def get_key_def set_trust_state_def)
  have two: "Key_to_line ?evil = concat (map (\<lambda>l. l @ [CHR 0x0A]) [eve @ '' x y z'', ?l])"
    by (simp add: Key_to_line_def forged_id_def)
  have lines: "file_lines (Key_to_line ?evil) = [eve @ '' x y z'', ?l]"
    unfolding two
    by (rule file_lines_concat)
      (use clean_chars[OF assms(2)] clean_chars[OF assms(3)] key_line_shape(1,2)[OF assms(1)] in auto)
  have first: "strip (eve @ '' x y z'') = eve @ '' x y z''"
    by (rule strip_id) (use assms(2,4) in \<open>auto simp: clean_def list_all_iff byte_of_def\<close>)
  have "split_on (CHR '' '') (eve @ '' x y z'') = [eve, ''x'', ''y'', ''z'']"
    using split_on_append[of "CHR '' ''" eve "''x y z''"] clean_chars(1)[OF assms(2)] by simp
  then have none: "Key_from_line (eve @ '' x y z'') = None" by (simp add: Key_from_line_def)
  have head: "hd ?l = hd (ek_user_id victim)" "hd ?l \<noteq> CHR ''#''"
    using assms(1) by (auto simp: key_line_def clean_key_def)
  have second: "strip ?l = ?l"
    by (rule strip_id) (use assms(1,3,5) head(1) in \<open>auto simp: clean_key_def clean_def list_all_iff\<close>)
  have "Key_from_line ?l = Some victim"
    by (rule Key_from_line_fields[OF assms(1)]) simp
  then show ?thesis
    using first second none head assms(4,6) by (simp add: DefaultStore_reopen_def KeyStore_init_def KeyStore_load_def
        saved lines map_filter_simps del: append.simps)
qed

theorem trust_file_injection_witness:
  "ks_entries (ts_trust_db (DefaultStore_reopen (fst (snd (DefaultStore_verify_device (new_default_store,
     OlmDevice ''@eve:x'' (forged_id \<lparr> ek_user_id = ''@bob:x'', ek_device_id = ''BOB'', ek_key = ''evil'' \<rparr>)
       [(''ed25519'', ''k'')])))))) =
   [\<lparr> ek_user_id = ''@bob:x'', ek_device_id = ''BOB'', ek_key = ''evil'' \<rparr>]"
  by (rule trust_file_injection[of _ "''@eve:x''" "''k''" "fst (DefaultStore_verify_device (new_default_store,
     OlmDevice ''@eve:x'' (forged_id \<lparr> ek_user_id = ''@bob:x'', ek_device_id = ''BOB'', ek_key = ''evil'' \<rparr>)
       [(''ed25519'', ''k'')]))" _ "snd (snd (DefaultStore_verify_device (new_default_store,
     OlmDevice ''@eve:x'' (forged_id \<lparr> ek_user_id = ''@bob:x'', ek_device_id = ''BOB'', ek_key = ''evil'' \<rparr>)
       [(''ed25519'', ''k'')])))"])
    (simp_all add: clean_key_def clean_def byte_of_def)

end
