(* ===== verification/Nio_Store.thy ===== *)
theory Nio_Store
  imports Nio_Device
begin

text \<open>
  The in-memory session stores of \<^verbatim>\<open>src/nio/crypto/memorystores.py\<close> and the Sqlite store of
  \<^verbatim>\<open>src/nio/store/database.py\<close>: a table is a dictionary from the columns of its uniqueness
  constraint to the rest of the row, in the order of the row ids. \<^verbatim>\<open>INSERT OR IGNORE\<close> keeps a
  present row, \<^verbatim>\<open>REPLACE\<close> deletes it and appends the new one. A session is pickled with the
  functions of vodozemac, which the model takes to restore the session they are given, so a
  row holds the session itself. The vodozemac objects are type variables: \<open>'a\<close> the account,
  \<open>'s\<close> a session between two devices, \<open>'g\<close> an inbound group session.
\<close>

section \<open>Sessions\<close>

record 's session =
  se_session :: 's
  se_creation_time :: int
  se_use_time :: int

record 'g group_session =
  gs_session :: 'g
  gs_ed25519 :: string
  gs_sender_key :: string
  gs_room_id :: string
  gs_forwarding_chain :: "string list"

record 'a olm_account =
  oa_account :: 'a
  oa_shared :: bool

record outgoing_key_request =
  okr_request_id :: string
  okr_session_id :: string
  okr_room_id :: "string option"
  okr_algorithm :: string

text \<open>
  Both stores are \<^verbatim>\<open>defaultdict\<close>s. Sessions are compared by identity, and every caller of \<^verbatim>\<open>add\<close>
  adds an object it has just made, which is therefore not in the store.
\<close>

type_synonym 's session_store = "(string, 's session list) dict"

definition SessionStore_add :: "string \<Rightarrow> 's session \<Rightarrow> 's session_store \<Rightarrow> 's session_store" where
  "SessionStore_add sender_key session st =
     dset st sender_key
       (sort_key (\<lambda>x. - se_use_time x) (dget_or st sender_key [] @ [session]))"

definition SessionStore_getitem :: "string \<Rightarrow> ('s session_store, 's session list) op" where
  "SessionStore_getitem sender_key st =
     (case dget st sender_key of
        Some ss \<Rightarrow> (Inr ss, st)
      | None \<Rightarrow> (Inr [], dset st sender_key []))"

definition SessionStore_get :: "string \<Rightarrow> ('s session_store, 's session option) op" where
  "SessionStore_get sender_key =
     bnd (SessionStore_getitem sender_key) (\<lambda>ss. ret (case ss of s # _ \<Rightarrow> Some s | [] \<Rightarrow> None))"

type_synonym 'g group_store = "(string, (string, (string, 'g group_session) dict) dict) dict"

definition sender_sessions :: "string \<Rightarrow> string \<Rightarrow> 'g group_store \<Rightarrow> (string, 'g group_session) dict" where
  "sender_sessions room_id sender_key st = dget_or (dget_or st room_id []) sender_key []"

definition set_sender_sessions ::
  "string \<Rightarrow> string \<Rightarrow> (string, 'g group_session) dict \<Rightarrow> 'g group_store \<Rightarrow> 'g group_store" where
  "set_sender_sessions room_id sender_key ss st =
     dset st room_id (dset (dget_or st room_id []) sender_key ss)"

definition GroupSessionStore_add ::
  "('g \<Rightarrow> string) \<Rightarrow> 'g group_session \<Rightarrow> 'g group_store \<Rightarrow> 'g group_store" where
  "GroupSessionStore_add session_id session st =
     (let r = gs_room_id session; k = gs_sender_key session in
      set_sender_sessions r k
        (dset (sender_sessions r k st) (session_id (gs_session session)) session) st)"

definition GroupSessionStore_get ::
  "string \<Rightarrow> string \<Rightarrow> string \<Rightarrow> ('g group_store, 'g group_session option) op" where
  "GroupSessionStore_get room_id sender_key session_id st =
     (let ss = sender_sessions room_id sender_key st in
      (Inr (dget ss session_id), set_sender_sessions room_id sender_key ss st))"

definition GroupSessionStore_iter :: "'g group_store \<Rightarrow> 'g group_session list" where
  "GroupSessionStore_iter st = concat (map (\<lambda>r. concat (map dvalues (dvalues r))) (dvalues st))"

definition group_session_at :: "'g group_store \<Rightarrow> string \<Rightarrow> string \<Rightarrow> string \<Rightarrow> 'g group_session option" where
  "group_session_at st room_id sender_key session_id = dget (sender_sessions room_id sender_key st) session_id"

section \<open>Tables\<close>

record 's session_row =
  sr_sender_key :: string
  sr_session :: 's
  sr_creation_time :: int
  sr_last_usage_date :: int

record 'g group_row =
  gr_sender_key :: string
  gr_fp_key :: string
  gr_room_id :: string
  gr_session :: 'g
  gr_forwarded_chains :: "string list"

record device_row =
  dr_display_name :: string
  dr_deleted :: bool
  dr_keys :: "(string, string) dict"
  dr_trust_state :: "trust_state option"

record ('a, 's, 'g) sqlite_store =
  sq_account :: "'a olm_account option"
  sq_olm_sessions :: "(string, 's session_row) dict"
  sq_group_sessions :: "(string, 'g group_row) dict"
  sq_device_keys :: "(string \<times> string, device_row) dict"
  sq_key_requests :: "(string, outgoing_key_request) dict"
  sq_encrypted_rooms :: "string list"
  sq_sync_token :: "string option"

definition new_store :: "('a, 's, 'g) sqlite_store" where
  "new_store = \<lparr> sq_account = None, sq_olm_sessions = [], sq_group_sessions = [], sq_device_keys = [],
     sq_key_requests = [], sq_encrypted_rooms = [], sq_sync_token = None \<rparr>"

definition replace_row :: "('k, 'v) dict \<Rightarrow> 'k \<Rightarrow> 'v \<Rightarrow> ('k, 'v) dict" where
  "replace_row t k v = ddel t k @ [(k, v)]"

definition insert_or_ignore :: "('k, 'v) dict \<Rightarrow> 'k \<Rightarrow> 'v \<Rightarrow> ('k, 'v) dict" where
  "insert_or_ignore t k v = (if dget t k = None then t @ [(k, v)] else t)"

definition assert_account :: "(('a, 's, 'g) sqlite_store, unit) op" where
  "assert_account = check_or (AssertionError ''account'') (\<lambda>db. sq_account db \<noteq> None)"

definition save_account :: "'a olm_account \<Rightarrow> ('a, 's, 'g) sqlite_store \<Rightarrow> ('a, 's, 'g) sqlite_store" where
  "save_account account db = db \<lparr> sq_account := Some account \<rparr>"

definition load_account :: "('a, 's, 'g) sqlite_store \<Rightarrow> 'a olm_account option" where
  "load_account db = sq_account db"

definition save_session ::
  "('s \<Rightarrow> string) \<Rightarrow> string \<Rightarrow> 's session \<Rightarrow> (('a, 's, 'g) sqlite_store, unit) op" where
  "save_session session_id curve_key session =
     andthen assert_account
     (modify (\<lambda>db. db \<lparr> sq_olm_sessions :=
        replace_row (sq_olm_sessions db) (session_id (se_session session))
          \<lparr> sr_sender_key = curve_key, sr_session = se_session session,
            sr_creation_time = se_creation_time session, sr_last_usage_date = se_use_time session \<rparr> \<rparr>))"

text \<open>\<^verbatim>\<open>Session.from_pickle\<close> is called without the stored \<^verbatim>\<open>last_usage_date\<close>.\<close>

definition load_sessions :: "('a, 's, 'g) sqlite_store \<Rightarrow> 's session_store" where
  "load_sessions db =
     (if sq_account db = None then []
      else foldl (\<lambda>st r. SessionStore_add (sr_sender_key r)
             \<lparr> se_session = sr_session r, se_creation_time = sr_creation_time r, se_use_time = sr_creation_time r \<rparr> st)
           [] (dvalues (sq_olm_sessions db)))"

definition save_inbound_group_session ::
  "('g \<Rightarrow> string) \<Rightarrow> 'g group_session \<Rightarrow> (('a, 's, 'g) sqlite_store, unit) op" where
  "save_inbound_group_session session_id session =
     andthen assert_account
     (modify (\<lambda>db.
        let i = session_id (gs_session session);
            rows = insert_or_ignore (sq_group_sessions db) i
              \<lparr> gr_sender_key = gs_sender_key session, gr_fp_key = gs_ed25519 session,
                gr_room_id = gs_room_id session, gr_session = gs_session session, gr_forwarded_chains = [] \<rparr>;
            updated = map (\<lambda>(j, r). (j, if j = i then
                r \<lparr> gr_session := gs_session session,
                    gr_forwarded_chains := foldl (\<lambda>cs c. filter (\<lambda>d. d \<noteq> c) cs @ [c])
                      (gr_forwarded_chains r) (gs_forwarding_chain session) \<rparr>
                else r)) rows
        in db \<lparr> sq_group_sessions := updated \<rparr>))"

definition group_session_of_row :: "'g group_row \<Rightarrow> 'g group_session" where
  "group_session_of_row r =
     \<lparr> gs_session = gr_session r, gs_ed25519 = gr_fp_key r, gs_sender_key = gr_sender_key r,
       gs_room_id = gr_room_id r, gs_forwarding_chain = gr_forwarded_chains r \<rparr>"

definition load_inbound_group_sessions ::
  "('g \<Rightarrow> string) \<Rightarrow> ('a, 's, 'g) sqlite_store \<Rightarrow> 'g group_store" where
  "load_inbound_group_sessions session_id db =
     (if sq_account db = None then []
      else foldl (\<lambda>st r. GroupSessionStore_add session_id (group_session_of_row r) st)
             [] (dvalues (sq_group_sessions db)))"

text \<open>The room id may not be null; \<^verbatim>\<open>INSERT OR IGNORE\<close> then skips the row.\<close>

definition add_outgoing_key_request :: "outgoing_key_request \<Rightarrow> (('a, 's, 'g) sqlite_store, unit) op" where
  "add_outgoing_key_request r =
     andthen assert_account
     (modify (\<lambda>db.
        if okr_room_id r = None then db
        else db \<lparr> sq_key_requests := insert_or_ignore (sq_key_requests db) (okr_request_id r) r \<rparr>))"

definition remove_outgoing_key_request :: "outgoing_key_request \<Rightarrow> (('a, 's, 'g) sqlite_store, unit) op" where
  "remove_outgoing_key_request r =
     andthen assert_account
     (modify (\<lambda>db. db \<lparr> sq_key_requests := ddel (sq_key_requests db) (okr_request_id r) \<rparr>))"

definition load_outgoing_key_requests :: "('a, 's, 'g) sqlite_store \<Rightarrow> (string, outgoing_key_request) dict" where
  "load_outgoing_key_requests db = (if sq_account db = None then [] else sq_key_requests db)"

definition save_encrypted_rooms :: "string list \<Rightarrow> ('a, 's, 'g) sqlite_store \<Rightarrow> ('a, 's, 'g) sqlite_store" where
  "save_encrypted_rooms rooms db =
     db \<lparr> sq_encrypted_rooms := foldl (\<lambda>rs r. if r \<in> set rs then rs else rs @ [r]) (sq_encrypted_rooms db) rooms \<rparr>"

definition load_encrypted_rooms :: "('a, 's, 'g) sqlite_store \<Rightarrow> string set" where
  "load_encrypted_rooms db = (if sq_account db = None then {} else set (sq_encrypted_rooms db))"

definition delete_encrypted_room :: "string \<Rightarrow> ('a, 's, 'g) sqlite_store \<Rightarrow> ('a, 's, 'g) sqlite_store" where
  "delete_encrypted_room room db = db \<lparr> sq_encrypted_rooms := remove1 room (sq_encrypted_rooms db) \<rparr>"

definition save_sync_token :: "string \<Rightarrow> (('a, 's, 'g) sqlite_store, unit) op" where
  "save_sync_token token = andthen assert_account (modify (\<lambda>db. db \<lparr> sq_sync_token := Some token \<rparr>))"

definition load_sync_token :: "('a, 's, 'g) sqlite_store \<Rightarrow> string option" where
  "load_sync_token db = (if sq_account db = None then None else sq_sync_token db)"

section \<open>Device keys\<close>

definition device_rows :: "(string, (string, olm_device) dict) dict \<Rightarrow> ((string \<times> string) \<times> olm_device) list" where
  "device_rows ds = concat (map (\<lambda>(u, m). map (\<lambda>(i, d). ((u, i), d)) m) ds)"

definition new_device_row :: "olm_device \<Rightarrow> device_row" where
  "new_device_row d =
     \<lparr> dr_display_name = od_display_name d, dr_deleted = od_deleted d, dr_keys = [], dr_trust_state = None \<rparr>"

definition update_device_row :: "olm_device \<Rightarrow> device_row \<Rightarrow> device_row" where
  "update_device_row d r =
     r \<lparr> dr_deleted := od_deleted d,
         dr_keys := foldl (\<lambda>ks (t, k). replace_row ks t k) (dr_keys r) (od_keys d) \<rparr>"

definition save_device_keys ::
  "(string, (string, olm_device) dict) dict \<Rightarrow> (('a, 's, 'g) sqlite_store, unit) op" where
  "save_device_keys device_keys =
     andthen assert_account
     (modify (\<lambda>db.
        let rows = device_rows device_keys;
            inserted = foldl (\<lambda>t (k, d). insert_or_ignore t k (new_device_row d)) (sq_device_keys db) rows;
            updated = foldl (\<lambda>t (k, d). case dget t k of Some r \<Rightarrow> dset t k (update_device_row d r) | None \<Rightarrow> t)
                        inserted rows
        in db \<lparr> sq_device_keys := updated \<rparr>))"

definition device_of_row :: "string \<times> string \<Rightarrow> device_row \<Rightarrow> olm_device" where
  "device_of_row k r =
     \<lparr> od_user_id = fst k, od_device_id = snd k, od_keys = dr_keys r, od_display_name = dr_display_name r,
       od_deleted = dr_deleted r,
       od_trust_state = (case dr_trust_state r of None \<Rightarrow> trust_unset | Some t \<Rightarrow> t) \<rparr>"

definition load_device_keys :: "('a, 's, 'g) sqlite_store \<Rightarrow> device_store" where
  "load_device_keys db =
     (if sq_account db = None then []
      else foldl (\<lambda>st (k, r). snd (store_add (device_of_row k r) st)) [] (sq_device_keys db))"

section \<open>Trust\<close>

text \<open>
  As in the default store an operation also sets the trust state of the device object; it
  raises \<^verbatim>\<open>AssertionError\<close>, and the transaction is rolled back, for a device without a row.
\<close>

type_synonym ('a, 's, 'g) sqlite_trust_op = "(('a, 's, 'g) sqlite_store \<times> olm_device, bool) op"

definition get_device :: "('a, 's, 'g) sqlite_store \<Rightarrow> olm_device \<Rightarrow> device_row option" where
  "get_device db d =
     (if sq_account db = None then None else dget (sq_device_keys db) (od_user_id d, od_device_id d))"

definition recorded_as :: "trust_state \<Rightarrow> ('a, 's, 'g) sqlite_store \<Rightarrow> olm_device \<Rightarrow> bool" where
  "recorded_as t db d = (case get_device db d of None \<Rightarrow> False | Some r \<Rightarrow> dr_trust_state r = Some t)"

definition is_device_verified :: "('a, 's, 'g) sqlite_store \<Rightarrow> olm_device \<Rightarrow> bool" where
  "is_device_verified = recorded_as trust_verified"

definition is_device_blacklisted :: "('a, 's, 'g) sqlite_store \<Rightarrow> olm_device \<Rightarrow> bool" where
  "is_device_blacklisted = recorded_as trust_blacklisted"

definition is_device_ignored :: "('a, 's, 'g) sqlite_store \<Rightarrow> olm_device \<Rightarrow> bool" where
  "is_device_ignored = recorded_as trust_ignored"

definition replace_trust_state :: "trust_state \<Rightarrow> ('a, 's, 'g) sqlite_trust_op" where
  "replace_trust_state t s =
     (let db = fst s; d = snd s in
      case get_device db d of
        None \<Rightarrow> (Inl (AssertionError ''device''), s)
      | Some r \<Rightarrow>
          (Inr True,
           (db \<lparr> sq_device_keys := dset (sq_device_keys db) (od_user_id d, od_device_id d)
               (r \<lparr> dr_trust_state := Some t \<rparr>) \<rparr>,
            d \<lparr> od_trust_state := t \<rparr>)))"

definition verify_device :: "('a, 's, 'g) sqlite_trust_op" where
  "verify_device s =
     (if is_device_verified (fst s) (snd s) then (Inr False, s) else replace_trust_state trust_verified s)"

definition unverify_device :: "('a, 's, 'g) sqlite_trust_op" where
  "unverify_device s =
     (if \<not> is_device_verified (fst s) (snd s) then (Inr False, s) else replace_trust_state trust_unset s)"

definition blacklist_device :: "('a, 's, 'g) sqlite_trust_op" where
  "blacklist_device s =
     (if is_device_blacklisted (fst s) (snd s) then (Inr False, s) else replace_trust_state trust_blacklisted s)"

definition unblacklist_device :: "('a, 's, 'g) sqlite_trust_op" where
  "unblacklist_device s =
     (if \<not> is_device_blacklisted (fst s) (snd s) then (Inr False, s) else replace_trust_state trust_unset s)"

definition ignore_device :: "('a, 's, 'g) sqlite_trust_op" where
  "ignore_device s =
     (if is_device_ignored (fst s) (snd s) then (Inr False, s) else replace_trust_state trust_ignored s)"

definition unignore_device :: "('a, 's, 'g) sqlite_trust_op" where
  "unignore_device s =
     (if \<not> is_device_ignored (fst s) (snd s) then (Inr False, s) else replace_trust_state trust_unset s)"

text \<open>
  \<^verbatim>\<open>ignore_devices\<close> asks for the row ids of 150 devices at a time and asserts that it found as
  many rows as it was given devices, so a device that is given twice raises.
\<close>

function chunks_of :: "nat \<Rightarrow> 'x list \<Rightarrow> 'x list list" where
  "chunks_of n xs = (if xs = [] \<or> n = 0 then [] else take n xs # chunks_of n (drop n xs))"
  by pat_completeness auto
termination by (relation "measure (length \<circ> snd)") auto

declare chunks_of.simps [simp del]

definition device_ids :: "('a, 's, 'g) sqlite_store \<Rightarrow> (string \<times> string) list \<Rightarrow> (string \<times> string) list" where
  "device_ids db ks = concat (map (\<lambda>c. filter (\<lambda>k. k \<in> set c) (dkeys (sq_device_keys db))) (chunks_of 150 ks))"

definition ignore_devices :: "(('a, 's, 'g) sqlite_store \<times> olm_device list, unit) op" where
  "ignore_devices s =
     (let db = fst s; ds = snd s in
      if sq_account db = None then (Inr (), s)
      else
        (let ids = device_ids db (map (\<lambda>d. (od_user_id d, od_device_id d)) ds) in
         if length ids \<noteq> length ds then (Inl (AssertionError ''rows''), s)
         else (Inr (),
           (db \<lparr> sq_device_keys := map (\<lambda>(k, r). (k, if k \<in> set ids then r \<lparr> dr_trust_state := Some trust_ignored \<rparr> else r))
                 (sq_device_keys db) \<rparr>,
            map (\<lambda>d. d \<lparr> od_trust_state := trust_ignored \<rparr>) ds))))"

end
