(* ===== verification/Nio_Olm.thy ===== *)
theory Nio_Olm
  imports Nio_Store Nio_Other_Events Nio_Sas
begin

text \<open>
  The end-to-end encryption machine of \<^verbatim>\<open>src/nio/crypto/olm_machine.py\<close>: its state, what it
  sends to single devices, and the handling of key requests, key claims and key queries.

  The cryptography of vodozemac, with the base64 text it reads and writes, is the argument
  \<open>lib\<close>; \<^verbatim>\<open>datetime.now()\<close> is the argument \<open>now\<close>, in microseconds. Device objects live in the
  device store under their user and device id for good, so a list of devices is a list of those
  ids and \<^verbatim>\<open>device in devices\<close>, which compares the fields, compares the ids.
\<close>

section \<open>The library\<close>

record ('a, 's, 'g, 'o, 'm) vodozemac_olm =
  vo_ed25519 :: "'a \<Rightarrow> string"
  vo_curve25519 :: "'a \<Rightarrow> string"
  vo_sign :: "'a \<Rightarrow> string \<Rightarrow> string"
  vo_max_one_time_keys :: "'a \<Rightarrow> int"
  vo_generate_one_time_keys :: "'a \<Rightarrow> int \<Rightarrow> 'a"
  vo_one_time_keys :: "'a \<Rightarrow> (string, string) dict"
  vo_mark_keys_as_published :: "'a \<Rightarrow> 'a"
  vo_create_outbound :: "'a \<Rightarrow> string \<Rightarrow> json \<Rightarrow> (exn + 's) \<times> 'a"
  vo_create_inbound :: "'a \<Rightarrow> string \<Rightarrow> 'm \<Rightarrow> (exn + 's \<times> string) \<times> 'a"
  vo_prekey_message :: "json \<Rightarrow> exn + 'm"
  vo_normal_message :: "json \<Rightarrow> exn + 'm"
  vo_is_prekey :: "'m \<Rightarrow> bool"
  vo_session_id :: "'s \<Rightarrow> string"
  vo_matches :: "'s \<Rightarrow> 'm \<Rightarrow> bool"
  vo_decrypt :: "'s \<Rightarrow> 'm \<Rightarrow> (exn + string) \<times> 's"
  vo_encrypt :: "'s \<Rightarrow> string \<Rightarrow> (int \<times> string) \<times> 's"
  vo_group_new :: "json \<Rightarrow> exn + 'g"
  vo_group_import :: "json \<Rightarrow> exn + 'g"
  vo_group_id :: "'g \<Rightarrow> string"
  vo_group_first_index :: "'g \<Rightarrow> int"
  vo_group_export :: "'g \<Rightarrow> int \<Rightarrow> string option"
  vo_group_decrypt :: "'g \<Rightarrow> string \<Rightarrow> (exn + string \<times> int) \<times> 'g"
  vo_outbound_id :: "'o \<Rightarrow> string"
  vo_outbound_key :: "'o \<Rightarrow> string"
  vo_outbound_encrypt :: "'o \<Rightarrow> string \<Rightarrow> string \<times> 'o"
  vo_verify_signature :: "string \<Rightarrow> string \<Rightarrow> json \<Rightarrow> exn + bool"

section \<open>Messages and requests\<close>

datatype message_kind =
    PlainMessage
  | DummyMessage
  | RoomKeyRequestMessage outgoing_key_request

record to_device_message =
  tm_kind :: message_kind
  tm_type :: string
  tm_recipient :: string
  tm_recipient_device :: string
  tm_content :: json

definition ToDeviceMessage :: "string \<Rightarrow> string \<Rightarrow> string \<Rightarrow> json \<Rightarrow> to_device_message" where
  "ToDeviceMessage t recipient recipient_device content =
     \<lparr> tm_kind = PlainMessage, tm_type = t, tm_recipient = recipient, tm_recipient_device = recipient_device,
       tm_content = content \<rparr>"

definition message_as_dict :: "to_device_message \<Rightarrow> jobj" where
  "message_as_dict m =
     [(''messages'', JObj [(tm_recipient m, JObj [(tm_recipient_device m, tm_content m)])])]"

definition as_cancellation :: "outgoing_key_request \<Rightarrow> string \<Rightarrow> string \<Rightarrow> to_device_message" where
  "as_cancellation r user_id requesting_device_id =
     ToDeviceMessage ''m.room_key_request'' user_id ''*''
       (JObj [(''action'', JStr ''request_cancellation''),
              (''request_id'', JStr (okr_request_id r)),
              (''requesting_device_id'', JStr requesting_device_id)])"

text \<open>
  The events the machine is handed, with the strings their parsers guarantee
  (\<open>to_device_well_typed\<close>, \<open>parse_event_well_typed\<close>): a \<^verbatim>\<open>RoomKeyRequest\<close>, or its cancellation
  when \<open>kr_request\<close> is None, and a \<^verbatim>\<open>MegolmEvent\<close>.
\<close>

record requested_key =
  rk_algorithm :: string
  rk_room_id :: string
  rk_sender_key :: string
  rk_session_id :: string

record key_request_event =
  kr_source :: json
  kr_sender :: string
  kr_requesting_device_id :: string
  kr_request_id :: string
  kr_request :: "requested_key option"

record megolm_event =
  mg_source :: jobj
  mg_event_id :: string
  mg_sender :: string
  mg_server_timestamp :: int
  mg_sender_key :: string
  mg_device_id :: string
  mg_session_id :: string
  mg_algorithm :: string
  mg_ciphertext :: string
  mg_room_id :: "string option"
  mg_transaction_id :: "string option"

definition key_request_of :: "to_device_event \<Rightarrow> key_request_event option" where
  "key_request_of e =
     (case (td_sender e, td_body e) of
        (JStr s, RoomKeyRequest (JStr d) (JStr i) (JStr a) (JStr r) (JStr k) (JStr n)) \<Rightarrow>
          Some \<lparr> kr_source = td_source e, kr_sender = s, kr_requesting_device_id = d, kr_request_id = i,
                 kr_request = Some \<lparr> rk_algorithm = a, rk_room_id = r, rk_sender_key = k, rk_session_id = n \<rparr> \<rparr>
      | (JStr s, RoomKeyRequestCancellation (JStr d) (JStr i)) \<Rightarrow>
          Some \<lparr> kr_source = td_source e, kr_sender = s, kr_requesting_device_id = d, kr_request_id = i,
                 kr_request = None \<rparr>
      | _ \<Rightarrow> None)"

text \<open>\<^verbatim>\<open>MegolmEvent.as_key_request\<close> with all four arguments, as the machine calls it.\<close>

definition as_key_request ::
  "megolm_event \<Rightarrow> string \<Rightarrow> string \<Rightarrow> string \<Rightarrow> string \<Rightarrow> exn + to_device_message" where
  "as_key_request e user_id requesting_device_id request_id device_id =
     rbind (rcheck (AssertionError ''session_id'') (mg_session_id e \<noteq> [])) (\<lambda>_.
     let i = (if request_id = [] then mg_session_id e else request_id) in
     Inr \<lparr> tm_kind = RoomKeyRequestMessage
             \<lparr> okr_request_id = i, okr_session_id = mg_session_id e,
               okr_room_id = mg_room_id e, okr_algorithm = mg_algorithm e \<rparr>,
           tm_type = ''m.room_key_request'', tm_recipient = user_id,
           tm_recipient_device = (if device_id = [] then ''*'' else device_id),
           tm_content = JObj [(''action'', JStr ''request''),
             (''body'', JObj [(''algorithm'', JStr (mg_algorithm e)), (''session_id'', JStr (mg_session_id e)),
                              (''room_id'', jstr_opt (mg_room_id e)), (''sender_key'', JStr (mg_sender_key e))]),
             (''request_id'', JStr i), (''requesting_device_id'', JStr requesting_device_id)] \<rparr>)"

section \<open>State\<close>

record 'o outbound_group_session =
  og_session :: 'o
  og_creation_time :: int
  og_message_count :: int
  og_users_shared_with :: "(string \<times> string) set"
  og_users_ignored :: "(string \<times> string) set"
  og_shared :: bool

text \<open>The key and the value of the replay protection cache \<^verbatim>\<open>message_index_store\<close>.\<close>

type_synonym index_key = "string \<times> string \<times> int"
type_synonym index_entry = "string \<times> int"

text \<open>\<open>'c\<close> is the \<^verbatim>\<open>LRUCache\<close> of the package cachetools, \<open>'e\<close> the shared secret of a verification.\<close>

record ('a, 's, 'g, 'o, 'c, 'e) olm =
  om_user_id :: string
  om_device_id :: string
  om_replace_rotated_device_keys :: bool
  om_uploaded_key_count :: "int option"
  om_users_for_key_query :: "string set"
  om_device_store :: device_store
  om_session_store :: "'s session_store"
  om_inbound_group_store :: "'g group_store"
  om_outbound_group_sessions :: "(string, 'o outbound_group_session) dict"
  om_tracked_users :: "string set"
  om_outgoing_key_requests :: "(string, outgoing_key_request) dict"
  om_received_key_requests :: "(string, key_request_event) dict"
  om_key_requests_waiting_for_session :: "(string \<times> string, (string, key_request_event) dict) dict"
  om_key_request_devices_no_session :: "(string \<times> string) list"
  om_key_request_from_untrusted :: "(string, key_request_event) dict"
  om_wedged_devices :: "(string \<times> string) list"
  om_key_re_requests_events :: "(string \<times> string, megolm_event list) dict"
  om_key_verifications :: "(string, 'e sas) dict"
  om_outgoing_to_device_messages :: "to_device_message list"
  om_message_index_store :: 'c
  om_store :: "('a, 's, 'g) sqlite_store"
  om_account :: "'a olm_account"

abbreviation olm_algorithm :: string where "olm_algorithm \<equiv> ''m.olm.v1.curve25519-aes-sha2''"
abbreviation megolm_algorithm :: string where "megolm_algorithm \<equiv> ''m.megolm.v1.aes-sha2''"

definition unwedging_interval :: int where
  "unwedging_interval = 60 * 60 * 1000000"

type_synonym ('a, 's, 'g, 'o, 'c, 'e, 'x) olm_op = "(('a, 's, 'g, 'o, 'c, 'e) olm, 'x) op"

text \<open>Operations on a part of the state, and on a device of the device store with the store.\<close>

definition on_devices :: "(device_store, 'x) op \<Rightarrow> ('a, 's, 'g, 'o, 'c, 'e, 'x) olm_op" where
  "on_devices m s = (case m (om_device_store s) of (r, d) \<Rightarrow> (r, s \<lparr> om_device_store := d \<rparr>))"

definition on_sessions :: "('s session_store, 'x) op \<Rightarrow> ('a, 's, 'g, 'o, 'c, 'e, 'x) olm_op" where
  "on_sessions m s = (case m (om_session_store s) of (r, d) \<Rightarrow> (r, s \<lparr> om_session_store := d \<rparr>))"

definition on_groups :: "('g group_store, 'x) op \<Rightarrow> ('a, 's, 'g, 'o, 'c, 'e, 'x) olm_op" where
  "on_groups m s = (case m (om_inbound_group_store s) of (r, d) \<Rightarrow> (r, s \<lparr> om_inbound_group_store := d \<rparr>))"

definition on_store :: "(('a, 's, 'g) sqlite_store, 'x) op \<Rightarrow> ('a, 's, 'g, 'o, 'c, 'e, 'x) olm_op" where
  "on_store m s = (case m (om_store s) of (r, d) \<Rightarrow> (r, s \<lparr> om_store := d \<rparr>))"

definition put_device :: "string \<times> string \<Rightarrow> olm_device \<Rightarrow> device_store \<Rightarrow> device_store" where
  "put_device k d st = dset st (fst k) (dset (dget_or st (fst k) []) (snd k) d)"

definition on_device ::
  "string \<times> string \<Rightarrow> (('a, 's, 'g) sqlite_store \<times> olm_device, 'x) op \<Rightarrow> ('a, 's, 'g, 'o, 'c, 'e, 'x) olm_op" where
  "on_device k m s =
     (case lookup_device (om_device_store s) (fst k) (snd k) of
        None \<Rightarrow> (Inl (KeyError (snd k)), s)
      | Some d \<Rightarrow>
          (case m (om_store s, d) of
             (r, (db, d')) \<Rightarrow> (r, s \<lparr> om_store := db, om_device_store := put_device k d' (om_device_store s) \<rparr>)))"

text \<open>\<^verbatim>\<open>self.device_store[user_id][device_id]\<close>.\<close>

definition device_item :: "string \<Rightarrow> string \<Rightarrow> ('a, 's, 'g, 'o, 'c, 'e, olm_device) olm_op" where
  "device_item user_id device_id =
     bnd (on_devices (store_getitem user_id)) (\<lambda>ds.
       case dget ds device_id of None \<Rightarrow> raise (KeyError device_id) | Some d \<Rightarrow> ret d)"

abbreviation device_ref :: "olm_device \<Rightarrow> string \<times> string" where
  "device_ref d \<equiv> (od_user_id d, od_device_id d)"

definition add_user_for_query :: "string \<Rightarrow> ('a, 's, 'g, 'o, 'c, 'e, unit) olm_op" where
  "add_user_for_query u = modify (\<lambda>s. s \<lparr> om_users_for_key_query := insert u (om_users_for_key_query s) \<rparr>)"

definition queue_message :: "to_device_message \<Rightarrow> ('a, 's, 'g, 'o, 'c, 'e, unit) olm_op" where
  "queue_message m =
     modify (\<lambda>s. s \<lparr> om_outgoing_to_device_messages := om_outgoing_to_device_messages s @ [m] \<rparr>)"

text \<open>\<^verbatim>\<open>try: m except ...\<close>: \<open>h\<close> is the handler of an exception, or None if it is not caught.\<close>

definition catching :: "('s, 'x) op \<Rightarrow> (exn \<Rightarrow> ('s, 'x) op option) \<Rightarrow> ('s, 'x) op" where
  "catching m h s =
     (case m s of
        (Inl e, t) \<Rightarrow> (case h e of None \<Rightarrow> (Inl e, t) | Some n \<Rightarrow> n t)
      | r \<Rightarrow> r)"

section \<open>Users and devices\<close>

definition update_tracked_users :: "string list \<Rightarrow> ('a, 's, 'g, 'o, 'c, 'e, unit) olm_op" where
  "update_tracked_users room_users =
     modify (\<lambda>s. s \<lparr> om_users_for_key_query :=
       om_users_for_key_query s \<union> (set room_users - om_tracked_users s) \<rparr>)"

definition add_changed_users :: "string set \<Rightarrow> ('a, 's, 'g, 'o, 'c, 'e, unit) olm_op" where
  "add_changed_users users =
     modify (\<lambda>s. s \<lparr> om_users_for_key_query := om_users_for_key_query s \<union> users \<rparr>)"

definition should_query_keys :: "('a, 's, 'g, 'o, 'c, 'e) olm \<Rightarrow> bool" where
  "should_query_keys s = (om_users_for_key_query s \<noteq> {})"

definition should_upload_keys :: "int \<Rightarrow> ('a, 's, 'g, 'o, 'c, 'e) olm \<Rightarrow> bool" where
  "should_upload_keys max_one_time_keys s =
     (if \<not> oa_shared (om_account s) then True
      else case om_uploaded_key_count s of
        None \<Rightarrow> False
      | Some n \<Rightarrow> 0 < max_one_time_keys - n)"

definition user_fully_verified :: "string \<Rightarrow> ('a, 's, 'g, 'o, 'c, 'e, bool) olm_op" where
  "user_fully_verified user_id =
     bnd (on_devices (active_user_devices user_id)) (\<lambda>ds.
     reads (\<lambda>s. list_all (\<lambda>d. is_device_verified (om_store s) d \<or> is_device_blacklisted (om_store s) d) ds))"

definition Olm_verify_device :: "string \<times> string \<Rightarrow> ('a, 's, 'g, 'o, 'c, 'e, bool) olm_op" where
  "Olm_verify_device k = on_device k verify_device"

definition Olm_unverify_device :: "string \<times> string \<Rightarrow> ('a, 's, 'g, 'o, 'c, 'e, bool) olm_op" where
  "Olm_unverify_device k = on_device k unverify_device"

definition Olm_blacklist_device :: "string \<times> string \<Rightarrow> ('a, 's, 'g, 'o, 'c, 'e, bool) olm_op" where
  "Olm_blacklist_device k = on_device k blacklist_device"

definition Olm_unblacklist_device :: "string \<times> string \<Rightarrow> ('a, 's, 'g, 'o, 'c, 'e, bool) olm_op" where
  "Olm_unblacklist_device k = on_device k unblacklist_device"

definition Olm_ignore_device :: "string \<times> string \<Rightarrow> ('a, 's, 'g, 'o, 'c, 'e, bool) olm_op" where
  "Olm_ignore_device k = on_device k ignore_device"

definition Olm_unignore_device :: "string \<times> string \<Rightarrow> ('a, 's, 'g, 'o, 'c, 'e, bool) olm_op" where
  "Olm_unignore_device k = on_device k unignore_device"

section \<open>Encrypting to one device\<close>

definition save_account_now :: "('a, 's, 'g, 'o, 'c, 'e, unit) olm_op" where
  "save_account_now = modify (\<lambda>s. s \<lparr> om_store := save_account (om_account s) (om_store s) \<rparr>)"

text \<open>A session object that was read from the list of a sender key is changed in place.\<close>

fun replace_first :: "'x \<Rightarrow> 'x \<Rightarrow> 'x list \<Rightarrow> 'x list" where
  "replace_first x y [] = []"
| "replace_first x y (z # zs) = (if z = x then y # zs else z # replace_first x y zs)"

definition change_session :: "string \<Rightarrow> 's session \<Rightarrow> 's session \<Rightarrow> ('a, 's, 'g, 'o, 'c, 'e, unit) olm_op" where
  "change_session curve_key x y =
     modify (\<lambda>s. s \<lparr> om_session_store :=
       dset (om_session_store s) curve_key (replace_first x y (dget_or (om_session_store s) curve_key [])) \<rparr>)"

definition olm_encrypt ::
  "('a, 's, 'g, 'o, 'm) vodozemac_olm \<Rightarrow> int \<Rightarrow> 's session \<Rightarrow> olm_device \<Rightarrow> string \<Rightarrow> json \<Rightarrow>
   ('a, 's, 'g, 'o, 'c, 'e, json) olm_op" where
  "olm_encrypt lib now session recipient_device message_type content =
     bnd (reads id) (\<lambda>s.
     bnd (lift_res (device_ed25519 recipient_device)) (\<lambda>fp.
     bnd (lift_res (device_curve25519 recipient_device)) (\<lambda>ck.
     let account = oa_account (om_account s);
         payload = [(''sender'', JStr (om_user_id s)), (''sender_device'', JStr (om_device_id s)),
           (''keys'', JObj [(''ed25519'', JStr (vo_ed25519 lib account))]),
           (''recipient'', JStr (od_user_id recipient_device)),
           (''recipient_keys'', JObj [(''ed25519'', JStr fp)]),
           (''type'', JStr message_type), (''content'', content)];
         res = vo_encrypt lib (se_session session) (to_json payload);
         used = session \<lparr> se_session := snd res, se_use_time := now \<rparr>
     in
     andthen (change_session ck session used)
     (andthen (on_store (save_session (vo_session_id lib) ck used))
     (ret (JObj [(''algorithm'', JStr olm_algorithm),
        (''sender_key'', JStr (vo_curve25519 lib account)),
        (''ciphertext'', JObj [(ck, JObj [(''type'', JInt (fst (fst res))), (''body'', JStr (snd (fst res)))])])]))))))"

definition queue_dummy_message ::
  "('a, 's, 'g, 'o, 'm) vodozemac_olm \<Rightarrow> int \<Rightarrow> 's session \<Rightarrow> olm_device \<Rightarrow> ('a, 's, 'g, 'o, 'c, 'e, unit) olm_op" where
  "queue_dummy_message lib now session device =
     bnd (olm_encrypt lib now session device ''m.dummy'' (JObj [])) (\<lambda>olm_dict.
     queue_message ((ToDeviceMessage ''m.room.encrypted'' (od_user_id device) (od_device_id device) olm_dict)
       \<lparr> tm_kind := DummyMessage \<rparr>))"

definition encrypt_forwarding_key ::
  "('a, 's, 'g, 'o, 'm) vodozemac_olm \<Rightarrow> int \<Rightarrow> string \<Rightarrow> 'g group_session \<Rightarrow> 's session \<Rightarrow> olm_device \<Rightarrow>
   ('a, 's, 'g, 'o, 'c, 'e, to_device_message) olm_op" where
  "encrypt_forwarding_key lib now room_id gs session device =
     (case vo_group_export lib (gs_session gs) (vo_group_first_index lib (gs_session gs)) of
        None \<Rightarrow> raise (AssertionError ''export'')
      | Some key \<Rightarrow>
          bnd (olm_encrypt lib now session device ''m.forwarded_room_key''
            (JObj [(''algorithm'', JStr megolm_algorithm),
                   (''forwarding_curve25519_key_chain'', JArr (map JStr (gs_forwarding_chain gs))),
                   (''room_id'', JStr room_id),
                   (''sender_claimed_ed25519_key'', JStr (gs_ed25519 gs)),
                   (''sender_key'', JStr (gs_sender_key gs)),
                   (''session_id'', JStr (vo_group_id lib (gs_session gs))),
                   (''session_key'', JStr key)])) (\<lambda>olm_dict.
          ret (ToDeviceMessage ''m.room.encrypted'' (od_user_id device) (od_device_id device) olm_dict)))"

section \<open>Key requests of other devices\<close>

abbreviation requester :: "key_request_event \<Rightarrow> string \<times> string" where
  "requester e \<equiv> (kr_sender e, kr_requesting_device_id e)"

definition cancel_waiting :: "key_request_event \<Rightarrow> ('a, 's, 'g, 'o, 'c, 'e, unit) olm_op" where
  "cancel_waiting event =
     andthen (modify (\<lambda>s. s \<lparr> om_key_requests_waiting_for_session :=
       dset (om_key_requests_waiting_for_session s) (requester event)
         (ddel (dget_or (om_key_requests_waiting_for_session s) (requester event) []) (kr_request_id event)) \<rparr>))
     (bnd (reads (\<lambda>s. dget_or (om_key_requests_waiting_for_session s) (requester event) [])) (\<lambda>left.
      if left \<noteq> [] then ret ()
      else catching
        (bnd (device_item (kr_sender event) (kr_requesting_device_id event)) (\<lambda>device.
         modify (\<lambda>s. s \<lparr> om_key_request_devices_no_session :=
           remove1 (device_ref device) (om_key_request_devices_no_session s) \<rparr>)))
        (\<lambda>e. case e of KeyError _ \<Rightarrow> Some (ret ()) | _ \<Rightarrow> None)))"

definition handle_key_requests :: "key_request_event \<Rightarrow> ('a, 's, 'g, 'o, 'c, 'e, unit) olm_op" where
  "handle_key_requests event =
     (case kr_request event of
        Some rk \<Rightarrow>
          if rk_algorithm rk = megolm_algorithm then
            modify (\<lambda>s. s \<lparr> om_received_key_requests :=
              dset (om_received_key_requests s) (kr_request_id event) event \<rparr>)
          else ret ()
      | None \<Rightarrow>
          andthen (modify (\<lambda>s.
            case dget (om_received_key_requests s) (kr_request_id event) of
              Some queued \<Rightarrow>
                if requester queued = requester event
                then s \<lparr> om_received_key_requests := ddel (om_received_key_requests s) (kr_request_id event) \<rparr>
                else s
            | None \<Rightarrow> s))
          (andthen (cancel_waiting event)
          (modify (\<lambda>s.
            case dget (om_key_request_from_untrusted s) (kr_request_id event) of
              Some pending \<Rightarrow>
                if requester pending = requester event
                then s \<lparr> om_key_request_from_untrusted := ddel (om_key_request_from_untrusted s) (kr_request_id event),
                         om_received_key_requests := dset (om_received_key_requests s) (kr_request_id event) event \<rparr>
                else s
            | None \<Rightarrow> s))))"

definition wait_for_session :: "olm_device \<Rightarrow> key_request_event \<Rightarrow> ('a, 's, 'g, 'o, 'c, 'e, unit) olm_op" where
  "wait_for_session device event =
     modify (\<lambda>s. s
       \<lparr> om_key_request_devices_no_session :=
           (if device_ref device \<in> set (om_key_request_devices_no_session s)
            then om_key_request_devices_no_session s
            else om_key_request_devices_no_session s @ [device_ref device]),
         om_key_requests_waiting_for_session :=
           dset (om_key_requests_waiting_for_session s) (device_ref device)
             (dset (dget_or (om_key_requests_waiting_for_session s) (device_ref device) []) (kr_request_id event) event) \<rparr>)"

definition share_with_ourselves ::
  "('a, 's, 'g, 'o, 'm) vodozemac_olm \<Rightarrow> int \<Rightarrow> key_request_event \<Rightarrow> requested_key \<Rightarrow>
   ('a, 's, 'g, 'o, 'c, 'e, unit) olm_op" where
  "share_with_ourselves lib now event rk =
     bnd (on_groups (GroupSessionStore_get (rk_room_id rk) (rk_sender_key rk) (rk_session_id rk))) (\<lambda>gs.
     case gs of
       None \<Rightarrow> raise (KeyShareError ''No session found'')
     | Some g \<Rightarrow>
         bnd (catching (device_item (kr_sender event) (kr_requesting_device_id event))
           (\<lambda>e. case e of KeyError _ \<Rightarrow> Some (raise (KeyShareError ''Unknown requesting device'')) | _ \<Rightarrow> None)) (\<lambda>device.
         if \<not> device_verified device then
           raise (OlmUnverifiedDeviceError (od_user_id device) (od_device_id device))
         else
           bnd (lift_res (device_curve25519 device)) (\<lambda>ck.
           bnd (on_sessions (SessionStore_get ck)) (\<lambda>session.
           case session of
             None \<Rightarrow>
               andthen (wait_for_session device event)
               (raise (EncryptionError ''No Olm session found''))
           | Some x \<Rightarrow>
               bnd (encrypt_forwarding_key lib now (rk_room_id rk) g x device) queue_message))))"

definition get_active_key_requests ::
  "string \<Rightarrow> string \<Rightarrow> ('a, 's, 'g, 'o, 'c, 'e) olm \<Rightarrow> key_request_event list" where
  "get_active_key_requests user_id device_id s =
     filter (\<lambda>e. kr_sender e = user_id \<and> kr_requesting_device_id e = device_id)
       (dvalues (om_key_request_from_untrusted s))"

definition collect_single_key_share ::
  "('a, 's, 'g, 'o, 'm) vodozemac_olm \<Rightarrow> int \<Rightarrow> key_request_event \<Rightarrow> ('a, 's, 'g, 'o, 'c, 'e, bool) olm_op" where
  "collect_single_key_share lib now event =
     bnd (reads om_user_id) (\<lambda>user_id.
     case kr_request event of
       Some rk \<Rightarrow>
         if kr_sender event = user_id then
           catching (andthen (share_with_ourselves lib now event rk) (ret True))
             (\<lambda>e. case e of
                KeyShareError _ \<Rightarrow> Some (ret True)
              | EncryptionError _ \<Rightarrow> Some (ret True)
              | OlmTrustError _ \<Rightarrow> Some (ret False)
              | OlmUnverifiedDeviceError _ _ \<Rightarrow> Some (ret False)
              | _ \<Rightarrow> None)
         else ret True
     | None \<Rightarrow> ret True)"

definition continue_key_share ::
  "('a, 's, 'g, 'o, 'm) vodozemac_olm \<Rightarrow> int \<Rightarrow> key_request_event \<Rightarrow> ('a, 's, 'g, 'o, 'c, 'e, bool) olm_op" where
  "continue_key_share lib now event =
     bnd (reads om_key_request_from_untrusted) (\<lambda>pending.
     if event \<notin> set (dvalues pending) then
       raise (LocalProtocolError ''No such pending key share request found'')
     else case dget pending (kr_request_id event) of
       None \<Rightarrow> raise (KeyError (kr_request_id event))
     | Some found \<Rightarrow>
         bnd (collect_single_key_share lib now found) (\<lambda>shared.
         if \<not> shared then ret False
         else andthen (modify (\<lambda>s. s \<lparr> om_key_request_from_untrusted :=
                ddel (om_key_request_from_untrusted s) (kr_request_id found) \<rparr>))
              (ret True)))"

definition cancel_key_share :: "key_request_event \<Rightarrow> ('a, 's, 'g, 'o, 'c, 'e, bool) olm_op" where
  "cancel_key_share event =
     bnd (reads (\<lambda>s. dget (om_key_request_from_untrusted s) (kr_request_id event) \<noteq> None)) (\<lambda>found.
     andthen (modify (\<lambda>s. s \<lparr> om_key_request_from_untrusted :=
       ddel (om_key_request_from_untrusted s) (kr_request_id event) \<rparr>))
     (ret found))"

fun collect_from ::
  "('a, 's, 'g, 'o, 'm) vodozemac_olm \<Rightarrow> int \<Rightarrow> key_request_event list \<Rightarrow>
   ('a, 's, 'g, 'o, 'c, 'e, key_request_event list) olm_op" where
  "collect_from lib now [] = ret []"
| "collect_from lib now (event # es) =
     (if kr_request event = None then
        bnd (collect_from lib now es) (\<lambda>users. ret (event # users))
      else
        bnd (collect_single_key_share lib now event) (\<lambda>shared.
        if shared then collect_from lib now es
        else
          andthen (modify (\<lambda>s. s \<lparr> om_key_request_from_untrusted :=
            dset (om_key_request_from_untrusted s) (kr_request_id event) event \<rparr>))
          (bnd (collect_from lib now es) (\<lambda>users. ret (event # users)))))"

definition collect_key_requests ::
  "('a, 's, 'g, 'o, 'm) vodozemac_olm \<Rightarrow> int \<Rightarrow> ('a, 's, 'g, 'o, 'c, 'e, key_request_event list) olm_op" where
  "collect_key_requests lib now =
     bnd (reads (\<lambda>s. dvalues (om_received_key_requests s))) (\<lambda>es.
     bnd (collect_from lib now es) (\<lambda>events_for_users.
     andthen (modify (\<lambda>s. s \<lparr> om_received_key_requests := [] \<rparr>))
     (ret events_for_users)))"

end
