(* ===== verification/Nio_Olm_Keys.thy ===== *)
theory Nio_Olm_Keys
  imports Nio_Olm
begin

text \<open>
  How the machine of \<^verbatim>\<open>src/nio/crypto/olm_machine.py\<close> learns the devices of other users and
  makes sessions with them: uploaded, queried and claimed keys, wedged sessions, and the messages
  a client reports as sent. A response is the JSON its schema accepted; the display name of a
  device, which no schema types, is kept as its JSON text when it is not a string.
\<close>

section \<open>Signed JSON\<close>

definition str_value :: "json \<Rightarrow> exn + string" where
  "str_value v = (case v of JStr s \<Rightarrow> Inr s | _ \<Rightarrow> Inl (TypeError ''str''))"

definition name_text :: "json \<Rightarrow> string" where
  "name_text v = (case v of JStr s \<Rightarrow> s | _ \<Rightarrow> json_dump v)"

definition sign_json :: "('a, 's, 'g, 'o, 'm) vodozemac_olm \<Rightarrow> 'a \<Rightarrow> jobj \<Rightarrow> string" where
  "sign_json lib account d = vo_sign lib account (to_canonical_json d)"

text \<open>
  \<^verbatim>\<open>verify_json\<close> takes the signatures and the unsigned part out of the object it is given and
  puts them back: the answer, and the object afterwards.
\<close>

definition verify_json ::
  "('a, 's, 'g, 'o, 'm) vodozemac_olm \<Rightarrow> json \<Rightarrow> json \<Rightarrow> string \<Rightarrow> string \<Rightarrow> exn + bool \<times> json" where
  "verify_json lib v user_key user_id device_id =
     (case pop v ''signatures'' of
        Inl (KeyError _) \<Rightarrow> Inr (False, v)
      | Inl e \<Rightarrow> Inl e
      | Inr (signatures, w) \<Rightarrow>
          (case rbind (item signatures user_id) (\<lambda>m. item m (''ed25519:'' @ device_id)) of
             Inl (KeyError _) \<Rightarrow> Inr (False, set_item w ''signatures'' signatures)
           | Inl e \<Rightarrow> Inl e
           | Inr signature \<Rightarrow>
               (case w of
                  JObj d \<Rightarrow>
                    rbind (str_value user_key) (\<lambda>key.
                    rbind (vo_verify_signature lib key (to_canonical_json (ddel d ''unsigned'')) signature) (\<lambda>ok.
                    let signed = dset (ddel d ''unsigned'') ''signatures'' signatures;
                        unsigned = jget d ''unsigned''
                    in Inr (ok, JObj (if truthy unsigned then dset signed ''unsigned'' unsigned else signed))))
                | _ \<Rightarrow> Inl (AttributeError ''pop''))))"

section \<open>Uploading keys\<close>

definition device_keys_dict ::
  "('a, 's, 'g, 'o, 'm) vodozemac_olm \<Rightarrow> ('a, 's, 'g, 'o, 'c, 'e) olm \<Rightarrow> jobj" where
  "device_keys_dict lib s =
     (let a = oa_account (om_account s); i = om_device_id s;
          keys = [(''algorithms'', JArr [JStr olm_algorithm, JStr megolm_algorithm]),
            (''device_id'', JStr i), (''user_id'', JStr (om_user_id s)),
            (''keys'', JObj (dset [(''curve25519:'' @ i, JStr (vo_curve25519 lib a))]
               (''ed25519:'' @ i) (JStr (vo_ed25519 lib a))))]
      in keys @ [(''signatures'', JObj [(om_user_id s, JObj [(''ed25519:'' @ i, JStr (sign_json lib a keys))])])])"

definition one_time_keys_dict ::
  "('a, 's, 'g, 'o, 'm) vodozemac_olm \<Rightarrow> ('a, 's, 'g, 'o, 'c, 'e) olm \<Rightarrow> jobj" where
  "one_time_keys_dict lib s =
     (let a = oa_account (om_account s) in
      foldl (\<lambda>d (key_id, key). dset d (''signed_curve25519:'' @ key_id)
          (JObj [(''key'', JStr key),
                 (''signatures'', JObj [(om_user_id s,
                    JObj [(''ed25519:'' @ om_device_id s, JStr (sign_json lib a [(''key'', JStr key)]))])])]))
        [] (vo_one_time_keys lib a))"

definition generate_one_time_keys ::
  "('a, 's, 'g, 'o, 'm) vodozemac_olm \<Rightarrow> int \<Rightarrow> ('a, 's, 'g, 'o, 'c, 'e, unit) olm_op" where
  "generate_one_time_keys lib current_key_count =
     bnd (reads (\<lambda>s. oa_account (om_account s))) (\<lambda>a.
     let key_count = vo_max_one_time_keys lib a - current_key_count in
     if key_count \<le> 0 then raise (ValueError ''too many keys already shared'')
     else modify (\<lambda>s. s \<lparr> om_account := (om_account s) \<lparr> oa_account := vo_generate_one_time_keys lib a key_count \<rparr> \<rparr>))"

definition share_keys :: "('a, 's, 'g, 'o, 'm) vodozemac_olm \<Rightarrow> ('a, 's, 'g, 'o, 'c, 'e, jobj) olm_op" where
  "share_keys lib =
     bnd (reads id) (\<lambda>s.
     if \<not> oa_shared (om_account s) then
       andthen (generate_one_time_keys lib 0)
       (reads (\<lambda>t. [(''device_keys'', JObj (device_keys_dict lib s)), (''one_time_keys'', JObj (one_time_keys_dict lib t))]))
     else case om_uploaded_key_count s of
       None \<Rightarrow> raise (EncryptionError ''The uploaded key count is not known'')
     | Some n \<Rightarrow>
         andthen (generate_one_time_keys lib n)
         (reads (\<lambda>t. [(''one_time_keys'', JObj (one_time_keys_dict lib t))])))"

definition handle_keys_upload ::
  "('a, 's, 'g, 'o, 'm) vodozemac_olm \<Rightarrow> int \<Rightarrow> ('a, 's, 'g, 'o, 'c, 'e, unit) olm_op" where
  "handle_keys_upload lib signed_curve25519_count =
     andthen (modify (\<lambda>s. s
       \<lparr> om_account := \<lparr> oa_account = vo_mark_keys_as_published lib (oa_account (om_account s)), oa_shared = True \<rparr>,
         om_uploaded_key_count := Some signed_curve25519_count \<rparr>))
     save_account_now"

section \<open>Claimed one-time keys\<close>

definition create_session ::
  "('a, 's, 'g, 'o, 'm) vodozemac_olm \<Rightarrow> int \<Rightarrow> json \<Rightarrow> string \<Rightarrow> ('a, 's, 'g, 'o, 'c, 'e, 's session) olm_op" where
  "create_session lib now one_time_key curve_key =
     bnd (reads (\<lambda>s. vo_create_outbound lib (oa_account (om_account s)) curve_key one_time_key)) (\<lambda>res.
     andthen (modify (\<lambda>s. s \<lparr> om_account := (om_account s) \<lparr> oa_account := snd res \<rparr> \<rparr>))
     (bnd (lift_res (fst res)) (\<lambda>x.
     let session = \<lparr> se_session = x, se_creation_time = now, se_use_time = now \<rparr> in
     andthen save_account_now
     (andthen (modify (\<lambda>s. s \<lparr> om_session_store := SessionStore_add curve_key session (om_session_store s) \<rparr>))
     (andthen (on_store (save_session (vo_session_id lib) curve_key session))
     (ret session))))))"

definition release_requests :: "olm_device \<Rightarrow> ('a, 's, 'g, 'o, 'c, 'e, unit) olm_op" where
  "release_requests device =
     modify (\<lambda>s. s
       \<lparr> om_key_request_devices_no_session := remove1 (device_ref device) (om_key_request_devices_no_session s),
         om_key_requests_waiting_for_session := ddel (om_key_requests_waiting_for_session s) (device_ref device),
         om_received_key_requests := dupdate (om_received_key_requests s)
           (dget_or (om_key_requests_waiting_for_session s) (device_ref device) []) \<rparr>)"

definition first_value :: "json \<Rightarrow> exn + json" where
  "first_value v =
     rbind (case v of JObj d \<Rightarrow> Inr (dvalues d) | _ \<Rightarrow> Inl (AttributeError ''values'')) (\<lambda>xs.
     case xs of [] \<Rightarrow> Inl (StopIteration []) | x # _ \<Rightarrow> Inr x)"

definition claim_for_device ::
  "('a, 's, 'g, 'o, 'm) vodozemac_olm \<Rightarrow> int \<Rightarrow> string \<Rightarrow> string \<Rightarrow> olm_device \<Rightarrow> json \<Rightarrow>
   ('a, 's, 'g, 'o, 'c, 'e, unit) olm_op" where
  "claim_for_device lib now user_id device_id device one_time_key =
     bnd (lift_res (first_value one_time_key)) (\<lambda>key_object.
     bnd (lift_res (rbind (device_ed25519 device) (\<lambda>fp.
            verify_json lib key_object (JStr fp) user_id device_id))) (\<lambda>(verified, key_object).
     if \<not> verified then ret ()
     else
       bnd (lift_res (item key_object ''key'')) (\<lambda>key.
       bnd (lift_res (device_curve25519 device)) (\<lambda>ck.
       bnd (create_session lib now key ck) (\<lambda>session.
       andthen
         (bnd (reads (\<lambda>s. device_ref device \<in> set (om_wedged_devices s))) (\<lambda>wedged.
          if wedged then
            andthen (modify (\<lambda>s. s \<lparr> om_wedged_devices := remove1 (device_ref device) (om_wedged_devices s) \<rparr>))
              (queue_dummy_message lib now session device)
          else ret ()))
         (bnd (reads (\<lambda>s. device_ref device \<in> set (om_key_request_devices_no_session s))) (\<lambda>waiting.
          if waiting then release_requests device else ret ())))))))"

definition handle_key_claiming ::
  "('a, 's, 'g, 'o, 'm) vodozemac_olm \<Rightarrow> int \<Rightarrow> json \<Rightarrow> ('a, 's, 'g, 'o, 'c, 'e, unit) olm_op" where
  "handle_key_claiming lib now one_time_keys =
     bnd (lift_res (items one_time_keys)) (for_each (\<lambda>(user_id, user_devices).
       bnd (lift_res (items user_devices)) (for_each (\<lambda>(device_id, one_time_key).
         bnd (catching (bnd (device_item user_id device_id) (\<lambda>d. ret (Some d)))
               (\<lambda>e. case e of KeyError _ \<Rightarrow> Some (ret None) | _ \<Rightarrow> None)) (\<lambda>found.
         case found of
           None \<Rightarrow> ret ()
         | Some device \<Rightarrow> claim_for_device lib now user_id device_id device one_time_key)))))"

section \<open>Queried device keys\<close>

type_synonym changed_devices = "(string, (string, olm_device) dict) dict"

definition note_changed :: "olm_device \<Rightarrow> changed_devices \<Rightarrow> changed_devices" where
  "note_changed d c =
     dset c (od_user_id d) (dset (dget_or c (od_user_id d) []) (od_device_id d) d)"

text \<open>The identity keys and the display name of a payload; a \<^verbatim>\<open>KeyError\<close> skips the device.\<close>

definition read_identity :: "string \<Rightarrow> json \<Rightarrow> exn + json \<times> json \<times> string" where
  "read_identity device_id payload =
     rbind (item payload ''keys'') (\<lambda>key_dict.
     rbind (item key_dict (''ed25519:'' @ device_id)) (\<lambda>signing_key.
     rbind (item key_dict (''curve25519:'' @ device_id)) (\<lambda>curve_key.
     rbind (contains ''unsigned'' payload) (\<lambda>has.
     if has then
       rbind (item payload ''unsigned'') (\<lambda>u.
       rbind (get_or u ''device_display_name'' (JStr [])) (\<lambda>n.
       Inr (signing_key, curve_key, name_text n)))
     else Inr (signing_key, curve_key, [])))))"

text \<open>The replacement of a rotated identity, on the store and the device object.\<close>

definition rotate_identity ::
  "string \<Rightarrow> string \<Rightarrow> string \<Rightarrow> (('a, 's, 'g) sqlite_store \<times> olm_device, unit) op" where
  "rotate_identity signing_key curve_key display_name =
     bnd (reads (\<lambda>p. od_trust_state (snd p))) (\<lambda>t.
     andthen
       (if t = trust_verified then bnd unverify_device (\<lambda>_. ret ())
        else if t = trust_ignored then bnd unignore_device (\<lambda>_. ret ())
        else ret ())
     (andthen
       (modify (\<lambda>(db, d). (db,
          (set_device_key ''curve25519'' curve_key (set_device_key ''ed25519'' signing_key d))
            \<lparr> od_display_name := display_name, od_deleted := False \<rparr>)))
     (bnd (reads (\<lambda>p. od_trust_state (snd p))) (\<lambda>t.
      if t = trust_blacklisted then bnd blacklist_device (\<lambda>_. ret ())
      else modify (\<lambda>(db, d). (db, d \<lparr> od_trust_state := trust_unset \<rparr>))))))"

text \<open>What a valid payload does to a device that is known: the result says whether it changed.\<close>

definition update_device ::
  "bool \<Rightarrow> string \<Rightarrow> string \<Rightarrow> string \<Rightarrow> (('a, 's, 'g) sqlite_store \<times> olm_device, bool) op" where
  "update_device replace_rotated signing_key curve_key display_name =
     bnd (reads snd) (\<lambda>device.
     bnd (lift_res (device_ed25519 device)) (\<lambda>fp.
     if fp \<noteq> signing_key then
       if \<not> replace_rotated then ret False
       else andthen (rotate_identity signing_key curve_key display_name) (ret True)
     else
       bnd (lift_res (device_curve25519 device)) (\<lambda>ck.
       if ck = curve_key \<and> od_display_name device = display_name then ret False
       else if ck \<noteq> curve_key then
         andthen (modify (\<lambda>(db, d). (db, set_device_key ''curve25519'' curve_key d))) (ret True)
       else
         andthen (modify (\<lambda>(db, d). (db, d \<lparr> od_display_name := display_name \<rparr>))) (ret True))))"

definition apply_identity ::
  "string \<Rightarrow> string \<Rightarrow> string \<Rightarrow> string \<Rightarrow> string \<Rightarrow> ('a, 's, 'g, 'o, 'c, 'e, bool) olm_op" where
  "apply_identity user_id device_id signing_key curve_key display_name =
     bnd (on_devices (store_getitem user_id)) (\<lambda>user_devices.
     case dget user_devices device_id of
       None \<Rightarrow>
         bnd (on_devices (store_add
           ((OlmDevice user_id device_id [(''ed25519'', signing_key), (''curve25519'', curve_key)])
             \<lparr> od_display_name := display_name \<rparr>))) (\<lambda>_. ret True)
     | Some _ \<Rightarrow>
         bnd (reads om_replace_rotated_device_keys) (\<lambda>replace_rotated.
         on_device (user_id, device_id) (update_device replace_rotated signing_key curve_key display_name)))"

definition query_device ::
  "('a, 's, 'g, 'o, 'm) vodozemac_olm \<Rightarrow> string \<Rightarrow> string \<times> json \<Rightarrow> changed_devices \<Rightarrow>
   ('a, 's, 'g, 'o, 'c, 'e, changed_devices) olm_op" where
  "query_device lib user_id p changed =
     (let device_id = fst p; payload = snd p in
      bnd (reads (\<lambda>s. user_id = om_user_id s \<and> device_id = om_device_id s)) (\<lambda>own.
      if own then ret changed
      else
        bnd (lift_res (item payload ''user_id'')) (\<lambda>u.
        bnd (lift_res (item payload ''device_id'')) (\<lambda>i.
        if u \<noteq> JStr user_id \<or> i \<noteq> JStr device_id then ret changed
        else
          case read_identity device_id payload of
            Inl (KeyError _) \<Rightarrow> ret changed
          | Inl e \<Rightarrow> raise e
          | Inr (signing_key, curve_key, display_name) \<Rightarrow>
              bnd (lift_res (verify_json lib payload signing_key user_id device_id)) (\<lambda>(verified, _).
              if \<not> verified then ret changed
              else
                bnd (lift_res (str_value signing_key)) (\<lambda>fp.
                bnd (lift_res (str_value curve_key)) (\<lambda>ck.
                bnd (apply_identity user_id device_id fp ck display_name) (\<lambda>b.
                if \<not> b then ret changed
                else bnd (device_item user_id device_id) (\<lambda>d. ret (note_changed d changed)))))))))) "

fun fold_op :: "('x \<Rightarrow> 'b \<Rightarrow> ('s, 'b) op) \<Rightarrow> 'x list \<Rightarrow> 'b \<Rightarrow> ('s, 'b) op" where
  "fold_op f [] b = ret b"
| "fold_op f (x # xs) b = bnd (f x b) (fold_op f xs)"

definition mark_deleted :: "string \<Rightarrow> string \<Rightarrow> changed_devices \<Rightarrow> ('a, 's, 'g, 'o, 'c, 'e, changed_devices) olm_op" where
  "mark_deleted user_id device_id changed =
     andthen (on_device (user_id, device_id) (modify (\<lambda>(db, d). (db, d \<lparr> od_deleted := True \<rparr>))))
     (bnd (device_item user_id device_id) (\<lambda>d. ret (note_changed d changed)))"

text \<open>The deleted devices are a set in the source; the model takes them in the order of the store.\<close>

definition query_user ::
  "('a, 's, 'g, 'o, 'm) vodozemac_olm \<Rightarrow> string set option \<Rightarrow> string \<times> json \<Rightarrow> changed_devices \<Rightarrow>
   ('a, 's, 'g, 'o, 'c, 'e, changed_devices) olm_op" where
  "query_user lib queried_users p changed =
     (let user_id = fst p in
      andthen (modify (\<lambda>s. s
        \<lparr> om_users_for_key_query := (if queried_users = None then om_users_for_key_query s - {user_id}
                                     else om_users_for_key_query s),
          om_tracked_users := insert user_id (om_tracked_users s) \<rparr>))
      (bnd (lift_res (items (snd p))) (\<lambda>device_dict.
      bnd (fold_op (query_device lib user_id) device_dict changed) (\<lambda>changed.
      bnd (on_devices (active_user_devices user_id)) (\<lambda>active.
      fold_op (mark_deleted user_id) (filter (\<lambda>i. i \<notin> set (dkeys device_dict)) (map od_device_id active)) changed)))))"

definition handle_key_query ::
  "('a, 's, 'g, 'o, 'm) vodozemac_olm \<Rightarrow> jobj \<Rightarrow> string set option \<Rightarrow> ('a, 's, 'g, 'o, 'c, 'e, changed_devices) olm_op" where
  "handle_key_query lib device_keys queried_users =
     bnd (fold_op (query_user lib queried_users) device_keys []) (\<lambda>changed.
     andthen (on_store (save_device_keys changed)) (ret changed))"

text \<open>\<^verbatim>\<open>KeysQueryResponse.from_dict\<close>: with a set of queried users the device keys of the others, and
  of the users of a failed server, are left out.\<close>

definition KeysQueryResponse_from_dict :: "jobj \<Rightarrow> string set option \<Rightarrow> exn + jobj \<times> json \<times> string set option" where
  "KeysQueryResponse_from_dict d user_set =
     (let keys = dget_or d ''device_keys'' (JObj []); failures = dget_or d ''failures'' (JObj []) in
      case user_set of
        None \<Rightarrow> rbind (items keys) (\<lambda>ks. Inr (ks, failures, None))
      | Some us \<Rightarrow>
          rbind (items keys) (\<lambda>ks.
          rbind (items failures) (\<lambda>fs.
          Inr (filter (\<lambda>(u, _). u \<in> us \<and> dget fs (drop 1 (dropWhile (\<lambda>c. c \<noteq> CHR '':'') u)) = None) ks,
               failures, Some us))))"

section \<open>Missing and wedged sessions\<close>

definition missing_for_user :: "string \<Rightarrow> (string, string list) dict \<Rightarrow> ('a, 's, 'g, 'o, 'c, 'e, (string, string list) dict) olm_op" where
  "missing_for_user user_id missing =
     bnd (on_devices (active_user_devices user_id)) (\<lambda>ds.
     fold_op (\<lambda>device missing.
       bnd (reads om_device_id) (\<lambda>own.
       if od_device_id device = own then ret missing
       else
         bnd (lift_res (device_curve25519 device)) (\<lambda>ck.
         bnd (on_sessions (SessionStore_get ck)) (\<lambda>session.
         case session of
           Some _ \<Rightarrow> ret missing
         | None \<Rightarrow> ret (dset missing user_id (dget_or missing user_id [] @ [od_device_id device])))))) ds missing)"

definition get_missing_sessions :: "string list \<Rightarrow> ('a, 's, 'g, 'o, 'c, 'e, (string, string list) dict) olm_op" where
  "get_missing_sessions users = fold_op missing_for_user users []"

text \<open>
  \<^verbatim>\<open>device in wedged[device.user_id]\<close> compares a device with the ids of devices, so it is never
  true; reading the \<^verbatim>\<open>defaultdict\<close> inserts the user.
\<close>

definition get_users_for_key_claiming :: "('a, 's, 'g, 'o, 'c, 'e) olm \<Rightarrow> exn + (string, string list) dict" where
  "get_users_for_key_claiming s =
     (if om_wedged_devices s = [] \<and> om_key_request_devices_no_session s = []
      then Inl (LocalProtocolError ''No wedged sessions found.'')
      else Inr (foldl (\<lambda>w (u, i). dset w u (dget_or w u [] @ [i])) []
             (om_wedged_devices s @ om_key_request_devices_no_session s)))"

definition mark_device_for_unwedging :: "int \<Rightarrow> string \<Rightarrow> string \<Rightarrow> ('a, 's, 'g, 'o, 'c, 'e, unit) olm_op" where
  "mark_device_for_unwedging now sender sender_key =
     bnd (on_devices (device_from_sender_key sender sender_key)) (\<lambda>found.
     case found of
       None \<Rightarrow> ret ()
     | Some device \<Rightarrow>
         bnd (lift_res (device_curve25519 device)) (\<lambda>ck.
         bnd (on_sessions (SessionStore_get ck)) (\<lambda>session.
         let recent = (case session of None \<Rightarrow> False | Some x \<Rightarrow> now - se_creation_time x < unwedging_interval) in
         if recent then ret ()
         else modify (\<lambda>s. if device_ref device \<in> set (om_wedged_devices s) then s
                else s \<lparr> om_wedged_devices := om_wedged_devices s @ [device_ref device] \<rparr>))))"

section \<open>Messages that were sent\<close>

fun queue_re_requests :: "megolm_event list \<Rightarrow> string list \<Rightarrow> ('a, 's, 'g, 'o, 'c, 'e, unit) olm_op" where
  "queue_re_requests [] requested_sessions = ret ()"
| "queue_re_requests (event # es) requested_sessions =
     (if mg_session_id event \<in> set requested_sessions then queue_re_requests es requested_sessions
      else
        bnd (reads om_device_id) (\<lambda>own.
        bnd (lift_res (as_key_request event (mg_sender event) own (mg_session_id event) (mg_device_id event))) (\<lambda>m.
        andthen (queue_message m)
        (queue_re_requests es (requested_sessions @ [mg_session_id event])))))"

definition add_key_request :: "outgoing_key_request \<Rightarrow> ('a, 's, 'g, 'o, 'c, 'e, unit) olm_op" where
  "add_key_request r =
     andthen (modify (\<lambda>s. s \<lparr> om_outgoing_key_requests := dset (om_outgoing_key_requests s) (okr_request_id r) r \<rparr>))
     (on_store (add_outgoing_key_request r))"

definition mark_to_device_message_as_sent :: "to_device_message \<Rightarrow> ('a, 's, 'g, 'o, 'c, 'e, unit) olm_op" where
  "mark_to_device_message_as_sent message =
     bnd (reads (\<lambda>s. message \<in> set (om_outgoing_to_device_messages s))) (\<lambda>queued.
     if \<not> queued then ret ()
     else
       andthen (modify (\<lambda>s. s \<lparr> om_outgoing_to_device_messages :=
         remove1 message (om_outgoing_to_device_messages s) \<rparr>))
       (case tm_kind message of
          DummyMessage \<Rightarrow>
            (let target = (tm_recipient message, tm_recipient_device message) in
             bnd (reads (\<lambda>s. dget_or (om_key_re_requests_events s) target [])) (\<lambda>es.
             andthen (modify (\<lambda>s. s \<lparr> om_key_re_requests_events := ddel (om_key_re_requests_events s) target \<rparr>))
             (queue_re_requests es [])))
        | RoomKeyRequestMessage r \<Rightarrow> add_key_request r
        | PlainMessage \<Rightarrow> ret ()))"

text \<open>The responses the machine is told about.\<close>

datatype olm_response =
    KeysUploadResponse int
  | KeysQueryResponse jobj "string set option"
  | KeysClaimResponse json
  | RoomKeyRequestResponse outgoing_key_request
  | ToDeviceResponse to_device_message

definition handle_response ::
  "('a, 's, 'g, 'o, 'm) vodozemac_olm \<Rightarrow> int \<Rightarrow> olm_response \<Rightarrow> ('a, 's, 'g, 'o, 'c, 'e, unit) olm_op" where
  "handle_response lib now response =
     (case response of
        KeysUploadResponse n \<Rightarrow> handle_keys_upload lib n
      | KeysQueryResponse keys queried \<Rightarrow> bnd (handle_key_query lib keys queried) (\<lambda>_. ret ())
      | KeysClaimResponse keys \<Rightarrow> handle_key_claiming lib now keys
      | RoomKeyRequestResponse r \<Rightarrow> add_key_request r
      | ToDeviceResponse m \<Rightarrow> mark_to_device_message_as_sent m)"

end
