(* ===== verification/Nio_Olm_Decrypt.thy ===== *)
theory Nio_Olm_Decrypt
  imports Nio_Olm_Keys Durable_Model
begin

text \<open>
  Decryption in \<^verbatim>\<open>src/nio/crypto/olm_machine.py\<close>: messages of other devices, with the room keys
  they carry, and room messages. \<open>loads\<close> is \<^verbatim>\<open>json.loads\<close>; \<open>cache\<close> are the operations of the
  \<^verbatim>\<open>LRUCache\<close> that protects against replays.
\<close>

section \<open>Decrypted text\<close>

fun weight :: "json \<Rightarrow> nat" where
  "weight (JArr xs) = Suc (sum_list (map weight xs))"
| "weight (JObj d) = Suc (sum_list (map (\<lambda>p. weight (snd p)) d))"
| "weight v = 1"

definition children :: "json \<Rightarrow> json list option" where
  "children v = (case v of JObj d \<Rightarrow> Some (dvalues d) | JArr xs \<Rightarrow> Some xs | _ \<Rightarrow> None)"

lemma children_weight: "children v = Some cs \<Longrightarrow> sum_list (map weight cs) < weight v"
  by (cases v) (auto simp: children_def comp_def)

text \<open>The stack of \<^verbatim>\<open>_nesting_exceeds\<close>, its top first.\<close>

function nesting_loop :: "nat \<Rightarrow> (json \<times> nat) list \<Rightarrow> bool" where
  "nesting_loop limit [] = False"
| "nesting_loop limit ((v, depth) # stack) =
     (case children v of
        None \<Rightarrow> nesting_loop limit stack
      | Some cs \<Rightarrow>
          if limit < depth then True
          else nesting_loop limit (rev (map (\<lambda>c. (c, Suc depth)) cs) @ stack))"
  by pat_completeness auto
termination
proof (relation "measure (\<lambda>(limit, stack). sum_list (map (weight \<circ> fst) stack))")
  fix limit v depth stack
  have "0 < weight v" by (cases v) auto
  then show "((limit, stack), (limit, (v, depth) # stack)) \<in> measure (\<lambda>(limit, stack). sum_list (map (weight \<circ> fst) stack))"
    by simp
next
  fix limit v depth stack and cs :: "json list"
  assume "children v = Some cs"
  from children_weight[OF this] show
    "((limit, rev (map (\<lambda>c. (c, Suc depth)) cs) @ stack), (limit, (v, depth) # stack))
       \<in> measure (\<lambda>(limit, stack). sum_list (map (weight \<circ> fst) stack))"
    by (simp add: comp_def rev_map[symmetric])
qed simp

definition max_decrypted_nesting :: nat where
  "max_decrypted_nesting = 128"

definition nesting_exceeds :: "json \<Rightarrow> nat \<Rightarrow> bool" where
  "nesting_exceeds v limit = nesting_loop limit [(v, 1)]"

text \<open>An unpaired surrogate is the three bytes UTF-8 would use for it, which no encoder writes.\<close>

definition has_surrogate :: "string \<Rightarrow> bool" where
  "has_surrogate s =
     search (\<lambda>t. case t of c # d # _ \<Rightarrow> c = CHR 0xED \<and> 160 \<le> byte_of d | _ \<Rightarrow> False) s"

fun writable :: "json \<Rightarrow> bool" where
  "writable (JFloat t) = (t \<notin> {''NaN'', ''Infinity'', ''-Infinity''})"
| "writable (JStr s) = (\<not> has_surrogate s)"
| "writable (JArr xs) = list_all writable xs"
| "writable (JObj d) = list_all (\<lambda>p. \<not> has_surrogate (fst p) \<and> writable (snd p)) d"
| "writable v = True"

text \<open>Every failure is a \<^verbatim>\<open>ValueError\<close>, a \<^verbatim>\<open>RecursionError\<close> of the parser too.\<close>

definition parse_decrypted_json :: "(string \<Rightarrow> json option) \<Rightarrow> string \<Rightarrow> exn + json" where
  "parse_decrypted_json loads plaintext =
     (case loads plaintext of
        None \<Rightarrow> Inl (ValueError ''not JSON'')
      | Some v \<Rightarrow>
          if nesting_exceeds v max_decrypted_nesting then Inl (ValueError ''payload is nested too deeply'')
          else if \<not> writable v then Inl (ValueError ''not writable'')
          else Inr v)"

section \<open>Room keys\<close>

datatype decrypted_olm =
    NoEvent
  | BadOlmEvent event
  | OlmToDevice to_device_event
  | AuthenticatedToDevice to_device_event authenticated_device

definition of_parsed :: "to_device_event parsed \<Rightarrow> decrypted_olm" where
  "of_parsed p = (case p of Ignored \<Rightarrow> NoEvent | Bad e \<Rightarrow> BadOlmEvent e | Parsed e \<Rightarrow> OlmToDevice e)"

definition store_group_session ::
  "('a, 's, 'g, 'o, 'm) vodozemac_olm \<Rightarrow> 'g group_session \<Rightarrow> ('a, 's, 'g, 'o, 'c, 'e, unit) olm_op" where
  "store_group_session lib session =
     andthen (modify (\<lambda>s. s \<lparr> om_inbound_group_store :=
       GroupSessionStore_add (vo_group_id lib) session (om_inbound_group_store s) \<rparr>))
     (on_store (save_inbound_group_session (vo_group_id lib) session))"

definition create_group_session ::
  "('a, 's, 'g, 'o, 'm) vodozemac_olm \<Rightarrow> string \<Rightarrow> string \<Rightarrow> string \<Rightarrow> string \<Rightarrow> json \<Rightarrow>
   ('a, 's, 'g, 'o, 'c, 'e, unit) olm_op" where
  "create_group_session lib sender_key sender_fp_key room_id session_id session_key =
     (case vo_group_new lib session_key of
        Inl (VodozemacError c) \<Rightarrow> if c = ''SessionCreationException'' then ret () else raise (VodozemacError c)
      | Inl e \<Rightarrow> raise e
      | Inr g \<Rightarrow>
          if vo_group_id lib g \<noteq> session_id then ret ()
          else store_group_session lib
            \<lparr> gs_session = g, gs_ed25519 = sender_fp_key, gs_sender_key = sender_key, gs_room_id = room_id,
              gs_forwarding_chain = [] \<rparr>)"

definition import_group_session ::
  "('a, 's, 'g, 'o, 'm) vodozemac_olm \<Rightarrow> json \<Rightarrow> string \<Rightarrow> string \<Rightarrow> string \<Rightarrow> string list \<Rightarrow> exn + 'g group_session option" where
  "import_group_session lib session_key sender_fp_key sender_key room_id forwarding_chain =
     (case vo_group_import lib session_key of
        Inl (VodozemacError c) \<Rightarrow>
          if c = ''SessionKeyDecodeException'' then Inr None else Inl (VodozemacError c)
      | Inl e \<Rightarrow> Inl e
      | Inr g \<Rightarrow> Inr (Some
          \<lparr> gs_session = g, gs_ed25519 = sender_fp_key, gs_sender_key = sender_key, gs_room_id = room_id,
            gs_forwarding_chain = forwarding_chain \<rparr>))"

definition str_item :: "json \<Rightarrow> string \<Rightarrow> exn + string" where
  "str_item v k = rbind (item v k) str_value"

definition handle_room_key_event ::
  "('a, 's, 'g, 'o, 'm) vodozemac_olm \<Rightarrow> validator \<Rightarrow> string \<Rightarrow> string \<Rightarrow> json \<Rightarrow>
   ('a, 's, 'g, 'o, 'c, 'e, decrypted_olm) olm_op" where
  "handle_room_key_event lib validate sender sender_key payload =
     bnd (lift_res (RoomKeyEvent_from_dict validate payload sender sender_key)) (\<lambda>p.
     case p of
       Parsed event \<Rightarrow>
         (case td_body event of
            RoomKeyEvent _ _ _ algorithm \<Rightarrow>
              bnd (lift_res (item payload ''content'')) (\<lambda>content.
              if algorithm \<noteq> JStr megolm_algorithm then ret (OlmToDevice event)
              else
                bnd (lift_res (rbind (item payload ''keys'') (\<lambda>k. get_or k ''ed25519'' JNull))) (\<lambda>fp.
                if \<not> truthy fp then ret NoEvent
                else
                  bnd (lift_res (str_value fp)) (\<lambda>fp.
                  bnd (lift_res (str_item content ''room_id'')) (\<lambda>room_id.
                  bnd (lift_res (str_item content ''session_id'')) (\<lambda>session_id.
                  bnd (lift_res (item content ''session_key'')) (\<lambda>session_key.
                  andthen (create_group_session lib sender_key fp room_id session_id session_key)
                  (ret (OlmToDevice event))))))))
          | _ \<Rightarrow> ret NoEvent)
     | _ \<Rightarrow> ret (of_parsed p))"

definition should_accept_forward ::
  "string \<Rightarrow> json \<Rightarrow> json \<Rightarrow> json \<Rightarrow> string \<Rightarrow> ('a, 's, 'g, 'o, 'c, 'e, bool) olm_op" where
  "should_accept_forward sender_key algorithm room_id session_id sender =
     (if algorithm \<noteq> JStr megolm_algorithm then ret False
      else
        bnd (reads (\<lambda>s. case session_id of JStr i \<Rightarrow> dget (om_outgoing_key_requests s) i | _ \<Rightarrow> None)) (\<lambda>found.
        case found of
          None \<Rightarrow> ret False
        | Some r \<Rightarrow>
            if algorithm \<noteq> JStr (okr_algorithm r) \<or> room_id \<noteq> jstr_opt (okr_room_id r)
               \<or> session_id \<noteq> JStr (okr_session_id r)
            then ret False
            else
              bnd (on_devices (device_from_sender_key sender sender_key)) (\<lambda>device.
              reads (\<lambda>s. case device of
                None \<Rightarrow> False
              | Some d \<Rightarrow> device_verified d \<and> od_user_id d = om_user_id s))))"

definition handle_forwarded_room_key_event ::
  "('a, 's, 'g, 'o, 'm) vodozemac_olm \<Rightarrow> validator \<Rightarrow> string \<Rightarrow> string \<Rightarrow> json \<Rightarrow>
   ('a, 's, 'g, 'o, 'c, 'e, decrypted_olm) olm_op" where
  "handle_forwarded_room_key_event lib validate sender sender_key payload =
     bnd (lift_res (ForwardedRoomKeyEvent_from_dict validate payload sender sender_key)) (\<lambda>p.
     case p of
       Parsed event \<Rightarrow>
         (case td_body event of
            ForwardedRoomKeyEvent _ room_id session_id algorithm \<Rightarrow>
              bnd (should_accept_forward sender_key algorithm room_id session_id sender) (\<lambda>accept.
              if \<not> accept then ret NoEvent
              else
                bnd (lift_res (item payload ''content'')) (\<lambda>content.
                bnd (lift_res (str_item content ''sender_key'')) (\<lambda>session_sender_key.
                bnd (lift_res (str_item content ''sender_claimed_ed25519_key'')) (\<lambda>signing_key.
                bnd (lift_res (rbind (item content ''forwarding_curve25519_key_chain'') (\<lambda>c.
                       case c of JArr xs \<Rightarrow> rmap str_value xs | _ \<Rightarrow> Inl (AttributeError ''append'')))) (\<lambda>chain.
                bnd (lift_res (item content ''session_key'')) (\<lambda>session_key.
                bnd (lift_res (str_value room_id)) (\<lambda>room.
                bnd (lift_res (str_value session_id)) (\<lambda>i.
                bnd (lift_res (import_group_session lib session_key signing_key session_sender_key room
                       (chain @ [session_sender_key]))) (\<lambda>session.
                case session of
                  None \<Rightarrow> ret NoEvent
                | Some x \<Rightarrow>
                    andthen (store_group_session lib x)
                    (bnd (reads (\<lambda>s. (dget (om_outgoing_key_requests s) i, om_user_id s, om_device_id s))) (\<lambda>(found, user, device).
                     case found of
                       None \<Rightarrow> raise (KeyError i)
                     | Some r \<Rightarrow>
                         andthen (modify (\<lambda>s. s \<lparr> om_outgoing_key_requests := ddel (om_outgoing_key_requests s) i \<rparr>))
                         (andthen (on_store (remove_outgoing_key_request r))
                         (andthen (queue_message (as_cancellation r user device))
                         (ret (OlmToDevice event)))))))))))))))
          | _ \<Rightarrow> ret NoEvent)
     | _ \<Rightarrow> ret (of_parsed p))"

section \<open>Payloads of Olm messages\<close>

definition Schemas_olm_event :: schema where
  "Schemas_olm_event =
     Schema [
       Type [''object''],
       Properties [
         (''sender'', Schema [Type [''string''], Format ''user_id'']),
         (''sender_device'', Schema [Type [''string'']]),
         (''keys'', Schema [Type [''object''], Properties [(''ed25519'', Schema [Type [''string'']])]]),
         (''recipient'', Schema [Type [''string''], Format ''user_id'']),
         (''recipient_keys'', Schema [Type [''object''], Properties [(''ed25519'', Schema [Type [''string'']])]]),
         (''type'', Schema [Type [''string'']]),
         (''content'', Schema [Type [''object'']])],
       Required [''type'', ''sender'', ''keys'', ''recipient'', ''recipient_keys'', ''content'']]"

definition verify_olm_payload ::
  "('a, 's, 'g, 'o, 'm) vodozemac_olm \<Rightarrow> string \<Rightarrow> json \<Rightarrow> ('a, 's, 'g, 'o, 'c, 'e) olm \<Rightarrow> exn + unit" where
  "verify_olm_payload lib sender payload s =
     rbind (item payload ''sender'') (\<lambda>p_sender.
     if JStr sender \<noteq> p_sender then Inl (VerificationError ''Mismatched sender'')
     else
       rbind (item payload ''recipient'') (\<lambda>recipient.
       if JStr (om_user_id s) \<noteq> recipient then Inl (VerificationError ''Mismatched recipient'')
       else
         rbind (rbind (item payload ''recipient_keys'') (\<lambda>k. item k ''ed25519'')) (\<lambda>key.
         if JStr (vo_ed25519 lib (oa_account (om_account s))) \<noteq> key
         then Inl (VerificationError ''Mismatched recipient key'')
         else Inr ())))"

text \<open>Custom events: the device that must have sent one, if its keys are known and match.\<close>

definition pass_through ::
  "string \<Rightarrow> string \<Rightarrow> json \<Rightarrow> ('a, 's, 'g, 'o, 'c, 'e, decrypted_olm) olm_op" where
  "pass_through sender sender_key payload =
     bnd (lift_res (UnknownToDeviceEvent_from_dict payload)) (\<lambda>p.
     case p of
       Parsed event \<Rightarrow>
         bnd (on_devices (active_user_devices sender)) (\<lambda>active.
         bnd (lift_res (rmap (\<lambda>d. rbind (device_curve25519 d) (\<lambda>k. Inr (d, k))) active)) (\<lambda>keyed.
         let matching = map fst (filter (\<lambda>(d, k). k = sender_key) keyed);
             unauthenticated = andthen (add_user_for_query sender) (ret (OlmToDevice event)) in
         case matching of
           [device] \<Rightarrow>
             bnd (lift_res (get_or payload ''sender_device'' (JStr (od_device_id device)))) (\<lambda>sender_device.
             if sender_device \<noteq> JStr (od_device_id device) then unauthenticated
             else
               bnd (lift_res (rbind (get_or payload ''keys'' (JObj [])) (\<lambda>k. get_or k ''ed25519'' JNull))) (\<lambda>key.
               bnd (lift_res (device_ed25519 device)) (\<lambda>fp.
               if key \<noteq> JStr fp then unauthenticated
               else if sender = [] \<or> od_device_id device = [] \<or> sender_key = [] \<or> fp = []
               then raise (ValueError ''authenticated device identity requires nonempty strings'')
               else ret (AuthenticatedToDevice event
                 \<lparr> ad_user_id = sender, ad_device_id = od_device_id device, ad_curve25519 = sender_key,
                   ad_ed25519 = fp \<rparr>))))
         | _ \<Rightarrow> unauthenticated))
     | _ \<Rightarrow> ret (of_parsed p))"

definition handle_olm_event ::
  "('a, 's, 'g, 'o, 'm) vodozemac_olm \<Rightarrow> validator \<Rightarrow> string \<Rightarrow> string \<Rightarrow> json \<Rightarrow>
   ('a, 's, 'g, 'o, 'c, 'e, decrypted_olm) olm_op" where
  "handle_olm_event lib validate sender sender_key payload =
     bnd (lift_res (item payload ''type'')) (\<lambda>t.
     if t = JStr ''m.room_key'' then handle_room_key_event lib validate sender sender_key payload
     else if t = JStr ''m.forwarded_room_key'' then
       handle_forwarded_room_key_event lib validate sender sender_key payload
     else if t = JStr ''m.dummy'' then
       bnd (lift_res (DummyEvent_from_dict validate payload sender sender_key)) (\<lambda>p. ret (of_parsed p))
     else pass_through sender sender_key payload)"

definition handle_plaintext ::
  "('a, 's, 'g, 'o, 'm) vodozemac_olm \<Rightarrow> validator \<Rightarrow> (string \<Rightarrow> json option) \<Rightarrow> string \<Rightarrow> string \<Rightarrow> string \<Rightarrow>
   ('a, 's, 'g, 'o, 'c, 'e, decrypted_olm) olm_op" where
  "handle_plaintext lib validate loads sender sender_key plaintext =
     (case parse_decrypted_json loads plaintext of
        Inl _ \<Rightarrow> ret NoEvent
      | Inr parsed \<Rightarrow>
          (case validate Schemas_olm_event parsed of (ok, payload) \<Rightarrow>
             if \<not> ok then ret NoEvent
             else
               bnd (reads (verify_olm_payload lib sender payload)) (\<lambda>r.
               case r of
                 Inl (VerificationError _) \<Rightarrow> ret NoEvent
               | Inl e \<Rightarrow> raise e
               | Inr _ \<Rightarrow> handle_olm_event lib validate sender sender_key payload)))"

section \<open>Decrypting Olm messages\<close>

definition decrypt_failure :: "exn \<Rightarrow> bool" where
  "decrypt_failure e = (e = VodozemacError ''OlmDecryptionException'' \<or> e = VodozemacError ''DecodeException'')"

fun try_sessions ::
  "('a, 's, 'g, 'o, 'm) vodozemac_olm \<Rightarrow> int \<Rightarrow> string \<Rightarrow> 'm \<Rightarrow> 's session list \<Rightarrow>
   ('a, 's, 'g, 'o, 'c, 'e, string option) olm_op" where
  "try_sessions lib now sender_key message [] = ret None"
| "try_sessions lib now sender_key message (session # rest) =
     (let matches = vo_is_prekey lib message \<and> vo_matches lib (se_session session) message in
      if vo_is_prekey lib message \<and> \<not> matches then try_sessions lib now sender_key message rest
      else
        (case vo_decrypt lib (se_session session) message of (r, x) \<Rightarrow>
           let used = session \<lparr> se_session := x, se_use_time := now \<rparr> in
           andthen (change_session sender_key session used)
           (case r of
              Inr plaintext \<Rightarrow>
                andthen (on_store (save_session (vo_session_id lib) sender_key used)) (ret (Some plaintext))
            | Inl e \<Rightarrow>
                if \<not> decrypt_failure e then raise e
                else if matches then raise (EncryptionError ''Decryption failed for matching session'')
                else try_sessions lib now sender_key message rest)))"

definition try_decrypt ::
  "('a, 's, 'g, 'o, 'm) vodozemac_olm \<Rightarrow> int \<Rightarrow> string \<Rightarrow> 'm \<Rightarrow> ('a, 's, 'g, 'o, 'c, 'e, string option) olm_op" where
  "try_decrypt lib now sender_key message =
     bnd (on_sessions (SessionStore_getitem sender_key)) (try_sessions lib now sender_key message)"

text \<open>A new session from a message that starts one: None if it was refused.\<close>

definition new_inbound_session ::
  "('a, 's, 'g, 'o, 'm) vodozemac_olm \<Rightarrow> int \<Rightarrow> string \<Rightarrow> 'm \<Rightarrow> ('a, 's, 'g, 'o, 'c, 'e, string option) olm_op" where
  "new_inbound_session lib now sender_key message =
     bnd (reads (\<lambda>s. vo_create_inbound lib (oa_account (om_account s)) sender_key message)) (\<lambda>res.
     andthen (modify (\<lambda>s. s \<lparr> om_account := (om_account s) \<lparr> oa_account := snd res \<rparr> \<rparr>))
     (case fst res of
        Inl e \<Rightarrow>
          if decrypt_failure e \<or> e = VodozemacError ''SessionCreationException'' then ret None else raise e
      | Inr (x, plaintext) \<Rightarrow>
          (let session = \<lparr> se_session = x, se_creation_time = now, se_use_time = now \<rparr> in
           andthen (modify (\<lambda>s. s \<lparr> om_session_store := SessionStore_add sender_key session (om_session_store s) \<rparr>))
           (andthen (on_store (save_session (vo_session_id lib) sender_key session))
           (andthen save_account_now
           (ret (Some plaintext)))))))"

definition decrypt_olm ::
  "('a, 's, 'g, 'o, 'm) vodozemac_olm \<Rightarrow> validator \<Rightarrow> (string \<Rightarrow> json option) \<Rightarrow> int \<Rightarrow> string \<Rightarrow> string \<Rightarrow> 'm \<Rightarrow>
   ('a, 's, 'g, 'o, 'c, 'e, decrypted_olm) olm_op" where
  "decrypt_olm lib validate loads now sender sender_key message =
     bnd (catching (bnd (try_decrypt lib now sender_key message) (\<lambda>p. ret (Some p)))
            (\<lambda>e. case e of EncryptionError _ \<Rightarrow> Some (ret None) | _ \<Rightarrow> None)) (\<lambda>tried.
     let give_up = andthen (mark_device_for_unwedging now sender sender_key) (ret NoEvent) in
     case tried of
       None \<Rightarrow> give_up
     | Some (Some plaintext) \<Rightarrow> handle_plaintext lib validate loads sender sender_key plaintext
     | Some None \<Rightarrow>
         if \<not> vo_is_prekey lib message then give_up
         else
           bnd (new_inbound_session lib now sender_key message) (\<lambda>made.
           case made of
             None \<Rightarrow> give_up
           | Some plaintext \<Rightarrow> handle_plaintext lib validate loads sender sender_key plaintext))"

text \<open>\<^verbatim>\<open>v == n\<close> for a Python integer: booleans and floats compare by value.\<close>

definition equals_int :: "json \<Rightarrow> nat \<Rightarrow> bool" where
  "equals_int v n =
     (case v of
        JInt i \<Rightarrow> i = int n
      | JBool b \<Rightarrow> n = (if b then 1 else 0)
      | JFloat t \<Rightarrow> t = nat_dec n @ ''.0'' \<or> n = 0 \<and> t = ''-0.0''
      | _ \<Rightarrow> False)"

definition decrypt_olm_event ::
  "('a, 's, 'g, 'o, 'm) vodozemac_olm \<Rightarrow> validator \<Rightarrow> (string \<Rightarrow> json option) \<Rightarrow> int \<Rightarrow> string \<Rightarrow> string \<Rightarrow> json \<Rightarrow>
   ('a, 's, 'g, 'o, 'c, 'e, decrypted_olm) olm_op" where
  "decrypt_olm_event lib validate loads now sender sender_key ciphertext =
     bnd (reads (\<lambda>s. vo_curve25519 lib (oa_account (om_account s)))) (\<lambda>own_key.
     case item ciphertext own_key of
       Inl (KeyError _) \<Rightarrow> ret NoEvent
     | Inl e \<Rightarrow> raise e
     | Inr own \<Rightarrow>
         bnd (lift_res (item own ''type'')) (\<lambda>t.
         if equals_int t 0 then
           bnd (lift_res (rbind (item own ''body'') (vo_prekey_message lib)))
             (decrypt_olm lib validate loads now sender sender_key)
         else if equals_int t 1 then
           bnd (lift_res (rbind (item own ''body'') (vo_normal_message lib)))
             (decrypt_olm lib validate loads now sender sender_key)
         else ret NoEvent))"

section \<open>Decrypting room messages\<close>

record 'c index_cache =
  ic_get :: "'c \<Rightarrow> index_key \<Rightarrow> index_entry option \<times> 'c"
  ic_put :: "'c \<Rightarrow> index_key \<Rightarrow> index_entry \<Rightarrow> 'c"

definition message_index_ok ::
  "'c index_cache \<Rightarrow> int \<Rightarrow> megolm_event \<Rightarrow> ('a, 's, 'g, 'o, 'c, 'e, bool) olm_op" where
  "message_index_ok cache message_index event s =
     (let store_key = (mg_sender_key event, mg_session_id event, message_index);
          entry = (mg_event_id event, mg_server_timestamp event) in
      case ic_get cache (om_message_index_store s) store_key of
        (None, c) \<Rightarrow> (Inr True, s \<lparr> om_message_index_store := ic_put cache c store_key entry \<rparr>)
      | (Some found, c) \<Rightarrow> (Inr (found = entry), s \<lparr> om_message_index_store := c \<rparr>))"

definition check_if_wedged :: "int \<Rightarrow> megolm_event \<Rightarrow> ('a, 's, 'g, 'o, 'c, 'e, unit) olm_op" where
  "check_if_wedged now event =
     bnd (catching (bnd (device_item (mg_sender event) (mg_device_id event)) (\<lambda>d. ret (Some d)))
            (\<lambda>e. case e of KeyError _ \<Rightarrow> Some (ret None) | _ \<Rightarrow> None)) (\<lambda>found.
     case found of
       None \<Rightarrow> add_user_for_query (mg_sender event)
     | Some device \<Rightarrow>
         bnd (lift_res (device_curve25519 device)) (\<lambda>ck.
         bnd (on_sessions (SessionStore_get ck)) (\<lambda>session.
         case session of
           None \<Rightarrow> ret ()
         | Some x \<Rightarrow>
             andthen
               (bnd (reads id) (\<lambda>s.
                if now - se_creation_time x < unwedging_interval \<and> dget (om_outgoing_key_requests s) (mg_session_id event) = None
                then
                  bnd (lift_res (as_key_request event (mg_sender event) (om_device_id s) (mg_session_id event) (mg_device_id event)))
                    queue_message
                else ret ()))
               (modify (\<lambda>s.
                  if device_ref device \<in> set (om_wedged_devices s)
                  then s \<lparr> om_key_re_requests_events := dset (om_key_re_requests_events s) (device_ref device)
                         (dget_or (om_key_re_requests_events s) (device_ref device) [] @ [event]) \<rparr>
                  else s)))))"

text \<open>Whether the event counts as sent by a verified device.\<close>

definition event_verified ::
  "('a, 's, 'g, 'o, 'm) vodozemac_olm \<Rightarrow> megolm_event \<Rightarrow> 'g group_session \<Rightarrow> ('a, 's, 'g, 'o, 'c, 'e, bool) olm_op" where
  "event_verified lib event session =
     bnd (reads id) (\<lambda>s.
     let account = oa_account (om_account s) in
     if mg_sender event = om_user_id s \<and> mg_device_id event = om_device_id s
        \<and> gs_ed25519 session = vo_ed25519 lib account \<and> mg_sender_key event = vo_curve25519 lib account
     then ret True
     else
       bnd (catching (bnd (device_item (mg_sender event) (mg_device_id event)) (\<lambda>d. ret (Some d)))
              (\<lambda>e. case e of KeyError _ \<Rightarrow> Some (ret None) | _ \<Rightarrow> None)) (\<lambda>found.
       case found of
         None \<Rightarrow> andthen (add_user_for_query (mg_sender event)) (ret False)
       | Some device \<Rightarrow>
           bnd (reads (\<lambda>s. is_device_verified (om_store s) device \<and> gs_forwarding_chain session = [])) (\<lambda>b.
           if \<not> b then ret False
           else
             bnd (lift_res (device_ed25519 device)) (\<lambda>fp.
             if fp \<noteq> gs_ed25519 session then raise (EncryptionError ''Device keys mismatch'')
             else
               bnd (lift_res (device_curve25519 device)) (\<lambda>ck.
               if ck \<noteq> mg_sender_key event then raise (EncryptionError ''Device keys mismatch'')
               else ret True)))))"

text \<open>The payload with the fields of the wire event, which the server vouches for.\<close>

definition strip_wire_fields :: "jobj \<Rightarrow> jobj" where
  "strip_wire_fields d = foldl ddel d [''event_id'', ''sender'', ''origin_server_ts'', ''unsigned'']"

definition with_relation :: "megolm_event \<Rightarrow> json \<Rightarrow> exn + json" where
  "with_relation event content =
     rbind (contains ''m.relates_to'' content) (\<lambda>b.
     if b then Inr content
     else
       case rbind (item (JObj (mg_source event)) ''content'') (\<lambda>c. item c ''m.relates_to'') of
         Inr r \<Rightarrow> Inr (set_item content ''m.relates_to'' r)
       | Inl (KeyError _) \<Rightarrow> Inr content
       | Inl e \<Rightarrow> Inl e)"

definition with_wire_fields :: "megolm_event \<Rightarrow> json \<Rightarrow> exn + json" where
  "with_wire_fields event v =
     (let v1 = set_item v ''event_id'' (JStr (mg_event_id event)) in
      rbind (item v1 ''content'') (\<lambda>content.
      rbind (with_relation event content) (\<lambda>content'.
      let v2 = set_item v1 ''content'' content';
          v3 = set_item v2 ''sender'' (JStr (mg_sender event));
          v4 = set_item v3 ''origin_server_ts'' (JInt (mg_server_timestamp event))
      in Inr (case mg_transaction_id event of
                Some t \<Rightarrow> if t = [] then v4 else set_item v4 ''unsigned'' (JObj [(''transaction_id'', JStr t)])
              | None \<Rightarrow> v4))))"

definition parse_payload ::
  "validator \<Rightarrow> (string \<Rightarrow> json option) \<Rightarrow> megolm_event \<Rightarrow> bool \<Rightarrow> string \<Rightarrow> exn + event" where
  "parse_payload validate loads event trusted plaintext =
     (case parse_decrypted_json loads plaintext of
        Inl (ValueError _) \<Rightarrow> Inl (EncryptionError ''Error parsing payload'')
      | Inl e \<Rightarrow> Inl e
      | Inr parsed \<Rightarrow>
          (case parsed of
             JObj d \<Rightarrow>
               (case validate Schemas_room_megolm_decrypted (JObj (strip_wire_fields d)) of (ok, v) \<Rightarrow>
                  if \<not> ok then bad_event v
                  else
                    rbind (with_wire_fields event v) (\<lambda>w.
                    rbind (parse_decrypted_event validate w) (\<lambda>e.
                    if e_body e = UnknownBadEvent then Inr e
                    else Inr (e \<lparr> e_decrypted := True, e_verified := trusted,
                               e_sender_key := JStr (mg_sender_key event),
                               e_session_id := JStr (mg_session_id event) \<rparr>))))
           | _ \<Rightarrow> Inl (EncryptionError ''Error parsing payload: not a JSON object'')))"

definition group_decrypt ::
  "('a, 's, 'g, 'o, 'm) vodozemac_olm \<Rightarrow> string \<Rightarrow> megolm_event \<Rightarrow> 'g group_session \<Rightarrow>
   ('a, 's, 'g, 'o, 'c, 'e, string \<times> int) olm_op" where
  "group_decrypt lib room_id event session =
     (case vo_group_decrypt lib (gs_session session) (mg_ciphertext event) of (r, g) \<Rightarrow>
        andthen (modify (\<lambda>s. s \<lparr> om_inbound_group_store :=
          set_sender_sessions room_id (mg_sender_key event)
            (dset (sender_sessions room_id (mg_sender_key event) (om_inbound_group_store s)) (mg_session_id event)
               (session \<lparr> gs_session := g \<rparr>))
            (om_inbound_group_store s) \<rparr>))
        (case r of
           Inr p \<Rightarrow> ret p
         | Inl e \<Rightarrow>
             if e = VodozemacError ''MegolmDecryptionException'' \<or> e = VodozemacError ''DecodeException''
             then raise (EncryptionError ''Error decrypting megolm event'') else raise e))"

text \<open>The decrypted event with the room id it is given.\<close>

definition decrypt_megolm_event ::
  "('a, 's, 'g, 'o, 'm) vodozemac_olm \<Rightarrow> validator \<Rightarrow> (string \<Rightarrow> json option) \<Rightarrow> 'c index_cache \<Rightarrow> int \<Rightarrow>
   megolm_event \<Rightarrow> string option \<Rightarrow> ('a, 's, 'g, 'o, 'c, 'e, event \<times> string) olm_op" where
  "decrypt_megolm_event lib validate loads cache now event room_id =
     (let given = (case room_id of Some r \<Rightarrow> if r = [] then mg_room_id event else Some r | None \<Rightarrow> mg_room_id event);
          room = (case given of Some r \<Rightarrow> r | None \<Rightarrow> []) in
      if room = [] then raise (EncryptionError ''no room id'')
      else if mg_sender_key event = [] \<or> mg_session_id event = [] then raise (AssertionError ''megolm event'')
      else
        bnd (on_groups (GroupSessionStore_get room (mg_sender_key event) (mg_session_id event))) (\<lambda>found.
        case found of
          None \<Rightarrow> andthen (check_if_wedged now event) (raise (EncryptionError ''no session found''))
        | Some session \<Rightarrow>
            bnd (group_decrypt lib room event session) (\<lambda>(plaintext, message_index).
            bnd (message_index_ok cache message_index event) (\<lambda>ok.
            if \<not> ok then raise (EncryptionError ''Duplicate message index, possible replay attack'')
            else
              bnd (event_verified lib event session) (\<lambda>trusted.
              bnd (lift_res (parse_payload validate loads event trusted plaintext)) (\<lambda>e.
              ret (e, room)))))))"

text \<open>\<^verbatim>\<open>decrypt_event\<close> of a room message, and \<^verbatim>\<open>_decrypt_megolm_no_error\<close>.\<close>

definition decrypt_megolm_no_error ::
  "('a, 's, 'g, 'o, 'm) vodozemac_olm \<Rightarrow> validator \<Rightarrow> (string \<Rightarrow> json option) \<Rightarrow> 'c index_cache \<Rightarrow> int \<Rightarrow>
   megolm_event \<Rightarrow> string option \<Rightarrow> ('a, 's, 'g, 'o, 'c, 'e, (event \<times> string) option) olm_op" where
  "decrypt_megolm_no_error lib validate loads cache now event room_id =
     catching (bnd (decrypt_megolm_event lib validate loads cache now event room_id) (\<lambda>e. ret (Some e)))
       (\<lambda>e. case e of EncryptionError _ \<Rightarrow> Some (ret None) | _ \<Rightarrow> None)"

end
