(* ===== verification/Nio_Olm_Send.thy ===== *)
theory Nio_Olm_Send
  imports Nio_Olm_Decrypt
begin

text \<open>
  Encrypting for a room in \<^verbatim>\<open>src/nio/crypto/olm_machine.py\<close>, and the sharing of the key of a
  room with the devices of its members. A new \<^verbatim>\<open>vodozemac.GroupSession\<close> is random, so it is
  the argument \<open>fresh\<close>; no operation makes two. A session that was looked up for a device is
  looked up again when it is used: it is the first of its list both times, since encrypting does
  not sort the list again.
\<close>

section \<open>Outbound group sessions\<close>

definition max_messages :: int where
  "max_messages = 100"

definition max_age :: int where
  "max_age = 7 * 24 * 3600 * 1000000"

definition should_rotate :: "int \<Rightarrow> 'o outbound_group_session \<Rightarrow> bool" where
  "should_rotate now session =
     (max_messages \<le> og_message_count session \<or> max_age \<le> now - og_creation_time session)"

definition OutboundGroupSession :: "int \<Rightarrow> 'o \<Rightarrow> 'o outbound_group_session" where
  "OutboundGroupSession now fresh =
     \<lparr> og_session = fresh, og_creation_time = now, og_message_count = 0, og_users_shared_with = {},
       og_users_ignored = {}, og_shared = False \<rparr>"

definition set_outbound :: "string \<Rightarrow> 'o outbound_group_session \<Rightarrow> ('a, 's, 'g, 'o, 'c, 'e, unit) olm_op" where
  "set_outbound room_id session =
     modify (\<lambda>s. s \<lparr> om_outbound_group_sessions := dset (om_outbound_group_sessions s) room_id session \<rparr>)"

definition outbound_item :: "string \<Rightarrow> ('a, 's, 'g, 'o, 'c, 'e, 'o outbound_group_session) olm_op" where
  "outbound_item room_id =
     bnd (reads (\<lambda>s. dget (om_outbound_group_sessions s) room_id)) (\<lambda>found.
     case found of None \<Rightarrow> raise (KeyError room_id) | Some x \<Rightarrow> ret x)"

definition create_outbound_group_session ::
  "('a, 's, 'g, 'o, 'm) vodozemac_olm \<Rightarrow> int \<Rightarrow> 'o \<Rightarrow> string \<Rightarrow> ('a, 's, 'g, 'o, 'c, 'e, unit) olm_op" where
  "create_outbound_group_session lib now fresh room_id =
     andthen (set_outbound room_id (OutboundGroupSession now fresh))
     (bnd (reads (\<lambda>s. oa_account (om_account s))) (\<lambda>account.
      create_group_session lib (vo_curve25519 lib account) (vo_ed25519 lib account) room_id
        (vo_outbound_id lib fresh) (JStr (vo_outbound_key lib fresh))))"

definition ensure_outbound ::
  "('a, 's, 'g, 'o, 'm) vodozemac_olm \<Rightarrow> int \<Rightarrow> 'o \<Rightarrow> string \<Rightarrow> ('a, 's, 'g, 'o, 'c, 'e, 'o outbound_group_session) olm_op" where
  "ensure_outbound lib now fresh room_id =
     bnd (reads (\<lambda>s. dget (om_outbound_group_sessions s) room_id)) (\<lambda>found.
     andthen (if found = None then create_outbound_group_session lib now fresh room_id else ret ())
     (outbound_item room_id))"

definition should_share_group_session :: "int \<Rightarrow> string \<Rightarrow> ('a, 's, 'g, 'o, 'c, 'e) olm \<Rightarrow> bool" where
  "should_share_group_session now room_id s =
     (case dget (om_outbound_group_sessions s) room_id of
        None \<Rightarrow> True
      | Some session \<Rightarrow> should_rotate now session \<or> \<not> og_shared session)"

definition mark_as_shared :: "string \<Rightarrow> ('a, 's, 'g, 'o, 'c, 'e, unit) olm_op" where
  "mark_as_shared room_id =
     bnd (outbound_item room_id) (\<lambda>session. set_outbound room_id (session \<lparr> og_shared := True \<rparr>))"

text \<open>\<^verbatim>\<open>OutboundGroupSession.encrypt\<close>: the ciphertext and the session afterwards.\<close>

definition outbound_encrypt ::
  "('a, 's, 'g, 'o, 'm) vodozemac_olm \<Rightarrow> int \<Rightarrow> bool \<Rightarrow> string \<Rightarrow> 'o outbound_group_session \<Rightarrow>
   exn + string \<times> 'o outbound_group_session" where
  "outbound_encrypt lib now counted plaintext session =
     (if \<not> og_shared session then Inl (EncryptionError ''session is not shared'')
      else if should_rotate now session then Inl (EncryptionError ''session is has expired'')
      else
        (case vo_outbound_encrypt lib (og_session session) plaintext of (c, o') \<Rightarrow>
           Inr (c, session \<lparr> og_session := o',
                      og_message_count := og_message_count session + (if counted then 1 else 0) \<rparr>)))"

definition group_encrypt ::
  "('a, 's, 'g, 'o, 'm) vodozemac_olm \<Rightarrow> int \<Rightarrow> 'o \<Rightarrow> string \<Rightarrow> jobj \<Rightarrow> bool \<Rightarrow>
   ('a, 's, 'g, 'o, 'c, 'e, jobj) olm_op" where
  "group_encrypt lib now fresh room_id plaintext_dict counted =
     bnd (ensure_outbound lib now fresh room_id) (\<lambda>session.
     bnd (if should_rotate now session
          then andthen (create_outbound_group_session lib now fresh room_id) (outbound_item room_id)
          else ret session) (\<lambda>session.
     if \<not> og_shared session then raise (GroupEncryptionError ''not shared'')
     else
       bnd (lift_res (outbound_encrypt lib now counted
              (to_json (dset plaintext_dict ''room_id'' (JStr room_id))) session)) (\<lambda>(ciphertext, used).
       andthen (set_outbound room_id used)
       (reads (\<lambda>s. [(''algorithm'', JStr megolm_algorithm),
          (''sender_key'', JStr (vo_curve25519 lib (oa_account (om_account s)))),
          (''ciphertext'', JStr ciphertext), (''session_id'', JStr (vo_outbound_id lib (og_session used))),
          (''device_id'', JStr (om_device_id s))])))))"

section \<open>Choosing the devices\<close>

definition max_to_device_messages :: nat where
  "max_to_device_messages = 20"

text \<open>What to do with a device without an Olm session, which differs between the two callers.\<close>

datatype missing_mode = SkipMissing | IgnoreMissing | RaiseMissing

text \<open>The devices to send the key to, and the devices to mark as ignored.\<close>

type_synonym share_plan = "(string \<times> olm_device) list \<times> olm_device list"

definition ignore_in_session :: "string \<Rightarrow> string \<times> string \<Rightarrow> ('a, 's, 'g, 'o, 'c, 'e, unit) olm_op" where
  "ignore_in_session room_id k =
     bnd (outbound_item room_id) (\<lambda>session.
     set_outbound room_id (session \<lparr> og_users_ignored := insert k (og_users_ignored session) \<rparr>))"

definition consider_device ::
  "missing_mode \<Rightarrow> bool \<Rightarrow> string \<Rightarrow> string \<Rightarrow> olm_device \<Rightarrow> share_plan \<Rightarrow> ('a, 's, 'g, 'o, 'c, 'e, share_plan) olm_op" where
  "consider_device mode ignore_unverified_devices room_id user_id device plan =
     bnd (reads id) (\<lambda>s.
     bnd (outbound_item room_id) (\<lambda>session.
     let k = (user_id, od_device_id device) in
     if od_device_id device = om_device_id s \<or> is_device_blacklisted (om_store s) device then
       andthen (ignore_in_session room_id k) (ret plan)
     else if k \<in> og_users_shared_with session \<or> k \<in> og_users_ignored session then ret plan
     else
       bnd (lift_res (device_curve25519 device)) (\<lambda>ck.
       bnd (on_sessions (SessionStore_get ck)) (\<lambda>found.
       if found = None then
         (case mode of
            SkipMissing \<Rightarrow> ret plan
          | IgnoreMissing \<Rightarrow> andthen (ignore_in_session room_id k) (ret plan)
          | RaiseMissing \<Rightarrow> raise (EncryptionError ''Missing Olm session''))
       else if is_device_verified (om_store s) device \<or> is_device_ignored (om_store s) device then
         ret (fst plan @ [(user_id, device)], snd plan)
       else if ignore_unverified_devices then
         ret (fst plan @ [(user_id, device)], snd plan @ [device])
       else raise (OlmUnverifiedDeviceError (od_user_id device) (od_device_id device))))))"

fun consider_devices ::
  "missing_mode \<Rightarrow> bool \<Rightarrow> nat option \<Rightarrow> string \<Rightarrow> string \<Rightarrow> olm_device list \<Rightarrow> share_plan \<Rightarrow>
   ('a, 's, 'g, 'o, 'c, 'e, share_plan) olm_op" where
  "consider_devices mode ign limit room_id user_id [] plan = ret plan"
| "consider_devices mode ign limit room_id user_id (d # ds) plan =
     bnd (consider_device mode ign room_id user_id d plan) (\<lambda>plan'.
     if plan' \<noteq> plan \<and> (case limit of None \<Rightarrow> False | Some n \<Rightarrow> n \<le> length (fst plan')) then ret plan'
     else consider_devices mode ign limit room_id user_id ds plan')"

text \<open>The break of the inner loop is only reached when a device was added.\<close>

fun plan_sharing ::
  "missing_mode \<Rightarrow> bool \<Rightarrow> nat option \<Rightarrow> string \<Rightarrow> string list \<Rightarrow> share_plan \<Rightarrow> ('a, 's, 'g, 'o, 'c, 'e, share_plan) olm_op" where
  "plan_sharing mode ign limit room_id [] plan = ret plan"
| "plan_sharing mode ign limit room_id (u # us) plan =
     bnd (on_devices (active_user_devices u)) (\<lambda>ds.
     bnd (consider_devices mode ign limit room_id u ds plan) (\<lambda>plan'.
     if (case limit of None \<Rightarrow> False | Some n \<Rightarrow> n \<le> length (fst plan')) then ret plan'
     else plan_sharing mode ign limit room_id us plan'))"

text \<open>\<^verbatim>\<open>store.ignore_devices\<close> on device objects of the device store.\<close>

definition ignore_marked :: "olm_device list \<Rightarrow> ('a, 's, 'g, 'o, 'c, 'e, unit) olm_op" where
  "ignore_marked ds s =
     (if ds = [] then (Inr (), s)
      else
        (case ignore_devices (om_store s, ds) of (r, (db, ds')) \<Rightarrow>
           (r, s \<lparr> om_store := db,
                  om_device_store := foldl (\<lambda>st d. put_device (device_ref d) d st) (om_device_store s) ds' \<rparr>)))"

section \<open>Sending the key\<close>

definition add_to_device_message :: "string \<Rightarrow> string \<Rightarrow> json \<Rightarrow> (string, (string, json) dict) dict \<Rightarrow> (string, (string, json) dict) dict" where
  "add_to_device_message u i m d = dset d u (dset (dget_or d u []) i m)"

text \<open>The users and devices of a request, and its messages.\<close>

type_synonym share_request = "(string \<times> string) set \<times> (string, (string, json) dict) dict"

fun send_key ::
  "('a, 's, 'g, 'o, 'm) vodozemac_olm \<Rightarrow> int \<Rightarrow> json \<Rightarrow> (string \<times> olm_device) list \<Rightarrow> share_request \<Rightarrow>
   ('a, 's, 'g, 'o, 'c, 'e, share_request) olm_op" where
  "send_key lib now key_content [] request = ret request"
| "send_key lib now key_content ((u, d) # rest) request =
     bnd (lift_res (device_curve25519 d)) (\<lambda>ck.
     bnd (on_sessions (SessionStore_get ck)) (\<lambda>found.
     case found of
       None \<Rightarrow> raise (KeyError ck)
     | Some session \<Rightarrow>
         bnd (olm_encrypt lib now session d ''m.room_key'' key_content) (\<lambda>olm_dict.
         send_key lib now key_content rest
           (insert (u, od_device_id d) (fst request),
            add_to_device_message u (od_device_id d) olm_dict (snd request)))))"

definition key_content ::
  "('a, 's, 'g, 'o, 'm) vodozemac_olm \<Rightarrow> string \<Rightarrow> 'o outbound_group_session \<Rightarrow> json" where
  "key_content lib room_id session =
     JObj [(''algorithm'', JStr megolm_algorithm), (''room_id'', JStr room_id),
           (''session_id'', JStr (vo_outbound_id lib (og_session session))),
           (''session_key'', JStr (vo_outbound_key lib (og_session session)))]"

definition share_group_session ::
  "('a, 's, 'g, 'o, 'm) vodozemac_olm \<Rightarrow> int \<Rightarrow> 'o \<Rightarrow> string \<Rightarrow> string list \<Rightarrow> bool \<Rightarrow> bool \<Rightarrow>
   ('a, 's, 'g, 'o, 'c, 'e, share_request) olm_op" where
  "share_group_session lib now fresh room_id users ignore_missing_sessions ignore_unverified_devices =
     bnd (ensure_outbound lib now fresh room_id) (\<lambda>session.
     if og_shared session then raise (LocalProtocolError ''Group session already shared'')
     else
       bnd (plan_sharing (if ignore_missing_sessions then IgnoreMissing else RaiseMissing)
              ignore_unverified_devices (Some max_to_device_messages) room_id users ([], [])) (\<lambda>plan.
       andthen (ignore_marked (snd plan))
       (send_key lib now (key_content lib room_id session) (fst plan) ({}, []))))"

text \<open>The requests a caller that takes them all gets from the generator.\<close>

fun send_chunks ::
  "('a, 's, 'g, 'o, 'm) vodozemac_olm \<Rightarrow> int \<Rightarrow> json \<Rightarrow> (string \<times> olm_device) list list \<Rightarrow>
   ('a, 's, 'g, 'o, 'c, 'e, share_request list) olm_op" where
  "send_chunks lib now content [] = ret []"
| "send_chunks lib now content (c # cs) =
     bnd (send_key lib now content c ({}, [])) (\<lambda>r.
     bnd (send_chunks lib now content cs) (\<lambda>rs. ret (r # rs)))"

definition share_group_session_parallel ::
  "('a, 's, 'g, 'o, 'm) vodozemac_olm \<Rightarrow> int \<Rightarrow> 'o \<Rightarrow> string \<Rightarrow> string list \<Rightarrow> bool \<Rightarrow>
   ('a, 's, 'g, 'o, 'c, 'e, share_request list) olm_op" where
  "share_group_session_parallel lib now fresh room_id users ignore_unverified_devices =
     bnd (ensure_outbound lib now fresh room_id) (\<lambda>session.
     bnd (if og_shared session
          then andthen (create_outbound_group_session lib now fresh room_id) (outbound_item room_id)
          else ret session) (\<lambda>session.
     bnd (plan_sharing SkipMissing ignore_unverified_devices None room_id users ([], [])) (\<lambda>plan.
     andthen (ignore_marked (snd plan))
     (send_chunks lib now (key_content lib room_id session)
        (chunks_of max_to_device_messages (fst plan))))))"

end
