(* ===== verification/Nio_Olm_Facts.thy ===== *)
theory Nio_Olm_Facts
  imports Nio_Olm_Send
begin

text \<open>
  What the machine guarantees: the cache that stops replays refines a map that forgets nothing,
  room keys are forwarded to the user's own verified devices only, and a key query never moves
  trust to another identity.
\<close>

section \<open>How an operation changes the state\<close>

text \<open>
  A relation between the states before and after an operation, whether it returns or raises;
  a reflexive and transitive one is kept by every composition.
\<close>

definition moves :: "('s \<Rightarrow> 's \<Rightarrow> bool) \<Rightarrow> ('s, 'x) op \<Rightarrow> bool" where
  "moves R m = (\<forall>s. R s (snd (m s)))"

locale evolution =
  fixes R :: "'s \<Rightarrow> 's \<Rightarrow> bool"
  assumes same: "R s s"
    and chained: "R s t \<Longrightarrow> R t u \<Longrightarrow> R s u"
begin

lemma moves_basic:
  "moves R (ret x)" "moves R (raise e)" "moves R (reads f)" "moves R (lift_res r)" "moves R (check_or e p)"
  by (simp_all add: moves_def op_basic same)

lemma moves_bnd:
  assumes "moves R m" "\<And>x. moves R (f x)"
  shows "moves R (bnd m f)"
  unfolding moves_def
proof
  fix s
  obtain r t where m: "m s = (r, t)" by (cases "m s")
  with assms(1) have "R s t" unfolding moves_def by (metis snd_conv)
  moreover have "R t (snd (f x t))" for x using assms(2) by (simp add: moves_def)
  ultimately show "R s (snd (bnd m f s))" using chained m by (cases r) (auto simp: bnd_def)
qed

lemma moves_if: "(b \<Longrightarrow> moves R m) \<Longrightarrow> (\<not> b \<Longrightarrow> moves R n) \<Longrightarrow> moves R (if b then m else n)"
  by simp

lemma moves_modify: "(\<And>s. R s (f s)) \<Longrightarrow> moves R (modify f)"
  by (simp add: moves_def op_basic)

lemma moves_option:
  "moves R m \<Longrightarrow> (\<And>x. moves R (f x)) \<Longrightarrow> moves R (case r of None \<Rightarrow> m | Some x \<Rightarrow> f x)"
  by (cases r) simp_all

lemma moves_sum:
  "(\<And>e. moves R (f e)) \<Longrightarrow> (\<And>x. moves R (g x)) \<Longrightarrow> moves R (case r of Inl e \<Rightarrow> f e | Inr x \<Rightarrow> g x)"
  by (cases r) simp_all

lemma moves_prod: "(\<And>a b. moves R (f a b)) \<Longrightarrow> moves R (case p of (a, b) \<Rightarrow> f a b)"
  by (cases p) simp

lemma moves_Let: "moves R (f x) \<Longrightarrow> moves R (let y = x in f y)"
  by simp

lemma moves_for_each: "(\<And>x. moves R (f x)) \<Longrightarrow> moves R (for_each f xs)"
  by (induction xs) (auto intro: moves_basic moves_bnd)

lemma moves_fold_op: "(\<And>x b. moves R (f x b)) \<Longrightarrow> moves R (fold_op f xs b)"
  by (induction xs arbitrary: b) (auto intro: moves_basic moves_bnd)

lemma moves_catching:
  assumes "moves R m" "\<And>e n. h e = Some n \<Longrightarrow> moves R n"
  shows "moves R (catching m h)"
  unfolding moves_def
proof
  fix s
  obtain r t where m: "m s = (r, t)" by (cases "m s")
  with assms(1) have st: "R s t" unfolding moves_def by (metis snd_conv)
  show "R s (snd (catching m h s))"
  proof (cases r)
    case (Inl e)
    show ?thesis
    proof (cases "h e")
      case (Some n)
      with assms(2)[OF Some] st m Inl show ?thesis
        by (auto simp: catching_def moves_def intro: chained)
    qed (use st m Inl in \<open>simp add: catching_def\<close>)
  qed (use st m in \<open>simp add: catching_def\<close>)
qed

lemmas moves_rules =
  moves_basic moves_bnd moves_if moves_option moves_sum moves_prod moves_Let moves_for_each moves_fold_op

end

section \<open>Replays\<close>

text \<open>
  What the package documents of a cache with room for \<open>n\<close> entries: it returns what was put last
  under a key, reading does not change what it holds, putting may drop other entries, but none
  while fewer than \<open>n\<close> are held.
\<close>

definition caches_up_to :: "nat \<Rightarrow> 'c index_cache \<Rightarrow> ('c \<Rightarrow> index_key \<Rightarrow> index_entry option) \<Rightarrow> bool" where
  "caches_up_to n cache look \<longleftrightarrow>
     (\<forall>c k. fst (ic_get cache c k) = look c k \<and> look (snd (ic_get cache c k)) = look c) \<and>
     (\<forall>c k v. look (ic_put cache c k v) k = Some v \<and> look (ic_put cache c k v) \<subseteq>\<^sub>m (look c)(k \<mapsto> v)) \<and>
     (\<forall>c k v. finite (dom (look c)) \<and> card (dom (look c)) < n \<longrightarrow> look (ic_put cache c k v) = (look c)(k \<mapsto> v))"

definition message_index_store_size :: nat where
  "message_index_store_size = 100000"

text \<open>The specification: a message index belongs to the event it was first seen with, forever.\<close>

definition index_spec :: "int \<Rightarrow> megolm_event \<Rightarrow> (index_key \<Rightarrow> index_entry option) \<Rightarrow> bool \<times> (index_key \<Rightarrow> index_entry option)" where
  "index_spec i event M =
     (let k = (mg_sender_key event, mg_session_id event, i); e = (mg_event_id event, mg_server_timestamp event) in
      case M k of None \<Rightarrow> (True, M(k \<mapsto> e)) | Some f \<Rightarrow> (f = e, M))"

fun spec_run :: "(int \<times> megolm_event) list \<Rightarrow> (index_key \<Rightarrow> index_entry option) \<Rightarrow> bool list" where
  "spec_run [] M = []"
| "spec_run ((i, e) # es) M = (case index_spec i e M of (ok, M') \<Rightarrow> ok # spec_run es M')"

fun index_run ::
  "'c index_cache \<Rightarrow> (int \<times> megolm_event) list \<Rightarrow> ('a, 's, 'g, 'o, 'c, 'e) olm \<Rightarrow> (exn + bool) list" where
  "index_run cache [] s = []"
| "index_run cache ((i, e) # es) s =
     (case message_index_ok cache i e s of (r, t) \<Rightarrow> r # index_run cache es t)"

lemma index_step:
  assumes "caches_up_to n cache look" "look (om_message_index_store s) = M"
    and "finite (dom M)" "card (dom M) < n"
    and "index_spec i e M = (ok, M')"
  shows "\<exists>t. message_index_ok cache i e s = (Inr ok, t) \<and> look (om_message_index_store t) = M' \<and>
    finite (dom M') \<and> card (dom M') \<le> Suc (card (dom M))"
proof -
  let ?k = "(mg_sender_key e, mg_session_id e, i)"
  let ?v = "(mg_event_id e, mg_server_timestamp e)"
  let ?c = "om_message_index_store s"
  obtain f c where get: "ic_get cache ?c ?k = (f, c)" by (cases "ic_get cache ?c ?k")
  then have f: "f = M ?k" "look c = M"
    using assms(1,2) unfolding caches_up_to_def by (metis fst_conv, metis snd_conv)
  have put: "look (ic_put cache c ?k ?v) = M(?k \<mapsto> ?v)"
    using assms(1,3,4) f(2) unfolding caches_up_to_def by metis
  show ?thesis
  proof (cases "M ?k")
    case None
    then have "ok" "M' = M(?k \<mapsto> ?v)" using assms(5) by (auto simp: index_spec_def)
    with None f get put assms(3) show ?thesis by (simp add: message_index_ok_def card_insert_if)
  next
    case (Some g)
    then have "ok = (g = ?v)" "M' = M" using assms(5) by (auto simp: index_spec_def)
    with Some f get assms(3) show ?thesis by (simp add: message_index_ok_def)
  qed
qed

text \<open>C20: The replay protection refines the specification: on a machine whose cache is empty, any
  sequence of at most 100000 decrypted messages is answered as if nothing were ever forgotten,
  so a second event with a known index is refused and no event is refused that repeats none.\<close>

theorem replay_protection_refines:
  assumes "caches_up_to message_index_store_size cache look" "look (om_message_index_store s) = Map.empty"
    and "length es \<le> message_index_store_size"
  shows "index_run cache es s = map Inr (spec_run es Map.empty)"
proof -
  have "index_run cache es s = map Inr (spec_run es M)"
    if "look (om_message_index_store s) = M" "finite (dom M)" "card (dom M) + length es \<le> message_index_store_size" for s M
    using that
  proof (induction es arbitrary: s M)
    case (Cons p es)
    obtain i e where p: "p = (i, e)" by (cases p)
    obtain ok M' where spec: "index_spec i e M = (ok, M')" by (cases "index_spec i e M")
    have "card (dom M) < message_index_store_size" using Cons.prems(3) by simp
    from index_step[OF assms(1) Cons.prems(1,2) this spec] obtain t where
      t: "message_index_ok cache i e s = (Inr ok, t)" "look (om_message_index_store t) = M'"
        "finite (dom M')" "card (dom M') \<le> Suc (card (dom M))" by blast
    with Cons.IH[OF t(2,3)] Cons.prems(3) spec show ?case by (simp add: p)
  qed simp
  from this[OF assms(2)] assms(3) show ?thesis by simp
qed

text \<open>A cache of the documented behaviour: the least recently used entry is at the front.\<close>

definition recency_cache :: "nat \<Rightarrow> (index_key, index_entry) dict index_cache" where
  "recency_cache n =
     \<lparr> ic_get = (\<lambda>c k. case dget c k of None \<Rightarrow> (None, c) | Some v \<Rightarrow> (Some v, ddel c k @ [(k, v)])),
       ic_put = (\<lambda>c k v.
         let room = dget c k \<noteq> None \<or> length (remdups (dkeys c)) < n in
         ddel (if room then c else ddel c (fst (hd c))) k @ [(k, v)]) \<rparr>"

lemma dget_moved: "dget (ddel c k @ [(k, v)]) = (dget c)(k \<mapsto> v)"
  by (auto simp: fun_eq_iff map_add_def split: option.splits)

lemma recency_cache_law: "caches_up_to n (recency_cache n) dget"
proof -
  have "fst (ic_get (recency_cache n) c k) = dget c k \<and> dget (snd (ic_get (recency_cache n) c k)) = dget c" for c k
    by (auto simp: recency_cache_def dget_moved fun_upd_idem simp del: map_of_append split: option.splits)
  moreover have "dget (ic_put (recency_cache n) c k v) k = Some v \<and>
      dget (ic_put (recency_cache n) c k v) \<subseteq>\<^sub>m (dget c)(k \<mapsto> v)" for c k v
    by (auto simp: recency_cache_def Let_def dget_moved map_le_def simp del: map_of_append split: if_splits)
  moreover have "dget (ic_put (recency_cache n) c k v) = (dget c)(k \<mapsto> v)" if "card (dom (dget c)) < n" for c k v
  proof -
    have "length (remdups (dkeys c)) < n"
      using that by (simp add: length_remdups_card_conv dom_map_of_conv_image_fst)
    then show ?thesis by (simp add: recency_cache_def dget_moved del: map_of_append)
  qed
  ultimately show ?thesis by (simp add: caches_up_to_def)
qed

definition sample_message :: "string \<Rightarrow> megolm_event" where
  "sample_message i =
     \<lparr> mg_source = [], mg_event_id = i, mg_sender = ''@a:x'', mg_server_timestamp = 5, mg_sender_key = ''k'',
       mg_device_id = ''DEV'', mg_session_id = ''s'', mg_algorithm = megolm_algorithm, mg_ciphertext = ''c'',
       mg_room_id = Some ''!r:x'', mg_transaction_id = None \<rparr>"

definition new_olm :: "'c \<Rightarrow> 'a \<Rightarrow> ('a, 's, 'g, 'o, 'c, 'e) olm" where
  "new_olm c a =
     \<lparr> om_user_id = ''@me:x'', om_device_id = ''MINE'', om_replace_rotated_device_keys = True,
       om_uploaded_key_count = None, om_users_for_key_query = {}, om_device_store = [], om_session_store = [],
       om_inbound_group_store = [], om_outbound_group_sessions = [], om_tracked_users = {},
       om_outgoing_key_requests = [], om_received_key_requests = [], om_key_requests_waiting_for_session = [],
       om_key_request_devices_no_session = [], om_key_request_from_untrusted = [], om_wedged_devices = [],
       om_key_re_requests_events = [], om_key_verifications = [], om_outgoing_to_device_messages = [],
       om_message_index_store = c, om_store = new_store \<lparr> sq_account := Some \<lparr> oa_account = a, oa_shared = True \<rparr> \<rparr>,
       om_account = \<lparr> oa_account = a, oa_shared = True \<rparr> \<rparr>"

theorem replay_protection_refines_witness:
  "index_run (recency_cache message_index_store_size)
     [(0, sample_message ''$1''), (1, sample_message ''$2''), (0, sample_message ''$1''), (0, sample_message ''$3'')]
     (new_olm [] () :: (unit, unit, unit, unit, _, unit) olm) =
   [Inr True, Inr True, Inr True, Inr False]"
  by (subst replay_protection_refines[OF recency_cache_law])
    (simp_all add: new_olm_def message_index_store_size_def index_spec_def sample_message_def)

section \<open>Forwarding room keys\<close>

text \<open>Every device is found under its own user and device id.\<close>

definition placed :: "('a, 's, 'g, 'o, 'c, 'e) olm \<Rightarrow> bool" where
  "placed s \<longleftrightarrow> (\<forall>u i d. lookup_device (om_device_store s) u i = Some d \<longrightarrow> od_user_id d = u \<and> od_device_id d = i)"

definition same_devices :: "('a, 's, 'g, 'o, 'c, 'e) olm \<Rightarrow> ('a, 's, 'g, 'o, 'c, 'e) olm \<Rightarrow> bool" where
  "same_devices s t \<longleftrightarrow> om_user_id t = om_user_id s \<and>
     (\<forall>u i. lookup_device (om_device_store t) u i = lookup_device (om_device_store s) u i)"

definition quiet :: "('a, 's, 'g, 'o, 'c, 'e) olm \<Rightarrow> ('a, 's, 'g, 'o, 'c, 'e) olm \<Rightarrow> bool" where
  "quiet s t \<longleftrightarrow> same_devices s t \<and> om_outgoing_to_device_messages t = om_outgoing_to_device_messages s"

text \<open>The message goes to a verified device of the user.\<close>

definition to_own_verified :: "('a, 's, 'g, 'o, 'c, 'e) olm \<Rightarrow> to_device_message \<Rightarrow> bool" where
  "to_own_verified s m \<longleftrightarrow> tm_recipient m = om_user_id s \<and>
     (\<exists>d. lookup_device (om_device_store s) (om_user_id s) (tm_recipient_device m) = Some d \<and> device_verified d)"

definition forwards :: "('a, 's, 'g, 'o, 'c, 'e) olm \<Rightarrow> ('a, 's, 'g, 'o, 'c, 'e) olm \<Rightarrow> bool" where
  "forwards s t \<longleftrightarrow> same_devices s t \<and>
     (placed s \<longrightarrow> (\<exists>ms. om_outgoing_to_device_messages t = om_outgoing_to_device_messages s @ ms \<and>
        list_all (to_own_verified s) ms))"

interpretation qu: evolution quiet
  by unfold_locales (auto simp: quiet_def same_devices_def)

lemma same_devices_placed: "same_devices s t \<Longrightarrow> placed t = placed s"
  by (simp add: same_devices_def placed_def)

lemma same_devices_own: "same_devices s t \<Longrightarrow> to_own_verified t = to_own_verified s"
  by (simp add: same_devices_def to_own_verified_def fun_eq_iff)

lemma forwards_trans:
  assumes "forwards s t" "forwards t u"
  shows "forwards s u"
proof -
  have "same_devices s u" "same_devices s t" using assms by (auto simp: forwards_def same_devices_def)
  with assms same_devices_placed[of s t] same_devices_own[of s t] show ?thesis by (auto simp: forwards_def)
qed

lemma forwards_refl: "forwards s s"
  by (simp add: forwards_def same_devices_def)

interpretation fw: evolution forwards
  by unfold_locales (rule forwards_refl, rule forwards_trans)

lemma quiet_forwards: "quiet s t \<Longrightarrow> forwards s t"
  by (auto simp: quiet_def forwards_def)

lemma quiet_moves: "moves quiet m \<Longrightarrow> moves forwards m"
  by (auto simp: moves_def quiet_forwards)

lemma lookup_getitem: "lookup_device (snd (store_getitem v st)) u i = lookup_device st u i"
  by (auto simp: store_getitem_def lookup_device_def dget_or_def split: option.splits)

lemma quiet_parts:
  "moves quiet (on_devices (store_getitem u))" "moves quiet (on_sessions m1)" "moves quiet (on_groups m2)"
  "moves quiet (on_store m3)"
  by (auto simp: moves_def quiet_def same_devices_def on_devices_def on_sessions_def on_groups_def on_store_def
      lookup_device_def dget_or_def store_getitem_def split: prod.splits option.splits)

lemma quiet_device_item: "moves quiet (device_item u i)"
  unfolding device_item_def by (intro qu.moves_rules quiet_parts)

lemma device_item_found: "device_item u i s = (Inr d, t) \<Longrightarrow> lookup_device (om_device_store s) u i = Some d"
  by (auto simp: device_item_def on_devices_def op_basic store_getitem_def lookup_device_def dget_or_def
      split: option.splits prod.splits if_splits)

lemma quiet_olm_encrypt: "moves quiet (olm_encrypt lib now x d ty c)"
  unfolding olm_encrypt_def change_session_def Let_def
  by (intro qu.moves_rules quiet_parts qu.moves_modify) (simp add: quiet_def same_devices_def)

lemma quiet_forwarding_key: "moves quiet (encrypt_forwarding_key lib now r g x d)"
  unfolding encrypt_forwarding_key_def by (intro qu.moves_rules quiet_olm_encrypt)

lemma forwarding_key_message:
  "encrypt_forwarding_key lib now r g x d s = (Inr m, t) \<Longrightarrow>
     tm_recipient m = od_user_id d \<and> tm_recipient_device m = od_device_id d"
  by (auto simp: encrypt_forwarding_key_def bnd_Inr_iff op_basic ToDeviceMessage_def split: option.splits prod.splits sum.splits)

lemma share_with_ourselves_forwards:
  assumes "kr_sender event = om_user_id s"
  shows "forwards s (snd (share_with_ourselves lib now event rk s))"
proof -
  let ?found = "catching (device_item (kr_sender event) (kr_requesting_device_id event))
    (\<lambda>e. case e of KeyError _ \<Rightarrow> Some (raise (KeyShareError ''Unknown requesting device'')) | _ \<Rightarrow> None)"
  have quiet_found: "moves quiet ?found"
    by (rule qu.moves_catching) (auto intro: quiet_device_item qu.moves_basic split: exn.splits)
  have answer: "forwards t (snd (bnd (encrypt_forwarding_key lib now r g x d) queue_message t))"
    if d: "lookup_device (om_device_store t) (om_user_id t) (kr_requesting_device_id event) = Some d" "device_verified d"
    for r g x d and t :: "('a, 'b, 'c, 'd, 'e, 'f) olm"
  proof -
    obtain res u where run: "encrypt_forwarding_key lib now r g x d t = (res, u)"
      by (cases "encrypt_forwarding_key lib now r g x d t")
    then have q: "quiet t u" using quiet_forwarding_key[of lib now r g x d] unfolding moves_def by (metis snd_conv)
    show ?thesis
    proof (cases res)
      case (Inl e)
      then show ?thesis using run q by (simp add: bnd_def quiet_forwards)
    next
      case (Inr m)
      with run have m: "tm_recipient m = od_user_id d" "tm_recipient_device m = od_device_id d"
        using forwarding_key_message by blast+
      have "placed t \<Longrightarrow> to_own_verified t m"
        using d m by (auto simp: placed_def to_own_verified_def)
      with q show ?thesis
        using run Inr by (auto simp: bnd_def queue_message_def op_basic forwards_def quiet_def same_devices_def)
    qed
  qed
  have rest: "forwards t (snd (bnd (lift_res (device_curve25519 d)) (\<lambda>ck.
           bnd (on_sessions (SessionStore_get ck)) (\<lambda>session.
           case session of
             None \<Rightarrow> andthen (wait_for_session d event) (raise (EncryptionError ''No Olm session found''))
           | Some x \<Rightarrow> bnd (encrypt_forwarding_key lib now r g x d) queue_message)) t))"
    if d: "lookup_device (om_device_store t) (om_user_id t) (kr_requesting_device_id event) = Some d" "device_verified d"
    for r g d and t :: "('a, 'b, 'c, 'd, 'e, 'f) olm"
  proof (cases "device_curve25519 d")
    case (Inr ck)
    obtain found u where get: "on_sessions (SessionStore_get ck) t = (Inr found, u)"
      by (cases "dget (om_session_store t) ck")
        (simp_all add: on_sessions_def SessionStore_get_def SessionStore_getitem_def op_basic)
    then have q: "quiet t u" using quiet_parts(2)[of "SessionStore_get ck"] unfolding moves_def by (metis snd_conv)
    then have u: "lookup_device (om_device_store u) (om_user_id u) (kr_requesting_device_id event) = Some d"
      using d(1) by (simp add: quiet_def same_devices_def)
    have "forwards u (snd (andthen (wait_for_session d event) (raise (EncryptionError ''No Olm session found'')) u))"
      by (simp add: wait_for_session_def op_basic forwards_def same_devices_def)
    with answer[OF u d(2)] quiet_forwards[OF q] show ?thesis
      using get Inr by (auto simp: bnd_def lift_res_def intro: forwards_trans split: option.splits)
  qed (simp add: op_basic forwards_refl)
  obtain g t where groups: "on_groups (GroupSessionStore_get (rk_room_id rk) (rk_sender_key rk) (rk_session_id rk)) s = (Inr g, t)"
    by (auto simp: on_groups_def GroupSessionStore_get_def Let_def)
  then have st: "quiet s t" using quiet_parts(3) unfolding moves_def by (metis snd_conv)
  show ?thesis
  proof (cases g)
    case None
    with groups st show ?thesis by (simp add: share_with_ourselves_def bnd_def raise_def quiet_forwards)
  next
    case (Some x)
    obtain found u where run: "?found t = (found, u)" by (cases "?found t")
    then have tu: "quiet t u" using quiet_found unfolding moves_def by (metis snd_conv)
    show ?thesis
    proof (cases found)
      case (Inl e)
      with run groups Some quiet_forwards[OF st] quiet_forwards[OF tu] show ?thesis
        by (simp add: share_with_ourselves_def bnd_def forwards_trans)
    next
      case (Inr d)
      with run have "device_item (kr_sender event) (kr_requesting_device_id event) t = (Inr d, u)"
        by (auto simp: catching_def raise_def split: prod.splits sum.splits option.splits exn.splits)
      from device_item_found[OF this] assms st tu have d:
        "lookup_device (om_device_store u) (om_user_id u) (kr_requesting_device_id event) = Some d"
        by (simp add: quiet_def same_devices_def)
      show ?thesis
      proof (cases "device_verified d")
        case True
        from rest[OF d True] quiet_forwards[OF st] quiet_forwards[OF tu] show ?thesis
          using run groups Some Inr True
          by (auto simp: share_with_ourselves_def bnd_def[of "on_groups _"] bnd_def[of ?found] intro: forwards_trans)
      next
        case False
        with run groups Some Inr quiet_forwards[OF st] quiet_forwards[OF tu] show ?thesis
          by (simp add: share_with_ourselves_def bnd_def raise_def forwards_trans)
      qed
    qed
  qed
qed

lemma collect_single_forwards: "moves forwards (collect_single_key_share lib now event)"
  unfolding moves_def
proof
  fix s :: "('a, 'b, 'c, 'd, 'e, 'f) olm"
  show "forwards s (snd (collect_single_key_share lib now event s))"
  proof (cases "kr_request event")
    case (Some rk)
    obtain r t where run: "share_with_ourselves lib now event rk s = (r, t)"
      by (cases "share_with_ourselves lib now event rk s")
    have "kr_sender event = om_user_id s \<Longrightarrow> forwards s t"
      using share_with_ourselves_forwards[of event s lib now rk] run by simp
    with Some run show ?thesis
      by (cases r) (auto simp: collect_single_key_share_def op_basic catching_def forwards_refl split: exn.split)
  qed (simp add: collect_single_key_share_def op_basic forwards_refl)
qed

lemma forwards_elsewhere:
  "om_user_id t = om_user_id s \<Longrightarrow> om_device_store t = om_device_store s \<Longrightarrow>
   om_outgoing_to_device_messages t = om_outgoing_to_device_messages s \<Longrightarrow> forwards s t"
  by (simp add: forwards_def same_devices_def)

lemma collect_from_forwards: "moves forwards (collect_from lib now es)"
proof (induction es)
  case Nil
  show ?case by (simp add: fw.moves_basic)
next
  case (Cons e es)
  show ?case
    unfolding collect_from.simps
    by (intro fw.moves_rules Cons collect_single_forwards fw.moves_modify) (simp add: forwards_elsewhere)
qed

text \<open>C18: Room keys leave the machine only for verified devices of its own user: whatever key
  requests were received or are continued, every message the machine queues is addressed to a
  device of its user that its device store holds as verified.\<close>

theorem keys_forwarded_to_own_verified:
  assumes "placed s" "t = snd (collect_key_requests lib now s) \<or> t = snd (continue_key_share lib now event s)"
  shows "\<exists>ms. om_outgoing_to_device_messages t = om_outgoing_to_device_messages s @ ms \<and>
    list_all (to_own_verified s) ms"
proof -
  have "moves forwards (collect_key_requests lib now)"
    unfolding collect_key_requests_def
    by (intro fw.moves_rules collect_from_forwards fw.moves_modify) (simp add: forwards_elsewhere)
  moreover have "moves forwards (continue_key_share lib now event)"
    unfolding continue_key_share_def
    by (intro fw.moves_rules collect_single_forwards fw.moves_modify) (simp add: forwards_elsewhere)
  ultimately have "forwards s t" using assms(2) by (auto simp: moves_def)
  with assms(1) show ?thesis by (simp add: forwards_def)
qed

text \<open>A library without secrets, for the witnesses.\<close>

definition sample_lib :: "(unit, unit, unit, unit, string) vodozemac_olm" where
  "sample_lib =
     \<lparr> vo_ed25519 = (\<lambda>_. ''fp''), vo_curve25519 = (\<lambda>_. ''ck''), vo_sign = (\<lambda>_ m. m),
       vo_max_one_time_keys = (\<lambda>_. 50), vo_generate_one_time_keys = (\<lambda>a _. a), vo_one_time_keys = (\<lambda>_. []),
       vo_mark_keys_as_published = (\<lambda>a. a), vo_create_outbound = (\<lambda>a _ _. (Inr (), a)),
       vo_create_inbound = (\<lambda>a _ m. (Inr ((), m), a)), vo_prekey_message = str_value, vo_normal_message = str_value,
       vo_is_prekey = (\<lambda>_. True), vo_session_id = (\<lambda>_. ''sid''), vo_matches = (\<lambda>_ _. True),
       vo_decrypt = (\<lambda>x m. (Inr m, x)), vo_encrypt = (\<lambda>x p. ((0, p), x)), vo_group_new = (\<lambda>_. Inr ()),
       vo_group_import = (\<lambda>_. Inr ()), vo_group_id = (\<lambda>_. ''gid''), vo_group_first_index = (\<lambda>_. 0),
       vo_group_export = (\<lambda>_ _. Some ''key''), vo_group_decrypt = (\<lambda>g c. (Inr (c, 0), g)),
       vo_outbound_id = (\<lambda>_. ''gid''), vo_outbound_key = (\<lambda>_. ''key''), vo_outbound_encrypt = (\<lambda>x p. (p, x)),
       vo_verify_signature = (\<lambda>k _ v. Inr (v = JStr k)) \<rparr>"

definition sample_device :: "trust_state \<Rightarrow> olm_device" where
  "sample_device t =
     (OlmDevice ''@me:x'' ''PHONE'' [(''ed25519'', ''pf''), (''curve25519'', ''pc'')]) \<lparr> od_trust_state := t \<rparr>"

definition sample_request :: key_request_event where
  "sample_request = \<lparr> kr_source = JNull, kr_sender = ''@me:x'', kr_requesting_device_id = ''PHONE'', kr_request_id = ''r'',
     kr_request = Some \<lparr> rk_algorithm = megolm_algorithm, rk_room_id = ''!r:x'', rk_sender_key = ''k'', rk_session_id = ''gid'' \<rparr> \<rparr>"

definition requested_olm :: "trust_state \<Rightarrow> (unit, unit, unit, unit, unit, unit) olm" where
  "requested_olm t = (new_olm () ())
     \<lparr> om_device_store := [(''@me:x'', [(''PHONE'', sample_device t)])],
       om_session_store := [(''pc'', [\<lparr> se_session = (), se_creation_time = 1, se_use_time = 1 \<rparr>])],
       om_inbound_group_store := [(''!r:x'', [(''k'', [(''gid'',
         \<lparr> gs_session = (), gs_ed25519 = ''e'', gs_sender_key = ''k'', gs_room_id = ''!r:x'', gs_forwarding_chain = [] \<rparr>)])])],
       om_received_key_requests := [(''r'', sample_request)] \<rparr>"

theorem keys_forwarded_to_own_verified_witness:
  "\<exists>m. om_outgoing_to_device_messages (snd (collect_key_requests sample_lib 2 (requested_olm trust_verified))) = [m] \<and>
     to_own_verified (requested_olm trust_verified) m"
proof -
  let ?s = "requested_olm trust_verified"
  let ?t = "snd (collect_key_requests sample_lib 2 ?s)"
  have "placed ?s"
    by (auto simp: placed_def requested_olm_def new_olm_def lookup_device_def dget_or_def sample_device_def OlmDevice_def
        split: if_splits option.splits)
  from keys_forwarded_to_own_verified[OF this, of ?t sample_lib 2 sample_request]
  obtain ms where ms: "om_outgoing_to_device_messages ?t = om_outgoing_to_device_messages ?s @ ms"
    "list_all (to_own_verified ?s) ms" by blast
  have "om_outgoing_to_device_messages ?s = []" by (simp add: requested_olm_def new_olm_def)
  moreover have "length (om_outgoing_to_device_messages ?t) = 1" by code_simp
  ultimately show ?thesis using ms by (cases ms) auto
qed

section \<open>Key queries\<close>

text \<open>
  What a valid payload may do to a device that is known: keep its identity and its trust, or,
  if rotated identities are replaced, give it a new identity that is not trusted but stays blocked.
\<close>

definition pinned :: "bool \<Rightarrow> olm_device \<Rightarrow> olm_device \<Rightarrow> bool" where
  "pinned replaces d e \<longleftrightarrow>
     od_user_id e = od_user_id d \<and> od_device_id e = od_device_id d \<and>
     (device_ed25519 e = device_ed25519 d \<and> od_trust_state e = od_trust_state d \<or>
      replaces \<and> od_trust_state e \<in> {trust_unset, trust_blacklisted} \<and>
        (od_trust_state e = trust_blacklisted \<longleftrightarrow> od_trust_state d = trust_blacklisted))"

lemma pinned_refl: "pinned r d d"
  by (simp add: pinned_def)

lemma pinned_trans: "pinned r d e \<Longrightarrow> pinned r e f \<Longrightarrow> pinned r d f"
  by (auto simp: pinned_def)

definition pins :: "('a, 's, 'g, 'o, 'c, 'e) olm \<Rightarrow> ('a, 's, 'g, 'o, 'c, 'e) olm \<Rightarrow> bool" where
  "pins s t \<longleftrightarrow> om_replace_rotated_device_keys t = om_replace_rotated_device_keys s \<and>
     (\<forall>u i. case lookup_device (om_device_store s) u i of
        Some d \<Rightarrow> \<exists>e. lookup_device (om_device_store t) u i = Some e \<and> pinned (om_replace_rotated_device_keys s) d e
      | None \<Rightarrow> (case lookup_device (om_device_store t) u i of None \<Rightarrow> True | Some e \<Rightarrow> od_trust_state e = trust_unset))"

lemma pins_refl: "pins s s"
  by (auto simp: pins_def pinned_refl split: option.split)

lemma pinsD:
  assumes "pins s t"
  shows "lookup_device (om_device_store s) u i = Some d \<Longrightarrow>
      \<exists>e. lookup_device (om_device_store t) u i = Some e \<and> pinned (om_replace_rotated_device_keys s) d e"
    and "lookup_device (om_device_store s) u i = None \<Longrightarrow> lookup_device (om_device_store t) u i = Some e \<Longrightarrow>
      od_trust_state e = trust_unset"
    and "om_replace_rotated_device_keys t = om_replace_rotated_device_keys s"
proof -
  have c: "case lookup_device (om_device_store s) u i of
      Some d \<Rightarrow> \<exists>e. lookup_device (om_device_store t) u i = Some e \<and> pinned (om_replace_rotated_device_keys s) d e
    | None \<Rightarrow> (case lookup_device (om_device_store t) u i of None \<Rightarrow> True | Some e \<Rightarrow> od_trust_state e = trust_unset)"
    using assms unfolding pins_def by blast
  show "\<exists>e. lookup_device (om_device_store t) u i = Some e \<and> pinned (om_replace_rotated_device_keys s) d e"
    if "lookup_device (om_device_store s) u i = Some d" using c that by simp
  show "od_trust_state e = trust_unset"
    if "lookup_device (om_device_store s) u i = None" "lookup_device (om_device_store t) u i = Some e" using c that by simp
  show "om_replace_rotated_device_keys t = om_replace_rotated_device_keys s" using assms by (simp add: pins_def)
qed

lemma pinsI:
  assumes "om_replace_rotated_device_keys t = om_replace_rotated_device_keys s"
    and "\<And>u i d. lookup_device (om_device_store s) u i = Some d \<Longrightarrow>
      \<exists>e. lookup_device (om_device_store t) u i = Some e \<and> pinned (om_replace_rotated_device_keys s) d e"
    and "\<And>u i e. lookup_device (om_device_store s) u i = None \<Longrightarrow> lookup_device (om_device_store t) u i = Some e \<Longrightarrow>
      od_trust_state e = trust_unset"
  shows "pins s t"
  using assms by (auto simp: pins_def split: option.split)

lemma pinned_unset: "pinned r d e \<Longrightarrow> od_trust_state d = trust_unset \<Longrightarrow> od_trust_state e = trust_unset"
  by (auto simp: pinned_def)

lemma pins_trans:
  assumes "pins s t" "pins t u"
  shows "pins s u"
proof (rule pinsI)
  show "om_replace_rotated_device_keys u = om_replace_rotated_device_keys s"
    using assms by (simp add: pins_def)
next
  fix v i d
  assume "lookup_device (om_device_store s) v i = Some d"
  from pinsD(1)[OF assms(1) this] obtain e where
    e: "lookup_device (om_device_store t) v i = Some e" "pinned (om_replace_rotated_device_keys s) d e" by blast
  from pinsD(1)[OF assms(2) e(1)] pinsD(3)[OF assms(1)] e(2)
  show "\<exists>f. lookup_device (om_device_store u) v i = Some f \<and> pinned (om_replace_rotated_device_keys s) d f"
    by (auto intro: pinned_trans)
next
  fix v i f
  assume a: "lookup_device (om_device_store s) v i = None" "lookup_device (om_device_store u) v i = Some f"
  show "od_trust_state f = trust_unset"
  proof (cases "lookup_device (om_device_store t) v i")
    case None
    with pinsD(2)[OF assms(2)] a(2) show ?thesis by blast
  next
    case (Some e)
    from pinsD(1)[OF assms(2) Some] a(2) have "pinned (om_replace_rotated_device_keys t) e f" by auto
    with pinsD(2)[OF assms(1) a(1) Some] show ?thesis by (rule pinned_unset[rotated])
  qed
qed

interpretation pn: evolution pins
  by unfold_locales (rule pins_refl, rule pins_trans)

lemma pins_elsewhere:
  "om_replace_rotated_device_keys t = om_replace_rotated_device_keys s \<Longrightarrow>
   (\<And>u i. lookup_device (om_device_store t) u i = lookup_device (om_device_store s) u i) \<Longrightarrow> pins s t"
  by (intro pinsI) (auto simp: pinned_refl)

lemma pins_parts:
  "moves pins (on_devices (store_getitem u))" "moves pins (on_sessions m1)" "moves pins (on_groups m2)"
  "moves pins (on_store m3)"
proof -
  show "moves pins (on_devices (store_getitem u))"
    unfolding moves_def on_devices_def
    by (auto intro!: pins_elsewhere simp: lookup_device_def dget_or_def store_getitem_def split: prod.splits option.splits)
  show "moves pins (on_sessions m1)" "moves pins (on_groups m2)" "moves pins (on_store m3)"
    by (auto simp: moves_def on_sessions_def on_groups_def on_store_def intro!: pins_elsewhere split: prod.splits)
qed

lemma pins_active: "moves pins (on_devices (active_user_devices u))"
  unfolding moves_def on_devices_def active_user_devices_def
  by (auto intro!: pins_elsewhere simp: op_basic lookup_device_def dget_or_def store_getitem_def split: prod.splits option.splits)

lemma pins_device_item: "moves pins (device_item u i)"
  unfolding device_item_def by (intro pn.moves_rules pins_parts)

text \<open>Only the operation on the device decides whether an operation on it pins.\<close>

lemma lookup_put:
  "lookup_device (put_device (u, i) d st) v j = (if (v, j) = (u, i) then Some d else lookup_device st v j)"
  by (auto simp: put_device_def lookup_device_def dget_or_def split: option.splits)

lemma pins_on_device:
  assumes "\<And>db d. pinned (om_replace_rotated_device_keys s) d (snd (snd (m (db, d))))"
  shows "pins s (snd (on_device (u, i) m s))"
proof (cases "lookup_device (om_device_store s) u i")
  case None
  then show ?thesis by (simp add: on_device_def pins_refl)
next
  case (Some d)
  obtain r db e where run: "m (om_store s, d) = (r, (db, e))" by (cases "m (om_store s, d)") auto
  with assms[of d "om_store s"] have "pinned (om_replace_rotated_device_keys s) d e" by simp
  then show ?thesis
    using Some run by (auto simp: on_device_def lookup_put pinned_refl intro!: pinsI split: if_splits)
qed

lemma device_key_set:
  "device_key k (set_device_key k' v d) = (if k = k' then Inr v else device_key k d)"
  by (simp add: device_key_def set_device_key_def)

lemma set_device_key_fields [simp]:
  "od_user_id (set_device_key k v d) = od_user_id d" "od_device_id (set_device_key k v d) = od_device_id d"
  "od_trust_state (set_device_key k v d) = od_trust_state d" "od_deleted (set_device_key k v d) = od_deleted d"
  "od_display_name (set_device_key k v d) = od_display_name d"
  by (simp_all add: set_device_key_def)

lemma device_key_fields [simp]:
  "device_key k (d\<lparr>od_display_name := n\<rparr>) = device_key k d" "device_key k (d\<lparr>od_deleted := b\<rparr>) = device_key k d"
  "device_key k (d\<lparr>od_trust_state := t\<rparr>) = device_key k d"
  by (simp_all add: device_key_def)

lemma trust_op_device:
  "snd (snd (unverify_device (db, d))) = d \<or> snd (snd (unverify_device (db, d))) = d\<lparr>od_trust_state := trust_unset\<rparr>"
  "snd (snd (unignore_device (db, d))) = d \<or> snd (snd (unignore_device (db, d))) = d\<lparr>od_trust_state := trust_unset\<rparr>"
  "snd (snd (blacklist_device (db, d))) = d \<or> snd (snd (blacklist_device (db, d))) = d\<lparr>od_trust_state := trust_blacklisted\<rparr>"
  by (auto simp: unverify_device_def unignore_device_def blacklist_device_def replace_trust_state_def Let_def split: option.splits)

lemma rotate_pinned: "pinned True d (snd (snd (rotate_identity sk ck n (db, d))))"
proof -
  let ?new = "\<lambda>e. (set_device_key ''curve25519'' ck (set_device_key ''ed25519'' sk e))\<lparr>od_display_name := n, od_deleted := False\<rparr>"
  define tail where "tail = andthen (modify (\<lambda>(db, d). (db, ?new d)))
     (bnd (reads (\<lambda>p. od_trust_state (snd p))) (\<lambda>t.
      if t = trust_blacklisted then bnd blacklist_device (\<lambda>_. ret ())
      else modify (\<lambda>(db, d). (db, d \<lparr> od_trust_state := trust_unset \<rparr>)) :: (('a, 'b, 'c) sqlite_store \<times> olm_device, unit) op))"
  have tail: "od_user_id (snd (snd (tail (db', e)))) = od_user_id e \<and> od_device_id (snd (snd (tail (db', e)))) = od_device_id e \<and>
      od_trust_state (snd (snd (tail (db', e)))) = (if od_trust_state e = trust_blacklisted then trust_blacklisted else trust_unset)"
    for db' e
    using trust_op_device(3)[of db' "?new e"]
    by (cases "blacklist_device (db', ?new e)") (auto simp: tail_def op_basic split: sum.splits)
  have run: "rotate_identity sk ck n = bnd (reads (\<lambda>p. od_trust_state (snd p))) (\<lambda>t.
     andthen
       (if t = trust_verified then bnd unverify_device (\<lambda>_. ret ())
        else if t = trust_ignored then bnd unignore_device (\<lambda>_. ret ())
        else ret ()) tail)"
    by (simp add: rotate_identity_def tail_def)
  show ?thesis
  proof (cases "od_trust_state d")
    case trust_verified
    obtain r db' e where u: "unverify_device (db, d) = (r, (db', e))" by (cases "unverify_device (db, d)") auto
    with trust_op_device(1)[of db d] have "e = d \<or> e = d\<lparr>od_trust_state := trust_unset\<rparr>" by simp
    with trust_verified u tail[of db' e] show ?thesis
      by (cases r) (auto simp: run op_basic pinned_def)
  next
    case trust_ignored
    obtain r db' e where u: "unignore_device (db, d) = (r, (db', e))" by (cases "unignore_device (db, d)") auto
    with trust_op_device(2)[of db d] have "e = d \<or> e = d\<lparr>od_trust_state := trust_unset\<rparr>" by simp
    with trust_ignored u tail[of db' e] show ?thesis
      by (cases r) (auto simp: run op_basic pinned_def)
  qed (use tail[of db d] in \<open>simp_all add: run op_basic pinned_def\<close>)
qed

lemma update_pinned: "pinned r d (snd (snd (update_device r sk ck n (db, d))))"
proof -
  obtain x db' e where rot: "rotate_identity sk ck n (db, d) = (x, (db', e))"
    by (cases "rotate_identity sk ck n (db, d)") auto
  with rotate_pinned[of d sk ck n db] have "pinned True d e" by simp
  moreover have "pinned r d (set_device_key ''curve25519'' ck d)" "pinned r d (d\<lparr>od_display_name := n\<rparr>)"
    by (simp_all add: pinned_def device_key_set)
  ultimately show ?thesis
    using rot by (cases x; cases r)
      (auto simp: update_device_def op_basic pinned_refl split: sum.splits)
qed

lemma pins_apply_identity: "moves pins (apply_identity u i fp ck n)"
  unfolding moves_def
proof
  fix s :: "('a, 'b, 'c, 'd, 'e, 'f) olm"
  obtain ds t where get: "on_devices (store_getitem u) s = (Inr ds, t)"
    by (cases "dget (om_device_store s) u") (simp_all add: on_devices_def store_getitem_def)
  then have st: "pins s t" using pins_parts(1)[of u] unfolding moves_def by (metis snd_conv)
  have ds: "dget ds i = lookup_device (om_device_store t) u i"
    using get by (auto simp: on_devices_def store_getitem_def lookup_device_def dget_or_def split: option.splits)
  let ?d = "(OlmDevice u i [(''ed25519'', fp), (''curve25519'', ck)])\<lparr>od_display_name := n\<rparr>"
  have run: "snd (apply_identity u i fp ck n s) =
      snd (case dget ds i of
         None \<Rightarrow> bnd (on_devices (store_add ?d)) (\<lambda>_. ret True) t
       | Some _ \<Rightarrow> on_device (u, i) (update_device (om_replace_rotated_device_keys t) fp ck n) t)"
    using get by (auto simp: apply_identity_def bnd_def[of "on_devices _"] op_basic split: option.splits)
  have "pins t (snd (apply_identity u i fp ck n s))"
  proof (cases "dget ds i")
    case None
    have "snd (bnd (on_devices (store_add ?d)) (\<lambda>_. ret True) t) =
        (if ?d \<in> set (all_devices (om_device_store t)) then t
         else t\<lparr>om_device_store := put_device (u, i) ?d (snd (store_getitem u (om_device_store t)))\<rparr>)"
      by (auto simp: on_devices_def store_add_def op_basic OlmDevice_def put_device_def store_getitem_def dget_or_def
          split: option.splits)
    moreover have "pins t (t\<lparr>om_device_store := put_device (u, i) ?d (snd (store_getitem u (om_device_store t)))\<rparr>)"
      using None ds by (intro pinsI) (auto simp: lookup_put lookup_getitem pinned_refl OlmDevice_def split: if_splits)
    ultimately show ?thesis using None run by (simp add: pins_refl)
  next
    case (Some d)
    then show ?thesis using run pins_on_device[of t, OF update_pinned] by simp
  qed
  with st show "pins s (snd (apply_identity u i fp ck n s))" by (rule pins_trans)
qed

lemma pins_query_device: "moves pins (query_device lib u p c)"
  unfolding query_device_def Let_def
  by (auto intro!: pn.moves_rules pins_apply_identity pins_device_item split: sum.splits exn.splits prod.splits)

lemma pins_mark_deleted: "moves pins (mark_deleted u i c)"
  unfolding mark_deleted_def
proof (intro pn.moves_rules pins_device_item)
  show "moves pins (on_device (u, i) (modify (\<lambda>(db, d). (db, d\<lparr>od_deleted := True\<rparr>))))"
    unfolding moves_def by (intro allI pins_on_device) (simp add: op_basic pinned_def)
qed

lemma pins_query_user: "moves pins (query_user lib q p c)"
  unfolding query_user_def Let_def
  by (intro pn.moves_rules pn.moves_modify pins_query_device pins_mark_deleted pins_active) (simp add: pins_elsewhere)

lemma pins_key_query: "moves pins (handle_key_query lib device_keys queried)"
  unfolding handle_key_query_def by (intro pn.moves_rules pins_query_user pins_parts)

text \<open>C19: A key query never moves trust: a device that was known keeps its identity key and its
  trust, unless rotated identities are replaced, and then the new identity is not trusted while a
  blocked device stays blocked; and a device that was not known is not trusted. This holds even
  if the query raises on the way.\<close>

theorem key_query_pins_identities:
  assumes "t = snd (handle_key_query lib device_keys queried s)"
  shows "case lookup_device (om_device_store s) u i of
      Some d \<Rightarrow> \<exists>e. lookup_device (om_device_store t) u i = Some e \<and> pinned (om_replace_rotated_device_keys s) d e
    | None \<Rightarrow> (case lookup_device (om_device_store t) u i of None \<Rightarrow> True | Some e \<Rightarrow> od_trust_state e = trust_unset)"
proof -
  have "pins s t" using pins_key_query assms unfolding moves_def by blast
  then show ?thesis by (simp add: pins_def)
qed

text \<open>The response that gives the user's phone a new identity, signed by it.\<close>

definition rotated_phone :: jobj where
  "rotated_phone = [(''@me:x'', JObj [(''PHONE'', JObj [(''user_id'', JStr ''@me:x''), (''device_id'', JStr ''PHONE''),
     (''keys'', JObj [(''ed25519:PHONE'', JStr ''new''), (''curve25519:PHONE'', JStr ''nc'')]),
     (''signatures'', JObj [(''@me:x'', JObj [(''ed25519:PHONE'', JStr ''new'')])])])])]"

theorem key_query_pins_identities_witness:
  "\<exists>e. lookup_device (om_device_store (snd (handle_key_query sample_lib rotated_phone None (requested_olm trust_verified))))
         ''@me:x'' ''PHONE'' = Some e \<and> device_ed25519 e = Inr ''new'' \<and> od_trust_state e = trust_unset"
proof -
  let ?s = "requested_olm trust_verified"
  let ?t = "snd (handle_key_query sample_lib rotated_phone None ?s)"
  have known: "lookup_device (om_device_store ?s) ''@me:x'' ''PHONE'' = Some (sample_device trust_verified)"
    by (simp add: requested_olm_def lookup_device_def dget_or_def)
  from key_query_pins_identities[OF refl, of sample_lib rotated_phone None ?s "''@me:x''" "''PHONE''", unfolded known]
  obtain e where e: "lookup_device (om_device_store ?t) ''@me:x'' ''PHONE'' = Some e"
    "pinned (om_replace_rotated_device_keys ?s) (sample_device trust_verified) e" by auto
  have "map_option device_ed25519 (lookup_device (om_device_store ?t) ''@me:x'' ''PHONE'') = Some (Inr ''new'')"
    by code_simp
  with e(1) have new: "device_ed25519 e = Inr ''new''" by simp
  have "device_ed25519 (sample_device trust_verified) = Inr ''pf''" by code_simp
  with new e(2) have "od_trust_state e = trust_unset" by (auto simp: pinned_def sample_device_def)
  with e(1) new show ?thesis by blast
qed

end
