(* ===== verification/Nio_Olm_Claims.thy ===== *)
theory Nio_Olm_Claims
  imports Nio_Olm_Facts Nio_Event_Claims
begin

text \<open>
  What a decrypted message can and cannot do: a payload, which its sender chooses, never makes
  the parser raise and never changes who sent the event; an event counts as verified only if the
  keys of a verified device, or of this one, say so; and room keys are accepted from nobody else
  than the senders the machine asked.
\<close>

section \<open>The envelope of a parsed event\<close>

text \<open>An event made from a dictionary has the sender, the id and the time of the dictionary.\<close>

definition honest :: "(json \<Rightarrow> exn + event) \<Rightarrow> bool" where
  "honest f \<longleftrightarrow>
     (\<forall>d e s i n. dget d ''sender'' = Some (JStr s) \<longrightarrow> dget d ''event_id'' = Some (JStr i) \<longrightarrow>
        dget d ''origin_server_ts'' = Some (JInt n) \<longrightarrow> 0 \<le> n \<longrightarrow> f (JObj d) = Inr e \<longrightarrow>
        \<not> e_verified e \<and>
        (e_body e = UnknownBadEvent \<or>
         e_sender e = JStr s \<and> e_event_id e = JStr i \<and> e_server_timestamp e = JInt n))"

named_theorems honest_rules

lemma honest_simple [honest_rules]:
  "honest (\<lambda>v. Event v (b v))" "honest (\<lambda>v. Inl x)"
  by (auto simp: honest_def Event_def item_def base_event_def)

lemma honest_rbind [honest_rules]:
  "(\<And>x. honest (\<lambda>v. f x v)) \<Longrightarrow> honest (\<lambda>v. rbind (m v) (\<lambda>x. f x v))"
  unfolding honest_def rbind_Inr_iff by blast

lemma honest_if [honest_rules]:
  "honest f \<Longrightarrow> honest g \<Longrightarrow> honest (\<lambda>v. if b v then f v else g v)"
  unfolding honest_def by simp

lemma honest_update [honest_rules]:
  "honest f \<Longrightarrow> honest (\<lambda>v. rbind (f v) (\<lambda>e. Inr (e \<lparr> e_transaction_id := x v \<rparr>)))"
  "honest f \<Longrightarrow> honest (\<lambda>v. rbind (f v) (\<lambda>e. Inr (e \<lparr> e_sender_key := k v, e_session_id := i v, e_transaction_id := x v \<rparr>)))"
  unfolding honest_def rbind_Inr_iff by (fastforce, fastforce)

lemma honest_bad_event [honest_rules]: "honest bad_event"
  by (auto simp: honest_def bad_event_def BadEvent_from_dict_def item_def base_event_def max_zero_def rbind_Inr_iff
      split: option.splits)

lemma honest_verify [honest_rules]:
  assumes "draft4 validate" "tidy s" "honest f"
  shows "honest (verify validate s f)"
  unfolding honest_def
proof (intro allI impI)
  fix d e x i n
  assume d: "dget d ''sender'' = Some (JStr x)" "dget d ''event_id'' = Some (JStr i)"
    "dget d ''origin_server_ts'' = Some (JInt n)" "0 \<le> n" and v: "verify validate s f (JObj d) = Inr e"
  obtain ok w where w: "validate s (JObj d) = (ok, w)" by (cases "validate s (JObj d)")
  then have "grows (JObj d) w" using assms(1,2) unfolding draft4_def by (metis snd_conv)
  then obtain d' where d': "w = JObj d'" "grows (JObj d) (JObj d')" using grows_objD by blast
  then have "dget d' ''sender'' = Some (JStr x)" "dget d' ''event_id'' = Some (JStr i)"
    "dget d' ''origin_server_ts'' = Some (JInt n)"
    using d grown_string grown_int by blast+
  moreover have "(if ok then f else bad_event) (JObj d') = Inr e" using v w d' by (simp add: verify_def split: if_splits)
  ultimately show "\<not> e_verified e \<and>
      (e_body e = UnknownBadEvent \<or> e_sender e = JStr x \<and> e_event_id e = JStr i \<and> e_server_timestamp e = JInt n)"
    using assms(3) honest_bad_event d(4) unfolding honest_def by (cases ok) simp_all
qed

lemma honest_plain:
  assumes "draft4 validate"
  shows "honest (MegolmEvent_from_dict validate)"
    "honest (CallCandidatesEvent_from_dict validate)" "honest (CallInviteEvent_from_dict validate)"
    "honest (CallAnswerEvent_from_dict validate)" "honest (CallHangupEvent_from_dict validate)"
    "honest (RedactedEvent_from_dict validate)" "honest (RoomEncryptionEvent_from_dict validate)"
    "honest (RoomAliasEvent_from_dict validate)" "honest (RoomNameEvent_from_dict validate)"
    "honest (RoomTopicEvent_from_dict validate)" "honest (RoomAvatarEvent_from_dict validate)"
    "honest (RedactionEvent_from_dict validate)" "honest (ReactionEvent_from_dict validate)"
    "honest (RoomUpgradeEvent_from_dict validate)" "honest (StickerEvent_from_dict validate)"
    "honest (RoomMemberEvent_from_dict validate)"
  unfolding MegolmEvent_from_dict_def CallCandidatesEvent_from_dict_def CallInviteEvent_from_dict_def
    CallAnswerEvent_from_dict_def CallHangupEvent_from_dict_def RedactedEvent_from_dict_def
    RoomEncryptionEvent_from_dict_def RoomAliasEvent_from_dict_def RoomNameEvent_from_dict_def
    RoomTopicEvent_from_dict_def RoomAvatarEvent_from_dict_def RedactionEvent_from_dict_def
    ReactionEvent_from_dict_def RoomUpgradeEvent_from_dict_def StickerEvent_from_dict_def
    RoomMemberEvent_from_dict_def from_content_def from_content_or_def
  by (intro honest_rules assms schemas_tidy)+

lemma honest_defaults:
  assumes "draft4 validate"
  shows "honest (RoomCreateEvent_from_dict validate)" "honest (RoomGuestAccessEvent_from_dict validate)"
    "honest (RoomJoinRulesEvent_from_dict validate)" "honest (RoomHistoryVisibilityEvent_from_dict validate)"
    "honest (RoomSpaceParentEvent_from_dict validate)" "honest (RoomSpaceChildEvent_from_dict validate)"
    "honest (PowerLevelsEvent_from_dict validate)"
  unfolding RoomCreateEvent_from_dict_def RoomGuestAccessEvent_from_dict_def RoomJoinRulesEvent_from_dict_def
    RoomHistoryVisibilityEvent_from_dict_def RoomSpaceParentEvent_from_dict_def RoomSpaceChildEvent_from_dict_def
    PowerLevelsEvent_from_dict_def from_content_def
  by (intro honest_rules assms schemas_tidy)+

lemma honest_unknown:
  "honest UnknownEvent_from_dict" "honest UnknownEncryptedEvent_from_dict" "honest RoomMessageUnknown_from_dict"
  unfolding UnknownEvent_from_dict_def UnknownEncryptedEvent_from_dict_def RoomMessageUnknown_from_dict_def
  by (intro honest_rules)+

lemma honest_messages:
  assumes "draft4 validate"
  shows "honest (RoomMessageMedia_from_dict validate m)" "honest (RoomEncryptedMedia_from_dict validate m)"
    "honest (RoomMessageFormatted_from_dict validate Schemas_room_message_text b)"
    "honest (RoomMessageFormatted_from_dict validate Schemas_room_message_emote b)"
    "honest (RoomMessageFormatted_from_dict validate Schemas_room_message_notice b)"
  unfolding RoomMessageMedia_from_dict_def RoomEncryptedMedia_from_dict_def RoomMessageFormatted_from_dict_def
  by (intro honest_rules assms schemas_tidy)+

lemma honest_message_of_type:
  assumes "draft4 validate"
  shows "honest (message_of_type validate c t)"
proof (cases t)
  case (JStr s)
  show ?thesis
  proof (cases "media_class_of s")
    case (Some m)
    then have "message_of_type validate c t =
        (\<lambda>v. rbind (contains ''file'' c) (\<lambda>encrypted.
          if encrypted then RoomEncryptedMedia_from_dict validate m v
          else RoomMessageMedia_from_dict validate m v))"
      by (simp add: fun_eq_iff message_of_type_def JStr)
    then show ?thesis by (simp only:) (intro honest_rules honest_messages assms)
  next
    case None
    have "message_of_type validate c t = RoomMessageFormatted_from_dict validate Schemas_room_message_text RoomMessageText \<or>
        message_of_type validate c t = RoomMessageFormatted_from_dict validate Schemas_room_message_emote RoomMessageEmote \<or>
        message_of_type validate c t = RoomMessageFormatted_from_dict validate Schemas_room_message_notice RoomMessageNotice \<or>
        message_of_type validate c t = RoomMessageUnknown_from_dict"
      using None by (auto simp: fun_eq_iff message_of_type_def JStr)
    then show ?thesis using honest_messages(3-5)[OF assms] honest_unknown(3) by metis
  qed
next
  case JNull
  then have "message_of_type validate c t = RoomMessageUnknown_from_dict" by (simp add: fun_eq_iff message_of_type_def)
  then show ?thesis using honest_unknown(3) by simp
qed (use honest_unknown(3) honest_simple(2) in \<open>simp_all add: message_of_type_def[abs_def]\<close>)

lemma honest_dispatch:
  assumes "draft4 validate"
  shows "honest (RoomMessage_parse_event validate)" "honest (parse_encrypted_event validate)"
    "honest (CallEvent_parse_event validate)"
proof -
  have "honest (\<lambda>v. rbind (item v ''content'') (\<lambda>c.
     rbind (item c ''msgtype'') (\<lambda>t.
     rbind (message_of_type validate c t v) (\<lambda>e.
     rbind (contains ''unsigned'' v) (\<lambda>b.
     if b then rbind (unsigned_transaction v) (\<lambda>tx. Inr (e \<lparr> e_transaction_id := tx \<rparr>))
     else Inr e)))))"
  proof (rule honest_rbind, rule honest_rbind)
    fix c t
    have "honest (message_of_type validate c t)" using assms by (rule honest_message_of_type)
    then show "honest (\<lambda>v. rbind (message_of_type validate c t v) (\<lambda>e.
       rbind (contains ''unsigned'' v) (\<lambda>b.
       if b then rbind (unsigned_transaction v) (\<lambda>tx. Inr (e \<lparr> e_transaction_id := tx \<rparr>))
       else Inr e)))"
      unfolding honest_def by (fastforce simp: rbind_Inr_iff split: if_splits)
  qed
  then show "honest (RoomMessage_parse_event validate)"
    unfolding RoomMessage_parse_event_def by (intro honest_verify assms schemas_tidy)
  show "honest (parse_encrypted_event validate)" "honest (CallEvent_parse_event validate)"
    unfolding parse_encrypted_event_def CallEvent_parse_event_def
    by (intro honest_rules honest_unknown honest_plain assms schemas_tidy)+
qed

lemma honest_event_parsers:
  assumes "draft4 validate" "dget (event_parsers validate) t = Some p"
  shows "honest p"
  using assms(2) honest_plain[OF assms(1)] honest_defaults[OF assms(1)] honest_dispatch[OF assms(1)]
  by (auto simp: event_parsers_def split: if_splits)

lemma honest_parse_by_type:
  assumes "draft4 validate"
  shows "honest (parse_by_type validate)"
  unfolding parse_by_type_def
proof (rule honest_rbind)
  fix t
  show "honest (\<lambda>v. case t of
       JStr s \<Rightarrow>
         (case dget (event_parsers validate) s of
            Some parse \<Rightarrow> parse v
          | None \<Rightarrow>
              if starts ''m.call'' s \<noteq> None then CallEvent_parse_event validate v
              else UnknownEvent_from_dict v)
     | _ \<Rightarrow> Inl (AttributeError ''startswith''))"
  proof (cases t)
    case (JStr s)
    then show ?thesis
      using honest_event_parsers[OF assms, of s] honest_dispatch(3)[OF assms] honest_unknown(1)
      by (cases "dget (event_parsers validate) s") (simp_all add: honest_if)
  qed (simp_all add: honest_simple)
qed

lemma honest_parse_decrypted:
  assumes "draft4 validate"
  shows "honest (parse_event validate)" "honest (parse_decrypted_event validate)"
proof -
  show event: "honest (parse_event validate)"
    unfolding parse_event_def
    by (intro honest_rules assms schemas_tidy honest_plain honest_parse_by_type)
  show "honest (parse_decrypted_event validate)"
    unfolding parse_decrypted_event_def
    by (intro honest_rules assms schemas_tidy honest_plain honest_dispatch event)
qed

section \<open>Payloads of room messages\<close>

text \<open>A wire event as its parser leaves it: the content is an object, the time is not negative.\<close>

definition wire_ok :: "megolm_event \<Rightarrow> bool" where
  "wire_ok event \<longleftrightarrow> (\<exists>c. dget (mg_source event) ''content'' = Some (JObj c)) \<and> 0 \<le> mg_server_timestamp event"

lemma strip_wire_fields_get:
  "dget (strip_wire_fields d) k =
     (if k \<in> {''event_id'', ''sender'', ''origin_server_ts'', ''unsigned''} then None else dget d k)"
  by (simp add: strip_wire_fields_def)

lemma megolm_decrypted_shape:
  "conforms Schemas_room_megolm_decrypted (JObj d) \<Longrightarrow>
     \<exists>t c. dget d ''type'' = Some (JStr t) \<and> dget d ''content'' = Some (JObj c)"
  by (auto simp: Schemas_room_megolm_decrypted_def)

text \<open>What the payload becomes: its own type and content under the envelope of the wire event.\<close>

lemma with_wire_fields_run:
  assumes "wire_ok event" "dget d ''type'' = Some (JStr t)" "dget d ''content'' = Some (JObj c)"
    and "dget d ''unsigned'' = None"
  shows "\<exists>w. with_wire_fields event (JObj d) = Inr (JObj w) \<and> enveloped t w \<and> readable_prev w \<and>
    dget w ''sender'' = Some (JStr (mg_sender event)) \<and> dget w ''event_id'' = Some (JStr (mg_event_id event)) \<and>
    dget w ''origin_server_ts'' = Some (JInt (mg_server_timestamp event))"
proof -
  obtain sc where sc: "dget (mg_source event) ''content'' = Some (JObj sc)" using assms(1) by (auto simp: wire_ok_def)
  obtain c' where c': "with_relation event (JObj c) = Inr (JObj c')"
    using sc by (cases "dget c ''m.relates_to''"; cases "dget sc ''m.relates_to''")
      (simp_all add: with_relation_def contains_def item_def set_item_def)
  let ?v = "dset (dset (dset (dset d ''event_id'' (JStr (mg_event_id event))) ''content'' (JObj c'))
      ''sender'' (JStr (mg_sender event))) ''origin_server_ts'' (JInt (mg_server_timestamp event))"
  have run: "with_wire_fields event (JObj d) = Inr (case mg_transaction_id event of
        Some t \<Rightarrow> if t = [] then JObj ?v else JObj (dset ?v ''unsigned'' (JObj [(''transaction_id'', JStr t)]))
      | None \<Rightarrow> JObj ?v)"
    using assms(3) c' by (auto simp: with_wire_fields_def set_item_def item_def Let_def split: option.split)
  then obtain w where w: "with_wire_fields event (JObj d) = Inr (JObj w)"
    "w = ?v \<or> (\<exists>x. w = dset ?v ''unsigned'' (JObj [(''transaction_id'', JStr x)]))"
    by (cases "mg_transaction_id event") (auto split: if_splits)
  then show ?thesis
    using assms(2,4) by (auto simp: enveloped_def scalars_def signed_def readable_prev_def)
qed

lemma stripped_bad:
  "dget d ''origin_server_ts'' = None \<Longrightarrow> bad_event (JObj d) = Inr (base_event (JObj d) JNull JNull JNull UnknownBadEvent)"
  by (simp add: bad_event_def BadEvent_from_dict_def item_def)

lemma parse_payload_run:
  assumes "draft4 validate" "wire_ok event" "parse_decrypted_json loads plaintext = Inr (JObj d)"
  shows "(\<exists>v. parse_payload validate loads event trusted plaintext = Inr (base_event v JNull JNull JNull UnknownBadEvent)) \<or>
    (\<exists>w t. enveloped t w \<and> readable_prev w \<and>
       dget w ''sender'' = Some (JStr (mg_sender event)) \<and> dget w ''event_id'' = Some (JStr (mg_event_id event)) \<and>
       dget w ''origin_server_ts'' = Some (JInt (mg_server_timestamp event)) \<and>
       parse_payload validate loads event trusted plaintext =
         rbind (parse_decrypted_event validate (JObj w)) (\<lambda>e.
           if e_body e = UnknownBadEvent then Inr e
           else Inr (e \<lparr> e_decrypted := True, e_verified := trusted, e_sender_key := JStr (mg_sender_key event),
                      e_session_id := JStr (mg_session_id event) \<rparr>)))"
proof -
  let ?d = "strip_wire_fields d"
  obtain ok v where val: "validate Schemas_room_megolm_decrypted (JObj ?d) = (ok, v)"
    by (cases "validate Schemas_room_megolm_decrypted (JObj ?d)")
  have spec: "ok = conforms Schemas_room_megolm_decrypted (JObj ?d)" "v = JObj ?d"
    using assms(1) val by (auto simp: draft4_def fill_nothing dest!: spec[of _ Schemas_room_megolm_decrypted] spec[of _ "JObj ?d"])
  show ?thesis
  proof (cases ok)
    case False
    have "dget ?d ''origin_server_ts'' = None" by (simp add: strip_wire_fields_get)
    with False val spec(2) assms(3) show ?thesis
      by (intro disjI1 exI[of _ "JObj ?d"]) (simp add: parse_payload_def stripped_bad)
  next
    case True
    with spec(1) obtain t c where tc: "dget ?d ''type'' = Some (JStr t)" "dget ?d ''content'' = Some (JObj c)"
      using megolm_decrypted_shape by blast
    moreover have "dget ?d ''unsigned'' = None" by (simp add: strip_wire_fields_get)
    ultimately obtain w where w: "with_wire_fields event (JObj ?d) = Inr (JObj w)" "enveloped t w" "readable_prev w"
      "dget w ''sender'' = Some (JStr (mg_sender event))" "dget w ''event_id'' = Some (JStr (mg_event_id event))"
      "dget w ''origin_server_ts'' = Some (JInt (mg_server_timestamp event))"
      using with_wire_fields_run[OF assms(2)] by blast
    with True val spec(2) assms(3) show ?thesis by (simp add: parse_payload_def) blast
  qed
qed

text \<open>C34: Whatever text a room message decrypts to, its parser returns an event or raises the
  \<^verbatim>\<open>EncryptionError\<close> its callers catch: a sender cannot make the sync loop of a receiver fail.\<close>

theorem payload_never_crashes:
  assumes "draft4 validate" "wire_ok event"
  shows "(\<exists>e. parse_payload validate loads event trusted plaintext = Inr e) \<or>
    (\<exists>m. parse_payload validate loads event trusted plaintext = Inl (EncryptionError m))"
proof (cases "parse_decrypted_json loads plaintext")
  case (Inl x)
  then have "\<exists>m. x = ValueError m" by (auto simp: parse_decrypted_json_def split: option.splits if_splits)
  with Inl show ?thesis by (auto simp: parse_payload_def)
next
  case (Inr v)
  show ?thesis
  proof (cases "\<exists>d. v = JObj d")
    case True
    with Inr obtain d where "parse_decrypted_json loads plaintext = Inr (JObj d)" by blast
    from parse_payload_run[OF assms this, of trusted] show ?thesis
      using parse_decrypted_event_ok[OF assms(1)]
      by (fastforce simp: yields_def rbind_def split: sum.splits)
  next
    case False
    then show ?thesis using Inr by (cases v) (auto simp: parse_payload_def)
  qed
qed

definition sample_wire :: megolm_event where
  "sample_wire = (sample_message ''$1'') \<lparr> mg_source := [(''content'', JObj [])] \<rparr>"

theorem payload_never_crashes_witness:
  "(\<exists>e. parse_payload plain_validator (\<lambda>_. Some (JObj [(''type'', JStr ''m.room.message''), (''content'', JObj [])]))
          sample_wire True ''x'' = Inr e) \<or>
   (\<exists>m. parse_payload plain_validator (\<lambda>_. Some (JObj [(''type'', JStr ''m.room.message''), (''content'', JObj [])]))
          sample_wire True ''x'' = Inl (EncryptionError m))"
  by (rule payload_never_crashes[OF plain_validator_draft4])
    (simp add: sample_wire_def wire_ok_def sample_message_def)

lemma parse_payload_envelope:
  assumes "draft4 validate" "wire_ok event"
    and "parse_payload validate loads event trusted plaintext = Inr e" "e_body e \<noteq> UnknownBadEvent"
  shows "e_sender e = JStr (mg_sender event) \<and> e_event_id e = JStr (mg_event_id event) \<and>
    e_server_timestamp e = JInt (mg_server_timestamp event) \<and> e_sender_key e = JStr (mg_sender_key event) \<and>
    e_session_id e = JStr (mg_session_id event) \<and> e_decrypted e \<and> e_verified e = trusted"
proof -
  obtain d where "parse_decrypted_json loads plaintext = Inr (JObj d)"
    using assms(3) by (auto simp: parse_payload_def split: sum.splits exn.splits json.splits)
  from parse_payload_run[OF assms(1,2) this, of trusted] show ?thesis
  proof
    assume "\<exists>v. parse_payload validate loads event trusted plaintext = Inr (base_event v JNull JNull JNull UnknownBadEvent)"
    with assms(3,4) show ?thesis by (auto simp: base_event_def)
  next
    assume "\<exists>w t. enveloped t w \<and> readable_prev w \<and>
       dget w ''sender'' = Some (JStr (mg_sender event)) \<and> dget w ''event_id'' = Some (JStr (mg_event_id event)) \<and>
       dget w ''origin_server_ts'' = Some (JInt (mg_server_timestamp event)) \<and>
       parse_payload validate loads event trusted plaintext =
         rbind (parse_decrypted_event validate (JObj w)) (\<lambda>e.
           if e_body e = UnknownBadEvent then Inr e
           else Inr (e \<lparr> e_decrypted := True, e_verified := trusted, e_sender_key := JStr (mg_sender_key event),
                      e_session_id := JStr (mg_session_id event) \<rparr>))"
    then obtain w where w: "dget w ''sender'' = Some (JStr (mg_sender event))"
      "dget w ''event_id'' = Some (JStr (mg_event_id event))"
      "dget w ''origin_server_ts'' = Some (JInt (mg_server_timestamp event))"
      and run: "parse_payload validate loads event trusted plaintext =
         rbind (parse_decrypted_event validate (JObj w)) (\<lambda>e.
           if e_body e = UnknownBadEvent then Inr e
           else Inr (e \<lparr> e_decrypted := True, e_verified := trusted, e_sender_key := JStr (mg_sender_key event),
                      e_session_id := JStr (mg_session_id event) \<rparr>))"
      by blast
    note got = trans [OF sym [OF run] assms(3)]
    from got obtain x where x: "parse_decrypted_event validate (JObj w) = Inr x"
      "e = (if e_body x = UnknownBadEvent then x
            else x \<lparr> e_decrypted := True, e_verified := trusted, e_sender_key := JStr (mg_sender_key event),
                     e_session_id := JStr (mg_session_id event) \<rparr>)"
      unfolding rbind_Inr_iff by (metis (mono_tags, lifting) sum.inject(2))
    have "0 \<le> mg_server_timestamp event" using assms(2) by (simp add: wire_ok_def)
    moreover have body: "e_body x \<noteq> UnknownBadEvent" using x(2) assms(4) by (cases "e_body x = UnknownBadEvent") simp_all
    ultimately have "e_sender x = JStr (mg_sender event) \<and> e_event_id x = JStr (mg_event_id event) \<and>
        e_server_timestamp x = JInt (mg_server_timestamp event)"
      using honest_parse_decrypted(2)[OF assms(1), unfolded honest_def, rule_format, OF w _ x(1)] by blast
    then show ?thesis using x(2) body by simp
  qed
qed

text \<open>Two reasons to trust: the message is this device's own, or a verified device's.\<close>

definition own_message :: "('a, 's, 'g, 'o, 'm) vodozemac_olm \<Rightarrow> ('a, 's, 'g, 'o, 'c, 'e) olm \<Rightarrow> megolm_event \<Rightarrow> 'g group_session \<Rightarrow> bool" where
  "own_message lib s event session \<longleftrightarrow>
     mg_sender event = om_user_id s \<and> mg_device_id event = om_device_id s \<and>
     gs_ed25519 session = vo_ed25519 lib (oa_account (om_account s)) \<and>
     mg_sender_key event = vo_curve25519 lib (oa_account (om_account s))"

definition from_verified_device :: "('a, 's, 'g, 'o, 'c, 'e) olm \<Rightarrow> megolm_event \<Rightarrow> 'g group_session \<Rightarrow> bool" where
  "from_verified_device s event session \<longleftrightarrow>
     gs_forwarding_chain session = [] \<and>
     (\<exists>d. lookup_device (om_device_store s) (mg_sender event) (mg_device_id event) = Some d \<and>
        is_device_verified (om_store s) d \<and> device_ed25519 d = Inr (gs_ed25519 session) \<and>
        device_curve25519 d = Inr (mg_sender_key event))"

lemma event_verified_sound:
  assumes "event_verified lib event session s = (Inr True, t)"
  shows "own_message lib s event session \<or> from_verified_device s event session"
proof (cases "own_message lib s event session")
  case False
  obtain r u where item: "device_item (mg_sender event) (mg_device_id event) s = (r, u)"
    by (cases "device_item (mg_sender event) (mg_device_id event) s")
  have store: "om_store u = om_store s"
    using item by (auto simp: device_item_def on_devices_def op_basic store_getitem_def split: option.splits)
  show ?thesis
  proof (cases r)
    case (Inl e)
    with item False assms show ?thesis
      by (auto simp: event_verified_def own_message_def Let_def bnd_def reads_def catching_def ret_def
          add_user_for_query_def modify_def split: exn.splits option.splits if_splits)
  next
    case (Inr d)
    from device_item_found item Inr have
      "lookup_device (om_device_store s) (mg_sender event) (mg_device_id event) = Some d" by blast
    moreover have "is_device_verified (om_store s) d \<and> gs_forwarding_chain session = [] \<and>
        device_ed25519 d = Inr (gs_ed25519 session) \<and> device_curve25519 d = Inr (mg_sender_key event)"
      using Inr item False assms store
      by (auto simp: event_verified_def own_message_def Let_def bnd_def reads_def catching_def ret_def lift_res_def
          raise_def split: if_splits sum.splits prod.splits)
    ultimately show ?thesis by (auto simp: from_verified_device_def)
  qed
qed simp

text \<open>The steps of a decryption leave what the trust in a sender rests on.\<close>

definition same_trust :: "('a, 's, 'g, 'o, 'c, 'e) olm \<Rightarrow> ('a, 's, 'g, 'o, 'c, 'e) olm \<Rightarrow> bool" where
  "same_trust s u \<longleftrightarrow> om_store u = om_store s \<and> om_device_store u = om_device_store s \<and> om_user_id u = om_user_id s \<and>
     om_device_id u = om_device_id s \<and> om_account u = om_account s"

lemma same_trust_steps:
  "on_groups m s = (r, u) \<Longrightarrow> same_trust s u"
  "group_decrypt lib room event session s = (q, u) \<Longrightarrow> same_trust s u"
  "message_index_ok cache i event s = (w, u) \<Longrightarrow> same_trust s u"
  by (auto simp: same_trust_def on_groups_def group_decrypt_def message_index_ok_def Let_def op_basic
      split: prod.splits sum.splits option.splits if_splits)

lemma decrypt_megolm_steps:
  assumes "decrypt_megolm_event lib validate loads cache now event room_id s = (Inr (e, room), t)"
  obtains session trusted plaintext u v where
    "group_session_at (om_inbound_group_store s) room (mg_sender_key event) (mg_session_id event) = Some session"
    "same_trust s u" "event_verified lib event session u = (Inr trusted, v)"
    "parse_payload validate loads event trusted plaintext = Inr e"
proof -
  let ?given = "case room_id of Some r \<Rightarrow> if r = [] then mg_room_id event else Some r | None \<Rightarrow> mg_room_id event"
  let ?room = "case ?given of Some r \<Rightarrow> r | None \<Rightarrow> []"
  have "\<not> (?room = [])" "\<not> (mg_sender_key event = [] \<or> mg_session_id event = [])"
    using assms unfolding decrypt_megolm_event_def Let_def by (auto simp: raise_def split: if_splits)
  note run = assms[unfolded decrypt_megolm_event_def Let_def if_not_P[OF this(1)] if_not_P[OF this(2)] bnd_Inr_iff]
  then obtain found u1 where get:
    "on_groups (GroupSessionStore_get ?room (mg_sender_key event) (mg_session_id event)) s = (Inr found, u1)"
    and rest: "(case found of
          None \<Rightarrow> andthen (check_if_wedged now event) (raise (EncryptionError ''no session found''))
        | Some session \<Rightarrow>
            bnd (group_decrypt lib ?room event session) (\<lambda>(plaintext, message_index).
            bnd (message_index_ok cache message_index event) (\<lambda>ok.
            if \<not> ok then raise (EncryptionError ''Duplicate message index, possible replay attack'')
            else
              bnd (event_verified lib event session) (\<lambda>trusted.
              bnd (lift_res (parse_payload validate loads event trusted plaintext)) (\<lambda>e.
              ret (e, ?room)))))) u1 = (Inr (e, room), t)"
    by blast
  from rest obtain session where session: "found = Some session"
    by (cases found) (auto simp: bnd_Inr_iff raise_def)
  from rest[unfolded session option.case bnd_Inr_iff] obtain plaintext i u2 where
    dec: "group_decrypt lib ?room event session u1 = (Inr (plaintext, i), u2)"
    and rest: "bnd (message_index_ok cache i event) (\<lambda>ok.
            if \<not> ok then raise (EncryptionError ''Duplicate message index, possible replay attack'')
            else
              bnd (event_verified lib event session) (\<lambda>trusted.
              bnd (lift_res (parse_payload validate loads event trusted plaintext)) (\<lambda>e.
              ret (e, ?room)))) u2 = (Inr (e, room), t)"
    by auto
  from rest obtain u3 where index: "message_index_ok cache i event u2 = (Inr True, u3)"
    and rest: "bnd (event_verified lib event session) (\<lambda>trusted.
              bnd (lift_res (parse_payload validate loads event trusted plaintext)) (\<lambda>e.
              ret (e, ?room))) u3 = (Inr (e, room), t)"
    unfolding bnd_Inr_iff[of "message_index_ok _ _ _"] by (auto simp: raise_def split: if_splits)
  from rest obtain trusted v where "event_verified lib event session u3 = (Inr trusted, v)"
    "parse_payload validate loads event trusted plaintext = Inr e" "room = ?room"
    unfolding bnd_Inr_iff by (auto simp: lift_res_def ret_def)
  moreover have "group_session_at (om_inbound_group_store s) ?room (mg_sender_key event) (mg_session_id event) = Some session"
    using get session by (auto simp: on_groups_def GroupSessionStore_get_def group_session_at_def Let_def)
  moreover have "same_trust s u3"
    using same_trust_steps(1)[OF get] same_trust_steps(2)[OF dec] same_trust_steps(3)[OF index]
    by (simp add: same_trust_def)
  ultimately show ?thesis using that by blast
qed

text \<open>C17: A room message that decrypts to an event yields one whose sender, event id and time are those
  of the wire event, which the server vouches for, whatever the payload claims; and it counts as
  verified only if it was decrypted with a session of that room and sender key which belongs to this
  device, or to a device of the sender that the database holds as verified and whose
  both keys are those of the session, not forwarded by anyone.\<close>

theorem decrypted_event_authentic:
  assumes "draft4 validate" "wire_ok event"
    and "decrypt_megolm_event lib validate loads cache now event room_id s = (Inr (e, room), t)"
    and "e_body e \<noteq> UnknownBadEvent"
  shows "e_sender e = JStr (mg_sender event) \<and> e_event_id e = JStr (mg_event_id event) \<and>
    e_server_timestamp e = JInt (mg_server_timestamp event) \<and> e_decrypted e \<and>
    (e_verified e \<longrightarrow>
       (\<exists>session. group_session_at (om_inbound_group_store s) room (mg_sender_key event) (mg_session_id event) = Some session \<and>
          (own_message lib s event session \<or> from_verified_device s event session)))"
proof -
  obtain session trusted plaintext u v where
    trust: "event_verified lib event session u = (Inr trusted, v)"
    and parsed: "parse_payload validate loads event trusted plaintext = Inr e"
    and found: "group_session_at (om_inbound_group_store s) room (mg_sender_key event) (mg_session_id event) = Some session"
    and same: "same_trust s u" by (rule decrypt_megolm_steps[OF assms(3)])
  have "own_message lib s event session \<or> from_verified_device s event session" if trusted
    using event_verified_sound[of lib event session u v] trust that same
    by (auto simp: own_message_def from_verified_device_def same_trust_def)
  with found parse_payload_envelope[OF assms(1,2) parsed assms(4)] show ?thesis by auto
qed

definition own_session_olm :: "((index_key, index_entry) dict) \<Rightarrow> (unit, unit, unit, unit, (index_key, index_entry) dict, unit) olm" where
  "own_session_olm c = (new_olm c ())
     \<lparr> om_inbound_group_store := [(''!r:x'', [(''ck'', [(''s'',
         \<lparr> gs_session = (), gs_ed25519 = ''fp'', gs_sender_key = ''ck'', gs_room_id = ''!r:x'', gs_forwarding_chain = [] \<rparr>)])])] \<rparr>"

definition own_wire :: megolm_event where
  "own_wire = sample_wire \<lparr> mg_sender := ''@me:x'', mg_device_id := ''MINE'', mg_sender_key := ''ck'' \<rparr>"

definition sample_payload :: "string \<Rightarrow> json option" where
  "sample_payload _ = Some (JObj [(''type'', JStr ''org.example.note''), (''sender'', JStr ''@mallory:x''),
     (''content'', JObj [(''note'', JStr ''hi'')])])"

text \<open>A payload that names another sender, sent by the user's own device.\<close>

theorem decrypted_event_authentic_witness:
  "\<exists>e t. decrypt_megolm_event sample_lib plain_validator sample_payload (recency_cache 10) 0 own_wire None
       (own_session_olm []) = (Inr (e, ''!r:x''), t) \<and>
     e_verified e \<and> e_sender e = JStr ''@me:x'' \<and> e_event_id e = JStr ''$1'' \<and>
     own_message sample_lib (own_session_olm []) own_wire
       (the (group_session_at (om_inbound_group_store (own_session_olm [])) ''!r:x'' ''ck'' ''s''))"
proof -
  let ?run = "decrypt_megolm_event sample_lib plain_validator sample_payload (recency_cache 10) 0 own_wire None (own_session_olm [])"
  have "case fst ?run of Inr (e, r) \<Rightarrow> r = ''!r:x'' \<and> e_verified e \<and> e_body e \<noteq> UnknownBadEvent | _ \<Rightarrow> False"
    by code_simp
  then obtain e t where run: "?run = (Inr (e, ''!r:x''), t)" "e_verified e" "e_body e \<noteq> UnknownBadEvent"
    by (cases ?run) (auto split: sum.splits prod.splits)
  have "wire_ok own_wire" by (simp add: own_wire_def sample_wire_def wire_ok_def sample_message_def)
  from decrypted_event_authentic[OF plain_validator_draft4 this run(1,3)] run(1,2)
  show ?thesis
    by (auto simp: own_wire_def sample_wire_def sample_message_def own_session_olm_def group_session_at_def
        sender_sessions_def dget_or_def from_verified_device_def new_olm_def lookup_device_def)
qed

end
