(* ===== verification/Nio_Olm_Verify.thy ===== *)
theory Nio_Olm_Verify
  imports Nio_Olm_Decrypt
begin

text \<open>
  Interactive verification inside the machine of \<^verbatim>\<open>src/nio/crypto/olm_machine.py\<close>: which
  session a verification event reaches, what is queued for the other device and when a device
  becomes verified; and the export and import of room keys.

  A session holds a reference to a device object of the device store. In the model the session
  has a copy, which \<open>on_sas\<close> brings up to date before each step.
\<close>

section \<open>Verification sessions\<close>

definition plain_message :: "Nio_Sas.to_device_message \<Rightarrow> Nio_Olm.to_device_message" where
  "plain_message m =
     ToDeviceMessage (Nio_Sas.to_device_message.td_type m) (td_recipient m) (td_recipient_device m) (JObj (td_content m))"

definition current_device :: "device_store \<Rightarrow> olm_device \<Rightarrow> olm_device" where
  "current_device st d =
     (case lookup_device st (od_user_id d) (od_device_id d) of None \<Rightarrow> d | Some d' \<Rightarrow> d')"

definition on_sas :: "string \<Rightarrow> ('e sas, 'x) op \<Rightarrow> ('a, 's, 'g, 'o, 'c, 'e, 'x) olm_op" where
  "on_sas key m s =
     (case dget (om_key_verifications s) key of
        None \<Rightarrow> (Inl (KeyError key), s)
      | Some x \<Rightarrow>
          (case m (x \<lparr> ss_other_olm_device := current_device (om_device_store s) (ss_other_olm_device x) \<rparr>) of
             (r, y) \<Rightarrow> (r, s \<lparr> om_key_verifications := dset (om_key_verifications s) key y \<rparr>)))"

definition create_sas ::
  "('a, 's, 'g, 'o, 'm) vodozemac_olm \<Rightarrow> string \<Rightarrow> string \<Rightarrow> int \<Rightarrow> olm_device \<Rightarrow>
   ('a, 's, 'g, 'o, 'c, 'e, Nio_Olm.to_device_message) olm_op" where
  "create_sas lib pubkey fresh_id now device =
     bnd (reads (\<lambda>s. sas_new pubkey fresh_id now (om_user_id s) (om_device_id s)
            (vo_ed25519 lib (oa_account (om_account s))) device None None None)) (\<lambda>new.
     andthen (modify (\<lambda>s. s \<lparr> om_key_verifications := dset (om_key_verifications s) (ss_transaction_id new) new \<rparr>))
     (bnd (on_sas (ss_transaction_id new) start_verification) (\<lambda>m. ret (plain_message m))))"

text \<open>The newest session with a device that is not cancelled, with the key it is filed under.\<close>

definition get_active_sas :: "string \<Rightarrow> string \<Rightarrow> ('a, 's, 'g, 'o, 'c, 'e) olm \<Rightarrow> (string \<times> 'e sas) option" where
  "get_active_sas user_id device_id s =
     find (\<lambda>(_, x). od_user_id (ss_other_olm_device x) = user_id \<and> od_device_id (ss_other_olm_device x) = device_id)
       (sort_key (\<lambda>(_, x). - ss_creation_time x) (filter (\<lambda>(_, x). \<not> canceled x) (om_key_verifications s)))"

definition queue_cancellation :: "string \<Rightarrow> ('a, 's, 'g, 'o, 'c, 'e, unit) olm_op" where
  "queue_cancellation key = bnd (on_sas key get_cancellation) (\<lambda>m. queue_message (plain_message m))"

definition max_sas_life :: int where
  "max_sas_life = 20 * 60 * 1000000"

text \<open>The loop of \<^verbatim>\<open>clear_verifications\<close>: the sessions that are kept and the events for the caller.\<close>

fun clear_from ::
  "validator \<Rightarrow> int \<Rightarrow> string list \<Rightarrow>
   ('a, 's, 'g, 'o, 'c, 'e, string list \<times> to_device_event parsed list) olm_op" where
  "clear_from validate now [] = ret ([], [])"
| "clear_from validate now (key # keys) =
     bnd (on_sas key (timed_out now)) (\<lambda>late.
     if late then
       bnd (on_sas key get_cancellation) (\<lambda>m.
       andthen (queue_message (plain_message m))
       (bnd (reads om_user_id) (\<lambda>user.
        bnd (lift_res (KeyVerificationCancel_from_dict validate
               (JObj [(''sender'', JStr user), (''content'', JObj (td_content m))]))) (\<lambda>e.
        bnd (clear_from validate now keys) (\<lambda>(kept, es). ret (kept, e # es))))))
     else
       bnd (on_sas key (reads id)) (\<lambda>x.
       bnd (clear_from validate now keys) (\<lambda>(kept, es).
       if (canceled x \<or> verified x) \<and> max_sas_life < now - ss_creation_time x
       then ret (kept, es)
       else ret (key # kept, es))))"

definition clear_verifications ::
  "validator \<Rightarrow> int \<Rightarrow> ('a, 's, 'g, 'o, 'c, 'e, to_device_event parsed list) olm_op" where
  "clear_verifications validate now =
     bnd (reads (\<lambda>s. dkeys (om_key_verifications s))) (\<lambda>keys.
     bnd (clear_from validate now keys) (\<lambda>(kept, es).
     andthen (modify (\<lambda>s. s \<lparr> om_key_verifications :=
       filter (\<lambda>(key, _). key \<in> set kept) (om_key_verifications s) \<rparr>))
     (ret es)))"

section \<open>Verification events\<close>

datatype verification_event =
    SasStart string kv_start
  | SasAccept kv_accept
  | SasKey kv_key
  | SasMac kv_mac
  | SasCancel kv_event

fun transaction_of :: "verification_event \<Rightarrow> string" where
  "transaction_of (SasStart _ e) = kv_transaction_id e"
| "transaction_of (SasAccept e) = kv_transaction_id e"
| "transaction_of (SasKey e) = kv_transaction_id e"
| "transaction_of (SasMac e) = kv_transaction_id e"
| "transaction_of (SasCancel e) = kv_transaction_id e"

text \<open>A start event: \<open>pubkey\<close> and \<open>fresh_id\<close> are what vodozemac and uuid4 draw for a new session.\<close>

definition supersede_active :: "string \<Rightarrow> string \<Rightarrow> ('a, 's, 'g, 'o, 'c, 'e, unit) olm_op" where
  "supersede_active user_id device_id =
     bnd (reads (get_active_sas user_id device_id)) (\<lambda>old.
     case old of
       None \<Rightarrow> ret ()
     | Some (key, _) \<Rightarrow> andthen (on_sas key sas_cancel) (queue_cancellation key))"

definition handle_start ::
  "('a, 's, 'g, 'o, 'm) vodozemac_olm \<Rightarrow> 'e vodozemac \<Rightarrow> string \<Rightarrow> string \<Rightarrow> int \<Rightarrow> string \<Rightarrow> kv_start \<Rightarrow>
   ('a, 's, 'g, 'o, 'c, 'e, unit) olm_op" where
  "handle_start lib vz pubkey fresh_id now from_device event =
     bnd (catching (bnd (device_item (kv_sender event) from_device) (\<lambda>d. ret (Some d)))
            (\<lambda>e. case e of KeyError _ \<Rightarrow> Some (ret None) | _ \<Rightarrow> None)) (\<lambda>found.
     case found of
       None \<Rightarrow> add_user_for_query (kv_sender event)
     | Some device \<Rightarrow>
         bnd (reads (\<lambda>s. from_key_verification_start vz pubkey fresh_id now (om_user_id s) (om_device_id s)
                (vo_ed25519 lib (oa_account (om_account s))) device event)) (\<lambda>new.
         if canceled new then
           bnd (lift_res (fst (get_cancellation new))) (\<lambda>m. queue_message (plain_message m))
         else
           andthen (supersede_active (kv_sender event) from_device)
           (modify (\<lambda>s. s \<lparr> om_key_verifications :=
              dset (om_key_verifications s) (kv_transaction_id event) new \<rparr>))))"

definition handle_accept :: "kv_accept \<Rightarrow> ('a, 's, 'g, 'o, 'c, 'e, unit) olm_op" where
  "handle_accept event =
     (let key = kv_transaction_id event in
      andthen (on_sas key (receive_accept_event event))
      (bnd (on_sas key (reads canceled)) (\<lambda>stopped.
       bnd (on_sas key (if stopped then get_cancellation else share_key)) (\<lambda>m.
       queue_message (plain_message m)))))"

definition handle_key :: "'e vodozemac \<Rightarrow> kv_key \<Rightarrow> ('a, 's, 'g, 'o, 'c, 'e, unit) olm_op" where
  "handle_key vz event =
     (let key = kv_transaction_id event in
      andthen (on_sas key (receive_key_event vz event))
      (bnd (on_sas key (reads id)) (\<lambda>x.
       if canceled x then queue_cancellation key
       else if \<not> ss_we_started_it x then
         bnd (on_sas key share_key) (\<lambda>m. queue_message (plain_message m))
       else ret ())))"

definition handle_mac :: "'e vodozemac \<Rightarrow> kv_mac \<Rightarrow> ('a, 's, 'g, 'o, 'c, 'e, unit) olm_op" where
  "handle_mac vz event =
     (let key = kv_transaction_id event in
      andthen (on_sas key (receive_mac_event vz event))
      (bnd (on_sas key (reads id)) (\<lambda>x.
       if canceled x then queue_cancellation key
       else if verified x then
         andthen (Olm_verify_device (device_ref (ss_other_olm_device x))) (ret ())
       else ret ())))"

definition handle_cancel :: "kv_event \<Rightarrow> ('a, 's, 'g, 'o, 'c, 'e, unit) olm_op" where
  "handle_cancel event =
     modify (\<lambda>s. s \<lparr> om_key_verifications := ddel (om_key_verifications s) (kv_transaction_id event) \<rparr>)"

definition handle_key_verification ::
  "('a, 's, 'g, 'o, 'm) vodozemac_olm \<Rightarrow> 'e vodozemac \<Rightarrow> string \<Rightarrow> string \<Rightarrow> int \<Rightarrow> verification_event \<Rightarrow>
   ('a, 's, 'g, 'o, 'c, 'e, unit) olm_op" where
  "handle_key_verification lib vz pubkey fresh_id now event =
     (case event of
        SasStart from_device e \<Rightarrow> handle_start lib vz pubkey fresh_id now from_device e
      | _ \<Rightarrow>
          bnd (reads (\<lambda>s. dget (om_key_verifications s) (transaction_of event))) (\<lambda>found.
          if found = None then ret ()
          else
            case event of
              SasAccept e \<Rightarrow> handle_accept e
            | SasKey e \<Rightarrow> handle_key vz e
            | SasMac e \<Rightarrow> handle_mac vz e
            | SasCancel e \<Rightarrow> handle_cancel e
            | SasStart _ _ \<Rightarrow> ret ()))"

section \<open>Export and import of room keys\<close>

text \<open>
  The list that \<^verbatim>\<open>export_keys\<close> writes and \<^verbatim>\<open>import_keys\<close> reads; printing, parsing and encrypting the
  file is left to \<open>json\<close> and to \<^verbatim>\<open>key_export.py\<close>.
\<close>

definition exported_session :: "('a, 's, 'g, 'o, 'm) vodozemac_olm \<Rightarrow> 'g group_session \<Rightarrow> exn + json" where
  "exported_session lib x =
     (case vo_group_export lib (gs_session x) (vo_group_first_index lib (gs_session x)) of
        None \<Rightarrow> Inl (AssertionError ''export'')
      | Some k \<Rightarrow> Inr (JObj
          [(''algorithm'', JStr megolm_algorithm),
           (''sender_key'', JStr (gs_sender_key x)),
           (''sender_claimed_keys'', JObj [(''ed25519'', JStr (gs_ed25519 x))]),
           (''forwarding_curve25519_key_chain'', JArr (map JStr (gs_forwarding_chain x))),
           (''room_id'', JStr (gs_room_id x)),
           (''session_id'', JStr (vo_group_id lib (gs_session x))),
           (''session_key'', JStr k)]))"

definition export_keys_static :: "('a, 's, 'g, 'o, 'm) vodozemac_olm \<Rightarrow> 'g group_session list \<Rightarrow> exn + json" where
  "export_keys_static lib xs = rbind (rmap (exported_session lib) xs) (\<lambda>ys. Inr (JArr ys))"

definition Schemas_megolm_key_import :: schema where
  "Schemas_megolm_key_import =
     Schema [
       Type [''array''],
       Items (Schema [
         Type [''object''],
         Properties [
           (''algorithm'', Schema [Type [''string'']]),
           (''session_key'', Schema [Type [''string'']]),
           (''sender_key'', Schema [Type [''string'']]),
           (''room_id'', Schema [Type [''string'']]),
           (''sender_claimed_keys'', Schema [Type [''object''],
              Properties [(''ed25519'', Schema [Type [''string'']])], Required [''ed25519'']]),
           (''forwarding_curve25519_key_chain'', Schema [Type [''array''], Items (Schema [Type [''string'']])])],
         Required [''algorithm'', ''session_key'', ''sender_key'', ''room_id'', ''sender_claimed_keys'',
           ''forwarding_curve25519_key_chain'']])]"

definition imported_session :: "('a, 's, 'g, 'o, 'm) vodozemac_olm \<Rightarrow> json \<Rightarrow> exn + 'g group_session option" where
  "imported_session lib d =
     rbind (item d ''algorithm'') (\<lambda>algorithm.
     if algorithm \<noteq> JStr megolm_algorithm then Inr None
     else
       rbind (item d ''session_key'') (\<lambda>session_key.
       rbind (rbind (item d ''sender_claimed_keys'') (\<lambda>k. str_item k ''ed25519'')) (\<lambda>fp.
       rbind (str_item d ''sender_key'') (\<lambda>sender_key.
       rbind (str_item d ''room_id'') (\<lambda>room_id.
       rbind (rbind (item d ''forwarding_curve25519_key_chain'') (\<lambda>c.
                case c of JArr xs \<Rightarrow> rmap str_value xs | _ \<Rightarrow> Inl (TypeError ''chain''))) (\<lambda>chain.
       import_group_session lib session_key fp sender_key room_id chain))))))"

definition iterated :: "json \<Rightarrow> exn + json list" where
  "iterated v =
     (case v of
        JArr xs \<Rightarrow> Inr xs
      | JObj d \<Rightarrow> Inr (map JStr (dkeys d))
      | JStr s \<Rightarrow> Inr (map (\<lambda>c. JStr [c]) s)
      | _ \<Rightarrow> Inl (TypeError ''not iterable''))"

text \<open>\<^verbatim>\<open>"sender_claimed_keys" in session\<close> raises for a number, a boolean or null.\<close>

definition with_claimed_keys :: "json list \<Rightarrow> exn + json list" where
  "with_claimed_keys ss =
     rbind (rmap (contains ''sender_claimed_keys'') ss) (\<lambda>bs.
     Inr (map fst (filter snd (zip ss bs))))"

definition import_keys_static ::
  "('a, 's, 'g, 'o, 'm) vodozemac_olm \<Rightarrow> validator \<Rightarrow> json option \<Rightarrow> exn + 'g group_session list" where
  "import_keys_static lib validate parsed =
     (case parsed of
        None \<Rightarrow> Inl (EncryptionError ''Error parsing key file'')
      | Some v \<Rightarrow>
          rbind (iterated v) (\<lambda>all.
          rbind (with_claimed_keys all) (\<lambda>session_list.
          if \<not> fst (validate Schemas_megolm_key_import (JArr session_list)) then
            Inl (EncryptionError ''Error parsing key file'')
          else
            rbind (rmap (imported_session lib) session_list) (\<lambda>xs.
            Inr (List.map_filter id xs)))))"

fun store_group_sessions ::
  "('a, 's, 'g, 'o, 'm) vodozemac_olm \<Rightarrow> 'g group_session list \<Rightarrow> ('a, 's, 'g, 'o, 'c, 'e, unit) olm_op" where
  "store_group_sessions lib [] = ret ()"
| "store_group_sessions lib (x # xs) = andthen (store_group_session lib x) (store_group_sessions lib xs)"

definition import_keys ::
  "('a, 's, 'g, 'o, 'm) vodozemac_olm \<Rightarrow> validator \<Rightarrow> json option \<Rightarrow> ('a, 's, 'g, 'o, 'c, 'e, unit) olm_op" where
  "import_keys lib validate parsed =
     bnd (lift_res (import_keys_static lib validate parsed)) (store_group_sessions lib)"

definition export_keys :: "('a, 's, 'g, 'o, 'm) vodozemac_olm \<Rightarrow> ('a, 's, 'g, 'o, 'c, 'e) olm \<Rightarrow> exn + json" where
  "export_keys lib s =
     export_keys_static lib (GroupSessionStore_iter (load_inbound_group_sessions (vo_group_id lib) (om_store s)))"

section \<open>The start of a machine\<close>

text \<open>
  \<^verbatim>\<open>Olm.__init__\<close> and \<^verbatim>\<open>load\<close>: \<open>fresh\<close> is the account that is made when the database has none, and
  \<open>cache\<close> the empty \<^verbatim>\<open>LRUCache\<close>.
\<close>

definition Olm_init ::
  "('a, 's, 'g, 'o, 'm) vodozemac_olm \<Rightarrow> 'a \<Rightarrow> 'c \<Rightarrow> string \<Rightarrow> string \<Rightarrow> bool \<Rightarrow> ('a, 's, 'g) sqlite_store \<Rightarrow>
   ('a, 's, 'g, 'o, 'c, 'e) olm" where
  "Olm_init lib fresh cache user_id device_id replaces db =
     (let account = (case load_account db of Some a \<Rightarrow> a | None \<Rightarrow> \<lparr> oa_account = fresh, oa_shared = False \<rparr>);
          db = (if load_account db = None then save_account account db else db)
      in
     \<lparr> om_user_id = user_id, om_device_id = device_id, om_replace_rotated_device_keys = replaces,
       om_uploaded_key_count = None, om_users_for_key_query = {}, om_device_store = load_device_keys db,
       om_session_store = load_sessions db,
       om_inbound_group_store = load_inbound_group_sessions (vo_group_id lib) db,
       om_outbound_group_sessions = [], om_tracked_users = {},
       om_outgoing_key_requests = load_outgoing_key_requests db, om_received_key_requests = [],
       om_key_requests_waiting_for_session = [], om_key_request_devices_no_session = [],
       om_key_request_from_untrusted = [], om_wedged_devices = [], om_key_re_requests_events = [],
       om_key_verifications = [], om_outgoing_to_device_messages = [],
       om_message_index_store = cache, om_store = db, om_account = account \<rparr>)"

end
