(* ===== verification/Nio_Olm_Verify_Facts.thy ===== *)
theory Nio_Olm_Verify_Facts
  imports Nio_Olm_Verify Nio_Olm_Facts Nio_Sas_Facts
begin

text \<open>
  A verification event makes a device verified only when it is the MAC event of a session that
  the user accepted, what that event must prove and what it need not; and room keys that are
  exported are imported again.
\<close>

section \<open>The database\<close>

definition same_db :: "('a, 's, 'g, 'o, 'c, 'e) olm \<Rightarrow> ('a, 's, 'g, 'o, 'c, 'e) olm \<Rightarrow> bool" where
  "same_db s t \<longleftrightarrow> om_store t = om_store s"

interpretation db: evolution same_db
  by unfold_locales (auto simp: same_db_def)

lemma same_db_parts:
  "moves same_db (on_sas key m)" "moves same_db (on_devices m2)" "moves same_db (queue_message msg)"
  "moves same_db (add_user_for_query u)"
  by (auto simp: moves_def same_db_def on_sas_def on_devices_def queue_message_def add_user_for_query_def op_basic
      split: option.splits prod.splits)

lemma same_db_device_item: "moves same_db (device_item u i)"
  unfolding device_item_def by (intro db.moves_rules same_db_parts)

lemma same_db_cancellation: "moves same_db (queue_cancellation key)"
  unfolding queue_cancellation_def by (intro db.moves_rules same_db_parts)

lemma same_db_supersede: "moves same_db (supersede_active u i)"
  unfolding supersede_active_def by (intro db.moves_rules same_db_parts same_db_cancellation)

lemma same_db_start: "moves same_db (handle_start lib vz pk fresh now dev event)"
proof -
  have "moves same_db (catching (bnd (device_item u i) (\<lambda>d. ret (Some d)))
      (\<lambda>e. case e of KeyError _ \<Rightarrow> Some (ret None) | _ \<Rightarrow> None))" for u i
    by (intro db.moves_catching db.moves_rules same_db_device_item) (auto simp: db.moves_basic split: exn.splits)
  then show ?thesis
    unfolding handle_start_def
    by (intro db.moves_rules same_db_parts same_db_supersede db.moves_modify) (auto simp: same_db_def)
qed

lemma same_db_steps:
  "moves same_db (handle_accept a)" "moves same_db (handle_key vz k)" "moves same_db (handle_cancel c)"
  unfolding handle_accept_def handle_key_def handle_cancel_def Let_def
  by (intro db.moves_rules same_db_parts same_db_cancellation db.moves_modify; simp add: same_db_def)+

section \<open>What a MAC event proves\<close>

text \<open>The user accepted the session and the MACs of the event are right: the one over its key ids, and,
  when the device of the session has a signing key, the one of every key it names.\<close>

definition right_mac :: "'e vodozemac \<Rightarrow> kv_mac \<Rightarrow> 'e sas \<Rightarrow> bool" where
  "right_mac vz e x \<longleftrightarrow>
     ss_sas_accepted x \<and> ss_state x = sas_key_received \<and> kv_sender e = od_user_id (ss_other_olm_device x) \<and>
     kv_transaction_id e = ss_transaction_id x \<and>
     (\<exists>k. ss_established_sas x = Some k \<and>
        km_keys e = vz_calculate_mac vz k (join '','' (sort (dkeys (km_mac e)))) (their_mac_info x @ ''KEY_IDS'') \<and>
        (\<forall>fp. device_ed25519 (ss_other_olm_device x) = Inr fp \<longrightarrow>
           list_all (mac_entry_ok vz k (their_mac_info x) (ss_other_olm_device x) fp) (km_mac e)))"

lemma check_macs_keeps:
  "check_macs vz e info ms s = (r, t) \<Longrightarrow>
     ss_other_olm_device t = ss_other_olm_device s \<and> ss_sas_accepted t = ss_sas_accepted s"
proof (induction ms arbitrary: s)
  case (Cons m ms)
  obtain k v where m: "m = (k, v)" by (cases m)
  show ?case
    using Cons.prems Cons.IH
    by (fastforce simp: m op_basic split: option.splits prod.splits sum.splits if_splits)
qed (simp add: op_basic)

lemma receive_mac_keeps:
  assumes "receive_mac_event vz e x = (r, y)"
  shows "ss_other_olm_device y = ss_other_olm_device x"
  using assms check_macs_keeps
  by (fastforce simp: receive_mac_run finish_mac_def refused_def split: if_splits option.splits prod.splits sum.splits bool.splits)

lemma receive_mac_verified:
  assumes "receive_mac_event vz e x = (r, y)" "verified y"
  shows "verified x \<or> right_mac vz e x"
proof (cases "verified x")
  case False
  with assms have nc: "ok_sender e x" "ss_state x = sas_key_received"
    by (auto simp: receive_mac_run verified_def split: if_splits)
  from False assms nc obtain k where k: "ss_established_sas x = Some k"
    "km_keys e = vz_calculate_mac vz k (join '','' (sort (dkeys (km_mac e)))) (their_mac_info x @ ''KEY_IDS'')"
    by (auto simp: receive_mac_run verified_def split: if_splits option.splits)
  obtain b t where loop: "check_macs vz k (their_mac_info x) (km_mac e) x = (b, t)"
    by (cases "check_macs vz k (their_mac_info x) (km_mac e) x")
  have "ss_sas_accepted y \<longrightarrow> ss_sas_accepted x"
    using False assms(1) nc k loop check_macs_keeps[OF loop]
    by (auto simp: receive_mac_run finish_mac_def split: if_splits sum.splits bool.splits)
  moreover have "list_all (mac_entry_ok vz k (their_mac_info x) (ss_other_olm_device x) fp) (km_mac e)"
    if fp: "device_ed25519 (ss_other_olm_device x) = Inr fp" for fp
  proof -
    obtain b' t' where loop': "check_macs vz k (their_mac_info x) (km_mac e) x = (Inr b', t')"
      and b': "b' \<longleftrightarrow> list_all (mac_entry_ok vz k (their_mac_info x) (ss_other_olm_device x) fp) (km_mac e)"
      using check_macs_ok[OF fp] by blast
    then show ?thesis
      using False assms nc k check_macs_state[OF loop']
      by (cases b') (auto simp: receive_mac_run verified_def split: if_splits)
  qed
  ultimately show ?thesis
    using assms(2) nc k by (auto simp: right_mac_def verified_def ok_sender_def)
qed simp

lemma verified_row:
  assumes "verify_device (db, d) = (r, (db', d'))" "is_device_verified db' c" "\<not> is_device_verified db c"
  shows "device_ref c = device_ref d"
  using assms
  by (auto simp: verify_device_def replace_trust_state_def Let_def is_device_verified_def recorded_as_def get_device_def
      split: if_splits option.splits)

definition refreshed :: "('a, 's, 'g, 'o, 'c, 'e) olm \<Rightarrow> 'e sas \<Rightarrow> 'e sas" where
  "refreshed s x = x \<lparr> ss_other_olm_device := current_device (om_device_store s) (ss_other_olm_device x) \<rparr>"

lemma current_device_ref: "placed s \<Longrightarrow> device_ref (current_device (om_device_store s) d) = device_ref d"
  by (auto simp: current_device_def placed_def split: option.split)

lemma handle_mac_verifies:
  assumes "placed s" "dget (om_key_verifications s) (kv_transaction_id e) = Some x"
    and "is_device_verified (om_store (snd (handle_mac vz e s))) d" "\<not> is_device_verified (om_store s) d"
  shows "device_ref (ss_other_olm_device x) = device_ref d \<and>
    (verified (refreshed s x) \<or> right_mac vz e (refreshed s x))"
proof -
  obtain r y where run: "receive_mac_event vz e (refreshed s x) = (r, y)"
    by (cases "receive_mac_event vz e (refreshed s x)")
  let ?key = "kv_transaction_id e"
  let ?t = "s \<lparr> om_key_verifications := dset (om_key_verifications s) ?key y \<rparr>"
  let ?z = "refreshed s y"
  let ?u = "?t \<lparr> om_key_verifications := dset (om_key_verifications ?t) ?key ?z \<rparr>"
  have first: "on_sas ?key (receive_mac_event vz e) s = (r, ?t)"
    using assms(2) run by (simp add: on_sas_def refreshed_def)
  have second: "on_sas ?key (reads id) ?t = (Inr ?z, ?u)"
    by (simp add: on_sas_def op_basic refreshed_def)
  have ref: "device_ref (ss_other_olm_device ?z) = device_ref (ss_other_olm_device x)"
    using receive_mac_keeps[OF run] current_device_ref[OF assms(1)] by (simp add: refreshed_def)
  have finished: "canceled y = canceled ?z" "verified y = verified ?z"
    by (simp_all add: refreshed_def canceled_def verified_def)
  have db: "om_store ?u = om_store s" by simp
  have r: "r = Inr ()"
  proof (rule ccontr)
    assume "r \<noteq> Inr ()"
    then have "om_store (snd (handle_mac vz e s)) = om_store s"
      using first by (cases r) (auto simp: handle_mac_def bnd_def Let_def)
    with assms(3,4) show False by simp
  qed
  have after: "handle_mac vz e s =
      (if canceled y then queue_cancellation ?key
       else if verified y then andthen (Olm_verify_device (device_ref (ss_other_olm_device ?z))) (ret ())
       else ret ()) ?u"
    using first second r finished by (simp add: handle_mac_def bnd_def Let_def)
  have keep: "om_store (snd (queue_cancellation ?key ?u)) = om_store s"
    using same_db_cancellation[of ?key, unfolded moves_def same_db_def, rule_format, of ?u] db by simp
  have go: "\<not> canceled y" "verified y"
    using after keep db assms(3,4) by (auto simp: ret_def split: if_splits)
  obtain q v where ver: "Olm_verify_device (device_ref (ss_other_olm_device ?z)) ?u = (q, v)"
    by (cases "Olm_verify_device (device_ref (ss_other_olm_device ?z)) ?u")
  with after go assms(3) have new: "is_device_verified (om_store v) d"
    by (cases q) (simp_all add: bnd_def ret_def)
  then obtain c where c: "lookup_device (om_device_store s) (od_user_id (ss_other_olm_device x)) (od_device_id (ss_other_olm_device x)) = Some c"
    using ver ref assms(4) by (auto simp: Olm_verify_device_def on_device_def split: option.splits)
  have "device_ref d = device_ref c"
    using ver ref c new assms(4) by (auto simp: Olm_verify_device_def on_device_def split: prod.splits dest!: verified_row)
  moreover have "device_ref c = device_ref (ss_other_olm_device x)" using assms(1) c by (auto simp: placed_def)
  moreover have "verified (refreshed s x) \<or> right_mac vz e (refreshed s x)" by (rule receive_mac_verified[OF run go(2)])
  ultimately show ?thesis by simp
qed

text \<open>C21: Of all the events of an interactive verification, only a MAC event makes a device verified, and
  only the device its session is about. Unless that session was already done (then \<^verbatim>\<open>receive_mac_event\<close>
  returns before it looks at the event, and any MAC event verifies the device once more), the user had
  accepted the short string, the event comes from the other user in the session's transaction, and
  its MACs are right: over the list of its key ids, and of every key of the device it names.\<close>

theorem verified_by_mac_only:
  assumes "placed s" "is_device_verified (om_store (snd (handle_key_verification lib vz pk fresh now event s))) d"
    and "\<not> is_device_verified (om_store s) d"
  shows "\<exists>e x. event = SasMac e \<and> dget (om_key_verifications s) (kv_transaction_id e) = Some x \<and>
    device_ref (ss_other_olm_device x) = device_ref d \<and>
    (verified (refreshed s x) \<or> right_mac vz e (refreshed s x))"
proof (cases "\<exists>e. event = SasMac e")
  case True
  then obtain e where e: "event = SasMac e" by blast
  show ?thesis
  proof (cases "dget (om_key_verifications s) (kv_transaction_id e)")
    case None
    then show ?thesis using assms(2,3) e by (simp add: handle_key_verification_def op_basic)
  next
    case (Some x)
    have "snd (handle_key_verification lib vz pk fresh now event s) = snd (handle_mac vz e s)"
      using e Some by (simp add: handle_key_verification_def op_basic)
    with handle_mac_verifies[OF assms(1) Some] assms(2,3) Some e show ?thesis by metis
  qed
next
  case False
  have kept: "moves same_db (handle_key_verification lib vz pk fresh now event)"
    using False unfolding handle_key_verification_def
    by (cases event) (auto intro!: db.moves_rules same_db_steps simp: same_db_start)
  have "om_store (snd (handle_key_verification lib vz pk fresh now event s)) = om_store s"
    by (rule kept[unfolded moves_def same_db_def, rule_format])
  with assms(2,3) show ?thesis by simp
qed

text \<open>The session of Alice with Bob's device, which the user accepted, in a machine that knows the device.\<close>

definition sas_olm :: "(unit, unit, unit, unit, unit, string \<times> string) olm" where
  "sas_olm = (new_olm () ())
     \<lparr> om_device_store := [(''@bob:x'', [(''BDEV'', OlmDevice ''@bob:x'' ''BDEV'' [(''ed25519'', ''bfp'')])])],
       om_key_verifications := [(''t1'', with_keys (''A'', ''B'') toy_alice)],
       om_store := snd (save_device_keys
         [(''@bob:x'', [(''BDEV'', OlmDevice ''@bob:x'' ''BDEV'' [(''ed25519'', ''bfp'')])])]
         (om_store (new_olm () () :: (unit, unit, unit, unit, unit, string \<times> string) olm))) \<rparr>"

lemma sas_olm_placed: "placed sas_olm"
  by (auto simp: placed_def sas_olm_def lookup_device_def dget_or_def OlmDevice_def split: if_splits option.splits)

theorem verified_by_mac_only_witness:
  "right_mac toy_vz toy_mac (refreshed sas_olm (with_keys (''A'', ''B'') toy_alice))"
proof -
  let ?d = "OlmDevice ''@bob:x'' ''BDEV'' [(''ed25519'', ''bfp'')]"
  have "is_device_verified (om_store (snd (handle_key_verification sample_lib toy_vz [] [] 0 (SasMac toy_mac) sas_olm))) ?d"
    "\<not> is_device_verified (om_store sas_olm) ?d"
    by code_simp+
  from verified_by_mac_only[OF sas_olm_placed this] show ?thesis
    by (auto simp: sas_olm_def toy_mac_def refreshed_def verified_def with_keys_def toy_alice_def sas_new_def list_or_def)
qed

text \<open>The session that was done: whatever MAC event names it, from whomever and with whatever MACs, a
  device that was unverified since is verified again.\<close>

lemma done_session_verifies_again:
  assumes "placed s" "dget (om_key_verifications s) (kv_transaction_id event) = Some x" "verified x"
    and "lookup_device (om_device_store s) (od_user_id (ss_other_olm_device x)) (od_device_id (ss_other_olm_device x)) = Some d"
    and "get_device (om_store s) d \<noteq> None"
  shows "is_device_verified (om_store (snd (handle_key_verification lib vz pk fresh now (SasMac event) s))) d"
proof -
  have ref: "od_user_id d = od_user_id (ss_other_olm_device x)" "od_device_id d = od_device_id (ss_other_olm_device x)"
    using assms(1,4) by (auto simp: placed_def)
  have run: "receive_mac_event vz event (refreshed s x) = (Inr (), refreshed s x)"
    using assms(3) by (simp add: receive_mac_run verified_def refreshed_def)
  show ?thesis
    using assms(2-5) run ref
    by (auto simp: handle_key_verification_def handle_mac_def Let_def op_basic on_sas_def refreshed_def
        current_device_def canceled_def verified_def Olm_verify_device_def on_device_def verify_device_def
        replace_trust_state_def is_device_verified_def recorded_as_def get_device_def
        split: option.splits if_splits)
qed

section \<open>A MAC event without MACs\<close>

text \<open>The MAC event need not name any key: the empty list, with the MAC of the empty text over its
  ids, makes the device of an accepted session verified in the database, although nothing was
  shown about its fingerprint key.\<close>

theorem empty_mac_verifies_device:
  assumes "placed s" "dget (om_key_verifications s) (ss_transaction_id x) = Some x"
    and "lookup_device (om_device_store s) (od_user_id (ss_other_olm_device x)) (od_device_id (ss_other_olm_device x)) = Some d"
    and "get_device (om_store s) d \<noteq> None"
    and "ss_state x = sas_key_received" "ss_sas_accepted x" "ss_established_sas x = Some k"
    and "ss_chosen_mac_method x \<noteq> []" "ss_verified_devices x = []"
    and "event = \<lparr> kv_sender = od_user_id d, kv_transaction_id = ss_transaction_id x, km_mac = [],
                   km_keys = vz_calculate_mac vz k [] (their_mac_info x @ ''KEY_IDS'') \<rparr>"
  shows "is_device_verified (om_store (snd (handle_key_verification lib vz pk fresh now (SasMac event) s))) d"
proof -
  have ref: "od_user_id d = od_user_id (ss_other_olm_device x)" "od_device_id d = od_device_id (ss_other_olm_device x)"
    using assms(1,3) by (auto simp: placed_def)
  have run: "receive_mac_event vz event (refreshed s x) = (Inr (), finish_mac (refreshed s x))"
    using assms(3,5-10) ref
    by (simp add: receive_mac_run refreshed_def current_device_def ok_sender_def verified_def ret_def their_mac_info_def)
  have done_now: "verified (finish_mac (refreshed s x))" "\<not> canceled (finish_mac (refreshed s x))"
    using assms(6) by (simp_all add: verified_def canceled_def finish_mac_def refreshed_def)
  show ?thesis
    using assms(2,3,4,10) run done_now ref
    by (auto simp: handle_key_verification_def handle_mac_def Let_def op_basic on_sas_def refreshed_def finish_mac_def
        current_device_def canceled_def verified_def Olm_verify_device_def on_device_def verify_device_def
        replace_trust_state_def is_device_verified_def recorded_as_def get_device_def
        split: option.splits if_splits)
qed

theorem empty_mac_verifies_device_witness:
  "is_device_verified (om_store (snd (handle_key_verification sample_lib toy_vz [] [] 0
      (SasMac \<lparr> kv_sender = ''@bob:x'', kv_transaction_id = ''t1'', km_mac = [],
        km_keys = ''#'' @ their_mac_info (with_keys (''A'', ''B'') toy_alice) @ ''KEY_IDS'' \<rparr>) sas_olm)))
     (OlmDevice ''@bob:x'' ''BDEV'' [(''ed25519'', ''bfp'')])"
proof (rule empty_mac_verifies_device[OF sas_olm_placed, where x = "with_keys (''A'', ''B'') toy_alice" and k = "(''A'', ''B'')"])
  show "get_device (om_store sas_olm) (OlmDevice ''@bob:x'' ''BDEV'' [(''ed25519'', ''bfp'')]) \<noteq> None" by code_simp
qed (simp_all add: sas_olm_def with_keys_def toy_alice_def sas_new_def list_or_def OlmDevice_def toy_vz_def
      lookup_device_def dget_or_def)

section \<open>Exported room keys\<close>

lemma exported_session_shape:
  assumes "exported_session lib x = Inr v"
  obtains k where "vo_group_export lib (gs_session x) (vo_group_first_index lib (gs_session x)) = Some k"
    "v = JObj
          [(''algorithm'', JStr megolm_algorithm),
           (''sender_key'', JStr (gs_sender_key x)),
           (''sender_claimed_keys'', JObj [(''ed25519'', JStr (gs_ed25519 x))]),
           (''forwarding_curve25519_key_chain'', JArr (map JStr (gs_forwarding_chain x))),
           (''room_id'', JStr (gs_room_id x)),
           (''session_id'', JStr (vo_group_id lib (gs_session x))),
           (''session_key'', JStr k)]"
  using assms by (auto simp: exported_session_def split: option.splits)

lemma rmap_Inr_iff: "rmap f xs = Inr ys \<longleftrightarrow> list_all2 (\<lambda>x y. f x = Inr y) xs ys"
  by (induction xs arbitrary: ys) (auto simp: rbind_Inr_iff list_all2_Cons1)

lemma rmap_str_value: "rmap str_value (map JStr xs) = Inr xs"
  by (induction xs) (simp_all add: str_value_def)

lemma exported_session_conforms:
  assumes "list_all2 (\<lambda>x y. exported_session lib x = Inr y) xs ys"
  shows "conforms Schemas_megolm_key_import (JArr ys)"
proof -
  have "conforms Schemas_megolm_key_import (JArr [y])" if "exported_session lib x = Inr y" for x y
    using that by (rule exported_session_shape) (auto simp: Schemas_megolm_key_import_def)
  moreover have "conforms Schemas_megolm_key_import (JArr ys) \<longleftrightarrow>
      (\<forall>y\<in>set ys. conforms Schemas_megolm_key_import (JArr [y]))"
    by (auto simp: Schemas_megolm_key_import_def)
  ultimately show ?thesis using assms by (fastforce simp: list_all2_conv_all_nth in_set_conv_nth)
qed

text \<open>Room keys that were exported are imported again as the same sessions, with their sender,
  claimed fingerprint, room and forwarding chain.\<close>

theorem export_import_roundtrip:
  assumes "draft4 validate"
    and "\<And>g k. vo_group_export lib g (vo_group_first_index lib g) = Some k \<Longrightarrow> vo_group_import lib (JStr k) = Inr g"
    and "export_keys_static lib xs = Inr v"
  shows "import_keys_static lib validate (Some v) = Inr xs"
proof -
  obtain ys where ys: "v = JArr ys" "list_all2 (\<lambda>x y. exported_session lib x = Inr y) xs ys"
    using assms(3) by (auto simp: export_keys_static_def rbind_Inr_iff rmap_Inr_iff)
  have each: "contains ''sender_claimed_keys'' y = Inr True \<and> imported_session lib y = Inr (Some x)"
    if "exported_session lib x = Inr y" for x y
    using that
    by (rule exported_session_shape)
      (auto simp: contains_def imported_session_def item_def str_item_def str_value_def rmap_str_value
        import_group_session_def assms(2))
  have "rmap (contains ''sender_claimed_keys'') ys = Inr (map (\<lambda>_. True) ys)"
    using ys(2) each by (auto simp: rmap_Inr_iff list_all2_conv_all_nth)
  then have claimed: "with_claimed_keys ys = Inr ys"
    by (simp add: with_claimed_keys_def zip_map2 filter_map o_def case_prod_beta)
  have valid: "fst (validate Schemas_megolm_key_import (JArr ys))"
  proof -
    have "tidy Schemas_megolm_key_import" "no_defaults Schemas_megolm_key_import"
      by (simp_all add: Schemas_megolm_key_import_def)
    then show ?thesis
      using assms(1) exported_session_conforms[OF ys(2)] by (simp add: draft4_def fill_nothing)
  qed
  have "rmap (imported_session lib) ys = Inr (map Some xs)"
    using ys(2) each by (auto simp: rmap_Inr_iff list_all2_conv_all_nth)
  moreover have "List.map_filter id (map Some xs) = xs" by (induction xs) (simp_all add: map_filter_simps)
  ultimately show ?thesis
    using ys(1) claimed valid by (simp add: import_keys_static_def iterated_def)
qed

theorem export_import_roundtrip_witness:
  "import_keys_static (sample_lib \<lparr> vo_group_export := (\<lambda>g i. Some ''key''), vo_group_import := (\<lambda>v. Inr ()) \<rparr>) plain_validator
     (Some (JArr [JObj [(''algorithm'', JStr megolm_algorithm), (''sender_key'', JStr ''ck''),
        (''sender_claimed_keys'', JObj [(''ed25519'', JStr ''fp'')]),
        (''forwarding_curve25519_key_chain'', JArr [JStr ''c1'']), (''room_id'', JStr ''!r:x''),
        (''session_id'', JStr ''gid''), (''session_key'', JStr ''key'')]])) =
   Inr [\<lparr> gs_session = (), gs_ed25519 = ''fp'', gs_sender_key = ''ck'', gs_room_id = ''!r:x'', gs_forwarding_chain = [''c1''] \<rparr>]"
  by (rule export_import_roundtrip[OF plain_validator_draft4])
    (simp_all add: export_keys_static_def exported_session_def sample_lib_def)

end
