(* ===== verification/Nio_Views.thy ===== *)
theory Nio_Views
  imports Nio_Rooms Nio_Olm_Verify
begin

text \<open>
  How the rooms and the encryption machine read the events the parsers make: a handler of
  \<^verbatim>\<open>src/nio/rooms.py\<close> reads attributes of an event object, which are JSON values of the types its
  class declares (\<open>parse_event_well_typed\<close>, \<open>to_device_well_typed\<close>). A value of another type,
  which no parser lets through, is read as the empty string, zero or null.
\<close>

section \<open>Values\<close>

definition text_of :: "json \<Rightarrow> string" where
  "text_of v = (case v of JStr s \<Rightarrow> s | _ \<Rightarrow> [])"

definition opt_text :: "json \<Rightarrow> string option" where
  "opt_text v = (case v of JStr s \<Rightarrow> Some s | _ \<Rightarrow> None)"

definition int_of_json :: "json \<Rightarrow> int" where
  "int_of_json v = (case v of JInt i \<Rightarrow> i | JBool True \<Rightarrow> 1 | _ \<Rightarrow> 0)"

definition opt_int :: "json \<Rightarrow> int option" where
  "opt_int v = (case v of JInt i \<Rightarrow> Some i | _ \<Rightarrow> None)"

definition texts_of :: "json \<Rightarrow> string list" where
  "texts_of v = (case v of JArr xs \<Rightarrow> map text_of xs | _ \<Rightarrow> [])"

definition obj_of :: "json \<Rightarrow> jobj" where
  "obj_of v = (case v of JObj d \<Rightarrow> d | _ \<Rightarrow> [])"

definition map_values :: "('v \<Rightarrow> 'w) \<Rightarrow> ('k, 'v) dict \<Rightarrow> ('k, 'w) dict" where
  "map_values f d = map (\<lambda>(k, v). (k, f v)) d"

lemma dget_map_view: "dget (map_values f d) k = map_option f (dget d k)"
  by (induction d) (auto simp: map_values_def)

section \<open>Room events\<close>

definition membership_view :: "json \<Rightarrow> json \<Rightarrow> json \<Rightarrow> json \<Rightarrow> member_event" where
  "membership_view sender state_key membership content =
     \<lparr> me_sender = text_of sender, me_state_key = text_of state_key, me_membership = text_of membership,
       me_content = map_values opt_text
         (filter (\<lambda>(k, _). k = ''displayname'' \<or> k = ''avatar_url'') (obj_of content)) \<rparr>"

definition member_view :: "event \<Rightarrow> member_event option" where
  "member_view e =
     (case e_body e of
        RoomMemberEvent state_key membership _ content _ \<Rightarrow>
          Some (membership_view (e_sender e) state_key membership content)
      | _ \<Rightarrow> None)"

definition levels_view ::
  "json \<Rightarrow> json \<Rightarrow> json \<Rightarrow> json \<Rightarrow> json \<Rightarrow> json \<Rightarrow> json \<Rightarrow> json \<Rightarrow> json \<Rightarrow> json \<Rightarrow> power_levels" where
  "levels_view ban ivt kick redact state_default events_default users_default notifications users events =
     \<lparr> pl_defaults =
         \<lparr> lv_ban = int_of_json ban, lv_invite = int_of_json ivt, lv_kick = int_of_json kick,
           lv_redact = int_of_json redact, lv_state_default = int_of_json state_default,
           lv_events_default = int_of_json events_default, lv_users_default = int_of_json users_default,
           lv_notifications = map_values int_of_json (obj_of notifications) \<rparr>,
       pl_users = map_values int_of_json (obj_of users),
       pl_events = map_values int_of_json (obj_of events), pl_creators = {} \<rparr>"

text \<open>\<^verbatim>\<open>"via" in event.source.get("content", {})\<close>.\<close>

definition has_via :: "event \<Rightarrow> bool" where
  "has_via e = (dget (obj_of (jget (obj_of (e_source e)) ''content'')) ''via'' \<noteq> None)"

definition room_view :: "event \<Rightarrow> room_event" where
  "room_view e =
     (case e_body e of
        Nio_Events.RoomCreateEvent federate version room_type creators \<Rightarrow>
          Nio_Rooms.RoomCreateEvent (text_of (e_sender e)) (truthy federate) (text_of version)
            (opt_text room_type) (texts_of creators)
      | Nio_Events.RoomGuestAccessEvent v \<Rightarrow> Nio_Rooms.RoomGuestAccessEvent (text_of v)
      | Nio_Events.RoomHistoryVisibilityEvent v \<Rightarrow> Nio_Rooms.RoomHistoryVisibilityEvent (text_of v)
      | Nio_Events.RoomJoinRulesEvent v \<Rightarrow> Nio_Rooms.RoomJoinRulesEvent (text_of v)
      | Nio_Events.RoomNameEvent v \<Rightarrow> Nio_Rooms.RoomNameEvent (opt_text v)
      | Nio_Events.RoomAliasEvent v \<Rightarrow> Nio_Rooms.RoomAliasEvent (opt_text v)
      | Nio_Events.RoomTopicEvent v \<Rightarrow> Nio_Rooms.RoomTopicEvent (opt_text v)
      | Nio_Events.RoomAvatarEvent v \<Rightarrow> Nio_Rooms.RoomAvatarEvent (opt_text v)
      | Nio_Events.RoomEncryptionEvent \<Rightarrow> Nio_Rooms.RoomEncryptionEvent
      | Nio_Events.RoomUpgradeEvent _ v \<Rightarrow> Nio_Rooms.RoomUpgradeEvent (text_of v)
      | Nio_Events.PowerLevelsEvent ban ivt kick redact sd ed ud notifications users events \<Rightarrow>
          Nio_Rooms.PowerLevelsEvent (levels_view ban ivt kick redact sd ed ud notifications users events)
      | Nio_Events.RoomSpaceParentEvent k _ \<Rightarrow> Nio_Rooms.RoomSpaceParentEvent (text_of k) (has_via e)
      | Nio_Events.RoomSpaceChildEvent k _ \<Rightarrow> Nio_Rooms.RoomSpaceChildEvent (text_of k) (has_via e)
      | _ \<Rightarrow> OtherRoomEvent)"

definition is_encryption :: "event \<Rightarrow> bool" where
  "is_encryption e = (e_body e = Nio_Events.RoomEncryptionEvent)"

definition is_bad_event :: "event \<Rightarrow> bool" where
  "is_bad_event e = (case e_body e of UnknownBadEvent \<Rightarrow> True | Nio_Events.BadEvent _ \<Rightarrow> True | _ \<Rightarrow> False)"

text \<open>The fields of a \<^verbatim>\<open>MegolmEvent\<close>.\<close>

definition megolm_view :: "event \<Rightarrow> megolm_event option" where
  "megolm_view e =
     (case e_body e of
        MegolmEvent device ciphertext algorithm room \<Rightarrow>
          Some \<lparr> mg_source = obj_of (e_source e), mg_event_id = text_of (e_event_id e),
            mg_sender = text_of (e_sender e), mg_server_timestamp = int_of_json (e_server_timestamp e),
            mg_sender_key = text_of (e_sender_key e), mg_device_id = text_of device,
            mg_session_id = text_of (e_session_id e), mg_algorithm = text_of algorithm,
            mg_ciphertext = text_of ciphertext, mg_room_id = opt_text room,
            mg_transaction_id = opt_text (e_transaction_id e) \<rparr>
      | _ \<Rightarrow> None)"

definition set_event_room :: "string \<Rightarrow> event \<Rightarrow> event" where
  "set_event_room room_id e =
     (case e_body e of
        MegolmEvent device ciphertext algorithm _ \<Rightarrow>
          e \<lparr> e_body := MegolmEvent device ciphertext algorithm (JStr room_id) \<rparr>
      | _ \<Rightarrow> e)"

section \<open>Invite events, ephemeral events and account data\<close>

definition invite_view :: "invite_event \<Rightarrow> room_event" where
  "invite_view e =
     (case iv_body e of
        Nio_Other_Events.InviteMemberEvent k membership _ content _ \<Rightarrow>
          Nio_Rooms.InviteMemberEvent (membership_view (iv_sender e) k membership content)
      | Nio_Other_Events.InviteNameEvent v \<Rightarrow> Nio_Rooms.InviteNameEvent (opt_text v)
      | Nio_Other_Events.InviteAliasEvent v \<Rightarrow> Nio_Rooms.InviteAliasEvent (opt_text v))"

definition receipt_view :: "receipt_json \<Rightarrow> receipt" where
  "receipt_view r =
     \<lparr> rc_event_id = rj_event_id r,
       rc_known_type = (rj_type r \<in> {''m.read'', ''m.read.private'', ''m.fully_read''}),
       rc_user_id = rj_user_id r, rc_timestamp = int_of_json (rj_timestamp r),
       rc_thread_id = opt_text (rj_thread_id r) \<rparr>"

definition ephemeral_view :: "ephemeral_json \<Rightarrow> ephemeral_event" where
  "ephemeral_view e =
     (case ej_body e of
        TypingNotice users \<Rightarrow> TypingNoticeEvent (texts_of users)
      | Receipts rs \<Rightarrow> Nio_Rooms.ReceiptEvent (map receipt_view rs))"

definition tags_view :: "json \<Rightarrow> tags" where
  "tags_view v =
     map_values (\<lambda>t. case t of JObj d \<Rightarrow> Some (map_values (\<lambda>x. case x of JStr s \<Rightarrow> s | _ \<Rightarrow> json_dump x) d) | _ \<Rightarrow> None)
       (obj_of v)"

definition account_view :: "account_data_json parsed \<Rightarrow> account_data_event" where
  "account_view p =
     (case p of
        Parsed e \<Rightarrow>
          (case ad_body e of
             FullyRead i \<Rightarrow> FullyReadEvent (text_of i)
           | Tags t \<Rightarrow> TagEvent (tags_view t)
           | _ \<Rightarrow> OtherAccountDataEvent)
      | _ \<Rightarrow> OtherAccountDataEvent)"

section \<open>To-device events\<close>

definition verification_view :: "to_device_event \<Rightarrow> verification_event option" where
  "verification_view e =
     (let s = text_of (td_sender e) in
      case td_body e of
        KeyVerificationStart i device meth protocols hashes macs strings \<Rightarrow>
          Some (SasStart (text_of device)
            \<lparr> kv_sender = s, kv_transaction_id = text_of i, kv_method = text_of meth,
              kv_key_agreement_protocols = texts_of protocols, kv_hashes = texts_of hashes,
              kv_message_authentication_codes = texts_of macs,
              kv_short_authentication_string = texts_of strings,
              kv_source_content = obj_of (jget (obj_of (td_source e)) ''content'') \<rparr>)
      | KeyVerificationAccept i commitment protocol h mac strings \<Rightarrow>
          Some (SasAccept
            \<lparr> kv_sender = s, kv_transaction_id = text_of i, ka_commitment = text_of commitment,
              ka_key_agreement_protocol = text_of protocol, ka_hash = text_of h,
              ka_message_authentication_code = text_of mac,
              ka_short_authentication_string = texts_of strings \<rparr>)
      | KeyVerificationKey i k \<Rightarrow>
          Some (SasKey \<lparr> kv_sender = s, kv_transaction_id = text_of i, kk_key = text_of k \<rparr>)
      | KeyVerificationMac i mac keys \<Rightarrow>
          Some (SasMac \<lparr> kv_sender = s, kv_transaction_id = text_of i,
            km_mac = map_values text_of (obj_of mac), km_keys = text_of keys \<rparr>)
      | KeyVerificationCancel i _ _ \<Rightarrow>
          Some (SasCancel \<lparr> kv_sender = s, kv_transaction_id = text_of i \<rparr>)
      | _ \<Rightarrow> None)"

definition olm_view :: "to_device_event \<Rightarrow> (string \<times> string \<times> json) option" where
  "olm_view e =
     (case td_body e of
        OlmEvent sender_key ciphertext _ \<Rightarrow> Some (text_of (td_sender e), text_of sender_key, ciphertext)
      | _ \<Rightarrow> None)"

end
