(* ===== verification/Nio_Response_Schemas.thy ===== *)
theory Nio_Response_Schemas
  imports Nio_Schemas
begin

text \<open>
  The schemas of the responses, each the dictionary of the same name in class \<^verbatim>\<open>Schemas\<close> of
  \<^verbatim>\<open>src/nio/schemas.py\<close>.
\<close>

definition Schemas_register :: schema where
  "Schemas_register =
     Schema [
       Type [''object''],
       Properties [
         (''user_id'', Schema [Type [''string''], Format ''user_id'']),
         (''device_id'', Schema [Type [''string'']]),
         (''access_token'', Schema [Type [''string'']])],
       Required [''user_id'', ''device_id'', ''access_token'']]"

definition Schemas_register_flows :: schema where
  "Schemas_register_flows =
     Schema [
       Type [''object''],
       Properties [
         (''flows'',
          Schema [
            Type [''array''],
            Items (Schema [
                     Type [''object''],
                     Properties [
                       (''stages'',
                        Schema [Type [''array''], Items (Schema [Type [''string'']])])],
                     Required [''stages'']])]),
         (''params'', Schema [Type [''object'']]), (''session'', Schema [Type [''string'']]),
         (''completed'', Schema [Type [''array''], Items (Schema [Type [''string'']])]),
         (''user_id'', Schema [Type [''string''], Format ''user_id'']),
         (''device_id'', Schema [Type [''string'']]),
         (''access_token'', Schema [Type [''string'']])],
       Required [''flows'', ''params'', ''session'']]"

definition Schemas_login :: schema where
  "Schemas_login =
     Schema [
       Type [''object''],
       Properties [
         (''user_id'', Schema [Type [''string''], Format ''user_id'']),
         (''device_id'', Schema [Type [''string'']]),
         (''access_token'', Schema [Type [''string'']])],
       Required [''user_id'', ''device_id'', ''access_token'']]"

definition Schemas_discovery_info :: schema where
  "Schemas_discovery_info =
     Schema [
       Type [''object''],
       Properties [
         (''m.homeserver'',
          Schema [
            Type [''object''],
            Properties [(''base_url'', Schema [Type [''string''], Format ''http_url''])],
            Required [''base_url'']]),
         (''m.identity_server'',
          Schema [
            Type [''object''],
            Properties [(''base_url'', Schema [Type [''string''], Format ''http_url''])],
            Required [''base_url'']])],
       Required [''m.homeserver'']]"

definition Schemas_login_info :: schema where
  "Schemas_login_info =
     Schema [
       Type [''object''],
       Properties [
         (''flows'',
          Schema [
            Type [''array''],
            Items (Schema [
                     Type [''object''], Properties [(''type'', Schema [Type [''string'']])],
                     Required [''type'']])])],
       Required [''flows'']]"

definition Schemas_error :: schema where
  "Schemas_error =
     Schema [
       Type [''object''],
       Properties [
         (''error'', Schema [Type [''string'']]), (''errcode'', Schema [Type [''string'']]),
         (''retry_after_ms'', Schema [Type [''integer'']])],
       Required [''error'', ''errcode'']]"

definition Schemas_room_timeline :: schema where
  "Schemas_room_timeline =
     Schema [
       Type [''object''],
       Properties [
         (''events'', Schema [Type [''array'']]), (''limited'', Schema [Type [''boolean'']]),
         (''prev_batch'', Schema [Type [''string'']])],
       Required [''events'']]"

definition Schemas_sync :: schema where
  "Schemas_sync =
     Schema [
       Type [''object''],
       Properties [
         (''device_one_time_keys_count'',
          Schema [
            Type [''object''], Default (JObj []),
            Properties [
              (''curve25519'', Schema [Type [''integer'']]),
              (''signed_curve25519'', Schema [Type [''integer'']])]]),
         (''device_lists'',
          Schema [
            Type [''object''], Default (JObj []),
            Properties [
              (''changed'', Schema [Type [''array''], Items (Schema [Type [''string'']])]),
              (''left'', Schema [Type [''array''], Items (Schema [Type [''string'']])])]]),
         (''next_batch'', Schema [Type [''string'']]),
         (''rooms'',
          Schema [
            Type [''object''], Default (JObj []),
            Properties [
              (''invite'',
               Schema [
                 Type [''object''], Default (JObj []),
                 PatternProperties [
                   (RoomRegex,
                    Schema [
                      Type [''object''],
                      Properties [
                        (''invite_state'',
                         Schema [
                           Type [''object''], Default (JObj []),
                           Properties [
                             (''events'', Schema [Type [''array''], Default (JArr [])])]])]])]]),
              (''join'',
               Schema [
                 Type [''object''], Default (JObj []),
                 PatternProperties [
                   (RoomRegex,
                    Schema [
                      Type [''object''],
                      Properties [
                        (''timeline'', Schemas_room_timeline),
                        (''state'',
                         Schema [
                           Type [''object''], Default (JObj []),
                           Properties [
                             (''events'', Schema [Type [''array''], Default (JArr [])])]]),
                        (''ephemeral'',
                         Schema [
                           Type [''object''], Default (JObj []),
                           Properties [
                             (''events'', Schema [Type [''array''], Default (JArr [])])]]),
                        (''summary'',
                         Schema [
                           Type [''object''],
                           Properties [
                             (''m.invited_member_count'', Schema [Type [''integer'']]),
                             (''m.joined_member_count'', Schema [Type [''integer'']]),
                             (''m.heroes'',
                              Schema [Type [''array''], Items (Schema [Type [''string'']])])]]),
                        (''account_data'',
                         Schema [
                           Type [''object''], Default (JObj []),
                           Properties [
                             (''events'', Schema [Type [''array''], Default (JArr [])])]])]])]]),
              (''leave'',
               Schema [
                 Type [''object''], Default (JObj []),
                 PatternProperties [
                   (RoomRegex,
                    Schema [
                      Type [''object''],
                      Properties [
                        (''timeline'',
                         Schema [
                           Type [''object''], Default (JObj []),
                           Properties [
                             (''events'', Schema [Type [''array''], Default (JArr [])])]]),
                        (''state'',
                         Schema [
                           Type [''object''], Default (JObj []),
                           Properties [
                             (''events'', Schema [Type [''array''], Default (JArr [])])]])]])]])]]),
         (''to_device'',
          Schema [
            Type [''object''], Default (JObj []),
            Properties [(''events'', Schema [Type [''array''], Default (JArr [])])]]),
         (''presence'',
          Schema [
            Type [''object''], Default (JObj []),
            Properties [(''events'', Schema [Type [''array''], Default (JArr [])])]])],
       Required [''next_batch'']]"

definition Schemas_state_event :: schema where
  "Schemas_state_event =
     Schema [
       Type [''object''],
       Properties [
         (''event_id'', Schema [Type [''string'']]),
         (''sender'', Schema [Type [''string''], Format ''user_id'']),
         (''type'', Schema [Type [''string'']]), (''state_key'', Schema [Type [''string'']]),
         (''origin_server_ts'', Schema [Type [''integer''], Minimum 0]),
         (''unsigned'',
          Schema [
            Type [''object''], Properties [(''transaction_id'', Schema [Type [''string'']])]])],
       Required [''event_id'', ''sender'', ''type'', ''state_key'', ''origin_server_ts'']]"

definition Schemas_room_state :: schema where
  "Schemas_room_state =
     Schema [Type [''array''], Items (Schemas_state_event)]"

definition Schemas_sync_room_state :: schema where
  "Schemas_sync_room_state =
     Schema [
       Type [''object''], Properties [(''events'', Schema [Type [''array'']])],
       Required [''events'']]"

definition Schemas_sliding_sync_room :: schema where
  "Schemas_sliding_sync_room =
     Schema [
       Type [''object''],
       Properties [
         (''bump_stamp'', Schema [Type [''integer'', ''null'']]),
         (''membership'', Schema [Type [''string'', ''null'']]),
         (''lists'', Schema [Type [''array'', ''null''], Items (Schema [Type [''string'']])]),
         (''name'', Schema [Type [''string'', ''null'']]),
         (''avatar'', Schema [Type [''string'', ''null'']]),
         (''heroes'',
          Schema [
            Type [''array'', ''null''],
            Items (Schema [
                     Type [''object''],
                     Properties [
                       (''user_id'', Schema [Type [''string'']]),
                       (''displayname'', Schema [Type [''string'', ''null'']]),
                       (''avatar_url'', Schema [Type [''string'', ''null'']])],
                     Required [''user_id'']])]),
         (''is_dm'', Schema [Type [''boolean'', ''null'']]),
         (''initial'', Schema [Type [''boolean'']]),
         (''expanded_timeline'', Schema [Type [''boolean'']]),
         (''unstable_expanded_timeline'', Schema [Type [''boolean'']]),
         (''required_state'',
          Schema [
            Type [''array''],
            Items (Schema [
                     Type [''object''],
                     Properties [
                       (''type'', Schema [Type [''string'']]),
                       (''state_key'', Schema [Type [''string'']])],
                     Required [''type'', ''state_key'']])]),
         (''timeline'', Schema [Type [''array''], Items (Schema [Type [''object'']])]),
         (''prev_batch'', Schema [Type [''string'', ''null'']]),
         (''limited'', Schema [Type [''boolean'']]),
         (''num_live'', Schema [Type [''integer'', ''null'']]),
         (''joined_count'', Schema [Type [''integer'', ''null'']]),
         (''invited_count'', Schema [Type [''integer'', ''null'']]),
         (''notification_count'', Schema [Type [''integer'', ''null'']]),
         (''highlight_count'', Schema [Type [''integer'', ''null'']]),
         (''stripped_state'', Schema [Type [''array''], Items (Schema [Type [''object'']])]),
         (''invite_state'', Schema [Type [''array''], Items (Schema [Type [''object'']])])]]"

definition Schemas_sliding_sync :: schema where
  "Schemas_sliding_sync =
     Schema [
       Type [''object''],
       Properties [
         (''pos'', Schema [Type [''string'']]),
         (''lists'',
          Schema [
            Type [''object''],
            Additional [] (Schema [
                             Type [''object''],
                             Properties [(''count'', Schema [Type [''integer'']])],
                             Required [''count'']])]),
         (''rooms'', Schema [Type [''object''], Additional [] (Schemas_sliding_sync_room)]),
         (''extensions'',
          Schema [
            Type [''object''],
            Properties [
              (''to_device'',
               Schema [
                 Type [''object''],
                 Properties [
                   (''events'', Schema [Type [''array''], Items (Schema [Type [''object'']])]),
                   (''next_batch'', Schema [Type [''string'']])]]),
              (''e2ee'',
               Schema [
                 Type [''object''],
                 Properties [
                   (''device_one_time_keys_count'',
                    Schema [
                      Type [''object''],
                      Properties [
                        (''curve25519'', Schema [Type [''integer'']]),
                        (''signed_curve25519'', Schema [Type [''integer'']])]]),
                   (''device_lists'',
                    Schema [
                      Type [''object''],
                      Properties [
                        (''changed'',
                         Schema [Type [''array''], Items (Schema [Type [''string'']])]),
                        (''left'',
                         Schema [Type [''array''], Items (Schema [Type [''string'']])])]])]]),
              (''account_data'',
               Schema [
                 Type [''object''],
                 Properties [
                   (''global'', Schema [Type [''array''], Items (Schema [Type [''object'']])]),
                   (''rooms'',
                    Schema [
                      Type [''object''],
                      Additional [] (Schema [
                                       Type [''array''], Items (Schema [Type [''object'']])])])]])]])],
       Required [''pos'']]"

definition Schemas_room_get_chunked_messages :: schema where
  "Schemas_room_get_chunked_messages =
     Schema [
       Type [''object''],
       Properties [
         (''chunk'',
          Schema [
            Type [''array''],
            Items (Schema [
                     Type [''object''],
                     Properties [
                       (''content'', Schema [Type [''object'']]),
                       (''event_id'', Schema [Type [''string'']]),
                       (''origin_server_ts'', Schema [Type [''integer'']]),
                       (''room_id'', Schema [Type [''string'']]),
                       (''sender'', Schema [Type [''string'']]),
                       (''state_key'', Schema [Type [''string'']]),
                       (''type'', Schema [Type [''string'']]),
                       (''unsigned'',
                        Schema [
                          Type [''object''],
                          Properties [
                            (''age'', Schema [Type [''integer'']]),
                            (''prev_content'', Schema [Type [''object'']]),
                            (''redacted_because'', Schema [Type [''object'']]),
                            (''transaction_id'', Schema [Type [''string'']])]])],
                     Required [
                       ''content'', ''event_id'', ''origin_server_ts'', ''room_id'', ''sender'',
                       ''type'']])]),
         (''prev_batch'', Schema [Type [''string'']]),
         (''next_batch'', Schema [Type [''string'']]),
         (''recursion_depth'', Schema [Type [''integer'']])],
       Required [''chunk'']]"

definition Schemas_room_resolve_alias :: schema where
  "Schemas_room_resolve_alias =
     Schema [
       Type [''object''],
       Properties [
         (''room_id'', Schema [Type [''string'']]),
         (''servers'', Schema [Type [''array''], Items (Schema [Type [''string'']])])],
       Required [''room_id'', ''servers'']]"

definition Schemas_room_get_visibility :: schema where
  "Schemas_room_get_visibility =
     Schema [
       Type [''object''],
       Properties [
         (''room_id'', Schema [Type [''string'']]),
         (''visibility'', Schema [Type [''string''], Enum [JStr ''private'', JStr ''public'']])],
       Required [''visibility'']]"

definition Schemas_room_event_id :: schema where
  "Schemas_room_event_id =
     Schema [
       Type [''object''], Properties [(''event_id'', Schema [Type [''string'']])],
       Required [''event_id'']]"

definition Schemas_room_id :: schema where
  "Schemas_room_id =
     Schema [
       Type [''object''], Properties [(''room_id'', Schema [Type [''string'']])],
       Required [''room_id'']]"

definition Schemas_room_create_response :: schema where
  "Schemas_room_create_response =
     Schema [
       Type [''object''], Properties [(''room_id'', Schema [Type [''string'']])],
       Required [''room_id'']]"

definition Schemas_room_messages :: schema where
  "Schemas_room_messages =
     Schema [
       Type [''object''],
       Properties [
         (''chunk'', Schema [Type [''array'']]), (''start'', Schema [Type [''string'']]),
         (''end'', Schema [Type [''string'']])],
       Required [''chunk'', ''start'']]"

definition Schemas_room_context :: schema where
  "Schemas_room_context =
     Schema [
       Type [''object''],
       Properties [
         (''start'', Schema [Type [''string'']]), (''end'', Schema [Type [''string'']]),
         (''state'', Schema [Type [''array'']]), (''events_before'', Schema [Type [''array'']]),
         (''events_after'', Schema [Type [''array'']]), (''event'', Schema [Type [''object'']])],
       Required [''event'']]"

definition Schemas_get_openid_token :: schema where
  "Schemas_get_openid_token =
     Schema [
       Type [''object''],
       Properties [
         (''access_token'', Schema [Type [''string'']]),
         (''expires_in'', Schema [Type [''integer'']]),
         (''matrix_server_name'', Schema [Type [''string'']]),
         (''token_type'', Schema [Type [''string'']])],
       Required [''access_token'', ''expires_in'', ''matrix_server_name'', ''token_type'']]"

definition Schemas_keys_upload :: schema where
  "Schemas_keys_upload =
     Schema [
       Type [''object''],
       Properties [
         (''one_time_key_counts'',
          Schema [
            Type [''object''],
            Properties [
              (''curve25519'', Schema [Type [''integer''], Default (JInt 0)]),
              (''signed_curve25519'', Schema [Type [''integer''], Default (JInt 0)])]])],
       Required [''one_time_key_counts'']]"

definition Schemas_keys_query :: schema where
  "Schemas_keys_query =
     Schema [
       Type [''object''],
       Properties [
         (''device_keys'',
          Schema [
            Type [''object''],
            PatternProperties [
              (UserIdRegex,
               Schema [
                 Type [''object''],
                 PatternProperties [
                   (Some_Text,
                    Schema [
                      Type [''object''],
                      Properties [
                        (''algorithms'',
                         Schema [Type [''array''], Items (Schema [Type [''string'']])]),
                        (''device_id'', Schema [Type [''string'']]),
                        (''user_id'', Schema [Type [''string'']]),
                        (''keys'',
                         Schema [
                           Type [''object''],
                           PatternProperties [(KeyRegex, Schema [Type [''string'']])]]),
                        (''signatures'',
                         Schema [
                           Type [''object''],
                           PatternProperties [
                             (UserIdRegex,
                              Schema [
                                Type [''object''],
                                PatternProperties [(KeyRegex, Schema [Type [''string'']])]])]])],
                      Required [''algorithms'', ''device_id'', ''keys'']])]])]]),
         (''failures'', Schema [Type [''object'']])]]"

definition Schemas_keys_claim :: schema where
  "Schemas_keys_claim =
     Schema [
       Type [''object''],
       Properties [
         (''one_time_keys'',
          Schema [
            Type [''object''],
            PatternProperties [
              (UserIdRegex,
               Schema [
                 Type [''object''],
                 PatternProperties [
                   (Some_Text,
                    Schema [
                      Type [''object''],
                      Properties [
                        (''patternProperties'',
                         Schema [Unknown ''(signed_curve25519|curve25519):.+''])]])]])]]),
         (''failures'', Schema [Type [''object'']])],
       Required [''one_time_keys'']]"

definition Schemas_devices :: schema where
  "Schemas_devices =
     Schema [
       Type [''object''],
       Properties [
         (''devices'',
          Schema [
            Type [''array''],
            Items (Schema [
                     Type [''object''],
                     Properties [
                       (''device_id'', Schema [Type [''string'']]),
                       (''display_name'', Schema [Type [''string'', ''null'']]),
                       (''last_seen_ip'', Schema [Type [''string'', ''null'']]),
                       (''last_seen_ts'', Schema [Type [''integer'', ''null'']])],
                     Required [
                       ''device_id'', ''display_name'', ''last_seen_ip'', ''last_seen_ts'']])])],
       Required [''devices'']]"

definition Schemas_joined_members :: schema where
  "Schemas_joined_members =
     Schema [
       Type [''object''],
       Properties [
         (''joined'',
          Schema [
            Type [''object''],
            PatternProperties [
              (UserIdRegex,
               Schema [
                 Type [''object''],
                 Properties [
                   (''avatar_url'', Schema [Type [''string'', ''null'']]),
                   (''display_name'', Schema [Type [''string'', ''null'']])],
                 Required []])]])],
       Required [''joined'']]"

definition Schemas_joined_rooms :: schema where
  "Schemas_joined_rooms =
     Schema [
       Type [''object''],
       Properties [
         (''joined_rooms'', Schema [Type [''array''], Items (Schema [Type [''string'']])])],
       Required [''joined_rooms'']]"

definition Schemas_upload :: schema where
  "Schemas_upload =
     Schema [
       Type [''object''], Properties [(''content_uri'', Schema [Type [''string'']])],
       Required [''content_uri'']]"

definition Schemas_content_repository_config :: schema where
  "Schemas_content_repository_config =
     Schema [
       Type [''object''], Properties [(''m.upload.size'', Schema [Type [''number'', ''null'']])]]"

definition Schemas_get_profile :: schema where
  "Schemas_get_profile =
     Schema [
       Type [''object''],
       Properties [
         (''displayname'', Schema [Type [''string'']]),
         (''avatar_url'', Schema [Type [''string'']])],
       Not (Schema [Required [''errcode'']])]"

definition Schemas_get_displayname :: schema where
  "Schemas_get_displayname =
     Schema [
       Type [''object''], Properties [(''displayname'', Schema [Type [''string'', ''null'']])],
       Required [''displayname'']]"

definition Schemas_get_avatar :: schema where
  "Schemas_get_avatar =
     Schema [
       Type [''object''], Properties [(''avatar_url'', Schema [Type [''string'', ''null'']])],
       Required [''avatar_url'']]"

definition Schemas_get_presence :: schema where
  "Schemas_get_presence =
     Schema [
       Type [''object''],
       Properties [
         (''presence'', Schema [Type [''string'']]),
         (''last_active_ago'', Schema [Type [''integer'']]),
         (''status_msg'', Schema [Type [''string'']]),
         (''currently_active'', Schema [Type [''boolean'']])],
       Required [''presence'']]"

definition Schemas_empty :: schema where
  "Schemas_empty =
     Schema [Type [''object''], Properties [], Additional [] (Schema [Not (Schema [])])]"

definition Schemas_upload_filter :: schema where
  "Schemas_upload_filter =
     Schema [
       Type [''object''], Properties [(''filter_id'', Schema [Type [''string'']])],
       Required [''filter_id'']]"

definition Schemas_whoami :: schema where
  "Schemas_whoami =
     Schema [
       Type [''object''],
       Properties [
         (''user_id'', Schema [Type [''string''], Format ''user_id'']),
         (''device_id'', Schema [Type [''string'']]),
         (''is_guest'', Schema [Type [''boolean'']])],
       Required [''user_id'']]"

definition Schemas_space_hierarchy :: schema where
  "Schemas_space_hierarchy =
     Schema [
       Type [''object''],
       Properties [
         (''next_batch'', Schema [Type [''string'']]),
         (''rooms'',
          Schema [
            Type [''array''],
            Items (Schema [
                     Type [''object''],
                     Properties [
                       (''avatar_url'', Schema [Type [''string'']]),
                       (''canonical_alias'', Schema [Type [''string'']]),
                       (''children_state'',
                        Schema [
                          Type [''array''],
                          Items (Schema [
                                   Type [''object''],
                                   Properties [
                                     (''content'',
                                      Schema [
                                        Type [''object''],
                                        Properties [
                                          (''via'',
                                           Schema [
                                             Type [''array''],
                                             Items (Schema [Type [''string'']])])],
                                        Required [''via'']]),
                                     (''origin_server_ts'', Schema [Type [''integer'']]),
                                     (''sender'', Schema [Type [''string'']]),
                                     (''state_key'', Schema [Type [''string'']]),
                                     (''type'', Schema [Type [''string'']])],
                                   Required [
                                     ''content'', ''origin_server_ts'', ''sender'',
                                     ''state_key'', ''type'']])]),
                       (''guest_can_join'', Schema [Type [''boolean'']]),
                       (''join_rule'', Schema [Type [''string'']]),
                       (''name'', Schema [Type [''string'']]),
                       (''num_joined_members'', Schema [Type [''integer'']]),
                       (''room_id'', Schema [Type [''string'']]),
                       (''room_type'', Schema [Type [''string'']]),
                       (''topic'', Schema [Type [''string'']]),
                       (''world_readable'', Schema [Type [''boolean'']])],
                     Required [
                       ''children_state'', ''guest_can_join'', ''num_joined_members'',
                       ''room_id'', ''world_readable'']])])],
       Required [''rooms'']]"

definition Schemas_public_rooms_chunk :: schema where
  "Schemas_public_rooms_chunk =
     Schema [
       Type [''object''],
       Properties [
         (''avatar_url'', Schema [Type [''string'']]),
         (''canonical_alias'', Schema [Type [''string'']]),
         (''guest_can_join'', Schema [Type [''boolean'']]),
         (''join_rule'', Schema [Type [''string'']]), (''name'', Schema [Type [''string'']]),
         (''num_joined_members'', Schema [Type [''integer'']]),
         (''room_id'', Schema [Type [''string'']]), (''room_type'', Schema [Type [''string'']]),
         (''topic'', Schema [Type [''string'']]),
         (''world_readable'', Schema [Type [''boolean'']])],
       Required [''guest_can_join'', ''num_joined_members'', ''room_id'', ''world_readable'']]"

definition Schemas_public_rooms_response :: schema where
  "Schemas_public_rooms_response =
     Schema [
       Type [''object''],
       Properties [
         (''chunk'', Schema [Type [''array''], Items (Schemas_public_rooms_chunk)]),
         (''next_batch'', Schema [Type [''string'']]),
         (''prev_batch'', Schema [Type [''string'']]),
         (''total_room_count_estimate'', Schema [Type [''integer'']])],
       Required [''chunk'']]"

lemmas response_schema_defs =
    Schemas_register_def Schemas_register_flows_def Schemas_login_def Schemas_discovery_info_def
    Schemas_login_info_def Schemas_error_def Schemas_room_timeline_def Schemas_sync_def
    Schemas_state_event_def Schemas_room_state_def Schemas_sync_room_state_def
    Schemas_sliding_sync_room_def Schemas_sliding_sync_def Schemas_room_get_chunked_messages_def
    Schemas_room_resolve_alias_def Schemas_room_get_visibility_def Schemas_room_event_id_def
    Schemas_room_id_def Schemas_room_create_response_def Schemas_room_messages_def
    Schemas_room_context_def Schemas_get_openid_token_def Schemas_keys_upload_def
    Schemas_keys_query_def Schemas_keys_claim_def Schemas_devices_def Schemas_joined_members_def
    Schemas_joined_rooms_def Schemas_upload_def Schemas_content_repository_config_def
    Schemas_get_profile_def Schemas_get_displayname_def Schemas_get_avatar_def
    Schemas_get_presence_def Schemas_empty_def Schemas_upload_filter_def Schemas_whoami_def
    Schemas_space_hierarchy_def Schemas_public_rooms_chunk_def Schemas_public_rooms_response_def

text \<open>Every one of them has the shape the validator's contract asks for.\<close>

lemma response_schemas_tidy [simp]:
  "tidy Schemas_register"
  "tidy Schemas_register_flows"
  "tidy Schemas_login"
  "tidy Schemas_discovery_info"
  "tidy Schemas_login_info"
  "tidy Schemas_error"
  "tidy Schemas_room_timeline"
  "tidy Schemas_sync"
  "tidy Schemas_state_event"
  "tidy Schemas_room_state"
  "tidy Schemas_sync_room_state"
  "tidy Schemas_sliding_sync_room"
  "tidy Schemas_sliding_sync"
  "tidy Schemas_room_get_chunked_messages"
  "tidy Schemas_room_resolve_alias"
  "tidy Schemas_room_get_visibility"
  "tidy Schemas_room_event_id"
  "tidy Schemas_room_id"
  "tidy Schemas_room_create_response"
  "tidy Schemas_room_messages"
  "tidy Schemas_room_context"
  "tidy Schemas_get_openid_token"
  "tidy Schemas_keys_upload"
  "tidy Schemas_keys_query"
  "tidy Schemas_keys_claim"
  "tidy Schemas_devices"
  "tidy Schemas_joined_members"
  "tidy Schemas_joined_rooms"
  "tidy Schemas_upload"
  "tidy Schemas_content_repository_config"
  "tidy Schemas_get_profile"
  "tidy Schemas_get_displayname"
  "tidy Schemas_get_avatar"
  "tidy Schemas_get_presence"
  "tidy Schemas_empty"
  "tidy Schemas_upload_filter"
  "tidy Schemas_whoami"
  "tidy Schemas_space_hierarchy"
  "tidy Schemas_public_rooms_chunk"
  "tidy Schemas_public_rooms_response"
  by (simp_all add: response_schema_defs schema_defs)

lemma response_schemas_no_defaults [simp]:
  "no_defaults Schemas_register"
  "no_defaults Schemas_register_flows"
  "no_defaults Schemas_login"
  "no_defaults Schemas_discovery_info"
  "no_defaults Schemas_login_info"
  "no_defaults Schemas_error"
  "no_defaults Schemas_room_timeline"
  "no_defaults Schemas_state_event"
  "no_defaults Schemas_room_state"
  "no_defaults Schemas_sync_room_state"
  "no_defaults Schemas_sliding_sync_room"
  "no_defaults Schemas_sliding_sync"
  "no_defaults Schemas_room_get_chunked_messages"
  "no_defaults Schemas_room_resolve_alias"
  "no_defaults Schemas_room_get_visibility"
  "no_defaults Schemas_room_event_id"
  "no_defaults Schemas_room_id"
  "no_defaults Schemas_room_create_response"
  "no_defaults Schemas_room_messages"
  "no_defaults Schemas_room_context"
  "no_defaults Schemas_get_openid_token"
  "no_defaults Schemas_keys_query"
  "no_defaults Schemas_keys_claim"
  "no_defaults Schemas_devices"
  "no_defaults Schemas_joined_members"
  "no_defaults Schemas_joined_rooms"
  "no_defaults Schemas_upload"
  "no_defaults Schemas_content_repository_config"
  "no_defaults Schemas_get_profile"
  "no_defaults Schemas_get_displayname"
  "no_defaults Schemas_get_avatar"
  "no_defaults Schemas_get_presence"
  "no_defaults Schemas_empty"
  "no_defaults Schemas_upload_filter"
  "no_defaults Schemas_whoami"
  "no_defaults Schemas_space_hierarchy"
  "no_defaults Schemas_public_rooms_chunk"
  "no_defaults Schemas_public_rooms_response"
  by (simp_all add: response_schema_defs schema_defs)

end
