(* ===== verification/Nio_Sync.thy ===== *)
theory Nio_Sync
  imports Nio_Views Nio_Response_Schemas
begin

text \<open>
  The sync responses of \<^verbatim>\<open>src/nio/responses.py\<close>, classic and sliding, with the errors of every
  response: from the JSON the server sends to the events the client is handed. An event list
  holds the objects the parsers return; \<^verbatim>\<open>_get_to_device\<close> keeps the None of an ignored event.
\<close>

section \<open>Errors\<close>

text \<open>
  The fields of an error are positional, and two classes pass others in their place: a field is
  JSON, the set of the users a key was shared with, or a message.
\<close>

datatype field = FJson json | FUsers "(string \<times> string) set" | FMessage Nio_Olm.to_device_message

record error_response =
  er_class :: string
  er_message :: json
  er_status_code :: json
  er_retry_after_ms :: field
  er_soft_logout :: field
  er_room_id :: string
  er_users_shared_with :: "(string \<times> string) set"
  er_to_device_message :: "Nio_Olm.to_device_message option"

definition unknown_error :: "string \<Rightarrow> json \<Rightarrow> error_response" where
  "unknown_error cls message =
     \<lparr> er_class = cls, er_message = message, er_status_code = JNull, er_retry_after_ms = FJson JNull,
       er_soft_logout = FJson (JBool False), er_room_id = [], er_users_shared_with = {},
       er_to_device_message = None \<rparr>"

fun field_truthy :: "field \<Rightarrow> bool" where
  "field_truthy (FJson v) = truthy v"
| "field_truthy (FUsers us) = (us \<noteq> {})"
| "field_truthy (FMessage m) = True"

definition ErrorResponse_from_dict :: "validator \<Rightarrow> string \<Rightarrow> json \<Rightarrow> exn + error_response" where
  "ErrorResponse_from_dict validate cls v =
     (case validate Schemas_error v of (ok, w) \<Rightarrow>
        if \<not> ok then Inr (unknown_error cls (JStr ''unknown error''))
        else
          rbind (item w ''error'') (\<lambda>message.
          rbind (item w ''errcode'') (\<lambda>code.
          rbind (get_or w ''retry_after_ms'' JNull) (\<lambda>retry.
          rbind (get_or w ''soft_logout'' (JBool False)) (\<lambda>soft.
          Inr ((unknown_error cls message)
            \<lparr> er_status_code := code, er_retry_after_ms := FJson retry, er_soft_logout := FJson soft \<rparr>))))))"

definition ErrorWithRoomId_from_dict :: "validator \<Rightarrow> string \<Rightarrow> string \<Rightarrow> json \<Rightarrow> exn + error_response" where
  "ErrorWithRoomId_from_dict validate cls room_id v =
     (if \<not> fst (validate Schemas_error v) then Inr (unknown_error cls (JStr ''unknown error''))
      else rbind (ErrorResponse_from_dict validate cls v) (\<lambda>e. Inr (e \<lparr> er_room_id := room_id \<rparr>)))"

definition ShareGroupSessionError_from_dict ::
  "validator \<Rightarrow> string \<Rightarrow> (string \<times> string) set \<Rightarrow> json \<Rightarrow> exn + error_response" where
  "ShareGroupSessionError_from_dict validate room_id users_shared_with v =
     (let cls = ''ShareGroupSessionError'' in
      case validate Schemas_error v of (ok, w) \<Rightarrow>
        if \<not> ok then Inr (unknown_error cls (JStr ''unknown error''))
        else
          rbind (item w ''error'') (\<lambda>message.
          rbind (item w ''errcode'') (\<lambda>code.
          Inr ((unknown_error cls message)
            \<lparr> er_status_code := code, er_retry_after_ms := FJson (JStr room_id),
              er_soft_logout := FUsers users_shared_with \<rparr>))))"

definition ToDeviceError_from_dict ::
  "validator \<Rightarrow> Nio_Olm.to_device_message \<Rightarrow> json \<Rightarrow> exn + error_response" where
  "ToDeviceError_from_dict validate message v =
     (let cls = ''ToDeviceError'' in
      case validate Schemas_error v of (ok, w) \<Rightarrow>
        if \<not> ok then Inr ((unknown_error cls (JStr ''unknown error'')) \<lparr> er_retry_after_ms := FMessage message \<rparr>)
        else
          rbind (item w ''error'') (\<lambda>text.
          rbind (item w ''errcode'') (\<lambda>code.
          Inr ((unknown_error cls text) \<lparr> er_status_code := code, er_retry_after_ms := FMessage message \<rparr>))))"

text \<open>The decorator \<^verbatim>\<open>verify\<close>: the answer is an error response or the response of the class.\<close>

type_synonym 'r answer = "exn + (error_response + 'r)"

definition verify_response ::
  "validator \<Rightarrow> schema \<Rightarrow> (json \<Rightarrow> exn + error_response) \<Rightarrow> (json \<Rightarrow> 'r answer) \<Rightarrow> json \<Rightarrow> 'r answer" where
  "verify_response validate s err f v =
     (case validate s v of (ok, w) \<Rightarrow> if ok then f w else rbind (err w) (\<lambda>e. Inr (Inl e)))"

definition respond :: "'r \<Rightarrow> 'r answer" where
  "respond r = Inr (Inr r)"

section \<open>Lists of events\<close>

definition get_room_events :: "validator \<Rightarrow> json \<Rightarrow> exn + event list" where
  "get_room_events validate v = rbind (iterated v) (rmap (parse_event validate))"

definition get_to_device :: "validator \<Rightarrow> json \<Rightarrow> exn + to_device_event parsed list" where
  "get_to_device validate v =
     rbind (get_or v ''events'' (JArr [])) (\<lambda>es.
     rbind (iterated es) (rmap (ToDeviceEvent_parse_event validate)))"

definition present :: "'a parsed \<Rightarrow> bool" where
  "present p = (case p of Ignored \<Rightarrow> False | _ \<Rightarrow> True)"

definition get_invite_events :: "validator \<Rightarrow> json \<Rightarrow> exn + invite_event parsed list" where
  "get_invite_events validate v =
     rbind (iterated v) (\<lambda>es.
     rbind (rmap (InviteEvent_parse_event validate) es) (\<lambda>ps. Inr (filter present ps)))"

definition get_ephemeral_events :: "validator \<Rightarrow> json \<Rightarrow> exn + ephemeral_json list" where
  "get_ephemeral_events validate v =
     rbind (iterated v) (\<lambda>es.
     rbind (rmap (EphemeralEvent_parse_event validate) es) (\<lambda>ps.
     Inr (concat (map (\<lambda>p. case p of Parsed e \<Rightarrow> [e] | _ \<Rightarrow> []) ps))))"

definition parse_account_data :: "validator \<Rightarrow> json \<Rightarrow> exn + account_data_json parsed list" where
  "parse_account_data validate v = rbind (iterated v) (rmap (AccountDataEvent_parse_event validate))"

section \<open>Rooms\<close>

record timeline =
  tl_events :: "event list"
  tl_limited :: json
  tl_prev_batch :: json

record room_info =
  ri_timeline :: timeline
  ri_state :: "event list"
  ri_ephemeral :: "ephemeral_json list"
  ri_account_data :: "account_data_json parsed list"
  ri_summary :: "room_summary option"
  ri_unread_notifications :: "unread_notifications option"
  ri_unread_thread_notifications :: "(string, unread_notifications) dict option"

text \<open>A validation outside a decorator raises.\<close>

definition validated :: "validator \<Rightarrow> schema \<Rightarrow> json \<Rightarrow> exn + json" where
  "validated validate s v =
     (case validate s v of (ok, w) \<Rightarrow> if ok then Inr w else Inl (ValidationError ''schema''))"

definition get_timeline :: "validator \<Rightarrow> json \<Rightarrow> exn + timeline" where
  "get_timeline validate v =
     rbind (validated validate Schemas_room_timeline v) (\<lambda>w.
     rbind (get_or w ''events'' (JArr [])) (\<lambda>es.
     rbind (get_room_events validate es) (\<lambda>events.
     rbind (get_or w ''limited'' (JBool False)) (\<lambda>limited.
     rbind (get_or w ''prev_batch'' JNull) (\<lambda>prev.
     Inr \<lparr> tl_events = events, tl_limited = limited, tl_prev_batch = prev \<rparr>)))))"

definition get_state :: "validator \<Rightarrow> json \<Rightarrow> exn + event list" where
  "get_state validate v =
     rbind (validated validate Schemas_sync_room_state v) (\<lambda>w.
     rbind (get_or w ''events'' (JArr [])) (get_room_events validate))"

definition get_invite_state :: "validator \<Rightarrow> json \<Rightarrow> exn + invite_event parsed list" where
  "get_invite_state validate v =
     rbind (validated validate Schemas_sync_room_state v) (\<lambda>w.
     rbind (get_or w ''events'' (JArr [])) (get_invite_events validate))"

definition opt_texts :: "json \<Rightarrow> string list option" where
  "opt_texts v = (case v of JArr xs \<Rightarrow> Some (map text_of xs) | _ \<Rightarrow> None)"

definition unread_from :: "json \<Rightarrow> exn + unread_notifications" where
  "unread_from v =
     rbind (get_or v ''notification_count'' JNull) (\<lambda>n.
     rbind (get_or v ''highlight_count'' JNull) (\<lambda>h.
     Inr \<lparr> un_notification_count = opt_int n, un_highlight_count = opt_int h \<rparr>))"

text \<open>\<^verbatim>\<open>v.get(a, {}).get(b, default)\<close>.\<close>

definition get_in :: "json \<Rightarrow> string \<Rightarrow> string \<Rightarrow> json \<Rightarrow> exn + json" where
  "get_in v a b other = rbind (get_or v a (JObj [])) (\<lambda>x. get_or x b other)"

text \<open>The arguments of \<^verbatim>\<open>_get_join_info\<close> are evaluated before it is entered.\<close>

definition get_join_info :: "validator \<Rightarrow> json \<Rightarrow> exn + room_info" where
  "get_join_info validate room =
     rbind (get_in room ''state'' ''events'' (JArr [])) (\<lambda>state_events.
     rbind (get_in room ''timeline'' ''events'' (JArr [])) (\<lambda>timeline_events.
     rbind (get_in room ''timeline'' ''prev_batch'' JNull) (\<lambda>prev_batch.
     rbind (get_in room ''timeline'' ''limited'' (JBool False)) (\<lambda>limited.
     rbind (get_in room ''ephemeral'' ''events'' (JArr [])) (\<lambda>ephemeral_events.
     rbind (get_or room ''summary'' (JObj [])) (\<lambda>summary_events.
     rbind (get_or room ''unread_notifications'' (JObj [])) (\<lambda>unread_events.
     rbind (get_in room ''account_data'' ''events'' (JArr [])) (\<lambda>account_events.
     rbind (get_or room ''unread_thread_notifications'' (JObj [])) (\<lambda>threads.
     rbind (get_room_events validate state_events) (\<lambda>state.
     rbind (get_room_events validate timeline_events) (\<lambda>events.
     rbind (get_ephemeral_events validate ephemeral_events) (\<lambda>ephemeral.
     rbind (get_or summary_events ''m.invited_member_count'' JNull) (\<lambda>ivt.
     rbind (get_or summary_events ''m.joined_member_count'' JNull) (\<lambda>joined.
     rbind (get_or summary_events ''m.heroes'' JNull) (\<lambda>heroes.
     rbind (unread_from unread_events) (\<lambda>unread.
     rbind (items threads) (\<lambda>ts.
     rbind (rmap (\<lambda>(i, d). rbind (unread_from d) (\<lambda>u. Inr (i, u))) ts) (\<lambda>thread_unread.
     rbind (parse_account_data validate account_events) (\<lambda>account.
     Inr \<lparr> ri_timeline = \<lparr> tl_events = events, tl_limited = limited, tl_prev_batch = prev_batch \<rparr>,
           ri_state = state, ri_ephemeral = ephemeral, ri_account_data = account,
           ri_summary = Some \<lparr> rs_invited_member_count = opt_int ivt,
             rs_joined_member_count = opt_int joined, rs_heroes = opt_texts heroes \<rparr>,
           ri_unread_notifications = Some unread,
           ri_unread_thread_notifications = Some thread_unread \<rparr>)))))))))))))))))))"

definition get_leave_info :: "validator \<Rightarrow> json \<Rightarrow> exn + room_info" where
  "get_leave_info validate room =
     rbind (get_or room ''state'' (JObj [])) (\<lambda>sd.
     rbind (get_state validate sd) (\<lambda>state.
     rbind (get_or room ''timeline'' (JObj [])) (\<lambda>td.
     rbind (get_timeline validate td) (\<lambda>timeline.
     rbind (get_in room ''account_data'' ''events'' (JArr [])) (\<lambda>ad.
     rbind (parse_account_data validate ad) (\<lambda>account.
     Inr \<lparr> ri_timeline = timeline, ri_state = state, ri_ephemeral = [], ri_account_data = account,
           ri_summary = None, ri_unread_notifications = None,
           ri_unread_thread_notifications = None \<rparr>))))))"

record rooms_info =
  ro_invite :: "(string, invite_event parsed list) dict"
  ro_join :: "(string, room_info) dict"
  ro_leave :: "(string, room_info) dict"

definition each_room :: "(json \<Rightarrow> exn + 'r) \<Rightarrow> json \<Rightarrow> exn + (string, 'r) dict" where
  "each_room f v =
     rbind (items v) (rmap (\<lambda>(room_id, room). rbind (f room) (\<lambda>r. Inr (room_id, r))))"

definition get_room_info :: "validator \<Rightarrow> json \<Rightarrow> exn + rooms_info" where
  "get_room_info validate v =
     rbind (get_or v ''invite'' (JObj [])) (\<lambda>ivt.
     rbind (each_room (\<lambda>room. rbind (get_or room ''invite_state'' (JObj [])) (get_invite_state validate)) ivt) (\<lambda>invited.
     rbind (get_or v ''leave'' (JObj [])) (\<lambda>leave.
     rbind (each_room (get_leave_info validate) leave) (\<lambda>left.
     rbind (get_or v ''join'' (JObj [])) (\<lambda>join.
     rbind (each_room (get_join_info validate) join) (\<lambda>joined.
     Inr \<lparr> ro_invite = invited, ro_join = joined, ro_leave = left \<rparr>))))))"

section \<open>The classic response\<close>

record sync_response =
  sy_next_batch :: string
  sy_rooms :: rooms_info
  sy_curve25519 :: "int option"
  sy_signed_curve25519 :: "int option"
  sy_changed :: "string list"
  sy_left :: "string list"
  sy_to_device :: "to_device_event parsed list"
  sy_presence :: "presence_event parsed list"
  sy_account_data :: "account_data_json parsed list"

definition get_presence :: "validator \<Rightarrow> json \<Rightarrow> exn + presence_event parsed list" where
  "get_presence validate v =
     rbind (get_in v ''presence'' ''events'' (JArr [])) (\<lambda>es.
     rbind (iterated es) (rmap (PresenceEvent_from_dict validate)))"

definition SyncResponse_from_dict :: "validator \<Rightarrow> json \<Rightarrow> sync_response answer" where
  "SyncResponse_from_dict validate =
     verify_response validate Schemas_sync (ErrorResponse_from_dict validate ''SyncError'') (\<lambda>v.
     rbind (get_or v ''to_device'' (JObj [])) (\<lambda>td.
     rbind (get_to_device validate td) (\<lambda>to_device.
     rbind (get_in v ''device_one_time_keys_count'' ''curve25519'' JNull) (\<lambda>curve.
     rbind (get_in v ''device_one_time_keys_count'' ''signed_curve25519'' JNull) (\<lambda>signed.
     rbind (get_in v ''device_lists'' ''changed'' (JArr [])) (\<lambda>changed.
     rbind (get_in v ''device_lists'' ''left'' (JArr [])) (\<lambda>left.
     rbind (get_presence validate v) (\<lambda>presence.
     rbind (get_or v ''rooms'' (JObj [])) (\<lambda>rs.
     rbind (get_room_info validate rs) (\<lambda>rooms.
     rbind (item v ''next_batch'') (\<lambda>next_batch.
     rbind (get_in v ''account_data'' ''events'' (JArr [])) (\<lambda>ad.
     rbind (parse_account_data validate ad) (\<lambda>account.
     respond \<lparr> sy_next_batch = text_of next_batch, sy_rooms = rooms, sy_curve25519 = opt_int curve,
       sy_signed_curve25519 = opt_int signed, sy_changed = texts_of changed, sy_left = texts_of left,
       sy_to_device = to_device, sy_presence = presence, sy_account_data = account \<rparr>)))))))))))))"

section \<open>The sliding response\<close>

datatype required_state = StateEvent event | StateStub json json

record sliding_hero =
  sh_user_id :: json
  sh_displayname :: json
  sh_avatar_url :: json

record sliding_room =
  sl_bump_stamp :: json
  sl_membership :: json
  sl_lists :: json
  sl_name :: json
  sl_avatar :: json
  sl_heroes :: "sliding_hero list option"
  sl_is_dm :: json
  sl_initial :: json
  sl_expanded_timeline :: json
  sl_required_state :: "required_state list"
  sl_timeline :: "event list"
  sl_prev_batch :: json
  sl_limited :: json
  sl_num_live :: "int option"
  sl_joined_count :: json
  sl_invited_count :: json
  sl_notification_count :: json
  sl_highlight_count :: json
  sl_stripped_state :: "invite_event parsed list"

definition SlidingSyncHero_from_dict :: "json \<Rightarrow> exn + sliding_hero" where
  "SlidingSyncHero_from_dict v =
     rbind (item v ''user_id'') (\<lambda>u.
     rbind (get_or v ''displayname'' JNull) (\<lambda>d.
     rbind (get_or v ''avatar_url'' JNull) (\<lambda>a.
     Inr \<lparr> sh_user_id = u, sh_displayname = d, sh_avatar_url = a \<rparr>)))"

definition get_required_state :: "validator \<Rightarrow> json \<Rightarrow> exn + required_state list" where
  "get_required_state validate v =
     rbind (iterated v) (rmap (\<lambda>d.
       rbind (contains ''content'' d) (\<lambda>b.
       if \<not> b then
         rbind (item d ''type'') (\<lambda>t.
         rbind (item d ''state_key'') (\<lambda>k. Inr (StateStub t k)))
       else rbind (parse_event validate d) (\<lambda>e. Inr (StateEvent e)))))"

definition SlidingSyncRoom_from_dict :: "validator \<Rightarrow> json \<Rightarrow> exn + sliding_room" where
  "SlidingSyncRoom_from_dict validate v =
     rbind (get_or v ''num_live'' JNull) (\<lambda>num_live.
     rbind (case num_live of JNull \<Rightarrow> Inr None | JInt i \<Rightarrow> Inr (Some i)
            | _ \<Rightarrow> Inl (TypeError ''num_live must be an integer'')) (\<lambda>live.
     rbind (get_or v ''heroes'' JNull) (\<lambda>hs.
     rbind (if hs = JNull then Inr None
            else rbind (iterated hs) (\<lambda>xs.
              rbind (rmap SlidingSyncHero_from_dict xs) (\<lambda>ys. Inr (Some ys)))) (\<lambda>heroes.
     rbind (get_or v ''required_state'' (JArr [])) (\<lambda>rs.
     rbind (get_required_state validate rs) (\<lambda>required.
     rbind (get_or v ''timeline'' (JArr [])) (\<lambda>tl.
     rbind (get_room_events validate tl) (\<lambda>timeline.
     rbind (get_or v ''invite_state'' (JArr [])) (\<lambda>ivt.
     rbind (get_or v ''stripped_state'' ivt) (\<lambda>st.
     rbind (get_invite_events validate st) (\<lambda>stripped.
     let g = \<lambda>k x. (case get_or v k x of Inr y \<Rightarrow> y | Inl _ \<Rightarrow> x) in
     Inr \<lparr> sl_bump_stamp = g ''bump_stamp'' JNull, sl_membership = g ''membership'' JNull,
       sl_lists = g ''lists'' JNull, sl_name = g ''name'' JNull, sl_avatar = g ''avatar'' JNull,
       sl_heroes = heroes, sl_is_dm = g ''is_dm'' JNull, sl_initial = g ''initial'' (JBool False),
       sl_expanded_timeline = g ''unstable_expanded_timeline'' (g ''expanded_timeline'' (JBool False)),
       sl_required_state = required, sl_timeline = timeline, sl_prev_batch = g ''prev_batch'' JNull,
       sl_limited = g ''limited'' (JBool False), sl_num_live = live,
       sl_joined_count = g ''joined_count'' JNull, sl_invited_count = g ''invited_count'' JNull,
       sl_notification_count = g ''notification_count'' JNull,
       sl_highlight_count = g ''highlight_count'' JNull, sl_stripped_state = stripped \<rparr>)))))))))))"

record sliding_response =
  sv_pos :: string
  sv_lists :: "(string, json) dict"
  sv_rooms :: "(string, sliding_room) dict"
  sv_extensions :: json
  sv_to_device :: "to_device_event parsed list"
  sv_to_device_next_batch :: "string option"
  sv_curve25519 :: "int option"
  sv_signed_curve25519 :: "int option"
  sv_changed :: "string list"
  sv_left :: "string list"
  sv_account_data :: "account_data_json parsed list"
  sv_room_account_data :: "(string, account_data_json parsed list) dict"

text \<open>What the \<^verbatim>\<open>try\<close> of \<^verbatim>\<open>SlidingSyncResponse.from_dict\<close> catches.\<close>

definition payload_error :: "exn \<Rightarrow> bool" where
  "payload_error e = (case e of KeyError _ \<Rightarrow> True | TypeError _ \<Rightarrow> True | AttributeError _ \<Rightarrow> True | _ \<Rightarrow> False)"

definition sliding_body :: "validator \<Rightarrow> json \<Rightarrow> exn + sliding_response" where
  "sliding_body validate v =
     rbind (get_or v ''lists'' (JObj [])) (\<lambda>ls.
     rbind (each_room (\<lambda>d. item d ''count'') ls) (\<lambda>lists.
     rbind (get_or v ''rooms'' (JObj [])) (\<lambda>rs.
     rbind (each_room (SlidingSyncRoom_from_dict validate) rs) (\<lambda>rooms.
     rbind (get_or v ''extensions'' (JObj [])) (\<lambda>extensions.
     rbind (get_or extensions ''to_device'' (JObj [])) (\<lambda>td.
     rbind (get_to_device validate td) (\<lambda>to_device.
     rbind (get_or extensions ''e2ee'' (JObj [])) (\<lambda>e2ee.
     rbind (get_or e2ee ''device_one_time_keys_count'' (JObj [])) (\<lambda>counts.
     rbind (get_or e2ee ''device_lists'' (JObj [])) (\<lambda>devices.
     rbind (get_or extensions ''account_data'' (JObj [])) (\<lambda>ad.
     rbind (item v ''pos'') (\<lambda>pos.
     rbind (get_or td ''next_batch'' JNull) (\<lambda>next_batch.
     rbind (get_or counts ''curve25519'' JNull) (\<lambda>curve.
     rbind (get_or counts ''signed_curve25519'' JNull) (\<lambda>signed.
     rbind (get_or devices ''changed'' (JArr [])) (\<lambda>changed.
     rbind (get_or devices ''left'' (JArr [])) (\<lambda>left.
     rbind (get_or ad ''global'' (JArr [])) (\<lambda>global_data.
     rbind (parse_account_data validate global_data) (\<lambda>account.
     rbind (get_or ad ''rooms'' (JObj [])) (\<lambda>room_data.
     rbind (each_room (parse_account_data validate) room_data) (\<lambda>room_account.
     Inr \<lparr> sv_pos = text_of pos, sv_lists = lists, sv_rooms = rooms, sv_extensions = extensions,
       sv_to_device = filter present to_device, sv_to_device_next_batch = opt_text next_batch,
       sv_curve25519 = opt_int curve, sv_signed_curve25519 = opt_int signed,
       sv_changed = texts_of changed, sv_left = texts_of left, sv_account_data = account,
       sv_room_account_data = room_account \<rparr>)))))))))))))))))))))"

definition SlidingSyncResponse_from_dict :: "validator \<Rightarrow> json \<Rightarrow> sliding_response answer" where
  "SlidingSyncResponse_from_dict validate =
     verify_response validate Schemas_sliding_sync (ErrorResponse_from_dict validate ''SlidingSyncError'') (\<lambda>v.
       case sliding_body validate v of
         Inr r \<Rightarrow> respond r
       | Inl e \<Rightarrow>
           if payload_error e
           then Inr (Inl (unknown_error ''SlidingSyncError'' (JStr ''Invalid sliding sync event payload'')))
           else Inl e)"

end
