(* ===== verification/Nio_Client.thy ===== *)
theory Nio_Client
  imports Nio_Sync Nio_Olm_Send
begin

text \<open>
  The client without I/O of \<^verbatim>\<open>src/nio/client/base_client.py\<close>: login, the classic sync, the other
  responses, device trust and encryption, on the rooms and the encryption machine it owns. The
  store object of the client is the one inside its machine, so there is a store exactly when
  there is a machine. Callbacks are not run: each item handed to \<^verbatim>\<open>_dispatch_sync_item\<close> is
  appended to \<open>cl_dispatched\<close>, with a copy of the room as it is at that moment. The durable
  session is \<open>None\<close> here; its client is in the theories of \<^verbatim>\<open>src/nio/durable/\<close>.
\<close>

section \<open>State\<close>

text \<open>What the client takes from outside: the packages, the clock, random draws and the file
  that holds the database.\<close>

record ('a, 's, 'g, 'o, 'c, 'e, 'm) environment =
  ev_lib :: "('a, 's, 'g, 'o, 'm) vodozemac_olm"
  ev_vz :: "'e vodozemac"
  ev_validate :: validator
  ev_loads :: "string \<Rightarrow> json option"
  ev_cache :: "'c index_cache"
  ev_empty_cache :: 'c
  ev_now :: int
  ev_draw :: "nat \<Rightarrow> string \<times> string"
  ev_fresh_account :: 'a
  ev_fresh_group :: 'o
  ev_open :: "string \<Rightarrow> string \<Rightarrow> string \<Rightarrow> ('a, 's, 'g) sqlite_store"

record client_config =
  cc_store :: bool
  cc_memory_store :: bool
  cc_encryption_enabled :: bool
  cc_store_sync_tokens :: bool
  cc_replace_rotated_device_keys :: bool

datatype observed =
    ObservedOlm decrypted_olm
  | ObservedToDevice "to_device_event parsed"
  | ObservedInvite "invite_event parsed"
  | ObservedEvent event
  | ObservedEphemeral ephemeral_json
  | ObservedAccountData "account_data_json parsed"
  | ObservedPresence "presence_event parsed"
  | ObservedKeyRequest key_request_event

datatype observed_room = NoRoom | JoinedRoom matrix_room | InvitedRoom invited_room

record sync_item =
  it_route :: string
  it_event :: observed
  it_room :: observed_room

record ('a, 's, 'g, 'o, 'c, 'e) client =
  cl_config :: client_config
  cl_store_path :: string
  cl_user_id :: string
  cl_device_id :: "string option"
  cl_access_token :: string
  cl_next_batch :: string
  cl_loaded_sync_token :: "string option"
  cl_rooms :: "(string, matrix_room) dict"
  cl_invited_rooms :: "(string, invited_room) dict"
  cl_encrypted_rooms :: "string set"
  cl_olm :: "('a, 's, 'g, 'o, 'c, 'e) olm option"
  cl_disposed :: bool
  cl_sync_started :: bool
  cl_device_transport :: "string option"
  cl_sync_in_flight :: bool
  cl_dispatched :: "sync_item list"

type_synonym ('a, 's, 'g, 'o, 'c, 'e, 'x) client_op = "(('a, 's, 'g, 'o, 'c, 'e) client, 'x) op"

definition Client :: "client_config \<Rightarrow> string \<Rightarrow> string option \<Rightarrow> ('a, 's, 'g, 'o, 'c, 'e) client" where
  "Client config store_path device_id =
     \<lparr> cl_config = config, cl_store_path = store_path, cl_user_id = [], cl_device_id = device_id,
       cl_access_token = [], cl_next_batch = [], cl_loaded_sync_token = Some [], cl_rooms = [],
       cl_invited_rooms = [], cl_encrypted_rooms = {}, cl_olm = None, cl_disposed = False,
       cl_sync_started = False, cl_device_transport = None, cl_sync_in_flight = False,
       cl_dispatched = [] \<rparr>"

definition on_olm :: "('a, 's, 'g, 'o, 'c, 'e, 'x) olm_op \<Rightarrow> ('a, 's, 'g, 'o, 'c, 'e, 'x) client_op" where
  "on_olm m c =
     (case cl_olm c of
        None \<Rightarrow> (Inl (AssertionError ''self.olm''), c)
      | Some o' \<Rightarrow> (case m o' of (r, t) \<Rightarrow> (r, c \<lparr> cl_olm := Some t \<rparr>)))"

definition on_room :: "string \<Rightarrow> (matrix_room, 'x) op \<Rightarrow> ('a, 's, 'g, 'o, 'c, 'e, 'x) client_op" where
  "on_room room_id m c =
     (case dget (cl_rooms c) room_id of
        None \<Rightarrow> (Inl (KeyError room_id), c)
      | Some r \<Rightarrow> (case m r of (x, r') \<Rightarrow> (x, c \<lparr> cl_rooms := dset (cl_rooms c) room_id r' \<rparr>)))"

definition on_invited :: "string \<Rightarrow> (invited_room, 'x) op \<Rightarrow> ('a, 's, 'g, 'o, 'c, 'e, 'x) client_op" where
  "on_invited room_id m c =
     (case dget (cl_invited_rooms c) room_id of
        None \<Rightarrow> (Inl (KeyError room_id), c)
      | Some r \<Rightarrow> (case m r of (x, r') \<Rightarrow> (x, c \<lparr> cl_invited_rooms := dset (cl_invited_rooms c) room_id r' \<rparr>)))"

definition has_olm :: "('a, 's, 'g, 'o, 'c, 'e) client \<Rightarrow> bool" where
  "has_olm c = (cl_olm c \<noteq> None)"

text \<open>Only a client with a machine does \<open>m\<close>: \<^verbatim>\<open>if self.olm: ...\<close>.\<close>

definition if_olm :: "('a, 's, 'g, 'o, 'c, 'e, unit) olm_op \<Rightarrow> ('a, 's, 'g, 'o, 'c, 'e, unit) client_op" where
  "if_olm m = bnd (reads has_olm) (\<lambda>b. if b then on_olm m else ret ())"

definition dispatch :: "string \<Rightarrow> observed \<Rightarrow> observed_room \<Rightarrow> ('a, 's, 'g, 'o, 'c, 'e, unit) client_op" where
  "dispatch route event room =
     modify (\<lambda>c. c \<lparr> cl_dispatched :=
       cl_dispatched c @ [\<lparr> it_route = route, it_event = event, it_room = room \<rparr>] \<rparr>)"

definition dispatch_in :: "string \<Rightarrow> string \<Rightarrow> observed \<Rightarrow> ('a, 's, 'g, 'o, 'c, 'e, unit) client_op" where
  "dispatch_in room_id route event =
     bnd (on_room room_id (reads id)) (\<lambda>room. dispatch route event (JoinedRoom room))"

section \<open>Guards\<close>

definition assert_not_disposed :: "('a, 's, 'g, 'o, 'c, 'e, unit) client_op" where
  "assert_not_disposed =
     check_or (LocalProtocolError ''durable sync session is poisoned'') (\<lambda>c. \<not> cl_disposed c)"

definition assert_logged_in :: "('a, 's, 'g, 'o, 'c, 'e, unit) client_op" where
  "assert_logged_in =
     andthen assert_not_disposed (check_or (LocalProtocolError ''Not logged in.'') (\<lambda>c. cl_access_token c \<noteq> []))"

definition store_loaded :: "('a, 's, 'g, 'o, 'c, 'e, 'x) client_op \<Rightarrow> ('a, 's, 'g, 'o, 'c, 'e, 'x) client_op" where
  "store_loaded m =
     andthen assert_not_disposed
     (andthen (check_or (LocalProtocolError ''Matrix store and olm account is not loaded.'') has_olm) m)"

definition begin_ordinary_sync :: "('a, 's, 'g, 'o, 'c, 'e, unit) client_op" where
  "begin_ordinary_sync = andthen assert_not_disposed (modify (\<lambda>c. c \<lparr> cl_sync_started := True \<rparr>))"

definition claim_sync_transport :: "string \<Rightarrow> ('a, 's, 'g, 'o, 'c, 'e, unit) client_op" where
  "claim_sync_transport transport =
     andthen begin_ordinary_sync
     (andthen (check_or (LocalProtocolError ''Classic and Sliding device cursor transports cannot be mixed'')
        (\<lambda>c. cl_device_transport c = None \<or> cl_device_transport c = Some transport))
     (modify (\<lambda>c. c \<lparr> cl_device_transport := Some transport \<rparr>)))"

definition claim_sync_poll :: "('a, 's, 'g, 'o, 'c, 'e, unit) client_op" where
  "claim_sync_poll =
     andthen begin_ordinary_sync
     (andthen (check_or (LocalProtocolError ''an ordinary sync transport request is already in flight'')
        (\<lambda>c. \<not> cl_sync_in_flight c))
     (modify (\<lambda>c. c \<lparr> cl_sync_in_flight := True \<rparr>)))"

section \<open>Login\<close>

definition load_store ::
  "('a, 's, 'g, 'o, 'c, 'e, 'm) environment \<Rightarrow> ('a, 's, 'g, 'o, 'c, 'e, unit) client_op" where
  "load_store env =
     bnd (reads id) (\<lambda>c.
     let device_id = str_or (cl_device_id c) []; config = cl_config c in
     if has_olm c then ret ()
     else if cl_user_id c = [] then raise (LocalProtocolError ''User id is not set'')
     else if device_id = [] then raise (LocalProtocolError ''Device id is not set'')
     else if \<not> cc_store config then raise (LocalProtocolError ''No store class was provided in the config.'')
     else if \<not> cc_encryption_enabled config then ret ()
     else if \<not> cc_memory_store config \<and> cl_store_path c = [] then ret ()
     else
       let machine = Olm_init (ev_lib env) (ev_fresh_account env) (ev_empty_cache env) (cl_user_id c) device_id
             (cc_replace_rotated_device_keys config) (ev_open env (cl_user_id c) device_id (cl_store_path c)) in
       modify (\<lambda>c. c
         \<lparr> cl_olm := Some machine,
           cl_encrypted_rooms := load_encrypted_rooms (om_store machine),
           cl_loaded_sync_token :=
             (if cc_store_sync_tokens config then load_sync_token (om_store machine) else cl_loaded_sync_token c) \<rparr>))"

definition restore_login ::
  "('a, 's, 'g, 'o, 'c, 'e, 'm) environment \<Rightarrow> string \<Rightarrow> string \<Rightarrow> string \<Rightarrow> ('a, 's, 'g, 'o, 'c, 'e, unit) client_op" where
  "restore_login env user_id device_id access_token =
     andthen (modify (\<lambda>c. c \<lparr> cl_user_id := user_id, cl_device_id := Some device_id, cl_access_token := access_token \<rparr>))
     (load_store env)"

definition handle_logout :: "('a, 's, 'g, 'o, 'c, 'e, unit) client_op" where
  "handle_logout = modify (\<lambda>c. c \<lparr> cl_access_token := [] \<rparr>)"

section \<open>Outbound group sessions and trust\<close>

definition drop_unless_unshared :: "string \<Rightarrow> ('a, 's, 'g, 'o, 'c, 'e) olm \<Rightarrow> ('a, 's, 'g, 'o, 'c, 'e) olm" where
  "drop_unless_unshared room_id s =
     (let rest = ddel (om_outbound_group_sessions s) room_id in
      case dget (om_outbound_group_sessions s) room_id of
        None \<Rightarrow> s \<lparr> om_outbound_group_sessions := rest \<rparr>
      | Some session \<Rightarrow>
          s \<lparr> om_outbound_group_sessions := (if \<not> og_shared session then dset rest room_id session else rest) \<rparr>)"

definition invalidate_outbound_session :: "string \<Rightarrow> ('a, 's, 'g, 'o, 'c, 'e, unit) client_op" where
  "invalidate_outbound_session room_id = store_loaded (on_olm (modify (drop_unless_unshared room_id)))"

definition invalidate_session_for_member_event :: "string \<Rightarrow> ('a, 's, 'g, 'o, 'c, 'e, unit) client_op" where
  "invalidate_session_for_member_event room_id =
     bnd (reads has_olm) (\<lambda>b. if b then invalidate_outbound_session room_id else ret ())"

definition invalidate_outbound_sessions :: "string \<Rightarrow> ('a, 's, 'g, 'o, 'c, 'e, unit) client_op" where
  "invalidate_outbound_sessions user_id =
     bnd (reads (\<lambda>c. dvalues (cl_rooms c))) (for_each (\<lambda>room.
       if din user_id (mr_users room) then invalidate_outbound_session (mr_room_id room) else ret ()))"

definition change_device_trust ::
  "string \<times> string \<Rightarrow> ('a, 's, 'g, 'o, 'c, 'e, bool) olm_op \<Rightarrow> ('a, 's, 'g, 'o, 'c, 'e, bool) client_op" where
  "change_device_trust device change =
     store_loaded
      (bnd (on_olm change) (\<lambda>changed.
       andthen (if changed then invalidate_outbound_sessions (fst device) else ret ()) (ret changed)))"

definition Client_verify_device :: "string \<times> string \<Rightarrow> ('a, 's, 'g, 'o, 'c, 'e, bool) client_op" where
  "Client_verify_device d = change_device_trust d (Olm_verify_device d)"

definition Client_unverify_device :: "string \<times> string \<Rightarrow> ('a, 's, 'g, 'o, 'c, 'e, bool) client_op" where
  "Client_unverify_device d = change_device_trust d (Olm_unverify_device d)"

definition Client_blacklist_device :: "string \<times> string \<Rightarrow> ('a, 's, 'g, 'o, 'c, 'e, bool) client_op" where
  "Client_blacklist_device d = change_device_trust d (Olm_blacklist_device d)"

definition Client_unblacklist_device :: "string \<times> string \<Rightarrow> ('a, 's, 'g, 'o, 'c, 'e, bool) client_op" where
  "Client_unblacklist_device d = change_device_trust d (Olm_unblacklist_device d)"

definition Client_ignore_device :: "string \<times> string \<Rightarrow> ('a, 's, 'g, 'o, 'c, 'e, bool) client_op" where
  "Client_ignore_device d = change_device_trust d (Olm_ignore_device d)"

definition Client_unignore_device :: "string \<times> string \<Rightarrow> ('a, 's, 'g, 'o, 'c, 'e, bool) client_op" where
  "Client_unignore_device d = change_device_trust d (Olm_unignore_device d)"

fun any_op :: "('x \<Rightarrow> ('s, bool) op) \<Rightarrow> 'x list \<Rightarrow> ('s, bool) op" where
  "any_op f [] = ret False"
| "any_op f (x # xs) = bnd (f x) (\<lambda>b. if b then ret True else any_op f xs)"

definition room_contains_unverified :: "string \<Rightarrow> ('a, 's, 'g, 'o, 'c, 'e, bool) client_op" where
  "room_contains_unverified room_id =
     bnd (reads (\<lambda>c. (dget (cl_rooms c) room_id, has_olm c))) (\<lambda>(room, has).
     case room of
       None \<Rightarrow> raise (LocalProtocolError ''No room found'')
     | Some r \<Rightarrow>
         if \<not> mr_encrypted r \<or> \<not> has then ret False
         else any_op (\<lambda>u. bnd (on_olm (user_fully_verified u)) (\<lambda>b. ret (\<not> b))) (dkeys (mr_users r)))"

section \<open>To-device events\<close>

definition handle_to_device_event ::
  "('a, 's, 'g, 'o, 'c, 'e, 'm) environment \<Rightarrow> nat \<Rightarrow> to_device_event parsed \<Rightarrow>
   ('a, 's, 'g, 'o, 'c, 'e, decrypted_olm) olm_op" where
  "handle_to_device_event env i p =
     (case p of
        Parsed e \<Rightarrow>
          (case olm_view e of
             Some (sender, sender_key, ciphertext) \<Rightarrow>
               decrypt_olm_event (ev_lib env) (ev_validate env) (ev_loads env) (ev_now env) sender sender_key ciphertext
           | None \<Rightarrow>
               (case verification_view e of
                  Some v \<Rightarrow>
                    andthen (handle_key_verification (ev_lib env) (ev_vz env) (fst (ev_draw env i))
                      (snd (ev_draw env i)) (ev_now env) v) (ret NoEvent)
                | None \<Rightarrow>
                    (case key_request_of e of
                       Some r \<Rightarrow> andthen (handle_key_requests r) (ret NoEvent)
                     | None \<Rightarrow> ret NoEvent)))
      | _ \<Rightarrow> ret NoEvent)"

definition is_key_request :: "to_device_event parsed \<Rightarrow> bool" where
  "is_key_request p = (case p of Parsed e \<Rightarrow> key_request_of e \<noteq> None | _ \<Rightarrow> False)"

text \<open>
  An ignored event is None in the response, and reading its source raises. \<open>i\<close> is the index of
  the event, which the random draws of the environment depend on.
\<close>

fun iter_to_device ::
  "('a, 's, 'g, 'o, 'c, 'e, 'm) environment \<Rightarrow> nat \<Rightarrow> to_device_event parsed list \<Rightarrow>
   ('a, 's, 'g, 'o, 'c, 'e, unit) client_op" where
  "iter_to_device env i [] = ret ()"
| "iter_to_device env i (p # ps) =
     (if p = Ignored then raise (AttributeError ''source'')
      else
        bnd (reads has_olm) (\<lambda>b.
        bnd (if b then on_olm (handle_to_device_event env i p) else ret NoEvent) (\<lambda>d.
        andthen
          (if d \<noteq> NoEvent then dispatch ''to_device'' (ObservedOlm d) NoRoom
           else if is_key_request p then ret ()
           else dispatch ''to_device'' (ObservedToDevice p) NoRoom)
        (iter_to_device env (Suc i) ps))))"

section \<open>Invited rooms\<close>

definition get_invited_room :: "string \<Rightarrow> ('a, 's, 'g, 'o, 'c, 'e, unit) client_op" where
  "get_invited_room room_id =
     modify (\<lambda>c. if din room_id (cl_invited_rooms c) then c
       else c \<lparr> cl_invited_rooms := dset (cl_invited_rooms c) room_id (MatrixInvitedRoom room_id (cl_user_id c)) \<rparr>)"

definition invited_event :: "string \<Rightarrow> invite_event parsed \<Rightarrow> ('a, 's, 'g, 'o, 'c, 'e, unit) client_op" where
  "invited_event room_id p =
     andthen (case p of Parsed e \<Rightarrow> on_invited room_id (invited_handle_event (invite_view e)) | _ \<Rightarrow> ret ())
     (bnd (on_invited room_id (reads id)) (\<lambda>room. dispatch ''invite'' (ObservedInvite p) (InvitedRoom room)))"

definition iter_invited_rooms ::
  "(string, invite_event parsed list) dict \<Rightarrow> ('a, 's, 'g, 'o, 'c, 'e, unit) client_op" where
  "iter_invited_rooms =
     for_each (\<lambda>(room_id, es). andthen (get_invited_room room_id) (for_each (invited_event room_id) es))"

section \<open>Joined rooms\<close>

text \<open>The rooms that became encrypted during a sync, a set in the source, in order of arrival.\<close>

definition note_encryption :: "string \<Rightarrow> event \<Rightarrow> string list \<Rightarrow> string list" where
  "note_encryption room_id e rooms =
     (if is_encryption e \<and> room_id \<notin> set rooms then rooms @ [room_id] else rooms)"

definition apply_membership :: "string \<Rightarrow> member_event \<Rightarrow> ('a, 's, 'g, 'o, 'c, 'e, unit) client_op" where
  "apply_membership room_id m =
     bnd (on_room room_id (handle_membership m)) (\<lambda>changed.
     if changed then invalidate_session_for_member_event room_id else ret ())"

definition handle_joined_state_event ::
  "string \<Rightarrow> event \<Rightarrow> string list \<Rightarrow> ('a, 's, 'g, 'o, 'c, 'e, string list) client_op" where
  "handle_joined_state_event room_id e rooms =
     andthen
       (case member_view e of
          Some m \<Rightarrow> apply_membership room_id m
        | None \<Rightarrow> on_room room_id (modify (handle_event (room_view e))))
     (ret (note_encryption room_id e rooms))"

definition enter_joined_room :: "string \<Rightarrow> ('a, 's, 'g, 'o, 'c, 'e, unit) client_op" where
  "enter_joined_room room_id =
     modify (\<lambda>c.
       let c1 = c \<lparr> cl_invited_rooms := ddel (cl_invited_rooms c) room_id \<rparr> in
       if din room_id (cl_rooms c1) then c1
       else c1 \<lparr> cl_rooms := dset (cl_rooms c1) room_id
              (MatrixRoom room_id (cl_user_id c1) (room_id \<in> cl_encrypted_rooms c1)) \<rparr>)"

definition iter_joined_state ::
  "string \<Rightarrow> room_info \<Rightarrow> string list \<Rightarrow> ('a, 's, 'g, 'o, 'c, 'e, string list) client_op" where
  "iter_joined_state room_id info rooms =
     andthen (enter_joined_room room_id)
     (bnd (fold_op (handle_joined_state_event room_id) (ri_state info) rooms) (\<lambda>rooms.
      andthen (case ri_summary info of None \<Rightarrow> ret () | Some s \<Rightarrow> on_room room_id (modify (update_summary s)))
      (andthen (case ri_unread_notifications info of None \<Rightarrow> ret ()
                | Some u \<Rightarrow> on_room room_id (modify (update_unread_notifications u)))
      (ret rooms))))"

definition decrypt_timeline_event ::
  "('a, 's, 'g, 'o, 'c, 'e, 'm) environment \<Rightarrow> string \<Rightarrow> event \<Rightarrow> ('a, 's, 'g, 'o, 'c, 'e, event option) client_op" where
  "decrypt_timeline_event env room_id e =
     bnd (reads has_olm) (\<lambda>b.
     case megolm_view e of
       None \<Rightarrow> ret None
     | Some m \<Rightarrow>
         if \<not> b then ret None
         else
           bnd (on_olm (decrypt_megolm_no_error (ev_lib env) (ev_validate env) (ev_loads env) (ev_cache env)
                  (ev_now env) (m \<lparr> mg_room_id := Some room_id \<rparr>) None)) (\<lambda>d.
           ret (map_option fst d)))"

definition handle_timeline_event ::
  "('a, 's, 'g, 'o, 'c, 'e, 'm) environment \<Rightarrow> string \<Rightarrow> event \<Rightarrow> string list \<Rightarrow>
   ('a, 's, 'g, 'o, 'c, 'e, event option \<times> string list) client_op" where
  "handle_timeline_event env room_id e rooms =
     bnd (decrypt_timeline_event env room_id e) (\<lambda>decrypted.
     case decrypted of
       Some d \<Rightarrow> ret (Some d, rooms)
     | None \<Rightarrow>
         andthen
           (case member_view e of
              Some m \<Rightarrow> apply_membership room_id m
            | None \<Rightarrow>
                if is_bad_event e then ret () else on_room room_id (modify (handle_event (room_view e))))
         (ret (None, note_encryption room_id e rooms)))"

text \<open>One event of a timeline; the client writes the room id into an encrypted event.\<close>

definition timeline_step ::
  "('a, 's, 'g, 'o, 'c, 'e, 'm) environment \<Rightarrow> string \<Rightarrow> event \<Rightarrow> string list \<Rightarrow> ('a, 's, 'g, 'o, 'c, 'e, string list) client_op" where
  "timeline_step env room_id e rooms =
     bnd (reads has_olm) (\<lambda>b.
     bnd (handle_timeline_event env room_id e rooms) (\<lambda>(decrypted, rooms).
     andthen
       (dispatch_in room_id ''event'' (ObservedEvent
          (case decrypted of Some d \<Rightarrow> d | None \<Rightarrow> if b then set_event_room room_id e else e)))
     (ret rooms)))"

definition track_members :: "string \<Rightarrow> ('a, 's, 'g, 'o, 'c, 'e, unit) client_op" where
  "track_members room_id =
     bnd (on_room room_id (reads id)) (\<lambda>room.
     if mr_encrypted room then if_olm (update_tracked_users (dkeys (mr_users room))) else ret ())"

definition room_account_data_event ::
  "string \<Rightarrow> account_data_json parsed \<Rightarrow> ('a, 's, 'g, 'o, 'c, 'e, unit) client_op" where
  "room_account_data_event room_id e =
     andthen (on_room room_id (modify (handle_account_data (account_view e))))
       (dispatch_in room_id ''room_account_data'' (ObservedAccountData e))"

definition iter_joined_room ::
  "('a, 's, 'g, 'o, 'c, 'e, 'm) environment \<Rightarrow> string \<times> room_info \<Rightarrow> string list \<Rightarrow>
   ('a, 's, 'g, 'o, 'c, 'e, string list) client_op" where
  "iter_joined_room env p rooms =
     (let room_id = fst p; info = snd p in
      bnd (iter_joined_state room_id info rooms) (\<lambda>rooms.
      bnd (fold_op (timeline_step env room_id) (tl_events (ri_timeline info)) rooms) (\<lambda>rooms.
      andthen (for_each (\<lambda>e.
        andthen (on_room room_id (modify (handle_ephemeral_event (ephemeral_view e))))
          (dispatch_in room_id ''ephemeral'' (ObservedEphemeral e))) (ri_ephemeral info))
      (andthen (for_each (room_account_data_event room_id) (ri_account_data info))
      (andthen (track_members room_id)
      (ret rooms))))))"

definition remember_encrypted :: "string list \<Rightarrow> ('a, 's, 'g, 'o, 'c, 'e, unit) client_op" where
  "remember_encrypted rooms =
     andthen (modify (\<lambda>c. c \<lparr> cl_encrypted_rooms := cl_encrypted_rooms c \<union> set rooms \<rparr>))
     (if rooms = [] then ret () else if_olm (on_store (modify (save_encrypted_rooms rooms))))"

definition iter_joined_rooms ::
  "('a, 's, 'g, 'o, 'c, 'e, 'm) environment \<Rightarrow> (string, room_info) dict \<Rightarrow> ('a, 's, 'g, 'o, 'c, 'e, unit) client_op" where
  "iter_joined_rooms env rooms = bnd (fold_op (iter_joined_room env) rooms []) remember_encrypted"

text \<open>Left rooms, which only the durable client asks for.\<close>

definition iter_left_room ::
  "('a, 's, 'g, 'o, 'c, 'e, 'm) environment \<Rightarrow> string \<times> room_info \<Rightarrow> string list \<Rightarrow>
   ('a, 's, 'g, 'o, 'c, 'e, string list) client_op" where
  "iter_left_room env p rooms =
     (let room_id = fst p; info = snd p in
      bnd (iter_joined_state room_id info rooms) (\<lambda>rooms.
      bnd (fold_op (timeline_step env room_id) (tl_events (ri_timeline info)) rooms) (\<lambda>rooms.
      andthen (for_each (room_account_data_event room_id) (ri_account_data info))
      (andthen (modify (\<lambda>c. c \<lparr> cl_rooms := ddel (cl_rooms c) room_id,
                                 cl_invited_rooms := ddel (cl_invited_rooms c) room_id \<rparr>))
      (ret rooms)))))"

definition iter_left_rooms ::
  "('a, 's, 'g, 'o, 'c, 'e, 'm) environment \<Rightarrow> (string, room_info) dict \<Rightarrow> ('a, 's, 'g, 'o, 'c, 'e, unit) client_op" where
  "iter_left_rooms env rooms = bnd (fold_op (iter_left_room env) rooms []) remember_encrypted"

section \<open>Presence, account data and the machine\<close>

definition set_presence ::
  "string \<Rightarrow> (matrix_user \<Rightarrow> matrix_user) \<Rightarrow> matrix_room \<Rightarrow> matrix_room" where
  "set_presence user_id f room =
     (case dget (mr_users room) user_id of None \<Rightarrow> room | Some ref \<Rightarrow> set_user ref f room)"

definition presence_update :: "presence_event \<Rightarrow> matrix_user \<Rightarrow> matrix_user" where
  "presence_update e u = u
     \<lparr> mu_presence := text_of (ps_presence e), mu_last_active_ago := opt_int (ps_last_active_ago e),
       mu_currently_active := (case ps_currently_active e of JBool b \<Rightarrow> Some b | _ \<Rightarrow> None),
       mu_status_msg := opt_text (ps_status_msg e) \<rparr>"

definition map_rooms :: "(matrix_room \<Rightarrow> matrix_room) \<Rightarrow> ('a, 's, 'g, 'o, 'c, 'e, unit) client_op" where
  "map_rooms f = modify (\<lambda>c. c \<lparr> cl_rooms := map_values f (cl_rooms c) \<rparr>)"

text \<open>A bad event has no \<^verbatim>\<open>user_id\<close>, which the loop over the rooms reads.\<close>

definition project_presence :: "presence_event parsed \<Rightarrow> ('a, 's, 'g, 'o, 'c, 'e, unit) client_op" where
  "project_presence p =
     (case p of
        Parsed e \<Rightarrow> map_rooms (set_presence (text_of (ps_user_id e)) (presence_update e))
      | _ \<Rightarrow> check_or (AttributeError ''user_id'') (\<lambda>c. cl_rooms c = []))"

definition iter_presence_events :: "presence_event parsed list \<Rightarrow> ('a, 's, 'g, 'o, 'c, 'e, unit) client_op" where
  "iter_presence_events =
     for_each (\<lambda>p. andthen (project_presence p) (dispatch ''presence'' (ObservedPresence p) NoRoom))"

definition iter_global_account_data ::
  "account_data_json parsed list \<Rightarrow> ('a, 's, 'g, 'o, 'c, 'e, unit) client_op" where
  "iter_global_account_data =
     for_each (\<lambda>p. dispatch ''global_account_data'' (ObservedAccountData p) NoRoom)"

definition iter_expired_verifications ::
  "('a, 's, 'g, 'o, 'c, 'e, 'm) environment \<Rightarrow> ('a, 's, 'g, 'o, 'c, 'e, unit) client_op" where
  "iter_expired_verifications env =
     bnd (on_olm (clear_verifications (ev_validate env) (ev_now env)))
       (for_each (\<lambda>p. dispatch ''expired_verification'' (ObservedToDevice p) NoRoom))"

definition update_olm_sync_state ::
  "int option \<Rightarrow> string list \<Rightarrow> string list \<Rightarrow> ('a, 's, 'g, 'o, 'c, 'e, unit) client_op" where
  "update_olm_sync_state uploaded_key_count changed_users left_users =
     andthen
       (on_olm (modify (\<lambda>s. case uploaded_key_count of None \<Rightarrow> s | Some n \<Rightarrow> s \<lparr> om_uploaded_key_count := Some n \<rparr>)))
     (bnd (reads (\<lambda>c. {u \<in> set (changed_users @ left_users).
        list_ex (\<lambda>room. mr_encrypted room \<and> din u (mr_users room)) (dvalues (cl_rooms c))})) (\<lambda>users.
      on_olm (add_changed_users users)))"

definition iter_key_requests ::
  "('a, 's, 'g, 'o, 'c, 'e, 'm) environment \<Rightarrow> ('a, 's, 'g, 'o, 'c, 'e, unit) client_op" where
  "iter_key_requests env =
     bnd (on_olm (collect_key_requests (ev_lib env) (ev_now env)))
       (for_each (\<lambda>e. dispatch ''to_device'' (ObservedKeyRequest e) NoRoom))"

section \<open>The classic sync\<close>

definition iter_sync ::
  "('a, 's, 'g, 'o, 'c, 'e, 'm) environment \<Rightarrow> bool \<Rightarrow> sync_response \<Rightarrow> ('a, 's, 'g, 'o, 'c, 'e, unit) client_op" where
  "iter_sync env include_left response =
     andthen (iter_to_device env 0 (sy_to_device response))
     (andthen (iter_invited_rooms (ro_invite (sy_rooms response)))
     (andthen (iter_joined_rooms env (ro_join (sy_rooms response)))
     (andthen (if include_left then iter_left_rooms env (ro_leave (sy_rooms response)) else ret ())
     (andthen (iter_presence_events (sy_presence response))
     (andthen (iter_global_account_data (sy_account_data response))
     (bnd (reads has_olm) (\<lambda>b.
      if b then
        andthen (iter_expired_verifications env)
        (andthen (update_olm_sync_state (sy_signed_curve25519 response) (sy_changed response) (sy_left response))
        (iter_key_requests env))
      else ret ())))))))"

definition handle_sync ::
  "('a, 's, 'g, 'o, 'c, 'e, 'm) environment \<Rightarrow> sync_response \<Rightarrow> ('a, 's, 'g, 'o, 'c, 'e, unit) client_op" where
  "handle_sync env response =
     andthen (claim_sync_transport ''classic'')
     (bnd (reads (\<lambda>c. cl_next_batch c = sy_next_batch response)) (\<lambda>known.
      if known then ret ()
      else
        andthen (modify (\<lambda>c. c \<lparr> cl_next_batch := sy_next_batch response \<rparr>))
        (andthen (bnd (reads (\<lambda>c. cc_store_sync_tokens (cl_config c))) (\<lambda>b.
                  if b then if_olm (on_store (save_sync_token (sy_next_batch response))) else ret ()))
        (iter_sync env False response))))"

end
