(* ===== verification/Nio_Client_Ops.thy ===== *)
theory Nio_Client_Ops
  imports Nio_Client
begin

text \<open>
  The other responses a client receives in \<^verbatim>\<open>src/nio/client/base_client.py\<close>, and what an
  application asks of it: encrypting for a room, the devices of a room, verification.
\<close>

section \<open>Responses of the encryption endpoints\<close>

datatype client_response =
    LoginResponse string string string
  | RegisterResponse string string string
  | LogoutResponse
  | SyncResponse sync_response
  | RoomMessagesResponse "event list"
  | RoomContextResponse "event option" "event list" "event list"
  | OlmResponse olm_response
  | ShareGroupSessionResponse string "(string \<times> string) set"
  | JoinedMembersResponse string "(string \<times> string option \<times> string option) list"
  | RoomForgetResponse string
  | RoomGetEventResponse event
  | PresenceGetResponse string string "int option" "bool option" "string option"
  | WhoamiResponse string "string option"
  | ErrorReceived error_response
  | OtherResponse

text \<open>Every active device of every member has the key or is ignored.\<close>

fun all_covered ::
  "(string \<times> string) set \<Rightarrow> string list \<Rightarrow> ('a, 's, 'g, 'o, 'c, 'e, bool) olm_op" where
  "all_covered covered [] = ret True"
| "all_covered covered (u # us) =
     bnd (on_devices (active_user_devices u)) (\<lambda>ds.
     if \<exists>d \<in> set ds. (u, od_device_id d) \<notin> covered then ret False else all_covered covered us)"

definition handle_share_response ::
  "string \<Rightarrow> (string \<times> string) set \<Rightarrow> ('a, 's, 'g, 'o, 'c, 'e, unit) client_op" where
  "handle_share_response room_id users_shared_with =
     bnd (reads (\<lambda>c. (dget (cl_rooms c) room_id,
            case cl_olm c of None \<Rightarrow> None | Some s \<Rightarrow> dget (om_outbound_group_sessions s) room_id))) (\<lambda>(room, session).
     case (session, room) of
       (Some x, Some r) \<Rightarrow>
         (let y = x \<lparr> og_users_shared_with := og_users_shared_with x \<union> users_shared_with \<rparr> in
          andthen (on_olm (set_outbound room_id y))
          (bnd (if mr_users r = [] then ret True
                else store_loaded (on_olm
                  (all_covered (og_users_shared_with y \<union> og_users_ignored y) (dkeys (mr_users r))))) (\<lambda>b.
           if b then on_olm (set_outbound room_id (y \<lparr> og_shared := True \<rparr>)) else ret ())))
     | _ \<Rightarrow> ret ())"

definition invalidate_for_changed_user :: "string \<Rightarrow> ('a, 's, 'g, 'o, 'c, 'e, unit) client_op" where
  "invalidate_for_changed_user user_id =
     bnd (reads (\<lambda>c. dvalues (cl_rooms c))) (for_each (\<lambda>room.
       if mr_encrypted room \<and> din user_id (mr_users room) then invalidate_outbound_session (mr_room_id room)
       else ret ()))"

definition handle_olm_response ::
  "('a, 's, 'g, 'o, 'c, 'e, 'm) environment \<Rightarrow> olm_response \<Rightarrow> ('a, 's, 'g, 'o, 'c, 'e, unit) client_op" where
  "handle_olm_response env response =
     bnd (reads has_olm) (\<lambda>b.
     if \<not> b then ret ()
     else
       (case response of
          KeysQueryResponse keys queried \<Rightarrow>
            bnd (on_olm (handle_key_query (ev_lib env) keys queried)) (\<lambda>changed.
            for_each invalidate_for_changed_user (dkeys changed))
        | _ \<Rightarrow> on_olm (handle_response (ev_lib env) (ev_now env) response)))"

section \<open>Members, forgotten rooms and presence\<close>

definition prune_member :: "string \<Rightarrow> string set \<Rightarrow> string \<Rightarrow> ('a, 's, 'g, 'o, 'c, 'e, unit) client_op" where
  "prune_member room_id joined user_id =
     bnd (on_room room_id (reads (\<lambda>r. map_option (\<lambda>ref. mu_invited (user_at r ref)) (dget (mr_users r) user_id)))) (\<lambda>ivt.
     case ivt of
       None \<Rightarrow> raise (KeyError user_id)
     | Some i \<Rightarrow>
         if \<not> i \<and> user_id \<notin> joined
         then bnd (on_room room_id (remove_member user_id)) (\<lambda>_. ret ())
         else ret ())"

definition handle_joined_members ::
  "string \<Rightarrow> (string \<times> string option \<times> string option) list \<Rightarrow> ('a, 's, 'g, 'o, 'c, 'e, unit) client_op" where
  "handle_joined_members room_id members =
     bnd (reads (\<lambda>c. dget (cl_rooms c) room_id)) (\<lambda>found.
     case found of
       None \<Rightarrow> ret ()
     | Some room \<Rightarrow>
         andthen (for_each (prune_member room_id (fst ` set members)) (dkeys (mr_users room)))
         (andthen (for_each (\<lambda>(user_id, display_name, avatar_url).
            bnd (on_room room_id (add_member user_id display_name avatar_url False)) (\<lambda>_. ret ())) members)
         (andthen (on_room room_id (modify (\<lambda>r. r \<lparr> mr_members_synced := True \<rparr>)))
         (track_members room_id))))"

definition handle_room_forget :: "string \<Rightarrow> ('a, 's, 'g, 'o, 'c, 'e, unit) client_op" where
  "handle_room_forget room_id =
     andthen (modify (\<lambda>c. c \<lparr> cl_encrypted_rooms := cl_encrypted_rooms c - {room_id} \<rparr>))
     (bnd (reads (\<lambda>c. dget (cl_rooms c) room_id)) (\<lambda>found.
      case found of
        Some room \<Rightarrow>
          andthen (modify (\<lambda>c. c \<lparr> cl_rooms := ddel (cl_rooms c) room_id \<rparr>))
          (if mr_encrypted room then if_olm (on_store (modify (delete_encrypted_room (mr_room_id room)))) else ret ())
      | None \<Rightarrow> modify (\<lambda>c. c \<lparr> cl_invited_rooms := ddel (cl_invited_rooms c) room_id \<rparr>)))"

definition handle_presence_response ::
  "string \<Rightarrow> string \<Rightarrow> int option \<Rightarrow> bool option \<Rightarrow> string option \<Rightarrow> ('a, 's, 'g, 'o, 'c, 'e, unit) client_op" where
  "handle_presence_response user_id presence last_active_ago currently_active status_msg =
     map_rooms (set_presence user_id (\<lambda>u. u
       \<lparr> mu_presence := presence, mu_last_active_ago := last_active_ago,
         mu_currently_active := Some (currently_active = Some True), mu_status_msg := status_msg \<rparr>))"

definition handle_whoami :: "string \<Rightarrow> string option \<Rightarrow> ('a, 's, 'g, 'o, 'c, 'e, unit) client_op" where
  "handle_whoami user_id device_id =
     modify (\<lambda>c. c \<lparr> cl_user_id := user_id,
       cl_device_id := (case device_id of Some (x # s) \<Rightarrow> Some (x # s) | _ \<Rightarrow> cl_device_id c) \<rparr>)"

section \<open>Responses with events\<close>

definition decrypt_received ::
  "('a, 's, 'g, 'o, 'c, 'e, 'm) environment \<Rightarrow> event \<Rightarrow> ('a, 's, 'g, 'o, 'c, 'e, event option) client_op" where
  "decrypt_received env e =
     bnd (reads has_olm) (\<lambda>b.
     case megolm_view e of
       Some m \<Rightarrow>
         if \<not> b then ret None
         else bnd (on_olm (decrypt_megolm_no_error (ev_lib env) (ev_validate env) (ev_loads env) (ev_cache env)
                     (ev_now env) m None)) (\<lambda>d. ret (map_option fst d))
     | None \<Rightarrow> ret None)"

fun decrypt_event_array ::
  "('a, 's, 'g, 'o, 'c, 'e, 'm) environment \<Rightarrow> event list \<Rightarrow> ('a, 's, 'g, 'o, 'c, 'e, event list) client_op" where
  "decrypt_event_array env [] = ret []"
| "decrypt_event_array env (e # es) =
     bnd (decrypt_received env e) (\<lambda>d.
     bnd (decrypt_event_array env es) (\<lambda>ds.
     ret ((case d of Some x \<Rightarrow> x | None \<Rightarrow> e) # ds)))"

text \<open>The event itself is replaced by what decryption returns, None included.\<close>

definition handle_context_response ::
  "('a, 's, 'g, 'o, 'c, 'e, 'm) environment \<Rightarrow> event option \<Rightarrow> event list \<Rightarrow> event list \<Rightarrow>
   ('a, 's, 'g, 'o, 'c, 'e, client_response) client_op" where
  "handle_context_response env e earlier later =
     bnd (reads has_olm) (\<lambda>b.
     bnd (case e of
            Some x \<Rightarrow> if b \<and> megolm_view x \<noteq> None then decrypt_received env x else ret (Some x)
          | None \<Rightarrow> ret None) (\<lambda>e'.
     bnd (decrypt_event_array env later) (\<lambda>later'.
     bnd (decrypt_event_array env earlier) (\<lambda>earlier'.
     ret (RoomContextResponse e' earlier' later')))))"

definition decrypt_event ::
  "('a, 's, 'g, 'o, 'c, 'e, 'm) environment \<Rightarrow> event \<Rightarrow> ('a, 's, 'g, 'o, 'c, 'e, event) client_op" where
  "decrypt_event env e =
     store_loaded (case megolm_view e of
       None \<Rightarrow> raise (ValueError ''Invalid event'')
     | Some m \<Rightarrow>
         bnd (on_olm (decrypt_megolm_event (ev_lib env) (ev_validate env) (ev_loads env) (ev_cache env)
                (ev_now env) m None)) (\<lambda>d. ret (fst d)))"

definition handle_get_event ::
  "('a, 's, 'g, 'o, 'c, 'e, 'm) environment \<Rightarrow> event \<Rightarrow> ('a, 's, 'g, 'o, 'c, 'e, client_response) client_op" where
  "handle_get_event env e =
     bnd (reads has_olm) (\<lambda>b.
     if b \<and> megolm_view e \<noteq> None then
       bnd (catching (decrypt_event env e) (\<lambda>x. case x of EncryptionError _ \<Rightarrow> Some (ret e) | _ \<Rightarrow> None)) (\<lambda>d.
       ret (RoomGetEventResponse d))
     else ret (RoomGetEventResponse e))"

text \<open>\<^verbatim>\<open>receive_response\<close>: the response as it is afterwards; of a sync, as it was.\<close>

definition receive_response ::
  "('a, 's, 'g, 'o, 'c, 'e, 'm) environment \<Rightarrow> client_response \<Rightarrow> ('a, 's, 'g, 'o, 'c, 'e, client_response) client_op" where
  "receive_response env response =
     (case response of
        LoginResponse u d t \<Rightarrow> andthen (restore_login env u d t) (ret response)
      | LogoutResponse \<Rightarrow> andthen handle_logout (ret response)
      | RegisterResponse u d t \<Rightarrow> andthen (restore_login env u d t) (ret response)
      | SyncResponse r \<Rightarrow> andthen (handle_sync env r) (ret response)
      | RoomMessagesResponse es \<Rightarrow> bnd (decrypt_event_array env es) (\<lambda>ds. ret (RoomMessagesResponse ds))
      | RoomContextResponse e earlier later \<Rightarrow> handle_context_response env e earlier later
      | OlmResponse r \<Rightarrow> andthen (handle_olm_response env r) (ret response)
      | ShareGroupSessionResponse room_id us \<Rightarrow> andthen (handle_share_response room_id us) (ret response)
      | JoinedMembersResponse room_id members \<Rightarrow> andthen (handle_joined_members room_id members) (ret response)
      | RoomForgetResponse room_id \<Rightarrow> andthen (handle_room_forget room_id) (ret response)
      | RoomGetEventResponse e \<Rightarrow> handle_get_event env e
      | PresenceGetResponse u p ago active msg \<Rightarrow>
          andthen (handle_presence_response u p ago active msg) (ret response)
      | WhoamiResponse u d \<Rightarrow> andthen (handle_whoami u d) (ret response)
      | ErrorReceived e \<Rightarrow>
          andthen (if field_truthy (er_soft_logout e) then handle_logout else ret ()) (ret response)
      | OtherResponse \<Rightarrow> ret response)"

section \<open>Encryption for rooms\<close>

definition Client_group_encrypt ::
  "('a, 's, 'g, 'o, 'c, 'e, 'm) environment \<Rightarrow> string \<Rightarrow> string \<Rightarrow> jobj \<Rightarrow> bool \<Rightarrow>
   ('a, 's, 'g, 'o, 'c, 'e, jobj) client_op" where
  "Client_group_encrypt env room_id event_type content counted =
     store_loaded (bnd (reads (\<lambda>c. dget (cl_rooms c) room_id)) (\<lambda>found.
     case found of
       None \<Rightarrow> raise (LocalProtocolError ''No such room found.'')
     | Some room \<Rightarrow>
         if \<not> mr_encrypted room then raise (LocalProtocolError ''Room is not encrypted'')
         else if \<not> mr_members_synced room then
           raise (MembersSyncError ''The room is encrypted and the members are not fully synced.'')
         else on_olm (group_encrypt (ev_lib env) (ev_now env) (ev_fresh_group env) room_id
                [(''content'', JObj content), (''type'', JStr event_type)] counted)))"

definition Client_encrypt ::
  "('a, 's, 'g, 'o, 'c, 'e, 'm) environment \<Rightarrow> string \<Rightarrow> string \<Rightarrow> jobj \<Rightarrow>
   ('a, 's, 'g, 'o, 'c, 'e, string \<times> jobj) client_op" where
  "Client_encrypt env room_id message_type content =
     store_loaded (bnd (Client_group_encrypt env room_id message_type content True) (\<lambda>encrypted.
     ret (''m.room.encrypted'',
       case dget content ''m.relates_to'' of None \<Rightarrow> encrypted | Some r \<Rightarrow> dset encrypted ''m.relates_to'' r)))"

definition Client_get_missing_sessions ::
  "string \<Rightarrow> ('a, 's, 'g, 'o, 'c, 'e, (string, string list) dict) client_op" where
  "Client_get_missing_sessions room_id =
     store_loaded (bnd (reads (\<lambda>c. dget (cl_rooms c) room_id)) (\<lambda>found.
     case found of
       None \<Rightarrow> raise (LocalProtocolError ''No room found'')
     | Some room \<Rightarrow>
         if \<not> mr_encrypted room then raise (LocalProtocolError ''Room is not encrypted'')
         else on_olm (get_missing_sessions (dkeys (mr_users room)))))"

definition Client_get_users_for_key_claiming ::
  "('a, 's, 'g, 'o, 'c, 'e, (string, string list) dict) client_op" where
  "Client_get_users_for_key_claiming =
     store_loaded (on_olm (\<lambda>s. (get_users_for_key_claiming s, s)))"

definition room_devices ::
  "string \<Rightarrow> ('a, 's, 'g, 'o, 'c, 'e, (string, (string, olm_device) dict) dict) client_op" where
  "room_devices room_id =
     bnd (reads (\<lambda>c. (has_olm c, dget (cl_rooms c) room_id))) (\<lambda>(b, found).
     if \<not> b then ret []
     else case found of
       None \<Rightarrow> raise (LocalProtocolError ''No room found'')
     | Some room \<Rightarrow>
         if \<not> mr_encrypted room then ret []
         else fold_op (\<lambda>u devices.
           bnd (store_loaded (on_olm (on_devices (active_user_devices u)))) (\<lambda>ds.
           ret (dset devices u (foldl (\<lambda>m d. dset m (od_device_id d) d) [] ds)))) (dkeys (mr_users room)) [])"

section \<open>Verification and key requests\<close>

definition create_key_verification ::
  "('a, 's, 'g, 'o, 'c, 'e, 'm) environment \<Rightarrow> olm_device \<Rightarrow> ('a, 's, 'g, 'o, 'c, 'e, Nio_Olm.to_device_message) client_op" where
  "create_key_verification env device =
     store_loaded (on_olm (create_sas (ev_lib env) (fst (ev_draw env 0)) (snd (ev_draw env 0)) (ev_now env) device))"

definition confirm_key_verification ::
  "('a, 's, 'g, 'o, 'c, 'e, 'm) environment \<Rightarrow> string \<Rightarrow> ('a, 's, 'g, 'o, 'c, 'e, Nio_Olm.to_device_message) client_op" where
  "confirm_key_verification env transaction_id =
     store_loaded (bnd (reads (\<lambda>c. case cl_olm c of None \<Rightarrow> None | Some s \<Rightarrow> dget (om_key_verifications s) transaction_id)) (\<lambda>found.
     if found = None then raise (LocalProtocolError ''Key verification does not exist.'')
     else
       andthen (on_olm (on_sas transaction_id accept_sas))
       (bnd (on_olm (on_sas transaction_id (get_mac (ev_vz env)))) (\<lambda>message.
        bnd (on_olm (on_sas transaction_id (reads id))) (\<lambda>sas.
        andthen (if verified sas
                 then bnd (Client_verify_device (device_ref (ss_other_olm_device sas))) (\<lambda>_. ret ())
                 else ret ())
        (ret (plain_message message)))))))"

definition Client_continue_key_share ::
  "('a, 's, 'g, 'o, 'c, 'e, 'm) environment \<Rightarrow> key_request_event \<Rightarrow> ('a, 's, 'g, 'o, 'c, 'e, bool) client_op" where
  "Client_continue_key_share env e = store_loaded (on_olm (continue_key_share (ev_lib env) (ev_now env) e))"

definition Client_cancel_key_share :: "key_request_event \<Rightarrow> ('a, 's, 'g, 'o, 'c, 'e, bool) client_op" where
  "Client_cancel_key_share e = store_loaded (on_olm (cancel_key_share e))"

end
