(* ===== verification/Nio_Client_Outbound.thy ===== *)
theory Nio_Client_Outbound
  imports Nio_Client_Ops Nio_Olm_Facts Nio_Room_Names
begin

text \<open>
  Which operations of the encryption machine can touch the outbound group sessions: receiving
  and decrypting, verification, key requests and the key endpoints never do. The relation
  \<open>keeps_outbound\<close> is an interpretation of the locale of state changes.
\<close>

section \<open>The relation\<close>

definition keeps_outbound :: "('a, 's, 'g, 'o, 'c, 'e) olm \<Rightarrow> ('a, 's, 'g, 'o, 'c, 'e) olm \<Rightarrow> bool" where
  "keeps_outbound s t \<longleftrightarrow> om_outbound_group_sessions t = om_outbound_group_sessions s"

interpretation ob: evolution keeps_outbound
  by unfold_locales (auto simp: keeps_outbound_def)

lemma ob_on [simp]:
  "moves keeps_outbound (on_devices m1)" "moves keeps_outbound (on_sessions m2)" "moves keeps_outbound (on_groups m3)"
  "moves keeps_outbound (on_store m4)" "moves keeps_outbound (on_device k m5)" "moves keeps_outbound (on_sas key m6)"
  by (auto simp: moves_def keeps_outbound_def on_devices_def on_sessions_def on_groups_def on_store_def on_device_def
      on_sas_def split: prod.splits option.splits)

lemma ob_modify: "(\<And>s. om_outbound_group_sessions (f s) = om_outbound_group_sessions s) \<Longrightarrow> moves keeps_outbound (modify f)"
  by (simp add: moves_def keeps_outbound_def op_basic)

lemma ob_catching:
  "moves keeps_outbound m \<Longrightarrow> (\<And>e n. h e = Some n \<Longrightarrow> moves keeps_outbound n) \<Longrightarrow> moves keeps_outbound (catching m h)"
  by (rule ob.moves_catching)

text \<open>The handlers of the sources catch one class and go on with a value.\<close>

lemma ob_catch_key:
  "moves keeps_outbound m \<Longrightarrow> moves keeps_outbound n \<Longrightarrow>
   moves keeps_outbound (catching m (\<lambda>e. case e of KeyError _ \<Rightarrow> Some n | _ \<Rightarrow> None))"
  by (rule ob.moves_catching) (auto split: exn.splits)

lemma ob_catch_encryption:
  "moves keeps_outbound m \<Longrightarrow> moves keeps_outbound n \<Longrightarrow>
   moves keeps_outbound (catching m (\<lambda>e. case e of EncryptionError _ \<Rightarrow> Some n | _ \<Rightarrow> None))"
  by (rule ob.moves_catching) (auto split: exn.splits)

lemmas ob_rules = ob.moves_rules ob_catch_key ob_catch_encryption

lemma ob_simple [simp]:
  "moves keeps_outbound (queue_message m)" "moves keeps_outbound (add_user_for_query u)"
  "moves keeps_outbound save_account_now" "moves keeps_outbound (change_session k x y)"
  "moves keeps_outbound (update_tracked_users us)" "moves keeps_outbound (add_changed_users vs)"
  "moves keeps_outbound (wait_for_session d e)" "moves keeps_outbound (release_requests d)"
  "moves keeps_outbound (handle_cancel c)"
  unfolding queue_message_def add_user_for_query_def save_account_now_def change_session_def update_tracked_users_def
    add_changed_users_def wait_for_session_def release_requests_def handle_cancel_def
  by (rule ob_modify; simp)+

lemma ob_device_item [simp]: "moves keeps_outbound (device_item u i)"
  unfolding device_item_def by (intro ob_rules ob_on)

lemma ob_encrypt [simp]:
  "moves keeps_outbound (olm_encrypt lib now x d ty c)"
  unfolding olm_encrypt_def Let_def by (intro ob_rules ob_on ob_simple)

lemma ob_dummy [simp]: "moves keeps_outbound (queue_dummy_message lib now x d)"
  unfolding queue_dummy_message_def by (intro ob_rules ob_encrypt ob_simple)

lemma ob_forwarding [simp]: "moves keeps_outbound (encrypt_forwarding_key lib now r g x d)"
  unfolding encrypt_forwarding_key_def by (intro ob_rules ob_encrypt)

section \<open>Key requests\<close>

lemma ob_handle_key_requests [simp]: "moves keeps_outbound (handle_key_requests e)"
  unfolding handle_key_requests_def cancel_waiting_def
  by (intro ob_rules ob_modify ob_device_item) (auto split: option.splits)

lemma ob_share_with_ourselves [simp]: "moves keeps_outbound (share_with_ourselves lib now e rk)"
  unfolding share_with_ourselves_def
  by (intro ob_rules ob_on ob_device_item ob_simple ob_forwarding)

lemma ob_collect_single [simp]: "moves keeps_outbound (collect_single_key_share lib now e)"
proof -
  have "moves keeps_outbound (catching (andthen (share_with_ourselves lib now e rk) (ret True))
     (\<lambda>e. case e of KeyShareError _ \<Rightarrow> Some (ret True) | EncryptionError _ \<Rightarrow> Some (ret True)
       | OlmTrustError _ \<Rightarrow> Some (ret False) | OlmUnverifiedDeviceError _ _ \<Rightarrow> Some (ret False) | _ \<Rightarrow> None))" for rk
    by (rule ob_catching) (auto intro: ob_rules split: exn.splits)
  then show ?thesis unfolding collect_single_key_share_def by (intro ob_rules)
qed

lemma ob_collect_from [simp]: "moves keeps_outbound (collect_from lib now es)"
  by (induction es) (auto intro!: ob_rules ob_modify)

lemma ob_collect [simp]: "moves keeps_outbound (collect_key_requests lib now)"
  unfolding collect_key_requests_def by (intro ob_rules ob_collect_from ob_modify) simp

section \<open>Decryption\<close>

lemma ob_store_group [simp]: "moves keeps_outbound (store_group_session lib x)"
  unfolding store_group_session_def by (intro ob_rules ob_on ob_modify) simp

lemma ob_create_group [simp]: "moves keeps_outbound (create_group_session lib k fp r i sk)"
proof -
  have "moves keeps_outbound (case e of VodozemacError c \<Rightarrow> f c | _ \<Rightarrow> raise e)"
    if "\<And>c. moves keeps_outbound (f c :: ('a, 'b, 'c, 'd, 'e, 'f, unit) olm_op)" for f e
    using that by (cases e) (simp_all add: ob.moves_basic)
  then show ?thesis
    unfolding create_group_session_def
    by (cases "vo_group_new lib sk") (auto intro!: ob_rules split: exn.splits)
qed

lemma ob_mark_unwedging [simp]: "moves keeps_outbound (mark_device_for_unwedging now u k)"
  unfolding mark_device_for_unwedging_def Let_def by (intro ob_rules ob_on ob_modify) simp

lemma ob_body:
  "(\<And>a b c d. moves keeps_outbound (f a b c d)) \<Longrightarrow> moves keeps_outbound n \<Longrightarrow>
   moves keeps_outbound (case x of RoomKeyEvent a b c d \<Rightarrow> f a b c d | _ \<Rightarrow> n)"
  "(\<And>a b c d. moves keeps_outbound (g a b c d)) \<Longrightarrow> moves keeps_outbound n \<Longrightarrow>
   moves keeps_outbound (case x of ForwardedRoomKeyEvent a b c d \<Rightarrow> g a b c d | _ \<Rightarrow> n)"
  by (cases x; simp)+

lemma ob_parsed:
  "moves keeps_outbound m \<Longrightarrow> (\<And>e. moves keeps_outbound (f e)) \<Longrightarrow> (\<And>e. moves keeps_outbound (g e)) \<Longrightarrow>
   moves keeps_outbound (case p of Ignored \<Rightarrow> m | Bad e \<Rightarrow> f e | Parsed e \<Rightarrow> g e)"
  by (cases p) simp_all

lemma ob_room_key [simp]: "moves keeps_outbound (handle_room_key_event lib v u k d)"
  unfolding handle_room_key_event_def
  by (intro ob_rules ob_parsed ob_body ob_create_group)

lemma ob_accept [simp]: "moves keeps_outbound (should_accept_forward k a r i u)"
  unfolding should_accept_forward_def by (intro ob_rules ob_on)

lemma ob_forwarded [simp]: "moves keeps_outbound (handle_forwarded_room_key_event lib v u k d)"
  unfolding handle_forwarded_room_key_event_def
  by (intro ob_rules ob_parsed ob_body ob_accept ob_store_group ob_on ob_simple ob_modify) simp

lemma ob_pass [simp]: "moves keeps_outbound (pass_through u k d)"
proof -
  have list: "moves keeps_outbound (case xs of [] \<Rightarrow> m | [x] \<Rightarrow> f x | x # y # z \<Rightarrow> m)"
    if "moves keeps_outbound m" "\<And>x. moves keeps_outbound (f x)"
    for xs :: "olm_device list" and m and f :: "olm_device \<Rightarrow> ('a, 'b, 'c, 'd, 'e, 'f, decrypted_olm) olm_op"
    using that by (auto split: list.split)
  show ?thesis
    unfolding pass_through_def Let_def by (intro ob_rules ob_parsed list ob_on ob_simple)
qed

lemma ob_olm_event [simp]: "moves keeps_outbound (handle_olm_event lib v u k d)"
  unfolding handle_olm_event_def by (intro ob_rules ob_room_key ob_forwarded ob_pass)

lemma ob_plaintext [simp]: "moves keeps_outbound (handle_plaintext lib v loads u k p)"
proof -
  have res: "moves keeps_outbound (case r of Inl (VerificationError _) \<Rightarrow> ret NoEvent | Inl e \<Rightarrow> raise e | Inr x \<Rightarrow> m)"
    if "moves keeps_outbound m" for r :: "exn + unit" and m :: "('a, 'b, 'c, 'd, 'e, 'f, decrypted_olm) olm_op"
    using that by (auto intro: ob_rules split: sum.splits exn.splits)
  show ?thesis unfolding handle_plaintext_def by (intro ob_rules res ob_olm_event)
qed

lemma ob_try_sessions [simp]: "moves keeps_outbound (try_sessions lib now k msg xs)"
  by (induction xs) (auto simp: Let_def intro!: ob_rules split: prod.split sum.split)

lemma ob_new_inbound [simp]: "moves keeps_outbound (new_inbound_session lib now k msg)"
  unfolding new_inbound_session_def Let_def
  by (intro ob_rules ob_modify ob_on ob_simple) simp_all

lemma ob_decrypt_olm [simp]: "moves keeps_outbound (decrypt_olm lib v loads now u k msg)"
proof -
  have two: "moves keeps_outbound (case x of None \<Rightarrow> m | Some None \<Rightarrow> n | Some (Some p) \<Rightarrow> f p)"
    if "moves keeps_outbound m" "moves keeps_outbound n" "\<And>p. moves keeps_outbound (f p)"
    for x :: "string option option" and m n and f :: "string \<Rightarrow> ('a, 'b, 'c, 'd, 'e, 'f, decrypted_olm) olm_op"
    using that by (auto split: option.split)
  show ?thesis
    unfolding decrypt_olm_def try_decrypt_def Let_def
    by (intro ob_rules two ob_on ob_try_sessions ob_mark_unwedging ob_plaintext ob_new_inbound)
qed

lemma ob_decrypt_event [simp]: "moves keeps_outbound (decrypt_olm_event lib v loads now u k c)"
proof -
  have res: "moves keeps_outbound (case r of Inl (KeyError _) \<Rightarrow> ret NoEvent | Inl e \<Rightarrow> raise e | Inr x \<Rightarrow> f x)"
    if "\<And>x. moves keeps_outbound (f x)" for r :: "exn + json" and f :: "json \<Rightarrow> ('a, 'b, 'c, 'd, 'e, 'f, decrypted_olm) olm_op"
    using that by (auto intro: ob_rules split: sum.splits exn.splits)
  show ?thesis unfolding decrypt_olm_event_def by (intro ob_rules res ob_decrypt_olm)
qed

lemma ob_index_ok [simp]: "moves keeps_outbound (message_index_ok cache i e)"
  by (auto simp: moves_def keeps_outbound_def message_index_ok_def Let_def split: prod.splits option.splits)

lemma ob_wedged [simp]: "moves keeps_outbound (check_if_wedged now e)"
  unfolding check_if_wedged_def
  by (intro ob_rules ob_device_item ob_on ob_simple ob_modify) simp

lemma ob_event_verified [simp]: "moves keeps_outbound (event_verified lib e x)"
  unfolding event_verified_def Let_def by (intro ob_rules ob_device_item ob_simple)

lemma ob_group_decrypt [simp]: "moves keeps_outbound (group_decrypt lib r e x)"
  unfolding group_decrypt_def by (intro ob_rules ob_modify) simp

lemma ob_decrypt_megolm [simp]: "moves keeps_outbound (decrypt_megolm_event lib v loads cache now e r)"
  unfolding decrypt_megolm_event_def Let_def
  by (intro ob_rules ob_on ob_wedged ob_group_decrypt ob_index_ok ob_event_verified)

lemma ob_decrypt_no_error [simp]: "moves keeps_outbound (decrypt_megolm_no_error lib v loads cache now e r)"
  unfolding decrypt_megolm_no_error_def by (intro ob_rules ob_decrypt_megolm)

section \<open>Verification\<close>

lemma ob_cancellation [simp]: "moves keeps_outbound (queue_cancellation key)"
  unfolding queue_cancellation_def by (intro ob_rules ob_on ob_simple)

lemma ob_supersede [simp]: "moves keeps_outbound (supersede_active u i)"
  unfolding supersede_active_def by (intro ob_rules ob_on ob_cancellation)

lemma ob_start [simp]: "moves keeps_outbound (handle_start lib vz pk fresh now dev e)"
  unfolding handle_start_def
  by (intro ob_rules ob_device_item ob_simple ob_supersede ob_modify) simp

lemma ob_steps [simp]:
  "moves keeps_outbound (handle_accept a)" "moves keeps_outbound (handle_key vz k)" "moves keeps_outbound (handle_mac vz c)"
  unfolding handle_accept_def handle_key_def handle_mac_def Olm_verify_device_def Let_def
  by (intro ob_rules ob_on ob_cancellation ob_simple)+

lemma ob_verification [simp]: "moves keeps_outbound (handle_key_verification lib vz pk fresh now e)"
  unfolding handle_key_verification_def by (cases e) (auto intro!: ob_rules)

lemma ob_clear_from [simp]: "moves keeps_outbound (clear_from v now keys)"
  by (induction keys) (auto intro!: ob_rules)

lemma ob_clear [simp]: "moves keeps_outbound (clear_verifications v now)"
  unfolding clear_verifications_def by (intro ob_rules ob_clear_from ob_modify) simp

section \<open>The key endpoints\<close>

lemma ob_upload [simp]: "moves keeps_outbound (handle_keys_upload lib n)"
  unfolding handle_keys_upload_def by (intro ob_rules ob_simple ob_modify) simp

lemma ob_create_session [simp]: "moves keeps_outbound (create_session lib now otk k)"
  unfolding create_session_def Let_def
  by (intro ob_rules ob_on ob_simple ob_modify) simp_all

lemma ob_claim [simp]: "moves keeps_outbound (claim_for_device lib now u i d k)"
  unfolding claim_for_device_def
  by (intro ob_rules ob_create_session ob_dummy ob_simple ob_modify) simp

lemma ob_claiming [simp]: "moves keeps_outbound (handle_key_claiming lib now ks)"
  unfolding handle_key_claiming_def
  by (intro ob_rules ob_device_item ob_claim)

lemma ob_apply_identity [simp]: "moves keeps_outbound (apply_identity u i fp ck n)"
  unfolding apply_identity_def by (intro ob_rules ob_on)

lemma ob_query_device [simp]: "moves keeps_outbound (query_device lib u p c)"
proof -
  have res: "moves keeps_outbound (case r of Inl (KeyError _) \<Rightarrow> ret c | Inl e \<Rightarrow> raise e | Inr (x, y, z) \<Rightarrow> f x y z)"
    if "\<And>x y z. moves keeps_outbound (f x y z)" for r :: "exn + json \<times> json \<times> string"
      and f :: "json \<Rightarrow> json \<Rightarrow> string \<Rightarrow> ('a, 'b, 'c, 'd, 'e, 'f, changed_devices) olm_op"
    using that by (auto intro: ob_rules split: sum.splits exn.splits)
  show ?thesis
    unfolding query_device_def Let_def by (intro ob_rules res ob_apply_identity ob_device_item)
qed

lemma ob_mark_deleted [simp]: "moves keeps_outbound (mark_deleted u i c)"
  unfolding mark_deleted_def by (intro ob_rules ob_on ob_device_item)

lemma ob_query [simp]: "moves keeps_outbound (handle_key_query lib ks us)"
  unfolding handle_key_query_def query_user_def Let_def
  by (intro ob_rules ob_on ob_query_device ob_mark_deleted ob_modify) simp

lemma ob_re_requests [simp]: "moves keeps_outbound (queue_re_requests es xs)"
  by (induction es arbitrary: xs) (auto intro!: ob_rules)

lemma ob_add_request [simp]: "moves keeps_outbound (add_key_request r)"
  unfolding add_key_request_def by (intro ob_rules ob_on ob_modify) simp

lemma ob_mark_sent [simp]: "moves keeps_outbound (mark_to_device_message_as_sent m)"
  unfolding mark_to_device_message_as_sent_def Let_def
  by (cases "tm_kind m") (auto intro!: ob_rules ob_modify)

lemma ob_response [simp]: "moves keeps_outbound (handle_response lib now r)"
  unfolding handle_response_def by (cases r) (auto intro: ob_rules)

lemma ob_to_device [simp]: "moves keeps_outbound (handle_to_device_event env i p)"
  unfolding handle_to_device_event_def
  by (cases p) (auto intro!: ob_rules split: option.splits)

end
