(* ===== verification/Nio_Client_Facts.thy ===== *)
theory Nio_Client_Facts
  imports Nio_Client_Outbound
begin

text \<open>
  The sync and the members of a room: the relation \<open>guards_members\<close> says that the rooms stay
  consistent and that a session counts as shared only where it did before and the members are
  the same; every step of the sync has it.
\<close>

section \<open>Members and shared sessions\<close>

definition room_members :: "('a, 's, 'g, 'o, 'c, 'e) client \<Rightarrow> string \<Rightarrow> string set" where
  "room_members c room_id =
     (case dget (cl_rooms c) room_id of None \<Rightarrow> {} | Some r \<Rightarrow> set (dkeys (mr_users r)))"

definition outbound_at :: "('a, 's, 'g, 'o, 'c, 'e) client \<Rightarrow> string \<Rightarrow> 'o outbound_group_session option" where
  "outbound_at c room_id =
     (case cl_olm c of None \<Rightarrow> None | Some s \<Rightarrow> dget (om_outbound_group_sessions s) room_id)"

definition session_shared :: "('a, 's, 'g, 'o, 'c, 'e) client \<Rightarrow> string \<Rightarrow> bool" where
  "session_shared c room_id = (case outbound_at c room_id of None \<Rightarrow> False | Some x \<Rightarrow> og_shared x)"

definition rooms_ok :: "('a, 's, 'g, 'o, 'c, 'e) client \<Rightarrow> bool" where
  "rooms_ok c \<longleftrightarrow>
     (\<forall>room_id r. dget (cl_rooms c) room_id = Some r \<longrightarrow> room_ok r \<and> mr_room_id r = room_id)"

text \<open>From a consistent client: the rooms stay consistent, and where a session is shared
  afterwards it was shared before and the members are the same.\<close>

definition guards_members :: "('a, 's, 'g, 'o, 'c, 'e) client \<Rightarrow> ('a, 's, 'g, 'o, 'c, 'e) client \<Rightarrow> bool" where
  "guards_members c t \<longleftrightarrow> (rooms_ok c \<and> \<not> cl_disposed c \<longrightarrow>
     rooms_ok t \<and> \<not> cl_disposed t \<and>
     (\<forall>i. session_shared t i \<longrightarrow> session_shared c i \<and> room_members t i = room_members c i))"

interpretation gm: evolution guards_members
  by unfold_locales (auto simp: guards_members_def)

lemma guards_rooms:
  assumes "\<And>i r. dget (cl_rooms t) i = Some r \<Longrightarrow> room_ok r \<and> mr_room_id r = i"
    and "cl_disposed t = cl_disposed c"
    and "\<And>i. session_shared t i \<Longrightarrow> session_shared c i \<and> room_members t i = room_members c i"
  shows "guards_members c t"
  using assms by (auto simp: guards_members_def rooms_ok_def)

lemma guards_elsewhere:
  assumes "cl_rooms t = cl_rooms c" "cl_disposed t = cl_disposed c"
    and "\<And>i. session_shared t i \<Longrightarrow> session_shared c i"
  shows "guards_members c t"
  using assms by (auto simp: guards_members_def rooms_ok_def room_members_def)

lemma guards_modify:
  assumes "\<And>c. cl_rooms (f c) = cl_rooms c" "\<And>c. cl_disposed (f c) = cl_disposed c" "\<And>c. cl_olm (f c) = cl_olm c"
  shows "moves guards_members (modify f)"
  unfolding moves_def op_basic snd_conv
  by (intro allI guards_elsewhere) (simp_all add: assms session_shared_def outbound_at_def)

lemma guards_on_olm [simp]:
  assumes "moves keeps_outbound m"
  shows "moves guards_members (on_olm m)"
  unfolding moves_def
proof
  fix c
  show "guards_members c (snd (on_olm m c))"
  proof (cases "cl_olm c")
    case (Some s)
    have "om_outbound_group_sessions (snd (m s)) = om_outbound_group_sessions s"
      using assms by (simp add: moves_def keeps_outbound_def)
    with Some show ?thesis
      by (intro guards_elsewhere) (auto simp: on_olm_def session_shared_def outbound_at_def split: prod.splits)
  qed (simp add: on_olm_def gm.same)
qed

lemma guards_if_olm [simp]: "moves keeps_outbound m \<Longrightarrow> moves guards_members (if_olm m)"
  unfolding if_olm_def by (intro gm.moves_rules guards_on_olm)

lemma guards_dispatch [simp]: "moves guards_members (dispatch r e x)"
  unfolding dispatch_def by (rule guards_modify) simp_all

text \<open>An operation on a room that keeps its members.\<close>

definition gentle :: "(matrix_room, 'x) op \<Rightarrow> bool" where
  "gentle m \<longleftrightarrow> (\<forall>r. room_ok r \<longrightarrow>
     room_ok (snd (m r)) \<and> mr_room_id (snd (m r)) = mr_room_id r \<and>
     set (dkeys (mr_users (snd (m r)))) = set (dkeys (mr_users r)))"

lemma guards_set_room:
  assumes "rooms_ok c \<Longrightarrow> dget (cl_rooms c) i = Some r \<and> room_ok r' \<and> mr_room_id r' = mr_room_id r \<and>
    set (dkeys (mr_users r')) = set (dkeys (mr_users r))"
  shows "guards_members c (c \<lparr> cl_rooms := dset (cl_rooms c) i r' \<rparr>)"
  using assms
  by (auto simp: guards_members_def rooms_ok_def room_members_def session_shared_def outbound_at_def split: option.splits)

lemma guards_on_room [simp]:
  assumes "gentle m"
  shows "moves guards_members (on_room i m)"
  unfolding moves_def
proof
  fix c
  show "guards_members c (snd (on_room i m c))"
  proof (cases "dget (cl_rooms c) i")
    case (Some r)
    obtain x r' where m: "m r = (x, r')" by (cases "m r")
    have "guards_members c (c \<lparr> cl_rooms := dset (cl_rooms c) i r' \<rparr>)"
    proof (rule guards_set_room)
      assume "rooms_ok c"
      with Some have "room_ok r" by (simp add: rooms_ok_def)
      with assms[unfolded gentle_def, rule_format, of r] m Some
      show "dget (cl_rooms c) i = Some r \<and> room_ok r' \<and> mr_room_id r' = mr_room_id r \<and>
          set (dkeys (mr_users r')) = set (dkeys (mr_users r))" by simp
    qed
    with Some m show ?thesis by (simp add: on_room_def)
  qed (simp add: on_room_def gm.same)
qed

lemma gentle_reads [simp]: "gentle (reads f)"
  by (simp add: gentle_def op_basic)

lemma gentle_modify:
  "(\<And>r. room_ok r \<Longrightarrow> room_ok (f r)) \<Longrightarrow> (\<And>r. mr_room_id (f r) = mr_room_id r) \<Longrightarrow>
   (\<And>r. mr_users (f r) = mr_users r) \<Longrightarrow> gentle (modify f)"
  by (simp add: gentle_def op_basic)

lemma set_power_levels_frame:
  "mr_users (foldl (\<lambda>r ul. set_power_level ul r) r uls) = mr_users r"
  "mr_room_id (foldl (\<lambda>r ul. set_power_level ul r) r uls) = mr_room_id r"
  by (induction uls arbitrary: r) (auto simp: set_power_level_def set_user_def split: option.splits)

lemma handle_event_frame [simp]:
  "mr_users (handle_event e r) = mr_users r" "mr_room_id (handle_event e r) = mr_room_id r"
  by (cases e; simp add: Let_def handle_power_levels_def set_power_levels_frame)+

lemma handle_receipts_frame:
  "mr_users (foldl (\<lambda>r x. handle_receipt x r) r rs) = mr_users r"
  "mr_room_id (foldl (\<lambda>r x. handle_receipt x r) r rs) = mr_room_id r"
  by (induction rs arbitrary: r) (auto simp: handle_receipt_def split: option.splits list.splits)

lemma handle_ephemeral_frame [simp]:
  "mr_users (handle_ephemeral_event e r) = mr_users r" "mr_room_id (handle_ephemeral_event e r) = mr_room_id r"
  by (cases e; simp add: handle_receipts_frame)+

lemma account_summary_frame [simp]:
  "mr_users (handle_account_data a r) = mr_users r" "mr_room_id (handle_account_data a r) = mr_room_id r"
  "mr_users (update_summary s r) = mr_users r" "mr_room_id (update_summary s r) = mr_room_id r"
  "mr_users (update_unread_notifications n r) = mr_users r"
  "mr_room_id (update_unread_notifications n r) = mr_room_id r"
  by (cases a; simp)+ (auto simp: update_summary_def update_unread_notifications_def Let_def split: option.splits)

lemma gentle_handlers [simp]:
  "gentle (modify (handle_event e))" "gentle (modify (handle_ephemeral_event x))"
  "gentle (modify (handle_account_data a))" "gentle (modify (update_summary s))"
  "gentle (modify (update_unread_notifications n))"
  by (rule gentle_modify; simp add: room_ok_steps)+

section \<open>Membership events\<close>

lemma room_id_steps:
  "keeps (\<lambda>r. mr_room_id r = i) (names_remove n u)" "keeps (\<lambda>r. mr_room_id r = i) (names_append n u)"
  "keeps (\<lambda>r. mr_room_id r = i) (modify (set_user ref f))"
  by (auto simp: keeps_def names_remove_def names_append_def set_names_def set_user_def op_basic)

lemma room_id_add: "keeps (\<lambda>r. mr_room_id r = i) (add_member u dn av b)"
  unfolding add_member_def
  by (intro keeps_intros keeps_modify room_id_steps) (simp add: Let_def)

lemma room_id_remove: "keeps (\<lambda>r. mr_room_id r = i) (remove_member u)"
proof -
  have "keeps (\<lambda>r. mr_room_id r = i) (\<lambda>r. case names_remove (g r) (h r) r of (Inl e, r') \<Rightarrow> (Inr (), r') | res \<Rightarrow> res)"
    for g h :: "'z matrix_room_scheme \<Rightarrow> string"
    by (auto simp: keeps_def names_remove_def set_names_def)
  then show ?thesis
    unfolding remove_member_def by (intro keeps_intros keeps_modify room_id_steps) simp_all
qed

lemma room_id_member_steps:
  "keeps (\<lambda>r. mr_room_id r = i) (member_set_invited u ref b x)"
  "keeps (\<lambda>r. mr_room_id r = i) (member_set_displayname ref d)"
  "keeps (\<lambda>r. mr_room_id r = i) (member_set_avatar ref a)"
proof -
  show "keeps (\<lambda>r. mr_room_id r = i) (member_set_invited u ref b x)"
    unfolding member_set_invited_def by (intro keeps_intros room_id_steps keeps_modify) simp
  show "keeps (\<lambda>r. mr_room_id r = i) (member_set_displayname ref d)"
    unfolding member_set_displayname_def by (intro keeps_intros room_id_steps)
  show "keeps (\<lambda>r. mr_room_id r = i) (member_set_avatar ref a)"
    unfolding member_set_avatar_def by (intro keeps_intros room_id_steps)
qed

lemma dom_dget: "dom (dget d) = set (dkeys d)"
proof (rule set_eqI)
  show "k \<in> dom (dget d) \<longleftrightarrow> k \<in> set (dkeys d)" for k
    using dget_None_iff[of d k] by (simp only: domIff) blast
qed

lemma keeps_pair: "(\<And>a b. keeps P (f a b)) \<Longrightarrow> keeps P (case_prod f p)"
  by (cases p) simp

lemma room_id_membership: "keeps (\<lambda>r. mr_room_id r = i) (handle_membership m)"
proof -
  have member: "keeps (\<lambda>r. mr_room_id r = i) (andthen (member_set_invited u ref b x)
      (andthen (member_set_displayname ref d) (andthen (member_set_avatar ref a) (ret False))))"
    for u ref b x d a
    by (intro keeps_bnd keeps_ret room_id_member_steps)
  show ?thesis
    unfolding handle_membership_def Let_def
    by (intro keeps_intros keeps_pair member room_id_add room_id_remove)
qed

lemma membership_run:
  assumes "room_ok r"
  obtains b r' where "handle_membership m r = (Inr b, r')" "room_ok r'" "mr_room_id r' = mr_room_id r"
    "set (dkeys (mr_users r')) = membership_users m (set (dkeys (mr_users r)))"
    "b \<longleftrightarrow> set (dkeys (mr_users r')) \<noteq> set (dkeys (mr_users r))"
proof -
  obtain b r' where r': "handle_membership m r = (Inr b, r')" "room_ok r'"
    "dom (dget (mr_users r')) = membership_users m (dom (dget (mr_users r)))"
    "b \<longleftrightarrow> dom (dget (mr_users r')) \<noteq> dom (dget (mr_users r))"
    using membership_op_cases[OF assms, of m] by blast
  moreover have "mr_room_id r' = mr_room_id r"
    using keepsD[OF room_id_membership[of "mr_room_id r" m] refl] r'(1) by simp
  ultimately show ?thesis
    using that[of b r'] by (simp only: dom_dget)
qed

lemma drop_unless_unshared_at:
  "dget (om_outbound_group_sessions (drop_unless_unshared i s)) j =
     (if j = i then (case dget (om_outbound_group_sessions s) i of
        None \<Rightarrow> None | Some x \<Rightarrow> if og_shared x then None else Some x)
      else dget (om_outbound_group_sessions s) j)"
  by (auto simp: drop_unless_unshared_def Let_def split: option.splits)

text \<open>An invalidation with a machine and an undisposed client succeeds.\<close>

definition without_shared :: "string \<Rightarrow> ('a, 's, 'g, 'o, 'c, 'e) client \<Rightarrow> ('a, 's, 'g, 'o, 'c, 'e) client" where
  "without_shared i c = c \<lparr> cl_olm := map_option (drop_unless_unshared i) (cl_olm c) \<rparr>"

lemma invalidate_run:
  "\<not> cl_disposed c \<Longrightarrow> has_olm c \<Longrightarrow> invalidate_outbound_session i c = (Inr (), without_shared i c)"
  by (auto simp: invalidate_outbound_session_def store_loaded_def assert_not_disposed_def on_olm_def has_olm_def
      without_shared_def op_basic)

lemma invalidate_for_member_run:
  "\<not> cl_disposed c \<Longrightarrow> invalidate_session_for_member_event i c = (Inr (), without_shared i c)"
  by (cases "cl_olm c")
    (auto simp: invalidate_session_for_member_event_def invalidate_run op_basic has_olm_def without_shared_def)

lemma without_shared_fields [simp]:
  "cl_rooms (without_shared i c) = cl_rooms c" "cl_disposed (without_shared i c) = cl_disposed c"
  "has_olm (without_shared i c) = has_olm c"
  "session_shared (without_shared i c) j \<longleftrightarrow> j \<noteq> i \<and> session_shared c j"
  by (auto simp: without_shared_def has_olm_def session_shared_def outbound_at_def drop_unless_unshared_at
      split: option.splits)

lemma invalidate_same:
  assumes "\<not> (\<not> cl_disposed c \<and> has_olm c)"
  shows "snd (invalidate_outbound_session i c) = c"
  using assms
  by (auto simp: invalidate_outbound_session_def store_loaded_def assert_not_disposed_def op_basic)

lemma guards_invalidate [simp]: "moves guards_members (invalidate_outbound_session i)"
  unfolding moves_def
proof
  fix c
  show "guards_members c (snd (invalidate_outbound_session i c))"
  proof (cases "\<not> cl_disposed c \<and> has_olm c")
    case True
    then show ?thesis by (simp add: invalidate_run) (auto intro: guards_elsewhere)
  qed (simp add: invalidate_same gm.same)
qed

lemma apply_membership_run:
  assumes "rooms_ok c" "\<not> cl_disposed c" "dget (cl_rooms c) i = Some r"
  obtains r' b where "handle_membership m r = (Inr b, r')"
    "apply_membership i m c = (Inr (),
       (if b then without_shared i else id) (c \<lparr> cl_rooms := dset (cl_rooms c) i r' \<rparr>))"
    "room_ok r'" "mr_room_id r' = i" "b \<longleftrightarrow> set (dkeys (mr_users r')) \<noteq> set (dkeys (mr_users r))"
proof -
  have r: "room_ok r" "mr_room_id r = i" using assms(1,3) by (auto simp: rooms_ok_def)
  from membership_run[OF r(1), of m] obtain b r' where r':
    "handle_membership m r = (Inr b, r')" "room_ok r'" "mr_room_id r' = mr_room_id r"
    "b \<longleftrightarrow> set (dkeys (mr_users r')) \<noteq> set (dkeys (mr_users r))" by metis
  then have "apply_membership i m c = (Inr (),
       (if b then without_shared i else id) (c \<lparr> cl_rooms := dset (cl_rooms c) i r' \<rparr>))"
    using assms by (simp add: apply_membership_def on_room_def bnd_def invalidate_for_member_run ret_def)
  with r' r(2) that show ?thesis by simp
qed

lemma guards_membership [simp]: "moves guards_members (apply_membership i m)"
  unfolding moves_def
proof
  fix c
  show "guards_members c (snd (apply_membership i m c))"
  proof (cases "rooms_ok c \<and> \<not> cl_disposed c")
    case ok: True
    show ?thesis
    proof (cases "dget (cl_rooms c) i")
      case (Some r)
      from ok have "rooms_ok c" "\<not> cl_disposed c" by auto
      from apply_membership_run[OF this Some, of m] obtain r' b where run:
        "apply_membership i m c = (Inr (),
           (if b then without_shared i else id) (c \<lparr> cl_rooms := dset (cl_rooms c) i r' \<rparr>))"
        "room_ok r'" "mr_room_id r' = i" "b \<longleftrightarrow> set (dkeys (mr_users r')) \<noteq> set (dkeys (mr_users r))" by metis
      let ?c = "c \<lparr> cl_rooms := dset (cl_rooms c) i r' \<rparr>"
      have shared: "session_shared ?c j = session_shared c j" for j
        by (simp add: session_shared_def outbound_at_def)
      have others: "j \<noteq> i \<Longrightarrow> room_members ?c j = room_members c j" for j by (simp add: room_members_def)
      have same: "\<not> b \<Longrightarrow> room_members ?c i = room_members c i" using run(4) Some by (simp add: room_members_def)
      have members: "room_members (without_shared i ?c) j = room_members ?c j" for j by (simp add: room_members_def)
      show ?thesis
        unfolding run(1) snd_conv
      proof (rule guards_rooms)
        show "dget (cl_rooms ((if b then without_shared i else id) ?c)) j = Some x \<Longrightarrow> room_ok x \<and> mr_room_id x = j" for j x
          using run(2,3) ok by (auto simp: rooms_ok_def split: if_splits)
        show "cl_disposed ((if b then without_shared i else id) ?c) = cl_disposed c" by simp
        show "session_shared ((if b then without_shared i else id) ?c) j \<Longrightarrow>
            session_shared c j \<and> room_members ((if b then without_shared i else id) ?c) j = room_members c j" for j
          using shared others same members by (cases b; cases "j = i") auto
      qed
    qed (simp add: apply_membership_def on_room_def bnd_def gm.same)
  qed (auto simp: guards_members_def)
qed

section \<open>The steps of a sync\<close>

lemma gm_reads_id [simp]: "moves guards_members (on_room i (reads id))"
  by (rule guards_on_room) simp

lemma gm_on_invited [simp]: "moves guards_members (on_invited i m)"
  unfolding moves_def
  by (auto simp: on_invited_def gm.same intro!: guards_elsewhere split: option.splits prod.splits)
    (simp_all add: session_shared_def outbound_at_def)

lemma new_room_frame [simp]:
  "room_ok (MatrixRoom i u b)" "mr_room_id (MatrixRoom i u b) = i" "mr_users (MatrixRoom i u b) = []"
  by (rule room_ok_new) (simp_all add: MatrixRoom_def)

lemma gm_enter [simp]: "moves guards_members (enter_joined_room i :: ('a, 's, 'g, 'o, 'c, 'e, unit) client_op)"
  unfolding moves_def
proof
  fix c :: "('a, 's, 'g, 'o, 'c, 'e) client"
  let ?c = "c \<lparr> cl_invited_rooms := ddel (cl_invited_rooms c) i \<rparr>"
  have invited: "guards_members c ?c"
    by (rule guards_elsewhere) (simp_all add: session_shared_def outbound_at_def)
  show "guards_members c (snd (enter_joined_room i c))"
  proof (cases "din i (cl_rooms c)")
    case True
    then have "snd (enter_joined_room i c) = ?c" by (simp add: enter_joined_room_def op_basic Let_def)
    with invited show ?thesis by simp
  next
    case False
    then have "dget (cl_rooms c) i = None" by (simp only: dget_None_iff din_iff not_False_eq_True)
    then have "guards_members ?c (?c \<lparr> cl_rooms := dset (cl_rooms ?c) i
        (MatrixRoom i (cl_user_id ?c) (i \<in> cl_encrypted_rooms ?c)) \<rparr>)"
      by (auto simp: guards_members_def rooms_ok_def room_members_def session_shared_def outbound_at_def)
    with invited have "guards_members c (?c \<lparr> cl_rooms := dset (cl_rooms ?c) i
        (MatrixRoom i (cl_user_id ?c) (i \<in> cl_encrypted_rooms ?c)) \<rparr>)" by (rule gm.chained)
    with False show ?thesis by (simp only: enter_joined_room_def op_basic Let_def snd_conv if_False) simp
  qed
qed

lemma gm_dispatch_in [simp]: "moves guards_members (dispatch_in i r e)"
  unfolding dispatch_in_def by (intro gm.moves_rules gm_reads_id guards_dispatch)

lemma gm_to_device [simp]: "moves guards_members (iter_to_device env i ps)"
  by (induction ps arbitrary: i) (auto intro!: gm.moves_rules)

lemma gm_invited [simp]: "moves guards_members (iter_invited_rooms rs)"
proof -
  have "moves guards_members (invited_event i p)" for i and p :: "invite_event parsed"
    unfolding invited_event_def by (cases p) (auto intro!: gm.moves_rules)
  moreover have "moves guards_members (get_invited_room i)" for i
    unfolding get_invited_room_def by (rule guards_modify) simp_all
  ultimately show ?thesis
    unfolding iter_invited_rooms_def by (intro gm.moves_rules)
qed

lemma gm_joined_state_event [simp]: "moves guards_members (handle_joined_state_event i e rs)"
  unfolding handle_joined_state_event_def
  by (intro gm.moves_rules guards_membership guards_on_room gentle_handlers)

lemma gm_joined_state [simp]: "moves guards_members (iter_joined_state i info rs)"
  unfolding iter_joined_state_def
  by (intro gm.moves_rules gm_enter gm_joined_state_event guards_on_room gentle_handlers)

lemma gm_decrypt_timeline [simp]: "moves guards_members (decrypt_timeline_event env i e)"
  unfolding decrypt_timeline_event_def
  by (intro gm.moves_rules guards_on_olm ob_decrypt_no_error)

lemma gm_timeline_step [simp]: "moves guards_members (timeline_step env i e rs)"
  unfolding timeline_step_def handle_timeline_event_def
  by (intro gm.moves_rules guards_membership guards_on_room gentle_handlers gm_decrypt_timeline gm_dispatch_in)

lemma gm_account_data [simp]: "moves guards_members (room_account_data_event i e)"
  unfolding room_account_data_event_def
  by (intro gm.moves_rules guards_on_room gentle_handlers gm_dispatch_in)

lemma gm_track [simp]: "moves guards_members (track_members i)"
  unfolding track_members_def by (intro gm.moves_rules gm_reads_id guards_if_olm ob_simple)

lemma gm_remember [simp]: "moves guards_members (remember_encrypted rs)"
  unfolding remember_encrypted_def
  by (intro gm.moves_rules guards_if_olm ob_on guards_modify) simp_all

lemma gm_joined_rooms [simp]: "moves guards_members (iter_joined_rooms env rs)"
  unfolding iter_joined_rooms_def iter_joined_room_def Let_def
  by (intro gm.moves_rules gm_joined_state gm_timeline_step guards_on_room gentle_handlers gm_dispatch_in
      gm_account_data gm_track gm_remember)

text \<open>Presence changes only what a user shows, in every room.\<close>

lemma presence_frame [simp]:
  "mr_users (set_presence u (presence_update e) r) = mr_users r"
  "mr_room_id (set_presence u (presence_update e) r) = mr_room_id r"
  by (auto simp: set_presence_def set_user_def split: option.splits)

lemma presence_ok: "room_ok r \<Longrightarrow> room_ok (set_presence u (presence_update e) r)"
  by (auto simp: set_presence_def presence_update_def mu_name_def intro!: set_user_ok split: option.splits)

lemma gm_presence [simp]: "moves guards_members (iter_presence_events ps)"
proof -
  have "moves guards_members (map_rooms (set_presence u (presence_update e)))" for u e
    unfolding map_rooms_def
    by (rule gm.moves_modify)
      (auto simp: guards_members_def rooms_ok_def room_members_def session_shared_def outbound_at_def dget_map_view
        presence_ok split: option.splits)
  then have "moves guards_members (project_presence p)" for p
    unfolding project_presence_def by (cases p) (auto intro: gm.moves_rules)
  then show ?thesis
    unfolding iter_presence_events_def by (intro gm.moves_rules guards_dispatch)
qed

lemma gm_machine [simp]:
  "moves guards_members (iter_expired_verifications env)" "moves guards_members (update_olm_sync_state n us vs)"
  "moves guards_members (iter_key_requests env)" "moves guards_members (iter_global_account_data ds)"
  unfolding iter_expired_verifications_def update_olm_sync_state_def iter_key_requests_def iter_global_account_data_def
  by (intro gm.moves_rules guards_on_olm ob_clear ob_collect ob_simple ob_modify guards_dispatch; simp split: option.split)+

lemma gm_sync [simp]: "moves guards_members (iter_sync env False s)"
  unfolding iter_sync_def if_False
  by (intro gm.moves_rules gm_to_device gm_invited gm_joined_rooms gm_presence gm_machine)

lemma gm_handle_sync: "moves guards_members (handle_sync env s)"
  unfolding handle_sync_def claim_sync_transport_def begin_ordinary_sync_def assert_not_disposed_def
  by (intro gm.moves_rules gm_sync guards_if_olm ob_on guards_modify) simp_all

end
