(* ===== verification/Nio_Client_Claims.thy ===== *)
theory Nio_Client_Claims
  imports Nio_Client_Facts Nio_Sas_Facts
begin

text \<open>
  The properties of the client, and the concrete clients their witnesses run.
\<close>

section \<open>A small client\<close>

text \<open>A client in one encrypted room with the members of \<open>sample_room\<close>.\<close>

definition sample_env :: "(unit, unit, unit, unit, unit, string \<times> string, string) environment" where
  "sample_env =
     \<lparr> ev_lib = sample_lib, ev_vz = toy_vz, ev_validate = (\<lambda>_ v. (True, v)), ev_loads = (\<lambda>_. None),
       ev_cache = \<lparr> ic_get = (\<lambda>c _. (None, c)), ic_put = (\<lambda>c _ _. c) \<rparr>, ev_empty_cache = (), ev_now = 7,
       ev_draw = (\<lambda>_. (''a'', ''b'')), ev_fresh_account = (), ev_fresh_group = (), ev_open = (\<lambda>_ _ _. new_store) \<rparr>"

definition sample_outbound :: "bool \<Rightarrow> unit outbound_group_session" where
  "sample_outbound shared =
     \<lparr> og_session = (), og_creation_time = 1, og_message_count = 0, og_users_shared_with = {},
       og_users_ignored = {}, og_shared = shared \<rparr>"

type_synonym sample = "(unit, unit, unit, unit, unit, string \<times> string) client"

definition sample_client :: "bool \<Rightarrow> sample" where
  "sample_client shared =
     (Client \<lparr> cc_store = True, cc_memory_store = True, cc_encryption_enabled = True, cc_store_sync_tokens = False,
               cc_replace_rotated_device_keys = False \<rparr> [] (Some ''MINE''))
       \<lparr> cl_user_id := ''@me:x'', cl_access_token := ''token'',
         cl_rooms := [(''!r:x'', sample_room \<lparr> mr_encrypted := True \<rparr>)],
         cl_olm := Some ((new_olm () ()) \<lparr> om_outbound_group_sessions := [(''!r:x'', sample_outbound shared)] \<rparr>) \<rparr>"

definition sample_leave :: event where
  "sample_leave =
     base_event JNull (JStr ''$1'') (JStr ''@a:x'') (JInt 5)
       (RoomMemberEvent (JStr ''@a:x'') (JStr ''leave'') JNull (JObj [(''membership'', JStr ''leave'')]) JNull)"

definition sample_info :: "event list \<Rightarrow> room_info" where
  "sample_info es =
     \<lparr> ri_timeline = \<lparr> tl_events = es, tl_limited = JBool False, tl_prev_batch = JNull \<rparr>,
       ri_state = [], ri_ephemeral = [], ri_account_data = [], ri_summary = None,
       ri_unread_notifications = None, ri_unread_thread_notifications = None \<rparr>"

definition sample_sync :: "to_device_event parsed list \<Rightarrow> event list \<Rightarrow> sync_response" where
  "sample_sync ds es =
     \<lparr> sy_next_batch = ''s1'', sy_rooms = \<lparr> ro_invite = [], ro_join = [(''!r:x'', sample_info es)], ro_leave = [] \<rparr>,
       sy_curve25519 = None, sy_signed_curve25519 = Some 50, sy_changed = [], sy_left = [],
       sy_to_device = ds, sy_presence = [], sy_account_data = [] \<rparr>"

lemma sample_room_encrypted_ok: "room_ok (sample_room \<lparr> mr_encrypted := True \<rparr>)"
proof -
  have "room_ok sample_room" by (rule sample_room_ok)
  then show ?thesis by (simp add: room_ok_def names_of_def user_at_def)
qed

lemma sample_client_ok: "rooms_ok (sample_client b)"
proof -
  have "mr_room_id sample_room = ''!r:x''" by code_simp
  then show ?thesis
    using sample_room_encrypted_ok by (simp add: rooms_ok_def sample_client_def Client_def)
qed

section \<open>Shared sessions\<close>

text \<open>C2: After every sync, whether it returns or raises, the rooms are consistent, and a group session that
  counts as shared was shared before the sync, in a room whose members are the same as before: who
  leaves, or joins, can not be an addressee or a missing one of the next message.\<close>

theorem sync_keeps_shared_safe:
  assumes "rooms_ok c"
  shows "rooms_ok (snd (handle_sync env response c)) \<and>
    (\<forall>room_id. session_shared (snd (handle_sync env response c)) room_id \<longrightarrow>
       session_shared c room_id \<and>
       room_members (snd (handle_sync env response c)) room_id = room_members c room_id)"
proof (cases "cl_disposed c")
  case True
  then have "snd (handle_sync env response c) = c"
    by (simp add: handle_sync_def claim_sync_transport_def begin_ordinary_sync_def assert_not_disposed_def op_basic bnd_def)
  with assms show ?thesis by simp
next
  case False
  have "guards_members c (snd (handle_sync env response c))"
    by (rule gm_handle_sync[unfolded moves_def, rule_format])
  with assms False show ?thesis by (simp add: guards_members_def)
qed

theorem sync_keeps_shared_safe_witness:
  "session_shared (snd (handle_sync sample_env (sample_sync [] []) (sample_client True))) ''!r:x'' \<and>
   room_members (snd (handle_sync sample_env (sample_sync [] []) (sample_client True))) ''!r:x'' =
     room_members (sample_client True) ''!r:x'' \<and>
   \<not> session_shared (snd (handle_sync sample_env (sample_sync [] [sample_leave]) (sample_client True))) ''!r:x''"
proof -
  have "session_shared (snd (handle_sync sample_env (sample_sync [] []) (sample_client True))) ''!r:x''"
    by code_simp
  moreover have "\<not> session_shared (snd (handle_sync sample_env (sample_sync [] [sample_leave]) (sample_client True))) ''!r:x''"
    by code_simp
  ultimately show ?thesis
    using sync_keeps_shared_safe[OF sample_client_ok, of sample_env "sample_sync [] []" True] by blast
qed

end
