(* ===== verification/Nio_Client_Timeline.thy ===== *)
theory Nio_Client_Timeline
  imports Nio_Client_Claims
begin

text \<open>
  The timeline of a room: only events that arrived in the clear change the room.
\<close>

text \<open>What an event does to its room, and the specification of a timeline: the events that are
  not encrypted are applied in order.\<close>

definition apply_event :: "event \<Rightarrow> matrix_room \<Rightarrow> matrix_room" where
  "apply_event e r =
     (case member_view e of
        Some m \<Rightarrow> snd (handle_membership m r)
      | None \<Rightarrow> if is_bad_event e then r else handle_event (room_view e) r)"

definition apply_clear :: "event list \<Rightarrow> matrix_room \<Rightarrow> matrix_room" where
  "apply_clear es r = foldl (\<lambda>r e. apply_event e r) r (filter (\<lambda>e. megolm_view e = None) es)"

text \<open>The rooms of a client are those of another, with \<open>f\<close> applied to one of them.\<close>

definition room_becomes ::
  "string \<Rightarrow> (matrix_room \<Rightarrow> matrix_room) \<Rightarrow> ('a, 's, 'g, 'o, 'c, 'e) client \<Rightarrow> ('a, 's, 'g, 'o, 'c, 'e) client \<Rightarrow> bool" where
  "room_becomes i f c t \<longleftrightarrow>
     (\<forall>j. dget (cl_rooms t) j = (if j = i then map_option f (dget (cl_rooms c) j) else dget (cl_rooms c) j))"

lemma room_becomes_same: "cl_rooms t = cl_rooms c \<Longrightarrow> room_becomes i id c t"
  by (simp add: room_becomes_def map_option.id)

lemma room_becomes_trans: "room_becomes i f c t \<Longrightarrow> room_becomes i g t u \<Longrightarrow> room_becomes i (g \<circ> f) c u"
  by (auto simp: room_becomes_def option.map_comp comp_def)

section \<open>One event\<close>

lemma apply_event_encrypted: "megolm_view e \<noteq> None \<Longrightarrow> apply_event e r = r"
  by (cases "e_body e") (auto simp: apply_event_def megolm_view_def member_view_def room_view_def Let_def)

lemma apply_clear_simps [simp]:
  "apply_clear [] r = r" "apply_clear (e # es) r = apply_clear es (apply_event e r)"
  by (auto simp: apply_clear_def apply_event_encrypted)

lemma on_olm_rooms: "on_olm m c = (x, t) \<Longrightarrow> cl_rooms t = cl_rooms c"
  by (auto simp: on_olm_def split: option.splits prod.splits)

lemma decrypt_timeline_rooms:
  assumes "decrypt_timeline_event env i e c = (x, t)"
  shows "cl_rooms t = cl_rooms c" and "megolm_view e = None \<Longrightarrow> x = Inr None \<and> t = c"
proof -
  have "cl_rooms t = cl_rooms c" if "bnd (on_olm m) (\<lambda>d. ret (f d)) c = (x, t)" for m f
    using that on_olm_rooms[of m c] by (auto simp: bnd_def op_basic split: prod.splits sum.splits)
  with assms show "cl_rooms t = cl_rooms c"
    by (auto simp: decrypt_timeline_event_def op_basic split: option.splits if_splits)
  show "megolm_view e = None \<Longrightarrow> x = Inr None \<and> t = c"
    using assms by (auto simp: decrypt_timeline_event_def op_basic)
qed

lemma dispatch_in_run:
  "dget (cl_rooms c) i = Some r \<Longrightarrow> \<exists>t. dispatch_in i a b c = (Inr (), t) \<and> cl_rooms t = dset (cl_rooms c) i r"
  by (simp add: dispatch_in_def on_room_def dispatch_def op_basic bnd_def)

lemma room_becomes_set:
  "dget (cl_rooms c) i = Some r \<Longrightarrow> cl_rooms t = dset (cl_rooms c) i (f r) \<Longrightarrow> room_becomes i f c t"
  by (simp add: room_becomes_def)

lemma room_becomes_more:
  "room_becomes i f c t \<Longrightarrow> dget (cl_rooms t) i = Some r \<Longrightarrow> cl_rooms u = dset (cl_rooms t) i r \<Longrightarrow> room_becomes i f c u"
  by (auto simp: room_becomes_def)

lemma apply_clear_event_run:
  assumes "rooms_ok c" "\<not> cl_disposed c" "dget (cl_rooms c) i = Some r"
  obtains t where
    "(case member_view e of
        Some m \<Rightarrow> apply_membership i m
      | None \<Rightarrow> if is_bad_event e then ret () else on_room i (modify (handle_event (room_view e)))) c = (Inr (), t)"
    "room_becomes i (apply_event e) c t"
proof (cases "member_view e")
  case (Some m)
  from apply_membership_run[OF assms, of m] obtain r' b where run: "handle_membership m r = (Inr b, r')"
    "apply_membership i m c = (Inr (), (if b then without_shared i else id) (c \<lparr> cl_rooms := dset (cl_rooms c) i r' \<rparr>))"
    by metis
  have "room_becomes i (apply_event e) c ((if b then without_shared i else id) (c \<lparr> cl_rooms := dset (cl_rooms c) i r' \<rparr>))"
    using assms(3) by (rule room_becomes_set) (simp add: apply_event_def Some run(1))
  with run(2) Some that show ?thesis by simp
next
  case None
  show ?thesis
  proof (cases "is_bad_event e")
    case True
    have "apply_event e = id" using True None by (simp add: apply_event_def fun_eq_iff)
    then show ?thesis using that[of c] True None room_becomes_same[of c c i] by (simp add: op_basic)
  next
    case False
    have "room_becomes i (apply_event e) c (c \<lparr> cl_rooms := dset (cl_rooms c) i (handle_event (room_view e) r) \<rparr>)"
      using assms(3) by (rule room_becomes_set) (simp add: apply_event_def False None)
    with that None False assms(3) show ?thesis by (simp add: on_room_def op_basic)
  qed
qed

lemma timeline_step_run:
  assumes "rooms_ok c" "\<not> cl_disposed c" "dget (cl_rooms c) i = Some r"
    and run: "timeline_step env i e rs c = (x, t)"
  shows "case x of Inl _ \<Rightarrow> room_becomes i id c t | Inr _ \<Rightarrow> room_becomes i (apply_event e) c t"
proof -
  obtain y c1 where d: "decrypt_timeline_event env i e c = (y, c1)" by (cases "decrypt_timeline_event env i e c")
  note rooms = decrypt_timeline_rooms[OF d]
  have at: "dget (cl_rooms c1) i = Some r" using rooms(1) assms(3) by simp
  show ?thesis
  proof (cases y)
    case (Inl z)
    with run d have "x = Inl z" "t = c1"
      by (auto simp: timeline_step_def handle_timeline_event_def op_basic bnd_def)
    then show ?thesis using room_becomes_same[OF rooms(1)] by simp
  next
    case (Inr found)
    show ?thesis
    proof (cases found)
      case (Some v)
      with rooms(2) Inr have "megolm_view e \<noteq> None" by auto
      then have id: "apply_event e = id" by (simp add: apply_event_encrypted fun_eq_iff)
      from dispatch_in_run[OF at] obtain u where "dispatch_in i ''event'' (ObservedEvent v) c1 = (Inr (), u)"
        "cl_rooms u = dset (cl_rooms c1) i r" by blast
      with run d Inr Some have "x = Inr rs" "t = u"
        by (auto simp: timeline_step_def handle_timeline_event_def op_basic bnd_def)
      then show ?thesis
        using room_becomes_more[OF room_becomes_same[OF rooms(1)] at \<open>cl_rooms u = _\<close>] id by simp
    next
      case None
      have ok: "rooms_ok c1" "\<not> cl_disposed c1"
        using gm_decrypt_timeline[of env i e, unfolded moves_def, rule_format, of c] d assms(1,2)
        by (simp_all add: guards_members_def)
      from apply_clear_event_run[OF ok at, of e] obtain u where u:
        "(case member_view e of
            Some m \<Rightarrow> apply_membership i m
          | None \<Rightarrow> if is_bad_event e then ret () else on_room i (modify (handle_event (room_view e)))) c1 = (Inr (), u)"
        "room_becomes i (apply_event e) c1 u" by metis
      have au: "dget (cl_rooms u) i = Some (apply_event e r)" using u(2) at by (simp add: room_becomes_def)
      have cu: "room_becomes i (apply_event e) c u" using u(2) rooms(1) by (simp add: room_becomes_def)
      from dispatch_in_run[OF au] obtain w where w: "cl_rooms w = dset (cl_rooms u) i (apply_event e r)"
        "dispatch_in i ''event'' (ObservedEvent (if has_olm c then set_event_room i e else e)) u = (Inr (), w)" by blast
      with run d Inr None u(1) have "x = Inr (note_encryption i e rs)" "t = w"
        by (auto simp: timeline_step_def handle_timeline_event_def op_basic bnd_def)
      then show ?thesis using room_becomes_more[OF cu au w(1)] by simp
    qed
  qed
qed

section \<open>The timeline\<close>

text \<open>C5: A timeline changes its room exactly as its unencrypted events do, in order, whatever the encrypted
  ones decrypt to, and no other room: a member who can send encrypted messages can not forge
  membership, power levels or any other state. If the handling of an event raises, the events
  before it have been applied.\<close>

theorem timeline_applies_clear_events:
  assumes "rooms_ok c" "\<not> cl_disposed c" "dget (cl_rooms c) room_id = Some r"
    and "fold_op (timeline_step env room_id) es rs c = (x, t)"
  shows "\<exists>n \<le> length es. room_becomes room_id (apply_clear (take n es)) c t \<and> (isl x \<or> n = length es)"
  using assms
proof (induction es arbitrary: c r rs)
  case Nil
  then have "room_becomes room_id id c t" by (intro room_becomes_same) (simp add: op_basic)
  moreover have "apply_clear [] = id" by (simp add: fun_eq_iff)
  ultimately show ?case by (simp add: id_def)
next
  case (Cons e es)
  obtain y c1 where step: "timeline_step env room_id e rs c = (y, c1)" by (cases "timeline_step env room_id e rs c")
  note becomes = timeline_step_run[OF Cons.prems(1-3) step]
  show ?case
  proof (cases y)
    case (Inl z)
    with Cons.prems(4) step have "x = Inl z" "t = c1" by (auto simp: bnd_def)
    moreover have "apply_clear (take 0 (e # es)) = id" by (simp add: fun_eq_iff)
    ultimately show ?thesis using becomes Inl by (intro exI[of _ 0]) (simp add: id_def)
  next
    case (Inr rs')
    with becomes have b: "room_becomes room_id (apply_event e) c c1" by simp
    then have at: "dget (cl_rooms c1) room_id = Some (apply_event e r)" using Cons.prems(3) by (simp add: room_becomes_def)
    have ok: "rooms_ok c1" "\<not> cl_disposed c1"
      using gm_timeline_step[of env room_id e rs, unfolded moves_def, rule_format, of c] step Cons.prems(1,2)
      by (simp_all add: guards_members_def)
    have "fold_op (timeline_step env room_id) es rs' c1 = (x, t)"
      using Cons.prems(4) step Inr by (simp add: bnd_def)
    from Cons.IH[OF ok at this] obtain n where n: "n \<le> length es"
      "room_becomes room_id (apply_clear (take n es)) c1 t" "isl x \<or> n = length es" by blast
    have "apply_clear (take (Suc n) (e # es)) = apply_clear (take n es) \<circ> apply_event e" by (simp add: fun_eq_iff)
    then have "room_becomes room_id (apply_clear (take (Suc n) (e # es))) c t" using room_becomes_trans[OF b n(2)] by metis
    moreover have "isl x \<or> Suc n = length (e # es)" using n(3) by simp
    moreover have "Suc n \<le> length (e # es)" using n(1) by simp
    ultimately show ?thesis by blast
  qed
qed

definition sample_encrypted :: event where
  "sample_encrypted =
     (base_event (JObj []) (JStr ''$2'') (JStr ''@b:x'') (JInt 6)
       (MegolmEvent (JStr ''DEV'') (JStr ''c'') (JStr megolm_algorithm) JNull))
       \<lparr> e_sender_key := JStr ''k'', e_session_id := JStr ''s'' \<rparr>"

theorem timeline_applies_clear_events_witness:
  "\<exists>t. fold_op (timeline_step sample_env ''!r:x'') [sample_encrypted, sample_leave] [] (sample_client True) = (Inr [], t) \<and>
     room_becomes ''!r:x'' (apply_clear [sample_encrypted, sample_leave]) (sample_client True) t"
proof -
  let ?run = "fold_op (timeline_step sample_env ''!r:x'') [sample_encrypted, sample_leave] [] (sample_client True)"
  have inr: "fst ?run = Inr []" by code_simp
  have "\<not> cl_disposed (sample_client True)" "dget (cl_rooms (sample_client True)) ''!r:x'' = Some (sample_room \<lparr> mr_encrypted := True \<rparr>)"
    by (simp_all add: sample_client_def Client_def)
  from timeline_applies_clear_events[OF sample_client_ok this, of sample_env "[sample_encrypted, sample_leave]" "[]" "fst ?run" "snd ?run"]
  obtain n where "room_becomes ''!r:x'' (apply_clear (take n [sample_encrypted, sample_leave])) (sample_client True) (snd ?run)"
    "isl (fst ?run) \<or> n = length [sample_encrypted, sample_leave]" by auto
  with inr have "room_becomes ''!r:x'' (apply_clear [sample_encrypted, sample_leave]) (sample_client True) (snd ?run)" by simp
  moreover have "?run = (Inr [], snd ?run)" using inr by (simp add: prod_eq_iff)
  ultimately show ?thesis by blast
qed

end
