(* ===== verification/Nio_Client_Sharing.thy ===== *)
theory Nio_Client_Sharing
  imports Nio_Client_Timeline
begin

text \<open>
  When a group session counts as shared, and what a change of trust does to it.
\<close>

section \<open>No response makes a session shared\<close>

definition no_new_shared :: "('a, 's, 'g, 'o, 'c, 'e) client \<Rightarrow> ('a, 's, 'g, 'o, 'c, 'e) client \<Rightarrow> bool" where
  "no_new_shared c t \<longleftrightarrow> (\<forall>i. session_shared t i \<longrightarrow> session_shared c i)"

interpretation ns: evolution no_new_shared
  by unfold_locales (auto simp: no_new_shared_def)

lemma ns_modify: "(\<And>c. cl_olm (f c) = cl_olm c) \<Longrightarrow> moves no_new_shared (modify f)"
  by (simp add: moves_def op_basic no_new_shared_def session_shared_def outbound_at_def)

lemma ns_on_olm [simp]:
  assumes "moves keeps_outbound m"
  shows "moves no_new_shared (on_olm m)"
  unfolding moves_def
proof
  fix c
  show "no_new_shared c (snd (on_olm m c))"
  proof (cases "cl_olm c")
    case (Some s)
    have "om_outbound_group_sessions (snd (m s)) = om_outbound_group_sessions s"
      using assms by (simp add: moves_def keeps_outbound_def)
    with Some show ?thesis
      by (auto simp: on_olm_def no_new_shared_def session_shared_def outbound_at_def split: prod.splits)
  qed (simp add: on_olm_def ns.same)
qed

lemma ns_if_olm [simp]: "moves keeps_outbound m \<Longrightarrow> moves no_new_shared (if_olm m)"
  unfolding if_olm_def by (intro ns.moves_rules ns_on_olm)

lemma ns_on_room [simp]: "moves no_new_shared (on_room i m)"
  by (auto simp: moves_def on_room_def no_new_shared_def session_shared_def outbound_at_def split: option.splits prod.splits)

lemma ns_invalidate [simp]: "moves no_new_shared (invalidate_outbound_session i)"
proof -
  have "no_new_shared c (snd (invalidate_outbound_session i c))" for c :: "('a, 'b, 'c, 'd, 'e, 'f) client"
  proof (cases "\<not> cl_disposed c \<and> has_olm c")
    case True
    then show ?thesis by (simp add: invalidate_run) (simp add: no_new_shared_def)
  qed (simp add: invalidate_same ns.same)
  then show ?thesis by (simp add: moves_def)
qed

lemma ns_load_store [simp]: "moves no_new_shared (load_store env)"
  unfolding load_store_def Let_def
  by (intro ns.moves_rules ns.moves_modify)
    (auto simp: no_new_shared_def session_shared_def outbound_at_def Olm_init_def Let_def)

lemma ns_olm_response [simp]: "moves no_new_shared (handle_olm_response env r)"
  unfolding handle_olm_response_def invalidate_for_changed_user_def
  by (cases r; simp only: olm_response.case; intro ns.moves_rules ns_on_olm ns_invalidate ob_query ob_response)

lemma ns_members [simp]: "moves no_new_shared (handle_joined_members i ms)"
  unfolding handle_joined_members_def prune_member_def track_members_def
  by (intro ns.moves_rules ns_on_room ns_if_olm ob_simple)

lemma ns_forget [simp]: "moves no_new_shared (handle_room_forget i)"
  unfolding handle_room_forget_def
  by (intro ns.moves_rules ns_if_olm ob_on ns_modify) simp_all

lemma ns_other [simp]:
  "moves no_new_shared (handle_presence_response u p a b m)" "moves no_new_shared (handle_whoami u d)"
  "moves no_new_shared handle_logout" "moves no_new_shared (restore_login env u x y)"
  unfolding handle_presence_response_def map_rooms_def handle_whoami_def handle_logout_def restore_login_def
  by (intro ns.moves_rules ns_load_store ns_modify; simp)+

lemma ns_decrypt_received [simp]: "moves no_new_shared (decrypt_received env e)"
  unfolding decrypt_received_def by (intro ns.moves_rules ns_on_olm ob_decrypt_no_error)

lemma ns_decrypt_array [simp]: "moves no_new_shared (decrypt_event_array env es)"
  by (induction es) (auto intro!: ns.moves_rules)

lemma ns_catch_encryption:
  "moves no_new_shared m \<Longrightarrow> moves no_new_shared n \<Longrightarrow>
   moves no_new_shared (catching m (\<lambda>e. case e of EncryptionError _ \<Rightarrow> Some n | _ \<Rightarrow> None))"
  by (rule ns.moves_catching) (auto split: exn.splits)

lemma ns_store_loaded [simp]: "moves no_new_shared m \<Longrightarrow> moves no_new_shared (store_loaded m)"
  unfolding store_loaded_def assert_not_disposed_def by (intro ns.moves_rules)

lemma ns_events [simp]:
  "moves no_new_shared (handle_context_response env e es fs)" "moves no_new_shared (handle_get_event env x)"
  unfolding handle_context_response_def handle_get_event_def decrypt_event_def
  by (intro ns.moves_rules ns_catch_encryption ns_store_loaded ns_on_olm ob_decrypt_megolm ns_decrypt_received
      ns_decrypt_array)+

lemma ns_sync:
  assumes "rooms_ok c"
  shows "no_new_shared c (snd (handle_sync env r c))"
proof (cases "cl_disposed c")
  case True
  then have "snd (handle_sync env r c) = c"
    by (simp add: handle_sync_def claim_sync_transport_def begin_ordinary_sync_def assert_not_disposed_def op_basic bnd_def)
  then show ?thesis by (simp add: ns.same)
next
  case False
  have "guards_members c (snd (handle_sync env r c))" by (rule gm_handle_sync[unfolded moves_def, rule_format])
  with assms False show ?thesis by (simp add: guards_members_def no_new_shared_def)
qed

section \<open>The acknowledgement of a shared key\<close>

definition active_of :: "('a, 's, 'g, 'o, 'c, 'e) olm \<Rightarrow> string \<Rightarrow> olm_device list" where
  "active_of s u = filter (\<lambda>d. \<not> od_deleted d) (dvalues (dget_or (om_device_store s) u []))"

text \<open>Reading the devices of a user can add an empty entry for the user, nothing else.\<close>

lemma active_user_devices_run:
  obtains s' where "on_devices (active_user_devices u) s = (Inr (active_of s u), s')"
    "\<And>v. active_of s' v = active_of s v" "om_outbound_group_sessions s' = om_outbound_group_sessions s"
  by (cases "dget (om_device_store s) u")
    (auto simp: on_devices_def active_user_devices_def store_getitem_def op_basic active_of_def dget_or_def
      split: option.splits)

definition covers :: "(string \<times> string) set \<Rightarrow> ('a, 's, 'g, 'o, 'c, 'e) olm \<Rightarrow> string list \<Rightarrow> bool" where
  "covers devices s us \<longleftrightarrow> (\<forall>u \<in> set us. \<forall>d \<in> set (active_of s u). (u, od_device_id d) \<in> devices)"

lemma all_covered_run:
  "\<exists>s'. all_covered devices us s = (Inr (covers devices s us), s') \<and> (\<forall>v. active_of s' v = active_of s v) \<and>
     om_outbound_group_sessions s' = om_outbound_group_sessions s"
proof (induction us arbitrary: s)
  case (Cons u us)
  obtain s1 where s1: "on_devices (active_user_devices u) s = (Inr (active_of s u), s1)"
    "\<And>v. active_of s1 v = active_of s v" "om_outbound_group_sessions s1 = om_outbound_group_sessions s"
    using active_user_devices_run[of u s] by blast
  show ?case
  proof (cases "\<exists>d \<in> set (active_of s u). (u, od_device_id d) \<notin> devices")
    case True
    then have "\<not> covers devices s (u # us)" by (auto simp: covers_def)
    then show ?thesis using True s1 by (simp add: bnd_def op_basic)
  next
    case False
    then have "covers devices s (u # us) = covers devices s1 us" using s1(2) by (auto simp: covers_def)
    moreover from Cons.IH[of s1] obtain s2 where "all_covered devices us s1 = (Inr (covers devices s1 us), s2)"
      "\<forall>v. active_of s2 v = active_of s1 v" "om_outbound_group_sessions s2 = om_outbound_group_sessions s1" by blast
    ultimately show ?thesis using s1 False by (simp add: bnd_def)
  qed
qed (simp add: op_basic covers_def)

text \<open>After a response that marks a session as shared.\<close>

definition covered_room :: "('a, 's, 'g, 'o, 'c, 'e) client \<Rightarrow> string \<Rightarrow> bool" where
  "covered_room t room_id \<longleftrightarrow>
     (\<exists>room s session. dget (cl_rooms t) room_id = Some room \<and> cl_olm t = Some s \<and>
        dget (om_outbound_group_sessions s) room_id = Some session \<and>
        covers (og_users_shared_with session \<union> og_users_ignored session) s (dkeys (mr_users room)))"

lemma share_response_cases:
  fixes c :: "('a, 's, 'g, 'o, 'c, 'e) client"
  assumes "handle_share_response room_id us c = (x, t)" "session_shared t i"
  shows "session_shared c i \<or> i = room_id \<and> covered_room t room_id"
proof (cases "dget (cl_rooms c) room_id = None \<or> outbound_at c room_id = None")
  case True
  with assms(1) have "t = c"
    by (auto simp: handle_share_response_def op_basic outbound_at_def split: option.splits)
  with assms(2) show ?thesis by simp
next
  case False
  then obtain r s y where r: "dget (cl_rooms c) room_id = Some r" and s: "cl_olm c = Some s"
    and y: "dget (om_outbound_group_sessions s) room_id = Some y"
    by (auto simp: outbound_at_def split: option.splits)
  define z where "z = y \<lparr> og_users_shared_with := og_users_shared_with y \<union> us \<rparr>"
  define s1 where "s1 = s \<lparr> om_outbound_group_sessions := dset (om_outbound_group_sessions s) room_id z \<rparr>"
  define c1 where "c1 = c \<lparr> cl_olm := Some s1 \<rparr>"
  have shared1: "session_shared c1 j = session_shared c j" for j
    using s y by (simp add: session_shared_def outbound_at_def c1_def s1_def z_def)
  have rooms1: "dget (cl_rooms c1) room_id = Some r" using r by (simp add: c1_def)
  let ?devices = "og_users_shared_with z \<union> og_users_ignored z"
  let ?check = "if mr_users r = [] then ret True else store_loaded (on_olm (all_covered ?devices (dkeys (mr_users r))))"
  have start: "on_olm (set_outbound room_id z) c = (Inr (), c1)"
    using s by (simp add: on_olm_def set_outbound_def op_basic c1_def s1_def)
  then have run: "handle_share_response room_id us c =
      bnd ?check (\<lambda>b. if b then on_olm (set_outbound room_id (z \<lparr> og_shared := True \<rparr>)) else ret ()) c1"
    using r s y unfolding z_def by (simp add: handle_share_response_def op_basic bnd_def Let_def)
  from all_covered_run[of ?devices "dkeys (mr_users r)" s1] obtain s2 where
    s2: "all_covered ?devices (dkeys (mr_users r)) s1 = (Inr (covers ?devices s1 (dkeys (mr_users r))), s2)"
      "\<forall>v. active_of s2 v = active_of s1 v" "om_outbound_group_sessions s2 = om_outbound_group_sessions s1" by blast
  have check: "?check c1 =
      (if mr_users r = [] then (Inr True, c1)
       else if cl_disposed c then (Inl (LocalProtocolError ''durable sync session is poisoned''), c1)
       else (Inr (covers ?devices s1 (dkeys (mr_users r))), c1 \<lparr> cl_olm := Some s2 \<rparr>))"
    by (simp add: store_loaded_def assert_not_disposed_def op_basic bnd_def has_olm_def on_olm_def s2(1) c1_def)
  have same: "session_shared t i = session_shared c i" if "t = c1 \<or> t = c1 \<lparr> cl_olm := Some s2 \<rparr>"
  proof -
    have "session_shared (c1 \<lparr> cl_olm := Some s2 \<rparr>) i = session_shared c1 i"
      using s2(3) by (simp add: session_shared_def outbound_at_def c1_def)
    with that shared1[of i] show ?thesis by blast
  qed
  have finish: "session_shared c i \<or> i = room_id \<and> covered_room t room_id"
    if "t = c1 \<lparr> cl_olm := Some (s3 \<lparr> om_outbound_group_sessions := dset (om_outbound_group_sessions s1) room_id (z \<lparr> og_shared := True \<rparr>) \<rparr>) \<rparr>"
      "\<And>v. active_of s3 v = active_of s1 v" "covers ?devices s1 (dkeys (mr_users r))" for s3
  proof (cases "i = room_id")
    case True
    have "active_of (s3 \<lparr> om_outbound_group_sessions := d \<rparr>) v = active_of s1 v" for v d
      using that(2)[of v] by (simp add: active_of_def)
    then have "covered_room t room_id" using that(1,3) rooms1 by (simp add: covered_room_def covers_def)
    with True show ?thesis by simp
  next
    case other: False
    then show ?thesis
      using assms(2) that(1) s y by (auto simp: session_shared_def outbound_at_def c1_def s1_def)
  qed
  show ?thesis
  proof (cases "mr_users r = []")
    case True
    have "t = c1 \<lparr> cl_olm := Some (s1 \<lparr> om_outbound_group_sessions := dset (om_outbound_group_sessions s1) room_id (z \<lparr> og_shared := True \<rparr>) \<rparr>) \<rparr>"
      using assms(1) run check True by (simp add: bnd_def on_olm_def set_outbound_def op_basic c1_def)
    then show ?thesis by (rule finish) (simp_all add: True covers_def)
  next
    case nonempty: False
    show ?thesis
    proof (cases "\<not> cl_disposed c \<and> covers ?devices s1 (dkeys (mr_users r))")
      case True
      have "t = c1 \<lparr> cl_olm := Some (s2 \<lparr> om_outbound_group_sessions := dset (om_outbound_group_sessions s1) room_id (z \<lparr> og_shared := True \<rparr>) \<rparr>) \<rparr>"
        using assms(1) run check True nonempty s2(3)
        by (simp add: bnd_def on_olm_def set_outbound_def op_basic c1_def)
      then show ?thesis by (rule finish) (use s2(2) True in simp_all)
    next
      case False
      then have "t = c1 \<or> t = c1 \<lparr> cl_olm := Some s2 \<rparr>"
        using assms(1) run check nonempty by (auto simp: bnd_def op_basic split: if_splits)
      with same assms(2) show ?thesis by blast
    qed
  qed
qed

end
