(* ===== verification/Nio_Client_Trust.thy ===== *)
theory Nio_Client_Trust
  imports Nio_Client_Sharing
begin

text \<open>
  The properties of the sharing of group sessions and of the other responses.
\<close>

section \<open>Shared only when every device is covered\<close>

lemma ns_run: "moves no_new_shared m \<Longrightarrow> m c = (x, t) \<Longrightarrow> session_shared t i \<Longrightarrow> session_shared c i"
  unfolding moves_def no_new_shared_def by (metis snd_conv)

text \<open>C6: Of the responses a client receives (\<^verbatim>\<open>receive_response\<close> of the base client), only the
  acknowledgement of a shared key makes the session of a room count as shared, and only if every
  active device of every member has the key or was ignored deliberately; no sync, key query, claim or
  any other response does. (\<^verbatim>\<open>AsyncClient.share_group_session\<close> sets the flag itself after its
  requests, whatever they answered; that is not a response received here, and is stated with the
  asynchronous client.)\<close>

theorem shared_only_when_covered:
  assumes "rooms_ok c" "receive_response env response c = (x, t)"
    and "session_shared t room_id" "\<not> session_shared c room_id"
  shows "(\<exists>us. response = ShareGroupSessionResponse room_id us) \<and> covered_room t room_id"
proof -
  have other: "session_shared c room_id" if "moves no_new_shared m" "m c = (y, t)" for m :: "('a, 'b, 'c, 'd, 'e, 'f, 'y) client_op" and y
    using ns_run[OF that assms(3)] .
  have "False" if "\<And>i us. response \<noteq> ShareGroupSessionResponse i us"
  proof (cases response)
    case (SyncResponse r)
    with assms(2) have "snd (handle_sync env r c) = t"
      by (auto simp: receive_response_def bnd_def op_basic split: prod.splits sum.splits)
    with ns_sync[OF assms(1), of env r] assms(3,4) show ?thesis by (simp add: no_new_shared_def)
  qed (use that assms(2,4) in \<open>auto simp: receive_response_def intro!: ns.moves_rules dest!: other[rotated]\<close>)
  then obtain i us where response: "response = ShareGroupSessionResponse i us" by blast
  with assms(2) obtain y where "handle_share_response i us c = (y, t)"
    by (auto simp: receive_response_def bnd_def op_basic split: prod.splits sum.splits)
  with share_response_cases[OF this assms(3)] assms(4) response show ?thesis by auto
qed

definition sample_sharing :: sample where
  "sample_sharing = (sample_client False)
     \<lparr> cl_olm := map_option (\<lambda>s. s \<lparr> om_device_store :=
         [(''@a:x'', [(''PHONE'', OlmDevice ''@a:x'' ''PHONE'' [(''ed25519'', ''pf''), (''curve25519'', ''pc'')])])] \<rparr>)
         (cl_olm (sample_client False)) \<rparr>"

lemma sample_sharing_ok: "rooms_ok sample_sharing"
  using sample_client_ok[of False] by (simp add: rooms_ok_def sample_sharing_def)

theorem shared_only_when_covered_witness:
  "\<exists>t. receive_response sample_env (ShareGroupSessionResponse ''!r:x'' {(''@a:x'', ''PHONE'')}) sample_sharing =
       (Inr (ShareGroupSessionResponse ''!r:x'' {(''@a:x'', ''PHONE'')}), t) \<and> covered_room t ''!r:x'' \<and>
     \<not> session_shared (snd (receive_response sample_env (ShareGroupSessionResponse ''!r:x'' {}) sample_sharing)) ''!r:x''"
proof -
  let ?run = "receive_response sample_env (ShareGroupSessionResponse ''!r:x'' {(''@a:x'', ''PHONE'')}) sample_sharing"
  have shared: "session_shared (snd ?run) ''!r:x''" by code_simp
  have before: "\<not> session_shared sample_sharing ''!r:x''" by code_simp
  have without: "\<not> session_shared (snd (receive_response sample_env (ShareGroupSessionResponse ''!r:x'' {}) sample_sharing)) ''!r:x''"
    by code_simp
  have ran: "\<not> isl (fst ?run)" by code_simp
  have "fst ?run = Inr (ShareGroupSessionResponse ''!r:x'' {(''@a:x'', ''PHONE'')})"
    using ran by (auto simp: receive_response_def bnd_def op_basic split: prod.splits sum.splits)
  moreover have "covered_room (snd ?run) ''!r:x''"
    using shared_only_when_covered[OF sample_sharing_ok surjective_pairing shared before] by blast
  ultimately show ?thesis using without by (intro exI[of _ "snd ?run"]) (simp add: prod_eq_iff)
qed

section \<open>A change of trust\<close>

lemma invalidate_each_run:
  fixes c :: "('a, 's, 'g, 'o, 'c, 'e) client"
  assumes "\<not> cl_disposed c" "has_olm c"
  shows "\<exists>t. for_each (\<lambda>room. if P room then invalidate_outbound_session (mr_room_id room) else ret ()) rooms c = (Inr (), t) \<and>
     cl_rooms t = cl_rooms c \<and>
     (\<forall>i. outbound_at t i = (if (\<exists>room \<in> set rooms. P room \<and> mr_room_id room = i) \<and> session_shared c i then None
        else outbound_at c i))"
  using assms
proof (induction rooms arbitrary: c)
  case Nil
  then show ?case by (simp add: op_basic)
next
  case (Cons room rooms)
  have dropped: "outbound_at (without_shared j c) i = (if i = j \<and> session_shared c i then None else outbound_at c i)" for i j
    by (auto simp: without_shared_def outbound_at_def session_shared_def drop_unless_unshared_at split: option.splits)
  let ?c = "if P room then without_shared (mr_room_id room) c else c"
  have step: "(if P room then invalidate_outbound_session (mr_room_id room) else ret ()) c = (Inr (), ?c)"
    using Cons.prems by (simp add: invalidate_run op_basic)
  have "\<not> cl_disposed ?c" "has_olm ?c" using Cons.prems by simp_all
  from Cons.IH[OF this] obtain t where t:
    "for_each (\<lambda>room. if P room then invalidate_outbound_session (mr_room_id room) else ret ()) rooms ?c = (Inr (), t)"
    "cl_rooms t = cl_rooms ?c"
    "\<forall>i. outbound_at t i = (if (\<exists>room \<in> set rooms. P room \<and> mr_room_id room = i) \<and> session_shared ?c i then None
        else outbound_at ?c i)" by blast
  have "outbound_at t i = (if (\<exists>x \<in> set (room # rooms). P x \<and> mr_room_id x = i) \<and> session_shared c i then None
        else outbound_at c i)" for i
    using t(3) dropped by auto
  with t(1,2) step show ?case by (simp add: bnd_def)
qed

definition trust_operations ::
  "(string \<times> string \<Rightarrow> ('a, 's, 'g, 'o, 'c, 'e, bool) client_op) list" where
  "trust_operations =
     [Client_verify_device, Client_unverify_device, Client_blacklist_device, Client_unblacklist_device,
      Client_ignore_device, Client_unignore_device]"

lemma trust_operation_run:
  assumes "f \<in> set trust_operations" "f d c = (Inr b, t)"
  obtains change where "change_device_trust d change c = (Inr b, t)" "moves keeps_outbound change"
proof -
  have ob: "moves keeps_outbound (Olm_verify_device d)" "moves keeps_outbound (Olm_unverify_device d)"
    "moves keeps_outbound (Olm_blacklist_device d)" "moves keeps_outbound (Olm_unblacklist_device d)"
    "moves keeps_outbound (Olm_ignore_device d)" "moves keeps_outbound (Olm_unignore_device d)"
    by (simp_all add: Olm_verify_device_def Olm_unverify_device_def Olm_blacklist_device_def Olm_unblacklist_device_def
        Olm_ignore_device_def Olm_unignore_device_def)
  from assms(1) consider "f = Client_verify_device" | "f = Client_unverify_device" | "f = Client_blacklist_device"
    | "f = Client_unblacklist_device" | "f = Client_ignore_device" | "f = Client_unignore_device"
    unfolding trust_operations_def by auto
  then show ?thesis
    by cases (use assms(2) ob that in \<open>auto simp: Client_verify_device_def Client_unverify_device_def
      Client_blacklist_device_def Client_unblacklist_device_def Client_ignore_device_def Client_unignore_device_def\<close>)
qed

lemma room_of_member:
  assumes "rooms_ok c" "dwf (cl_rooms c)"
  shows "(\<exists>room \<in> set (dvalues (cl_rooms c)). din u (mr_users room) \<and> mr_room_id room = i) \<longleftrightarrow> u \<in> room_members c i"
proof
  assume "\<exists>room \<in> set (dvalues (cl_rooms c)). din u (mr_users room) \<and> mr_room_id room = i"
  then obtain k room where room: "(k, room) \<in> set (cl_rooms c)" "din u (mr_users room)" "mr_room_id room = i" by auto
  then have "dget (cl_rooms c) k = Some room" using assms(2) by (simp add: dwf_def)
  moreover from this have "k = i" using assms(1) room(3) by (auto simp: rooms_ok_def)
  ultimately show "u \<in> room_members c i" using room(2) by (simp add: room_members_def din_iff)
next
  assume u: "u \<in> room_members c i"
  then obtain room where room: "dget (cl_rooms c) i = Some room" "din u (mr_users room)"
    by (auto simp: room_members_def din_iff split: option.splits)
  then have "(i, room) \<in> set (cl_rooms c)" by (simp add: map_of_SomeD)
  then have "room \<in> set (dvalues (cl_rooms c))" by force
  with room assms(1) show "\<exists>room \<in> set (dvalues (cl_rooms c)). din u (mr_users room) \<and> mr_room_id room = i"
    by (auto simp: rooms_ok_def)
qed

text \<open>C35: A verification, blacklisting or ignoring of a device that changed anything, and their withdrawal, drops the
  shared session of every room the user of the device is in, and no other session: a session whose
  key is still being distributed stays, so what was already sent of it to the device stays usable.\<close>

theorem trust_change_invalidates:
  assumes "rooms_ok c" "dwf (cl_rooms c)" "f \<in> set trust_operations" "f device c = (Inr True, t)"
  shows "outbound_at t room_id =
    (if fst device \<in> room_members c room_id \<and> session_shared c room_id then None else outbound_at c room_id)"
proof -
  from trust_operation_run[OF assms(3,4)] obtain change where
    run: "change_device_trust device change c = (Inr True, t)" and keeps: "moves keeps_outbound change" by blast
  then have ready: "\<not> cl_disposed c" "has_olm c"
    by (auto simp: change_device_trust_def store_loaded_def assert_not_disposed_def op_basic bnd_def split: if_splits)
  obtain y c1 where c1: "on_olm change c = (y, c1)" by (cases "on_olm change c")
  then have frame: "cl_rooms c1 = cl_rooms c" "\<not> cl_disposed c1" "has_olm c1" "outbound_at c1 i = outbound_at c i" for i
    using ready keeps
    by (auto simp: on_olm_def has_olm_def outbound_at_def moves_def keeps_outbound_def split: option.splits prod.splits)
      (metis snd_conv)
  from invalidate_each_run[OF frame(2,3), of "\<lambda>room. din (fst device) (mr_users room)" "dvalues (cl_rooms c1)"]
  obtain u where u: "invalidate_outbound_sessions (fst device) c1 = (Inr (), u)"
    "outbound_at u room_id = (if (\<exists>room \<in> set (dvalues (cl_rooms c1)). din (fst device) (mr_users room) \<and> mr_room_id room = room_id) \<and>
        session_shared c1 room_id then None else outbound_at c1 room_id)"
    by (auto simp: invalidate_outbound_sessions_def bnd_def op_basic)
  have "t = u"
    using run ready c1 u(1)
    by (auto simp: change_device_trust_def store_loaded_def assert_not_disposed_def op_basic bnd_def split: sum.splits if_splits)
  moreover have "(\<exists>room \<in> set (dvalues (cl_rooms c1)). din (fst device) (mr_users room) \<and> mr_room_id room = room_id) \<longleftrightarrow>
      fst device \<in> room_members c room_id"
    using room_of_member[OF assms(1,2)] frame(1) by (simp only:)
  moreover have "session_shared c1 room_id = session_shared c room_id" using frame(4) by (simp add: session_shared_def)
  ultimately show ?thesis using u(2) frame(4) by simp
qed

definition sample_shared :: sample where
  "sample_shared = (sample_client True) \<lparr> cl_olm := map_option (\<lambda>s.
       let ds = [(''@a:x'', [(''PHONE'', OlmDevice ''@a:x'' ''PHONE'' [(''ed25519'', ''pf''), (''curve25519'', ''pc'')])])] in
       s \<lparr> om_device_store := ds, om_store := snd (save_device_keys ds (om_store s)) \<rparr>) (cl_olm (sample_client True)) \<rparr>"

theorem trust_change_invalidates_witness:
  "\<exists>t. Client_blacklist_device (''@a:x'', ''PHONE'') sample_shared = (Inr True, t) \<and>
     session_shared sample_shared ''!r:x'' \<and> outbound_at t ''!r:x'' = None"
proof -
  let ?run = "Client_blacklist_device (''@a:x'', ''PHONE'') sample_shared"
  have ok: "rooms_ok sample_shared" "dwf (cl_rooms sample_shared)"
    using sample_client_ok[of True] by (simp_all add: rooms_ok_def sample_shared_def sample_client_def dwf_def)
  have "fst ?run = Inr True" by code_simp
  then have run: "?run = (Inr True, snd ?run)" by (simp add: prod_eq_iff)
  have "outbound_at (snd ?run) ''!r:x'' =
      (if fst (''@a:x'', ''PHONE'') \<in> room_members sample_shared ''!r:x'' \<and> session_shared sample_shared ''!r:x'' then None
       else outbound_at sample_shared ''!r:x'')"
    by (rule trust_change_invalidates[where f = Client_blacklist_device, OF ok _ run]) (simp add: trust_operations_def)
  moreover have "''@a:x'' \<in> room_members sample_shared ''!r:x''" by code_simp
  moreover have "session_shared sample_shared ''!r:x''" by code_simp
  ultimately show ?thesis using run by (intro exI[of _ "snd ?run"]) simp
qed

section \<open>The member list\<close>

lemma forget_users_frame:
  assumes "room_ok r"
  shows "set (dkeys (mr_users (forget_user u r))) = set (dkeys (mr_users r)) - {u}"
    "set (dkeys (mr_invited_users (forget_user u r))) = set (dkeys (mr_invited_users r)) - {u}"
    "mr_room_id (forget_user u r) = mr_room_id r"
proof -
  have "set (dkeys (mr_users (forget_user u r))) = set (dkeys (mr_users r)) - {u} \<and>
    set (dkeys (mr_invited_users (forget_user u r))) = set (dkeys (mr_invited_users r)) - {u} \<and>
    mr_room_id (forget_user u r) = mr_room_id r"
  proof (cases "dget (mr_users r) u")
    case None
    have "dget (mr_invited_users r) u = None"
    proof (rule ccontr)
      assume "dget (mr_invited_users r) u \<noteq> None"
      then obtain x where "dget (mr_invited_users r) u = Some x" by blast
      then have "dget (mr_users r) u = Some x" using assms by (simp add: room_ok_def)
      with None show False by simp
    qed
    then have "u \<notin> set (dkeys (mr_users r))" "u \<notin> set (dkeys (mr_invited_users r))"
      using None by (simp_all only: dget_None_iff not_False_eq_True)
    moreover have "forget_user u r = r" using None by (simp add: forget_user_def)
    ultimately show ?thesis by (simp only: Diff_insert0 Diff_empty) simp
  next
    case (Some ref)
    have "mr_room_id (set_names n xs q) = mr_room_id q" for n xs and q :: "'a matrix_room_scheme"
      by (simp add: set_names_def)
    moreover have "fst ` set (ddel d u) = fst ` set d - {u}" for d :: "(string, nat) dict"
      using ddel_keys[of d u] by simp
    ultimately show ?thesis using Some by (simp add: forget_user_def)
  qed
  then show "set (dkeys (mr_users (forget_user u r))) = set (dkeys (mr_users r)) - {u}"
    "set (dkeys (mr_invited_users (forget_user u r))) = set (dkeys (mr_invited_users r)) - {u}"
    "mr_room_id (forget_user u r) = mr_room_id r" by blast+
qed

text \<open>The rooms and the machine of a client after its room \<open>i\<close> was replaced.\<close>

definition with_room :: "string \<Rightarrow> matrix_room \<Rightarrow> ('a, 's, 'g, 'o, 'c, 'e) client \<Rightarrow> ('a, 's, 'g, 'o, 'c, 'e) client" where
  "with_room i r c = c \<lparr> cl_rooms := dset (cl_rooms c) i r \<rparr>"

lemma with_room_simps [simp]:
  "dget (cl_rooms (with_room i r c)) j = (if j = i then Some r else dget (cl_rooms c) j)"
  "with_room i r (with_room i r' c) = with_room i r c" "cl_olm (with_room i r c) = cl_olm c"
proof -
  have "dset (dset d i r') i r = dset d i r" for d by (induction d i r rule: dset.induct) auto
  then show "with_room i r (with_room i r' c) = with_room i r c" by (simp add: with_room_def)
qed (simp_all add: with_room_def)

lemma with_room_same: "dget (cl_rooms c) i = Some r \<Longrightarrow> with_room i r c = c"
  by (simp add: with_room_def dset_same)

lemma on_room_run: "dget (cl_rooms c) i = Some r \<Longrightarrow> m r = (x, r') \<Longrightarrow> on_room i m c = (x, with_room i r' c)"
  by (simp add: on_room_def with_room_def)

lemma on_room_reads: "dget (cl_rooms c) i = Some r \<Longrightarrow> on_room i (reads f) c = (Inr (f r), c)"
  using on_room_run[of c i r "reads f"] with_room_same[of c i r] by (simp add: op_basic)

lemma prune_run:
  assumes "room_ok r" "dget (cl_rooms c) i = Some r" "u \<in> set (dkeys (mr_users r))"
  shows "prune_member i joined u c = (Inr (),
     if u \<notin> set (dkeys (mr_invited_users r)) \<and> u \<notin> joined then with_room i (forget_user u r) c else c)"
proof -
  obtain ref where ref: "dget (mr_users r) u = Some ref" using assms(3) by (metis dget_None_iff option.exhaust)
  then have "mu_invited (user_at r ref) \<longleftrightarrow> u \<in> set (dkeys (mr_invited_users r))"
    using assms(1) by (auto simp: room_ok_def din_iff)
  moreover have "on_room i (remove_member u) c = (Inr True, with_room i (forget_user u r) c)"
    using on_room_run[OF assms(2), of "remove_member u"] remove_member_run[OF assms(1), of u] ref by (simp add: din_def)
  ultimately show ?thesis using ref
    by (simp add: prune_member_def bnd_def[of "on_room i (reads _)"] on_room_reads[OF assms(2)]) (simp add: bnd_def op_basic)
qed

lemma prune_all_run:
  assumes "room_ok r" "dget (cl_rooms c) i = Some r" "distinct us" "set us \<subseteq> set (dkeys (mr_users r))"
  shows "\<exists>r'. for_each (prune_member i joined) us c = (Inr (), with_room i r' c) \<and> room_ok r' \<and> mr_room_id r' = mr_room_id r \<and>
    set (dkeys (mr_invited_users r')) = set (dkeys (mr_invited_users r)) \<and>
    set (dkeys (mr_users r')) = set (dkeys (mr_users r)) -
      {u \<in> set us. u \<notin> set (dkeys (mr_invited_users r)) \<and> u \<notin> joined}"
  using assms
proof (induction us arbitrary: r c)
  case Nil
  then show ?case by (intro exI[of _ r]) (simp add: op_basic with_room_same)
next
  case (Cons u us)
  let ?gone = "u \<notin> set (dkeys (mr_invited_users r)) \<and> u \<notin> joined"
  let ?r = "if ?gone then forget_user u r else r"
  let ?c = "with_room i ?r c"
  have step: "prune_member i joined u c = (Inr (), ?c)"
    using prune_run[OF Cons.prems(1,2), of u joined] Cons.prems(2,4) by (simp add: with_room_same)
  note forgot = forget_users_frame[OF Cons.prems(1), of u]
  have users: "set (dkeys (mr_users ?r)) = set (dkeys (mr_users r)) - (if ?gone then {u} else {})"
    and invited: "set (dkeys (mr_invited_users ?r)) = set (dkeys (mr_invited_users r))"
    and id: "mr_room_id ?r = mr_room_id r"
    using forgot by (simp_all only: if_True if_False Diff_empty split: if_split) blast+
  have "room_ok ?r" using forget_user_ok[OF Cons.prems(1)] Cons.prems(1) by simp
  moreover have "dget (cl_rooms ?c) i = Some ?r" by simp
  moreover have "distinct us" using Cons.prems(3) by simp
  moreover have "set us \<subseteq> set (dkeys (mr_users ?r))" using Cons.prems(3,4) users by auto
  ultimately obtain r' where r': "for_each (prune_member i joined) us ?c = (Inr (), with_room i r' ?c)" "room_ok r'"
    "mr_room_id r' = mr_room_id ?r" "set (dkeys (mr_invited_users r')) = set (dkeys (mr_invited_users ?r))"
    "set (dkeys (mr_users r')) = set (dkeys (mr_users ?r)) -
      {u \<in> set us. u \<notin> set (dkeys (mr_invited_users ?r)) \<and> u \<notin> joined}" using Cons.IH by blast
  have "set (dkeys (mr_users r')) = set (dkeys (mr_users r)) -
      {v \<in> set (u # us). v \<notin> set (dkeys (mr_invited_users r)) \<and> v \<notin> joined}"
    unfolding r'(5) users invited by auto
  moreover have "for_each (prune_member i joined) (u # us) c = (Inr (), with_room i r' c)"
    using step r'(1) by (simp add: bnd_def)
  ultimately show ?case using r'(2,3,4) id invited by (intro exI[of _ r']) simp
qed

lemma bnd_run: "m c = (Inr a, t) \<Longrightarrow> bnd m f c = f a t"
  by (simp add: bnd_def)

lemma invited_are_members:
  assumes "room_ok r"
  shows "set (dkeys (mr_invited_users r)) \<subseteq> set (dkeys (mr_users r))"
proof
  fix u
  assume "u \<in> set (dkeys (mr_invited_users r))"
  then obtain x where "dget (mr_invited_users r) u = Some x" by (metis dget_None_iff option.exhaust)
  then have "dget (mr_users r) u = Some x" using assms by (simp add: room_ok_def)
  then show "u \<in> set (dkeys (mr_users r))" by (metis dget_None_iff option.distinct(1))
qed

lemma track_members_run:
  assumes "dget (cl_rooms c) i = Some r"
  obtains t where "track_members i c = (Inr (), t)" "cl_rooms t = cl_rooms c" "\<And>j. outbound_at t j = outbound_at c j"
proof -
  have run: "track_members i c = (if mr_encrypted r then if_olm (update_tracked_users (dkeys (mr_users r))) else ret ()) c"
    by (simp add: track_members_def bnd_def[of "on_room i (reads id)"] on_room_reads[OF assms])
  show ?thesis
  proof (cases "cl_olm c")
    case None
    then have "track_members i c = (Inr (), c)" by (simp add: run if_olm_def has_olm_def op_basic)
    then show ?thesis using that by blast
  next
    case (Some s)
    let ?t = "if mr_encrypted r then c \<lparr> cl_olm := Some (snd (update_tracked_users (dkeys (mr_users r)) s)) \<rparr> else c"
    have "track_members i c = (Inr (), ?t)"
      using Some by (simp add: run if_olm_def has_olm_def op_basic on_olm_def update_tracked_users_def)
    moreover have "outbound_at ?t j = outbound_at c j" for j
      using Some by (simp add: outbound_at_def update_tracked_users_def op_basic)
    ultimately show ?thesis using that by simp
  qed
qed

lemma add_member_frame:
  assumes "room_ok r"
  shows "\<exists>r' b. add_member u dn av False r = (Inr b, r') \<and> room_ok r' \<and> mr_room_id r' = mr_room_id r \<and>
    set (dkeys (mr_invited_users r')) = set (dkeys (mr_invited_users r)) \<and>
    set (dkeys (mr_users r')) = insert u (set (dkeys (mr_users r)))"
proof (cases "din u (mr_users r)")
  case True
  then have "insert u (set (dkeys (mr_users r))) = set (dkeys (mr_users r))" by (simp only: din_iff insert_absorb)
  then show ?thesis using add_member_present[OF True, of dn av False] assms by (intro exI[of _ r] exI[of _ False]) simp
next
  case False
  let ?r = "snd (add_member u dn av False r)"
  note new = add_member_new[OF assms False, of dn av False]
  have "mr_invited_users ?r = mr_invited_users r"
    using False
    by (auto simp: add_member_def op_basic bnd_def names_append_def set_names_def Let_def split: if_splits)
  moreover have "mr_room_id ?r = mr_room_id r"
    using keepsD[OF room_id_add[of "mr_room_id r" u dn av False], of r] by simp
  moreover have "set (dkeys (mr_users ?r)) = insert u (set (dkeys (mr_users r)))"
    using new(3) dom_dget[of "mr_users ?r"] dom_dget[of "mr_users r"] by (simp only: dom_fun_upd option.simps if_False)
  ultimately show ?thesis using new(1,2) by (intro exI[of _ ?r] exI[of _ True]) (simp add: prod_eq_iff)
qed

lemma add_all_run:
  assumes "room_ok r" "dget (cl_rooms c) i = Some r"
  shows "\<exists>r'. for_each (\<lambda>(u, dn, av). bnd (on_room i (add_member u dn av False)) (\<lambda>_. ret ())) ms c =
      (Inr (), with_room i r' c) \<and> room_ok r' \<and> mr_room_id r' = mr_room_id r \<and>
    set (dkeys (mr_users r')) = set (dkeys (mr_users r)) \<union> fst ` set ms"
  using assms
proof (induction ms arbitrary: r c)
  case Nil
  then show ?case by (intro exI[of _ r]) (simp add: op_basic with_room_same)
next
  case (Cons m ms)
  obtain u dn av where m: "m = (u, dn, av)" by (cases m)
  from add_member_frame[OF Cons.prems(1), of u dn av] obtain r1 b where r1: "add_member u dn av False r = (Inr b, r1)"
    "room_ok r1" "mr_room_id r1 = mr_room_id r" "set (dkeys (mr_users r1)) = insert u (set (dkeys (mr_users r)))" by blast
  have step: "on_room i (add_member u dn av False) c = (Inr b, with_room i r1 c)"
    using Cons.prems(2) r1(1) by (simp add: on_room_run[of c i r "add_member u dn av False"])
  have "dget (cl_rooms (with_room i r1 c)) i = Some r1" by simp
  from Cons.IH[OF r1(2) this] obtain r' where r':
    "for_each (\<lambda>(u, dn, av). bnd (on_room i (add_member u dn av False)) (\<lambda>_. ret ())) ms (with_room i r1 c) =
      (Inr (), with_room i r' (with_room i r1 c))" "room_ok r'" "mr_room_id r' = mr_room_id r1"
    "set (dkeys (mr_users r')) = set (dkeys (mr_users r1)) \<union> fst ` set ms" by blast
  have "set (dkeys (mr_users r')) = set (dkeys (mr_users r)) \<union> fst ` set (m # ms)"
    unfolding r'(4) r1(4) m by auto
  moreover have one: "bnd (on_room i (add_member u dn av False)) (\<lambda>_. ret ()) c = (Inr (), with_room i r1 c)"
    using step by (simp add: bnd_def ret_def)
  moreover have "for_each (\<lambda>(u, dn, av). bnd (on_room i (add_member u dn av False)) (\<lambda>_. ret ())) (m # ms) c = (Inr (), with_room i r' c)"
    using r'(1) by (simp add: m bnd_run[of "bnd (on_room i (add_member u dn av False)) (\<lambda>_. ret ())", OF one])
  ultimately show ?case using r'(2,3) r1(3) by (intro exI[of _ r']) (simp only: simp_thms)
qed

text \<open>The answer to \<^verbatim>\<open>joined_members\<close> leaves exactly the joined users and the invited ones in the room, and
  every session untouched: in contrast to a sync it does not drop the session of a room whose
  members it changes, so a user it removes can read what is sent with the shared session next.\<close>

theorem joined_members_exact:
  assumes "rooms_ok c" "dget (cl_rooms c) room_id = Some room"
  shows "\<exists>t. handle_joined_members room_id members c = (Inr (), t) \<and> rooms_ok t \<and>
    room_members t room_id = fst ` set members \<union> set (dkeys (mr_invited_users room)) \<and>
    (\<forall>i. outbound_at t i = outbound_at c i)"
proof -
  have ok: "room_ok room" "mr_room_id room = room_id" using assms by (auto simp: rooms_ok_def)
  have "distinct (dkeys (mr_users room))" using ok(1) by (simp add: room_ok_def dwf_def)
  from prune_all_run[OF ok(1) assms(2) this order_refl, of "fst ` set members"] obtain r1 where r1:
    "for_each (prune_member room_id (fst ` set members)) (dkeys (mr_users room)) c = (Inr (), with_room room_id r1 c)"
    "room_ok r1" "mr_room_id r1 = mr_room_id room"
    "set (dkeys (mr_users r1)) = set (dkeys (mr_users room)) -
      {u \<in> set (dkeys (mr_users room)). u \<notin> set (dkeys (mr_invited_users room)) \<and> u \<notin> fst ` set members}" by blast
  have "dget (cl_rooms (with_room room_id r1 c)) room_id = Some r1" by simp
  from add_all_run[OF r1(2) this, of members] obtain r2 where r2:
    "for_each (\<lambda>(u, dn, av). bnd (on_room room_id (add_member u dn av False)) (\<lambda>_. ret ())) members (with_room room_id r1 c) =
      (Inr (), with_room room_id r2 (with_room room_id r1 c))" "room_ok r2" "mr_room_id r2 = mr_room_id r1"
    "set (dkeys (mr_users r2)) = set (dkeys (mr_users r1)) \<union> fst ` set members" by blast
  let ?r3 = "r2 \<lparr> mr_members_synced := True \<rparr>"
  have synced: "on_room room_id (modify (\<lambda>r. r \<lparr> mr_members_synced := True \<rparr>)) (with_room room_id r2 c) =
      (Inr (), with_room room_id ?r3 c)"
    using on_room_run[of "with_room room_id r2 c" room_id r2 "modify (\<lambda>r. r \<lparr> mr_members_synced := True \<rparr>)"]
    by (simp add: op_basic)
  have room3: "room_ok ?r3" "mr_room_id ?r3 = room_id"
    using r2(2,3) r1(3) ok(2) by (simp_all add: room_ok_def names_of_def user_at_def)
  have c3: "rooms_ok (with_room room_id ?r3 c)" using assms(1) room3 by (simp add: rooms_ok_def)
  have sub: "set (dkeys (mr_invited_users room)) \<subseteq> set (dkeys (mr_users room))"
    using ok(1) by (rule invited_are_members)
  have members: "set (dkeys (mr_users ?r3)) = fst ` set members \<union> set (dkeys (mr_invited_users room))"
    using r1(4) r2(4) sub by auto
  obtain t where t: "track_members room_id (with_room room_id ?r3 c) = (Inr (), t)" "cl_rooms t = cl_rooms (with_room room_id ?r3 c)"
    "\<forall>i. outbound_at t i = outbound_at c i"
    using track_members_run[of "with_room room_id ?r3 c" room_id ?r3] by (auto simp: outbound_at_def)
  have "handle_joined_members room_id members c = (Inr (), t)"
    using assms(2) r1(1) r2(1) synced t(1) by (simp add: handle_joined_members_def bnd_def op_basic)
  moreover have "room_members t room_id = fst ` set members \<union> set (dkeys (mr_invited_users room))"
    using t(2) members by (simp add: room_members_def)
  moreover have "rooms_ok t" using c3 t(2) by (simp add: rooms_ok_def)
  ultimately show ?thesis using t(3) by blast
qed

theorem joined_members_exact_witness:
  "\<exists>t. handle_joined_members ''!r:x'' [(''@b:x'', None, None), (''@c:x'', None, None)] (sample_client True) = (Inr (), t) \<and>
     room_members t ''!r:x'' = {''@b:x'', ''@c:x''} \<and> session_shared t ''!r:x''"
proof -
  have room: "dget (cl_rooms (sample_client True)) ''!r:x'' = Some (sample_room \<lparr> mr_encrypted := True \<rparr>)"
    by (simp add: sample_client_def)
  have none: "mr_invited_users (sample_room \<lparr> mr_encrypted := True \<rparr>) = []" by code_simp
  have shared: "session_shared (sample_client True) ''!r:x''" by code_simp
  from joined_members_exact[OF sample_client_ok room, of "[(''@b:x'', None, None), (''@c:x'', None, None)]"]
  obtain t where t: "handle_joined_members ''!r:x'' [(''@b:x'', None, None), (''@c:x'', None, None)] (sample_client True) = (Inr (), t)"
    "room_members t ''!r:x'' = {''@b:x'', ''@c:x''}" "outbound_at t ''!r:x'' = outbound_at (sample_client True) ''!r:x''"
    by (auto simp: none)
  then have "session_shared t ''!r:x''" using shared by (simp add: session_shared_def)
  with t show ?thesis by blast
qed

end
