(* ===== verification/Nio_Client_Errors.thy ===== *)
theory Nio_Client_Errors
  imports Nio_Client_Trust
begin

text \<open>
  Where an answer of the server loses events or the login of the client.
\<close>

section \<open>Ignored to-device events\<close>

text \<open>What the loop over the to-device events leaves alone.\<close>

definition keeps_rooms :: "('a, 's, 'g, 'o, 'c, 'e) client \<Rightarrow> ('a, 's, 'g, 'o, 'c, 'e) client \<Rightarrow> bool" where
  "keeps_rooms c t \<longleftrightarrow> cl_rooms t = cl_rooms c \<and> cl_invited_rooms t = cl_invited_rooms c \<and>
     cl_next_batch t = cl_next_batch c \<and> cl_disposed t = cl_disposed c \<and> cl_config t = cl_config c \<and>
     cl_device_transport t = cl_device_transport c"

interpretation kr: evolution keeps_rooms
  by unfold_locales (auto simp: keeps_rooms_def)

lemma kr_steps [simp]: "moves keeps_rooms (on_olm m)" "moves keeps_rooms (dispatch r e x)"
  by (auto simp: moves_def keeps_rooms_def on_olm_def dispatch_def op_basic split: option.splits prod.splits)

lemma kr_to_device: "moves keeps_rooms (iter_to_device env i ps)"
  by (induction ps arbitrary: i) (auto intro!: kr.moves_rules)

lemma kr_save_token: "moves keeps_rooms (if_olm m)"
  unfolding if_olm_def by (intro kr.moves_rules kr_steps)

lemma ignored_raises: "Ignored \<in> set ps \<Longrightarrow> isl (fst (iter_to_device env i ps c))"
proof (induction ps arbitrary: i c)
  case (Cons p ps)
  show ?case
  proof (cases "p = Ignored")
    case False
    with Cons have "isl (fst (iter_to_device env (Suc i) ps t))" for t by simp
    with False show ?thesis
      by (auto simp: bnd_def op_basic split: prod.splits sum.splits)
  qed (simp add: op_basic)
qed simp

lemma valid_unchanged:
  assumes "draft4 validate" "tidy s" "no_defaults s" "fst (validate s v)"
  shows "validate s v = (True, v)"
proof -
  have "snd (validate s v) = v" using assms(1-3) unfolding draft4_def by blast
  with assms(4) show ?thesis by (simp add: prod_eq_iff)
qed

lemma parsed_ignored:
  assumes "draft4 validate" "get_to_device validate (JObj td) = Inr ps"
    and "dget td ''events'' = Some (JArr es)" "JObj d \<in> set es"
    and "fst (validate Schemas_to_device (JObj d))" "dget d ''content'' = Some (JObj [])"
  shows "Ignored \<in> set ps"
proof -
  have "validate Schemas_to_device (JObj d) = (True, JObj d)"
    using assms(1,5) by (simp add: valid_unchanged)
  then have "ToDeviceEvent_parse_event validate (JObj d) = Inr Ignored"
    using assms(6) by (simp add: ToDeviceEvent_parse_event_def verify_parsed_def item_def)
  moreover have "rmap (ToDeviceEvent_parse_event validate) es = Inr ps"
    using assms(2,3) by (simp add: get_to_device_def get_or_def iterated_def)
  moreover have "rmap f xs = Inr ys \<Longrightarrow> x \<in> set xs \<Longrightarrow> f x = Inr y \<Longrightarrow> y \<in> set ys"
    for f :: "json \<Rightarrow> exn + to_device_event parsed" and xs ys x y
    by (induction xs arbitrary: ys) (auto simp: rbind_Inr_iff)
  ultimately show ?thesis using assms(4) by blast
qed

text \<open>C36: One valid to-device event with an empty content makes the handling of a whole sync raise before any room
  is touched, after the position of the sync was stored: the same answer is skipped the next time,
  so its invitations, messages and state are lost.\<close>

theorem empty_to_device_loses_sync:
  assumes "draft4 (ev_validate env)" "get_to_device (ev_validate env) (JObj td) = Inr (sy_to_device response)"
    and "dget td ''events'' = Some (JArr es)" "JObj d \<in> set es"
    and "fst (ev_validate env Schemas_to_device (JObj d))" "dget d ''content'' = Some (JObj [])"
    and "\<not> cl_disposed c" "cl_device_transport c \<in> {None, Some ''classic''}" "cl_next_batch c \<noteq> sy_next_batch response"
  shows "\<exists>e t u. handle_sync env response c = (Inl e, t) \<and> handle_sync env response t = (Inr (), u) \<and>
    cl_rooms u = cl_rooms c \<and> cl_invited_rooms u = cl_invited_rooms c \<and> cl_next_batch u = sy_next_batch response"
proof -
  have ignored: "Ignored \<in> set (sy_to_device response)" by (rule parsed_ignored[OF assms(1-6)])
  let ?c1 = "c \<lparr> cl_sync_started := True, cl_device_transport := Some ''classic'', cl_next_batch := sy_next_batch response \<rparr>"
  let ?rest = "andthen (bnd (reads (\<lambda>c. cc_store_sync_tokens (cl_config c))) (\<lambda>b.
                  if b then if_olm (on_store (save_sync_token (sy_next_batch response))) else ret ()))
        (iter_sync env False response)"
  have run: "handle_sync env response c = ?rest ?c1"
    using assms(7-9)
    by (auto simp: handle_sync_def claim_sync_transport_def begin_ordinary_sync_def assert_not_disposed_def bnd_def op_basic)
  obtain x c2 where c2: "bnd (reads (\<lambda>c. cc_store_sync_tokens (cl_config c))) (\<lambda>b.
                  if b then if_olm (on_store (save_sync_token (sy_next_batch response))) else ret ()) ?c1 = (x, c2)"
    by (cases "bnd (reads (\<lambda>c. cc_store_sync_tokens (cl_config c))) (\<lambda>b.
                  if b then if_olm (on_store (save_sync_token (sy_next_batch response))) else ret ()) ?c1")
  have "moves keeps_rooms (bnd (reads (\<lambda>c. cc_store_sync_tokens (cl_config c))) (\<lambda>b.
                  if b then if_olm (on_store (save_sync_token (sy_next_batch response))) else ret ()))"
    by (intro kr.moves_rules kr_save_token)
  then have k2: "keeps_rooms ?c1 c2" using c2 unfolding moves_def by (metis snd_conv)
  obtain y c3 where c3: "iter_to_device env 0 (sy_to_device response) c2 = (y, c3)"
    by (cases "iter_to_device env 0 (sy_to_device response) c2")
  have "isl y" using ignored_raises[OF ignored, of env 0 c2] c3 by simp
  then obtain e where y: "y = Inl e" by (cases y) simp_all
  have k3: "keeps_rooms c2 c3" using kr_to_device[of env 0 "sy_to_device response"] c3 unfolding moves_def by (metis snd_conv)
  obtain e' t where t: "handle_sync env response c = (Inl e', t)" "keeps_rooms ?c1 t"
  proof (cases x)
    case (Inl z)
    then have "handle_sync env response c = (Inl z, c2)" unfolding run by (simp only: bnd_def[of "bnd _ _"] c2 prod.case sum.case)
    with k2 that show ?thesis by blast
  next
    case (Inr z)
    have "iter_sync env False response c2 = (Inl e, c3)" using c3 y by (simp add: iter_sync_def bnd_def)
    with Inr have "handle_sync env response c = (Inl e, c3)" unfolding run by (simp only: bnd_def[of "bnd _ _"] c2 prod.case sum.case)
    with kr.chained[OF k2 k3] that show ?thesis by blast
  qed
  then have "handle_sync env response t = (Inr (), t \<lparr> cl_sync_started := True, cl_device_transport := Some ''classic'' \<rparr>)"
    using assms(7)
    by (simp add: handle_sync_def claim_sync_transport_def begin_ordinary_sync_def assert_not_disposed_def bnd_def op_basic
        keeps_rooms_def)
  with t show ?thesis by (auto simp: keeps_rooms_def)
qed

definition sample_empty_event :: jobj where
  "sample_empty_event =
     [(''sender'', JStr ''@b:x''), (''type'', JStr ''m.dummy''), (''content'', JObj [])]"

theorem empty_to_device_loses_sync_witness:
  "\<exists>e t u. handle_sync (sample_env \<lparr> ev_validate := plain_validator \<rparr>) (sample_sync [Ignored] [sample_leave]) (sample_client True) = (Inl e, t) \<and>
     handle_sync (sample_env \<lparr> ev_validate := plain_validator \<rparr>) (sample_sync [Ignored] [sample_leave]) t = (Inr (), u) \<and>
     cl_rooms u = cl_rooms (sample_client True) \<and> cl_next_batch u = ''s1''"
proof -
  let ?env = "sample_env \<lparr> ev_validate := plain_validator \<rparr>"
  let ?td = "[(''events'', JArr [JObj sample_empty_event])]"
  have parsed: "get_to_device (ev_validate ?env) (JObj ?td) = Inr (sy_to_device (sample_sync [Ignored] [sample_leave]))"
    by code_simp
  have valid: "fst (ev_validate ?env Schemas_to_device (JObj sample_empty_event))" by code_simp
  have "draft4 (ev_validate ?env)" by (simp add: plain_validator_draft4)
  from empty_to_device_loses_sync[OF this parsed _ _ valid, of "[JObj sample_empty_event]" "sample_client True"]
  show ?thesis
    by (auto simp: sample_empty_event_def sample_client_def Client_def sample_sync_def)
qed

section \<open>A failed share of a key\<close>

text \<open>Any valid error the server answers a share of a key with logs the client out, if there was somebody to
  share with: the set of the users takes the place of the flag of a soft logout, and the id of the room
  that of the delay of a retry, so both are lost.\<close>

theorem failed_share_logs_out:
  assumes "draft4 validate" "fst (validate Schemas_error (JObj d))"
    and "dget d ''error'' = Some message" "dget d ''errcode'' = Some code" "users \<noteq> {}"
  shows "\<exists>e. ShareGroupSessionError_from_dict validate room_id users (JObj d) = Inr e \<and> er_room_id e = [] \<and>
    receive_response env (ErrorReceived e) c = (Inr (ErrorReceived e), c \<lparr> cl_access_token := [] \<rparr>)"
proof -
  have "validate Schemas_error (JObj d) = (True, JObj d)"
    using assms(1,2) by (simp add: valid_unchanged)
  then show ?thesis
    using assms(3-5)
    by (simp add: ShareGroupSessionError_from_dict_def item_def unknown_error_def receive_response_def handle_logout_def
        bnd_def op_basic)
qed

theorem failed_share_logs_out_witness:
  "\<exists>e. ShareGroupSessionError_from_dict plain_validator ''!r:x'' {(''@a:x'', ''PHONE'')}
       (JObj [(''errcode'', JStr ''M_LIMIT_EXCEEDED''), (''error'', JStr ''slow down'')]) = Inr e \<and> er_room_id e = [] \<and>
     receive_response sample_env (ErrorReceived e) (sample_client True) =
       (Inr (ErrorReceived e), sample_client True \<lparr> cl_access_token := [] \<rparr>)"
proof -
  have "fst (plain_validator Schemas_error (JObj [(''errcode'', JStr ''M_LIMIT_EXCEEDED''), (''error'', JStr ''slow down'')]))"
    by code_simp
  then show ?thesis by (rule failed_share_logs_out[OF plain_validator_draft4]) simp_all
qed

end
