(* ===== verification/Nio_Responses.thy ===== *)
theory Nio_Responses
  imports Nio_Sync
begin

text \<open>
  The responses of \<^verbatim>\<open>src/nio/responses.py\<close> beside the syncs: one constructor per class and one
  definition per \<^verbatim>\<open>from_dict\<close>. An answer is the response, the error response the class falls back
  to, or the exception that leaves the parser. A field that is copied from the answer of the
  server is JSON, an argument of \<^verbatim>\<open>from_dict\<close> has the type its caller passes.
\<close>

section \<open>Data\<close>

record room_member =
  rb_user_id :: string
  rb_display_name :: json
  rb_avatar_url :: json

record public_room =
  pr_guest_can_join :: json
  pr_num_joined_members :: json
  pr_room_id :: json
  pr_world_readable :: json
  pr_avatar_url :: json
  pr_canonical_alias :: json
  pr_join_rule :: json
  pr_name :: json
  pr_room_type :: json
  pr_topic :: json

datatype file_body = FileBytes string | FilePath string

datatype account_response =
    DiscoveryInfoResponse string "string option"
  | RegisterResponse json json json
  | RegisterInteractiveResponse "json list" json json json json json json
  | LoginInfoResponse "json list"
  | LoginResponse json json json
  | LogoutResponse
  | ChangePasswordResponse
  | WhoamiResponse json json json
  | GetOpenIDTokenResponse json json json json
  | UploadFilterResponse json

datatype profile_response =
    ProfileGetResponse json json jobj
  | ProfileGetDisplayNameResponse json
  | ProfileGetAvatarResponse json
  | PresenceGetResponse string json json json json

datatype room_response =
    JoinedMembersResponse "room_member list" string
  | JoinedRoomsResponse json
  | RoomEventIdResponse string json string
  | DirectRoomsResponse json
  | RoomGetStateResponse json string
  | RoomGetStateEventResponse json string string string
  | RoomGetEventResponse event
  | RoomResolveAliasResponse string json json
  | RoomDeleteAliasResponse string
  | RoomPutAliasResponse string string
  | RoomGetVisibilityResponse string json
  | RoomIdResponse string json
  | RoomCreateResponse json

datatype history_response =
    RoomEventRelationsResponse string string "event list" json json json
  | RoomThreadsResponse string "event list" json
  | SpaceGetHierarchyResponse json json
  | RoomMessagesResponse string "event list" json json
  | RoomContextResponse string json json event "event list" "event list" "event list"
  | PublicRoomsResponse "public_room list" json json json

datatype empty_response =
    EmptyResponse string
  | EmptyResponseWithRoomId string string

datatype key_response =
    ShareGroupSessionResponse string "(string \<times> string) set"
  | KeysUploadResponse json json
  | KeysQueryResponse jobj json "string set option"
  | KeysClaimResponse json json string
  | RoomKeyRequestResponse string string "string option" string
  | ToDeviceResponse Nio_Olm.to_device_message

datatype content_response =
    ContentRepositoryConfigResponse json
  | UploadResponse json
  | DownloadResponse file_body string "string option"
  | ThumbnailResponse file_body string "string option"

definition received :: "'r \<Rightarrow> 'r answer" where
  "received r = Inr (Inr r)"

definition failed :: "exn + error_response \<Rightarrow> 'r answer" where
  "failed e = rbind e (\<lambda>x. Inr (Inl x))"

text \<open>\<^verbatim>\<open>s.rstrip("/")\<close> of a JSON value.\<close>

definition json_rstrip :: "json \<Rightarrow> exn + string" where
  "json_rstrip v =
     (case v of JStr s \<Rightarrow> Inr (rev (dropWhile (\<lambda>c. c = CHR ''/'') (rev s))) | _ \<Rightarrow> Inl (AttributeError ''rstrip''))"

section \<open>Accounts\<close>

definition DiscoveryInfoResponse_from_dict :: "validator \<Rightarrow> json \<Rightarrow> account_response answer" where
  "DiscoveryInfoResponse_from_dict validate =
     verify_response validate Schemas_discovery_info (ErrorResponse_from_dict validate ''DiscoveryInfoError'') (\<lambda>v.
     rbind (item v ''m.homeserver'') (\<lambda>h.
     rbind (item h ''base_url'') (\<lambda>u.
     rbind (json_rstrip u) (\<lambda>homeserver_url.
     rbind (get_or v ''m.identity_server'' (JObj [])) (\<lambda>i.
     rbind (get_or i ''base_url'' (JStr [])) (\<lambda>b.
     rbind (json_rstrip b) (\<lambda>identity.
     received (DiscoveryInfoResponse homeserver_url (if identity = [] then None else Some identity)))))))))"

definition RegisterResponse_from_dict :: "validator \<Rightarrow> json \<Rightarrow> account_response answer" where
  "RegisterResponse_from_dict validate =
     verify_response validate Schemas_register (ErrorResponse_from_dict validate ''RegisterErrorResponse'') (\<lambda>v.
     rbind (item v ''user_id'') (\<lambda>u.
     rbind (item v ''device_id'') (\<lambda>d.
     rbind (item v ''access_token'') (\<lambda>t.
     received (RegisterResponse u d t)))))"

text \<open>The loop keeps the stages of the last flow; without a flow the name is not bound.\<close>

definition RegisterInteractiveResponse_from_dict :: "validator \<Rightarrow> json \<Rightarrow> account_response answer" where
  "RegisterInteractiveResponse_from_dict validate =
     verify_response validate Schemas_register_flows
       (ErrorResponse_from_dict validate ''RegisterInteractiveError'') (\<lambda>v.
     rbind (item v ''flows'') (\<lambda>f.
     rbind (iterated f) (\<lambda>flows.
     rbind (rmap (\<lambda>flow. rbind (item flow ''stages'') iterated) flows) (\<lambda>all_stages.
     rbind (if all_stages = [] then Inl (UnboundLocalError ''stages'') else Inr (last all_stages)) (\<lambda>stages.
     rbind (item v ''params'') (\<lambda>params.
     rbind (item v ''session'') (\<lambda>session.
     rbind (get_or v ''completed'' JNull) (\<lambda>completed.
     rbind (get_or v ''user_id'' JNull) (\<lambda>u.
     rbind (get_or v ''device_id'' JNull) (\<lambda>d.
     rbind (get_or v ''access_token'' JNull) (\<lambda>t.
     received (RegisterInteractiveResponse stages params session completed u d t))))))))))))"

definition LoginInfoResponse_from_dict :: "validator \<Rightarrow> json \<Rightarrow> account_response answer" where
  "LoginInfoResponse_from_dict validate =
     verify_response validate Schemas_login_info (ErrorResponse_from_dict validate ''LoginInfoError'') (\<lambda>v.
     rbind (item v ''flows'') (\<lambda>f.
     rbind (iterated f) (\<lambda>flows.
     rbind (rmap (\<lambda>flow. item flow ''type'') flows) (\<lambda>types.
     received (LoginInfoResponse types)))))"

definition LoginResponse_from_dict :: "validator \<Rightarrow> json \<Rightarrow> account_response answer" where
  "LoginResponse_from_dict validate =
     verify_response validate Schemas_login (ErrorResponse_from_dict validate ''LoginError'') (\<lambda>v.
     rbind (item v ''user_id'') (\<lambda>u.
     rbind (item v ''device_id'') (\<lambda>d.
     rbind (item v ''access_token'') (\<lambda>t.
     received (LoginResponse u d t)))))"

definition LogoutResponse_from_dict :: "validator \<Rightarrow> json \<Rightarrow> account_response answer" where
  "LogoutResponse_from_dict validate =
     verify_response validate Schemas_empty (ErrorResponse_from_dict validate ''LogoutError'')
       (\<lambda>_. received LogoutResponse)"

definition ChangePasswordResponse_from_dict :: "validator \<Rightarrow> json \<Rightarrow> account_response answer" where
  "ChangePasswordResponse_from_dict validate =
     verify_response validate Schemas_empty (ErrorResponse_from_dict validate ''ChangePasswordError'')
       (\<lambda>_. received ChangePasswordResponse)"

definition WhoamiResponse_from_dict :: "validator \<Rightarrow> json \<Rightarrow> account_response answer" where
  "WhoamiResponse_from_dict validate =
     verify_response validate Schemas_whoami (ErrorResponse_from_dict validate ''WhoamiError'') (\<lambda>v.
     rbind (item v ''user_id'') (\<lambda>u.
     rbind (get_or v ''device_id'' JNull) (\<lambda>d.
     rbind (get_or v ''is_guest'' (JBool False)) (\<lambda>g.
     received (WhoamiResponse u d g)))))"

definition GetOpenIDTokenResponse_from_dict :: "validator \<Rightarrow> json \<Rightarrow> account_response answer" where
  "GetOpenIDTokenResponse_from_dict validate =
     verify_response validate Schemas_get_openid_token (ErrorResponse_from_dict validate ''GetOpenIDTokenError'') (\<lambda>v.
     rbind (item v ''access_token'') (\<lambda>a.
     rbind (item v ''expires_in'') (\<lambda>e.
     rbind (item v ''matrix_server_name'') (\<lambda>m.
     rbind (item v ''token_type'') (\<lambda>t.
     received (GetOpenIDTokenResponse a e m t))))))"

definition UploadFilterResponse_from_dict :: "validator \<Rightarrow> json \<Rightarrow> account_response answer" where
  "UploadFilterResponse_from_dict validate =
     verify_response validate Schemas_upload_filter (ErrorResponse_from_dict validate ''UploadFilterError'') (\<lambda>v.
     rbind (item v ''filter_id'') (\<lambda>f. received (UploadFilterResponse f)))"

section \<open>Profiles and presence\<close>

definition ProfileGetResponse_from_dict :: "validator \<Rightarrow> json \<Rightarrow> profile_response answer" where
  "ProfileGetResponse_from_dict validate =
     verify_response validate Schemas_get_profile (ErrorResponse_from_dict validate ''ProfileGetError'') (\<lambda>v.
     rbind (get_or v ''displayname'' JNull) (\<lambda>d.
     rbind (get_or v ''avatar_url'' JNull) (\<lambda>a.
     rbind (items v) (\<lambda>ps.
     received (ProfileGetResponse d a (filter (\<lambda>(k, _). k \<notin> {''displayname'', ''avatar_url''}) ps))))))"

definition ProfileGetDisplayNameResponse_from_dict :: "validator \<Rightarrow> json \<Rightarrow> profile_response answer" where
  "ProfileGetDisplayNameResponse_from_dict validate =
     verify_response validate Schemas_get_displayname
       (ErrorResponse_from_dict validate ''ProfileGetDisplayNameError'') (\<lambda>v.
     rbind (get_or v ''displayname'' JNull) (\<lambda>d. received (ProfileGetDisplayNameResponse d)))"

definition ProfileGetAvatarResponse_from_dict :: "validator \<Rightarrow> json \<Rightarrow> profile_response answer" where
  "ProfileGetAvatarResponse_from_dict validate =
     verify_response validate Schemas_get_avatar (ErrorResponse_from_dict validate ''ProfileGetAvatarError'') (\<lambda>v.
     rbind (get_or v ''avatar_url'' JNull) (\<lambda>a. received (ProfileGetAvatarResponse a)))"

definition PresenceGetResponse_from_dict :: "validator \<Rightarrow> string \<Rightarrow> json \<Rightarrow> profile_response answer" where
  "PresenceGetResponse_from_dict validate user_id =
     verify_response validate Schemas_get_presence (ErrorResponse_from_dict validate ''PresenceGetError'') (\<lambda>v.
     rbind (get_or v ''presence'' (JStr ''offline'')) (\<lambda>p.
     rbind (get_or v ''last_active_ago'' JNull) (\<lambda>l.
     rbind (get_or v ''currently_active'' JNull) (\<lambda>c.
     rbind (get_or v ''status_msg'' JNull) (\<lambda>m.
     received (PresenceGetResponse user_id p l c m))))))"

section \<open>Rooms\<close>

definition JoinedMembersResponse_from_dict :: "validator \<Rightarrow> string \<Rightarrow> json \<Rightarrow> room_response answer" where
  "JoinedMembersResponse_from_dict validate room_id =
     verify_response validate Schemas_joined_members (ErrorWithRoomId_from_dict validate ''JoinedMembersError'' room_id) (\<lambda>v.
     rbind (item v ''joined'') (\<lambda>j.
     rbind (items j) (\<lambda>ps.
     rbind (rmap (\<lambda>(user_id, user_info).
       rbind (get_or user_info ''display_name'' JNull) (\<lambda>d.
       rbind (get_or user_info ''avatar_url'' JNull) (\<lambda>a.
       Inr \<lparr> rb_user_id = user_id, rb_display_name = d, rb_avatar_url = a \<rparr>))) ps) (\<lambda>members.
     received (JoinedMembersResponse members room_id)))))"

definition JoinedRoomsResponse_from_dict :: "validator \<Rightarrow> json \<Rightarrow> room_response answer" where
  "JoinedRoomsResponse_from_dict validate =
     verify_response validate Schemas_joined_rooms (ErrorResponse_from_dict validate ''JoinedRoomsError'') (\<lambda>v.
     rbind (item v ''joined_rooms'') (\<lambda>r. received (JoinedRoomsResponse r)))"

text \<open>The classes derived from one whose answer is an event id differ in their error.\<close>

definition RoomEventIdResponse_from_dict ::
  "validator \<Rightarrow> string \<Rightarrow> (json \<Rightarrow> exn + error_response) \<Rightarrow> string \<Rightarrow> json \<Rightarrow> room_response answer" where
  "RoomEventIdResponse_from_dict validate cls create_error room_id v =
     (case validate Schemas_room_event_id v of (ok, w) \<Rightarrow>
        if \<not> ok then failed (create_error w)
        else rbind (item w ''event_id'') (\<lambda>e. received (RoomEventIdResponse cls e room_id)))"

definition RoomSendResponse_from_dict :: "validator \<Rightarrow> string \<Rightarrow> json \<Rightarrow> room_response answer" where
  "RoomSendResponse_from_dict validate room_id =
     RoomEventIdResponse_from_dict validate ''RoomSendResponse''
       (ErrorWithRoomId_from_dict validate ''RoomSendError'' room_id) room_id"

definition RoomPutStateResponse_from_dict :: "validator \<Rightarrow> string \<Rightarrow> json \<Rightarrow> room_response answer" where
  "RoomPutStateResponse_from_dict validate room_id =
     RoomEventIdResponse_from_dict validate ''RoomPutStateResponse''
       (ErrorWithRoomId_from_dict validate ''RoomPutStateError'' room_id) room_id"

definition RoomRedactResponse_from_dict :: "validator \<Rightarrow> string \<Rightarrow> json \<Rightarrow> room_response answer" where
  "RoomRedactResponse_from_dict validate room_id =
     RoomEventIdResponse_from_dict validate ''RoomRedactResponse''
       (ErrorWithRoomId_from_dict validate ''RoomRedactError'' room_id) room_id"

definition DirectRoomsResponse_from_dict :: "validator \<Rightarrow> json \<Rightarrow> room_response answer" where
  "DirectRoomsResponse_from_dict validate v =
     rbind (get_or v ''errcode'' JNull) (\<lambda>code.
     if code \<noteq> JNull then failed (ErrorResponse_from_dict validate ''DirectRoomsErrorResponse'' v)
     else received (DirectRoomsResponse v))"

definition RoomGetStateResponse_from_dict :: "validator \<Rightarrow> string \<Rightarrow> json \<Rightarrow> room_response answer" where
  "RoomGetStateResponse_from_dict validate room_id v =
     (case validate Schemas_room_state v of (ok, w) \<Rightarrow>
        if \<not> ok then failed (ErrorWithRoomId_from_dict validate ''RoomGetStateError'' room_id w)
        else received (RoomGetStateResponse w room_id))"

definition RoomGetStateEventResponse_from_dict :: "string \<Rightarrow> string \<Rightarrow> string \<Rightarrow> json \<Rightarrow> room_response answer" where
  "RoomGetStateEventResponse_from_dict event_type state_key room_id v =
     received (RoomGetStateEventResponse v event_type state_key room_id)"

definition RoomGetEventResponse_from_dict :: "validator \<Rightarrow> json \<Rightarrow> room_response answer" where
  "RoomGetEventResponse_from_dict validate =
     verify_response validate Schemas_room_event (ErrorResponse_from_dict validate ''RoomGetEventError'') (\<lambda>v.
     rbind (parse_event validate v) (\<lambda>e. received (RoomGetEventResponse e)))"

definition RoomResolveAliasResponse_from_dict :: "validator \<Rightarrow> string \<Rightarrow> json \<Rightarrow> room_response answer" where
  "RoomResolveAliasResponse_from_dict validate room_alias =
     verify_response validate Schemas_room_resolve_alias
       (ErrorResponse_from_dict validate ''RoomResolveAliasError'') (\<lambda>v.
     rbind (item v ''room_id'') (\<lambda>r.
     rbind (item v ''servers'') (\<lambda>s.
     received (RoomResolveAliasResponse room_alias r s))))"

text \<open>Nothing of the answer is read: an error of the server is reported as success.\<close>

definition RoomDeleteAliasResponse_from_dict :: "string \<Rightarrow> json \<Rightarrow> room_response answer" where
  "RoomDeleteAliasResponse_from_dict room_alias v = received (RoomDeleteAliasResponse room_alias)"

definition RoomPutAliasResponse_from_dict :: "string \<Rightarrow> string \<Rightarrow> json \<Rightarrow> room_response answer" where
  "RoomPutAliasResponse_from_dict room_alias room_id v = received (RoomPutAliasResponse room_alias room_id)"

definition RoomGetVisibilityResponse_from_dict :: "validator \<Rightarrow> string \<Rightarrow> json \<Rightarrow> room_response answer" where
  "RoomGetVisibilityResponse_from_dict validate room_id =
     verify_response validate Schemas_room_get_visibility
       (ErrorResponse_from_dict validate ''RoomGetVisibilityError'') (\<lambda>v.
     rbind (item v ''visibility'') (\<lambda>x. received (RoomGetVisibilityResponse room_id x)))"

definition chunk_events :: "validator \<Rightarrow> json \<Rightarrow> exn + event list" where
  "chunk_events validate v =
     rbind (item v ''chunk'') (\<lambda>c. rbind (iterated c) (rmap (parse_event validate)))"

definition RoomEventRelationsResponse_from_dict :: "validator \<Rightarrow> string \<Rightarrow> string \<Rightarrow> json \<Rightarrow> history_response answer" where
  "RoomEventRelationsResponse_from_dict validate room_id event_id =
     verify_response validate Schemas_room_get_chunked_messages
       (ErrorResponse_from_dict validate ''RoomEventRelationsError'') (\<lambda>v.
     rbind (chunk_events validate v) (\<lambda>es.
     rbind (get_or v ''prev_batch'' JNull) (\<lambda>p.
     rbind (get_or v ''next_batch'' JNull) (\<lambda>n.
     rbind (get_or v ''recursion_depth'' JNull) (\<lambda>r.
     received (RoomEventRelationsResponse room_id event_id es p n r))))))"

definition RoomThreadsResponse_from_dict :: "validator \<Rightarrow> string \<Rightarrow> json \<Rightarrow> history_response answer" where
  "RoomThreadsResponse_from_dict validate room_id =
     verify_response validate Schemas_room_get_chunked_messages
       (ErrorResponse_from_dict validate ''RoomThreadsError'') (\<lambda>v.
     rbind (chunk_events validate v) (\<lambda>es.
     rbind (get_or v ''next_batch'' JNull) (\<lambda>n.
     received (RoomThreadsResponse room_id es n))))"

definition SpaceGetHierarchyResponse_from_dict :: "validator \<Rightarrow> json \<Rightarrow> history_response answer" where
  "SpaceGetHierarchyResponse_from_dict validate =
     verify_response validate Schemas_space_hierarchy
       (ErrorResponse_from_dict validate ''SpaceGetHierarchyError'') (\<lambda>v.
     rbind (get_or v ''next_batch'' JNull) (\<lambda>n.
     rbind (item v ''rooms'') (\<lambda>r.
     received (SpaceGetHierarchyResponse n r))))"

definition RoomMessagesResponse_from_dict :: "validator \<Rightarrow> string \<Rightarrow> json \<Rightarrow> history_response answer" where
  "RoomMessagesResponse_from_dict validate room_id =
     verify_response validate Schemas_room_messages (ErrorWithRoomId_from_dict validate ''RoomMessagesError'' room_id) (\<lambda>v.
     rbind (item v ''chunk'') (\<lambda>c.
     rbind (get_room_events validate c) (\<lambda>es.
     rbind (item v ''start'') (\<lambda>s.
     rbind (get_or v ''end'' JNull) (\<lambda>e.
     received (RoomMessagesResponse room_id es s e))))))"

definition RoomIdResponse_from_dict ::
  "validator \<Rightarrow> string \<Rightarrow> (json \<Rightarrow> exn + error_response) \<Rightarrow> json \<Rightarrow> room_response answer" where
  "RoomIdResponse_from_dict validate cls create_error v =
     (case validate Schemas_room_id v of (ok, w) \<Rightarrow>
        if \<not> ok then failed (create_error w)
        else rbind (item w ''room_id'') (\<lambda>r. received (RoomIdResponse cls r)))"

definition JoinResponse_from_dict :: "validator \<Rightarrow> json \<Rightarrow> room_response answer" where
  "JoinResponse_from_dict validate =
     RoomIdResponse_from_dict validate ''JoinResponse'' (ErrorResponse_from_dict validate ''JoinError'')"

definition RoomKnockResponse_from_dict :: "validator \<Rightarrow> json \<Rightarrow> room_response answer" where
  "RoomKnockResponse_from_dict validate =
     RoomIdResponse_from_dict validate ''RoomKnockResponse'' (ErrorResponse_from_dict validate ''RoomKnockError'')"

definition RoomCreateResponse_from_dict :: "validator \<Rightarrow> json \<Rightarrow> room_response answer" where
  "RoomCreateResponse_from_dict validate =
     verify_response validate Schemas_room_create_response (ErrorResponse_from_dict validate ''RoomCreateError'') (\<lambda>v.
     rbind (item v ''room_id'') (\<lambda>r. received (RoomCreateResponse r)))"

text \<open>The context of an event; a missing state is an empty dictionary, which has no elements.\<close>

definition RoomContextResponse_from_dict :: "validator \<Rightarrow> string \<Rightarrow> json \<Rightarrow> history_response answer" where
  "RoomContextResponse_from_dict validate room_id =
     verify_response validate Schemas_room_context (ErrorWithRoomId_from_dict validate ''RoomContextError'' room_id) (\<lambda>v.
     rbind (get_or v ''events_before'' (JArr [])) (\<lambda>b.
     rbind (get_room_events validate b) (\<lambda>earlier.
     rbind (get_or v ''events_after'' (JArr [])) (\<lambda>a.
     rbind (get_room_events validate a) (\<lambda>later.
     rbind (item v ''event'') (\<lambda>x.
     rbind (parse_event validate x) (\<lambda>event.
     rbind (get_or v ''state'' (JObj [])) (\<lambda>s.
     rbind (get_room_events validate s) (\<lambda>state.
     rbind (get_or v ''start'' JNull) (\<lambda>start.
     rbind (get_or v ''end'' JNull) (\<lambda>stop.
     received (RoomContextResponse room_id start stop event earlier later state))))))))))))"

text \<open>The keyword arguments of \<^verbatim>\<open>PublicRoom(**chunk)\<close>: another key, or a missing one without a
  default, is a \<^verbatim>\<open>TypeError\<close>.\<close>

definition PublicRoom :: "json \<Rightarrow> exn + public_room" where
  "PublicRoom v =
     (case v of
        JObj d \<Rightarrow>
          (let required = [''guest_can_join'', ''num_joined_members'', ''room_id'', ''world_readable''];
               optional = [''avatar_url'', ''canonical_alias'', ''join_rule'', ''name'', ''room_type'', ''topic''];
               g = (\<lambda>k. case dget d k of Some x \<Rightarrow> x | None \<Rightarrow> JNull)
           in
           if \<not> list_all (\<lambda>k. k \<in> set (required @ optional)) (dkeys d) then Inl (TypeError ''unexpected keyword argument'')
           else if \<not> list_all (\<lambda>k. k \<in> set (dkeys d)) required then Inl (TypeError ''missing argument'')
           else Inr
             \<lparr> pr_guest_can_join = g ''guest_can_join'', pr_num_joined_members = g ''num_joined_members'',
               pr_room_id = g ''room_id'', pr_world_readable = g ''world_readable'', pr_avatar_url = g ''avatar_url'',
               pr_canonical_alias = g ''canonical_alias'', pr_join_rule = g ''join_rule'', pr_name = g ''name'',
               pr_room_type = g ''room_type'', pr_topic = g ''topic'' \<rparr>)
      | _ \<Rightarrow> Inl (TypeError ''not a mapping''))"

definition PublicRoomsResponse_from_dict :: "validator \<Rightarrow> json \<Rightarrow> history_response answer" where
  "PublicRoomsResponse_from_dict validate =
     verify_response validate Schemas_public_rooms_response (ErrorResponse_from_dict validate ''PublicRoomsError'') (\<lambda>v.
     rbind (item v ''chunk'') (\<lambda>c.
     rbind (iterated c) (\<lambda>chunks.
     rbind (rmap PublicRoom chunks) (\<lambda>rooms.
     rbind (get_or v ''next_batch'' JNull) (\<lambda>n.
     rbind (get_or v ''prev_batch'' JNull) (\<lambda>p.
     rbind (get_or v ''total_room_count_estimate'' JNull) (\<lambda>t.
     received (PublicRoomsResponse rooms n p t))))))))"

section \<open>Empty answers\<close>

definition EmptyResponse_from_dict :: "validator \<Rightarrow> string \<Rightarrow> string \<Rightarrow> json \<Rightarrow> empty_response answer" where
  "EmptyResponse_from_dict validate cls err v =
     (case validate Schemas_empty v of (ok, w) \<Rightarrow>
        if \<not> ok then failed (ErrorResponse_from_dict validate err w) else received (EmptyResponse cls))"

definition EmptyResponseWithRoomId_from_dict ::
  "validator \<Rightarrow> string \<Rightarrow> string \<Rightarrow> string \<Rightarrow> json \<Rightarrow> empty_response answer" where
  "EmptyResponseWithRoomId_from_dict validate cls err room_id v =
     (case validate Schemas_empty v of (ok, w) \<Rightarrow>
        if \<not> ok then failed (ErrorWithRoomId_from_dict validate err room_id w)
        else received (EmptyResponseWithRoomId cls room_id))"

text \<open>The classes with an empty body and the error class each of them makes.\<close>

definition moderation_response_classes :: "(string \<times> string) list" where
  "moderation_response_classes =
     [(''RoomKickResponse'', ''RoomKickError''), (''RoomBanResponse'', ''RoomBanError''),
      (''RoomUnbanResponse'', ''RoomUnbanError''), (''RoomInviteResponse'', ''RoomInviteError'')]"

definition empty_response_classes :: "(string \<times> string) list" where
  "empty_response_classes =
     [(''UpdateReceiptMarkerResponse'', ''UpdateReceiptMarkerError''),
      (''DeleteDevicesResponse'', ''DeleteDevicesError''), (''RoomLeaveResponse'', ''RoomLeaveError''),
      (''UpdateDeviceResponse'', ''UpdateDeviceError''),
      (''ProfileSetDisplayNameResponse'', ''ProfileSetDisplayNameError''),
      (''ProfileSetAvatarResponse'', ''ProfileSetAvatarError''), (''PresenceSetResponse'', ''PresenceSetError''),
      (''SetPushRuleResponse'', ''SetPushRuleError''), (''DeletePushRuleResponse'', ''DeletePushRuleError''),
      (''EnablePushRuleResponse'', ''EnablePushRuleError''),
      (''SetPushRuleActionsResponse'', ''SetPushRuleActionsError''),
      (''DeleteAliasResponse'', ''DeletePushRuleError''), (''PutAliasResponse'', ''DeletePushRuleError''),
      (''RoomUpdateAliasResponse'', ''ErrorResponse'')]"

definition empty_room_response_classes :: "(string \<times> string) list" where
  "empty_room_response_classes =
     [(''RoomTypingResponse'', ''RoomTypingError''), (''RoomReadMarkersResponse'', ''RoomTypingError''),
      (''RoomForgetResponse'', ''RoomForgetError'')]"

definition RoomSendEphemeralResponse_from_dict :: "validator \<Rightarrow> string \<Rightarrow> json \<Rightarrow> empty_response answer" where
  "RoomSendEphemeralResponse_from_dict validate room_id v =
     (case v of
        JObj d \<Rightarrow>
          if din ''errcode'' d then failed (ErrorWithRoomId_from_dict validate ''RoomSendEphemeralError'' room_id v)
          else received (EmptyResponseWithRoomId ''RoomSendEphemeralResponse'' room_id)
      | _ \<Rightarrow> received (EmptyResponseWithRoomId ''RoomSendEphemeralResponse'' room_id))"

section \<open>Keys and messages to devices\<close>

definition ShareGroupSessionResponse_from_dict ::
  "validator \<Rightarrow> string \<Rightarrow> (string \<times> string) set \<Rightarrow> json \<Rightarrow> key_response answer" where
  "ShareGroupSessionResponse_from_dict validate room_id users =
     verify_response validate Schemas_empty (ShareGroupSessionError_from_dict validate room_id users)
       (\<lambda>_. received (ShareGroupSessionResponse room_id users))"

definition KeysUploadResponse_from_dict :: "validator \<Rightarrow> json \<Rightarrow> key_response answer" where
  "KeysUploadResponse_from_dict validate =
     verify_response validate Schemas_keys_upload (ErrorResponse_from_dict validate ''KeysUploadError'') (\<lambda>v.
     rbind (item v ''one_time_key_counts'') (\<lambda>c.
     rbind (item c ''curve25519'') (\<lambda>x.
     rbind (item c ''signed_curve25519'') (\<lambda>y.
     received (KeysUploadResponse x y)))))"

definition keys_query_from_dict :: "validator \<Rightarrow> string set option \<Rightarrow> json \<Rightarrow> key_response answer" where
  "keys_query_from_dict validate users =
     verify_response validate Schemas_keys_query (ErrorResponse_from_dict validate ''KeysQueryError'') (\<lambda>v.
     case v of
       JObj d \<Rightarrow> rbind (KeysQueryResponse_from_dict d users) (\<lambda>(ks, fs, us). received (KeysQueryResponse ks fs us))
     | _ \<Rightarrow> Inl (AttributeError ''get''))"

text \<open>The room id has a default, which the decorator does not pass on to the error class; there it
  is a required argument.\<close>

definition KeysClaimResponse_from_dict :: "validator \<Rightarrow> string option \<Rightarrow> json \<Rightarrow> key_response answer" where
  "KeysClaimResponse_from_dict validate room_id =
     verify_response validate Schemas_keys_claim
       (\<lambda>w. case room_id of
          None \<Rightarrow> Inl (TypeError ''missing argument room_id'')
        | Some i \<Rightarrow> ErrorWithRoomId_from_dict validate ''KeysClaimError'' i w) (\<lambda>v.
     rbind (item v ''one_time_keys'') (\<lambda>k.
     rbind (get_or v ''failures'' (JObj [])) (\<lambda>f.
     received (KeysClaimResponse k f (case room_id of None \<Rightarrow> [] | Some i \<Rightarrow> i)))))"

definition RoomKeyRequestResponse_from_dict ::
  "validator \<Rightarrow> string \<Rightarrow> string \<Rightarrow> string option \<Rightarrow> string \<Rightarrow> json \<Rightarrow> key_response answer" where
  "RoomKeyRequestResponse_from_dict validate request_id session_id room_id algorithm =
     verify_response validate Schemas_empty (ErrorResponse_from_dict validate ''RoomKeyRequestError'')
       (\<lambda>_. received (RoomKeyRequestResponse request_id session_id room_id algorithm))"

definition ToDeviceResponse_from_dict :: "validator \<Rightarrow> Nio_Olm.to_device_message \<Rightarrow> json \<Rightarrow> key_response answer" where
  "ToDeviceResponse_from_dict validate message =
     verify_response validate Schemas_empty (ToDeviceError_from_dict validate message)
       (\<lambda>_. received (ToDeviceResponse message))"

section \<open>Content\<close>

definition ContentRepositoryConfigResponse_from_dict :: "validator \<Rightarrow> json \<Rightarrow> content_response answer" where
  "ContentRepositoryConfigResponse_from_dict validate =
     verify_response validate Schemas_content_repository_config
       (ErrorResponse_from_dict validate ''ContentRepositoryConfigError'') (\<lambda>v.
     rbind (get_or v ''m.upload.size'' JNull) (\<lambda>n. received (ContentRepositoryConfigResponse n)))"

definition UploadResponse_from_dict :: "validator \<Rightarrow> json \<Rightarrow> content_response answer" where
  "UploadResponse_from_dict validate =
     verify_response validate Schemas_upload (ErrorResponse_from_dict validate ''UploadError'') (\<lambda>v.
     rbind (item v ''content_uri'') (\<lambda>u. received (UploadResponse u)))"

text \<open>What \<^verbatim>\<open>from_data\<close> is given: content, a parsed error, or something else.\<close>

datatype file_data = Content file_body | ErrorDict json | OtherData

definition DownloadResponse_from_data ::
  "validator \<Rightarrow> file_data \<Rightarrow> string \<Rightarrow> string option \<Rightarrow> content_response answer" where
  "DownloadResponse_from_data validate data content_type filename =
     (case data of
        Content b \<Rightarrow> received (DownloadResponse b content_type filename)
      | ErrorDict v \<Rightarrow> failed (ErrorResponse_from_dict validate ''DownloadError'' v)
      | OtherData \<Rightarrow> Inr (Inl (unknown_error ''DownloadError'' (JStr ''invalid data''))))"

definition ThumbnailResponse_from_data ::
  "validator \<Rightarrow> file_data \<Rightarrow> string \<Rightarrow> string option \<Rightarrow> content_response answer" where
  "ThumbnailResponse_from_data validate data content_type filename =
     (if take 6 content_type \<noteq> ''image/''
      then Inr (Inl (unknown_error ''ThumbnailError'' (JStr (''invalid content type: '' @ content_type))))
      else case data of
        Content (FileBytes b) \<Rightarrow> received (ThumbnailResponse (FileBytes b) content_type filename)
      | ErrorDict v \<Rightarrow> failed (ErrorResponse_from_dict validate ''ThumbnailError'' v)
      | _ \<Rightarrow> Inr (Inl (unknown_error ''ThumbnailError'' (JStr ''invalid data''))))"

end
