(* ===== verification/Nio_Response_Claims.thy ===== *)
theory Nio_Response_Claims
  imports Nio_Responses Nio_Other_Claims
begin

text \<open>
  Which answers of a server the response parsers turn into a response or an error, and which make
  them raise.
\<close>

section \<open>Answers\<close>

definition answers :: "(json \<Rightarrow> 'r answer) \<Rightarrow> bool" where
  "answers f \<longleftrightarrow> (\<forall>v. \<exists>a. f v = Inr a)"

definition makes_error :: "(json \<Rightarrow> exn + error_response) \<Rightarrow> bool" where
  "makes_error f \<longleftrightarrow> (\<forall>v. \<exists>e. f v = Inr e)"

lemma draft4_valid:
  assumes "draft4 validate" "tidy s" "no_defaults s" "validate s v = (ok, w)"
  shows "w = v" and "ok \<longleftrightarrow> conforms s (fill s v)" and "ok \<Longrightarrow> conforms s v"
proof -
  have "fst (validate s v) = conforms s (fill s v)" "fst (validate s v) \<Longrightarrow> snd (validate s v) = fill s v"
    "snd (validate s v) = v"
    using assms(1-3) unfolding draft4_def by blast+
  then show "w = v" "ok \<longleftrightarrow> conforms s (fill s v)" "ok \<Longrightarrow> conforms s v" using assms(4) by auto
qed

lemma verify_response_run:
  assumes "draft4 validate" "tidy s" "no_defaults s"
  shows "verify_response validate s err f v = (if conforms s v then f v else rbind (err v) (\<lambda>e. Inr (Inl e)))"
proof (cases "validate s v")
  case (Pair ok w)
  with draft4_valid[OF assms Pair] fill_nothing[OF assms(3), of v] show ?thesis by (simp add: verify_response_def)
qed

lemma conforms_dict:
  "conforms (Schema (Type [''object''] # ks)) v \<Longrightarrow> \<exists>d. v = JObj d \<and> conforms (Schema ks) (JObj d)"
  by (cases v) auto

lemma error_dict: "conforms Schemas_error v \<Longrightarrow> \<exists>d m c. v = JObj d \<and> dget d ''error'' = Some m \<and> dget d ''errcode'' = Some c"
  by (auto simp: Schemas_error_def dest!: conforms_dict)

lemma ErrorResponse_makes [simp]:
  assumes "draft4 validate"
  shows "makes_error (ErrorResponse_from_dict validate cls)"
proof -
  have "\<exists>e. ErrorResponse_from_dict validate cls v = Inr e" for v
  proof (cases "validate Schemas_error v")
    case (Pair ok w)
    note valid = draft4_valid[OF assms _ _ Pair]
    show ?thesis
    proof (cases ok)
      case True
      then have "conforms Schemas_error v" "w = v" using valid by simp_all
      then show ?thesis using error_dict[of v] Pair True
        by (auto simp: ErrorResponse_from_dict_def item_def get_or_def)
    qed (simp add: ErrorResponse_from_dict_def Pair)
  qed
  then show ?thesis by (simp add: makes_error_def)
qed

lemma other_errors_make [simp]:
  assumes "draft4 validate"
  shows "makes_error (ErrorWithRoomId_from_dict validate cls room_id)"
    and "makes_error (ShareGroupSessionError_from_dict validate room_id users)"
    and "makes_error (ToDeviceError_from_dict validate message)"
proof -
  show "makes_error (ErrorWithRoomId_from_dict validate cls room_id)"
    unfolding makes_error_def
  proof
    fix v
    obtain e where "ErrorResponse_from_dict validate cls v = Inr e"
      using ErrorResponse_makes[OF assms] unfolding makes_error_def by blast
    then show "\<exists>e. ErrorWithRoomId_from_dict validate cls room_id v = Inr e" by (simp add: ErrorWithRoomId_from_dict_def)
  qed
  have "\<exists>e. ShareGroupSessionError_from_dict validate room_id users v = Inr e" "\<exists>e. ToDeviceError_from_dict validate message v = Inr e" for v
  proof -
    obtain ok w where p: "validate Schemas_error v = (ok, w)" by (cases "validate Schemas_error v")
    note valid = draft4_valid[OF assms _ _ p]
    show "\<exists>e. ShareGroupSessionError_from_dict validate room_id users v = Inr e" "\<exists>e. ToDeviceError_from_dict validate message v = Inr e"
      using valid(1,3) error_dict[of v] p
      by (cases ok; auto simp: ShareGroupSessionError_from_dict_def ToDeviceError_from_dict_def item_def)+
  qed
  then show "makes_error (ShareGroupSessionError_from_dict validate room_id users)"
    "makes_error (ToDeviceError_from_dict validate message)" by (simp_all add: makes_error_def)
qed

lemma failed_answers: "makes_error f \<Longrightarrow> \<exists>a. failed (f v) = Inr a"
  unfolding makes_error_def failed_def by (metis rbind_simps(2))

lemma verify_answers:
  assumes "draft4 validate" "tidy s" "no_defaults s" "makes_error err"
    and "\<And>v. conforms s v \<Longrightarrow> \<exists>a. f v = Inr a"
  shows "answers (verify_response validate s err f)"
proof -
  have "\<exists>a. verify_response validate s err f v = Inr a" for v
  proof (cases "validate s v")
    case (Pair ok w)
    note valid = draft4_valid[OF assms(1-3) Pair]
    show ?thesis
    proof (cases ok)
      case True
      with valid assms(5) have "\<exists>a. f w = Inr a" by simp
      then show ?thesis using True Pair by (simp add: verify_response_def)
    next
      case False
      from assms(4) obtain e where "err w = Inr e" unfolding makes_error_def by blast
      then show ?thesis using False Pair by (simp add: verify_response_def)
    qed
  qed
  then show ?thesis by (simp add: answers_def)
qed

lemmas answer_simps = item_def get_or_def received_def items_def json_rstrip_def

lemma simple_answers [simp]:
  assumes "draft4 validate"
  shows
    "answers (DiscoveryInfoResponse_from_dict validate)"
    "answers (RegisterResponse_from_dict validate)"
    "answers (LoginResponse_from_dict validate)"
    "answers (LogoutResponse_from_dict validate)"
    "answers (ChangePasswordResponse_from_dict validate)"
    "answers (WhoamiResponse_from_dict validate)"
    "answers (GetOpenIDTokenResponse_from_dict validate)"
    "answers (UploadFilterResponse_from_dict validate)"
    "answers (ProfileGetResponse_from_dict validate)"
    "answers (ProfileGetDisplayNameResponse_from_dict validate)"
    "answers (ProfileGetAvatarResponse_from_dict validate)"
    "answers (PresenceGetResponse_from_dict validate user_id)"
    "answers (JoinedRoomsResponse_from_dict validate)"
    "answers (RoomResolveAliasResponse_from_dict validate room_alias)"
    "answers (RoomGetVisibilityResponse_from_dict validate room_id)"
    "answers (SpaceGetHierarchyResponse_from_dict validate)"
    "answers (RoomCreateResponse_from_dict validate)"
    "answers (ContentRepositoryConfigResponse_from_dict validate)"
    "answers (UploadResponse_from_dict validate)"
proof -
  show "answers (DiscoveryInfoResponse_from_dict validate)"
    unfolding DiscoveryInfoResponse_from_dict_def
    by (rule verify_answers[OF assms]) (auto simp: assms Schemas_discovery_info_def answer_simps dest!: conforms_dict split: option.splits)
  show "answers (RegisterResponse_from_dict validate)"
    unfolding RegisterResponse_from_dict_def
    by (rule verify_answers[OF assms]) (auto simp: assms Schemas_register_def answer_simps dest!: conforms_dict)
  show "answers (LoginResponse_from_dict validate)"
    unfolding LoginResponse_from_dict_def
    by (rule verify_answers[OF assms]) (auto simp: assms Schemas_login_def answer_simps dest!: conforms_dict)
  show "answers (LogoutResponse_from_dict validate)"
    unfolding LogoutResponse_from_dict_def
    by (rule verify_answers[OF assms]) (auto simp: assms Schemas_empty_def answer_simps dest!: conforms_dict)
  show "answers (ChangePasswordResponse_from_dict validate)"
    unfolding ChangePasswordResponse_from_dict_def
    by (rule verify_answers[OF assms]) (auto simp: assms Schemas_empty_def answer_simps dest!: conforms_dict)
  show "answers (WhoamiResponse_from_dict validate)"
    unfolding WhoamiResponse_from_dict_def
    by (rule verify_answers[OF assms]) (auto simp: assms Schemas_whoami_def answer_simps dest!: conforms_dict)
  show "answers (GetOpenIDTokenResponse_from_dict validate)"
    unfolding GetOpenIDTokenResponse_from_dict_def
    by (rule verify_answers[OF assms]) (auto simp: assms Schemas_get_openid_token_def answer_simps dest!: conforms_dict)
  show "answers (UploadFilterResponse_from_dict validate)"
    unfolding UploadFilterResponse_from_dict_def
    by (rule verify_answers[OF assms]) (auto simp: assms Schemas_upload_filter_def answer_simps dest!: conforms_dict)
  show "answers (ProfileGetResponse_from_dict validate)"
    unfolding ProfileGetResponse_from_dict_def
    by (rule verify_answers[OF assms]) (auto simp: assms Schemas_get_profile_def answer_simps dest!: conforms_dict)
  show "answers (ProfileGetDisplayNameResponse_from_dict validate)"
    unfolding ProfileGetDisplayNameResponse_from_dict_def
    by (rule verify_answers[OF assms]) (auto simp: assms Schemas_get_displayname_def answer_simps dest!: conforms_dict)
  show "answers (ProfileGetAvatarResponse_from_dict validate)"
    unfolding ProfileGetAvatarResponse_from_dict_def
    by (rule verify_answers[OF assms]) (auto simp: assms Schemas_get_avatar_def answer_simps dest!: conforms_dict)
  show "answers (PresenceGetResponse_from_dict validate user_id)"
    unfolding PresenceGetResponse_from_dict_def
    by (rule verify_answers[OF assms]) (auto simp: assms Schemas_get_presence_def answer_simps dest!: conforms_dict)
  show "answers (JoinedRoomsResponse_from_dict validate)"
    unfolding JoinedRoomsResponse_from_dict_def
    by (rule verify_answers[OF assms]) (auto simp: assms Schemas_joined_rooms_def answer_simps dest!: conforms_dict)
  show "answers (RoomResolveAliasResponse_from_dict validate room_alias)"
    unfolding RoomResolveAliasResponse_from_dict_def
    by (rule verify_answers[OF assms]) (auto simp: assms Schemas_room_resolve_alias_def answer_simps dest!: conforms_dict)
  show "answers (RoomGetVisibilityResponse_from_dict validate room_id)"
    unfolding RoomGetVisibilityResponse_from_dict_def
    by (rule verify_answers[OF assms]) (auto simp: assms Schemas_room_get_visibility_def answer_simps dest!: conforms_dict)
  show "answers (SpaceGetHierarchyResponse_from_dict validate)"
    unfolding SpaceGetHierarchyResponse_from_dict_def
    by (rule verify_answers[OF assms]) (auto simp: assms Schemas_space_hierarchy_def answer_simps dest!: conforms_dict)
  show "answers (RoomCreateResponse_from_dict validate)"
    unfolding RoomCreateResponse_from_dict_def
    by (rule verify_answers[OF assms]) (auto simp: assms Schemas_room_create_response_def answer_simps dest!: conforms_dict)
  show "answers (ContentRepositoryConfigResponse_from_dict validate)"
    unfolding ContentRepositoryConfigResponse_from_dict_def
    by (rule verify_answers[OF assms]) (auto simp: assms Schemas_content_repository_config_def answer_simps dest!: conforms_dict)
  show "answers (UploadResponse_from_dict validate)"
    unfolding UploadResponse_from_dict_def
    by (rule verify_answers[OF assms]) (auto simp: assms Schemas_upload_def answer_simps dest!: conforms_dict)
qed

text \<open>The classes that validate themselves.\<close>

lemma validated_answers:
  assumes "draft4 validate" "tidy s" "no_defaults s" "\<And>v. \<exists>a. g v = Inr a" "\<And>v. conforms s v \<Longrightarrow> \<exists>a. f v = Inr a"
  shows "answers (\<lambda>v. case validate s v of (ok, w) \<Rightarrow> if \<not> ok then g w else f w)"
  unfolding answers_def
proof
  fix v
  obtain ok w where p: "validate s v = (ok, w)" by (cases "validate s v")
  note valid = draft4_valid[OF assms(1-3) p]
  show "\<exists>a. (case validate s v of (ok, w) \<Rightarrow> if \<not> ok then g w else f w) = Inr a"
    using assms(4,5) valid(1,3) p by (cases ok) auto
qed

lemma class_answers:
  assumes "draft4 validate"
  shows "makes_error err \<Longrightarrow> answers (RoomEventIdResponse_from_dict validate cls err room_id)"
    and "makes_error err \<Longrightarrow> answers (RoomIdResponse_from_dict validate cls err)"
    and "answers (RoomGetStateResponse_from_dict validate room_id)"
    and "answers (EmptyResponse_from_dict validate cls name)"
    and "answers (EmptyResponseWithRoomId_from_dict validate cls name room_id)"
    and "answers (RoomSendEphemeralResponse_from_dict validate room_id)"
proof -
  show "answers (RoomEventIdResponse_from_dict validate cls err room_id)" if "makes_error err"
    unfolding RoomEventIdResponse_from_dict_def
    by (rule validated_answers[OF assms])
      (auto simp: failed_answers[OF that] Schemas_room_event_id_def answer_simps dest!: conforms_dict)
  show "answers (RoomIdResponse_from_dict validate cls err)" if "makes_error err"
    unfolding RoomIdResponse_from_dict_def
    by (rule validated_answers[OF assms])
      (auto simp: failed_answers[OF that] Schemas_room_id_def answer_simps dest!: conforms_dict)
  note room_error = failed_answers[OF other_errors_make(1)[OF assms]]
  note error = failed_answers[OF ErrorResponse_makes[OF assms]]
  show "answers (RoomGetStateResponse_from_dict validate room_id)"
    unfolding RoomGetStateResponse_from_dict_def
    by (rule validated_answers[OF assms]) (simp_all add: room_error received_def)
  show "answers (EmptyResponse_from_dict validate cls name)"
    unfolding EmptyResponse_from_dict_def by (rule validated_answers[OF assms]) (simp_all add: error received_def)
  show "answers (EmptyResponseWithRoomId_from_dict validate cls name room_id)"
    unfolding EmptyResponseWithRoomId_from_dict_def
    by (rule validated_answers[OF assms]) (simp_all add: room_error received_def)
  show "answers (RoomSendEphemeralResponse_from_dict validate room_id)"
    by (auto simp: answers_def RoomSendEphemeralResponse_from_dict_def room_error received_def split: json.split)
qed

lemma derived_answers:
  assumes "draft4 validate"
  shows "answers (RoomSendResponse_from_dict validate room_id)" "answers (RoomPutStateResponse_from_dict validate room_id)"
    "answers (RoomRedactResponse_from_dict validate room_id)" "answers (JoinResponse_from_dict validate)"
    "answers (RoomKnockResponse_from_dict validate)"
  unfolding RoomSendResponse_from_dict_def RoomPutStateResponse_from_dict_def RoomRedactResponse_from_dict_def
    JoinResponse_from_dict_def RoomKnockResponse_from_dict_def
  by (rule class_answers[OF assms], simp add: assms)+

lemma login_info_answers:
  assumes "draft4 validate"
  shows "answers (LoginInfoResponse_from_dict validate)"
  unfolding LoginInfoResponse_from_dict_def
proof (rule verify_answers[OF assms])
  fix v
  assume "conforms Schemas_login_info v"
  define flow where "flow = Schema [Type [''object''], Properties [(''type'', Schema [Type [''string'']])], Required [''type'']]"
  note schema = Schemas_login_info_def[folded flow_def]
  from \<open>conforms Schemas_login_info v\<close> obtain d where d: "v = JObj d"
    "conforms (Schema [Properties [(''flows'', Schema [Type [''array''], Items flow])], Required [''flows'']]) (JObj d)"
    unfolding schema by (blast dest: conforms_dict)
  from d(2) obtain f where f: "dget d ''flows'' = Some f" "conforms (Schema [Type [''array''], Items flow]) f"
    by (auto split: option.splits)
  from f(2) obtain xs where xs: "f = JArr xs" "\<And>x. x \<in> set xs \<Longrightarrow> conforms flow x" by (cases f) auto
  have flows: "\<exists>e t. x = JObj e \<and> dget e ''type'' = Some t" if "x \<in> set xs" for x
    using xs(2)[OF that] by (auto simp: flow_def dest!: conforms_dict)
  have v: "v = JObj d" "dget d ''flows'' = Some (JArr xs)" using d(1) f(1) xs(1) by simp_all
  have "\<exists>ys. rmap (\<lambda>flow. item flow ''type'') xs = Inr ys"
    by (rule rmap_returns) (use flows in \<open>fastforce simp: item_def\<close>)
  then show "\<exists>a. rbind (item v ''flows'') (\<lambda>f. rbind (iterated f) (\<lambda>flows.
      rbind (rmap (\<lambda>flow. item flow ''type'') flows) (\<lambda>types. received (LoginInfoResponse types)))) = Inr a"
    using v by (auto simp: item_def iterated_def received_def)
qed (simp_all add: assms)

lemma key_answers:
  assumes "draft4 validate"
  shows "answers (ShareGroupSessionResponse_from_dict validate room_id users)"
    "answers (RoomKeyRequestResponse_from_dict validate i j key_room algorithm)"
    "answers (ToDeviceResponse_from_dict validate message)"
    "answers (KeysClaimResponse_from_dict validate (Some room_id))"
proof -
  show "answers (ShareGroupSessionResponse_from_dict validate room_id users)"
    "answers (RoomKeyRequestResponse_from_dict validate i j key_room algorithm)"
    "answers (ToDeviceResponse_from_dict validate message)"
    unfolding ShareGroupSessionResponse_from_dict_def RoomKeyRequestResponse_from_dict_def ToDeviceResponse_from_dict_def
    by (rule verify_answers[OF assms]; simp add: assms received_def)+
  show "answers (KeysClaimResponse_from_dict validate (Some room_id))"
    unfolding KeysClaimResponse_from_dict_def
    by (rule verify_answers[OF assms]) (auto simp: assms Schemas_keys_claim_def answer_simps dest!: conforms_dict)
qed

section \<open>Properties\<close>

text \<open>C37: These parsers turn every JSON value a server can send, errors and garbage included, into their response
  or their error response: no exception leaves them.\<close>

theorem response_parsers_answer:
  assumes "draft4 validate"
  shows "answers (DiscoveryInfoResponse_from_dict validate) \<and>
    answers (RegisterResponse_from_dict validate) \<and>
    answers (LoginInfoResponse_from_dict validate) \<and>
    answers (LoginResponse_from_dict validate) \<and>
    answers (LogoutResponse_from_dict validate) \<and>
    answers (ChangePasswordResponse_from_dict validate) \<and>
    answers (WhoamiResponse_from_dict validate) \<and>
    answers (GetOpenIDTokenResponse_from_dict validate) \<and>
    answers (UploadFilterResponse_from_dict validate) \<and>
    answers (ProfileGetResponse_from_dict validate) \<and>
    answers (ProfileGetDisplayNameResponse_from_dict validate) \<and>
    answers (ProfileGetAvatarResponse_from_dict validate) \<and>
    answers (JoinedRoomsResponse_from_dict validate) \<and>
    answers (SpaceGetHierarchyResponse_from_dict validate) \<and>
    answers (RoomCreateResponse_from_dict validate) \<and>
    answers (JoinResponse_from_dict validate) \<and>
    answers (RoomKnockResponse_from_dict validate) \<and>
    answers (ContentRepositoryConfigResponse_from_dict validate) \<and>
    answers (UploadResponse_from_dict validate) \<and>
    answers (PresenceGetResponse_from_dict validate i) \<and>
    answers (RoomResolveAliasResponse_from_dict validate i) \<and>
    answers (RoomGetVisibilityResponse_from_dict validate i) \<and>
    answers (RoomGetStateResponse_from_dict validate i) \<and>
    answers (RoomSendResponse_from_dict validate i) \<and>
    answers (RoomPutStateResponse_from_dict validate i) \<and>
    answers (RoomRedactResponse_from_dict validate i) \<and>
    answers (RoomSendEphemeralResponse_from_dict validate i) \<and>
    answers (KeysClaimResponse_from_dict validate (Some i)) \<and>
    answers (ShareGroupSessionResponse_from_dict validate i users) \<and>
    answers (RoomKeyRequestResponse_from_dict validate i j (Some k) l) \<and>
    answers (ToDeviceResponse_from_dict validate message) \<and>
    answers (EmptyResponse_from_dict validate i j) \<and>
    answers (EmptyResponseWithRoomId_from_dict validate i j k)"
  by (intro conjI simple_answers derived_answers login_info_answers key_answers class_answers assms)

theorem response_parsers_answer_witness:
  "(\<exists>a. LoginResponse_from_dict plain_validator (JArr []) = Inr a) \<and>
   (\<exists>a. RoomSendResponse_from_dict plain_validator ''!r:x'' (JObj [(''errcode'', JInt 1)]) = Inr a)"
proof -
  note all = response_parsers_answer[OF plain_validator_draft4, of "''!r:x''" "{}" "[]" "[]" "[]" undefined]
  have "answers (LoginResponse_from_dict plain_validator)" "answers (RoomSendResponse_from_dict plain_validator ''!r:x'')"
    by (simp_all only: all)
  then show ?thesis by (simp add: answers_def)
qed

text \<open>C38: Four classes do not: every error of the server to a claim of keys without a room id is a \<^verbatim>\<open>TypeError\<close>,
  as is a public room with any further key; a registration without flows raises
  \<^verbatim>\<open>UnboundLocalError\<close>; and an alias that could not be removed or set counts as removed or set.\<close>

theorem response_parsers_raise:
  assumes "draft4 validate"
  shows "(dget d ''one_time_keys'' = None \<longrightarrow>
      KeysClaimResponse_from_dict validate None (JObj d) = Inl (TypeError ''missing argument room_id'')) \<and>
    (key \<notin> {''guest_can_join'', ''num_joined_members'', ''room_id'', ''world_readable'', ''avatar_url'',
        ''canonical_alias'', ''join_rule'', ''name'', ''room_type'', ''topic''} \<longrightarrow>
      PublicRoomsResponse_from_dict validate (JObj [(''chunk'', JArr [JObj
        [(''guest_can_join'', JBool g), (''num_joined_members'', JInt n), (''room_id'', JStr i),
         (''world_readable'', JBool w), (key, x)]])]) = Inl (TypeError ''unexpected keyword argument'')) \<and>
    RegisterInteractiveResponse_from_dict validate
      (JObj [(''flows'', JArr []), (''params'', JObj params), (''session'', JStr session)]) =
      Inl (UnboundLocalError ''stages'') \<and>
    RoomDeleteAliasResponse_from_dict room_alias v = received (RoomDeleteAliasResponse room_alias) \<and>
    RoomPutAliasResponse_from_dict room_alias i v = received (RoomPutAliasResponse room_alias i)"
proof (intro conjI impI)
  show "KeysClaimResponse_from_dict validate None (JObj d) = Inl (TypeError ''missing argument room_id'')"
    if "dget d ''one_time_keys'' = None"
  proof -
    have "\<not> conforms Schemas_keys_claim (JObj d)" using that by (simp add: Schemas_keys_claim_def)
    then show ?thesis by (simp add: KeysClaimResponse_from_dict_def verify_response_run[OF assms])
  qed
  show "PublicRoomsResponse_from_dict validate (JObj [(''chunk'', JArr [JObj
        [(''guest_can_join'', JBool g), (''num_joined_members'', JInt n), (''room_id'', JStr i),
         (''world_readable'', JBool w), (key, x)]])]) = Inl (TypeError ''unexpected keyword argument'')"
    if "key \<notin> {''guest_can_join'', ''num_joined_members'', ''room_id'', ''world_readable'', ''avatar_url'',
        ''canonical_alias'', ''join_rule'', ''name'', ''room_type'', ''topic''}"
    using that
    by (auto simp: PublicRoomsResponse_from_dict_def verify_response_run[OF assms] Schemas_public_rooms_response_def
        Schemas_public_rooms_chunk_def item_def iterated_def PublicRoom_def)
  show "RegisterInteractiveResponse_from_dict validate
      (JObj [(''flows'', JArr []), (''params'', JObj params), (''session'', JStr session)]) =
      Inl (UnboundLocalError ''stages'')"
    by (simp add: RegisterInteractiveResponse_from_dict_def verify_response_run[OF assms] Schemas_register_flows_def
        item_def iterated_def)
qed (simp_all add: RoomDeleteAliasResponse_from_dict_def RoomPutAliasResponse_from_dict_def)

theorem response_parsers_raise_witness:
  "KeysClaimResponse_from_dict plain_validator None
     (JObj [(''errcode'', JStr ''M_LIMIT_EXCEEDED''), (''error'', JStr ''slow down'')]) =
     Inl (TypeError ''missing argument room_id'')"
proof -
  have "dget [(''errcode'', JStr ''M_LIMIT_EXCEEDED''), (''error'', JStr ''slow down'')] ''one_time_keys'' = None" by simp
  then show ?thesis
    using response_parsers_raise[OF plain_validator_draft4,
        of "[(''errcode'', JStr ''M_LIMIT_EXCEEDED''), (''error'', JStr ''slow down'')]"] by blast
qed

end
