(* ===== verification/Nio_Transport.thy ===== *)
theory Nio_Transport
  imports Nio_Client_Ops Nio_Responses Nio_Api
begin

text \<open>
  Sending a request in \<^verbatim>\<open>src/nio/client/async_client.py\<close>: headers, the access token, the attempts
  and their limits, and the response that is made of an answer. What happens to the attempts of a
  client is the list \<open>ac_replies\<close>, so every operation is a function of the server. A task that
  waits for an answer the list does not hold is cancelled there: \<^verbatim>\<open>CancelledError\<close> is raised at the
  \<^verbatim>\<open>await\<close>. Requests that \<^verbatim>\<open>asyncio.gather\<close> runs together are sent one after the other. Sleeping,
  progress reports and callbacks are left out; the durable session is None, as in \<open>Nio_Client\<close>.
\<close>

section \<open>Answers\<close>

text \<open>An answer has the JSON of its body, if it has one, and for content its type, name and bytes.\<close>

record http_response =
  hr_status :: int
  hr_json :: "json option"
  hr_content_type :: string
  hr_filename :: "string option"
  hr_data :: string

datatype reply = Reply http_response | NoConnection

definition parse_body :: "http_response \<Rightarrow> json" where
  "parse_body r = (case hr_json r of Some v \<Rightarrow> v | None \<Rightarrow> JObj [])"

text \<open>Every response a request can be answered with. The event of a \<open>Context\<close> is None when it was
  replaced by a failed decryption.\<close>

datatype any_response =
    Account account_response
  | Profile profile_response
  | Room room_response
  | History history_response
  | Context string json json "event option" "event list" "event list" "event list"
  | Empty empty_response
  | Key key_response
  | ContentAnswer content_response
  | Synced sync_response
  | Failed error_response

definition tagged :: "('r \<Rightarrow> any_response) \<Rightarrow> 'r answer \<Rightarrow> exn + any_response" where
  "tagged c x = rbind x (\<lambda>y. case y of Inl e \<Rightarrow> Inr (Failed e) | Inr r \<Rightarrow> Inr (c r))"

type_synonym response_parser = "http_response \<Rightarrow> exn + any_response"

definition from_body :: "('r \<Rightarrow> any_response) \<Rightarrow> (json \<Rightarrow> 'r answer) \<Rightarrow> response_parser" where
  "from_body c f r = tagged c (f (parse_body r))"

text \<open>\<^verbatim>\<open>create_matrix_response\<close> for content that is not saved to a file, and for the state of a room,
  where only the status 404 is an error.\<close>

definition from_content ::
  "(file_data \<Rightarrow> string \<Rightarrow> string option \<Rightarrow> content_response answer) \<Rightarrow> response_parser" where
  "from_content f r =
     tagged ContentAnswer (f
       (if hr_content_type r = ''application/json'' \<and> \<not> (200 \<le> hr_status r \<and> hr_status r < 300)
        then ErrorDict (parse_body r) else Content (FileBytes (hr_data r)))
       (hr_content_type r) (hr_filename r))"

definition from_state_event :: "validator \<Rightarrow> string \<Rightarrow> string \<Rightarrow> string \<Rightarrow> response_parser" where
  "from_state_event validate event_type state_key room_id r =
     (if hr_status r = 404
      then rbind (ErrorWithRoomId_from_dict validate ''RoomGetStateEventError'' room_id (parse_body r)) (\<lambda>e. Inr (Failed e))
      else from_body Room (RoomGetStateEventResponse_from_dict event_type state_key room_id) r)"

section \<open>The access token\<close>

text \<open>
  \<^verbatim>\<open>parse_qs\<close>, which drops blank values, and \<^verbatim>\<open>urlencode(doseq=True)\<close>. The targets are those of
  \<open>Nio_Api\<close>: they have neither a fragment nor path parameters, and every escape in them is one
  that \<^verbatim>\<open>quote\<close> writes.
\<close>

definition parse_qs :: "string \<Rightarrow> (string, string list) dict" where
  "parse_qs s =
     foldl (\<lambda>d kv.
        let k = unquote_plus (before (CHR ''='') kv); v = after (CHR ''='') kv in
        if v = [] then d else dset d k (dget_or d k [] @ [unquote_plus v]))
      [] (split_on (CHR ''&'') s)"

definition urlencode_seq :: "(string, string list) dict \<Rightarrow> string" where
  "urlencode_seq d =
     join ''&'' (concat (map (\<lambda>(k, vs). map (\<lambda>v. quote_plus k @ ''='' @ quote_plus v) vs) d))"

definition without_token :: "string \<Rightarrow> string" where
  "without_token path =
     (let q = urlencode_seq (ddel (parse_qs (after (CHR ''?'') path)) ''access_token'')
      in if q = [] then before (CHR ''?'') path else before (CHR ''?'') path @ ''?'' @ q)"

section \<open>The client\<close>

record async_config =
  as_user :: string
  as_homeserver :: string
  as_custom_headers :: "(string, string) dict option"
  as_max_limit_exceeded :: "nat option"
  as_max_timeouts :: "nat option"
  as_request_timeout :: int

record sent_request =
  sn_method :: string
  sn_url :: string
  sn_body :: "string option"
  sn_headers :: "(string, string) dict"

record ('a, 's, 'g, 'o, 'c, 'e) async_client =
  ac_client :: "('a, 's, 'g, 'o, 'c, 'e) client"
  ac_presence :: "string option"
  ac_sharing_session :: "string set"
  ac_pending_encrypted :: "(string \<times> string \<times> Nio_Olm.to_device_message) option"
  ac_replies :: "reply list"
  ac_sent :: "sent_request list"

type_synonym ('a, 's, 'g, 'o, 'c, 'e, 'x) async_op = "(('a, 's, 'g, 'o, 'c, 'e) async_client, 'x) op"

record ('a, 's, 'g, 'o, 'c, 'e, 'm) async_env =
  ae_env :: "('a, 's, 'g, 'o, 'c, 'e, 'm) environment"
  ae_config :: async_config
  ae_uuid :: "nat \<Rightarrow> string"

definition on_client :: "('a, 's, 'g, 'o, 'c, 'e, 'x) client_op \<Rightarrow> ('a, 's, 'g, 'o, 'c, 'e, 'x) async_op" where
  "on_client m s = (case m (ac_client s) of (r, c) \<Rightarrow> (r, s \<lparr> ac_client := c \<rparr>))"

text \<open>\<^verbatim>\<open>finally\<close>: \<open>f\<close> is done whether \<open>m\<close> returns or raises.\<close>

definition finally_do :: "('s \<Rightarrow> 's) \<Rightarrow> ('s, 'x) op \<Rightarrow> ('s, 'x) op" where
  "finally_do f m s = (case m s of (r, t) \<Rightarrow> (r, f t))"

section \<open>Attempts\<close>

definition over_limit :: "nat option \<Rightarrow> nat \<Rightarrow> bool" where
  "over_limit limit n = (case limit of None \<Rightarrow> False | Some m \<Rightarrow> m < n)"

definition rate_limited :: "http_response \<Rightarrow> any_response \<Rightarrow> bool" where
  "rate_limited r response =
     (hr_status r = 429 \<or>
      (case response of Failed e \<Rightarrow> er_status_code e \<in> {JStr ''M_LIMIT_EXCEEDED'', JInt 429} | _ \<Rightarrow> False))"

text \<open>\<^verbatim>\<open>retry_after_ms / 1000\<close> of the error, or of 5000: only a number can be divided.\<close>

definition retry_wait :: "any_response \<Rightarrow> exn + unit" where
  "retry_wait response =
     (case response of
        Failed e \<Rightarrow>
          (case er_retry_after_ms e of
             FJson v \<Rightarrow>
               (if \<not> truthy v then Inr ()
                else case v of JInt _ \<Rightarrow> Inr () | JFloat _ \<Rightarrow> Inr () | JBool _ \<Rightarrow> Inr ()
                | _ \<Rightarrow> Inl (TypeError ''retry_after_ms''))
           | FUsers us \<Rightarrow> if us = {} then Inr () else Inl (TypeError ''retry_after_ms'')
           | FMessage m \<Rightarrow> Inl (TypeError ''retry_after_ms''))
      | _ \<Rightarrow> Inr ())"

text \<open>The loop of \<^verbatim>\<open>_send\<close>: how many attempts are made, how they end, and the answers that are left.\<close>

fun attempts ::
  "async_config \<Rightarrow> response_parser \<Rightarrow> nat \<Rightarrow> nat \<Rightarrow> reply list \<Rightarrow> nat \<times> (exn + any_response) \<times> reply list" where
  "attempts cfg parse got_429 got_timeouts [] = (1, Inl CancelledError, [])"
| "attempts cfg parse got_429 got_timeouts (NoConnection # rs) =
     (if over_limit (as_max_timeouts cfg) (Suc got_timeouts) then (1, Inl ClientConnectionError, rs)
      else (case attempts cfg parse got_429 (Suc got_timeouts) rs of (n, x, rest) \<Rightarrow> (Suc n, x, rest)))"
| "attempts cfg parse got_429 got_timeouts (Reply r # rs) =
     (case parse r of
        Inl e \<Rightarrow> (1, Inl e, rs)
      | Inr response \<Rightarrow>
          if \<not> rate_limited r response \<or> over_limit (as_max_limit_exceeded cfg) (Suc got_429) then (1, Inr response, rs)
          else (case retry_wait response of
             Inl e \<Rightarrow> (1, Inl e, rs)
           | Inr _ \<Rightarrow>
               (case attempts cfg parse (Suc got_429) got_timeouts rs of (n, x, rest) \<Rightarrow> (Suc n, x, rest))))"

type_synonym http_request = "string \<times> string \<times> string option"

definition bare :: "request \<Rightarrow> http_request" where
  "bare r = (fst r, snd r, None)"

definition with_body :: "body_request \<Rightarrow> http_request" where
  "with_body r = (fst r, fst (snd r), Some (snd (snd r)))"

definition request_headers ::
  "async_config \<Rightarrow> string \<Rightarrow> string \<Rightarrow> int option \<Rightarrow> (string, string) dict" where
  "request_headers cfg token content_type content_length =
     (let h = [(''Content-Type'', content_type)];
          h = (if token = [] then h else dset h ''Authorization'' (''Bearer '' @ token));
          h = (case content_length of None \<Rightarrow> h | Some n \<Rightarrow> dset h ''Content-Length'' (int_dec n))
      in (case as_custom_headers cfg of None \<Rightarrow> h | Some c \<Rightarrow> dupdate h c))"

definition request_sent ::
  "async_config \<Rightarrow> string \<Rightarrow> string \<Rightarrow> int option \<Rightarrow> http_request \<Rightarrow> sent_request" where
  "request_sent cfg token content_type content_length req =
     \<lparr> sn_method = fst req,
       sn_url = as_homeserver cfg @ (if token = [] then fst (snd req) else without_token (fst (snd req))),
       sn_body = snd (snd req), sn_headers = request_headers cfg token content_type content_length \<rparr>"

section \<open>Receiving\<close>

text \<open>How the base client sees a response, and the response with what the base client wrote into it.\<close>

fun client_view :: "any_response \<Rightarrow> client_response" where
  "client_view (Account (account_response.LoginResponse u d t)) =
     client_response.LoginResponse (text_of u) (text_of d) (text_of t)"
| "client_view (Account (account_response.RegisterResponse u d t)) =
     client_response.RegisterResponse (text_of u) (text_of d) (text_of t)"
| "client_view (Account account_response.LogoutResponse) = client_response.LogoutResponse"
| "client_view (Account (account_response.WhoamiResponse u d g)) =
     client_response.WhoamiResponse (text_of u) (opt_text d)"
| "client_view (Profile (profile_response.PresenceGetResponse u p ago active msg)) =
     client_response.PresenceGetResponse u (text_of p) (opt_int ago)
       (case active of JBool b \<Rightarrow> Some b | _ \<Rightarrow> None) (opt_text msg)"
| "client_view (Room (room_response.JoinedMembersResponse members room_id)) =
     client_response.JoinedMembersResponse room_id
       (map (\<lambda>m. (rb_user_id m, opt_text (rb_display_name m), opt_text (rb_avatar_url m))) members)"
| "client_view (Room (room_response.RoomGetEventResponse e)) = client_response.RoomGetEventResponse e"
| "client_view (History (history_response.RoomMessagesResponse room_id es start stop)) =
     client_response.RoomMessagesResponse es"
| "client_view (History (history_response.RoomContextResponse room_id start stop e earlier later state)) =
     client_response.RoomContextResponse (Some e) earlier later"
| "client_view (Empty (EmptyResponseWithRoomId cls room_id)) =
     (if cls = ''RoomForgetResponse'' then client_response.RoomForgetResponse room_id else OtherResponse)"
| "client_view (Key (key_response.ShareGroupSessionResponse room_id us)) =
     client_response.ShareGroupSessionResponse room_id us"
| "client_view (Key (key_response.KeysUploadResponse c n)) =
     OlmResponse (olm_response.KeysUploadResponse (int_of_json n))"
| "client_view (Key (key_response.KeysQueryResponse keys failures users)) =
     OlmResponse (olm_response.KeysQueryResponse keys users)"
| "client_view (Key (key_response.KeysClaimResponse keys failures room_id)) =
     OlmResponse (olm_response.KeysClaimResponse keys)"
| "client_view (Key (key_response.RoomKeyRequestResponse i n r g)) =
     OlmResponse (olm_response.RoomKeyRequestResponse
       \<lparr> okr_request_id = i, okr_session_id = n, okr_room_id = r, okr_algorithm = g \<rparr>)"
| "client_view (Key (key_response.ToDeviceResponse m)) = OlmResponse (olm_response.ToDeviceResponse m)"
| "client_view (Synced r) = SyncResponse r"
| "client_view (Failed e) = ErrorReceived e"
| "client_view _ = OtherResponse"

fun updated_response :: "any_response \<Rightarrow> client_response \<Rightarrow> any_response" where
  "updated_response (Room (room_response.RoomGetEventResponse e)) (client_response.RoomGetEventResponse d) =
     Room (room_response.RoomGetEventResponse d)"
| "updated_response (History (history_response.RoomMessagesResponse room_id es start stop))
       (client_response.RoomMessagesResponse ds) =
     History (history_response.RoomMessagesResponse room_id ds start stop)"
| "updated_response (History (history_response.RoomContextResponse room_id start stop e earlier later state))
       (client_response.RoomContextResponse d earlier' later') =
     Context room_id start stop d earlier' later' state"
| "updated_response r _ = r"

definition receive ::
  "('a, 's, 'g, 'o, 'c, 'e, 'm) environment \<Rightarrow> any_response \<Rightarrow> ('a, 's, 'g, 'o, 'c, 'e, any_response) async_op" where
  "receive env response =
     bnd (on_client (receive_response env (client_view response))) (\<lambda>r. ret (updated_response response r))"

text \<open>\<^verbatim>\<open>_send\<close>, with the headers of an upload as arguments.\<close>

definition send_as ::
  "('a, 's, 'g, 'o, 'c, 'e, 'm) async_env \<Rightarrow> string \<Rightarrow> int option \<Rightarrow> response_parser \<Rightarrow> http_request \<Rightarrow>
   ('a, 's, 'g, 'o, 'c, 'e, any_response) async_op" where
  "send_as a content_type content_length parse req =
     andthen (on_client assert_not_disposed)
     (bnd (reads (\<lambda>s. (cl_access_token (ac_client s), attempts (ae_config a) parse 0 0 (ac_replies s))))
      (\<lambda>(token, n, outcome, rest).
      andthen (modify (\<lambda>s. s
        \<lparr> ac_replies := rest,
          ac_sent := ac_sent s @ replicate n (request_sent (ae_config a) token content_type content_length req) \<rparr>))
      (bnd (lift_res outcome) (receive (ae_env a)))))"

definition send ::
  "('a, 's, 'g, 'o, 'c, 'e, 'm) async_env \<Rightarrow> response_parser \<Rightarrow> http_request \<Rightarrow>
   ('a, 's, 'g, 'o, 'c, 'e, any_response) async_op" where
  "send a = send_as a ''application/json'' None"

end
