(* ===== verification/Nio_Transport_Facts.thy ===== *)
theory Nio_Transport_Facts
  imports Nio_Transport
begin

text \<open>
  Facts on sending: how many attempts a request makes and how they end, what is left of a target
  without its token, and that a cancellation of the attempts is the only one.
\<close>

section \<open>Attempts\<close>

lemma attempts_used:
  "attempts cfg parse i j rs = (n, x, rest) \<Longrightarrow> 1 \<le> n \<and> rest = drop n rs"
proof (induction cfg parse i j rs arbitrary: n x rest rule: attempts.induct)
  case (2 cfg parse i j rs)
  then show ?case by (auto split: if_splits prod.splits)
next
  case (3 cfg parse i j r rs)
  then show ?case by (auto split: if_splits prod.splits sum.splits)
qed simp

text \<open>A parser that never cancels: the attempts end in a cancellation only without an answer left.\<close>

definition never_cancels :: "response_parser \<Rightarrow> bool" where
  "never_cancels parse \<longleftrightarrow> (\<forall>r. parse r \<noteq> Inl CancelledError)"

lemma retry_wait_error: "retry_wait response = Inl e \<Longrightarrow> e = TypeError ''retry_after_ms''"
  by (auto simp: retry_wait_def split: any_response.splits field.splits if_splits json.splits)

lemma attempts_cancelled:
  "attempts cfg parse i j rs = (n, Inl CancelledError, rest) \<Longrightarrow> never_cancels parse \<Longrightarrow> n = Suc (length rs)"
proof (induction cfg parse i j rs arbitrary: n rest rule: attempts.induct)
  case (2 cfg parse i j rs)
  then show ?case by (auto split: if_splits prod.splits)
next
  case (3 cfg parse i j r rs)
  then show ?case
    by (auto simp: never_cancels_def dest!: retry_wait_error split: if_splits prod.splits sum.splits)
qed simp

text \<open>Each attempt uses up one of the two limits, but for the last.\<close>

lemma attempts_limit:
  "attempts cfg parse i j rs = (n, x, rest) \<Longrightarrow> i \<le> m \<Longrightarrow> j \<le> t \<Longrightarrow>
   as_max_limit_exceeded cfg = Some m \<Longrightarrow> as_max_timeouts cfg = Some t \<Longrightarrow> i + j + n \<le> Suc (m + t)"
proof (induction cfg parse i j rs arbitrary: n x rest rule: attempts.induct)
  case (2 cfg parse i j rs)
  show ?case
  proof (cases "over_limit (as_max_timeouts cfg) (Suc j)")
    case False
    obtain k y z where rec: "attempts cfg parse i (Suc j) rs = (k, y, z)"
      by (cases "attempts cfg parse i (Suc j) rs") auto
    with 2(2) False have "n = Suc k" by simp
    moreover have "Suc j \<le> t" using False by (simp add: over_limit_def 2(6))
    ultimately show ?thesis using 2(1)[OF False rec] 2(3,5,6) by simp
  qed (use 2 in auto)
next
  case (3 cfg parse i j r rs)
  show ?case
  proof (cases "n = 1")
    case False
    with 3(2) obtain response u k where p: "parse r = Inr response" "rate_limited r response"
      "\<not> over_limit (as_max_limit_exceeded cfg) (Suc i)" "retry_wait response = Inr u"
      "attempts cfg parse (Suc i) j rs = (k, x, rest)" "n = Suc k"
      by (auto split: if_splits prod.splits sum.splits)
    moreover have "Suc i \<le> m" using p(3) by (simp add: over_limit_def 3(5))
    ultimately show ?thesis using 3(1)[OF p(1) _ p(4) p(5)] p(2,3,6) 3(4,5,6) by simp
  qed (use 3 in auto)
qed simp

text \<open>An answer that is given is the one to the last attempt.\<close>

lemma attempts_answer:
  "attempts cfg parse i j rs = (n, Inr response, rest) \<Longrightarrow>
   \<exists>r. n \<le> length rs \<and> rs ! (n - 1) = Reply r \<and> parse r = Inr response"
proof (induction cfg parse i j rs arbitrary: n rest rule: attempts.induct)
  case (2 cfg parse i j rs)
  then obtain k z where rec: "attempts cfg parse i (Suc j) rs = (k, Inr response, z)" "n = Suc k"
    "\<not> over_limit (as_max_timeouts cfg) (Suc j)"
    by (auto split: if_splits prod.splits)
  with 2(1) attempts_used[OF rec(1)] show ?case by fastforce
next
  case (3 cfg parse i j r rs)
  show ?case
  proof (cases "n = 1")
    case True
    have "parse r = Inr response"
    proof (rule ccontr)
      assume "\<not> ?thesis"
      with 3(2) obtain k where "attempts cfg parse (Suc i) j rs = (k, Inr response, rest)" "n = Suc k"
        by (auto split: if_splits prod.splits sum.splits)
      with attempts_used True show False by fastforce
    qed
    with True show ?thesis by simp
  next
    case False
    with 3(2) obtain r' u k where p: "parse r = Inr r'" "rate_limited r r'"
      "\<not> over_limit (as_max_limit_exceeded cfg) (Suc i)" "retry_wait r' = Inr u"
      "attempts cfg parse (Suc i) j rs = (k, Inr response, rest)" "n = Suc k"
      by (auto split: if_splits prod.splits sum.splits)
    from 3(1)[OF p(1) _ p(4) p(5)] p(2,3) obtain h where
      "k \<le> length rs" "rs ! (k - 1) = Reply h" "parse h = Inr response" by auto
    with attempts_used[OF p(5)] p(6) show ?thesis by (cases k) auto
  qed
qed simp

section \<open>A request\<close>

lemma send_run:
  assumes "\<not> cl_disposed (ac_client s)"
    and "attempts (ae_config a) parse 0 0 (ac_replies s) = (n, x, rest)"
  shows "send a parse req s = bnd (lift_res x) (receive (ae_env a)) (s
    \<lparr> ac_replies := rest, ac_sent := ac_sent s @ replicate n
        (request_sent (ae_config a) (cl_access_token (ac_client s)) ''application/json'' None req) \<rparr>)"
  using assms by (simp add: send_def send_as_def on_client_def assert_not_disposed_def op_basic)

lemma send_disposed:
  "cl_disposed (ac_client s) \<Longrightarrow> send a parse req s = (Inl (LocalProtocolError ''durable sync session is poisoned''), s)"
  by (simp add: send_def send_as_def on_client_def assert_not_disposed_def op_basic)

section \<open>The token\<close>

abbreviation spoken :: "string \<times> qval \<Rightarrow> bool" where
  "spoken p \<equiv> qtext (snd p) \<noteq> []"

lemma quote_plus_empty [simp]: "quote_plus s = [] \<longleftrightarrow> s = []"
proof
  assume "quote_plus s = []"
  moreover have "unquote_plus [] = []" by (simp add: unquote_plus_def)
  ultimately show "s = []" using unquote_quote_plus[of s] by simp
qed (simp add: quote_plus_def quote_def)

definition qs_step :: "(string, string list) dict \<Rightarrow> string \<Rightarrow> (string, string list) dict" where
  "qs_step d kv =
     (let k = unquote_plus (before (CHR ''='') kv); v = after (CHR ''='') kv in
      if v = [] then d else dset d k (dget_or d k [] @ [unquote_plus v]))"

lemma qs_step_pair:
  "qs_step d (quote_plus k @ ''='' @ quote_plus v) = (if v = [] then d else dset d k (dget_or d k [] @ [v]))"
proof -
  have "CHR ''='' \<notin> set (quote_plus k)" using quote_plus_reserved[of "CHR ''=''" k] by auto
  then show ?thesis
    by (simp add: qs_step_def Let_def before_append after_append unquote_quote_plus)
qed

lemma parse_qs_pairs:
  assumes "dwf q" "set (dkeys d) \<inter> set (dkeys q) = {}"
  shows "foldl qs_step d (map (\<lambda>(k, v). quote_plus k @ ''='' @ quote_plus (qtext v)) q) =
    d @ map (\<lambda>(k, v). (k, [qtext v])) (filter spoken q)"
  using assms
proof (induction q arbitrary: d)
  case (Cons p q)
  obtain k v where p: "p = (k, v)" by (cases p)
  with Cons.prems have k: "k \<notin> set (dkeys d)" "k \<notin> set (dkeys q)" "dwf q" by (auto simp: dwf_def)
  have new: "dset d k (dget_or d k [] @ [w]) = d @ [(k, [w])]" for w
    using k(1) dget_None_iff[of d k] by (simp add: dset_new dget_or_def)
  have IH: "foldl qs_step e (map (\<lambda>(k, v). quote_plus k @ ''='' @ quote_plus (qtext v)) q) =
      e @ map (\<lambda>(k, v). (k, [qtext v])) (filter spoken q)"
    if "e = d \<or> e = d @ [(k, [qtext v])]" for e
    using that Cons.IH[OF k(3), of e] Cons.prems(2) k(2) by (auto simp: p)
  show ?case
    using IH[of d] IH[of "d @ [(k, [qtext v])]"] by (simp add: p qs_step_pair[simplified] new)
qed simp

lemma parse_qs_urlencode:
  assumes "dwf q"
  shows "parse_qs (urlencode q) = map (\<lambda>(k, v). (k, [qtext v])) (filter spoken q)"
proof (cases "q = []")
  case True
  have "qs_step [] [] = []" by (simp add: qs_step_def Let_def after_def)
  then show ?thesis
    using True by (simp add: parse_qs_def urlencode_def qs_step_def[abs_def])
next
  case False
  let ?enc = "\<lambda>(k, v). quote_plus k @ ''='' @ quote_plus (qtext v)"
  have "split_on (CHR ''&'') (urlencode q) = map ?enc q"
    unfolding urlencode_def
    by (rule split_on_join) (use quote_plus_reserved[of "CHR ''&''"] False in \<open>auto split: prod.splits\<close>)
  then show ?thesis
    using parse_qs_pairs[OF assms, of "[]"] by (simp add: parse_qs_def qs_step_def[abs_def])
qed

definition tokenless :: "query \<Rightarrow> query" where
  "tokenless q = map (\<lambda>(k, v). (k, QStr (qtext v))) (filter (\<lambda>p. fst p \<noteq> ''access_token'' \<and> spoken p) q)"

lemma tokenless_encoded:
  assumes "dwf q"
  shows "urlencode_seq (ddel (parse_qs (urlencode q)) ''access_token'') = urlencode (tokenless q)"
proof -
  have "ddel (map (\<lambda>(k, v). (k, [qtext v])) (filter spoken q)) ''access_token'' =
      map (\<lambda>(k, v). (k, [qtext v])) (filter (\<lambda>p. fst p \<noteq> ''access_token'' \<and> spoken p) q)"
    by (induction q) (auto simp: ddel_def)
  moreover have "concat (map (\<lambda>(k, vs). map (\<lambda>v. quote_plus k @ ''='' @ quote_plus v) vs)
      (map (\<lambda>(k, v). (k, [qtext v])) xs)) =
      map (\<lambda>(k, v). quote_plus k @ ''='' @ quote_plus (qtext v)) (map (\<lambda>(k, v). (k, QStr (qtext v))) xs)"
    for xs :: query
    by (induction xs) auto
  ultimately show ?thesis
    by (simp only: urlencode_seq_def parse_qs_urlencode[OF assms] tokenless_def) (simp only: urlencode_def)
qed

lemma without_token_path:
  assumes "\<exists>p\<in>set ps. p \<noteq> []" "CHR ''?'' \<notin> set base" "dwf q"
  shows "without_token (build_path (PathParts ps) q base) = build_path (PathParts ps) (tokenless q) base"
proof -
  let ?p = "base @ ''/'' @ join ''/'' (map (quote []) (drop_last_empties ps))"
  have q: "CHR ''?'' \<notin> set ?p"
    using join_chars[of "CHR ''?''" "''/''" "map (quote []) (drop_last_empties ps)"] quote_no_reserved[of "CHR ''?''"]
      assms(2) by auto
  have ne: "urlencode x = [] \<longleftrightarrow> x = []" for x
  proof (cases x)
    case (Cons p y)
    have "urlencode x \<noteq> []" unfolding urlencode_def by (rule join_ne) (use Cons in \<open>auto split: prod.splits\<close>)
    with Cons show ?thesis by simp
  qed (simp add: urlencode_def)
  have parts: "before (CHR ''?'') (build_path (PathParts ps) q base) = ?p"
    "after (CHR ''?'') (build_path (PathParts ps) q base) = urlencode q"
    using before_append[OF q] before_none[OF q] after_append[OF q] after_none[OF q]
    by (auto simp: build_path_eq[OF assms(1)] ne[of "[]", simplified])
  show ?thesis
    unfolding without_token_def parts tokenless_encoded[OF assms(3)] Let_def
    by (simp add: build_path_eq[OF assms(1)] ne)
qed

end
