(* ===== verification/Nio_Async.thy ===== *)
theory Nio_Async
  imports Nio_Transport
begin

text \<open>
  The requests of \<^verbatim>\<open>class AsyncClient\<close> in \<^verbatim>\<open>src/nio/client/async_client.py\<close>, one definition per
  method with its guards: which endpoint is asked, as what its answer is read, and what the client
  does with it. Random transaction ids are the argument \<open>ae_uuid\<close>. Methods that make more than one
  request are in \<open>Nio_Async_Ops\<close>.
\<close>

section \<open>Guards and calls\<close>

definition logged_in :: "('a, 's, 'g, 'o, 'c, 'e, 'x) async_op \<Rightarrow> ('a, 's, 'g, 'o, 'c, 'e, 'x) async_op" where
  "logged_in m = andthen (on_client assert_logged_in) m"

definition with_store :: "('a, 's, 'g, 'o, 'c, 'e, 'x) async_op \<Rightarrow> ('a, 's, 'g, 'o, 'c, 'e, 'x) async_op" where
  "with_store m = andthen (on_client (store_loaded (ret ()))) m"

text \<open>A session with the server is made when there is none; only a disposed client refuses.\<close>

definition with_session :: "('a, 's, 'g, 'o, 'c, 'e, 'x) async_op \<Rightarrow> ('a, 's, 'g, 'o, 'c, 'e, 'x) async_op" where
  "with_session m = andthen (on_client assert_not_disposed) m"

definition the_client :: "('a, 's, 'g, 'o, 'c, 'e, ('a, 's, 'g, 'o, 'c, 'e) client) async_op" where
  "the_client = reads ac_client"

abbreviation checker :: "('a, 's, 'g, 'o, 'c, 'e, 'm) async_env \<Rightarrow> validator" where
  "checker a \<equiv> ev_validate (ae_env a)"

text \<open>A request that depends on the client, above all on its access token.\<close>

definition call ::
  "('a, 's, 'g, 'o, 'c, 'e, 'm) async_env \<Rightarrow> response_parser \<Rightarrow> (('a, 's, 'g, 'o, 'c, 'e) client \<Rightarrow> http_request) \<Rightarrow>
   ('a, 's, 'g, 'o, 'c, 'e, any_response) async_op" where
  "call a parse build = bnd the_client (\<lambda>c. send a parse (build c))"

abbreviation token :: "('a, 's, 'g, 'o, 'c, 'e) client \<Rightarrow> string" where
  "token \<equiv> cl_access_token"

definition empty_parser :: "('a, 's, 'g, 'o, 'c, 'e, 'm) async_env \<Rightarrow> string \<Rightarrow> string \<Rightarrow> response_parser" where
  "empty_parser a cls err = from_body Empty (EmptyResponse_from_dict (checker a) cls err)"

definition empty_room_parser ::
  "('a, 's, 'g, 'o, 'c, 'e, 'm) async_env \<Rightarrow> string \<Rightarrow> string \<Rightarrow> string \<Rightarrow> response_parser" where
  "empty_room_parser a cls err room_id =
     from_body Empty (EmptyResponseWithRoomId_from_dict (checker a) cls err room_id)"

section \<open>Accounts\<close>

definition Async_login_raw ::
  "('a, 's, 'g, 'o, 'c, 'e, 'm) async_env \<Rightarrow> jobj option \<Rightarrow> ('a, 's, 'g, 'o, 'c, 'e, any_response) async_op" where
  "Async_login_raw a auth_dict =
     bnd (lift_res (case auth_dict of
            Some (p # d) \<Rightarrow> Api_login_raw auth_dict
          | _ \<Rightarrow> Inl (ValueError ''Auth dictionary shall not be empty''))) (\<lambda>req.
     send a (from_body Account (LoginResponse_from_dict (checker a))) (with_body req))"

definition Async_register_interactive ::
  "('a, 's, 'g, 'o, 'c, 'e, 'm) async_env \<Rightarrow> string \<Rightarrow> string \<Rightarrow> jobj \<Rightarrow> string \<Rightarrow>
   ('a, 's, 'g, 'o, 'c, 'e, any_response) async_op" where
  "Async_register_interactive a username password auth_dict device_name =
     call a (from_body Account (RegisterInteractiveResponse_from_dict (checker a)))
       (\<lambda>c. with_body (Api_register username (Some password) (Some device_name) (cl_device_id c) (Some auth_dict)))"

definition Async_register ::
  "('a, 's, 'g, 'o, 'c, 'e, 'm) async_env \<Rightarrow> string \<Rightarrow> string \<Rightarrow> string \<Rightarrow> json option \<Rightarrow>
   ('a, 's, 'g, 'o, 'c, 'e, any_response) async_op" where
  "Async_register a username password device_name session_token =
     call a (from_body Account (RegisterResponse_from_dict (checker a)))
       (\<lambda>c. with_body (Api_register username (Some password) (Some device_name) (cl_device_id c)
          (Some (put_if_some [(''type'', JStr ''m.login.dummy'')] ''session'' id session_token))))"

definition Async_discovery_info ::
  "('a, 's, 'g, 'o, 'c, 'e, 'm) async_env \<Rightarrow> ('a, 's, 'g, 'o, 'c, 'e, any_response) async_op" where
  "Async_discovery_info a =
     send a (from_body Account (DiscoveryInfoResponse_from_dict (checker a))) (bare Api_discovery_info)"

definition Async_login_info ::
  "('a, 's, 'g, 'o, 'c, 'e, 'm) async_env \<Rightarrow> ('a, 's, 'g, 'o, 'c, 'e, any_response) async_op" where
  "Async_login_info a = send a (from_body Account (LoginInfoResponse_from_dict (checker a))) (bare Api_login_info)"

definition Async_login ::
  "('a, 's, 'g, 'o, 'c, 'e, 'm) async_env \<Rightarrow> string option \<Rightarrow> string option \<Rightarrow> string option \<Rightarrow>
   ('a, 's, 'g, 'o, 'c, 'e, any_response) async_op" where
  "Async_login a password device_name login_token =
     andthen (lift_res (rcheck (ValueError ''Either a password or a token needs to be provided'')
        (password \<noteq> None \<or> login_token \<noteq> None)))
     (bnd the_client (\<lambda>c.
      bnd (lift_res (Api_login (as_user (ae_config a)) password device_name (cl_device_id c) login_token)) (\<lambda>req.
      send a (from_body Account (LoginResponse_from_dict (checker a))) (with_body req))))"

definition Async_logout ::
  "('a, 's, 'g, 'o, 'c, 'e, 'm) async_env \<Rightarrow> bool \<Rightarrow> ('a, 's, 'g, 'o, 'c, 'e, any_response) async_op" where
  "Async_logout a of_all_devices =
     logged_in (call a (from_body Account (LogoutResponse_from_dict (checker a)))
       (\<lambda>c. bare (Api_logout (token c) of_all_devices)))"

definition Async_change_password ::
  "('a, 's, 'g, 'o, 'c, 'e, 'm) async_env \<Rightarrow> jobj \<Rightarrow> string \<Rightarrow> ('a, 's, 'g, 'o, 'c, 'e, any_response) async_op" where
  "Async_change_password a auth new_password =
     logged_in (call a (from_body Account (ChangePasswordResponse_from_dict (checker a)))
       (\<lambda>c. with_body (Api_change_password (token c) auth new_password)))"

definition Async_whoami ::
  "('a, 's, 'g, 'o, 'c, 'e, 'm) async_env \<Rightarrow> ('a, 's, 'g, 'o, 'c, 'e, any_response) async_op" where
  "Async_whoami a =
     call a (from_body Account (WhoamiResponse_from_dict (checker a))) (\<lambda>c. bare (Api_whoami (token c)))"

definition Async_get_openid_token ::
  "('a, 's, 'g, 'o, 'c, 'e, 'm) async_env \<Rightarrow> string \<Rightarrow> ('a, 's, 'g, 'o, 'c, 'e, any_response) async_op" where
  "Async_get_openid_token a user_id =
     logged_in (call a (from_body Account (GetOpenIDTokenResponse_from_dict (checker a)))
       (\<lambda>c. with_body (Api_get_openid_token (token c) user_id)))"

definition Async_upload_filter ::
  "('a, 's, 'g, 'o, 'c, 'e, 'm) async_env \<Rightarrow> string option \<Rightarrow> string list option \<Rightarrow> event_format \<Rightarrow> jobj option \<Rightarrow>
   jobj option \<Rightarrow> jobj option \<Rightarrow> ('a, 's, 'g, 'o, 'c, 'e, any_response) async_op" where
  "Async_upload_filter a user_id event_fields event_format presence account_data room =
     logged_in (call a (from_body Account (UploadFilterResponse_from_dict (checker a)))
       (\<lambda>c. with_body (Api_upload_filter (token c) (str_or user_id (cl_user_id c)) event_fields event_format
          presence account_data room)))"

definition Async_update_device ::
  "('a, 's, 'g, 'o, 'c, 'e, 'm) async_env \<Rightarrow> string \<Rightarrow> jobj \<Rightarrow> ('a, 's, 'g, 'o, 'c, 'e, any_response) async_op" where
  "Async_update_device a device_id content =
     logged_in (call a (empty_parser a ''UpdateDeviceResponse'' ''UpdateDeviceError'')
       (\<lambda>c. with_body (Api_update_device (token c) device_id content)))"

section \<open>Profiles and presence\<close>

definition Async_get_profile ::
  "('a, 's, 'g, 'o, 'c, 'e, 'm) async_env \<Rightarrow> string option \<Rightarrow> ('a, 's, 'g, 'o, 'c, 'e, any_response) async_op" where
  "Async_get_profile a user_id =
     with_session (call a (from_body Profile (ProfileGetResponse_from_dict (checker a)))
       (\<lambda>c. bare (Api_profile_get (str_or user_id (cl_user_id c)) (if token c = [] then None else Some (token c)))))"

definition Async_get_presence ::
  "('a, 's, 'g, 'o, 'c, 'e, 'm) async_env \<Rightarrow> string \<Rightarrow> ('a, 's, 'g, 'o, 'c, 'e, any_response) async_op" where
  "Async_get_presence a user_id =
     with_session (call a (from_body Profile (PresenceGetResponse_from_dict (checker a) user_id))
       (\<lambda>c. bare (Api_get_presence (token c) user_id)))"

definition Async_set_presence ::
  "('a, 's, 'g, 'o, 'c, 'e, 'm) async_env \<Rightarrow> string \<Rightarrow> string option \<Rightarrow> ('a, 's, 'g, 'o, 'c, 'e, any_response) async_op" where
  "Async_set_presence a presence status_msg =
     with_session (bnd (call a (empty_parser a ''PresenceSetResponse'' ''PresenceSetError'')
       (\<lambda>c. with_body (Api_set_presence (token c) (cl_user_id c) presence status_msg))) (\<lambda>response.
     andthen (case response of
         Empty _ \<Rightarrow> modify (\<lambda>s. s \<lparr> ac_presence := Some presence \<rparr>)
       | _ \<Rightarrow> ret ())
     (ret response)))"

definition Async_get_displayname ::
  "('a, 's, 'g, 'o, 'c, 'e, 'm) async_env \<Rightarrow> string option \<Rightarrow> ('a, 's, 'g, 'o, 'c, 'e, any_response) async_op" where
  "Async_get_displayname a user_id =
     with_session (call a (from_body Profile (ProfileGetDisplayNameResponse_from_dict (checker a)))
       (\<lambda>c. bare (Api_profile_get_displayname (str_or user_id (cl_user_id c))
          (if token c = [] then None else Some (token c)))))"

definition Async_set_displayname ::
  "('a, 's, 'g, 'o, 'c, 'e, 'm) async_env \<Rightarrow> string \<Rightarrow> ('a, 's, 'g, 'o, 'c, 'e, any_response) async_op" where
  "Async_set_displayname a displayname =
     logged_in (call a (empty_parser a ''ProfileSetDisplayNameResponse'' ''ProfileSetDisplayNameError'')
       (\<lambda>c. with_body (Api_profile_set_displayname (token c) (cl_user_id c) displayname)))"

definition Async_get_avatar ::
  "('a, 's, 'g, 'o, 'c, 'e, 'm) async_env \<Rightarrow> string option \<Rightarrow> ('a, 's, 'g, 'o, 'c, 'e, any_response) async_op" where
  "Async_get_avatar a user_id =
     with_session (call a (from_body Profile (ProfileGetAvatarResponse_from_dict (checker a)))
       (\<lambda>c. bare (Api_profile_get_avatar (str_or user_id (cl_user_id c))
          (if token c = [] then None else Some (token c)))))"

definition Async_set_avatar ::
  "('a, 's, 'g, 'o, 'c, 'e, 'm) async_env \<Rightarrow> string \<Rightarrow> ('a, 's, 'g, 'o, 'c, 'e, any_response) async_op" where
  "Async_set_avatar a avatar_url =
     logged_in (call a (empty_parser a ''ProfileSetAvatarResponse'' ''ProfileSetAvatarError'')
       (\<lambda>c. with_body (Api_profile_set_avatar (token c) (cl_user_id c) avatar_url)))"

section \<open>Rooms\<close>

definition Async_room_put_state ::
  "('a, 's, 'g, 'o, 'c, 'e, 'm) async_env \<Rightarrow> string \<Rightarrow> string \<Rightarrow> jobj \<Rightarrow> string \<Rightarrow>
   ('a, 's, 'g, 'o, 'c, 'e, any_response) async_op" where
  "Async_room_put_state a room_id event_type content state_key =
     logged_in (call a (from_body Room (RoomPutStateResponse_from_dict (checker a) room_id))
       (\<lambda>c. with_body (Api_room_put_state (token c) room_id event_type content state_key)))"

definition Async_room_get_state ::
  "('a, 's, 'g, 'o, 'c, 'e, 'm) async_env \<Rightarrow> string \<Rightarrow> ('a, 's, 'g, 'o, 'c, 'e, any_response) async_op" where
  "Async_room_get_state a room_id =
     logged_in (call a (from_body Room (RoomGetStateResponse_from_dict (checker a) room_id))
       (\<lambda>c. bare (Api_room_get_state (token c) room_id)))"

definition Async_room_get_state_event ::
  "('a, 's, 'g, 'o, 'c, 'e, 'm) async_env \<Rightarrow> string \<Rightarrow> string \<Rightarrow> string \<Rightarrow>
   ('a, 's, 'g, 'o, 'c, 'e, any_response) async_op" where
  "Async_room_get_state_event a room_id event_type state_key =
     logged_in (call a (from_state_event (checker a) event_type state_key room_id)
       (\<lambda>c. bare (Api_room_get_state_event (token c) room_id event_type state_key)))"

definition Async_room_get_event ::
  "('a, 's, 'g, 'o, 'c, 'e, 'm) async_env \<Rightarrow> string \<Rightarrow> string \<Rightarrow> ('a, 's, 'g, 'o, 'c, 'e, any_response) async_op" where
  "Async_room_get_event a room_id event_id =
     logged_in (call a (from_body Room (RoomGetEventResponse_from_dict (checker a)))
       (\<lambda>c. bare (Api_room_get_event (token c) room_id event_id)))"

definition Async_room_redact ::
  "('a, 's, 'g, 'o, 'c, 'e, 'm) async_env \<Rightarrow> string \<Rightarrow> string \<Rightarrow> string option \<Rightarrow> string option \<Rightarrow>
   ('a, 's, 'g, 'o, 'c, 'e, any_response) async_op" where
  "Async_room_redact a room_id event_id reason tx_id =
     logged_in (call a (from_body Room (RoomRedactResponse_from_dict (checker a) room_id))
       (\<lambda>c. with_body (Api_room_redact (token c) room_id event_id (str_or tx_id (ae_uuid a 0)) reason)))"

definition Async_room_resolve_alias ::
  "('a, 's, 'g, 'o, 'c, 'e, 'm) async_env \<Rightarrow> string \<Rightarrow> ('a, 's, 'g, 'o, 'c, 'e, any_response) async_op" where
  "Async_room_resolve_alias a room_alias =
     send a (from_body Room (RoomResolveAliasResponse_from_dict (checker a) room_alias))
       (bare (Api_room_resolve_alias room_alias))"

definition Async_room_delete_alias ::
  "('a, 's, 'g, 'o, 'c, 'e, 'm) async_env \<Rightarrow> string \<Rightarrow> ('a, 's, 'g, 'o, 'c, 'e, any_response) async_op" where
  "Async_room_delete_alias a room_alias =
     logged_in (call a (from_body Room (RoomDeleteAliasResponse_from_dict room_alias))
       (\<lambda>c. bare (Api_room_delete_alias (token c) room_alias)))"

definition Async_room_put_alias ::
  "('a, 's, 'g, 'o, 'c, 'e, 'm) async_env \<Rightarrow> string \<Rightarrow> string \<Rightarrow> ('a, 's, 'g, 'o, 'c, 'e, any_response) async_op" where
  "Async_room_put_alias a room_alias room_id =
     logged_in (call a (from_body Room (RoomPutAliasResponse_from_dict room_alias room_id))
       (\<lambda>c. with_body (Api_room_put_alias (token c) room_alias room_id)))"

definition Async_room_get_visibility ::
  "('a, 's, 'g, 'o, 'c, 'e, 'm) async_env \<Rightarrow> string \<Rightarrow> ('a, 's, 'g, 'o, 'c, 'e, any_response) async_op" where
  "Async_room_get_visibility a room_id =
     send a (from_body Room (RoomGetVisibilityResponse_from_dict (checker a) room_id))
       (bare (Api_room_get_visibility room_id))"

definition Async_room_create ::
  "('a, 's, 'g, 'o, 'c, 'e, 'm) async_env \<Rightarrow> room_create_args \<Rightarrow> ('a, 's, 'g, 'o, 'c, 'e, any_response) async_op" where
  "Async_room_create a args =
     logged_in (call a (from_body Room (RoomCreateResponse_from_dict (checker a)))
       (\<lambda>c. with_body (Api_room_create (token c) args)))"

definition Async_join ::
  "('a, 's, 'g, 'o, 'c, 'e, 'm) async_env \<Rightarrow> string \<Rightarrow> ('a, 's, 'g, 'o, 'c, 'e, any_response) async_op" where
  "Async_join a room_id =
     logged_in (call a (from_body Room (JoinResponse_from_dict (checker a))) (\<lambda>c. bare (Api_join (token c) room_id)))"

definition Async_room_knock ::
  "('a, 's, 'g, 'o, 'c, 'e, 'm) async_env \<Rightarrow> string \<Rightarrow> string option \<Rightarrow> ('a, 's, 'g, 'o, 'c, 'e, any_response) async_op" where
  "Async_room_knock a room_id reason =
     logged_in (call a (from_body Room (RoomKnockResponse_from_dict (checker a)))
       (\<lambda>c. with_body (Api_room_knock (token c) room_id reason)))"

definition Async_room_enable_knocking ::
  "('a, 's, 'g, 'o, 'c, 'e, 'm) async_env \<Rightarrow> string \<Rightarrow> ('a, 's, 'g, 'o, 'c, 'e, any_response) async_op" where
  "Async_room_enable_knocking a room_id =
     logged_in (Async_room_put_state a room_id ''m.room.join_rules'' [(''join_rule'', JStr ''knock'')] [])"

definition Async_update_room_topic ::
  "('a, 's, 'g, 'o, 'c, 'e, 'm) async_env \<Rightarrow> string \<Rightarrow> string \<Rightarrow> ('a, 's, 'g, 'o, 'c, 'e, any_response) async_op" where
  "Async_update_room_topic a room_id topic =
     logged_in (Async_room_put_state a room_id ''m.room.topic'' [(''topic'', JStr topic)] [])"

definition Async_room_invite ::
  "('a, 's, 'g, 'o, 'c, 'e, 'm) async_env \<Rightarrow> string \<Rightarrow> string \<Rightarrow> ('a, 's, 'g, 'o, 'c, 'e, any_response) async_op" where
  "Async_room_invite a room_id user_id =
     logged_in (call a (empty_parser a ''RoomInviteResponse'' ''RoomInviteError'')
       (\<lambda>c. with_body (Api_room_invite (token c) room_id user_id)))"

definition Async_room_leave ::
  "('a, 's, 'g, 'o, 'c, 'e, 'm) async_env \<Rightarrow> string \<Rightarrow> ('a, 's, 'g, 'o, 'c, 'e, any_response) async_op" where
  "Async_room_leave a room_id =
     logged_in (call a (empty_parser a ''RoomLeaveResponse'' ''RoomLeaveError'')
       (\<lambda>c. bare (Api_room_leave (token c) room_id)))"

definition Async_room_forget ::
  "('a, 's, 'g, 'o, 'c, 'e, 'm) async_env \<Rightarrow> string \<Rightarrow> ('a, 's, 'g, 'o, 'c, 'e, any_response) async_op" where
  "Async_room_forget a room_id =
     logged_in (call a (empty_room_parser a ''RoomForgetResponse'' ''RoomForgetError'' room_id)
       (\<lambda>c. bare (Api_room_forget (token c) room_id)))"

definition Async_room_kick ::
  "('a, 's, 'g, 'o, 'c, 'e, 'm) async_env \<Rightarrow> string \<Rightarrow> string \<Rightarrow> string option \<Rightarrow>
   ('a, 's, 'g, 'o, 'c, 'e, any_response) async_op" where
  "Async_room_kick a room_id user_id reason =
     logged_in (call a (empty_parser a ''RoomKickResponse'' ''RoomKickError'')
       (\<lambda>c. with_body (Api_room_kick (token c) room_id user_id reason)))"

definition Async_room_ban ::
  "('a, 's, 'g, 'o, 'c, 'e, 'm) async_env \<Rightarrow> string \<Rightarrow> string \<Rightarrow> string option \<Rightarrow>
   ('a, 's, 'g, 'o, 'c, 'e, any_response) async_op" where
  "Async_room_ban a room_id user_id reason =
     logged_in (call a (empty_parser a ''RoomBanResponse'' ''RoomBanError'')
       (\<lambda>c. with_body (Api_room_ban (token c) room_id user_id reason)))"

definition Async_room_unban ::
  "('a, 's, 'g, 'o, 'c, 'e, 'm) async_env \<Rightarrow> string \<Rightarrow> string \<Rightarrow> ('a, 's, 'g, 'o, 'c, 'e, any_response) async_op" where
  "Async_room_unban a room_id user_id =
     logged_in (call a (empty_parser a ''RoomUnbanResponse'' ''RoomUnbanError'')
       (\<lambda>c. with_body (Api_room_unban (token c) room_id user_id)))"

definition Async_joined_members ::
  "('a, 's, 'g, 'o, 'c, 'e, 'm) async_env \<Rightarrow> string \<Rightarrow> ('a, 's, 'g, 'o, 'c, 'e, any_response) async_op" where
  "Async_joined_members a room_id =
     logged_in (call a (from_body Room (JoinedMembersResponse_from_dict (checker a) room_id))
       (\<lambda>c. bare (Api_joined_members (token c) room_id)))"

definition Async_joined_rooms ::
  "('a, 's, 'g, 'o, 'c, 'e, 'm) async_env \<Rightarrow> ('a, 's, 'g, 'o, 'c, 'e, any_response) async_op" where
  "Async_joined_rooms a =
     logged_in (call a (from_body Room (JoinedRoomsResponse_from_dict (checker a)))
       (\<lambda>c. bare (Api_joined_rooms (token c))))"

definition Async_list_direct_rooms ::
  "('a, 's, 'g, 'o, 'c, 'e, 'm) async_env \<Rightarrow> ('a, 's, 'g, 'o, 'c, 'e, any_response) async_op" where
  "Async_list_direct_rooms a =
     logged_in (with_session (call a (from_body Room (DirectRoomsResponse_from_dict (checker a)))
       (\<lambda>c. bare (Api_direct_room_list (token c) (cl_user_id c)))))"

definition Async_list_public_rooms ::
  "('a, 's, 'g, 'o, 'c, 'e, 'm) async_env \<Rightarrow> int option \<Rightarrow> string option \<Rightarrow> string option \<Rightarrow> string option \<Rightarrow>
   (string option) list option \<Rightarrow> bool \<Rightarrow> string option \<Rightarrow> ('a, 's, 'g, 'o, 'c, 'e, any_response) async_op" where
  "Async_list_public_rooms a limit server since search_term room_types include_all third_party =
     call a (from_body History (PublicRoomsResponse_from_dict (checker a)))
       (\<lambda>c. Api_public_rooms (Some (token c)) limit server since search_term room_types (Some include_all) third_party)"

section \<open>History\<close>

definition Async_space_get_hierarchy ::
  "('a, 's, 'g, 'o, 'c, 'e, 'm) async_env \<Rightarrow> string \<Rightarrow> string option \<Rightarrow> int option \<Rightarrow> int option \<Rightarrow> bool \<Rightarrow>
   ('a, 's, 'g, 'o, 'c, 'e, any_response) async_op" where
  "Async_space_get_hierarchy a space_id from_page limit max_depth suggested_only =
     logged_in (call a (from_body History (SpaceGetHierarchyResponse_from_dict (checker a)))
       (\<lambda>c. bare (Api_space_get_hierarchy (token c) space_id from_page limit max_depth suggested_only)))"

definition Async_room_context ::
  "('a, 's, 'g, 'o, 'c, 'e, 'm) async_env \<Rightarrow> string \<Rightarrow> string \<Rightarrow> int option \<Rightarrow> ('a, 's, 'g, 'o, 'c, 'e, any_response) async_op" where
  "Async_room_context a room_id event_id limit =
     logged_in (call a (from_body History (RoomContextResponse_from_dict (checker a) room_id))
       (\<lambda>c. bare (Api_room_context (token c) room_id event_id limit)))"

definition Async_room_messages ::
  "('a, 's, 'g, 'o, 'c, 'e, 'm) async_env \<Rightarrow> string \<Rightarrow> string option \<Rightarrow> string option \<Rightarrow> direction_arg \<Rightarrow> int \<Rightarrow>
   jobj option \<Rightarrow> ('a, 's, 'g, 'o, 'c, 'e, any_response) async_op" where
  "Async_room_messages a room_id start stop direction limit message_filter =
     logged_in (bnd the_client (\<lambda>c.
     bnd (lift_res (Api_room_messages (token c) room_id start stop direction limit message_filter)) (\<lambda>req.
     send a (from_body History (RoomMessagesResponse_from_dict (checker a) room_id)) (bare req))))"

section \<open>Ephemeral events and receipts\<close>

definition Async_room_typing ::
  "('a, 's, 'g, 'o, 'c, 'e, 'm) async_env \<Rightarrow> string \<Rightarrow> bool \<Rightarrow> int \<Rightarrow> ('a, 's, 'g, 'o, 'c, 'e, any_response) async_op" where
  "Async_room_typing a room_id typing_state timeout =
     logged_in (call a (empty_room_parser a ''RoomTypingResponse'' ''RoomTypingError'' room_id)
       (\<lambda>c. with_body (Api_room_typing (token c) room_id (cl_user_id c) typing_state timeout)))"

text \<open>A response whose body is no error is still an error when its status says so; the response
  keeps the answer it was made of, here the last one that was read.\<close>

definition last_status :: "reply list \<Rightarrow> reply list \<Rightarrow> int option" where
  "last_status replies rest =
     (case take (length replies - length rest) replies of
        [] \<Rightarrow> None
      | x # xs \<Rightarrow> (case last (x # xs) of Reply r \<Rightarrow> Some (hr_status r) | NoConnection \<Rightarrow> None))"

definition Async_room_send_ephemeral ::
  "('a, 's, 'g, 'o, 'c, 'e, 'm) async_env \<Rightarrow> string \<Rightarrow> string \<Rightarrow> jobj \<Rightarrow> string option \<Rightarrow>
   ('a, 's, 'g, 'o, 'c, 'e, any_response) async_op" where
  "Async_room_send_ephemeral a room_id event_type content tx_id =
     logged_in (bnd (reads ac_replies) (\<lambda>replies.
     bnd (call a (from_body Empty (RoomSendEphemeralResponse_from_dict (checker a) room_id))
       (\<lambda>c. with_body (Api_room_send_ephemeral (token c) room_id event_type content (str_or tx_id (ae_uuid a 0))))) (\<lambda>response.
     bnd (reads (\<lambda>s. last_status replies (ac_replies s))) (\<lambda>status.
     ret (case (response, status) of
         (Empty _, Some n) \<Rightarrow>
           if n < 400 then response
           else Failed ((unknown_error ''RoomSendEphemeralError'' (JStr (''HTTP '' @ int_dec n))) \<lparr> er_room_id := room_id \<rparr>)
       | _ \<Rightarrow> response)))))"

definition Async_update_receipt_marker ::
  "('a, 's, 'g, 'o, 'c, 'e, 'm) async_env \<Rightarrow> string \<Rightarrow> string \<Rightarrow> receipt_type \<Rightarrow> string \<Rightarrow>
   ('a, 's, 'g, 'o, 'c, 'e, any_response) async_op" where
  "Async_update_receipt_marker a room_id event_id receipt thread_id =
     logged_in (call a (empty_parser a ''UpdateReceiptMarkerResponse'' ''UpdateReceiptMarkerError'')
       (\<lambda>c. with_body (Api_update_receipt_marker (token c) room_id event_id receipt thread_id)))"

definition Async_room_read_markers ::
  "('a, 's, 'g, 'o, 'c, 'e, 'm) async_env \<Rightarrow> string \<Rightarrow> string \<Rightarrow> string option \<Rightarrow> string option \<Rightarrow>
   ('a, 's, 'g, 'o, 'c, 'e, any_response) async_op" where
  "Async_room_read_markers a room_id fully_read_event read_event private_read_event =
     logged_in (call a (empty_room_parser a ''RoomReadMarkersResponse'' ''RoomTypingError'' room_id)
       (\<lambda>c. with_body (Api_room_read_markers (token c) room_id fully_read_event read_event private_read_event)))"

section \<open>Content\<close>

definition Async_content_repository_config ::
  "('a, 's, 'g, 'o, 'c, 'e, 'm) async_env \<Rightarrow> ('a, 's, 'g, 'o, 'c, 'e, any_response) async_op" where
  "Async_content_repository_config a =
     logged_in (call a (from_body ContentAnswer (ContentRepositoryConfigResponse_from_dict (checker a)))
       (\<lambda>c. bare (Api_content_repository_config (token c))))"

text \<open>\<^verbatim>\<open>urlparse(mxc)\<close>, for a URI without control characters: the network location and the path.\<close>

definition scheme_char :: "char \<Rightarrow> bool" where
  "scheme_char c = (always_safe c \<and> c \<noteq> CHR ''_'' \<and> c \<noteq> CHR ''~'' \<or> c = CHR ''+'')"

definition is_letter :: "char \<Rightarrow> bool" where
  "is_letter c = (let b = byte_of c in (65 \<le> b \<and> b \<le> 90) \<or> (97 \<le> b \<and> b \<le> 122))"

definition after_scheme :: "string \<Rightarrow> string" where
  "after_scheme u =
     (let s = before (CHR '':'') u in
      if CHR '':'' \<in> set u \<and> s \<noteq> [] \<and> is_letter (hd s) \<and> list_all scheme_char s then after (CHR '':'') u else u)"

definition mxc_parts :: "string \<Rightarrow> string \<times> string" where
  "mxc_parts u =
     (let rest = after_scheme u;
          delim = (\<lambda>c. c = CHR ''/'' \<or> c = CHR ''?'' \<or> c = CHR ''#'');
          netloc = (if take 2 rest = ''//'' then takeWhile (\<lambda>c. \<not> delim c) (drop 2 rest) else []);
          path = (if take 2 rest = ''//'' then dropWhile (\<lambda>c. \<not> delim c) (drop 2 rest) else rest)
      in (netloc, filter (\<lambda>c. c \<noteq> CHR ''/'') (takeWhile (\<lambda>c. c \<noteq> CHR ''?'' \<and> c \<noteq> CHR ''#'') path)))"

definition Async_download ::
  "('a, 's, 'g, 'o, 'c, 'e, 'm) async_env \<Rightarrow> string option \<Rightarrow> string option \<Rightarrow> bool \<Rightarrow> string option \<Rightarrow>
   string option \<Rightarrow> ('a, 's, 'g, 'o, 'c, 'e, any_response) async_op" where
  "Async_download a mxc filename allow_remote server_name media_id =
     with_session
     (bnd (lift_res (case (mxc, server_name, media_id) of
            (None, Some s, Some m) \<Rightarrow> Inr (s, m)
          | (None, _, _) \<Rightarrow> Inl (TypeError ''Either mxc or both the server_name and media_id are required'')
          | (Some u, None, None) \<Rightarrow> Inr (mxc_parts u)
          | (Some u, _, _) \<Rightarrow> Inl (TypeError ''The parameters server_name and media_id are deprecated''))) (\<lambda>(s, m).
      call a (from_content (DownloadResponse_from_data (checker a)))
        (\<lambda>c. bare (Api_download s m filename allow_remote (Some (token c))))))"

definition Async_thumbnail ::
  "('a, 's, 'g, 'o, 'c, 'e, 'm) async_env \<Rightarrow> string \<Rightarrow> string \<Rightarrow> int \<Rightarrow> int \<Rightarrow> resizing_method \<Rightarrow> bool \<Rightarrow>
   ('a, 's, 'g, 'o, 'c, 'e, any_response) async_op" where
  "Async_thumbnail a server_name media_id width height resize allow_remote =
     with_session (call a (from_content (ThumbnailResponse_from_data (checker a)))
       (\<lambda>c. bare (Api_thumbnail server_name media_id width height resize allow_remote (Some (token c)))))"

section \<open>Push rules\<close>

definition Async_set_pushrule ::
  "('a, 's, 'g, 'o, 'c, 'e, 'm) async_env \<Rightarrow> string \<Rightarrow> push_rule_kind \<Rightarrow> string \<Rightarrow> string option \<Rightarrow> string option \<Rightarrow>
   push_action list \<Rightarrow> push_condition list option \<Rightarrow> string option \<Rightarrow> ('a, 's, 'g, 'o, 'c, 'e, any_response) async_op" where
  "Async_set_pushrule a scope kind rule_id before_rule after_rule actions conditions pat =
     logged_in (bnd the_client (\<lambda>c.
     bnd (lift_res (Api_set_pushrule (token c) scope kind rule_id before_rule after_rule actions conditions pat)) (\<lambda>req.
     send a (empty_parser a ''SetPushRuleResponse'' ''SetPushRuleError'') (with_body req))))"

definition Async_delete_pushrule ::
  "('a, 's, 'g, 'o, 'c, 'e, 'm) async_env \<Rightarrow> string \<Rightarrow> push_rule_kind \<Rightarrow> string \<Rightarrow>
   ('a, 's, 'g, 'o, 'c, 'e, any_response) async_op" where
  "Async_delete_pushrule a scope kind rule_id =
     logged_in (call a (empty_parser a ''DeletePushRuleResponse'' ''DeletePushRuleError'')
       (\<lambda>c. bare (Api_delete_pushrule (token c) scope kind rule_id)))"

definition Async_enable_pushrule ::
  "('a, 's, 'g, 'o, 'c, 'e, 'm) async_env \<Rightarrow> string \<Rightarrow> push_rule_kind \<Rightarrow> string \<Rightarrow> bool \<Rightarrow>
   ('a, 's, 'g, 'o, 'c, 'e, any_response) async_op" where
  "Async_enable_pushrule a scope kind rule_id enable =
     logged_in (call a (empty_parser a ''EnablePushRuleResponse'' ''EnablePushRuleError'')
       (\<lambda>c. with_body (Api_enable_pushrule (token c) scope kind rule_id enable)))"

definition Async_set_pushrule_actions ::
  "('a, 's, 'g, 'o, 'c, 'e, 'm) async_env \<Rightarrow> string \<Rightarrow> push_rule_kind \<Rightarrow> string \<Rightarrow> push_action list \<Rightarrow>
   ('a, 's, 'g, 'o, 'c, 'e, any_response) async_op" where
  "Async_set_pushrule_actions a scope kind rule_id actions =
     logged_in (call a (empty_parser a ''SetPushRuleActionsResponse'' ''SetPushRuleActionsError'')
       (\<lambda>c. with_body (Api_set_pushrule_actions (token c) scope kind rule_id actions)))"

section \<open>Synchronization\<close>

text \<open>The poll flag is put back however the request ends.\<close>

definition Async_sync ::
  "('a, 's, 'g, 'o, 'c, 'e, 'm) async_env \<Rightarrow> int option \<Rightarrow> filter_arg \<Rightarrow> string option \<Rightarrow> bool option \<Rightarrow> string option \<Rightarrow>
   ('a, 's, 'g, 'o, 'c, 'e, any_response) async_op" where
  "Async_sync a timeout sync_filter since full_state presence =
     logged_in
     (andthen (on_client (claim_sync_transport ''classic''))
     (bnd (reads id) (\<lambda>s.
      let c = ac_client s;
          sync_token = str_or since (cl_next_batch c);
          since_token = (if sync_token = [] then cl_loaded_sync_token c else Some sync_token);
          ms = (case timeout of
                  None \<Rightarrow> Some (as_request_timeout (ae_config a) * 1000)
                | Some t \<Rightarrow> if t = 0 then None else Some t);
          who = (case presence of Some (x # p) \<Rightarrow> presence | _ \<Rightarrow> ac_presence s)
      in
      andthen (on_client claim_sync_poll)
      (finally_do (\<lambda>s. s \<lparr> ac_client := (ac_client s) \<lparr> cl_sync_in_flight := False \<rparr> \<rparr>)
        (send a (from_body Synced (SyncResponse_from_dict (checker a)))
           (bare (Api_sync (token c) since_token ms sync_filter full_state who)))))))"

section \<open>Messages to devices\<close>

definition Async_to_device ::
  "('a, 's, 'g, 'o, 'c, 'e, 'm) async_env \<Rightarrow> Nio_Olm.to_device_message \<Rightarrow> string option \<Rightarrow>
   ('a, 's, 'g, 'o, 'c, 'e, any_response) async_op" where
  "Async_to_device a message tx_id =
     logged_in (call a (from_body Key (ToDeviceResponse_from_dict (checker a) message))
       (\<lambda>c. with_body (Api_to_device (token c) (tm_type message) (message_as_dict message)
          (str_or tx_id (ae_uuid a 0)))))"

definition Async_keys_upload ::
  "('a, 's, 'g, 'o, 'c, 'e, 'm) async_env \<Rightarrow> ('a, 's, 'g, 'o, 'c, 'e, any_response) async_op" where
  "Async_keys_upload a =
     logged_in (with_store
     (bnd (reads (\<lambda>s. case cl_olm (ac_client s) of None \<Rightarrow> False | Some m \<Rightarrow> should_upload_keys (vo_max_one_time_keys (ev_lib (ae_env a)) (oa_account (om_account m))) m)) (\<lambda>b.
      if \<not> b then raise (LocalProtocolError ''No key upload needed.'')
      else
        bnd (on_client (on_olm (share_keys (ev_lib (ae_env a))))) (\<lambda>keys_dict.
        call a (from_body Key (KeysUploadResponse_from_dict (checker a)))
          (\<lambda>c. with_body (Api_keys_upload (token c) keys_dict))))))"

definition Async_keys_claim ::
  "('a, 's, 'g, 'o, 'c, 'e, 'm) async_env \<Rightarrow> (string, string list) dict \<Rightarrow> ('a, 's, 'g, 'o, 'c, 'e, any_response) async_op" where
  "Async_keys_claim a user_set =
     logged_in (with_store (call a (from_body Key (KeysClaimResponse_from_dict (checker a) None))
       (\<lambda>c. with_body (Api_keys_claim (token c) user_set))))"

end
