(* ===== verification/Nio_Async_Ops.thy ===== *)
theory Nio_Async_Ops
  imports Nio_Async
begin

text \<open>
  The methods of \<^verbatim>\<open>class AsyncClient\<close> that make several requests: registration with a token, key
  queries, the sharing of room keys, sending to encrypted rooms, interactive verification.
\<close>

section \<open>Registration with a token\<close>

definition as_register_error :: "error_response \<Rightarrow> any_response" where
  "as_register_error e =
     Failed (e \<lparr> er_class := ''RegisterErrorResponse'', er_room_id := [], er_users_shared_with := {},
                 er_to_device_message := None \<rparr>)"

definition Async_register_with_token ::
  "('a, 's, 'g, 'o, 'c, 'e, 'm) async_env \<Rightarrow> string \<Rightarrow> string \<Rightarrow> string \<Rightarrow> string \<Rightarrow>
   ('a, 's, 'g, 'o, 'c, 'e, any_response) async_op" where
  "Async_register_with_token a username password registration_token device_name =
     bnd the_client (\<lambda>c.
     bnd (Async_register_interactive a username password
            [(''initial_device_display_name'', JStr (str_or (cl_device_id c) ''matrix-nio''))] []) (\<lambda>r.
     case r of
       Failed e \<Rightarrow> ret (as_register_error e)
     | Account (account_response.RegisterInteractiveResponse stages params session completed u d t) \<Rightarrow>
         bnd (Async_register_interactive a username password
                [(''type'', JStr ''m.login.registration_token''), (''token'', JStr registration_token),
                 (''session'', session)] []) (\<lambda>r2.
         case r2 of
           Failed e \<Rightarrow> ret (as_register_error e)
         | _ \<Rightarrow> Async_register a username password device_name (if session = JNull then None else Some session))
     | _ \<Rightarrow> raise (AttributeError ''session'')))"

section \<open>Running requests together\<close>

text \<open>
  \<^verbatim>\<open>asyncio.gather\<close> waits for every request; a cancellation of the caller ends the wait.
\<close>

definition settle :: "('s, 'x) op \<Rightarrow> ('s, exn + 'x) op" where
  "settle m s =
     (case m s of
        (Inl CancelledError, t) \<Rightarrow> (Inl CancelledError, t)
      | (r, t) \<Rightarrow> (Inr r, t))"

fun gather :: "('s, 'x) op list \<Rightarrow> ('s, (exn + 'x) list) op" where
  "gather [] = ret []"
| "gather (m # ms) = bnd (settle m) (\<lambda>r. bnd (gather ms) (\<lambda>rs. ret (r # rs)))"

definition Async_send_to_device_messages ::
  "('a, 's, 'g, 'o, 'c, 'e, 'm) async_env \<Rightarrow> ('a, 's, 'g, 'o, 'c, 'e, any_response list) async_op" where
  "Async_send_to_device_messages a =
     logged_in (with_session
     (bnd (reads (\<lambda>s. case cl_olm (ac_client s) of None \<Rightarrow> [] | Some m \<Rightarrow> om_outgoing_to_device_messages m)) (\<lambda>messages.
      bnd (gather (map (\<lambda>i. Async_to_device a (messages ! i) (Some (ae_uuid a i))) [0 ..< length messages])) (\<lambda>rs.
      lift_res (rmap id rs)))))"

section \<open>Key queries\<close>

definition with_query_users ::
  "(string set \<Rightarrow> string set) \<Rightarrow> ('a, 's, 'g, 'o, 'c, 'e) async_client \<Rightarrow> ('a, 's, 'g, 'o, 'c, 'e) async_client" where
  "with_query_users f s = s \<lparr> ac_client := (ac_client s) \<lparr> cl_olm :=
     map_option (\<lambda>m. m \<lparr> om_users_for_key_query := f (om_users_for_key_query m) \<rparr>) (cl_olm (ac_client s)) \<rparr> \<rparr>"

definition query_users :: "('a, 's, 'g, 'o, 'c, 'e) async_client \<Rightarrow> string set" where
  "query_users s = (case cl_olm (ac_client s) of None \<Rightarrow> {} | Some m \<Rightarrow> om_users_for_key_query m)"

text \<open>\<^verbatim>\<open>except BaseException\<close>: \<open>f\<close> is done and the exception goes on.\<close>

definition on_exception :: "('s \<Rightarrow> 's) \<Rightarrow> ('s, 'x) op \<Rightarrow> ('s, 'x) op" where
  "on_exception f m s = (case m s of (Inl e, t) \<Rightarrow> (Inl e, f t) | r \<Rightarrow> r)"

text \<open>The order in which Python walks through a set is not fixed; here it is sorted.\<close>

definition Async_keys_query ::
  "('a, 's, 'g, 'o, 'c, 'e, 'm) async_env \<Rightarrow> string set option \<Rightarrow> ('a, 's, 'g, 'o, 'c, 'e, any_response) async_op" where
  "Async_keys_query a user_set =
     logged_in (with_store
     (bnd (reads (\<lambda>s. case user_set of None \<Rightarrow> query_users s | Some us \<Rightarrow> us)) (\<lambda>users.
      if users = {} \<or> [] \<in> users then raise (LocalProtocolError ''No key query required.'')
      else
        andthen (modify (with_query_users (\<lambda>w. w - users)))
        (bnd (on_exception (with_query_users (\<lambda>w. w \<union> users))
            (call a (from_body Key (keys_query_from_dict (checker a) (Some users)))
               (\<lambda>c. with_body (Api_keys_query (token c) (sorted_list_of_set users) None)))) (\<lambda>response.
         andthen (modify (with_query_users (\<lambda>w. w \<union>
           (case response of
              Key (key_response.KeysQueryResponse keys failures us) \<Rightarrow> users - set (dkeys keys)
            | _ \<Rightarrow> users))))
         (ret response))))))"

section \<open>Sharing the key of a room\<close>

definition share_call ::
  "('a, 's, 'g, 'o, 'c, 'e, 'm) async_env \<Rightarrow> string \<Rightarrow> nat \<Rightarrow> share_request \<Rightarrow>
   ('a, 's, 'g, 'o, 'c, 'e, any_response) async_op" where
  "share_call a room_id i req =
     call a (from_body Key (ShareGroupSessionResponse_from_dict (checker a) room_id (fst req)))
       (\<lambda>c. with_body (Api_to_device (token c) ''m.room.encrypted''
          [(''messages'', JObj (map (\<lambda>(u, d). (u, JObj d)) (snd req)))] (ae_uuid a i)))"

definition acknowledged_users :: "(exn + any_response) list \<Rightarrow> (string \<times> string) set" where
  "acknowledged_users rs =
     \<Union> (set (map (\<lambda>r. case r of Inr (Key (key_response.ShareGroupSessionResponse room_id us)) \<Rightarrow> us | _ \<Rightarrow> {}) rs))"

text \<open>The answer is the room and the devices that acknowledged; failed requests are not looked at.\<close>

definition Async_share_group_session ::
  "('a, 's, 'g, 'o, 'c, 'e, 'm) async_env \<Rightarrow> string \<Rightarrow> bool \<Rightarrow>
   ('a, 's, 'g, 'o, 'c, 'e, string \<times> (string \<times> string) set) async_op" where
  "Async_share_group_session a room_id ignore_unverified_devices =
     logged_in (with_store
     (bnd (reads id) (\<lambda>s.
      case dget (cl_rooms (ac_client s)) room_id of
        None \<Rightarrow> raise (LocalProtocolError ''No such room'')
      | Some room \<Rightarrow>
          if \<not> mr_encrypted room then raise (LocalProtocolError ''Room is not encrypted'')
          else if room_id \<in> ac_sharing_session s then raise (LocalProtocolError ''Already sharing a group session'')
          else
            andthen (modify (\<lambda>s. s \<lparr> ac_sharing_session := insert room_id (ac_sharing_session s) \<rparr>))
            (finally_do (\<lambda>s. s \<lparr> ac_sharing_session := ac_sharing_session s - {room_id} \<rparr>)
             (bnd (on_client (Client_get_missing_sessions room_id)) (\<lambda>missing.
              andthen (if missing = [] then ret () else bnd (Async_keys_claim a missing) (\<lambda>_. ret ()))
              (bnd (reads (\<lambda>s. case dget (cl_rooms (ac_client s)) room_id of
                      Some r \<Rightarrow> dkeys (mr_users r) | None \<Rightarrow> dkeys (mr_users room))) (\<lambda>users.
               bnd (on_client (on_olm (share_group_session_parallel (ev_lib (ae_env a)) (ev_now (ae_env a))
                      (ev_fresh_group (ae_env a)) room_id users ignore_unverified_devices))) (\<lambda>reqs.
               bnd (gather (map (\<lambda>i. share_call a room_id i (reqs ! i)) [0 ..< length reqs])) (\<lambda>rs.
               andthen (on_client (on_olm (mark_as_shared room_id)))
               (ret (room_id, acknowledged_users rs))))))))))))"

section \<open>Sending to a room\<close>

definition should_share ::
  "('a, 's, 'g, 'o, 'c, 'e, 'm) async_env \<Rightarrow> string \<Rightarrow> ('a, 's, 'g, 'o, 'c, 'e) async_client \<Rightarrow> bool" where
  "should_share a room_id s =
     (case cl_olm (ac_client s) of
        None \<Rightarrow> False
      | Some m \<Rightarrow> should_share_group_session (ev_now (ae_env a)) room_id m)"

text \<open>
  The loop until the session is shared: at most \<open>n\<close> turns, and the answer is whether it came to its
  end (\<open>sharing_loop_ends\<close>: three turns are enough). Waiting for the share of another task has no
  end here, since there is no other task.
\<close>

fun sharing_loop ::
  "('a, 's, 'g, 'o, 'c, 'e, 'm) async_env \<Rightarrow> string \<Rightarrow> bool \<Rightarrow> nat \<Rightarrow> ('a, 's, 'g, 'o, 'c, 'e, bool) async_op" where
  "sharing_loop a room_id ign 0 = ret False"
| "sharing_loop a room_id ign (Suc n) =
     bnd (reads (should_share a room_id)) (\<lambda>b.
     if \<not> b then ret True
     else
       bnd (reads (\<lambda>s. room_id \<in> ac_sharing_session s)) (\<lambda>busy.
       if busy then raise CancelledError
       else andthen (Async_share_group_session a room_id ign) (sharing_loop a room_id ign n)))"

text \<open>The answer is whether the room is encrypted.\<close>

definition prepare_room_encryption ::
  "('a, 's, 'g, 'o, 'c, 'e, 'm) async_env \<Rightarrow> string \<Rightarrow> bool \<Rightarrow> ('a, 's, 'g, 'o, 'c, 'e, bool) async_op" where
  "prepare_room_encryption a room_id ign =
     bnd the_client (\<lambda>c.
     case dget (cl_rooms c) room_id of
       None \<Rightarrow> raise (LocalProtocolError ''No such room found.'')
     | Some room \<Rightarrow>
         andthen
           (if \<not> mr_encrypted room then ret ()
            else
              andthen
                (if mr_members_synced room then ret ()
                 else
                   andthen (Async_joined_members a room_id)
                   (bnd (reads (\<lambda>s. query_users s \<noteq> {})) (\<lambda>b.
                    if b then bnd (Async_keys_query a None) (\<lambda>_. ret ()) else ret ())))
                (bnd (sharing_loop a room_id ign 3) (\<lambda>_. ret ())))
           (reads (\<lambda>s. case dget (cl_rooms (ac_client s)) room_id of
              Some r \<Rightarrow> mr_encrypted r | None \<Rightarrow> mr_encrypted room)))"

definition prepare_room_send ::
  "('a, 's, 'g, 'o, 'c, 'e, 'm) async_env \<Rightarrow> string \<Rightarrow> string \<Rightarrow> jobj \<Rightarrow> string \<Rightarrow> bool \<Rightarrow>
   ('a, 's, 'g, 'o, 'c, 'e, body_request) async_op" where
  "prepare_room_send a room_id message_type content tx_id ign =
     bnd (reads (\<lambda>s. has_olm (ac_client s))) (\<lambda>b.
     bnd (if b then
            bnd (prepare_room_encryption a room_id ign) (\<lambda>encrypted.
            if encrypted \<and> message_type \<noteq> ''m.reaction''
            then on_client (Client_encrypt (ae_env a) room_id message_type content)
            else ret (message_type, content))
          else ret (message_type, content)) (\<lambda>(message_type, content).
     reads (\<lambda>s. Api_room_send (token (ac_client s)) room_id message_type content tx_id)))"

definition Async_room_send ::
  "('a, 's, 'g, 'o, 'c, 'e, 'm) async_env \<Rightarrow> string \<Rightarrow> string \<Rightarrow> jobj \<Rightarrow> string option \<Rightarrow> bool \<Rightarrow>
   ('a, 's, 'g, 'o, 'c, 'e, any_response) async_op" where
  "Async_room_send a room_id message_type content tx_id ign =
     logged_in
     (bnd (prepare_room_send a room_id message_type content (str_or tx_id (ae_uuid a 0)) ign) (\<lambda>req.
      send a (from_body Room (RoomSendResponse_from_dict (checker a) room_id)) (with_body req)))"

definition Async_room_encrypt ::
  "('a, 's, 'g, 'o, 'c, 'e, 'm) async_env \<Rightarrow> string \<Rightarrow> string \<Rightarrow> jobj \<Rightarrow> bool \<Rightarrow> bool \<Rightarrow>
   ('a, 's, 'g, 'o, 'c, 'e, jobj) async_op" where
  "Async_room_encrypt a room_id event_type content ign counted =
     logged_in (with_store
     (andthen (prepare_room_encryption a room_id ign)
      (on_client (Client_group_encrypt (ae_env a) room_id event_type content counted))))"

definition Async_request_room_key ::
  "('a, 's, 'g, 'o, 'c, 'e, 'm) async_env \<Rightarrow> megolm_event \<Rightarrow> string option \<Rightarrow>
   ('a, 's, 'g, 'o, 'c, 'e, any_response) async_op" where
  "Async_request_room_key a e tx_id =
     logged_in (with_store
     (bnd (reads (\<lambda>s. case cl_olm (ac_client s) of None \<Rightarrow> [] | Some m \<Rightarrow> om_outgoing_key_requests m)) (\<lambda>requests.
      if din (mg_session_id e) requests then raise (LocalProtocolError ''A key sharing request is already sent out'')
      else
        bnd the_client (\<lambda>c.
        andthen (lift_res (rcheck (AssertionError ''user_id'') (cl_user_id c \<noteq> [])))
        (andthen (lift_res (rcheck (AssertionError ''device_id'') (str_or (cl_device_id c) [] \<noteq> [])))
        (bnd (lift_res (as_key_request e (cl_user_id c) (str_or (cl_device_id c) []) [] [])) (\<lambda>message.
         send a (from_body Key (RoomKeyRequestResponse_from_dict (checker a) (mg_session_id e) (mg_session_id e)
                   (mg_room_id e) (mg_algorithm e)))
           (with_body (Api_to_device (token c) (tm_type message) (message_as_dict message)
             (str_or tx_id (ae_uuid a 0)))))))))))"

section \<open>Interactive verification\<close>

definition Async_start_key_verification ::
  "('a, 's, 'g, 'o, 'c, 'e, 'm) async_env \<Rightarrow> olm_device \<Rightarrow> string option \<Rightarrow>
   ('a, 's, 'g, 'o, 'c, 'e, any_response) async_op" where
  "Async_start_key_verification a device tx_id =
     logged_in (with_store
     (bnd (on_client (create_key_verification (ae_env a) device)) (\<lambda>message. Async_to_device a message tx_id)))"

definition has_verification :: "string \<Rightarrow> ('a, 's, 'g, 'o, 'c, 'e) async_client \<Rightarrow> bool" where
  "has_verification transaction_id s =
     (case cl_olm (ac_client s) of None \<Rightarrow> False | Some m \<Rightarrow> din transaction_id (om_key_verifications m))"

definition Async_cancel_key_verification ::
  "('a, 's, 'g, 'o, 'c, 'e, 'm) async_env \<Rightarrow> string \<Rightarrow> bool \<Rightarrow> string option \<Rightarrow>
   ('a, 's, 'g, 'o, 'c, 'e, any_response) async_op" where
  "Async_cancel_key_verification a transaction_id rejected tx_id =
     logged_in (with_store
     (andthen (check_or (LocalProtocolError ''Key verification does not exist.'') (has_verification transaction_id))
     (andthen (on_client (on_olm (on_sas transaction_id (if rejected then reject_sas else sas_cancel))))
     (bnd (on_client (on_olm (on_sas transaction_id get_cancellation))) (\<lambda>message.
      Async_to_device a (plain_message message) tx_id)))))"

definition Async_accept_key_verification ::
  "('a, 's, 'g, 'o, 'c, 'e, 'm) async_env \<Rightarrow> string \<Rightarrow> string option \<Rightarrow>
   ('a, 's, 'g, 'o, 'c, 'e, any_response) async_op" where
  "Async_accept_key_verification a transaction_id tx_id =
     logged_in (with_store
     (andthen (check_or (LocalProtocolError ''Key verification does not exist.'') (has_verification transaction_id))
     (bnd (on_client (on_olm (on_sas transaction_id accept_verification))) (\<lambda>message.
      Async_to_device a (plain_message message) tx_id))))"

definition Async_confirm_short_auth_string ::
  "('a, 's, 'g, 'o, 'c, 'e, 'm) async_env \<Rightarrow> string \<Rightarrow> string option \<Rightarrow>
   ('a, 's, 'g, 'o, 'c, 'e, any_response) async_op" where
  "Async_confirm_short_auth_string a transaction_id tx_id =
     logged_in (with_store
     (bnd (on_client (confirm_key_verification (ae_env a) transaction_id)) (\<lambda>message. Async_to_device a message tx_id)))"

end
