(* ===== verification/Nio_Async_Pinned.thy ===== *)
theory Nio_Async_Pinned
  imports Nio_Async_Ops
begin

text \<open>
  Events encrypted for one device whose key the application knows: \<^verbatim>\<open>src/nio/crypto/to_device.py\<close>
  and \<^verbatim>\<open>encrypted_to_device\<close> of \<^verbatim>\<open>src/nio/client/async_client.py\<close>. The digest of \<^verbatim>\<open>hashlib\<close> is the
  argument \<open>sha256\<close>.
\<close>

section \<open>Preparing a message\<close>

record pinned =
  pn_message :: Nio_Olm.to_device_message
  pn_ed25519 :: string
  pn_fingerprint :: string

fun finite_floats :: "json \<Rightarrow> bool" where
  "finite_floats (JFloat t) = (t \<notin> {''NaN'', ''Infinity'', ''-Infinity''})"
| "finite_floats (JArr xs) = list_all finite_floats xs"
| "finite_floats (JObj d) = list_all (\<lambda>p. finite_floats (snd p)) d"
| "finite_floats _ = True"

definition is_object :: "json \<Rightarrow> bool" where
  "is_object v = (case v of JObj d \<Rightarrow> True | _ \<Rightarrow> False)"

definition prepare_pinned ::
  "(string \<Rightarrow> string) \<Rightarrow> Nio_Olm.to_device_message \<Rightarrow> string \<Rightarrow> string \<Rightarrow> string \<Rightarrow> exn + pinned" where
  "prepare_pinned sha256 m pin user_id device_id =
     (if [] \<in> {tm_type m, tm_recipient m, tm_recipient_device m, pin} \<or>
         tm_recipient_device m = ''*'' \<or> tm_type m = ''m.room.encrypted'' \<or>
         take 1 (tm_recipient m) \<noteq> ''@'' \<or> CHR '':'' \<notin> set (tm_recipient m) \<or> \<not> is_object (tm_content m)
      then Inl (LocalProtocolError ''encrypted to-device send requires one pinned device and clear event'')
      else if \<not> finite_floats (tm_content m) then Inl (LocalProtocolError ''encrypted to-device content must be JSON'')
      else
        Inr \<lparr> pn_message = ToDeviceMessage (tm_type m) (tm_recipient m) (tm_recipient_device m) (sort_keys (tm_content m)),
              pn_ed25519 = pin,
              pn_fingerprint = sha256 (json_dump (sort_keys (JArr
                (map JStr [user_id, device_id, tm_type m, tm_recipient m, tm_recipient_device m, pin] @ [tm_content m])))) \<rparr>)"

section \<open>The device\<close>

text \<open>What a key query must say of the device, and what the client knows of it.\<close>

definition identity_matches ::
  "('a, 's, 'g, 'o, 'm) vodozemac_olm \<Rightarrow> pinned \<Rightarrow> json \<Rightarrow> olm_device \<Rightarrow> exn + bool" where
  "identity_matches lib x payload device =
     (let user = tm_recipient (pn_message x); i = tm_recipient_device (pn_message x); pin = JStr (pn_ed25519 x) in
      rbind (get_or payload ''keys'' (JObj [])) (\<lambda>keys.
      rbind (get_or payload ''user_id'' JNull) (\<lambda>u.
      if u \<noteq> JStr user then Inr False
      else rbind (get_or payload ''device_id'' JNull) (\<lambda>d.
      if d \<noteq> JStr i then Inr False
      else rbind (get_or keys (''ed25519:'' @ i) JNull) (\<lambda>fp.
      if fp \<noteq> pin then Inr False
      else rbind (device_ed25519 device) (\<lambda>known.
      if known \<noteq> pn_ed25519 x then Inr False
      else rbind (get_or keys (''curve25519:'' @ i) JNull) (\<lambda>ck.
      rbind (device_curve25519 device) (\<lambda>curve.
      if ck \<noteq> JStr curve then Inr False
      else rbind (verify_json lib payload pin user i) (\<lambda>(ok, _). Inr ok)))))))))"

definition resolve_pinned ::
  "('a, 's, 'g, 'o, 'm) vodozemac_olm \<Rightarrow> pinned \<Rightarrow> any_response \<Rightarrow> ('a, 's, 'g, 'o, 'c, 'e, olm_device) olm_op" where
  "resolve_pinned lib x response =
     (let user = tm_recipient (pn_message x); i = tm_recipient_device (pn_message x) in
      case response of
        Key (key_response.KeysQueryResponse device_keys failures us) \<Rightarrow>
          bnd (lift_res (contains (after (CHR '':'') user) failures)) (\<lambda>unreachable.
          if unreachable then raise (LocalProtocolError ''encrypted to-device key query failed for recipient'')
          else
            bnd (lift_res (rbind (get_or (JObj device_keys) user (JObj [])) (\<lambda>ds. get_or ds i JNull))) (\<lambda>payload.
            bnd (on_devices (store_getitem user)) (\<lambda>ds.
            case dget ds i of
              None \<Rightarrow> raise (LocalProtocolError ''encrypted to-device recipient is unavailable or blocked'')
            | Some device \<Rightarrow>
                if \<not> truthy payload \<or> od_deleted device \<or> device_blacklisted device then
                  raise (LocalProtocolError ''encrypted to-device recipient is unavailable or blocked'')
                else
                  bnd (lift_res (identity_matches lib x payload device)) (\<lambda>ok.
                  if ok then ret device
                  else raise (LocalProtocolError ''encrypted to-device recipient identity does not match pin'')))))
      | _ \<Rightarrow> raise (LocalProtocolError ''encrypted to-device key query failed''))"

definition encrypt_pinned ::
  "('a, 's, 'g, 'o, 'm) vodozemac_olm \<Rightarrow> int \<Rightarrow> pinned \<Rightarrow> olm_device \<Rightarrow>
   ('a, 's, 'g, 'o, 'c, 'e, Nio_Olm.to_device_message) olm_op" where
  "encrypt_pinned lib now x device =
     bnd (lift_res (device_curve25519 device)) (\<lambda>curve.
     bnd (on_sessions (SessionStore_get curve)) (\<lambda>found.
     case found of
       None \<Rightarrow> raise (LocalProtocolError ''encrypted to-device recipient has no Olm session'')
     | Some session \<Rightarrow>
         bnd (olm_encrypt lib now session device (tm_type (pn_message x)) (tm_content (pn_message x))) (\<lambda>content.
         ret (ToDeviceMessage ''m.room.encrypted'' (od_user_id device) (od_device_id device) content))))"

section \<open>Sending\<close>

definition lacks_session :: "olm_device \<Rightarrow> ('a, 's, 'g, 'o, 'c, 'e, bool) async_op" where
  "lacks_session device =
     bnd (lift_res (device_curve25519 device)) (\<lambda>curve.
     bnd (on_client (on_olm (on_sessions (SessionStore_get curve)))) (\<lambda>found. ret (found = None)))"

text \<open>A ciphertext that was not acknowledged is sent again before anything else, under its own id. The
  answer says whether that was this operation.\<close>

definition finish_pending ::
  "('a, 's, 'g, 'o, 'c, 'e, 'm) async_env \<Rightarrow> pinned \<Rightarrow> string option \<Rightarrow>
   ('a, 's, 'g, 'o, 'c, 'e, any_response option) async_op" where
  "finish_pending a x tx_id =
     bnd (reads ac_pending_encrypted) (\<lambda>pending.
     case pending of
       None \<Rightarrow> ret None
     | Some (previous_id, fingerprint, encrypted) \<Rightarrow>
         if tx_id = Some previous_id \<and> fingerprint \<noteq> pn_fingerprint x then
           raise (LocalProtocolError ''transaction ID belongs to different encrypted content'')
         else
           bnd (Async_to_device a encrypted (Some previous_id)) (\<lambda>response.
           case response of
             Failed e \<Rightarrow> ret (Some response)
           | _ \<Rightarrow>
               andthen (modify (\<lambda>s. s \<lparr> ac_pending_encrypted := None \<rparr>))
               (ret (if tx_id = Some previous_id \<or> tx_id = None \<and> fingerprint = pn_fingerprint x
                     then Some response else None))))"

definition claim_if_missing ::
  "('a, 's, 'g, 'o, 'c, 'e, 'm) async_env \<Rightarrow> olm_device \<Rightarrow> ('a, 's, 'g, 'o, 'c, 'e, unit) async_op" where
  "claim_if_missing a device =
     bnd (lacks_session device) (\<lambda>missing.
     if \<not> missing then ret ()
     else
       bnd (Async_keys_claim a [(od_user_id device, [od_device_id device])]) (\<lambda>claim.
       case claim of
         Failed e \<Rightarrow> raise (LocalProtocolError ''encrypted to-device key claim failed'')
       | _ \<Rightarrow> ret ()))"

definition send_pinned ::
  "('a, 's, 'g, 'o, 'c, 'e, 'm) async_env \<Rightarrow> pinned \<Rightarrow> string \<Rightarrow> ('a, 's, 'g, 'o, 'c, 'e, any_response) async_op" where
  "send_pinned a x request_id =
     (let lib = ev_lib (ae_env a); resolve = (\<lambda>q. on_client (on_olm (resolve_pinned lib x q))) in
      bnd (Async_keys_query a (Some {tm_recipient (pn_message x)})) (\<lambda>query.
      bnd (resolve query) (\<lambda>device.
      andthen (claim_if_missing a device)
      (bnd (resolve query) (\<lambda>device.
      bnd (lacks_session device) (\<lambda>missing.
      if missing then raise (LocalProtocolError ''encrypted to-device key claim supplied no valid session'')
      else
        bnd (on_exception (\<lambda>s. s \<lparr> ac_client := (ac_client s) \<lparr> cl_disposed := True \<rparr> \<rparr>)
               (on_client (on_olm (encrypt_pinned lib (ev_now (ae_env a)) x device)))) (\<lambda>encrypted.
        andthen (modify (\<lambda>s. s \<lparr> ac_pending_encrypted := Some (request_id, pn_fingerprint x, encrypted) \<rparr>))
        (bnd (Async_to_device a encrypted (Some request_id)) (\<lambda>response.
         andthen (case response of
             Failed e \<Rightarrow> ret ()
           | _ \<Rightarrow> modify (\<lambda>s. s \<lparr> ac_pending_encrypted := None \<rparr>))
         (ret response))))))))))"

definition Async_encrypted_to_device ::
  "('a, 's, 'g, 'o, 'c, 'e, 'm) async_env \<Rightarrow> (string \<Rightarrow> string) \<Rightarrow> Nio_Olm.to_device_message \<Rightarrow> string \<Rightarrow> string option \<Rightarrow>
   ('a, 's, 'g, 'o, 'c, 'e, any_response) async_op" where
  "Async_encrypted_to_device a sha256 message recipient_ed25519 tx_id =
     logged_in (with_store
     (andthen (lift_res (rcheck (LocalProtocolError ''transaction ID must be a nonempty string'') (tx_id \<noteq> Some [])))
     (bnd the_client (\<lambda>c.
      andthen (lift_res (rcheck (AssertionError ''device_id'') (str_or (cl_device_id c) [] \<noteq> [])))
      (bnd (lift_res (prepare_pinned sha256 message recipient_ed25519 (cl_user_id c) (str_or (cl_device_id c) []))) (\<lambda>x.
       bnd (finish_pending a x tx_id) (\<lambda>done_already.
       case done_already of
         Some response \<Rightarrow> ret response
       | None \<Rightarrow> send_pinned a x (str_or tx_id (ae_uuid a 0)))))))))"

end
