(* ===== verification/Nio_Async_Rooms.thy ===== *)
theory Nio_Async_Rooms
  imports Nio_Async_Ops
begin

text \<open>
  Methods of \<^verbatim>\<open>class AsyncClient\<close> that walk through pages or change a room in steps: relations
  and threads, permissions, aliases, the upgrade of a room.
\<close>

section \<open>Pages of events\<close>

text \<open>
  A generator yields events and then ends or raises: the events, and the exception if there is
  one. Every page takes an answer from \<open>ac_replies\<close>, so a walk of one turn more than there are
  answers is never cut short (\<open>relation_pages_enough\<close>).
\<close>

type_synonym yielded = "event list \<times> exn option"

definition outcome :: "('s, 'x) op \<Rightarrow> ('s, exn + 'x) op" where
  "outcome m s = (case m s of (r, t) \<Rightarrow> (Inr r, t))"

definition too_shallow :: "int option \<Rightarrow> event list \<Rightarrow> json \<Rightarrow> bool" where
  "too_shallow min_depth es depth =
     (case min_depth of
        None \<Rightarrow> False
      | Some m \<Rightarrow> es \<noteq> [] \<and> (depth = JNull \<or> int_of_json depth < m))"

fun relation_pages ::
  "('a, 's, 'g, 'o, 'c, 'e, 'm) async_env \<Rightarrow> string \<Rightarrow> string \<Rightarrow> (string \<Rightarrow> string option \<Rightarrow> request) \<Rightarrow> int option \<Rightarrow>
   nat \<Rightarrow> string option \<Rightarrow> ('a, 's, 'g, 'o, 'c, 'e, yielded) async_op" where
  "relation_pages a room_id event_id build min_depth 0 from = ret ([], Some CancelledError)"
| "relation_pages a room_id event_id build min_depth (Suc n) from =
     bnd (outcome (call a (from_body History (RoomEventRelationsResponse_from_dict (checker a) room_id event_id))
       (\<lambda>c. bare (build (token c) from)))) (\<lambda>r.
     case r of
       Inl e \<Rightarrow> ret ([], Some e)
     | Inr (History (history_response.RoomEventRelationsResponse i j es prev next_batch depth)) \<Rightarrow>
         if too_shallow min_depth es depth then ret ([], Some InsufficientRecursionDepthError)
         else if next_batch = JNull then ret (es, None)
         else
           bnd (relation_pages a room_id event_id build min_depth n (Some (text_of next_batch))) (\<lambda>(more, e).
           ret (es @ more, e))
     | Inr _ \<Rightarrow> ret ([], Some RemoteProtocolError))"

definition Async_room_get_event_relations ::
  "('a, 's, 'g, 'o, 'c, 'e, 'm) async_env \<Rightarrow> string \<Rightarrow> string \<Rightarrow> relationship_type option \<Rightarrow> string option \<Rightarrow>
   message_direction \<Rightarrow> int option \<Rightarrow> bool \<Rightarrow> int option \<Rightarrow> ('a, 's, 'g, 'o, 'c, 'e, yielded) async_op" where
  "Async_room_get_event_relations a room_id event_id rel_type event_type direction limit recurse min_depth =
     logged_in
     (andthen (lift_res (rcheck (LocalProtocolError ''minimum_recursion_depth requires recurse=True'')
        (min_depth = None \<or> recurse)))
     (bnd (reads (\<lambda>s. Suc (length (ac_replies s)))) (\<lambda>n.
      relation_pages a room_id event_id
        (\<lambda>t from. Api_room_get_event_relations t room_id event_id rel_type event_type direction from None limit recurse)
        min_depth n None)))"

text \<open>An error has no \<^verbatim>\<open>next_batch\<close>.\<close>

fun thread_pages ::
  "('a, 's, 'g, 'o, 'c, 'e, 'm) async_env \<Rightarrow> string \<Rightarrow> thread_inclusion \<Rightarrow> int option \<Rightarrow> nat \<Rightarrow> string option \<Rightarrow>
   ('a, 's, 'g, 'o, 'c, 'e, yielded) async_op" where
  "thread_pages a room_id inclusion limit 0 from = ret ([], Some CancelledError)"
| "thread_pages a room_id inclusion limit (Suc n) from =
     bnd (outcome (call a (from_body History (RoomThreadsResponse_from_dict (checker a) room_id))
       (\<lambda>c. bare (Api_room_get_threads (token c) room_id inclusion from limit)))) (\<lambda>r.
     case r of
       Inl e \<Rightarrow> ret ([], Some e)
     | Inr (History (history_response.RoomThreadsResponse i es next_batch)) \<Rightarrow>
         if next_batch = JNull then ret (es, None)
         else
           bnd (thread_pages a room_id inclusion limit n (Some (text_of next_batch))) (\<lambda>(more, e). ret (es @ more, e))
     | Inr _ \<Rightarrow> ret ([], Some (AttributeError ''next_batch'')))"

definition Async_room_get_threads ::
  "('a, 's, 'g, 'o, 'c, 'e, 'm) async_env \<Rightarrow> string \<Rightarrow> thread_inclusion \<Rightarrow> int option \<Rightarrow>
   ('a, 's, 'g, 'o, 'c, 'e, yielded) async_op" where
  "Async_room_get_threads a room_id inclusion limit =
     logged_in (bnd (reads (\<lambda>s. Suc (length (ac_replies s)))) (\<lambda>n. thread_pages a room_id inclusion limit n None))"

section \<open>Permissions\<close>

definition local_error :: "string \<Rightarrow> string \<Rightarrow> error_response" where
  "local_error cls message = unknown_error cls (JStr message)"

text \<open>\<^verbatim>\<open>a >= b\<close> of two JSON values; the comparison with a float is an argument.\<close>

definition json_ge :: "(json \<Rightarrow> json \<Rightarrow> bool) \<Rightarrow> json \<Rightarrow> json \<Rightarrow> exn + bool" where
  "json_ge float_ge x y =
     (let number = (\<lambda>v. case v of JInt i \<Rightarrow> True | JBool b \<Rightarrow> True | JFloat t \<Rightarrow> True | _ \<Rightarrow> False);
          float = (\<lambda>v. case v of JFloat t \<Rightarrow> True | _ \<Rightarrow> False)
      in if \<not> number x \<or> \<not> number y then Inl (TypeError ''>='')
         else if float x \<or> float y then Inr (float_ge x y)
         else Inr (int_of_json y \<le> int_of_json x))"

text \<open>Reading a level, with the handlers of \<^verbatim>\<open>KeyError\<close> and of any other exception.\<close>

definition with_handlers ::
  "exn + json \<Rightarrow> (unit \<Rightarrow> error_response + json) \<Rightarrow> error_response \<Rightarrow> error_response + json" where
  "with_handlers r on_missing err =
     (case r of Inr v \<Rightarrow> Inr v | Inl (KeyError k) \<Rightarrow> on_missing () | Inl _ \<Rightarrow> Inl err)"

definition level_or :: "json \<Rightarrow> string \<Rightarrow> int \<Rightarrow> json" where
  "level_or content k n = (case get_or content k (JInt n) of Inr v \<Rightarrow> v | Inl _ \<Rightarrow> JInt n)"

definition state_content :: "any_response \<Rightarrow> exn + json" where
  "state_content response =
     (case response of
        Room (room_response.RoomGetStateEventResponse v event_type state_key room_id) \<Rightarrow> Inr v
      | _ \<Rightarrow> Inl (AttributeError ''content''))"

definition read_user_level :: "any_response \<Rightarrow> string \<Rightarrow> error_response + json" where
  "read_user_level response user_id =
     with_handlers
       (rbind (state_content response) (\<lambda>v. rbind (item v ''users'') (\<lambda>u. item u user_id)))
       (\<lambda>_. Inr (case state_content response of Inr v \<Rightarrow> level_or v ''users_default'' 0 | Inl _ \<Rightarrow> JInt 0))
       (local_error ''ErrorResponse'' ''Couldn't get user power levels'')"

definition read_event_level :: "any_response \<Rightarrow> string \<Rightarrow> string \<Rightarrow> error_response + json" where
  "read_event_level response event_name event_type =
     with_handlers
       (rbind (state_content response) (\<lambda>v. rbind (item v ''events'') (\<lambda>u. item u event_name)))
       (\<lambda>_. case state_content response of
          Inr v \<Rightarrow>
            if event_type = ''event'' then Inr (level_or v ''events_default'' 0)
            else if event_type = ''state'' then Inr (level_or v ''state_default'' 50)
            else Inl (local_error ''ErrorResponse'' (''event_type '' @ event_type @ '' unknown''))
        | Inl _ \<Rightarrow> Inl (local_error ''ErrorResponse'' ''Couldn't get event power levels''))
       (local_error ''ErrorResponse'' ''Couldn't get event power levels'')"

definition check_permission ::
  "('a, 's, 'g, 'o, 'c, 'e, 'm) async_env \<Rightarrow> (json \<Rightarrow> json \<Rightarrow> bool) \<Rightarrow> string \<Rightarrow>
   (any_response \<Rightarrow> (error_response + json) \<times> exn option) \<Rightarrow> ('a, 's, 'g, 'o, 'c, 'e, error_response + bool) async_op" where
  "check_permission a float_ge room_id needed =
     logged_in
     (bnd (Async_whoami a) (\<lambda>who.
      case who of
        Failed e \<Rightarrow> ret (Inl e)
      | Account (account_response.WhoamiResponse u d g) \<Rightarrow>
          bnd (reads (\<lambda>s. dget (cl_rooms (ac_client s)) room_id)) (\<lambda>found.
          case found of
            None \<Rightarrow> raise (KeyError room_id)
          | Some room \<Rightarrow>
              if text_of u \<in> mr_creators room then ret (Inr True)
              else
                bnd (Async_room_get_state_event a room_id ''m.room.power_levels'' []) (\<lambda>levels.
                case read_user_level levels (text_of u) of
                  Inl e \<Rightarrow> ret (Inl e)
                | Inr mine \<Rightarrow>
                    (case needed levels of
                       (_, Some x) \<Rightarrow> raise x
                     | (Inl e, None) \<Rightarrow> ret (Inl e)
                     | (Inr level, None) \<Rightarrow> bnd (lift_res (json_ge float_ge mine level)) (\<lambda>b. ret (Inr b)))))
      | _ \<Rightarrow> raise (AttributeError ''user_id'')))"

definition Async_has_event_permission ::
  "('a, 's, 'g, 'o, 'c, 'e, 'm) async_env \<Rightarrow> (json \<Rightarrow> json \<Rightarrow> bool) \<Rightarrow> string \<Rightarrow> string \<Rightarrow> string \<Rightarrow>
   ('a, 's, 'g, 'o, 'c, 'e, error_response + bool) async_op" where
  "Async_has_event_permission a float_ge room_id event_name event_type =
     check_permission a float_ge room_id (\<lambda>levels. (read_event_level levels event_name event_type, None))"

text \<open>Here only the \<^verbatim>\<open>KeyError\<close> is caught.\<close>

definition Async_has_permission ::
  "('a, 's, 'g, 'o, 'c, 'e, 'm) async_env \<Rightarrow> (json \<Rightarrow> json \<Rightarrow> bool) \<Rightarrow> string \<Rightarrow> string \<Rightarrow>
   ('a, 's, 'g, 'o, 'c, 'e, error_response + bool) async_op" where
  "Async_has_permission a float_ge room_id permission_type =
     check_permission a float_ge room_id (\<lambda>levels.
       case rbind (state_content levels) (\<lambda>v. item v permission_type) of
         Inr v \<Rightarrow> (Inr v, None)
       | Inl (KeyError k) \<Rightarrow>
           (Inl (local_error ''ErrorResponse'' (''permission_type '' @ permission_type @ '' unknown'')), None)
       | Inl e \<Rightarrow> (Inr JNull, Some e))"

section \<open>Aliases\<close>

definition failed_as :: "string \<Rightarrow> any_response \<Rightarrow> bool" where
  "failed_as cls response = (case response of Failed e \<Rightarrow> er_class e = cls | _ \<Rightarrow> False)"

text \<open>The aliases of a room, with the alternative ones as they are in the event.\<close>

definition read_aliases :: "json \<Rightarrow> exn + json list \<times> json option" where
  "read_aliases content =
     rbind (item content ''alias'') (\<lambda>main.
     rbind (contains ''alt_aliases'' content) (\<lambda>b.
     if \<not> b then Inr ([main], None)
     else
       rbind (item content ''alt_aliases'') (\<lambda>alt.
       rbind (iterated alt) (\<lambda>more.
       Inr (main # more, Some alt)))))"

fun each_alias ::
  "(string \<Rightarrow> ('s, any_response) op) \<Rightarrow> string \<Rightarrow> json list \<Rightarrow> ('s, json option) op" where
  "each_alias f msg [] = ret None"
| "each_alias f msg (v # vs) =
     bnd (lift_res (str_value v)) (\<lambda>alias.
     bnd (f alias) (\<lambda>response.
     if failed_as ''RoomDeleteAliasError'' response then ret (Some (JStr (msg @ alias)))
     else each_alias f msg vs))"

text \<open>
  The alternative aliases of the old event take the place of the argument, which is so never
  written to the room.
\<close>

definition Async_room_update_aliases ::
  "('a, 's, 'g, 'o, 'c, 'e, 'm) async_env \<Rightarrow> string \<Rightarrow> json option \<Rightarrow> json list \<Rightarrow>
   ('a, 's, 'g, 'o, 'c, 'e, any_response) async_op" where
  "Async_room_update_aliases a room_id canonical_alias alt_aliases =
     logged_in
     (let new_aliases = (case canonical_alias of None \<Rightarrow> [] | Some c \<Rightarrow> alt_aliases @ [c]);
          update_error = (\<lambda>m. Failed (unknown_error ''RoomUpdateAliasError'' m))
      in
      bnd (Async_room_get_state_event a room_id ''m.room.canonical_alias'' []) (\<lambda>event.
      bnd (lift_res (case state_content event of
             Inr v \<Rightarrow> rbind (read_aliases v) (\<lambda>(xs, alt). Inr (xs, case alt of None \<Rightarrow> JArr alt_aliases | Some w \<Rightarrow> w))
           | Inl _ \<Rightarrow> Inr ([], JArr alt_aliases))) (\<lambda>(current, alt).
      bnd (each_alias (Async_room_delete_alias a) ''Could not delete alias ''
             (filter (\<lambda>x. x \<notin> set new_aliases) current)) (\<lambda>e1.
      case e1 of Some m \<Rightarrow> ret (update_error m)
      | None \<Rightarrow>
          bnd (each_alias (\<lambda>x. Async_room_put_alias a x room_id) ''Could not put alias '' new_aliases) (\<lambda>e2.
          case e2 of Some m \<Rightarrow> ret (update_error m)
          | None \<Rightarrow>
              bnd (Async_room_put_state a room_id ''m.room.canonical_alias''
                     [(''alias'', case canonical_alias of None \<Rightarrow> JNull | Some c \<Rightarrow> c), (''alt_aliases'', alt)] []) (\<lambda>r.
              ret (if failed_as ''RoomPutStateError'' r then update_error (JStr ''Failed to put m.room.canonical_alias'')
                   else Empty (EmptyResponse ''RoomUpdateAliasResponse''))))))))"

section \<open>Upgrading a room\<close>

text \<open>The state to copy and the power levels; the content of a state event is an object.\<close>

fun copied_state :: "string list \<Rightarrow> json list \<Rightarrow> exn + jobj list \<times> json option" where
  "copied_state copy_events [] = Inr ([], None)"
| "copied_state copy_events (e # es) =
     rbind (item e ''type'') (\<lambda>t.
     rbind (if t = JStr ''m.room.power_levels'' then rbind (item e ''content'') (\<lambda>c. Inr (Some c)) else Inr None) (\<lambda>here.
     rbind (copied_state copy_events es) (\<lambda>(copied, levels).
     Inr ((case e of JObj d \<Rightarrow>
             if t \<in> JStr ` set copy_events \<and> t \<noteq> JStr ''m.room.power_levels'' then d # copied else copied
           | _ \<Rightarrow> copied),
          (case levels of None \<Rightarrow> here | Some l \<Rightarrow> Some l)))))"

definition upgrade_error :: "string \<Rightarrow> any_response" where
  "upgrade_error message = Failed (local_error ''RoomUpgradeError'' message)"

definition object_of :: "json \<Rightarrow> jobj option" where
  "object_of v = (case v of JObj d \<Rightarrow> Some d | _ \<Rightarrow> None)"

text \<open>The power levels without the user who becomes the creator, or the predecessor's last event.\<close>

definition upgrade_levels ::
  "('a, 's, 'g, 'o, 'c, 'e, 'm) async_env \<Rightarrow> json option \<Rightarrow> ('a, 's, 'g, 'o, 'c, 'e, string + jobj) async_op" where
  "upgrade_levels a levels =
     (case rbind (case levels of None \<Rightarrow> Inr None | Some l \<Rightarrow> Inr (object_of l)) (\<lambda>x. Inr x) of
        Inr (Some d) \<Rightarrow>
          bnd (Async_whoami a) (\<lambda>who.
          case who of
            Account (account_response.WhoamiResponse u i g) \<Rightarrow>
              ret (case object_of (case dget d ''users'' of None \<Rightarrow> JObj [] | Some x \<Rightarrow> x) of
                 None \<Rightarrow> Inl ''Room has no usable power-level state''
               | Some users \<Rightarrow>
                   Inr (if din ''users'' d then dset d ''users'' (JObj (ddel users (text_of u))) else d))
          | _ \<Rightarrow> ret (Inl ''Failed to identify the current user''))
      | _ \<Rightarrow> ret (Inl ''Room has no usable power-level state''))"

definition move_aliases ::
  "('a, 's, 'g, 'o, 'c, 'e, 'm) async_env \<Rightarrow> string \<Rightarrow> string \<Rightarrow> ('a, 's, 'g, 'o, 'c, 'e, any_response option) async_op" where
  "move_aliases a old_room_id new_room_id =
     bnd (Async_room_get_state_event a old_room_id ''m.room.canonical_alias'' []) (\<lambda>event.
     case state_content event of
       Inl _ \<Rightarrow> ret None
     | Inr v \<Rightarrow>
         bnd (lift_res (read_aliases v)) (\<lambda>(aliases, alt).
         bnd (Async_room_update_aliases a old_room_id None []) (\<lambda>r1.
         if failed_as ''RoomDeleteAliasError'' r1 then ret (Some (upgrade_error ''Could update the old rooms aliases''))
         else
           bnd (Async_room_update_aliases a new_room_id (if hd aliases = JNull then None else Some (hd aliases)) (tl aliases)) (\<lambda>r2.
           ret (if failed_as ''RoomDeleteAliasError'' r2 then Some (upgrade_error ''Could update the new rooms aliases'')
                else None)))))"

definition finish_upgrade ::
  "('a, 's, 'g, 'o, 'c, 'e, 'm) async_env \<Rightarrow> string \<Rightarrow> string \<Rightarrow> room_create_args \<Rightarrow>
   ('a, 's, 'g, 'o, 'c, 'e, any_response) async_op" where
  "finish_upgrade a old_room_id message args =
     bnd (Async_room_create a args) (\<lambda>new_room.
     case new_room of
       Room (room_response.RoomCreateResponse new_id) \<Rightarrow>
         bnd (Async_room_put_state a old_room_id ''m.room.tombstone''
                [(''body'', JStr message), (''replacement_room'', new_id)] []) (\<lambda>r.
         if failed_as ''RoomPutStateError'' r then ret (upgrade_error ''Failed to put m.room.tombstone'')
         else
           bnd (move_aliases a old_room_id (text_of new_id)) (\<lambda>stop.
           ret (case stop of Some e \<Rightarrow> e | None \<Rightarrow> Room (room_response.RoomIdResponse ''RoomUpgradeResponse'' new_id))))
     | _ \<Rightarrow> ret (upgrade_error ''Room creation failed''))"

definition Async_room_upgrade ::
  "('a, 's, 'g, 'o, 'c, 'e, 'm) async_env \<Rightarrow> (json \<Rightarrow> json \<Rightarrow> bool) \<Rightarrow> string \<Rightarrow> string \<Rightarrow> string list \<Rightarrow> string \<Rightarrow>
   jobj option \<Rightarrow> ('a, 's, 'g, 'o, 'c, 'e, any_response) async_op" where
  "Async_room_upgrade a float_ge old_room_id new_room_version copy_events message overwrite =
     logged_in
     (bnd (Async_has_event_permission a float_ge old_room_id ''m.room.tombstone'' ''state'') (\<lambda>permission.
      case permission of
        Inl e \<Rightarrow> ret (upgrade_error ''Could not determine if allowed to upgrade room'')
      | Inr False \<Rightarrow> ret (upgrade_error ''Not allowed to upgrade room'')
      | Inr True \<Rightarrow>
          bnd (Async_room_get_state a old_room_id) (\<lambda>state.
          case state of
            Room (room_response.RoomGetStateResponse events i) \<Rightarrow>
              bnd (lift_res (rbind (iterated events) (copied_state copy_events))) (\<lambda>(initial_state, levels).
              bnd (if supports_room_version_12 new_room_version
                   then bnd (upgrade_levels a levels) (\<lambda>r. ret (map_sum id (\<lambda>d. (Some d, [(''room_id'', JStr old_room_id)])) r))
                   else
                     bnd (Async_room_messages a old_room_id (Some []) None (DirEnum dir_back) 1 None) (\<lambda>last_event.
                     case last_event of
                       History (history_response.RoomMessagesResponse j (e # es) start stop) \<Rightarrow>
                         ret (Inr (case levels of None \<Rightarrow> None | Some l \<Rightarrow> object_of l,
                           [(''room_id'', JStr old_room_id), (''event_id'', e_event_id e)]))
                     | History _ \<Rightarrow> raise (IndexError ''list index out of range'')
                     | _ \<Rightarrow> ret (Inl ''Failed to get last known event''))) (\<lambda>plan.
              case plan of
                Inl m \<Rightarrow> ret (upgrade_error m)
              | Inr (override, predecessor) \<Rightarrow>
                  finish_upgrade a old_room_id message
                    \<lparr> rc_visibility = visibility_private, rc_alias = None, rc_name = None, rc_topic = None,
                      rc_room_version = Some new_room_version, rc_room_type = None, rc_federate = True,
                      rc_is_direct = False, rc_preset = None, rc_invite = [], rc_initial_state = initial_state,
                      rc_power_level_override = (case overwrite of Some d \<Rightarrow> Some d | None \<Rightarrow> override),
                      rc_predecessor = Some predecessor, rc_space = False, rc_additional_creators = None \<rparr>))
          | _ \<Rightarrow> ret (upgrade_error ''Failed to get room events''))))"

end
