(* ===== verification/Nio_Async_Facts.thy ===== *)
theory Nio_Async_Facts
  imports Nio_Transport_Facts Nio_Async_Pinned Nio_Async_Rooms Nio_Client_Sharing
begin

text \<open>
  What requests do to the client behind them. The locale \<open>client_evolution\<close> lifts a relation of the
  state changes of the client without I/O to the asynchronous client: a request moves along it
  when receiving its answer does. Its interpretations are \<open>keeps_machine\<close> (a loaded machine stays),
  \<open>keeps_groups\<close> (the outbound sessions stay) and \<open>renews\<close> (a session stays or is a fresh one).
\<close>

section \<open>Changes of the client behind the requests\<close>

definition behind ::
  "(('a, 's, 'g, 'o, 'c, 'e) client \<Rightarrow> ('a, 's, 'g, 'o, 'c, 'e) client \<Rightarrow> bool) \<Rightarrow>
   ('a, 's, 'g, 'o, 'c, 'e) async_client \<Rightarrow> ('a, 's, 'g, 'o, 'c, 'e) async_client \<Rightarrow> bool" where
  "behind R s t = R (ac_client s) (ac_client t)"

definition answers_with :: "(any_response \<Rightarrow> bool) \<Rightarrow> response_parser \<Rightarrow> bool" where
  "answers_with P parse \<longleftrightarrow> (\<forall>r x. parse r = Inr x \<longrightarrow> P x)"

fun is_key :: "any_response \<Rightarrow> bool" where
  "is_key (Key k) = True"
| "is_key (Failed e) = True"
| "is_key r = False"

lemma answers_with_body:
  "(\<And>x. P (c x)) \<Longrightarrow> (\<And>e. P (Failed e)) \<Longrightarrow> answers_with P (from_body c f)"
  unfolding answers_with_def from_body_def tagged_def rbind_Inr_iff
  by (metis (no_types, lifting) Inr_inject obj_sumE old.sum.simps(5,6))

lemma answers_key [simp]: "answers_with is_key (from_body Key f)"
  by (rule answers_with_body) simp_all

lemma attempts_answer_with:
  "answers_with P parse \<Longrightarrow> attempts cfg parse i j rs = (n, Inr x, rest) \<Longrightarrow> P x"
  using attempts_answer unfolding answers_with_def by metis

lemma settle_state: "snd (settle m s) = snd (m s)"
  by (auto simp: settle_def split: prod.splits sum.splits exn.splits)

locale client_evolution = evolution R
  for R :: "('a, 's, 'g, 'o, 'c, 'e) client \<Rightarrow> ('a, 's, 'g, 'o, 'c, 'e) client \<Rightarrow> bool"

sublocale client_evolution \<subseteq> ac: evolution "behind R"
  by unfold_locales (auto simp: behind_def intro: same chained)

context client_evolution
begin

lemma moves_on_client: "moves R m \<Longrightarrow> moves (behind R) (on_client m)"
  by (auto simp: moves_def behind_def on_client_def split: prod.splits) (metis snd_conv)

lemma moves_outside: "(\<And>s. ac_client (f s) = ac_client s) \<Longrightarrow> moves (behind R) (modify f)"
  by (rule ac.moves_modify) (simp add: behind_def same)

lemma moves_guards:
  "moves R assert_not_disposed" "moves R assert_logged_in" "moves R m \<Longrightarrow> moves R (store_loaded m)"
  unfolding assert_not_disposed_def assert_logged_in_def store_loaded_def by (intro moves_rules | assumption)+

lemma moves_logged_in: "moves (behind R) m \<Longrightarrow> moves (behind R) (logged_in m)"
  unfolding logged_in_def by (intro ac.moves_rules moves_on_client moves_guards)

lemma moves_with_store: "moves (behind R) m \<Longrightarrow> moves (behind R) (with_store m)"
  unfolding with_store_def by (intro ac.moves_rules moves_on_client moves_guards) (rule moves_rules)

lemma moves_receive:
  "moves R (receive_response env (client_view x)) \<Longrightarrow> moves (behind R) (receive env x)"
  unfolding receive_def by (intro ac.moves_rules moves_on_client)

lemma moves_send:
  assumes "answers_with P parse" "\<And>x. P x \<Longrightarrow> moves R (receive_response (ae_env a) (client_view x))"
  shows "moves (behind R) (send a parse req)"
proof -
  have out: "moves (behind R) (bnd (lift_res x) (receive (ae_env a)))"
    if "\<And>y. x = Inr y \<Longrightarrow> P y" for x :: "exn + any_response"
  proof (cases x)
    case (Inr y)
    with that assms(2) have "moves (behind R) (receive (ae_env a) y)" by (intro moves_receive) blast
    with Inr show ?thesis by (simp add: moves_def op_basic)
  qed (simp add: moves_def op_basic ac.same)
  have "behind R s (snd (send a parse req s))" for s
  proof (cases "cl_disposed (ac_client s)")
    case True
    then show ?thesis by (simp add: send_disposed ac.same)
  next
    case False
    obtain n x rest where at: "attempts (ae_config a) parse 0 0 (ac_replies s) = (n, x, rest)"
      by (cases "attempts (ae_config a) parse 0 0 (ac_replies s)") auto
    have "P y" if "x = Inr y" for y
      using attempts_answer_with[OF assms(1)] at that by blast
    from out[OF this] have "behind R u (snd (bnd (lift_res x) (receive (ae_env a)) u))" for u
      by (simp add: moves_def)
    moreover obtain u where "send a parse req s = bnd (lift_res x) (receive (ae_env a)) u" "ac_client u = ac_client s"
      by (rule that[OF send_run[OF False at]]) simp
    ultimately show ?thesis by (metis behind_def)
  qed
  then show ?thesis by (simp add: moves_def)
qed

lemma moves_call:
  assumes "answers_with P parse" "\<And>x. P x \<Longrightarrow> moves R (receive_response (ae_env a) (client_view x))"
  shows "moves (behind R) (call a parse build)"
  unfolding call_def the_client_def by (intro ac.moves_rules moves_send[OF assms])

lemma moves_settle: "moves (behind R) m \<Longrightarrow> moves (behind R) (settle m)"
  by (simp add: moves_def settle_state)

lemma moves_gather: "(\<And>m. m \<in> set ms \<Longrightarrow> moves (behind R) m) \<Longrightarrow> moves (behind R) (gather ms)"
  by (induction ms) (auto intro!: ac.moves_rules moves_settle)

end

section \<open>The machine stays\<close>

definition keeps_machine :: "('a, 's, 'g, 'o, 'c, 'e) client \<Rightarrow> ('a, 's, 'g, 'o, 'c, 'e) client \<Rightarrow> bool" where
  "keeps_machine c t \<longleftrightarrow> (has_olm c \<longrightarrow> has_olm t)"

interpretation km: client_evolution keeps_machine
  by unfold_locales (auto simp: keeps_machine_def)

lemma km_on_olm [simp]: "moves keeps_machine (on_olm m)"
  by (auto simp: moves_def keeps_machine_def on_olm_def has_olm_def split: option.splits prod.splits)

lemma km_invalidate [simp]: "moves keeps_machine (invalidate_outbound_session i)"
  unfolding invalidate_outbound_session_def by (rule km.moves_guards(3)) simp

lemma km_share [simp]: "moves keeps_machine (handle_share_response i us)"
  unfolding handle_share_response_def Let_def
  by (intro km.moves_rules km_on_olm km.moves_guards)

lemma km_olm [simp]: "moves keeps_machine (handle_olm_response env r)"
  unfolding handle_olm_response_def invalidate_for_changed_user_def
  by (cases r; simp only: olm_response.case; intro km.moves_rules km_on_olm km_invalidate)

lemma km_logout [simp]: "moves keeps_machine handle_logout"
  unfolding handle_logout_def by (rule km.moves_modify) (simp add: keeps_machine_def has_olm_def)

lemma km_received:
  assumes "is_key x"
  shows "moves keeps_machine (receive_response env (client_view x))"
proof (cases x)
  case (Key k)
  then show ?thesis
    by (cases k) (simp_all add: receive_response_def, (intro km.moves_rules km_olm km_share)+)
next
  case (Failed e)
  then show ?thesis by (simp add: receive_response_def) (intro conjI impI km.moves_rules km_logout; simp)
qed (use assms in simp_all)

section \<open>The outbound sessions stay\<close>

definition keeps_groups :: "('a, 's, 'g, 'o, 'c, 'e) client \<Rightarrow> ('a, 's, 'g, 'o, 'c, 'e) client \<Rightarrow> bool" where
  "keeps_groups c t \<longleftrightarrow> outbound_at t = outbound_at c"

interpretation kg: client_evolution keeps_groups
  by unfold_locales (auto simp: keeps_groups_def)

lemma kg_on_olm:
  assumes "moves keeps_outbound m"
  shows "moves keeps_groups (on_olm m)"
proof -
  have "outbound_at (snd (on_olm m c)) = outbound_at c" for c
  proof (cases "cl_olm c")
    case (Some s)
    have "om_outbound_group_sessions (snd (m s)) = om_outbound_group_sessions s"
      using assms by (simp add: moves_def keeps_outbound_def)
    with Some show ?thesis by (auto simp: on_olm_def outbound_at_def fun_eq_iff split: prod.splits)
  qed (simp add: on_olm_def)
  then show ?thesis by (simp add: moves_def keeps_groups_def)
qed

lemma kg_logout [simp]: "moves keeps_groups handle_logout"
  unfolding handle_logout_def by (rule kg.moves_modify) (simp add: keeps_groups_def outbound_at_def fun_eq_iff)

lemma kg_failed: "moves keeps_groups (receive_response env (client_view (Failed e)))"
  by (simp add: receive_response_def) (intro conjI impI kg.moves_rules kg_logout; simp)

fun is_claim :: "any_response \<Rightarrow> bool" where
  "is_claim (Key (key_response.KeysClaimResponse keys failures room_id)) = True"
| "is_claim (Failed e) = True"
| "is_claim r = False"

lemma kg_claim:
  assumes "is_claim x"
  shows "moves keeps_groups (receive_response env (client_view x))"
  using assms
proof (cases x rule: is_claim.cases)
  case (1 keys failures room_id)
  have "moves keeps_groups (handle_olm_response env (olm_response.KeysClaimResponse keys))"
    unfolding handle_olm_response_def olm_response.case by (intro kg.moves_rules kg_on_olm ob_response)
  then show ?thesis unfolding 1 by (simp add: receive_response_def kg.moves_rules)
qed (simp_all only: kg_failed is_claim.simps)

lemma answers_claim: "answers_with is_claim (from_body Key (KeysClaimResponse_from_dict v None))"
  unfolding answers_with_def from_body_def tagged_def KeysClaimResponse_from_dict_def verify_response_def received_def
  by (auto simp: rbind_Inr_iff split: prod.splits if_splits)

section \<open>Sessions that stay or are fresh\<close>

definition newborn :: "int \<Rightarrow> 'o outbound_group_session \<Rightarrow> bool" where
  "newborn now x \<longleftrightarrow> og_creation_time x = now \<and> og_message_count x = 0"

definition as_old :: "'o outbound_group_session \<Rightarrow> 'o outbound_group_session \<Rightarrow> bool" where
  "as_old x y \<longleftrightarrow> og_creation_time x = og_creation_time y \<and> og_message_count x = og_message_count y"

definition ages :: "int \<Rightarrow> ('a, 's, 'g, 'o, 'c, 'e) olm \<Rightarrow> ('a, 's, 'g, 'o, 'c, 'e) olm \<Rightarrow> bool" where
  "ages now s t \<longleftrightarrow> (\<forall>i x. dget (om_outbound_group_sessions t) i = Some x \<longrightarrow>
     newborn now x \<or> (\<exists>y. dget (om_outbound_group_sessions s) i = Some y \<and> as_old x y))"

definition renews :: "int \<Rightarrow> ('a, 's, 'g, 'o, 'c, 'e) client \<Rightarrow> ('a, 's, 'g, 'o, 'c, 'e) client \<Rightarrow> bool" where
  "renews now c t \<longleftrightarrow> (\<forall>i x. outbound_at t i = Some x \<longrightarrow>
     newborn now x \<or> (\<exists>y. outbound_at c i = Some y \<and> as_old x y))"

lemma as_old_newborn: "as_old x y \<Longrightarrow> newborn now y \<Longrightarrow> newborn now x"
  by (simp add: as_old_def newborn_def)

lemma newborn_young: "newborn now x \<Longrightarrow> \<not> should_rotate now x"
  by (simp add: newborn_def should_rotate_def max_messages_def max_age_def)

interpretation ag: evolution "ages now" for now
proof
  fix s t u :: "('a, 'b, 'c, 'd, 'e, 'f) olm"
  show "ages now s s" by (auto simp: ages_def as_old_def)
  show "ages now s t \<Longrightarrow> ages now t u \<Longrightarrow> ages now s u"
    unfolding ages_def as_old_def newborn_def by metis
qed

interpretation rn: client_evolution "renews now" for now
proof
  fix s t u :: "('a, 'b, 'c, 'd, 'e, 'f) client"
  show "renews now s s" by (auto simp: renews_def as_old_def)
  show "renews now s t \<Longrightarrow> renews now t u \<Longrightarrow> renews now s u"
    unfolding renews_def as_old_def newborn_def by metis
qed

lemma rn_on_olm:
  assumes "moves (ages now) m"
  shows "moves (renews now) (on_olm m)"
proof -
  have "renews now c (snd (on_olm m c))" for c
  proof (cases "cl_olm c")
    case (Some s)
    have "ages now s (snd (m s))" using assms by (simp add: moves_def)
    with Some show ?thesis by (auto simp: on_olm_def renews_def ages_def outbound_at_def split: prod.splits)
  qed (simp add: on_olm_def rn.same)
  then show ?thesis by (simp add: moves_def)
qed

lemma ag_outbound: "moves keeps_outbound m \<Longrightarrow> moves (ages now) m"
  by (auto simp: moves_def keeps_outbound_def ages_def as_old_def)

lemma ag_create: "moves (ages now) (create_outbound_group_session lib now fresh i)"
proof -
  have "moves (ages now) (set_outbound i (OutboundGroupSession now fresh))"
    by (auto simp: moves_def ages_def as_old_def newborn_def set_outbound_def OutboundGroupSession_def op_basic)
  then show ?thesis
    unfolding create_outbound_group_session_def by (intro ag.moves_rules ag_outbound[OF ob_create_group])
qed

lemma ag_item: "moves (ages now) (outbound_item i)"
  unfolding outbound_item_def by (intro ag.moves_rules)

lemma ag_ensure: "moves (ages now) (ensure_outbound lib now fresh i)"
  unfolding ensure_outbound_def by (intro ag.moves_rules ag_create ag_item)

lemma ag_ignore: "moves (ages now) (ignore_in_session i k)"
  by (auto simp: moves_def ages_def as_old_def ignore_in_session_def outbound_item_def set_outbound_def op_basic
      split: option.splits)

lemma ag_consider: "moves (ages now) (consider_device mode ign i u d plan)"
proof -
  have choose: "moves (ages now) (case mode of SkipMissing \<Rightarrow> m | IgnoreMissing \<Rightarrow> n | RaiseMissing \<Rightarrow> raise e)"
    if "moves (ages now) m" "moves (ages now) n" for m n :: "('a, 'b, 'c, 'd, 'e, 'f, share_plan) olm_op" and e
    using that by (cases mode) (simp_all add: ag.moves_basic)
  then show ?thesis
    unfolding consider_device_def Let_def
    by (intro ag.moves_rules choose ag_item ag_ignore ag_outbound[OF ob_on(2)])
qed

lemma ag_plan: "moves (ages now) (plan_sharing mode ign limit i us plan)"
proof -
  have "moves (ages now) (consider_devices mode ign limit i u ds p)" for u ds p
    by (induction ds arbitrary: p) (auto intro!: ag.moves_rules ag_consider)
  then show ?thesis
    by (induction us arbitrary: plan) (auto intro!: ag.moves_rules ag_outbound[OF ob_on(1)])
qed

lemma ag_send:
  "moves (ages now) (ignore_marked ds)" "moves (ages now) (send_chunks lib now content cs)"
proof -
  show "moves (ages now) (ignore_marked ds)"
    by (auto simp: moves_def ignore_marked_def ages_def as_old_def split: prod.splits)
  have "moves (ages now) (send_key lib now content xs r)" for xs r
    by (induction xs arbitrary: r) (auto intro!: ag.moves_rules ag_outbound[OF ob_on(2)] ag_outbound[OF ob_encrypt])
  then show "moves (ages now) (send_chunks lib now content cs)"
    by (induction cs) (auto intro!: ag.moves_rules)
qed

section \<open>Sharing a session\<close>

text \<open>A session that was missing or shared before is a fresh one when the key goes out.\<close>

lemma parallel_newborn:
  assumes run: "share_group_session_parallel lib now fresh i us ign s = (r, t)"
    and before: "\<And>y. dget (om_outbound_group_sessions s) i = Some y \<Longrightarrow> og_shared y"
    and after: "dget (om_outbound_group_sessions t) i = Some x" and ok: "r = Inr reqs"
  shows "newborn now x"
proof -
  have created: "dget (om_outbound_group_sessions u) i = Some z \<Longrightarrow> newborn now z"
    if "create_outbound_group_session lib now fresh i v = (q, u)" for v u q z
  proof -
    let ?v = "v \<lparr> om_outbound_group_sessions := dset (om_outbound_group_sessions v) i (OutboundGroupSession now fresh) \<rparr>"
    from that have "create_group_session lib (vo_curve25519 lib (oa_account (om_account v)))
        (vo_ed25519 lib (oa_account (om_account v))) i (vo_outbound_id lib fresh)
        (JStr (vo_outbound_key lib fresh)) ?v = (q, u)"
      by (simp add: create_outbound_group_session_def set_outbound_def op_basic)
    with ob_create_group have "om_outbound_group_sessions u = om_outbound_group_sessions ?v"
      unfolding moves_def keeps_outbound_def by (metis snd_conv)
    then show "dget (om_outbound_group_sessions u) i = Some z \<Longrightarrow> newborn now z"
      by (auto simp: newborn_def OutboundGroupSession_def)
  qed
  from run ok obtain session s1 session' s2 plan s3 where
    e: "ensure_outbound lib now fresh i s = (Inr session, s1)"
    and c: "(if og_shared session then andthen (create_outbound_group_session lib now fresh i) (outbound_item i)
       else ret session) s1 = (Inr session', s2)"
    and p: "plan_sharing SkipMissing ign None i us ([], []) s2 = (Inr plan, s3)"
    and rest: "andthen (ignore_marked (snd plan)) (send_chunks lib now (key_content lib i session')
        (chunks_of max_to_device_messages (fst plan))) s3 = (r, t)"
    by (auto simp: share_group_session_parallel_def bnd_Inr_iff)
  have fresh: "dget (om_outbound_group_sessions s2) i = Some z \<Longrightarrow> newborn now z" for z
  proof (cases "og_shared session")
    case True
    with c obtain u v where "create_outbound_group_session lib now fresh i s1 = (Inr v, u)" "outbound_item i u = (Inr session', s2)"
      by (auto simp: bnd_Inr_iff)
    with created show "dget (om_outbound_group_sessions s2) i = Some z \<Longrightarrow> newborn now z"
      by (auto simp: outbound_item_def op_basic split: option.splits)
  next
    case False
    with c have s2: "s2 = s1" by (simp add: ret_def)
    show "dget (om_outbound_group_sessions s2) i = Some z \<Longrightarrow> newborn now z"
    proof (cases "dget (om_outbound_group_sessions s) i")
      case None
      with e obtain v where "create_outbound_group_session lib now fresh i s = (Inr v, s1)"
        by (auto simp: ensure_outbound_def outbound_item_def op_basic split: option.splits sum.splits prod.splits)
      with created s2 show "dget (om_outbound_group_sessions s2) i = Some z \<Longrightarrow> newborn now z" by blast
    next
      case (Some w)
      with e have "session = w"
        by (auto simp: ensure_outbound_def outbound_item_def op_basic split: option.splits)
      with before[OF Some] False show ?thesis by simp
    qed
  qed
  have "ages now s2 s3" using ag_plan p unfolding moves_def by (metis snd_conv)
  moreover have "moves (ages now) (andthen (ignore_marked (snd plan)) (send_chunks lib now (key_content lib i session')
      (chunks_of max_to_device_messages (fst plan))))"
    by (intro ag.moves_rules ag_send)
  with rest have "ages now s3 t" unfolding moves_def by (metis snd_conv)
  ultimately have "ages now s2 t" by (rule ag.chained)
  with after fresh show ?thesis unfolding ages_def using as_old_newborn by metis
qed

lemma on_client_run:
  "on_client m s = (r, t) \<Longrightarrow> m (ac_client s) = (r, ac_client t) \<and> t = s \<lparr> ac_client := ac_client t \<rparr>"
  by (auto simp: on_client_def split: prod.splits)

lemma movesD: "moves R m \<Longrightarrow> m s = (r, t) \<Longrightarrow> R s t"
  unfolding moves_def by (metis snd_conv)

lemma kg_missing: "moves keeps_groups (Client_get_missing_sessions i)"
proof -
  have one: "moves keeps_outbound (missing_for_user u m)" for u m
    unfolding missing_for_user_def by (intro ob_rules ob_on)
  have "moves keeps_outbound (get_missing_sessions us)" for us
    unfolding get_missing_sessions_def by (intro ob.moves_rules one)
  then show ?thesis
    unfolding Client_get_missing_sessions_def
    by (intro kg.moves_guards kg.moves_rules kg_on_olm)
qed

lemma kg_keys_claim: "moves (behind keeps_groups) (Async_keys_claim a us)"
  unfolding Async_keys_claim_def
  by (intro kg.moves_logged_in kg.moves_with_store kg.moves_call[OF answers_claim]) (rule kg_claim)

text \<open>The acknowledgement writes nothing but the session it found, with other flags.\<close>

definition touches ::
  "string \<Rightarrow> 'o outbound_group_session \<Rightarrow> ('a, 's, 'g, 'o, 'c, 'e) client \<Rightarrow> ('a, 's, 'g, 'o, 'c, 'e) client \<Rightarrow> bool" where
  "touches i x c t \<longleftrightarrow> (\<forall>j z. outbound_at t j = Some z \<longrightarrow> outbound_at c j = Some z \<or> j = i \<and> as_old z x)"

interpretation tc: client_evolution "touches i x" for i x
  by unfold_locales (auto simp: touches_def)

lemma touches_quiet: "moves keeps_groups m \<Longrightarrow> moves (touches i x) m"
  by (auto simp: moves_def keeps_groups_def touches_def)

lemma touches_set: "as_old z x \<Longrightarrow> moves (touches i x) (on_olm (set_outbound i z))"
  by (auto simp: moves_def touches_def on_olm_def set_outbound_def outbound_at_def op_basic split: option.splits)

lemma kg_covered: "moves keeps_groups (on_olm (all_covered devices us))"
proof -
  have "moves keeps_outbound (all_covered devices us)"
    using all_covered_run[of devices us] unfolding moves_def keeps_outbound_def by (metis snd_conv)
  then show ?thesis by (rule kg_on_olm)
qed

lemma rn_share_response: "moves (renews now) (handle_share_response i us)"
proof -
  have "renews now c (snd (handle_share_response i us c))" for c :: "('a, 'b, 'c, 'd, 'e, 'f) client"
  proof (cases "outbound_at c i")
    case None
    then have "snd (handle_share_response i us c) = c"
      by (auto simp: handle_share_response_def op_basic outbound_at_def split: option.splits)
    then show ?thesis by (simp add: rn.same)
  next
    case (Some x)
    let ?y = "x \<lparr> og_users_shared_with := og_users_shared_with x \<union> us \<rparr>"
    have run: "handle_share_response i us c = (case dget (cl_rooms c) i of None \<Rightarrow> ret () | Some r \<Rightarrow>
        andthen (on_olm (set_outbound i ?y))
        (bnd (if mr_users r = [] then ret True
              else store_loaded (on_olm (all_covered (og_users_shared_with ?y \<union> og_users_ignored ?y) (dkeys (mr_users r))))) (\<lambda>b.
         if b then on_olm (set_outbound i (?y \<lparr> og_shared := True \<rparr>)) else ret ()))) c"
      using Some by (auto simp: handle_share_response_def op_basic outbound_at_def Let_def split: option.splits)
    have "moves (touches i x) (case dget (cl_rooms c) i of None \<Rightarrow> ret () | Some r \<Rightarrow>
        andthen (on_olm (set_outbound i ?y))
        (bnd (if mr_users r = [] then ret True
              else store_loaded (on_olm (all_covered (og_users_shared_with ?y \<union> og_users_ignored ?y) (dkeys (mr_users r))))) (\<lambda>b.
         if b then on_olm (set_outbound i (?y \<lparr> og_shared := True \<rparr>)) else ret ())))"
      by (intro tc.moves_rules tc.moves_guards touches_set touches_quiet[OF kg_covered]) (simp_all add: as_old_def)
    then have "touches i x c (snd (handle_share_response i us c))" unfolding moves_def run by (rule spec)
    with Some show ?thesis unfolding touches_def renews_def as_old_def by metis
  qed
  then show ?thesis by (simp add: moves_def)
qed

fun is_share :: "any_response \<Rightarrow> bool" where
  "is_share (Key (key_response.ShareGroupSessionResponse i us)) = True"
| "is_share (Failed e) = True"
| "is_share r = False"

lemma answers_share: "answers_with is_share (from_body Key (ShareGroupSessionResponse_from_dict v i us))"
  unfolding answers_with_def from_body_def tagged_def ShareGroupSessionResponse_from_dict_def verify_response_def received_def
  by (auto simp: rbind_Inr_iff split: prod.splits if_splits)

lemma rn_share_call: "moves (behind (renews now)) (share_call a i k req)"
proof -
  have quiet: "moves keeps_groups m \<Longrightarrow> moves (renews now) m" for m :: "('a, 'b, 'c, 'd, 'e, 'f, client_response) client_op"
    by (auto simp: moves_def keeps_groups_def renews_def as_old_def)
  have "moves (renews now) (receive_response (ae_env a) (client_view x))" if "is_share x" for x
    using that
  proof (cases x rule: is_share.cases)
    case (1 i us)
    then show ?thesis by (simp add: receive_response_def rn.moves_rules rn_share_response)
  qed (simp_all only: quiet[OF kg_failed] is_share.simps)
  then show ?thesis
    unfolding share_call_def by (intro rn.moves_call[OF answers_share])
qed

lemma guards_quiet:
  "logged_in m s = (Inr r, t) \<Longrightarrow> m s = (Inr r, t)" "with_store m s = (Inr r, t) \<Longrightarrow> m s = (Inr r, t)"
  by (auto simp: logged_in_def with_store_def on_client_def assert_logged_in_def assert_not_disposed_def
      store_loaded_def op_basic split: if_splits prod.splits)

lemma modify_run: "andthen (modify f) m s = m (f s)"
  by (simp add: bnd_def modify_def)

lemma reads_run: "bnd (reads f) m s = m (f s) s"
  by (simp add: bnd_def reads_def)

lemma share_steps:
  assumes "Async_share_group_session a i ign s = (Inr r, t)"
  obtains s1 missing s2 u s3 us reqs s4 rs s5 t' where "ac_client s1 = ac_client s"
    "on_client (Client_get_missing_sessions i) s1 = (Inr missing, s2)"
    "(if missing = [] then ret () else bnd (Async_keys_claim a missing) (\<lambda>_. ret ())) s2 = (Inr u, s3)"
    "on_client (on_olm (share_group_session_parallel (ev_lib (ae_env a)) (ev_now (ae_env a)) (ev_fresh_group (ae_env a)) i us ign)) s3
      = (Inr reqs, s4)"
    "gather (map (\<lambda>k. share_call a i k (reqs ! k)) [0 ..< length reqs]) s4 = (Inr rs, s5)"
    "on_client (on_olm (mark_as_shared i)) s5 = (Inr (), t')" "ac_client t = ac_client t'"
    "r = (i, acknowledged_users rs)"
proof -
  note run = guards_quiet(2)[OF guards_quiet(1)[OF assms[unfolded Async_share_group_session_def]]]
  then obtain room where room: "dget (cl_rooms (ac_client s)) i = Some room"
    by (auto simp: reads_run raise_def split: option.splits)
  with run have ok: "mr_encrypted room" "i \<notin> ac_sharing_session s"
    by (auto simp: reads_run raise_def split: if_splits)
  define s1 where "s1 = s \<lparr> ac_sharing_session := insert i (ac_sharing_session s) \<rparr>"
  note steps = run[unfolded reads_run, simplified room ok modify_run id_apply option.case if_False not_False_eq_True simp_thms,
      folded s1_def, unfolded finally_do_def]
  have "ac_client s1 = ac_client s" by (simp add: s1_def)
  with steps show thesis
    by (simp only: bnd_Inr_iff reads_run ret_def prod.inject split: prod.splits)
      (clarify, rule that, assumption+, simp_all)
qed

lemma marked_run:
  "on_olm (mark_as_shared i) c = (Inr (), d) \<Longrightarrow>
   \<exists>w. outbound_at c i = Some w \<and> outbound_at d i = Some (w \<lparr> og_shared := True \<rparr>)"
  by (auto simp: on_olm_def mark_as_shared_def outbound_item_def set_outbound_def op_basic outbound_at_def
      split: option.splits prod.splits sum.splits)

lemma share_result:
  assumes run: "Async_share_group_session a i ign s = (Inr r, t)"
  obtains x where "outbound_at (ac_client t) i = Some x" "og_shared x"
    "newborn (ev_now (ae_env a)) x \<or> (\<exists>y. outbound_at (ac_client s) i = Some y \<and> \<not> og_shared y)"
proof -
  from run obtain s1 missing s2 u s3 us reqs s4 rs s5 t' where
    start: "ac_client s1 = ac_client s"
    and m: "on_client (Client_get_missing_sessions i) s1 = (Inr missing, s2)"
    and cl: "(if missing = [] then ret () else bnd (Async_keys_claim a missing) (\<lambda>_. ret ())) s2 = (Inr u, s3)"
    and par: "on_client (on_olm (share_group_session_parallel (ev_lib (ae_env a)) (ev_now (ae_env a))
        (ev_fresh_group (ae_env a)) i us ign)) s3 = (Inr reqs, s4)"
    and ga: "gather (map (\<lambda>k. share_call a i k (reqs ! k)) [0 ..< length reqs]) s4 = (Inr rs, s5)"
    and ma: "on_client (on_olm (mark_as_shared i)) s5 = (Inr (), t')" and fin: "ac_client t = ac_client t'"
    by (rule share_steps)
  have "behind keeps_groups s1 s2" using movesD[OF kg.moves_on_client[OF kg_missing] m] .
  moreover have "moves (behind keeps_groups) (if missing = [] then ret () else bnd (Async_keys_claim a missing) (\<lambda>_. ret ()))"
    by (intro kg.ac.moves_rules kg_keys_claim)
  from movesD[OF this cl] have "behind keeps_groups s2 s3" .
  ultimately have same: "outbound_at (ac_client s3) = outbound_at (ac_client s)"
    using start by (simp add: behind_def keeps_groups_def)
  obtain o3 o4 where o3: "cl_olm (ac_client s3) = Some o3"
    and p: "share_group_session_parallel (ev_lib (ae_env a)) (ev_now (ae_env a)) (ev_fresh_group (ae_env a)) i us ign o3
      = (Inr reqs, o4)"
    and o4: "ac_client s4 = ac_client s3 \<lparr> cl_olm := Some o4 \<rparr>"
    using on_client_run[OF par] by (auto simp: on_olm_def split: option.splits prod.splits)
  have "moves (behind (renews (ev_now (ae_env a)))) (gather (map (\<lambda>k. share_call a i k (reqs ! k)) [0 ..< length reqs]))"
    by (rule rn.moves_gather) (auto simp: rn_share_call)
  from movesD[OF this ga] have aged: "renews (ev_now (ae_env a)) (ac_client s4) (ac_client s5)"
    by (simp add: behind_def)
  have "on_olm (mark_as_shared i) (ac_client s5) = (Inr (), ac_client t)"
    using conjunct1[OF on_client_run[OF ma]] fin by simp
  from marked_run[OF this] obtain w where w: "outbound_at (ac_client s5) i = Some w" "outbound_at (ac_client t) i = Some (w \<lparr> og_shared := True \<rparr>)"
    by blast
  have "newborn (ev_now (ae_env a)) w" if none: "\<nexists>y. outbound_at (ac_client s) i = Some y \<and> \<not> og_shared y"
  proof -
    have old: "og_shared y" if "dget (om_outbound_group_sessions o3) i = Some y" for y
      using that none o3 fun_cong[OF same, of i] by (auto simp: outbound_at_def)
    have born: "newborn (ev_now (ae_env a)) z" if "outbound_at (ac_client s4) i = Some z" for z
      using parallel_newborn[OF p old _ refl] that o4 by (simp add: outbound_at_def)
    from aged w(1) have "newborn (ev_now (ae_env a)) w \<or> (\<exists>y. outbound_at (ac_client s4) i = Some y \<and> as_old w y)"
      by (simp add: renews_def)
    then show ?thesis using born as_old_newborn by blast
  qed
  then have "newborn (ev_now (ae_env a)) (w \<lparr> og_shared := True \<rparr>) \<or> (\<exists>y. outbound_at (ac_client s) i = Some y \<and> \<not> og_shared y)"
    by (auto simp: newborn_def)
  with w(2) show ?thesis by (intro that) simp_all
qed

text \<open>So the loop until the session is shared comes to its end within three turns.\<close>

lemma share_decides:
  "should_share a i s \<longleftrightarrow> has_olm (ac_client s) \<and>
     (case outbound_at (ac_client s) i of None \<Rightarrow> True | Some x \<Rightarrow> should_rotate (ev_now (ae_env a)) x \<or> \<not> og_shared x)"
  by (simp add: should_share_def has_olm_def outbound_at_def should_share_group_session_def split: option.splits)

lemma sharing_turn:
  assumes "sharing_loop a i ign (Suc n) s = (Inr b, t)"
  shows "\<not> should_share a i s \<and> b \<and> t = s \<or>
    (\<exists>r u. Async_share_group_session a i ign s = (Inr r, u) \<and> sharing_loop a i ign n u = (Inr b, t))"
  using assms by (auto simp: reads_run bnd_Inr_iff ret_def raise_def split: if_splits)

lemma sharing_loop_decided:
  assumes "sharing_loop a i ign 3 s = (Inr b, t)"
  shows "b \<and> \<not> should_share a i t"
proof -
  have first: "sharing_loop a i ign (Suc 2) s = (Inr b, t)" using assms by (simp add: numeral_3_eq_3 numeral_2_eq_2)
  have finished: "b \<and> \<not> should_share a i t" if "sharing_loop a i ign (Suc n) u = (Inr b, t)" "\<not> should_share a i u" for n u
    using sharing_turn[OF that(1)] that by (auto simp: reads_run ret_def)
  from sharing_turn[OF first] show ?thesis
  proof (elim disjE exE conjE)
    fix r u
    assume one: "Async_share_group_session a i ign s = (Inr r, u)" "sharing_loop a i ign 2 u = (Inr b, t)"
    obtain x where x: "outbound_at (ac_client u) i = Some x" "og_shared x" using share_result[OF one(1)] by metis
    have second: "sharing_loop a i ign (Suc 1) u = (Inr b, t)" using one(2) by (simp add: numeral_2_eq_2)
    from sharing_turn[OF second] show ?thesis
    proof (elim disjE exE conjE)
      fix r' v
      assume two: "Async_share_group_session a i ign u = (Inr r', v)" "sharing_loop a i ign 1 v = (Inr b, t)"
      obtain y where y: "outbound_at (ac_client v) i = Some y" "og_shared y"
        "newborn (ev_now (ae_env a)) y \<or> (\<exists>z. outbound_at (ac_client u) i = Some z \<and> \<not> og_shared z)"
        by (rule share_result[OF two(1)])
      then have "\<not> should_share a i v" using x newborn_young by (auto simp: share_decides)
      with two(2) show ?thesis using finished[of 0 v] by simp
    qed simp_all
  qed simp_all
qed

text \<open>More turns change nothing once the loop has come to an end.\<close>

lemma sharing_loop_more:
  "sharing_loop a i ign n s = (r, t) \<Longrightarrow> r \<noteq> Inr False \<Longrightarrow> sharing_loop a i ign (n + k) s = (r, t)"
proof (induction n arbitrary: s)
  case (Suc n)
  show ?case
  proof (cases "should_share a i s \<and> i \<notin> ac_sharing_session s")
    case True
    then have step: "sharing_loop a i ign (Suc j) s =
        bnd (Async_share_group_session a i ign) (\<lambda>_. sharing_loop a i ign j) s" for j
      by (simp add: reads_run)
    obtain x u where x: "Async_share_group_session a i ign s = (x, u)" by (cases "Async_share_group_session a i ign s")
    show ?thesis
      using Suc.prems Suc.IH[of u] x unfolding add_Suc step by (cases x) (simp_all add: bnd_def)
  next
    case False
    then show ?thesis using Suc.prems by (cases "should_share a i s") (simp_all add: reads_run)
  qed
qed (simp add: ret_def)

section \<open>Pages\<close>

text \<open>A request that is answered takes an answer, so a walk through pages ends with the answers.\<close>

lemma receive_replies: "ac_replies (snd (receive env x s)) = ac_replies s"
proof -
  have "ac_replies (snd (on_client m s)) = ac_replies s" for m :: "('a, 'b, 'c, 'd, 'e, 'f, client_response) client_op"
    by (simp add: on_client_def split: prod.splits)
  then show ?thesis
    by (auto simp: receive_def bnd_def ret_def split: prod.splits sum.splits) (metis snd_conv)+
qed

lemma call_consumes:
  assumes "call a parse build s = (Inr x, t)"
  shows "length (ac_replies t) < length (ac_replies s)"
proof -
  have sent: "send a parse (build (ac_client s)) s = (Inr x, t)"
    using assms by (simp add: call_def the_client_def reads_run)
  then have live: "\<not> cl_disposed (ac_client s)" by (auto simp: send_disposed)
  obtain n y rest where at: "attempts (ae_config a) parse 0 0 (ac_replies s) = (n, y, rest)"
    by (cases "attempts (ae_config a) parse 0 0 (ac_replies s)") auto
  from sent send_run[OF live at, of "build (ac_client s)"] obtain z u where
    z: "y = Inr z" and u: "receive (ae_env a) z u = (Inr x, t)" "ac_replies u = rest"
    by (cases y) (auto simp: op_basic)
  with receive_replies[of "ae_env a" z u] have "ac_replies t = rest" by simp
  with attempts_used[OF at] attempts_answer[OF at[unfolded z]] show ?thesis by auto
qed

lemma relation_pages_enough:
  "length (ac_replies s) < n \<Longrightarrow> relation_pages a i e build d (n + k) start s = relation_pages a i e build d n start s"
proof (induction n arbitrary: s start)
  case (Suc n)
  let ?call = "call a (from_body History (RoomEventRelationsResponse_from_dict (checker a) i e)) (\<lambda>c. bare (build (token c) start))"
  obtain r t where c: "?call s = (r, t)" by (cases "?call s")
  have "relation_pages a i e build d (n + k) f t = relation_pages a i e build d n f t" if "r = Inr x" for f x
    using call_consumes c that Suc.prems by (intro Suc.IH) fastforce
  then show ?case
    using c by (auto simp: outcome_def bnd_def split: sum.splits any_response.splits history_response.splits)
qed simp

lemma thread_pages_enough:
  "length (ac_replies s) < n \<Longrightarrow> thread_pages a i inc l (n + k) start s = thread_pages a i inc l n start s"
proof (induction n arbitrary: s start)
  case (Suc n)
  let ?call = "call a (from_body History (RoomThreadsResponse_from_dict (checker a) i))
    (\<lambda>c. bare (Api_room_get_threads (token c) i inc start l))"
  obtain r t where c: "?call s = (r, t)" by (cases "?call s")
  have "thread_pages a i inc l (n + k) f t = thread_pages a i inc l n f t" if "r = Inr x" for f x
    using call_consumes c that Suc.prems by (intro Suc.IH) fastforce
  then show ?case
    using c by (auto simp: outcome_def bnd_def split: sum.splits any_response.splits history_response.splits)
qed simp

end
