(* ===== verification/Nio_Async_Claims.thy ===== *)
theory Nio_Async_Claims
  imports Nio_Async_Facts Nio_Client_Trust
begin

text \<open>
  The properties of the asynchronous client, and the small client their witnesses run.
\<close>

section \<open>A small client\<close>

definition sample_config :: async_config where
  "sample_config =
     \<lparr> as_user = ''@me:x'', as_homeserver = ''https://x'', as_custom_headers = None, as_max_limit_exceeded = Some 0,
       as_max_timeouts = Some 1, as_request_timeout = 60 \<rparr>"

definition sample_async_env :: "(unit, unit, unit, unit, unit, string \<times> string, string) async_env" where
  "sample_async_env = \<lparr> ae_env = sample_env, ae_config = sample_config, ae_uuid = (\<lambda>_. ''t'') \<rparr>"

definition json_reply :: "int \<Rightarrow> json \<Rightarrow> reply" where
  "json_reply status v = Reply \<lparr> hr_status = status, hr_json = Some v, hr_content_type = ''application/json'',
     hr_filename = None, hr_data = [] \<rparr>"

definition sample_async :: "sample \<Rightarrow> reply list \<Rightarrow> (unit, unit, unit, unit, unit, string \<times> string) async_client" where
  "sample_async c replies =
     \<lparr> ac_client = c, ac_presence = None, ac_sharing_session = {}, ac_pending_encrypted = None,
       ac_replies = replies, ac_sent = [] \<rparr>"

section \<open>Attempts\<close>

text \<open>C10: A request ends after a bounded number of attempts: with limits of \<open>m\<close> rate limited answers
  and \<open>k\<close> timeouts it is sent at most \<open>m + k + 1\<close> times, each time the same, and what is received
  is the answer to the last attempt; it is never left waiting.\<close>

theorem send_bounded:
  assumes "as_max_limit_exceeded (ae_config a) = Some m" "as_max_timeouts (ae_config a) = Some k"
    and "\<And>r. parse r \<noteq> Inl CancelledError" "\<not> cl_disposed (ac_client s)" "m + k < length (ac_replies s)"
  shows "\<exists>n x. 1 \<le> n \<and> n \<le> Suc (m + k) \<and> x \<noteq> Inl CancelledError \<and>
    (\<forall>y. x = Inr y \<longrightarrow> (\<exists>r. ac_replies s ! (n - 1) = Reply r \<and> parse r = Inr y)) \<and>
    send a parse req s = bnd (lift_res x) (receive (ae_env a)) (s
      \<lparr> ac_replies := drop n (ac_replies s), ac_sent := ac_sent s @ replicate n
          (request_sent (ae_config a) (cl_access_token (ac_client s)) ''application/json'' None req) \<rparr>)"
proof -
  obtain n x rest where at: "attempts (ae_config a) parse 0 0 (ac_replies s) = (n, x, rest)"
    by (cases "attempts (ae_config a) parse 0 0 (ac_replies s)") auto
  have "n \<le> Suc (m + k)" using attempts_limit[OF at _ _ assms(1,2)] by simp
  moreover from this have "x \<noteq> Inl CancelledError"
    using attempts_cancelled[of "ae_config a" parse 0 0 "ac_replies s" n rest] at assms(3,5)
    by (auto simp: never_cancels_def)
  moreover have "\<exists>r. ac_replies s ! (n - 1) = Reply r \<and> parse r = Inr y" if "x = Inr y" for y
    using attempts_answer at that by blast
  ultimately show ?thesis
    using attempts_used[OF at] send_run[OF assms(4) at, of req] by blast
qed

theorem send_bounded_witness:
  "\<exists>n x. 1 \<le> n \<and> n \<le> 2 \<and> x \<noteq> Inl CancelledError \<and>
     send sample_async_env (from_body Empty (\<lambda>v. Inl (TypeError []))) (''GET'', ''/x'', None)
       (sample_async (sample_client True) [NoConnection, NoConnection]) =
     bnd (lift_res x) (receive sample_env) ((sample_async (sample_client True) [NoConnection, NoConnection])
       \<lparr> ac_replies := drop n [NoConnection, NoConnection], ac_sent := replicate n
          (request_sent sample_config ''token'' ''application/json'' None (''GET'', ''/x'', None)) \<rparr>)"
proof -
  let ?s = "sample_async (sample_client True) [NoConnection, NoConnection]"
  have "as_max_limit_exceeded (ae_config sample_async_env) = Some 0" "as_max_timeouts (ae_config sample_async_env) = Some 1"
    "\<not> cl_disposed (ac_client ?s)" "0 + 1 < length (ac_replies ?s)"
    by (simp_all add: sample_async_env_def sample_config_def sample_async_def sample_client_def Client_def)
  moreover have "from_body Empty (\<lambda>v. Inl (TypeError [])) r \<noteq> Inl CancelledError" for r
    by (simp add: from_body_def tagged_def)
  ultimately have "\<exists>n x. 1 \<le> n \<and> n \<le> Suc (0 + 1) \<and> x \<noteq> Inl CancelledError \<and> (\<forall>y. x = Inr y \<longrightarrow> (\<exists>r. ac_replies ?s ! (n - 1) = Reply r \<and> from_body Empty (\<lambda>v. Inl (TypeError [])) r = Inr y)) \<and>
      send sample_async_env (from_body Empty (\<lambda>v. Inl (TypeError []))) (''GET'', ''/x'', None) ?s =
      bnd (lift_res x) (receive (ae_env sample_async_env)) (?s \<lparr> ac_replies := drop n (ac_replies ?s), ac_sent := ac_sent ?s @ replicate n
          (request_sent (ae_config sample_async_env) (cl_access_token (ac_client ?s)) ''application/json'' None (''GET'', ''/x'', None)) \<rparr>)"
    by (intro send_bounded)
  then show ?thesis
    by (simp add: sample_async_env_def sample_async_def sample_client_def numeral_2_eq_2) blast
qed

text \<open>C39: With an access token a request is authorized by its header alone: the token leaves the target, and the
  server reads the same path and exactly the other parameters, but for those with a blank value.\<close>

theorem token_in_header_only:
  assumes "\<exists>p\<in>set ps. p \<noteq> []" "CHR ''?'' \<notin> set base" "dwf q" "secret \<noteq> []"
    and "as_custom_headers cfg = None"
  shows "\<exists>path. sn_url (request_sent cfg secret content_type n (http_method, build_path (PathParts ps) q base, body)) =
      as_homeserver cfg @ path \<and>
    parse_target base path = (drop_last_empties ps,
      filter (\<lambda>(k, v). k \<noteq> ''access_token'' \<and> v \<noteq> []) (map (\<lambda>(k, v). (k, qtext v)) q)) \<and>
    dget (sn_headers (request_sent cfg secret content_type n (http_method, build_path (PathParts ps) q base, body)))
      ''Authorization'' = Some (''Bearer '' @ secret)"
proof -
  have "map (\<lambda>(k, v). (k, qtext v)) (tokenless q) =
      filter (\<lambda>(k, v). k \<noteq> ''access_token'' \<and> v \<noteq> []) (map (\<lambda>(k, v). (k, qtext v)) q)"
    unfolding tokenless_def by (induction q) auto
  then have "parse_target base (build_path (PathParts ps) (tokenless q) base) = (drop_last_empties ps,
      filter (\<lambda>(k, v). k \<noteq> ''access_token'' \<and> v \<noteq> []) (map (\<lambda>(k, v). (k, qtext v)) q))"
    by (simp add: parse_build_path[OF assms(1,2)])
  moreover have "dget (request_headers cfg secret content_type n) ''Authorization'' = Some (''Bearer '' @ secret)"
    using assms(4,5) by (cases n) (simp_all add: request_headers_def Let_def)
  ultimately show ?thesis
    using assms(4) by (simp add: request_sent_def without_token_path[OF assms(1-3)])
qed

theorem token_in_header_only_witness:
  "\<exists>path. sn_url (request_sent sample_config ''secret'' ''application/json'' None
        (''GET'', build_path (PathParts [''rooms'', ''!a?b:x'', ''messages''])
           [(''access_token'', QStr ''secret''), (''from'', QStr ''s&1''), (''to'', QStr [])] ''/m'', None)) =
      ''https://x'' @ path \<and>
    parse_target ''/m'' path = ([''rooms'', ''!a?b:x'', ''messages''], [(''from'', ''s&1'')])"
  using token_in_header_only[of "[''rooms'', ''!a?b:x'', ''messages'']" "''/m''"
      "[(''access_token'', QStr ''secret''), (''from'', QStr ''s&1''), (''to'', QStr [])]" "''secret''" sample_config
      "''application/json''" None "''GET''" None]
  by (simp add: sample_config_def dwf_def drop_last_empties_def) blast

section \<open>Key queries\<close>

lemma query_users_with [simp]:
  "query_users (with_query_users f s) = (if has_olm (ac_client s) then f (query_users s) else {})"
  "has_olm (ac_client (with_query_users f s)) = has_olm (ac_client s)"
  by (auto simp: query_users_def with_query_users_def has_olm_def split: option.splits)

lemma guarded_cases:
  "(\<exists>e. logged_in (with_store m) s = (Inl e, s)) \<or> logged_in (with_store m) s = m s"
  by (auto simp: logged_in_def with_store_def on_client_def assert_logged_in_def assert_not_disposed_def
      store_loaded_def op_basic)

text \<open>C4: A key query loses nobody: whoever was to be queried and was asked about is answered for or is still to be
  queried, whether the query returns, fails, or ends in an exception or a cancellation.\<close>

theorem keys_query_loses_no_user:
  assumes "u \<in> query_users s" "us = None \<or> (\<exists>w. us = Some w \<and> u \<in> w)"
  shows "case Async_keys_query a us s of (r, t) \<Rightarrow>
    u \<in> query_users t \<or> (\<exists>keys failures who. r = Inr (Key (key_response.KeysQueryResponse keys failures who)) \<and> u \<in> set (dkeys keys))"
proof -
  define users where "users = (case us of None \<Rightarrow> query_users s | Some w \<Rightarrow> w)"
  have u: "u \<in> users" using assms by (auto simp: users_def)
  let ?parse = "from_body Key (keys_query_from_dict (checker a) (Some users))"
  let ?build = "\<lambda>c. with_body (Api_keys_query (token c) (sorted_list_of_set users) None)"
  have olm: "has_olm (ac_client s)" using assms(1) by (auto simp: query_users_def has_olm_def split: option.splits)
  define s1 where "s1 = with_query_users (\<lambda>w. w - users) s"
  obtain r1 t1 where c: "call a ?parse ?build s1 = (r1, t1)" by (cases "call a ?parse ?build s1")
  have "moves (behind keeps_machine) (call a ?parse ?build)"
    by (rule km.moves_call[OF answers_key]) (rule km_received)
  from movesD[OF this c] have t1: "has_olm (ac_client t1)"
    using olm by (simp add: behind_def keeps_machine_def s1_def)
  let ?body = "bnd (reads (\<lambda>s. case us of None \<Rightarrow> query_users s | Some us \<Rightarrow> us)) (\<lambda>users.
      if users = {} \<or> [] \<in> users then raise (LocalProtocolError ''No key query required.'')
      else
        andthen (modify (with_query_users (\<lambda>w. w - users)))
        (bnd (on_exception (with_query_users (\<lambda>w. w \<union> users))
            (call a (from_body Key (keys_query_from_dict (checker a) (Some users)))
               (\<lambda>c. with_body (Api_keys_query (token c) (sorted_list_of_set users) None)))) (\<lambda>response.
         andthen (modify (with_query_users (\<lambda>w. w \<union>
           (case response of
              Key (key_response.KeysQueryResponse keys failures us) \<Rightarrow> users - set (dkeys keys)
            | _ \<Rightarrow> users))))
         (ret response))))"
  have "case ?body s of (r, t) \<Rightarrow>
    u \<in> query_users t \<or> (\<exists>keys failures who. r = Inr (Key (key_response.KeysQueryResponse keys failures who)) \<and> u \<in> set (dkeys keys))"
  proof (cases "users = {} \<or> [] \<in> users")
    case True
    then show ?thesis using assms(1) by (simp add: reads_run users_def[symmetric] raise_def)
  next
    case False
    have "?body s = bnd (on_exception (with_query_users (\<lambda>w. w \<union> users)) (call a ?parse ?build)) (\<lambda>response.
         andthen (modify (with_query_users (\<lambda>w. w \<union>
           (case response of
              Key (key_response.KeysQueryResponse keys failures us) \<Rightarrow> users - set (dkeys keys)
            | _ \<Rightarrow> users))))
         (ret response)) s1"
      unfolding reads_run users_def[symmetric] using False by (simp add: modify_run s1_def)
    then show ?thesis
      using u t1 c
      by (auto simp: on_exception_def op_basic split: sum.splits any_response.splits key_response.splits)
  qed
  moreover have "(\<exists>e. Async_keys_query a us s = (Inl e, s)) \<or> Async_keys_query a us s = ?body s"
    unfolding Async_keys_query_def by (rule guarded_cases)
  ultimately show ?thesis
    by (elim disjE exE) (simp_all only: prod.case assms(1) simp_thms)
qed

definition sample_query :: sample where
  "sample_query = (sample_client True) \<lparr> cl_olm := map_option (\<lambda>m. m \<lparr> om_users_for_key_query := {''@a:x'', ''@b:x''} \<rparr>)
     (cl_olm (sample_client True)) \<rparr>"

theorem keys_query_loses_no_user_witness:
  "''@a:x'' \<in> query_users (snd (Async_keys_query sample_async_env None (sample_async sample_query [NoConnection, NoConnection])))"
proof -
  let ?run = "Async_keys_query sample_async_env None (sample_async sample_query [NoConnection, NoConnection])"
  have "fst ?run = Inl ClientConnectionError" by code_simp
  moreover have "''@a:x'' \<in> query_users (sample_async sample_query [NoConnection, NoConnection])"
    by (simp add: query_users_def sample_async_def sample_query_def sample_client_def)
  ultimately show ?thesis
    using keys_query_loses_no_user[of "''@a:x''" "sample_async sample_query [NoConnection, NoConnection]" None sample_async_env]
    by (cases ?run) simp
qed

section \<open>Sharing the key of a room\<close>

text \<open>C40: A share of a room's key that returns leaves the session marked as shared and the room open to other
  shares, whatever the server answered: requests that failed, and devices that never got the key,
  do not count.\<close>

theorem share_marks_shared:
  assumes "Async_share_group_session a i ign s = (Inr (j, us), t)"
  shows "j = i \<and> session_shared (ac_client t) i"
proof -
  obtain x where "outbound_at (ac_client t) i = Some x" "og_shared x" by (rule share_result[OF assms])
  moreover have "j = i" using assms by (rule share_steps) simp
  ultimately show ?thesis by (simp add: session_shared_def)
qed

text \<open>Here the room is shared with nobody, and counts as shared.\<close>

theorem share_marks_shared_witness:
  "\<exists>t. Async_share_group_session sample_async_env ''!r:x'' False (sample_async (sample_client False) []) =
       (Inr (''!r:x'', {}), t) \<and> session_shared (ac_client t) ''!r:x'' \<and> \<not> session_shared (sample_client False) ''!r:x''"
proof -
  let ?run = "Async_share_group_session sample_async_env ''!r:x'' False (sample_async (sample_client False) [])"
  have "fst ?run = Inr (''!r:x'', {})" by code_simp
  then obtain t where t: "?run = (Inr (''!r:x'', {}), t)" by (cases ?run) simp
  with share_marks_shared[OF t] show ?thesis
    by (simp add: session_shared_def outbound_at_def sample_client_def sample_outbound_def)
qed

text \<open>C11: Preparing a room for a message ends: as time stands still, three turns of the loop until the session is
  shared are as good as any number, and after it the session exists, is shared and not expired.\<close>

theorem sharing_loop_ends:
  assumes "sharing_loop a i ign 3 s = (r, t)"
  shows "sharing_loop a i ign (3 + n) s = (r, t) \<and> (\<forall>b. r = Inr b \<longrightarrow> b \<and> \<not> should_share a i t)"
proof -
  have decided: "b \<and> \<not> should_share a i t" if "r = Inr b" for b
    using assms that by (auto dest: sharing_loop_decided)
  then have "r \<noteq> Inr False" by auto
  from sharing_loop_more[OF assms this] decided show ?thesis by blast
qed

theorem sharing_loop_ends_witness:
  "\<exists>t. sharing_loop sample_async_env ''!r:x'' False 8 (sample_async (sample_client False) []) = (Inr True, t) \<and>
     should_share sample_async_env ''!r:x'' (sample_async (sample_client False) []) \<and>
     \<not> should_share sample_async_env ''!r:x'' t"
proof -
  let ?run = "sharing_loop sample_async_env ''!r:x'' False 3 (sample_async (sample_client False) [])"
  have "fst ?run = Inr True" by code_simp
  then obtain t where t: "?run = (Inr True, t)" by (cases ?run) simp
  have "should_share sample_async_env ''!r:x'' (sample_async (sample_client False) [])" by code_simp
  moreover have "sharing_loop sample_async_env ''!r:x'' False (3 + 5) (sample_async (sample_client False) []) = (Inr True, t)"
    "\<not> should_share sample_async_env ''!r:x'' t"
    using sharing_loop_ends[OF t, of 5] by blast+
  ultimately show ?thesis by simp
qed

section \<open>Messages to encrypted rooms\<close>

text \<open>What is left readable of a message: a relation to another event.\<close>

definition keep_relation :: "jobj \<Rightarrow> jobj \<Rightarrow> jobj" where
  "keep_relation content encrypted =
     (case dget content ''m.relates_to'' of None \<Rightarrow> encrypted | Some r \<Rightarrow> dset encrypted ''m.relates_to'' r)"

lemma group_encrypt_run:
  assumes "group_encrypt lib now fresh i d counted s = (Inr enc, t)"
  shows "\<exists>x sender_key session_id device_id. og_shared x \<and> \<not> should_rotate now x \<and>
    enc = [(''algorithm'', JStr megolm_algorithm), (''sender_key'', sender_key),
      (''ciphertext'', JStr (fst (vo_outbound_encrypt lib (og_session x) (to_json (dset d ''room_id'' (JStr i)))))),
      (''session_id'', session_id), (''device_id'', device_id)]"
proof -
  from assms obtain x c used k n o' where run: "outbound_encrypt lib now counted (to_json (dset d ''room_id'' (JStr i))) x = Inr (c, used)"
    and enc: "enc = [(''algorithm'', JStr megolm_algorithm), (''sender_key'', k), (''ciphertext'', JStr c),
      (''session_id'', n), (''device_id'', o')]"
    unfolding group_encrypt_def bnd_Inr_iff by (auto simp: raise_def lift_res_def reads_def bnd_Inr_iff split: if_splits)
  from run have "og_shared x" "\<not> should_rotate now x"
    "c = fst (vo_outbound_encrypt lib (og_session x) (to_json (dset d ''room_id'' (JStr i))))"
    by (auto simp: outbound_encrypt_def split: if_splits prod.splits)
  with enc show ?thesis by blast
qed

lemma Client_encrypt_run:
  assumes "Client_encrypt env i ty content c = (Inr (ty', d), t)"
  shows "cl_rooms t = cl_rooms c \<and> ty' = ''m.room.encrypted'' \<and>
    (\<exists>x sender_key session_id device_id. og_shared x \<and> \<not> should_rotate (ev_now env) x \<and>
      d = keep_relation content [(''algorithm'', JStr megolm_algorithm), (''sender_key'', sender_key),
       (''ciphertext'', JStr (fst (vo_outbound_encrypt (ev_lib env) (og_session x)
          (to_json [(''content'', JObj content), (''type'', JStr ty), (''room_id'', JStr i)])))),
       (''session_id'', session_id), (''device_id'', device_id)])"
proof -
  from assms obtain enc s u where g: "group_encrypt (ev_lib env) (ev_now env) (ev_fresh_group env) i
      [(''content'', JObj content), (''type'', JStr ty)] True s = (Inr enc, u)"
    and r: "t = c \<lparr> cl_olm := Some u \<rparr>" "ty' = ''m.room.encrypted''" "d = keep_relation content enc"
    unfolding Client_encrypt_def keep_relation_def[symmetric]
    by (auto simp: Client_group_encrypt_def store_loaded_def assert_not_disposed_def bnd_Inr_iff
      on_olm_def raise_def reads_def check_or_def ret_def split: if_splits prod.splits option.splits)
  with group_encrypt_run[OF g] show ?thesis by auto
qed

lemma prepared_run:
  "has_olm (ac_client s) \<Longrightarrow> prepare_room_encryption a i ign s = (Inr True, s) \<Longrightarrow> ty \<noteq> ''m.reaction'' \<Longrightarrow>
   Client_encrypt (ae_env a) i ty content (ac_client s) = (Inr (ty', d), c) \<Longrightarrow>
   prepare_room_send a i ty content tx ign s =
     (Inr (Api_room_send (cl_access_token c) i ty' d tx), s \<lparr> ac_client := c \<rparr>)"
  by (simp add: prepare_room_send_def reads_run bnd_def reads_def on_client_def)

text \<open>C3: A message to an encrypted room leaves the client encrypted when an Olm machine is loaded and the
  message is not a reaction: then the only request that is prepared for it is an
  \<^verbatim>\<open>m.room.encrypted\<close> event, made with a shared session that is not expired, in which nothing of the
  content is readable but its relation. A reaction, and every message of a client without a machine,
  is sent in clear, content unchanged.\<close>

theorem encrypted_room_send_hides:
  assumes "prepare_room_send a i ty content tx ign s = (Inr req, t)"
    and "dget (cl_rooms (ac_client t)) i = Some room" "mr_encrypted room"
  shows "if has_olm (ac_client s) \<and> ty \<noteq> ''m.reaction'' then
      \<exists>x sender_key session_id device_id. og_shared x \<and> \<not> should_rotate (ev_now (ae_env a)) x \<and>
        req = Api_room_send (cl_access_token (ac_client t)) i ''m.room.encrypted'' (keep_relation content
          [(''algorithm'', JStr megolm_algorithm), (''sender_key'', sender_key),
           (''ciphertext'', JStr (fst (vo_outbound_encrypt (ev_lib (ae_env a)) (og_session x)
              (to_json [(''content'', JObj content), (''type'', JStr ty), (''room_id'', JStr i)])))),
           (''session_id'', session_id), (''device_id'', device_id)]) tx
    else req = Api_room_send (cl_access_token (ac_client t)) i ty content tx"
proof (cases "has_olm (ac_client s) \<and> ty \<noteq> ''m.reaction''")
  case True
  from assms(1) True obtain encrypted u ty' d where
    p: "prepare_room_encryption a i ign s = (Inr encrypted, u)"
    and e: "(if encrypted \<and> ty \<noteq> ''m.reaction'' then on_client (Client_encrypt (ae_env a) i ty content)
        else ret (ty, content)) u = (Inr (ty', d), t)"
    and req: "req = Api_room_send (cl_access_token (ac_client t)) i ty' d tx"
    by (auto simp: prepare_room_send_def reads_run bnd_Inr_iff reads_def)
  have "encrypted"
  proof (rule ccontr)
    assume "\<not> encrypted"
    with e have "u = t" by (simp add: ret_def)
    with p assms(2,3) \<open>\<not> encrypted\<close> show False
      by (auto simp: prepare_room_encryption_def bnd_Inr_iff the_client_def reads_def raise_def split: option.splits)
  qed
  with e True have "Client_encrypt (ae_env a) i ty content (ac_client u) = (Inr (ty', d), ac_client t)"
    by (auto dest: on_client_run)
  from Client_encrypt_run[OF this] req True show ?thesis by auto
next
  case False
  with assms(1) show ?thesis
    by (auto simp: prepare_room_send_def reads_run bnd_Inr_iff reads_def ret_def split: if_splits)
qed

definition sample_ready :: sample where
  "sample_ready = (sample_client True) \<lparr> cl_rooms :=
     [(''!r:x'', sample_room \<lparr> mr_encrypted := True, mr_members_synced := True \<rparr>)] \<rparr>"

theorem encrypted_room_send_hides_witness:
  "\<exists>req t sender_key session_id device_id.
     prepare_room_send sample_async_env ''!r:x'' ''m.x'' [(''b'', JInt 1)] ''t'' False (sample_async sample_ready []) = (Inr req, t) \<and>
     req = Api_room_send (cl_access_token (ac_client t)) ''!r:x'' ''m.room.encrypted''
      [(''algorithm'', JStr megolm_algorithm), (''sender_key'', sender_key),
       (''ciphertext'', JStr (to_json [(''content'', JObj [(''b'', JInt 1)]), (''type'', JStr ''m.x''), (''room_id'', JStr ''!r:x'')])),
       (''session_id'', session_id), (''device_id'', device_id)] ''t''"
proof -
  let ?run = "prepare_room_send sample_async_env ''!r:x'' ''m.x'' [(''b'', JInt 1)] ''t'' False (sample_async sample_ready [])"
  let ?s = "sample_async sample_ready []"
  have prepared: "prepare_room_encryption sample_async_env ''!r:x'' False ?s = (Inr True, ?s)"
    by (simp add: prepare_room_encryption_def the_client_def reads_run numeral_3_eq_3 should_share_def op_basic
        should_share_group_session_def should_rotate_def sample_async_def sample_ready_def sample_client_def
        sample_outbound_def sample_async_env_def sample_env_def max_messages_def max_age_def)
  have "\<exists>d c. Client_encrypt sample_env ''!r:x'' ''m.x'' [(''b'', JInt 1)] sample_ready = (Inr (''m.room.encrypted'', d), c) \<and>
      cl_rooms c = cl_rooms sample_ready"
    by (simp add: Client_encrypt_def Client_group_encrypt_def store_loaded_def assert_not_disposed_def on_olm_def
        group_encrypt_def ensure_outbound_def outbound_item_def outbound_encrypt_def set_outbound_def op_basic
        should_rotate_def sample_ready_def sample_client_def sample_outbound_def sample_env_def sample_lib_def Client_def
        has_olm_def max_messages_def max_age_def)
  then obtain d c where e: "Client_encrypt sample_env ''!r:x'' ''m.x'' [(''b'', JInt 1)] sample_ready = (Inr (''m.room.encrypted'', d), c)"
    and rooms: "cl_rooms c = cl_rooms sample_ready" by blast
  have olm: "has_olm (ac_client ?s)" by (simp add: has_olm_def sample_async_def sample_ready_def sample_client_def)
  have "Client_encrypt (ae_env sample_async_env) ''!r:x'' ''m.x'' [(''b'', JInt 1)] (ac_client ?s) = (Inr (''m.room.encrypted'', d), c)"
    using e by (simp add: sample_async_env_def sample_async_def)
  from prepared_run[OF olm prepared _ this, of "''t''"] obtain req t where
    run: "?run = (Inr req, t)" and t: "ac_client t = c" by simp
  have room: "dget (cl_rooms (ac_client t)) ''!r:x'' = Some (sample_room \<lparr> mr_encrypted := True, mr_members_synced := True \<rparr>)"
    "mr_encrypted (sample_room \<lparr> mr_encrypted := True, mr_members_synced := True \<rparr>)"
    by (simp_all add: t rooms sample_ready_def)
  from encrypted_room_send_hides[OF run room] olm run show ?thesis
    by (auto simp: keep_relation_def sample_async_env_def sample_env_def sample_lib_def)
qed

section \<open>Pinned devices\<close>

text \<open>What sends nothing but \<open>POST\<close> requests and leaves the retained ciphertext alone.\<close>

definition posts_only :: "('a, 's, 'g, 'o, 'c, 'e) async_client \<Rightarrow> ('a, 's, 'g, 'o, 'c, 'e) async_client \<Rightarrow> bool" where
  "posts_only s t \<longleftrightarrow> ac_pending_encrypted t = ac_pending_encrypted s \<and>
     (\<exists>new. ac_sent t = ac_sent s @ new \<and> filter (\<lambda>q. sn_method q = ''PUT'') new = [])"

lemma posts_quiet: "ac_pending_encrypted t = ac_pending_encrypted s \<Longrightarrow> ac_sent t = ac_sent s \<Longrightarrow> posts_only s t"
  by (simp add: posts_only_def)

lemma posts_trans: "posts_only s t \<Longrightarrow> posts_only t u \<Longrightarrow> posts_only s u"
  unfolding posts_only_def by (metis append.assoc append_Nil2 filter_append)

interpretation po: evolution posts_only
  by unfold_locales (auto intro: posts_quiet posts_trans)

lemma po_on_client: "moves posts_only (on_client m)"
  by (auto simp: moves_def on_client_def posts_quiet split: prod.splits)

lemma sent_by_send:
  assumes "send a parse req s = (r, t)"
  shows "ac_pending_encrypted t = ac_pending_encrypted s \<and>
    (\<exists>n. ac_sent t = ac_sent s @ replicate n
        (request_sent (ae_config a) (cl_access_token (ac_client s)) ''application/json'' None req) \<and>
      (case r of Inl e \<Rightarrow> True | Inr y \<Rightarrow> 0 < n))"
proof (cases "cl_disposed (ac_client s)")
  case True
  then show ?thesis using assms by (auto simp: send_disposed intro: exI[of _ 0])
next
  case False
  obtain n x rest where at: "attempts (ae_config a) parse 0 0 (ac_replies s) = (n, x, rest)"
    by (cases "attempts (ae_config a) parse 0 0 (ac_replies s)") auto
  have "0 < n" using attempts_used[OF at] by simp
  moreover have "ac_sent w = ac_sent u \<and> ac_pending_encrypted w = ac_pending_encrypted u"
    if "receive (ae_env a) y u = (z, w)" for y u z w
    using that by (auto simp: receive_def bnd_def on_client_def ret_def split: prod.splits sum.splits)
  ultimately show ?thesis
    using assms unfolding send_run[OF False at]
    by (cases x) (fastforce simp: bnd_def lift_res_def ret_def raise_def split: sum.splits prod.splits)+
qed

lemma po_send:
  assumes "fst req = ''POST''"
  shows "moves posts_only (send a parse req)"
  unfolding moves_def
proof
  fix s
  obtain r t where run: "send a parse req s = (r, t)" by (cases "send a parse req s")
  from sent_by_send[OF run] show "posts_only s (snd (send a parse req s))"
    by (auto simp: run posts_only_def request_sent_def assms filter_replicate)
qed

lemma po_call: "(\<And>c. fst (build c) = ''POST'') \<Longrightarrow> moves posts_only (call a parse build)"
  unfolding call_def the_client_def by (intro po.moves_rules po_send)

lemma po_guarded: "moves posts_only m \<Longrightarrow> moves posts_only (logged_in (with_store m))"
  unfolding logged_in_def with_store_def by (intro po.moves_rules po_on_client)

lemma po_on_exception:
  assumes "moves posts_only m" "\<And>s. posts_only s (f s)"
  shows "moves posts_only (on_exception f m)"
  unfolding moves_def
proof
  fix s
  obtain r t where run: "m s = (r, t)" by (cases "m s")
  from assms(1) have "posts_only s (snd (m s))" by (simp add: moves_def)
  with run assms(2)[of t] posts_trans[of s t "f t"] show "posts_only s (snd (on_exception f m s))"
    by (cases r) (simp_all add: on_exception_def)
qed

lemma po_keys_query: "moves posts_only (Async_keys_query a us)"
  unfolding Async_keys_query_def
  by (intro po_guarded po.moves_rules po_on_exception po_call po.moves_modify posts_quiet)
    (simp_all add: with_query_users_def with_body_def Api_keys_query_def)

lemma po_lacks: "moves posts_only (lacks_session d)"
  unfolding lacks_session_def by (intro po.moves_rules po_on_client)

lemma po_claim: "moves posts_only (claim_if_missing a d)"
proof -
  have one: "moves posts_only (Async_keys_claim a us)" for us
    unfolding Async_keys_claim_def
    by (intro po_guarded po_call) (simp add: with_body_def Api_keys_claim_def)
  have "moves posts_only (case r of Failed e \<Rightarrow> raise x | _ \<Rightarrow> ret ())" for r x
    by (cases r) (simp_all add: po.moves_basic)
  then show ?thesis unfolding claim_if_missing_def by (intro po.moves_rules po_lacks one)
qed

text \<open>The request that carries one ciphertext.\<close>

definition to_device_request ::
  "('a, 's, 'g, 'o, 'c, 'e, 'm) async_env \<Rightarrow> string \<Rightarrow> Nio_Olm.to_device_message \<Rightarrow> string \<Rightarrow> sent_request" where
  "to_device_request a tok m i =
     request_sent (ae_config a) tok ''application/json'' None
       (with_body (Api_to_device tok (tm_type m) (message_as_dict m) (str_or (Some i) (ae_uuid a 0))))"

lemma sent_to_device:
  assumes "Async_to_device a m (Some i) s = (r, t)"
  shows "ac_pending_encrypted t = ac_pending_encrypted s \<and>
    (\<exists>tok n. ac_sent t = ac_sent s @ replicate n (to_device_request a tok m i) \<and>
      (case r of Inl e \<Rightarrow> True | Inr y \<Rightarrow> 0 < n))"
proof -
  define build where "build c = with_body (Api_to_device (token c) (tm_type m) (message_as_dict m) (str_or (Some i) (ae_uuid a 0)))"
    for c :: "('a, 'b, 'c, 'd, 'e, 'f) client"
  define parse where "parse = from_body Key (ToDeviceResponse_from_dict (checker a) m)"
  consider e where "r = Inl e" "t = s" | "send a parse (build (ac_client s)) s = (r, t)"
    using assms
    by (auto simp: Async_to_device_def logged_in_def call_def the_client_def bnd_def reads_def on_client_def
        assert_logged_in_def assert_not_disposed_def op_basic build_def[abs_def] parse_def[symmetric] split: if_splits)
  then show ?thesis
  proof cases
    case 1
    then show ?thesis by (auto intro: exI[of _ 0])
  next
    case 2
    from sent_by_send[OF this] show ?thesis by (auto simp: to_device_request_def build_def)
  qed
qed

text \<open>
  The answer \<open>query\<close> to the key query shows the device: no failure is reported for the server of the
  recipient, and what the answer holds under the recipient and the device names both, carries the
  pinned signing key and the identity key of the device, and is signed with the pinned key.
\<close>

definition shown_by ::
  "('a, 's, 'g, 'o, 'm) vodozemac_olm \<Rightarrow> pinned \<Rightarrow> any_response \<Rightarrow> olm_device \<Rightarrow> bool" where
  "shown_by lib x query device \<longleftrightarrow>
     (let user = tm_recipient (pn_message x); i = tm_recipient_device (pn_message x); pin = pn_ed25519 x in
      \<exists>device_keys failures us payload keys curve body.
        query = Key (key_response.KeysQueryResponse device_keys failures us) \<and>
        contains (after (CHR '':'') user) failures = Inr False \<and>
        rbind (get_or (JObj device_keys) user (JObj [])) (\<lambda>ds. get_or ds i JNull) = Inr payload \<and>
        get_or payload ''user_id'' JNull = Inr (JStr user) \<and> get_or payload ''device_id'' JNull = Inr (JStr i) \<and>
        get_or payload ''keys'' (JObj []) = Inr keys \<and>
        get_or keys (''ed25519:'' @ i) JNull = Inr (JStr pin) \<and> device_ed25519 device = Inr pin \<and>
        get_or keys (''curve25519:'' @ i) JNull = Inr (JStr curve) \<and> device_curve25519 device = Inr curve \<and>
        verify_json lib payload (JStr pin) user i = Inr (True, body) \<and>
        \<not> od_deleted device \<and> \<not> device_blacklisted device)"

lemma resolved_device:
  assumes "resolve_pinned lib x query s = (Inr device, t)"
  shows "shown_by lib x query device"
proof -
  from assms obtain device_keys failures us payload where q: "query = Key (key_response.KeysQueryResponse device_keys failures us)"
    "contains (after (CHR '':'') (tm_recipient (pn_message x))) failures = Inr False"
    "rbind (get_or (JObj device_keys) (tm_recipient (pn_message x)) (JObj []))
       (\<lambda>ds. get_or ds (tm_recipient_device (pn_message x)) JNull) = Inr payload"
    and ok: "identity_matches lib x payload device = Inr True"
    and d: "\<not> od_deleted device" "\<not> device_blacklisted device"
    by (auto simp: resolve_pinned_def Let_def bnd_Inr_iff raise_def ret_def lift_res_def
        split: any_response.splits key_response.splits if_splits option.splits)
  from ok obtain keys curve body where
    "get_or payload ''keys'' (JObj []) = Inr keys"
    "get_or payload ''user_id'' JNull = Inr (JStr (tm_recipient (pn_message x)))"
    "get_or payload ''device_id'' JNull = Inr (JStr (tm_recipient_device (pn_message x)))"
    "get_or keys (''ed25519:'' @ tm_recipient_device (pn_message x)) JNull = Inr (JStr (pn_ed25519 x))"
    "device_ed25519 device = Inr (pn_ed25519 x)"
    "get_or keys (''curve25519:'' @ tm_recipient_device (pn_message x)) JNull = Inr (JStr curve)"
    "device_curve25519 device = Inr curve"
    "verify_json lib payload (JStr (pn_ed25519 x)) (tm_recipient (pn_message x)) (tm_recipient_device (pn_message x)) = Inr (True, body)"
    by (auto simp: identity_matches_def Let_def rbind_Inr_iff split: if_splits)
  with q d show ?thesis unfolding shown_by_def Let_def by blast
qed

text \<open>A run either stops before there is a ciphertext, or encrypts for the device it resolved and sends.\<close>

lemma quiet_step:
  assumes "bnd m f u = (r, t)" "posts_only s u" "moves posts_only m" "\<not> (posts_only s t \<and> (\<exists>e. r = Inl e))"
  obtains y w where "m u = (Inr y, w)" "posts_only s w" "f y w = (r, t)"
proof (cases "m u")
  case (Pair z w)
  have w: "posts_only s w" using posts_trans[OF assms(2) movesD[OF assms(3) Pair]] .
  with assms(1,4) Pair that show thesis by (cases z) (auto simp: bnd_def)
qed

definition deliver_pinned ::
  "('a, 's, 'g, 'o, 'c, 'e, 'm) async_env \<Rightarrow> pinned \<Rightarrow> string \<Rightarrow> olm_device \<Rightarrow> ('a, 's, 'g, 'o, 'c, 'e, any_response) async_op" where
  "deliver_pinned a x i device =
     bnd (on_exception (\<lambda>s. s \<lparr> ac_client := (ac_client s) \<lparr> cl_disposed := True \<rparr> \<rparr>)
            (on_client (on_olm (encrypt_pinned (ev_lib (ae_env a)) (ev_now (ae_env a)) x device)))) (\<lambda>encrypted.
     andthen (modify (\<lambda>s. s \<lparr> ac_pending_encrypted := Some (i, pn_fingerprint x, encrypted) \<rparr>))
     (bnd (Async_to_device a encrypted (Some i)) (\<lambda>response.
      andthen (case response of
          Failed e \<Rightarrow> ret ()
        | _ \<Rightarrow> modify (\<lambda>s. s \<lparr> ac_pending_encrypted := None \<rparr>))
      (ret response))))"

lemma delivered:
  fixes s :: "('a, 's, 'g, 'o, 'c, 'e) async_client"
  assumes run: "deliver_pinned a x i device u = (r, t)" and u: "posts_only s u"
    and going: "\<not> (posts_only s t \<and> (\<exists>e. r = Inl e))"
  shows "\<exists>(w :: ('a, 's, 'g, 'o, 'c, 'e) olm) v m new tok n.
    encrypt_pinned (ev_lib (ae_env a)) (ev_now (ae_env a)) x device w = (Inr m, v) \<and>
    ac_sent t = ac_sent s @ new \<and> filter (\<lambda>q. sn_method q = ''PUT'') new = replicate n (to_device_request a tok m i) \<and>
    (case r of Inl e \<Rightarrow> True | Inr y \<Rightarrow> 0 < n) \<and>
    ac_pending_encrypted t = (case r of Inl e \<Rightarrow> Some (i, pn_fingerprint x, m)
      | Inr (Failed e) \<Rightarrow> Some (i, pn_fingerprint x, m) | Inr y \<Rightarrow> None)"
proof -
  let ?enc = "encrypt_pinned (ev_lib (ae_env a)) (ev_now (ae_env a)) x device"
  have enc: "moves posts_only (on_exception (\<lambda>s. s \<lparr> ac_client := (ac_client s) \<lparr> cl_disposed := True \<rparr> \<rparr>) (on_client (on_olm ?enc)))"
    by (rule po_on_exception[OF po_on_client]) (simp add: posts_quiet)
  obtain m s6 where m: "on_exception (\<lambda>s. s \<lparr> ac_client := (ac_client s) \<lparr> cl_disposed := True \<rparr> \<rparr>) (on_client (on_olm ?enc)) u = (Inr m, s6)"
    and s6: "posts_only s s6"
    and rest: "bnd (Async_to_device a m (Some i)) (\<lambda>response.
      andthen (case response of Failed e \<Rightarrow> ret () | _ \<Rightarrow> modify (\<lambda>s. s \<lparr> ac_pending_encrypted := None \<rparr>))
      (ret response)) (s6 \<lparr> ac_pending_encrypted := Some (i, pn_fingerprint x, m) \<rparr>) = (r, t)"
    using run unfolding deliver_pinned_def
    by (auto elim!: quiet_step[OF _ u enc going] simp: bnd_def[of "modify _"] modify_def)
  from m have "on_client (on_olm ?enc) u = (Inr m, s6)"
    by (auto simp: on_exception_def split: prod.splits sum.splits)
  then obtain w v :: "('a, 's, 'g, 'o, 'c, 'e) olm" where "?enc w = (Inr m, v)"
    by (auto simp: on_client_def on_olm_def split: prod.splits option.splits)
  moreover obtain r' s7 where sent: "Async_to_device a m (Some i) (s6 \<lparr> ac_pending_encrypted := Some (i, pn_fingerprint x, m) \<rparr>) = (r', s7)"
    by (cases "Async_to_device a m (Some i) (s6 \<lparr> ac_pending_encrypted := Some (i, pn_fingerprint x, m) \<rparr>)")
  moreover have "r = r' \<and> t = (case r of Inl e \<Rightarrow> s7 | Inr (Failed e) \<Rightarrow> s7 | Inr y \<Rightarrow> s7 \<lparr> ac_pending_encrypted := None \<rparr>)"
    using rest sent
    by (auto simp: bnd_def ret_def modify_def split: sum.splits prod.splits any_response.splits)
  moreover from sent_to_device[OF sent] obtain tok n where
    "ac_pending_encrypted s7 = Some (i, pn_fingerprint x, m)"
    "ac_sent s7 = ac_sent s6 @ replicate n (to_device_request a tok m i)" "case r' of Inl e \<Rightarrow> True | Inr y \<Rightarrow> 0 < n" by auto
  moreover from s6 obtain new where "ac_sent s6 = ac_sent s @ new" "filter (\<lambda>q. sn_method q = ''PUT'') new = []"
    by (auto simp: posts_only_def)
  moreover have "sn_method (to_device_request a tok m i) = ''PUT''" for tok
    by (simp add: to_device_request_def request_sent_def with_body_def Api_to_device_def)
  ultimately show ?thesis
    by (intro exI[of _ w] exI[of _ v] exI[of _ m] exI[of _ "new @ replicate n (to_device_request a tok m i)"]
        exI[of _ tok] exI[of _ n]) (auto simp: filter_replicate split: sum.splits any_response.splits)
qed

lemma pinned_run:
  assumes run: "send_pinned a x i s = (r, t)" and going: "\<not> (posts_only s t \<and> (\<exists>e. r = Inl e))"
  obtains query s1 device u where "Async_keys_query a (Some {tm_recipient (pn_message x)}) s = (Inr query, s1)"
    "shown_by (ev_lib (ae_env a)) x query device" "posts_only s u" "deliver_pinned a x i device u = (r, t)"
proof -
  let ?resolve = "\<lambda>q. on_client (on_olm (resolve_pinned (ev_lib (ae_env a)) x q))"
  have res: "shown_by (ev_lib (ae_env a)) x query device" if "?resolve query u = (Inr device, w)" for query device u w
    using that by (auto simp: on_client_def on_olm_def split: prod.splits option.splits dest: resolved_device)
  show thesis
    using run unfolding send_pinned_def Let_def deliver_pinned_def[symmetric]
    apply (rule quiet_step[OF _ po.same po_keys_query going])
    apply (erule (1) quiet_step[OF _ _ po_on_client going])
    apply (erule (1) quiet_step[OF _ _ po_claim going])
    apply (erule (1) quiet_step[OF _ _ po_on_client going])
    apply (erule (1) quiet_step[OF _ _ po_lacks going])
    subgoal for query s1 d0 s2 x0 s3 device s4 missing u
      using going that[OF _ res, of query s1 s3 device s4 u] by (auto simp: raise_def split: if_splits)
    done
qed

text \<open>C12: Sending an event to a pinned device ends in one of two ways. Either it raises with no \<open>PUT\<close> request sent and the
  retained ciphertext as it was. Or the answer to this call's own key query shows the device with the pinned
  key, signed with it, and the device is neither deleted nor blocked; the event is encrypted for that
  device; every \<open>PUT\<close> sent carries exactly that ciphertext under the given transaction, at least one if an
  answer is returned; and the ciphertext is retained with its transaction and fingerprint
  unless the server has answered that it took it, exceptions and cancellations included.\<close>

theorem pinned_send:
  fixes s :: "('a, 's, 'g, 'o, 'c, 'e) async_client"
  shows "case send_pinned a x i s of (r, t) \<Rightarrow>
    \<exists>new. ac_sent t = ac_sent s @ new \<and>
     (let puts = filter (\<lambda>q. sn_method q = ''PUT'') new in
      (puts = [] \<and> ac_pending_encrypted t = ac_pending_encrypted s \<and> (\<exists>e. r = Inl e)) \<or>
      (\<exists>query s1 device (u :: ('a, 's, 'g, 'o, 'c, 'e) olm) v m tok n.
         Async_keys_query a (Some {tm_recipient (pn_message x)}) s = (Inr query, s1) \<and>
         shown_by (ev_lib (ae_env a)) x query device \<and>
         encrypt_pinned (ev_lib (ae_env a)) (ev_now (ae_env a)) x device u = (Inr m, v) \<and>
         puts = replicate n (to_device_request a tok m i) \<and> (case r of Inl e \<Rightarrow> True | Inr y \<Rightarrow> 0 < n) \<and>
         ac_pending_encrypted t = (case r of Inl e \<Rightarrow> Some (i, pn_fingerprint x, m)
           | Inr (Failed e) \<Rightarrow> Some (i, pn_fingerprint x, m) | Inr y \<Rightarrow> None)))"
proof (cases "send_pinned a x i s")
  case (Pair r t)
  show ?thesis
  proof (cases "posts_only s t \<and> (\<exists>e. r = Inl e)")
    case True
    then show ?thesis by (auto simp: Pair posts_only_def Let_def)
  next
    case False
    from pinned_run[OF Pair this] obtain query s1 device u where
      "Async_keys_query a (Some {tm_recipient (pn_message x)}) s = (Inr query, s1)"
      "shown_by (ev_lib (ae_env a)) x query device" "posts_only s u" "deliver_pinned a x i device u = (r, t)" .
    with delivered[OF this(4,3) False] show ?thesis by (simp add: Pair Let_def) blast
  qed
qed

end
