(* ===== verification/Spec2Isabelle.thy ===== *)
theory Spec2Isabelle
  imports Durable_Chain Nio_Api Nio_Room_Names Nio_Sas_Facts Nio_Other_Claims Nio_Trust Nio_Olm_Claims Nio_Olm_Verify_Facts
    Nio_Client_Errors Nio_Response_Claims Nio_Async_Claims
begin

text \<open>
  mindroom-nio is a client library for the Matrix protocol, with end-to-end encryption and with a
  \<^emph>\<open>durable\<close> sync whose observations survive a crash. This development models the code under
  \<^verbatim>\<open>src/nio/\<close> that decides: parsers, rooms, the encryption machine, device trust, verification, the
  client with its requests, and the durable store, session and recovery. Everything computes:
  the definitions are functions of the HOL library, and the witnesses evaluate them.

  \<^bold>\<open>How the parts work together.\<close> A request is a target and a body built by \<^verbatim>\<open>api.py\<close>; a method of
  \<^verbatim>\<open>client/async_client.py\<close> sends it, again if it must. The answer is checked against a JSON schema of \<^verbatim>\<open>schemas.py\<close> and becomes a response object of \<^verbatim>\<open>responses.py\<close>,
  whose events the parsers of \<^verbatim>\<open>events/\<close> read. The client of \<^verbatim>\<open>client/base_client.py\<close> takes a
  response: it hands to-device events to the encryption machine (\<^verbatim>\<open>crypto/olm_machine.py\<close>, with the
  devices of \<^verbatim>\<open>crypto/device.py\<close>, the verification sessions of \<^verbatim>\<open>crypto/sas.py\<close> and the stores of
  \<^verbatim>\<open>store/\<close>), decrypts the timelines, applies the events to its rooms (\<^verbatim>\<open>rooms.py\<close>) and drops a
  shared outbound group session whose members or devices changed. A durable client does the same
  inside one transaction of \<^verbatim>\<open>durable/store.py\<close>: the processor freezes every item into a record,
  the publication cuts the records into batches of bounded size, the application polls and
  acknowledges them one by one, and gaps of a room's timeline are closed by recovery.

  \<^bold>\<open>The base.\<close>
  \<^descr>[\<open>Nio_Prelude\<close>] Python dictionaries as association lists in insertion order; the exceptions the
  sources raise (\<open>exn\<close>); operations that thread a state and may raise, \<open>('s, 'a) op\<close>. The laws of a
  dictionary are the locale \<open>py_dict\<close>, interpreted on the association lists.
  \<^descr>[\<open>Nio_Effects\<close>] An operation that raises keeps what it wrote, as in Python. \<open>keeps P m\<close> and
  \<open>returns P m\<close> are the two judgements most invariants are proved with.
  \<^descr>[\<open>Nio_Json\<close>] JSON values as \<^verbatim>\<open>json.loads\<close> returns them, with Python's truth of a value.

  \<^bold>\<open>Requests.\<close>
  \<^descr>[\<open>Nio_Url\<close>, \<open>Nio_Print\<close>, \<open>Nio_Api\<close>] Percent encoding, the two JSON printers, and one definition
  per endpoint of \<^verbatim>\<open>class Api\<close> in \<^verbatim>\<open>api.py\<close>. A server that splits and decodes a target reads the
  path parts and parameters the builder was given.
  \<^descr>[\<open>Nio_Push\<close>] The wire form of push rule actions and conditions in \<^verbatim>\<open>events/account_data.py\<close>.

  \<^bold>\<open>Schemas, events, responses.\<close>
  \<^descr>[\<open>Nio_Schema\<close>] JSON schemas as data, what it means to conform to one, and the filling of
  defaults (\<^verbatim>\<open>extend_with_default\<close>). \<open>Nio_Schemas\<close> and \<open>Nio_Response_Schemas\<close> are the schemas of
  \<^verbatim>\<open>schemas.py\<close>, under their names there.
  \<^descr>[\<open>Nio_Events\<close>, \<open>Nio_Other_Events\<close>] The parsers of room events (\<^verbatim>\<open>events/room_events.py\<close>,
  \<^verbatim>\<open>events/misc.py\<close>) and of to-device, invite, ephemeral, presence and account data events.
  \<open>Nio_Events_Facts\<close>, \<open>Nio_Event_Claims\<close> and \<open>Nio_Other_Claims\<close>: which input parses, with which
  types (\<open>guaranteed\<close>, weaker than some annotations), that a parsed event parses again, and the holes
  of the schemas.
  \<^descr>[\<open>Nio_Sync\<close>, \<open>Nio_Responses\<close>] \<^verbatim>\<open>responses.py\<close>: the errors, the classic and the sliding sync;
  and one definition per \<^verbatim>\<open>from_dict\<close> of the other classes. \<open>Nio_Response_Claims\<close>: which of
  them answer every value of a server, and on which value the others raise.

  \<^bold>\<open>Rooms.\<close>
  \<^descr>[\<open>Nio_Levels\<close>] \<^verbatim>\<open>PowerLevels\<close> and \<^verbatim>\<open>DefaultLevels\<close>. The rules of moderation are the locale
  \<open>authority\<close>, interpreted on kicks and on bans.
  \<^descr>[\<open>Nio_Rooms\<close>, \<open>Nio_Room_Names\<close>] \<^verbatim>\<open>rooms.py\<close>: members and invitations share user objects
  through a heap; \<open>room_ok\<close> is the consistency of members, invitations and names, which every
  handler keeps and every reachable room has.

  \<^bold>\<open>Encryption.\<close>
  \<^descr>[\<open>Nio_Device\<close>, \<open>Nio_Store\<close>, \<open>Nio_Trust\<close>] Devices in memory; the tables of
  \<^verbatim>\<open>store/database.py\<close> and the session stores of \<^verbatim>\<open>crypto/memorystores.py\<close>; the trust files of
  \<^verbatim>\<open>store/file_trustdb.py\<close>, read and written as text.
  \<^descr>[\<open>Nio_Sas\<close>, \<open>Nio_Sas_Facts\<close>] Interactive verification, \<^verbatim>\<open>crypto/sas.py\<close>: its states and edges,
  when a MAC is accepted, and that an honest exchange verifies the other device.
  \<^descr>[\<open>Nio_Olm\<close>, \<open>Nio_Olm_Keys\<close>, \<open>Nio_Olm_Decrypt\<close>, \<open>Nio_Olm_Send\<close>, \<open>Nio_Olm_Verify\<close>]
  \<^verbatim>\<open>crypto/olm_machine.py\<close> in five parts: key requests; key queries, claims and uploads;
  decryption; outbound group sessions; verification and the export of room keys.
  \<^descr>[\<open>Nio_Olm_Facts\<close>, \<open>Nio_Olm_Claims\<close>, \<open>Nio_Olm_Verify_Facts\<close>] What the machine guarantees. How an
  operation may change the state is the locale \<open>evolution\<close> of reflexive and transitive relations:
  its lemmas carry a relation through sequencing, branches, loops and handlers. It is
  interpreted on \<open>quiet\<close> (nothing sent), \<open>forwards\<close> (keys sent to own verified devices only),
  \<open>pins\<close> (identity and trust of devices) and \<open>same_db\<close>.

  \<^bold>\<open>The client.\<close>
  \<^descr>[\<open>Nio_Views\<close>] The attributes of a parsed event that the handlers read.
  \<^descr>[\<open>Nio_Client\<close>, \<open>Nio_Client_Ops\<close>] \<^verbatim>\<open>client/base_client.py\<close>: login, the classic sync,
  the handling of every response, trust, encryption. A callback is an entry of the list of dispatched
  items.
  \<^descr>[\<open>Nio_Client_Outbound\<close>, \<open>Nio_Client_Facts\<close>, \<open>Nio_Client_Claims\<close>] A sync never leaves a shared
  session in a room whose members changed. The relations \<open>keeps_outbound\<close> and \<open>guards_members\<close>
  are interpretations of \<open>evolution\<close>.
  \<^descr>[\<open>Nio_Client_Timeline\<close>, \<open>Nio_Client_Sharing\<close>, \<open>Nio_Client_Trust\<close>, \<open>Nio_Client_Errors\<close>] What a
  timeline does to its room, as a specification it equals; when a session counts as shared, and
  what a change of trust drops (\<open>no_new_shared\<close>); the answers that lose events or
  the login (\<open>keeps_rooms\<close>).

  \<^bold>\<open>The asynchronous client.\<close>
  \<^descr>[\<open>Nio_Transport\<close>] \<^verbatim>\<open>_send\<close> of \<^verbatim>\<open>client/async_client.py\<close>: the attempts with their two limits, the headers and
  the access token, the response made of an answer. The server is the list of answers still to
  come; a task that waits for one that is not there is cancelled.
  \<^descr>[\<open>Nio_Async\<close>, \<open>Nio_Async_Ops\<close>, \<open>Nio_Async_Rooms\<close>, \<open>Nio_Async_Pinned\<close>] Its methods, each with its guards:
  those that make one request; registration, key queries, the sharing of room keys, encrypted sending
  and verification; pages of events, permissions, aliases and the upgrade of a room; events for one
  pinned device (\<^verbatim>\<open>crypto/to_device.py\<close>).
  \<^descr>[\<open>Nio_Transport_Facts\<close>, \<open>Nio_Async_Facts\<close>, \<open>Nio_Async_Claims\<close>] How often a request is sent, what is left of
  its target, what encrypted sending and key queries guarantee. The locale \<open>client_evolution\<close> extends
  \<open>evolution\<close>: it lifts a relation on the client to every request. It is interpreted on
  \<open>keeps_machine\<close>, \<open>keeps_groups\<close>, \<open>renews\<close> and \<open>touches\<close>; \<open>posts_only\<close> (no ciphertext leaves) is one of
  \<open>evolution\<close> itself.

  \<^bold>\<open>The durable sync.\<close>
  \<^descr>[\<open>Durable_Model\<close>] \<^verbatim>\<open>durable/model.py\<close>: records, and their carrier on disk, read back unchanged.
  \<^descr>[\<open>Durable_Store\<close>] \<^verbatim>\<open>durable/store.py\<close>: transactions that may raise or fail to begin or to commit, the
  loop state mirrored in memory, the queue of batches. The queue is the locale \<open>fifo_log\<close>, interpreted on
  the tables. Two kinds of runs are followed: \<open>run_trace\<close>, with what was published and delivered, and
  \<open>lifetime\<close>, every operation and poll: a live store answers what a reopened one answers.
  \<^descr>[\<open>Durable_Publish\<close>] \<^verbatim>\<open>_publish_records\<close> of \<^verbatim>\<open>durable/client.py\<close>, with both bounds and both errors.
  \<^descr>[\<open>Durable_Projection\<close>] \<^verbatim>\<open>durable/projection.py\<close>: a room as rows and restored from them.
  \<^descr>[\<open>Durable_Session\<close>, \<open>Durable_Membership\<close>, \<open>Durable_Processor\<close>, \<open>Durable_Tenure\<close>] Own membership,
  local joins and leaves, the processor of one response, and what a local operation does to its room.
  \<^descr>[\<open>Durable_Recovery\<close>] \<^verbatim>\<open>durable/recovery.py\<close>: boundary reconciliation and the pagination of a gap.
  \<^descr>[\<open>Durable_Chain\<close>] The inductive relation \<open>tenure_run\<close>: what a session does in a transaction, pages and
  losses included. The membership changes it publishes form a chain for every room, unless a response
  is told to suppress an event that moves the own membership (\<open>suppressed_change_unreported\<close>).

  \<^bold>\<open>Termination.\<close> Recursion is structural or ends by a measure: the halving of
  \<open>publish_split\<close> by the number of records, the schemas by their size, the text scanners by the length
  of the text. A server could keep four loops going. The turns of gap recovery
  are the steps of the inductive relation \<open>recovering\<close>, one for each answer, and
  \<open>recovery_terminates\<close> bounds their number by the limits of the configuration; \<open>send_bounded\<close> does
  so for the attempts of a request. Two loops have fuel, and it is enough: \<open>sharing_loop\<close> has three turns
  (\<open>sharing_loop_ends\<close>), and the pages of events one more than there are answers
  (\<open>relation_pages_enough\<close>, \<open>thread_pages_enough\<close>).

  \<^bold>\<open>Parameters.\<close> Code that is not part of the repository is an argument. The
  \<^verbatim>\<open>jsonschema\<close> validator is \<open>validate\<close>, and \<open>draft4\<close> states what its documentation promises.
  \<^verbatim>\<open>vodozemac\<close> is the record \<open>lib\<close> of the machine and \<open>vz\<close> of the verification; \<^verbatim>\<open>json.loads\<close> on a
  decrypted text is \<open>loads\<close>; the cache of \<^verbatim>\<open>cachetools\<close> is an argument with the law \<open>index_law\<close>. The clock,
  random draws and fresh sessions are arguments, collected for the client in \<open>environment\<close>. Each
  hypothesis on them is met by the instance of a witness.

  \<^bold>\<open>Not modelled.\<close>
  \<^item> Of \<^verbatim>\<open>client/async_client.py\<close>: the endless sync loops, the upload of streams and downloads to a file,
  the listing and the interactive deletion of devices, key files, cross signing, the times slept, and what
  other tasks do while a request waits. \<^verbatim>\<open>client/http_client.py\<close> and \<^verbatim>\<open>http.py\<close> wrap the packages
  \<^verbatim>\<open>h11\<close> and \<^verbatim>\<open>h2\<close>.
  \<^item> \<^verbatim>\<open>client/sliding_sync.py\<close>, \<^verbatim>\<open>durable/sliding.py\<close> and the handling of a sliding sync in the
  base client; its response is parsed in \<open>Nio_Sync\<close>.
  \<^item> \<^verbatim>\<open>store/models.py\<close> and the migrations of \<^verbatim>\<open>store/database.py\<close>, which are SQL of \<^verbatim>\<open>peewee\<close>; the
  pickles of \<^verbatim>\<open>crypto/sessions.py\<close>; file leases and atomic replacement of files.
  \<^item> \<^verbatim>\<open>crypto/attachments.py\<close>, \<^verbatim>\<open>crypto/key_export.py\<close> and \<^verbatim>\<open>crypto/cross_signing.py\<close>: ciphers and
  signatures of other packages around a few lines of glue.
  \<^item> \<^verbatim>\<open>durable/crypto.py\<close>, \<^verbatim>\<open>durable/outbound.py\<close>, \<^verbatim>\<open>durable/transport.py\<close>,
  \<^verbatim>\<open>durable/observations.py\<close>: threads and connections around the store.
  \<^item> The registration and the running of callbacks; the matching of push rules (\<^verbatim>\<open>fnmatch\<close>); the dates in a list of
  devices, which depend on the time zone; \<^verbatim>\<open>event_builders/\<close>, \<^verbatim>\<open>monitors.py\<close>, package glue.
\<close>

end
